(* ===== verification/Prelude.thy ===== *)
theory Prelude
  imports Main "HOL-Library.Word"
begin

text \<open>
  The vocabulary shared by the theories of the Voltha development.

  \<^item> Python exceptions as values: the type \<open>pyerr\<close>, results \<open>pyerr + 'a\<close> for code that only
    reads, and the state-and-exception type \<open>'s \<Rightarrow> (pyerr + 'a) \<times> 's\<close> for code that also
    writes (an exception does not undo the writes made before it).
  \<^item> \<^verbatim>\<open>dict\<close> and \<^verbatim>\<open>OrderedDict\<close> as association lists with the operations the
    sources use.
  \<^item> Decimal and hexadecimal numerals and \<^verbatim>\<open>str.partition\<close>, as Python strings.
  \<^item> Reachable states and the contract of an invariant.
  \<^item> The named collections of facts the component theories simplify with.
\<close>

unbundle bit_operations_syntax

named_theorems od_simps "association lists as Python dictionaries"
named_theorems res_simps "results and the state-and-exception monad"

type_synonym u32 = "32 word"
type_synonym u64 = "64 word"
type_synonym bytes = "8 word list"


section \<open>Exceptions as values\<close>

text \<open>
  \<open>StructError\<close> is \<^verbatim>\<open>struct.error\<close>, \<open>ProtocolError\<close> is
  \<^verbatim>\<open>loxi.ProtocolError\<close>.  \<open>OutOfFuel\<close> is no exception of Python: it is the value of a
  loop that the bound of its model has cut off.
\<close>

datatype pyerr =
    KeyError
  | LookupError
  | IndexError
  | ValueError
  | TypeError
  | AttributeError
  | AssertionError
  | NotImplementedError
  | RecursionError
  | MergeConflict
  | ClosedTransaction
  | InvalidStateTransition
  | OmciUninitializedFieldError
  | ProtocolError
  | StructError
  | OutOfFuel
  | OtherException

type_synonym 'a res = "pyerr + 'a"

definition rbind :: "'a res \<Rightarrow> ('a \<Rightarrow> 'b res) \<Rightarrow> 'b res" where
  "rbind r f = (case r of Inl e \<Rightarrow> Inl e | Inr x \<Rightarrow> f x)"

definition py_assert :: "bool \<Rightarrow> unit res" where
  "py_assert b = (if b then Inr () else Inl AssertionError)"

fun py_for :: "('a \<Rightarrow> 'b \<Rightarrow> 'b res) \<Rightarrow> 'a list \<Rightarrow> 'b \<Rightarrow> 'b res" where
  "py_for f [] s = Inr s"
| "py_for f (x # xs) s = (case f x s of Inl e \<Rightarrow> Inl e | Inr s' \<Rightarrow> py_for f xs s')"

fun py_map :: "('a \<Rightarrow> 'b res) \<Rightarrow> 'a list \<Rightarrow> 'b list res" where
  "py_map f [] = Inr []"
| "py_map f (x # xs) =
     (case f x of Inl e \<Rightarrow> Inl e
      | Inr y \<Rightarrow> (case py_map f xs of Inl e \<Rightarrow> Inl e | Inr ys \<Rightarrow> Inr (y # ys)))"

lemma rbind_simps [simp, res_simps]:
  "rbind (Inl e) f = Inl e"
  "rbind (Inr x) f = f x"
  by (simp_all add: rbind_def)

lemma rbind_eq_Inr [res_simps]: "rbind r f = Inr y \<longleftrightarrow> (\<exists>x. r = Inr x \<and> f x = Inr y)"
  by (cases r) auto

lemma rbind_cong [fundef_cong]:
  "r = r' \<Longrightarrow> (\<And>x. r' = Inr x \<Longrightarrow> f x = g x) \<Longrightarrow> rbind r f = rbind r' g"
  by (cases r') auto

lemma py_assert_Inr [simp, res_simps]: "py_assert b = Inr u \<longleftrightarrow> b"
  by (simp add: py_assert_def)

lemma py_assert_simps [simp]:
  "py_assert True = Inr ()" "py_assert False = Inl AssertionError"
  by (simp_all add: py_assert_def)

lemma py_for_Cons_Inr [res_simps]:
  "py_for f (x # xs) s = Inr t \<longleftrightarrow> (\<exists>s'. f x s = Inr s' \<and> py_for f xs s' = Inr t)"
  by (auto split: sum.splits)

lemma py_for_append:
  "py_for f (xs @ ys) s = rbind (py_for f xs s) (py_for f ys)"
  by (induction xs arbitrary: s) (auto split: sum.splits)

lemma py_for_invariant:
  assumes "py_for f xs s = Inr t" and "P s"
    and "\<And>x s s'. x \<in> set xs \<Longrightarrow> P s \<Longrightarrow> f x s = Inr s' \<Longrightarrow> P s'"
  shows "P t"
  using assms
proof (induction xs arbitrary: s)
  case Nil
  then show ?case by simp
next
  case (Cons x xs)
  then obtain s' where s': "f x s = Inr s'" and rest: "py_for f xs s' = Inr t"
    by (auto split: sum.splits)
  have "P s'" using Cons.prems s' by auto
  then show ?case using Cons.IH [OF rest] Cons.prems(3) by auto
qed

lemma py_for_total:
  assumes "I s" and "\<And>x s. x \<in> set xs \<Longrightarrow> I s \<Longrightarrow> \<exists>s'. f x s = Inr s' \<and> I s'"
  shows "\<exists>t. py_for f xs s = Inr t \<and> I t"
  using assms
proof (induction xs arbitrary: s)
  case Nil
  then show ?case by simp
next
  case (Cons x xs)
  from Cons.prems(1) Cons.prems(2) [of x s] obtain s' where s': "f x s = Inr s'" "I s'" by auto
  with Cons.IH [of s'] Cons.prems(2) show ?case by auto
qed

lemma py_map_length: "py_map f xs = Inr ys \<Longrightarrow> length ys = length xs"
  by (induction xs arbitrary: ys) (auto split: sum.splits)

lemma py_map_total: "(\<And>x. x \<in> set xs \<Longrightarrow> f x = Inr (g x)) \<Longrightarrow> py_map f xs = Inr (map g xs)"
  by (induction xs) auto


section \<open>State and exceptions\<close>

type_synonym ('s, 'a) st = "'s \<Rightarrow> 'a res \<times> 's"

definition st_ret :: "'a \<Rightarrow> ('s, 'a) st" where
  "st_ret x = (\<lambda>s. (Inr x, s))"

definition st_raise :: "pyerr \<Rightarrow> ('s, 'a) st" where
  "st_raise e = (\<lambda>s. (Inl e, s))"

definition st_bind :: "('s, 'a) st \<Rightarrow> ('a \<Rightarrow> ('s, 'b) st) \<Rightarrow> ('s, 'b) st" where
  "st_bind m f = (\<lambda>s. case m s of (Inl e, s') \<Rightarrow> (Inl e, s') | (Inr x, s') \<Rightarrow> f x s')"

definition st_modify :: "('s \<Rightarrow> 's) \<Rightarrow> ('s, unit) st" where
  "st_modify f = (\<lambda>s. (Inr (), f s))"

definition st_res :: "('s \<Rightarrow> 'a res) \<Rightarrow> ('s, 'a) st" where
  "st_res f = (\<lambda>s. (f s, s))"

fun st_map :: "('a \<Rightarrow> ('s, 'b) st) \<Rightarrow> 'a list \<Rightarrow> ('s, 'b list) st" where
  "st_map f [] = st_ret []"
| "st_map f (x # xs) = st_bind (f x) (\<lambda>y. st_bind (st_map f xs) (\<lambda>ys. st_ret (y # ys)))"

fun st_for :: "('a \<Rightarrow> 'b \<Rightarrow> ('s, 'b) st) \<Rightarrow> 'a list \<Rightarrow> 'b \<Rightarrow> ('s, 'b) st" where
  "st_for f [] b = st_ret b"
| "st_for f (x # xs) b = st_bind (f x b) (st_for f xs)"

lemma st_simps [simp, res_simps]:
  "st_ret x s = (Inr x, s)"
  "st_raise e s = (Inl e, s)"
  "st_modify g s = (Inr (), g s)"
  "st_res h s = (h s, s)"
  by (simp_all add: st_ret_def st_raise_def st_modify_def st_res_def)

lemma st_bind_Inr [res_simps]:
  "st_bind m f s = (Inr y, t) \<longleftrightarrow> (\<exists>x s'. m s = (Inr x, s') \<and> f x s' = (Inr y, t))"
  by (auto simp: st_bind_def split: prod.splits sum.splits)

lemma st_bind_eval:
  "m s = (Inr x, s') \<Longrightarrow> st_bind m f s = f x s'"
  "m s = (Inl e, s') \<Longrightarrow> st_bind m f s = (Inl e, s')"
  by (simp_all add: st_bind_def)


section \<open>Dictionaries as association lists\<close>

text \<open>
  \<^verbatim>\<open>d[k] = v\<close> overwrites the value in place when the key is present and appends the
  entry otherwise, as \<^verbatim>\<open>OrderedDict\<close> does; \<^verbatim>\<open>del d[k]\<close> drops the entry.
\<close>

type_synonym ('k, 'v) od = "('k \<times> 'v) list"

fun od_set :: "'k \<Rightarrow> 'v \<Rightarrow> ('k, 'v) od \<Rightarrow> ('k, 'v) od" where
  "od_set k v [] = [(k, v)]"
| "od_set k v ((k', v') # d) = (if k' = k then (k, v) # d else (k', v') # od_set k v d)"

definition od_del :: "'k \<Rightarrow> ('k, 'v) od \<Rightarrow> ('k, 'v) od" where
  "od_del k d = filter (\<lambda>(k', v). k' \<noteq> k) d"

definition od_get :: "'k \<Rightarrow> ('k, 'v) od \<Rightarrow> 'v option" where
  "od_get k d = map_of d k"

definition od_keys :: "('k, 'v) od \<Rightarrow> 'k list" where
  "od_keys d = map fst d"

definition od_values :: "('k, 'v) od \<Rightarrow> 'v list" where
  "od_values d = map snd d"

fun od_of :: "('k \<times> 'v) list \<Rightarrow> ('k, 'v) od \<Rightarrow> ('k, 'v) od" where
  "od_of [] d = d"
| "od_of ((k, v) # kvs) d = od_of kvs (od_set k v d)"

definition od_setdefault :: "'k \<Rightarrow> 'v \<Rightarrow> ('k, 'v) od \<Rightarrow> ('k, 'v) od" where
  "od_setdefault k v d = (if od_get k d = None then od_set k v d else d)"

text \<open>\<^verbatim>\<open>d[k]\<close>\<close>

definition dict_lookup :: "'k \<Rightarrow> ('k, 'v) od \<Rightarrow> 'v res" where
  "dict_lookup k d = (case od_get k d of None \<Rightarrow> Inl KeyError | Some v \<Rightarrow> Inr v)"

definition od_wf :: "('k, 'v) od \<Rightarrow> bool" where
  "od_wf d \<longleftrightarrow> distinct (map fst d)"

lemma od_get_simps [simp, od_simps]:
  "od_get k [] = None"
  "od_get k ((k', v) # d) = (if k' = k then Some v else od_get k d)"
  by (auto simp: od_get_def)

lemma od_get_None [od_simps]: "od_get k d = None \<longleftrightarrow> k \<notin> fst ` set d"
  by (simp add: od_get_def map_of_eq_None_iff)

lemma od_get_set [simp, od_simps]:
  "od_get k (od_set k' v d) = (if k = k' then Some v else od_get k d)"
  by (induction d) auto

lemma fst_set_od_set [simp, od_simps]: "fst ` set (od_set k v d) = insert k (fst ` set d)"
  by (induction k v d rule: od_set.induct) (simp_all add: insert_commute)

lemma set_od_set: "x \<in> set (od_set k v d) \<Longrightarrow> x = (k, v) \<or> x \<in> set d"
  by (induction d) (auto split: if_splits)

lemma od_wf_set [simp, od_simps]: "od_wf d \<Longrightarrow> od_wf (od_set k v d)"
proof (induction d)
  case Nil
  then show ?case by (simp add: od_wf_def)
next
  case (Cons kv d)
  obtain k' v' where [simp]: "kv = (k', v')" by (cases kv)
  from Cons.prems have "od_wf d" and "k' \<notin> fst ` set d" by (auto simp: od_wf_def)
  with Cons.IH show ?case by (auto simp: od_wf_def)
qed

lemma od_wf_Nil [simp, od_simps]: "od_wf []"
  by (simp add: od_wf_def)

lemma od_wf_of [simp, od_simps]: "od_wf d \<Longrightarrow> od_wf (od_of kvs d)"
  by (induction kvs d rule: od_of.induct) auto

lemma fst_set_od_of [simp, od_simps]: "fst ` set (od_of kvs d) = fst ` set kvs \<union> fst ` set d"
  by (induction kvs d rule: od_of.induct) auto

lemma od_del_set: "od_get k d = None \<Longrightarrow> od_del k (od_set k v d) = d"
  by (induction d) (auto simp: od_get_def od_del_def map_of_eq_None_iff image_iff split: if_splits)

lemma od_wf_del [simp, od_simps]: "od_wf d \<Longrightarrow> od_wf (od_del k d)"
  by (induction d) (auto simp: od_wf_def od_del_def)

lemma od_get_del [simp, od_simps]:
  "od_get k (od_del k' d) = (if k = k' then None else od_get k d)"
  by (induction d) (auto simp: od_del_def)

lemma od_get_in [od_simps]: "od_wf d \<Longrightarrow> od_get k d = Some v \<longleftrightarrow> (k, v) \<in> set d"
  by (simp add: od_wf_def od_get_def)

lemma od_get_mem: "od_get k d = Some v \<Longrightarrow> (k, v) \<in> set d"
  by (simp add: od_get_def map_of_SomeD)

lemma od_get_setdefault [simp, od_simps]:
  "od_get k (od_setdefault k' v d) =
     (if k = k' then Some (case od_get k' d of None \<Rightarrow> v | Some w \<Rightarrow> w) else od_get k d)"
  by (auto simp: od_setdefault_def split: option.splits)

lemma od_wf_setdefault [simp, od_simps]: "od_wf d \<Longrightarrow> od_wf (od_setdefault k v d)"
  by (simp add: od_setdefault_def)

lemma od_set_distinct_append:
  "k \<notin> fst ` set d \<Longrightarrow> od_set k v d = d @ [(k, v)]"
  by (induction d) auto

lemma od_of_distinct:
  "distinct (map fst kvs) \<Longrightarrow> fst ` set kvs \<inter> fst ` set d = {} \<Longrightarrow> od_of kvs d = d @ kvs"
proof (induction kvs d rule: od_of.induct)
  case (1 d)
  then show ?case by simp
next
  case (2 k v kvs d)
  then have "k \<notin> fst ` set d" by auto
  with 2 show ?case by (auto simp: od_set_distinct_append)
qed

lemma od_get_of:
  "od_get k (od_of kvs d) =
     (case map_of (rev kvs) k of Some v \<Rightarrow> Some v | None \<Rightarrow> od_get k d)"
  by (induction kvs d rule: od_of.induct) (auto simp: map_add_def split: option.splits)


section \<open>Numerals and strings\<close>

definition digit_char :: "nat \<Rightarrow> char" where
  "digit_char d = char_of (if d < 10 then d + 48 else d + 87)"

fun str_nat :: "nat \<Rightarrow> string" where
  "str_nat n = (if n < 10 then [digit_char n] else str_nat (n div 10) @ [digit_char (n mod 10)])"

declare str_nat.simps [simp del]

definition is_digit :: "char \<Rightarrow> bool" where
  "is_digit c \<longleftrightarrow> 48 \<le> (of_char c :: nat) \<and> (of_char c :: nat) < 58"

definition digit_val :: "char \<Rightarrow> nat" where
  "digit_val c = of_char c - 48"

definition hex_val :: "char \<Rightarrow> nat" where
  "hex_val c = (let n = of_char c in if n < 58 then n - 48 else n - 87)"

definition is_hex :: "char \<Rightarrow> bool" where
  "is_hex c \<longleftrightarrow> is_digit c \<or> 97 \<le> (of_char c :: nat) \<and> (of_char c :: nat) < 103"

definition hex_int :: "string \<Rightarrow> nat" where
  "hex_int s = foldl (\<lambda>n c. 16 * n + hex_val c) 0 s"

definition dec_int :: "string \<Rightarrow> nat" where
  "dec_int s = foldl (\<lambda>n c. 10 * n + digit_val c) 0 s"

definition is_int_literal :: "string \<Rightarrow> bool" where
  "is_int_literal s \<longleftrightarrow> s \<noteq> [] \<and> list_all is_digit s"

text \<open>\<^verbatim>\<open>int(s)\<close>: white space around, a sign, and decimal digits.\<close>

definition strip_spaces :: "string \<Rightarrow> string" where
  "strip_spaces s =
     (let sp = (\<lambda>c. c = CHR '' '' \<or> of_char c \<in> {9::nat, 10, 11, 12, 13})
      in rev (dropWhile sp (rev (dropWhile sp s))))"

definition py_int :: "string \<Rightarrow> int res" where
  "py_int str =
     (let s = strip_spaces str;
          neg = (s \<noteq> [] \<and> hd s = CHR ''-'');
          digits = (if s \<noteq> [] \<and> (hd s = CHR ''-'' \<or> hd s = CHR ''+'') then tl s else s)
      in if is_int_literal digits
         then Inr (if neg then - int (dec_int digits) else int (dec_int digits))
         else Inl ValueError)"

text \<open>\<^verbatim>\<open>head, sep, tail = s.partition(c)\<close>: the model returns head and tail.\<close>

fun partition_at :: "char \<Rightarrow> string \<Rightarrow> string \<times> string" where
  "partition_at c [] = ([], [])"
| "partition_at c (x # xs) =
     (if x = c then ([], xs) else (let (h, t) = partition_at c xs in (x # h, t)))"

lemma digit_char_digit: "d < 10 \<Longrightarrow> is_digit (digit_char d)"
  by (simp add: digit_char_def is_digit_def)

lemma digit_val_char: "d < 10 \<Longrightarrow> digit_val (digit_char d) = d"
  by (simp add: digit_char_def digit_val_def)

lemma str_nat_digits: "list_all is_digit (str_nat n)"
proof (induction n rule: str_nat.induct)
  case (1 n)
  show ?case
    by (cases "n < 10") (use 1 in \<open>auto simp: str_nat.simps [of n] digit_char_digit\<close>)
qed

lemma str_nat_nonempty [simp]: "str_nat n \<noteq> []"
  by (subst str_nat.simps) simp

lemma dec_int_snoc: "dec_int (s @ [c]) = 10 * dec_int s + digit_val c"
  by (simp add: dec_int_def)

text \<open>\<^verbatim>\<open>int(str(n)) == n\<close>: what makes path components usable as keys.\<close>

lemma dec_int_str_nat [simp]: "dec_int (str_nat n) = n"
proof (induction n rule: str_nat.induct)
  case (1 n)
  show ?case
  proof (cases "n < 10")
    case True
    then show ?thesis
      by (simp add: str_nat.simps [of n] digit_val_char dec_int_def)
  next
    case False
    then show ?thesis
      using 1 by (simp add: str_nat.simps [of n] dec_int_snoc digit_val_char)
  qed
qed

text \<open>
  For evaluation by rewriting: the decimal digits of a binary numeral, least significant first, by
  doubling; and the value of a hexadecimal text as an integer.
\<close>

fun double_digits :: "nat \<Rightarrow> nat list \<Rightarrow> nat list" where
  "double_digits c [] = (if c = 0 then [] else [c])"
| "double_digits c (d # ds) =
     (if d + d + c < 10 then (d + d + c) # double_digits 0 ds
      else (d + d + c - 10) # double_digits 1 ds)"

primrec num_digits :: "num \<Rightarrow> nat list" where
  "num_digits num.One = [1]"
| "num_digits (num.Bit0 n) = double_digits 0 (num_digits n)"
| "num_digits (num.Bit1 n) = double_digits 1 (num_digits n)"

definition digits_value :: "nat list \<Rightarrow> nat" where
  "digits_value ds = foldr (\<lambda>d v. d + 10 * v) ds 0"

definition decimal_digits :: "nat list \<Rightarrow> bool" where
  "decimal_digits ds \<longleftrightarrow> ds \<noteq> [] \<and> (\<forall>d \<in> set ds. d < 10) \<and> last ds \<noteq> 0"

lemma double_digits_value: "digits_value (double_digits c ds) = 2 * digits_value ds + c"
  by (induction c ds rule: double_digits.induct) (auto simp: digits_value_def)

lemma double_digits_set:
  "c \<le> 1 \<Longrightarrow> \<forall>d \<in> set ds. d < 10 \<Longrightarrow> \<forall>d \<in> set (double_digits c ds). d < 10"
proof (induction ds arbitrary: c)
  case (Cons d ds)
  have "\<forall>x \<in> set (double_digits 0 ds). x < 10" "\<forall>x \<in> set (double_digits 1 ds). x < 10"
    by (rule Cons.IH; use Cons.prems(2) in force)+
  moreover have "d < 10" using Cons.prems(2) by simp
  with Cons.prems(1) have "d + d + c - 10 < 10" by linarith
  ultimately show ?case by simp
qed simp

lemma double_digits_last:
  "ds \<noteq> [] \<Longrightarrow> last ds \<noteq> 0 \<Longrightarrow> double_digits c ds \<noteq> [] \<and> last (double_digits c ds) \<noteq> 0"
proof (induction c ds rule: double_digits.induct)
  case (2 c d ds)
  then show ?case by (cases "ds = []") auto
qed auto

lemma double_digits_decimal: "c \<le> 1 \<Longrightarrow> decimal_digits ds \<Longrightarrow> decimal_digits (double_digits c ds)"
  using double_digits_set [of c ds] double_digits_last [of ds c] by (simp add: decimal_digits_def)

lemma num_digits_decimal: "decimal_digits (num_digits n)"
  by (induction n) (simp_all add: double_digits_decimal, simp add: decimal_digits_def)

lemma num_digits_value: "digits_value (num_digits n) = numeral n"
proof (induction n)
  case One
  then show ?case by (simp add: digits_value_def)
next
  case (Bit0 n)
  then show ?case by (simp add: double_digits_value numeral_Bit0)
next
  case (Bit1 n)
  then show ?case by (simp add: double_digits_value numeral_Bit1)
qed

lemma str_nat_digits_value:
  "decimal_digits ds \<Longrightarrow> digits_value ds > 0 \<and> str_nat (digits_value ds) = map digit_char (rev ds)"
proof (induction ds)
  case Nil
  then show ?case by (simp add: decimal_digits_def)
next
  case (Cons d ds)
  show ?case
  proof (cases "ds = []")
    case True
    with Cons.prems show ?thesis
      by (simp add: decimal_digits_def digits_value_def str_nat.simps [of d])
  next
    case False
    with Cons.prems have d: "d < 10" and ds: "decimal_digits ds" by (auto simp: decimal_digits_def)
    have "digits_value (d # ds) = d + 10 * digits_value ds" by (simp add: digits_value_def)
    with d Cons.IH [OF ds] show ?thesis
      by (simp add: str_nat.simps [of "d + 10 * digits_value ds"])
  qed
qed

definition str_int :: "int \<Rightarrow> string" where
  "str_int k = str_nat (nat k)"

lemma str_int_code [code]:
  "str_int 0 = [digit_char 0]"
  "str_int (Int.Pos n) = map digit_char (rev (num_digits n))"
  "str_int (Int.Neg n) = [digit_char 0]"
  using str_nat_digits_value [OF num_digits_decimal, of n]
  by (simp_all add: str_int_def str_nat.simps [of 0] num_digits_value)

lemma str_nat_unat [code_unfold]: "str_nat (Word.the_nat w) = str_int (uint w)"
  by (simp add: str_int_def Word.the_nat_def)

definition hex_integer :: "string \<Rightarrow> int" where
  "hex_integer s = foldl (\<lambda>n c. 16 * n + int (hex_val c)) 0 s"

lemma of_nat_hex_int: "(of_nat (hex_int s) :: 'a::len word) = word_of_int (hex_integer s)"
proof -
  have "int (hex_int s) = hex_integer s"
    by (induction s rule: rev_induct) (simp_all add: hex_int_def hex_integer_def)
  then show ?thesis by (simp flip: \<open>int (hex_int s) = hex_integer s\<close>)
qed

lemma str_nat_inject [simp]: "str_nat m = str_nat n \<longleftrightarrow> m = n"
  by (metis dec_int_str_nat)

lemma str_nat_int_literal: "is_int_literal (str_nat n)"
  by (simp add: is_int_literal_def str_nat_digits)

lemma hex_int_snoc: "hex_int (s @ [c]) = 16 * hex_int s + hex_val c"
  by (simp add: hex_int_def)

lemma hex_val_bound: "is_hex c \<Longrightarrow> hex_val c < 16"
  by (auto simp: is_hex_def is_digit_def hex_val_def Let_def)

lemma hex_int_bound: "list_all is_hex s \<Longrightarrow> hex_int s < 16 ^ length s"
proof (induction s rule: rev_induct)
  case Nil
  then show ?case by (simp add: hex_int_def)
next
  case (snoc c s)
  then have "hex_int s < 16 ^ length s" and "hex_val c < 16"
    by (auto intro: hex_val_bound)
  then show ?case by (simp add: hex_int_snoc)
qed

lemma partition_at_length: "s \<noteq> [] \<Longrightarrow> length (snd (partition_at c s)) < length s"
proof (induction s)
  case Nil
  then show ?case by simp
next
  case (Cons x s)
  then show ?case by (cases "s = []") (auto split: prod.splits)
qed

lemma partition_at_append:
  "c \<notin> set h \<Longrightarrow> partition_at c (h @ c # t) = (h, t)"
  by (induction h) auto

lemma partition_at_none: "c \<notin> set h \<Longrightarrow> partition_at c h = (h, [])"
  by (induction h) auto

lemma partition_at_inj:
  fixes c :: char
  assumes "c \<notin> set h" and "c \<notin> set h'" and "h @ c # t = h' @ c # t'"
  shows "h = h' \<and> t = t'"
proof -
  from assms(3) have "partition_at c (h @ c # t) = partition_at c (h' @ c # t')" by simp
  with assms(1,2) show ?thesis by (simp add: partition_at_append)
qed


section \<open>Reachable states\<close>

inductive reachable :: "('s \<Rightarrow> bool) \<Rightarrow> ('s \<Rightarrow> 's \<Rightarrow> bool) \<Rightarrow> 's \<Rightarrow> bool"
    for init :: "'s \<Rightarrow> bool" and step :: "'s \<Rightarrow> 's \<Rightarrow> bool" where
  reach_init: "init s \<Longrightarrow> reachable init step s"
| reach_step: "reachable init step s \<Longrightarrow> step s t \<Longrightarrow> reachable init step t"

text \<open>
  The contract of an invariant: it holds at first and every step keeps it.  The theories of the
  components with a step relation interpret it.
\<close>

locale step_invariant =
  fixes init :: "'s \<Rightarrow> bool"
    and step :: "'s \<Rightarrow> 's \<Rightarrow> bool"
    and inv :: "'s \<Rightarrow> bool"
  assumes inv_init: "init s \<Longrightarrow> inv s"
    and inv_step: "step s t \<Longrightarrow> inv s \<Longrightarrow> inv t"
begin

lemma reachable_inv: "reachable init step s \<Longrightarrow> inv s"
  by (induction rule: reachable.induct) (auto intro: inv_init inv_step)

lemma steps_inv: "step\<^sup>*\<^sup>* s t \<Longrightarrow> inv s \<Longrightarrow> inv t"
  by (induction rule: rtranclp_induct) (auto intro: inv_step)

end

end
