(* ===== verification/OpenFlow.thy ===== *)
theory OpenFlow
  imports Prelude
begin

text \<open>
  The OpenFlow 1.3 messages of \<^verbatim>\<open>voltha/protos/openflow_13.proto\<close> that the core handles and
  the module-level functions of \<^verbatim>\<open>voltha/core/flow_decomposer.py\<close> that build and inspect
  them: the \<^verbatim>\<open>OFPAT_*\<close> and \<^verbatim>\<open>OFPXMT_OFB_*\<close> shortcuts, the action and match-field
  generators, the extractors, the flow and group constructors and the flow hash.

  A protobuf message is a record; \<^verbatim>\<open>uint32\<close> and \<^verbatim>\<open>uint64\<close> fields are words of that
  width; an enum field is a number (proto3 enums are open); a \<^verbatim>\<open>oneof\<close> is a datatype
  with one constructor per member and one for \<^emph>\<open>none set\<close>, and reading a member that is not the
  one set gives that member's default, as protobuf does. MD5 and the protobuf encoding of a match
  are parameters, collected in the record \<open>hash_env\<close>.
\<close>

section \<open>Constants\<close>

definition OFPP_CONTROLLER :: u32 where [simp]: "OFPP_CONTROLLER = 0x7ffffffd"
definition OFPP_ANY :: u32 where [simp]: "OFPP_ANY = 0x7fffffff"
definition OFPG_ALL :: u32 where [simp]: "OFPG_ALL = 0x7ffffffc"
definition OFPG_ANY :: u32 where [simp]: "OFPG_ANY = 0x7fffffff"
definition OFPTT_ALL :: u32 where [simp]: "OFPTT_ALL = 0xff"
definition OFPVID_PRESENT :: u32 where [simp]: "OFPVID_PRESENT = 0x1000"
definition OFPCML_MAX :: u32 where [simp]: "OFPCML_MAX = 0xffe5"
definition OFPMT_OXM :: nat where [simp]: "OFPMT_OXM = 1"
definition OFPXMC_OPENFLOW_BASIC :: int where [simp]: "OFPXMC_OPENFLOW_BASIC = 0x8000"
definition OFPIT_GOTO_TABLE :: u32 where [simp]: "OFPIT_GOTO_TABLE = 1"
definition OFPIT_APPLY_ACTIONS :: u32 where [simp]: "OFPIT_APPLY_ACTIONS = 4"
definition OFPFC_ADD :: nat where [simp]: "OFPFC_ADD = 0"
definition OFPFC_MODIFY :: nat where [simp]: "OFPFC_MODIFY = 1"
definition OFPFC_MODIFY_STRICT :: nat where [simp]: "OFPFC_MODIFY_STRICT = 2"
definition OFPFC_DELETE :: nat where [simp]: "OFPFC_DELETE = 3"
definition OFPFC_DELETE_STRICT :: nat where [simp]: "OFPFC_DELETE_STRICT = 4"
definition OFPFF_SEND_FLOW_REM :: u32 where [simp]: "OFPFF_SEND_FLOW_REM = 1"
definition OFPFF_CHECK_OVERLAP :: u32 where [simp]: "OFPFF_CHECK_OVERLAP = 2"
definition OFPFF_RESET_COUNTS :: u32 where [simp]: "OFPFF_RESET_COUNTS = 4"
definition OFPGC_ADD :: nat where [simp]: "OFPGC_ADD = 0"
definition OFPGC_MODIFY :: nat where [simp]: "OFPGC_MODIFY = 1"
definition OFPGC_DELETE :: nat where [simp]: "OFPGC_DELETE = 2"
definition OFPGT_ALL :: nat where [simp]: "OFPGT_ALL = 0"
definition OFPR_ACTION :: nat where [simp]: "OFPR_ACTION = 1"
definition OFPPR_ADD :: nat where [simp]: "OFPPR_ADD = 0"
definition OFPPR_DELETE :: nat where [simp]: "OFPPR_DELETE = 1"
definition OFPPR_MODIFY :: nat where [simp]: "OFPPR_MODIFY = 2"

text \<open>The shortcuts of \<^verbatim>\<open>flow_decomposer.py\<close>: \<^verbatim>\<open>OFPAT_*\<close>, then \<^verbatim>\<open>OFPXMT_OFB_*\<close>.\<close>

definition OUTPUT :: nat where [simp]: "OUTPUT = 0"
definition COPY_TTL_OUT :: nat where [simp]: "COPY_TTL_OUT = 11"
definition COPY_TTL_IN :: nat where [simp]: "COPY_TTL_IN = 12"
definition SET_MPLS_TTL :: nat where [simp]: "SET_MPLS_TTL = 15"
definition DEC_MPLS_TTL :: nat where [simp]: "DEC_MPLS_TTL = 16"
definition PUSH_VLAN :: nat where [simp]: "PUSH_VLAN = 17"
definition POP_VLAN :: nat where [simp]: "POP_VLAN = 18"
definition PUSH_MPLS :: nat where [simp]: "PUSH_MPLS = 19"
definition POP_MPLS :: nat where [simp]: "POP_MPLS = 20"
definition SET_QUEUE :: nat where [simp]: "SET_QUEUE = 21"
definition GROUP :: nat where [simp]: "GROUP = 22"
definition SET_NW_TTL :: nat where [simp]: "SET_NW_TTL = 23"
definition NW_TTL :: nat where [simp]: "NW_TTL = 24"
definition SET_FIELD :: nat where [simp]: "SET_FIELD = 25"
definition PUSH_PBB :: nat where [simp]: "PUSH_PBB = 26"
definition POP_PBB :: nat where [simp]: "POP_PBB = 27"
definition EXPERIMENTER :: nat where [simp]: "EXPERIMENTER = 65535"

definition IN_PORT :: nat where [simp]: "IN_PORT = 0"
definition IN_PHY_PORT :: nat where [simp]: "IN_PHY_PORT = 1"
definition METADATA :: nat where [simp]: "METADATA = 2"
definition ETH_DST :: nat where [simp]: "ETH_DST = 3"
definition ETH_SRC :: nat where [simp]: "ETH_SRC = 4"
definition ETH_TYPE :: nat where [simp]: "ETH_TYPE = 5"
definition VLAN_VID :: nat where [simp]: "VLAN_VID = 6"
definition VLAN_PCP :: nat where [simp]: "VLAN_PCP = 7"
definition IP_DSCP :: nat where [simp]: "IP_DSCP = 8"
definition IP_ECN :: nat where [simp]: "IP_ECN = 9"
definition IP_PROTO :: nat where [simp]: "IP_PROTO = 10"
definition IPV4_SRC :: nat where [simp]: "IPV4_SRC = 11"
definition IPV4_DST :: nat where [simp]: "IPV4_DST = 12"
definition TCP_SRC :: nat where [simp]: "TCP_SRC = 13"
definition TCP_DST :: nat where [simp]: "TCP_DST = 14"
definition UDP_SRC :: nat where [simp]: "UDP_SRC = 15"
definition UDP_DST :: nat where [simp]: "UDP_DST = 16"
definition SCTP_SRC :: nat where [simp]: "SCTP_SRC = 17"
definition SCTP_DST :: nat where [simp]: "SCTP_DST = 18"
definition ICMPV4_TYPE :: nat where [simp]: "ICMPV4_TYPE = 19"
definition ICMPV4_CODE :: nat where [simp]: "ICMPV4_CODE = 20"
definition ARP_OP :: nat where [simp]: "ARP_OP = 21"
definition ARP_SPA :: nat where [simp]: "ARP_SPA = 22"
definition ARP_TPA :: nat where [simp]: "ARP_TPA = 23"
definition ARP_SHA :: nat where [simp]: "ARP_SHA = 24"
definition ARP_THA :: nat where [simp]: "ARP_THA = 25"
definition IPV6_SRC :: nat where [simp]: "IPV6_SRC = 26"
definition IPV6_DST :: nat where [simp]: "IPV6_DST = 27"
definition IPV6_FLABEL :: nat where [simp]: "IPV6_FLABEL = 28"
definition ICMPV6_TYPE :: nat where [simp]: "ICMPV6_TYPE = 29"
definition ICMPV6_CODE :: nat where [simp]: "ICMPV6_CODE = 30"
definition IPV6_ND_TARGET :: nat where [simp]: "IPV6_ND_TARGET = 31"
definition OFB_IPV6_ND_SLL :: nat where [simp]: "OFB_IPV6_ND_SLL = 32"
definition IPV6_ND_TLL :: nat where [simp]: "IPV6_ND_TLL = 33"
definition MPLS_LABEL :: nat where [simp]: "MPLS_LABEL = 34"
definition MPLS_TC :: nat where [simp]: "MPLS_TC = 35"
definition MPLS_BOS :: nat where [simp]: "MPLS_BOS = 36"
definition PBB_ISID :: nat where [simp]: "PBB_ISID = 37"
definition TUNNEL_ID :: nat where [simp]: "TUNNEL_ID = 38"
definition IPV6_EXTHDR :: nat where [simp]: "IPV6_EXTHDR = 39"

section \<open>Messages\<close>

datatype ofb_value =
    NoValue
  | Port u32 | Physical_port u32 | Table_metadata u64
  | Eth_dst string | Eth_src string | Eth_type u32
  | Vlan_vid u32 | Vlan_pcp u32 | Ip_dscp u32 | Ip_ecn u32 | Ip_proto u32
  | Ipv4_src u32 | Ipv4_dst u32 | Tcp_src u32 | Tcp_dst u32 | Udp_src u32 | Udp_dst u32
  | Sctp_src u32 | Sctp_dst u32 | Icmpv4_type u32 | Icmpv4_code u32
  | Arp_op u32 | Arp_spa u32 | Arp_tpa u32 | Arp_sha string | Arp_tha string
  | OtherValue nat string

datatype ofb_mask = NoMask | Mask nat string

record ofb_field =
  f_type :: nat
  has_mask :: bool
  f_value :: ofb_value
  f_mask :: ofb_mask

datatype oxm_choice = NoField | OfbField ofb_field | ExperimenterField u32 u32

record oxm_field =
  oxm_class :: int
  oxm_choice :: oxm_choice

record ofp_match =
  m_type :: nat
  oxm_fields :: "oxm_field list"

datatype action_data =
    NoAction
  | ActOutput u32 u32 \<comment> \<open>port, max\_len\<close>
  | ActMplsTtl u32
  | ActPush u32
  | ActPopMpls u32
  | ActGroup u32
  | ActNwTtl u32
  | ActSetField oxm_field
  | ActExperimenter u32 string

record ofp_action =
  act_type :: nat
  act_data :: action_data

datatype instr_data =
    NoInstr
  | GotoTable u32
  | WriteMetadata u64 u64
  | InstrActions "ofp_action list"
  | Meter u32
  | InstrExperimenter u32 string

record ofp_instruction =
  i_type :: u32
  i_data :: instr_data

record flow_mod =
  fm_cookie :: u64
  fm_cookie_mask :: u64
  fm_table_id :: u32
  fm_command :: nat
  fm_idle_timeout :: u32
  fm_hard_timeout :: u32
  fm_priority :: u32
  fm_buffer_id :: u32
  fm_out_port :: u32
  fm_out_group :: u32
  fm_flags :: u32
  fm_match :: ofp_match
  fm_instructions :: "ofp_instruction list"

record flow_stats =
  fs_id :: u64
  fs_table_id :: u32
  fs_duration_sec :: u32
  fs_duration_nsec :: u32
  fs_priority :: u32
  fs_idle_timeout :: u32
  fs_hard_timeout :: u32
  fs_flags :: u32
  fs_cookie :: u64
  fs_packet_count :: u64
  fs_byte_count :: u64
  fs_match :: ofp_match
  fs_instructions :: "ofp_instruction list"

record ofp_bucket =
  b_weight :: u32
  b_watch_port :: u32
  b_watch_group :: u32
  b_actions :: "ofp_action list"

record group_mod =
  gm_command :: nat
  gm_type :: nat
  gm_group_id :: u32
  gm_buckets :: "ofp_bucket list"

record group_desc =
  gd_type :: nat
  gd_group_id :: u32
  gd_buckets :: "ofp_bucket list"

record group_stats =
  gs_group_id :: u32
  gs_ref_count :: u32
  gs_packet_count :: u64
  gs_byte_count :: u64
  gs_duration_sec :: u32
  gs_duration_nsec :: u32
  gs_bucket_stats :: "(u64 \<times> u64) list"

record group_entry =
  g_desc :: group_desc
  g_stats :: group_stats

text \<open>Defaults of the messages and of the \<^verbatim>\<open>oneof\<close> members read by the code.\<close>

definition default_match :: ofp_match where
  "default_match = \<lparr>m_type = 0, oxm_fields = []\<rparr>"

definition default_ofb_field :: ofb_field where
  "default_ofb_field = \<lparr>f_type = 0, has_mask = False, f_value = NoValue, f_mask = NoMask\<rparr>"

definition default_flow_mod :: flow_mod where
  "default_flow_mod =
     \<lparr>fm_cookie = 0, fm_cookie_mask = 0, fm_table_id = 0, fm_command = 0, fm_idle_timeout = 0,
      fm_hard_timeout = 0, fm_priority = 0, fm_buffer_id = 0, fm_out_port = 0, fm_out_group = 0,
      fm_flags = 0, fm_match = default_match, fm_instructions = []\<rparr>"

definition default_group_entry :: group_entry where
  "default_group_entry =
     \<lparr>g_desc = \<lparr>gd_type = 0, gd_group_id = 0, gd_buckets = []\<rparr>,
      g_stats = \<lparr>gs_group_id = 0, gs_ref_count = 0, gs_packet_count = 0, gs_byte_count = 0,
                 gs_duration_sec = 0, gs_duration_nsec = 0, gs_bucket_stats = []\<rparr>\<rparr>"

fun act_output_port :: "action_data \<Rightarrow> u32" where
  "act_output_port (ActOutput p _) = p"
| "act_output_port _ = 0"

fun act_group_id :: "action_data \<Rightarrow> u32" where
  "act_group_id (ActGroup g) = g"
| "act_group_id _ = 0"

fun instr_actions :: "instr_data \<Rightarrow> ofp_action list" where
  "instr_actions (InstrActions as) = as"
| "instr_actions _ = []"

fun instr_table_id :: "instr_data \<Rightarrow> u32" where
  "instr_table_id (GotoTable t) = t"
| "instr_table_id _ = 0"

fun value_port :: "ofb_value \<Rightarrow> u32" where
  "value_port (Port p) = p"
| "value_port _ = 0"

fun choice_ofb :: "oxm_choice \<Rightarrow> ofb_field" where
  "choice_ofb (OfbField f) = f"
| "choice_ofb _ = default_ofb_field"


section \<open>Action generators\<close>

definition output_act :: "u32 \<Rightarrow> ofp_action" where
  "output_act port = \<lparr>act_type = OUTPUT, act_data = ActOutput port OFPCML_MAX\<rparr>"

definition mpls_ttl :: "u32 \<Rightarrow> ofp_action" where
  "mpls_ttl ttl = \<lparr>act_type = SET_MPLS_TTL, act_data = ActMplsTtl ttl\<rparr>"

definition push_vlan :: "u32 \<Rightarrow> ofp_action" where
  "push_vlan ethertype = \<lparr>act_type = PUSH_VLAN, act_data = ActPush ethertype\<rparr>"

definition pop_vlan :: ofp_action where
  "pop_vlan = \<lparr>act_type = POP_VLAN, act_data = NoAction\<rparr>"

definition pop_mpls :: "u32 \<Rightarrow> ofp_action" where
  "pop_mpls ethertype = \<lparr>act_type = POP_MPLS, act_data = ActPopMpls ethertype\<rparr>"

definition group :: "u32 \<Rightarrow> ofp_action" where
  "group group_id = \<lparr>act_type = GROUP, act_data = ActGroup group_id\<rparr>"

definition nw_ttl :: "u32 \<Rightarrow> ofp_action" where
  "nw_ttl ttl = \<lparr>act_type = NW_TTL, act_data = ActNwTtl ttl\<rparr>"

definition set_field :: "ofb_field \<Rightarrow> ofp_action" where
  "set_field field =
     \<lparr>act_type = SET_FIELD,
      act_data = ActSetField \<lparr>oxm_class = OFPXMC_OPENFLOW_BASIC, oxm_choice = OfbField field\<rparr>\<rparr>"

definition experimenter :: "u32 \<Rightarrow> string \<Rightarrow> ofp_action" where
  "experimenter ex data = \<lparr>act_type = EXPERIMENTER, act_data = ActExperimenter ex data\<rparr>"


section \<open>Match field generators\<close>

definition mk_ofb :: "nat \<Rightarrow> ofb_value \<Rightarrow> ofb_field" where
  "mk_ofb t v = \<lparr>f_type = t, has_mask = False, f_value = v, f_mask = NoMask\<rparr>"

definition in_port :: "u32 \<Rightarrow> ofb_field" where "in_port v = mk_ofb IN_PORT (Port v)"
definition eth_type :: "u32 \<Rightarrow> ofb_field" where "eth_type v = mk_ofb ETH_TYPE (Eth_type v)"
definition vlan_vid :: "u32 \<Rightarrow> ofb_field" where "vlan_vid v = mk_ofb VLAN_VID (Vlan_vid v)"
definition vlan_pcp :: "u32 \<Rightarrow> ofb_field" where "vlan_pcp v = mk_ofb VLAN_PCP (Vlan_pcp v)"
definition ip_dscp :: "u32 \<Rightarrow> ofb_field" where "ip_dscp v = mk_ofb IP_DSCP (Ip_dscp v)"
definition ip_ecn :: "u32 \<Rightarrow> ofb_field" where "ip_ecn v = mk_ofb IP_ECN (Ip_ecn v)"
definition ip_proto :: "u32 \<Rightarrow> ofb_field" where "ip_proto v = mk_ofb IP_PROTO (Ip_proto v)"
definition ipv4_src :: "u32 \<Rightarrow> ofb_field" where "ipv4_src v = mk_ofb IPV4_SRC (Ipv4_src v)"
definition ipv4_dst :: "u32 \<Rightarrow> ofb_field" where "ipv4_dst v = mk_ofb IPV4_DST (Ipv4_dst v)"
definition tcp_src :: "u32 \<Rightarrow> ofb_field" where "tcp_src v = mk_ofb TCP_SRC (Tcp_src v)"
definition tcp_dst :: "u32 \<Rightarrow> ofb_field" where "tcp_dst v = mk_ofb TCP_DST (Tcp_dst v)"
definition udp_src :: "u32 \<Rightarrow> ofb_field" where "udp_src v = mk_ofb UDP_SRC (Udp_src v)"
definition udp_dst :: "u32 \<Rightarrow> ofb_field" where "udp_dst v = mk_ofb UDP_DST (Udp_dst v)"
definition sctp_src :: "u32 \<Rightarrow> ofb_field" where "sctp_src v = mk_ofb SCTP_SRC (Sctp_src v)"
definition sctp_dst :: "u32 \<Rightarrow> ofb_field" where "sctp_dst v = mk_ofb SCTP_DST (Sctp_dst v)"
definition icmpv4_type :: "u32 \<Rightarrow> ofb_field" where "icmpv4_type v = mk_ofb ICMPV4_TYPE (Icmpv4_type v)"
definition icmpv4_code :: "u32 \<Rightarrow> ofb_field" where "icmpv4_code v = mk_ofb ICMPV4_CODE (Icmpv4_code v)"
definition arp_op :: "u32 \<Rightarrow> ofb_field" where "arp_op v = mk_ofb ARP_OP (Arp_op v)"
definition arp_spa :: "u32 \<Rightarrow> ofb_field" where "arp_spa v = mk_ofb ARP_SPA (Arp_spa v)"
definition arp_tpa :: "u32 \<Rightarrow> ofb_field" where "arp_tpa v = mk_ofb ARP_TPA (Arp_tpa v)"
definition arp_sha :: "string \<Rightarrow> ofb_field" where "arp_sha v = mk_ofb ARP_SHA (Arp_sha v)"
definition arp_tha :: "string \<Rightarrow> ofb_field" where "arp_tha v = mk_ofb ARP_THA (Arp_tha v)"
lemmas ofb_generators =
  in_port_def eth_type_def vlan_vid_def vlan_pcp_def ip_dscp_def ip_ecn_def ip_proto_def
  ipv4_src_def ipv4_dst_def tcp_src_def tcp_dst_def udp_src_def udp_dst_def sctp_src_def
  sctp_dst_def icmpv4_type_def icmpv4_code_def arp_op_def arp_spa_def arp_tpa_def arp_sha_def
  arp_tha_def mk_ofb_def

lemmas action_generators =
  output_act_def mpls_ttl_def push_vlan_def pop_vlan_def pop_mpls_def group_def nw_ttl_def
  set_field_def experimenter_def


section \<open>Extractors\<close>

text \<open>
  \<^verbatim>\<open>get_actions\<close> returns \<^verbatim>\<open>None\<close> when no instruction applies actions; its callers
  iterate over the result, which raises \<^verbatim>\<open>TypeError\<close> then (\<open>actions_iter\<close>).
\<close>

fun first_apply :: "ofp_instruction list \<Rightarrow> ofp_action list option" where
  "first_apply [] = None"
| "first_apply (i # is) =
     (if i_type i = OFPIT_APPLY_ACTIONS then Some (instr_actions (i_data i)) else first_apply is)"

definition get_actions :: "flow_stats \<Rightarrow> ofp_action list option" where
  "get_actions flow = first_apply (fs_instructions flow)"

definition actions_iter :: "flow_stats \<Rightarrow> ofp_action list res" where
  "actions_iter flow = (case get_actions flow of None \<Rightarrow> Inl TypeError | Some as \<Rightarrow> Inr as)"

fun basic_ofbs :: "oxm_field list \<Rightarrow> ofb_field list res" where
  "basic_ofbs [] = Inr []"
| "basic_ofbs (f # fs) =
     (if oxm_class f = OFPXMC_OPENFLOW_BASIC
      then rbind (basic_ofbs fs) (\<lambda>r. Inr (choice_ofb (oxm_choice f) # r))
      else Inl AssertionError)"

definition get_ofb_fields :: "flow_stats \<Rightarrow> ofb_field list res" where
  "get_ofb_fields flow =
     (if m_type (fs_match flow) = OFPMT_OXM then basic_ofbs (oxm_fields (fs_match flow))
      else Inl AssertionError)"

fun first_output :: "ofp_action list \<Rightarrow> u32 option" where
  "first_output [] = None"
| "first_output (a # as) =
     (if act_type a = OUTPUT then Some (act_output_port (act_data a)) else first_output as)"

definition get_out_port :: "flow_stats \<Rightarrow> u32 option res" where
  "get_out_port flow = rbind (actions_iter flow) (\<lambda>as. Inr (first_output as))"

fun first_in_port :: "ofb_field list \<Rightarrow> u32 option" where
  "first_in_port [] = None"
| "first_in_port (f # fs) =
     (if f_type f = IN_PORT then Some (value_port (f_value f)) else first_in_port fs)"

definition get_in_port :: "flow_stats \<Rightarrow> u32 option res" where
  "get_in_port flow = rbind (get_ofb_fields flow) (\<lambda>fs. Inr (first_in_port fs))"

fun first_goto :: "ofp_instruction list \<Rightarrow> u32 option" where
  "first_goto [] = None"
| "first_goto (i # is) =
     (if i_type i = OFPIT_GOTO_TABLE then Some (instr_table_id (i_data i)) else first_goto is)"

definition get_goto_table_id :: "flow_stats \<Rightarrow> u32 option" where
  "get_goto_table_id flow = first_goto (fs_instructions flow)"

definition has_next_table :: "flow_stats \<Rightarrow> bool" where
  "has_next_table flow \<longleftrightarrow> get_goto_table_id flow \<noteq> None"

fun first_group :: "ofp_action list \<Rightarrow> u32 option" where
  "first_group [] = None"
| "first_group (a # as) =
     (if act_type a = GROUP then Some (act_group_id (act_data a)) else first_group as)"

definition get_group :: "flow_stats \<Rightarrow> u32 option res" where
  "get_group flow = rbind (actions_iter flow) (\<lambda>as. Inr (first_group as))"

definition has_group :: "flow_stats \<Rightarrow> bool res" where
  "has_group flow = rbind (get_group flow) (\<lambda>g. Inr (g \<noteq> None))"


section \<open>Flow and group constructors\<close>

definition oxm_basic :: "ofb_field \<Rightarrow> oxm_field" where
  "oxm_basic f = \<lparr>oxm_class = OFPXMC_OPENFLOW_BASIC, oxm_choice = OfbField f\<rparr>"

text \<open>
  \<^verbatim>\<open>mk_simple_flow_mod(match_fields, actions, command, next_table_id, **kw)\<close>: the further
  keyword arguments are a message \<open>kw\<close> whose other fields carry them.
\<close>

definition mk_simple_flow_mod ::
  "ofb_field list \<Rightarrow> ofp_action list \<Rightarrow> nat \<Rightarrow> u32 option \<Rightarrow> flow_mod \<Rightarrow> flow_mod" where
  "mk_simple_flow_mod match_fields actions command next_table_id kw =
     kw\<lparr>fm_command := command,
        fm_match := \<lparr>m_type = OFPMT_OXM, oxm_fields = map oxm_basic match_fields\<rparr>,
        fm_instructions :=
          [\<lparr>i_type = OFPIT_APPLY_ACTIONS, i_data = InstrActions actions\<rparr>]
          @ (case next_table_id of None \<Rightarrow> []
             | Some t \<Rightarrow> [\<lparr>i_type = OFPIT_GOTO_TABLE, i_data = GotoTable t\<rparr>])\<rparr>"

definition mk_multicast_group_mod :: "u32 \<Rightarrow> ofp_bucket list \<Rightarrow> nat \<Rightarrow> group_mod" where
  "mk_multicast_group_mod group_id buckets command =
     \<lparr>gm_command = command, gm_type = OFPGT_ALL, gm_group_id = group_id, gm_buckets = buckets\<rparr>"

record hash_env =
  md5_hexdigest :: "string \<Rightarrow> string"
  serialize_match :: "ofp_match \<Rightarrow> string"

definition hash_text :: "hash_env \<Rightarrow> flow_stats \<Rightarrow> string" where
  "hash_text H flow =
     str_nat (unat (fs_table_id flow)) @ '','' @
     str_nat (unat (fs_priority flow)) @ '','' @
     str_nat (unat (fs_flags flow)) @ '','' @
     str_nat (unat (fs_cookie flow)) @ '','' @
     serialize_match H (fs_match flow)"

definition hash_flow_stats :: "hash_env \<Rightarrow> flow_stats \<Rightarrow> nat" where
  "hash_flow_stats H flow = hex_int (take 16 (md5_hexdigest H (hash_text H flow)))"

definition flow_stats_entry_from_flow_mod_message :: "hash_env \<Rightarrow> flow_mod \<Rightarrow> flow_stats" where
  "flow_stats_entry_from_flow_mod_message H fmod =
     (let flow = \<lparr>fs_id = 0, fs_table_id = fm_table_id fmod, fs_duration_sec = 0,
                  fs_duration_nsec = 0, fs_priority = fm_priority fmod,
                  fs_idle_timeout = fm_idle_timeout fmod, fs_hard_timeout = fm_hard_timeout fmod,
                  fs_flags = fm_flags fmod, fs_cookie = fm_cookie fmod, fs_packet_count = 0,
                  fs_byte_count = 0, fs_match = fm_match fmod,
                  fs_instructions = fm_instructions fmod\<rparr>
      in flow\<lparr>fs_id := of_nat (hash_flow_stats H flow)\<rparr>)"

lemma flow_stats_entry_code [code]:
  "flow_stats_entry_from_flow_mod_message H fmod =
     (let flow = \<lparr>fs_id = 0, fs_table_id = fm_table_id fmod, fs_duration_sec = 0,
                  fs_duration_nsec = 0, fs_priority = fm_priority fmod,
                  fs_idle_timeout = fm_idle_timeout fmod, fs_hard_timeout = fm_hard_timeout fmod,
                  fs_flags = fm_flags fmod, fs_cookie = fm_cookie fmod, fs_packet_count = 0,
                  fs_byte_count = 0, fs_match = fm_match fmod,
                  fs_instructions = fm_instructions fmod\<rparr>
      in flow\<lparr>fs_id := word_of_int (hex_integer
                          (take 16 (md5_hexdigest H (hash_text H flow))))\<rparr>)"
  by (simp add: flow_stats_entry_from_flow_mod_message_def hash_flow_stats_def of_nat_hex_int Let_def)

definition group_entry_from_group_mod :: "group_mod \<Rightarrow> group_entry" where
  "group_entry_from_group_mod gmod =
     default_group_entry
       \<lparr>g_desc := \<lparr>gd_type = gm_type gmod, gd_group_id = gm_group_id gmod,
                   gd_buckets = gm_buckets gmod\<rparr>,
        g_stats := (g_stats default_group_entry)\<lparr>gs_group_id := gm_group_id gmod\<rparr>\<rparr>"

definition mk_flow_stat ::
  "hash_env \<Rightarrow> ofb_field list \<Rightarrow> ofp_action list \<Rightarrow> flow_mod \<Rightarrow> flow_stats" where
  "mk_flow_stat H match_fields actions kw =
     flow_stats_entry_from_flow_mod_message H
       (mk_simple_flow_mod match_fields actions OFPFC_ADD None kw)"

definition mk_group_stat :: "u32 \<Rightarrow> ofp_bucket list \<Rightarrow> nat \<Rightarrow> group_entry" where
  "mk_group_stat group_id buckets command =
     group_entry_from_group_mod (mk_multicast_group_mod group_id buckets command)"

text \<open>The keyword arguments \<^verbatim>\<open>priority\<close> and \<^verbatim>\<open>cookie\<close>, which the core passes.\<close>

definition kw_prio :: "u32 \<Rightarrow> u64 \<Rightarrow> flow_mod" where
  "kw_prio priority cookie = default_flow_mod\<lparr>fm_priority := priority, fm_cookie := cookie\<rparr>"


section \<open>Lemmas\<close>

lemma act_type_generators [simp]:
  "act_type (output_act p) = OUTPUT" "act_type (push_vlan e) = PUSH_VLAN"
  "act_type pop_vlan = POP_VLAN" "act_type (set_field f) = SET_FIELD"
  "act_type (group g) = GROUP"
  by (simp_all add: action_generators)

lemma act_data_output_act [simp]: "act_data (output_act p) = ActOutput p OFPCML_MAX"
  by (simp add: output_act_def)

lemma f_type_generators [simp]:
  "f_type (in_port p) = IN_PORT" "f_type (vlan_vid v) = VLAN_VID" "f_type (vlan_pcp c) = VLAN_PCP"
  "f_value (in_port p) = Port p" "f_value (vlan_vid v) = Vlan_vid v"
  "f_value (vlan_pcp c) = Vlan_pcp c"
  by (simp_all add: ofb_generators)

lemma basic_ofbs_map [simp]: "basic_ofbs (map oxm_basic fs) = Inr fs"
  by (induction fs) (simp_all add: oxm_basic_def)

lemma entry_from_mod_simps [simp]:
  "fs_table_id (flow_stats_entry_from_flow_mod_message H m) = fm_table_id m"
  "fs_priority (flow_stats_entry_from_flow_mod_message H m) = fm_priority m"
  "fs_flags (flow_stats_entry_from_flow_mod_message H m) = fm_flags m"
  "fs_cookie (flow_stats_entry_from_flow_mod_message H m) = fm_cookie m"
  "fs_match (flow_stats_entry_from_flow_mod_message H m) = fm_match m"
  "fs_instructions (flow_stats_entry_from_flow_mod_message H m) = fm_instructions m"
  "fs_packet_count (flow_stats_entry_from_flow_mod_message H m) = 0"
  "fs_byte_count (flow_stats_entry_from_flow_mod_message H m) = 0"
  by (simp_all add: flow_stats_entry_from_flow_mod_message_def Let_def)

lemma mk_flow_stat_simps [simp]:
  "get_ofb_fields (mk_flow_stat H fs as kw) = Inr fs"
  "get_actions (mk_flow_stat H fs as kw) = Some as"
  "fs_priority (mk_flow_stat H fs as kw) = fm_priority kw"
  "fs_cookie (mk_flow_stat H fs as kw) = fm_cookie kw"
  "get_goto_table_id (mk_flow_stat H fs as kw) = None"
  by (simp_all add: mk_flow_stat_def mk_simple_flow_mod_def get_ofb_fields_def get_actions_def
      get_goto_table_id_def)

lemma kw_prio_simps [simp]:
  "fm_priority (kw_prio p c) = p" "fm_cookie (kw_prio p c) = c"
  by (simp_all add: kw_prio_def)

lemma group_entry_from_group_mod_id [simp]:
  "gd_group_id (g_desc (group_entry_from_group_mod m)) = gm_group_id m"
  by (simp add: group_entry_from_group_mod_def)

lemma comma_not_in_str_nat: "CHR '','' \<notin> set (str_nat n)"
  using str_nat_digits [of n] by (auto simp: list_all_iff is_digit_def)

lemma hash_text_cong:
  "fs_table_id f = fs_table_id g \<Longrightarrow> fs_priority f = fs_priority g \<Longrightarrow> fs_flags f = fs_flags g
   \<Longrightarrow> fs_cookie f = fs_cookie g \<Longrightarrow> fs_match f = fs_match g \<Longrightarrow> hash_text H f = hash_text H g"
  by (simp add: hash_text_def)

lemma fs_id_entry:
  "fs_id (flow_stats_entry_from_flow_mod_message H m) =
     of_nat (hash_flow_stats H (flow_stats_entry_from_flow_mod_message H m))"
  by (simp add: flow_stats_entry_from_flow_mod_message_def Let_def hash_flow_stats_def
      hash_text_def)

lemma comma_split:
  assumes "str_nat m @ CHR '','' # s = str_nat n @ CHR '','' # t"
  shows "m = n \<and> s = t"
  using partition_at_inj [OF comma_not_in_str_nat comma_not_in_str_nat assms] by simp

text \<open>
  The text that is hashed determines the five attributes, when the encoding of a match does: the
  decimal numerals hold no comma.
\<close>

lemma hash_text_inj:
  assumes ser: "serialize_match H (fs_match f) = serialize_match H (fs_match g) \<Longrightarrow>
      fs_match f = fs_match g"
    and eq: "hash_text H f = hash_text H g"
  shows "fs_table_id f = fs_table_id g \<and> fs_priority f = fs_priority g \<and>
    fs_flags f = fs_flags g \<and> fs_cookie f = fs_cookie g \<and> fs_match f = fs_match g"
proof -
  note eq1 = eq [unfolded hash_text_def append_Cons append_Nil]
  note s1 = comma_split [OF eq1]
  note s2 = comma_split [OF conjunct2 [OF s1]]
  note s3 = comma_split [OF conjunct2 [OF s2]]
  note s4 = comma_split [OF conjunct2 [OF s3]]
  have m: "fs_match f = fs_match g" using ser s4 by blast
  have "unat (fs_table_id f) = unat (fs_table_id g)"
    "unat (fs_priority f) = unat (fs_priority g)" "unat (fs_flags f) = unat (fs_flags g)"
    "unat (fs_cookie f) = unat (fs_cookie g)" using s1 s2 s3 s4 by blast+
  with m show ?thesis by (simp add: word_unat_eq_iff)
qed

lemma hash_flow_stats_bound:
  assumes "list_all is_hex (md5_hexdigest H (hash_text H flow))"
  shows "hash_flow_stats H flow < 2 ^ 64"
proof -
  let ?h = "take 16 (md5_hexdigest H (hash_text H flow))"
  have "list_all is_hex ?h" using assms by (auto simp: list_all_iff dest: in_set_takeD)
  then have "hex_int ?h < 16 ^ length ?h" by (rule hex_int_bound)
  also have "\<dots> \<le> 16 ^ 16" by (intro power_increasing) auto
  also have "(16::nat) ^ 16 = 2 ^ 64" by simp
  finally show ?thesis by (simp add: hash_flow_stats_def)
qed

end
