(* ===== verification/Devices.thy ===== *)
theory Devices
  imports OpenFlow
begin

text \<open>
  The device messages of \<^verbatim>\<open>voltha/protos/device.proto\<close>, \<^verbatim>\<open>common.proto\<close> and
  \<^verbatim>\<open>logical_device.proto\<close>, which the core's components exchange, and \<^verbatim>\<open>RouteHop\<close> of
  \<^verbatim>\<open>voltha/core/flow_decomposer.py\<close>.
\<close>

definition ADMIN_UNKNOWN :: nat where [simp]: "ADMIN_UNKNOWN = 0"
definition ADMIN_PREPROVISIONED :: nat where [simp]: "ADMIN_PREPROVISIONED = 1"
definition ADMIN_DISABLED :: nat where [simp]: "ADMIN_DISABLED = 2"
definition ADMIN_ENABLED :: nat where [simp]: "ADMIN_ENABLED = 3"

definition OPER_UNKNOWN :: nat where [simp]: "OPER_UNKNOWN = 0"
definition OPER_ACTIVATING :: nat where [simp]: "OPER_ACTIVATING = 2"

definition ETHERNET_NNI :: nat where [simp]: "ETHERNET_NNI = 1"
definition ETHERNET_UNI :: nat where [simp]: "ETHERNET_UNI = 2"
definition PON_OLT :: nat where [simp]: "PON_OLT = 3"
definition PON_ONU :: nat where [simp]: "PON_ONU = 4"

datatype device_address =
    NoAddress | Mac_address string | Ipv4_address string | Ipv6_address string
  | Host_and_port string

record proxy_address =
  pa_device_id :: string
  pa_channel_id :: u32

record device =
  d_id :: string
  d_type :: string
  d_root :: bool
  d_parent_id :: string
  d_parent_port_no :: u32
  d_vendor :: string
  d_model :: string
  d_versions :: "string list" \<comment> \<open>hardware, firmware, software version and serial number\<close>
  d_adapter :: string
  d_vlan :: u32
  d_address :: device_address
  d_proxy_address :: "proxy_address option"
  d_admin_state :: nat
  d_oper_status :: nat
  d_reason :: string
  d_connect_status :: nat

record peer_port =
  pp_device_id :: string
  pp_port_no :: u32

record port =
  p_port_no :: u32
  p_label :: string
  p_type :: nat
  p_admin_state :: nat
  p_oper_status :: nat
  p_device_id :: string
  p_peers :: "peer_port list"

record ofp_port =
  op_port_no :: u32
  op_hw_addr :: "u32 list"
  op_name :: string
  op_flags :: "u32 list" \<comment> \<open>config, state, curr, advertised, supported, peer, curr and max speed\<close>

record logical_port =
  lp_id :: string
  lp_ofp_port :: ofp_port
  lp_device_id :: string
  lp_device_port_no :: u32
  lp_root_port :: bool

record route_hop =
  hop_device :: device
  ingress_port :: port
  egress_port :: port

text \<open>
  \<^verbatim>\<open>RouteHop.__eq__\<close> compares the three slots, that is, the records. A route is a list of
  hops of which some may be \<^verbatim>\<open>None\<close>.
\<close>

type_synonym route = "route_hop option list"

definition mk_device :: "string \<Rightarrow> bool \<Rightarrow> u32 \<Rightarrow> device" where
  "mk_device i root vlan =
     \<lparr>d_id = i, d_type = [], d_root = root, d_parent_id = [], d_parent_port_no = 0,
      d_vendor = [], d_model = [], d_versions = [], d_adapter = [], d_vlan = vlan,
      d_address = NoAddress, d_proxy_address = None, d_admin_state = 0, d_oper_status = 0,
      d_reason = [], d_connect_status = 0\<rparr>"

definition mk_port :: "string \<Rightarrow> u32 \<Rightarrow> nat \<Rightarrow> (string \<times> u32) list \<Rightarrow> port" where
  "mk_port i no ty peers =
     \<lparr>p_port_no = no, p_label = [], p_type = ty, p_admin_state = 0, p_oper_status = 0,
      p_device_id = i, p_peers = map (\<lambda>(d, n). \<lparr>pp_device_id = d, pp_port_no = n\<rparr>) peers\<rparr>"

lemma mk_device_simps [simp]:
  "d_id (mk_device i r v) = i" "d_root (mk_device i r v) = r" "d_vlan (mk_device i r v) = v"
  by (simp_all add: mk_device_def)

lemma mk_port_simps [simp]:
  "p_port_no (mk_port i no ty ps) = no" "p_type (mk_port i no ty ps) = ty"
  "p_device_id (mk_port i no ty ps) = i"
  by (simp_all add: mk_port_def)

end
