(* ===== verification/FlowDecomposer.thy ===== *)
theory FlowDecomposer
  imports Devices
begin

text \<open>
  The mix-in class \<^verbatim>\<open>FlowDecomposer\<close> of \<^verbatim>\<open>voltha/core/flow_decomposer.py\<close>: turning the
  flows and groups of a logical device into the flows of the physical devices behind it.
  \<^verbatim>\<open>get_route\<close> and \<^verbatim>\<open>get_all_default_rules\<close>, which the derived class provides, are
  arguments here; the theory of the logical device agent supplies its own.

  A result of \<^verbatim>\<open>decompose_flow\<close> maps device ids to a list of flows and a list of groups; the
  rules of \<^verbatim>\<open>decompose_rules\<close> map device ids to two ordered dictionaries, keyed by flow id
  and by group id. The order in which Python iterates over a plain \<^verbatim>\<open>dict\<close> is immaterial to
  them, since each device id is a key of its own.
\<close>

type_synonym flow_rules = "(string, flow_stats list \<times> group_entry list) od"
type_synonym device_rules = "(string, (u64, flow_stats) od \<times> (u32, group_entry) od) od"
type_synonym get_route = "u32 option \<Rightarrow> u32 option \<Rightarrow> route res"


section \<open>Decomposing one flow\<close>

definition need :: "'a option \<Rightarrow> 'a res" where
  "need x = (case x of None \<Rightarrow> Inl AttributeError | Some y \<Rightarrow> Inr y)"

definition is_controller :: "u32 option \<Rightarrow> bool" where
  "is_controller p \<longleftrightarrow> (case p of None \<Rightarrow> False | Some q \<Rightarrow> q AND 0x7fffffff = OFPP_CONTROLLER)"

definition fields_except :: "nat list \<Rightarrow> ofb_field list \<Rightarrow> ofb_field list" where
  "fields_except ts fs = filter (\<lambda>f. f_type f \<notin> set ts) fs"

definition actions_except :: "nat list \<Rightarrow> ofp_action list \<Rightarrow> ofp_action list" where
  "actions_except ts as = filter (\<lambda>a. act_type a \<notin> set ts) as"

text \<open>\<^verbatim>\<open>fl_lst, _ = device_rules.setdefault(id, ([], [])); fl_lst.append(flow)\<close>\<close>

definition append_flow :: "string \<Rightarrow> flow_stats \<Rightarrow> flow_rules \<Rightarrow> flow_rules" where
  "append_flow i f d =
     (case od_get i d of
        None \<Rightarrow> od_set i ([f], []) d
      | Some (fl, gr) \<Rightarrow> od_set i (fl @ [f], gr) d)"

text \<open>
  The rule put on the device of a hop: match on the hop's ingress port and the given fields, do the
  given actions, output to the hop's egress port.
\<close>

definition hop_flow ::
  "hash_env \<Rightarrow> flow_stats \<Rightarrow> route_hop \<Rightarrow> ofb_field list \<Rightarrow> ofp_action list \<Rightarrow> flow_stats" where
  "hop_flow H flow hop flds acts =
     mk_flow_stat H (in_port (p_port_no (ingress_port hop)) # flds)
       (acts @ [output_act (p_port_no (egress_port hop))])
       (kw_prio (fs_priority flow) (fs_cookie flow))"

definition append_hop_flow ::
  "hash_env \<Rightarrow> flow_stats \<Rightarrow> route_hop option \<Rightarrow> ofb_field list \<Rightarrow> ofp_action list
   \<Rightarrow> flow_rules \<Rightarrow> flow_rules res" where
  "append_hop_flow H flow hop flds acts d =
     rbind (need hop) (\<lambda>h. Inr (append_flow (d_id (hop_device h)) (hop_flow H flow h flds acts) d))"

definition decompose_controller_bound ::
  "hash_env \<Rightarrow> flow_stats \<Rightarrow> route_hop option \<Rightarrow> ofb_field list \<Rightarrow> flow_rules res" where
  "decompose_controller_bound H flow egress_hop flds =
     append_hop_flow H flow egress_hop (fields_except [IN_PORT, VLAN_VID] flds)
       [push_vlan 0x8100, set_field (vlan_vid (OFPVID_PRESENT OR 4000))] []"

definition decompose_upstream ::
  "hash_env \<Rightarrow> flow_stats \<Rightarrow> u32 option \<Rightarrow> route_hop option \<Rightarrow> route_hop option
   \<Rightarrow> ofb_field list \<Rightarrow> ofp_action list \<Rightarrow> flow_rules res" where
  "decompose_upstream H flow out_port_no ingress_hop egress_hop flds acts =
     (if has_next_table flow then
        rbind (py_assert (out_port_no = None))
          (\<lambda>_. append_hop_flow H flow ingress_hop (fields_except [IN_PORT] flds) acts [])
      else
        rbind (py_assert (out_port_no \<noteq> None))
          (\<lambda>_. append_hop_flow H flow egress_hop (fields_except [IN_PORT] flds)
                 (actions_except [OUTPUT] acts) []))"

text \<open>
  The scan of a bucket's actions. \<^verbatim>\<open>out_port_no\<close> is a variable of the enclosing method, so a
  bucket with no output action keeps the port of the bucket before it.
\<close>

fun scan_bucket :: "ofp_action list \<Rightarrow> ofp_action list \<Rightarrow> u32 option
    \<Rightarrow> ofp_action list \<times> u32 option" where
  "scan_bucket [] others out_port_no = (others, out_port_no)"
| "scan_bucket (a # as) others out_port_no =
     (if act_type a = POP_VLAN then scan_bucket as others out_port_no
      else if act_type a = OUTPUT then
        scan_bucket as others (Some (act_output_port (act_data a)))
      else scan_bucket as (others @ [a]) out_port_no)"

text \<open>
  The comparison of the two ingress hops reads the attributes of the second, which raises when the
  second route has none; the first is not \<^verbatim>\<open>None\<close> here.
\<close>

definition decompose_bucket ::
  "hash_env \<Rightarrow> get_route \<Rightarrow> flow_stats \<Rightarrow> u32 option \<Rightarrow> route_hop option \<Rightarrow> ofb_field list
   \<Rightarrow> ofp_bucket \<Rightarrow> flow_rules \<times> u32 option \<Rightarrow> (flow_rules \<times> u32 option) res" where
  "decompose_bucket H get_route flow in_port_no ingress_hop flds bucket s =
     (let (rules, out_port_no) = s;
          (other_actions, out_port_no) = scan_bucket (b_actions bucket) [] out_port_no
      in rbind (get_route in_port_no out_port_no) (\<lambda>route2.
         rbind (py_assert (length route2 = 2)) (\<lambda>_.
         rbind (need (route2 ! 0)) (\<lambda>_.
         rbind (py_assert (ingress_hop = route2 ! 0)) (\<lambda>_.
         rbind (append_hop_flow H flow (route2 ! 1)
                  (fields_except [IN_PORT, VLAN_VID, VLAN_PCP] flds) other_actions rules)
           (\<lambda>rules. Inr (rules, out_port_no)))))))"

definition decompose_multicast ::
  "hash_env \<Rightarrow> get_route \<Rightarrow> flow_stats \<Rightarrow> (u32, group_entry) od \<Rightarrow> u32 option \<Rightarrow> u32 option
   \<Rightarrow> route_hop option \<Rightarrow> ofb_field list \<Rightarrow> ofp_action list \<Rightarrow> flow_rules res" where
  "decompose_multicast H get_route flow group_map in_port_no out_port_no ingress_hop flds acts =
     (case first_group acts of
        None \<Rightarrow> Inl AssertionError
      | Some grp_id \<Rightarrow>
          rbind (append_hop_flow H flow ingress_hop
                   (fields_except [IN_PORT, ETH_TYPE, IPV4_DST] flds)
                   (actions_except [GROUP] acts @ [pop_vlan]) [])
            (\<lambda>rules.
               let grp = (case od_get grp_id group_map of
                            None \<Rightarrow> default_group_entry | Some g \<Rightarrow> g)
               in rbind (py_for (decompose_bucket H get_route flow in_port_no ingress_hop flds)
                           (gd_buckets (g_desc grp)) (rules, out_port_no))
                    (\<lambda>(rules, _). Inr rules)))"

definition decompose_downstream ::
  "hash_env \<Rightarrow> get_route \<Rightarrow> flow_stats \<Rightarrow> (u32, group_entry) od \<Rightarrow> u32 option \<Rightarrow> u32 option
   \<Rightarrow> route_hop option \<Rightarrow> route_hop option \<Rightarrow> ofb_field list \<Rightarrow> ofp_action list
   \<Rightarrow> flow_rules res" where
  "decompose_downstream H get_route flow group_map in_port_no out_port_no ingress_hop egress_hop
     flds acts =
     (if has_next_table flow then
        rbind (py_assert (out_port_no = None))
          (\<lambda>_. append_hop_flow H flow ingress_hop (fields_except [IN_PORT] flds) acts [])
      else if out_port_no \<noteq> None then
        append_hop_flow H flow egress_hop (fields_except [IN_PORT] flds)
          (actions_except [OUTPUT] acts) []
      else decompose_multicast H get_route flow group_map in_port_no out_port_no ingress_hop
             flds acts)"

definition decompose_flow ::
  "hash_env \<Rightarrow> get_route \<Rightarrow> flow_stats \<Rightarrow> (u32, group_entry) od \<Rightarrow> flow_rules res" where
  "decompose_flow H get_route flow group_map =
     rbind (get_ofb_fields flow) (\<lambda>flds.
     rbind (actions_iter flow) (\<lambda>acts.
     let in_port_no = first_in_port flds; out_port_no = first_output acts in
     rbind (get_route in_port_no out_port_no) (\<lambda>route.
     rbind (py_assert (length route = 2)) (\<lambda>_.
     let ingress_hop = route ! 0; egress_hop = route ! 1 in
     if is_controller out_port_no
     then decompose_controller_bound H flow egress_hop flds
     else rbind (need ingress_hop) (\<lambda>h.
       if \<not> d_root (hop_device h)
       then decompose_upstream H flow out_port_no ingress_hop egress_hop flds acts
       else decompose_downstream H get_route flow group_map in_port_no out_port_no
              ingress_hop egress_hop flds acts)))))"


section \<open>Decomposing the tables\<close>

fun add_new_flows :: "flow_stats list \<Rightarrow> (u64, flow_stats) od \<Rightarrow> (u64, flow_stats) od" where
  "add_new_flows [] d = d"
| "add_new_flows (f # fs) d =
     add_new_flows fs (if od_get (fs_id f) d = None then od_set (fs_id f) f d else d)"

text \<open>
  \<^verbatim>\<open>_group.group_id\<close> would raise \<^verbatim>\<open>AttributeError\<close> on a group entry, whose id is
  \<^verbatim>\<open>desc.group_id\<close>; \<^verbatim>\<open>decompose_flow\<close> never returns a group.
\<close>

definition merge_device_rules ::
  "string \<times> flow_stats list \<times> group_entry list \<Rightarrow> device_rules \<Rightarrow> device_rules res" where
  "merge_device_rules item rules =
     (let (device_id, flows, groups) = item;
          (fl, gr) = (case od_get device_id rules of None \<Rightarrow> ([], []) | Some x \<Rightarrow> x)
      in if groups = [] then Inr (od_set device_id (add_new_flows flows fl, gr) rules)
         else Inl AttributeError)"

definition decompose_rules ::
  "hash_env \<Rightarrow> get_route \<Rightarrow> device_rules \<Rightarrow> flow_stats list \<Rightarrow> group_entry list
   \<Rightarrow> device_rules res" where
  "decompose_rules H get_route default_rules flows groups =
     (let group_map = od_of (map (\<lambda>g. (gd_group_id (g_desc g), g)) groups) []
      in py_for (\<lambda>flow rules. rbind (decompose_flow H get_route flow group_map)
                                (\<lambda>frules. py_for merge_device_rules frules rules))
           flows default_rules)"


section \<open>What one decomposition produces\<close>

text \<open>
  The contract of a rule that \<open>decompose_flow\<close> puts on a device: it is for a hop on that device, it
  matches the hop's ingress port, its last action outputs to the hop's egress port, and it has the
  logical flow's priority and cookie.
\<close>

definition rule_for_hop :: "flow_stats \<Rightarrow> string \<Rightarrow> flow_stats \<Rightarrow> route_hop \<Rightarrow> bool" where
  "rule_for_hop flow i f h \<longleftrightarrow>
     d_id (hop_device h) = i \<and>
     get_in_port f = Inr (Some (p_port_no (ingress_port h))) \<and>
     (\<exists>as. get_actions f = Some (as @ [output_act (p_port_no (egress_port h))])) \<and>
     fs_priority f = fs_priority flow \<and> fs_cookie f = fs_cookie flow \<and>
     get_goto_table_id f = None"

definition rules_sound :: "flow_stats \<Rightarrow> route_hop set \<Rightarrow> flow_rules \<Rightarrow> bool" where
  "rules_sound flow hops rules \<longleftrightarrow>
     od_wf rules \<and>
     (\<forall>(i, fl, gr) \<in> set rules. gr = [] \<and> fl \<noteq> [] \<and>
        (\<forall>f \<in> set fl. \<exists>h \<in> hops. rule_for_hop flow i f h))"

lemma rules_sound_Nil [simp]: "rules_sound flow hops []"
  by (simp add: rules_sound_def)

lemma hop_flow_rule:
  "rule_for_hop flow (d_id (hop_device h)) (hop_flow H flow h flds acts) h"
  by (simp add: rule_for_hop_def hop_flow_def get_in_port_def)

lemma append_flow_sound:
  assumes "rules_sound flow hops d" and "h \<in> hops" and "rule_for_hop flow i f h"
  shows "rules_sound flow hops (append_flow i f d)"
proof (cases "od_get i d")
  case None
  with assms show ?thesis
    by (fastforce simp: rules_sound_def append_flow_def dest!: set_od_set)
next
  case (Some x)
  obtain fl gr where x: "x = (fl, gr)" by (cases x)
  with Some have "(i, fl, gr) \<in> set d" by (simp add: od_get_mem)
  with assms Some x show ?thesis
    by (fastforce simp: rules_sound_def append_flow_def dest!: set_od_set)
qed

lemma append_hop_flow_sound:
  assumes "append_hop_flow H flow hop flds acts d = Inr d'"
    and "rules_sound flow hops d" and "\<And>h. hop = Some h \<Longrightarrow> h \<in> hops"
  shows "rules_sound flow hops d'"
  using assms append_flow_sound [OF assms(2) _ hop_flow_rule]
  by (auto simp: append_hop_flow_def need_def res_simps split: option.splits)

text \<open>The hops of every route the router may return.\<close>

definition router_hops :: "get_route \<Rightarrow> route_hop set" where
  "router_hops get_route = {h. \<exists>a b r. get_route a b = Inr r \<and> Some h \<in> set r}"

lemma router_hopsI:
  assumes "get_route a b = Inr r" and "length r = 2" and "r ! n = Some h" and "n < 2"
  shows "h \<in> router_hops get_route"
proof -
  have "Some h \<in> set r" using assms(2,3,4) nth_mem by metis
  with assms(1) show ?thesis by (auto simp: router_hops_def)
qed

lemma decompose_bucket_sound:
  assumes "decompose_bucket H gr flow in_p ih flds b (rules, out_p) = Inr (rules', out_p')"
    and "rules_sound flow (router_hops gr) rules"
  shows "rules_sound flow (router_hops gr) rules'"
  using assms
  by (auto simp: decompose_bucket_def res_simps split: prod.splits
      elim!: append_hop_flow_sound elim: router_hopsI)

lemma decompose_multicast_sound:
  assumes "decompose_multicast H gr flow gm in_p out_p ih flds acts = Inr rules"
    and "\<And>h. ih = Some h \<Longrightarrow> h \<in> router_hops gr"
  shows "rules_sound flow (router_hops gr) rules"
proof -
  from assms(1) obtain rules0 b s
    where start: "append_hop_flow H flow ih (fields_except [IN_PORT, ETH_TYPE, IPV4_DST] flds)
           (actions_except [GROUP] acts @ [pop_vlan]) [] = Inr rules0"
      and loop: "py_for (decompose_bucket H gr flow in_p ih flds) b (rules0, out_p) = Inr s"
      and res: "rules = fst s"
    by (auto simp: decompose_multicast_def res_simps Let_def split: option.splits)
  have "rules_sound flow (router_hops gr) rules0"
    by (rule append_hop_flow_sound [OF start _ assms(2)]) simp
  then have "rules_sound flow (router_hops gr) (fst s)"
    by (intro py_for_invariant [OF loop, where P = "\<lambda>s. rules_sound flow (router_hops gr) (fst s)"])
       (auto intro: decompose_bucket_sound)
  with res show ?thesis by simp
qed

lemma decompose_upstream_sound:
  assumes "decompose_upstream H flow out_p ih eh flds acts = Inr rules"
    and "\<And>h. ih = Some h \<Longrightarrow> h \<in> hops" and "\<And>h. eh = Some h \<Longrightarrow> h \<in> hops"
  shows "rules_sound flow hops rules"
  using assms
  by (auto simp: decompose_upstream_def res_simps split: if_splits elim!: append_hop_flow_sound)

lemma decompose_downstream_sound:
  assumes "decompose_downstream H gr flow gm in_p out_p ih eh flds acts = Inr rules"
    and "\<And>h. ih = Some h \<Longrightarrow> h \<in> router_hops gr"
    and "\<And>h. eh = Some h \<Longrightarrow> h \<in> router_hops gr"
  shows "rules_sound flow (router_hops gr) rules"
  using assms
  by (auto simp: decompose_downstream_def res_simps split: if_splits
      elim!: append_hop_flow_sound decompose_multicast_sound)

lemma decompose_flow_sound_aux:
  assumes "decompose_flow H gr flow gm = Inr rules"
  shows "rules_sound flow (router_hops gr) rules"
proof -
  from assms obtain flds acts r
    where r: "gr (first_in_port flds) (first_output acts) = Inr r" "length r = 2"
    and cases: "if is_controller (first_output acts)
       then decompose_controller_bound H flow (r ! 1) flds = Inr rules
       else decompose_upstream H flow (first_output acts) (r ! 0) (r ! 1) flds acts = Inr rules \<or>
         decompose_downstream H gr flow gm (first_in_port flds) (first_output acts)
           (r ! 0) (r ! 1) flds acts = Inr rules"
    by (fastforce simp: decompose_flow_def res_simps Let_def split: if_splits)
  have hops: "r ! 0 = Some h \<Longrightarrow> h \<in> router_hops gr" "r ! 1 = Some h \<Longrightarrow> h \<in> router_hops gr" for h
    using r by (auto elim: router_hopsI)
  show ?thesis
    using cases hops
    by (auto simp: decompose_controller_bound_def split: if_splits
        elim!: append_hop_flow_sound decompose_upstream_sound decompose_downstream_sound)
qed


section \<open>What the decomposition of the tables produces\<close>

lemma od_get_add_new_flows:
  "od_get k d = Some f \<Longrightarrow> od_get k (add_new_flows fs d) = Some f"
proof (induction fs d rule: add_new_flows.induct)
  case (2 g fs d)
  then show ?case by (cases "k = fs_id g") auto
qed simp

lemma add_new_flows_prefix: "\<exists>rest. add_new_flows fs d = d @ rest"
proof (induction fs d rule: add_new_flows.induct)
  case (1 d)
  then show ?case by simp
next
  case (2 f fs d)
  then show ?case
    by (cases "od_get (fs_id f) d = None") (auto simp: od_simps od_set_distinct_append)
qed

lemma add_new_flows_mem:
  "f \<in> set fs \<Longrightarrow> od_get (fs_id f) (add_new_flows fs d) \<noteq> None"
proof (induction fs d rule: add_new_flows.induct)
  case (1 d)
  then show ?case by simp
next
  case (2 g fs d)
  show ?case
  proof (cases "f \<in> set fs")
    case True
    with 2 show ?thesis by simp
  next
    case False
    with 2 have "f = g" by simp
    then have "od_get (fs_id f) (if od_get (fs_id g) d = None then od_set (fs_id g) g d else d)
        \<noteq> None" by auto
    then show ?thesis using od_get_add_new_flows by fastforce
  qed
qed

definition keyed_by_id :: "(u64, flow_stats) od \<Rightarrow> bool" where
  "keyed_by_id d \<longleftrightarrow> od_wf d \<and> (\<forall>(k, f) \<in> set d. fs_id f = k)"

lemma keyed_by_id_add: "keyed_by_id d \<Longrightarrow> keyed_by_id (add_new_flows fs d)"
proof (induction fs d rule: add_new_flows.induct)
  case (2 f fs d)
  have "keyed_by_id (od_set (fs_id f) f d)"
    using 2(2) by (auto simp: keyed_by_id_def dest!: set_od_set)
  with 2 show ?case by simp
qed simp

text \<open>Well-formed device rules: one entry per device, its flows keyed by their own ids.\<close>

definition device_rules_wf :: "device_rules \<Rightarrow> bool" where
  "device_rules_wf rules \<longleftrightarrow> od_wf rules \<and> (\<forall>(i, fl, gr) \<in> set rules. keyed_by_id fl)"

text \<open>\<open>extends\<close>: every device keeps its flows, in order and in front, and its groups.\<close>

definition extends :: "device_rules \<Rightarrow> device_rules \<Rightarrow> bool" where
  "extends a b \<longleftrightarrow>
     (\<forall>i fl gr. od_get i a = Some (fl, gr) \<longrightarrow> (\<exists>rest. od_get i b = Some (fl @ rest, gr)))"

lemma extends_refl [simp]: "extends a a"
  by (simp add: extends_def)

lemma extends_trans: "extends a b \<Longrightarrow> extends b c \<Longrightarrow> extends a c"
  by (fastforce simp: extends_def)

lemma merge_device_rules_wf:
  assumes "merge_device_rules item rules = Inr rules'" and "device_rules_wf rules"
  shows "device_rules_wf rules'"
proof -
  obtain i fs gs where [simp]: "item = (i, fs, gs)" by (cases item)
  obtain fl gr where x: "(case od_get i rules of None \<Rightarrow> ([], []) | Some x \<Rightarrow> x) = (fl, gr)"
    by (cases "case od_get i rules of None \<Rightarrow> ([], []) | Some x \<Rightarrow> x")
  have "keyed_by_id fl"
    using x assms(2)
    by (auto simp: keyed_by_id_def device_rules_wf_def split: option.splits dest!: od_get_mem)
  moreover have "rules' = od_set i (add_new_flows fs fl, gr) rules"
    using assms(1) x by (simp add: merge_device_rules_def split: if_splits)
  ultimately show ?thesis
    using assms(2) keyed_by_id_add [of fl fs]
    by (auto simp: device_rules_wf_def dest!: set_od_set)
qed

lemma merge_device_rules_extends:
  "merge_device_rules item rules = Inr rules' \<Longrightarrow> extends rules rules'"
  using add_new_flows_prefix
  by (auto simp: merge_device_rules_def extends_def split: prod.splits option.splits if_splits)

lemma decompose_step_extends:
  assumes "py_for merge_device_rules items rules = Inr rules'"
  shows "extends rules rules'"
  by (rule py_for_invariant [OF assms, where P = "extends rules"])
     (auto intro: extends_trans merge_device_rules_extends)

text \<open>The step of the loop over the logical flows, and what it preserves.\<close>

definition decompose_step ::
  "hash_env \<Rightarrow> get_route \<Rightarrow> (u32, group_entry) od \<Rightarrow> flow_stats \<Rightarrow> device_rules
   \<Rightarrow> device_rules res" where
  "decompose_step H gr gm flow rules =
     rbind (decompose_flow H gr flow gm) (\<lambda>frules. py_for merge_device_rules frules rules)"

definition group_map_of :: "group_entry list \<Rightarrow> (u32, group_entry) od" where
  "group_map_of groups = od_of (map (\<lambda>g. (gd_group_id (g_desc g), g)) groups) []"

lemma decompose_rules_alt:
  "decompose_rules H gr defaults flows groups =
     py_for (decompose_step H gr (group_map_of groups)) flows defaults"
  by (simp add: decompose_rules_def decompose_step_def [abs_def] group_map_of_def)

lemma decompose_rules_extends:
  assumes "decompose_rules H gr defaults flows groups = Inr rules"
  shows "extends defaults rules"
  using assms unfolding decompose_rules_alt
  by (rule py_for_invariant)
     (auto simp: decompose_step_def res_simps intro: extends_trans decompose_step_extends)

lemma decompose_rules_wf_aux:
  assumes "decompose_rules H gr defaults flows groups = Inr rules" and "device_rules_wf defaults"
  shows "device_rules_wf rules"
  using assms(1) unfolding decompose_rules_alt
proof (rule py_for_invariant)
  show "device_rules_wf defaults" by (rule assms(2))
  fix flow s s'
  assume wf: "device_rules_wf s" and "decompose_step H gr (group_map_of groups) flow s = Inr s'"
  then obtain fr where "py_for merge_device_rules fr s = Inr s'"
    by (auto simp: decompose_step_def res_simps)
  then show "device_rules_wf s'"
    by (rule py_for_invariant) (auto intro: wf merge_device_rules_wf)
qed

text \<open>
  Which rule the result holds under a device and a flow id: a rule is added only when its id is not
  there yet.
\<close>

definition stored_rule :: "device_rules \<Rightarrow> string \<Rightarrow> u64 \<Rightarrow> flow_stats option" where
  "stored_rule rules i k = (case od_get i rules of None \<Rightarrow> None | Some (fl, gr) \<Rightarrow> od_get k fl)"

definition rules_for :: "string \<Rightarrow> flow_rules \<Rightarrow> flow_stats list" where
  "rules_for i frules = concat (map (\<lambda>(j, fs, gs). if j = i then fs else []) frules)"

definition decomposed_for ::
  "hash_env \<Rightarrow> get_route \<Rightarrow> (u32, group_entry) od \<Rightarrow> flow_stats list \<Rightarrow> string \<Rightarrow> flow_stats list" where
  "decomposed_for H get_route group_map flows i =
     concat (map (\<lambda>flow. case decompose_flow H get_route flow group_map of
                           Inr frules \<Rightarrow> rules_for i frules | Inl _ \<Rightarrow> []) flows)"

abbreviation first_with :: "flow_stats option \<Rightarrow> u64 \<Rightarrow> flow_stats list \<Rightarrow> flow_stats option" where
  "first_with old k fs \<equiv> (case old of Some f \<Rightarrow> Some f | None \<Rightarrow> List.find (\<lambda>f. fs_id f = k) fs)"

lemma find_append: "List.find P (xs @ ys) = (case List.find P xs of Some x \<Rightarrow> Some x | None \<Rightarrow> List.find P ys)"
  by (induction xs) auto

lemma od_get_add_new: "od_get k (add_new_flows fs d) = first_with (od_get k d) k fs"
  by (induction fs d rule: add_new_flows.induct) (auto split: option.splits)

lemma stored_merge:
  "merge_device_rules (j, fs, gs) rules = Inr rules' \<Longrightarrow>
   stored_rule rules' i k = first_with (stored_rule rules i k) k (if j = i then fs else [])"
  by (auto simp: merge_device_rules_def stored_rule_def od_get_add_new split: option.splits if_splits)

lemma stored_merges:
  "py_for merge_device_rules items rules = Inr rules' \<Longrightarrow>
   stored_rule rules' i k = first_with (stored_rule rules i k) k (rules_for i items)"
proof (induction items arbitrary: rules)
  case (Cons item items)
  obtain j fs gs where item: "item = (j, fs, gs)" by (cases item)
  obtain r1 where r1: "merge_device_rules (j, fs, gs) rules = Inr r1"
    and rest: "py_for merge_device_rules items r1 = Inr rules'"
    using Cons.prems by (auto simp: item split: sum.splits)
  show ?case
    using Cons.IH [OF rest] stored_merge [OF r1, of i k]
    by (auto simp: item rules_for_def find_append split: option.splits)
qed (simp add: rules_for_def split: option.splits)

lemma stored_decomposed:
  "py_for (decompose_step H gr gm) flows defaults = Inr rules \<Longrightarrow>
   stored_rule rules i k = first_with (stored_rule defaults i k) k (decomposed_for H gr gm flows i)"
proof (induction flows arbitrary: defaults)
  case (Cons flow flows)
  then obtain r1 where step: "decompose_step H gr gm flow defaults = Inr r1"
    and rest: "py_for (decompose_step H gr gm) flows r1 = Inr rules"
    by (auto split: sum.splits)
  then obtain frules where fr: "decompose_flow H gr flow gm = Inr frules"
    and r1: "py_for merge_device_rules frules defaults = Inr r1"
    by (auto simp: decompose_step_def res_simps)
  show ?case
    using Cons.IH [OF rest] stored_merges [OF r1, of i k]
    by (auto simp: decomposed_for_def fr find_append split: option.splits)
qed (simp add: decomposed_for_def split: option.splits)


section \<open>The interface of the derived class\<close>

text \<open>
  What the decomposer relies on in \<^verbatim>\<open>get_route\<close> of the class it is mixed into: in a state
  that satisfies the class's invariant, a route has two entries and every hop on it is sound.
\<close>

locale router =
  fixes inv :: "'c \<Rightarrow> bool"
    and route :: "'c \<Rightarrow> get_route"
    and hop_sound :: "'c \<Rightarrow> route_hop \<Rightarrow> bool"
  assumes route_hops: "inv c \<Longrightarrow> route c a b = Inr r \<Longrightarrow> Some h \<in> set r \<Longrightarrow> hop_sound c h"
    and route_two: "inv c \<Longrightarrow> route c a b = Inr r \<Longrightarrow> length r = 2"
begin

lemma router_hops_sound: "inv c \<Longrightarrow> h \<in> router_hops (route c) \<Longrightarrow> hop_sound c h"
  by (auto simp: router_hops_def intro: route_hops)

text \<open>Every decomposed rule is for a sound hop.\<close>

lemma decomposed_rule_sound:
  assumes "inv c" and "decompose_flow H (route c) flow gm = Inr rules"
    and "(i, fl, gr) \<in> set rules" and "f \<in> set fl"
  shows "\<exists>h. hop_sound c h \<and> rule_for_hop flow i f h"
proof -
  from decompose_flow_sound_aux [OF assms(2)] assms(3,4)
  obtain h where "h \<in> router_hops (route c)" "rule_for_hop flow i f h"
    by (fastforce simp: rules_sound_def)
  then show ?thesis using router_hops_sound [OF assms(1)] by blast
qed

text \<open>
  A flow that outputs to a port or jumps to a table fails to decompose only where its route is
  missing or lacks the hop it needs: the assertions on the route's length never fire.
\<close>

lemma decompose_unicast_total:
  assumes "inv c" and "get_ofb_fields flow = Inr flds" and "get_actions flow = Some acts"
    and "first_output acts = Some p" and "\<not> is_controller (Some p)" and "\<not> has_next_table flow"
    and "route c (first_in_port flds) (Some p) = Inr r" and "None \<notin> set r"
  shows "\<exists>i f. decompose_flow H (route c) flow gm = Inr [(i, [f], [])]"
proof -
  have len: "length r = 2" by (rule route_two [OF assms(1,7)])
  then obtain x y where xy: "r = [x, y]" by (auto simp: length_Suc_conv numeral_2_eq_2)
  with assms(8) obtain ih eh where r: "r = [Some ih, Some eh]" by (cases x; cases y) auto
  show ?thesis
    using assms(2-7)
    by (auto simp: decompose_flow_def actions_iter_def Let_def r need_def decompose_upstream_def
        decompose_downstream_def append_hop_flow_def append_flow_def)
qed

end


section \<open>A concrete network\<close>

text \<open>
  One OLT (\<^verbatim>\<open>olt\<close>: PON port 1, NNI port 2) and one ONU (\<^verbatim>\<open>onu\<close>: PON port 1, UNI
  port 2), as in \<^verbatim>\<open>ponsim\<close>; logical port 0 is the NNI, logical port 128 the ONU's UNI. The
  digest stands in for MD5: the digits of the hashed text.
\<close>

definition ex_digits :: "oxm_field \<Rightarrow> string" where
  "ex_digits f =
     (case oxm_choice f of
        OfbField g \<Rightarrow>
          (case f_value g of
             Port p \<Rightarrow> str_nat (unat p)
           | Vlan_vid v \<Rightarrow> str_nat (unat v)
           | _ \<Rightarrow> ''f'')
      | _ \<Rightarrow> ''e'')"

definition ex_hash :: hash_env where
  "ex_hash = \<lparr>md5_hexdigest = filter (\<lambda>c. c \<noteq> CHR '',''),
              serialize_match = (\<lambda>m. concat (map ex_digits (oxm_fields m)))\<rparr>"

definition ex_olt :: device where "ex_olt = mk_device ''olt'' True 0"
definition ex_onu :: device where "ex_onu = mk_device ''onu'' False 101"
definition ex_olt_pon :: port where "ex_olt_pon = mk_port ''olt'' 1 PON_OLT [(''onu'', 1)]"
definition ex_olt_nni :: port where "ex_olt_nni = mk_port ''olt'' 2 ETHERNET_NNI []"
definition ex_onu_pon :: port where "ex_onu_pon = mk_port ''onu'' 1 PON_ONU [(''olt'', 1)]"
definition ex_onu_uni :: port where "ex_onu_uni = mk_port ''onu'' 2 ETHERNET_UNI []"

definition ex_up_onu :: route_hop where
  "ex_up_onu = \<lparr>hop_device = ex_onu, ingress_port = ex_onu_uni, egress_port = ex_onu_pon\<rparr>"
definition ex_up_olt :: route_hop where
  "ex_up_olt = \<lparr>hop_device = ex_olt, ingress_port = ex_olt_pon, egress_port = ex_olt_nni\<rparr>"
definition ex_down_olt :: route_hop where
  "ex_down_olt = \<lparr>hop_device = ex_olt, ingress_port = ex_olt_nni, egress_port = ex_olt_pon\<rparr>"
definition ex_down_onu :: route_hop where
  "ex_down_onu = \<lparr>hop_device = ex_onu, ingress_port = ex_onu_pon, egress_port = ex_onu_uni\<rparr>"

definition ex_get_route :: get_route where
  "ex_get_route a b =
     (if a = Some 128 \<and> (b = Some 0 \<or> is_controller b) then Inr [Some ex_up_onu, Some ex_up_olt]
      else if a = Some 0 \<and> b = Some 128 then Inr [Some ex_down_olt, Some ex_down_onu]
      else if a = Some 128 \<and> b = None then Inr [Some ex_up_onu, None]
      else if a = Some 0 \<and> b = None then Inr [Some ex_down_olt, None]
      else Inl KeyError)"

definition ex_flow :: "u32 \<Rightarrow> ofb_field list \<Rightarrow> ofp_action list \<Rightarrow> flow_stats" where
  "ex_flow p flds acts = mk_flow_stat ex_hash (in_port p # flds) acts (kw_prio 1000 7)"

lemmas ex_network =
  ex_hash_def ex_olt_def ex_onu_def ex_olt_pon_def ex_olt_nni_def ex_onu_pon_def ex_onu_uni_def
  ex_up_onu_def ex_up_olt_def ex_down_olt_def ex_down_onu_def

definition ex_up_flow :: flow_stats where
  "ex_up_flow = ex_flow 128 [vlan_vid (OFPVID_PRESENT OR 101)]
     [push_vlan 0x8100, set_field (vlan_vid (OFPVID_PRESENT OR 1000)), output_act 0]"

definition ex_ctl_flow :: flow_stats where
  "ex_ctl_flow = ex_flow 128 [eth_type 0x888e] [output_act OFPP_CONTROLLER]"

lemma ex_decompose_up:
  "decompose_flow ex_hash ex_get_route ex_up_flow gm =
     Inr [(''olt'', [hop_flow ex_hash ex_up_flow ex_up_olt [vlan_vid (OFPVID_PRESENT OR 101)]
            [push_vlan 0x8100, set_field (vlan_vid (OFPVID_PRESENT OR 1000))]], [])]"
  by (simp add: ex_up_flow_def ex_flow_def decompose_flow_def actions_iter_def ex_get_route_def
      is_controller_def need_def ex_up_onu_def ex_up_olt_def ex_onu_def ex_olt_def
      decompose_upstream_def has_next_table_def append_hop_flow_def append_flow_def
      fields_except_def actions_except_def)


section \<open>Properties\<close>

text \<open>
  C1. Whatever the routes are, a rule that \<open>decompose_flow\<close> puts on a device belongs to a hop of a
  route on that very device: it matches the hop's ingress port, its last action is the output to
  the hop's egress port, it carries the logical flow's priority and cookie and no goto-table
  instruction; every listed device has at least one rule and no groups.
\<close>

theorem decompose_flow_sound:
  assumes "decompose_flow H get_route flow group_map = Inr rules"
  shows "od_wf rules \<and>
    (\<forall>(i, fl, gr) \<in> set rules. gr = [] \<and> fl \<noteq> [] \<and>
       (\<forall>f \<in> set fl. \<exists>h \<in> router_hops get_route. rule_for_hop flow i f h))"
  using decompose_flow_sound_aux [OF assms] by (simp add: rules_sound_def)

theorem decompose_flow_sound_witness:
  "\<exists>h \<in> router_hops ex_get_route. rule_for_hop ex_up_flow ''olt''
     (hop_flow ex_hash ex_up_flow ex_up_olt [vlan_vid (OFPVID_PRESENT OR 101)]
        [push_vlan 0x8100, set_field (vlan_vid (OFPVID_PRESENT OR 1000))]) h"
  using decompose_flow_sound [OF ex_decompose_up [of "[]"]] by simp

text \<open>
  \<open>decompose_rules\<close> only adds: each device that has default rules keeps all of them, in their
  order and in front of the decomposed ones (so a decomposed flow never displaces a default flow
  with the same id), and keeps its groups.
\<close>

theorem decompose_rules_keeps_defaults:
  assumes "decompose_rules H get_route defaults flows groups = Inr rules"
    and "od_get i defaults = Some (fl, gr)"
  shows "\<exists>rest. od_get i rules = Some (fl @ rest, gr)"
  using decompose_rules_extends [OF assms(1)] assms(2) unfolding extends_def by blast

theorem decompose_rules_keeps_defaults_witness:
  "\<exists>rest. od_get ''olt''
     (case decompose_rules ex_hash ex_get_route [(''olt'', [(3, ex_ctl_flow)], [])] [ex_up_flow] []
      of Inr rules \<Rightarrow> rules | Inl _ \<Rightarrow> []) = Some ([(3, ex_ctl_flow)] @ rest, [])"
proof -
  obtain rules where r: "decompose_rules ex_hash ex_get_route
      [(''olt'', [(3, ex_ctl_flow)], [])] [ex_up_flow] [] = Inr rules"
    by (simp add: decompose_rules_def ex_decompose_up merge_device_rules_def)
  show ?thesis using decompose_rules_keeps_defaults [OF r, of "''olt''"] r by simp
qed

text \<open>
  The rules of every device stay a dictionary keyed by flow id: no id occurs twice and each
  flow is stored under its own id.
\<close>

theorem decompose_rules_wf:
  assumes "decompose_rules H get_route defaults flows groups = Inr rules"
    and "device_rules_wf defaults"
  shows "device_rules_wf rules"
  using assms by (rule decompose_rules_wf_aux)

theorem decompose_rules_wf_witness:
  "device_rules_wf
     (case decompose_rules ex_hash ex_get_route [] [ex_up_flow] [] of Inr r \<Rightarrow> r | Inl _ \<Rightarrow> [])"
proof -
  obtain rules where r: "decompose_rules ex_hash ex_get_route [] [ex_up_flow] [] = Inr rules"
    by (simp add: decompose_rules_def ex_decompose_up merge_device_rules_def)
  have "device_rules_wf []" by (simp add: device_rules_wf_def)
  from decompose_rules_wf [OF r this] r show ?thesis by simp
qed

text \<open>
  C2. What the result holds, exactly: under a device and a flow id it has the default rule with that
  id if there is one, and otherwise the first rule with that id which the logical flows decompose
  into for that device, in the order of the flows. So every decomposed rule whose id is new is there
  itself, a later rule with an id that is taken is dropped (the id does not depend on the actions),
  and there is no rule that is neither a default nor decomposed.
\<close>

theorem decompose_rules_complete:
  assumes "decompose_rules H get_route defaults flows groups = Inr rules"
  shows "stored_rule rules i k =
    (case stored_rule defaults i k of
       Some f \<Rightarrow> Some f
     | None \<Rightarrow> List.find (\<lambda>f. fs_id f = k) (decomposed_for H get_route (group_map_of groups) flows i))"
  using assms unfolding decompose_rules_alt by (rule stored_decomposed)

theorem decompose_rules_complete_witness:
  "\<exists>rules f. decompose_rules ex_hash ex_get_route [] [ex_up_flow] [] = Inr rules \<and>
     f = hop_flow ex_hash ex_up_flow ex_up_olt [vlan_vid (OFPVID_PRESENT OR 101)]
       [push_vlan 0x8100, set_field (vlan_vid (OFPVID_PRESENT OR 1000))] \<and>
     stored_rule rules ''olt'' (fs_id f) = Some f"
proof -
  obtain rules where r: "decompose_rules ex_hash ex_get_route [] [ex_up_flow] [] = Inr rules"
    by (simp add: decompose_rules_def ex_decompose_up merge_device_rules_def)
  from decompose_rules_complete [OF r, of "''olt''"] r show ?thesis
    by (simp add: stored_rule_def decomposed_for_def ex_decompose_up rules_for_def)
qed

text \<open>
  A flow that outputs to the controller becomes exactly one rule, on the device of the egress
  hop: match the hop's ingress port and the flow's other fields but the VLAN id, push a tag, set it
  to the in-band VLAN 4000 and send it to the hop's egress port. The ingress device gets no rule.
\<close>

theorem decompose_controller_flow:
  assumes "get_ofb_fields flow = Inr flds" and "get_actions flow = Some acts"
    and "is_controller (first_output acts)"
    and "get_route (first_in_port flds) (first_output acts) = Inr [ih, Some eh]"
  shows "decompose_flow H get_route flow group_map =
    Inr [(d_id (hop_device eh),
          [mk_flow_stat H
             (in_port (p_port_no (ingress_port eh)) # fields_except [IN_PORT, VLAN_VID] flds)
             [push_vlan 0x8100, set_field (vlan_vid 0x1fa0),
              output_act (p_port_no (egress_port eh))]
             (kw_prio (fs_priority flow) (fs_cookie flow))], [])]"
  using assms
  by (simp add: decompose_flow_def actions_iter_def Let_def decompose_controller_bound_def
      append_hop_flow_def need_def append_flow_def hop_flow_def)

theorem decompose_controller_flow_witness:
  "decompose_flow ex_hash ex_get_route ex_ctl_flow [] =
    Inr [(''olt'',
          [mk_flow_stat ex_hash [in_port 1, eth_type 0x888e]
             [push_vlan 0x8100, set_field (vlan_vid 0x1fa0), output_act 2]
             (kw_prio 1000 7)], [])]"
proof -
  have f: "get_ofb_fields ex_ctl_flow = Inr [in_port 128, eth_type 0x888e]"
    "get_actions ex_ctl_flow = Some [output_act OFPP_CONTROLLER]"
    by (simp_all add: ex_ctl_flow_def ex_flow_def)
  have "decompose_flow ex_hash ex_get_route ex_ctl_flow [] = Inr [(d_id (hop_device ex_up_olt),
          [mk_flow_stat ex_hash
             (in_port (p_port_no (ingress_port ex_up_olt))
              # fields_except [IN_PORT, VLAN_VID] [in_port 128, eth_type 0x888e])
             [push_vlan 0x8100, set_field (vlan_vid 0x1fa0),
              output_act (p_port_no (egress_port ex_up_olt))]
             (kw_prio (fs_priority ex_ctl_flow) (fs_cookie ex_ctl_flow))], [])]"
    by (rule decompose_controller_flow [OF f])
       (simp_all add: is_controller_def ex_get_route_def)
  then show ?thesis
    by (simp add: ex_up_olt_def ex_olt_def ex_olt_pon_def ex_olt_nni_def ex_ctl_flow_def
        ex_flow_def fields_except_def ofb_generators)
qed

end
