(* ===== verification/DeviceGraph.thy ===== *)
theory DeviceGraph
  imports FlowDecomposer
begin

text \<open>
  \<^verbatim>\<open>voltha/core/device_graph.py\<close>: discovering the devices and ports behind a logical device
  and computing the routes between its logical ports.

  A node of the graph is a device id or a pair of a device id and a port number; the attributes
  are those the code stores. \<^verbatim>\<open>root_proxy.get('/devices/...')\<close> is a pair of lookups
  (\<open>dev_proxy\<close>). \<^verbatim>\<open>networkx.shortest_path\<close> is a parameter; the properties that need it
  assume only that what it returns is a path of the graph. The nested function \<^verbatim>\<open>add_device\<close>
  recurses along peer links; \<open>fuel\<close> is the depth the interpreter allows, and running out of it is
  the interpreter's recursion error. \<open>add_device_enough_fuel\<close> shows that one level per known
  device is enough.
\<close>

section \<open>The graph\<close>

datatype gnode = DevNode string | PortNode string u32

datatype gattr = NoAttr | DevAttr device | PortAttr port bool

record graph =
  g_nodes :: "(gnode, gattr) od"
  g_edges :: "(gnode \<times> gnode) list"

definition add_node :: "gnode \<Rightarrow> gattr \<Rightarrow> graph \<Rightarrow> graph" where
  "add_node n a g = g\<lparr>g_nodes := od_set n a (g_nodes g)\<rparr>"

definition add_edge :: "gnode \<Rightarrow> gnode \<Rightarrow> graph \<Rightarrow> graph" where
  "add_edge m n g =
     g\<lparr>g_nodes := od_setdefault n NoAttr (od_setdefault m NoAttr (g_nodes g)),
       g_edges := (if (m, n) \<in> set (g_edges g) \<or> (n, m) \<in> set (g_edges g) then g_edges g
                   else g_edges g @ [(m, n)])\<rparr>"

definition linked :: "graph \<Rightarrow> gnode \<Rightarrow> gnode \<Rightarrow> bool" where
  "linked g m n \<longleftrightarrow> (m, n) \<in> set (g_edges g) \<or> (n, m) \<in> set (g_edges g)"

record dev_proxy =
  get_device :: "string \<Rightarrow> device res"
  get_ports :: "string \<Rightarrow> port list res"

type_synonym port_id = "string \<times> u32"
type_synonym boundary = "(port_id, u32) od"
type_synonym routes = "(u32 \<times> u32, route) od"
type_synonym shortest_path = "graph \<Rightarrow> gnode \<Rightarrow> gnode \<Rightarrow> gnode list res"

record gstate =
  gs_graph :: graph
  devices_added :: "string list"
  peer_links :: "(port_id \<times> port_id) list"

definition port_node :: "port_id \<Rightarrow> gnode" where
  "port_node p = PortNode (fst p) (snd p)"

text \<open>\<^verbatim>\<open>port_id < peer_port_id\<close>: Python's order on tuples of a string and an integer.\<close>

definition port_less :: "port_id \<Rightarrow> port_id \<Rightarrow> bool" where
  "port_less p q =
     (let a = map of_char (fst p) :: nat list; b = map of_char (fst q)
      in ord_class.lexordp a b \<or> a = b \<and> snd p < snd q)"

definition add_peer_link :: "port_id \<Rightarrow> port_id \<Rightarrow> gstate \<Rightarrow> gstate" where
  "add_peer_link port_id peer_port_id s =
     (let link = (if port_less port_id peer_port_id then (port_id, peer_port_id)
                  else (peer_port_id, port_id))
      in if link \<in> set (peer_links s) then s
         else s\<lparr>gs_graph := add_edge (port_node (fst link)) (port_node (snd link)) (gs_graph s),
                peer_links := link # peer_links s\<rparr>)"

definition visit_peer ::
  "(device \<Rightarrow> gstate \<Rightarrow> gstate res) \<Rightarrow> dev_proxy \<Rightarrow> port_id \<Rightarrow> peer_port \<Rightarrow> gstate
   \<Rightarrow> gstate res" where
  "visit_peer add_device P port_id peer s =
     (if pp_device_id peer \<notin> set (devices_added s)
      then rbind (get_device P (pp_device_id peer)) (\<lambda>peer_device. add_device peer_device s)
      else Inr (add_peer_link port_id (pp_device_id peer, pp_port_no peer) s))"

text \<open>\<^verbatim>\<open>ports_added\<close> is never filled in the source, so its test always succeeds.\<close>

definition visit_port ::
  "(device \<Rightarrow> gstate \<Rightarrow> gstate res) \<Rightarrow> dev_proxy \<Rightarrow> boundary \<Rightarrow> string \<Rightarrow> port \<Rightarrow> gstate
   \<Rightarrow> gstate res" where
  "visit_port add_device P boundary device_id port s =
     (let port_id = (device_id, p_port_no port);
          bnd = (od_get port_id boundary \<noteq> None);
          g = add_edge (DevNode device_id) (port_node port_id)
                (add_node (port_node port_id) (PortAttr port bnd) (gs_graph s))
      in py_for (visit_peer add_device P port_id) (p_peers port) (s\<lparr>gs_graph := g\<rparr>))"

fun add_device ::
  "nat \<Rightarrow> dev_proxy \<Rightarrow> boundary \<Rightarrow> device \<Rightarrow> gstate \<Rightarrow> gstate res" where
  "add_device 0 P boundary device s = Inl RecursionError"
| "add_device (Suc fuel) P boundary device s =
     (if d_id device \<in> set (devices_added s) then Inr s
      else
        let s1 = s\<lparr>gs_graph := add_node (DevNode (d_id device)) (DevAttr device) (gs_graph s),
                   devices_added := d_id device # devices_added s\<rparr>
        in rbind (get_ports P (d_id device))
             (\<lambda>ports. py_for (visit_port (add_device fuel P boundary) P boundary (d_id device))
                        ports s1))"

definition boundary_ports_of :: "logical_port list \<Rightarrow> boundary" where
  "boundary_ports_of lps =
     od_of (map (\<lambda>lp. ((lp_device_id lp, lp_device_port_no lp), op_port_no (lp_ofp_port lp))) lps) []"

definition init_gstate :: gstate where
  "init_gstate = \<lparr>gs_graph = \<lparr>g_nodes = [], g_edges = []\<rparr>, devices_added = [], peer_links = []\<rparr>"

definition build_graph ::
  "nat \<Rightarrow> dev_proxy \<Rightarrow> logical_port list \<Rightarrow> (boundary \<times> graph) res" where
  "build_graph fuel P logical_ports =
     (let boundary_ports = boundary_ports_of logical_ports
      in rbind (py_for (\<lambda>lp s. rbind (get_device P (lp_device_id lp))
                                 (\<lambda>device. add_device fuel P boundary_ports device s))
                  logical_ports init_gstate)
           (\<lambda>s. Inr (boundary_ports, gs_graph s)))"


section \<open>The routes\<close>

definition node_device :: "graph \<Rightarrow> gnode \<Rightarrow> device res" where
  "node_device g n =
     (case od_get n (g_nodes g) of Some (DevAttr d) \<Rightarrow> Inr d | _ \<Rightarrow> Inl KeyError)"

definition node_port :: "graph \<Rightarrow> gnode \<Rightarrow> port res" where
  "node_port g n =
     (case od_get n (g_nodes g) of Some (PortAttr p b) \<Rightarrow> Inr p | _ \<Rightarrow> Inl KeyError)"

definition mk_hop :: "graph \<Rightarrow> gnode \<Rightarrow> gnode \<Rightarrow> gnode \<Rightarrow> route_hop res" where
  "mk_hop g input_port device output_port =
     rbind (node_device g device) (\<lambda>d.
     rbind (node_port g input_port) (\<lambda>i.
     rbind (node_port g output_port) (\<lambda>e.
       Inr \<lparr>hop_device = d, ingress_port = i, egress_port = e\<rparr>)))"

definition route_of_path :: "graph \<Rightarrow> gnode list \<Rightarrow> route res" where
  "route_of_path g path =
     (case path of
        [ip1, d1, op1, ip2, d2, op2] \<Rightarrow>
          rbind (mk_hop g ip1 d1 op1) (\<lambda>ih.
          rbind (mk_hop g ip2 d2 op2) (\<lambda>eh. Inr [Some ih, Some eh]))
      | _ \<Rightarrow> Inl AssertionError)"

definition add_route ::
  "shortest_path \<Rightarrow> graph \<Rightarrow> port_id \<times> u32 \<Rightarrow> port_id \<times> u32 \<Rightarrow> routes \<Rightarrow> routes res" where
  "add_route sp g src tgt routes =
     (if fst src = fst tgt then Inr routes
      else rbind (sp g (port_node (fst src)) (port_node (fst tgt))) (\<lambda>path.
        if length path mod 3 \<noteq> 0 then Inr routes
        else rbind (route_of_path g path)
               (\<lambda>r. Inr (od_set (snd src, snd tgt) r routes))))"

definition build_routes :: "shortest_path \<Rightarrow> boundary \<Rightarrow> graph \<Rightarrow> routes res" where
  "build_routes sp boundary_ports g =
     py_for (\<lambda>src. py_for (add_route sp g src) boundary_ports) boundary_ports []"

definition compute_routes ::
  "nat \<Rightarrow> shortest_path \<Rightarrow> dev_proxy \<Rightarrow> logical_port list \<Rightarrow> (graph \<times> routes) res" where
  "compute_routes fuel sp P logical_ports =
     rbind (build_graph fuel P logical_ports) (\<lambda>(boundary_ports, g).
     rbind (build_routes sp boundary_ports g) (\<lambda>routes. Inr (g, routes)))"


section \<open>Fuel: one level per known device\<close>

text \<open>
  A finite device table: every id of it has a device of that id and a list of ports, and the peers
  of the ports are devices of the table.
\<close>

definition dev_table :: "dev_proxy \<Rightarrow> string set \<Rightarrow> bool" where
  "dev_table P D \<longleftrightarrow> finite D \<and>
     (\<forall>i \<in> D. \<exists>d ps. get_device P i = Inr d \<and> d_id d = i \<and> get_ports P i = Inr ps \<and>
        (\<forall>p \<in> set ps. \<forall>q \<in> set (p_peers p). pp_device_id q \<in> D))"

definition unvisited :: "string set \<Rightarrow> gstate \<Rightarrow> nat" where
  "unvisited D s = card (D - set (devices_added s))"

lemma unvisited_mono:
  "finite D \<Longrightarrow> set (devices_added s) \<subseteq> set (devices_added s') \<Longrightarrow> unvisited D s' \<le> unvisited D s"
  by (auto simp: unvisited_def intro!: card_mono)

text \<open>
  \<open>runs D n f\<close>: from a state with fewer than \<open>n\<close> devices to visit, \<open>f\<close> returns, and there are no
  more to visit afterwards.
\<close>

definition runs :: "string set \<Rightarrow> nat \<Rightarrow> (gstate \<Rightarrow> gstate res) \<Rightarrow> bool" where
  "runs D n f \<longleftrightarrow>
     (\<forall>s. unvisited D s < n \<longrightarrow> (\<exists>s'. f s = Inr s' \<and> unvisited D s' \<le> unvisited D s))"

lemma runsD: "runs D n f \<Longrightarrow> unvisited D s < n \<Longrightarrow> \<exists>s'. f s = Inr s' \<and> unvisited D s' \<le> unvisited D s"
  by (simp add: runs_def)

lemma runs_for:
  assumes "\<And>x. x \<in> set xs \<Longrightarrow> runs D n (f x)"
  shows "runs D n (py_for f xs)"
  unfolding runs_def
proof (intro allI impI)
  fix s assume un: "unvisited D s < n"
  show "\<exists>s'. py_for f xs s = Inr s' \<and> unvisited D s' \<le> unvisited D s"
  proof (rule py_for_total [where I = "\<lambda>t. unvisited D t \<le> unvisited D s"])
    fix x t assume "x \<in> set xs" and t: "unvisited D t \<le> unvisited D s"
    then show "\<exists>t'. f x t = Inr t' \<and> unvisited D t' \<le> unvisited D s"
      using runsD [OF assms, of x t] un by fastforce
  qed simp
qed

lemma visit_peer_runs:
  assumes "dev_table P D" and "pp_device_id peer \<in> D"
    and rec: "\<And>d. d_id d \<in> D \<Longrightarrow> runs D n (rec d)"
  shows "runs D n (visit_peer rec P pid peer)"
proof -
  from assms(1,2) obtain d where d: "get_device P (pp_device_id peer) = Inr d" "d_id d \<in> D"
    by (auto simp: dev_table_def)
  have "unvisited D (add_peer_link a b s) = unvisited D s" for a b s
    by (simp add: add_peer_link_def unvisited_def Let_def)
  then show ?thesis
    using d rec [OF d(2)] by (auto simp: visit_peer_def runs_def)
qed

lemma visit_port_runs:
  assumes "dev_table P D" and "\<forall>q \<in> set (p_peers port). pp_device_id q \<in> D"
    and "\<And>d. d_id d \<in> D \<Longrightarrow> runs D n (rec d)"
  shows "runs D n (visit_port rec P b i port)"
proof -
  have loop: "runs D n (py_for (visit_peer rec P pid) (p_peers port))" for pid
    by (rule runs_for) (use assms in \<open>auto intro: visit_peer_runs\<close>)
  have "unvisited D (s\<lparr>gs_graph := g\<rparr>) = unvisited D s" for g s
    by (simp add: unvisited_def)
  then show ?thesis
    unfolding runs_def visit_port_def Let_def using loop [unfolded runs_def] by metis
qed

lemma add_device_runs:
  assumes T: "dev_table P D"
  shows "d_id d \<in> D \<Longrightarrow> runs D fuel (add_device fuel P b d)"
proof (induction fuel arbitrary: d)
  case 0
  then show ?case by (simp add: runs_def)
next
  case (Suc fuel)
  from T Suc.prems obtain ps where ps: "get_ports P (d_id d) = Inr ps"
    and peers: "\<forall>p \<in> set ps. \<forall>q \<in> set (p_peers p). pp_device_id q \<in> D"
    by (fastforce simp: dev_table_def)
  have loop: "runs D fuel (py_for (visit_port (add_device fuel P b) P b (d_id d)) ps)"
    using peers by (intro runs_for visit_port_runs [OF T _ Suc.IH]) auto
  have "\<exists>s'. add_device (Suc fuel) P b d s = Inr s' \<and> unvisited D s' \<le> unvisited D s"
    if un: "unvisited D s < Suc fuel" for s
  proof (cases "d_id d \<in> set (devices_added s)")
    case True
    then show ?thesis by simp
  next
    case False
    define s1 where "s1 = s\<lparr>gs_graph := add_node (DevNode (d_id d)) (DevAttr d) (gs_graph s),
                   devices_added := d_id d # devices_added s\<rparr>"
    have "D - set (devices_added s1) \<subset> D - set (devices_added s)"
      using False Suc.prems by (auto simp: s1_def)
    then have less: "unvisited D s1 < unvisited D s"
      using T by (auto simp: unvisited_def dev_table_def intro: psubset_card_mono)
    then obtain s' where "py_for (visit_port (add_device fuel P b) P b (d_id d)) ps s1 = Inr s'"
      "unvisited D s' \<le> unvisited D s1" using runsD [OF loop, of s1] un by auto
    with less False ps show ?thesis by (auto simp: s1_def Let_def)
  qed
  then show ?case by (simp add: runs_def)
qed

lemma build_graph_total:
  assumes T: "dev_table P D" and fuel: "card D < fuel"
    and lps: "\<forall>lp \<in> set lps. lp_device_id lp \<in> D"
  shows "\<exists>g. build_graph fuel P lps = Inr (boundary_ports_of lps, g)"
proof -
  let ?f = "\<lambda>lp s. rbind (get_device P (lp_device_id lp))
              (\<lambda>device. add_device fuel P (boundary_ports_of lps) device s)"
  have "runs D fuel (py_for ?f lps)"
  proof (rule runs_for)
    fix lp assume "lp \<in> set lps"
    with lps have "lp_device_id lp \<in> D" by blast
    with T obtain d where "get_device P (lp_device_id lp) = Inr d" "d_id d \<in> D"
      by (auto simp: dev_table_def)
    then show "runs D fuel (?f lp)" using add_device_runs [OF T] by (simp add: runs_def)
  qed
  then obtain s where "py_for ?f lps init_gstate = Inr s"
    using runsD [of D fuel _ init_gstate] fuel by (fastforce simp: unvisited_def init_gstate_def)
  then show ?thesis by (simp add: build_graph_def Let_def)
qed


section \<open>Well-formed graphs\<close>

text \<open>
  What the graph says of the device tables: a device node carries the device of that id; a port
  node carries one of the ports of its device, with its number; edges join a device to its own
  ports or two ports.
\<close>

fun node_ok :: "dev_proxy \<Rightarrow> gnode \<times> gattr \<Rightarrow> bool" where
  "node_ok P (DevNode i, DevAttr d) = (d_id d = i)"
| "node_ok P (PortNode i n, PortAttr p b) =
     (p_port_no p = n \<and> (case get_ports P i of Inr ps \<Rightarrow> p \<in> set ps | Inl _ \<Rightarrow> False))"
| "node_ok P (n, NoAttr) = True"
| "node_ok P (n, a) = False"

fun edge_ok :: "gnode \<times> gnode \<Rightarrow> bool" where
  "edge_ok (DevNode i, PortNode j n) = (i = j)"
| "edge_ok (PortNode i m, PortNode j n) = True"
| "edge_ok e = False"

definition graph_ok :: "dev_proxy \<Rightarrow> graph \<Rightarrow> bool" where
  "graph_ok P g \<longleftrightarrow> list_all (node_ok P) (g_nodes g) \<and> list_all edge_ok (g_edges g)"

lemma graph_ok_add_node: "graph_ok P g \<Longrightarrow> node_ok P (n, a) \<Longrightarrow> graph_ok P (add_node n a g)"
  by (auto simp: graph_ok_def add_node_def list_all_iff dest!: set_od_set)

lemma graph_ok_add_edge:
  assumes "graph_ok P g" and "edge_ok (m, n)"
  shows "graph_ok P (add_edge m n g)"
proof -
  have "list_all (node_ok P) (od_setdefault k NoAttr ns)" if "list_all (node_ok P) ns" for k ns
    using that by (auto simp: od_setdefault_def list_all_iff dest!: set_od_set)
  with assms show ?thesis by (auto simp: graph_ok_def add_edge_def)
qed

lemma visit_peer_ok:
  assumes "visit_peer rec P pid peer s = Inr s'" and "graph_ok P (gs_graph s)"
    and "\<And>d s s'. rec d s = Inr s' \<Longrightarrow> graph_ok P (gs_graph s) \<Longrightarrow> graph_ok P (gs_graph s')"
  shows "graph_ok P (gs_graph s')"
proof (cases "pp_device_id peer \<notin> set (devices_added s)")
  case True
  with assms show ?thesis by (auto simp: visit_peer_def res_simps)
next
  case False
  with assms(1,2) show ?thesis
    by (auto simp: visit_peer_def add_peer_link_def Let_def port_node_def graph_ok_add_edge
        split: if_splits)
qed

lemma visit_port_ok:
  assumes "visit_port rec P b i port s = Inr s'" and "graph_ok P (gs_graph s)"
    and "get_ports P i = Inr ports" and "port \<in> set ports"
    and "\<And>d s s'. rec d s = Inr s' \<Longrightarrow> graph_ok P (gs_graph s) \<Longrightarrow> graph_ok P (gs_graph s')"
  shows "graph_ok P (gs_graph s')"
proof -
  define g where "g = add_edge (DevNode i) (PortNode i (p_port_no port))
    (add_node (PortNode i (p_port_no port))
      (PortAttr port (od_get (i, p_port_no port) b \<noteq> None)) (gs_graph s))"
  have "py_for (visit_peer rec P (i, p_port_no port)) (p_peers port) (s\<lparr>gs_graph := g\<rparr>) = Inr s'"
    using assms(1) by (simp add: visit_port_def Let_def port_node_def g_def)
  then show ?thesis
  proof (rule py_for_invariant [where P = "\<lambda>s. graph_ok P (gs_graph s)"])
    show "graph_ok P (gs_graph (s\<lparr>gs_graph := g\<rparr>))"
      using assms(2,3,4) by (simp add: g_def graph_ok_add_edge graph_ok_add_node)
  qed (auto intro: visit_peer_ok assms(5))
qed

lemma add_device_ok:
  "add_device fuel P b d s = Inr s' \<Longrightarrow> graph_ok P (gs_graph s) \<Longrightarrow> graph_ok P (gs_graph s')"
proof (induction fuel arbitrary: d s s')
  case 0
  then show ?case by simp
next
  case (Suc fuel)
  show ?case
  proof (cases "d_id d \<in> set (devices_added s)")
    case True
    with Suc.prems show ?thesis by simp
  next
    case False
    define s1 where "s1 = s\<lparr>gs_graph := add_node (DevNode (d_id d)) (DevAttr d) (gs_graph s),
                   devices_added := d_id d # devices_added s\<rparr>"
    from False Suc.prems obtain ports
      where ports: "get_ports P (d_id d) = Inr ports"
        and "py_for (visit_port (add_device fuel P b) P b (d_id d)) ports s1 = Inr s'"
      by (auto simp: res_simps s1_def)
    from this(2) show ?thesis
    proof (rule py_for_invariant [where P = "\<lambda>s. graph_ok P (gs_graph s)"])
      show "graph_ok P (gs_graph s1)"
        using Suc.prems(2) by (simp add: s1_def graph_ok_add_node)
    qed (auto intro: visit_port_ok [OF _ _ ports] Suc.IH)
  qed
qed

lemma build_graph_ok:
  assumes "build_graph fuel P lps = Inr (b, g)"
  shows "graph_ok P g \<and> b = boundary_ports_of lps"
proof -
  from assms obtain s where
    "py_for (\<lambda>lp s. rbind (get_device P (lp_device_id lp))
        (\<lambda>device. add_device fuel P (boundary_ports_of lps) device s)) lps init_gstate = Inr s"
    and g: "g = gs_graph s" and b: "b = boundary_ports_of lps"
    by (auto simp: build_graph_def Let_def res_simps)
  from this(1) have "graph_ok P (gs_graph s)"
  proof (rule py_for_invariant)
    show "graph_ok P (gs_graph init_gstate)" by (simp add: init_gstate_def graph_ok_def)
  qed (auto simp: res_simps intro: add_device_ok)
  with g b show ?thesis by simp
qed


section \<open>Well-formed routes\<close>

text \<open>What is asked of \<^verbatim>\<open>networkx.shortest_path\<close>: it returns a path of the graph.\<close>

definition returns_paths :: "shortest_path \<Rightarrow> bool" where
  "returns_paths sp \<longleftrightarrow>
     (\<forall>g s t p. sp g s t = Inr p \<longrightarrow>
        p \<noteq> [] \<and> hd p = s \<and> last p = t \<and> successively (linked g) p)"

text \<open>A hop is made of one device and two of its own ports.\<close>

definition hop_ok :: "dev_proxy \<Rightarrow> route_hop \<Rightarrow> bool" where
  "hop_ok P h \<longleftrightarrow>
     (case get_ports P (d_id (hop_device h)) of Inl _ \<Rightarrow> False
      | Inr ps \<Rightarrow> ingress_port h \<in> set ps \<and> egress_port h \<in> set ps)"

definition hop_in :: "route_hop \<Rightarrow> port_id" where
  "hop_in h = (d_id (hop_device h), p_port_no (ingress_port h))"

definition hop_out :: "route_hop \<Rightarrow> port_id" where
  "hop_out h = (d_id (hop_device h), p_port_no (egress_port h))"

lemma graph_ok_node: "graph_ok P g \<Longrightarrow> od_get n (g_nodes g) = Some a \<Longrightarrow> node_ok P (n, a)"
  by (auto simp: graph_ok_def list_all_iff dest: od_get_mem)

lemma graph_ok_linked_dev:
  "graph_ok P g \<Longrightarrow> linked g (DevNode i) n \<Longrightarrow> \<exists>k. n = PortNode i k"
  by (cases n) (auto simp: graph_ok_def linked_def list_all_iff)

lemma linked_sym: "linked g m n \<longleftrightarrow> linked g n m"
  by (auto simp: linked_def)

lemma mk_hop_ok:
  assumes ok: "graph_ok P g" and hop: "mk_hop g ip d out = Inr h"
    and l: "linked g ip d" "linked g d out"
  shows "hop_ok P h \<and> port_node (hop_in h) = ip \<and> port_node (hop_out h) = out"
proof -
  from hop obtain dev pi bi po bo
    where n: "od_get d (g_nodes g) = Some (DevAttr dev)" "od_get ip (g_nodes g) = Some (PortAttr pi bi)"
      "od_get out (g_nodes g) = Some (PortAttr po bo)"
      and h: "h = \<lparr>hop_device = dev, ingress_port = pi, egress_port = po\<rparr>"
    by (auto simp: mk_hop_def node_device_def node_port_def res_simps
        split: option.splits gattr.splits)
  have d: "d = DevNode (d_id dev)" using graph_ok_node [OF ok n(1)] by (cases d) auto
  obtain a b where ab: "ip = PortNode (d_id dev) a" "out = PortNode (d_id dev) b"
    using l graph_ok_linked_dev [OF ok] linked_sym unfolding d by blast
  show ?thesis
    using graph_ok_node [OF ok n(2)] graph_ok_node [OF ok n(3)] ab
    by (auto simp: h hop_ok_def hop_in_def hop_out_def port_node_def split: sum.splits)
qed

definition route_ok :: "dev_proxy \<Rightarrow> boundary \<Rightarrow> graph \<Rightarrow> (u32 \<times> u32) \<times> route \<Rightarrow> bool" where
  "route_ok P b g e \<longleftrightarrow>
     (case e of ((p, q), r) \<Rightarrow>
        \<exists>ih eh. r = [Some ih, Some eh] \<and> hop_ok P ih \<and> hop_ok P eh \<and>
          (hop_in ih, p) \<in> set b \<and> (hop_out eh, q) \<in> set b \<and>
          linked g (port_node (hop_out ih)) (port_node (hop_in eh)))"

lemma port_node_inject [simp]: "port_node p = port_node q \<longleftrightarrow> p = q"
  by (auto simp: port_node_def prod_eq_iff)

lemma route_of_path_ok:
  assumes ok: "graph_ok P g" and r: "route_of_path g path = Inr r"
    and path: "successively (linked g) path" "hd path = port_node src" "last path = port_node tgt"
    and b: "(src, p) \<in> set b" "(tgt, q) \<in> set b"
  shows "route_ok P b g ((p, q), r)"
proof -
  from r obtain ip1 d1 op1 ip2 d2 op2 ih eh
    where p: "path = [ip1, d1, op1, ip2, d2, op2]" and hops: "mk_hop g ip1 d1 op1 = Inr ih"
      "mk_hop g ip2 d2 op2 = Inr eh" and r': "r = [Some ih, Some eh]"
    by (auto simp: route_of_path_def res_simps split: list.splits)
  have "hop_ok P ih \<and> port_node (hop_in ih) = ip1 \<and> port_node (hop_out ih) = op1"
    "hop_ok P eh \<and> port_node (hop_in eh) = ip2 \<and> port_node (hop_out eh) = op2"
    using mk_hop_ok [OF ok hops(1)] mk_hop_ok [OF ok hops(2)] path(1) by (auto simp: p)
  with path b show ?thesis
    by (auto simp: route_ok_def r' p)
qed

lemma add_route_ok:
  assumes ok: "graph_ok P g" and sp: "returns_paths sp"
    and add: "add_route sp g src tgt rs = Inr rs'"
    and b: "src \<in> set b" "tgt \<in> set b" and rs: "list_all (route_ok P b g) rs"
  shows "list_all (route_ok P b g) rs'"
proof -
  from add consider "rs' = rs"
    | path r where "sp g (port_node (fst src)) (port_node (fst tgt)) = Inr path"
        "route_of_path g path = Inr r" "rs' = od_set (snd src, snd tgt) r rs"
    by (auto simp: add_route_def res_simps split: if_splits)
  then show ?thesis
  proof cases
    case 1
    with rs show ?thesis by simp
  next
    case 2
    have "route_ok P b g ((snd src, snd tgt), r)"
      using sp [unfolded returns_paths_def, rule_format, OF 2(1)] b
      by (intro route_of_path_ok [OF ok 2(2)]) auto
    with 2(3) rs show ?thesis by (auto simp: list_all_iff dest!: set_od_set)
  qed
qed

lemma build_routes_ok:
  assumes "graph_ok P g" and "returns_paths sp" and "build_routes sp b g = Inr rs"
  shows "list_all (route_ok P b g) rs"
  using assms(3) unfolding build_routes_def
proof (rule py_for_invariant)
  fix src rs rs' assume src: "src \<in> set b" and rs: "list_all (route_ok P b g) rs"
    and "py_for (add_route sp g src) b rs = Inr rs'"
  from this(3) show "list_all (route_ok P b g) rs'"
    by (rule py_for_invariant) (auto intro: rs add_route_ok [OF assms(1,2) _ src])
qed simp


section \<open>A concrete graph\<close>

definition ex_proxy :: dev_proxy where
  "ex_proxy =
     \<lparr>get_device = (\<lambda>i. if i = ''olt'' then Inr ex_olt else if i = ''onu'' then Inr ex_onu
                        else Inl KeyError),
      get_ports = (\<lambda>i. if i = ''olt'' then Inr [ex_olt_pon, ex_olt_nni]
                       else if i = ''onu'' then Inr [ex_onu_pon, ex_onu_uni] else Inl KeyError)\<rparr>"

definition ex_lport :: "string \<Rightarrow> u32 \<Rightarrow> string \<Rightarrow> u32 \<Rightarrow> bool \<Rightarrow> logical_port" where
  "ex_lport i no dev dev_port root =
     \<lparr>lp_id = i, lp_ofp_port = \<lparr>op_port_no = no, op_hw_addr = [], op_name = [], op_flags = []\<rparr>,
      lp_device_id = dev, lp_device_port_no = dev_port, lp_root_port = root\<rparr>"

definition ex_lports :: "logical_port list" where
  "ex_lports = [ex_lport ''nni'' 0 ''olt'' 2 True, ex_lport ''uni'' 128 ''onu'' 2 False]"

text \<open>A path finder for the example: the one path of the tree between the two boundary ports.\<close>

definition ex_path :: "gnode list" where
  "ex_path = [PortNode ''olt'' 2, DevNode ''olt'', PortNode ''olt'' 1,
              PortNode ''onu'' 1, DevNode ''onu'', PortNode ''onu'' 2]"

definition ex_sp :: shortest_path where
  "ex_sp g s t =
     (let p = (if s = hd ex_path then ex_path else rev ex_path)
      in if hd p = s \<and> last p = t \<and> successively (linked g) p then Inr p else Inl OtherException)"

lemma ex_sp_returns_paths: "returns_paths ex_sp"
proof -
  have "p \<noteq> [] \<and> hd p = s \<and> last p = t \<and> successively (linked g) p"
    if "ex_sp g s t = Inr p" for g s t p
    using that by (auto simp: ex_sp_def Let_def ex_path_def split: if_splits)
  then show ?thesis by (simp add: returns_paths_def)
qed

lemma ex_dev_table: "dev_table ex_proxy {''olt'', ''onu''}"
  by (simp add: dev_table_def ex_proxy_def ex_olt_def ex_onu_def ex_olt_pon_def ex_olt_nni_def
      ex_onu_pon_def ex_onu_uni_def mk_port_def)

lemmas ex_ports = ex_olt_def ex_onu_def ex_olt_pon_def ex_olt_nni_def ex_onu_pon_def ex_onu_uni_def

lemma ex_compute_routes:
  "case compute_routes 3 ex_sp ex_proxy ex_lports of Inl _ \<Rightarrow> False
   | Inr (g, rs) \<Rightarrow> rs = [((0, 128), [Some ex_down_olt, Some ex_down_onu]),
                          ((128, 0), [Some ex_up_onu, Some ex_up_olt])]"
  by code_simp


section \<open>Properties\<close>

text \<open>
  C3. Discovering the graph returns: on a finite device table with a port list for every device,
  the recursion of \<^verbatim>\<open>add_device\<close> along the peer links ends within one level per device plus
  one, whatever cycles the peer links form, and no lookup fails.
\<close>

theorem build_graph_returns:
  assumes "dev_table P D" and "card D < fuel" and "\<forall>lp \<in> set lps. lp_device_id lp \<in> D"
  shows "\<exists>g. build_graph fuel P lps = Inr (boundary_ports_of lps, g)"
  using assms by (rule build_graph_total)

theorem build_graph_returns_witness:
  "\<exists>g. build_graph 3 ex_proxy ex_lports = Inr (boundary_ports_of ex_lports, g)"
  by (rule build_graph_returns [OF ex_dev_table]) (simp_all add: ex_lports_def ex_lport_def)

text \<open>
  C4. Every route computed between two logical ports has two hops, each made of one device and two
  of that device's own ports; the first hop enters at the device port behind the source logical
  port, the last leaves at the device port behind the target logical port, and the port between the
  two hops' devices is a link of the graph.
\<close>

theorem compute_routes_sound:
  assumes "returns_paths sp" and "compute_routes fuel sp P lps = Inr (g, routes)"
    and "od_get (p, q) routes = Some r"
  shows "\<exists>ih eh. r = [Some ih, Some eh] \<and> hop_ok P ih \<and> hop_ok P eh \<and>
    (hop_in ih, p) \<in> set (boundary_ports_of lps) \<and> (hop_out eh, q) \<in> set (boundary_ports_of lps) \<and>
    linked g (port_node (hop_out ih)) (port_node (hop_in eh))"
proof -
  from assms(2) obtain b where bg: "build_graph fuel P lps = Inr (b, g)"
    and br: "build_routes sp b g = Inr routes"
    by (auto simp: compute_routes_def res_simps)
  from build_graph_ok [OF bg] have ok: "graph_ok P g" and b: "b = boundary_ports_of lps" by auto
  have "((p, q), r) \<in> set routes" using assms(3) by (rule od_get_mem)
  then have "route_ok P b g ((p, q), r)"
    using build_routes_ok [OF ok assms(1) br] by (simp add: list_all_iff)
  then show ?thesis by (auto simp: route_ok_def b)
qed

theorem compute_routes_sound_witness:
  "\<exists>ih eh. [Some ex_up_onu, Some ex_up_olt] = [Some ih, Some eh] \<and>
     hop_ok ex_proxy ih \<and> hop_ok ex_proxy eh \<and>
     (hop_in ih, 128) \<in> set (boundary_ports_of ex_lports) \<and>
     (hop_out eh, 0) \<in> set (boundary_ports_of ex_lports)"
proof -
  obtain g where g: "compute_routes 3 ex_sp ex_proxy ex_lports =
      Inr (g, [((0, 128), [Some ex_down_olt, Some ex_down_onu]),
               ((128, 0), [Some ex_up_onu, Some ex_up_olt])])"
    using ex_compute_routes by (auto split: sum.splits)
  from compute_routes_sound [OF ex_sp_returns_paths g, of 128 0 "[Some ex_up_onu, Some ex_up_olt]"]
  show ?thesis by auto
qed

end
