(* ===== verification/Callbacks.thy ===== *)
theory Callbacks
  imports Prelude
begin

text \<open>
  \<^verbatim>\<open>CallbackType\<close> and the callback half of \<^verbatim>\<open>ConfigProxy\<close>
  (\<^verbatim>\<open>voltha/core/config/config_proxy.py\<close>): registering, unregistering and invoking the
  callbacks of a node. A callback is a name of type \<open>'c\<close>; what it does is an argument of
  \<open>invoke_callbacks\<close>, a function on the state that may raise. A context of \<open>None\<close> is Python's
  \<^verbatim>\<open>None\<close>, which is what a callback that returns nothing hands to the next one.
\<close>

datatype callback_type =
    GET | PRE_UPDATE | POST_UPDATE | PRE_ADD | POST_ADD | PRE_REMOVE | POST_REMOVE
  | POST_LISTCHANGE

type_synonym 'c callbacks = "(callback_type, 'c list) od"

definition callbacks_of :: "callback_type \<Rightarrow> 'c callbacks \<Rightarrow> 'c list" where
  "callbacks_of t cbs = (case od_get t cbs of None \<Rightarrow> [] | Some l \<Rightarrow> l)"

definition register_callback :: "callback_type \<Rightarrow> 'c \<Rightarrow> 'c callbacks \<Rightarrow> 'c callbacks" where
  "register_callback t c cbs = od_set t (callbacks_of t cbs @ [c]) cbs"

text \<open>\<^verbatim>\<open>lst.remove(x)\<close> raises \<^verbatim>\<open>ValueError\<close> when \<^verbatim>\<open>x\<close> is not in the list.\<close>

definition unregister_callback :: "callback_type \<Rightarrow> 'c \<Rightarrow> ('c callbacks, unit) st" where
  "unregister_callback t c cbs =
     (let lst = callbacks_of t cbs
      in if c \<in> set lst then (Inr (), od_set t (remove1 c lst) cbs)
         else (Inl ValueError, od_setdefault t [] cbs))"

fun invoke_list ::
  "('c \<Rightarrow> 'x option \<Rightarrow> ('s, 'x option) st) \<Rightarrow> bool \<Rightarrow> 'c list \<Rightarrow> 'x option \<Rightarrow> ('s, 'x option) st"
where
  "invoke_list run proceed [] ctx s = (Inr ctx, s)"
| "invoke_list run proceed (c # cs) ctx s =
     (case run c ctx s of
        (Inr ctx', s') \<Rightarrow> invoke_list run proceed cs ctx' s'
      | (Inl e, s') \<Rightarrow>
          if proceed then invoke_list run proceed cs ctx s' else (Inl e, s'))"

definition invoke_callbacks ::
  "('c \<Rightarrow> 'x option \<Rightarrow> ('s, 'x option) st) \<Rightarrow> 'c callbacks \<Rightarrow> callback_type \<Rightarrow> 'x option \<Rightarrow> bool
   \<Rightarrow> ('s, 'x option) st" where
  "invoke_callbacks run cbs t ctx proceed_on_errors =
     invoke_list run proceed_on_errors (callbacks_of t cbs) ctx"

lemma callbacks_of_register [simp]:
  "callbacks_of t (register_callback t' c cbs) =
     (if t = t' then callbacks_of t cbs @ [c] else callbacks_of t cbs)"
  by (simp add: callbacks_of_def register_callback_def)

lemma callbacks_of_Nil [simp]: "callbacks_of t [] = []"
  by (simp add: callbacks_of_def)

lemma invoke_list_append:
  "invoke_list run p (cs @ ds) ctx s =
     (case invoke_list run p cs ctx s of
        (Inr ctx', s') \<Rightarrow> invoke_list run p ds ctx' s' | (Inl e, s') \<Rightarrow> (Inl e, s'))"
  by (induction cs arbitrary: ctx s) (auto split: prod.splits sum.splits)


section \<open>Properties\<close>

text \<open>
  Unregistering undoes the latest registration: after \<^verbatim>\<open>register_callback(t, c)\<close>, of a
  callback that was not registered before, \<^verbatim>\<open>unregister_callback(t, c)\<close> succeeds and every
  type has the callbacks it had; unregistering a callback that is not registered raises
  \<^verbatim>\<open>ValueError\<close>.
\<close>

theorem unregister_register:
  assumes "c \<notin> set (callbacks_of t cbs)"
  shows "(case unregister_callback t c (register_callback t c cbs) of
            (r, cbs') \<Rightarrow> r = Inr () \<and> (\<forall>t'. callbacks_of t' cbs' = callbacks_of t' cbs)) \<and>
    fst (unregister_callback t c cbs) = Inl ValueError"
proof -
  have "callbacks_of t' (od_set t l cbs') = (if t' = t then l else callbacks_of t' cbs')"
    for t' l and cbs' :: "'a callbacks"
    by (simp add: callbacks_of_def)
  then show ?thesis
    using assms by (auto simp: unregister_callback_def Let_def remove1_append)
qed

theorem unregister_register_witness:
  "(case unregister_callback POST_UPDATE (2::nat) (register_callback POST_UPDATE 2
        [(POST_UPDATE, [1])]) of
      (r, cbs') \<Rightarrow> r = Inr () \<and>
        (\<forall>t'. callbacks_of t' cbs' = callbacks_of t' [(POST_UPDATE, [1])])) \<and>
   fst (unregister_callback POST_UPDATE (2::nat) [(POST_UPDATE, [1])]) = Inl ValueError"
  by (rule unregister_register) (simp add: callbacks_of_def)

text \<open>
  With \<^verbatim>\<open>proceed_on_errors\<close>, which the tree uses for every deferred (post) callback, no
  exception of a callback escapes, and every registered callback is run exactly once, in the order
  of registration, whichever of them raise: callbacks that log their own name leave the list of
  registered names.
\<close>

theorem post_callbacks_all_run:
  assumes "\<And>c ctx log. snd (run c ctx log) = log @ [c]"
  shows "\<exists>ctx'. invoke_callbacks run cbs t ctx True log = (Inr ctx', log @ callbacks_of t cbs)"
proof -
  have "\<exists>ctx'. invoke_list run True cs ctx log = (Inr ctx', log @ cs)" for cs
  proof (induction cs arbitrary: ctx log)
    case Nil
    then show ?case by simp
  next
    case (Cons c cs)
    obtain r where "run c ctx log = (r, log @ [c])"
      using assms [of c ctx log] by (cases "run c ctx log") auto
    with Cons.IH [of _ "log @ [c]"] show ?case by (auto split: sum.splits)
  qed
  then show ?thesis by (simp add: invoke_callbacks_def)
qed

theorem post_callbacks_all_run_witness:
  "\<exists>ctx'. invoke_callbacks
     (\<lambda>c ctx log. (if c = (1::nat) then Inl ValueError else Inr ctx, log @ [c]))
     [(POST_UPDATE, [1, 2])] POST_UPDATE (Some ()) True [] = (Inr ctx', [] @ [1, 2])"
  using post_callbacks_all_run
    [of "\<lambda>c ctx log. (if c = (1::nat) then Inl ValueError else Inr ctx, log @ [c])"
        "[(POST_UPDATE, [1, 2])]" POST_UPDATE "Some ()" "[]"]
  by (simp add: callbacks_of_def)

end
