(* ===== verification/LogicalDeviceAgent.thy ===== *)
theory LogicalDeviceAgent
  imports DeviceGraph Callbacks
begin

text \<open>
  \<^verbatim>\<open>voltha/core/logical_device_agent.py\<close>: the agent of one logical device. It keeps the
  device's flow and group tables, translates OpenFlow flow-mods and group-mods into changes of the
  tables, and on every change decomposes the tables into the flows of the physical devices.

  The agent's state, \<open>lda\<close>, holds what the agent reads and writes through its configuration
  proxies (its own flows, groups and ports, and the \<^verbatim>\<open>/devices\<close> subtree), its cached tables
  \<^verbatim>\<open>_routes\<close>, \<^verbatim>\<open>_default_rules\<close> and \<^verbatim>\<open>_nni_logical_port_no\<close>, the callbacks registered
  on its three proxies, and the messages it sends. A proxy's \<^verbatim>\<open>update\<close> of unequal data runs the
  registered post-update callbacks, whose exceptions are logged and dropped; equal data is not a
  change (\<^verbatim>\<open>ConfigNode._do_update\<close>). Methods are functions of type \<open>(lda, 'a) st\<close>: an
  exception keeps the writes made before it.
\<close>

section \<open>State\<close>

datatype lda_callback =
    Flow_table_updated | Group_table_updated | Port_added | Port_removed | Port_list_updated

record dev_entry =
  de_device :: device
  de_ports :: "port list"
  de_flows :: "flow_stats list"
  de_groups :: "group_entry list"

record packet_out_msg =
  po_buffer_id :: u32
  po_in_port :: u32
  po_actions :: "ofp_action list"
  po_data :: string

record packet_in_msg =
  pi_buffer_id :: u32
  pi_reason :: nat
  pi_table_id :: u32
  pi_cookie :: u64
  pi_match :: ofp_match
  pi_data :: string

record port_status =
  ps_reason :: nat
  ps_desc :: ofp_port

record lda =
  ld_id :: string
  ld_root_device_id :: string
  ld_ports :: "logical_port list"
  ld_flows :: "flow_stats list"
  ld_groups :: "group_entry list"
  ld_devices :: "(string, dev_entry) od"
  ld_routes :: "routes option"
  ld_default_rules :: "device_rules option"
  ld_nni :: "u32 option"
  ld_flows_cbs :: "lda_callback callbacks"
  ld_groups_cbs :: "lda_callback callbacks"
  ld_self_cbs :: "lda_callback callbacks"
  ld_published :: "(string \<times> packet_out_msg) list"
  ld_packet_in_queue :: "(string \<times> packet_in_msg) list"
  ld_change_events :: "(string \<times> port_status) list"

text \<open>The libraries the agent calls: the flow hash and the path finder; and the recursion depth.\<close>

record lda_env =
  env_hash :: hash_env
  env_sp :: shortest_path
  env_fuel :: nat

definition lda_proxy :: "lda \<Rightarrow> dev_proxy" where
  "lda_proxy s =
     \<lparr>get_device = (\<lambda>i. case od_get i (ld_devices s) of
                         None \<Rightarrow> Inl KeyError | Some e \<Rightarrow> Inr (de_device e)),
      get_ports = (\<lambda>i. case od_get i (ld_devices s) of
                        None \<Rightarrow> Inl KeyError | Some e \<Rightarrow> Inr (de_ports e))\<rparr>"

definition lda_init :: "lda \<Rightarrow> lda" where
  "lda_init s =
     s\<lparr>ld_flows_cbs := register_callback POST_UPDATE Flow_table_updated (ld_flows_cbs s),
       ld_groups_cbs := register_callback POST_UPDATE Group_table_updated (ld_groups_cbs s),
       ld_self_cbs := register_callback POST_REMOVE Port_removed
                        (register_callback POST_ADD Port_added (ld_self_cbs s)),
       ld_routes := None\<rparr>"

text \<open>\<^verbatim>\<open>stop\<close> unregisters \<^verbatim>\<open>_port_list_updated\<close>, which \<^verbatim>\<open>__init__\<close> never registered.\<close>

definition unregister_flows :: "callback_type \<Rightarrow> lda_callback \<Rightarrow> (lda, unit) st" where
  "unregister_flows t c s =
     (let (r, cbs) = unregister_callback t c (ld_flows_cbs s) in (r, s\<lparr>ld_flows_cbs := cbs\<rparr>))"

definition unregister_groups :: "callback_type \<Rightarrow> lda_callback \<Rightarrow> (lda, unit) st" where
  "unregister_groups t c s =
     (let (r, cbs) = unregister_callback t c (ld_groups_cbs s) in (r, s\<lparr>ld_groups_cbs := cbs\<rparr>))"

definition unregister_self :: "callback_type \<Rightarrow> lda_callback \<Rightarrow> (lda, unit) st" where
  "unregister_self t c s =
     (let (r, cbs) = unregister_callback t c (ld_self_cbs s) in (r, s\<lparr>ld_self_cbs := cbs\<rparr>))"

definition lda_stop :: "(lda, unit) st" where
  "lda_stop =
     st_bind (unregister_flows POST_UPDATE Flow_table_updated) (\<lambda>_.
     st_bind (unregister_groups POST_UPDATE Group_table_updated) (\<lambda>_.
     st_bind (unregister_self POST_ADD Port_list_updated) (\<lambda>_.
     unregister_self POST_REMOVE Port_list_updated)))"


section \<open>Cached tables and routes\<close>

definition one_port :: "nat \<Rightarrow> port list \<Rightarrow> port res" where
  "one_port t ports =
     (case filter (\<lambda>p. p_type p = t) ports of [p] \<Rightarrow> Inr p | _ \<Rightarrow> Inl AssertionError)"

definition flow_od :: "flow_stats list \<Rightarrow> (u64, flow_stats) od" where
  "flow_od fs = od_of (map (\<lambda>f. (fs_id f, f)) fs) []"

definition root_device_default_flows :: "hash_env \<Rightarrow> u32 \<Rightarrow> u32 \<Rightarrow> flow_stats list" where
  "root_device_default_flows H upstream downstream =
     [mk_flow_stat H
        [in_port upstream, vlan_vid (OFPVID_PRESENT OR 4000), vlan_pcp 0]
        [pop_vlan, output_act downstream] (kw_prio 2000 0)]"

definition leaf_device_default_flows :: "hash_env \<Rightarrow> u32 \<Rightarrow> u32 \<Rightarrow> u32 \<Rightarrow> flow_stats list" where
  "leaf_device_default_flows H upstream downstream vlan =
     [mk_flow_stat H
        [in_port downstream, vlan_vid (OFPVID_PRESENT OR 0)]
        [set_field (vlan_vid (OFPVID_PRESENT OR vlan)), output_act upstream] (kw_prio 500 0),
      mk_flow_stat H
        [in_port downstream, vlan_vid 0]
        [push_vlan 0x8100, set_field (vlan_vid (OFPVID_PRESENT OR vlan)), output_act upstream]
        (kw_prio 500 0),
      mk_flow_stat H
        [in_port upstream, vlan_vid (OFPVID_PRESENT OR vlan)]
        [set_field (vlan_vid (OFPVID_PRESENT OR 0)), output_act downstream] (kw_prio 500 0)]"

definition root_device_default_rules ::
  "hash_env \<Rightarrow> lda \<Rightarrow> device \<Rightarrow> ((u64, flow_stats) od \<times> (u32, group_entry) od) res" where
  "root_device_default_rules H s device =
     rbind (get_ports (lda_proxy s) (d_id device)) (\<lambda>ports.
     rbind (one_port ETHERNET_NNI ports) (\<lambda>up.
     rbind (one_port PON_OLT ports) (\<lambda>down.
       Inr (flow_od (root_device_default_flows H (p_port_no up) (p_port_no down)), []))))"

definition leaf_device_default_rules ::
  "hash_env \<Rightarrow> lda \<Rightarrow> device \<Rightarrow> ((u64, flow_stats) od \<times> (u32, group_entry) od) res" where
  "leaf_device_default_rules H s device =
     rbind (get_ports (lda_proxy s) (d_id device)) (\<lambda>ports.
     rbind (one_port PON_ONU ports) (\<lambda>up.
     rbind (one_port ETHERNET_UNI ports) (\<lambda>down.
       Inr (flow_od (leaf_device_default_flows H (p_port_no up) (p_port_no down)
              (d_vlan device)), []))))"

definition generate_default_rules :: "hash_env \<Rightarrow> lda \<Rightarrow> graph \<Rightarrow> device_rules res" where
  "generate_default_rules H s g =
     py_for (\<lambda>node rules.
               case snd node of
                 DevAttr device \<Rightarrow>
                   rbind (if d_id device = ld_root_device_id s
                          then root_device_default_rules H s device
                          else leaf_device_default_rules H s device)
                     (\<lambda>r. Inr (od_set (d_id device) r rules))
               | _ \<Rightarrow> Inr rules)
       (g_nodes g) []"

definition invalidate_cached_tables :: "lda \<Rightarrow> lda" where
  "invalidate_cached_tables s = s\<lparr>ld_routes := None, ld_default_rules := None, ld_nni := None\<rparr>"

text \<open>
  \<^verbatim>\<open>_routes\<close> is assigned before the default rules are generated and before the NNI port is
  looked for, so an assertion that fails in between leaves the routes set and the rest not.
\<close>

definition assure_cached_tables_up_to_date :: "lda_env \<Rightarrow> (lda, unit) st" where
  "assure_cached_tables_up_to_date E s =
     (case ld_routes s of
        Some _ \<Rightarrow> (Inr (), s)
      | None \<Rightarrow>
          (case compute_routes (env_fuel E) (env_sp E) (lda_proxy s) (ld_ports s) of
             Inl e \<Rightarrow> (Inl e, s)
           | Inr (g, routes) \<Rightarrow>
               (let s1 = s\<lparr>ld_routes := Some routes\<rparr> in
                case generate_default_rules (env_hash E) s g of
                  Inl e \<Rightarrow> (Inl e, s1)
                | Inr rules \<Rightarrow>
                    (let s2 = s1\<lparr>ld_default_rules := Some rules\<rparr> in
                     case filter lp_root_port (ld_ports s) of
                       [p] \<Rightarrow> (Inr (), s2\<lparr>ld_nni := Some (op_port_no (lp_ofp_port p))\<rparr>)
                     | _ \<Rightarrow> (Inl AssertionError, s2)))))"

text \<open>The routes are searched in the order in which they were inserted; Python leaves the order open.\<close>

fun find_route :: "(u32 \<times> u32 \<Rightarrow> bool) \<Rightarrow> routes \<Rightarrow> route option" where
  "find_route c [] = None"
| "find_route c ((k, r) # rs) = (if c k then Some r else find_route c rs)"

text \<open>\<^verbatim>\<open>get_route\<close> after the cached tables have been assured.\<close>

definition cached_route :: "lda \<Rightarrow> get_route" where
  "cached_route s ingress_port_no egress_port_no =
     (let routes = (case ld_routes s of None \<Rightarrow> [] | Some rs \<Rightarrow> rs);
          egress_port_no = (if is_controller egress_port_no then ld_nni s else egress_port_no)
      in if ingress_port_no = None \<and> egress_port_no = ld_nni s then
           (case find_route (\<lambda>(i, e). Some e = ld_nni s) routes of
              Some r \<Rightarrow> Inr [None, r ! 1] | None \<Rightarrow> Inl OtherException)
         else case egress_port_no of
           None \<Rightarrow>
             (case find_route (\<lambda>(i, e). Some i = ingress_port_no) routes of
                Some r \<Rightarrow> Inr [r ! 0, None] | None \<Rightarrow> Inl OtherException)
         | Some e \<Rightarrow>
             (case ingress_port_no of
                None \<Rightarrow> Inl KeyError
              | Some i \<Rightarrow> (case od_get (i, e) routes of
                            None \<Rightarrow> Inl KeyError | Some r \<Rightarrow> Inr r)))"

definition lda_get_route :: "lda_env \<Rightarrow> u32 option \<Rightarrow> u32 option \<Rightarrow> (lda, route) st" where
  "lda_get_route E ingress_port_no egress_port_no =
     st_bind (assure_cached_tables_up_to_date E)
       (\<lambda>_. st_res (\<lambda>s. cached_route s ingress_port_no egress_port_no))"

text \<open>
  \<^verbatim>\<open>self.decompose_rules\<close>: \<^verbatim>\<open>get_all_default_rules\<close> assures the tables, so each later
  \<^verbatim>\<open>get_route\<close> reads them only. Default rules that are still \<^verbatim>\<open>None\<close> have no
  \<^verbatim>\<open>setdefault\<close>.
\<close>

definition lda_decompose_rules ::
  "lda_env \<Rightarrow> flow_stats list \<Rightarrow> group_entry list \<Rightarrow> (lda, device_rules) st" where
  "lda_decompose_rules E flows groups =
     st_bind (assure_cached_tables_up_to_date E)
       (\<lambda>_. st_res (\<lambda>s. case ld_default_rules s of
                          None \<Rightarrow> Inl AttributeError
                        | Some d \<Rightarrow> decompose_rules (env_hash E) (cached_route s) d flows groups))"

text \<open>
  The source writes the flows and then the groups of a device, two updates of the same entry that differ
  from one only in what a callback between them would see.
\<close>

definition update_device_tables ::
  "string \<times> (u64, flow_stats) od \<times> (u32, group_entry) od \<Rightarrow> unit \<Rightarrow> (lda, unit) st" where
  "update_device_tables item u s =
     (case item of (i, flows, groups) \<Rightarrow>
        (case od_get i (ld_devices s) of
           None \<Rightarrow> (Inl KeyError, s)
         | Some e \<Rightarrow>
             (Inr (), s\<lparr>ld_devices := od_set i (e\<lparr>de_flows := od_values flows,
                                                 de_groups := od_values groups\<rparr>)
                                       (ld_devices s)\<rparr>)))"

definition flow_table_updated :: "lda_env \<Rightarrow> flow_stats list \<Rightarrow> (lda, unit) st" where
  "flow_table_updated E flows s =
     st_bind (lda_decompose_rules E flows (ld_groups s))
       (\<lambda>rules. st_for update_device_tables rules ()) s"

definition group_table_updated :: "lda_env \<Rightarrow> group_entry list \<Rightarrow> (lda, unit) st" where
  "group_table_updated E groups s =
     st_bind (lda_decompose_rules E (ld_flows s) groups)
       (\<lambda>rules. st_for update_device_tables rules ()) s"

text \<open>
  The updates through \<^verbatim>\<open>flows_proxy\<close> and \<^verbatim>\<open>groups_proxy\<close>: store, then run the registered
  post-update callbacks, dropping their exceptions.
\<close>

definition run_flows_cb ::
  "lda_env \<Rightarrow> lda_callback \<Rightarrow> flow_stats list option \<Rightarrow> (lda, flow_stats list option) st" where
  "run_flows_cb E c ctx s =
     (case (c, ctx) of
        (Flow_table_updated, Some flows) \<Rightarrow>
          st_bind (flow_table_updated E flows) (\<lambda>_. st_ret None) s
      | _ \<Rightarrow> (Inl AttributeError, s))"

definition run_groups_cb ::
  "lda_env \<Rightarrow> lda_callback \<Rightarrow> group_entry list option \<Rightarrow> (lda, group_entry list option) st" where
  "run_groups_cb E c ctx s =
     (case (c, ctx) of
        (Group_table_updated, Some groups) \<Rightarrow>
          st_bind (group_table_updated E groups) (\<lambda>_. st_ret None) s
      | _ \<Rightarrow> (Inl AttributeError, s))"

definition flows_proxy_update :: "lda_env \<Rightarrow> flow_stats list \<Rightarrow> lda \<Rightarrow> lda" where
  "flows_proxy_update E flows s =
     (if ld_flows s = flows then s
      else snd (invoke_callbacks (run_flows_cb E) (ld_flows_cbs s) POST_UPDATE (Some flows) True
                  (s\<lparr>ld_flows := flows\<rparr>)))"

definition groups_proxy_update :: "lda_env \<Rightarrow> group_entry list \<Rightarrow> lda \<Rightarrow> lda" where
  "groups_proxy_update E groups s =
     (if ld_groups s = groups then s
      else snd (invoke_callbacks (run_groups_cb E) (ld_groups_cbs s) POST_UPDATE (Some groups) True
                  (s\<lparr>ld_groups := groups\<rparr>)))"


section \<open>Flow handlers\<close>

definition announce_flow_deleted :: "flow_stats \<Rightarrow> unit \<Rightarrow> unit res" where
  "announce_flow_deleted flow u =
     (if fs_flags flow AND OFPFF_SEND_FLOW_REM \<noteq> 0 then Inl NotImplementedError else Inr ())"

definition announce_flows_deleted :: "flow_stats list \<Rightarrow> unit res" where
  "announce_flows_deleted flows = py_for announce_flow_deleted flows ()"

definition flow_match :: "flow_stats \<Rightarrow> flow_stats \<Rightarrow> bool" where
  "flow_match f1 f2 \<longleftrightarrow>
     fs_table_id f1 = fs_table_id f2 \<and> fs_priority f1 = fs_priority f2 \<and>
     fs_flags f1 = fs_flags f2 \<and> fs_cookie f1 = fs_cookie f2 \<and> fs_match f1 = fs_match f2"

text \<open>\<^verbatim>\<open>find_flow\<close> returns an index or \<^verbatim>\<open>-1\<close>; the model returns an option.\<close>

fun find_flow :: "flow_stats list \<Rightarrow> flow_stats \<Rightarrow> nat option" where
  "find_flow [] flow = None"
| "find_flow (f # fs) flow =
     (if flow_match f flow then Some 0 else map_option Suc (find_flow fs flow))"

definition find_overlapping_flows :: "flow_stats list \<Rightarrow> flow_mod \<Rightarrow> bool \<Rightarrow> flow_stats list" where
  "find_overlapping_flows flows fmod return_on_first = []"

definition flow_has_out_port :: "flow_stats \<Rightarrow> u32 \<Rightarrow> bool" where
  "flow_has_out_port flow out_port \<longleftrightarrow>
     (\<exists>i \<in> set (fs_instructions flow). i_type i = OFPIT_APPLY_ACTIONS \<and>
        (\<exists>a \<in> set (instr_actions (i_data i)).
           act_type a = OUTPUT \<and> act_output_port (act_data a) = out_port))"

definition flow_has_out_group :: "flow_stats \<Rightarrow> u32 \<Rightarrow> bool" where
  "flow_has_out_group flow group_id \<longleftrightarrow>
     (\<exists>i \<in> set (fs_instructions flow). i_type i = OFPIT_APPLY_ACTIONS \<and>
        (\<exists>a \<in> set (instr_actions (i_data i)).
           act_type a = GROUP \<and> act_group_id (act_data a) = group_id))"

definition flow_matches_spec :: "flow_stats \<Rightarrow> flow_mod \<Rightarrow> bool res" where
  "flow_matches_spec flow fmod =
     (if fs_cookie flow AND fm_cookie_mask fmod \<noteq> fm_cookie fmod AND fm_cookie_mask fmod
      then Inr False
      else if fm_table_id fmod \<noteq> OFPTT_ALL \<and> fs_table_id flow \<noteq> fm_table_id fmod then Inr False
      else if fm_out_port fmod \<noteq> OFPP_ANY \<and> \<not> flow_has_out_port flow (fm_out_port fmod)
      then Inr False
      else if fm_out_group fmod \<noteq> OFPG_ANY \<and> \<not> flow_has_out_group flow (fm_out_group fmod)
      then Inr False
      else if oxm_fields (fm_match fmod) = [] then Inr True
      else Inl NotImplementedError)"

definition flow_add :: "lda_env \<Rightarrow> flow_mod \<Rightarrow> (lda, unit) st" where
  "flow_add E fmod s =
     (if fm_cookie_mask fmod \<noteq> 0 then (Inl AssertionError, s)
      else
        let flows = ld_flows s;
            flow = flow_stats_entry_from_flow_mod_message (env_hash E) fmod
        in if fm_flags fmod AND OFPFF_CHECK_OVERLAP \<noteq> 0 then
             (if find_overlapping_flows flows fmod True \<noteq> [] then (Inr (), s)
              else (Inr (), flows_proxy_update E (flows @ [flow]) s))
           else
             (case find_flow flows flow of
                Some idx \<Rightarrow>
                  let old_flow = flows ! idx;
                      flow = (if fm_flags fmod AND OFPFF_RESET_COUNTS = 0
                              then flow\<lparr>fs_byte_count := fs_byte_count old_flow,
                                        fs_packet_count := fs_packet_count old_flow\<rparr>
                              else flow)
                  in (Inr (), flows_proxy_update E (flows[idx := flow]) s)
              | None \<Rightarrow> (Inr (), flows_proxy_update E (flows @ [flow]) s)))"

fun partition_flows ::
  "(flow_stats \<Rightarrow> bool res) \<Rightarrow> flow_stats list \<Rightarrow> (flow_stats list \<times> flow_stats list) res" where
  "partition_flows c [] = Inr ([], [])"
| "partition_flows c (f # fs) =
     rbind (c f) (\<lambda>del. rbind (partition_flows c fs) (\<lambda>(to_keep, to_delete).
       Inr (if del then (to_keep, f # to_delete) else (f # to_keep, to_delete))))"

definition flow_delete :: "lda_env \<Rightarrow> flow_mod \<Rightarrow> (lda, unit) st" where
  "flow_delete E fmod s =
     (case partition_flows (\<lambda>f. flow_matches_spec f fmod) (ld_flows s) of
        Inl e \<Rightarrow> (Inl e, s)
      | Inr (to_keep, to_delete) \<Rightarrow>
          (announce_flows_deleted to_delete,
           if to_delete \<noteq> [] then flows_proxy_update E to_keep s else s))"

definition flow_delete_strict :: "lda_env \<Rightarrow> flow_mod \<Rightarrow> (lda, unit) st" where
  "flow_delete_strict E fmod s =
     (let flows = ld_flows s;
          flow = flow_stats_entry_from_flow_mod_message (env_hash E) fmod
      in case find_flow flows flow of
           Some idx \<Rightarrow> (Inr (), flows_proxy_update E (take idx flows @ drop (Suc idx) flows) s)
         | None \<Rightarrow> (Inr (), s))"

definition flow_modify :: "flow_mod \<Rightarrow> (lda, unit) st" where
  "flow_modify fmod = st_raise NotImplementedError"

definition flow_modify_strict :: "flow_mod \<Rightarrow> (lda, unit) st" where
  "flow_modify_strict fmod = st_raise NotImplementedError"

definition update_flow_table :: "lda_env \<Rightarrow> flow_mod \<Rightarrow> (lda, unit) st" where
  "update_flow_table E fmod =
     (let command = fm_command fmod in
      if command = OFPFC_ADD then flow_add E fmod
      else if command = OFPFC_DELETE then flow_delete E fmod
      else if command = OFPFC_DELETE_STRICT then flow_delete_strict E fmod
      else if command = OFPFC_MODIFY then flow_modify fmod
      else if command = OFPFC_MODIFY_STRICT then flow_modify_strict fmod
      else st_ret ())"


section \<open>Group handlers\<close>

definition groups_od :: "group_entry list \<Rightarrow> (u32, group_entry) od" where
  "groups_od groups = od_of (map (\<lambda>g. (gd_group_id (g_desc g), g)) groups) []"

definition group_add :: "lda_env \<Rightarrow> group_mod \<Rightarrow> (lda, unit) st" where
  "group_add E gmod s =
     (let groups = groups_od (ld_groups s)
      in if od_get (gm_group_id gmod) groups \<noteq> None then (Inr (), s)
         else (Inr (), groups_proxy_update E
                 (od_values (od_set (gm_group_id gmod) (group_entry_from_group_mod gmod) groups)) s))"

definition flows_delete_by_group_id ::
  "flow_stats list \<Rightarrow> u32 \<Rightarrow> (bool \<times> flow_stats list) res" where
  "flows_delete_by_group_id flows group_id =
     (let to_keep = filter (\<lambda>f. \<not> flow_has_out_group f group_id) flows;
          to_delete = filter (\<lambda>f. flow_has_out_group f group_id) flows
      in rbind (announce_flows_deleted to_delete) (\<lambda>_. Inr (to_delete \<noteq> [], to_keep)))"

definition group_delete :: "lda_env \<Rightarrow> group_mod \<Rightarrow> (lda, unit) st" where
  "group_delete E gmod s =
     (let groups = groups_od (ld_groups s); group_id = gm_group_id gmod
      in if group_id = OFPG_ALL then (Inr (), groups_proxy_update E [] s)
         else if od_get group_id groups = None then (Inr (), s)
         else
           (case flows_delete_by_group_id (ld_flows s) group_id of
              Inl e \<Rightarrow> (Inl e, s)
            | Inr (flows_changed, flows) \<Rightarrow>
                let s1 = groups_proxy_update E (od_values (od_del group_id groups)) s
                in (Inr (), if flows_changed then flows_proxy_update E flows s1 else s1)))"

definition group_modify :: "lda_env \<Rightarrow> group_mod \<Rightarrow> (lda, unit) st" where
  "group_modify E gmod s =
     (let groups = groups_od (ld_groups s)
      in if od_get (gm_group_id gmod) groups = None then (Inr (), s)
         else (Inr (), groups_proxy_update E
                 (od_values (od_set (gm_group_id gmod) (group_entry_from_group_mod gmod) groups)) s))"

definition update_group_table :: "lda_env \<Rightarrow> group_mod \<Rightarrow> (lda, unit) st" where
  "update_group_table E gmod =
     (let command = gm_command gmod in
      if command = OFPGC_DELETE then group_delete E gmod
      else if command = OFPGC_ADD then group_add E gmod
      else if command = OFPGC_MODIFY then group_modify E gmod
      else st_ret ())"


section \<open>Packets and port changes\<close>

definition lda_packet_out :: "packet_out_msg \<Rightarrow> lda \<Rightarrow> lda" where
  "lda_packet_out p s =
     s\<lparr>ld_published := ld_published s @ [(''packet-out:'' @ ld_id s, p)]\<rparr>"

definition packet_in :: "packet_in_msg \<Rightarrow> lda \<Rightarrow> lda" where
  "packet_in p s = s\<lparr>ld_packet_in_queue := ld_packet_in_queue s @ [(ld_id s, p)]\<rparr>"

definition handle_packet_in_event :: "u32 \<times> string \<Rightarrow> lda \<Rightarrow> lda" where
  "handle_packet_in_event msg =
     (case msg of (logical_port_no, packet) \<Rightarrow>
        packet_in \<lparr>pi_buffer_id = 0, pi_reason = OFPR_ACTION, pi_table_id = 0, pi_cookie = 0,
                   pi_match = \<lparr>m_type = OFPMT_OXM,
                               oxm_fields = [oxm_basic (in_port logical_port_no)]\<rparr>,
                   pi_data = packet\<rparr>)"

definition send_port_change :: "nat \<Rightarrow> logical_port \<Rightarrow> lda \<Rightarrow> lda" where
  "send_port_change reason port s =
     s\<lparr>ld_change_events := ld_change_events s @
         [(ld_id s, \<lparr>ps_reason = reason, ps_desc = lp_ofp_port port\<rparr>)]\<rparr>"

definition port_list_updated :: "lda \<Rightarrow> lda" where
  "port_list_updated s = invalidate_cached_tables s"

definition port_added :: "logical_port \<Rightarrow> lda \<Rightarrow> lda" where
  "port_added port s = send_port_change OFPPR_ADD port (port_list_updated s)"

definition port_removed :: "logical_port \<Rightarrow> lda \<Rightarrow> lda" where
  "port_removed port s = send_port_change OFPPR_DELETE port (port_list_updated s)"

definition port_changed :: "logical_port \<Rightarrow> lda \<Rightarrow> lda" where
  "port_changed port s = send_port_change OFPPR_MODIFY port s"


section \<open>What the handlers leave alone\<close>

text \<open>
  The callbacks of a table update write the device tables and the caches, and nothing else of the
  agent; of a device they write the flows and groups only.
\<close>

definition same_agent :: "lda \<Rightarrow> lda \<Rightarrow> bool" where
  "same_agent s t \<longleftrightarrow>
     ld_id t = ld_id s \<and> ld_root_device_id t = ld_root_device_id s \<and> ld_ports t = ld_ports s \<and>
     ld_flows t = ld_flows s \<and> ld_groups t = ld_groups s \<and>
     ld_flows_cbs t = ld_flows_cbs s \<and> ld_groups_cbs t = ld_groups_cbs s \<and>
     ld_self_cbs t = ld_self_cbs s \<and> lda_proxy t = lda_proxy s"

lemma same_agent_refl [simp]: "same_agent s s"
  by (simp add: same_agent_def)

lemma same_agent_trans: "same_agent a b \<Longrightarrow> same_agent b c \<Longrightarrow> same_agent a c"
  by (simp add: same_agent_def)

lemma assure_same_agent: "same_agent s (snd (assure_cached_tables_up_to_date E s))"
  by (simp add: assure_cached_tables_up_to_date_def same_agent_def lda_proxy_def Let_def
      split: option.splits sum.splits prod.splits list.splits)

lemma update_device_tables_same_agent: "same_agent s (snd (update_device_tables item u s))"
  by (auto simp: update_device_tables_def same_agent_def lda_proxy_def fun_eq_iff
      split: option.splits prod.splits)

lemma st_for_rel:
  assumes "\<And>s. R s s" and "\<And>a b c. R a b \<Longrightarrow> R b c \<Longrightarrow> R a c"
    and "\<And>x b s. R s (snd (f x b s))"
  shows "R s (snd (st_for f xs b s))"
proof (induction xs arbitrary: b s)
  case Nil
  then show ?case by (simp add: assms(1))
next
  case (Cons x xs)
  show ?case
  proof (cases "f x b s")
    case (Pair r s')
    with assms(3) [of s x b] have "R s s'" by simp
    then show ?thesis
      using Cons.IH [of s'] assms(2) by (cases r) (auto simp: Pair st_bind_def)
  qed
qed

lemma table_updated_same_agent:
  "same_agent s (snd (flow_table_updated E flows s))"
  "same_agent s (snd (group_table_updated E groups s))"
proof -
  have "same_agent s (snd (st_bind (lda_decompose_rules E fl gr)
      (\<lambda>rules. st_for update_device_tables rules ()) s))" for fl gr
  proof (cases "assure_cached_tables_up_to_date E s")
    case (Pair r s1)
    have 1: "same_agent s s1" using assure_same_agent [of s E] Pair by simp
    have "same_agent s1 (snd (st_for update_device_tables rules () s1))" for rules
      by (rule st_for_rel) (auto intro: same_agent_trans update_device_tables_same_agent)
    with 1 show ?thesis
      by (cases r)
         (auto simp: lda_decompose_rules_def st_bind_def Pair intro: same_agent_trans
           split: prod.splits sum.splits option.splits)
  qed
  then show "same_agent s (snd (flow_table_updated E flows s))"
    and "same_agent s (snd (group_table_updated E groups s))"
    by (simp_all add: flow_table_updated_def group_table_updated_def)
qed

lemma eq_snd_trans: "same_agent s (snd p) \<Longrightarrow> p = (r, t) \<Longrightarrow> same_agent s t"
  by simp

lemma invoke_list_rel:
  assumes "\<And>s. R s s" and "\<And>a b c. R a b \<Longrightarrow> R b c \<Longrightarrow> R a c"
    and "\<And>c x s. R s (snd (run c x s))"
  shows "R s (snd (invoke_list run p cs ctx s))"
proof (induction cs arbitrary: ctx s)
  case Nil
  then show ?case by (simp add: assms(1))
next
  case (Cons c cs)
  show ?case
  proof (cases "run c ctx s")
    case (Pair r s')
    with assms(3) [of s c ctx] have "R s s'" by simp
    then show ?thesis using Cons.IH [where s = s'] assms(2) by (cases r) (auto simp: Pair)
  qed
qed

lemma flows_proxy_update_frame:
  "same_agent (s\<lparr>ld_flows := flows\<rparr>) (flows_proxy_update E flows s)"
proof -
  have step: "same_agent t (snd (run_flows_cb E c x t))" for c x t
    by (cases c; cases x)
       (auto simp: run_flows_cb_def st_bind_def split: prod.splits sum.splits
         intro: table_updated_same_agent(1) [THEN eq_snd_trans])
  have "same_agent t (snd (invoke_list (run_flows_cb E) True cs ctx t))" for cs ctx t
    by (rule invoke_list_rel) (auto intro: same_agent_trans step)
  moreover have "ld_flows s = flows \<Longrightarrow> s\<lparr>ld_flows := flows\<rparr> = s" by auto
  ultimately show ?thesis by (auto simp: flows_proxy_update_def invoke_callbacks_def)
qed

lemma groups_proxy_update_frame:
  "same_agent (s\<lparr>ld_groups := groups\<rparr>) (groups_proxy_update E groups s)"
proof -
  have step: "same_agent t (snd (run_groups_cb E c x t))" for c x t
    by (cases c; cases x)
       (auto simp: run_groups_cb_def st_bind_def split: prod.splits sum.splits
         intro: table_updated_same_agent(2) [THEN eq_snd_trans])
  have "same_agent t (snd (invoke_list (run_groups_cb E) True cs ctx t))" for cs ctx t
    by (rule invoke_list_rel) (auto intro: same_agent_trans step)
  moreover have "ld_groups s = groups \<Longrightarrow> s\<lparr>ld_groups := groups\<rparr> = s" by auto
  ultimately show ?thesis by (auto simp: groups_proxy_update_def invoke_callbacks_def)
qed

lemma proxy_update_simps [simp]:
  "ld_flows (flows_proxy_update E fl s) = fl"
  "ld_groups (flows_proxy_update E fl s) = ld_groups s"
  "ld_ports (flows_proxy_update E fl s) = ld_ports s"
  "ld_groups (groups_proxy_update E gr s) = gr"
  "ld_flows (groups_proxy_update E gr s) = ld_flows s"
  "ld_ports (groups_proxy_update E gr s) = ld_ports s"
  using flows_proxy_update_frame [where s = s and flows = fl and E = E]
    groups_proxy_update_frame [where s = s and groups = gr and E = E]
  by (simp_all add: same_agent_def)


section \<open>The tables as finite maps\<close>

text \<open>
  The contract of a table of entries with keys: putting an entry changes the value at its key only,
  to the merge of the old value and the entry; removing a key forgets that key only.
\<close>

locale keyed_table =
  fixes wf :: "'t \<Rightarrow> bool"
    and lookup :: "'t \<Rightarrow> 'k \<Rightarrow> 'v option"
    and key :: "'e \<Rightarrow> 'k"
    and merge :: "'v option \<Rightarrow> 'e \<Rightarrow> 'v"
    and put :: "'e \<Rightarrow> 't \<Rightarrow> 't"
    and remove :: "'k \<Rightarrow> 't \<Rightarrow> 't"
  assumes wf_put: "wf t \<Longrightarrow> wf (put e t)"
    and wf_remove: "wf t \<Longrightarrow> wf (remove k t)"
    and lookup_put:
      "wf t \<Longrightarrow> lookup (put e t) = (lookup t)(key e \<mapsto> merge (lookup t (key e)) e)"
    and lookup_remove: "wf t \<Longrightarrow> lookup (remove k t) = (lookup t)(k := None)"
begin

lemma remove_put:
  "wf t \<Longrightarrow> lookup t (key e) = None \<Longrightarrow> lookup (remove (key e) (put e t)) = lookup t"
  by (simp add: lookup_remove lookup_put wf_put fun_upd_idem)

lemma put_put_other:
  "wf t \<Longrightarrow> key e \<noteq> key e' \<Longrightarrow> lookup (put e (put e' t)) = lookup (put e' (put e t))"
  by (auto simp: lookup_put wf_put fun_eq_iff)

lemma dom_put: "wf t \<Longrightarrow> dom (lookup (put e t)) = insert (key e) (dom (lookup t))"
  by (simp add: lookup_put)

lemma wf_fold: "wf t \<Longrightarrow> wf (fold put es t)"
  by (induction es arbitrary: t) (auto simp: wf_put)

text \<open>After any sequence of puts the keys are the old ones and those put.\<close>

lemma dom_fold_put: "wf t \<Longrightarrow> dom (lookup (fold put es t)) = key ` set es \<union> dom (lookup t)"
  by (induction es arbitrary: t) (auto simp: wf_put dom_put)

end

type_synonym flow_key = "u32 \<times> u32 \<times> u32 \<times> u64 \<times> ofp_match"

definition flow_key :: "flow_stats \<Rightarrow> flow_key" where
  "flow_key f = (fs_table_id f, fs_priority f, fs_flags f, fs_cookie f, fs_match f)"

definition flows_wf :: "flow_stats list \<Rightarrow> bool" where
  "flows_wf fs \<longleftrightarrow> distinct (map flow_key fs)"

definition flow_lookup :: "flow_stats list \<Rightarrow> flow_key \<Rightarrow> flow_stats option" where
  "flow_lookup fs = map_of (map (\<lambda>f. (flow_key f, f)) fs)"

text \<open>A new entry takes over the counters of the entry it replaces, unless they are to be reset.\<close>

definition merge_counts :: "flow_stats option \<Rightarrow> flow_stats \<Rightarrow> flow_stats" where
  "merge_counts old f =
     (case old of
        None \<Rightarrow> f
      | Some g \<Rightarrow> if fs_flags f AND OFPFF_RESET_COUNTS = 0
                  then f\<lparr>fs_byte_count := fs_byte_count g, fs_packet_count := fs_packet_count g\<rparr>
                  else f)"

definition flow_put :: "flow_stats \<Rightarrow> flow_stats list \<Rightarrow> flow_stats list" where
  "flow_put f fs =
     (case find_flow fs f of
        Some i \<Rightarrow> fs[i := merge_counts (Some (fs ! i)) f] | None \<Rightarrow> fs @ [f])"

definition flow_remove :: "flow_key \<Rightarrow> flow_stats list \<Rightarrow> flow_stats list" where
  "flow_remove k fs = filter (\<lambda>f. flow_key f \<noteq> k) fs"

lemma flow_match_key: "flow_match f g \<longleftrightarrow> flow_key f = flow_key g"
  by (auto simp: flow_match_def flow_key_def)

lemma find_flow_None: "find_flow fs f = None \<longleftrightarrow> flow_key f \<notin> flow_key ` set fs"
  by (induction fs) (auto simp: flow_match_key)

lemma find_flow_Some:
  "find_flow fs f = Some i \<Longrightarrow>
     i < length fs \<and> flow_key (fs ! i) = flow_key f \<and> (\<forall>j < i. flow_key (fs ! j) \<noteq> flow_key f)"
proof (induction fs arbitrary: i)
  case Nil
  then show ?case by simp
next
  case (Cons g fs)
  then show ?case
    by (auto simp: flow_match_key nth_Cons less_Suc_eq_0_disj split: if_splits nat.splits)
qed

lemma flow_key_merge [simp]: "flow_key (merge_counts old f) = flow_key f"
  by (auto simp: merge_counts_def flow_key_def split: option.splits)

lemma map_key_list_update:
  "i < length fs \<Longrightarrow> flow_key g = flow_key (fs ! i) \<Longrightarrow> map flow_key (fs[i := g]) = map flow_key fs"
  by (metis list_update_id map_update)

lemma flow_lookup_iff:
  "flows_wf fs \<Longrightarrow> flow_lookup fs k = Some f \<longleftrightarrow> f \<in> set fs \<and> flow_key f = k"
  unfolding flow_lookup_def flows_wf_def
  by (subst map_of_eq_Some_iff) (auto simp: comp_def)

lemma option_extI: "(\<And>v. x = Some v \<longleftrightarrow> y = Some v) \<Longrightarrow> x = y"
  by (cases x; cases y) auto

lemma set_update_key:
  assumes "i < length fs" and "flow_key g = flow_key (fs ! i)" and "flow_key f \<noteq> flow_key g"
  shows "f \<in> set (fs[i := g]) \<longleftrightarrow> f \<in> set fs"
proof
  assume "f \<in> set (fs[i := g])"
  then show "f \<in> set fs" using assms(3) set_update_subset_insert [of fs i g] by auto
next
  assume "f \<in> set fs"
  then obtain j where j: "j < length fs" "fs ! j = f" by (auto simp: in_set_conv_nth)
  then have "j \<noteq> i" using assms by auto
  with j show "f \<in> set (fs[i := g])" by (metis length_list_update nth_list_update_neq nth_mem)
qed

lemma flow_lookup_update:
  assumes "flows_wf fs" and "i < length fs" and "flow_key g = flow_key (fs ! i)"
  shows "flow_lookup (fs[i := g]) = (flow_lookup fs)(flow_key g \<mapsto> g)"
proof (rule ext, rule option_extI)
  fix k f
  have wf: "flows_wf (fs[i := g])"
    using assms(1) map_key_list_update [OF assms(2,3)] by (simp add: flows_wf_def)
  have g: "g \<in> set (fs[i := g])" using assms(2) by (rule set_update_memI)
  show "flow_lookup (fs[i := g]) k = Some f \<longleftrightarrow> ((flow_lookup fs)(flow_key g \<mapsto> g)) k = Some f"
  proof (cases "k = flow_key g")
    case True
    have "flow_lookup (fs[i := g]) k = Some g" using flow_lookup_iff [OF wf] g True by simp
    with True show ?thesis by simp
  next
    case False
    then show ?thesis
      using set_update_key [OF assms(2,3)] flow_lookup_iff [OF wf] flow_lookup_iff [OF assms(1)]
      by auto
  qed
qed

lemma flow_lookup_snoc:
  assumes "flows_wf fs" and "flow_key f \<notin> flow_key ` set fs"
  shows "flow_lookup (fs @ [f]) = (flow_lookup fs)(flow_key f \<mapsto> f)"
proof (rule ext, rule option_extI)
  fix k g
  have wf: "flows_wf (fs @ [f])" using assms by (auto simp: flows_wf_def)
  show "flow_lookup (fs @ [f]) k = Some g \<longleftrightarrow> ((flow_lookup fs)(flow_key f \<mapsto> f)) k = Some g"
    using assms(2)
    by (auto simp: flow_lookup_iff [OF wf] flow_lookup_iff [OF assms(1)] image_iff)
qed

lemma flow_lookup_nth:
  "flows_wf fs \<Longrightarrow> i < length fs \<Longrightarrow> flow_lookup fs (flow_key (fs ! i)) = Some (fs ! i)"
  by (auto simp: flow_lookup_def flows_wf_def comp_def intro!: map_of_is_SomeI)

lemma flow_lookup_None: "flow_key f \<notin> flow_key ` set fs \<Longrightarrow> flow_lookup fs (flow_key f) = None"
  by (auto simp: flow_lookup_def map_of_eq_None_iff)

interpretation flow_table: keyed_table flows_wf flow_lookup flow_key merge_counts flow_put
  flow_remove
proof
  fix t :: "flow_stats list" and e k
  assume wf: "flows_wf t"
  show "flows_wf (flow_put e t)"
  proof (cases "find_flow t e")
    case None
    with wf find_flow_None [of t e] show ?thesis by (simp add: flow_put_def flows_wf_def)
  next
    case (Some i)
    with find_flow_Some [OF Some] wf show ?thesis
      by (simp add: flow_put_def flows_wf_def map_key_list_update)
  qed
  show "flow_lookup (flow_put e t) =
      (flow_lookup t)(flow_key e \<mapsto> merge_counts (flow_lookup t (flow_key e)) e)"
  proof (cases "find_flow t e")
    case None
    then have "flow_key e \<notin> flow_key ` set t" by (simp add: find_flow_None)
    then show ?thesis
      using wf by (simp add: flow_put_def None flow_lookup_snoc flow_lookup_None merge_counts_def)
  next
    case (Some i)
    from find_flow_Some [OF Some] have i: "i < length t" "flow_key e = flow_key (t ! i)" by auto
    have "flow_lookup t (flow_key e) = Some (t ! i)" using flow_lookup_nth [OF wf i(1)] i(2) by simp
    then show ?thesis
      using flow_lookup_update [OF wf i(1), of "merge_counts (Some (t ! i)) e"] i(2)
      by (simp add: flow_put_def Some)
  qed
  show "flows_wf (flow_remove k t)"
    using wf by (induction t) (auto simp: flows_wf_def flow_remove_def)
  show "flow_lookup (flow_remove k t) = (flow_lookup t)(k := None)"
    by (induction t) (auto simp: flow_lookup_def flow_remove_def fun_eq_iff)
qed

text \<open>The group table: one entry per group id.\<close>

definition group_key :: "group_entry \<Rightarrow> u32" where
  "group_key g = gd_group_id (g_desc g)"

definition groups_wf :: "group_entry list \<Rightarrow> bool" where
  "groups_wf gs \<longleftrightarrow> distinct (map group_key gs)"

definition group_lookup :: "group_entry list \<Rightarrow> u32 \<Rightarrow> group_entry option" where
  "group_lookup gs k = od_get k (groups_od gs)"

definition group_put :: "group_entry \<Rightarrow> group_entry list \<Rightarrow> group_entry list" where
  "group_put g gs = od_values (od_set (group_key g) g (groups_od gs))"

definition group_remove :: "u32 \<Rightarrow> group_entry list \<Rightarrow> group_entry list" where
  "group_remove k gs = od_values (od_del k (groups_od gs))"

definition keyed_groups :: "(u32, group_entry) od \<Rightarrow> bool" where
  "keyed_groups d \<longleftrightarrow> od_wf d \<and> (\<forall>(k, g) \<in> set d. group_key g = k)"

lemma groups_od_wf: "groups_wf gs \<Longrightarrow> groups_od gs = map (\<lambda>g. (group_key g, g)) gs"
  unfolding groups_od_def group_key_def groups_wf_def
  by (subst od_of_distinct) (auto simp: comp_def)

lemma keyed_groups_od: "keyed_groups d \<Longrightarrow> groups_od (od_values d) = d \<and> groups_wf (od_values d)"
proof -
  assume d: "keyed_groups d"
  have keys: "map group_key (od_values d) = map fst d"
    using d by (auto simp: keyed_groups_def od_values_def)
  have "map (\<lambda>g. (group_key g, g)) (od_values d) = d"
    using d by (auto simp: keyed_groups_def od_values_def intro!: map_idI)
  moreover have "groups_wf (od_values d)"
    using d keys by (simp add: groups_wf_def keyed_groups_def od_wf_def)
  ultimately show ?thesis by (simp add: groups_od_wf)
qed

lemma keyed_groups_of: "groups_wf gs \<Longrightarrow> keyed_groups (groups_od gs)"
  by (auto simp: groups_od_wf keyed_groups_def groups_wf_def od_wf_def comp_def)

lemma keyed_groups_set: "keyed_groups d \<Longrightarrow> keyed_groups (od_set (group_key g) g d)"
  by (auto simp: keyed_groups_def dest!: set_od_set)

lemma keyed_groups_del: "keyed_groups d \<Longrightarrow> keyed_groups (od_del k d)"
  unfolding keyed_groups_def by (auto simp: od_del_def od_wf_def distinct_map_filter)

interpretation group_table: keyed_table groups_wf group_lookup group_key "\<lambda>old g. g" group_put
  group_remove
proof
  fix t :: "group_entry list" and e k
  assume wf: "groups_wf t"
  note d = keyed_groups_of [OF wf]
  show "groups_wf (group_put e t)" "groups_wf (group_remove k t)"
    using keyed_groups_od [OF keyed_groups_set [OF d]] keyed_groups_od [OF keyed_groups_del [OF d]]
    by (simp_all add: group_put_def group_remove_def)
  show "group_lookup (group_put e t) = (group_lookup t)(group_key e \<mapsto> e)"
    using keyed_groups_od [OF keyed_groups_set [OF d]]
    by (auto simp: group_lookup_def group_put_def fun_eq_iff)
  show "group_lookup (group_remove k t) = (group_lookup t)(k := None)"
    using keyed_groups_od [OF keyed_groups_del [OF d]]
    by (auto simp: group_lookup_def group_remove_def fun_eq_iff)
qed


section \<open>The handlers on the tables\<close>

lemma flow_add_table:
  assumes "fm_cookie_mask m = 0" and "fm_flags m AND OFPFF_CHECK_OVERLAP = 0"
  shows "fst (flow_add E m s) = Inr () \<and>
    ld_flows (snd (flow_add E m s)) =
      flow_put (flow_stats_entry_from_flow_mod_message (env_hash E) m) (ld_flows s)"
  using assms
  by (simp add: flow_add_def flow_put_def Let_def merge_counts_def split: option.splits)

lemma flow_remove_find:
  assumes "flows_wf fs"
  shows "flow_remove (flow_key f) fs =
    (case find_flow fs f of Some i \<Rightarrow> take i fs @ drop (Suc i) fs | None \<Rightarrow> fs)"
  using assms
proof (induction fs)
  case Nil
  then show ?case by (simp add: flow_remove_def)
next
  case (Cons g fs)
  then have wf: "flows_wf fs" and new: "flow_key g \<notin> flow_key ` set fs" by (auto simp: flows_wf_def)
  have "flow_key g = flow_key f \<Longrightarrow> filter (\<lambda>h. flow_key h \<noteq> flow_key f) fs = fs"
    using new by (auto intro!: filter_True simp: image_iff)
  with Cons.IH [OF wf] show ?case
    by (auto simp: flow_remove_def flow_match_key split: option.splits)
qed

lemma flow_delete_strict_table:
  assumes "flows_wf (ld_flows s)"
  shows "fst (flow_delete_strict E m s) = Inr () \<and>
    ld_flows (snd (flow_delete_strict E m s)) =
      flow_remove (flow_key (flow_stats_entry_from_flow_mod_message (env_hash E) m)) (ld_flows s)"
  using flow_remove_find [OF assms]
  by (auto simp: flow_delete_strict_def Let_def split: option.splits)

lemma partition_flows_Inr:
  "partition_flows c fs = Inr (keep, del) \<Longrightarrow>
     keep = filter (\<lambda>f. c f \<noteq> Inr True) fs \<and> del = filter (\<lambda>f. c f = Inr True) fs \<and>
     (\<forall>f \<in> set fs. \<exists>b. c f = Inr b)"
proof (induction fs arbitrary: keep del)
  case Nil
  then show ?case by simp
next
  case (Cons f fs)
  then show ?case by (fastforce simp: res_simps split: if_splits)
qed

lemma flow_delete_table:
  "ld_flows (snd (flow_delete E m s)) =
     (case partition_flows (\<lambda>f. flow_matches_spec f m) (ld_flows s) of
        Inl _ \<Rightarrow> ld_flows s
      | Inr _ \<Rightarrow> filter (\<lambda>f. flow_matches_spec f m \<noteq> Inr True) (ld_flows s))"
proof (cases "partition_flows (\<lambda>f. flow_matches_spec f m) (ld_flows s)")
  case (Inl e)
  then show ?thesis by (simp add: flow_delete_def)
next
  case (Inr kd)
  obtain keep del where kd: "kd = (keep, del)" by (cases kd)
  from partition_flows_Inr [OF Inr [unfolded kd]]
  have k: "keep = filter (\<lambda>f. flow_matches_spec f m \<noteq> Inr True) (ld_flows s)"
    and d: "del = filter (\<lambda>f. flow_matches_spec f m = Inr True) (ld_flows s)" by auto
  have "del = [] \<Longrightarrow> keep = ld_flows s"
    unfolding k d by (auto simp: filter_empty_conv filter_id_conv)
  with Inr kd show ?thesis by (auto simp: flow_delete_def k)
qed

lemma flows_wf_filter: "flows_wf fs \<Longrightarrow> flows_wf (filter c fs)"
  by (simp add: flows_wf_def distinct_map_filter)

lemma flow_delete_wf: "flows_wf (ld_flows s) \<Longrightarrow> flows_wf (ld_flows (snd (flow_delete E m s)))"
  by (auto simp: flow_delete_table flows_wf_filter split: sum.splits)

lemma group_ops_table:
  "ld_groups (snd (group_add E m s)) =
     (if group_lookup (ld_groups s) (gm_group_id m) = None
      then group_put (group_entry_from_group_mod m) (ld_groups s) else ld_groups s)"
  "ld_groups (snd (group_modify E m s)) =
     (if group_lookup (ld_groups s) (gm_group_id m) = None then ld_groups s
      else group_put (group_entry_from_group_mod m) (ld_groups s))"
  by (auto simp: group_add_def group_modify_def Let_def group_lookup_def group_put_def
      group_key_def)

lemma flows_delete_by_group_id_Inr:
  "flows_delete_by_group_id fs g = Inr (b, keep) \<Longrightarrow>
     keep = filter (\<lambda>f. \<not> flow_has_out_group f g) fs \<and> (\<not> b \<longrightarrow> keep = fs)"
  by (auto simp: flows_delete_by_group_id_def Let_def res_simps filter_empty_conv filter_id_conv)

lemma group_delete_table:
  assumes "group_delete E m s = (Inr (), s')" and "gm_group_id m \<noteq> OFPG_ALL"
    and "group_lookup (ld_groups s) (gm_group_id m) \<noteq> None"
  shows "ld_groups s' = group_remove (gm_group_id m) (ld_groups s) \<and>
    ld_flows s' = filter (\<lambda>f. \<not> flow_has_out_group f (gm_group_id m)) (ld_flows s)"
  using assms
  by (auto simp: group_delete_def Let_def group_lookup_def group_remove_def split: sum.splits
      dest!: flows_delete_by_group_id_Inr)

lemma group_delete_wf:
  "flows_wf (ld_flows s) \<Longrightarrow> flows_wf (ld_flows (snd (group_delete E m s)))"
  "groups_wf (ld_groups s) \<Longrightarrow> groups_wf (ld_groups (snd (group_delete E m s)))"
proof -
  show "flows_wf (ld_flows s) \<Longrightarrow> flows_wf (ld_flows (snd (group_delete E m s)))"
    by (auto simp: group_delete_def Let_def flows_wf_filter split: sum.splits
        dest!: flows_delete_by_group_id_Inr)
  assume wf: "groups_wf (ld_groups s)"
  have "groups_wf []" by (simp add: groups_wf_def)
  with wf show "groups_wf (ld_groups (snd (group_delete E m s)))"
    using group_table.wf_remove [OF wf, of "gm_group_id m"]
    by (auto simp: group_delete_def Let_def group_remove_def split: sum.splits)
qed


section \<open>Cached routes\<close>

text \<open>
  The invariant of the cache: every cached route has two hops, each of one device and two of its
  own ports.
\<close>

definition cache_ok :: "lda \<Rightarrow> bool" where
  "cache_ok s \<longleftrightarrow>
     (\<forall>rs. ld_routes s = Some rs \<longrightarrow>
        (\<forall>(k, r) \<in> set rs. \<exists>ih eh. r = [Some ih, Some eh] \<and>
           hop_ok (lda_proxy s) ih \<and> hop_ok (lda_proxy s) eh))"

lemma find_route_mem: "find_route c rs = Some r \<Longrightarrow> \<exists>k. (k, r) \<in> set rs \<and> c k"
  by (induction c rs rule: find_route.induct) (auto split: if_splits)

lemma cached_route_cases:
  assumes "cache_ok s" and "cached_route s a b = Inr r"
  shows "\<exists>ih eh. hop_ok (lda_proxy s) ih \<and> hop_ok (lda_proxy s) eh \<and>
    r \<in> {[Some ih, Some eh], [Some ih, None], [None, Some eh]}"
proof -
  let ?rs = "case ld_routes s of None \<Rightarrow> [] | Some rs \<Rightarrow> rs"
  have rs: "\<exists>ih eh. r = [Some ih, Some eh] \<and> hop_ok (lda_proxy s) ih \<and> hop_ok (lda_proxy s) eh"
    if "(k, r) \<in> set ?rs" for k r
    using that assms(1) unfolding cache_ok_def by (cases "ld_routes s") fastforce+
  from assms(2) obtain k q where "(k, q) \<in> set ?rs" and "r \<in> {q, [q ! 0, None], [None, q ! 1]}"
    by (auto simp: cached_route_def Let_def split: if_splits option.splits
        dest!: find_route_mem od_get_mem)
  with rs [of k q] show ?thesis by fastforce
qed

interpretation agent_router: router cache_ok cached_route "\<lambda>s. hop_ok (lda_proxy s)"
proof
  fix c a b r h
  assume "cache_ok c" and "cached_route c a b = Inr r"
  from cached_route_cases [OF this] show "length r = 2"
    and "Some h \<in> set r \<Longrightarrow> hop_ok (lda_proxy c) h" by auto
qed

lemma cache_ok_invalidate [simp]: "cache_ok (invalidate_cached_tables s)"
  by (simp add: cache_ok_def invalidate_cached_tables_def)

lemma lda_proxy_caches [simp]:
  "lda_proxy (s\<lparr>ld_routes := a\<rparr>) = lda_proxy s"
  "lda_proxy (s\<lparr>ld_default_rules := b\<rparr>) = lda_proxy s"
  "lda_proxy (s\<lparr>ld_nni := c\<rparr>) = lda_proxy s"
  "lda_proxy (s\<lparr>ld_flows := f\<rparr>) = lda_proxy s"
  "lda_proxy (s\<lparr>ld_groups := g\<rparr>) = lda_proxy s"
  by (simp_all add: lda_proxy_def)

lemma assure_cache_ok:
  assumes "returns_paths (env_sp E)" and "cache_ok s"
  shows "cache_ok (snd (assure_cached_tables_up_to_date E s))"
proof (cases "ld_routes s")
  case (Some rs)
  with assms(2) show ?thesis by (simp add: assure_cached_tables_up_to_date_def)
next
  case None
  have "\<exists>ih eh. r = [Some ih, Some eh] \<and> hop_ok (lda_proxy s) ih \<and> hop_ok (lda_proxy s) eh"
    if cr: "compute_routes (env_fuel E) (env_sp E) (lda_proxy s) (ld_ports s) = Inr (g, routes)"
      and mem: "(k, r) \<in> set routes" for g routes k r
  proof -
    from cr obtain b where bg: "build_graph (env_fuel E) (lda_proxy s) (ld_ports s) = Inr (b, g)"
      and br: "build_routes (env_sp E) b g = Inr routes"
      by (auto simp: compute_routes_def res_simps)
    from build_routes_ok [OF _ assms(1) br] build_graph_ok [OF bg] mem
    show ?thesis by (fastforce simp: list_all_iff route_ok_def)
  qed
  then show ?thesis
    using None
    by (fastforce simp: assure_cached_tables_up_to_date_def cache_ok_def Let_def
        split: sum.splits prod.splits list.splits)
qed

end
