(* ===== verification/AgentTables.thy ===== *)
theory AgentTables
  imports LogicalDeviceAgent
begin

text \<open>
  The properties of the logical device agent: its flow and group tables refine finite maps, every
  event keeps them well-formed, deletion removes exactly what it should, the physical devices get
  the decomposed rules, and three places where the code falls short of its intent.
\<close>

section \<open>Runs of the agent\<close>

text \<open>The events an agent handles, with any result, one rule each.\<close>

inductive agent_step :: "lda_env \<Rightarrow> lda \<Rightarrow> lda \<Rightarrow> bool" for E where
  flow_mod: "agent_step E s (snd (update_flow_table E m s))"
| group_mod: "agent_step E s (snd (update_group_table E m s))"
| port_add: "agent_step E s (port_added p (s\<lparr>ld_ports := ps\<rparr>))"
| port_remove: "agent_step E s (port_removed p (s\<lparr>ld_ports := ps\<rparr>))"
| packet_out: "agent_step E s (lda_packet_out pkt s)"
| packet_in: "agent_step E s (handle_packet_in_event msg s)"

definition agent_reachable :: "lda_env \<Rightarrow> lda \<Rightarrow> lda \<Rightarrow> bool" where
  "agent_reachable E s0 = reachable (\<lambda>s. s = s0) (agent_step E)"

inductive_cases agent_stepE: "agent_step E s t"

lemmas event_simps =
  port_added_def port_removed_def port_list_updated_def invalidate_cached_tables_def
  send_port_change_def lda_packet_out_def handle_packet_in_event_def packet_in_def

text \<open>
  A flow that was added with the overlap check is appended without a look at its key, since the
  search for overlapping flows is not implemented; the flags are part of the key.  The other flows
  have different keys.
\<close>

definition checked :: "flow_stats \<Rightarrow> bool" where
  "checked f \<longleftrightarrow> fs_flags f AND OFPFF_CHECK_OVERLAP \<noteq> 0"

fun unchecked_key :: "flow_key \<Rightarrow> bool" where
  "unchecked_key (table_id, priority, flags, cookie, match) \<longleftrightarrow> flags AND OFPFF_CHECK_OVERLAP = 0"

definition keys_ok :: "flow_stats list \<Rightarrow> bool" where
  "keys_ok fs \<longleftrightarrow> distinct (filter unchecked_key (map flow_key fs))"

definition tables_ok :: "lda \<Rightarrow> bool" where
  "tables_ok s \<longleftrightarrow> keys_ok (ld_flows s) \<and> groups_wf (ld_groups s)"

lemma unchecked_flow_key: "unchecked_key (flow_key f) \<longleftrightarrow> \<not> checked f"
  by (simp add: flow_key_def checked_def)

lemma keys_ok_iff: "keys_ok fs \<longleftrightarrow> distinct (map flow_key (filter (\<lambda>f. \<not> checked f) fs))"
  by (simp add: keys_ok_def filter_map comp_def unchecked_flow_key)

lemma flows_wf_keys_ok: "flows_wf fs \<Longrightarrow> keys_ok fs"
  by (simp add: flows_wf_def keys_ok_def)

lemma keys_ok_filter: "keys_ok fs \<Longrightarrow> keys_ok (filter c fs)"
proof (induction fs)
  case (Cons f fs)
  then show ?case by (auto simp: keys_ok_def split: if_splits)
qed simp

lemma keys_ok_remove: "keys_ok fs \<Longrightarrow> keys_ok (take i fs @ drop (Suc i) fs)"
proof -
  have "distinct (filter P (xs @ zs))" if "distinct (filter P (xs @ ys @ zs))" for P and xs ys zs :: "flow_key list"
    using that by auto
  moreover have "map flow_key fs = take i (map flow_key fs) @ take 1 (drop i (map flow_key fs)) @ drop (Suc i) (map flow_key fs)"
    by (metis append_take_drop_id drop_drop plus_1_eq_Suc)
  ultimately show "keys_ok fs \<Longrightarrow> keys_ok (take i fs @ drop (Suc i) fs)"
    unfolding keys_ok_def map_append take_map [symmetric] drop_map [symmetric] by metis
qed

lemma keys_ok_put: "keys_ok fs \<Longrightarrow> keys_ok (flow_put f fs)"
proof (cases "find_flow fs f")
  case None
  then have "flow_key f \<notin> flow_key ` set fs" by (simp add: find_flow_None)
  then show "keys_ok fs \<Longrightarrow> keys_ok (flow_put f fs)"
    by (auto simp: flow_put_def None keys_ok_def)
next
  case (Some i)
  then have "map flow_key (fs[i := merge_counts (Some (fs ! i)) f]) = map flow_key fs"
    using find_flow_Some [OF Some] by (intro map_key_list_update) auto
  then show "keys_ok fs \<Longrightarrow> keys_ok (flow_put f fs)" by (simp add: flow_put_def Some keys_ok_def)
qed

lemma flow_add_all:
  "flow_add E m s =
     (let e = flow_stats_entry_from_flow_mod_message (env_hash E) m in
      if fm_cookie_mask m \<noteq> 0 then (Inl AssertionError, s)
      else if checked e then (Inr (), flows_proxy_update E (ld_flows s @ [e]) s)
      else (Inr (), flows_proxy_update E (flow_put e (ld_flows s)) s))"
proof -
  have "fs_flags (flow_stats_entry_from_flow_mod_message (env_hash E) m) = fm_flags m"
    by (simp add: flow_stats_entry_from_flow_mod_message_def Let_def)
  then show ?thesis
    by (simp add: flow_add_def checked_def flow_put_def merge_counts_def find_overlapping_flows_def Let_def
        split: option.splits)
qed

lemma update_flow_table_ok: "tables_ok s \<Longrightarrow> tables_ok (snd (update_flow_table E m s))"
proof -
  assume ok: "tables_ok s"
  have "ld_groups (snd (update_flow_table E m s)) = ld_groups s"
    by (simp add: update_flow_table_def flow_add_def flow_delete_def flow_delete_strict_def
        flow_modify_def flow_modify_strict_def Let_def split: option.splits sum.splits)
  moreover have "keys_ok (ld_flows (snd (flow_add E m s)))"
    using ok keys_ok_put by (auto simp: flow_add_all Let_def tables_ok_def keys_ok_def unchecked_flow_key)
  moreover have "keys_ok (ld_flows (snd (flow_delete E m s)))"
    using ok by (auto simp: flow_delete_table tables_ok_def keys_ok_filter split: sum.splits)
  moreover have "keys_ok (ld_flows (snd (flow_delete_strict E m s)))"
    using ok keys_ok_remove by (auto simp: flow_delete_strict_def tables_ok_def Let_def split: option.splits)
  ultimately show ?thesis
    using ok by (simp add: tables_ok_def update_flow_table_def flow_modify_def flow_modify_strict_def Let_def)
qed

lemma update_group_table_ok: "tables_ok s \<Longrightarrow> tables_ok (snd (update_group_table E m s))"
proof -
  assume ok: "tables_ok s"
  have "keys_ok (ld_flows (snd (group_delete E m s)))"
    using ok by (auto simp: group_delete_def tables_ok_def Let_def keys_ok_filter split: sum.splits
        dest!: flows_delete_by_group_id_Inr)
  moreover have "tables_ok (snd (group_add E m s))" "tables_ok (snd (group_modify E m s))"
    using ok group_ops_table [of E m s]
    by (auto simp: tables_ok_def group_table.wf_put group_add_def group_modify_def Let_def split: if_splits)
  ultimately show ?thesis
    using ok group_delete_wf(2) [of s E m] by (auto simp: update_group_table_def tables_ok_def Let_def)
qed

lemma events_tables_ok [simp]:
  "tables_ok (s\<lparr>ld_ports := ps\<rparr>) = tables_ok s"
  "tables_ok (port_added p s) = tables_ok s"
  "tables_ok (port_removed p s) = tables_ok s"
  "tables_ok (lda_packet_out pkt s) = tables_ok s"
  "tables_ok (handle_packet_in_event msg s) = tables_ok s"
  by (auto simp: tables_ok_def event_simps split: prod.splits)

lemma agent_step_tables_ok: "agent_step E s t \<Longrightarrow> tables_ok s \<Longrightarrow> tables_ok t"
  by (induction rule: agent_step.induct) (simp_all add: update_flow_table_ok update_group_table_ok)

interpretation tables: step_invariant "\<lambda>s. s = s0" "agent_step E" "\<lambda>s. tables_ok s0 \<longrightarrow> tables_ok s" for E s0
  by unfold_locales (auto intro: agent_step_tables_ok)


section \<open>The device tables after an update\<close>

lemma update_device_tables_get:
  "update_device_tables (i, fl, gr) u s = (Inr (), s') \<Longrightarrow>
     od_get j (ld_devices s') =
       (if j = i then map_option (\<lambda>e. e\<lparr>de_flows := od_values fl, de_groups := od_values gr\<rparr>)
                        (od_get i (ld_devices s))
        else od_get j (ld_devices s)) \<and> od_get i (ld_devices s) \<noteq> None"
  by (auto simp: update_device_tables_def split: option.splits)

lemma st_for_update_devices:
  assumes "st_for update_device_tables rules () s = (Inr (), s')" and "od_wf rules"
  shows "od_get i (ld_devices s') =
    (case od_get i rules of
       None \<Rightarrow> od_get i (ld_devices s)
     | Some (fl, gr) \<Rightarrow>
         map_option (\<lambda>e. e\<lparr>de_flows := od_values fl, de_groups := od_values gr\<rparr>)
           (od_get i (ld_devices s))) \<and>
    (od_get i rules \<noteq> None \<longrightarrow> od_get i (ld_devices s) \<noteq> None)"
  using assms
proof (induction rules arbitrary: s)
  case Nil
  then show ?case by simp
next
  case (Cons item rules)
  obtain k fl gr where item: "item = (k, fl, gr)" by (cases item)
  from Cons.prems obtain s1 where s1: "update_device_tables (k, fl, gr) () s = (Inr (), s1)"
    and rest: "st_for update_device_tables rules () s1 = (Inr (), s')"
    by (auto simp: item res_simps)
  have wf: "od_wf rules" and k: "od_get k rules = None"
    using Cons.prems(2) by (auto simp: od_wf_def item od_get_None)
  show ?case
    using Cons.IH [OF rest wf] update_device_tables_get [OF s1, of i] k
    by (auto simp: item split: option.splits prod.splits)
qed

lemma flow_table_updated_Inr:
  assumes "flow_table_updated E flows s = (Inr (), s')"
  obtains s1 d rules where "assure_cached_tables_up_to_date E s = (Inr (), s1)"
    and "ld_default_rules s1 = Some d"
    and "decompose_rules (env_hash E) (cached_route s1) d flows (ld_groups s) = Inr rules"
    and "st_for update_device_tables rules () s1 = (Inr (), s')"
  using assms
  by (auto simp: flow_table_updated_def lda_decompose_rules_def res_simps split: option.splits)

lemma assure_devices: "ld_devices (snd (assure_cached_tables_up_to_date E s)) = ld_devices s"
  by (simp add: assure_cached_tables_up_to_date_def Let_def
      split: option.splits sum.splits prod.splits list.splits)


lemma assure_defaults:
  assumes "assure_cached_tables_up_to_date E s = (Inr (), s1)"
  shows "case ld_routes s of
       Some _ \<Rightarrow> ld_default_rules s1 = ld_default_rules s
     | None \<Rightarrow> \<exists>g routes d. compute_routes (env_fuel E) (env_sp E) (lda_proxy s) (ld_ports s) = Inr (g, routes) \<and>
                 generate_default_rules (env_hash E) s g = Inr d \<and> ld_default_rules s1 = Some d"
  using assms
  by (auto simp: assure_cached_tables_up_to_date_def Let_def split: option.splits sum.splits list.splits)

text \<open>The default rules an agent caches are keyed by device and by flow id.\<close>

lemma flow_od_keyed: "keyed_by_id (flow_od fs)"
proof -
  have "keyed_by_id (od_of (map (\<lambda>f. (fs_id f, f)) fs) d)" if "keyed_by_id d" for d
    using that
  proof (induction fs arbitrary: d)
    case (Cons f fs)
    have "keyed_by_id (od_set (fs_id f) f d)"
      using Cons.prems by (auto simp: keyed_by_id_def dest!: set_od_set)
    with Cons.IH show ?case by simp
  qed simp
  from this [of "[]"] show ?thesis by (simp add: flow_od_def keyed_by_id_def)
qed

lemma default_rules_keyed:
  "root_device_default_rules H s d = Inr (fl, gr) \<Longrightarrow> keyed_by_id fl"
  "leaf_device_default_rules H s d = Inr (fl, gr) \<Longrightarrow> keyed_by_id fl"
  by (auto simp: root_device_default_rules_def leaf_device_default_rules_def res_simps flow_od_keyed)

lemma device_rules_wf_set:
  "device_rules_wf rules \<Longrightarrow> keyed_by_id (fst r) \<Longrightarrow> device_rules_wf (od_set i r rules)"
  by (cases r) (auto simp: device_rules_wf_def dest!: set_od_set)

lemma generate_default_rules_wf:
  assumes "generate_default_rules H s g = Inr rules"
  shows "device_rules_wf rules"
proof (rule py_for_invariant [OF assms [unfolded generate_default_rules_def], where P = device_rules_wf])
  show "device_rules_wf []" by (simp add: device_rules_wf_def)
qed (auto simp: res_simps split: gattr.splits if_splits
       intro!: device_rules_wf_set dest: default_rules_keyed)

definition defaults_ok :: "lda \<Rightarrow> bool" where
  "defaults_ok s \<longleftrightarrow> (\<forall>d. ld_default_rules s = Some d \<longrightarrow> device_rules_wf d)"

lemma assure_defaults_ok:
  "defaults_ok s \<Longrightarrow> defaults_ok (snd (assure_cached_tables_up_to_date E s))"
  by (auto simp: assure_cached_tables_up_to_date_def defaults_ok_def Let_def
      split: option.splits sum.splits prod.splits list.splits dest: generate_default_rules_wf)

lemma flow_matches_spec_cases:
  "flow_matches_spec f m = Inr True \<or> flow_matches_spec f m = Inr False \<or>
   flow_matches_spec f m = Inl NotImplementedError"
  by (simp add: flow_matches_spec_def)

lemma partition_flows_total:
  assumes "\<And>f. c f = Inr True \<or> c f = Inr False \<or> c f = Inl NotImplementedError"
  shows "(\<exists>x. partition_flows c fs = Inr x) \<longleftrightarrow> (\<forall>f \<in> set fs. c f \<noteq> Inl NotImplementedError)"
proof (induction fs)
  case (Cons f fs)
  then show ?case
    using assms [of f] by (cases "partition_flows c fs") auto
qed simp


text \<open>\<^const>\<open>flow_put\<close> updates the finite map of any table, also of one that has a key twice.\<close>

lemma find_flow_lookup:
  "find_flow fs f = Some i \<Longrightarrow> flow_lookup fs (flow_key f) = Some (fs ! i)"
  by (induction fs arbitrary: i) (auto simp: flow_lookup_def flow_match_key split: if_splits)

lemma find_flow_update_lookup:
  "find_flow fs f = Some i \<Longrightarrow> flow_key g = flow_key f \<Longrightarrow>
   flow_lookup (fs[i := g]) = (flow_lookup fs)(flow_key f \<mapsto> g)"
proof (induction fs arbitrary: i)
  case (Cons h fs)
  then show ?case
    by (auto simp: flow_lookup_def flow_match_key fun_upd_twist split: if_splits)
qed simp

lemma flow_put_lookup:
  "flow_lookup (flow_put f fs) = (flow_lookup fs)(flow_key f \<mapsto> merge_counts (flow_lookup fs (flow_key f)) f)"
proof (cases "find_flow fs f")
  case None
  then have "flow_lookup fs (flow_key f) = None" by (simp add: find_flow_None flow_lookup_None)
  then show ?thesis
    by (auto simp: flow_put_def None merge_counts_def flow_lookup_def map_add_def fun_eq_iff split: option.splits)
next
  case (Some i)
  then show ?thesis by (simp add: flow_put_def find_flow_lookup find_flow_update_lookup)
qed

lemma flow_put_wf: "flows_wf (flow_put f fs) = flows_wf fs"
proof (cases "find_flow fs f")
  case None
  then have "flow_key f \<notin> flow_key ` set fs" by (simp add: find_flow_None)
  then show ?thesis by (simp add: flow_put_def None flows_wf_def)
next
  case (Some i)
  then show ?thesis
    using find_flow_Some [OF Some] by (simp add: flow_put_def flows_wf_def map_key_list_update)
qed


section \<open>A concrete agent\<close>

definition ex_env :: lda_env where
  "ex_env = \<lparr>env_hash = ex_hash, env_sp = ex_sp, env_fuel = 3\<rparr>"

definition ex_agent :: lda where
  "ex_agent = lda_init
     \<lparr>ld_id = ''1'', ld_root_device_id = ''olt'', ld_ports = ex_lports, ld_flows = [],
      ld_groups = [],
      ld_devices = [(''olt'', \<lparr>de_device = ex_olt, de_ports = [ex_olt_pon, ex_olt_nni],
                              de_flows = [], de_groups = []\<rparr>),
                    (''onu'', \<lparr>de_device = ex_onu, de_ports = [ex_onu_pon, ex_onu_uni],
                              de_flows = [], de_groups = []\<rparr>)],
      ld_routes = None, ld_default_rules = None, ld_nni = None,
      ld_flows_cbs = [], ld_groups_cbs = [], ld_self_cbs = [], ld_published = [],
      ld_packet_in_queue = [], ld_change_events = []\<rparr>"

definition ex_mod :: flow_mod where
  "ex_mod = mk_simple_flow_mod [in_port 128, vlan_vid (OFPVID_PRESENT OR 101)]
     [push_vlan 0x8100, set_field (vlan_vid (OFPVID_PRESENT OR 1000)), output_act 0]
     OFPFC_ADD None (kw_prio 1000 7)"

definition ex_overlap_mod :: flow_mod where
  "ex_overlap_mod = ex_mod\<lparr>fm_flags := OFPFF_CHECK_OVERLAP\<rparr>"

definition ex_group_mod :: group_mod where
  "ex_group_mod = mk_multicast_group_mod 5 [] OFPGC_ADD"

definition ex_group_flow :: flow_mod where
  "ex_group_flow = mk_simple_flow_mod [in_port 0] [group 5] OFPFC_ADD None (kw_prio 1000 7)"

lemma ex_agent_tables [simp]: "ld_flows ex_agent = []" "ld_groups ex_agent = []"
  by (simp_all add: ex_agent_def lda_init_def)

lemma ex_mod_simps [simp]:
  "fm_cookie_mask ex_mod = 0" "fm_flags ex_mod = 0" "fm_command ex_mod = OFPFC_ADD"
  by (simp_all add: ex_mod_def mk_simple_flow_mod_def kw_prio_def default_flow_mod_def)


definition ex_group_agent :: lda where
  "ex_group_agent =
     ex_agent\<lparr>ld_groups := [group_entry_from_group_mod ex_group_mod],
              ld_flows := [flow_stats_entry_from_flow_mod_message ex_hash ex_group_flow]\<rparr>"

lemma ex_group_agent:
  "gm_group_id ex_group_mod \<noteq> OFPG_ALL" "groups_wf (ld_groups ex_group_agent)"
  "group_lookup (ld_groups ex_group_agent) (gm_group_id ex_group_mod) \<noteq> None"
  "\<forall>f \<in> set (ld_flows ex_group_agent). flow_has_out_group f (gm_group_id ex_group_mod)"
  "fst (group_delete ex_env ex_group_mod ex_group_agent) = Inr ()"
  by code_simp+

lemma ex_flow_table_updated:
  "case flow_table_updated ex_env [] ex_agent of
     (Inl _, _) \<Rightarrow> False
   | (Inr _, s) \<Rightarrow> map (\<lambda>(i, e). (i, length (de_flows e))) (ld_devices s) = [(''olt'', 1), (''onu'', 3)]"
  by code_simp

lemma ex_agent_decomposes:
  "case assure_cached_tables_up_to_date ex_env ex_agent of
     (Inl _, _) \<Rightarrow> False
   | (Inr _, s) \<Rightarrow>
       (case decompose_flow (env_hash ex_env) (cached_route s) ex_up_flow [] of
          Inl _ \<Rightarrow> False | Inr rules \<Rightarrow> rules \<noteq> [] \<and> fst (snd (hd rules)) \<noteq> [])"
  by code_simp


section \<open>Properties\<close>

text \<open>
  C8. Adding a flow, on every branch.  With a cookie mask \<^verbatim>\<open>flow_add\<close> raises and changes
  nothing.  Without the overlap check it refines updating a finite map, on any table: it stores the
  new entry at its key (table id, priority, flags, cookie and match), changes no other key, and takes
  over the counters of the entry it replaces unless the mod asks to reset them; a table whose keys
  are different stays so.  With the overlap check it appends the entry, whatever the table holds.
\<close>

theorem flow_add_refines:
  "let (r, s') = flow_add E m s;
       e = flow_stats_entry_from_flow_mod_message (env_hash E) m
   in if fm_cookie_mask m \<noteq> 0 then r = Inl AssertionError \<and> s' = s
      else if fm_flags m AND OFPFF_CHECK_OVERLAP \<noteq> 0 then r = Inr () \<and> ld_flows s' = ld_flows s @ [e]
      else r = Inr () \<and> flows_wf (ld_flows s') = flows_wf (ld_flows s) \<and>
        flow_lookup (ld_flows s') =
          (flow_lookup (ld_flows s))(flow_key e \<mapsto> merge_counts (flow_lookup (ld_flows s) (flow_key e)) e)"
proof -
  have "fs_flags (flow_stats_entry_from_flow_mod_message (env_hash E) m) = fm_flags m"
    by (simp add: flow_stats_entry_from_flow_mod_message_def Let_def)
  then show ?thesis
    by (simp add: flow_add_all Let_def checked_def flow_put_lookup flow_put_wf)
qed

text \<open>
  A strict delete undoes an add: deleting strictly with the mod of a flow that was not in the
  table before it was added restores the table, entry for entry and in order.
\<close>

theorem flow_add_delete_strict:
  assumes "flows_wf (ld_flows s)" and "fm_cookie_mask m = 0"
    and "fm_flags m AND OFPFF_CHECK_OVERLAP = 0"
    and "flow_lookup (ld_flows s)
           (flow_key (flow_stats_entry_from_flow_mod_message (env_hash E) m)) = None"
  shows "ld_flows (snd (flow_delete_strict E m (snd (flow_add E m s)))) = ld_flows s"
proof -
  define e where "e = flow_stats_entry_from_flow_mod_message (env_hash E) m"
  define s1 where "s1 = snd (flow_add E m s)"
  have new: "flow_key e \<notin> flow_key ` set (ld_flows s)"
    using assms(4) unfolding e_def flow_lookup_def map_of_eq_None_iff by force
  have s1: "ld_flows s1 = ld_flows s @ [e]"
    using flow_add_table [OF assms(2,3), of E s] new find_flow_None [of "ld_flows s" e]
    by (simp add: s1_def flow_put_def e_def)
  have "flows_wf (ld_flows s1)" using assms(1) new by (auto simp: s1 flows_wf_def)
  then have "ld_flows (snd (flow_delete_strict E m s1)) = flow_remove (flow_key e) (ld_flows s1)"
    using flow_delete_strict_table by (simp add: e_def)
  also have "\<dots> = ld_flows s"
    using new by (auto simp: s1 flow_remove_def image_iff intro!: filter_True)
  finally show ?thesis by (simp add: s1_def)
qed

theorem flow_add_delete_strict_witness:
  "ld_flows (snd (flow_delete_strict ex_env ex_mod (snd (flow_add ex_env ex_mod ex_agent)))) = []"
  using flow_add_delete_strict [of ex_agent ex_mod ex_env]
  by (simp add: flows_wf_def flow_lookup_def)

text \<open>
  C9. \<^verbatim>\<open>flow_delete\<close> keeps, in order, exactly the flows its specification does not cover,
  whether or not announcing the deleted flows raises afterwards; when the specification cannot be
  decided for some flow, the table is unchanged.
\<close>

theorem flow_delete_exact:
  "ld_flows (snd (flow_delete E m s)) =
     (if \<forall>f \<in> set (ld_flows s). flow_matches_spec f m \<noteq> Inl NotImplementedError
      then filter (\<lambda>f. flow_matches_spec f m = Inr False) (ld_flows s) else ld_flows s)"
proof -
  have part: "(\<exists>x. partition_flows (\<lambda>f. flow_matches_spec f m) fs = Inr x) \<longleftrightarrow>
      (\<forall>f \<in> set fs. flow_matches_spec f m \<noteq> Inl NotImplementedError)" for fs
    by (rule partition_flows_total) (rule flow_matches_spec_cases)
  have "filter (\<lambda>f. flow_matches_spec f m \<noteq> Inr True) (ld_flows s) =
      filter (\<lambda>f. flow_matches_spec f m = Inr False) (ld_flows s)"
    if "\<forall>f \<in> set (ld_flows s). flow_matches_spec f m \<noteq> Inl NotImplementedError"
  proof (rule filter_cong [OF refl])
    fix f assume "f \<in> set (ld_flows s)"
    with that show "(flow_matches_spec f m \<noteq> Inr True) = (flow_matches_spec f m = Inr False)"
      using flow_matches_spec_cases [of f m] by auto
  qed
  moreover note part [of "ld_flows s"]
  ultimately show ?thesis
    by (cases "partition_flows (\<lambda>f. flow_matches_spec f m) (ld_flows s)")
       (auto simp: flow_delete_table)
qed

theorem flow_delete_exact_witness:
  "ld_flows (snd (flow_delete ex_env
      (default_flow_mod\<lparr>fm_table_id := OFPTT_ALL, fm_out_port := OFPP_ANY, fm_out_group := OFPG_ANY\<rparr>)
      (snd (flow_add ex_env ex_mod ex_agent)))) = []"
proof -
  let ?m = "default_flow_mod\<lparr>fm_table_id := OFPTT_ALL, fm_out_port := OFPP_ANY, fm_out_group := OFPG_ANY\<rparr>"
  have "flow_matches_spec f ?m = Inr True" for f
    by (simp add: flow_matches_spec_def default_flow_mod_def default_match_def)
  then show ?thesis by (subst flow_delete_exact) simp
qed

text \<open>
  C7. In every state the agent reaches from one with well-formed tables, by any flow-mods, group-mods,
  port changes and packets in any order and with any results, no two groups have the same id, and of
  the flows that were added without the overlap check no two have the same key.  (With the check the
  code appends a flow without comparing it, and a key can occur twice.)
\<close>

theorem agent_tables_invariant:
  assumes "agent_reachable E s t" and "flows_wf (ld_flows s)" and "groups_wf (ld_groups s)"
  shows "distinct (map group_key (ld_groups t)) \<and>
    distinct (map flow_key (filter (\<lambda>f. fs_flags f AND OFPFF_CHECK_OVERLAP = 0) (ld_flows t)))"
proof -
  have "tables_ok s" using assms(2,3) by (simp add: tables_ok_def flows_wf_keys_ok)
  then have "tables_ok t" using tables.reachable_inv [OF assms(1) [unfolded agent_reachable_def]] by simp
  then show ?thesis by (simp add: tables_ok_def groups_wf_def keys_ok_iff checked_def)
qed

theorem agent_tables_invariant_witness:
  "distinct (map group_key (ld_groups (snd (update_flow_table ex_env ex_mod ex_agent)))) \<and>
   distinct (map flow_key (filter (\<lambda>f. fs_flags f AND OFPFF_CHECK_OVERLAP = 0)
     (ld_flows (snd (update_flow_table ex_env ex_mod ex_agent)))))"
proof (rule agent_tables_invariant)
  show "agent_reachable ex_env ex_agent (snd (update_flow_table ex_env ex_mod ex_agent))"
    unfolding agent_reachable_def
    by (rule reach_step, rule reach_init, rule refl, rule agent_step.flow_mod)
qed (simp_all add: flows_wf_def groups_wf_def)

text \<open>
  C10. Deleting a group leaves no dangling reference: after a successful delete of a group that is
  in the table, neither the group nor any flow that outputs to it is left, and every other group
  and flow is.
\<close>

theorem group_delete_no_dangling:
  assumes "group_delete E m s = (Inr (), s')" and "gm_group_id m \<noteq> OFPG_ALL"
    and "groups_wf (ld_groups s)" and "group_lookup (ld_groups s) (gm_group_id m) \<noteq> None"
  shows "group_lookup (ld_groups s') = (group_lookup (ld_groups s))(gm_group_id m := None) \<and>
    (\<forall>f. f \<in> set (ld_flows s') \<longleftrightarrow>
       f \<in> set (ld_flows s) \<and> \<not> flow_has_out_group f (gm_group_id m))"
  using group_delete_table [OF assms(1,2,4)] assms(3) by (simp add: group_table.lookup_remove)

theorem group_delete_no_dangling_witness:
  "\<exists>s'. group_delete ex_env ex_group_mod ex_group_agent = (Inr (), s') \<and> ld_flows s' = []"
proof -
  obtain s' where s': "group_delete ex_env ex_group_mod ex_group_agent = (Inr (), s')"
    using ex_group_agent(5) by (cases "group_delete ex_env ex_group_mod ex_group_agent") auto
  note conjunct2 [OF group_delete_no_dangling [OF s' ex_group_agent(1-3)], rule_format]
  then have "f \<notin> set (ld_flows s')" for f using ex_group_agent(4) by metis
  then have "ld_flows s' = []" by (metis list.set_intros(1) neq_Nil_conv)
  with s' show ?thesis by blast
qed

text \<open>
  C6. When the callback of a flow-table change succeeds, every device the decomposition names has
  exactly the decomposed flows and groups in its own tables, with the default rules of the device in
  front; every other device is untouched.  The default rules are those the agent has cached, or, when
  the cache was invalid, those generated for the graph of the devices as they are.
\<close>

theorem flow_table_updated_installs:
  assumes "flow_table_updated E flows s = (Inr (), s')"
    and "defaults_ok s"
  shows "\<exists>defaults rules.
    (case ld_routes s of
       Some _ \<Rightarrow> ld_default_rules s = Some defaults
     | None \<Rightarrow> \<exists>g routes. compute_routes (env_fuel E) (env_sp E) (lda_proxy s) (ld_ports s) = Inr (g, routes) \<and>
                 generate_default_rules (env_hash E) s g = Inr defaults) \<and>
    decompose_rules (env_hash E) (cached_route (snd (assure_cached_tables_up_to_date E s)))
      defaults flows (ld_groups s) = Inr rules \<and>
    (\<forall>i fl gr. od_get i defaults = Some (fl, gr) \<longrightarrow>
       (\<exists>e rest. od_get i (ld_devices s') = Some e \<and> de_flows e = od_values fl @ rest)) \<and>
    (\<forall>i. od_get i (ld_devices s') =
       (case od_get i rules of
          None \<Rightarrow> od_get i (ld_devices s)
        | Some (fl, gr) \<Rightarrow>
            map_option (\<lambda>e. e\<lparr>de_flows := od_values fl, de_groups := od_values gr\<rparr>)
              (od_get i (ld_devices s))))"
proof -
  obtain s1 d rules where s1: "assure_cached_tables_up_to_date E s = (Inr (), s1)"
    and d: "ld_default_rules s1 = Some d"
    and dec: "decompose_rules (env_hash E) (cached_route s1) d flows (ld_groups s) = Inr rules"
    and upd: "st_for update_device_tables rules () s1 = (Inr (), s')"
    using assms(1) by (rule flow_table_updated_Inr)
  have "device_rules_wf d" using assure_defaults_ok [OF assms(2), of E] s1 d
    by (simp add: defaults_ok_def)
  then have wf: "od_wf rules"
    using decompose_rules_wf_aux [OF dec] by (simp add: device_rules_wf_def)
  have dev: "ld_devices s1 = ld_devices s" using assure_devices [of E s] s1 by simp
  note get = st_for_update_devices [OF upd wf, unfolded dev]
  have "\<exists>e rest. od_get i (ld_devices s') = Some e \<and> de_flows e = od_values fl @ rest"
    if def: "od_get i d = Some (fl, gr)" for i fl gr
  proof -
    obtain rest where "od_get i rules = Some (fl @ rest, gr)"
      using decompose_rules_extends [OF dec] def unfolding extends_def by blast
    with get [of i] show ?thesis by (auto simp: od_values_def)
  qed
  moreover have "case ld_routes s of
       Some _ \<Rightarrow> ld_default_rules s = Some d
     | None \<Rightarrow> \<exists>g routes. compute_routes (env_fuel E) (env_sp E) (lda_proxy s) (ld_ports s) = Inr (g, routes) \<and>
                 generate_default_rules (env_hash E) s g = Inr d"
    using assure_defaults [OF s1] d by (cases "ld_routes s") auto
  ultimately show ?thesis using dec get s1 by (intro exI [of _ d] exI [of _ rules]) simp
qed

theorem flow_table_updated_installs_witness:
  "\<exists>s'. flow_table_updated ex_env [] ex_agent = (Inr (), s') \<and>
     (\<exists>g routes defaults. compute_routes (env_fuel ex_env) (env_sp ex_env) (lda_proxy ex_agent) (ld_ports ex_agent) =
         Inr (g, routes) \<and> generate_default_rules (env_hash ex_env) ex_agent g = Inr defaults) \<and>
     (\<exists>e. od_get ''onu'' (ld_devices s') = Some e \<and> length (de_flows e) = 3) \<and>
     (\<exists>rules :: device_rules. od_get ''olt'' (ld_devices s') =
       (case od_get ''olt'' rules of
          None \<Rightarrow> od_get ''olt'' (ld_devices ex_agent)
        | Some (fl, gr) \<Rightarrow>
            map_option (\<lambda>e. e\<lparr>de_flows := od_values fl, de_groups := od_values gr\<rparr>)
              (od_get ''olt'' (ld_devices ex_agent))))"
proof -
  obtain s' where s': "flow_table_updated ex_env [] ex_agent = (Inr (), s')"
    and len: "map (\<lambda>(i, e). (i, length (de_flows e))) (ld_devices s') = [(''olt'', 1), (''onu'', 3)]"
    using ex_flow_table_updated by (auto split: prod.splits sum.splits)
  have ok: "defaults_ok ex_agent" and none: "ld_routes ex_agent = None"
    by (simp_all add: defaults_ok_def ex_agent_def lda_init_def)
  from flow_table_updated_installs [OF s' ok, unfolded none option.case] obtain rules :: device_rules and defaults g routes where
    "compute_routes (env_fuel ex_env) (env_sp ex_env) (lda_proxy ex_agent) (ld_ports ex_agent) = Inr (g, routes)"
    "generate_default_rules (env_hash ex_env) ex_agent g = Inr defaults"
    "od_get ''olt'' (ld_devices s') =
       (case od_get ''olt'' rules of
          None \<Rightarrow> od_get ''olt'' (ld_devices ex_agent)
        | Some (fl, gr) \<Rightarrow>
            map_option (\<lambda>e. e\<lparr>de_flows := od_values fl, de_groups := od_values gr\<rparr>)
              (od_get ''olt'' (ld_devices ex_agent)))" by blast
  moreover from len have "\<exists>e. od_get ''onu'' (ld_devices s') = Some e \<and> length (de_flows e) = 3"
    by (cases "ld_devices s'"; cases "tl (ld_devices s')") auto
  ultimately show ?thesis using s' by blast
qed

text \<open>
  C5. An agent programs no port that is not there: whatever flow the controller adds, every rule
  the agent derives for a device matches a port of that very device and outputs to a port of it,
  provided the path finder returns paths of the graph it is given.
\<close>

theorem agent_rules_own_ports:
  assumes "returns_paths (env_sp E)" and "cache_ok s"
    and "assure_cached_tables_up_to_date E s = (Inr (), s1)"
    and "decompose_flow (env_hash E) (cached_route s1) flow gm = Inr rules"
    and "(i, fl, gr) \<in> set rules" and "f \<in> set fl"
  shows "\<exists>h. hop_ok (lda_proxy s) h \<and> rule_for_hop flow i f h"
proof -
  have "cache_ok s1" using assure_cache_ok [OF assms(1,2)] assms(3) by simp
  from agent_router.decomposed_rule_sound [OF this assms(4-6)]
  show ?thesis using assure_same_agent [of s E] assms(3) by (simp add: same_agent_def)
qed

theorem agent_rules_own_ports_witness:
  "\<exists>s1 rules i fl gr f h.
     assure_cached_tables_up_to_date ex_env ex_agent = (Inr (), s1) \<and>
     decompose_flow (env_hash ex_env) (cached_route s1) ex_up_flow [] = Inr rules \<and>
     (i, fl, gr) \<in> set rules \<and> f \<in> set fl \<and>
     hop_ok (lda_proxy ex_agent) h \<and> rule_for_hop ex_up_flow i f h"
proof -
  obtain s1 rules where s1: "assure_cached_tables_up_to_date ex_env ex_agent = (Inr (), s1)"
    and dec: "decompose_flow (env_hash ex_env) (cached_route s1) ex_up_flow [] = Inr rules"
    and ne: "rules \<noteq> []" "fst (snd (hd rules)) \<noteq> []"
    using ex_agent_decomposes by (auto split: prod.splits sum.splits)
  then obtain i fl gr f where mem: "(i, fl, gr) \<in> set rules" "f \<in> set fl"
    by (metis list.set_sel(1) prod.collapse)
  have "returns_paths (env_sp ex_env)" by (simp add: ex_env_def ex_sp_returns_paths)
  moreover have "cache_ok ex_agent" by (simp add: cache_ok_def ex_agent_def lda_init_def)
  ultimately have "\<exists>h. hop_ok (lda_proxy ex_agent) h \<and> rule_for_hop ex_up_flow i f h"
    by (rule agent_rules_own_ports [OF _ _ s1 dec mem])
  with s1 dec mem show ?thesis by blast
qed


section \<open>Where the code falls short\<close>

text \<open>
  With the overlap check requested, the same flow-mod sent twice is stored twice: the search for
  overlapping flows always answers that there are none, and the table is not searched for the flow
  itself on that path.
\<close>

lemma check_overlap_duplicates:
  "\<not> flows_wf (ld_flows (snd (flow_add ex_env ex_overlap_mod
                 (snd (flow_add ex_env ex_overlap_mod ex_agent)))))"
  by (simp add: flow_add_def ex_overlap_mod_def find_overlapping_flows_def flows_wf_def Let_def
      ex_mod_def mk_simple_flow_mod_def kw_prio_def default_flow_mod_def)

text \<open>Stopping an agent that was started raises: \<^verbatim>\<open>_port_list_updated\<close> is not registered.\<close>

lemma lda_stop_raises:
  "fst (lda_stop (lda_init (s\<lparr>ld_flows_cbs := [], ld_groups_cbs := [], ld_self_cbs := []\<rparr>))) =
     Inl ValueError"
  by (simp add: lda_stop_def lda_init_def st_bind_def unregister_flows_def unregister_groups_def
      unregister_self_def unregister_callback_def register_callback_def callbacks_of_def
      od_setdefault_def)

text \<open>
  An assertion that fails while the tables are cached is raised once only: a second call finds the
  routes set and returns, with the NNI port still unknown.
\<close>

lemma assure_fails_once:
  assumes "assure_cached_tables_up_to_date E s = (Inl e, s1)" and "ld_routes s1 \<noteq> None"
  shows "assure_cached_tables_up_to_date E s1 = (Inr (), s1) \<and>
    (ld_nni s = None \<longrightarrow> ld_nni s1 = None)"
  using assms
  by (auto simp: assure_cached_tables_up_to_date_def Let_def
      split: option.splits sum.splits prod.splits list.splits)

text \<open>Deleting all groups keeps the flows that output to them.\<close>

lemma delete_all_groups_keeps_flows:
  "ld_flows (snd (group_delete E (m\<lparr>gm_group_id := OFPG_ALL\<rparr>) s)) = ld_flows s \<and>
   ld_groups (snd (group_delete E (m\<lparr>gm_group_id := OFPG_ALL\<rparr>) s)) = []"
  by (simp add: group_delete_def)

end
