(* ===== verification/ConfigRev.thy ===== *)
theory ConfigRev
  imports Callbacks
begin

text \<open>
  \<^verbatim>\<open>voltha/core/config/config_rev.py\<close>: the immutable revisions of the configuration tree.

  The messages in the tree are of an arbitrary type \<open>'d\<close>; what the code does with them through the
  protobuf library (class, attribute, field access, clearing and merging of fields, encoding) and
  MD5 are the fields of the record \<open>'d proto\<close>. Which fields are kept in child nodes is computed from
  the descriptors, as \<^verbatim>\<open>children_fields\<close> does.

  A revision is a value of type \<open>'d rev\<close>. Revisions are compared by identity in
  \<^verbatim>\<open>merge_3way\<close>, so each has a number of its own. \<^verbatim>\<open>_rev_cache\<close> makes two live
  \<^verbatim>\<open>ConfigDataRevision\<close> objects with the same hash the same object: their identity is the
  equality of their hashes.
\<close>

section \<open>Messages and descriptors\<close>

datatype pval = PStr string | PInt int | POther string

record field_desc =
  fd_name :: string
  fd_label :: nat
  fd_child_node :: "string option"          \<comment> \<open>the key of the child\_node annotation\<close>
  fd_access :: "nat option"                 \<comment> \<open>the access annotation\<close>
  fd_module :: string                       \<comment> \<open>the message type of the field\<close>
  fd_type :: string
  fd_types :: "(string \<times> nat) list"         \<comment> \<open>the field types of that message type\<close>

type_synonym descriptor = "field_desc list"

record 'd proto =
  p_cls :: "'d \<Rightarrow> string"
  p_module :: "'d \<Rightarrow> string"
  p_desc :: "string \<Rightarrow> descriptor"
  p_attr :: "'d \<Rightarrow> string \<Rightarrow> pval"           \<comment> \<open>getattr of a scalar field\<close>
  p_children :: "'d \<Rightarrow> string \<Rightarrow> 'd list"    \<comment> \<open>getattr of a message field: its elements, or the one message\<close>
  p_has :: "'d \<Rightarrow> string \<Rightarrow> bool"            \<comment> \<open>a nonempty container, or HasField\<close>
  p_clear :: "string \<Rightarrow> 'd \<Rightarrow> 'd"            \<comment> \<open>ClearField\<close>
  p_merge :: "string \<Rightarrow> 'd \<Rightarrow> 'd \<Rightarrow> 'd"      \<comment> \<open>add().MergeFrom or MergeFrom of a child into the field\<close>
  p_serialize :: "'d \<Rightarrow> string"
  p_parse :: "string \<Rightarrow> string \<Rightarrow> 'd res"    \<comment> \<open>ParseFromString into a message of the class\<close>
  p_md5 :: "string \<Rightarrow> string"

definition READ_ONLY :: nat where [simp]: "READ_ONLY = 1"
definition LABEL_REPEATED :: nat where [simp]: "LABEL_REPEATED = 3"
definition TYPE_STRING :: nat where [simp]: "TYPE_STRING = 9"

definition integer_types :: "nat list" where
  "integer_types = [7, 6, 5, 3, 15, 16, 17, 18, 13, 4]"

datatype key_kind = StrKey | IntKey

record child_type =
  ct_module :: string
  ct_type :: string
  ct_container :: bool
  ct_key :: "string option"   \<comment> \<open>the empty key is no key\<close>
  ct_kind :: "key_kind option"

definition key_from_str :: "child_type \<Rightarrow> string \<Rightarrow> pval res" where
  "key_from_str field s =
     (case ct_kind field of
        None \<Rightarrow> Inl TypeError
      | Some StrKey \<Rightarrow> Inr (PStr s)
      | Some IntKey \<Rightarrow> rbind (py_int s) (\<lambda>i. Inr (PInt i)))"

definition child_type_of :: "field_desc \<Rightarrow> string \<Rightarrow> child_type res" where
  "child_type_of field key =
     rbind (if key = [] then Inr None
            else case od_get key (fd_types field) of
                   None \<Rightarrow> Inl KeyError
                 | Some t \<Rightarrow>
                     if t = TYPE_STRING then Inr (Some StrKey)
                     else if t \<in> set integer_types then Inr (Some IntKey)
                     else Inl NotImplementedError)
       (\<lambda>kind. Inr \<lparr>ct_module = fd_module field, ct_type = fd_type field,
                    ct_container = (fd_label field = LABEL_REPEATED),
                    ct_key = (if key = [] then None else Some key), ct_kind = kind\<rparr>)"

definition children_fields :: "descriptor \<Rightarrow> (string, child_type) od res" where
  "children_fields desc =
     py_for (\<lambda>field names.
               case fd_child_node field of
                 None \<Rightarrow> Inr names
               | Some key \<Rightarrow>
                   rbind (child_type_of field key) (\<lambda>ct. Inr (od_set (fd_name field) ct names)))
       desc []"

definition access_rights :: "descriptor \<Rightarrow> (string, nat) od" where
  "access_rights desc =
     foldl (\<lambda>m field. case fd_access field of
                        None \<Rightarrow> m | Some a \<Rightarrow> od_set (fd_name field) a m) [] desc"

definition fields_of :: "'d proto \<Rightarrow> string \<Rightarrow> (string, child_type) od res" where
  "fields_of P cls = children_fields (p_desc P cls)"

definition field_of :: "'d proto \<Rightarrow> string \<Rightarrow> string \<Rightarrow> child_type res" where
  "field_of P cls name =
     rbind (fields_of P cls)
       (\<lambda>fs. case od_get name fs of None \<Rightarrow> Inl KeyError | Some f \<Rightarrow> Inr f)"

definition check_access_violation :: "'d proto \<Rightarrow> 'd \<Rightarrow> 'd \<Rightarrow> unit res" where
  "check_access_violation P new old =
     (if list_ex (\<lambda>(name, access). access = READ_ONLY \<and> p_attr P new name \<noteq> p_attr P old name)
           (access_rights (p_desc P (p_cls P new)))
      then Inl ValueError else Inr ())"


section \<open>Revisions\<close>

datatype txid = NoTx | Tx string | TxFlag bool

datatype 'd rev = Rev
  (r_id: nat) (r_node: nat) (r_txid: txid) (r_data: 'd) (r_children: "(string \<times> 'd rev list) list")
  (r_stored: bool)

text \<open>
  \<^verbatim>\<open>_hash_data\<close> and \<^verbatim>\<open>_hash_content\<close>: the hash of a revision is a function of its data
  and its children's hashes. \<open>r_stored\<close> tells a revision that writes itself to the key-value store
  from one that does not.
\<close>

definition hash_data :: "'d proto \<Rightarrow> 'd \<Rightarrow> string" where
  "hash_data P data = take 12 (p_md5 P (p_module P data @ '':'' @ p_cls P data @ '':'' @ p_serialize P data))"

definition hash_content :: "'d proto \<Rightarrow> 'd \<Rightarrow> (string \<times> string list) list \<Rightarrow> string" where
  "hash_content P data hashes =
     take 12 (p_md5 P (hash_data P data @ concat (map (\<lambda>(name, hs). concat hs) hashes)))"

primrec r_hash :: "'d proto \<Rightarrow> 'd rev \<Rightarrow> string" where
  "r_hash P (Rev i n t data children st) =
     hash_content P data (map (map_prod id (map (r_hash P))) children)"

definition r_config_hash :: "'d proto \<Rightarrow> 'd rev \<Rightarrow> string" where
  "r_config_hash P r = hash_data P (r_data r)"

definition rev_children :: "'d rev \<Rightarrow> string \<Rightarrow> 'd rev list res" where
  "rev_children r name =
     (case od_get name (r_children r) of None \<Rightarrow> Inl KeyError | Some l \<Rightarrow> Inr l)"

definition first :: "'a list \<Rightarrow> 'a res" where
  "first l = (case l of [] \<Rightarrow> Inl IndexError | x # _ \<Rightarrow> Inr x)"

fun find_by_key :: "('r \<Rightarrow> pval) \<Rightarrow> 'r list \<Rightarrow> pval \<Rightarrow> (nat \<times> 'r) res" where
  "find_by_key attr [] value = Inl KeyError"
| "find_by_key attr (r # rs) value =
     (if attr r = value then Inr (0, r)
      else rbind (find_by_key attr rs value) (\<lambda>(i, r'). Inr (Suc i, r')))"

definition find_rev_by_key :: "'d proto \<Rightarrow> 'd rev list \<Rightarrow> string \<Rightarrow> pval \<Rightarrow> (nat \<times> 'd rev) res" where
  "find_rev_by_key P revs keyname value =
     find_by_key (\<lambda>r. p_attr P (r_data r) keyname) revs value"

text \<open>\<^verbatim>\<open>ConfigRevision.get\<close>: depth 0 is the local data, a negative depth everything.\<close>

definition collect_field ::
  "'d proto \<Rightarrow> int \<Rightarrow> (string, (int \<Rightarrow> 'd res) list) od \<Rightarrow> string \<times> child_type \<Rightarrow> 'd \<Rightarrow> 'd res" where
  "collect_field P depth getters nf data =
     (case nf of (name, field) \<Rightarrow>
        rbind (case od_get name getters of None \<Rightarrow> Inl KeyError | Some l \<Rightarrow> Inr l) (\<lambda>l.
        if ct_container field
        then py_for (\<lambda>g d. rbind (g (depth - 1)) (\<lambda>child. Inr (p_merge P name child d))) l data
        else rbind (first l) (\<lambda>g. rbind (g (depth - 1)) (\<lambda>child. Inr (p_merge P name child data)))))"

primrec rev_get :: "'d proto \<Rightarrow> 'd rev \<Rightarrow> int \<Rightarrow> 'd res" where
  "rev_get P (Rev i n t data children st) =
     (\<lambda>depth. if depth = 0 then Inr data
              else rbind (fields_of P (p_cls P data))
                     (\<lambda>fs. py_for (collect_field P depth
                                    (map (map_prod id (map (rev_get P))) children)) fs data))"


section \<open>The content of a revision\<close>

text \<open>
  A revision without its identities: the tree of messages it stands for. Reading a revision and
  hashing it depend on the content only.
\<close>

datatype 'd tree = Tree (t_data: 'd) (t_children: "(string \<times> 'd tree list) list")

primrec erase :: "'d rev \<Rightarrow> 'd tree" where
  "erase (Rev i n t data children st) = Tree data (map (map_prod id (map erase)) children)"

primrec tree_hash :: "'d proto \<Rightarrow> 'd tree \<Rightarrow> string" where
  "tree_hash P (Tree data children) =
     hash_content P data (map (map_prod id (map (tree_hash P))) children)"

primrec tree_read :: "'d proto \<Rightarrow> 'd tree \<Rightarrow> int \<Rightarrow> 'd res" where
  "tree_read P (Tree data children) =
     (\<lambda>depth. if depth = 0 then Inr data
              else rbind (fields_of P (p_cls P data))
                     (\<lambda>fs. py_for (collect_field P depth
                                    (map (map_prod id (map (tree_read P))) children)) fs data))"

primrec subtrees :: "'d tree \<Rightarrow> 'd tree list" where
  "subtrees (Tree data children) =
     Tree data children # concat (map (\<lambda>p. concat (snd p)) (map (map_prod id (map subtrees)) children))"

lemma t_data_erase [simp]: "t_data (erase r) = r_data r"
  by (cases r) simp

lemma t_children_erase: "t_children (erase r) = map (map_prod id (map erase)) (r_children r)"
  by (cases r) simp

lemma map_prod_cong_list:
  "(\<And>k l x. (k, l) \<in> set ch \<Longrightarrow> x \<in> set l \<Longrightarrow> f x = g x) \<Longrightarrow>
     map (map_prod id (map f)) ch = map (map_prod id (map g)) ch"
  by (auto simp: map_prod_def)

lemma map_children_comp:
  "map (map_prod id (map f)) (map (map_prod id (map g)) ch) =
     map (map_prod id (map (\<lambda>x. f (g x)))) ch"
  by (induction ch) (auto simp: comp_def)

lemma tree_hash_erase [simp]: "tree_hash P (erase r) = r_hash P r"
proof (induction r)
  case (Rev i n t data children st)
  have "map (map_prod id (map (\<lambda>x. tree_hash P (erase x)))) children =
      map (map_prod id (map (r_hash P))) children"
    by (rule map_prod_cong_list) (use Rev in \<open>fastforce simp: snds.simps\<close>)
  then show ?case by (simp only: erase.simps tree_hash.simps tree_read.simps r_hash.simps
        rev_get.simps map_children_comp)
qed

lemma tree_read_erase [simp]: "tree_read P (erase r) = rev_get P r"
proof (induction r)
  case (Rev i n t data children st)
  have "map (map_prod id (map (\<lambda>x. tree_read P (erase x)))) children =
      map (map_prod id (map (rev_get P))) children"
    by (rule map_prod_cong_list) (use Rev in \<open>fastforce simp: snds.simps\<close>)
  then show ?case by (simp only: erase.simps tree_hash.simps tree_read.simps r_hash.simps
        rev_get.simps map_children_comp)
qed

lemma od_get_map_prod [simp]:
  "od_get k (map (map_prod id f) d) = map_option f (od_get k d)"
  by (induction d) auto

lemma od_set_map_prod: "od_set k (f v) (map (map_prod id f) d) = map (map_prod id f) (od_set k v d)"
  by (induction d) auto

lemma find_by_key_Inr:
  "find_by_key attr rs v = Inr (i, r) \<Longrightarrow> i < length rs \<and> rs ! i = r \<and> attr r = v \<and>
     (\<forall>j < i. attr (rs ! j) \<noteq> v)"
proof (induction rs arbitrary: i)
  case (Cons x xs)
  then show ?case
    by (cases i) (auto simp: res_simps nth_Cons less_Suc_eq_0_disj split: if_splits nat.splits)
qed simp

lemma find_by_key_Inl: "find_by_key attr rs v = Inl e \<Longrightarrow> e = KeyError \<and> (\<forall>r \<in> set rs. attr r \<noteq> v)"
  by (induction rs) (auto simp: rbind_def split: if_splits sum.splits)

lemma find_by_key_map:
  "find_by_key attr (map f rs) v =
     rbind (find_by_key (\<lambda>r. attr (f r)) rs v) (\<lambda>(i, r). Inr (i, f r))"
  by (induction rs) (auto simp: rbind_def split: sum.splits)

end
