(* ===== verification/ConfigTree.thy ===== *)
theory ConfigTree
  imports ConfigRev
begin

text \<open>
  \<^verbatim>\<open>voltha/core/config/config_node.py\<close>, \<^verbatim>\<open>config_branch.py\<close> and the storing half of
  \<^verbatim>\<open>config_rev_persisted.py\<close>: the nodes of the configuration tree, their branches of revisions,
  and the operations get, update, add and remove along a path.

  The store \<open>cstore\<close> is the object graph: the nodes by number (the root is node 0), each with its
  branches (the committed branch under \<open>NoTx\<close>, one more for every transaction that touched it), its
  tags and its proxy; the dirty nodes of the open transactions, the queue of deferred callbacks and
  the key-value store. The callbacks run while an operation is under way (GET and PRE types) accept,
  reject or replace the data and do not touch the store; they are an argument. Revisions live until
  they are pruned: garbage collection, and with it \<^verbatim>\<open>PersistedConfigRevision.__del__\<close>, is not
  modelled. The nesting depth of a message added to the tree is bounded by \<open>e_fuel\<close>, standing for
  Python's recursion limit.
\<close>

section \<open>State\<close>

datatype 'd ctx = CData 'd | CField string

datatype blob =
    RevBlob "(string \<times> string list) list" string
  | DataBlob string
  | RootBlob string "(string \<times> string) list"

record 'd branch =
  b_txid :: txid
  b_origin :: "'d rev option"
  b_latest :: "'d rev option"
  b_revs :: "(string, 'd rev) od"

record 'c cproxy =
  px_path :: string
  px_exclusive :: bool
  px_callbacks :: "'c callbacks"

record ('d, 'c) cnode =
  n_type :: string
  n_branches :: "(txid, 'd branch) od"
  n_tags :: "(string, 'd rev) od"
  n_proxy :: "'c cproxy option"
  n_auto_prune :: bool

record ('d, 'c) cstore =
  cs_nodes :: "('d, 'c) cnode list"
  cs_next :: nat
  cs_dirty :: "(string, nat list) od"
  cs_queue :: "(nat \<times> callback_type \<times> 'd ctx) list"
  cs_kv :: "(string, blob) od option"
  cs_loading :: bool

record ('d, 'c) cenv =
  e_proto :: "'d proto"
  e_hook :: "'c \<Rightarrow> 'd ctx option \<Rightarrow> 'd ctx option res"
  e_fuel :: nat

definition set_node :: "nat \<Rightarrow> (('d, 'c) cnode \<Rightarrow> ('d, 'c) cnode) \<Rightarrow> ('d, 'c) cstore \<Rightarrow> ('d, 'c) cstore"
where
  "set_node n f s = s\<lparr>cs_nodes := (cs_nodes s)[n := f (cs_nodes s ! n)]\<rparr>"

definition branch_of :: "('d, 'c) cstore \<Rightarrow> nat \<Rightarrow> txid \<Rightarrow> 'd branch res" where
  "branch_of s n tx =
     (case od_get tx (n_branches (cs_nodes s ! n)) of None \<Rightarrow> Inl KeyError | Some b \<Rightarrow> Inr b)"

definition latest_of :: "'d branch \<Rightarrow> 'd rev res" where
  "latest_of b = (case b_latest b of None \<Rightarrow> Inl AttributeError | Some r \<Rightarrow> Inr r)"

definition latest_rev :: "('d, 'c) cstore \<Rightarrow> nat \<Rightarrow> txid \<Rightarrow> 'd rev res" where
  "latest_rev s n tx = rbind (branch_of s n tx) latest_of"


section \<open>Making revisions\<close>

definition store_config :: "'d proto \<Rightarrow> 'd rev \<Rightarrow> (string, blob) od \<Rightarrow> (string, blob) od" where
  "store_config P r kv =
     (if od_get (r_config_hash P r) kv \<noteq> None then kv
      else od_set (r_config_hash P r) (DataBlob (p_serialize P (r_data r))) kv)"

definition children_hashes :: "'d proto \<Rightarrow> 'd rev \<Rightarrow> (string \<times> string list) list" where
  "children_hashes P r = map (map_prod id (map (r_hash P))) (r_children r)"

definition store_rev :: "'d proto \<Rightarrow> 'd rev \<Rightarrow> (string, blob) od \<Rightarrow> (string, blob) od" where
  "store_rev P r kv =
     (if od_get (r_hash P r) kv \<noteq> None then kv
      else od_set (r_hash P r) (RevBlob (children_hashes P r) (r_config_hash P r))
             (store_config P r kv))"

definition finalize :: "('d, 'c) cenv \<Rightarrow> 'd rev \<Rightarrow> (('d, 'c) cstore, 'd rev) st" where
  "finalize E r s =
     (Inr r, s\<lparr>cs_next := Suc (cs_next s),
               cs_kv := (if r_stored r then map_option (store_rev (e_proto E) r) (cs_kv s)
                         else cs_kv s)\<rparr>)"

definition mkrev ::
  "('d, 'c) cenv \<Rightarrow> nat \<Rightarrow> txid \<Rightarrow> 'd \<Rightarrow> (string \<times> 'd rev list) list \<Rightarrow> (('d, 'c) cstore, 'd rev) st"
where
  "mkrev E n t data children s =
     finalize E (Rev (cs_next s) n t data children (cs_kv s \<noteq> None \<and> \<not> cs_loading s)) s"

definition update_data ::
  "('d, 'c) cenv \<Rightarrow> 'd rev \<Rightarrow> 'd \<Rightarrow> nat \<Rightarrow> txid \<Rightarrow> (('d, 'c) cstore, 'd rev) st" where
  "update_data E r data n t s =
     finalize E (Rev (cs_next s) n t data (r_children r) (r_stored r)) s"

definition update_children ::
  "('d, 'c) cenv \<Rightarrow> 'd rev \<Rightarrow> string \<Rightarrow> 'd rev list \<Rightarrow> nat \<Rightarrow> txid \<Rightarrow> (('d, 'c) cstore, 'd rev) st"
where
  "update_children E r name children n t s =
     finalize E (Rev (cs_next s) n t (r_data r) (od_set name children (r_children r)) (r_stored r)) s"

definition update_all_children ::
  "('d, 'c) cenv \<Rightarrow> 'd rev \<Rightarrow> (string \<times> 'd rev list) list \<Rightarrow> nat \<Rightarrow> txid
   \<Rightarrow> (('d, 'c) cstore, 'd rev) st" where
  "update_all_children E r children n t s =
     finalize E (Rev (cs_next s) n t (r_data r) children (r_stored r)) s"

definition enqueue_announcements ::
  "nat \<Rightarrow> (callback_type \<times> 'd ctx) list \<Rightarrow> ('d, 'c) cstore \<Rightarrow> ('d, 'c) cstore" where
  "enqueue_announcements n changes s =
     s\<lparr>cs_queue := cs_queue s @ map (\<lambda>(t, x). (n, t, x)) changes\<rparr>"

text \<open>
  \<^verbatim>\<open>_make_latest\<close>, with the override of \<^verbatim>\<open>ConfigRoot\<close> that also writes the root's entry of
  the key-value store.
\<close>

definition persist_root :: "('d, 'c) cenv \<Rightarrow> 'd rev \<Rightarrow> ('d, 'c) cstore \<Rightarrow> ('d, 'c) cstore" where
  "persist_root E r s =
     s\<lparr>cs_kv := map_option
         (od_set ''root'' (RootBlob (r_hash (e_proto E) r)
            (map (map_prod id (r_hash (e_proto E))) (n_tags (cs_nodes s ! 0))))) (cs_kv s)\<rparr>"

definition make_latest ::
  "('d, 'c) cenv \<Rightarrow> nat \<Rightarrow> txid \<Rightarrow> 'd rev \<Rightarrow> (callback_type \<times> 'd ctx) list
   \<Rightarrow> (('d, 'c) cstore, unit) st" where
  "make_latest E n tx r changes s =
     (case branch_of s n tx of
        Inl e \<Rightarrow> (Inl e, s)
      | Inr b \<Rightarrow>
          let h = r_hash (e_proto E) r;
              b' = b\<lparr>b_latest := Some r,
                     b_revs := (if od_get h (b_revs b) = None then od_set h r (b_revs b)
                                else b_revs b)\<rparr>;
              s1 = set_node n (\<lambda>nd. nd\<lparr>n_branches := od_set tx b' (n_branches nd)\<rparr>) s;
              s2 = (if changes \<noteq> [] \<and> b_txid b = NoTx \<and> n_proxy (cs_nodes s ! n) \<noteq> None
                    then enqueue_announcements n changes s1 else s1);
              s3 = (if n = 0 \<and> b_txid b = NoTx then persist_root E r s2 else s2)
          in (Inr (), s3))"


section \<open>Making nodes\<close>

definition alloc_node :: "string \<Rightarrow> bool \<Rightarrow> (('d, 'c) cstore, nat) st" where
  "alloc_node cls auto_prune s =
     (Inr (length (cs_nodes s)),
      s\<lparr>cs_nodes := cs_nodes s @ [\<lparr>n_type = cls, n_branches = [], n_tags = [], n_proxy = None,
                                  n_auto_prune = auto_prune\<rparr>]\<rparr>)"

definition add_branch :: "nat \<Rightarrow> txid \<Rightarrow> 'd branch \<Rightarrow> ('d, 'c) cstore \<Rightarrow> ('d, 'c) cstore" where
  "add_branch n tx b = set_node n (\<lambda>nd. nd\<lparr>n_branches := od_set tx b (n_branches nd)\<rparr>)"

definition empty_branch :: "txid \<Rightarrow> 'd rev option \<Rightarrow> 'd branch" where
  "empty_branch t origin = \<lparr>b_txid = t, b_origin = origin, b_latest = origin, b_revs = []\<rparr>"

fun init_keyed ::
  "('d \<Rightarrow> ('s, 'r) st) \<Rightarrow> ('d \<Rightarrow> pval) \<Rightarrow> 'd list \<Rightarrow> pval list \<Rightarrow> ('s, 'r list) st" where
  "init_keyed mk attr [] keys_seen = st_ret []"
| "init_keyed mk attr (v # vs) keys_seen =
     st_bind (mk v) (\<lambda>r.
     if attr v \<in> set keys_seen then st_raise ValueError
     else st_bind (init_keyed mk attr vs (attr v # keys_seen)) (\<lambda>rs. st_ret (r # rs)))"

definition init_field ::
  "'d proto \<Rightarrow> ('d \<Rightarrow> (('d, 'c) cstore, 'd rev) st) \<Rightarrow> string \<times> child_type
   \<Rightarrow> (string \<times> 'd rev list) list \<times> 'd
   \<Rightarrow> (('d, 'c) cstore, (string \<times> 'd rev list) list \<times> 'd) st" where
  "init_field P mk nf acc =
     (case (nf, acc) of ((name, field), (children, data)) \<Rightarrow>
        st_bind
          (case (ct_container field, ct_key field) of
             (True, Some key) \<Rightarrow> init_keyed mk (\<lambda>v. p_attr P v key) (p_children P data name) []
           | _ \<Rightarrow> st_map mk (p_children P data name))
          (\<lambda>lst. st_ret (od_set name lst children, p_clear P name data)))"

text \<open>\<open>ConfigNode(root, data).latest\<close>: a new node and, below it, the nodes of its children.\<close>

fun mknode :: "('d, 'c) cenv \<Rightarrow> nat \<Rightarrow> bool \<Rightarrow> 'd \<Rightarrow> (('d, 'c) cstore, 'd rev) st" where
  "mknode E 0 auto_prune data = st_raise RecursionError"
| "mknode E (Suc fuel) auto_prune data =
     st_bind (alloc_node (p_cls (e_proto E) data) auto_prune) (\<lambda>n.
     st_bind (st_res (\<lambda>_. fields_of (e_proto E) (p_cls (e_proto E) data))) (\<lambda>fs.
     st_bind (st_for (init_field (e_proto E) (mknode E fuel True)) fs ([], data))
       (\<lambda>(children, local).
     st_bind (mkrev E n NoTx local children) (\<lambda>r.
     st_bind (st_modify (add_branch n NoTx (empty_branch NoTx None))) (\<lambda>_.
     st_bind (make_latest E n NoTx r []) (\<lambda>_. st_ret r))))))"


section \<open>Get\<close>

datatype 'd got = One "'d ctx option" | Many "'d ctx option list"

definition lstrip_slash :: "string \<Rightarrow> string" where
  "lstrip_slash path = dropWhile (\<lambda>c. c = CHR ''/'') path"

definition run_hooks ::
  "('d, 'c) cenv \<Rightarrow> ('d, 'c) cnode \<Rightarrow> callback_type \<Rightarrow> 'd ctx \<Rightarrow> 'd ctx option res" where
  "run_hooks E nd t x =
     (case n_proxy nd of
        None \<Rightarrow> Inr (Some x)
      | Some px \<Rightarrow>
          fst (invoke_callbacks (\<lambda>c y (u :: unit). (e_hook E c y, u)) (px_callbacks px) t (Some x)
                 False ()))"

definition do_get :: "('d, 'c) cenv \<Rightarrow> ('d, 'c) cstore \<Rightarrow> int \<Rightarrow> 'd rev \<Rightarrow> 'd ctx option res" where
  "do_get E s depth r =
     rbind (rev_get (e_proto E) r depth)
       (\<lambda>msg. run_hooks E (cs_nodes s ! r_node r) GET (CData msg))"

function get_path ::
  "('d, 'c) cenv \<Rightarrow> ('d, 'c) cstore \<Rightarrow> int \<Rightarrow> 'd rev \<Rightarrow> string \<Rightarrow> 'd got res" where
  "get_path E s depth r path =
     (if path = [] then rbind (do_get E s depth r) (\<lambda>x. Inr (One x))
      else
        let name = fst (partition_at CHR ''/'' path); path1 = snd (partition_at CHR ''/'' path) in
        rbind (field_of (e_proto E) (n_type (cs_nodes s ! r_node r)) name) (\<lambda>field.
        if ct_container field then
          (if path1 = [] then
             rbind (rev_children r name) (\<lambda>children.
             rbind (py_map (do_get E s depth) children) (\<lambda>xs. Inr (Many xs)))
           else
             (case ct_key field of
                None \<Rightarrow> Inl LookupError
              | Some key \<Rightarrow>
                  rbind (rev_children r name) (\<lambda>children.
                  rbind (key_from_str field (fst (partition_at CHR ''/'' path1))) (\<lambda>value.
                  rbind (find_rev_by_key (e_proto E) children key value) (\<lambda>ir.
                    get_path E s depth (snd ir) (snd (partition_at CHR ''/'' path1)))))))
        else
          rbind (rbind (rev_children r name) first) (\<lambda>child. get_path E s depth child path1)))"
  by pat_completeness auto

lemma snd_partition_le: "length (snd (partition_at c s)) \<le> length s"
  by (cases "s = []") (auto dest: partition_at_length [of _ c] less_imp_le)

lemma snd_partition_twice:
  "s \<noteq> [] \<Longrightarrow> length (snd (partition_at c (snd (partition_at d s)))) < length s"
  by (rule le_less_trans [OF snd_partition_le partition_at_length])

termination get_path
  by (relation "measure (\<lambda>(E, s, depth, r, path). length path)")
     (auto simp: partition_at_length snd_partition_twice)

declare get_path.simps [simp del]

text \<open>
  \<^verbatim>\<open>ConfigNode.get\<close>: the branch of the transaction if the node has one, the committed branch
  otherwise; its latest revision, or the one with the given hash.
\<close>

definition read_branch :: "('d, 'c) cstore \<Rightarrow> nat \<Rightarrow> txid \<Rightarrow> 'd branch res" where
  "read_branch s n tx =
     (case od_get tx (n_branches (cs_nodes s ! n)) of
        Some b \<Rightarrow> Inr b | None \<Rightarrow> branch_of s n NoTx)"

definition node_get ::
  "('d, 'c) cenv \<Rightarrow> ('d, 'c) cstore \<Rightarrow> nat \<Rightarrow> string \<Rightarrow> string option \<Rightarrow> int \<Rightarrow> bool \<Rightarrow> txid
   \<Rightarrow> 'd got res" where
  "node_get E s n path hash depth deep tx =
     rbind (read_branch s n tx) (\<lambda>b.
     rbind (case hash of
              None \<Rightarrow> latest_of b
            | Some h \<Rightarrow> (case od_get h (b_revs b) of None \<Rightarrow> Inl KeyError | Some r \<Rightarrow> Inr r)) (\<lambda>r.
       get_path E s (if deep then -1 else depth) r (lstrip_slash path)))"


section \<open>Branching on demand\<close>

definition mk_txbranch_node :: "txid \<Rightarrow> nat \<Rightarrow> (('d, 'c) cstore, 'd branch) st" where
  "mk_txbranch_node tx n =
     st_bind (st_res (\<lambda>s. branch_of s n NoTx)) (\<lambda>b.
     let nb = empty_branch tx (b_latest b) in
     st_bind (st_modify (add_branch n tx nb)) (\<lambda>_. st_ret nb))"

text \<open>\<^verbatim>\<open>track_dirty\<close> of the root's operations.\<close>

definition track_dirty :: "string \<Rightarrow> nat \<Rightarrow> (('d, 'c) cstore, 'd branch) st" where
  "track_dirty t n =
     st_bind (st_modify (\<lambda>s. s\<lparr>cs_dirty := od_set t
                (let d = (case od_get t (cs_dirty s) of None \<Rightarrow> [] | Some d \<Rightarrow> d)
                 in if n \<in> set d then d else d @ [n]) (cs_dirty s)\<rparr>))
       (\<lambda>_. mk_txbranch_node (Tx t) n)"

definition assure_branch :: "txid \<Rightarrow> nat \<Rightarrow> (('d, 'c) cstore, 'd branch) st" where
  "assure_branch tx n s =
     (case od_get tx (n_branches (cs_nodes s ! n)) of
        Some b \<Rightarrow> (Inr b, s)
      | None \<Rightarrow> (case tx of Tx t \<Rightarrow> track_dirty t n s | _ \<Rightarrow> (Inl TypeError, s)))"


section \<open>Update\<close>

definition test_no_children :: "'d proto \<Rightarrow> string \<Rightarrow> 'd \<Rightarrow> unit res" where
  "test_no_children P cls data =
     rbind (fields_of P cls) (\<lambda>fs.
       if list_ex (\<lambda>(name, field). p_has P data name) fs then Inl NotImplementedError else Inr ())"

definition do_update ::
  "('d, 'c) cenv \<Rightarrow> txid \<Rightarrow> 'd \<Rightarrow> bool \<Rightarrow> nat \<Rightarrow> (('d, 'c) cstore, 'd rev) st" where
  "do_update E tx data strict n =
     st_bind (st_res (\<lambda>s. branch_of s n tx)) (\<lambda>b.
     st_bind (st_res (\<lambda>s. if p_cls (e_proto E) data = n_type (cs_nodes s ! n) then Inr ()
                          else Inl ValueError)) (\<lambda>_.
     st_bind (st_res (\<lambda>s. test_no_children (e_proto E) (n_type (cs_nodes s ! n)) data)) (\<lambda>_.
     st_bind (st_res (\<lambda>s. run_hooks E (cs_nodes s ! n) PRE_UPDATE (CData data))) (\<lambda>_.
     st_bind (st_res (\<lambda>_. latest_of b)) (\<lambda>r.
     if r_data r \<noteq> data then
       st_bind (st_res (\<lambda>_. if strict then check_access_violation (e_proto E) data (r_data r)
                            else Inr ())) (\<lambda>_.
       st_bind (update_data E r data n (b_txid b)) (\<lambda>r'.
       st_bind (make_latest E n tx r' [(POST_UPDATE, CData (r_data r'))]) (\<lambda>_. st_ret r')))
     else st_ret r)))))"

definition replace_child ::
  "('d, 'c) cenv \<Rightarrow> txid \<Rightarrow> nat \<Rightarrow> 'd branch \<Rightarrow> 'd rev \<Rightarrow> string \<Rightarrow> 'd rev list
   \<Rightarrow> (callback_type \<times> 'd ctx) list \<Rightarrow> (('d, 'c) cstore, 'd rev) st" where
  "replace_child E tx n b r name children changes =
     st_bind (update_children E r name children n (b_txid b)) (\<lambda>r'.
     st_bind (make_latest E n tx r' changes) (\<lambda>_. st_ret r'))"

lemma st_bind_cong [fundef_cong]:
  "m = m' \<Longrightarrow> (\<And>x. f x = g x) \<Longrightarrow> st_bind m f = st_bind m' g"
  by presburger

function node_update ::
  "('d, 'c) cenv \<Rightarrow> txid \<Rightarrow> 'd \<Rightarrow> bool \<Rightarrow> nat \<Rightarrow> string \<Rightarrow> (('d, 'c) cstore, 'd rev) st" where
  "node_update E tx data strict n path0 =
     (let path = lstrip_slash path0 in
      st_bind (assure_branch tx n) (\<lambda>b.
      if path = [] then do_update E tx data strict n
      else
        let name = fst (partition_at CHR ''/'' path); path1 = snd (partition_at CHR ''/'' path) in
        st_bind (st_res (\<lambda>_. latest_of b)) (\<lambda>r.
        st_bind (st_res (\<lambda>s. field_of (e_proto E) (n_type (cs_nodes s ! n)) name)) (\<lambda>field.
        if ct_container field then
          (if path1 = [] then st_raise ValueError
           else
             (case ct_key field of
                None \<Rightarrow> st_raise ValueError
              | Some key \<Rightarrow>
                  st_bind (st_res (\<lambda>_. key_from_str field (fst (partition_at CHR ''/'' path1)))) (\<lambda>value.
                  st_bind (st_res (\<lambda>_. rev_children r name)) (\<lambda>children.
                  st_bind (st_res (\<lambda>_. find_rev_by_key (e_proto E) children key value)) (\<lambda>ir.
                  st_bind (node_update E tx data strict (r_node (snd ir))
                             (snd (partition_at CHR ''/'' path1))) (\<lambda>new.
                  if r_hash (e_proto E) new = r_hash (e_proto E) (snd ir)
                  then st_res (\<lambda>s. latest_rev s n tx)
                  else if p_attr (e_proto E) (r_data new) key \<noteq> value then st_raise ValueError
                  else replace_child E tx n b r name (children[fst ir := new]) []))))))
        else
          st_bind (st_res (\<lambda>_. rbind (rev_children r name) first)) (\<lambda>child.
          st_bind (node_update E tx data strict (r_node child) path1) (\<lambda>new.
            replace_child E tx n b r name [new] []))))))"
  by pat_completeness auto

lemma lstrip_le: "length (lstrip_slash p) \<le> length p"
  by (simp add: lstrip_slash_def length_dropWhile_le)

lemma path_step_less:
  assumes "lstrip_slash p \<noteq> []"
  shows "length (snd (partition_at c (lstrip_slash p))) < length p"
    and "length (snd (partition_at c (snd (partition_at d (lstrip_slash p))))) < length p"
  using partition_at_length [OF assms] snd_partition_twice [OF assms] lstrip_le [of p]
    less_le_trans by blast+

termination node_update
  by (relation "measure (\<lambda>(E, tx, data, strict, n, path). length path)")
     (auto simp: path_step_less)

declare node_update.simps [simp del]


section \<open>Add and remove\<close>

function node_add ::
  "('d, 'c) cenv \<Rightarrow> txid \<Rightarrow> 'd \<Rightarrow> nat \<Rightarrow> string \<Rightarrow> (('d, 'c) cstore, 'd rev) st" where
  "node_add E tx data n path0 =
     (let path = lstrip_slash path0 in
      if path = [] then st_raise ValueError
      else
      st_bind (assure_branch tx n) (\<lambda>b.
        let name = fst (partition_at CHR ''/'' path); path1 = snd (partition_at CHR ''/'' path) in
        st_bind (st_res (\<lambda>_. latest_of b)) (\<lambda>r.
        st_bind (st_res (\<lambda>s. field_of (e_proto E) (n_type (cs_nodes s ! n)) name)) (\<lambda>field.
        if \<not> ct_container field then st_raise ValueError
        else
          (case ct_key field of
             None \<Rightarrow> st_raise ValueError
           | Some key \<Rightarrow>
               if path1 = [] then
                 st_bind (st_res (\<lambda>s. run_hooks E (cs_nodes s ! n) PRE_ADD (CData data))) (\<lambda>_.
                 st_bind (st_res (\<lambda>_. rev_children r name)) (\<lambda>children.
                 (case find_rev_by_key (e_proto E) children key (p_attr (e_proto E) data key) of
                    Inr _ \<Rightarrow> st_raise ValueError
                  | Inl _ \<Rightarrow>
                      st_bind (mknode E (e_fuel E) True data) (\<lambda>child.
                        replace_child E tx n b r name (children @ [child]) [(POST_ADD, CData data)]))))
               else
                 st_bind (st_res (\<lambda>_. key_from_str field (fst (partition_at CHR ''/'' path1)))) (\<lambda>value.
                 st_bind (st_res (\<lambda>_. rev_children r name)) (\<lambda>children.
                 st_bind (st_res (\<lambda>_. find_rev_by_key (e_proto E) children key value)) (\<lambda>ir.
                 st_bind (node_add E tx data (r_node (snd ir)) (snd (partition_at CHR ''/'' path1)))
                   (\<lambda>new. replace_child E tx n b r name (children[fst ir := new]) []))))))))) "
  by pat_completeness auto

termination node_add
  by (relation "measure (\<lambda>(E, tx, data, n, path). length path)")
     (auto simp: path_step_less)

declare node_add.simps [simp del]

definition remove_nth :: "nat \<Rightarrow> 'a list \<Rightarrow> 'a list" where
  "remove_nth i xs = take i xs @ drop (Suc i) xs"

function node_remove ::
  "('d, 'c) cenv \<Rightarrow> txid \<Rightarrow> nat \<Rightarrow> string \<Rightarrow> (('d, 'c) cstore, 'd rev) st" where
  "node_remove E tx n path0 =
     (let path = lstrip_slash path0 in
      if path = [] then st_raise ValueError
      else
      st_bind (assure_branch tx n) (\<lambda>b.
        let name = fst (partition_at CHR ''/'' path); path1 = snd (partition_at CHR ''/'' path) in
        st_bind (st_res (\<lambda>_. latest_of b)) (\<lambda>r.
        st_bind (st_res (\<lambda>s. field_of (e_proto E) (n_type (cs_nodes s ! n)) name)) (\<lambda>field.
        if \<not> ct_container field \<or> path1 = [] then st_raise ValueError
        else
          (case ct_key field of
             None \<Rightarrow> st_raise ValueError
           | Some key \<Rightarrow>
               let path2 = snd (partition_at CHR ''/'' path1) in
               st_bind (st_res (\<lambda>_. key_from_str field (fst (partition_at CHR ''/'' path1)))) (\<lambda>value.
               st_bind (st_res (\<lambda>_. rev_children r name)) (\<lambda>children.
               st_bind (st_res (\<lambda>_. find_rev_by_key (e_proto E) children key value)) (\<lambda>ir.
               if path2 \<noteq> [] then
                 st_bind (node_remove E tx (r_node (snd ir)) path2)
                   (\<lambda>new. replace_child E tx n b r name (children[fst ir := new]) [])
               else
                 st_bind (st_res (\<lambda>s. run_hooks E (cs_nodes s ! n) PRE_REMOVE
                                        (CData (r_data (snd ir))))) (\<lambda>_.
                   replace_child E tx n b r name (remove_nth (fst ir) children)
                     [(POST_REMOVE, CData (r_data (snd ir)))]))))))))) "
  by pat_completeness auto

termination node_remove
  by (relation "measure (\<lambda>(E, tx, n, path). length path)")
     (auto simp: path_step_less)

declare node_remove.simps [simp del]

end
