(* ===== verification/ConfigSpec.thy ===== *)
theory ConfigSpec
  imports ConfigTree
begin

text \<open>
  What the configuration tree promises: an abstract specification on plain trees of messages,
  \<open>tree_get\<close>, \<open>tree_update\<close>, \<open>tree_add\<close> and \<open>tree_remove\<close>, and the proof that the operations on nodes,
  branches and revisions implement it. The invariant \<open>coh\<close> says that the head of every node's
  committed branch is the very revision the tree above it refers to.
\<close>

section \<open>The specification\<close>

definition tree_children :: "'d tree \<Rightarrow> string \<Rightarrow> 'd tree list res" where
  "tree_children t name =
     (case od_get name (t_children t) of None \<Rightarrow> Inl KeyError | Some l \<Rightarrow> Inr l)"

definition find_tree :: "'d proto \<Rightarrow> 'd tree list \<Rightarrow> string \<Rightarrow> pval \<Rightarrow> (nat \<times> 'd tree) res" where
  "find_tree P ts key value = find_by_key (\<lambda>t. p_attr P (t_data t) key) ts value"

definition put_children :: "'d tree \<Rightarrow> string \<Rightarrow> 'd tree list \<Rightarrow> 'd tree" where
  "put_children t name l = Tree (t_data t) (od_set name l (t_children t))"

function tree_get :: "'d proto \<Rightarrow> int \<Rightarrow> 'd tree \<Rightarrow> string \<Rightarrow> 'd got res" where
  "tree_get P depth t path =
     (if path = [] then rbind (tree_read P t depth) (\<lambda>d. Inr (One (Some (CData d))))
      else
        let name = fst (partition_at CHR ''/'' path); path1 = snd (partition_at CHR ''/'' path) in
        rbind (field_of P (p_cls P (t_data t)) name) (\<lambda>field.
        if ct_container field then
          (if path1 = [] then
             rbind (tree_children t name) (\<lambda>children.
             rbind (py_map (\<lambda>c. tree_read P c depth) children)
               (\<lambda>ds. Inr (Many (map (\<lambda>d. Some (CData d)) ds))))
           else
             (case ct_key field of
                None \<Rightarrow> Inl LookupError
              | Some key \<Rightarrow>
                  rbind (tree_children t name) (\<lambda>children.
                  rbind (key_from_str field (fst (partition_at CHR ''/'' path1))) (\<lambda>value.
                  rbind (find_tree P children key value) (\<lambda>it.
                    tree_get P depth (snd it) (snd (partition_at CHR ''/'' path1)))))))
        else
          rbind (rbind (tree_children t name) first) (\<lambda>child. tree_get P depth child path1)))"
  by pat_completeness auto
termination tree_get
  by (relation "measure (\<lambda>(P, depth, t, path). length path)")
     (auto simp: partition_at_length snd_partition_twice)

function tree_update :: "'d proto \<Rightarrow> 'd \<Rightarrow> bool \<Rightarrow> 'd tree \<Rightarrow> string \<Rightarrow> 'd tree res" where
  "tree_update P data strict t path0 =
     (let path = lstrip_slash path0 in
      if path = [] then
        rbind (if p_cls P data = p_cls P (t_data t) then Inr () else Inl ValueError) (\<lambda>_.
        rbind (test_no_children P (p_cls P (t_data t)) data) (\<lambda>_.
        rbind (if t_data t \<noteq> data \<and> strict then check_access_violation P data (t_data t)
               else Inr ()) (\<lambda>_.
          Inr (Tree data (t_children t)))))
      else
        let name = fst (partition_at CHR ''/'' path); path1 = snd (partition_at CHR ''/'' path) in
        rbind (field_of P (p_cls P (t_data t)) name) (\<lambda>field.
        if ct_container field then
          (if path1 = [] then Inl ValueError
           else
             (case ct_key field of
                None \<Rightarrow> Inl ValueError
              | Some key \<Rightarrow>
                  rbind (key_from_str field (fst (partition_at CHR ''/'' path1))) (\<lambda>value.
                  rbind (tree_children t name) (\<lambda>children.
                  rbind (find_tree P children key value) (\<lambda>it.
                  rbind (tree_update P data strict (snd it) (snd (partition_at CHR ''/'' path1))) (\<lambda>new.
                  if p_attr P (t_data new) key \<noteq> value then Inl ValueError
                  else Inr (put_children t name (children[fst it := new]))))))))
        else
          rbind (rbind (tree_children t name) first) (\<lambda>child.
          rbind (tree_update P data strict child path1) (\<lambda>new.
            Inr (put_children t name [new])))))"
  by pat_completeness auto
termination tree_update
  by (relation "measure (\<lambda>(P, data, strict, t, path). length path)")
     (auto simp: path_step_less)

text \<open>
  The code takes a child whose hash did not change for a child that did not change. \<open>detects\<close> says
  that this is so along the path: no updated subtree that differs has the hash of the old one.
\<close>

function detects :: "'d proto \<Rightarrow> 'd \<Rightarrow> bool \<Rightarrow> 'd tree \<Rightarrow> string \<Rightarrow> bool" where
  "detects P data strict t path0 =
     (let path = lstrip_slash path0 in
      if path = [] then True
      else
        let name = fst (partition_at CHR ''/'' path); path1 = snd (partition_at CHR ''/'' path) in
        (case (field_of P (p_cls P (t_data t)) name, tree_children t name) of
           (Inr field, Inr children) \<Rightarrow>
             if ct_container field then
               (case (ct_key field, key_from_str field (fst (partition_at CHR ''/'' path1))) of
                  (Some key, Inr value) \<Rightarrow>
                    (case find_tree P children key value of
                       Inl _ \<Rightarrow> True
                     | Inr (i, c) \<Rightarrow>
                         detects P data strict c (snd (partition_at CHR ''/'' path1)) \<and>
                         (case tree_update P data strict c (snd (partition_at CHR ''/'' path1)) of
                            Inl _ \<Rightarrow> True
                          | Inr new \<Rightarrow> tree_hash P new \<noteq> tree_hash P c \<or> new = c))
                | _ \<Rightarrow> True)
             else (case first children of Inl _ \<Rightarrow> True | Inr c \<Rightarrow> detects P data strict c path1)
         | _ \<Rightarrow> True))"
  by pat_completeness auto
termination detects
  by (relation "measure (\<lambda>(P, data, strict, t, path). length path)")
     (auto simp: path_step_less)

declare detects.simps [simp del]

text \<open>The tree of a new node: the children of a message, field by field, split from its local data.\<close>

fun split_keyed :: "('d \<Rightarrow> 'd tree res) \<Rightarrow> ('d \<Rightarrow> pval) \<Rightarrow> 'd list \<Rightarrow> pval list \<Rightarrow> 'd tree list res" where
  "split_keyed mk attr [] seen = Inr []"
| "split_keyed mk attr (v # vs) seen =
     rbind (mk v) (\<lambda>t.
     if attr v \<in> set seen then Inl ValueError
     else rbind (split_keyed mk attr vs (attr v # seen)) (\<lambda>ts. Inr (t # ts)))"

definition split_field ::
  "'d proto \<Rightarrow> ('d \<Rightarrow> 'd tree res) \<Rightarrow> string \<times> child_type \<Rightarrow> (string \<times> 'd tree list) list \<times> 'd
   \<Rightarrow> ((string \<times> 'd tree list) list \<times> 'd) res" where
  "split_field P mk nf acc =
     (case (nf, acc) of ((name, field), (children, data)) \<Rightarrow>
        rbind
          (case (ct_container field, ct_key field) of
             (True, Some key) \<Rightarrow> split_keyed mk (\<lambda>v. p_attr P v key) (p_children P data name) []
           | _ \<Rightarrow> py_map mk (p_children P data name))
          (\<lambda>lst. Inr (od_set name lst children, p_clear P name data)))"

fun tree_of :: "'d proto \<Rightarrow> nat \<Rightarrow> 'd \<Rightarrow> 'd tree res" where
  "tree_of P 0 data = Inl RecursionError"
| "tree_of P (Suc fuel) data =
     rbind (fields_of P (p_cls P data)) (\<lambda>fs.
     rbind (py_for (split_field P (tree_of P fuel)) fs ([], data)) (\<lambda>(children, local).
       Inr (Tree local children)))"

function tree_add :: "'d proto \<Rightarrow> nat \<Rightarrow> 'd \<Rightarrow> 'd tree \<Rightarrow> string \<Rightarrow> 'd tree res" where
  "tree_add P fuel data t path0 =
     (let path = lstrip_slash path0 in
      if path = [] then Inl ValueError
      else
        let name = fst (partition_at CHR ''/'' path); path1 = snd (partition_at CHR ''/'' path) in
        rbind (field_of P (p_cls P (t_data t)) name) (\<lambda>field.
        if \<not> ct_container field then Inl ValueError
        else
          (case ct_key field of
             None \<Rightarrow> Inl ValueError
           | Some key \<Rightarrow>
               if path1 = [] then
                 rbind (tree_children t name) (\<lambda>children.
                 (case find_tree P children key (p_attr P data key) of
                    Inr _ \<Rightarrow> Inl ValueError
                  | Inl _ \<Rightarrow>
                      rbind (tree_of P fuel data)
                        (\<lambda>child. Inr (put_children t name (children @ [child])))))
               else
                 rbind (key_from_str field (fst (partition_at CHR ''/'' path1))) (\<lambda>value.
                 rbind (tree_children t name) (\<lambda>children.
                 rbind (find_tree P children key value) (\<lambda>it.
                 rbind (tree_add P fuel data (snd it) (snd (partition_at CHR ''/'' path1)))
                   (\<lambda>new. Inr (put_children t name (children[fst it := new])))))))))"
  by pat_completeness auto
termination tree_add
  by (relation "measure (\<lambda>(P, fuel, data, t, path). length path)")
     (auto simp: path_step_less)

function tree_remove :: "'d proto \<Rightarrow> 'd tree \<Rightarrow> string \<Rightarrow> 'd tree res" where
  "tree_remove P t path0 =
     (let path = lstrip_slash path0 in
      if path = [] then Inl ValueError
      else
        let name = fst (partition_at CHR ''/'' path); path1 = snd (partition_at CHR ''/'' path) in
        rbind (field_of P (p_cls P (t_data t)) name) (\<lambda>field.
        if \<not> ct_container field \<or> path1 = [] then Inl ValueError
        else
          (case ct_key field of
             None \<Rightarrow> Inl ValueError
           | Some key \<Rightarrow>
               let path2 = snd (partition_at CHR ''/'' path1) in
               rbind (key_from_str field (fst (partition_at CHR ''/'' path1))) (\<lambda>value.
               rbind (tree_children t name) (\<lambda>children.
               rbind (find_tree P children key value) (\<lambda>it.
               if path2 \<noteq> [] then
                 rbind (tree_remove P (snd it) path2)
                   (\<lambda>new. Inr (put_children t name (children[fst it := new])))
               else Inr (put_children t name (remove_nth (fst it) children))))))))"
  by pat_completeness auto
termination tree_remove
  by (relation "measure (\<lambda>(P, t, path). length path)")
     (auto simp: path_step_less)

declare tree_get.simps [simp del] tree_update.simps [simp del] tree_add.simps [simp del]
  tree_remove.simps [simp del]


section \<open>Revisions and their content\<close>

lemma tree_children_erase [simp]:
  "tree_children (erase r) name = rbind (rev_children r name) (\<lambda>l. Inr (map erase l))"
  by (simp add: tree_children_def rev_children_def t_children_erase split: option.splits)

lemma find_tree_erase [simp]:
  "find_tree P (map erase rs) key value =
     rbind (find_rev_by_key P rs key value) (\<lambda>(i, r). Inr (i, erase r))"
  by (simp add: find_tree_def find_rev_by_key_def find_by_key_map)

lemma put_children_erase:
  "put_children (erase r) name (map erase l) =
     Tree (r_data r) (map (map_prod id (map erase)) (od_set name l (r_children r)))"
  by (simp add: put_children_def t_children_erase od_set_map_prod [where f = "map erase"])

lemma first_map: "first (map f l) = rbind (first l) (\<lambda>x. Inr (f x))"
  by (cases l) (simp_all add: first_def)

lemma rbind_assoc [simp]: "rbind (rbind m f) g = rbind m (\<lambda>x. rbind (f x) g)"
  by (cases m) simp_all

text \<open>All revisions of a tree, and their nodes.\<close>

primrec sub_revs :: "'d rev \<Rightarrow> 'd rev list" where
  "sub_revs (Rev i n t data children st) =
     Rev i n t data children st #
     concat (map (\<lambda>p. concat (snd p)) (map (map_prod id (map sub_revs)) children))"

definition below :: "(string \<times> 'd rev list) list \<Rightarrow> 'd rev list" where
  "below children = concat (map (\<lambda>p. concat (map sub_revs (snd p))) children)"

definition nodes_of :: "'d rev \<Rightarrow> nat list" where
  "nodes_of r = map r_node (sub_revs r)"

lemma sub_revs_eq: "sub_revs r = r # below (r_children r)"
  by (cases r) (simp add: below_def comp_def)

lemma below_simps [simp]:
  "below [] = []" "below ((k, l) # ch) = concat (map sub_revs l) @ below ch"
  by (simp_all add: below_def)

lemma below_child:
  "od_get name ch = Some l \<Longrightarrow> c \<in> set l \<Longrightarrow> set (sub_revs c) \<subseteq> set (below ch)"
  by (induction ch) (auto split: if_splits)

text \<open>Replacing the list under one field name changes that part of the nodes below only.\<close>

lemma below_od_set:
  assumes "od_get name ch = Some l"
  obtains pre post where "below ch = pre @ concat (map sub_revs l) @ post"
    and "\<And>l'. below (od_set name l' ch) = pre @ concat (map sub_revs l') @ post"
  using assms
proof (induction ch arbitrary: thesis)
  case Nil
  then show ?case by simp
next
  case (Cons kv ch)
  obtain k v where kv: "kv = (k, v)" by (cases kv)
  show ?case
  proof (cases "k = name")
    case True
    with Cons.prems show ?thesis by (auto simp: kv intro: Cons.prems(1) [of "[]" "below ch"])
  next
    case False
    with Cons.prems(2) have "od_get name ch = Some l" by (simp add: kv)
    with Cons.IH obtain pre post where "below ch = pre @ concat (map sub_revs l) @ post"
      and "\<And>l'. below (od_set name l' ch) = pre @ concat (map sub_revs l') @ post" by blast
    with False show ?thesis
      by (auto simp: kv intro: Cons.prems(1) [of "concat (map sub_revs v) @ pre" post])
  qed
qed


section \<open>Coherence\<close>

text \<open>
  The head of a node's branch need not be the revision object in the tree above it: an update that
  changes nothing leaves a new head with the same content. It has the same skeleton, data and nodes.
\<close>

primrec skel :: "'d rev \<Rightarrow> ('d \<times> nat) tree" where
  "skel (Rev i n t data children st) = Tree (data, n) (map (map_prod id (map skel)) children)"

definition head :: "'d proto \<Rightarrow> ('d, 'c) cstore \<Rightarrow> 'd rev \<Rightarrow> bool" where
  "head P s r \<longleftrightarrow>
     r_node r < length (cs_nodes s) \<and> n_type (cs_nodes s ! r_node r) = p_cls P (r_data r) \<and>
     (\<exists>b r0. od_get NoTx (n_branches (cs_nodes s ! r_node r)) = Some b \<and> b_latest b = Some r0 \<and>
          skel r0 = skel r \<and> b_txid b = NoTx)"

definition coh :: "'d proto \<Rightarrow> ('d, 'c) cstore \<Rightarrow> 'd rev \<Rightarrow> bool" where
  "coh P s r \<longleftrightarrow> (\<forall>x \<in> set (sub_revs r). head P s x) \<and> distinct (nodes_of r)"

lemma skel_root: "t_data (skel r) = (r_data r, r_node r)"
  by (cases r) simp

lemma skel_data: "skel r = skel r' \<Longrightarrow> r_data r = r_data r' \<and> r_node r = r_node r'"
  by (metis prod.inject skel_root)

lemma map_skel_sub_revs: "map skel (sub_revs r) = subtrees (skel r)"
proof (induction r)
  case (Rev i n t data children st)
  have "map (map_prod id (map (\<lambda>x. map skel (sub_revs x)))) children =
      map (map_prod id (map (\<lambda>x. subtrees (skel x)))) children"
    by (rule map_prod_cong_list) (use Rev in \<open>fastforce simp: snds.simps\<close>)
  then have "map (\<lambda>p. concat (snd p)) (map (map_prod id (map (\<lambda>x. map skel (sub_revs x)))) children) =
      map (\<lambda>p. concat (snd p)) (map (map_prod id (map (\<lambda>x. subtrees (skel x)))) children)"
    by metis
  moreover have "map skel (concat (map (\<lambda>p. concat (snd p)) (map (map_prod id (map sub_revs)) children))) =
      concat (map (\<lambda>p. concat (snd p)) (map (map_prod id (map (\<lambda>x. map skel (sub_revs x)))) children))"
    by (simp add: map_concat comp_def)
  ultimately show ?case
    by (simp only: sub_revs.simps skel.simps subtrees.simps map_children_comp list.map)
qed

lemma head_skel: "skel r = skel r' \<Longrightarrow> head P s r = head P s r'"
  by (auto simp: head_def dest: skel_data)

lemma coh_skel:
  assumes "skel r = skel r'" and "coh P s r"
  shows "coh P s r'"
proof -
  have eq: "map skel (sub_revs r) = map skel (sub_revs r')"
    using assms(1) by (simp add: map_skel_sub_revs)
  have "head P s x" if x: "x \<in> set (sub_revs r')" for x
  proof -
    have "skel x \<in> set (map skel (sub_revs r))" using x eq by simp
    then obtain y where "y \<in> set (sub_revs r)" "skel y = skel x" by auto
    with assms(2) show ?thesis using head_skel [of y x] unfolding coh_def by blast
  qed
  moreover have "map r_node (sub_revs r) = map r_node (sub_revs r')"
    using eq [THEN arg_cong, of "map (\<lambda>t. snd (t_data t))"] by (simp add: comp_def skel_root)
  ultimately show ?thesis using assms(2) by (auto simp: coh_def nodes_of_def)
qed

lemma nodes_of_skel: "skel r = skel r' \<Longrightarrow> nodes_of r = nodes_of r'"
  using arg_cong [OF map_skel_sub_revs [of r], of "map (\<lambda>t. snd (t_data t))"]
    arg_cong [OF map_skel_sub_revs [of r'], of "map (\<lambda>t. snd (t_data t))"]
  by (simp add: comp_def skel_root nodes_of_def)

lemma erase_skel: "erase r = map_tree fst (skel r)"
proof (induction r)
  case (Rev i n t data children st)
  have "map (map_prod id (map erase)) children =
      map (map_prod id (map (\<lambda>x. map_tree fst (skel x)))) children"
    by (rule map_prod_cong_list) (use Rev in \<open>fastforce simp: snds.simps\<close>)
  then show ?case by (simp only: erase.simps skel.simps tree.map fst_conv map_children_comp)
qed

lemma head_cong:
  "head P s r \<Longrightarrow> cs_nodes s' ! r_node r = cs_nodes s ! r_node r \<Longrightarrow>
   length (cs_nodes s) \<le> length (cs_nodes s') \<Longrightarrow> head P s' r"
  by (auto simp: head_def)

lemma coh_head: "coh P s r \<Longrightarrow> head P s r"
  by (simp add: coh_def sub_revs_eq)

lemma coh_child:
  assumes "coh P s r" and "od_get name (r_children r) = Some l" and "c \<in> set l"
  shows "coh P s c"
proof -
  obtain pre post where b: "below (r_children r) = pre @ concat (map sub_revs l) @ post"
    using below_od_set [OF assms(2)] by blast
  obtain xs ys where l: "l = xs @ c # ys" using split_list [OF assms(3)] by blast
  show ?thesis using assms(1) by (auto simp: coh_def nodes_of_def sub_revs_eq [of r] b l)
qed

lemma coh_latest:
  "coh P s r \<Longrightarrow> \<exists>b r0. branch_of s (r_node r) NoTx = Inr b \<and> b_latest b = Some r0 \<and>
     skel r0 = skel r \<and> b_txid b = NoTx \<and> assure_branch NoTx (r_node r) s = (Inr b, s)"
  by (auto dest!: coh_head simp: head_def branch_of_def assure_branch_def)


text \<open>What making a revision the head of a node's committed branch does to the nodes.\<close>

definition commits :: "('d, 'c) cstore \<Rightarrow> ('d, 'c) cstore \<Rightarrow> nat \<Rightarrow> 'd rev \<Rightarrow> bool" where
  "commits s s' n r \<longleftrightarrow>
     length (cs_nodes s') = length (cs_nodes s) \<and> n < length (cs_nodes s) \<and>
     (\<forall>m. m \<noteq> n \<longrightarrow> cs_nodes s' ! m = cs_nodes s ! m) \<and>
     n_type (cs_nodes s' ! n) = n_type (cs_nodes s ! n) \<and>
     n_proxy (cs_nodes s' ! n) = n_proxy (cs_nodes s ! n) \<and>
     (\<exists>b. od_get NoTx (n_branches (cs_nodes s' ! n)) = Some b \<and> b_latest b = Some r \<and>
          b_txid b = NoTx)"

lemma finalize_nodes: "finalize E r s = (res, s') \<Longrightarrow> cs_nodes s' = cs_nodes s"
  by (auto simp: finalize_def)

lemma persist_enqueue_nodes [simp]:
  "cs_nodes (persist_root E r s) = cs_nodes s"
  "cs_nodes (enqueue_announcements n changes s) = cs_nodes s"
  by (simp_all add: persist_root_def enqueue_announcements_def)

lemma make_latest_commits:
  assumes "branch_of s n NoTx = Inr b" and "b_txid b = NoTx" and "n < length (cs_nodes s)"
  shows "\<exists>s'. make_latest E n NoTx r changes s = (Inr (), s') \<and> commits s s' n r"
  using assms by (auto simp: make_latest_def commits_def set_node_def Let_def)

lemma commits_cong: "cs_nodes s1 = cs_nodes s \<Longrightarrow> commits s1 s2 n r = commits s s2 n r"
  by (simp add: commits_def)

lemma replace_child_commits:
  assumes "branch_of s n NoTx = Inr b" and "b_txid b = NoTx" and "n < length (cs_nodes s)"
  shows "\<exists>s'. replace_child E NoTx n b r name l changes s =
      (Inr (Rev (cs_next s) n NoTx (r_data r) (od_set name l (r_children r)) (r_stored r)), s') \<and>
    commits s s' n (Rev (cs_next s) n NoTx (r_data r) (od_set name l (r_children r)) (r_stored r))"
proof -
  let ?r = "Rev (cs_next s) n NoTx (r_data r) (od_set name l (r_children r)) (r_stored r)"
  obtain s1 where s1: "finalize E ?r s = (Inr ?r, s1)" by (simp add: finalize_def)
  then have nodes: "cs_nodes s1 = cs_nodes s" by (rule finalize_nodes)
  then have "branch_of s1 n NoTx = Inr b" using assms(1) by (simp add: branch_of_def)
  then obtain s2 where "make_latest E n NoTx ?r changes s1 = (Inr (), s2)" "commits s1 s2 n ?r"
    using make_latest_commits [of s1 n b E ?r changes] assms(2,3) nodes by metis
  moreover have "update_children E r name l n (b_txid b) s = (Inr ?r, s1)"
    using s1 assms(2) by (simp add: update_children_def)
  ultimately show ?thesis
    using commits_cong [OF nodes] by (simp add: replace_child_def st_bind_def)
qed

lemma commits_head:
  "commits s s' n r \<Longrightarrow> r_node r = n \<Longrightarrow> n_type (cs_nodes s ! n) = p_cls P (r_data r) \<Longrightarrow> head P s' r"
  by (auto simp: commits_def head_def)

text \<open>The result of an operation below a revision.\<close>

definition op_ok ::
  "'d proto \<Rightarrow> ('d, 'c) cstore \<Rightarrow> ('d, 'c) cstore \<Rightarrow> 'd rev \<Rightarrow> 'd rev \<Rightarrow> bool" where
  "op_ok P s s' r r' \<longleftrightarrow>
     coh P s' r' \<and> r_node r' = r_node r \<and> length (cs_nodes s) \<le> length (cs_nodes s') \<and>
     (\<forall>m < length (cs_nodes s). m \<notin> set (nodes_of r) \<longrightarrow> cs_nodes s' ! m = cs_nodes s ! m) \<and>
     (\<forall>m \<in> set (nodes_of r'). m \<in> set (nodes_of r) \<or> length (cs_nodes s) \<le> m)"

definition list_nodes :: "'d rev list \<Rightarrow> nat list" where
  "list_nodes l = map r_node (concat (map sub_revs l))"

text \<open>
  The state after the children under one name were replaced: \<open>s1\<close> is the state before the parent's
  new revision is committed, in which only nodes of the old children were touched.
\<close>

lemma replace_coh:
  assumes coh: "coh P s r" and get: "od_get name (r_children r) = Some l"
    and len: "length (cs_nodes s) \<le> length (cs_nodes s1)"
    and frame: "\<forall>m < length (cs_nodes s). m \<notin> set (list_nodes l) \<longrightarrow> cs_nodes s1 ! m = cs_nodes s ! m"
    and heads: "\<forall>x \<in> set (concat (map sub_revs l')). head P s1 x"
    and dist: "distinct (list_nodes l')"
    and new: "\<forall>m \<in> set (list_nodes l'). m \<in> set (list_nodes l) \<or> length (cs_nodes s) \<le> m"
    and com: "commits s1 s2 (r_node r) r'"
    and r': "r_node r' = r_node r" "r_data r' = r_data r"
      "r_children r' = od_set name l' (r_children r)"
  shows "op_ok P s s2 r r'"
proof -
  obtain pre post where b: "below (r_children r) = pre @ concat (map sub_revs l) @ post"
    and b': "below (r_children r') = pre @ concat (map sub_revs l') @ post"
    using below_od_set [OF get] r'(3) by metis
  have bound: "\<forall>x \<in> set (sub_revs r). r_node x < length (cs_nodes s)"
    using coh by (auto simp: coh_def head_def)
  have dr: "distinct (r_node r # map r_node pre @ list_nodes l @ map r_node post)"
    using coh by (simp add: coh_def nodes_of_def sub_revs_eq b list_nodes_def)
  have bnd: "r_node r < length (cs_nodes s)"
    "\<forall>m \<in> set (map r_node pre @ list_nodes l @ map r_node post). m < length (cs_nodes s)"
    using bound by (auto simp: sub_revs_eq b list_nodes_def)
  have n_new: "r_node r \<notin> set (list_nodes l')" using dr bnd new by fastforce
  have same: "cs_nodes s2 ! m = cs_nodes s1 ! m" if "m \<noteq> r_node r" for m
    using com that by (simp add: commits_def)
  have lens: "length (cs_nodes s2) = length (cs_nodes s1)" using com by (simp add: commits_def)
  have h_old: "head P s2 x" if x: "x \<in> set pre \<union> set post" for x
  proof (rule head_cong)
    show "head P s x" using coh x by (auto simp: coh_def sub_revs_eq b)
    show "cs_nodes s2 ! r_node x = cs_nodes s ! r_node x"
    proof -
      have "r_node x \<in> set (map r_node pre @ map r_node post)" using x by auto
      moreover have "r_node r \<notin> set (map r_node pre @ map r_node post)"
        "set (map r_node pre @ map r_node post) \<inter> set (list_nodes l) = {}" using dr by auto
      ultimately have "r_node x \<noteq> r_node r" "r_node x \<notin> set (list_nodes l)"
        "r_node x < length (cs_nodes s)" using bnd(2) by (metis, blast, auto)
      then show ?thesis using frame same by simp
    qed
  qed (use len lens in simp)
  have h_new: "head P s2 x" if x: "x \<in> set (concat (map sub_revs l'))" for x
  proof (rule head_cong)
    show "head P s1 x" using heads x by blast
    show "cs_nodes s2 ! r_node x = cs_nodes s1 ! r_node x"
    proof (rule same)
      have "r_node x \<in> set (list_nodes l')" using x by (auto simp: list_nodes_def)
      then show "r_node x \<noteq> r_node r" using n_new by metis
    qed
  qed (use lens in simp)
  have "cs_nodes s1 ! r_node r = cs_nodes s ! r_node r" using frame dr bnd by auto
  then have h_r: "head P s2 r'"
    using com r' coh_head [OF coh] by (intro commits_head [of s1]) (auto simp: head_def)
  have sub: "sub_revs r' = r' # pre @ concat (map sub_revs l') @ post"
    by (simp add: sub_revs_eq [of r'] b')
  have dist': "distinct (nodes_of r')"
  proof -
    let ?A = "set (map r_node pre) \<union> set (map r_node post)"
    have disj: "?A \<inter> set (list_nodes l) = {}" using dr by auto
    have bd: "\<forall>m \<in> ?A. m < length (cs_nodes s)" using bnd(2) by auto
    have "m \<notin> ?A" if m: "m \<in> set (list_nodes l')" for m
    proof (cases "m \<in> set (list_nodes l)")
      case True
      then show ?thesis using disj by blast
    next
      case False
      then have "length (cs_nodes s) \<le> m" using new m by blast
      then show ?thesis using bd by (meson not_less)
    qed
    then have "set (map r_node pre) \<inter> set (list_nodes l') = {}"
      "set (list_nodes l') \<inter> set (map r_node post) = {}" by blast+
    moreover have "nodes_of r' = r_node r # map r_node pre @ list_nodes l' @ map r_node post"
      by (simp add: nodes_of_def sub r'(1) list_nodes_def)
    ultimately show ?thesis using dr dist n_new by auto
  qed
  have c': "coh P s2 r'" unfolding coh_def using h_old h_new h_r dist' sub by auto
  have nodes: "set (nodes_of r) = insert (r_node r) (set (map r_node pre @ list_nodes l @ map r_node post))"
    by (auto simp: nodes_of_def sub_revs_eq b list_nodes_def)
  show ?thesis
    unfolding op_ok_def using c' r'(1) len lens frame same new
    by (auto simp: nodes nodes_of_def [of r'] sub list_nodes_def)
qed

text \<open>One child of a list replaced; a singular field keeps no other child.\<close>

lemma op_ok_child:
  assumes "coh P s r" and "od_get name (r_children r) = Some l" and l: "l = xs @ c # ys"
    and "op_ok P s s1 c c'" and "commits s1 s2 (r_node r) r'"
    and "r_node r' = r_node r" "r_data r' = r_data r"
      "r_children r' = od_set name l' (r_children r)"
    and l': "l' = xs @ c' # ys'" "ys' = ys \<or> ys' = []"
  shows "op_ok P s s2 r r'"
proof -
  have sub: "set (list_nodes ys') \<subseteq> set (list_nodes ys)" "set ys' \<subseteq> set ys"
    "distinct (list_nodes ys) \<Longrightarrow> distinct (list_nodes ys')"
    using l'(2) by (auto simp: list_nodes_def)
  have nl: "list_nodes l = list_nodes xs @ nodes_of c @ list_nodes ys"
    by (simp add: l list_nodes_def nodes_of_def)
  have nu: "list_nodes l' = list_nodes xs @ nodes_of c' @ list_nodes ys'"
    by (simp add: l' list_nodes_def nodes_of_def)
  have dl: "distinct (list_nodes l)" and bl: "\<forall>m \<in> set (list_nodes l). m < length (cs_nodes s)"
  proof -
    obtain pre post where b: "below (r_children r) = pre @ concat (map sub_revs l) @ post"
      using below_od_set [OF assms(2)] by blast
    show "distinct (list_nodes l)" "\<forall>m \<in> set (list_nodes l). m < length (cs_nodes s)"
      using assms(1) by (auto simp: coh_def nodes_of_def sub_revs_eq [of r] b list_nodes_def head_def)
  qed
  note ok = assms(4) [unfolded op_ok_def]
  have heads: "head P s1 x" if x: "x \<in> set (concat (map sub_revs (xs @ ys)))" for x
  proof (rule head_cong)
    have "x \<in> set (concat (map sub_revs l))" using x by (auto simp: l)
    then show "head P s x"
      using assms(1) below_child [OF assms(2)] by (fastforce simp: coh_def sub_revs_eq [of r])
    have "r_node x \<in> set (list_nodes xs @ list_nodes ys)" using x by (auto simp: list_nodes_def)
    moreover have "set (list_nodes xs @ list_nodes ys) \<inter> set (nodes_of c) = {}"
      using dl unfolding nl by auto
    ultimately have "r_node x \<notin> set (nodes_of c)" "r_node x < length (cs_nodes s)"
      using bl unfolding nl by auto
    then show "cs_nodes s1 ! r_node x = cs_nodes s ! r_node x" using ok by blast
  qed (use ok in blast)
  have d: "distinct (list_nodes l')"
  proof -
    have "set (list_nodes xs @ list_nodes ys) \<inter> set (nodes_of c) = {}"
      "\<forall>m \<in> set (list_nodes xs @ list_nodes ys). m < length (cs_nodes s)"
      using dl bl unfolding nl by auto
    then have "\<forall>m \<in> set (nodes_of c'). m \<notin> set (list_nodes xs @ list_nodes ys)"
      using ok by (meson disjoint_iff not_less)
    moreover have "distinct (nodes_of c')" using ok by (simp add: coh_def)
    ultimately show ?thesis using dl sub unfolding nl nu by auto
  qed
  show ?thesis
  proof (rule replace_coh [OF assms(1,2) _ _ _ d _ assms(5-8)])
    show "length (cs_nodes s) \<le> length (cs_nodes s1)" using ok by blast
    show "\<forall>m<length (cs_nodes s). m \<notin> set (list_nodes l) \<longrightarrow> cs_nodes s1 ! m = cs_nodes s ! m"
      using ok unfolding nl by simp
    show "\<forall>x\<in>set (concat (map sub_revs l')). head P s1 x"
      using heads ok sub(2) unfolding l' by (auto simp: coh_def)
    show "\<forall>m\<in>set (list_nodes l'). m \<in> set (list_nodes l) \<or> length (cs_nodes s) \<le> m"
      using ok sub(1) unfolding nl nu by auto
  qed
qed


section \<open>Get\<close>

text \<open>No callback of type GET changes what is read; the PRE callbacks accept.\<close>

definition quiet :: "('d, 'c) cenv \<Rightarrow> ('d, 'c) cstore \<Rightarrow> bool" where
  "quiet E s \<longleftrightarrow>
     (\<forall>nd \<in> set (cs_nodes s). \<forall>x.
        run_hooks E nd GET x = Inr (Some x) \<and>
        (\<forall>t \<in> {PRE_UPDATE, PRE_ADD, PRE_REMOVE}. \<exists>y. run_hooks E nd t x = Inr y))"

lemma quiet_get:
  "quiet E s \<Longrightarrow> head (e_proto E) s r \<Longrightarrow>
     do_get E s depth r = rbind (rev_get (e_proto E) r depth) (\<lambda>d. Inr (Some (CData d)))"
  by (auto simp: do_get_def quiet_def head_def intro!: rbind_cong)

lemma py_map_cong: "\<forall>x \<in> set xs. f x = g x \<Longrightarrow> py_map f xs = py_map g xs"
  by (induction xs) (simp_all split: sum.split)

lemma py_map_rbind:
  "py_map (\<lambda>x. rbind (f x) (\<lambda>y. Inr (g y))) xs = rbind (py_map f xs) (\<lambda>ys. Inr (map g ys))"
  by (induction xs) (auto simp: rbind_def split: sum.splits)

lemma py_map_map: "py_map f (map g xs) = py_map (\<lambda>x. f (g x)) xs"
  by (induction xs) (auto split: sum.splits)

lemma rev_children_Inr: "rev_children r name = Inr l \<longleftrightarrow> od_get name (r_children r) = Some l"
  by (auto simp: rev_children_def split: option.splits)

lemma find_rev_Inr:
  "find_rev_by_key P l key v = Inr (i, c) \<Longrightarrow>
     i < length l \<and> l ! i = c \<and> c \<in> set l \<and> p_attr P (r_data c) key = v"
  by (auto simp: find_rev_by_key_def dest!: find_by_key_Inr)

lemma first_Inr: "first l = Inr c \<Longrightarrow> \<exists>rest. l = c # rest"
  by (cases l) (auto simp: first_def)

lemma coh_rev_child:
  "coh P s r \<Longrightarrow> rev_children r name = Inr l \<Longrightarrow> c \<in> set l \<Longrightarrow> coh P s c"
  by (auto simp: rev_children_Inr intro: coh_child)

lemma get_path_refines:
  assumes "quiet E s" and "coh (e_proto E) s r"
  shows "get_path E s depth r path = tree_get (e_proto E) depth (erase r) path"
  using assms
proof (induction E s depth r path rule: get_path.induct)
  case (1 E s depth r path)
  let ?P = "e_proto E"
  let ?name = "fst (partition_at CHR ''/'' path)" and ?p1 = "snd (partition_at CHR ''/'' path)"
  have hd: "head ?P s r" using 1 by (simp add: coh_head)
  then have type: "n_type (cs_nodes s ! r_node r) = p_cls ?P (r_data r)" by (simp add: head_def)
  show ?case
  proof (cases "path = []")
    case True
    then show ?thesis
      using quiet_get [OF \<open>quiet E s\<close> hd]
      by (simp add: get_path.simps [of E s depth r] tree_get.simps [of ?P depth "erase r"])
  next
    case False
    have many: "rbind (py_map (do_get E s depth) l) (\<lambda>xs. Inr (Many xs)) =
        rbind (py_map (\<lambda>c. tree_read ?P c depth) (map erase l))
          (\<lambda>ds. Inr (Many (map (\<lambda>d. Some (CData d)) ds)))" if "rev_children r ?name = Inr l" for l
    proof -
      have "py_map (do_get E s depth) l =
          py_map (\<lambda>c. rbind (rev_get ?P c depth) (\<lambda>d. Inr (Some (CData d)))) l"
        using 1(4) that
        by (intro py_map_cong ballI quiet_get [OF \<open>quiet E s\<close>] coh_head) (rule coh_rev_child)
      then show ?thesis by (simp add: py_map_rbind py_map_map)
    qed
    note gp = get_path.simps [of E s depth r path] and tg = tree_get.simps [of ?P depth "erase r" path]
    note ih1 = 1(1) [OF False refl refl, unfolded type] and ih2 = 1(2) [OF False refl refl, unfolded type]
    show ?thesis
    proof (cases "field_of ?P (p_cls ?P (r_data r)) ?name")
      case (Inl e)
      then show ?thesis using False type by (simp add: gp tg Let_def)
    next
      case (Inr field)
      note f = Inr
      show ?thesis
      proof (cases "rev_children r ?name")
        case (Inl e)
        with f False type show ?thesis by (simp add: gp tg Let_def split: option.splits)
      next
        case (Inr l)
        note l = Inr
        have child: "coh ?P s c" if "c \<in> set l" for c using coh_rev_child [OF 1(4) l that] .
        show ?thesis
        proof (cases "ct_container field")
          case False
          note c = this
          show ?thesis
          proof (cases "first l")
            case (Inl e)
            with c f l type \<open>path \<noteq> []\<close> show ?thesis by (simp add: gp tg Let_def first_map)
          next
            case (Inr x)
            with l have "get_path E s depth x ?p1 = tree_get ?P depth (erase x) ?p1"
              using f c 1(3) child [of x] by (intro ih2) (auto dest: first_Inr)
            with Inr c f l type \<open>path \<noteq> []\<close> show ?thesis by (simp add: gp tg Let_def first_map)
          qed
        next
          case True
          note c = this
          show ?thesis
          proof (cases "ct_key field")
            case None
            with c f l type many [OF l] \<open>path \<noteq> []\<close> show ?thesis by (simp add: gp tg Let_def)
          next
            case (Some key)
            have "get_path E s depth x (snd (partition_at CHR ''/'' ?p1)) =
                tree_get ?P depth (erase x) (snd (partition_at CHR ''/'' ?p1))"
              if "?p1 \<noteq> []" "key_from_str field (fst (partition_at CHR ''/'' ?p1)) = Inr v"
                "find_rev_by_key ?P l key v = Inr (i, x)" for v i x
              using ih1 [OF f c that(1) Some l that(2,3)] 1(3) child [of x] find_rev_Inr [OF that(3)]
              by simp
            with Some c f l type many [OF l] \<open>path \<noteq> []\<close> show ?thesis
              by (auto simp: gp tg Let_def rbind_def split: sum.splits)
          qed
        qed
      qed
    qed
  qed
qed

end
