(* ===== verification/ConfigRefine.thy ===== *)
theory ConfigRefine
  imports ConfigSpec
begin

text \<open>
  The operations on nodes, branches and revisions implement the specification on trees: each returns
  the revision whose content is the specified tree, or raises what the specification raises, and
  keeps the tree coherent.
\<close>

section \<open>Outcomes\<close>

definition err_ok :: "('d, 'c) cstore \<Rightarrow> ('d, 'c) cstore \<Rightarrow> 'd rev \<Rightarrow> bool" where
  "err_ok s s' r \<longleftrightarrow>
     length (cs_nodes s) \<le> length (cs_nodes s') \<and>
     (\<forall>m < length (cs_nodes s). m \<notin> set (map r_node (below (r_children r))) \<longrightarrow>
        cs_nodes s' ! m = cs_nodes s ! m)"

definition refines_op ::
  "'d proto \<Rightarrow> ('d, 'c) cstore \<Rightarrow> 'd rev \<Rightarrow> 'd rev res \<times> ('d, 'c) cstore \<Rightarrow> 'd tree res \<Rightarrow> bool" where
  "refines_op P s r out spec \<longleftrightarrow>
     (case out of
        (Inl e, s') \<Rightarrow> spec = Inl e \<and> err_ok s s' r
      | (Inr r', s') \<Rightarrow> spec = Inr (erase r') \<and> op_ok P s s' r r')"

lemma refines_op_simps:
  "refines_op P s r (Inl e, s') spec \<longleftrightarrow> spec = Inl e \<and> err_ok s s' r"
  "refines_op P s r (Inr r', s') spec \<longleftrightarrow> spec = Inr (erase r') \<and> op_ok P s s' r r'"
  by (simp_all add: refines_op_def)

lemma err_ok_refl [simp]: "err_ok s s r"
  by (simp add: err_ok_def)

lemma map_node_below_skel:
  "skel r = skel r' \<Longrightarrow> map r_node (below (r_children r)) = map r_node (below (r_children r'))"
  using nodes_of_skel [of r r'] by (simp add: nodes_of_def sub_revs_eq)

lemma refines_op_skel:
  "skel r = skel r' \<Longrightarrow> refines_op P s r out spec = refines_op P s r' out spec"
  by (auto simp: refines_op_def op_ok_def err_ok_def nodes_of_skel [of r r']
      map_node_below_skel [of r r'] dest: skel_data split: prod.splits sum.splits)

lemma child_nodes_below:
  assumes "od_get name (r_children r) = Some l" and "c \<in> set l"
  shows "set (nodes_of c) \<subseteq> set (map r_node (below (r_children r)))"
  using below_child [OF assms] by (auto simp: nodes_of_def)

lemma below_nodes_of: "set (map r_node (below (r_children c))) \<subseteq> set (nodes_of c)"
  by (auto simp: nodes_of_def sub_revs_eq)

lemma child_err:
  assumes "od_get name (r_children r) = Some l" and "c \<in> set l"
  shows "err_ok s s' c \<Longrightarrow> err_ok s s' r" and "op_ok P s s' c c' \<Longrightarrow> err_ok s s' r"
  using child_nodes_below [OF assms] below_nodes_of [of c]
  by (auto simp: err_ok_def op_ok_def subset_iff)

lemma replace_child_ok:
  assumes "coh P s r" and "rev_children r name = Inr l" and l: "l = xs @ c # ys"
    and "op_ok P s s1 c c'"
    and "branch_of s (r_node r) NoTx = Inr b" and "b_txid b = NoTx"
    and l': "l' = xs @ c' # ys'" "ys' = ys \<or> ys' = []"
  shows "\<exists>r' s2. replace_child E NoTx (r_node r) b r name l' changes s1 = (Inr r', s2) \<and>
    op_ok P s s2 r r' \<and> erase r' = put_children (erase r) name (map erase l')"
proof -
  have get: "od_get name (r_children r) = Some l" using assms(2) by (simp add: rev_children_Inr)
  have n: "r_node r < length (cs_nodes s)" using coh_head [OF assms(1)] by (simp add: head_def)
  have "c \<in> set l" by (simp add: l)
  then have "r_node r \<notin> set (nodes_of c)"
    using child_nodes_below [OF get] assms(1) by (auto simp: coh_def nodes_of_def sub_revs_eq [of r])
  with assms(4) n have same: "cs_nodes s1 ! r_node r = cs_nodes s ! r_node r"
    and len: "length (cs_nodes s) \<le> length (cs_nodes s1)" by (auto simp: op_ok_def)
  then have "branch_of s1 (r_node r) NoTx = Inr b" using assms(5) by (simp add: branch_of_def)
  from replace_child_commits [OF this assms(6), of E r name l' changes] n len
  obtain s2 where s2: "replace_child E NoTx (r_node r) b r name l' changes s1 =
      (Inr (Rev (cs_next s1) (r_node r) NoTx (r_data r) (od_set name l' (r_children r))
        (r_stored r)), s2)"
    and com: "commits s1 s2 (r_node r) (Rev (cs_next s1) (r_node r) NoTx (r_data r)
        (od_set name l' (r_children r)) (r_stored r))" by auto
  from op_ok_child [OF assms(1) get l assms(4) com _ _ _ l'] s2 show ?thesis
    by (simp add: put_children_erase)
qed

text \<open>A step down into one child and back: the shape shared by update, add and remove.\<close>

lemma refines_child:
  assumes "coh P s r" and "rev_children r name = Inr l" and l: "l = xs @ c # ys"
    and "refines_op P s c (cop s) spec"
    and "branch_of s (r_node r) NoTx = Inr b" and "b_txid b = NoTx" and "ys' = ys \<or> ys' = []"
  shows "refines_op P s r
     (st_bind cop (\<lambda>new. replace_child E NoTx (r_node r) b r name (xs @ new # ys') []) s)
     (rbind spec (\<lambda>new. Inr (put_children (erase r) name (map erase xs @ new # map erase ys'))))"
proof -
  have get: "od_get name (r_children r) = Some l" using assms(2) by (simp add: rev_children_Inr)
  obtain out s1 where out: "cop s = (out, s1)" by (cases "cop s")
  show ?thesis
  proof (cases out)
    case (Inl e)
    with out assms(4) child_err(1) [OF get, of c s s1] l show ?thesis
      by (simp add: refines_op_simps st_bind_def)
  next
    case (Inr c')
    with out assms(4) have ok: "op_ok P s s1 c c'" and spec: "spec = Inr (erase c')"
      by (simp_all add: refines_op_simps)
    from replace_child_ok [OF assms(1-3) ok assms(5,6) refl assms(7), of E "[]"] show ?thesis
      by (auto simp: out Inr spec st_bind_def refines_op_simps)
  qed
qed


section \<open>Update\<close>

lemma op_ok_refl: "coh P s r \<Longrightarrow> op_ok P s s r r"
  by (simp add: op_ok_def)

lemma commit_data_ok:
  assumes "coh P s r" and "commits s s' (r_node r) r'"
    and "r_node r' = r_node r" "r_children r' = r_children r" "p_cls P (r_data r') = p_cls P (r_data r)"
  shows "op_ok P s s' r r'"
proof -
  have d: "r_node r \<notin> set (map r_node (below (r_children r)))"
    using assms(1) by (simp add: coh_def nodes_of_def sub_revs_eq)
  have "head P s' x" if x: "x \<in> set (below (r_children r))" for x
  proof (rule head_cong)
    show "head P s x" using assms(1) x by (simp add: coh_def sub_revs_eq)
    have "r_node x \<in> set (map r_node (below (r_children r)))" using x by simp
    then have "r_node x \<noteq> r_node r" using d by metis
    then show "cs_nodes s' ! r_node x = cs_nodes s ! r_node x"
      using assms(2) by (simp add: commits_def)
  qed (use assms(2) in \<open>simp add: commits_def\<close>)
  moreover have "head P s' r'"
    using coh_head [OF assms(1)] assms(3,5) by (intro commits_head [OF assms(2)]) (auto simp: head_def)
  ultimately show ?thesis
    using assms by (auto simp: op_ok_def coh_def nodes_of_def sub_revs_eq commits_def)
qed

lemma tree_update_here:
  "lstrip_slash path = [] \<Longrightarrow>
   tree_update P data strict t path =
     rbind (if p_cls P data = p_cls P (t_data t) then Inr () else Inl ValueError) (\<lambda>_.
     rbind (test_no_children P (p_cls P (t_data t)) data) (\<lambda>_.
     rbind (if t_data t \<noteq> data \<and> strict then check_access_violation P data (t_data t) else Inr ())
       (\<lambda>_. Inr (Tree data (t_children t)))))"
  by (simp add: tree_update.simps [of P data strict t path] Let_def)

lemma lstrip_Nil [simp]: "lstrip_slash [] = []"
  by (simp add: lstrip_slash_def)

lemma erase_same: "erase r = Tree (r_data r) (map (map_prod id (map erase)) (r_children r))"
  by (cases r) simp

lemma do_update_refines:
  assumes "quiet E s" and "coh (e_proto E) s r"
    and "branch_of s (r_node r) NoTx = Inr b" and "b_txid b = NoTx" and "b_latest b = Some r"
  shows "refines_op (e_proto E) s r (do_update E NoTx data strict (r_node r) s)
    (tree_update (e_proto E) data strict (erase r) [])"
proof -
  let ?P = "e_proto E"
  have n: "r_node r < length (cs_nodes s)" and type: "n_type (cs_nodes s ! r_node r) = p_cls ?P (r_data r)"
    using coh_head [OF assms(2)] by (simp_all add: head_def)
  obtain y where hook: "run_hooks E (cs_nodes s ! r_node r) PRE_UPDATE (CData data) = Inr y"
    using assms(1) n by (fastforce simp: quiet_def)
  let ?r = "Rev (cs_next s) (r_node r) NoTx data (r_children r) (r_stored r)"
  obtain s1 where s1: "finalize E ?r s = (Inr ?r, s1)" by (simp add: finalize_def)
  then have nodes: "cs_nodes s1 = cs_nodes s" by (rule finalize_nodes)
  then have "branch_of s1 (r_node r) NoTx = Inr b" using assms(3) by (simp add: branch_of_def)
  then obtain s2 where s2: "make_latest E (r_node r) NoTx ?r [(POST_UPDATE, CData data)] s1 = (Inr (), s2)"
    and com: "commits s s2 (r_node r) ?r"
    using make_latest_commits [OF _ assms(4)] n commits_cong [OF nodes] nodes by metis
  note out = s1 s2 commit_data_ok [OF assms(2) com]
  show ?thesis
    using out op_ok_refl [OF assms(2)] assms(3-5) type hook
    by (auto simp: do_update_def tree_update_here
         st_bind_def latest_of_def update_data_def refines_op_simps rbind_def t_children_erase
         erase_same split: sum.splits)
qed

text \<open>An update that leaves the content of a tree as it is leaves its nodes as they are.\<close>

definition keeps_nodes :: "'d rev \<Rightarrow> 'd rev res \<times> ('d, 'c) cstore \<Rightarrow> bool" where
  "keeps_nodes r out \<longleftrightarrow> (\<forall>r' s'. out = (Inr r', s') \<longrightarrow> erase r' = erase r \<longrightarrow> skel r' = skel r)"

lemma skel_same: "skel r = Tree (r_data r, r_node r) (map (map_prod id (map skel)) (r_children r))"
  by (cases r) simp

lemma od_set_same: "od_get k d = Some v \<Longrightarrow> od_set k v d = d"
  by (induction d) (auto split: if_splits)

lemma do_update_keeps_nodes:
  assumes "branch_of s n NoTx = Inr b" and "b_latest b = Some r" and "r_node r = n"
  shows "keeps_nodes r (do_update E NoTx data strict n s)"
proof -
  have "r' = r \<or> r_node r' = n \<and> r_children r' = r_children r"
    if "do_update E NoTx data strict n s = (Inr r', s')" for r' s'
    using that assms
    by (auto simp: do_update_def res_simps latest_of_def update_data_def finalize_def
        split: if_splits)
  then show ?thesis
    using assms(3) by (auto simp: keeps_nodes_def erase_same skel_same)
qed

lemma put_child_keeps_nodes:
  assumes "rev_children r name = Inr (xs @ c # ys)"
    and "r_node r' = r_node r" "r_data r' = r_data r"
    and "r_children r' = od_set name (xs @ c' # ys') (r_children r)" and "ys' = ys \<or> ys' = []"
    and "erase c' = erase c \<Longrightarrow> skel c' = skel c"
  shows "erase r' = erase r \<Longrightarrow> skel r' = skel r"
proof -
  assume eq: "erase r' = erase r"
  have get: "od_get name (r_children r) = Some (xs @ c # ys)"
    using assms(1) by (simp add: rev_children_Inr)
  have "od_get name (t_children (erase r')) = od_get name (t_children (erase r))" using eq by simp
  then have "map erase (c' # ys') = map erase (c # ys)" by (simp add: t_children_erase assms(4) get)
  then have "map skel (xs @ c' # ys') = map skel (xs @ c # ys)"
    using assms(5,6) by auto
  then have "map (map_prod id (map skel)) (r_children r') = map (map_prod id (map skel)) (r_children r)"
    using od_set_map_prod [of name "map skel" "xs @ c' # ys'" "r_children r"] get
    by (simp add: assms(4) od_set_same)
  then show ?thesis by (simp only: skel_same [of r'] skel_same [of r] assms(2,3))
qed

lemma keeps_nodes_skel: "skel r = skel r' \<Longrightarrow> keeps_nodes r out = keeps_nodes r' out"
  by (simp add: keeps_nodes_def erase_skel)

lemma op_ok_coh_skel:
  assumes coh: "coh P s r" and get: "od_get name (r_children r) = Some l" and c: "c \<in> set l"
    and ok: "op_ok P s s1 c c'" and sk: "skel c' = skel c"
  shows "op_ok P s s1 r r"
proof -
  let ?n = "set (nodes_of c)"
  have sub: "?n \<subseteq> set (map r_node (below (r_children r)))"
    by (rule child_nodes_below [OF get c])
  have heads: "head P s1 x" if x: "x \<in> set (sub_revs r)" for x
  proof (cases "r_node x \<in> ?n")
    case True
    then obtain y where y: "y \<in> set (sub_revs c)" "r_node y = r_node x"
      by (auto simp: nodes_of_def)
    then have "y \<in> set (sub_revs r)"
      using below_child [OF get c] by (auto simp: sub_revs_eq [of r])
    with y(2) x coh have "y = x"
      by (auto simp: coh_def nodes_of_def distinct_map inj_on_def)
    moreover have "coh P s1 c" using ok coh_skel [OF sk, of P s1] by (simp add: op_ok_def)
    ultimately show ?thesis using y(1) by (simp add: coh_def)
  next
    case False
    have h: "head P s x" using coh x by (simp add: coh_def)
    then have "r_node x < length (cs_nodes s)" by (simp add: head_def)
    with False ok show ?thesis by (intro head_cong [OF h]) (auto simp: op_ok_def)
  qed
  then show ?thesis
    using coh ok sub by (auto simp: op_ok_def coh_def nodes_of_def [of r] sub_revs_eq [of r])
qed

lemma keeps_nodes_child:
  assumes "rev_children r name = Inr (xs @ c # ys)" and "keeps_nodes c (cop s)"
    and "b_txid b = NoTx" and "ys' = ys \<or> ys' = []"
  shows "keeps_nodes r (st_bind cop (\<lambda>new. replace_child E NoTx (r_node r) b r name (xs @ new # ys') []) s)"
proof -
  have "erase r' = erase r \<Longrightarrow> skel r' = skel r"
    if out: "cop s = (Inr c', s1)"
      "replace_child E NoTx (r_node r) b r name (xs @ c' # ys') [] s1 = (Inr r', s2)"
    for c' s1 r' s2
  proof (rule put_child_keeps_nodes [OF assms(1), where c' = c' and ys' = ys'])
    show "erase c' = erase c \<Longrightarrow> skel c' = skel c"
      using assms(2) out(1) by (simp add: keeps_nodes_def)
  qed (use out(2) assms(4) in \<open>auto simp: replace_child_def update_children_def finalize_def res_simps\<close>)
  then show ?thesis by (auto simp: keeps_nodes_def res_simps)
qed

lemma st_bind_res:
  "st_bind (st_res h) f s = (case h s of Inl e \<Rightarrow> (Inl e, s) | Inr x \<Rightarrow> f x s)"
  by (simp add: st_bind_def split: sum.split)

text \<open>The step of \<^verbatim>\<open>update\<close> into a keyed container.\<close>

lemma update_keyed_refines:
  fixes E :: "('d, 'c) cenv" and s :: "('d, 'c) cstore"
  assumes "coh P s r" and l: "rev_children r name = Inr l" and find: "find_rev_by_key P l key value = Inr (i, x)"
    and b: "branch_of s (r_node r) NoTx = Inr b" "b_txid b = NoTx" "b_latest b = Some r"
    and ref: "refines_op P s x (cop s) spec" and keep: "keeps_nodes x (cop s)"
    and det: "\<forall>new. spec = Inr new \<longrightarrow> tree_hash P new \<noteq> tree_hash P (erase x) \<or> new = erase x"
  defines "out \<equiv> st_bind cop (\<lambda>new.
      if r_hash P new = r_hash P x then st_res (\<lambda>s. latest_rev s (r_node r) NoTx)
      else if p_attr P (r_data new) key \<noteq> value then st_raise ValueError
      else replace_child E NoTx (r_node r) b r name (l[i := new]) []) s"
  shows "refines_op P s r out
     (rbind spec (\<lambda>new. if p_attr P (t_data new) key \<noteq> value then Inl ValueError
                        else Inr (put_children (erase r) name ((map erase l)[i := new])))) \<and>
    keeps_nodes r out"
proof -
  note x = find_rev_Inr [OF find]
  have get: "od_get name (r_children r) = Some l" using l by (simp add: rev_children_Inr)
  have split: "l = take i l @ x # drop (Suc i) l" using x id_take_nth_drop by metis
  have upd: "l[i := new] = take i l @ new # drop (Suc i) l" for new
    using x by (simp add: upd_conv_take_nth_drop)
  have upd': "(map erase l)[i := new] = map erase (take i l) @ new # map erase (drop (Suc i) l)" for new
    using x by (simp add: upd_conv_take_nth_drop take_map drop_map)
  obtain res s1 where cop: "cop s = (res, s1)" by (cases "cop s")
  show ?thesis
  proof (cases res)
    case (Inl e)
    with ref cop child_err(1) [OF get, of x s s1] x show ?thesis
      by (simp add: out_def st_bind_def refines_op_simps keeps_nodes_def)
  next
    case (Inr new)
    with ref cop have ok: "op_ok P s s1 x new" and spec: "spec = Inr (erase new)"
      by (simp_all add: refines_op_simps)
    show ?thesis
    proof (cases "r_hash P new = r_hash P x")
      case True
      with det spec have same: "erase new = erase x" by simp
      with keep cop Inr have sk: "skel new = skel x" by (simp add: keeps_nodes_def)
      have okr: "op_ok P s s1 r r" using op_ok_coh_skel [OF assms(1) get _ ok sk] x by simp
      have "r_node r \<notin> set (nodes_of x)"
        using child_nodes_below [OF get, of x] x assms(1)
        by (auto simp: coh_def nodes_of_def sub_revs_eq [of r])
      then have "cs_nodes s1 ! r_node r = cs_nodes s ! r_node r"
        using ok coh_head [OF assms(1)] by (simp add: op_ok_def head_def)
      then have "latest_rev s1 (r_node r) NoTx = Inr r"
        using b by (simp add: latest_rev_def branch_of_def latest_of_def)
      moreover have "put_children (erase r) name ((map erase l)[i := erase x]) = erase r"
      proof -
        have "l[i := x] = l" using x by auto
        then show ?thesis
          using put_children_erase [of r name "l[i := x]"] get
          by (simp add: od_set_same erase_same [of r, symmetric] flip: map_update)
      qed
      moreover have "p_attr P (r_data new) key = value" using x sk skel_data by metis
      ultimately show ?thesis
        using True okr x
        by (simp add: out_def cop Inr st_bind_def refines_op_simps keeps_nodes_def spec same)
    next
      case False
      show ?thesis
      proof (cases "p_attr P (r_data new) key = value")
        case True
        from replace_child_ok [OF assms(1) l split ok b(1,2) upd, of E "[]"]
        have "refines_op P s r out (Inr (put_children (erase r) name (map erase (l[i := new]))))"
          using True False by (auto simp: out_def cop Inr st_bind_def refines_op_simps)
        moreover have "keeps_nodes r out"
          using keeps_nodes_child [of r name "take i l" x "drop (Suc i) l" cop s b "drop (Suc i) l" E]
            l split keep b True False
          by (simp add: out_def cop Inr st_bind_def upd)
        ultimately show ?thesis using True by (simp add: spec map_update)
      next
        case attr: False
        with False child_err(2) [OF get _ ok] x show ?thesis
          by (simp add: out_def cop Inr st_bind_def refines_op_simps keeps_nodes_def spec)
      qed
    qed
  qed
qed

lemma node_update_refines_aux:
  assumes "quiet E s" and "coh (e_proto E) s r" and "detects (e_proto E) data strict (erase r) path"
  shows "refines_op (e_proto E) s r (node_update E NoTx data strict (r_node r) path s)
      (tree_update (e_proto E) data strict (erase r) path) \<and>
    keeps_nodes r (node_update E NoTx data strict (r_node r) path s)"
  using assms
proof (induction "length path" arbitrary: path r rule: less_induct)
  case less
  let ?P = "e_proto E"
  define p where "p = lstrip_slash path"
  define name where "name = fst (partition_at CHR ''/'' p)"
  define p1 where "p1 = snd (partition_at CHR ''/'' p)"
  define p2 where "p2 = snd (partition_at CHR ''/'' p1)"
  obtain b r0 where b: "branch_of s (r_node r) NoTx = Inr b" "b_latest b = Some r0" "skel r0 = skel r"
    "b_txid b = NoTx" "assure_branch NoTx (r_node r) s = (Inr b, s)"
    using coh_latest [OF less.prems(2)] by blast
  have r0: "coh ?P s r0" "r_node r0 = r_node r" "erase r0 = erase r"
    using coh_skel [OF b(3) [symmetric] less.prems(2)] skel_data [OF b(3)] b(3) by (auto simp: erase_skel)
  have type: "n_type (cs_nodes s ! r_node r) = p_cls ?P (r_data r0)"
    using coh_head [OF r0(1)] r0(2) by (simp add: head_def)
  note nu = node_update.simps [of E NoTx data strict "r_node r" path, folded p_def]
    and tu = tree_update.simps [of ?P data strict "erase r0" path, folded p_def]
    and de = detects.simps [of ?P data strict "erase r0" path, folded p_def]
  note defs = Let_def name_def [symmetric] p1_def [symmetric] p2_def [symmetric]
  let ?out = "node_update E NoTx data strict (r_node r) path s"
  have "refines_op ?P s r0 ?out (tree_update ?P data strict (erase r0) path) \<and> keeps_nodes r0 ?out"
  proof (cases "p = []")
    case True
    have "?out = do_update E NoTx data strict (r_node r) s"
      using b(5) True by (simp add: nu st_bind_def)
    moreover have "tree_update ?P data strict (erase r0) path = tree_update ?P data strict (erase r0) []"
      using True by (simp add: tree_update_here p_def)
    ultimately show ?thesis
      using do_update_refines [OF less.prems(1) r0(1), of b data strict] do_update_keeps_nodes [of s "r_node r" b r0]
        b r0(2) by simp
  next
    case False
    have lens: "length p1 < length path" "length p2 < length path"
      using path_step_less [of path] False unfolding p1_def p2_def p_def by blast+
    show ?thesis
    proof (cases "field_of ?P (p_cls ?P (r_data r0)) name")
      case (Inl e)
      then show ?thesis using False b type by (simp add: nu tu defs st_bind_def latest_of_def refines_op_simps keeps_nodes_def)
    next
      case (Inr field)
      note f = Inr
      show ?thesis
      proof (cases "ct_container field")
        case False
        note c = this
        show ?thesis
        proof (cases "rbind (rev_children r0 name) first")
          case (Inl e)
          then show ?thesis using \<open>p \<noteq> []\<close> b type f c
            by (auto simp: nu tu defs st_bind_def latest_of_def refines_op_simps keeps_nodes_def rbind_def
                first_map split: sum.splits)
        next
          case (Inr x)
          then obtain l where l: "rev_children r0 name = Inr l" "first l = Inr x" by (auto simp: res_simps)
          then obtain rest where lx: "l = x # rest" by (auto dest: first_Inr)
          have out: "?out = st_bind (node_update E NoTx data strict (r_node x) p1)
              (\<lambda>new. replace_child E NoTx (r_node r0) b r0 name [new] []) s"
            using \<open>p \<noteq> []\<close> b type f c l r0(2) by (simp add: nu defs st_bind_def latest_of_def)
          have "coh ?P s x" using coh_rev_child [OF r0(1) l(1)] lx by simp
          moreover have "detects ?P data strict (erase x) p1"
            using less.prems(3) \<open>p \<noteq> []\<close> f c l by (simp add: r0(3) [symmetric] de defs first_map)
          ultimately have ih: "refines_op ?P s x (node_update E NoTx data strict (r_node x) p1 s)
              (tree_update ?P data strict (erase x) p1)"
            "keeps_nodes x (node_update E NoTx data strict (r_node x) p1 s)"
            using less.hyps [OF lens(1) less.prems(1), of x] by simp_all
          have spec: "tree_update ?P data strict (erase r0) path =
              rbind (tree_update ?P data strict (erase x) p1) (\<lambda>new. Inr (put_children (erase r0) name [new]))"
            using \<open>p \<noteq> []\<close> f c l by (simp add: tu defs first_map)
          show ?thesis
            unfolding out spec
            using refines_child [OF r0(1) l(1), where xs = "[]" and ys' = "[]" and c = x and
                cop = "node_update E NoTx data strict (r_node x) p1", OF _ ih(1)]
              keeps_nodes_child [where r = r0 and xs = "[]" and ys' = "[]" and
                cop = "node_update E NoTx data strict (r_node x) p1", OF _ ih(2)] l(1) lx b(1,4) r0(2)
            by simp
        qed
      next
        case True
        note c = this
        show ?thesis
        proof (cases "p1 = [] \<or> ct_key field = None")
          case True
          then show ?thesis using \<open>p \<noteq> []\<close> b type f c
            by (auto simp: nu tu defs st_bind_def latest_of_def refines_op_simps keeps_nodes_def
                split: option.splits)
        next
          case False
          then obtain key where p1: "p1 \<noteq> []" and key: "ct_key field = Some key" by auto
          define kv where "kv = key_from_str field (fst (partition_at CHR ''/'' p1))"
          show ?thesis
          proof (cases "rbind kv (\<lambda>value. rbind (rev_children r0 name) (\<lambda>l. find_rev_by_key ?P l key value))")
            case (Inl e)
            then show ?thesis using \<open>p \<noteq> []\<close> b type f c p1 key
              by (auto simp: nu tu defs st_bind_def latest_of_def refines_op_simps keeps_nodes_def
                  rbind_def kv_def split: sum.splits)
          next
            case (Inr ix)
            then obtain v l i x where k: "kv = Inr v" "rev_children r0 name = Inr l"
              "find_rev_by_key ?P l key v = Inr (i, x)"
              by (cases ix) (auto simp: res_simps)
            note x = find_rev_Inr [OF k(3)]
            have "coh ?P s x" using coh_rev_child [OF r0(1) k(2)] x by simp
            moreover have det: "detects ?P data strict (erase x) p2"
              "\<forall>new. tree_update ?P data strict (erase x) p2 = Inr new \<longrightarrow>
                 tree_hash ?P new \<noteq> tree_hash ?P (erase x) \<or> new = erase x"
              using less.prems(3) \<open>p \<noteq> []\<close> f c key k
              by (auto simp: r0(3) [symmetric] de defs kv_def [symmetric] split: sum.splits)
            ultimately have ih: "refines_op ?P s x (node_update E NoTx data strict (r_node x) p2 s)
                (tree_update ?P data strict (erase x) p2)"
              "keeps_nodes x (node_update E NoTx data strict (r_node x) p2 s)"
              using less.hyps [OF lens(2) less.prems(1), of x] by simp_all
            from update_keyed_refines [where cop = "node_update E NoTx data strict (r_node x) p2" and E = E,
                OF r0(1) k(2,3) b(1) [folded r0(2)] b(4,2) ih det(2), unfolded r0(2)]
            show ?thesis
              using \<open>p \<noteq> []\<close> b type f c p1 key k r0(2)
              by (simp add: nu tu defs kv_def [symmetric] st_bind_res latest_of_def
                  st_bind_eval(1) [where m = "assure_branch NoTx (r_node r)", OF b(5)] cong: if_cong)
          qed
        qed
      qed
    qed
  qed
  then show ?case
    unfolding refines_op_skel [OF b(3)] keeps_nodes_skel [OF b(3)] r0(3) .
qed

end
