(* ===== verification/ConfigGrow.thy ===== *)
theory ConfigGrow
  imports ConfigRefine
begin

text \<open>
  Adding and removing: the nodes made for a message form a coherent tree of fresh nodes whose content
  is the specified split of the message, and \<^verbatim>\<open>add\<close> and \<^verbatim>\<open>remove\<close> implement the
  specification.
\<close>

section \<open>New nodes\<close>

definition ext :: "('d, 'c) cstore \<Rightarrow> ('d, 'c) cstore \<Rightarrow> bool" where
  "ext s s' \<longleftrightarrow>
     length (cs_nodes s) \<le> length (cs_nodes s') \<and>
     (\<forall>m < length (cs_nodes s). cs_nodes s' ! m = cs_nodes s ! m)"

definition grown :: "'d proto \<Rightarrow> ('d, 'c) cstore \<Rightarrow> ('d, 'c) cstore \<Rightarrow> 'd rev list \<Rightarrow> bool" where
  "grown P s s' R \<longleftrightarrow>
     ext s s' \<and> (\<forall>x \<in> set R. head P s' x \<and> length (cs_nodes s) \<le> r_node x) \<and>
     distinct (map r_node R)"

lemma ext_refl [simp]: "ext s s"
  by (simp add: ext_def)

lemma ext_trans: "ext s t \<Longrightarrow> ext t u \<Longrightarrow> ext s u"
  by (auto simp: ext_def)

lemma ext_head: "ext s s' \<Longrightarrow> head P s x \<Longrightarrow> head P s' x"
  by (auto simp: ext_def head_def)

lemma grown_ext: "grown P s s' R \<Longrightarrow> ext s s'"
  by (simp add: grown_def)

lemma grown_Nil [simp]: "grown P s s' [] \<longleftrightarrow> ext s s'"
  by (simp add: grown_def)

lemma grown_append:
  assumes "grown P s t R" and "grown P t u R'"
  shows "grown P s u (R @ R')"
proof -
  have ex: "ext s t" "ext t u" using assms by (simp_all add: grown_def)
  have bound: "\<forall>x \<in> set R. r_node x < length (cs_nodes t)"
    using assms(1) by (simp add: grown_def head_def)
  have "set (map r_node R) \<inter> set (map r_node R') = {}"
    using bound assms(2) by (fastforce simp: grown_def)
  moreover have "\<forall>x \<in> set R. head P u x" using assms(1) ext_head [OF ex(2)] by (simp add: grown_def)
  moreover have "\<forall>x \<in> set R'. head P u x \<and> length (cs_nodes s) \<le> r_node x"
    using assms(2) ex(1) by (auto simp: grown_def ext_def)
  ultimately show ?thesis
    using assms ext_trans [OF ex] by (auto simp: grown_def)
qed

text \<open>An operation that makes new nodes for a message, and the tree it should make.\<close>

definition makes ::
  "'d proto \<Rightarrow> ('r \<Rightarrow> 'd rev list) \<Rightarrow> ('r \<Rightarrow> 't) \<Rightarrow> (('d, 'c) cstore, 'r) st \<Rightarrow> 't res \<Rightarrow> bool" where
  "makes P revs af mk spec \<longleftrightarrow>
     (\<forall>s. case mk s of
            (Inl e, s') \<Rightarrow> spec = Inl e \<and> ext s s'
          | (Inr r, s') \<Rightarrow> spec = Inr (af r) \<and> grown P s s' (revs r))"

abbreviation makes_list ::
  "'d proto \<Rightarrow> (('d, 'c) cstore, 'd rev list) st \<Rightarrow> 'd tree list res \<Rightarrow> bool" where
  "makes_list P \<equiv> makes P (\<lambda>rs. concat (map sub_revs rs)) (map erase)"

lemma makes_ret: "ext s s \<Longrightarrow> revs r = [] \<Longrightarrow> makes P revs af (st_ret r) (Inr (af r))"
  by (simp add: makes_def)

lemma makes_raise: "makes P revs af (st_raise e) (Inl e)"
  by (simp add: makes_def)

lemma makes_bind_list:
  assumes "makes P sub_revs erase m spec"
    and "\<And>t. spec = Inr t \<Longrightarrow> makes_list P ms specs"
  shows "makes_list P (st_bind m (\<lambda>r. st_bind ms (\<lambda>rs. st_ret (r # rs))))
    (rbind spec (\<lambda>t. rbind specs (\<lambda>ts. Inr (t # ts))))"
  unfolding makes_def
proof
  fix s
  obtain r1 s1 where m: "m s = (r1, s1)" by (cases "m s")
  obtain r2 s2 where ms: "ms s1 = (r2, s2)" by (cases "ms s1")
  show "case st_bind m (\<lambda>r. st_bind ms (\<lambda>rs. st_ret (r # rs))) s of
      (Inl e, s') \<Rightarrow> rbind spec (\<lambda>t. rbind specs (\<lambda>ts. Inr (t # ts))) = Inl e \<and> ext s s'
    | (Inr r, s') \<Rightarrow> rbind spec (\<lambda>t. rbind specs (\<lambda>ts. Inr (t # ts))) = Inr (map erase r) \<and>
        grown P s s' (concat (map sub_revs r))"
  proof (cases r1)
    case (Inl e)
    with assms(1) m show ?thesis by (auto simp: makes_def st_bind_def dest: spec [of _ s])
  next
    case (Inr r)
    with assms(1) m have 1: "spec = Inr (erase r)" "grown P s s1 (sub_revs r)"
      by (auto simp: makes_def dest: spec [of _ s])
    with assms(2) ms have "case r2 of Inl e \<Rightarrow> specs = Inl e \<and> ext s1 s2
        | Inr rs \<Rightarrow> specs = Inr (map erase rs) \<and> grown P s1 s2 (concat (map sub_revs rs))"
      by (auto simp: makes_def split: sum.splits dest: spec [of _ s1])
    with 1 m ms Inr show ?thesis
      by (cases r2) (auto simp: st_bind_def intro: ext_trans grown_ext grown_append)
  qed
qed

lemma makes_if_raise:
  assumes "makes P sub_revs erase m spec" and "\<And>t. spec = Inr t \<Longrightarrow> makes_list P ms specs"
  shows "makes_list P
    (st_bind m (\<lambda>r. if c then st_raise e else st_bind ms (\<lambda>rs. st_ret (r # rs))))
    (rbind spec (\<lambda>t. if c then Inl e else rbind specs (\<lambda>ts. Inr (t # ts))))"
proof (cases c)
  case True
  with assms(1) show ?thesis
    by (auto simp: makes_def st_bind_def grown_def split: prod.splits sum.splits)
next
  case False
  with makes_bind_list [OF assms] show ?thesis by simp
qed

lemma makes_init_keyed:
  assumes "\<And>v. makes P sub_revs erase (mk v) (tmk v)"
  shows "makes_list P (init_keyed mk attr vs seen) (split_keyed tmk attr vs seen)"
proof (induction vs arbitrary: seen)
  case Nil
  then show ?case by (simp add: makes_def)
next
  case (Cons v vs)
  then show ?case using makes_if_raise [OF assms, of v] by simp
qed

lemma makes_map:
  assumes "\<And>v. makes P sub_revs erase (mk v) (tmk v)"
  shows "makes_list P (st_map mk vs) (py_map tmk vs)"
proof (induction vs)
  case Nil
  then show ?case by (simp add: makes_def)
next
  case (Cons v vs)
  have "py_map tmk (v # vs) = rbind (tmk v) (\<lambda>t. rbind (py_map tmk vs) (\<lambda>ts. Inr (t # ts)))"
    by (simp add: rbind_def split: sum.splits)
  with makes_bind_list [OF assms Cons.IH, of v] show ?case by simp
qed

text \<open>Initialising the fields of a node, one after the other.\<close>

definition clear_keeps_class :: "'d proto \<Rightarrow> bool" where
  "clear_keeps_class P \<longleftrightarrow> (\<forall>name d. p_cls P (p_clear P name d) = p_cls P d)"

lemma below_append: "below (ch @ ch') = below ch @ below ch'"
  by (simp add: below_def)

lemma init_fields_ok:
  assumes mk: "\<And>v. makes P sub_revs erase (mk v) (tmk v)" and cls: "clear_keeps_class P"
    and "grown P s0 s (below ch)" and "distinct (map fst fs)" and "fst ` set fs \<inter> fst ` set ch = {}"
  shows "case st_for (init_field P mk) fs (ch, d) s of
      (Inl e, s') \<Rightarrow>
        py_for (split_field P tmk) fs (map (map_prod id (map erase)) ch, d) = Inl e \<and> ext s0 s'
    | (Inr (ch', d'), s') \<Rightarrow>
        py_for (split_field P tmk) fs (map (map_prod id (map erase)) ch, d) =
          Inr (map (map_prod id (map erase)) ch', d') \<and>
        grown P s0 s' (below ch') \<and> p_cls P d' = p_cls P d"
  using assms(3-5)
proof (induction fs arbitrary: ch d s)
  case Nil
  then show ?case by simp
next
  case (Cons nf fs)
  obtain name field where nf: "nf = (name, field)" by (cases nf)
  define one where "one = (case (ct_container field, ct_key field) of
      (True, Some key) \<Rightarrow> init_keyed mk (\<lambda>v. p_attr P v key) (p_children P d name) []
    | _ \<Rightarrow> st_map mk (p_children P d name))"
  define tone where "tone = (case (ct_container field, ct_key field) of
      (True, Some key) \<Rightarrow> split_keyed tmk (\<lambda>v. p_attr P v key) (p_children P d name) []
    | _ \<Rightarrow> py_map tmk (p_children P d name))"
  have ok: "makes_list P one tone"
    unfolding one_def tone_def
    using makes_init_keyed [OF mk] makes_map [OF mk] by (auto split: bool.splits option.splits)
  obtain res s1 where one: "one s = (res, s1)" by (cases "one s")
  have f: "init_field P mk nf (ch, d) = st_bind one (\<lambda>lst. st_ret (od_set name lst ch, p_clear P name d))"
    by (simp add: init_field_def nf one_def)
  have tf: "split_field P tmk nf (tch, d) = rbind tone (\<lambda>lst. Inr (od_set name lst tch, p_clear P name d))" for tch
    by (simp add: split_field_def nf tone_def)
  have new: "name \<notin> fst ` set ch" using Cons.prems(3) by (auto simp: nf)
  show ?case
  proof (cases res)
    case (Inl e)
    with ok one have "tone = Inl e" "ext s s1" by (auto simp: makes_def dest: spec [of _ s])
    with Inl one Cons.prems(1) show ?thesis
      by (auto simp: f tf st_bind_def intro: ext_trans grown_ext)
  next
    case (Inr lst)
    with ok one have t: "tone = Inr (map erase lst)" and g: "grown P s s1 (concat (map sub_revs lst))"
      by (auto simp: makes_def dest: spec [of _ s])
    define ch1 where "ch1 = od_set name lst ch"
    have ch1: "ch1 = ch @ [(name, lst)]" using new by (simp add: ch1_def od_set_distinct_append)
    have "grown P s0 s1 (below ch1)" using grown_append [OF Cons.prems(1) g] by (simp add: ch1 below_append)
    moreover have "fst ` set fs \<inter> fst ` set ch1 = {}" using Cons.prems(2,3) by (auto simp: ch1 nf)
    ultimately have ih: "case st_for (init_field P mk) fs (ch1, p_clear P name d) s1 of
      (Inl e, s') \<Rightarrow>
        py_for (split_field P tmk) fs (map (map_prod id (map erase)) ch1, p_clear P name d) = Inl e \<and> ext s0 s'
    | (Inr (ch', d'), s') \<Rightarrow>
        py_for (split_field P tmk) fs (map (map_prod id (map erase)) ch1, p_clear P name d) =
          Inr (map (map_prod id (map erase)) ch', d') \<and>
        grown P s0 s' (below ch') \<and> p_cls P d' = p_cls P (p_clear P name d)"
      using Cons.prems(2) by (intro Cons.IH) auto
    have eq1: "st_for (init_field P mk) (nf # fs) (ch, d) s = st_for (init_field P mk) fs (ch1, p_clear P name d) s1"
      using one Inr by (simp add: f st_bind_def ch1_def)
    have eq2: "py_for (split_field P tmk) (nf # fs) (map (map_prod id (map erase)) ch, d) =
        py_for (split_field P tmk) fs (map (map_prod id (map erase)) ch1, p_clear P name d)"
      by (simp add: tf t ch1_def od_set_map_prod [where f = "map erase"])
    have "p_cls P (p_clear P name d) = p_cls P d" using cls by (simp add: clear_keeps_class_def)
    with ih show ?thesis unfolding eq1 eq2 by (simp only:)
  qed
qed

lemma children_fields_wf: "fields_of P cls = Inr fs \<Longrightarrow> distinct (map fst fs)"
proof -
  assume "fields_of P cls = Inr fs"
  then have "od_wf fs"
    unfolding fields_of_def children_fields_def
    by (rule py_for_invariant [where P = od_wf]) (auto simp: res_simps split: option.splits)
  then show ?thesis by (simp add: od_wf_def)
qed

lemma finish_node:
  assumes s1: "ext s s1" "length (cs_nodes s1) = Suc (length (cs_nodes s))"
      "n_type (cs_nodes s1 ! length (cs_nodes s)) = cls"
    and g: "grown P s1 s2 (below ch)" and cls: "p_cls P d = cls"
  shows "\<exists>r s5. (
    st_bind (mkrev E (length (cs_nodes s)) NoTx d ch) (\<lambda>r.
    st_bind (st_modify (add_branch (length (cs_nodes s)) NoTx (empty_branch NoTx None))) (\<lambda>_.
    st_bind (make_latest E (length (cs_nodes s)) NoTx r []) (\<lambda>_. st_ret r)))) s2 = (Inr r, s5) \<and>
    grown P s s5 (sub_revs r) \<and> r_data r = d \<and> r_children r = ch"
proof -
  let ?n = "length (cs_nodes s)"
  obtain r s3 where r: "mkrev E ?n NoTx d ch s2 = (Inr r, s3)" "cs_nodes s3 = cs_nodes s2"
    "r_node r = ?n" "r_data r = d" "r_children r = ch"
    by (simp add: mkrev_def finalize_def)
  define s4 where "s4 = add_branch ?n NoTx (empty_branch NoTx None) s3"
  have s2: "ext s1 s2" using g by (rule grown_ext)
  then have n: "?n < length (cs_nodes s3)" using s1(2) r(2) by (simp add: ext_def)
  then have s4: "branch_of s4 ?n NoTx = Inr (empty_branch NoTx None)"
    "length (cs_nodes s4) = length (cs_nodes s2)" "\<forall>m. m \<noteq> ?n \<longrightarrow> cs_nodes s4 ! m = cs_nodes s2 ! m"
    "n_type (cs_nodes s4 ! ?n) = n_type (cs_nodes s2 ! ?n)"
    using r(2) by (simp_all add: s4_def add_branch_def set_node_def branch_of_def)
  obtain s5 where s5: "make_latest E ?n NoTx r [] s4 = (Inr (), s5)" and com: "commits s4 s5 ?n r"
    using make_latest_commits [OF s4(1), of E r "[]"] n s4(2) r(2) by (auto simp: empty_branch_def)
  have same: "cs_nodes s5 ! m = cs_nodes s2 ! m" if "m \<noteq> ?n" for m
    using com s4(3) that by (simp add: commits_def)
  have len: "length (cs_nodes s5) = length (cs_nodes s2)" using com s4(2) by (simp add: commits_def)
  have "n_type (cs_nodes s2 ! ?n) = cls" using s2 s1(2,3) by (simp add: ext_def)
  then have h: "head P s5 r" using com r cls s4(4) by (intro commits_head [OF com]) auto
  have b: "head P s5 x \<and> ?n < r_node x" if x: "x \<in> set (below ch)" for x
  proof -
    have hx: "head P s2 x" and lt: "?n < r_node x"
      using x g s1(2) by (auto simp: grown_def)
    then show ?thesis using same [of "r_node x"] len by (auto intro: head_cong [OF hx])
  qed
  have "ext s s5" using s1(1,2) s2 same len by (auto simp: ext_def)
  moreover have "distinct (map r_node (below ch))" using g by (simp add: grown_def)
  ultimately have "grown P s s5 (sub_revs r)"
    unfolding grown_def using h b by (fastforce simp: sub_revs_eq [of r] r)
  then show ?thesis using r s5 by (auto simp: st_bind_def s4_def)
qed

lemma mknode_makes:
  fixes E :: "('d, 'c) cenv"
  assumes "clear_keeps_class (e_proto E)"
  shows "makes (e_proto E) sub_revs erase (mknode E fuel auto data) (tree_of (e_proto E) fuel data)"
proof (induction fuel arbitrary: auto data)
  case 0
  then show ?case by (simp add: makes_def)
next
  case (Suc fuel)
  let ?P = "e_proto E"
  show ?case
    unfolding makes_def
  proof
    fix s :: "('d, 'c) cstore"
    let ?n = "length (cs_nodes s)" and ?cls = "p_cls ?P data"
    define s1 where "s1 = s\<lparr>cs_nodes := cs_nodes s @ [\<lparr>n_type = ?cls, n_branches = [], n_tags = [],
        n_proxy = None, n_auto_prune = auto\<rparr>]\<rparr>"
    have alloc: "alloc_node ?cls auto s = (Inr ?n, s1)" by (simp add: alloc_node_def s1_def)
    have s1: "ext s s1" "length (cs_nodes s1) = Suc ?n" "n_type (cs_nodes s1 ! ?n) = ?cls"
      by (simp_all add: s1_def ext_def nth_append)
    show "case mknode E (Suc fuel) auto data s of
        (Inl e, s') \<Rightarrow> tree_of ?P (Suc fuel) data = Inl e \<and> ext s s'
      | (Inr r, s') \<Rightarrow> tree_of ?P (Suc fuel) data = Inr (erase r) \<and> grown ?P s s' (sub_revs r)"
    proof (cases "fields_of ?P ?cls")
      case (Inl e)
      with s1 show ?thesis by (simp add: st_bind_eval(1) [where m = "alloc_node ?cls auto", OF alloc] st_bind_res)
    next
      case (Inr fs)
      note fs = Inr
      let ?loop = "st_for (init_field ?P (mknode E fuel True)) fs ([], data)"
      have loop: "case ?loop s1 of
          (Inl e, s') \<Rightarrow> py_for (split_field ?P (tree_of ?P fuel)) fs ([], data) = Inl e \<and> ext s1 s'
        | (Inr (ch', d'), s') \<Rightarrow>
            py_for (split_field ?P (tree_of ?P fuel)) fs ([], data) =
              Inr (map (map_prod id (map erase)) ch', d') \<and>
            grown ?P s1 s' (below ch') \<and> p_cls ?P d' = ?cls"
        using init_fields_ok [where mk = "mknode E fuel True" and tmk = "tree_of ?P fuel" and ?s0.0 = s1
            and s = s1 and ch = "[]" and d = data and fs = fs, OF Suc.IH assms, unfolded list.map]
          children_fields_wf [OF fs] by simp
      have mk: "mknode E (Suc fuel) auto data s = st_bind ?loop (\<lambda>(children, local).
          st_bind (mkrev E ?n NoTx local children) (\<lambda>r.
          st_bind (st_modify (add_branch ?n NoTx (empty_branch NoTx None))) (\<lambda>_.
          st_bind (make_latest E ?n NoTx r []) (\<lambda>_. st_ret r)))) s1"
        using fs by (simp add: st_bind_eval(1) [where m = "alloc_node ?cls auto", OF alloc] st_bind_res)
      obtain res s2 where l: "?loop s1 = (res, s2)" by (cases "?loop s1")
      show ?thesis
      proof (cases res)
        case (Inl e)
        have out: "mknode E (Suc fuel) auto data s = (Inl e, s2)"
          unfolding mk by (rule st_bind_eval(2)) (use l Inl in simp)
        have "py_for (split_field ?P (tree_of ?P fuel)) fs ([], data) = Inl e" "ext s1 s2"
          using loop l Inl by auto
        then show ?thesis using fs s1(1) unfolding out by (auto intro: ext_trans)
      next
        case (Inr cd)
        obtain ch d where cd: "cd = (ch, d)" by (cases cd)
        from loop l Inr cd have spec: "py_for (split_field ?P (tree_of ?P fuel)) fs ([], data) =
              Inr (map (map_prod id (map erase)) ch, d)"
          and g: "grown ?P s1 s2 (below ch)" and cls: "p_cls ?P d = ?cls" by auto
        from finish_node [OF s1 g cls, of E] obtain r s5 where r: "(
            st_bind (mkrev E ?n NoTx d ch) (\<lambda>r.
            st_bind (st_modify (add_branch ?n NoTx (empty_branch NoTx None))) (\<lambda>_.
            st_bind (make_latest E ?n NoTx r []) (\<lambda>_. st_ret r)))) s2 = (Inr r, s5)"
          "grown ?P s s5 (sub_revs r)" "r_data r = d" "r_children r = ch" by blast
        have out: "mknode E (Suc fuel) auto data s = (Inr r, s5)"
          unfolding mk using r(1) by (simp add: st_bind_eval(1) [where m = ?loop, OF l [unfolded Inr cd]])
        with r have "grown ?P s s5 (sub_revs r)" by blast
        then show ?thesis using fs spec by (simp only: out tree_of.simps) (simp add: erase_same [of r] r(3,4))
      qed
    qed
  qed
qed


section \<open>Add\<close>

lemma replace_list_ok:
  assumes "coh P s r" and "rev_children r name = Inr l"
    and b: "branch_of s (r_node r) NoTx = Inr b" "b_txid b = NoTx"
    and ex: "ext s s1" and heads: "\<forall>x \<in> set (concat (map sub_revs l')). head P s1 x"
    and "distinct (list_nodes l')"
    and "\<forall>m \<in> set (list_nodes l'). m \<in> set (list_nodes l) \<or> length (cs_nodes s) \<le> m"
  shows "\<exists>r' s2. replace_child E NoTx (r_node r) b r name l' changes s1 = (Inr r', s2) \<and>
    op_ok P s s2 r r' \<and> erase r' = put_children (erase r) name (map erase l')"
proof -
  have get: "od_get name (r_children r) = Some l" using assms(2) by (simp add: rev_children_Inr)
  have n: "r_node r < length (cs_nodes s)" using coh_head [OF assms(1)] by (simp add: head_def)
  then have "branch_of s1 (r_node r) NoTx = Inr b" "r_node r < length (cs_nodes s1)"
    using b(1) ex by (auto simp: branch_of_def ext_def)
  from replace_child_commits [OF this(1) b(2) this(2), of E r name l' changes]
  obtain s2 where s2: "replace_child E NoTx (r_node r) b r name l' changes s1 =
      (Inr (Rev (cs_next s1) (r_node r) NoTx (r_data r) (od_set name l' (r_children r))
        (r_stored r)), s2)"
    and com: "commits s1 s2 (r_node r) (Rev (cs_next s1) (r_node r) NoTx (r_data r)
        (od_set name l' (r_children r)) (r_stored r))" by auto
  have "op_ok P s s2 r (Rev (cs_next s1) (r_node r) NoTx (r_data r)
        (od_set name l' (r_children r)) (r_stored r))"
    by (rule replace_coh [OF assms(1) get _ _ heads assms(7,8) com]) (use ex in \<open>auto simp: ext_def\<close>)
  with s2 show ?thesis by (simp add: put_children_erase)
qed

lemma coh_list:
  assumes "coh P s r" and "rev_children r name = Inr l"
  shows "\<forall>x \<in> set (concat (map sub_revs l)). head P s x" and "distinct (list_nodes l)"
    and "\<forall>m \<in> set (list_nodes l). m < length (cs_nodes s)"
proof -
  have get: "od_get name (r_children r) = Some l" using assms(2) by (simp add: rev_children_Inr)
  obtain pre post where b: "below (r_children r) = pre @ concat (map sub_revs l) @ post"
    using below_od_set [OF get] by blast
  show "\<forall>x \<in> set (concat (map sub_revs l)). head P s x" "distinct (list_nodes l)"
    "\<forall>m \<in> set (list_nodes l). m < length (cs_nodes s)"
    using assms(1) by (auto simp: coh_def nodes_of_def sub_revs_eq [of r] b list_nodes_def head_def)
qed

text \<open>The step that appends a new child.\<close>

lemma add_here_refines:
  assumes "clear_keeps_class (e_proto E)" and "coh (e_proto E) s r" and l: "rev_children r name = Inr l"
    and b: "branch_of s (r_node r) NoTx = Inr b" "b_txid b = NoTx"
  shows "refines_op (e_proto E) s r
    (st_bind (mknode E fuel True data)
       (\<lambda>child. replace_child E NoTx (r_node r) b r name (l @ [child]) changes) s)
    (rbind (tree_of (e_proto E) fuel data)
       (\<lambda>child. Inr (put_children (erase r) name (map erase l @ [child]))))"
proof -
  let ?P = "e_proto E"
  obtain res s1 where mk: "mknode E fuel True data s = (res, s1)" by (cases "mknode E fuel True data s")
  note ok = mknode_makes [OF assms(1), of fuel True data, unfolded makes_def, rule_format, of s, unfolded mk]
  show ?thesis
  proof (cases res)
    case (Inl e)
    with ok mk show ?thesis by (auto simp: st_bind_def refines_op_simps err_ok_def ext_def)
  next
    case (Inr child)
    with ok have spec: "tree_of ?P fuel data = Inr (erase child)" and g: "grown ?P s s1 (sub_revs child)"
      by simp_all
    note old = coh_list [OF assms(2) l]
    have "\<exists>r' s2. replace_child E NoTx (r_node r) b r name (l @ [child]) changes s1 = (Inr r', s2) \<and>
        op_ok ?P s s2 r r' \<and> erase r' = put_children (erase r) name (map erase (l @ [child]))"
    proof (rule replace_list_ok [OF assms(2) l b grown_ext [OF g]])
      show "\<forall>x\<in>set (concat (map sub_revs (l @ [child]))). head ?P s1 x"
        using old(1) g ext_head [OF grown_ext [OF g]] by (auto simp: grown_def)
      have "set (list_nodes l) \<inter> set (nodes_of child) = {}"
        using old(3) g by (fastforce simp: grown_def nodes_of_def)
      then show "distinct (list_nodes (l @ [child]))"
        using old(2) g by (auto simp: list_nodes_def nodes_of_def grown_def)
      show "\<forall>m\<in>set (list_nodes (l @ [child])). m \<in> set (list_nodes l) \<or> length (cs_nodes s) \<le> m"
        using g by (auto simp: list_nodes_def grown_def)
    qed
    then show ?thesis using Inr mk spec by (auto simp: st_bind_def refines_op_simps)
  qed
qed

text \<open>The step of \<^verbatim>\<open>add\<close> and \<^verbatim>\<open>remove\<close> into a keyed container.\<close>

lemma descend_refines:
  assumes "coh P s r" and l: "rev_children r name = Inr l" and find: "find_rev_by_key P l key v = Inr (i, x)"
    and b: "branch_of s (r_node r) NoTx = Inr b" "b_txid b = NoTx"
    and ref: "refines_op P s x (cop s) spec"
  shows "refines_op P s r
     (st_bind cop (\<lambda>new. replace_child E NoTx (r_node r) b r name (l[i := new]) []) s)
     (rbind spec (\<lambda>new. Inr (put_children (erase r) name ((map erase l)[i := new]))))"
proof -
  note x = find_rev_Inr [OF find]
  have split: "l = take i l @ x # drop (Suc i) l" using x id_take_nth_drop by metis
  have upd: "l[i := new] = take i l @ new # drop (Suc i) l" for new
    using x by (simp add: upd_conv_take_nth_drop)
  have upd': "(map erase l)[i := new] = map erase (take i l) @ new # map erase (drop (Suc i) l)" for new
    using x by (simp add: upd_conv_take_nth_drop take_map drop_map)
  show ?thesis
    unfolding upd upd'
    using refines_child [where cop = cop and ys' = "drop (Suc i) l", OF assms(1) l split ref b] by simp
qed

lemma node_add_refines_aux:
  assumes "clear_keeps_class (e_proto E)" and "quiet E s" and "coh (e_proto E) s r"
  shows "refines_op (e_proto E) s r (node_add E NoTx data (r_node r) path s)
      (tree_add (e_proto E) (e_fuel E) data (erase r) path)"
  using assms(3)
proof (induction "length path" arbitrary: path r rule: less_induct)
  case less
  let ?P = "e_proto E"
  define p where "p = lstrip_slash path"
  define name where "name = fst (partition_at CHR ''/'' p)"
  define p1 where "p1 = snd (partition_at CHR ''/'' p)"
  define p2 where "p2 = snd (partition_at CHR ''/'' p1)"
  obtain b r0 where b: "branch_of s (r_node r) NoTx = Inr b" "b_latest b = Some r0" "skel r0 = skel r"
    "b_txid b = NoTx" "assure_branch NoTx (r_node r) s = (Inr b, s)"
    using coh_latest [OF less.prems] by blast
  have r0: "coh ?P s r0" "r_node r0 = r_node r" "erase r0 = erase r"
    using coh_skel [OF b(3) [symmetric] less.prems] skel_data [OF b(3)] b(3) by (auto simp: erase_skel)
  have n: "r_node r < length (cs_nodes s)" and type: "n_type (cs_nodes s ! r_node r) = p_cls ?P (r_data r0)"
    using coh_head [OF r0(1)] r0(2) by (simp_all add: head_def)
  obtain y where hook: "run_hooks E (cs_nodes s ! r_node r) PRE_ADD (CData data) = Inr y"
    using assms(2) n by (fastforce simp: quiet_def)
  note na = node_add.simps [of E NoTx data "r_node r" path, folded p_def]
    and ta = tree_add.simps [of ?P "e_fuel E" data "erase r0" path, folded p_def]
  note defs = Let_def name_def [symmetric] p1_def [symmetric] p2_def [symmetric] latest_of_def
    st_bind_res st_bind_eval(1) [where m = "assure_branch NoTx (r_node r)", OF b(5)] refines_op_simps
  have "refines_op ?P s r0 (node_add E NoTx data (r_node r) path s)
      (tree_add ?P (e_fuel E) data (erase r0) path)"
  proof (cases "p = []")
    case True
    then show ?thesis by (simp add: na ta defs)
  next
    case False
    have lens: "length p2 < length path"
      using path_step_less [of path] False unfolding p2_def p1_def p_def by blast
    show ?thesis
    proof (cases "field_of ?P (p_cls ?P (r_data r0)) name")
      case (Inl e)
      then show ?thesis using False b type by (simp add: na ta defs)
    next
      case (Inr field)
      note f = Inr
      show ?thesis
      proof (cases "\<not> ct_container field \<or> ct_key field = None \<or> (\<exists>e. rev_children r0 name = Inl e)")
        case True
        then show ?thesis using \<open>p \<noteq> []\<close> b type f hook
          by (auto simp: na ta defs split: option.splits sum.splits)
      next
        case False
        then obtain key l where c: "ct_container field" and key: "ct_key field = Some key"
          and l: "rev_children r0 name = Inr l" by (cases "rev_children r0 name") auto
        show ?thesis
        proof (cases "p1 = []")
          case True
          note add_here_refines [OF assms(1) r0(1) l b(1) [folded r0(2)] b(4), of "e_fuel E" data
              "[(POST_ADD, CData data)]", unfolded r0(2)]
          then show ?thesis using True \<open>p \<noteq> []\<close> b type f c key l hook
            by (auto simp: na ta defs split: sum.splits)
        next
          case False
          define kv where "kv = key_from_str field (fst (partition_at CHR ''/'' p1))"
          show ?thesis
          proof (cases "rbind kv (find_rev_by_key ?P l key)")
            case (Inl e)
            then show ?thesis using \<open>p \<noteq> []\<close> b type f c False key l
              by (auto simp: na ta defs kv_def [symmetric] rbind_def split: sum.splits)
          next
            case (Inr ix)
            then obtain v i x where k: "kv = Inr v" "find_rev_by_key ?P l key v = Inr (i, x)"
              by (cases ix) (auto simp: res_simps)
            have "coh ?P s x" using coh_rev_child [OF r0(1) l] find_rev_Inr [OF k(2)] by simp
            note ih = less.hyps [OF lens this]
            from descend_refines [where cop = "node_add E NoTx data (r_node x) p2" and E = E,
                OF r0(1) l k(2) b(1) [folded r0(2)] b(4) ih, unfolded r0(2)]
            show ?thesis
              using \<open>p \<noteq> []\<close> b type f c False key k l
              by (simp add: na ta defs kv_def [symmetric] cong: if_cong)
          qed
        qed
      qed
    qed
  qed
  then show ?case unfolding refines_op_skel [OF b(3)] r0(3) .
qed


section \<open>Remove\<close>

lemma remove_here_refines:
  assumes "coh P s r" and l: "rev_children r name = Inr l" and "i < length l"
    and b: "branch_of s (r_node r) NoTx = Inr b" "b_txid b = NoTx"
  shows "refines_op P s r (replace_child E NoTx (r_node r) b r name (remove_nth i l) changes s)
    (Inr (put_children (erase r) name (remove_nth i (map erase l))))"
proof -
  note old = coh_list [OF assms(1) l]
  have split: "l = take i l @ l ! i # drop (Suc i) l" using assms(3) by (rule id_take_nth_drop)
  have "list_nodes l = list_nodes (take i l) @ nodes_of (l ! i) @ list_nodes (drop (Suc i) l)"
    by (subst split) (simp add: list_nodes_def nodes_of_def)
  then have d: "distinct (list_nodes (remove_nth i l))"
    and sub: "set (list_nodes (remove_nth i l)) \<subseteq> set (list_nodes l)"
    using old(2) by (auto simp: remove_nth_def list_nodes_def)
  have "\<forall>x \<in> set (concat (map sub_revs (remove_nth i l))). head P s x"
    using old(1) by (auto simp: remove_nth_def dest: in_set_takeD in_set_dropD)
  from replace_list_ok [OF assms(1) l b ext_refl this d, of E changes] sub
  obtain r' s2 where "replace_child E NoTx (r_node r) b r name (remove_nth i l) changes s = (Inr r', s2)"
    "op_ok P s s2 r r'" "erase r' = put_children (erase r) name (map erase (remove_nth i l))" by blast
  then show ?thesis by (simp add: refines_op_simps remove_nth_def take_map drop_map)
qed

lemma node_remove_refines_aux:
  assumes "quiet E s" and "coh (e_proto E) s r"
  shows "refines_op (e_proto E) s r (node_remove E NoTx (r_node r) path s)
      (tree_remove (e_proto E) (erase r) path)"
  using assms(2)
proof (induction "length path" arbitrary: path r rule: less_induct)
  case less
  let ?P = "e_proto E"
  define p where "p = lstrip_slash path"
  define name where "name = fst (partition_at CHR ''/'' p)"
  define p1 where "p1 = snd (partition_at CHR ''/'' p)"
  define p2 where "p2 = snd (partition_at CHR ''/'' p1)"
  obtain b r0 where b: "branch_of s (r_node r) NoTx = Inr b" "b_latest b = Some r0" "skel r0 = skel r"
    "b_txid b = NoTx" "assure_branch NoTx (r_node r) s = (Inr b, s)"
    using coh_latest [OF less.prems] by blast
  have r0: "coh ?P s r0" "r_node r0 = r_node r" "erase r0 = erase r"
    using coh_skel [OF b(3) [symmetric] less.prems] skel_data [OF b(3)] b(3) by (auto simp: erase_skel)
  have n: "r_node r < length (cs_nodes s)" and type: "n_type (cs_nodes s ! r_node r) = p_cls ?P (r_data r0)"
    using coh_head [OF r0(1)] r0(2) by (simp_all add: head_def)
  have hook: "\<exists>y. run_hooks E (cs_nodes s ! r_node r) PRE_REMOVE x = Inr y" for x
    using assms(1) n by (fastforce simp: quiet_def)
  note nr = node_remove.simps [of E NoTx "r_node r" path, folded p_def]
    and tr = tree_remove.simps [of ?P "erase r0" path, folded p_def]
  note defs = Let_def name_def [symmetric] p1_def [symmetric] p2_def [symmetric] latest_of_def
    st_bind_res st_bind_eval(1) [where m = "assure_branch NoTx (r_node r)", OF b(5)] refines_op_simps
  have "refines_op ?P s r0 (node_remove E NoTx (r_node r) path s) (tree_remove ?P (erase r0) path)"
  proof (cases "p = []")
    case True
    then show ?thesis by (simp add: nr tr defs)
  next
    case False
    have lens: "length p2 < length path"
      using path_step_less [of path] False unfolding p2_def p1_def p_def by blast
    show ?thesis
    proof (cases "field_of ?P (p_cls ?P (r_data r0)) name")
      case (Inl e)
      then show ?thesis using False b type by (simp add: nr tr defs)
    next
      case (Inr field)
      note f = Inr
      show ?thesis
      proof (cases "\<not> ct_container field \<or> p1 = [] \<or> ct_key field = None")
        case True
        then show ?thesis using \<open>p \<noteq> []\<close> b type f by (auto simp: nr tr defs split: option.splits)
      next
        case False
        then obtain key where c: "ct_container field" "p1 \<noteq> []" and key: "ct_key field = Some key" by auto
        define kv where "kv = key_from_str field (fst (partition_at CHR ''/'' p1))"
        show ?thesis
        proof (cases "rbind kv (\<lambda>v. rbind (rev_children r0 name) (\<lambda>l. find_rev_by_key ?P l key v))")
          case (Inl e)
          then show ?thesis using \<open>p \<noteq> []\<close> b type f c key
            by (auto simp: nr tr defs kv_def [symmetric] rbind_def split: sum.splits)
        next
          case (Inr ix)
          then obtain v l i x where k: "kv = Inr v" "rev_children r0 name = Inr l"
            "find_rev_by_key ?P l key v = Inr (i, x)"
            by (cases ix) (auto simp: res_simps)
          note x = find_rev_Inr [OF k(3)]
          have "coh ?P s x" using coh_rev_child [OF r0(1) k(2)] x by simp
          note ih = less.hyps [OF lens this]
          note down = descend_refines [where cop = "node_remove E NoTx (r_node x) p2" and E = E,
              OF r0(1) k(2,3) b(1) [folded r0(2)] b(4) ih, unfolded r0(2)]
          note here = remove_here_refines [where i = i and E = E and
              changes = "[(POST_REMOVE, CData (r_data x))]",
              OF r0(1) k(2) _ b(1) [folded r0(2)] b(4), unfolded r0(2)]
          show ?thesis
          proof (cases "p2 = []")
            case True
            then show ?thesis
              using here x \<open>p \<noteq> []\<close> b type f c key k hook [of "CData (r_data x)"]
              by (auto simp: nr tr defs kv_def [symmetric])
          next
            case False
            then show ?thesis
              using down \<open>p \<noteq> []\<close> b type f c key k by (simp add: nr tr defs kv_def [symmetric])
          qed
        qed
      qed
    qed
  qed
  then show ?case unfolding refines_op_skel [OF b(3)] r0(3) .
qed

end
