(* ===== verification/ConfigLaws.thy ===== *)
theory ConfigLaws
  imports ConfigSpec
begin

text \<open>
  Laws of the specification on trees: reading back what was written, undoing an addition, and the
  invariant that the children of a keyed container have different keys.
\<close>

section \<open>Paths\<close>

text \<open>
  Paths without empty components. \<^verbatim>\<open>get\<close> does not skip the empty components of a path that
  \<^verbatim>\<open>update\<close>, \<^verbatim>\<open>add\<close> and \<^verbatim>\<open>remove\<close> skip; on clean paths they read it alike.
\<close>

fun clean_path :: "string \<Rightarrow> bool" where
  "clean_path [] = True"
| "clean_path [c] = (c \<noteq> CHR ''/'')"
| "clean_path (c # d # cs) = (\<not> (c = CHR ''/'' \<and> d = CHR ''/'') \<and> clean_path (d # cs))"

lemma partition_Cons:
  "partition_at c (x # xs) =
     (if x = c then ([], xs) else (x # fst (partition_at c xs), snd (partition_at c xs)))"
  by (simp add: split_def Let_def)

lemma clean_tl: "clean_path (c # cs) \<Longrightarrow> clean_path cs"
  by (cases cs) auto

lemma clean_partition: "clean_path p \<Longrightarrow> clean_path (snd (partition_at CHR ''/'' p))"
  by (induction p) (auto simp: partition_Cons simp del: partition_at.simps(2) dest: clean_tl)

lemma lstrip_id: "p = [] \<or> hd p \<noteq> CHR ''/'' \<Longrightarrow> lstrip_slash p = p"
  by (cases p) (auto simp: lstrip_slash_def)

lemma clean_step: "clean_path p \<Longrightarrow> lstrip_slash (snd (partition_at CHR ''/'' p)) = snd (partition_at CHR ''/'' p)"
proof (induction p)
  case Nil
  then show ?case by (simp add: lstrip_slash_def)
next
  case (Cons c p)
  then show ?case
    by (cases p) (auto simp: partition_Cons lstrip_slash_def simp del: partition_at.simps(2))
qed

lemma clean_lstrip: "clean_path p \<Longrightarrow> clean_path (lstrip_slash p)"
  by (induction p) (auto simp: lstrip_slash_def dest: clean_tl)

lemma lstrip_twice [simp]: "lstrip_slash (lstrip_slash p) = lstrip_slash p"
  by (simp add: lstrip_slash_def)

lemma partition_clean_Nil:
  "clean_path p \<Longrightarrow> snd (partition_at CHR ''/'' p) = [] \<Longrightarrow> CHR ''/'' \<notin> set p"
proof (induction p)
  case (Cons c p)
  then show ?case
    by (cases p) (auto simp: partition_Cons simp del: partition_at.simps(2) split: if_splits)
qed simp

lemma partition_append:
  "partition_at c (p @ c # k) =
     (if c \<in> set p then (fst (partition_at c p), snd (partition_at c p) @ c # k) else (p, k))"
  by (induction p) (auto simp: partition_Cons simp del: partition_at.simps(2))

lemma partition_no: "c \<notin> set p \<Longrightarrow> partition_at c p = (p, [])"
  by (induction p) auto

lemma lstrip_append:
  "lstrip_slash p \<noteq> [] \<Longrightarrow> lstrip_slash (p @ q) = lstrip_slash p @ q"
  by (induction p) (auto simp: lstrip_slash_def split: if_splits)


lemma clean_append:
  assumes "clean_path p" and "p \<noteq> []" and "k \<noteq> []" and "CHR ''/'' \<notin> set k"
  shows "clean_path (p @ CHR ''/'' # k)"
proof -
  have k: "clean_path k" using assms(4) by (induction k rule: clean_path.induct) auto
  show ?thesis
    using assms(1,2,3,4) k
  proof (induction p rule: clean_path.induct)
    case (2 c)
    then show ?case by (cases k) auto
  qed auto
qed


section \<open>Children\<close>

lemma tree_children_put [simp]:
  "tree_children (put_children t name l) name' =
     (if name' = name then Inr l else tree_children t name')"
  by (simp add: tree_children_def put_children_def)

lemma put_children_data [simp]: "t_data (put_children t name l) = t_data t"
  by (simp add: put_children_def)

lemma tree_children_Inr: "tree_children t name = Inr l \<longleftrightarrow> od_get name (t_children t) = Some l"
  by (auto simp: tree_children_def split: option.splits)

lemma find_tree_update:
  assumes "find_tree P l key v = Inr (i, c)" and "p_attr P (t_data new) key = v"
  shows "find_tree P (l[i := new]) key v = Inr (i, new)"
  using assms unfolding find_tree_def
proof (induction l arbitrary: i)
  case (Cons x l)
  then show ?case by (cases i) (auto simp: res_simps rbind_def split: if_splits sum.splits)
qed simp

lemma find_tree_snoc:
  "find_tree P l key v = Inl e \<Longrightarrow> p_attr P (t_data c) key = v \<Longrightarrow>
     find_tree P (l @ [c]) key v = Inr (length l, c)"
  unfolding find_tree_def
  by (induction l) (auto simp: rbind_def split: if_splits sum.splits)

lemma find_tree_Inr:
  "find_tree P l key v = Inr (i, c) \<Longrightarrow>
     i < length l \<and> l ! i = c \<and> c \<in> set l \<and> p_attr P (t_data c) key = v"
  unfolding find_tree_def by (auto dest!: find_by_key_Inr)

lemma remove_nth_snoc [simp]: "remove_nth (length l) (l @ [c]) = l"
  by (simp add: remove_nth_def)

lemma od_set_set: "od_get k d = Some v \<Longrightarrow> od_set k v (od_set k v' d) = d"
  by (induction d) (auto split: if_splits)

lemma put_children_back:
  "tree_children t name = Inr l \<Longrightarrow> put_children (put_children t name l') name l = t"
  by (cases t) (simp add: put_children_def tree_children_Inr od_set_set)


section \<open>The ways an operation succeeds\<close>

abbreviation path_name :: "string \<Rightarrow> string" where
  "path_name path \<equiv> fst (partition_at CHR ''/'' (lstrip_slash path))"

abbreviation path_rest :: "string \<Rightarrow> string" where
  "path_rest path \<equiv> snd (partition_at CHR ''/'' (lstrip_slash path))"

abbreviation path_key :: "string \<Rightarrow> string" where
  "path_key path \<equiv> fst (partition_at CHR ''/'' (path_rest path))"

abbreviation path_below :: "string \<Rightarrow> string" where
  "path_below path \<equiv> snd (partition_at CHR ''/'' (path_rest path))"

definition keyed_child ::
  "'d proto \<Rightarrow> 'd tree \<Rightarrow> string \<Rightarrow> string \<Rightarrow> pval \<Rightarrow> 'd tree list \<Rightarrow> nat \<Rightarrow> 'd tree \<Rightarrow> bool" where
  "keyed_child P t path key v l i c \<longleftrightarrow>
     lstrip_slash path \<noteq> [] \<and> path_rest path \<noteq> [] \<and>
     (\<exists>field. field_of P (p_cls P (t_data t)) (path_name path) = Inr field \<and> ct_container field \<and>
        ct_key field = Some key \<and> key_from_str field (path_key path) = Inr v) \<and>
     tree_children t (path_name path) = Inr l \<and> find_tree P l key v = Inr (i, c)"

lemma tree_update_cases:
  assumes "tree_update P data strict t path = Inr t'"
  obtains (here) "lstrip_slash path = []" "t' = Tree data (t_children t)"
      "p_cls P data = p_cls P (t_data t)"
  | (keyed) key v l i c new where "keyed_child P t path key v l i c"
      "tree_update P data strict c (path_below path) = Inr new" "p_attr P (t_data new) key = v"
      "t' = put_children t (path_name path) (l[i := new])"
  | (single) field l c new where "lstrip_slash path \<noteq> []"
      "field_of P (p_cls P (t_data t)) (path_name path) = Inr field"
      "\<not> ct_container field" "tree_children t (path_name path) = Inr l" "first l = Inr c"
      "tree_update P data strict c (path_rest path) = Inr new"
      "t' = put_children t (path_name path) [new]"
proof (cases "lstrip_slash path = []")
  case True
  with assms here show ?thesis
    by (subst (asm) tree_update.simps) (auto simp: res_simps split: if_splits)
next
  case False
  with assms obtain field where f: "field_of P (p_cls P (t_data t)) (path_name path) = Inr field"
    by (subst (asm) tree_update.simps) (auto simp: Let_def res_simps)
  show ?thesis
  proof (cases "ct_container field")
    case True
    with assms False f keyed show ?thesis
      by (subst (asm) tree_update.simps)
        (auto simp: Let_def res_simps keyed_child_def split: if_splits option.splits)
  next
    case nc: False
    from assms False f nc obtain l c new where "tree_children t (path_name path) = Inr l"
        "first l = Inr c" "tree_update P data strict c (path_rest path) = Inr new"
        "t' = put_children t (path_name path) [new]"
      by (subst (asm) tree_update.simps) (auto simp: Let_def res_simps)
    then show ?thesis by (rule single [OF False f nc])
  qed
qed

lemma tree_add_cases:
  assumes "tree_add P fuel data t path = Inr t'"
  obtains (here) field key l c e where "lstrip_slash path \<noteq> []" "path_rest path = []"
      "field_of P (p_cls P (t_data t)) (path_name path) = Inr field" "ct_container field"
      "ct_key field = Some key" "tree_children t (path_name path) = Inr l"
      "find_tree P l key (p_attr P data key) = Inl e" "tree_of P fuel data = Inr c"
      "t' = put_children t (path_name path) (l @ [c])"
  | (keyed) key v l i c new where "keyed_child P t path key v l i c"
      "tree_add P fuel data c (path_below path) = Inr new"
      "t' = put_children t (path_name path) (l[i := new])"
proof -
  have ne: "lstrip_slash path \<noteq> []" using assms by (subst (asm) tree_add.simps) auto
  with assms obtain field key where f: "field_of P (p_cls P (t_data t)) (path_name path) = Inr field"
      "ct_container field" "ct_key field = Some key"
    by (subst (asm) tree_add.simps) (auto simp: Let_def res_simps split: if_splits option.splits)
  show ?thesis
  proof (cases "path_rest path = []")
    case True
    with assms ne f obtain l where l: "tree_children t (path_name path) = Inr l"
      by (subst (asm) tree_add.simps) (auto simp: Let_def res_simps)
    show ?thesis
      by (cases "find_tree P l key (p_attr P data key)")
        (use assms ne f l True here in \<open>subst (asm) tree_add.simps; auto simp: Let_def res_simps\<close>)+
  next
    case False
    with assms ne f keyed show ?thesis
      by (subst (asm) tree_add.simps) (auto simp: Let_def res_simps keyed_child_def)
  qed
qed

lemma tree_remove_cases:
  assumes "tree_remove P t path = Inr t'"
  obtains (here) key v l i c where "keyed_child P t path key v l i c" "path_below path = []"
      "t' = put_children t (path_name path) (remove_nth i l)"
  | (keyed) key v l i c new where "keyed_child P t path key v l i c" "path_below path \<noteq> []"
      "tree_remove P c (path_below path) = Inr new"
      "t' = put_children t (path_name path) (l[i := new])"
proof -
  have "lstrip_slash path \<noteq> []" using assms by (subst (asm) tree_remove.simps) auto
  with assms obtain key v l i c where k: "keyed_child P t path key v l i c"
    by (subst (asm) tree_remove.simps)
      (auto simp: Let_def res_simps keyed_child_def split: if_splits option.splits)
  show ?thesis
  proof (cases "path_below path = []")
    case True
    with assms k have "t' = put_children t (path_name path) (remove_nth i l)"
      by (subst (asm) tree_remove.simps) (auto simp: Let_def keyed_child_def)
    then show ?thesis by (rule here [OF k True])
  next
    case False
    with assms k obtain new where "tree_remove P c (path_below path) = Inr new"
        "t' = put_children t (path_name path) (l[i := new])"
      by (subst (asm) tree_remove.simps) (auto simp: Let_def keyed_child_def res_simps)
    then show ?thesis by (rule keyed [OF k False])
  qed
qed

lemma tree_get_keyed:
  assumes "keyed_child P t path key v l i c"
  shows "tree_get P depth t (lstrip_slash path) = tree_get P depth c (path_below path)"
  using assms by (subst tree_get.simps) (auto simp: keyed_child_def Let_def)

lemma keyed_child_put:
  assumes "keyed_child P t path key v l i c" and "p_attr P (t_data new) key = v"
  shows "keyed_child P (put_children t (path_name path) (l[i := new])) path key v (l[i := new]) i new"
  using assms find_tree_update [of P l key v i c new] by (auto simp: keyed_child_def)


lemma keyed_child_parts:
  assumes "keyed_child P t path key v l i c"
  shows "tree_children t (path_name path) = Inr l" and "i < length l" and "l ! i = c"
    and "c \<in> set l" and "p_attr P (t_data c) key = v" and "lstrip_slash path \<noteq> []"
    and "length (path_below path) < length path"
  using assms path_step_less(2) [of path] by (auto simp: keyed_child_def dest: find_tree_Inr)


section \<open>Reading back an update\<close>

lemma update_then_get:
  assumes "tree_update P data strict t path = Inr t'" and "clean_path path"
  shows "tree_get P 0 t' (lstrip_slash path) = Inr (One (Some (CData data)))"
  using assms
proof (induction "length path" arbitrary: path t t' rule: less_induct)
  case less
  have clean: "clean_path (path_rest path)" "clean_path (path_below path)"
      "lstrip_slash (path_rest path) = path_rest path" "lstrip_slash (path_below path) = path_below path"
    using less.prems(2) by (simp_all add: clean_lstrip clean_partition clean_step)
  from less.prems(1) show ?case
  proof (cases rule: tree_update_cases)
    case here
    then show ?thesis by (simp add: tree_get.simps)
  next
    case (keyed key v l i c new)
    then have "length (path_below path) < length path"
      using path_step_less(2) by (simp add: keyed_child_def)
    from less.hyps [OF this keyed(2) clean(2)] show ?thesis
      using tree_get_keyed [OF keyed_child_put [OF keyed(1,3)]] keyed(4) clean(4) by simp
  next
    case (single field l c new)
    from less.hyps [OF path_step_less(1) [OF single(1)] single(6) clean(1)] show ?thesis
      using single clean(3) by (subst tree_get.simps) (simp add: Let_def first_def)
  qed
qed


text \<open>Leading slashes do not matter, and an update finds what a lookup found.\<close>

lemma lstrip_Cons [simp]: "lstrip_slash (CHR ''/'' # p) = lstrip_slash p"
  by (simp add: lstrip_slash_def)

lemma tree_ops_slash:
  "tree_update P data strict t (CHR ''/'' # p) = tree_update P data strict t p"
  "tree_add P fuel data t (CHR ''/'' # p) = tree_add P fuel data t p"
  "detects P data strict t (CHR ''/'' # p) = detects P data strict t p"
  by (subst (1 2) tree_update.simps tree_add.simps detects.simps, simp only: lstrip_Cons)+

lemma tree_update_keyed:
  assumes "keyed_child P t path key v l i c"
  shows "tree_update P data strict t path =
     rbind (tree_update P data strict c (path_below path)) (\<lambda>new.
       if p_attr P (t_data new) key \<noteq> v then Inl ValueError
       else Inr (put_children t (path_name path) (l[i := new])))"
  using assms by (subst tree_update.simps) (auto simp: keyed_child_def Let_def cong: if_cong)

lemma update_finds:
  assumes "tree_get P depth t (lstrip_slash path) = Inr g" and "clean_path path"
    and "\<And>cls. fields_of P cls \<noteq> Inl KeyError"
  shows "tree_update P data strict t path \<noteq> Inl KeyError"
  using assms(1,2)
proof (induction "length path" arbitrary: path t rule: less_induct)
  case less
  have clean: "clean_path (path_rest path)" "clean_path (path_below path)"
      "lstrip_slash (path_rest path) = path_rest path" "lstrip_slash (path_below path) = path_below path"
    using less.prems(2) by (simp_all add: clean_lstrip clean_partition clean_step)
  show ?case
  proof (cases "lstrip_slash path = []")
    case True
    then show ?thesis
      using assms(3) [of "p_cls P (t_data t)"]
      by (subst tree_update.simps)
        (auto simp: rbind_def test_no_children_def check_access_violation_def split: sum.splits if_splits)
  next
    case False
    with less.prems(1) obtain field where f: "field_of P (p_cls P (t_data t)) (path_name path) = Inr field"
      by (subst (asm) tree_get.simps) (auto simp: Let_def rbind_eq_Inr)
    consider (whole) "ct_container field" "path_rest path = []"
      | (keyed) "ct_container field" "path_rest path \<noteq> []" | (single) "\<not> ct_container field" by blast
    then show ?thesis
    proof cases
      case whole
      with False f show ?thesis by (subst tree_update.simps) (simp add: Let_def)
    next
      case keyed
      then obtain key v l i c where k: "keyed_child P t path key v l i c"
        using less.prems(1) False f
        by (subst (asm) tree_get.simps) (auto simp: Let_def rbind_eq_Inr keyed_child_def split: option.splits)
      then have "tree_get P depth c (path_below path) = Inr g"
        using less.prems(1) tree_get_keyed by metis
      from less.hyps [OF path_step_less(2) [OF False], of c] this clean k show ?thesis
        by (auto simp: tree_update_keyed rbind_def split: sum.splits if_splits)
    next
      case single
      then obtain l c where c: "tree_children t (path_name path) = Inr l" "first l = Inr c"
        "tree_get P depth c (path_rest path) = Inr g"
        using less.prems(1) False f by (subst (asm) tree_get.simps) (auto simp: Let_def rbind_eq_Inr)
      from less.hyps [OF path_step_less(1) [OF False], of c] c clean False f single show ?thesis
        by (subst tree_update.simps) (auto simp: Let_def rbind_def split: sum.splits)
    qed
  qed
qed


section \<open>Removing what was added\<close>

text \<open>Clearing the child fields of a message leaves its key alone.\<close>

definition clear_keeps_attr :: "'d proto \<Rightarrow> bool" where
  "clear_keeps_attr P \<longleftrightarrow> (\<forall>name d key. p_attr P (p_clear P name d) key = p_attr P d key)"

lemma tree_of_attr:
  assumes "clear_keeps_attr P" and "tree_of P fuel data = Inr t"
  shows "p_attr P (t_data t) key = p_attr P data key"
proof -
  obtain k fs ch d where "fuel = Suc k" and "py_for (split_field P (tree_of P k)) fs ([], data) = Inr (ch, d)"
      and t: "t = Tree d ch"
    using assms(2) by (cases fuel) (auto simp: res_simps split_def)
  then have "p_attr P (snd (ch, d)) key = p_attr P data key"
    using assms(1)
    by (elim py_for_invariant [where P = "\<lambda>acc. p_attr P (snd acc) key = p_attr P data key"])
      (auto simp: split_field_def res_simps clear_keeps_attr_def split: prod.splits)
  then show ?thesis by (simp add: t)
qed

text \<open>The container a path leads to.\<close>

function tree_field :: "'d proto \<Rightarrow> 'd tree \<Rightarrow> string \<Rightarrow> child_type res" where
  "tree_field P t path =
     (if lstrip_slash path = [] then Inl ValueError
      else
        rbind (field_of P (p_cls P (t_data t)) (path_name path)) (\<lambda>field.
        if path_rest path = [] then Inr field
        else
          (case ct_key field of
             None \<Rightarrow> Inl ValueError
           | Some key \<Rightarrow>
               rbind (key_from_str field (path_key path)) (\<lambda>v.
               rbind (tree_children t (path_name path)) (\<lambda>l.
               rbind (find_tree P l key v) (\<lambda>ic. tree_field P (snd ic) (path_below path)))))))"
  by pat_completeness auto
termination tree_field
  by (relation "measure (\<lambda>(P, t, path). length path)") (auto simp: path_step_less)

declare tree_field.simps [simp del]

lemma tree_field_keyed:
  "keyed_child P t path key v l i c \<Longrightarrow> tree_field P t path = tree_field P c (path_below path)"
  by (subst tree_field.simps) (auto simp: keyed_child_def)

lemma tree_remove_keyed:
  assumes "keyed_child P t path key v l i c"
  shows "tree_remove P t path =
     (if path_below path \<noteq> [] then
        rbind (tree_remove P c (path_below path)) (\<lambda>new. Inr (put_children t (path_name path) (l[i := new])))
      else Inr (put_children t (path_name path) (remove_nth i l)))"
  using assms by (subst tree_remove.simps) (auto simp: keyed_child_def Let_def)

lemma tree_add_data: "tree_add P fuel data t path = Inr t' \<Longrightarrow> t_data t' = t_data t"
  by (erule tree_add_cases) simp_all

lemma path_append:
  assumes "clean_path path" and "lstrip_slash path \<noteq> []" and "k \<noteq> []"
  shows "lstrip_slash (path @ CHR ''/'' # k) \<noteq> []"
    and "path_name (path @ CHR ''/'' # k) = path_name path"
    and "path_rest (path @ CHR ''/'' # k) =
      (if path_rest path = [] then k else path_rest path @ CHR ''/'' # k)"
  using assms lstrip_append [OF assms(2)] partition_clean_Nil [OF clean_lstrip [OF assms(1)]]
  by (auto simp: partition_append partition_no)

text \<open>Where a child that was added is found: here, or in the child the path leads through.\<close>

lemma added_here:
  assumes "tree_of P fuel data = Inr c" and "clear_keeps_attr P" and "clean_path path" and "lstrip_slash path \<noteq> []"
    and "path_rest path = []" and "field_of P (p_cls P (t_data t)) (path_name path) = Inr f" and "ct_container f"
    and "ct_key f = Some key" and "find_tree P l key (p_attr P data key) = Inl e"
    and k: "k \<noteq> []" "CHR ''/'' \<notin> set k" and "key_from_str f k = Inr (p_attr P data key)"
  shows "keyed_child P (put_children t (path_name path) (l @ [c])) (path @ CHR ''/'' # k) key (p_attr P data key)
      (l @ [c]) (length l) c"
    and "path_below (path @ CHR ''/'' # k) = []"
proof -
  note q = path_append [OF assms(3,4) k(1)]
  have "find_tree P (l @ [c]) key (p_attr P data key) = Inr (length l, c)"
    using find_tree_snoc [OF assms(9)] tree_of_attr [OF assms(2,1)] by blast
  then show "keyed_child P (put_children t (path_name path) (l @ [c])) (path @ CHR ''/'' # k) key (p_attr P data key)
      (l @ [c]) (length l) c"
    unfolding keyed_child_def q using assms by (simp add: q partition_no)
  show "path_below (path @ CHR ''/'' # k) = []" using assms by (simp add: q partition_no)
qed

lemma added_below:
  assumes child: "keyed_child P t path key v l i c" and add: "tree_add P fuel data c (path_below path) = Inr new"
    and "clean_path path" and k: "k \<noteq> []"
  shows "keyed_child P (put_children t (path_name path) (l[i := new])) (path @ CHR ''/'' # k) key v (l[i := new]) i new"
    and "path_below (path @ CHR ''/'' # k) = path_below path @ CHR ''/'' # k"
proof -
  let ?q = "path @ CHR ''/'' # k"
  have ne: "lstrip_slash path \<noteq> []" and rest: "path_rest path \<noteq> []"
    using child by (auto simp: keyed_child_def)
  note q = path_append [OF assms(3) ne k]
  have below: "path_below path \<noteq> []"
    using add by (subst (asm) tree_add.simps) (auto simp: Let_def lstrip_slash_def)
  have sl: "CHR ''/'' \<in> set (path_rest path)"
  proof (rule ccontr)
    assume "CHR ''/'' \<notin> set (path_rest path)"
    from partition_no [OF this] below show False by simp
  qed
  then have q2: "path_key ?q = path_key path" "path_below ?q = path_below path @ CHR ''/'' # k"
    using rest by (simp_all add: q partition_append)
  have v: "p_attr P (t_data c) key = v" using child by (auto simp: keyed_child_def dest: find_tree_Inr)
  have "keyed_child P (put_children t (path_name path) (l[i := new])) path key v (l[i := new]) i new"
    using keyed_child_put [OF child] tree_add_data [OF add] v by simp
  then show "keyed_child P (put_children t (path_name path) (l[i := new])) ?q key v (l[i := new]) i new"
    unfolding keyed_child_def q(2) q2(1) using ne rest q(1) by (auto simp: q(3))
  show "path_below ?q = path_below path @ CHR ''/'' # k" by (rule q2)
qed

lemma add_then_remove:
  assumes "tree_add P fuel data t path = Inr t'" and "clean_path path" and "clear_keeps_attr P"
    and k: "k \<noteq> []" "CHR ''/'' \<notin> set k"
    and "tree_field P t path = Inr f" and "ct_key f = Some fk" and "key_from_str f k = Inr (p_attr P data fk)"
  shows "tree_remove P t' (path @ CHR ''/'' # k) = Inr t"
  using assms(1,2,6)
proof (induction "length path" arbitrary: path t t' rule: less_induct)
  case less
  from less.prems(1) show ?case
  proof (cases rule: tree_add_cases)
    case (here field key l c e)
    have f: "field = f" "key = fk"
      using less.prems(3) here assms(7) by (auto simp: tree_field.simps [of P t])
    note q = path_append [OF less.prems(2) here(1) k(1)]
    note child = added_here [OF here(8) assms(3) less.prems(2) here(1-5,7) k assms(8) [folded f]]
    from tree_remove_keyed [OF child(1)] child(2) show ?thesis
      using here(6,9) by (simp add: q put_children_back)
  next
    case (keyed key v l i c new)
    note parts = keyed_child_parts [OF keyed(1)]
    note q = path_append [OF less.prems(2) parts(6) k(1)]
    note child = added_below [OF keyed(1,2) less.prems(2) k(1)]
    have "clean_path (path_below path)"
      using less.prems(2) by (simp add: clean_lstrip clean_partition)
    then have "tree_remove P new (path_below path @ CHR ''/'' # k) = Inr c"
      using less.hyps [OF parts(7) keyed(2)] less.prems(3) tree_field_keyed [OF keyed(1)] by simp
    moreover have "l[i := c] = l" using parts(3) list_update_id [of l i] by simp
    ultimately show ?thesis
      using tree_remove_keyed [OF child(1)] child(2) parts(1) keyed(3) by (simp add: q(2) put_children_back)
  qed
qed

lemma add_then_get:
  assumes "tree_add P fuel data t path = Inr t'" and "clean_path path" and "clear_keeps_attr P"
    and k: "k \<noteq> []" "CHR ''/'' \<notin> set k"
    and "tree_field P t path = Inr f" and "ct_key f = Some fk" and "key_from_str f k = Inr (p_attr P data fk)"
  shows "\<exists>c. tree_of P fuel data = Inr c \<and>
    tree_get P depth t' (lstrip_slash (path @ CHR ''/'' # k)) = rbind (tree_read P c depth) (\<lambda>d. Inr (One (Some (CData d))))"
  using assms(1,2,6)
proof (induction "length path" arbitrary: path t t' rule: less_induct)
  case less
  from less.prems(1) show ?case
  proof (cases rule: tree_add_cases)
    case (here field key l c e)
    have f: "field = f" "key = fk"
      using less.prems(3) here assms(7) by (auto simp: tree_field.simps [of P t])
    note child = added_here [OF here(8) assms(3) less.prems(2) here(1-5,7) k assms(8) [folded f]]
    from tree_get_keyed [OF child(1), of depth] child(2) show ?thesis
      using here(8,9) by (auto simp: tree_get.simps [of P depth c])
  next
    case (keyed key v l i c new)
    note parts = keyed_child_parts [OF keyed(1)]
    note child = added_below [OF keyed(1,2) less.prems(2) k(1)]
    have clean: "clean_path (path_below path)" "lstrip_slash (path_below path) = path_below path"
      using less.prems(2) by (simp_all add: clean_lstrip clean_partition clean_step)
    moreover have "path_below path \<noteq> []"
      using keyed(2) by (subst (asm) tree_add.simps) (auto simp: Let_def lstrip_slash_def)
    ultimately have "lstrip_slash (path_below path @ CHR ''/'' # k) = path_below path @ CHR ''/'' # k"
      by (metis lstrip_append)
    with clean(1) show ?thesis
      using less.hyps [OF parts(7) keyed(2)] less.prems(3) tree_field_keyed [OF keyed(1)]
        tree_get_keyed [OF child(1), of depth] child(2) keyed(3) by simp
  qed
qed


section \<open>Keys are unique\<close>

definition keys_here :: "'d proto \<Rightarrow> 'd tree \<Rightarrow> bool" where
  "keys_here P t \<longleftrightarrow>
     (\<forall>name field key l.
        field_of P (p_cls P (t_data t)) name = Inr field \<longrightarrow> ct_container field \<longrightarrow>
        ct_key field = Some key \<longrightarrow> tree_children t name = Inr l \<longrightarrow>
        distinct (map (\<lambda>c. p_attr P (t_data c) key) l))"

definition unique_keys :: "'d proto \<Rightarrow> 'd tree \<Rightarrow> bool" where
  "unique_keys P t \<longleftrightarrow> (\<forall>u \<in> set (subtrees t). keys_here P u)"

lemma subtrees_children:
  "set (subtrees t) = insert t (\<Union>(name, l) \<in> set (t_children t). \<Union>c \<in> set l. set (subtrees c))"
  by (cases t) (auto simp: map_prod_def split_def)

lemma unique_keys_iff:
  "unique_keys P t \<longleftrightarrow>
     keys_here P t \<and> (\<forall>(name, l) \<in> set (t_children t). \<forall>c \<in> set l. unique_keys P c)"
  unfolding unique_keys_def subtrees_children [of t] by (auto split: prod.splits)

lemma unique_keys_child:
  "unique_keys P t \<Longrightarrow> tree_children t name = Inr l \<Longrightarrow> c \<in> set l \<Longrightarrow> unique_keys P c"
  using unique_keys_iff [of P t] by (fastforce simp: tree_children_Inr dest: od_get_mem)

lemma unique_keys_list:
  "unique_keys P t \<Longrightarrow> field_of P (p_cls P (t_data t)) name = Inr field \<Longrightarrow> ct_container field \<Longrightarrow>
   ct_key field = Some key \<Longrightarrow> tree_children t name = Inr l \<Longrightarrow>
   distinct (map (\<lambda>c. p_attr P (t_data c) key) l)"
  using unique_keys_iff [of P t] by (auto simp: keys_here_def)

lemma unique_keys_put:
  assumes "unique_keys P t" and "\<And>c. c \<in> set l \<Longrightarrow> unique_keys P c"
    and "\<And>field key. field_of P (p_cls P (t_data t)) name = Inr field \<Longrightarrow> ct_container field \<Longrightarrow>
      ct_key field = Some key \<Longrightarrow> distinct (map (\<lambda>c. p_attr P (t_data c) key) l)"
  shows "unique_keys P (put_children t name l)"
proof -
  have "keys_here P (put_children t name l)"
    using unique_keys_list [OF assms(1)] assms(3) by (simp add: keys_here_def)
  moreover have "\<forall>(n, l) \<in> set (t_children (put_children t name l)). \<forall>c \<in> set l. unique_keys P c"
    using assms(1,2) unique_keys_iff [of P t]
    by (fastforce simp: put_children_def dest: set_od_set)
  ultimately show ?thesis using unique_keys_iff [of P "put_children t name l"] by blast
qed

text \<open>Replacing a child by one with the same key.\<close>

lemma unique_keys_replace:
  assumes "unique_keys P t" and "keyed_child P t path key v l i c"
    and "unique_keys P new" and "p_attr P (t_data new) key = p_attr P (t_data c) key"
  shows "unique_keys P (put_children t (path_name path) (l[i := new]))"
proof (rule unique_keys_put [OF assms(1)])
  have l: "tree_children t (path_name path) = Inr l" and i: "i < length l" "l ! i = c"
    using assms(2) by (auto simp: keyed_child_def dest: find_tree_Inr)
  show "unique_keys P d" if "d \<in> set (l[i := new])" for d
    using set_update_subset_insert [of l i new] that unique_keys_child [OF assms(1) l] assms(3) by blast
  fix field key'
  assume f: "field_of P (p_cls P (t_data t)) (path_name path) = Inr field" "ct_container field"
    "ct_key field = Some key'"
  with assms(2) have "key' = key" by (auto simp: keyed_child_def)
  then have "map (\<lambda>c. p_attr P (t_data c) key') (l[i := new]) = map (\<lambda>c. p_attr P (t_data c) key') l"
    using assms(4) i by (simp add: map_update list_update_same_conv)
  then show "distinct (map (\<lambda>c. p_attr P (t_data c) key') (l[i := new]))"
    using unique_keys_list [OF assms(1) f l] by simp
qed

lemma keys_here_data:
  "keys_here P t \<Longrightarrow> p_cls P d = p_cls P (t_data t) \<Longrightarrow> keys_here P (Tree d (t_children t))"
  by (simp add: keys_here_def tree_children_def)

lemma update_unique_keys:
  assumes "tree_update P data strict t path = Inr t'" and "unique_keys P t"
  shows "unique_keys P t'"
  using assms
proof (induction "length path" arbitrary: path t t' rule: less_induct)
  case less
  from less.prems(1) show ?case
  proof (cases rule: tree_update_cases)
    case here
    with less.prems(2) show ?thesis
      using keys_here_data [of P t data] unique_keys_iff [of P t] unique_keys_iff [of P t'] by simp
  next
    case (keyed key v l i c new)
    note k = keyed_child_parts [OF keyed(1)]
    have "unique_keys P new"
      using less.hyps [OF k(7) keyed(2)] unique_keys_child [OF less.prems(2) k(1,4)] .
    from unique_keys_replace [OF less.prems(2) keyed(1) this] keyed(3,4) k(5) show ?thesis by simp
  next
    case (single field l c new)
    have "c \<in> set l" using single(5) by (cases l) (auto simp: first_def)
    then have "unique_keys P new"
      using less.hyps [OF path_step_less(1) [OF single(1)] single(6)]
        unique_keys_child [OF less.prems(2) single(4)] by blast
    then show ?thesis using single(2,3,7) by (auto intro: unique_keys_put [OF less.prems(2)])
  qed
qed

lemma find_tree_None:
  "find_tree P l key v = Inl e \<Longrightarrow> v \<notin> (\<lambda>c. p_attr P (t_data c) key) ` set l"
  unfolding find_tree_def by (auto dest: find_by_key_Inl)

lemma add_unique_keys:
  assumes "tree_add P fuel data t path = Inr t'" and "unique_keys P t" and "clear_keeps_attr P"
    and "\<And>c. tree_of P fuel data = Inr c \<Longrightarrow> unique_keys P c"
  shows "unique_keys P t'"
  using assms(1,2)
proof (induction "length path" arbitrary: path t t' rule: less_induct)
  case less
  from less.prems(1) show ?case
  proof (cases rule: tree_add_cases)
    case (here field key l c e)
    have "p_attr P (t_data c) key \<notin> (\<lambda>c. p_attr P (t_data c) key) ` set l"
      using find_tree_None [OF here(7)] tree_of_attr [OF assms(3) here(8)] by simp
    moreover have "distinct (map (\<lambda>c. p_attr P (t_data c) key) l)"
      using unique_keys_list [OF less.prems(2) here(3,4,5,6)] .
    moreover have "unique_keys P d" if "d \<in> set (l @ [c])" for d
      using that assms(4) [OF here(8)] unique_keys_child [OF less.prems(2) here(6)] by auto
    ultimately show ?thesis
      using here(3,5,9) by (auto intro!: unique_keys_put [OF less.prems(2)])
  next
    case (keyed key v l i c new)
    note k = keyed_child_parts [OF keyed(1)]
    have "unique_keys P new"
      using less.hyps [OF k(7) keyed(2)] unique_keys_child [OF less.prems(2) k(1,4)] .
    from unique_keys_replace [OF less.prems(2) keyed(1) this] keyed(3) tree_add_data [OF keyed(2)]
    show ?thesis by simp
  qed
qed

lemma tree_remove_data: "tree_remove P t path = Inr t' \<Longrightarrow> t_data t' = t_data t"
  by (erule tree_remove_cases) simp_all

lemma set_remove_nth: "set (remove_nth i l) \<subseteq> set l"
  using set_take_subset [of i l] set_drop_subset [of "Suc i" l] by (auto simp: remove_nth_def)

lemma map_remove_nth: "map f (remove_nth i l) = remove_nth i (map f l)"
  by (simp add: remove_nth_def take_map drop_map)

lemma distinct_remove_nth: "distinct l \<Longrightarrow> distinct (remove_nth i l)"
  using set_take_disj_set_drop_if_distinct [of l i "Suc i"] by (simp add: remove_nth_def)

lemma remove_unique_keys:
  assumes "tree_remove P t path = Inr t'" and "unique_keys P t"
  shows "unique_keys P t'"
  using assms
proof (induction "length path" arbitrary: path t t' rule: less_induct)
  case less
  from less.prems(1) show ?case
  proof (cases rule: tree_remove_cases)
    case (here key v l i c)
    note k = keyed_child_parts [OF here(1)]
    show ?thesis
      unfolding here(3)
    proof (rule unique_keys_put [OF less.prems(2)])
      show "unique_keys P d" if "d \<in> set (remove_nth i l)" for d
        using that set_remove_nth [of i l] unique_keys_child [OF less.prems(2) k(1)] by blast
    qed (auto simp: map_remove_nth intro!: distinct_remove_nth unique_keys_list [OF less.prems(2)] k(1))
  next
    case (keyed key v l i c new)
    note k = keyed_child_parts [OF keyed(1)]
    have "unique_keys P new"
      using less.hyps [OF k(7) keyed(3)] unique_keys_child [OF less.prems(2) k(1,4)] .
    from unique_keys_replace [OF less.prems(2) keyed(1) this] keyed(4) tree_remove_data [OF keyed(3)]
    show ?thesis by simp
  qed
qed

text \<open>Under unique keys a removed child is gone: looking it up fails.\<close>

lemma distinct_map_not_in:
  "distinct (map f l) \<Longrightarrow> i < length l \<Longrightarrow> f (l ! i) \<notin> f ` set (remove_nth i l)"
proof -
  assume d: "distinct (map f l)" and i: "i < length l"
  have "map f l = map f (take i l) @ f (l ! i) # map f (drop (Suc i) l)"
    using id_take_nth_drop [OF i] by (metis list.simps(9) map_append)
  with d have "distinct (map f (take i l) @ f (l ! i) # map f (drop (Suc i) l))" by metis
  then have "f (l ! i) \<notin> set (map f (take i l)) \<union> set (map f (drop (Suc i) l))"
    by (simp only: distinct_append distinct.simps) auto
  then show ?thesis by (auto simp: remove_nth_def)
qed

lemma remove_then_get:
  assumes "tree_remove P t path = Inr t'" and "unique_keys P t" and "clean_path path"
  shows "tree_get P depth t' (lstrip_slash path) = Inl KeyError"
  using assms
proof (induction "length path" arbitrary: path t t' rule: less_induct)
  case less
  have clean: "clean_path (path_below path)" "lstrip_slash (path_below path) = path_below path"
    using less.prems(3) by (simp_all add: clean_lstrip clean_partition clean_step)
  from less.prems(1) show ?case
  proof (cases rule: tree_remove_cases)
    case (here key v l i c)
    note k = keyed_child_parts [OF here(1)]
    obtain field where f: "field_of P (p_cls P (t_data t)) (path_name path) = Inr field"
      "ct_container field" "ct_key field = Some key" "key_from_str field (path_key path) = Inr v"
      using here(1) by (auto simp: keyed_child_def)
    have "v \<notin> (\<lambda>c. p_attr P (t_data c) key) ` set (remove_nth i l)"
      using distinct_map_not_in [OF unique_keys_list [OF less.prems(2) f(1-3) k(1)] k(2)] k(3,5) by simp
    then have "find_tree P (remove_nth i l) key v = Inl KeyError"
      unfolding find_tree_def by (cases "find_by_key (\<lambda>c. p_attr P (t_data c) key) (remove_nth i l) v")
        (auto dest: find_by_key_Inl find_by_key_Inr)
    then show ?thesis
      using here f k by (subst tree_get.simps) (auto simp: Let_def keyed_child_def)
  next
    case (keyed key v l i c new)
    note k = keyed_child_parts [OF keyed(1)]
    have "tree_get P depth new (path_below path) = Inl KeyError"
      using less.hyps [OF k(7) keyed(3) unique_keys_child [OF less.prems(2) k(1,4)] clean(1)] clean(2)
      by simp
    moreover have "p_attr P (t_data new) key = v" using tree_remove_data [OF keyed(3)] k(5) by simp
    ultimately show ?thesis
      using tree_get_keyed [OF keyed_child_put [OF keyed(1)]] keyed(4) by simp
  qed
qed


section \<open>Adding twice\<close>

lemma tree_add_keyed:
  assumes "keyed_child P t path key v l i c"
  shows "tree_add P fuel data t path =
     rbind (tree_add P fuel data c (path_below path)) (\<lambda>new. Inr (put_children t (path_name path) (l[i := new])))"
  using assms by (subst tree_add.simps) (auto simp: keyed_child_def Let_def)

lemma add_twice:
  assumes "tree_add P fuel data t path = Inr t'" and "clear_keeps_attr P"
  shows "tree_add P fuel data t' path = Inl ValueError"
  using assms(1)
proof (induction "length path" arbitrary: path t t' rule: less_induct)
  case less
  from less.prems show ?case
  proof (cases rule: tree_add_cases)
    case (here field key l c e)
    have "find_tree P (l @ [c]) key (p_attr P data key) = Inr (length l, c)"
      using find_tree_snoc [OF here(7)] tree_of_attr [OF assms(2) here(8)] by blast
    with here show ?thesis by (subst tree_add.simps) (simp add: Let_def)
  next
    case (keyed key v l i c new)
    note k = keyed_child_parts [OF keyed(1)]
    have "keyed_child P t' path key v (l[i := new]) i new"
      using keyed_child_put [OF keyed(1)] keyed(3) tree_add_data [OF keyed(2)] k(5) by simp
    from tree_add_keyed [OF this] less.hyps [OF k(7) keyed(2)] show ?thesis by simp
  qed
qed

end
