(* ===== verification/ConfigMerge.thy ===== *)
theory ConfigMerge
  imports ConfigTree
begin

text \<open>
  \<^verbatim>\<open>voltha/core/config/merge_3way.py\<close> and the branching half of \<^verbatim>\<open>config_node.py\<close>: merging a
  transaction's branch of a node into its committed branch, recursively.

  Revisions are compared by identity, their number. A child that is merged is \<open>None\<close> in a dry run,
  as in the code, and so are the lists it is put into. The recursion over child nodes is bounded by
  fuel, standing for Python's recursion limit.
\<close>

section \<open>What changed\<close>

definition same_revs :: "'d rev list \<Rightarrow> 'd rev list \<Rightarrow> bool" where
  "same_revs l1 l2 \<longleftrightarrow> map r_id l1 = map r_id l2"

definition keymap :: "'d proto \<Rightarrow> string \<Rightarrow> 'd rev list \<Rightarrow> (pval, nat) od" where
  "keymap P key l = od_of (zip (map (\<lambda>r. p_attr P (r_data r) key) l) [0..<length l]) []"

record changes3 =
  keymap1 :: "(pval, nat) od"
  keymap2 :: "(pval, nat) od"
  added_keys :: "pval list"
  removed_keys :: "pval list"
  changed_keys :: "pval list"

definition hash_at :: "'d proto \<Rightarrow> 'd rev list \<Rightarrow> (pval, nat) od \<Rightarrow> pval \<Rightarrow> string" where
  "hash_at P l m k = (case od_get k m of None \<Rightarrow> [] | Some i \<Rightarrow> r_hash P (l ! i))"

definition analyze_changes :: "'d proto \<Rightarrow> 'd rev list \<Rightarrow> 'd rev list \<Rightarrow> string \<Rightarrow> changes3" where
  "analyze_changes P lst1 lst2 key =
     (let m1 = keymap P key lst1; m2 = keymap P key lst2 in
      \<lparr>keymap1 = m1, keymap2 = m2,
       added_keys = filter (\<lambda>k. od_get k m1 = None) (od_keys m2),
       removed_keys = filter (\<lambda>k. od_get k m2 = None) (od_keys m1),
       changed_keys = filter (\<lambda>k. od_get k m2 \<noteq> None \<and> hash_at P lst1 m1 k \<noteq> hash_at P lst2 m2 k)
                        (od_keys m1)\<rparr>)"

definition lookup_key :: "pval \<Rightarrow> (pval, nat) od \<Rightarrow> nat res" where
  "lookup_key k m = (case od_get k m of None \<Rightarrow> Inl KeyError | Some i \<Rightarrow> Inr i)"

definition the_rev :: "'d rev option \<Rightarrow> 'd rev res" where
  "the_rev x = (case x of None \<Rightarrow> Inl AttributeError | Some r \<Rightarrow> Inr r)"

definition nth_rev :: "'a list \<Rightarrow> nat \<Rightarrow> 'a res" where
  "nth_rev l i = (if i < length l then Inr (l ! i) else Inl IndexError)"

definition pop_rev :: "'a list \<Rightarrow> nat \<Rightarrow> ('a \<times> 'a list) res" where
  "pop_rev l i = (if i < length l then Inr (l ! i, remove_nth i l) else Inl IndexError)"


section \<open>Merging one field\<close>

type_synonym 'd merge_acc = "'d rev option list \<times> (callback_type \<times> 'd ctx) list"

text \<open>The destination did not change: take the source's list, and merge what it added or changed.\<close>

definition merge_at ::
  "('d rev \<Rightarrow> ('s, 'd rev option) st) \<Rightarrow> changes3 \<Rightarrow> pval \<Rightarrow> 'd rev option list
   \<Rightarrow> ('s, 'd rev option \<times> 'd rev option list) st" where
  "merge_at mc src key new_list =
     st_bind (st_res (\<lambda>_. rbind (lookup_key key (keymap2 src)) (\<lambda>idx.
                          rbind (nth_rev new_list idx) (\<lambda>x.
                          rbind (the_rev x) (\<lambda>r. Inr (idx, r)))))) (\<lambda>(idx, r).
     st_bind (mc r) (\<lambda>new. st_ret (new, new_list[idx := new])))"

definition ff_added ::
  "('d rev \<Rightarrow> ('s, 'd rev option) st) \<Rightarrow> changes3 \<Rightarrow> pval \<Rightarrow> 'd merge_acc \<Rightarrow> ('s, 'd merge_acc) st" where
  "ff_added mc src key acc =
     st_bind (merge_at mc src key (fst acc)) (\<lambda>(new, new_list).
     st_bind (st_res (\<lambda>_. the_rev new)) (\<lambda>r.
       st_ret (new_list, snd acc @ [(POST_ADD, CData (r_data r))])))"

definition ff_removed ::
  "'d rev list \<Rightarrow> changes3 \<Rightarrow> pval \<Rightarrow> 'd merge_acc \<Rightarrow> ('s, 'd merge_acc) st" where
  "ff_removed fork_list src key acc =
     st_bind (st_res (\<lambda>_. rbind (lookup_key key (keymap1 src)) (nth_rev fork_list))) (\<lambda>old.
       st_ret (fst acc, snd acc @ [(POST_REMOVE, CData (r_data old))]))"

definition ff_changed ::
  "('d rev \<Rightarrow> ('s, 'd rev option) st) \<Rightarrow> changes3 \<Rightarrow> pval \<Rightarrow> 'd merge_acc \<Rightarrow> ('s, 'd merge_acc) st" where
  "ff_changed mc src key acc =
     st_bind (merge_at mc src key (fst acc)) (\<lambda>(new, new_list). st_ret (new_list, snd acc))"

definition merge_ff ::
  "'d proto \<Rightarrow> ('d rev \<Rightarrow> ('s, 'd rev option) st) \<Rightarrow> string \<Rightarrow> 'd rev list \<Rightarrow> 'd rev list
   \<Rightarrow> ('s, 'd merge_acc) st" where
  "merge_ff P mc key fork_list src_list =
     (let src = analyze_changes P fork_list src_list key in
      st_bind (st_for (ff_added mc src) (added_keys src) (map Some src_list, [])) (\<lambda>a.
      st_bind (st_for (ff_removed fork_list src) (removed_keys src) a) (\<lambda>b.
      st_for (ff_changed mc src) (changed_keys src) b)))"

text \<open>Both sides changed: start from the destination's list and detect collisions key by key.\<close>

definition both_added ::
  "'d proto \<Rightarrow> ('d rev \<Rightarrow> ('s, 'd rev option) st) \<Rightarrow> changes3 \<Rightarrow> changes3 \<Rightarrow> 'd rev list \<Rightarrow> 'd rev list
   \<Rightarrow> pval \<Rightarrow> 'd merge_acc \<Rightarrow> ('s, 'd merge_acc) st" where
  "both_added P mc src dst src_list dst_list key acc =
     st_bind (st_res (\<lambda>_. rbind (lookup_key key (keymap2 src)) (nth_rev src_list))) (\<lambda>child_src_rev.
     if key \<in> set (added_keys dst) then
       st_bind (st_res (\<lambda>_. rbind (lookup_key key (keymap2 dst)) (nth_rev dst_list))) (\<lambda>child_dst_rev.
       if r_hash P child_dst_rev = r_hash P child_src_rev
       then st_bind (mc child_dst_rev) (\<lambda>_. st_ret acc)
       else st_raise MergeConflict)
     else
       st_bind (mc child_src_rev) (\<lambda>new.
       st_bind (st_res (\<lambda>_. the_rev new)) (\<lambda>r.
         st_ret (fst acc @ [new], snd acc @ [(POST_ADD, CData (r_data r))]))))"

definition both_changed ::
  "'d proto \<Rightarrow> ('d rev \<Rightarrow> ('s, 'd rev option) st) \<Rightarrow> changes3 \<Rightarrow> changes3 \<Rightarrow> 'd rev list \<Rightarrow> 'd rev list
   \<Rightarrow> pval \<Rightarrow> 'd merge_acc \<Rightarrow> ('s, 'd merge_acc) st" where
  "both_changed P mc src dst src_list dst_list key acc =
     (if key \<in> set (removed_keys dst) then st_raise MergeConflict
      else
        st_bind (st_res (\<lambda>_. rbind (lookup_key key (keymap2 src)) (nth_rev src_list))) (\<lambda>child_src_rev.
        st_bind (st_res (\<lambda>_. lookup_key key (keymap2 dst))) (\<lambda>dst_idx.
        st_bind (st_res (\<lambda>_. nth_rev dst_list dst_idx)) (\<lambda>child_dst_rev.
        if key \<in> set (changed_keys dst) \<and> r_hash P child_dst_rev = r_hash P child_src_rev
        then st_bind (mc child_src_rev) (\<lambda>_. st_ret acc)
        else if key \<in> set (changed_keys dst) \<and>
                r_config_hash P child_dst_rev \<noteq> r_config_hash P child_src_rev
        then st_raise MergeConflict
        else st_bind (mc child_src_rev) (\<lambda>new. st_ret ((fst acc)[dst_idx := new], snd acc))))))"

definition both_removed ::
  "changes3 \<Rightarrow> pval \<Rightarrow> 'd merge_acc \<Rightarrow> ('s, 'd merge_acc) st" where
  "both_removed dst key acc =
     (if key \<in> set (changed_keys dst) then st_raise MergeConflict
      else if key \<in> set (removed_keys dst) then st_ret acc
      else
        st_bind (st_res (\<lambda>_. rbind (lookup_key key (keymap2 dst)) (\<lambda>dst_idx.
                             rbind (pop_rev (fst acc) dst_idx) (\<lambda>(x, rest).
                             rbind (the_rev x) (\<lambda>old. Inr (old, rest)))))) (\<lambda>(old, rest).
          st_ret (rest, snd acc @ [(POST_REMOVE, CData (r_data old))])))"

definition merge_both ::
  "'d proto \<Rightarrow> ('d rev \<Rightarrow> ('s, 'd rev option) st) \<Rightarrow> string \<Rightarrow> 'd rev list \<Rightarrow> 'd rev list \<Rightarrow> 'd rev list
   \<Rightarrow> ('s, 'd merge_acc) st" where
  "merge_both P mc key fork_list src_list dst_list =
     (let src = analyze_changes P fork_list src_list key;
          dst = analyze_changes P fork_list dst_list key in
      st_bind (st_for (both_added P mc src dst src_list dst_list) (added_keys src)
                 (map Some dst_list, [])) (\<lambda>a.
      st_bind (st_for (both_changed P mc src dst src_list dst_list) (changed_keys src) a) (\<lambda>b.
      st_for (both_removed dst) (rev (removed_keys src)) b)))"

type_synonym 'd merge_state =
  "(string \<times> 'd rev option list) list \<times> (callback_type \<times> 'd ctx) list"

definition merge_field ::
  "'d proto \<Rightarrow> ('d rev \<Rightarrow> ('s, 'd rev option) st) \<Rightarrow> 'd rev \<Rightarrow> 'd rev \<Rightarrow> 'd rev
   \<Rightarrow> string \<times> child_type \<Rightarrow> 'd merge_state \<Rightarrow> ('s, 'd merge_state) st" where
  "merge_field P mc fork_rev src_rev dst_rev nf acc =
     (case nf of (name, field) \<Rightarrow>
      st_bind (st_res (\<lambda>_. rev_children fork_rev name)) (\<lambda>fork_list.
      st_bind (st_res (\<lambda>_. rev_children src_rev name)) (\<lambda>src_list.
      st_bind (st_res (\<lambda>_. rev_children dst_rev name)) (\<lambda>dst_list.
      if same_revs dst_list src_list then
        st_bind (st_map mc src_list) (\<lambda>_. st_ret acc)
      else
        (case ct_key field of
           None \<Rightarrow>
             if same_revs dst_list fork_list then
               st_bind (st_res (\<lambda>_. py_assert (\<not> same_revs src_list fork_list))) (\<lambda>_.
               st_bind (st_map mc src_list) (\<lambda>l.
                 st_ret (od_set name l (fst acc),
                         snd acc @ (if ct_container field then [(POST_LISTCHANGE, CField name)] else []))))
             else if \<not> same_revs src_list fork_list then st_raise MergeConflict
             else st_ret acc
         | Some key \<Rightarrow>
             st_bind (if same_revs dst_list fork_list then merge_ff P mc key fork_list src_list
                      else merge_both P mc key fork_list src_list dst_list)
               (\<lambda>(l, changes). st_ret (od_set name l (fst acc), snd acc @ changes)))))))"


section \<open>Merging a node\<close>

definition config_merge :: "'d proto \<Rightarrow> 'd rev \<Rightarrow> 'd rev \<Rightarrow> 'd rev \<Rightarrow> bool res" where
  "config_merge P fork_rev src_rev dst_rev =
     (if r_config_hash P dst_rev = r_config_hash P fork_rev
      then Inr (r_config_hash P dst_rev \<noteq> r_config_hash P src_rev)
      else if r_config_hash P dst_rev \<noteq> r_config_hash P src_rev then Inl MergeConflict
      else Inr True)"

definition all_revs :: "(string \<times> 'd rev option list) list \<Rightarrow> (string \<times> 'd rev list) list res" where
  "all_revs ch = py_map (\<lambda>(name, l). rbind (py_map the_rev l) (\<lambda>rs. Inr (name, rs))) ch"

definition merge_3way ::
  "('d, 'c) cenv \<Rightarrow> ('d rev \<Rightarrow> (('d, 'c) cstore, 'd rev option) st) \<Rightarrow> bool \<Rightarrow> 'd rev \<Rightarrow> 'd rev \<Rightarrow> 'd rev
   \<Rightarrow> (('d, 'c) cstore, 'd rev option \<times> (callback_type \<times> 'd ctx) list) st" where
  "merge_3way E mc dry_run fork_rev src_rev dst_rev =
     st_bind (st_res (\<lambda>_. config_merge (e_proto E) fork_rev src_rev dst_rev)) (\<lambda>config_changed.
     st_bind (st_res (\<lambda>_. fields_of (e_proto E) (p_cls (e_proto E) (r_data fork_rev)))) (\<lambda>fs.
     st_bind (st_for (merge_field (e_proto E) mc fork_rev src_rev dst_rev) fs
                (map (map_prod id (map Some)) (r_children dst_rev), [])) (\<lambda>(new_children, changes).
     if dry_run then st_ret (None, [])
     else
       st_bind (st_res (\<lambda>_. all_revs new_children)) (\<lambda>children.
       st_bind (update_all_children E (if config_changed then src_rev else dst_rev) children
                  (r_node dst_rev) (r_txid dst_rev)) (\<lambda>r.
         st_ret (Some r, changes @ (if config_changed then [(POST_UPDATE, CData (r_data r))] else [])))))))"

definition del_branch :: "nat \<Rightarrow> txid \<Rightarrow> (('d, 'c) cstore, unit) st" where
  "del_branch n tx s =
     (case od_get tx (n_branches (cs_nodes s ! n)) of
        None \<Rightarrow> (Inl KeyError, s)
      | Some b \<Rightarrow> (Inr (), set_node n (\<lambda>nd. nd\<lparr>n_branches := od_del tx (n_branches nd)\<rparr>) s))"

fun merge_txbranch ::
  "('d, 'c) cenv \<Rightarrow> nat \<Rightarrow> string \<Rightarrow> bool \<Rightarrow> nat \<Rightarrow> (('d, 'c) cstore, 'd rev option) st" where
  "merge_txbranch E 0 t dry_run n = st_raise RecursionError"
| "merge_txbranch E (Suc fuel) t dry_run n =
     st_bind (st_res (\<lambda>s. branch_of s n (Tx t))) (\<lambda>src_branch.
     st_bind (st_res (\<lambda>s. branch_of s n NoTx)) (\<lambda>dst_branch.
     st_bind (st_res (\<lambda>_. the_rev (b_origin src_branch))) (\<lambda>fork_rev.
     st_bind (st_res (\<lambda>_. latest_of src_branch)) (\<lambda>src_rev.
     st_bind (st_res (\<lambda>_. latest_of dst_branch)) (\<lambda>dst_rev.
     st_bind (merge_3way E (\<lambda>r. if r_txid r = Tx t then merge_txbranch E fuel t dry_run (r_node r)
                                else st_ret (Some r)) dry_run fork_rev src_rev dst_rev) (\<lambda>(rev, changes).
     if dry_run then st_ret rev
     else
       st_bind (st_res (\<lambda>_. the_rev rev)) (\<lambda>r.
       st_bind (make_latest E n NoTx r changes) (\<lambda>_.
       st_bind (del_branch n (Tx t)) (\<lambda>_. st_ret (Some r))))))))))"

end
