(* ===== verification/ConfigFrame.thy ===== *)
theory ConfigFrame
  imports ConfigMerge
begin

text \<open>
  What the operations of the configuration tree leave alone. A frame is a relation between the state
  before and after, graded by a number (how many callbacks may be announced, where that is counted);
  the locale \<open>store_frame\<close> says which primitive steps have to respect it, and shows that update, add
  and remove then respect it. The frames themselves are interpretations: proxies and types of nodes,
  the number of announcements, the committed branches while a transaction is under way, and the record
  of the nodes a transaction touched.
\<close>

section \<open>Frames\<close>

definition st_keeps :: "('s \<Rightarrow> 's \<Rightarrow> bool) \<Rightarrow> ('s, 'a) st \<Rightarrow> bool" where
  "st_keeps R m \<longleftrightarrow> (\<forall>s. R s (snd (m s)))"

lemma st_keepsI: "(\<And>s. R s (snd (m s))) \<Longrightarrow> st_keeps R m"
  by (simp add: st_keeps_def)

lemma st_keepsD: "st_keeps R m \<Longrightarrow> m s = (res, s') \<Longrightarrow> R s s'"
  by (metis snd_conv st_keeps_def)

locale frame =
  fixes R :: "nat \<Rightarrow> 's \<Rightarrow> 's \<Rightarrow> bool"
  assumes same: "R 0 s s"
    and comp: "R j s t \<Longrightarrow> R k t u \<Longrightarrow> R (j + k) s u"
    and weaken: "R j s t \<Longrightarrow> j \<le> k \<Longrightarrow> R k s t"
begin

lemma keeps_res: "st_keeps (R k) (st_res f)"
  by (simp add: st_keeps_def weaken [OF same])

lemma keeps_raise: "st_keeps (R k) (st_raise e)"
  by (simp add: st_keeps_def weaken [OF same])

lemma keeps_ret: "st_keeps (R k) (st_ret x)"
  by (simp add: st_keeps_def weaken [OF same])

lemma keeps_bind:
  assumes "st_keeps (R j) m" and "\<And>x. st_keeps (R k) (f x)"
  shows "st_keeps (R (j + k)) (st_bind m f)"
proof (rule st_keepsI)
  fix s
  obtain r s' where r: "m s = (r, s')" by (cases "m s")
  have "R j s s'" using st_keepsD [OF assms(1) r] .
  then show "R (j + k) s (snd (st_bind m f s))"
    using assms(2) r
    by (cases r) (auto simp: st_bind_def st_keeps_def intro: comp weaken)
qed

lemma keeps_then:
  "st_keeps (R 0) m \<Longrightarrow> (\<And>x. st_keeps (R k) (f x)) \<Longrightarrow> st_keeps (R k) (st_bind m f)"
  using keeps_bind [of 0 m k f] by simp

lemma keeps_before:
  "st_keeps (R k) m \<Longrightarrow> (\<And>x. st_keeps (R 0) (f x)) \<Longrightarrow> st_keeps (R k) (st_bind m f)"
  using keeps_bind [of k m 0 f] by simp

lemma keeps_map: "(\<And>x. st_keeps (R 0) (f x)) \<Longrightarrow> st_keeps (R 0) (st_map f xs)"
  by (induction xs) (simp_all add: keeps_ret keeps_then)

lemma keeps_for: "(\<And>x b. st_keeps (R 0) (f x b)) \<Longrightarrow> st_keeps (R 0) (st_for f xs b)"
  by (induction xs arbitrary: b) (simp_all add: keeps_ret keeps_then)

lemma keeps_weaken: "st_keeps (R j) m \<Longrightarrow> j \<le> k \<Longrightarrow> st_keeps (R k) m"
  by (auto simp: st_keeps_def intro: weaken)

lemmas keeps_reads = keeps_res keeps_raise keeps_ret

end

locale store_frame = frame R for R :: "nat \<Rightarrow> ('d, 'c) cstore \<Rightarrow> ('d, 'c) cstore \<Rightarrow> bool" +
  fixes E :: "('d, 'c) cenv" and tx :: txid
  assumes fin: "st_keeps (R 0) (finalize E r)"
    and latest: "st_keeps (R (length changes)) (make_latest E n tx r changes)"
    and branch: "st_keeps (R 0) (assure_branch tx n)"
    and new: "st_keeps (R 0) (mknode E fuel auto data)"
begin

lemma keeps_update_data: "st_keeps (R 0) (update_data E r data n t)"
  using fin by (simp add: st_keeps_def update_data_def)

lemma keeps_update_children: "st_keeps (R 0) (update_children E r name l n t)"
  using fin by (simp add: st_keeps_def update_children_def)

lemma keeps_replace_child:
  "st_keeps (R (length changes)) (replace_child E tx n b r name l changes)"
  unfolding replace_child_def
  by (intro keeps_then keeps_update_children keeps_before latest keeps_reads)

lemma keeps_replace_child1:
  "length changes \<le> Suc 0 \<Longrightarrow> st_keeps (R (Suc 0)) (replace_child E tx n b r name l changes)"
  by (rule keeps_weaken [OF keeps_replace_child])

lemma keeps_do_update: "st_keeps (R (Suc 0)) (do_update E tx data strict n)"
proof -
  have one: "st_keeps (R (Suc 0)) (make_latest E n tx r [c])" for r c
    using latest [of "[c]"] by simp
  show ?thesis
    unfolding do_update_def
    by (auto intro!: keeps_then [OF keeps_res] keeps_then [OF keeps_update_data] keeps_before [OF one]
        keeps_reads)
qed

lemma keeps_node_update: "st_keeps (R (Suc 0)) (node_update E tx data strict n path)"
proof (induction "length path" arbitrary: n path rule: less_induct)
  case less
  have child: "st_keeps (R 0) (replace_child E tx m b r name l [])" for m b r name l
    using keeps_replace_child [of "[]"] by simp
  show ?case
  proof (cases "lstrip_slash path = []")
    case True
    then show ?thesis
      by (subst node_update.simps) (simp add: keeps_then [OF branch keeps_do_update])
  next
    case False
    show ?thesis
      using False path_step_less [OF False, of "CHR ''/''" ] 
      by (subst node_update.simps)
        (auto simp: Let_def split: option.split intro!: keeps_then [OF branch] keeps_then [OF keeps_res]
          keeps_before [OF less.hyps] child keeps_reads)
  qed
qed

lemma keeps_node_add: "st_keeps (R (Suc 0)) (node_add E tx data n path)"
proof (induction "length path" arbitrary: n path rule: less_induct)
  case less
  have child: "st_keeps (R 0) (replace_child E tx m b r name l [])" for m b r name l
    using keeps_replace_child [of "[]"] by simp
  show ?case
  proof (cases "lstrip_slash path = []")
    case True
    then show ?thesis by (subst node_add.simps) (simp add: keeps_reads)
  next
    case False
    show ?thesis
      using False path_step_less [OF False, of "CHR ''/''"]
      by (subst node_add.simps)
        (auto simp: Let_def split: option.split sum.split intro!: keeps_then [OF branch] keeps_then [OF keeps_res]
          keeps_then [OF new] keeps_before [OF less.hyps] child keeps_replace_child1 keeps_reads)
  qed
qed

lemma keeps_node_remove: "st_keeps (R (Suc 0)) (node_remove E tx n path)"
proof (induction "length path" arbitrary: n path rule: less_induct)
  case less
  have child: "st_keeps (R 0) (replace_child E tx m b r name l [])" for m b r name l
    using keeps_replace_child [of "[]"] by simp
  show ?case
  proof (cases "lstrip_slash path = []")
    case True
    then show ?thesis by (subst node_remove.simps) (simp add: keeps_reads)
  next
    case False
    show ?thesis
      using False path_step_less [OF False, of "CHR ''/''"]
      by (subst node_remove.simps)
        (auto simp: Let_def split: option.split intro!: keeps_then [OF branch] keeps_then [OF keeps_res]
          keeps_before [OF less.hyps] child keeps_replace_child1 keeps_reads)
  qed
qed

end


section \<open>Making nodes touches new nodes only\<close>

lemma set_node_simps:
  "cs_nodes (set_node n f s) ! m =
     (if m = n \<and> n < length (cs_nodes s) then f (cs_nodes s ! n) else cs_nodes s ! m)"
  "length (cs_nodes (set_node n f s)) = length (cs_nodes s)"
  "cs_dirty (set_node n f s) = cs_dirty s"
  "cs_queue (set_node n f s) = cs_queue s"
  "cs_loading (set_node n f s) = cs_loading s"
  by (cases "n < length (cs_nodes s)") (auto simp: set_node_def nth_list_update list_update_beyond)

lemma set_node_simps2:
  "persist_root E r s = s\<lparr>cs_kv := cs_kv (persist_root E r s)\<rparr>"
  "cs_nodes (enqueue_announcements n ch s) = cs_nodes s"
  "cs_dirty (enqueue_announcements n ch s) = cs_dirty s"
  "cs_loading (enqueue_announcements n ch s) = cs_loading s"
  "length (cs_queue (enqueue_announcements n ch s)) = length (cs_queue s) + length ch"
  by (simp_all add: persist_root_def enqueue_announcements_def)

lemma persist_root_simps [simp]:
  "cs_nodes (persist_root E r s) = cs_nodes s" "cs_dirty (persist_root E r s) = cs_dirty s"
  "cs_queue (persist_root E r s) = cs_queue s" "cs_loading (persist_root E r s) = cs_loading s"
  by (simp_all add: persist_root_def)

lemmas node_simps = set_node_simps set_node_simps2(2-)

definition blank_from :: "nat \<Rightarrow> ('d, 'c) cstore \<Rightarrow> bool" where
  "blank_from N s \<longleftrightarrow>
     (\<forall>m. N \<le> m \<longrightarrow> m < length (cs_nodes s) \<longrightarrow>
        n_proxy (cs_nodes s ! m) = None \<and> fst ` set (n_branches (cs_nodes s ! m)) \<subseteq> {NoTx})"

definition adds_from :: "nat \<Rightarrow> nat \<Rightarrow> ('d, 'c) cstore \<Rightarrow> ('d, 'c) cstore \<Rightarrow> bool" where
  "adds_from N k s s' \<longleftrightarrow>
     (N \<le> length (cs_nodes s) \<longrightarrow>
        length (cs_nodes s) \<le> length (cs_nodes s') \<and>
        (\<forall>m < N. cs_nodes s' ! m = cs_nodes s ! m) \<and>
        cs_dirty s' = cs_dirty s \<and> cs_queue s' = cs_queue s \<and> cs_loading s' = cs_loading s \<and>
        (blank_from N s \<longrightarrow> blank_from N s'))"

interpretation af: frame "adds_from N" for N
  by unfold_locales (auto simp: adds_from_def)

lemma adds_from_finalize: "st_keeps (adds_from N 0) (finalize E r)"
  by (auto simp: st_keeps_def adds_from_def finalize_def blank_from_def)

lemma adds_from_latest: "N \<le> n \<Longrightarrow> st_keeps (adds_from N 0) (make_latest E n NoTx r [])"
  by (auto simp: st_keeps_def adds_from_def make_latest_def blank_from_def node_simps Let_def
      split: sum.splits)

lemma adds_from_branch: "N \<le> n \<Longrightarrow> st_keeps (adds_from N 0) (st_modify (add_branch n NoTx b))"
  by (auto simp: st_keeps_def adds_from_def add_branch_def blank_from_def node_simps)

lemma adds_from_init_keyed:
  "(\<And>v. st_keeps (adds_from N 0) (mk v)) \<Longrightarrow> st_keeps (adds_from N 0) (init_keyed mk attr vs seen)"
  by (induction vs arbitrary: seen)
    (auto intro!: af.keeps_then af.keeps_reads)

lemma adds_from_init_field:
  "(\<And>v. st_keeps (adds_from N 0) (mk v)) \<Longrightarrow> st_keeps (adds_from N 0) (init_field P mk nf acc)"
  by (auto simp: init_field_def split: prod.splits bool.splits option.splits
      intro!: af.keeps_then af.keeps_reads af.keeps_map adds_from_init_keyed)

lemma mknode_adds: "st_keeps (adds_from N 0) (mknode E fuel auto data)"
proof (induction fuel arbitrary: auto data)
  case 0
  then show ?case by (simp add: st_keeps_def af.same)
next
  case (Suc fuel)
  let ?cls = "p_cls (e_proto E) data"
  define rest where "rest n =
     st_bind (st_res (\<lambda>_. fields_of (e_proto E) ?cls)) (\<lambda>fs.
     st_bind (st_for (init_field (e_proto E) (mknode E fuel True)) fs ([], data)) (\<lambda>(children, local).
     st_bind (mkrev E n NoTx local children) (\<lambda>r.
     st_bind (st_modify (add_branch n NoTx (empty_branch NoTx None))) (\<lambda>_.
     st_bind (make_latest E n NoTx r []) (\<lambda>_. st_ret r)))))" for n
  have mk: "st_keeps (adds_from N 0) (mkrev E n t d ch)" for n t d ch
    using adds_from_finalize [of N E] by (simp add: st_keeps_def mkrev_def)
  have rest: "st_keeps (adds_from N 0) (rest n)" if "N \<le> n" for n
    unfolding rest_def using that
    by (auto intro!: af.keeps_then [OF af.keeps_res] af.keeps_then [OF af.keeps_for]
        af.keeps_then [OF mk] af.keeps_then [OF adds_from_branch] af.keeps_then [OF adds_from_latest]
        af.keeps_reads adds_from_init_field Suc.IH split: prod.split)
  have eq: "mknode E (Suc fuel) auto data = st_bind (alloc_node ?cls auto) rest"
    by (simp add: rest_def [abs_def])
  show ?case
  proof (rule st_keepsI)
    fix s :: "('a, 'b) cstore"
    obtain s1 where s1: "alloc_node ?cls auto s = (Inr (length (cs_nodes s)), s1)"
      and a: "adds_from N 0 s s1"
      by (auto simp: alloc_node_def adds_from_def nth_append blank_from_def)
    show "adds_from N 0 s (snd (mknode E (Suc fuel) auto data s))"
    proof (cases "N \<le> length (cs_nodes s)")
      case True
      then have "adds_from N 0 s1 (snd (rest (length (cs_nodes s)) s1))"
        using rest by (simp add: st_keeps_def)
      moreover have "mknode E (Suc fuel) auto data s = rest (length (cs_nodes s)) s1"
        unfolding eq by (rule st_bind_eval(1) [where m = "alloc_node ?cls auto", OF s1])
      ultimately show ?thesis using af.comp [OF a, of 0] by (simp del: mknode.simps)
    next
      case False
      then show ?thesis by (simp add: adds_from_def)
    qed
  qed
qed

text \<open>All nodes that exist before are untouched, and the new ones have no proxy and only a committed
  branch.\<close>

lemma mknode_new:
  assumes "mknode E fuel auto data s = (res, s')"
  shows "length (cs_nodes s) \<le> length (cs_nodes s')"
    and "m < length (cs_nodes s) \<Longrightarrow> cs_nodes s' ! m = cs_nodes s ! m"
    and "cs_dirty s' = cs_dirty s" and "cs_queue s' = cs_queue s"
    and "length (cs_nodes s) \<le> m \<Longrightarrow> m < length (cs_nodes s') \<Longrightarrow>
      n_proxy (cs_nodes s' ! m) = None \<and> fst ` set (n_branches (cs_nodes s' ! m)) \<subseteq> {NoTx}"
  using st_keepsD [OF mknode_adds [of "length (cs_nodes s)"] assms]
  by (auto simp: adds_from_def blank_from_def)


section \<open>Proxies and announcements\<close>

text \<open>Nodes keep their type and proxy, and at most \<open>k\<close> callbacks are announced.\<close>

definition tame :: "nat \<Rightarrow> ('d, 'c) cstore \<Rightarrow> ('d, 'c) cstore \<Rightarrow> bool" where
  "tame k s s' \<longleftrightarrow>
     length (cs_nodes s) \<le> length (cs_nodes s') \<and>
     (\<forall>m < length (cs_nodes s). n_proxy (cs_nodes s' ! m) = n_proxy (cs_nodes s ! m)) \<and>
     (\<forall>m. length (cs_nodes s) \<le> m \<longrightarrow> m < length (cs_nodes s') \<longrightarrow> n_proxy (cs_nodes s' ! m) = None) \<and>
     length (cs_queue s') \<le> length (cs_queue s) + k"

lemma tame_comp: "tame j s t \<Longrightarrow> tame k t u \<Longrightarrow> tame (j + k) s u"
  unfolding tame_def by (auto simp: not_less) (metis le_less_linear less_le_trans)+

lemma tame_nodes:
  "length (cs_nodes s') = length (cs_nodes s) \<Longrightarrow>
   (\<And>m. n_proxy (cs_nodes s' ! m) = n_proxy (cs_nodes s ! m)) \<Longrightarrow>
   length (cs_queue s') \<le> length (cs_queue s) + k \<Longrightarrow> tame k s s'"
  by (simp add: tame_def)

lemma tame_set_node:
  "(\<And>nd. n_proxy (f nd) = n_proxy nd) \<Longrightarrow> tame 0 s (set_node n f s)"
  by (rule tame_nodes) (auto simp: node_simps)

lemma tame_latest: "st_keeps (tame (length changes)) (make_latest E n tx r changes)"
  by (rule st_keepsI) (auto simp: make_latest_def node_simps Let_def split: sum.splits intro!: tame_nodes)

lemma tame_assure: "st_keeps (tame 0) (assure_branch tx n)"
  by (rule st_keepsI) (auto simp: assure_branch_def track_dirty_def mk_txbranch_node_def st_bind_def
      branch_of_def add_branch_def node_simps Let_def split: option.splits txid.splits intro!: tame_nodes)

lemma tame_mknode: "st_keeps (tame 0) (mknode E fuel auto data)"
proof (rule st_keepsI)
  fix s :: "('a, 'b) cstore"
  show "tame 0 s (snd (mknode E fuel auto data s))"
    using mknode_new [of E fuel auto data s "fst (mknode E fuel auto data s)" "snd (mknode E fuel auto data s)"]
    by (simp add: tame_def)
qed

interpretation tm: store_frame tame E tx for E tx
proof unfold_locales
  show "tame 0 s s" for s :: "('a, 'b) cstore" by (simp add: tame_def)
  show "tame k s t" if "tame j s t" "j \<le> k" for j k and s t :: "('a, 'b) cstore"
    using that by (auto simp: tame_def)
  show "st_keeps (tame 0) (finalize E r)" for r
    by (simp add: st_keeps_def finalize_def tame_def)
qed (fact tame_comp tame_latest tame_assure tame_mknode)+

text \<open>So no callback of type GET or PRE appears: a quiet store stays quiet.\<close>

lemma run_hooks_proxy: "n_proxy nd = n_proxy nd' \<Longrightarrow> run_hooks E nd = run_hooks E nd'"
  by (rule ext)+ (simp add: run_hooks_def)


section \<open>Transactions leave the committed branches alone\<close>

definition isolates :: "nat \<Rightarrow> ('d, 'c) cstore \<Rightarrow> ('d, 'c) cstore \<Rightarrow> bool" where
  "isolates k s s' \<longleftrightarrow>
     length (cs_nodes s) \<le> length (cs_nodes s') \<and>
     (\<forall>m < length (cs_nodes s).
        n_type (cs_nodes s' ! m) = n_type (cs_nodes s ! m) \<and>
        n_proxy (cs_nodes s' ! m) = n_proxy (cs_nodes s ! m) \<and>
        od_get NoTx (n_branches (cs_nodes s' ! m)) = od_get NoTx (n_branches (cs_nodes s ! m)))"

lemma isolates_same_len:
  "length (cs_nodes s') = length (cs_nodes s) \<Longrightarrow>
   (\<And>m. n_type (cs_nodes s' ! m) = n_type (cs_nodes s ! m) \<and>
        n_proxy (cs_nodes s' ! m) = n_proxy (cs_nodes s ! m) \<and>
        od_get NoTx (n_branches (cs_nodes s' ! m)) = od_get NoTx (n_branches (cs_nodes s ! m)))
   \<Longrightarrow> isolates k s s'"
  by (simp add: isolates_def)

lemma isolates_mknode: "st_keeps (isolates 0) (mknode E fuel auto data)"
proof (rule st_keepsI)
  fix s :: "('a, 'b) cstore"
  show "isolates 0 s (snd (mknode E fuel auto data s))"
    using mknode_new(1,2) [of E fuel auto data s "fst (mknode E fuel auto data s)" "snd (mknode E fuel auto data s)"]
    by (simp add: isolates_def)
qed

lemma isolates_assure: "st_keeps (isolates 0) (assure_branch (Tx t) n)"
  by (rule st_keepsI) (auto simp: assure_branch_def track_dirty_def mk_txbranch_node_def st_bind_def
      branch_of_def add_branch_def node_simps Let_def split: option.splits txid.splits
      intro!: isolates_same_len)

lemma isolates_latest: "st_keeps (isolates (length changes)) (make_latest E n (Tx t) r changes)"
  by (rule st_keepsI) (auto simp: make_latest_def node_simps Let_def split: sum.splits
      intro!: isolates_same_len)

interpretation iso: store_frame isolates E "Tx t" for E t
proof unfold_locales
  show "isolates 0 s s" for s :: "('a, 'b) cstore" by (simp add: isolates_def)
  show "isolates (j + k) s u" if "isolates j s t" "isolates k t u" for j k and s t u :: "('a, 'b) cstore"
    using that by (auto simp: isolates_def)
  show "isolates k s t" if "isolates j s t" "j \<le> k" for j k and s t :: "('a, 'b) cstore"
    using that by (auto simp: isolates_def)
  show "st_keeps (isolates 0) (finalize E r)" for r
    by (simp add: st_keeps_def finalize_def isolates_def)
qed (fact isolates_latest isolates_assure isolates_mknode)+


section \<open>The nodes a transaction touched are on record\<close>

definition tracked :: "string \<Rightarrow> ('d, 'c) cstore \<Rightarrow> bool" where
  "tracked t s \<longleftrightarrow>
     (\<forall>m < length (cs_nodes s). od_get (Tx t) (n_branches (cs_nodes s ! m)) \<noteq> None \<longrightarrow>
        (\<exists>d. od_get t (cs_dirty s) = Some d \<and> m \<in> set d))"

definition dirty_ok :: "string \<Rightarrow> ('d, 'c) cstore \<Rightarrow> bool" where
  "dirty_ok t s \<longleftrightarrow>
     (case od_get t (cs_dirty s) of
        None \<Rightarrow> False
      | Some d \<Rightarrow> distinct d \<and>
          list_all (\<lambda>m. m < length (cs_nodes s) \<and>
                        od_get (Tx t) (n_branches (cs_nodes s ! m)) \<noteq> None) d)"

definition keeps_tracked :: "string \<Rightarrow> nat \<Rightarrow> ('d, 'c) cstore \<Rightarrow> ('d, 'c) cstore \<Rightarrow> bool" where
  "keeps_tracked t k s s' \<longleftrightarrow> (tracked t s \<longrightarrow> tracked t s')"

lemma od_get_blank: "fst ` set d \<subseteq> {NoTx} \<Longrightarrow> od_get (Tx t) d = None"
  by (auto simp: od_get_None)

lemma tracked_mknode: "st_keeps (keeps_tracked t 0) (mknode E fuel auto data)"
proof (rule st_keepsI)
  fix s :: "('a, 'b) cstore"
  obtain res s' where eq: "mknode E fuel auto data s = (res, s')" by (cases "mknode E fuel auto data s")
  have "od_get (Tx t) (n_branches (cs_nodes s' ! m)) = None"
    if "length (cs_nodes s) \<le> m" "m < length (cs_nodes s')" for m
    using mknode_new(5) [OF eq that] by (simp add: od_get_blank)
  then have "tracked t s'" if "tracked t s"
    using that mknode_new(2,3) [OF eq] by (auto simp: tracked_def) (metis not_less option.distinct(1))
  then show "keeps_tracked t 0 s (snd (mknode E fuel auto data s))"
    by (simp add: eq keeps_tracked_def)
qed

lemma tracked_assure: "st_keeps (keeps_tracked t 0) (assure_branch tx n)"
  by (rule st_keepsI) (auto simp: assure_branch_def track_dirty_def mk_txbranch_node_def st_bind_def
      branch_of_def add_branch_def node_simps Let_def keeps_tracked_def tracked_def
      split: option.splits txid.splits if_splits)

lemma tracked_cong:
  "length (cs_nodes s') = length (cs_nodes s) \<Longrightarrow> cs_dirty s' = cs_dirty s \<Longrightarrow>
   (\<And>m. od_get (Tx t) (n_branches (cs_nodes s ! m)) = None \<Longrightarrow>
         od_get (Tx t) (n_branches (cs_nodes s' ! m)) = None) \<Longrightarrow> keeps_tracked t k s s'"
  unfolding keeps_tracked_def tracked_def by metis

lemma make_latest_nodes:
  assumes "branch_of s n tx = Inr b"
  shows "\<exists>b'. cs_nodes (snd (make_latest E n tx r changes s)) =
      cs_nodes (set_node n (\<lambda>nd. nd\<lparr>n_branches := od_set tx b' (n_branches nd)\<rparr>) s) \<and>
    cs_dirty (snd (make_latest E n tx r changes s)) = cs_dirty s"
  using assms
  by (intro exI [of _ "b\<lparr>b_latest := Some r,
        b_revs := (if od_get (r_hash (e_proto E) r) (b_revs b) = None
                   then od_set (r_hash (e_proto E) r) r (b_revs b) else b_revs b)\<rparr>"])
    (simp add: make_latest_def Let_def node_simps)

lemma tracked_latest: "st_keeps (keeps_tracked t (length changes)) (make_latest E n tx r changes)"
proof (rule st_keepsI)
  fix s :: "('a, 'b) cstore"
  show "keeps_tracked t (length changes) s (snd (make_latest E n tx r changes s))"
  proof (cases "branch_of s n tx")
    case (Inl e)
    then show ?thesis by (simp add: make_latest_def keeps_tracked_def)
  next
    case (Inr b)
    then have "od_get tx (n_branches (cs_nodes s ! n)) \<noteq> None"
      by (auto simp: branch_of_def split: option.splits)
    with make_latest_nodes [OF Inr, of E r changes] show ?thesis
      by (auto intro!: tracked_cong simp: node_simps)
  qed
qed

interpretation trk: store_frame "keeps_tracked t" E tx for t E tx
proof unfold_locales
  show "st_keeps (keeps_tracked t 0) (finalize E r)" for r
    by (simp add: st_keeps_def finalize_def keeps_tracked_def tracked_def)
qed (auto simp: keeps_tracked_def tracked_latest [unfolded keeps_tracked_def]
  intro: tracked_latest tracked_assure tracked_mknode)



section \<open>A dry run of a merge changes nothing\<close>

context frame
begin

lemma keeps_merge_at: "(\<And>r. st_keeps (R 0) (mc r)) \<Longrightarrow> st_keeps (R 0) (merge_at mc src key l)"
  unfolding merge_at_def by (auto intro!: keeps_then keeps_reads split: prod.split)

lemma keeps_merge_ff:
  assumes "\<And>r. st_keeps (R 0) (mc r)"
  shows "st_keeps (R 0) (merge_ff P mc key fork_list src_list)"
  unfolding merge_ff_def Let_def ff_added_def ff_removed_def ff_changed_def
  by (auto intro!: keeps_then keeps_for keeps_merge_at [OF assms] keeps_reads split: prod.split)

lemma keeps_merge_both:
  assumes "\<And>r. st_keeps (R 0) (mc r)"
  shows "st_keeps (R 0) (merge_both P mc key fork_list src_list dst_list)"
  unfolding merge_both_def Let_def both_added_def both_changed_def both_removed_def
  by (auto intro!: keeps_then keeps_for assms keeps_reads split: prod.split)

lemma keeps_merge_field:
  assumes "\<And>r. st_keeps (R 0) (mc r)"
  shows "st_keeps (R 0) (merge_field P mc fork_rev src_rev dst_rev nf acc)"
  unfolding merge_field_def
  by (auto intro!: keeps_then [OF keeps_res] keeps_then [OF keeps_map] keeps_then [OF keeps_merge_ff]
      keeps_then [OF keeps_merge_both] assms keeps_reads split: prod.split option.split)

end

interpretation pure: frame "\<lambda>k s s'. s' = s"
  by unfold_locales auto

lemma merge_3way_dry:
  assumes "\<And>r. st_keeps (\<lambda>s s'. s' = s) (mc r)"
  shows "st_keeps (\<lambda>s s'. s' = s) (merge_3way E mc True fork_rev src_rev dst_rev)"
  unfolding merge_3way_def
  by (auto intro!: pure.keeps_then [OF pure.keeps_res] pure.keeps_then [OF pure.keeps_for]
      pure.keeps_merge_field assms pure.keeps_reads split: prod.split)

lemma merge_dry_run: "st_keeps (\<lambda>s s'. s' = s) (merge_txbranch E fuel t True n)"
proof (induction fuel arbitrary: n)
  case 0
  then show ?case by (simp add: st_keeps_def)
next
  case (Suc fuel)
  have "st_keeps (\<lambda>s s'. s' = s) (if r_txid r = Tx t then merge_txbranch E fuel t True (r_node r)
      else st_ret (Some r))" for r
    by (simp add: Suc.IH pure.keeps_ret)
  note dry = merge_3way_dry [OF this]
  show ?case
    by (auto intro!: pure.keeps_then [OF pure.keeps_res] pure.keeps_then [OF dry] pure.keeps_reads
        split: prod.split)
qed

end
