(* ===== verification/ConfigRoot.thy ===== *)
theory ConfigRoot
  imports ConfigMerge
begin

text \<open>
  \<^verbatim>\<open>config_root.py\<close>, the rest of \<^verbatim>\<open>config_proxy.py\<close>, \<^verbatim>\<open>config_txn.py\<close>, tags and
  proxies of \<^verbatim>\<open>config_node.py\<close>, and loading of \<^verbatim>\<open>config_rev_persisted.py\<close>: the root of
  the tree with its transactions and deferred callbacks, and what clients of the tree see of it.

  The deferred (POST) callbacks may do anything to the store; what a callback does is the argument
  \<open>run\<close>. The loop that drains the queue is bounded by fuel, since a callback may enqueue more; out of
  fuel is the error \<open>RecursionError\<close>. A new transaction id is an argument, the value of
  \<^verbatim>\<open>uuid4\<close>.
\<close>

section \<open>Deferred callbacks\<close>

type_synonym ('d, 'c) runner = "'c \<Rightarrow> 'd ctx option \<Rightarrow> (('d, 'c) cstore, 'd ctx option) st"

definition run_announcement ::
  "('d, 'c) runner \<Rightarrow> nat \<times> callback_type \<times> 'd ctx \<Rightarrow> ('d, 'c) cstore \<Rightarrow> ('d, 'c) cstore" where
  "run_announcement run item s =
     (case item of (n, t, x) \<Rightarrow>
        (case n_proxy (cs_nodes s ! n) of
           None \<Rightarrow> s
         | Some px \<Rightarrow> snd (invoke_callbacks run (px_callbacks px) t (Some x) True s)))"

fun execute_deferred_callbacks :: "('d, 'c) runner \<Rightarrow> nat \<Rightarrow> (('d, 'c) cstore, unit) st" where
  "execute_deferred_callbacks run fuel s =
     (case cs_queue s of
        [] \<Rightarrow> (Inr (), s)
      | item # rest \<Rightarrow>
          (case fuel of
             0 \<Rightarrow> (Inl RecursionError, s)
           | Suc k \<Rightarrow>
               execute_deferred_callbacks run k (run_announcement run item (s\<lparr>cs_queue := rest\<rparr>))))"

declare execute_deferred_callbacks.simps [simp del]

text \<open>\<^verbatim>\<open>try: body finally: execute_deferred_callbacks()\<close>\<close>

definition finally_deferred ::
  "('d, 'c) runner \<Rightarrow> nat \<Rightarrow> (('d, 'c) cstore, 'a) st \<Rightarrow> (('d, 'c) cstore, 'a) st" where
  "finally_deferred run fuel body s =
     (case body s of (res, s1) \<Rightarrow>
        (case execute_deferred_callbacks run fuel s1 of
           (Inl e, s2) \<Rightarrow> (Inl e, s2) | (Inr _, s2) \<Rightarrow> (res, s2)))"

definition check_callback_queue :: "(('d, 'c) cstore, unit) st" where
  "check_callback_queue = st_res (\<lambda>s. py_assert (cs_queue s = []))"


section \<open>The operations of the root\<close>

definition check_dirty :: "txid \<Rightarrow> (('d, 'c) cstore, unit) st" where
  "check_dirty tx =
     st_res (\<lambda>s. case tx of
                   Tx t \<Rightarrow> (case od_get t (cs_dirty s) of None \<Rightarrow> Inl KeyError | Some _ \<Rightarrow> Inr ())
                 | _ \<Rightarrow> Inr ())"

definition root_op ::
  "('d, 'c) runner \<Rightarrow> nat \<Rightarrow> txid \<Rightarrow> (('d, 'c) cstore, 'd rev) st \<Rightarrow> (('d, 'c) cstore, 'd rev) st" where
  "root_op run fuel tx op =
     st_bind check_callback_queue
       (\<lambda>_. finally_deferred run fuel (st_bind (check_dirty tx) (\<lambda>_. op)))"

definition root_update ::
  "('d, 'c) cenv \<Rightarrow> ('d, 'c) runner \<Rightarrow> nat \<Rightarrow> string \<Rightarrow> 'd \<Rightarrow> bool \<Rightarrow> txid \<Rightarrow> (('d, 'c) cstore, 'd rev) st"
where
  "root_update E run fuel path data strict tx = root_op run fuel tx (node_update E tx data strict 0 path)"

definition root_add ::
  "('d, 'c) cenv \<Rightarrow> ('d, 'c) runner \<Rightarrow> nat \<Rightarrow> string \<Rightarrow> 'd \<Rightarrow> txid \<Rightarrow> (('d, 'c) cstore, 'd rev) st" where
  "root_add E run fuel path data tx = root_op run fuel tx (node_add E tx data 0 path)"

definition root_remove ::
  "('d, 'c) cenv \<Rightarrow> ('d, 'c) runner \<Rightarrow> nat \<Rightarrow> string \<Rightarrow> txid \<Rightarrow> (('d, 'c) cstore, 'd rev) st" where
  "root_remove E run fuel path tx = root_op run fuel tx (node_remove E tx 0 path)"

definition mk_txbranch :: "string \<Rightarrow> (('d, 'c) cstore, string) st" where
  "mk_txbranch t =
     st_bind (st_modify (\<lambda>s. s\<lparr>cs_dirty := od_set t [0] (cs_dirty s)\<rparr>)) (\<lambda>_.
     st_bind (mk_txbranch_node (Tx t) 0) (\<lambda>_. st_ret t))"

definition del_txbranch :: "string \<Rightarrow> (('d, 'c) cstore, unit) st" where
  "del_txbranch t =
     st_bind (st_res (\<lambda>s. case od_get t (cs_dirty s) of None \<Rightarrow> Inl KeyError | Some d \<Rightarrow> Inr d)) (\<lambda>dirty.
     st_bind (st_for (\<lambda>n _. del_branch n (Tx t)) dirty ()) (\<lambda>_.
     st_modify (\<lambda>s. s\<lparr>cs_dirty := od_del t (cs_dirty s)\<rparr>)))"

definition fold_txbranch ::
  "('d, 'c) cenv \<Rightarrow> ('d, 'c) runner \<Rightarrow> nat \<Rightarrow> string \<Rightarrow> (('d, 'c) cstore, unit) st" where
  "fold_txbranch E run fuel t s =
     (case merge_txbranch E (e_fuel E) t True 0 s of
        (Inl MergeConflict, s1) \<Rightarrow>
          (case del_txbranch t s1 of (Inl e, s2) \<Rightarrow> (Inl e, s2) | (Inr _, s2) \<Rightarrow> (Inl MergeConflict, s2))
      | (Inl e, s1) \<Rightarrow> (Inl e, s1)
      | (Inr _, s1) \<Rightarrow>
          finally_deferred run fuel
            (st_bind (merge_txbranch E (e_fuel E) t False 0) (\<lambda>_. st_ret ())) s1)"

text \<open>\<^verbatim>\<open>ConfigRoot.__init__\<close>: node 0 for the initial message, never pruned.\<close>

definition empty_store :: "(string, blob) od option \<Rightarrow> ('d, 'c) cstore" where
  "empty_store kv = \<lparr>cs_nodes = [], cs_next = 0, cs_dirty = [], cs_queue = [], cs_kv = kv,
                     cs_loading = False\<rparr>"

definition root_init :: "('d, 'c) cenv \<Rightarrow> 'd \<Rightarrow> (string, blob) od option \<Rightarrow> 'd rev res \<times> ('d, 'c) cstore" where
  "root_init E data kv = mknode E (e_fuel E) False data (empty_store kv)"


section \<open>Proxies\<close>

definition mk_proxy :: "string \<Rightarrow> bool \<Rightarrow> nat \<Rightarrow> (('d, 'c) cstore, nat) st" where
  "mk_proxy full_path exclusive n s =
     (case n_proxy (cs_nodes s ! n) of
        None \<Rightarrow>
          (Inr n, set_node n (\<lambda>nd. nd\<lparr>n_proxy := Some \<lparr>px_path = full_path, px_exclusive = exclusive,
                                                       px_callbacks = []\<rparr>\<rparr>) s)
      | Some px \<Rightarrow> if px_exclusive px then (Inl ValueError, s) else (Inr n, s))"

text \<open>\<^verbatim>\<open>_get_proxy\<close>: the node a path leads to, from the heads of the committed branches.\<close>

function proxy_node :: "('d, 'c) cenv \<Rightarrow> ('d, 'c) cstore \<Rightarrow> nat \<Rightarrow> string \<Rightarrow> nat res" where
  "proxy_node E s n path0 =
     (let path = lstrip_slash path0 in
      if path = [] then Inr n
      else
        let name = fst (partition_at CHR ''/'' path); path1 = snd (partition_at CHR ''/'' path) in
        rbind (latest_rev s n NoTx) (\<lambda>r.
        rbind (field_of (e_proto E) (n_type (cs_nodes s ! n)) name) (\<lambda>field.
        if ct_container field then
          (if path1 = [] then Inl ValueError
           else
             (case ct_key field of
                None \<Rightarrow> Inl ValueError
              | Some key \<Rightarrow>
                  rbind (key_from_str field (fst (partition_at CHR ''/'' path1))) (\<lambda>v.
                  rbind (rev_children r name) (\<lambda>children.
                  rbind (find_rev_by_key (e_proto E) children key v) (\<lambda>ir.
                    proxy_node E s (r_node (snd ir)) (snd (partition_at CHR ''/'' path1)))))))
        else
          rbind (rbind (rev_children r name) first) (\<lambda>child. proxy_node E s (r_node child) path1))))"
  by pat_completeness auto
termination proxy_node
  by (relation "measure (\<lambda>(E, s, n, path). length path)") (auto simp: path_step_less)

declare proxy_node.simps [simp del]

definition get_proxy :: "('d, 'c) cenv \<Rightarrow> string \<Rightarrow> bool \<Rightarrow> (('d, 'c) cstore, nat) st" where
  "get_proxy E path exclusive =
     st_bind (st_res (\<lambda>s. proxy_node E s 0 path)) (mk_proxy path exclusive)"

definition proxy_full_path :: "('d, 'c) cstore \<Rightarrow> nat \<Rightarrow> string \<Rightarrow> string res" where
  "proxy_full_path s n path =
     rbind (py_assert (path \<noteq> [] \<and> hd path = CHR ''/'')) (\<lambda>_.
     case n_proxy (cs_nodes s ! n) of
       None \<Rightarrow> Inl AttributeError
     | Some px \<Rightarrow> Inr (if path = ''/'' then px_path px else px_path px @ path))"

definition proxy_get ::
  "('d, 'c) cenv \<Rightarrow> ('d, 'c) cstore \<Rightarrow> nat \<Rightarrow> string \<Rightarrow> int \<Rightarrow> bool \<Rightarrow> txid \<Rightarrow> 'd got res" where
  "proxy_get E s n path depth deep tx = node_get E s n path None depth deep tx"

definition proxy_update ::
  "('d, 'c) cenv \<Rightarrow> ('d, 'c) runner \<Rightarrow> nat \<Rightarrow> nat \<Rightarrow> string \<Rightarrow> 'd \<Rightarrow> bool \<Rightarrow> txid
   \<Rightarrow> (('d, 'c) cstore, 'd rev) st" where
  "proxy_update E run fuel n path data strict tx =
     st_bind (st_res (\<lambda>s. proxy_full_path s n path))
       (\<lambda>full_path. root_update E run fuel full_path data strict tx)"

definition proxy_add ::
  "('d, 'c) cenv \<Rightarrow> ('d, 'c) runner \<Rightarrow> nat \<Rightarrow> nat \<Rightarrow> string \<Rightarrow> 'd \<Rightarrow> txid \<Rightarrow> (('d, 'c) cstore, 'd rev) st"
where
  "proxy_add E run fuel n path data tx =
     st_bind (st_res (\<lambda>s. proxy_full_path s n path))
       (\<lambda>full_path. root_add E run fuel full_path data tx)"

definition proxy_remove ::
  "('d, 'c) cenv \<Rightarrow> ('d, 'c) runner \<Rightarrow> nat \<Rightarrow> nat \<Rightarrow> string \<Rightarrow> txid \<Rightarrow> (('d, 'c) cstore, 'd rev) st" where
  "proxy_remove E run fuel n path tx =
     st_bind (st_res (\<lambda>s. proxy_full_path s n path)) (\<lambda>full_path. root_remove E run fuel full_path tx)"


section \<open>Transactions\<close>

record config_txn =
  ct_node :: nat
  ct_txid :: "string option"

definition open_transaction :: "nat \<Rightarrow> string \<Rightarrow> (('d, 'c) cstore, config_txn) st" where
  "open_transaction n uuid =
     st_bind (mk_txbranch uuid) (\<lambda>t. st_ret \<lparr>ct_node = n, ct_txid = Some t\<rparr>)"

definition open_txid :: "config_txn \<Rightarrow> string res" where
  "open_txid tx = (case ct_txid tx of None \<Rightarrow> Inl ClosedTransaction | Some t \<Rightarrow> Inr t)"

definition txn_get ::
  "('d, 'c) cenv \<Rightarrow> ('d, 'c) cstore \<Rightarrow> config_txn \<Rightarrow> string \<Rightarrow> int \<Rightarrow> bool \<Rightarrow> 'd got res" where
  "txn_get E s tx path depth deep =
     rbind (open_txid tx) (\<lambda>t. proxy_get E s (ct_node tx) path depth deep (Tx t))"

definition txn_update ::
  "('d, 'c) cenv \<Rightarrow> ('d, 'c) runner \<Rightarrow> nat \<Rightarrow> config_txn \<Rightarrow> string \<Rightarrow> 'd \<Rightarrow> bool
   \<Rightarrow> (('d, 'c) cstore, 'd rev) st" where
  "txn_update E run fuel tx path data strict =
     st_bind (st_res (\<lambda>_. open_txid tx))
       (\<lambda>t. proxy_update E run fuel (ct_node tx) path data strict (Tx t))"

definition txn_add ::
  "('d, 'c) cenv \<Rightarrow> ('d, 'c) runner \<Rightarrow> nat \<Rightarrow> config_txn \<Rightarrow> string \<Rightarrow> 'd \<Rightarrow> (('d, 'c) cstore, 'd rev) st"
where
  "txn_add E run fuel tx path data =
     st_bind (st_res (\<lambda>_. open_txid tx)) (\<lambda>t. proxy_add E run fuel (ct_node tx) path data (Tx t))"

definition txn_remove ::
  "('d, 'c) cenv \<Rightarrow> ('d, 'c) runner \<Rightarrow> nat \<Rightarrow> config_txn \<Rightarrow> string \<Rightarrow> (('d, 'c) cstore, 'd rev) st" where
  "txn_remove E run fuel tx path =
     st_bind (st_res (\<lambda>_. open_txid tx)) (\<lambda>t. proxy_remove E run fuel (ct_node tx) path (Tx t))"

text \<open>
  \<^verbatim>\<open>cancel\<close> and \<^verbatim>\<open>commit\<close> close the transaction object; cancelling a closed one looks up the
  dirty nodes of \<^verbatim>\<open>None\<close>. The closed object is the second component of the result.
\<close>

definition txn_cancel :: "config_txn \<Rightarrow> (('d, 'c) cstore, config_txn) st" where
  "txn_cancel tx =
     (case ct_txid tx of
        None \<Rightarrow> st_raise KeyError
      | Some t \<Rightarrow> st_bind (del_txbranch t) (\<lambda>_. st_ret (tx\<lparr>ct_txid := None\<rparr>)))"

definition txn_commit ::
  "('d, 'c) cenv \<Rightarrow> ('d, 'c) runner \<Rightarrow> nat \<Rightarrow> config_txn \<Rightarrow> ('d, 'c) cstore
   \<Rightarrow> unit res \<times> config_txn \<times> ('d, 'c) cstore" where
  "txn_commit E run fuel tx s =
     (let (res, s') = (case ct_txid tx of
                         None \<Rightarrow> (Inl KeyError, s) | Some t \<Rightarrow> fold_txbranch E run fuel t s)
      in (res, tx\<lparr>ct_txid := None\<rparr>, s'))"


section \<open>Tags\<close>

definition tag :: "string \<Rightarrow> string option \<Rightarrow> nat \<Rightarrow> (('d, 'c) cstore, unit) st" where
  "tag name hash n =
     st_bind (st_res (\<lambda>s. rbind (branch_of s n NoTx) (\<lambda>b.
                case hash of
                  None \<Rightarrow> latest_of b
                | Some h \<Rightarrow> (case od_get h (b_revs b) of None \<Rightarrow> Inl KeyError | Some r \<Rightarrow> Inr r)))) (\<lambda>r.
       st_modify (set_node n (\<lambda>nd. nd\<lparr>n_tags := od_set name r (n_tags nd)\<rparr>)))"

definition by_tag :: "('d, 'c) cstore \<Rightarrow> nat \<Rightarrow> string \<Rightarrow> 'd rev res" where
  "by_tag s n name =
     (case od_get name (n_tags (cs_nodes s ! n)) of None \<Rightarrow> Inl KeyError | Some r \<Rightarrow> Inr r)"

definition delete_tag :: "string \<Rightarrow> nat \<Rightarrow> (('d, 'c) cstore, unit) st" where
  "delete_tag name n =
     st_bind (st_res (\<lambda>s. by_tag s n name)) (\<lambda>_.
       st_modify (set_node n (\<lambda>nd. nd\<lparr>n_tags := od_del name (n_tags nd)\<rparr>)))"

definition delete_tags :: "string list \<Rightarrow> nat \<Rightarrow> (('d, 'c) cstore, unit) st" where
  "delete_tags names n = st_for (\<lambda>name _. delete_tag name n) names ()"

definition prune_untagged :: "('d, 'c) cenv \<Rightarrow> nat \<Rightarrow> (('d, 'c) cstore, unit) st" where
  "prune_untagged E n =
     st_bind (st_res (\<lambda>s. branch_of s n NoTx)) (\<lambda>b.
     st_bind (st_res (\<lambda>_. latest_of b)) (\<lambda>latest.
     st_modify (\<lambda>s.
       let keep = map (\<lambda>(k, r). r_hash (e_proto E) r) (n_tags (cs_nodes s ! n)) @ [r_hash (e_proto E) latest];
           b' = b\<lparr>b_revs := filter (\<lambda>(h, r). h \<in> set keep) (b_revs b)\<rparr>
       in set_node n (\<lambda>nd. nd\<lparr>n_branches := od_set NoTx b' (n_branches nd)\<rparr>) s)))"

text \<open>\<^verbatim>\<open>diff\<close>: no difference, or the two messages \<^verbatim>\<open>jsonpatch\<close> compares.\<close>

definition diff ::
  "('d, 'c) cenv \<Rightarrow> ('d, 'c) cstore \<Rightarrow> nat \<Rightarrow> string \<Rightarrow> string option \<Rightarrow> txid \<Rightarrow> ('d \<times> 'd) option res" where
  "diff E s n hash1 hash2 tx =
     rbind (branch_of s n tx) (\<lambda>b.
     rbind (case od_get hash1 (b_revs b) of None \<Rightarrow> Inl KeyError | Some r \<Rightarrow> Inr r) (\<lambda>r1.
     rbind (case hash2 of
              None \<Rightarrow> latest_of b
            | Some h \<Rightarrow> if h = [] then latest_of b
                        else (case od_get h (b_revs b) of None \<Rightarrow> Inl KeyError | Some r \<Rightarrow> Inr r)) (\<lambda>r2.
       Inr (if r_hash (e_proto E) r1 = r_hash (e_proto E) r2 then None
            else Some (r_data r1, r_data r2)))))"

definition diff_by_tag :: "('d, 'c) cenv \<Rightarrow> ('d, 'c) cstore \<Rightarrow> nat \<Rightarrow> string \<Rightarrow> string \<Rightarrow> ('d \<times> 'd) option res"
where
  "diff_by_tag E s n tag1 tag2 =
     rbind (by_tag s n tag1) (\<lambda>r1. rbind (by_tag s n tag2) (\<lambda>r2.
       diff E s n (r_hash (e_proto E) r1) (Some (r_hash (e_proto E) r2)) NoTx))"


section \<open>Loading\<close>

definition load_config :: "('d, 'c) cenv \<Rightarrow> (string, blob) od \<Rightarrow> string \<Rightarrow> string \<Rightarrow> 'd res" where
  "load_config E kv cls config_hash =
     (case od_get config_hash kv of
        Some (DataBlob b) \<Rightarrow> p_parse (e_proto E) cls b
      | Some _ \<Rightarrow> Inl OtherException
      | None \<Rightarrow> Inl KeyError)"

definition kv_of :: "('d, 'c) cstore \<Rightarrow> (string, blob) od res" where
  "kv_of s = (case cs_kv s of None \<Rightarrow> Inl TypeError | Some kv \<Rightarrow> Inr kv)"

definition load_blob :: "(string, blob) od \<Rightarrow> string \<Rightarrow> ((string \<times> string list) list \<times> string) res" where
  "load_blob kv h =
     (case od_get h kv of
        Some (RevBlob children config) \<Rightarrow> Inr (children, config)
      | Some _ \<Rightarrow> Inl OtherException
      | None \<Rightarrow> Inl KeyError)"

definition load_field ::
  "(string \<Rightarrow> string \<Rightarrow> (('d, 'c) cstore, 'd rev) st) \<Rightarrow> (string \<times> string list) list \<Rightarrow> string \<times> child_type
   \<Rightarrow> (string \<times> 'd rev list) list \<Rightarrow> (('d, 'c) cstore, (string \<times> 'd rev list) list) st" where
  "load_field ld hashes nf children =
     (case nf of (name, meta) \<Rightarrow>
        st_bind (st_res (\<lambda>_. case od_get name hashes of None \<Rightarrow> Inl KeyError | Some l \<Rightarrow> Inr l)) (\<lambda>hs.
        st_bind (st_map (ld (ct_type meta)) hs) (\<lambda>revs. st_ret (od_set name revs children))))"

text \<open>
  \<^verbatim>\<open>load_latest\<close> of a node whose type is known, and the loading of its revision. The new branch
  is \<^verbatim>\<open>ConfigBranch(self, self._auto_prune)\<close>: the flag lands in the parameter \<^verbatim>\<open>txid\<close>.
\<close>

fun load_latest :: "('d, 'c) cenv \<Rightarrow> nat \<Rightarrow> nat \<Rightarrow> string \<Rightarrow> (('d, 'c) cstore, 'd rev) st" where
  "load_latest E 0 n latest_hash = st_raise RecursionError"
| "load_latest E (Suc fuel) n latest_hash =
     st_bind (st_res kv_of) (\<lambda>kv.
     st_bind (st_res (\<lambda>s. Inr (n_type (cs_nodes s ! n), n_auto_prune (cs_nodes s ! n)))) (\<lambda>(cls, auto_prune).
     st_bind (st_res (\<lambda>_. load_blob kv latest_hash)) (\<lambda>(hashes, config_hash).
     st_bind (st_res (\<lambda>_. load_config E kv cls config_hash)) (\<lambda>data.
     st_bind (st_res (\<lambda>_. fields_of (e_proto E) cls)) (\<lambda>fs.
     st_bind (st_for (load_field (\<lambda>child_cls h.
                        st_bind (alloc_node child_cls True) (\<lambda>m. load_latest E fuel m h)) hashes) fs []) (\<lambda>children.
     st_bind (mkrev E n (TxFlag auto_prune) data children) (\<lambda>r.
     st_bind (st_modify (add_branch n NoTx (empty_branch (TxFlag auto_prune) None))) (\<lambda>_.
     st_bind (make_latest E n NoTx r []) (\<lambda>_. st_ret r)))))))))"

definition load_from_persistence :: "('d, 'c) cenv \<Rightarrow> (('d, 'c) cstore, unit) st" where
  "load_from_persistence E =
     st_bind (st_modify (\<lambda>s. s\<lparr>cs_loading := True\<rparr>)) (\<lambda>_.
     st_bind (st_res kv_of) (\<lambda>kv.
     st_bind (st_res (\<lambda>_. case od_get ''root'' kv of
                            Some (RootBlob latest tags) \<Rightarrow>
                              if tags \<noteq> [] then Inl NotImplementedError else Inr latest
                          | Some _ \<Rightarrow> Inl OtherException
                          | None \<Rightarrow> Inl KeyError)) (\<lambda>latest.
     st_bind (load_latest E (e_fuel E) 0 latest) (\<lambda>_.
     st_modify (\<lambda>s. s\<lparr>cs_loading := False\<rparr>)))))"

text \<open>\<^verbatim>\<open>ConfigRoot.load\<close>: build the root on a throw-away store, then load from the real one.\<close>

definition root_load :: "('d, 'c) cenv \<Rightarrow> 'd \<Rightarrow> (string, blob) od \<Rightarrow> unit res \<times> ('d, 'c) cstore" where
  "root_load E root_msg kv =
     (case root_init E root_msg (Some []) of
        (Inl e, s) \<Rightarrow> (Inl e, s)
      | (Inr _, s) \<Rightarrow> load_from_persistence E (s\<lparr>cs_kv := Some kv\<rparr>))"

end
