(* ===== verification/ConfigStore.thy ===== *)
theory ConfigStore
  imports ConfigGrow ConfigLaws ConfigFrame ConfigRoot
begin

text \<open>
  The committed configuration as its clients see it: the operations of \<^verbatim>\<open>ConfigRoot\<close> with
  their deferred callbacks implement the specification on trees. The locale \<open>config_store\<close> is the
  interface: a state with a content, and operations that read and change it as the specification
  says; what clients rely on is proved from it once, and the root's operations are its interpretation.
\<close>

section \<open>The interface\<close>

locale config_store =
  fixes P :: "'d proto" and fuel :: nat
    and inv :: "'s \<Rightarrow> bool"
    and content :: "'s \<Rightarrow> 'd tree res"
    and get :: "string \<Rightarrow> int \<Rightarrow> 's \<Rightarrow> 'd got res"
    and upd :: "string \<Rightarrow> 'd \<Rightarrow> bool \<Rightarrow> ('s, 'r) st"
    and add :: "string \<Rightarrow> 'd \<Rightarrow> ('s, 'r) st"
    and rem :: "string \<Rightarrow> ('s, 'r) st"
  assumes has_content: "inv s \<Longrightarrow> \<exists>t. content s = Inr t"
    and get_law: "inv s \<Longrightarrow> content s = Inr t \<Longrightarrow>
      get path depth s = tree_get P depth t (lstrip_slash path)"
    and upd_law: "inv s \<Longrightarrow> content s = Inr t \<Longrightarrow> detects P data strict t path \<Longrightarrow>
      (case upd path data strict s of
         (Inl e, s') \<Rightarrow> tree_update P data strict t path = Inl e \<and> content s' = Inr t
       | (Inr r, s') \<Rightarrow> tree_update P data strict t path = content s' \<and> inv s')"
    and add_law: "inv s \<Longrightarrow> content s = Inr t \<Longrightarrow>
      (case add path data s of
         (Inl e, s') \<Rightarrow> tree_add P fuel data t path = Inl e \<and> content s' = Inr t
       | (Inr r, s') \<Rightarrow> tree_add P fuel data t path = content s' \<and> inv s')"
    and rem_law: "inv s \<Longrightarrow> content s = Inr t \<Longrightarrow>
      (case rem path s of
         (Inl e, s') \<Rightarrow> tree_remove P t path = Inl e \<and> content s' = Inr t
       | (Inr r, s') \<Rightarrow> tree_remove P t path = content s' \<and> inv s')"
begin

lemma updated_reads:
  assumes "inv s'" and "tree_update P data strict t path = content s'" and "clean_path path"
  shows "get path 0 s' = Inr (One (Some (CData data)))"
proof -
  obtain t' where "content s' = Inr t'" using has_content assms(1) by blast
  then show ?thesis using update_then_get [of P data strict t path t'] assms get_law by simp
qed

lemma read_back:
  assumes "inv s" and "content s = Inr t" and "detects P data strict t path" and "clean_path path"
    and "upd path data strict s = (Inr r, s')"
  shows "get path 0 s' = Inr (One (Some (CData data)))"
  using upd_law [OF assms(1-3)] assms(4,5) updated_reads [of s' data strict t path] by simp

lemma added_reads:
  assumes "inv s'" and "tree_add P fuel data t path = content s'"
    and "clean_path path" and "clear_keeps_attr P" and "k \<noteq> []" and "CHR ''/'' \<notin> set k"
    and "tree_field P t path = Inr f" and "ct_key f = Some key"
    and "key_from_str f k = Inr (p_attr P data key)"
  shows "\<exists>d. get (path @ CHR ''/'' # k) 0 s' = Inr (One (Some (CData d))) \<and> (\<forall>a. p_attr P d a = p_attr P data a)"
proof -
  obtain t' where t': "content s' = Inr t'" using has_content assms(1) by blast
  with assms(2) have "tree_add P fuel data t path = Inr t'" by simp
  from add_then_get [OF this assms(3-), of 0] obtain c where c: "tree_of P fuel data = Inr c"
    "tree_get P 0 t' (lstrip_slash (path @ CHR ''/'' # k)) = rbind (tree_read P c 0) (\<lambda>d. Inr (One (Some (CData d))))"
    by blast
  moreover have "tree_read P c 0 = Inr (t_data c)" by (cases c) simp
  ultimately show ?thesis
    using get_law [OF assms(1) t'] tree_of_attr [OF assms(4) c(1)] by auto
qed

lemma undo_add:
  assumes "inv s" and "content s = Inr t" and "add path data s = (Inr r, s')"
    and "clean_path path" and "clear_keeps_attr P" and "k \<noteq> []" and "CHR ''/'' \<notin> set k"
    and "tree_field P t path = Inr f" and "ct_key f = Some key"
    and "key_from_str f k = Inr (p_attr P data key)"
  shows "\<exists>r' s''. rem (path @ CHR ''/'' # k) s' = (Inr r', s'') \<and> content s'' = content s"
proof -
  from add_law [OF assms(1,2), where path = path and data = data] assms(3)
  have a: "tree_add P fuel data t path = content s'" "inv s'" by simp_all
  then obtain t' where t': "content s' = Inr t'" using has_content by blast
  with add_then_remove [of P fuel data t path t'] a assms(4-)
  have "tree_remove P t' (path @ CHR ''/'' # k) = Inr t" by auto
  with rem_law [OF a(2) t', where path = "path @ CHR ''/'' # k"] show ?thesis
    by (cases "rem (path @ CHR ''/'' # k) s'") (auto simp: assms(2) split: sum.splits)
qed

lemma get_added:
  assumes "inv s" and "content s = Inr t" and "add path data s = (Inr r, s')"
    and "clean_path path" and "clear_keeps_attr P" and "k \<noteq> []" and "CHR ''/'' \<notin> set k"
    and "tree_field P t path = Inr f" and "ct_key f = Some key"
    and "key_from_str f k = Inr (p_attr P data key)"
  shows "\<exists>d. get (path @ CHR ''/'' # k) 0 s' = Inr (One (Some (CData d))) \<and> (\<forall>a. p_attr P d a = p_attr P data a)"
  using add_law [OF assms(1,2), where path = path and data = data] assms(3) added_reads [OF _ _ assms(4-)] by simp

lemma add_once:
  assumes "inv s" and "content s = Inr t" and "add path data s = (Inr r, s')" and "clear_keeps_attr P"
  shows "\<exists>s''. add path data s' = (Inl ValueError, s'') \<and> content s'' = content s'"
proof -
  from add_law [OF assms(1,2), where path = path and data = data] assms(3)
  have a: "tree_add P fuel data t path = content s'" "inv s'" by simp_all
  then obtain t' where t': "content s' = Inr t'" using has_content by blast
  with a add_twice [OF _ assms(4)] have "tree_add P fuel data t' path = Inl ValueError" by simp
  with add_law [OF a(2) t', where path = path and data = data] t' show ?thesis
    by (cases "add path data s'") (auto split: sum.splits dest: has_content)
qed

lemma removed_is_gone:
  assumes "inv s" and "content s = Inr t" and "unique_keys P t" and "clean_path path"
    and "rem path s = (Inr r, s')"
  shows "get path depth s' = Inl KeyError"
proof -
  from rem_law [OF assms(1,2), where path = path] assms(5)
  have a: "tree_remove P t path = content s'" "inv s'" by simp_all
  then obtain t' where "content s' = Inr t'" using has_content by blast
  with a remove_then_get [of P t path t' depth] assms(3,4) get_law [OF a(2)] show ?thesis by simp
qed

end


section \<open>The committed configuration\<close>

definition committed :: "('d, 'c) cstore \<Rightarrow> 'd tree res" where
  "committed s = rbind (latest_rev s 0 NoTx) (\<lambda>r. Inr (erase r))"

text \<open>Deferred callbacks that observe: they neither change the tree nor announce changes.\<close>

definition observing :: "('d, 'c) runner \<Rightarrow> bool" where
  "observing run \<longleftrightarrow>
     (\<forall>c x s. cs_nodes (snd (run c x s)) = cs_nodes s \<and> cs_queue (snd (run c x s)) = cs_queue s \<and>
        cs_dirty (snd (run c x s)) = cs_dirty s)"

definition root_ok :: "'d proto \<Rightarrow> ('d, 'c) cstore \<Rightarrow> bool" where
  "root_ok P s \<longleftrightarrow> (\<exists>r. latest_rev s 0 NoTx = Inr r \<and> r_node r = 0 \<and> coh P s r)"

definition store_ok :: "('d, 'c) cenv \<Rightarrow> ('d, 'c) runner \<Rightarrow> nat \<Rightarrow> ('d, 'c) cstore \<Rightarrow> bool" where
  "store_ok E run fuel s \<longleftrightarrow>
     observing run \<and> 0 < fuel \<and> clear_keeps_class (e_proto E) \<and>
     root_ok (e_proto E) s \<and> quiet E s \<and> cs_queue s = []"

lemma observing_invoke:
  assumes "observing run"
  shows "cs_nodes (snd (invoke_callbacks run cbs t x p s)) = cs_nodes s \<and>
    cs_queue (snd (invoke_callbacks run cbs t x p s)) = cs_queue s \<and>
    cs_dirty (snd (invoke_callbacks run cbs t x p s)) = cs_dirty s"
proof -
  have "cs_nodes (snd (invoke_list run p cs x s)) = cs_nodes s \<and>
    cs_queue (snd (invoke_list run p cs x s)) = cs_queue s \<and>
    cs_dirty (snd (invoke_list run p cs x s)) = cs_dirty s" for cs
  proof (induction cs arbitrary: x s)
    case (Cons c cs)
    obtain r s1 where r: "run c x s = (r, s1)" by (cases "run c x s")
    then have "cs_nodes s1 = cs_nodes s" "cs_queue s1 = cs_queue s" "cs_dirty s1 = cs_dirty s"
      using assms by (metis observing_def snd_conv)+
    with Cons.IH [of x s1] Cons.IH [of _ s1] show ?case by (cases r; cases p) (auto simp: r)
  qed simp
  then show ?thesis by (simp add: invoke_callbacks_def)
qed

lemma observing_announcement:
  assumes "observing run"
  shows "cs_nodes (run_announcement run item s) = cs_nodes s"
    and "cs_queue (run_announcement run item s) = cs_queue s"
    and "cs_dirty (run_announcement run item s) = cs_dirty s"
  using observing_invoke [OF assms]
  by (auto simp: run_announcement_def split: prod.split option.split)

lemma observing_drain:
  assumes "observing run" and "length (cs_queue s) \<le> fuel"
  shows "\<exists>s'. execute_deferred_callbacks run fuel s = (Inr (), s') \<and> cs_nodes s' = cs_nodes s \<and>
    cs_queue s' = [] \<and> cs_dirty s' = cs_dirty s"
  using assms(2)
proof (induction fuel arbitrary: s)
  case 0
  then show ?case by (simp add: execute_deferred_callbacks.simps [of run 0])
next
  case (Suc k)
  show ?case
  proof (cases "cs_queue s")
    case Nil
    then show ?thesis by (simp add: execute_deferred_callbacks.simps [of run "Suc k"])
  next
    case (Cons item rest)
    let ?s = "run_announcement run item (s\<lparr>cs_queue := rest\<rparr>)"
    have "cs_nodes ?s = cs_nodes s" "cs_queue ?s = rest" "cs_dirty ?s = cs_dirty s"
      using observing_announcement [OF assms(1), of item "s\<lparr>cs_queue := rest\<rparr>"] by simp_all
    moreover have "length (cs_queue ?s) \<le> k" using calculation(2) Suc.prems Cons by simp
    ultimately show ?thesis
      using Suc.IH [of ?s] Cons by (simp add: execute_deferred_callbacks.simps [of run "Suc k"])
  qed
qed

lemma quiet_tame:
  assumes "quiet E s" and "tame k s s'"
  shows "quiet E s'"
  unfolding quiet_def
proof (intro ballI allI)
  fix nd x
  assume "nd \<in> set (cs_nodes s')"
  then obtain m where m: "m < length (cs_nodes s')" "nd = cs_nodes s' ! m" by (auto simp: in_set_conv_nth)
  show "run_hooks E nd GET x = Inr (Some x) \<and>
      (\<forall>t \<in> {PRE_UPDATE, PRE_ADD, PRE_REMOVE}. \<exists>y. run_hooks E nd t x = Inr y)"
  proof (cases "m < length (cs_nodes s)")
    case True
    then have "run_hooks E nd = run_hooks E (cs_nodes s ! m)"
      using assms(2) m by (intro run_hooks_proxy) (simp add: tame_def)
    with assms(1) True show ?thesis by (simp add: quiet_def)
  next
    case False
    then have "n_proxy nd = None" using assms(2) m by (simp add: tame_def)
    then show ?thesis by (simp add: run_hooks_def)
  qed
qed

lemma latest_rev_cong: "cs_nodes s' = cs_nodes s \<Longrightarrow> latest_rev s' n tx = latest_rev s n tx"
  by (simp add: latest_rev_def branch_of_def)

lemma coh_cong: "cs_nodes s' = cs_nodes s \<Longrightarrow> coh P s' r = coh P s r"
  by (simp add: coh_def head_def)

lemma latest_rev_same:
  "cs_nodes s' ! n = cs_nodes s ! n \<Longrightarrow> latest_rev s' n tx = latest_rev s n tx"
  by (simp add: latest_rev_def branch_of_def)

lemma store_ok_cong:
  "cs_nodes s' = cs_nodes s \<Longrightarrow> cs_queue s' = [] \<Longrightarrow> root_ok (e_proto E) s \<Longrightarrow> quiet E s \<Longrightarrow>
   observing run \<Longrightarrow> 0 < fuel \<Longrightarrow> clear_keeps_class (e_proto E) \<Longrightarrow> store_ok E run fuel s'"
  unfolding store_ok_def root_ok_def quiet_def using latest_rev_cong [of s' s] coh_cong [of s' s] by simp

text \<open>An operation on the root node, then the deferred callbacks.\<close>

lemma root_op_lift:
  assumes ok: "store_ok E run fuel s" and "st_keeps (tame (Suc 0)) cop"
    and ref: "\<And>r. latest_rev s 0 NoTx = Inr r \<Longrightarrow> r_node r = 0 \<Longrightarrow> coh (e_proto E) s r \<Longrightarrow>
      refines_op (e_proto E) s r (cop s) spec"
  shows "case root_op run fuel NoTx cop s of
     (Inl e, s') \<Rightarrow> spec = Inl e \<and> committed s' = committed s
   | (Inr r', s') \<Rightarrow> spec = committed s' \<and> store_ok E run fuel s'"
proof -
  let ?P = "e_proto E"
  obtain r where r: "latest_rev s 0 NoTx = Inr r" "r_node r = 0" "coh ?P s r"
    using ok by (auto simp: store_ok_def root_ok_def)
  note pass = ok [unfolded store_ok_def]
  obtain res s1 where s1: "cop s = (res, s1)" by (cases "cop s")
  have tame: "tame (Suc 0) s s1" by (rule st_keepsD [OF assms(2) s1])
  then have "length (cs_queue s1) \<le> fuel" using pass by (simp add: tame_def)
  then obtain s2 where s2: "execute_deferred_callbacks run fuel s1 = (Inr (), s2)"
    "cs_nodes s2 = cs_nodes s1" "cs_queue s2 = []" using observing_drain pass by blast
  have out: "root_op run fuel NoTx cop s = (res, s2)"
    using pass s1 s2 by (simp add: root_op_def check_callback_queue_def check_dirty_def finally_deferred_def
        st_bind_def)
  have n: "0 < length (cs_nodes s)" using coh_head [OF r(3)] r(2) by (simp add: head_def)
  show ?thesis
  proof (cases res)
    case (Inl e)
    with ref [OF r] s1 have e: "spec = Inl e" "err_ok s s1 r" by (simp_all add: refines_op_simps)
    have "0 \<notin> set (map r_node (below (r_children r)))"
      using r(2,3) by (simp add: coh_def nodes_of_def sub_revs_eq [of r])
    then have "cs_nodes s1 ! 0 = cs_nodes s ! 0" using e(2) n by (simp add: err_ok_def)
    then have "committed s2 = committed s"
      using latest_rev_same [of s2 0 s] s2(2) by (simp add: committed_def)
    with e(1) Inl show ?thesis by (simp add: out)
  next
    case (Inr r')
    with ref [OF r] s1 have o: "spec = Inr (erase r')" "op_ok ?P s s1 r r'" by (simp_all add: refines_op_simps)
    then have c: "coh ?P s1 r'" "r_node r' = 0" using r(2) by (simp_all add: op_ok_def)
    from coh_latest [OF c(1)] obtain b r0 where r0: "branch_of s1 0 NoTx = Inr b" "b_latest b = Some r0"
      "skel r0 = skel r'" by (auto simp: c(2))
    then have l: "latest_rev s1 0 NoTx = Inr r0" by (simp add: latest_rev_def latest_of_def)
    moreover have "coh ?P s1 r0" using coh_skel [OF _ c(1)] r0(3) by metis
    moreover have "r_node r0 = 0" using skel_data [OF r0(3)] c(2) by simp
    ultimately have "root_ok ?P s1" by (auto simp: root_ok_def)
    moreover have "quiet E s1" using quiet_tame [OF _ tame] pass by simp
    ultimately have "store_ok E run fuel s2" using store_ok_cong [OF s2(2,3)] pass by simp
    moreover have "committed s2 = Inr (erase r')"
      using l r0(3) by (simp add: committed_def latest_rev_cong [OF s2(2)] erase_skel)
    ultimately show ?thesis by (simp add: out Inr o)
  qed
qed

lemma root_update_law:
  assumes "store_ok E run fuel s" and "committed s = Inr t" and "detects (e_proto E) data strict t path"
  shows "case root_update E run fuel path data strict NoTx s of
     (Inl e, s') \<Rightarrow> tree_update (e_proto E) data strict t path = Inl e \<and> committed s' = Inr t
   | (Inr r', s') \<Rightarrow> tree_update (e_proto E) data strict t path = committed s' \<and> store_ok E run fuel s'"
  unfolding root_update_def assms(2) [symmetric]
proof (rule root_op_lift [OF assms(1) tm.keeps_node_update])
  fix r
  assume r: "latest_rev s 0 NoTx = Inr r" "r_node r = 0" "coh (e_proto E) s r"
  with assms(2) have "t = erase r" by (simp add: committed_def)
  with node_update_refines_aux [of E s r data strict path] r assms(1,3)
  show "refines_op (e_proto E) s r (node_update E NoTx data strict 0 path s)
      (tree_update (e_proto E) data strict t path)" by (simp add: store_ok_def)
qed

lemma root_add_law:
  assumes "store_ok E run fuel s" and "committed s = Inr t"
  shows "case root_add E run fuel path data NoTx s of
     (Inl e, s') \<Rightarrow> tree_add (e_proto E) (e_fuel E) data t path = Inl e \<and> committed s' = Inr t
   | (Inr r', s') \<Rightarrow> tree_add (e_proto E) (e_fuel E) data t path = committed s' \<and> store_ok E run fuel s'"
  unfolding root_add_def assms(2) [symmetric]
proof (rule root_op_lift [OF assms(1) tm.keeps_node_add])
  fix r
  assume r: "latest_rev s 0 NoTx = Inr r" "r_node r = 0" "coh (e_proto E) s r"
  with assms(2) have "t = erase r" by (simp add: committed_def)
  with node_add_refines_aux [of E s r data path] r assms(1)
  show "refines_op (e_proto E) s r (node_add E NoTx data 0 path s)
      (tree_add (e_proto E) (e_fuel E) data t path)" by (simp add: store_ok_def)
qed

lemma root_remove_law:
  assumes "store_ok E run fuel s" and "committed s = Inr t"
  shows "case root_remove E run fuel path NoTx s of
     (Inl e, s') \<Rightarrow> tree_remove (e_proto E) t path = Inl e \<and> committed s' = Inr t
   | (Inr r', s') \<Rightarrow> tree_remove (e_proto E) t path = committed s' \<and> store_ok E run fuel s'"
  unfolding root_remove_def assms(2) [symmetric]
proof (rule root_op_lift [OF assms(1) tm.keeps_node_remove])
  fix r
  assume r: "latest_rev s 0 NoTx = Inr r" "r_node r = 0" "coh (e_proto E) s r"
  with assms(2) have "t = erase r" by (simp add: committed_def)
  with node_remove_refines_aux [of E s r path] r assms(1)
  show "refines_op (e_proto E) s r (node_remove E NoTx 0 path s)
      (tree_remove (e_proto E) t path)" by (simp add: store_ok_def)
qed

lemma root_get_law:
  assumes "store_ok E run fuel s" and "committed s = Inr t"
  shows "node_get E s 0 path None depth False NoTx = tree_get (e_proto E) depth t (lstrip_slash path)"
proof -
  obtain r where r: "latest_rev s 0 NoTx = Inr r" "r_node r = 0" "coh (e_proto E) s r"
    using assms(1) by (auto simp: store_ok_def root_ok_def)
  then have t: "t = erase r" using assms(2) by (simp add: committed_def)
  have "read_branch s 0 NoTx = branch_of s 0 NoTx"
    by (simp add: read_branch_def branch_of_def split: option.splits)
  then have "node_get E s 0 path None depth False NoTx = get_path E s depth r (lstrip_slash path)"
    using r(1) by (auto simp: node_get_def latest_rev_def rbind_def split: sum.splits)
  then show ?thesis using get_path_refines [OF _ r(3)] assms(1) t by (simp add: store_ok_def)
qed

interpretation cfg: config_store "e_proto E" "e_fuel E" "store_ok E run fuel" committed
  "\<lambda>path depth s. node_get E s 0 path None depth False NoTx"
  "\<lambda>path data strict. root_update E run fuel path data strict NoTx"
  "\<lambda>path data. root_add E run fuel path data NoTx"
  "\<lambda>path. root_remove E run fuel path NoTx" for E run fuel
proof unfold_locales
  show "\<exists>t. committed s = Inr t" if "store_ok E run fuel s" for s
    using that by (auto simp: store_ok_def root_ok_def committed_def)
qed (fact root_get_law root_update_law root_add_law root_remove_law)+


section \<open>The initial configuration\<close>

lemma root_init_spec:
  assumes "clear_keeps_class (e_proto E)"
  shows "case root_init E data kv of
      (Inl e, s') \<Rightarrow> tree_of (e_proto E) (e_fuel E) data = Inl e \<and> ext (empty_store kv) s'
    | (Inr r, s') \<Rightarrow> tree_of (e_proto E) (e_fuel E) data = Inr (erase r) \<and>
        grown (e_proto E) (empty_store kv) s' (sub_revs r)"
  unfolding root_init_def
  by (rule spec [OF mknode_makes [OF assms, of "e_fuel E" False data, unfolded makes_def]])

lemma root_init_total:
  assumes "clear_keeps_class (e_proto E)" and "tree_of (e_proto E) (e_fuel E) data = Inr t"
  obtains r s where "root_init E data kv = (Inr r, s)"
  using root_init_spec [OF assms(1), of data kv] assms(2)
  by (cases "root_init E data kv") (auto split: sum.splits)

lemma root_init_ok:
  assumes init: "root_init E data kv = (Inr r, s)" and "clear_keeps_class (e_proto E)" "observing run" "0 < fuel"
  shows "store_ok E run fuel s" and "committed s = tree_of (e_proto E) (e_fuel E) data"
proof -
  let ?P = "e_proto E"
  have mk: "mknode E (e_fuel E) False data (empty_store kv) = (Inr r, s)"
    using init by (simp add: root_init_def)
  have t: "tree_of ?P (e_fuel E) data = Inr (erase r)" and g: "grown ?P (empty_store kv) s (sub_revs r)"
    using root_init_spec [OF assms(2), of data kv] by (simp_all add: init)
  then have c: "coh ?P s r" by (simp add: coh_def grown_def nodes_of_def)
  have n: "r_node r = 0"
  proof -
    obtain k where "e_fuel E = Suc k" using mk by (cases "e_fuel E") auto
    with mk show ?thesis
      by (auto simp: res_simps alloc_node_def empty_store_def mkrev_def finalize_def split: prod.splits)
  qed
  from coh_latest [OF c] obtain b r0 where r0: "branch_of s 0 NoTx = Inr b" "b_latest b = Some r0"
    "skel r0 = skel r" by (auto simp: n)
  then have l: "latest_rev s 0 NoTx = Inr r0" by (simp add: latest_rev_def latest_of_def)
  then show "committed s = tree_of ?P (e_fuel E) data" using t r0(3) by (simp add: committed_def erase_skel)
  have "coh ?P s r0" "r_node r0 = 0" using coh_skel [OF _ c] r0(3) skel_data [OF r0(3)] n by metis+
  moreover have "quiet E s"
    using mknode_new(5) [OF mk] by (auto simp: quiet_def run_hooks_def empty_store_def in_set_conv_nth)
  moreover have "cs_queue s = []" using mknode_new(4) [OF mk] by (simp add: empty_store_def)
  ultimately show "store_ok E run fuel s" using assms(2-) l by (auto simp: store_ok_def root_ok_def)
qed

text \<open>A new tree has unique keys: duplicate keys in a message are refused.\<close>

lemma split_keyed_distinct:
  assumes "split_keyed mk attr vs seen = Inr ts" and "\<And>v t. mk v = Inr t \<Longrightarrow> tattr t = attr v"
  shows "distinct (map tattr ts) \<and> set (map tattr ts) \<inter> set seen = {} \<and> (\<forall>t \<in> set ts. \<exists>v. mk v = Inr t)"
  using assms(1)
proof (induction vs arbitrary: seen ts)
  case (Cons v vs)
  then obtain t ts' where "mk v = Inr t" "attr v \<notin> set seen"
    "split_keyed mk attr vs (attr v # seen) = Inr ts'" "ts = t # ts'"
    by (auto simp: res_simps split: if_splits)
  with Cons.IH [of "attr v # seen" ts'] assms(2) show ?case by auto
qed simp

lemma py_map_in: "py_map f xs = Inr ys \<Longrightarrow> y \<in> set ys \<Longrightarrow> \<exists>x. f x = Inr y"
  by (induction xs arbitrary: ys) (auto split: sum.splits)

lemma tree_of_unique:
  assumes "clear_keeps_class P" and "clear_keeps_attr P" and "tree_of P fuel data = Inr t"
  shows "unique_keys P t"
  using assms(3)
proof (induction fuel arbitrary: data t)
  case (Suc k)
  obtain fs ch d where fs: "fields_of P (p_cls P data) = Inr fs"
    and loop: "py_for (split_field P (tree_of P k)) fs ([], data) = Inr (ch, d)" and t: "t = Tree d ch"
    using Suc.prems by (auto simp: res_simps split_def)
  have wf: "od_wf fs" using children_fields_wf [OF fs] by (simp add: od_wf_def)
  let ?I = "\<lambda>acc. p_cls P (snd acc) = p_cls P data \<and>
    (\<forall>(name, l) \<in> set (fst acc). (\<forall>c \<in> set l. unique_keys P c) \<and>
       (\<forall>field key. od_get name fs = Some field \<longrightarrow> ct_container field \<longrightarrow> ct_key field = Some key \<longrightarrow>
          distinct (map (\<lambda>c. p_attr P (t_data c) key) l)))"
  have step: "?I acc'" if x: "x \<in> set fs" and I: "?I acc" and s: "split_field P (tree_of P k) x acc = Inr acc'"
    for x acc acc'
  proof -
    obtain name field where x': "x = (name, field)" by (cases x)
    then have get: "od_get name fs = Some field" using x wf od_get_in by metis
    let ?l = "case (ct_container field, ct_key field) of
          (True, Some key) \<Rightarrow> split_keyed (tree_of P k) (\<lambda>v. p_attr P v key) (p_children P (snd acc) name) []
        | _ \<Rightarrow> py_map (tree_of P k) (p_children P (snd acc) name)"
    have "rbind ?l (\<lambda>l. Inr (od_set name l (fst acc), p_clear P name (snd acc))) = Inr acc'"
      using s by (cases acc) (simp only: split_field_def x' case_prod_conv fst_conv snd_conv)
    then obtain l where l: "?l = Inr l" and acc': "acc' = (od_set name l (fst acc), p_clear P name (snd acc))"
      unfolding rbind_eq_Inr by blast
    have "(\<forall>c \<in> set l. unique_keys P c) \<and> (\<forall>key. ct_container field \<longrightarrow> ct_key field = Some key \<longrightarrow>
        distinct (map (\<lambda>c. p_attr P (t_data c) key) l))"
    proof (cases "ct_container field \<and> ct_key field \<noteq> None")
      case True
      then obtain key where k: "ct_container field" "ct_key field = Some key" by auto
      with l have "split_keyed (tree_of P k) (\<lambda>v. p_attr P v key) (p_children P (snd acc) name) [] = Inr l"
        by simp
      from split_keyed_distinct [OF this, of "\<lambda>c. p_attr P (t_data c) key"] tree_of_attr [OF assms(2)]
      have "distinct (map (\<lambda>c. p_attr P (t_data c) key) l)" "\<forall>t \<in> set l. \<exists>v. tree_of P k v = Inr t"
        by auto
      with k Suc.IH show ?thesis by (metis option.sel)
    next
      case False
      then have "py_map (tree_of P k) (p_children P (snd acc) name) = Inr l"
        using l by (auto split: bool.splits option.splits)
      with py_map_in [OF this] Suc.IH False show ?thesis by blast
    qed
    then show ?thesis
      using I get assms(1) by (auto simp: acc' clear_keeps_class_def dest!: set_od_set)
  qed
  have I0: "?I ([], data)" by simp
  have I: "?I (ch, d)" by (rule py_for_invariant [OF loop, of ?I, OF I0 step])
  have "keys_here P t"
    unfolding keys_here_def
  proof (intro allI impI)
    fix name field key l
    assume "field_of P (p_cls P (t_data t)) name = Inr field" "ct_container field" "ct_key field = Some key"
      "tree_children t name = Inr l"
    moreover from this(1,4) have "od_get name fs = Some field" "(name, l) \<in> set ch"
      using I fs by (auto simp: t field_of_def tree_children_Inr split: option.splits dest: od_get_mem)
    ultimately show "distinct (map (\<lambda>c. p_attr P (t_data c) key) l)" using I by fastforce
  qed
  moreover have "\<forall>(name, l) \<in> set (t_children t). \<forall>c \<in> set l. unique_keys P c"
    using I by (fastforce simp: t)
  ultimately show ?case using unique_keys_iff [of P t] by blast
qed simp

end
