(* ===== verification/ConfigProps.thy ===== *)
theory ConfigProps
  imports ConfigStore
begin

text \<open>
  The properties of the configuration store, and an example configuration, devices with ports, on
  which their hypotheses hold.
\<close>

section \<open>An example configuration\<close>

datatype ex_msg = Msg (m_cls: string) (m_fields: "(string \<times> pval) list") (m_subs: "(string \<times> ex_msg list) list")

definition ex_field :: "string \<Rightarrow> nat \<Rightarrow> string option \<Rightarrow> string \<Rightarrow> (string \<times> nat) list \<Rightarrow> field_desc" where
  "ex_field name label child cls types =
     \<lparr>fd_name = name, fd_label = label, fd_child_node = child, fd_access = None, fd_module = ''ex'',
      fd_type = cls, fd_types = types\<rparr>"

definition ex_desc :: "string \<Rightarrow> descriptor" where
  "ex_desc cls =
     (if cls = ''Root'' then
        [ex_field ''devices'' 3 (Some ''id'') ''Device'' [(''id'', 9)],
         ex_field ''health'' 1 (Some []) ''Health'' []]
      else if cls = ''Device'' then
        [(ex_field ''id'' 1 None [] [])\<lparr>fd_access := Some 1\<rparr>, ex_field ''admin'' 1 None [] [],
         ex_field ''ports'' 3 (Some ''port_no'') ''Port'' [(''port_no'', 13)]]
      else [])"

definition ex_value :: "pval \<Rightarrow> string" where
  "ex_value v = (case v of PStr s \<Rightarrow> s | PInt i \<Rightarrow> str_nat (nat i) | POther s \<Rightarrow> s)"

definition ex_serialize :: "ex_msg \<Rightarrow> string" where
  "ex_serialize m = concat (map (\<lambda>(k, v). k @ ''='' @ ex_value v @ '';'') (m_fields m))"

text \<open>A cheap digest in place of MD5.\<close>

definition ex_md5 :: "string \<Rightarrow> string" where
  "ex_md5 s = drop (length s - 8) s @ take 4 (drop 4 s)"

definition ex_proto :: "ex_msg proto" where
  "ex_proto =
     \<lparr>p_cls = m_cls, p_module = (\<lambda>m. ''ex''), p_desc = ex_desc,
      p_attr = (\<lambda>m k. case od_get k (m_fields m) of None \<Rightarrow> POther [] | Some v \<Rightarrow> v),
      p_children = (\<lambda>m n. case od_get n (m_subs m) of
                            None \<Rightarrow> if n = ''health'' then [Msg ''Health'' [] []] else [] | Some l \<Rightarrow> l),
      p_has = (\<lambda>m n. case od_get n (m_subs m) of None \<Rightarrow> False | Some l \<Rightarrow> l \<noteq> []),
      p_clear = (\<lambda>n m. Msg (m_cls m) (m_fields m) (od_del n (m_subs m))),
      p_merge = (\<lambda>n c m. Msg (m_cls m) (m_fields m)
                   (od_set n ((case od_get n (m_subs m) of None \<Rightarrow> [] | Some l \<Rightarrow> l) @ [c]) (m_subs m))),
      p_serialize = ex_serialize,
      p_parse = (\<lambda>cls s. if cls = ''Device'' then Inr (Msg cls [(''id'', PStr (take 3 (drop 3 s)))] [])
                         else Inr (Msg cls [] [])),
      p_md5 = ex_md5\<rparr>"

definition ex_env :: "(ex_msg, nat) cenv" where
  "ex_env = \<lparr>e_proto = ex_proto, e_hook = (\<lambda>c x. Inr x), e_fuel = 5\<rparr>"

definition ex_run :: "(ex_msg, nat) runner" where
  "ex_run c x s = (if c = 0 then Inl ValueError else Inr x, s)"

definition ex_dev :: "string \<Rightarrow> ex_msg list \<Rightarrow> ex_msg" where
  "ex_dev i ports = Msg ''Device'' [(''id'', PStr i)] (if ports = [] then [] else [(''ports'', ports)])"

definition ex_port :: "int \<Rightarrow> ex_msg" where
  "ex_port n = Msg ''Port'' [(''port_no'', PInt n)] []"

definition ex_root :: ex_msg where
  "ex_root = Msg ''Root'' [] [(''devices'', [ex_dev ''olt'' [ex_port 1], ex_dev ''onu'' []])]"

definition ex_store :: "(ex_msg, nat) cstore" where
  "ex_store = snd (root_init ex_env ex_root None)"

definition ex_tree :: "ex_msg tree" where
  "ex_tree = Tree (Msg ''Root'' [] [])
     [(''devices'', [Tree (ex_dev ''olt'' []) [(''ports'', [Tree (ex_port 1) []])],
                     Tree (ex_dev ''onu'' []) [(''ports'', [])]]),
      (''health'', [Tree (Msg ''Health'' [] []) []])]"

lemma ex_simple:
  "e_proto ex_env = ex_proto" "e_fuel ex_env = 5" "observing ex_run"
  "clear_keeps_class ex_proto" "clear_keeps_attr ex_proto"
  by (simp_all add: ex_env_def ex_proto_def observing_def ex_run_def clear_keeps_class_def
      clear_keeps_attr_def)

lemma ex_tree_of: "tree_of ex_proto 5 ex_root = Inr ex_tree"
  by code_simp

lemma ex_init: "\<exists>r. root_init ex_env ex_root None = (Inr r, ex_store)"
  by (rule root_init_total [of ex_env ex_root ex_tree None])
    (simp_all add: ex_simple ex_tree_of ex_store_def)

lemma ex_ok: "store_ok ex_env ex_run 3 ex_store" "committed ex_store = Inr ex_tree"
proof -
  obtain r where r: "root_init ex_env ex_root None = (Inr r, ex_store)" using ex_init by blast
  show "store_ok ex_env ex_run 3 ex_store"
    using root_init_ok(1) [OF r, of ex_run 3] by (simp add: ex_simple)
  show "committed ex_store = Inr ex_tree"
    using root_init_ok(2) [OF r, of ex_run 3] by (simp add: ex_simple ex_tree_of)
qed



section \<open>The operations implement the specification\<close>

text \<open>
  C11. Updating the committed configuration (\<^verbatim>\<open>ConfigRoot.update\<close> without a transaction)
  implements \<open>tree_update\<close>, for hash functions that tell the changed subtrees on the path from the
  old ones: it succeeds exactly when the specification does, with the specified content, and the
  invariant of the store is kept; otherwise it raises the specified exception and the committed
  content is the one from before.
\<close>

theorem config_update_refines:
  assumes "store_ok E run fuel s" and "committed s = Inr t" and "detects (e_proto E) data strict t path"
  shows "case root_update E run fuel path data strict NoTx s of
     (Inl e, s') \<Rightarrow> tree_update (e_proto E) data strict t path = Inl e \<and> committed s' = Inr t
   | (Inr r, s') \<Rightarrow> tree_update (e_proto E) data strict t path = committed s' \<and> store_ok E run fuel s'"
  using assms by (rule cfg.upd_law)

definition ex_dev2 :: ex_msg where
  "ex_dev2 = Msg ''Device'' [(''id'', PStr ''olt''), (''admin'', PStr ''ENABLED'')] []"

lemma ex_detects: "detects ex_proto ex_dev2 True ex_tree ''/devices/olt''"
  by code_simp

lemma ex_update: "\<exists>t. tree_update ex_proto ex_dev2 True ex_tree ''/devices/olt'' = Inr t"
proof -
  have "\<not> isl (tree_update ex_proto ex_dev2 True ex_tree ''/devices/olt'')" by code_simp
  then show ?thesis by (cases "tree_update ex_proto ex_dev2 True ex_tree ''/devices/olt''") auto
qed

theorem config_update_refines_witness:
  "case root_update ex_env ex_run 3 ''/devices/olt'' ex_dev2 True NoTx ex_store of
     (Inl e, s') \<Rightarrow> tree_update ex_proto ex_dev2 True ex_tree ''/devices/olt'' = Inl e \<and>
       committed s' = Inr ex_tree
   | (Inr r, s') \<Rightarrow> tree_update ex_proto ex_dev2 True ex_tree ''/devices/olt'' = committed s' \<and>
       store_ok ex_env ex_run 3 s'"
  by (rule config_update_refines [OF ex_ok, unfolded ex_simple, OF ex_detects])

text \<open>
  C12. Adding to a keyed container of the committed configuration implements \<open>tree_add\<close>, and
  removing from it \<open>tree_remove\<close>, with the same content, the same exceptions, and the invariant of the
  store kept; a failed operation leaves the committed content as it was.
\<close>

theorem config_add_remove_refine:
  assumes "store_ok E run fuel s" and "committed s = Inr t"
  shows "(case root_add E run fuel path data NoTx s of
     (Inl e, s') \<Rightarrow> tree_add (e_proto E) (e_fuel E) data t path = Inl e \<and> committed s' = Inr t
   | (Inr r, s') \<Rightarrow> tree_add (e_proto E) (e_fuel E) data t path = committed s' \<and> store_ok E run fuel s') \<and>
   (case root_remove E run fuel path NoTx s of
     (Inl e, s') \<Rightarrow> tree_remove (e_proto E) t path = Inl e \<and> committed s' = Inr t
   | (Inr r, s') \<Rightarrow> tree_remove (e_proto E) t path = committed s' \<and> store_ok E run fuel s')"
  using cfg.add_law [OF assms, where path = path and data = data]
    cfg.rem_law [OF assms, where path = path] by blast

theorem config_add_remove_refine_witness:
  "(case root_add ex_env ex_run 3 ''/devices/olt'' (ex_port 2) NoTx ex_store of
     (Inl e, s') \<Rightarrow> tree_add ex_proto 5 (ex_port 2) ex_tree ''/devices/olt'' = Inl e \<and> committed s' = Inr ex_tree
   | (Inr r, s') \<Rightarrow> tree_add ex_proto 5 (ex_port 2) ex_tree ''/devices/olt'' = committed s' \<and>
       store_ok ex_env ex_run 3 s') \<and>
   (case root_remove ex_env ex_run 3 ''/devices/olt'' NoTx ex_store of
     (Inl e, s') \<Rightarrow> tree_remove ex_proto ex_tree ''/devices/olt'' = Inl e \<and> committed s' = Inr ex_tree
   | (Inr r, s') \<Rightarrow> tree_remove ex_proto ex_tree ''/devices/olt'' = committed s' \<and> store_ok ex_env ex_run 3 s')"
  by (rule config_add_remove_refine [OF ex_ok, unfolded ex_simple])

text \<open>
  Read your writes: after a successful update at a path without empty components, reading the
  path gives the data that was written.
\<close>

theorem config_read_back:
  assumes "store_ok E run fuel s" and "committed s = Inr t" and "detects (e_proto E) data strict t path"
    and "clean_path path" and "root_update E run fuel path data strict NoTx s = (Inr r, s')"
  shows "node_get E s' 0 path None 0 False NoTx = Inr (One (Some (CData data)))"
  using assms by (rule cfg.read_back)

theorem config_read_back_witness:
  "\<exists>r s'. root_update ex_env ex_run 3 ''/devices/olt'' ex_dev2 True NoTx ex_store = (Inr r, s') \<and>
     node_get ex_env s' 0 ''/devices/olt'' None 0 False NoTx = Inr (One (Some (CData ex_dev2)))"
proof -
  obtain r s' where u: "root_update ex_env ex_run 3 ''/devices/olt'' ex_dev2 True NoTx ex_store = (Inr r, s')"
    using cfg.upd_law [OF ex_ok, unfolded ex_simple, OF ex_detects] ex_update
    by (cases "root_update ex_env ex_run 3 ''/devices/olt'' ex_dev2 True NoTx ex_store")
      (auto split: sum.splits)
  have "clean_path ''/devices/olt''" by simp
  with config_read_back [OF ex_ok _ this u] ex_detects u show ?thesis by (auto simp: ex_simple)
qed

text \<open>
  Adding is undone by removing: after a successful addition under a path, removing the path
  followed by the new child's key succeeds and the committed content is the one from before.
\<close>

theorem config_undo_add:
  assumes "store_ok E run fuel s" and "committed s = Inr t"
    and "root_add E run fuel path data NoTx s = (Inr r, s')"
    and "clean_path path" and "clear_keeps_attr (e_proto E)" and "k \<noteq> []" and "CHR ''/'' \<notin> set k"
    and "tree_field (e_proto E) t path = Inr f" and "ct_key f = Some key"
    and "key_from_str f k = Inr (p_attr (e_proto E) data key)"
  shows "\<exists>r' s''. root_remove E run fuel (path @ CHR ''/'' # k) NoTx s' = (Inr r', s'') \<and>
    committed s'' = committed s"
  using assms by (rule cfg.undo_add)

lemma ex_field_ports:
  "tree_field ex_proto ex_tree ''/devices/olt/ports'' =
     Inr \<lparr>ct_module = ''ex'', ct_type = ''Port'', ct_container = True, ct_key = Some ''port_no'',
          ct_kind = Some IntKey\<rparr>"
  by code_simp

lemma ex_add_tree: "\<exists>t. tree_add ex_proto 5 (ex_port 2) ex_tree ''/devices/olt/ports'' = Inr t"
proof -
  have "\<not> isl (tree_add ex_proto 5 (ex_port 2) ex_tree ''/devices/olt/ports'')" by code_simp
  then show ?thesis by (cases "tree_add ex_proto 5 (ex_port 2) ex_tree ''/devices/olt/ports''") auto
qed

lemma ex_add:
  obtains r s' where "root_add ex_env ex_run 3 ''/devices/olt/ports'' (ex_port 2) NoTx ex_store = (Inr r, s')"
  using cfg.add_law [OF ex_ok, unfolded ex_simple, where path = "''/devices/olt/ports''" and data = "ex_port 2"]
    ex_add_tree
  by (cases "root_add ex_env ex_run 3 ''/devices/olt/ports'' (ex_port 2) NoTx ex_store")
    (auto split: sum.splits)

theorem config_undo_add_witness:
  "\<exists>r s' r' s''. root_add ex_env ex_run 3 ''/devices/olt/ports'' (ex_port 2) NoTx ex_store = (Inr r, s') \<and>
     root_remove ex_env ex_run 3 (''/devices/olt/ports'' @ CHR ''/'' # ''2'') NoTx s' = (Inr r', s'') \<and>
     committed s'' = committed ex_store"
proof -
  obtain r s' where a: "root_add ex_env ex_run 3 ''/devices/olt/ports'' (ex_port 2) NoTx ex_store = (Inr r, s')"
    by (rule ex_add)
  have "clean_path ''/devices/olt/ports''" by simp
  moreover have "key_from_str \<lparr>ct_module = ''ex'', ct_type = ''Port'', ct_container = True,
      ct_key = Some ''port_no'', ct_kind = Some IntKey\<rparr> ''2'' = Inr (p_attr ex_proto (ex_port 2) ''port_no'')"
    by code_simp
  ultimately show ?thesis
    using config_undo_add [OF ex_ok, unfolded ex_simple, OF a _ _ _ _ ex_field_ports, of "''2''" "''port_no''"] a
    by (auto simp: ex_simple)
qed

text \<open>
  No duplicate keys: adding a child a second time raises \<^verbatim>\<open>ValueError\<close>, and the
  committed content stays as the first addition left it.
\<close>

theorem config_add_duplicate:
  assumes "store_ok E run fuel s" and "committed s = Inr t"
    and "root_add E run fuel path data NoTx s = (Inr r, s')" and "clear_keeps_attr (e_proto E)"
  shows "\<exists>s''. root_add E run fuel path data NoTx s' = (Inl ValueError, s'') \<and> committed s'' = committed s'"
  using assms by (rule cfg.add_once)

theorem config_add_duplicate_witness:
  "\<exists>r s' s''. root_add ex_env ex_run 3 ''/devices/olt/ports'' (ex_port 2) NoTx ex_store = (Inr r, s') \<and>
     root_add ex_env ex_run 3 ''/devices/olt/ports'' (ex_port 2) NoTx s' = (Inl ValueError, s'') \<and>
     committed s'' = committed s'"
proof -
  obtain r s' where a: "root_add ex_env ex_run 3 ''/devices/olt/ports'' (ex_port 2) NoTx ex_store = (Inr r, s')"
    by (rule ex_add)
  from config_add_duplicate [OF ex_ok a] a show ?thesis by (auto simp: ex_simple)
qed

end
