(* ===== verification/ConfigTxn.thy ===== *)
theory ConfigTxn
  imports ConfigProps
begin

text \<open>
  Transactions on the configuration (\<^verbatim>\<open>config_txn.py\<close> and the transaction half of
  \<^verbatim>\<open>config_root.py\<close>): what is done under a transaction id stays off the committed branches, a
  cancelled transaction leaves no branch behind, and a commit that conflicts changes nothing but
  drops the transaction.
\<close>

section \<open>Isolation\<close>

lemma observing_drain_any:
  assumes "observing run"
  shows "cs_nodes (snd (execute_deferred_callbacks run fuel s)) = cs_nodes s \<and>
    cs_dirty (snd (execute_deferred_callbacks run fuel s)) = cs_dirty s"
proof (induction fuel arbitrary: s)
  case 0
  then show ?case by (simp add: execute_deferred_callbacks.simps [of run 0] split: list.split)
next
  case (Suc k)
  show ?case
    using observing_announcement [OF assms] Suc.IH
    by (simp add: execute_deferred_callbacks.simps [of run "Suc k"] split: list.split)
qed

lemma isolates_store_ok:
  assumes ok: "store_ok E run fuel s" and iso: "isolates j s s1" and tm: "tame k s s1"
    and s2: "cs_nodes s2 = cs_nodes s1" "cs_queue s2 = []"
  shows "store_ok E run fuel s2 \<and> committed s2 = committed s"
proof -
  let ?P = "e_proto E"
  obtain r where r: "latest_rev s 0 NoTx = Inr r" "r_node r = 0" "coh ?P s r"
    using ok by (auto simp: store_ok_def root_ok_def)
  have n: "0 < length (cs_nodes s)" using coh_head [OF r(3)] r(2) by (simp add: head_def)
  then have l: "latest_rev s2 0 NoTx = latest_rev s 0 NoTx"
    using iso s2(1) by (simp add: isolates_def latest_rev_def branch_of_def)
  have "head ?P s1 x" if "head ?P s x" for x
    using that iso by (auto simp: head_def isolates_def)
  then have "coh ?P s2 r" using r(3) s2(1) by (simp add: coh_def head_def)
  then have "root_ok ?P s2" using l r by (auto simp: root_ok_def)
  moreover have "quiet E s1" by (rule quiet_tame [OF _ tm]) (use ok in \<open>simp add: store_ok_def\<close>)
  then have "quiet E s2" using s2(1) unfolding quiet_def by simp
  ultimately show ?thesis using ok s2(2) l by (simp add: store_ok_def committed_def)
qed

lemma root_op_isolated:
  assumes ok: "store_ok E run fuel s" and "st_keeps (tame (Suc 0)) cop" and "st_keeps (isolates k) cop"
  shows "store_ok E run fuel (snd (root_op run fuel tx cop s)) \<and>
    committed (snd (root_op run fuel tx cop s)) = committed s"
proof -
  note pass = ok [unfolded store_ok_def]
  let ?body = "st_bind (check_dirty tx) (\<lambda>_. cop)"
  obtain res s1 where s1: "?body s = (res, s1)" by (cases "?body s")
  have "tame (Suc 0) s s1"
    by (rule st_keepsD [OF tm.keeps_then [OF tm.keeps_res assms(2)] s1 [unfolded check_dirty_def]])
  moreover have "isolates k s s1"
    by (rule st_keepsD [OF iso.keeps_then [OF iso.keeps_res assms(3)] s1 [unfolded check_dirty_def]])
  moreover from calculation(1) have "length (cs_queue s1) \<le> fuel" using pass by (simp add: tame_def)
  then obtain s2 where s2: "execute_deferred_callbacks run fuel s1 = (Inr (), s2)"
    "cs_nodes s2 = cs_nodes s1" "cs_queue s2 = []" using observing_drain pass by blast
  moreover have "root_op run fuel tx cop s = (res, s2)"
    using pass s1 s2 by (simp add: root_op_def check_callback_queue_def finally_deferred_def
        st_bind_eval(1) [where m = "st_res f" for f])
  ultimately show ?thesis using isolates_store_ok [OF ok] by (metis snd_conv)
qed

lemma txn_op_isolated:
  assumes "store_ok E run fuel s"
    and "\<And>path. store_ok E run fuel (snd (rop path s)) \<and> committed (snd (rop path s)) = committed s"
  shows "store_ok E run fuel (snd (st_bind (st_res (\<lambda>s. proxy_full_path s n path)) rop s)) \<and>
    committed (snd (st_bind (st_res (\<lambda>s. proxy_full_path s n path)) rop s)) = committed s"
  using assms by (cases "proxy_full_path s n path") (simp_all add: st_bind_def)

text \<open>
  C14. Isolation: whatever is updated, added or removed through a transaction object, with whatever
  result, the committed configuration stays what it was and the store keeps its invariant.
\<close>

theorem transaction_isolated:
  assumes "store_ok E run fuel s"
    and "out \<in> {txn_update E run fuel tx path data strict s, txn_add E run fuel tx path data s,
      txn_remove E run fuel tx path s}"
  shows "store_ok E run fuel (snd out) \<and> committed (snd out) = committed s"
proof (cases "ct_txid tx")
  case None
  with assms show ?thesis
    by (auto simp: txn_update_def txn_add_def txn_remove_def open_txid_def st_bind_def)
next
  case (Some t)
  have "out = st_bind (st_res (\<lambda>s. proxy_full_path s (ct_node tx) path))
      (\<lambda>full_path. root_update E run fuel full_path data strict (Tx t)) s \<or>
    out = st_bind (st_res (\<lambda>s. proxy_full_path s (ct_node tx) path))
      (\<lambda>full_path. root_add E run fuel full_path data (Tx t)) s \<or>
    out = st_bind (st_res (\<lambda>s. proxy_full_path s (ct_node tx) path))
      (\<lambda>full_path. root_remove E run fuel full_path (Tx t)) s"
    using assms(2) Some
    by (auto simp: txn_update_def txn_add_def txn_remove_def open_txid_def proxy_update_def proxy_add_def
        proxy_remove_def st_bind_eval(1) [where m = "st_res f" for f])
  moreover have "store_ok E run fuel (snd (root_update E run fuel p data strict (Tx t) s)) \<and>
      committed (snd (root_update E run fuel p data strict (Tx t) s)) = committed s" for p
    unfolding root_update_def by (rule root_op_isolated [OF assms(1) tm.keeps_node_update iso.keeps_node_update])
  moreover have "store_ok E run fuel (snd (root_add E run fuel p data (Tx t) s)) \<and>
      committed (snd (root_add E run fuel p data (Tx t) s)) = committed s" for p
    unfolding root_add_def by (rule root_op_isolated [OF assms(1) tm.keeps_node_add iso.keeps_node_add])
  moreover have "store_ok E run fuel (snd (root_remove E run fuel p (Tx t) s)) \<and>
      committed (snd (root_remove E run fuel p (Tx t) s)) = committed s" for p
    unfolding root_remove_def by (rule root_op_isolated [OF assms(1) tm.keeps_node_remove iso.keeps_node_remove])
  ultimately show ?thesis by (elim disjE) (hypsubst, rule txn_op_isolated [OF assms(1)], assumption)+
qed

definition ex_tx_store :: "(ex_msg, nat) cstore" where
  "ex_tx_store = snd (open_transaction 0 ''t1'' ex_store)"

lemma open_keeps_ok:
  assumes "store_ok E run fuel s"
  shows "store_ok E run fuel (snd (open_transaction n t s)) \<and>
    committed (snd (open_transaction n t s)) = committed s"
proof -
  obtain res s1 where s1: "open_transaction n t s = (res, s1)" by (cases "open_transaction n t s")
  have "isolates 0 s s1 \<and> tame 0 s s1 \<and> cs_queue s1 = cs_queue s"
    using s1 by (auto simp: open_transaction_def mk_txbranch_def mk_txbranch_node_def st_bind_def
        branch_of_def add_branch_def node_simps Let_def split: option.splits
        intro!: isolates_same_len tame_nodes)
  with isolates_store_ok [OF assms, of 0 s1 0 s1] assms s1 show ?thesis by (simp add: store_ok_def)
qed

theorem transaction_isolated_witness:
  "committed (snd (txn_add ex_env ex_run 3 \<lparr>ct_node = 0, ct_txid = Some ''t1''\<rparr> ''/devices'' (ex_dev ''new'' [])
     ex_tx_store)) = Inr ex_tree"
  using transaction_isolated [of ex_env ex_run 3 ex_tx_store _ "\<lparr>ct_node = 0, ct_txid = Some ''t1''\<rparr>"
      "''/devices''" "ex_dev ''new'' []" False] ex_ok open_keeps_ok [OF ex_ok(1), of 0 "''t1''"]
  by (simp add: ex_tx_store_def)


section \<open>Cancelling\<close>

lemma del_branches:
  assumes "distinct d" and "\<forall>m \<in> set d. m < length (cs_nodes s) \<and>
    od_get (Tx t) (n_branches (cs_nodes s ! m)) \<noteq> None"
  shows "\<exists>s'. st_for (\<lambda>n _. del_branch n (Tx t)) d () s = (Inr (), s') \<and>
    length (cs_nodes s') = length (cs_nodes s) \<and> cs_dirty s' = cs_dirty s \<and> cs_queue s' = cs_queue s \<and>
    (\<forall>m. cs_nodes s' ! m =
       (if m \<in> set d then (cs_nodes s ! m)\<lparr>n_branches := od_del (Tx t) (n_branches (cs_nodes s ! m))\<rparr>
        else cs_nodes s ! m))"
  using assms
proof (induction d arbitrary: s)
  case (Cons n d)
  let ?f = "\<lambda>nd. nd\<lparr>n_branches := od_del (Tx t) (n_branches nd)\<rparr>"
  have one: "del_branch n (Tx t) s = (Inr (), set_node n ?f s)"
    using Cons.prems(2) by (auto simp: del_branch_def)
  have "\<forall>m \<in> set d. m < length (cs_nodes (set_node n ?f s)) \<and>
      od_get (Tx t) (n_branches (cs_nodes (set_node n ?f s) ! m)) \<noteq> None"
    using Cons.prems by (auto simp: node_simps)
  with Cons.IH [of "set_node n ?f s"] Cons.prems obtain s' where s':
    "st_for (\<lambda>n _. del_branch n (Tx t)) d () (set_node n ?f s) = (Inr (), s')"
    "length (cs_nodes s') = length (cs_nodes s)" "cs_dirty s' = cs_dirty s" "cs_queue s' = cs_queue s"
    "\<forall>m. cs_nodes s' ! m = (if m \<in> set d then ?f (cs_nodes (set_node n ?f s) ! m)
       else cs_nodes (set_node n ?f s) ! m)" by (auto simp: node_simps)
  have "st_for (\<lambda>n _. del_branch n (Tx t)) (n # d) () s = (Inr (), s')"
    using one s'(1) by (simp add: st_bind_def)
  moreover have "cs_nodes s' ! m = (if m \<in> set (n # d) then ?f (cs_nodes s ! m) else cs_nodes s ! m)" for m
    using s'(5) Cons.prems by (auto simp: node_simps)
  ultimately show ?case using s' by auto
qed simp

lemma del_txbranch_ok:
  assumes "dirty_ok t s"
  shows "\<exists>s' d. del_txbranch t s = (Inr (), s') \<and> od_get t (cs_dirty s) = Some d \<and>
    length (cs_nodes s') = length (cs_nodes s) \<and> od_get t (cs_dirty s') = None \<and> cs_queue s' = cs_queue s \<and>
    (\<forall>m. cs_nodes s' ! m =
       (if m \<in> set d then (cs_nodes s ! m)\<lparr>n_branches := od_del (Tx t) (n_branches (cs_nodes s ! m))\<rparr>
        else cs_nodes s ! m))"
proof -
  obtain d where d: "od_get t (cs_dirty s) = Some d" "distinct d" "\<forall>m \<in> set d. m < length (cs_nodes s) \<and>
      od_get (Tx t) (n_branches (cs_nodes s ! m)) \<noteq> None"
    using assms by (auto simp: dirty_ok_def list_all_iff split: option.splits)
  from del_branches [OF d(2,3)] obtain s1 where "st_for (\<lambda>n _. del_branch n (Tx t)) d () s = (Inr (), s1)"
    and s1: "length (cs_nodes s1) = length (cs_nodes s)" "cs_dirty s1 = cs_dirty s" "cs_queue s1 = cs_queue s"
    "\<forall>m. cs_nodes s1 ! m =
       (if m \<in> set d then (cs_nodes s ! m)\<lparr>n_branches := od_del (Tx t) (n_branches (cs_nodes s ! m))\<rparr>
        else cs_nodes s ! m)" by blast
  then have "del_txbranch t s = (Inr (), s1\<lparr>cs_dirty := od_del t (cs_dirty s1)\<rparr>)"
    using d(1) by (simp add: del_txbranch_def st_bind_def)
  with s1 d(1) show ?thesis by auto
qed

text \<open>The states of a transaction: opened, then any operations, of this transaction or not.\<close>

inductive tx_session :: "('d, 'c) cenv \<Rightarrow> ('d, 'c) runner \<Rightarrow> nat \<Rightarrow> string \<Rightarrow> ('d, 'c) cstore \<Rightarrow> bool"
  for E run fuel t where
  opened: "\<forall>m < length (cs_nodes s). od_get (Tx t) (n_branches (cs_nodes s ! m)) = None \<Longrightarrow>
     tx_session E run fuel t (snd (mk_txbranch t s))"
| updates: "tx_session E run fuel t s \<Longrightarrow>
     tx_session E run fuel t (snd (root_update E run fuel path data strict tx s))"
| adds: "tx_session E run fuel t s \<Longrightarrow> tx_session E run fuel t (snd (root_add E run fuel path data tx s))"
| removes: "tx_session E run fuel t s \<Longrightarrow> tx_session E run fuel t (snd (root_remove E run fuel path tx s))"

lemma root_op_tracked:
  assumes "observing run" and "st_keeps (keeps_tracked t k) cop" and "tracked t s"
  shows "tracked t (snd (root_op run fuel tx cop s))"
proof (cases "cs_queue s = []")
  case True
  let ?body = "st_bind (check_dirty tx) (\<lambda>_. cop)"
  obtain res s1 where s1: "?body s = (res, s1)" by (cases "?body s")
  have "keeps_tracked t k s s1"
    by (rule st_keepsD [OF trk.keeps_then [OF trk.keeps_res assms(2)] s1 [unfolded check_dirty_def]])
  with assms(3) have "tracked t s1" by (simp add: keeps_tracked_def)
  moreover have "snd (root_op run fuel tx cop s) = snd (execute_deferred_callbacks run fuel s1)"
    using True s1 by (simp add: root_op_def check_callback_queue_def finally_deferred_def
        st_bind_eval(1) [where m = "st_res f" for f] split: prod.split sum.split)
  ultimately show ?thesis using observing_drain_any [OF assms(1), of fuel s1] by (simp add: tracked_def)
next
  case False
  with assms(3) show ?thesis
    by (simp add: root_op_def check_callback_queue_def st_bind_eval(2) [where m = "st_res f" for f])
qed

lemma tx_session_tracked:
  assumes "tx_session E run fuel t s" and "observing run"
  shows "tracked t s"
  using assms(1)
proof (induction rule: tx_session.induct)
  case (opened s)
  then show ?case
    by (auto simp: mk_txbranch_def mk_txbranch_node_def st_bind_def branch_of_def add_branch_def
        node_simps Let_def tracked_def split: option.splits if_splits)
qed (simp_all add: root_update_def root_add_def root_remove_def
    root_op_tracked [OF assms(2) trk.keeps_node_update] root_op_tracked [OF assms(2) trk.keeps_node_add]
    root_op_tracked [OF assms(2) trk.keeps_node_remove])

text \<open>
  Cancelling a transaction leaves no trace of it: after a transaction was opened and any
  sequence of operations, in it and outside it, cancelling it closes the transaction object, no node
  has a branch of it left, it is off the record of dirty nodes, and the committed branch of every node
  is untouched.
\<close>

theorem transaction_cancelled:
  assumes "tx_session E run fuel t s" and "observing run" and "dirty_ok t s" and "ct_txid tx = Some t"
  shows "\<exists>s'. txn_cancel tx s = (Inr (tx\<lparr>ct_txid := None\<rparr>), s') \<and> od_get t (cs_dirty s') = None \<and>
    length (cs_nodes s') = length (cs_nodes s) \<and>
    (\<forall>m < length (cs_nodes s). od_get (Tx t) (n_branches (cs_nodes s' ! m)) = None \<and>
       od_get NoTx (n_branches (cs_nodes s' ! m)) = od_get NoTx (n_branches (cs_nodes s ! m)))"
proof -
  obtain s' d where s': "del_txbranch t s = (Inr (), s')" "od_get t (cs_dirty s) = Some d"
    "length (cs_nodes s') = length (cs_nodes s)" "od_get t (cs_dirty s') = None"
    "\<forall>m. cs_nodes s' ! m =
       (if m \<in> set d then (cs_nodes s ! m)\<lparr>n_branches := od_del (Tx t) (n_branches (cs_nodes s ! m))\<rparr>
        else cs_nodes s ! m)" using del_txbranch_ok [OF assms(3)] by blast
  have "tracked t s" by (rule tx_session_tracked [OF assms(1,2)])
  then have "od_get (Tx t) (n_branches (cs_nodes s' ! m)) = None" if "m < length (cs_nodes s)" for m
    using that s'(2,5) by (auto simp: tracked_def)
  moreover have "od_get NoTx (n_branches (cs_nodes s' ! m)) = od_get NoTx (n_branches (cs_nodes s ! m))" for m
    using s'(5) by simp
  moreover have "txn_cancel tx s = (Inr (tx\<lparr>ct_txid := None\<rparr>), s')"
    using s'(1) assms(4) by (simp add: txn_cancel_def st_bind_def)
  ultimately show ?thesis using s'(3,4) by blast
qed

definition ex_leaf :: "string \<Rightarrow> ex_msg" where
  "ex_leaf v = Msg ''Leaf'' [(''a'', PStr v)] []"

definition ex_leaf_store :: "(ex_msg, nat) cstore" where
  "ex_leaf_store = snd (root_init ex_env (ex_leaf ''x'') None)"

definition ex_leaf_tx :: "(ex_msg, nat) cstore" where
  "ex_leaf_tx = snd (root_update ex_env ex_run 3 ''/'' (ex_leaf ''y'') False (Tx ''t'')
                       (snd (mk_txbranch ''t'' ex_leaf_store)))"

lemma ex_leaf_ok: "store_ok ex_env ex_run 3 ex_leaf_store"
proof -
  have t: "tree_of ex_proto 5 (ex_leaf ''x'') = Inr (Tree (ex_leaf ''x'') [])" by code_simp
  obtain r s where r: "root_init ex_env (ex_leaf ''x'') None = (Inr r, s)"
    by (rule root_init_total [of ex_env "ex_leaf ''x''" "Tree (ex_leaf ''x'') []" None, unfolded ex_simple,
          OF ex_simple(4) t])
  from root_init_ok(1) [OF r, of ex_run 3] show ?thesis by (simp add: ex_simple ex_leaf_store_def r)
qed

lemma ex_leaf_fresh:
  "list_all (\<lambda>nd. od_get (Tx ''t'') (n_branches nd) = None) (cs_nodes ex_leaf_store)"
  by code_simp

lemma ex_leaf_dirty: "dirty_ok ''t'' ex_leaf_tx"
  by code_simp

lemma ex_leaf_session: "tx_session ex_env ex_run 3 ''t'' ex_leaf_tx"
  unfolding ex_leaf_tx_def
  by (rule updates, rule opened) (use ex_leaf_fresh in \<open>simp add: list_all_length\<close>)

theorem transaction_cancelled_witness:
  "\<exists>s'. txn_cancel \<lparr>ct_node = 0, ct_txid = Some ''t''\<rparr> ex_leaf_tx =
       (Inr \<lparr>ct_node = 0, ct_txid = None\<rparr>, s') \<and> od_get ''t'' (cs_dirty s') = None"
  using transaction_cancelled [OF ex_leaf_session ex_simple(3) ex_leaf_dirty,
      of "\<lparr>ct_node = 0, ct_txid = Some ''t''\<rparr>"] by auto


section \<open>Conflicts\<close>

text \<open>
  C15. A commit that conflicts is all or nothing: the trial merge, whatever it finds, leaves the store
  exactly as it was; when it finds a conflict, the commit raises \<^verbatim>\<open>MergeConflictException\<close>,
  the committed configuration is the one from before, the store keeps its invariant, the
  transaction's branches are gone and the transaction object is closed.
\<close>

theorem commit_conflict:
  assumes "store_ok E run fuel s" and "dirty_ok t s" and "tracked t s" and "ct_txid tx = Some t"
    and "fst (merge_txbranch E (e_fuel E) t True 0 s) = Inl MergeConflict"
  shows "snd (merge_txbranch E (e_fuel E) t True 0 s) = s \<and>
    (\<exists>s'. txn_commit E run fuel tx s = (Inl MergeConflict, tx\<lparr>ct_txid := None\<rparr>, s') \<and>
       committed s' = committed s \<and> store_ok E run fuel s' \<and>
       (\<forall>m < length (cs_nodes s'). od_get (Tx t) (n_branches (cs_nodes s' ! m)) = None))"
proof
  show dry: "snd (merge_txbranch E (e_fuel E) t True 0 s) = s"
    using merge_dry_run [of E "e_fuel E" t 0] by (simp add: st_keeps_def)
  obtain s' d where s': "del_txbranch t s = (Inr (), s')" "od_get t (cs_dirty s) = Some d"
    "length (cs_nodes s') = length (cs_nodes s)" "cs_queue s' = cs_queue s"
    "\<forall>m. cs_nodes s' ! m =
       (if m \<in> set d then (cs_nodes s ! m)\<lparr>n_branches := od_del (Tx t) (n_branches (cs_nodes s ! m))\<rparr>
        else cs_nodes s ! m)" using del_txbranch_ok [OF assms(2)] by blast
  have "merge_txbranch E (e_fuel E) t True 0 s = (Inl MergeConflict, s)"
    using assms(5) dry by (metis prod.collapse)
  then have "txn_commit E run fuel tx s = (Inl MergeConflict, tx\<lparr>ct_txid := None\<rparr>, s')"
    using s'(1) assms(4) by (simp add: txn_commit_def fold_txbranch_def)
  moreover have "isolates 0 s s'" "tame 0 s s'"
    using s'(3,4,5) by (auto intro!: isolates_same_len tame_nodes)
  then have "store_ok E run fuel s' \<and> committed s' = committed s"
    using isolates_store_ok [OF assms(1), of 0 s' 0 s'] s'(4) assms(1) by (simp add: store_ok_def)
  moreover have "od_get (Tx t) (n_branches (cs_nodes s' ! m)) = None" if "m < length (cs_nodes s')" for m
    using that s'(2,3,5) assms(3) by (auto simp: tracked_def)
  ultimately show "\<exists>s'. txn_commit E run fuel tx s = (Inl MergeConflict, tx\<lparr>ct_txid := None\<rparr>, s') \<and>
       committed s' = committed s \<and> store_ok E run fuel s' \<and>
       (\<forall>m < length (cs_nodes s'). od_get (Tx t) (n_branches (cs_nodes s' ! m)) = None)" by blast
qed

definition ex_conflict :: "(ex_msg, nat) cstore" where
  "ex_conflict = snd (root_update ex_env ex_run 3 ''/'' (ex_leaf ''z'') False NoTx ex_leaf_tx)"

lemma ex_conflict_dirty: "dirty_ok ''t'' ex_conflict"
  by code_simp

lemma ex_conflict_found: "fst (merge_txbranch ex_env (e_fuel ex_env) ''t'' True 0 ex_conflict) = Inl MergeConflict"
  by code_simp

lemma ex_conflict_tracked: "tracked ''t'' ex_conflict"
  unfolding ex_conflict_def
  by (rule tx_session_tracked [OF updates [OF ex_leaf_session] ex_simple(3)])

lemma ex_conflict_ok: "store_ok ex_env ex_run 3 ex_conflict"
proof -
  have "\<not> isl (fst (root_update ex_env ex_run 3 ''/'' (ex_leaf ''z'') False NoTx ex_leaf_tx))" by code_simp
  then obtain r s where r: "root_update ex_env ex_run 3 ''/'' (ex_leaf ''z'') False NoTx ex_leaf_tx = (Inr r, s)"
    by (metis prod.collapse sum.collapse(2))
  have "store_ok ex_env ex_run 3 (snd (mk_txbranch ''t'' ex_leaf_store))"
    using open_keeps_ok [OF ex_leaf_ok, of 0 "''t''"]
    by (simp add: open_transaction_def st_bind_def split: prod.splits sum.splits)
  from root_op_isolated [OF this tm.keeps_node_update iso.keeps_node_update]
  have ok: "store_ok ex_env ex_run 3 ex_leaf_tx"
    unfolding ex_leaf_tx_def root_update_def by blast
  then obtain t where t: "committed ex_leaf_tx = Inr t" using cfg.has_content by blast
  have "detects ex_proto (ex_leaf ''z'') False t ''/''"
    by (simp add: detects.simps lstrip_slash_def)
  from cfg.upd_law [OF ok t, unfolded ex_simple, OF this] r show ?thesis
    by (simp add: ex_conflict_def)
qed

theorem commit_conflict_witness:
  "\<exists>s'. txn_commit ex_env ex_run 3 \<lparr>ct_node = 0, ct_txid = Some ''t''\<rparr> ex_conflict =
       (Inl MergeConflict, \<lparr>ct_node = 0, ct_txid = None\<rparr>, s') \<and> committed s' = committed ex_conflict"
  using commit_conflict [OF ex_conflict_ok ex_conflict_dirty ex_conflict_tracked _ ex_conflict_found,
      of "\<lparr>ct_node = 0, ct_txid = Some ''t''\<rparr>"] by auto

end
