(* ===== verification/ConfigPersist.thy ===== *)
theory ConfigPersist
  imports ConfigTxn
begin

text \<open>
  Persistence (\<^verbatim>\<open>config_rev_persisted.py\<close> and the loading half of \<^verbatim>\<open>config_root.py\<close>): a
  tree whose revisions are in the key-value store is loaded back with the same content.
\<close>

section \<open>What is in the key-value store\<close>

definition stored :: "'d proto \<Rightarrow> (string, blob) od \<Rightarrow> 'd rev \<Rightarrow> bool" where
  "stored P kv r \<longleftrightarrow>
     od_get (r_hash P r) kv = Some (RevBlob (children_hashes P r) (r_config_hash P r)) \<and>
     od_get (r_config_hash P r) kv = Some (DataBlob (p_serialize P (r_data r)))"

text \<open>
  A revision that can be read back: it is stored, its data survives encoding and decoding, it has a
  list of children for every child field in the order of the fields, and the children are of the
  declared class.
\<close>

definition typed_children :: "'d proto \<Rightarrow> (string \<times> child_type) list \<Rightarrow> (string \<times> 'd rev list) list \<Rightarrow> bool" where
  "typed_children P fs ch \<longleftrightarrow>
     list_all2 (\<lambda>(name, f) (name', l). name' = name \<and> list_all (\<lambda>c. p_cls P (r_data c) = ct_type f) l) fs ch"

definition loadable :: "'d proto \<Rightarrow> (string, blob) od \<Rightarrow> 'd rev \<Rightarrow> bool" where
  "loadable P kv r \<longleftrightarrow>
     stored P kv r \<and> p_parse P (p_cls P (r_data r)) (p_serialize P (r_data r)) = Inr (r_data r) \<and>
     (case fields_of P (p_cls P (r_data r)) of
        Inl e \<Rightarrow> False | Inr fs \<Rightarrow> typed_children P fs (r_children r))"

definition all_loadable :: "'d proto \<Rightarrow> (string, blob) od \<Rightarrow> 'd rev \<Rightarrow> bool" where
  "all_loadable P kv r \<longleftrightarrow> list_all (loadable P kv) (sub_revs r)"

primrec height :: "'d rev \<Rightarrow> nat" where
  "height (Rev i n t data children st) =
     Suc (foldr (\<lambda>p m. foldr max (snd p) m) (map (map_prod id (map height)) children) 0)"

lemma foldr_max_le: "x \<in> set l \<Longrightarrow> x \<le> foldr max l (m :: nat)"
  by (induction l) auto

lemma foldr_max_base: "m \<le> foldr max l (m :: nat)"
  by (induction l) auto

lemma height_child:
  assumes "(name, l) \<in> set (r_children r)" and "c \<in> set l"
  shows "height c < height r"
proof -
  have "height c \<le> foldr (\<lambda>p m. foldr max (snd p) m) (map (map_prod id (map height)) ch) 0"
    if "(name, l) \<in> set ch" for ch
    using that
  proof (induction ch)
    case (Cons p ch)
    let ?m = "foldr (\<lambda>p m. foldr max (snd p) m) (map (map_prod id (map height)) ch) 0"
    show ?case
    proof (cases "p = (name, l)")
      case True
      then show ?thesis using foldr_max_le [of "height c" "map height l" ?m] assms(2) by (simp add: id_def)
    next
      case False
      then have "height c \<le> ?m" using Cons by (simp add: id_def)
      also have "\<dots> \<le> foldr max (map height (snd p)) ?m" by (rule foldr_max_base)
      finally show ?thesis by (simp add: id_def)
    qed
  qed simp
  then show ?thesis using assms(1) by (cases r) (simp add: less_Suc_eq_le)
qed

lemma all_loadable_child:
  assumes "all_loadable P kv r" and "(name, l) \<in> set (r_children r)" and "c \<in> set l"
  shows "all_loadable P kv c"
  using assms by (auto simp: all_loadable_def list_all_iff sub_revs_eq [of r] below_def)


section \<open>Loading\<close>

definition loading :: "(string, blob) od \<Rightarrow> ('d, 'c) cstore \<Rightarrow> bool" where
  "loading kv s \<longleftrightarrow> cs_kv s = Some kv \<and> cs_loading s"

definition loads ::
  "(string, blob) od \<Rightarrow> ('r \<Rightarrow> 't) \<Rightarrow> (('d, 'c) cstore, 'r) st \<Rightarrow> 't \<Rightarrow> ('d, 'c) cstore \<Rightarrow> bool" where
  "loads kv af m t s \<longleftrightarrow>
     (\<exists>x s'. m s = (Inr x, s') \<and> af x = t \<and> loading kv s' \<and> length (cs_nodes s) \<le> length (cs_nodes s') \<and>
        (\<forall>k < length (cs_nodes s). n_type (cs_nodes s' ! k) = n_type (cs_nodes s ! k)))"

lemma loads_map:
  assumes "\<And>c s. c \<in> set l \<Longrightarrow> loading kv s \<Longrightarrow> loads kv af (ld (h c)) (t c) s" and "loading kv s"
  shows "loads kv (map af) (st_map ld (map h l)) (map t l) s"
  using assms
proof (induction l arbitrary: s)
  case (Cons c l)
  from Cons.prems(1) [of c s] Cons.prems(2) obtain x s1 where x: "ld (h c) s = (Inr x, s1)" "af x = t c"
    "loading kv s1" "length (cs_nodes s) \<le> length (cs_nodes s1)"
    "\<forall>k < length (cs_nodes s). n_type (cs_nodes s1 ! k) = n_type (cs_nodes s ! k)"
    by (auto simp: loads_def)
  from Cons.IH [of s1] Cons.prems(1) x(3) obtain xs s2 where "st_map ld (map h l) s1 = (Inr xs, s2)"
    "map af xs = map t l" "loading kv s2" "length (cs_nodes s1) \<le> length (cs_nodes s2)"
    "\<forall>k < length (cs_nodes s1). n_type (cs_nodes s2 ! k) = n_type (cs_nodes s1 ! k)"
    by (auto simp: loads_def)
  with x show ?case by (auto simp: loads_def st_bind_def)
qed (simp add: loads_def)

lemma loads_fields:
  assumes "typed_children P fs ch" and "distinct (map fst fs)" and "fst ` set done \<inter> fst ` set fs = {}"
    and "\<And>name l c s f. (name, l) \<in> set ch \<Longrightarrow> (name, f) \<in> set fs \<Longrightarrow> c \<in> set l \<Longrightarrow>
      p_cls P (r_data c) = ct_type f \<Longrightarrow> loading kv s \<Longrightarrow> loads kv erase (ld (ct_type f) (r_hash P c)) (erase c) s"
    and "loading kv s" and "\<And>name l. (name, l) \<in> set ch \<Longrightarrow> od_get name hashes = Some (map (r_hash P) l)"
  shows "loads kv (map (map_prod id (map erase))) (st_for (load_field ld hashes) fs done)
    (map (map_prod id (map erase)) (done @ ch)) s"
  using assms
proof (induction fs arbitrary: ch "done" s)
  case Nil
  then show ?case by (simp add: loads_def typed_children_def)
next
  case (Cons nf fs)
  obtain name f where nf: "nf = (name, f)" by (cases nf)
  with Cons.prems(1) obtain l ch' where ch: "ch = (name, l) # ch'" and
    l: "\<forall>c \<in> set l. p_cls P (r_data c) = ct_type f" and ty: "typed_children P fs ch'"
    by (auto simp: typed_children_def list_all2_Cons1 list_all_iff)
  have "loads kv (map erase) (st_map (ld (ct_type f)) (map (r_hash P) l)) (map erase l) s"
    using Cons.prems(4) [of name l f] l Cons.prems(5) by (intro loads_map) (auto simp: nf ch)
  then obtain x s1 where x: "st_map (ld (ct_type f)) (map (r_hash P) l) s = (Inr x, s1)" "map erase x = map erase l"
    "loading kv s1" "length (cs_nodes s) \<le> length (cs_nodes s1)"
    "\<forall>k < length (cs_nodes s). n_type (cs_nodes s1 ! k) = n_type (cs_nodes s ! k)"
    by (auto simp: loads_def)
  have new: "od_set name x done = done @ [(name, x)]"
    using Cons.prems(3) by (intro od_set_distinct_append) (auto simp: nf)
  have "loads kv (map (map_prod id (map erase))) (st_for (load_field ld hashes) fs (done @ [(name, x)]))
      (map (map_prod id (map erase)) ((done @ [(name, x)]) @ ch')) s1"
  proof (rule Cons.IH [OF ty])
    show "loads kv erase (ld (ct_type g) (r_hash P c)) (erase c) u"
      if "(nm, k) \<in> set ch'" "(nm, g) \<in> set fs" "c \<in> set k" "p_cls P (r_data c) = ct_type g" "loading kv u"
      for nm k g c u
      using that by (intro Cons.prems(4) [of nm k]) (auto simp: nf ch)
  qed (use Cons.prems(2,3,6) x(3) in \<open>auto simp: nf ch\<close>)
  moreover have "load_field ld hashes nf done s = (Inr (done @ [(name, x)]), s1)"
    using x(1) Cons.prems(6) [of name l] by (simp add: load_field_def nf ch st_bind_def new)
  ultimately show ?case using x by (auto simp: loads_def st_bind_def ch id_def)
qed

lemma load_latest_loads:
  assumes "all_loadable (e_proto E) kv r" and "height r \<le> fuel" and "loading kv s"
    and "n < length (cs_nodes s)" and "n_type (cs_nodes s ! n) = p_cls (e_proto E) (r_data r)"
  shows "loads kv erase (load_latest E fuel n (r_hash (e_proto E) r)) (erase r) s \<and>
    (\<forall>r' s'. load_latest E fuel n (r_hash (e_proto E) r) s = (Inr r', s') \<longrightarrow> latest_rev s' n NoTx = Inr r')"
  using assms
proof (induction fuel arbitrary: r s n)
  case 0
  then show ?case by (cases r) simp
next
  case (Suc fuel)
  let ?P = "e_proto E"
  let ?ld = "\<lambda>cls h. st_bind (alloc_node cls True) (\<lambda>m. load_latest E fuel m h)"
  have ok: "loadable ?P kv r" using Suc.prems(1) by (simp add: all_loadable_def sub_revs_eq [of r])
  then obtain fs where fs: "fields_of ?P (p_cls ?P (r_data r)) = Inr fs" and ty: "typed_children ?P fs (r_children r)"
    by (auto simp: loadable_def split: sum.splits)
  have child: "loads kv erase (?ld (p_cls ?P (r_data c)) (r_hash ?P c)) (erase c) s1"
    if c: "(name, l) \<in> set (r_children r)" "c \<in> set l" "loading kv s1" for name l c s1
  proof -
    obtain s2 where s2: "alloc_node (p_cls ?P (r_data c)) True s1 = (Inr (length (cs_nodes s1)), s2)"
      "loading kv s2" "length (cs_nodes s1) < length (cs_nodes s2)"
      "n_type (cs_nodes s2 ! length (cs_nodes s1)) = p_cls ?P (r_data c)"
      "\<forall>k < length (cs_nodes s1). n_type (cs_nodes s2 ! k) = n_type (cs_nodes s1 ! k)"
      using c(3) by (auto simp: alloc_node_def loading_def nth_append)
    have "height c \<le> fuel" using height_child [OF c(1,2)] Suc.prems(2) by simp
    from Suc.IH [OF all_loadable_child [OF Suc.prems(1) c(1,2)] this s2(2,3,4)] s2 show ?thesis
      unfolding loads_def by (auto simp: st_bind_eval(1) [where m = "alloc_node c t" for c t])
  qed
  have "distinct (map fst fs)" using children_fields_wf [OF fs] .
  moreover have "od_get name (children_hashes ?P r) = Some (map (r_hash ?P) l)"
    if "(name, l) \<in> set (r_children r)" for name l
  proof -
    have "map fst (r_children r) = map fst fs"
      using ty unfolding typed_children_def by (induction rule: list_all2_induct) auto
    then have "od_wf (r_children r)" using \<open>distinct (map fst fs)\<close> by (simp add: od_wf_def)
    then show ?thesis using that by (auto simp: children_hashes_def od_get_in)
  qed
  ultimately have "loads kv (map (map_prod id (map erase)))
      (st_for (load_field ?ld (children_hashes ?P r)) fs []) (map (map_prod id (map erase)) ([] @ r_children r)) s"
    by (intro loads_fields [where P = ?P, OF ty]) (use child Suc.prems(3) in \<open>auto, metis\<close>)
  then obtain ch s1 where ch: "st_for (load_field ?ld (children_hashes ?P r)) fs [] s = (Inr ch, s1)"
    "map (map_prod id (map erase)) ch = map (map_prod id (map erase)) (r_children r)" "loading kv s1"
    "length (cs_nodes s) \<le> length (cs_nodes s1)"
    "\<forall>k < length (cs_nodes s). n_type (cs_nodes s1 ! k) = n_type (cs_nodes s ! k)"
    by (auto simp: loads_def)
  define flag where "flag = TxFlag (n_auto_prune (cs_nodes s ! n))"
  define r' where "r' = Rev (cs_next s1) n flag (r_data r) ch False"
  define s2 where "s2 = add_branch n NoTx (empty_branch flag None) (s1\<lparr>cs_next := Suc (cs_next s1)\<rparr>)"
  have fin: "mkrev E n flag (r_data r) ch s1 = (Inr r', s1\<lparr>cs_next := Suc (cs_next s1)\<rparr>)"
    using ch(3) by (simp add: mkrev_def finalize_def r'_def loading_def)
  have n: "n < length (cs_nodes s1)" using Suc.prems(4) ch(4) by simp
  then have b: "branch_of s2 n NoTx = Inr (empty_branch flag None)" by (simp add: s2_def add_branch_def branch_of_def node_simps)
  obtain s3 where s3: "make_latest E n NoTx r' [] s2 = (Inr (), s3)" "cs_kv s3 = cs_kv s2"
      "cs_loading s3 = cs_loading s2" "length (cs_nodes s3) = length (cs_nodes s2)"
      "\<forall>k. n_type (cs_nodes s3 ! k) = n_type (cs_nodes s2 ! k)" "latest_rev s3 n NoTx = Inr r'"
    using b n by (auto simp: make_latest_def Let_def empty_branch_def flag_def node_simps latest_rev_def
        branch_of_def latest_of_def set_node_def s2_def add_branch_def nth_list_update)
  have "load_latest E (Suc fuel) n (r_hash ?P r) s = (Inr r', s3)"
    using Suc.prems(3,5) ok fs ch(1) fin s3(1)
    by (simp add: st_bind_def loading_def kv_of_def loadable_def stored_def load_blob_def load_config_def
        flag_def s2_def)
  moreover have "erase r' = erase r" using ch(2) by (simp add: r'_def erase_same [of r])
  moreover have "loading kv s3" using ch(3) s3(2,3) by (simp add: loading_def s2_def add_branch_def set_node_def)
  moreover have "length (cs_nodes s) \<le> length (cs_nodes s3)"
    using ch(4) s3(4) by (simp add: s2_def add_branch_def node_simps)
  moreover have "\<forall>k < length (cs_nodes s). n_type (cs_nodes s3 ! k) = n_type (cs_nodes s ! k)"
    using ch(5) s3(5) by (simp add: s2_def add_branch_def node_simps)
  ultimately show ?case using s3(6) by (auto simp: loads_def)
qed

lemma tree_of_class:
  assumes "clear_keeps_class P" and "tree_of P fuel data = Inr t"
  shows "p_cls P (t_data t) = p_cls P data"
proof -
  obtain k fs ch d where "fuel = Suc k" and "py_for (split_field P (tree_of P k)) fs ([], data) = Inr (ch, d)"
      and t: "t = Tree d ch"
    using assms(2) by (cases fuel) (auto simp: res_simps split_def)
  then have "p_cls P (snd (ch, d)) = p_cls P data"
    using assms(1)
    by (elim py_for_invariant [where P = "\<lambda>acc. p_cls P (snd acc) = p_cls P data"])
      (auto simp: split_field_def res_simps clear_keeps_class_def split: prod.splits)
  then show ?thesis by (simp add: t)
qed

text \<open>
  C16. Persistence round trip: when the key-value store holds the revisions of a configuration tree
  and its root entry, \<^verbatim>\<open>ConfigRoot.load\<close> succeeds, the committed configuration is that tree,
  and the key-value store is as it was.
\<close>

theorem persistence_round_trip:
  assumes "od_get ''root'' kv = Some (RootBlob (r_hash (e_proto E) r) [])"
    and "all_loadable (e_proto E) kv r" and "height r \<le> e_fuel E"
    and "clear_keeps_class (e_proto E)" and "tree_of (e_proto E) (e_fuel E) root_msg = Inr t0"
    and "p_cls (e_proto E) root_msg = p_cls (e_proto E) (r_data r)"
  shows "\<exists>s. root_load E root_msg kv = (Inr (), s) \<and> committed s = Inr (erase r) \<and> cs_kv s = Some kv"
proof -
  let ?P = "e_proto E"
  obtain r0 s0 where init: "root_init E root_msg (Some []) = (Inr r0, s0)"
    by (rule root_init_total [OF assms(4,5)])
  obtain k where "e_fuel E = Suc k" using init by (cases "e_fuel E") (auto simp: root_init_def)
  have ok: "store_ok E (\<lambda>c x s. (Inr x, s)) 1 s0" "committed s0 = Inr t0"
    using root_init_ok [OF init assms(4), of "\<lambda>c x s. (Inr x, s)" 1] assms(5) by (simp_all add: observing_def)
  then obtain r1 where r1: "latest_rev s0 0 NoTx = Inr r1" "r_node r1 = 0" "coh ?P s0 r1"
    by (auto simp: store_ok_def root_ok_def)
  have "p_cls ?P (t_data t0) = p_cls ?P root_msg" by (rule tree_of_class [OF assms(4,5)])
  then have n: "0 < length (cs_nodes s0)" "n_type (cs_nodes s0 ! 0) = p_cls ?P (r_data r)"
    using coh_head [OF r1(3)] r1 ok(2) assms(6) by (auto simp: head_def committed_def)
  let ?s = "s0\<lparr>cs_kv := Some kv, cs_loading := True\<rparr>"
  have "loading kv ?s" by (simp add: loading_def)
  from load_latest_loads [OF assms(2,3) this, of 0] n obtain r' s' where
    l: "load_latest E (e_fuel E) 0 (r_hash ?P r) ?s = (Inr r', s')" "erase r' = erase r" "loading kv s'"
      "latest_rev s' 0 NoTx = Inr r'" by (auto simp: loads_def)
  then have "root_load E root_msg kv = (Inr (), s'\<lparr>cs_loading := False\<rparr>)"
    using assms(1) init by (simp add: root_load_def load_from_persistence_def st_bind_def kv_of_def)
  moreover have "committed (s'\<lparr>cs_loading := False\<rparr>) = Inr (erase r)"
    using l latest_rev_cong [of "s'\<lparr>cs_loading := False\<rparr>" s' 0 NoTx] by (simp add: committed_def)
  ultimately show ?thesis using l(3) by (simp add: loading_def)
qed

definition ex_small :: ex_msg where
  "ex_small = Msg ''Root'' [] [(''devices'', [ex_dev ''olt'' []])]"

definition ex_kv :: "(string, blob) od" where
  "ex_kv = the (cs_kv (snd (root_init ex_env ex_small (Some []))))"

definition ex_rev :: "ex_msg rev" where
  "ex_rev = projr (fst (root_init ex_env ex_small (Some [])))"

lemma ex_kv_ok:
  "od_get ''root'' ex_kv = Some (RootBlob (r_hash ex_proto ex_rev) [])"
  "all_loadable ex_proto ex_kv ex_rev" "height ex_rev \<le> 5" "m_cls (r_data ex_rev) = ''Root''"
  by code_simp+

lemma ex_small_tree:
  "tree_of ex_proto 5 (Msg ''Root'' [] []) =
     Inr (Tree (Msg ''Root'' [] []) [(''devices'', []), (''health'', [Tree (Msg ''Health'' [] []) []])])"
  by code_simp

theorem persistence_round_trip_witness:
  "\<exists>s. root_load ex_env (Msg ''Root'' [] []) ex_kv = (Inr (), s) \<and> committed s = Inr (erase ex_rev) \<and>
     cs_kv s = Some ex_kv"
  by (rule persistence_round_trip [where E = ex_env, unfolded ex_simple, OF ex_kv_ok(1-3) ex_simple(4) ex_small_tree])
    (simp add: ex_proto_def ex_kv_ok(4))

text \<open>
  The branch that loading makes carries the node's pruning flag where a transaction id belongs, so
  revisions made on it later are neither announced nor is the root entry of the store rewritten.
\<close>

lemma loaded_branch_silent:
  assumes "branch_of s n NoTx = Inr b" and "b_txid b = TxFlag f"
  shows "\<exists>s'. make_latest E n NoTx r changes s = (Inr (), s') \<and> cs_queue s' = cs_queue s \<and> cs_kv s' = cs_kv s"
  using assms by (simp add: make_latest_def Let_def set_node_def)

end
