(* ===== verification/ConfigReach.thy ===== *)
theory ConfigReach
  imports ConfigTxn
begin

text \<open>
  The states the configuration goes through: what the operations leave behind when they fail, and the
  invariant of all the states that are reached from the creation of the root.
\<close>

section \<open>Operations that fail\<close>

text \<open>Every node keeps a head on its committed branch.\<close>

definition has_latest :: "('d, 'c) cstore \<Rightarrow> nat \<Rightarrow> bool" where
  "has_latest s m \<longleftrightarrow> (\<exists>b r. od_get NoTx (n_branches (cs_nodes s ! m)) = Some b \<and> b_latest b = Some r)"

definition keeps_latest :: "nat \<Rightarrow> ('d, 'c) cstore \<Rightarrow> ('d, 'c) cstore \<Rightarrow> bool" where
  "keeps_latest k s s' \<longleftrightarrow>
     length (cs_nodes s) \<le> length (cs_nodes s') \<and>
     (\<forall>m < length (cs_nodes s). has_latest s m \<longrightarrow> has_latest s' m)"

lemma keeps_latest_make: "st_keeps (keeps_latest k) (make_latest E n NoTx r changes)"
  by (rule st_keepsI)
    (auto simp: keeps_latest_def has_latest_def make_latest_def node_simps Let_def split: sum.splits)

interpretation lat: store_frame keeps_latest E NoTx for E
proof unfold_locales
  show "st_keeps (keeps_latest 0) (finalize E r)" for r
    by (simp add: st_keeps_def finalize_def keeps_latest_def has_latest_def)
  show "st_keeps (keeps_latest 0) (assure_branch NoTx n)" for n
    by (simp add: st_keeps_def assure_branch_def keeps_latest_def split: option.split)
  show "st_keeps (keeps_latest 0) (mknode E fuel auto data)" for fuel auto data
  proof (rule st_keepsI)
    fix s :: "('a, 'b) cstore"
    show "keeps_latest 0 s (snd (mknode E fuel auto data s))"
      using mknode_new(1,2) [of E fuel auto data s "fst (mknode E fuel auto data s)" "snd (mknode E fuel auto data s)"]
      by (simp add: keeps_latest_def has_latest_def)
  qed
qed (auto simp: keeps_latest_def intro: keeps_latest_make)

text \<open>
  An operation is clean when its exceptions, those in a given set apart, leave the committed branches of
  all the nodes alone.
\<close>

definition clean :: "pyerr set \<Rightarrow> ('d, 'c) cstore \<Rightarrow> 'a res \<times> ('d, 'c) cstore \<Rightarrow> bool" where
  "clean X s out \<longleftrightarrow> (\<forall>e s'. out = (Inl e, s') \<longrightarrow> e \<notin> X \<longrightarrow> isolates 0 s s')"

lemma isolates_refl [simp]: "isolates k s s"
  by (simp add: isolates_def)

lemma clean_raise [simp]: "clean X s (Inl e, s)"
  by (simp add: clean_def)

lemma clean_total: "(\<And>e. fst (m s) \<noteq> Inl e) \<Longrightarrow> clean X s (m s)"
  unfolding clean_def by (metis fst_conv)

lemma clean_res: "(\<And>x. f s = Inr x \<Longrightarrow> clean X s (g x s)) \<Longrightarrow> clean X s (st_bind (st_res f) g s)"
  by (cases "f s") (simp_all add: st_bind_res clean_def)

lemma clean_bind:
  assumes "clean X s (m s)" and "\<And>x s1 e s2. m s = (Inr x, s1) \<Longrightarrow> g x s1 = (Inl e, s2) \<Longrightarrow> e \<in> X"
  shows "clean X s (st_bind m g s)"
proof (cases "m s")
  case (Pair r s1)
  then show ?thesis using assms by (cases r) (auto simp: clean_def st_bind_def)
qed

lemma replace_child_total:
  "has_latest s n \<Longrightarrow> fst (replace_child E NoTx n b r name l changes s) \<noteq> Inl e"
  by (auto simp: has_latest_def replace_child_def update_children_def finalize_def make_latest_def branch_of_def
      st_bind_def Let_def)

lemma clean_replace:
  assumes "st_keeps (keeps_latest k) m" and "n < length (cs_nodes s)" and "has_latest s n" and "clean X s (m s)"
  shows "clean X s (st_bind m (\<lambda>x. replace_child E NoTx n b r name (l x) changes) s)"
  using assms(4)
proof (rule clean_bind)
  fix x s1 e s2
  assume "m s = (Inr x, s1)" "replace_child E NoTx n b r name (l x) changes s1 = (Inl e, s2)"
  moreover from st_keepsD [OF assms(1) this(1)] assms(2,3) have "has_latest s1 n" by (simp add: keeps_latest_def)
  ultimately show "e \<in> X" using replace_child_total [of s1 n E b r name "l x" changes e] by simp
qed

lemma clean_replace_now:
  "has_latest s n \<Longrightarrow> clean X s (replace_child E NoTx n b r name l changes s)"
  by (rule clean_total) (rule replace_child_total)

lemma clean_mknode: "clean X s (mknode E fuel auto data s)"
  using isolates_mknode [of E fuel auto data] by (auto simp: clean_def st_keeps_def) (metis snd_conv)

text \<open>The node of a coherent revision and the children it finds there.\<close>

lemma coh_node:
  assumes "coh P s r"
  obtains b where "assure_branch NoTx (r_node r) s = (Inr b, s)"
    and "r_node r < length (cs_nodes s)" and "has_latest s (r_node r)"
    and "\<forall>r0 name l. latest_of b = Inr r0 \<longrightarrow> rev_children r0 name = Inr l \<longrightarrow> (\<forall>c \<in> set l. coh P s c)"
proof -
  obtain b r0 where b: "branch_of s (r_node r) NoTx = Inr b" "b_latest b = Some r0" "skel r0 = skel r"
    "assure_branch NoTx (r_node r) s = (Inr b, s)"
    using coh_latest [OF assms] by blast
  have r0: "coh P s r0" using coh_skel [OF b(3) [symmetric] assms] .
  have "has_latest s (r_node r)"
    using b(1,2) by (auto simp: has_latest_def branch_of_def split: option.splits)
  then show ?thesis
    using b coh_head [OF assms] coh_rev_child [OF r0] by (intro that [of b]) (auto simp: head_def latest_of_def)
qed

lemma node_add_clean: "coh (e_proto E) s r \<Longrightarrow> clean {} s (node_add E NoTx data (r_node r) path s)"
proof (induction "length path" arbitrary: path r rule: less_induct)
  case less
  obtain b where b: "assure_branch NoTx (r_node r) s = (Inr b, s)" "r_node r < length (cs_nodes s)"
      "has_latest s (r_node r)"
    and kids: "\<forall>r0 name l. latest_of b = Inr r0 \<longrightarrow> rev_children r0 name = Inr l \<longrightarrow> (\<forall>c \<in> set l. coh (e_proto E) s c)"
    by (rule coh_node [OF less.prems])
  have child: "clean {} s (node_add E NoTx data (r_node (snd ir)) q s)"
    if "latest_of b = Inr r0" "rev_children r0 name = Inr l" "find_rev_by_key (e_proto E) l key v = Inr ir"
      "length q < length path" for r0 name l key v ir q
    using less.hyps [OF that(4)] kids that(1,2,3) find_rev_Inr [of "e_proto E" l key v "fst ir" "snd ir"] by simp
  show ?case
  proof (cases "lstrip_slash path = []")
    case True
    then show ?thesis by (simp add: node_add.simps [of E NoTx data "r_node r" path])
  next
    case False
    note short = path_step_less(2) [OF False]
    show ?thesis
      unfolding node_add.simps [of E NoTx data "r_node r" path] Let_def if_not_P [OF False]
        st_bind_eval(1) [where m = "assure_branch NoTx (r_node r)", OF b(1)]
      apply (intro clean_res)
      subgoal for r0 field
        apply (cases "ct_container field"; cases "ct_key field"; simp)
        apply (intro conjI impI clean_res)
        subgoal by (auto split: sum.split intro: clean_replace [OF lat.new b(2,3) clean_mknode])
        by (intro clean_replace [OF lat.keeps_node_add b(2,3)] child short)
      done
  qed
qed

lemma node_remove_clean: "coh (e_proto E) s r \<Longrightarrow> clean {} s (node_remove E NoTx (r_node r) path s)"
proof (induction "length path" arbitrary: path r rule: less_induct)
  case less
  obtain b where b: "assure_branch NoTx (r_node r) s = (Inr b, s)" "r_node r < length (cs_nodes s)"
      "has_latest s (r_node r)"
    and kids: "\<forall>r0 name l. latest_of b = Inr r0 \<longrightarrow> rev_children r0 name = Inr l \<longrightarrow> (\<forall>c \<in> set l. coh (e_proto E) s c)"
    by (rule coh_node [OF less.prems])
  have child: "clean {} s (node_remove E NoTx (r_node (snd ir)) q s)"
    if "latest_of b = Inr r0" "rev_children r0 name = Inr l" "find_rev_by_key (e_proto E) l key v = Inr ir"
      "length q < length path" for r0 name l key v ir q
    using less.hyps [OF that(4)] kids that(1,2,3) find_rev_Inr [of "e_proto E" l key v "fst ir" "snd ir"] by simp
  show ?case
  proof (cases "lstrip_slash path = []")
    case True
    then show ?thesis by (simp add: node_remove.simps [of E NoTx "r_node r" path])
  next
    case False
    note short = path_step_less(2) [OF False]
    show ?thesis
      unfolding node_remove.simps [of E NoTx "r_node r" path] Let_def if_not_P [OF False]
        st_bind_eval(1) [where m = "assure_branch NoTx (r_node r)", OF b(1)]
      apply (intro clean_res)
      subgoal for r0 field
        apply (cases "ct_container field \<and> snd (partition_at CHR ''/'' (lstrip_slash path)) \<noteq> []"; cases "ct_key field"; simp)
        apply (intro clean_res)
        apply simp
        apply (intro conjI impI clean_res)
        subgoal by (intro clean_replace [OF lat.keeps_node_remove b(2,3)] child short)
        by (intro clean_replace_now b(3))
      done
  qed
qed

lemma do_update_clean:
  assumes "has_latest s n"
  shows "clean X s (do_update E NoTx data strict n s)"
proof -
  have "fst (st_bind (update_data E r data n t) (\<lambda>r'. st_bind (make_latest E n NoTx r' (changes r')) (\<lambda>_. st_ret r')) s) \<noteq> Inl e"
    for r t changes e
    using assms by (auto simp: has_latest_def update_data_def finalize_def make_latest_def branch_of_def st_bind_def Let_def)
  note total = this
  show ?thesis
    unfolding do_update_def
    apply (intro clean_res)
    subgoal for b x y z r
      apply (cases "r_data r = data"; simp only: simp_thms if_True if_False)
      subgoal by (simp add: clean_def)
      by (intro clean_res clean_total total)
    done
qed

lemma node_update_clean:
  "coh (e_proto E) s r \<Longrightarrow> clean {ValueError} s (node_update E NoTx data strict (r_node r) path s)"
proof (induction "length path" arbitrary: path r rule: less_induct)
  case less
  obtain b where b: "assure_branch NoTx (r_node r) s = (Inr b, s)" "r_node r < length (cs_nodes s)"
      "has_latest s (r_node r)"
    and kids: "\<forall>r0 name l. latest_of b = Inr r0 \<longrightarrow> rev_children r0 name = Inr l \<longrightarrow> (\<forall>c \<in> set l. coh (e_proto E) s c)"
    by (rule coh_node [OF less.prems])
  have child: "clean {ValueError} s (node_update E NoTx data strict (r_node c) q s)"
    if "latest_of b = Inr r0" "rev_children r0 name = Inr l" "c \<in> set l" "length q < length path" for r0 name l c q
    using less.hyps [OF that(4)] kids that(1,2,3) by simp
  have only: "clean {ValueError} s (node_update E NoTx data strict (r_node c) q s)"
    if "latest_of b = Inr r0" "rbind (rev_children r0 name) first = Inr c" "length q < length path" for r0 name c q
    using child [OF that(1) _ _ that(3)] that(2) first_Inr by (fastforce simp: res_simps)
  have after: "clean {ValueError} s (st_bind (node_update E NoTx data strict c q) (\<lambda>new.
        if r_hash (e_proto E) new = h then st_res (\<lambda>s. latest_rev s (r_node r) NoTx)
        else if p_attr (e_proto E) (r_data new) key \<noteq> v then st_raise ValueError
        else replace_child E NoTx (r_node r) b r0 name (l[i := new]) []) s)"
    if "clean {ValueError} s (node_update E NoTx data strict c q s)" for c q h key v r0 name l i
    using that
  proof (rule clean_bind)
    fix new s1 e s2
    assume new: "node_update E NoTx data strict c q s = (Inr new, s1)"
      and e: "(if r_hash (e_proto E) new = h then st_res (\<lambda>s. latest_rev s (r_node r) NoTx)
        else if p_attr (e_proto E) (r_data new) key \<noteq> v then st_raise ValueError
        else replace_child E NoTx (r_node r) b r0 name (l[i := new]) []) s1 = (Inl e, s2)"
    have h: "has_latest s1 (r_node r)"
      using st_keepsD [OF lat.keeps_node_update new] b(2,3) by (simp add: keeps_latest_def)
    then have "latest_rev s1 (r_node r) NoTx \<noteq> Inl e"
      by (auto simp: has_latest_def latest_rev_def branch_of_def latest_of_def)
    then show "e \<in> {ValueError}"
      using e replace_child_total [OF h, of E b r0 name "l[i := new]" "[]" e] by (auto split: if_splits)
  qed
  show ?case
  proof (cases "lstrip_slash path = []")
    case True
    then show ?thesis
      using do_update_clean [OF b(3)]
      by (simp add: node_update.simps [of E NoTx data strict "r_node r" path]
          st_bind_eval(1) [where m = "assure_branch NoTx (r_node r)", OF b(1)])
  next
    case False
    note short = path_step_less [OF False]
    show ?thesis
      unfolding node_update.simps [of E NoTx data strict "r_node r" path] Let_def if_not_P [OF False]
        st_bind_eval(1) [where m = "assure_branch NoTx (r_node r)", OF b(1)]
      apply (intro clean_res)
      subgoal for r0 field
        apply (cases "ct_container field"; cases "ct_key field"; simp)
          subgoal by (intro impI clean_res after child short) (auto dest: find_rev_Inr [of _ _ _ _ "fst ir" "snd ir" for ir, simplified])
        by (intro clean_res clean_replace [OF lat.keeps_node_update b(2,3)] only short; assumption)+
      done
  qed
qed

text \<open>A failed operation of the root, when it is clean, leaves a store as good as before.\<close>

lemma root_op_clean:
  assumes ok: "store_ok E run fuel s" and "st_keeps (tame (Suc 0)) cop"
    and "root_op run fuel NoTx cop s = (Inl e, s')"
    and "\<And>s1. cop s = (Inl e, s1) \<Longrightarrow> isolates 0 s s1 \<or> isolates 0 s s'"
  shows "store_ok E run fuel s' \<and> committed s' = committed s"
proof -
  note pass = ok [unfolded store_ok_def]
  obtain res s1 where s1: "cop s = (res, s1)" by (cases "cop s")
  have tm: "tame (Suc 0) s s1" by (rule st_keepsD [OF assms(2) s1])
  then have "length (cs_queue s1) \<le> fuel" using pass by (simp add: tame_def)
  then obtain s2 where s2: "execute_deferred_callbacks run fuel s1 = (Inr (), s2)"
    "cs_nodes s2 = cs_nodes s1" "cs_queue s2 = []" using observing_drain pass by blast
  have "root_op run fuel NoTx cop s = (res, s2)"
    using pass s1 s2 by (simp add: root_op_def check_callback_queue_def check_dirty_def finally_deferred_def
        st_bind_def)
  with assms(3) have "res = Inl e" "s' = s2" by simp_all
  with assms(4) s1 have "isolates 0 s s1 \<or> isolates 0 s s2" by blast
  then have "isolates 0 s s1" using s2(2) by (auto simp: isolates_def)
  then show ?thesis using isolates_store_ok [OF ok _ tm s2(2,3)] \<open>s' = s2\<close> by blast
qed

lemma failed_ops_keep:
  assumes ok: "store_ok E run fuel s"
  shows "root_add E run fuel path data NoTx s = (Inl e, s') \<Longrightarrow> store_ok E run fuel s' \<and> committed s' = committed s"
    and "root_remove E run fuel path NoTx s = (Inl e, s') \<Longrightarrow> store_ok E run fuel s' \<and> committed s' = committed s"
    and "root_update E run fuel path data strict NoTx s = (Inl e, s') \<Longrightarrow> e \<noteq> ValueError \<or> isolates 0 s s' \<Longrightarrow>
      store_ok E run fuel s' \<and> committed s' = committed s"
proof -
  obtain r where r: "r_node r = 0" "coh (e_proto E) s r" using ok by (auto simp: store_ok_def root_ok_def)
  note clean = node_add_clean [OF r(2), unfolded r(1)] node_remove_clean [OF r(2), unfolded r(1)]
    node_update_clean [OF r(2), unfolded r(1)]
  show "root_add E run fuel path data NoTx s = (Inl e, s') \<Longrightarrow> store_ok E run fuel s' \<and> committed s' = committed s"
    unfolding root_add_def by (erule root_op_clean [OF ok tm.keeps_node_add]) (use clean(1) in \<open>simp add: clean_def\<close>)
  show "root_remove E run fuel path NoTx s = (Inl e, s') \<Longrightarrow> store_ok E run fuel s' \<and> committed s' = committed s"
    unfolding root_remove_def by (erule root_op_clean [OF ok tm.keeps_node_remove]) (use clean(2) in \<open>simp add: clean_def\<close>)
  show "root_update E run fuel path data strict NoTx s = (Inl e, s') \<Longrightarrow> e \<noteq> ValueError \<or> isolates 0 s s' \<Longrightarrow>
      store_ok E run fuel s' \<and> committed s' = committed s"
    unfolding root_update_def
    by (erule root_op_clean [OF ok tm.keeps_node_update]) (use clean(3) in \<open>auto simp: clean_def\<close>)
qed

text \<open>Dropping the branches of a transaction touches no committed branch, also when it fails half-way.\<close>

definition drops :: "nat \<Rightarrow> ('d, 'c) cstore \<Rightarrow> ('d, 'c) cstore \<Rightarrow> bool" where
  "drops k s s' \<longleftrightarrow> isolates k s s' \<and> tame k s s' \<and> cs_queue s' = cs_queue s"

interpretation drop: frame drops
  by unfold_locales (auto simp: drops_def intro: tm.same iso.comp tame_comp iso.weaken tm.weaken)

lemma del_branch_drops: "st_keeps (drops 0) (del_branch n (Tx t))"
  by (rule st_keepsI)
    (auto simp: del_branch_def drops_def node_simps intro!: isolates_same_len tame_nodes split: option.splits)

lemma del_txbranch_drops: "st_keeps (drops 0) (del_txbranch t)"
proof -
  have "st_keeps (drops 0) (st_modify (\<lambda>s. s\<lparr>cs_dirty := od_del t (cs_dirty s)\<rparr>))"
    by (simp add: st_keeps_def drops_def isolates_def tame_def)
  then show ?thesis
    unfolding del_txbranch_def by (intro drop.keeps_then drop.keeps_res drop.keeps_for del_branch_drops)
qed

lemma drops_store_ok:
  "drops k s s' \<Longrightarrow> store_ok E run fuel s \<Longrightarrow> store_ok E run fuel s' \<and> committed s' = committed s"
  using isolates_store_ok [of E run fuel s k s' k s'] by (simp add: drops_def store_ok_def)

lemma refused_commit_drops:
  assumes "fst (merge_txbranch E (e_fuel E) t True 0 s) = Inl e"
  shows "drops 0 s (snd (fold_txbranch E run fuel t s))"
proof -
  have dry: "snd (merge_txbranch E (e_fuel E) t True 0 s) = s"
    using merge_dry_run [of E "e_fuel E" t 0] by (simp add: st_keeps_def)
  have "drops 0 s (snd (del_txbranch t s))" by (metis del_txbranch_drops st_keeps_def)
  then show ?thesis
    using assms dry drop.same [of s]
    by (auto simp: fold_txbranch_def split: prod.splits sum.splits pyerr.splits)
qed


section \<open>Reachable configurations\<close>

text \<open>
  The states the configuration goes through from its creation: by updates, additions and removals
  outside a transaction, successful or not, by opening transactions, by whatever is done in them and
  with whatever result, by cancelling them and by commits that are refused. A failed update that raises
  \<^verbatim>\<open>ValueError\<close> counts only if it left the committed branches alone, which the refusal to change a
  key does not; successful commits and loading from the store are not steps.
\<close>

inductive config_reach :: "('d, 'c) cenv \<Rightarrow> ('d, 'c) runner \<Rightarrow> nat \<Rightarrow> ('d, 'c) cstore \<Rightarrow> bool"
  for E run fuel where
  created: "root_init E data kv = (Inr r, s) \<Longrightarrow> config_reach E run fuel s"
| updated: "config_reach E run fuel s \<Longrightarrow> committed s = Inr t \<Longrightarrow> detects (e_proto E) data strict t path \<Longrightarrow>
     root_update E run fuel path data strict NoTx s = (Inr r, s') \<Longrightarrow> config_reach E run fuel s'"
| update_failed: "config_reach E run fuel s \<Longrightarrow> root_update E run fuel path data strict NoTx s = (Inl e, s') \<Longrightarrow>
     e \<noteq> ValueError \<or> isolates 0 s s' \<Longrightarrow> config_reach E run fuel s'"
| added: "config_reach E run fuel s \<Longrightarrow> root_add E run fuel path data NoTx s = (res, s') \<Longrightarrow>
     config_reach E run fuel s'"
| removed: "config_reach E run fuel s \<Longrightarrow> root_remove E run fuel path NoTx s = (res, s') \<Longrightarrow>
     config_reach E run fuel s'"
| opened: "config_reach E run fuel s \<Longrightarrow> open_transaction n t s = (tx, s') \<Longrightarrow> config_reach E run fuel s'"
| tx_updated: "config_reach E run fuel s \<Longrightarrow> root_update E run fuel path data strict (Tx t) s = (res, s') \<Longrightarrow>
     config_reach E run fuel s'"
| tx_added: "config_reach E run fuel s \<Longrightarrow> root_add E run fuel path data (Tx t) s = (res, s') \<Longrightarrow>
     config_reach E run fuel s'"
| tx_removed: "config_reach E run fuel s \<Longrightarrow> root_remove E run fuel path (Tx t) s = (res, s') \<Longrightarrow>
     config_reach E run fuel s'"
| cancelled: "config_reach E run fuel s \<Longrightarrow> del_txbranch t s = (u, s') \<Longrightarrow> config_reach E run fuel s'"
| commit_refused: "config_reach E run fuel s \<Longrightarrow> fst (merge_txbranch E (e_fuel E) t True 0 s) = Inl e \<Longrightarrow>
     fold_txbranch E run fuel t s = (u, s') \<Longrightarrow> config_reach E run fuel s'"

definition config_ok :: "('d, 'c) cenv \<Rightarrow> ('d, 'c) runner \<Rightarrow> nat \<Rightarrow> ('d, 'c) cstore \<Rightarrow> bool" where
  "config_ok E run fuel s \<longleftrightarrow> store_ok E run fuel s \<and> (\<exists>t. committed s = Inr t \<and> unique_keys (e_proto E) t)"

lemma config_ok_same:
  "config_ok E run fuel s \<Longrightarrow> store_ok E run fuel s' \<and> committed s' = committed s \<Longrightarrow> config_ok E run fuel s'"
  by (simp add: config_ok_def)

lemma config_ok_created:
  assumes "root_init E data kv = (Inr r, s)" and "observing run" and "0 < fuel"
    and "clear_keeps_class (e_proto E)" and "clear_keeps_attr (e_proto E)"
  shows "config_ok E run fuel s"
proof -
  note ok = root_init_ok [OF assms(1,4,2,3)]
  obtain t where "committed s = Inr t" using cfg.has_content [OF ok(1)] by blast
  with ok tree_of_unique [OF assms(4,5), of "e_fuel E" data t] show ?thesis unfolding config_ok_def by metis
qed

lemma config_ok_updated:
  assumes "config_ok E run fuel s" and "committed s = Inr t" and "detects (e_proto E) data strict t path"
    and "root_update E run fuel path data strict NoTx s = (Inr r, s')"
  shows "config_ok E run fuel s'"
proof -
  have u: "unique_keys (e_proto E) t" and ok: "store_ok E run fuel s" using assms(1,2) by (auto simp: config_ok_def)
  have a: "tree_update (e_proto E) data strict t path = committed s'" "store_ok E run fuel s'"
    using cfg.upd_law [OF ok assms(2,3)] assms(4) by simp_all
  obtain t' where "committed s' = Inr t'" using cfg.has_content [OF a(2)] by blast
  with a update_unique_keys [OF _ u] show ?thesis by (auto simp: config_ok_def)
qed

lemma config_ok_added:
  assumes "config_ok E run fuel s" and "root_add E run fuel path data NoTx s = (res, s')"
    and "clear_keeps_class (e_proto E)" and "clear_keeps_attr (e_proto E)"
  shows "config_ok E run fuel s'"
proof -
  obtain t where t: "committed s = Inr t" "unique_keys (e_proto E) t" and ok: "store_ok E run fuel s"
    using assms(1) by (auto simp: config_ok_def)
  show ?thesis
  proof (cases res)
    case (Inl e)
    then show ?thesis using config_ok_same [OF assms(1) failed_ops_keep(1) [OF ok]] assms(2) by blast
  next
    case (Inr r)
    have a: "tree_add (e_proto E) (e_fuel E) data t path = committed s'" "store_ok E run fuel s'"
      using cfg.add_law [OF ok t(1), where path = path and data = data] assms(2) Inr by simp_all
    obtain t' where "committed s' = Inr t'" using cfg.has_content [OF a(2)] by blast
    with a add_unique_keys [OF _ t(2) assms(4)] tree_of_unique [OF assms(3,4)] show ?thesis by (auto simp: config_ok_def)
  qed
qed

lemma config_ok_removed:
  assumes "config_ok E run fuel s" and "root_remove E run fuel path NoTx s = (res, s')"
  shows "config_ok E run fuel s'"
proof -
  obtain t where t: "committed s = Inr t" "unique_keys (e_proto E) t" and ok: "store_ok E run fuel s"
    using assms(1) by (auto simp: config_ok_def)
  show ?thesis
  proof (cases res)
    case (Inl e)
    then show ?thesis using config_ok_same [OF assms(1) failed_ops_keep(2) [OF ok]] assms(2) by blast
  next
    case (Inr r)
    have a: "tree_remove (e_proto E) t path = committed s'" "store_ok E run fuel s'"
      using cfg.rem_law [OF ok t(1), where path = path] assms(2) Inr by simp_all
    obtain t' where "committed s' = Inr t'" using cfg.has_content [OF a(2)] by blast
    with a remove_unique_keys [OF _ t(2)] show ?thesis by (auto simp: config_ok_def)
  qed
qed

lemma config_reach_ok:
  assumes "config_reach E run fuel s" and "observing run" and "0 < fuel"
    and "clear_keeps_class (e_proto E)" and "clear_keeps_attr (e_proto E)"
  shows "config_ok E run fuel s"
  using assms(1)
proof (induction rule: config_reach.induct)
  case (created data kv r s)
  then show ?case by (rule config_ok_created [OF _ assms(2-5)])
next
  case (updated s t data strict path r s')
  show ?case by (rule config_ok_updated [OF updated.IH updated.hyps(2-4)])
next
  case (update_failed s path data strict e s')
  have "store_ok E run fuel s" using update_failed.IH by (simp add: config_ok_def)
  then show ?case by (rule config_ok_same [OF update_failed.IH failed_ops_keep(3) [OF _ update_failed.hyps(2,3)]])
next
  case (added s path data res s')
  then show ?case using config_ok_added [OF _ _ assms(4,5)] by blast
next
  case (removed s path res s')
  then show ?case using config_ok_removed by blast
next
  case (opened s n t tx s')
  then show ?case using config_ok_same [of E run fuel s s'] open_keeps_ok [of E run fuel s n t] by (simp add: config_ok_def)
next
  case (tx_updated s path data strict t res s')
  then show ?case
    using config_ok_same [of E run fuel s s'] root_op_isolated [OF _ tm.keeps_node_update iso.keeps_node_update]
    by (metis config_ok_def root_update_def snd_conv)
next
  case (tx_added s path data t res s')
  then show ?case
    using config_ok_same [of E run fuel s s'] root_op_isolated [OF _ tm.keeps_node_add iso.keeps_node_add]
    by (metis config_ok_def root_add_def snd_conv)
next
  case (tx_removed s path t res s')
  then show ?case
    using config_ok_same [of E run fuel s s'] root_op_isolated [OF _ tm.keeps_node_remove iso.keeps_node_remove]
    by (metis config_ok_def root_remove_def snd_conv)
next
  case (cancelled s t u s')
  then show ?case
    using drops_store_ok [OF st_keepsD [OF del_txbranch_drops cancelled(2)]] config_ok_same by (metis config_ok_def)
next
  case (commit_refused s t e u s')
  then show ?case
    using drops_store_ok [of 0 s s'] refused_commit_drops [of E t s e run fuel] config_ok_same
    by (metis config_ok_def snd_conv)
qed

text \<open>
  C13. The well-formedness invariant of the committed configuration: in every state reached from the
  creation of the root by updates, additions and removals outside transactions, successful or failed, by
  opening transactions, by any operations in them with any result, by cancelling them and by refused
  commits, the store is coherent (the head of every node's committed branch is the revision the tree
  refers to, and every message has the class of its node), and the children of every keyed container
  have different keys. Of the failed updates the one that is left out is the refused change of a key,
  after which the store is not coherent; successful commits and loading are not among the steps.
\<close>

theorem config_invariant:
  assumes "config_reach E run fuel s" and "observing run" and "0 < fuel"
    and "clear_keeps_class (e_proto E)" and "clear_keeps_attr (e_proto E)"
  shows "store_ok E run fuel s \<and> (\<exists>t. committed s = Inr t \<and> unique_keys (e_proto E) t)"
  using config_reach_ok [OF assms] by (simp add: config_ok_def)

theorem config_invariant_witness:
  "\<exists>r s' res s''. root_add ex_env ex_run 3 ''/devices/olt/ports'' (ex_port 2) NoTx ex_store = (Inr r, s') \<and>
     root_add ex_env ex_run 3 ''/devices/olt/ports'' (ex_port 2) NoTx s' = (Inl res, s'') \<and>
     store_ok ex_env ex_run 3 s'' \<and> (\<exists>t. committed s'' = Inr t \<and> unique_keys ex_proto t)"
proof -
  obtain r s' where a: "root_add ex_env ex_run 3 ''/devices/olt/ports'' (ex_port 2) NoTx ex_store = (Inr r, s')"
    by (rule ex_add)
  obtain e s'' where e: "root_add ex_env ex_run 3 ''/devices/olt/ports'' (ex_port 2) NoTx s' = (Inl e, s'')"
    using cfg.add_once [OF ex_ok a] by (auto simp: ex_simple)
  obtain r0 where "root_init ex_env ex_root None = (Inr r0, ex_store)" using ex_init by blast
  then have "config_reach ex_env ex_run 3 s''" by (rule added [OF added [OF created a] e])
  from config_invariant [OF this] a e show ?thesis by (auto simp: ex_simple)
qed

end
