(* ===== verification/ConfigFindings.thy ===== *)
theory ConfigFindings
  imports ConfigPersist ConfigReach
begin

text \<open>
  Behaviours of the configuration store that differ from what the code means to do, each on a concrete
  configuration.
\<close>

definition ex_small_store :: "(ex_msg, nat) cstore" where
  "ex_small_store = snd (root_init ex_env ex_small None)"

text \<open>
  An update that would change a key is refused after the child's own branch was updated: the refused
  data is at the head of the child's node.
\<close>

definition ex_renamed :: "(ex_msg, nat) cstore" where
  "ex_renamed = snd (root_update ex_env ex_run 3 ''/devices/olt'' (ex_dev ''new'' []) False NoTx ex_small_store)"

lemma key_change_refused_late:
  "fst (root_update ex_env ex_run 3 ''/devices/olt'' (ex_dev ''new'' []) False NoTx ex_small_store) = Inl ValueError"
  "map (\<lambda>nd. map_option (\<lambda>r. m_fields (r_data r))
               (Option.bind (od_get NoTx (n_branches nd)) b_latest)) (cs_nodes ex_renamed) =
     [Some [], Some [(''id'', PStr ''new'')], Some []]"
  by code_simp+

text \<open>A later addition below the child then publishes the refused key.\<close>

lemma refused_key_published:
  "(case committed (snd (root_add ex_env ex_run 3 ''/devices/olt/ports'' (ex_port 1) NoTx ex_renamed)) of
      Inl e \<Rightarrow> [] | Inr t \<Rightarrow>
        (case tree_children t ''devices'' of Inl e \<Rightarrow> [] | Inr l \<Rightarrow> map (\<lambda>c. m_fields (t_data c)) l)) =
   [[(''id'', PStr ''new'')]]"
  by code_simp

text \<open>
  A merge that removes keys pops positions of the destination list that were computed before: when the
  destination removed a key and added it again at the end, the wrong child is removed.
\<close>

definition ex_devs :: "string list \<Rightarrow> ex_msg rev list" where
  "ex_devs ids = map (\<lambda>i. Rev (length i) 0 NoTx (ex_dev i []) [] False) ids"

lemma merge_removes_wrong_child:
  "(case fst (merge_both ex_proto (\<lambda>r. st_ret (Some r)) ''id'' (ex_devs [''a'', ''b'', ''c'', ''d''])
       (ex_devs [''c'', ''d'']) (ex_devs [''b'', ''c'', ''d'', ''a'', ''e'']) ()) of
      Inl e \<Rightarrow> [] | Inr (l, changes) \<Rightarrow> map (map_option (\<lambda>r. m_fields (r_data r))) l) =
   [Some [(''id'', PStr ''c'')], Some [(''id'', PStr ''d'')], Some [(''id'', PStr ''a'')]]"
  by code_simp

end
