(* ===== verification/PonSim.thy ===== *)
theory PonSim
  imports LogicalDeviceAgent
begin

text \<open>
  \<^verbatim>\<open>ponsim/ponsim.py\<close>: the PON simulator, a data plane for the rules the core computes. Frames
  are Ethernet frames with a stack of 802.1Q tags, as the scapy packets the simulator takes apart.

  Setting a field of a tag changes the packet object in place; pushing and popping a tag make a new
  object. A frame that was not pushed or popped on the way is therefore shared with the caller, and
  with the other receivers of a broadcast: every function also returns what became of the frame
  object it was given.
\<close>

section \<open>Frames\<close>

record vlan_tag =
  t_prio :: u32
  t_vlan :: u32
  t_type :: u32

record ip_layer =
  ip_prot :: u32
  ip_dest :: string
  udp_dport :: "u32 option"

record pkt =
  fr_src :: string
  fr_dst :: string
  fr_type :: u32
  fr_tags :: "vlan_tag list"
  fr_ip :: "ip_layer option"
  fr_payload :: string

text \<open>The \<^verbatim>\<open>oneof\<close> members that are read, with the protobuf default for the others.\<close>

fun val_eth_type :: "ofb_value \<Rightarrow> u32" where "val_eth_type (Eth_type v) = v" | "val_eth_type _ = 0"
fun val_ip_proto :: "ofb_value \<Rightarrow> u32" where "val_ip_proto (Ip_proto v) = v" | "val_ip_proto _ = 0"
fun val_vlan_vid :: "ofb_value \<Rightarrow> u32" where "val_vlan_vid (Vlan_vid v) = v" | "val_vlan_vid _ = 0"
fun val_vlan_pcp :: "ofb_value \<Rightarrow> u32" where "val_vlan_pcp (Vlan_pcp v) = v" | "val_vlan_pcp _ = 0"
fun val_ipv4_dst :: "ofb_value \<Rightarrow> u32" where "val_ipv4_dst (Ipv4_dst v) = v" | "val_ipv4_dst _ = 0"
fun val_push :: "action_data \<Rightarrow> u32" where "val_push (ActPush e) = e" | "val_push _ = 0"

fun val_set_field :: "action_data \<Rightarrow> oxm_field" where
  "val_set_field (ActSetField f) = f"
| "val_set_field _ = \<lparr>oxm_class = 0, oxm_choice = NoField\<rparr>"

definition ipv4int2str :: "u32 \<Rightarrow> string" where
  "ipv4int2str ipv4int =
     str_nat (unat (drop_bit 24 ipv4int AND 0xff)) @ ''.'' @
     str_nat (unat (drop_bit 16 ipv4int AND 0xff)) @ ''.'' @
     str_nat (unat (drop_bit 8 ipv4int AND 0xff)) @ ''.'' @
     str_nat (unat (ipv4int AND 0xff))"

definition get_non_shim_ether_type :: "pkt \<Rightarrow> u32" where
  "get_non_shim_ether_type f = (case fr_tags f of [] \<Rightarrow> fr_type f | t # _ \<Rightarrow> t_type t)"

definition get_vlan_pcp :: "pkt \<Rightarrow> u32 option" where
  "get_vlan_pcp f = (case fr_tags f of [] \<Rightarrow> None | t # _ \<Rightarrow> Some (t_prio t))"

definition get_ip_proto :: "pkt \<Rightarrow> u32 option" where
  "get_ip_proto f = map_option ip_prot (fr_ip f)"

definition get_ipv4_dst :: "pkt \<Rightarrow> string option" where
  "get_ipv4_dst f = map_option ip_dest (fr_ip f)"


section \<open>Matching\<close>

text \<open>
  The test of one field: \<open>Inr True\<close> goes on to the next field. The UDP test reads the attribute
  \<^verbatim>\<open>udsp_dst\<close>, which the message does not have.
\<close>

definition field_matches :: "u32 \<Rightarrow> pkt \<Rightarrow> ofb_field \<Rightarrow> bool res" where
  "field_matches inport f field =
     (if f_type field = IN_PORT then Inr (value_port (f_value field) = inport)
      else if f_type field = ETH_TYPE then
        Inr (val_eth_type (f_value field) = get_non_shim_ether_type f)
      else if f_type field = IP_PROTO then Inr (Some (val_ip_proto (f_value field)) = get_ip_proto f)
      else if f_type field = VLAN_VID then
        let expected_vlan = val_vlan_vid (f_value field) in
        Inr (case fr_tags f of
               [] \<Rightarrow> expected_vlan AND 4096 = 0
             | t # _ \<Rightarrow> expected_vlan AND 4096 \<noteq> 0 \<and> t_vlan t = expected_vlan AND 4095)
      else if f_type field = VLAN_PCP then
        Inr (Some (val_vlan_pcp (f_value field)) = get_vlan_pcp f)
      else if f_type field = IPV4_DST then
        Inr (Some (ipv4int2str (val_ipv4_dst (f_value field))) = get_ipv4_dst f)
      else if f_type field = UDP_DST then Inl AttributeError
      else Inl NotImplementedError)"

fun match_fields :: "u32 \<Rightarrow> pkt \<Rightarrow> ofb_field list \<Rightarrow> bool res" where
  "match_fields inport f [] = Inr True"
| "match_fields inport f (field # flds) =
     rbind (field_matches inport f field) (\<lambda>b.
       if b then match_fields inport f flds else Inr False)"

definition is_match :: "flow_stats \<Rightarrow> u32 \<Rightarrow> pkt \<Rightarrow> bool res" where
  "is_match flow inport f =
     rbind (get_ofb_fields flow) (match_fields inport f)"


section \<open>Actions\<close>

record act_state =
  a_port :: "u32 option"    \<comment> \<open>egress\_port\<close>
  a_frame :: pkt            \<comment> \<open>the object the variable frame refers to\<close>
  a_orig :: pkt             \<comment> \<open>the object the caller passed\<close>
  a_shared :: bool          \<comment> \<open>they are the same object\<close>

definition set_tag :: "(vlan_tag \<Rightarrow> vlan_tag) \<Rightarrow> act_state \<Rightarrow> act_state res" where
  "set_tag f s =
     (case fr_tags (a_frame s) of
        [] \<Rightarrow> Inl AttributeError
      | t # ts \<Rightarrow>
          let frame = (a_frame s)\<lparr>fr_tags := f t # ts\<rparr>
          in Inr (s\<lparr>a_frame := frame, a_orig := (if a_shared s then frame else a_orig s)\<rparr>))"

definition do_action :: "ofp_action \<Rightarrow> act_state \<Rightarrow> act_state res" where
  "do_action action s =
     (if act_type action = OUTPUT then Inr (s\<lparr>a_port := Some (act_output_port (act_data action))\<rparr>)
      else if act_type action = POP_VLAN then
        (case fr_tags (a_frame s) of
           [] \<Rightarrow> Inr s
         | shim # rest \<Rightarrow>
             Inr (s\<lparr>a_frame := (a_frame s)\<lparr>fr_type := t_type shim, fr_tags := rest\<rparr>, a_shared := False\<rparr>))
      else if act_type action = PUSH_VLAN then
        Inr (s\<lparr>a_frame := (a_frame s)\<lparr>fr_type := val_push (act_data action),
                 fr_tags := \<lparr>t_prio = 0, t_vlan = 1, t_type = fr_type (a_frame s)\<rparr> # fr_tags (a_frame s)\<rparr>,
               a_shared := False\<rparr>)
      else if act_type action = SET_FIELD then
        rbind (py_assert (oxm_class (val_set_field (act_data action)) = OFPXMC_OPENFLOW_BASIC)) (\<lambda>_.
        let field = choice_ofb (oxm_choice (val_set_field (act_data action))) in
        if f_type field = VLAN_VID then
          set_tag (\<lambda>t. t\<lparr>t_vlan := val_vlan_vid (f_value field) AND 4095\<rparr>) s
        else if f_type field = VLAN_PCP then
          set_tag (\<lambda>t. t\<lparr>t_prio := val_vlan_pcp (f_value field)\<rparr>) s
        else Inl NotImplementedError)
      else Inl NotImplementedError)"

definition process_actions :: "flow_stats \<Rightarrow> pkt \<Rightarrow> act_state res" where
  "process_actions flow f =
     rbind (actions_iter flow) (\<lambda>actions.
       py_for do_action actions \<lparr>a_port = None, a_frame = f, a_orig = f, a_shared = True\<rparr>)"


section \<open>A device\<close>

datatype sim_link = Egress nat | To_olt | To_onu nat

record sim_device =
  sd_name :: string
  sd_port :: nat
  sd_links :: "(u32, sim_link list) od"
  sd_flows :: "flow_stats list"

definition mk_sim_device :: "string \<Rightarrow> nat \<Rightarrow> sim_device" where
  "mk_sim_device name port = \<lparr>sd_name = name, sd_port = port, sd_links = [], sd_flows = []\<rparr>"

definition link :: "u32 \<Rightarrow> sim_link \<Rightarrow> sim_device \<Rightarrow> sim_device" where
  "link port fn d =
     d\<lparr>sd_links := od_set port ((case od_get port (sd_links d) of None \<Rightarrow> [] | Some l \<Rightarrow> l) @ [fn]) (sd_links d)\<rparr>"

text \<open>\<^verbatim>\<open>sorted(flows, key=priority, reverse=True)\<close> keeps the order of flows of equal priority.\<close>

definition by_priority :: "flow_stats list \<Rightarrow> flow_stats list" where
  "by_priority flows = sort_key (\<lambda>fm. - int (unat (fs_priority fm))) flows"

definition install_flows :: "flow_stats list \<Rightarrow> sim_device \<Rightarrow> sim_device" where
  "install_flows flows d = d\<lparr>sd_flows := by_priority flows\<rparr>"

fun process_flows :: "flow_stats list \<Rightarrow> u32 \<Rightarrow> pkt \<Rightarrow> act_state option res" where
  "process_flows [] inport f = Inr None"
| "process_flows (flow # flows) inport f =
     rbind (is_match flow inport f) (\<lambda>m.
       if m then rbind (process_actions flow f) (\<lambda>s. Inr (Some s))
       else process_flows flows inport f)"

definition process_frame :: "sim_device \<Rightarrow> u32 \<Rightarrow> pkt \<Rightarrow> act_state option res" where
  "process_frame d inport f = process_flows (sd_flows d) inport f"


section \<open>The network\<close>

text \<open>
  The devices by logical port: the OLT under 0, the ONUs from 128. Forwarding runs through the links;
  the frames that leave are the state. A loop of forwarding rules recurses forever in Python, so the
  depth is bounded by fuel.
\<close>

type_synonym ponsim = "(nat, sim_device) od"

definition onu_port :: "nat \<Rightarrow> nat" where
  "onu_port i = 128 + i"

definition mk_onu :: "nat \<Rightarrow> sim_device" where
  "mk_onu i = link 2 (Egress (onu_port i)) (link 1 To_olt (mk_sim_device (''onu'' @ str_nat i) (onu_port i)))"

definition mk_olt :: "nat \<Rightarrow> sim_device" where
  "mk_olt onus =
     foldl (\<lambda>d i. link 1 (To_onu (onu_port i)) d) (link 2 (Egress 0) (mk_sim_device ''olt'' 0)) [0..<onus]"

definition mk_ponsim :: "nat \<Rightarrow> ponsim" where
  "mk_ponsim onus = (0, mk_olt onus) # map (\<lambda>i. (onu_port i, mk_onu i)) [0..<onus]"

definition sim_dev :: "ponsim \<Rightarrow> nat \<Rightarrow> sim_device res" where
  "sim_dev ps k = (case od_get k ps of None \<Rightarrow> Inl KeyError | Some d \<Rightarrow> Inr d)"

fun dev_ingress :: "nat \<Rightarrow> ponsim \<Rightarrow> nat \<Rightarrow> u32 \<Rightarrow> pkt \<Rightarrow> ((nat \<times> pkt) list, pkt) st" where
  "dev_ingress 0 ps k port f = st_raise RecursionError"
| "dev_ingress (Suc fuel) ps k port f =
     st_bind (st_res (\<lambda>_. rbind (sim_dev ps k) (\<lambda>d. rbind (process_frame d port f) (\<lambda>oc. Inr (d, oc))))) (\<lambda>(d, outcome).
     case outcome of
       None \<Rightarrow> st_ret f
     | Some s \<Rightarrow>
         let links = (case a_port s of
                        None \<Rightarrow> []
                      | Some p \<Rightarrow> (case od_get p (sd_links d) of None \<Rightarrow> [] | Some l \<Rightarrow> l)) in
         st_bind (st_for (\<lambda>l frame.
             case l of
               Egress p \<Rightarrow> st_bind (st_modify (\<lambda>out. out @ [(p, frame)])) (\<lambda>_. st_ret frame)
             | To_olt \<Rightarrow> dev_ingress fuel ps 0 1 frame
             | To_onu m \<Rightarrow> dev_ingress fuel ps m 1 frame) links (a_frame s))
           (\<lambda>frame. st_ret (if a_shared s then frame else a_orig s)))"

definition get_sim_ports :: "ponsim \<Rightarrow> nat list" where
  "get_sim_ports ps = sort (od_keys ps)"

definition onu_install_flows :: "nat \<Rightarrow> flow_stats list \<Rightarrow> ponsim \<Rightarrow> ponsim res" where
  "onu_install_flows port flows ps =
     rbind (sim_dev ps port) (\<lambda>d. Inr (od_set port (install_flows flows d) ps))"

definition olt_install_flows :: "flow_stats list \<Rightarrow> ponsim \<Rightarrow> ponsim res" where
  "olt_install_flows flows ps = onu_install_flows 0 flows ps"

definition sim_ingress :: "nat \<Rightarrow> ponsim \<Rightarrow> nat \<Rightarrow> pkt \<Rightarrow> ((nat \<times> pkt) list, pkt) st" where
  "sim_ingress fuel ps port f = dev_ingress fuel ps port 2 f"



section \<open>Which flow is taken\<close>

lemma process_flows_skip:
  "\<forall>g \<in> set gs. is_match g port f = Inr False \<Longrightarrow> process_flows (gs @ fs) port f = process_flows fs port f"
  by (induction gs) auto

lemma process_flows_first:
  assumes "\<And>g. g \<in> set flows \<Longrightarrow> is_match g port f = Inr (m g)"
  shows "process_flows flows port f =
    (case find m flows of None \<Rightarrow> Inr None | Some g \<Rightarrow> rbind (process_actions g f) (\<lambda>s. Inr (Some s)))"
  using assms by (induction flows) auto

lemma find_sorted:
  assumes "sorted (map key xs)" and "find m xs = Some x"
  shows "x \<in> set xs \<and> m x \<and> (\<forall>y \<in> set xs. m y \<longrightarrow> key x \<le> key y)"
  using assms by (induction xs) (auto split: if_splits)

text \<open>
  C17. A frame is handled by a matching flow of the highest priority: when every flow can be tested, a
  device on which the flows were installed, in any order, drops the frame exactly when no flow matches, and
  otherwise applies the actions of a matching flow than which no matching flow has a higher priority.
\<close>

theorem highest_priority_wins:
  assumes "\<And>g. g \<in> set flows \<Longrightarrow> is_match g port f = Inr (m g)"
  shows "if \<exists>g \<in> set flows. m g
    then \<exists>g \<in> set flows. m g \<and> (\<forall>h \<in> set flows. m h \<longrightarrow> fs_priority h \<le> fs_priority g) \<and>
      process_frame (install_flows flows d) port f = rbind (process_actions g f) (\<lambda>s. Inr (Some s))
    else process_frame (install_flows flows d) port f = Inr None"
proof -
  let ?key = "\<lambda>fm. - int (unat (fs_priority fm))"
  have eq: "process_frame (install_flows flows d) port f =
      (case find m (by_priority flows) of None \<Rightarrow> Inr None | Some g \<Rightarrow> rbind (process_actions g f) (\<lambda>s. Inr (Some s)))"
    using process_flows_first [of "by_priority flows" port f m] assms
    by (simp add: process_frame_def install_flows_def by_priority_def)
  show ?thesis
  proof (cases "find m (by_priority flows)")
    case None
    then have "\<not> (\<exists>g \<in> set flows. m g)" by (auto simp: find_None_iff by_priority_def)
    with None show ?thesis by (simp add: eq)
  next
    case (Some g)
    have "sorted (map ?key (by_priority flows))" by (simp add: by_priority_def)
    from find_sorted [OF this Some] have "g \<in> set flows" "m g"
      "\<forall>h \<in> set flows. m h \<longrightarrow> fs_priority h \<le> fs_priority g"
      by (auto simp: by_priority_def word_le_def)
    with Some show ?thesis by (auto simp: eq)
  qed
qed

definition ex_frame :: pkt where
  "ex_frame = \<lparr>fr_src = ''a'', fr_dst = ''b'', fr_type = 0x888e, fr_tags = [], fr_ip = None, fr_payload = []\<rparr>"

definition ex_low :: "hash_env \<Rightarrow> flow_stats" where
  "ex_low H = mk_flow_stat H [in_port 2] [output_act 1] (kw_prio 10 0)"

definition ex_high :: "hash_env \<Rightarrow> flow_stats" where
  "ex_high H = mk_flow_stat H [in_port 2, eth_type 0x888e] [output_act 7] (kw_prio 500 0)"

lemma is_match_mk [simp]: "is_match (mk_flow_stat H fs as kw) port f = match_fields port f fs"
  by (simp add: is_match_def)

lemma field_matches_simps [simp]:
  "field_matches p f (in_port v) = Inr (v = p)"
  "field_matches p f (eth_type v) = Inr (v = get_non_shim_ether_type f)"
  "field_matches p f (vlan_vid v) = Inr (case fr_tags f of
     [] \<Rightarrow> v AND 4096 = 0 | t # _ \<Rightarrow> v AND 4096 \<noteq> 0 \<and> t_vlan t = v AND 4095)"
  "field_matches p f (vlan_pcp v) = Inr (Some v = get_vlan_pcp f)"
  by (simp_all add: field_matches_def ofb_generators Let_def)

theorem highest_priority_wins_witness:
  "if \<exists>g \<in> set [ex_low ex_hash, ex_high ex_hash]. match_fields 2 ex_frame (projr (get_ofb_fields g)) = Inr True
   then \<exists>g \<in> set [ex_low ex_hash, ex_high ex_hash].
      match_fields 2 ex_frame (projr (get_ofb_fields g)) = Inr True \<and>
      (\<forall>h \<in> set [ex_low ex_hash, ex_high ex_hash].
         match_fields 2 ex_frame (projr (get_ofb_fields h)) = Inr True \<longrightarrow> fs_priority h \<le> fs_priority g) \<and>
      process_frame (install_flows [ex_low ex_hash, ex_high ex_hash] (mk_sim_device ''olt'' 0)) 2 ex_frame =
        rbind (process_actions g ex_frame) (\<lambda>s. Inr (Some s))
   else process_frame (install_flows [ex_low ex_hash, ex_high ex_hash] (mk_sim_device ''olt'' 0)) 2 ex_frame = Inr None"
  by (rule highest_priority_wins)
    (auto simp: ex_low_def ex_high_def ex_frame_def get_non_shim_ether_type_def)


section \<open>What the actions do to a frame\<close>

definition tags_ok :: "pkt \<Rightarrow> bool" where
  "tags_ok f \<longleftrightarrow> (\<forall>t \<in> set (fr_tags f). t_vlan t < 4096)"

lemma and_4095: "(v :: u32) AND 4095 < 4096"
proof -
  have "v AND 4095 \<le> 4095" by (rule word_and_le1)
  also have "(4095 :: u32) < 4096" by simp
  finally show ?thesis .
qed

lemma do_action_tags:
  assumes "do_action a s = Inr s'" and "tags_ok (a_frame s)" and "tags_ok (a_orig s)"
  shows "tags_ok (a_frame s') \<and> tags_ok (a_orig s')"
  using assms and_4095
  by (auto simp: do_action_def set_tag_def tags_ok_def res_simps Let_def
      split: if_splits list.splits)

text \<open>
  VLAN ids stay within their 12 bits: a device never emits a tag with an id of 4096 or more, and
  never leaves one in the frame object it was given, when the frame that came in had none.
\<close>

theorem vlan_ids_in_range:
  assumes "process_actions flow f = Inr s" and "tags_ok f"
  shows "tags_ok (a_frame s) \<and> tags_ok (a_orig s)"
proof -
  obtain as where "py_for do_action as \<lparr>a_port = None, a_frame = f, a_orig = f, a_shared = True\<rparr> = Inr s"
    using assms(1) by (auto simp: process_actions_def res_simps)
  then show ?thesis
    by (rule py_for_invariant [where P = "\<lambda>s. tags_ok (a_frame s) \<and> tags_ok (a_orig s)"])
      (use assms(2) do_action_tags in auto)
qed

lemma do_action_simps [simp]:
  "do_action (output_act p) s = Inr (s\<lparr>a_port := Some p\<rparr>)"
  "do_action (push_vlan e) s =
     Inr (s\<lparr>a_frame := (a_frame s)\<lparr>fr_type := e,
              fr_tags := \<lparr>t_prio = 0, t_vlan = 1, t_type = fr_type (a_frame s)\<rparr> # fr_tags (a_frame s)\<rparr>,
            a_shared := False\<rparr>)"
  "do_action pop_vlan s =
     (case fr_tags (a_frame s) of
        [] \<Rightarrow> Inr s
      | shim # rest \<Rightarrow> Inr (s\<lparr>a_frame := (a_frame s)\<lparr>fr_type := t_type shim, fr_tags := rest\<rparr>, a_shared := False\<rparr>))"
  "do_action (set_field (vlan_vid v)) s = set_tag (\<lambda>t. t\<lparr>t_vlan := v AND 4095\<rparr>) s"
  by (simp_all add: do_action_def action_generators choice_ofb.simps ofb_generators)

lemma process_actions_mk [simp]:
  "process_actions (mk_flow_stat H fs as kw) f =
     py_for do_action as \<lparr>a_port = None, a_frame = f, a_orig = f, a_shared = True\<rparr>"
  by (simp add: process_actions_def actions_iter_def)

theorem vlan_ids_in_range_witness:
  "\<exists>s. process_actions (mk_flow_stat ex_hash [] [push_vlan 0x8100, set_field (vlan_vid 0xffff)] (kw_prio 1 0)) ex_frame
      = Inr s \<and> tags_ok (a_frame s) \<and> tags_ok (a_orig s)"
proof -
  obtain s where s: "process_actions (mk_flow_stat ex_hash [] [push_vlan 0x8100, set_field (vlan_vid 0xffff)]
      (kw_prio 1 0)) ex_frame = Inr s" by (simp add: set_tag_def ex_frame_def)
  from vlan_ids_in_range [OF s] s show ?thesis by (simp add: tags_ok_def ex_frame_def)
qed

text \<open>
  Popping undoes pushing: the frame that a rule tags (push, set the id, output) on one device is the
  original frame again after a rule that pops the tag on the next, for every frame, tag and port; and
  the first device leaves the frame object it was given as it was.
\<close>

theorem push_pop_roundtrip:
  "\<exists>s s'. process_actions (mk_flow_stat H fs [push_vlan e, set_field (vlan_vid v), output_act p] kw) f = Inr s \<and>
     a_orig s = f \<and>
     process_actions (mk_flow_stat H' fs' [pop_vlan, output_act q] kw') (a_frame s) = Inr s' \<and> a_frame s' = f"
  by (simp add: set_tag_def Let_def)



section \<open>From the core's rules to a packet\<close>

lemma od_get_onu: "i < n \<Longrightarrow> od_get (onu_port i) (map (\<lambda>i. (onu_port i, f i)) [0..<n]) = Some (f i)"
proof -
  have inj: "inj onu_port" by (simp add: inj_def onu_port_def)
  assume "i < n"
  moreover have "od_wf (map (\<lambda>i. (onu_port i, f i)) [0..<n])"
    by (simp add: od_wf_def comp_def distinct_map inj_on_subset [OF inj])
  ultimately show ?thesis by (auto simp: od_get_in)
qed

lemma onu_port_pos [simp]: "onu_port i \<noteq> 0" "0 \<noteq> onu_port i"
  by (simp_all add: onu_port_def)

lemma mk_onu_links: "sd_links (mk_onu i) = [(1, [To_olt]), (2, [Egress (onu_port i)])]"
  by (simp add: mk_onu_def link_def mk_sim_device_def)

lemma mk_olt_nni: "od_get 2 (sd_links (mk_olt n)) = Some [Egress 0]"
proof -
  have "od_get 2 (sd_links (foldl (\<lambda>d i. link 1 (To_onu (onu_port i)) d) d xs)) = od_get 2 (sd_links d)"
    for d and xs :: "nat list"
    by (induction xs arbitrary: d) (simp_all add: link_def)
  then show ?thesis by (simp add: mk_olt_def link_def mk_sim_device_def)
qed

lemma install_flows_simps [simp]:
  "sd_flows (install_flows flows d) = by_priority flows" "sd_links (install_flows flows d) = sd_links d"
  by (simp_all add: install_flows_def)

text \<open>The ONU's default rules on an untagged frame from its subscriber: tag it and send it upstream.\<close>

definition c_tagged :: "u32 \<Rightarrow> pkt \<Rightarrow> pkt" where
  "c_tagged vlan f =
     f\<lparr>fr_type := 0x8100,
       fr_tags := [\<lparr>t_prio = 0, t_vlan = (OFPVID_PRESENT OR vlan) AND 4095, t_type = fr_type f\<rparr>]\<rparr>"

lemma leaf_rules_order:
  "by_priority (leaf_device_default_flows H up down vlan) = leaf_device_default_flows H up down vlan"
  by (simp add: by_priority_def leaf_device_default_flows_def)

lemma present_bit: "(OFPVID_PRESENT OR v) AND 4096 \<noteq> (0 :: u32)"
proof
  assume "(OFPVID_PRESENT OR v) AND 4096 = (0 :: u32)"
  then have "bit ((OFPVID_PRESENT OR v) AND 4096) 12 = bit (0 :: u32) 12" by simp
  moreover have "bit (4096 :: u32) 12" by (simp add: bit_iff_odd)
  ultimately show False by (simp add: bit_simps)
qed

lemma onu_tags:
  assumes "fr_tags f = []"
  shows "process_flows (by_priority (leaf_device_default_flows H 1 2 vlan)) 2 f =
    Inr (Some \<lparr>a_port = Some 1, a_frame = c_tagged vlan f, a_orig = f, a_shared = False\<rparr>)"
  using assms present_bit [of 0]
  by (simp add: leaf_rules_order, simp add: leaf_device_default_flows_def set_tag_def c_tagged_def Let_def)

text \<open>
  C18. End to end, from the controller's flow to a packet: take a controller-bound flow on an ethertype,
  whose route ends on the OLT from port 1 to port 2; decompose it, install the resulting rules on the simulated OLT, and the default rules of an
  ONU on that ONU. Then an untagged frame of that ethertype that enters at the ONU's subscriber port
  leaves the network at the OLT's uplink, and nowhere else, tagged with the ONU's VLAN inside and VLAN
  4000 outside, within two hops.
\<close>

theorem controller_packet_arrives:
  assumes flow: "get_ofb_fields flow = Inr [in_port lp, eth_type et]"
      "get_actions flow = Some [output_act OFPP_CONTROLLER]"
    and route: "get_route (Some lp) (Some OFPP_CONTROLLER) = Inr [ih, Some eh]"
      "p_port_no (ingress_port eh) = 1" "p_port_no (egress_port eh) = 2"
    and dec: "decompose_flow H get_route flow group_map = Inr [(dev, rules, groups)]"
    and sim: "olt_install_flows rules (mk_ponsim onus) = Inr ps1"
      "onu_install_flows (onu_port i) (leaf_device_default_flows H 1 2 vlan) ps1 = Inr ps" "i < onus"
    and frame: "fr_tags f = []" "fr_type f = et"
  shows "sim_ingress (Suc (Suc fuel)) ps (onu_port i) f out =
    (Inr f, out @ [(0, f\<lparr>fr_type := 0x8100,
       fr_tags := [\<lparr>t_prio = 0, t_vlan = 4000, t_type = 0x8100\<rparr>,
                   \<lparr>t_prio = 0, t_vlan = (OFPVID_PRESENT OR vlan) AND 4095, t_type = et\<rparr>]\<rparr>)])"
proof -
  let ?rule = "mk_flow_stat H [in_port 1, eth_type et] [push_vlan 0x8100, set_field (vlan_vid 0x1fa0), output_act 2]
      (kw_prio (fs_priority flow) (fs_cookie flow))"
  have [simp]: "f_type (eth_type et) = ETH_TYPE" by (simp add: ofb_generators)
  have rules: "rules = [?rule]"
    using dec flow route
    by (auto simp: decompose_flow_def actions_iter_def Let_def decompose_controller_bound_def
        append_hop_flow_def need_def append_flow_def hop_flow_def is_controller_def fields_except_def)
  have olt: "od_get 0 ps = Some (install_flows rules (mk_olt onus))"
    and onu: "od_get (onu_port i) ps = Some (install_flows (leaf_device_default_flows H 1 2 vlan) (mk_onu i))"
    using sim by (auto simp: olt_install_flows_def onu_install_flows_def sim_dev_def mk_ponsim_def od_get_onu)
  have "process_flows (by_priority rules) 1 (c_tagged vlan f) =
      Inr (Some \<lparr>a_port = Some 2, a_frame = (c_tagged vlan f)\<lparr>fr_type := 0x8100,
        fr_tags := \<lparr>t_prio = 0, t_vlan = 4000, t_type = 0x8100\<rparr> # fr_tags (c_tagged vlan f)\<rparr>,
        a_orig = c_tagged vlan f, a_shared = False\<rparr>)"
    using frame by (simp add: rules by_priority_def get_non_shim_ether_type_def set_tag_def c_tagged_def Let_def)
  then have "dev_ingress (Suc fuel) ps 0 1 (c_tagged vlan f) out = (Inr (c_tagged vlan f),
      out @ [(0, (c_tagged vlan f)\<lparr>fr_type := 0x8100,
        fr_tags := \<lparr>t_prio = 0, t_vlan = 4000, t_type = 0x8100\<rparr> # fr_tags (c_tagged vlan f)\<rparr>)])"
    by (simp add: st_bind_def sim_dev_def olt process_frame_def mk_olt_nni)
  then show ?thesis
    using frame
    by (simp add: sim_ingress_def dev_ingress.simps(2) [of "Suc fuel"] st_bind_def sim_dev_def onu process_frame_def onu_tags mk_onu_links
        del: dev_ingress.simps) (simp add: c_tagged_def)
qed

theorem controller_packet_arrives_witness:
  "\<exists>ps1 ps. olt_install_flows (fst (snd (hd (projr (decompose_flow ex_hash ex_get_route ex_ctl_flow []))))) (mk_ponsim 2) = Inr ps1 \<and>
     onu_install_flows (onu_port 1) (leaf_device_default_flows ex_hash 1 2 129) ps1 = Inr ps \<and>
     sim_ingress 2 ps (onu_port 1) ex_frame [] =
       (Inr ex_frame, [(0, ex_frame\<lparr>fr_type := 0x8100,
          fr_tags := [\<lparr>t_prio = 0, t_vlan = 4000, t_type = 0x8100\<rparr>,
                      \<lparr>t_prio = 0, t_vlan = (OFPVID_PRESENT OR 129) AND 4095, t_type = 0x888e\<rparr>]\<rparr>)])"
proof -
  have f: "get_ofb_fields ex_ctl_flow = Inr [in_port 128, eth_type 0x888e]"
    "get_actions ex_ctl_flow = Some [output_act OFPP_CONTROLLER]"
    by (simp_all add: ex_ctl_flow_def ex_flow_def)
  have r: "ex_get_route (Some 128) (Some OFPP_CONTROLLER) = Inr [Some ex_up_onu, Some ex_up_olt]"
    "p_port_no (ingress_port ex_up_olt) = 1" "p_port_no (egress_port ex_up_olt) = 2"
    by (simp_all add: ex_network ex_get_route_def is_controller_def)
  obtain dev rules groups where d: "decompose_flow ex_hash ex_get_route ex_ctl_flow [] = Inr [(dev, rules, groups)]"
    using f r by (simp add: decompose_flow_def actions_iter_def Let_def decompose_controller_bound_def
        append_hop_flow_def need_def append_flow_def hop_flow_def is_controller_def)
  obtain ps1 where p1: "olt_install_flows rules (mk_ponsim 2) = Inr ps1"
    by (simp add: olt_install_flows_def onu_install_flows_def sim_dev_def mk_ponsim_def)
  then obtain ps where p2: "onu_install_flows (onu_port 1) (leaf_device_default_flows ex_hash 1 2 129) ps1 = Inr ps"
    by (auto simp: olt_install_flows_def onu_install_flows_def sim_dev_def mk_ponsim_def od_get_onu)
  have "sim_ingress (Suc (Suc 0)) ps (onu_port 1) ex_frame [] =
       (Inr ex_frame, [] @ [(0, ex_frame\<lparr>fr_type := 0x8100,
          fr_tags := [\<lparr>t_prio = 0, t_vlan = 4000, t_type = 0x8100\<rparr>,
                      \<lparr>t_prio = 0, t_vlan = (OFPVID_PRESENT OR 129) AND 4095, t_type = 0x888e\<rparr>]\<rparr>)])"
    by (rule controller_packet_arrives [OF f r d p1 p2]) (simp_all add: ex_frame_def)
  with p1 p2 d show ?thesis by (simp add: numeral_2_eq_2 del: dev_ingress.simps)
qed


section \<open>Two slips of the simulator\<close>

lemma udp_match_raises: "match_fields p f (udp_dst v # flds) = Inl AttributeError"
  by (simp add: field_matches_def ofb_generators)

text \<open>
  A rule that rewrites a tag without pushing or popping rewrites the frame object of its caller: on a
  broadcast the next receiver sees the rewritten frame.
\<close>

lemma set_field_in_place:
  assumes "fr_tags f = t # ts"
  shows "\<exists>s. process_actions (mk_flow_stat H fs [set_field (vlan_vid v), output_act p] kw) f = Inr s \<and>
    a_orig s = f\<lparr>fr_tags := t\<lparr>t_vlan := v AND 4095\<rparr> # ts\<rparr>"
  using assms by (simp add: set_tag_def Let_def)

end
