(* ===== verification/EventBus.thy ===== *)
theory EventBus
  imports Prelude
begin

text \<open>
  \<^verbatim>\<open>common/event_bus.py\<close>: the publish/subscribe bus that carries packets between the agents.

  A subscription is an object, known by its number. A topic is a text or a compiled regular
  expression; whether an expression matches a text is an argument. The bus keeps the lists of
  subscriptions by topic text, the regular expressions under \<open>None\<close>. A callback works on the state of
  its client, not on the bus: callbacks that subscribe or unsubscribe while a message is being
  delivered are not modelled.
\<close>

datatype topic = Topic string | Regex string | Other_topic

record ('m, 'c) subscription =
  sub_id :: nat
  sub_predicate :: "('m \<Rightarrow> bool res) option"
  sub_callback :: 'c
  sub_topic :: topic

record ('m, 'c) bus =
  bus_subs :: "(string option, ('m, 'c) subscription list) od"
  bus_map :: "(nat, string option) od"
  bus_next :: nat

definition new_bus :: "('m, 'c) bus" where
  "new_bus = \<lparr>bus_subs = [], bus_map = [], bus_next = 0\<rparr>"

definition subs_of :: "string option \<Rightarrow> ('m, 'c) bus \<Rightarrow> ('m, 'c) subscription list" where
  "subs_of k b = (case od_get k (bus_subs b) of None \<Rightarrow> [] | Some l \<Rightarrow> l)"

definition list_subscribers :: "string option \<Rightarrow> ('m, 'c) bus \<Rightarrow> ('m, 'c) subscription list" where
  "list_subscribers topic b =
     (case topic of None \<Rightarrow> concat (od_values (bus_subs b)) | Some t \<Rightarrow> subs_of (Some t) b)"

definition get_topic_key :: "topic \<Rightarrow> string option res" where
  "get_topic_key t = (case t of Topic s \<Rightarrow> Inr (Some s) | Regex r \<Rightarrow> Inr None | Other_topic \<Rightarrow> Inl AttributeError)"

definition subscribe ::
  "topic \<Rightarrow> 'c \<Rightarrow> ('m \<Rightarrow> bool res) option \<Rightarrow> (('m, 'c) bus, ('m, 'c) subscription) st" where
  "subscribe t callback predicate b =
     (let sub = \<lparr>sub_id = bus_next b, sub_predicate = predicate, sub_callback = callback, sub_topic = t\<rparr> in
      case get_topic_key t of
        Inl e \<Rightarrow> (Inl e, b)
      | Inr key \<Rightarrow>
          (Inr sub, b\<lparr>bus_subs := od_set key (subs_of key b @ [sub]) (bus_subs b),
                      bus_map := od_set (bus_next b) key (bus_map b), bus_next := Suc (bus_next b)\<rparr>))"

text \<open>\<^verbatim>\<open>list.remove\<close> drops the first occurrence, \<^verbatim>\<open>ValueError\<close> if there is none.\<close>

fun remove_sub :: "nat \<Rightarrow> ('m, 'c) subscription list \<Rightarrow> ('m, 'c) subscription list option" where
  "remove_sub i [] = None"
| "remove_sub i (x # xs) = (if sub_id x = i then Some xs else map_option (Cons x) (remove_sub i xs))"

definition unsubscribe :: "('m, 'c) subscription \<Rightarrow> (('m, 'c) bus, unit) st" where
  "unsubscribe sub b =
     (case od_get (sub_id sub) (bus_map b) of
        None \<Rightarrow> (Inl KeyError, b)
      | Some key \<Rightarrow>
          (case od_get key (bus_subs b) of
             None \<Rightarrow> (Inl KeyError, b)
           | Some l \<Rightarrow>
               (case remove_sub (sub_id sub) l of
                  None \<Rightarrow> (Inl ValueError, b)
                | Some l' \<Rightarrow> (Inr (), b\<lparr>bus_subs := od_set key l' (bus_subs b)\<rparr>))))"

definition passes :: "'m \<Rightarrow> ('m, 'c) subscription \<Rightarrow> bool" where
  "passes msg sub =
     (case sub_predicate sub of
        None \<Rightarrow> True | Some p \<Rightarrow> (case p msg of Inl e \<Rightarrow> False | Inr b \<Rightarrow> b))"

definition regex_subs :: "(string \<Rightarrow> string \<Rightarrow> bool) \<Rightarrow> string \<Rightarrow> ('m, 'c) bus \<Rightarrow> ('m, 'c) subscription list" where
  "regex_subs matches t b =
     filter (\<lambda>s. case sub_topic s of Regex r \<Rightarrow> matches r t | _ \<Rightarrow> False) (subs_of None b)"

text \<open>An exception of a callback is logged and dropped.\<close>

fun deliver :: "('c \<Rightarrow> string \<Rightarrow> 'm \<Rightarrow> ('s, unit) st) \<Rightarrow> string \<Rightarrow> 'm \<Rightarrow> ('m, 'c) subscription list \<Rightarrow> 's \<Rightarrow> 's" where
  "deliver run t msg [] s = s"
| "deliver run t msg (sub # subs) s =
     deliver run t msg subs (if passes msg sub then snd (run (sub_callback sub) t msg s) else s)"

text \<open>
  \<^verbatim>\<open>subscribers.extend(...)\<close> extends the list of the explicit subscribers, which is the very list
  the bus keeps when the topic has one.
\<close>

definition publish ::
  "(string \<Rightarrow> string \<Rightarrow> bool) \<Rightarrow> ('c \<Rightarrow> string \<Rightarrow> 'm \<Rightarrow> ('s, unit) st) \<Rightarrow> string \<Rightarrow> 'm
   \<Rightarrow> ('m, 'c) bus \<times> 's \<Rightarrow> ('m, 'c) bus \<times> 's" where
  "publish matches run t msg bs =
     (case bs of (b, s) \<Rightarrow>
        let subscribers = subs_of (Some t) b @ regex_subs matches t b;
            b' = (if od_get (Some t) (bus_subs b) = None then b
                  else b\<lparr>bus_subs := od_set (Some t) subscribers (bus_subs b)\<rparr>)
        in (b', deliver run t msg subscribers s))"


section \<open>Properties\<close>

lemma subs_of_set [simp]:
  "subs_of k (b\<lparr>bus_subs := od_set k' l (bus_subs b)\<rparr>) = (if k = k' then l else subs_of k b)"
  by (simp add: subs_of_def)

lemma subs_of_other [simp]:
  "subs_of k (b\<lparr>bus_map := m\<rparr>) = subs_of k b"
  "subs_of k (b\<lparr>bus_next := n\<rparr>) = subs_of k b"
  by (simp_all add: subs_of_def)

lemma deliver_log:
  assumes "\<And>c t m log. snd (run c t m log) = log @ [(c, t, m)]"
  shows "deliver run t msg subs log =
    log @ map (\<lambda>sub. (sub_callback sub, t, msg)) (filter (passes msg) subs)"
  using assms by (induction subs arbitrary: log) auto

text \<open>
  The history of a bus: the calls its clients have made, in order. Beside the bus itself the history
  has an abstract reading, the subscriptions that are live after it: those made, in the order of their
  numbers, less those taken back.
\<close>

datatype ('m, 'c) bus_op =
    Subscribe topic 'c "('m \<Rightarrow> bool res) option"
  | Unsubscribe "('m, 'c) subscription"
  | Publish string 'm

definition bus_step ::
  "(string \<Rightarrow> string \<Rightarrow> bool) \<Rightarrow> ('c \<Rightarrow> string \<Rightarrow> 'm \<Rightarrow> ('s, unit) st) \<Rightarrow> ('m, 'c) bus_op
   \<Rightarrow> ('m, 'c) bus \<times> 's \<Rightarrow> ('m, 'c) bus \<times> 's" where
  "bus_step matches run op bs =
     (case op of
        Subscribe t c p \<Rightarrow> (snd (subscribe t c p (fst bs)), snd bs)
      | Unsubscribe sub \<Rightarrow> (snd (unsubscribe sub (fst bs)), snd bs)
      | Publish t msg \<Rightarrow> publish matches run t msg bs)"

definition bus_run ::
  "(string \<Rightarrow> string \<Rightarrow> bool) \<Rightarrow> ('c \<Rightarrow> string \<Rightarrow> 'm \<Rightarrow> ('s, unit) st) \<Rightarrow> ('m, 'c) bus_op list
   \<Rightarrow> 's \<Rightarrow> ('m, 'c) bus \<times> 's" where
  "bus_run matches run ops s = fold (bus_step matches run) ops (new_bus, s)"

definition live_step ::
  "('m, 'c) bus_op \<Rightarrow> nat \<times> ('m, 'c) subscription list \<Rightarrow> nat \<times> ('m, 'c) subscription list" where
  "live_step op nl =
     (case op of
        Subscribe t c p \<Rightarrow>
          (if t = Other_topic then nl
           else (Suc (fst nl), snd nl @ [\<lparr>sub_id = fst nl, sub_predicate = p, sub_callback = c, sub_topic = t\<rparr>]))
      | Unsubscribe sub \<Rightarrow> (fst nl, filter (\<lambda>x. sub_id x \<noteq> sub_id sub) (snd nl))
      | Publish t msg \<Rightarrow> nl)"

definition live :: "('m, 'c) bus_op list \<Rightarrow> ('m, 'c) subscription list" where
  "live ops = snd (fold live_step ops (0, []))"

definition published :: "string \<Rightarrow> ('m, 'c) bus_op list \<Rightarrow> bool" where
  "published t ops \<longleftrightarrow> (\<exists>op \<in> set ops. case op of Publish t' msg \<Rightarrow> t' = t | _ \<Rightarrow> False)"

definition on_topic :: "string \<Rightarrow> ('m, 'c) subscription \<Rightarrow> bool" where
  "on_topic t sub \<longleftrightarrow> sub_topic sub = Topic t"

definition on_regex :: "(string \<Rightarrow> string \<Rightarrow> bool) \<Rightarrow> string \<Rightarrow> ('m, 'c) subscription \<Rightarrow> bool" where
  "on_regex matches t sub = (case sub_topic sub of Regex r \<Rightarrow> matches r t | _ \<Rightarrow> False)"

definition at_key :: "string option \<Rightarrow> ('m, 'c) subscription \<Rightarrow> bool" where
  "at_key k sub \<longleftrightarrow> get_topic_key (sub_topic sub) = Inr k"

text \<open>
  What ties the bus to the live subscriptions: the list of a key, cut down to the subscriptions of that
  key, is the live ones of the key in order. Only the list of a topic that has been published on holds
  anything else, and that is expressions that match the topic.
\<close>

definition bus_inv ::
  "(string \<Rightarrow> string \<Rightarrow> bool) \<Rightarrow> (string \<Rightarrow> bool) \<Rightarrow> nat \<times> ('m, 'c) subscription list \<Rightarrow> ('m, 'c) bus \<Rightarrow> bool" where
  "bus_inv matches pub nl b \<longleftrightarrow>
     bus_next b = fst nl \<and> distinct (map sub_id (snd nl)) \<and>
     (\<forall>k. \<forall>x \<in> set (snd nl) \<union> set (subs_of k b).
        sub_id x < fst nl \<and> (\<exists>k'. od_get (sub_id x) (bus_map b) = Some k' \<and> at_key k' x)) \<and>
     (\<forall>k. filter (at_key k) (subs_of k b) = filter (at_key k) (snd nl)) \<and>
     (\<forall>x \<in> set (subs_of None b). at_key None x) \<and>
     (\<forall>t. \<forall>x \<in> set (subs_of (Some t) b). at_key (Some t) x \<or> pub t \<and> on_regex matches t x)"

lemma at_key_topic: "at_key (Some t) = on_topic t"
  by (rule ext) (simp add: at_key_def on_topic_def get_topic_key_def split: topic.split)

lemma at_key_regex: "on_regex matches t x \<Longrightarrow> at_key None x"
  by (simp add: at_key_def on_regex_def get_topic_key_def split: topic.splits)

lemma at_key_unique: "\<lbrakk>at_key k x; at_key k' x\<rbrakk> \<Longrightarrow> k = k'"
  by (simp add: at_key_def)

lemma remove_sub_none: "remove_sub i l = None \<longleftrightarrow> (\<forall>x \<in> set l. sub_id x \<noteq> i)"
  by (induction l) auto

lemma remove_sub_set: "remove_sub i l = Some l' \<Longrightarrow> set l' \<subseteq> set l"
  by (induction l arbitrary: l') (auto split: if_splits)

lemma remove_sub_filter:
  "\<lbrakk>remove_sub i l = Some l'; \<forall>x \<in> set l. sub_id x = i \<longrightarrow> P x; distinct (map sub_id (filter P l))\<rbrakk>
   \<Longrightarrow> filter P l' = filter (\<lambda>x. sub_id x \<noteq> i) (filter P l)"
proof (induction l arbitrary: l')
  case (Cons x l)
  show ?case
  proof (cases "sub_id x = i")
    case True
    then have "sub_id x \<notin> sub_id ` set (filter P l)" using Cons.prems(2,3) by simp
    then have "filter (\<lambda>y. sub_id y \<noteq> i) (filter P l) = filter P l"
      using True by (intro filter_True) (auto simp: image_iff)
    then show ?thesis using Cons.prems True by simp
  next
    case False
    then obtain l'' where "remove_sub i l = Some l''" "l' = x # l''" using Cons.prems(1) by auto
    then show ?thesis using Cons.IH [of l''] Cons.prems(2,3) False by (auto split: if_splits)
  qed
qed simp

lemma subscribe_inv:
  assumes "bus_inv matches pub nl b"
  shows "bus_inv matches pub (live_step (Subscribe t c p) nl) (snd (subscribe t c p b))"
proof (cases "get_topic_key t")
  case (Inl e)
  then have "t = Other_topic" by (simp add: get_topic_key_def split: topic.splits)
  then show ?thesis using assms by (simp add: live_step_def subscribe_def get_topic_key_def Let_def)
next
  case (Inr key)
  then have t: "t \<noteq> Other_topic" by (auto simp: get_topic_key_def)
  let ?sub = "\<lparr>sub_id = fst nl, sub_predicate = p, sub_callback = c, sub_topic = t\<rparr>"
  have k: "at_key k ?sub \<longleftrightarrow> k = key" for k using Inr by (auto simp: at_key_def)
  let ?b = "snd (subscribe t c p b)"
  have b: "subs_of k ?b = (if k = key then subs_of key b @ [?sub] else subs_of k b)"
    "bus_map ?b = od_set (fst nl) key (bus_map b)" "bus_next ?b = Suc (fst nl)" for k
    using assms Inr by (simp_all add: bus_inv_def subscribe_def Let_def)
  have old: "sub_id x < fst nl \<and> (\<exists>k'. od_get (sub_id x) (bus_map b) = Some k' \<and> at_key k' x)"
    if "x \<in> set (snd nl) \<or> x \<in> set (subs_of k b)" for k x
    using assms that unfolding bus_inv_def by blast
  have ids: "\<forall>x \<in> set (snd nl @ [?sub]) \<union> set (subs_of k ?b).
      sub_id x < Suc (fst nl) \<and> (\<exists>k'. od_get (sub_id x) (bus_map ?b) = Some k' \<and> at_key k' x)" for k
  proof
    fix x
    assume "x \<in> set (snd nl @ [?sub]) \<union> set (subs_of k ?b)"
    then have "x = ?sub \<or> x \<in> set (snd nl) \<or> x \<in> set (subs_of k b)" by (auto simp: b split: if_splits)
    then show "sub_id x < Suc (fst nl) \<and> (\<exists>k'. od_get (sub_id x) (bus_map ?b) = Some k' \<and> at_key k' x)"
      using old [of x k] k by (auto simp: b)
  qed
  have "distinct (map sub_id (snd nl @ [?sub]))" using assms old by (force simp: bus_inv_def)
  then show ?thesis
    using assms ids t k unfolding bus_inv_def live_step_def by (auto simp: b)
qed

lemma bus_inv_key:
  assumes "bus_inv matches pub nl b" and "x \<in> set (snd nl) \<union> set (subs_of k b)"
  shows "od_get (sub_id x) (bus_map b) = Some k' \<longleftrightarrow> at_key k' x"
  using assms at_key_unique [of _ x] unfolding bus_inv_def by (metis option.inject)

lemma unsubscribe_effect:
  assumes "bus_inv matches pub nl b"
  shows "snd (unsubscribe sub b) = b \<and> (\<forall>x \<in> set (snd nl). sub_id x \<noteq> sub_id sub) \<or>
    (\<exists>key l'. od_get (sub_id sub) (bus_map b) = Some key \<and>
       remove_sub (sub_id sub) (subs_of key b) = Some l' \<and>
       snd (unsubscribe sub b) = b\<lparr>bus_subs := od_set key l' (bus_subs b)\<rparr>)"
proof (cases "od_get (sub_id sub) (bus_map b)")
  case None
  have "sub_id x \<noteq> sub_id sub" if "x \<in> set (snd nl)" for x
    using assms that None unfolding bus_inv_def by (metis UnI1 option.distinct(1))
  then show ?thesis using None by (auto simp: unsubscribe_def)
next
  case (Some key)
  show ?thesis
  proof (cases "remove_sub (sub_id sub) (subs_of key b)")
    case None
    then have n: "\<forall>x \<in> set (subs_of key b). sub_id x \<noteq> sub_id sub" by (simp add: remove_sub_none)
    have "sub_id x \<noteq> sub_id sub" if x: "x \<in> set (snd nl)" for x
    proof
      assume e: "sub_id x = sub_id sub"
      have "at_key key x" using bus_inv_key [OF assms, of x key key] x Some e by simp
      then have "x \<in> set (filter (at_key key) (subs_of key b))" using x assms by (simp add: bus_inv_def)
      then show False using n e by simp
    qed
    then show ?thesis using Some None
      by (intro disjI1 conjI) (auto simp: unsubscribe_def subs_of_def split: option.splits)
  next
    case (Some l')
    then show ?thesis using \<open>od_get (sub_id sub) (bus_map b) = Some key\<close>
      by (intro disjI2 exI [of _ key] exI [of _ l']) (auto simp: unsubscribe_def subs_of_def split: option.splits)
  qed
qed

lemma unsubscribe_inv:
  assumes "bus_inv matches pub nl b"
  shows "bus_inv matches pub (live_step (Unsubscribe sub) nl) (snd (unsubscribe sub b))"
proof -
  have i: "od_get (sub_id x) (bus_map b) = Some k' \<longleftrightarrow> at_key k' x"
    if "x \<in> set (snd nl) \<union> set (subs_of k b)" for k k' x
    by (rule bus_inv_key [OF assms that])
  have f: "filter (at_key k) (subs_of k b) = filter (at_key k) (snd nl)" for k
    using assms by (simp add: bus_inv_def)
  consider (gone) "snd (unsubscribe sub b) = b" "\<forall>x \<in> set (snd nl). sub_id x \<noteq> sub_id sub"
    | (hit) key l' where "od_get (sub_id sub) (bus_map b) = Some key"
        "remove_sub (sub_id sub) (subs_of key b) = Some l'"
        "snd (unsubscribe sub b) = b\<lparr>bus_subs := od_set key l' (bus_subs b)\<rparr>"
    using unsubscribe_effect [OF assms, of sub] by blast
  then show ?thesis
  proof cases
    case gone
    then have "filter (\<lambda>x. sub_id x \<noteq> sub_id sub) (snd nl) = snd nl" by (simp add: filter_True)
    then show ?thesis using assms gone by (simp add: live_step_def)
  next
    case hit
    have s: "set l' \<subseteq> set (subs_of key b)" by (rule remove_sub_set [OF hit(2)])
    have "distinct (map sub_id (filter (at_key key) (snd nl)))"
      using assms by (simp add: bus_inv_def distinct_map_filter)
    then have k: "filter (at_key key) l' = filter (\<lambda>x. sub_id x \<noteq> sub_id sub) (filter (at_key key) (snd nl))"
      using remove_sub_filter [OF hit(2), of "at_key key"] i hit(1) f by fastforce
    have o: "filter (\<lambda>x. at_key k x \<and> sub_id x \<noteq> sub_id sub) (snd nl) = filter (at_key k) (snd nl)" if "k \<noteq> key" for k
  proof (rule filter_cong)
    fix x
    assume "x \<in> set (snd nl)"
    then show "(at_key k x \<and> sub_id x \<noteq> sub_id sub) = at_key k x" using i [of x k k] hit(1) that by auto
  qed simp
    let ?b = "snd (unsubscribe sub b)"
    let ?l = "filter (\<lambda>x. sub_id x \<noteq> sub_id sub) (snd nl)"
    have sub: "set (subs_of k ?b) \<subseteq> set (subs_of k b)" for k using s by (simp add: hit(3))
    have "filter (at_key k) (subs_of k ?b) = filter (at_key k) ?l" for k
      using k o [of k] f [of k] by (simp add: hit(3) conj_commute)
    moreover have "\<forall>x \<in> set ?l \<union> set (subs_of k ?b). sub_id x < fst nl \<and>
        (\<exists>k'. od_get (sub_id x) (bus_map ?b) = Some k' \<and> at_key k' x)" for k
    proof
      fix x
      assume "x \<in> set ?l \<union> set (subs_of k ?b)"
      then have "x \<in> set (snd nl) \<union> set (subs_of k b)" using sub by auto
      then show "sub_id x < fst nl \<and> (\<exists>k'. od_get (sub_id x) (bus_map ?b) = Some k' \<and> at_key k' x)"
        using assms unfolding bus_inv_def by (simp add: hit(3))
    qed
    moreover have "bus_next ?b = fst nl \<and> distinct (map sub_id ?l)"
      using assms by (simp add: bus_inv_def hit(3) distinct_map_filter)
    moreover have "(\<forall>x \<in> set (subs_of None ?b). at_key None x) \<and>
        (\<forall>t. \<forall>x \<in> set (subs_of (Some t) ?b). at_key (Some t) x \<or> pub t \<and> on_regex matches t x)"
      using assms sub unfolding bus_inv_def by blast
    ultimately show ?thesis by (simp add: bus_inv_def live_step_def)
  qed
qed

lemma publish_inv:
  assumes "bus_inv matches pub nl b"
  shows "bus_inv matches (\<lambda>t'. t' = t \<or> pub t') nl (fst (publish matches run t msg (b, s)))"
proof -
  have r: "filter (at_key (Some t)) (regex_subs matches t b) = []"
    by (auto simp: regex_subs_def at_key_def get_topic_key_def filter_empty_conv split: topic.splits)
  have m: "x \<in> set (subs_of None b) \<and> on_regex matches t x" if "x \<in> set (regex_subs matches t b)" for x
    using that by (simp add: regex_subs_def on_regex_def)
  show ?thesis
    using assms r m unfolding bus_inv_def publish_def
    by (auto simp: Let_def)
qed

lemma bus_run_inv:
  "bus_inv matches (\<lambda>t. published t ops) (fold live_step ops (0, [])) (fst (bus_run matches run ops s))"
proof (induction ops rule: rev_induct)
  case Nil
  then show ?case by (simp add: bus_inv_def bus_run_def new_bus_def subs_of_def)
next
  case (snoc op ops)
  let ?bs = "bus_run matches run ops s"
  have run: "bus_run matches run (ops @ [op]) s = bus_step matches run op ?bs" by (simp add: bus_run_def)
  show ?case
  proof (cases op)
    case (Subscribe t c p)
    have "(\<lambda>t. published t (ops @ [op])) = (\<lambda>t. published t ops)" by (auto simp: published_def Subscribe)
    then show ?thesis using subscribe_inv [OF snoc] run Subscribe by (simp add: bus_step_def)
  next
    case (Unsubscribe sub)
    have "(\<lambda>t. published t (ops @ [op])) = (\<lambda>t. published t ops)" by (auto simp: published_def Unsubscribe)
    then show ?thesis using unsubscribe_inv [OF snoc] run Unsubscribe by (simp add: bus_step_def)
  next
    case (Publish t msg)
    have "(\<lambda>t'. published t' (ops @ [op])) = (\<lambda>t'. t' = t \<or> published t' ops)" by (auto simp: published_def Publish)
    then show ?thesis
      using publish_inv [OF snoc, of t run msg "snd ?bs"] run Publish by (simp add: bus_step_def live_step_def)
  qed
qed

lemma published_subs:
  assumes "bus_run matches run ops s = (b, s')"
  shows "regex_subs matches t b = filter (on_regex matches t) (live ops)" (is ?regex)
    and "filter (on_topic t) (subs_of (Some t) b) = filter (on_topic t) (live ops)" (is ?topic)
    and "\<forall>sub \<in> set (subs_of (Some t) b). on_topic t sub \<or> published t ops \<and> on_regex matches t sub" (is ?only)
proof -
  have inv: "bus_inv matches (\<lambda>t. published t ops) (fold live_step ops (0, [])) b"
    using bus_run_inv [of matches ops run s] assms by simp
  have "filter (at_key None) (subs_of None b) = subs_of None b"
    using inv by (intro filter_True) (simp add: bus_inv_def)
  then have "regex_subs matches t b = filter (on_regex matches t) (filter (at_key None) (subs_of None b))"
    by (simp only: regex_subs_def on_regex_def [abs_def])
  also have "\<dots> = filter (on_regex matches t) (filter (at_key None) (live ops))"
    using inv by (simp add: bus_inv_def live_def)
  also have "\<dots> = filter (on_regex matches t) (live ops)"
    using at_key_regex by (auto simp: intro!: filter_cong)
  finally show ?regex .
  show ?topic
    unfolding at_key_topic [symmetric] using inv by (simp add: bus_inv_def live_def)
  show ?only
    unfolding at_key_topic [symmetric] using inv by (simp add: bus_inv_def)
qed

text \<open>
  C19. Delivery: after any history of subscriptions, unsubscriptions and messages on a new bus, a message
  published on a topic calls every live explicit subscriber of the topic whose predicate accepts the
  message exactly once, in the order of subscription, and at the end, in the order of subscription, every
  live regular expression that matches the topic and accepts the message; whichever callbacks raise. Any
  further call goes to an expression, perhaps no longer subscribed, that matches the topic, and there is none when the topic has not
  been published on before: then the calls are exactly those of the live explicit subscribers followed
  by those of the live matching expressions. (On later messages of the topic there are further calls:
  the example at the end.)
\<close>

theorem publish_delivers:
  assumes "\<And>c t m log. snd (run c t m log) = log @ [(c, t, m)]"
    and "bus_run matches run ops [] = (b, log)"
  shows "\<exists>first. snd (publish matches run t msg (b, log)) = log @ map (\<lambda>sub. (sub_callback sub, t, msg))
        (first @ filter (passes msg) (filter (on_regex matches t) (live ops))) \<and>
      filter (on_topic t) first = filter (passes msg) (filter (on_topic t) (live ops)) \<and>
      (\<forall>sub \<in> set first. on_topic t sub \<or> published t ops \<and> on_regex matches t sub \<and> passes msg sub) \<and>
      (\<not> published t ops \<longrightarrow> first = filter (passes msg) (filter (on_topic t) (live ops)))"
proof (intro exI conjI)
  note subs = published_subs [OF assms(2), of t]
  let ?first = "filter (passes msg) (subs_of (Some t) b)"
  show "snd (publish matches run t msg (b, log)) = log @ map (\<lambda>sub. (sub_callback sub, t, msg))
      (?first @ filter (passes msg) (filter (on_regex matches t) (live ops)))"
    by (simp add: publish_def Let_def deliver_log [OF assms(1)] subs(1))
  show topic: "filter (on_topic t) ?first = filter (passes msg) (filter (on_topic t) (live ops))"
    unfolding subs(2) [symmetric] by (simp add: conj_commute)
  show "\<forall>sub \<in> set ?first. on_topic t sub \<or> published t ops \<and> on_regex matches t sub \<and> passes msg sub"
    using subs(3) by auto
  show "\<not> published t ops \<longrightarrow> ?first = filter (passes msg) (filter (on_topic t) (live ops))"
  proof
    assume "\<not> published t ops"
    then have "filter (on_topic t) ?first = ?first" using subs(3) by (intro filter_True) auto
    then show "?first = filter (passes msg) (filter (on_topic t) (live ops))" using topic by simp
  qed
qed


definition ex_logger :: "nat \<Rightarrow> string \<Rightarrow> nat \<Rightarrow> ((nat \<times> string \<times> nat) list, unit) st" where
  "ex_logger c t m log = (if c = 1 then Inl ValueError else Inr (), log @ [(c, t, m)])"

definition ex_ops :: "(nat, nat) bus_op list" where
  "ex_ops = [Subscribe (Topic ''pkt1'') 1 (Some (\<lambda>m. Inr (m < 9))), Subscribe (Topic ''pkt1'') 3 None,
     Subscribe (Regex ''pkt'') 2 None, Publish ''pkt'' 8,
     Unsubscribe \<lparr>sub_id = 1, sub_predicate = None, sub_callback = 3, sub_topic = Topic ''pkt1''\<rparr>]"

definition ex_bus :: "(nat, nat) bus" where
  "ex_bus = fst (bus_run (\<lambda>r t. take (length r) t = r) ex_logger ex_ops [])"

theorem publish_delivers_witness:
  "snd (publish (\<lambda>r t. take (length r) t = r) ex_logger ''pkt1'' 5 (ex_bus, [(2, ''pkt'', 8)])) =
     [(2, ''pkt'', 8), (1, ''pkt1'', 5), (2, ''pkt1'', 5)]"
proof -
  have l: "\<And>c t m log. snd (ex_logger c t m log) = log @ [(c, t, m)]" by (simp add: ex_logger_def)
  have "snd (bus_run (\<lambda>r t. take (length r) t = r) ex_logger ex_ops []) = [(2, ''pkt'', 8)]"
    by code_simp
  then have r: "bus_run (\<lambda>r t. take (length r) t = r) ex_logger ex_ops [] = (ex_bus, [(2, ''pkt'', 8)])"
    by (simp add: ex_bus_def prod_eq_iff)
  have n: "\<not> published ''pkt1'' ex_ops" by code_simp
  have "map sub_callback (filter (passes 5) (filter (on_topic ''pkt1'') (live ex_ops))) = [1] \<and>
      map sub_callback (filter (passes 5) (filter (on_regex (\<lambda>r t. take (length r) t = r) ''pkt1'') (live ex_ops))) = [2]"
    by code_simp
  then show ?thesis
    using publish_delivers [OF l r, of "''pkt1''" 5] n by (auto simp: map_eq_Cons_conv)
qed

lemma remove_sub_last:
  "\<forall>x \<in> set l. sub_id x \<noteq> sub_id sub \<Longrightarrow> remove_sub (sub_id sub) (l @ [sub]) = Some l"
  by (induction l) auto

definition fresh_bus :: "('m, 'c) bus \<Rightarrow> bool" where
  "fresh_bus b \<longleftrightarrow> (\<forall>(k, l) \<in> set (bus_subs b). \<forall>x \<in> set l. sub_id x < bus_next b)"

text \<open>
  Unsubscribing undoes subscribing: every topic has the subscribers it had before.
\<close>

theorem unsubscribe_subscribe:
  assumes "fresh_bus b" and "subscribe t c p b = (Inr sub, b')"
  shows "\<exists>b''. unsubscribe sub b' = (Inr (), b'') \<and> (\<forall>k. subs_of k b'' = subs_of k b)"
proof -
  obtain key where key: "get_topic_key t = Inr key"
    "sub = \<lparr>sub_id = bus_next b, sub_predicate = p, sub_callback = c, sub_topic = t\<rparr>"
    "b' = b\<lparr>bus_subs := od_set key (subs_of key b @ [sub]) (bus_subs b),
            bus_map := od_set (bus_next b) key (bus_map b), bus_next := Suc (bus_next b)\<rparr>"
    using assms(2) by (auto simp: subscribe_def Let_def split: sum.splits)
  have "sub_id x < bus_next b" if "x \<in> set (subs_of key b)" for x
    using assms(1) that od_get_mem [of key "bus_subs b"]
    by (cases "od_get key (bus_subs b)") (fastforce simp: fresh_bus_def subs_of_def)+
  then have "\<forall>x \<in> set (subs_of key b). sub_id x \<noteq> sub_id sub" using key(2) by force
  from remove_sub_last [OF this] show ?thesis
    using key by (auto simp: unsubscribe_def subs_of_def)
qed

theorem unsubscribe_subscribe_witness:
  "\<exists>sub b' b''. subscribe (Topic ''pkt1'') 3 None ex_bus = (Inr sub, b') \<and> unsubscribe sub b' = (Inr (), b'') \<and>
     (\<forall>k. subs_of k b'' = subs_of k ex_bus)"
proof -
  have f: "fresh_bus ex_bus" by code_simp
  obtain sub b' where s: "subscribe (Topic ''pkt1'') 3 None ex_bus = (Inr sub, b')"
    by (simp add: subscribe_def get_topic_key_def Let_def)
  from unsubscribe_subscribe [OF f s] s show ?thesis by blast
qed

text \<open>
  Publishing on a topic with an explicit subscriber makes every matching expression an explicit
  subscriber of the topic: from the second message on it is called more than once.
\<close>

lemma publish_leaks_regex:
  "snd (publish (\<lambda>r t. take (length r) t = r) ex_logger ''pkt1'' 5
      (publish (\<lambda>r t. take (length r) t = r) ex_logger ''pkt1'' 5 (ex_bus, []))) =
   [(1, ''pkt1'', 5), (2, ''pkt1'', 5), (1, ''pkt1'', 5), (2, ''pkt1'', 5), (2, ''pkt1'', 5)]"
  by code_simp

end
