(* ===== verification/DeviceAgent.thy ===== *)
theory DeviceAgent
  imports Devices Callbacks
begin

text \<open>
  \<^verbatim>\<open>voltha/core/device_agent.py\<close>: the agent between a device in the configuration and its adapter,
  with the state machine of the administrative state.

  The agent changes device messages in place and keeps references to them (\<^verbatim>\<open>last_data\<close>), and the
  configuration keeps the message object of an update as the data of the new revision; so messages are
  cells of a heap, and the agent, the configuration's latest revision and the callbacks hold addresses.
  \<^verbatim>\<open>_validate_update\<close> and \<^verbatim>\<open>_process_update\<close> are \<^verbatim>\<open>inlineCallbacks\<close>: called by the
  configuration, an exception of theirs ends in their \<^verbatim>\<open>Deferred\<close>. An update of the device runs
  \<^verbatim>\<open>_process_update\<close> again, inside; the depth is bounded by fuel.
\<close>

section \<open>State\<close>

record dmsg =
  dm_dev :: device
  dm_children :: bool    \<comment> \<open>one of the fields kept in child nodes is set\<close>

datatype da_callback = Validate_update | Process_update | Da_flow_table_updated | Da_group_table_updated

datatype adapter_call =
    Adopt_device device
  | Update_flows_bulk device "flow_stats list" "group_entry list"

record dev_type =
  dt_adapter :: string
  dt_bulk :: bool

record da_env =
  dv_types :: "(string, dev_type) od"
  dv_adapters :: "string list"

record da_state =
  da_heap :: "dmsg list"
  da_head :: nat
  da_last :: "nat option"
  da_initial :: "nat option"
  da_adapter :: "string option"
  da_type :: "dev_type option"
  da_cbs :: "da_callback callbacks"
  da_flows_cbs :: "da_callback callbacks"
  da_groups_cbs :: "da_callback callbacks"
  da_flows :: "flow_stats list"
  da_groups :: "group_entry list"
  da_calls :: "adapter_call list"

definition dev_at :: "da_state \<Rightarrow> nat \<Rightarrow> device" where
  "dev_at s a = dm_dev (da_heap s ! a)"

definition da_init :: "da_env \<Rightarrow> nat \<Rightarrow> (da_state, unit) st" where
  "da_init E a s =
     (let s1 = s\<lparr>da_initial := Some a, da_last := None,
                 da_cbs := register_callback POST_UPDATE Process_update
                             (register_callback PRE_UPDATE Validate_update (da_cbs s)),
                 da_flows_cbs := register_callback POST_UPDATE Da_flow_table_updated (da_flows_cbs s),
                 da_groups_cbs := register_callback POST_UPDATE Da_group_table_updated (da_groups_cbs s)\<rparr> in
      case od_get (d_type (dev_at s a)) (dv_types E) of
        None \<Rightarrow> (Inl KeyError, s1)
      | Some dt \<Rightarrow> (Inr (), s1\<lparr>da_type := Some dt, da_adapter := None\<rparr>))"

definition set_adapter_agent :: "da_env \<Rightarrow> (da_state, unit) st" where
  "set_adapter_agent E =
     st_bind (st_res (\<lambda>s. case da_initial s of None \<Rightarrow> Inl AttributeError | Some a \<Rightarrow> Inr (dev_at s a))) (\<lambda>dev.
     st_bind (st_res (\<lambda>_. if d_adapter dev = [] then
                            (case od_get (d_type dev) (dv_types E) of
                               None \<Rightarrow> Inl KeyError | Some dt \<Rightarrow> Inr (dt_adapter dt))
                          else Inr (d_adapter dev))) (\<lambda>adapter_name.
     st_bind (st_res (\<lambda>_. py_assert (adapter_name \<noteq> []))) (\<lambda>_.
     if adapter_name \<in> set (dv_adapters E)
     then st_modify (\<lambda>s. s\<lparr>da_adapter := Some adapter_name\<rparr>)
     else st_raise KeyError)))"


section \<open>State transitions\<close>

datatype fsm_entry = Invalid | Activate | Propagate | Disable | Abandon | Reenable

definition admin_state_fsm :: "nat \<Rightarrow> nat \<Rightarrow> fsm_entry option" where
  "admin_state_fsm old new =
     od_get (old, new)
       [((ADMIN_UNKNOWN, ADMIN_ENABLED), Activate),
        ((ADMIN_PREPROVISIONED, ADMIN_UNKNOWN), Invalid),
        ((ADMIN_PREPROVISIONED, ADMIN_ENABLED), Activate),
        ((ADMIN_ENABLED, ADMIN_UNKNOWN), Invalid),
        ((ADMIN_ENABLED, ADMIN_ENABLED), Propagate),
        ((ADMIN_ENABLED, ADMIN_DISABLED), Disable),
        ((ADMIN_ENABLED, ADMIN_PREPROVISIONED), Abandon),
        ((ADMIN_DISABLED, ADMIN_UNKNOWN), Invalid),
        ((ADMIN_DISABLED, ADMIN_PREPROVISIONED), Abandon),
        ((ADMIN_DISABLED, ADMIN_ENABLED), Reenable)]"

text \<open>
  \<^verbatim>\<open>self.proxy.update('/', device)\<close>: a message with child fields is refused; equal data is no
  change; otherwise the message becomes the data of the latest revision, and the post callback runs.
\<close>

definition da_proxy_update :: "(nat \<Rightarrow> (da_state, unit) st) \<Rightarrow> nat \<Rightarrow> (da_state, unit) st" where
  "da_proxy_update post a s =
     (if dm_children (da_heap s ! a) then (Inl NotImplementedError, s)
      else if dev_at s (da_head s) = dev_at s a then (Inr (), s)
      else
        let s1 = s\<lparr>da_head := a\<rparr> in
        (Inr (), if Process_update \<in> set (callbacks_of POST_UPDATE (da_cbs s1)) then snd (post a s1) else s1))"

definition da_update_device :: "(nat \<Rightarrow> (da_state, unit) st) \<Rightarrow> nat \<Rightarrow> (da_state, unit) st" where
  "da_update_device post a =
     st_bind (st_modify (\<lambda>s. s\<lparr>da_last := Some a\<rparr>)) (\<lambda>_. da_proxy_update post a)"

definition da_adopt :: "nat \<Rightarrow> (da_state, unit) st" where
  "da_adopt a =
     st_bind (st_res (\<lambda>s. if da_adapter s = None then Inl AttributeError else Inr ())) (\<lambda>_.
     st_modify (\<lambda>s. s\<lparr>da_calls := da_calls s @ [Adopt_device (dev_at s a)]\<rparr>))"

definition activate_device :: "(nat \<Rightarrow> (da_state, unit) st) \<Rightarrow> nat \<Rightarrow> bool \<Rightarrow> (da_state, unit) st" where
  "activate_device post a dry_run =
     (if dry_run then st_ret ()
      else
        st_bind (st_modify (\<lambda>s. s\<lparr>da_heap := (da_heap s)[a := (da_heap s ! a)
                   \<lparr>dm_dev := (dev_at s a)\<lparr>d_oper_status := OPER_ACTIVATING\<rparr>\<rparr>]\<rparr>)) (\<lambda>_.
        st_bind (da_update_device post a) (\<lambda>_. da_adopt a)))"

definition propagate_change :: "nat \<Rightarrow> bool \<Rightarrow> (da_state, unit) st" where
  "propagate_change a dry_run =
     st_res (\<lambda>s. if map_option (dev_at s) (da_last s) \<noteq> Some (dev_at s a) then Inl NotImplementedError
                 else Inr ())"

definition abandon_device :: "nat \<Rightarrow> bool \<Rightarrow> (da_state, unit) st" where
  "abandon_device a dry_run = st_raise NotImplementedError"

definition disable_device :: "nat \<Rightarrow> bool \<Rightarrow> (da_state, unit) st" where
  "disable_device a dry_run = st_raise NotImplementedError"

definition reenable_device :: "nat \<Rightarrow> bool \<Rightarrow> (da_state, unit) st" where
  "reenable_device a dry_run = st_raise NotImplementedError"

definition process_state_transitions ::
  "(nat \<Rightarrow> (da_state, unit) st) \<Rightarrow> nat \<Rightarrow> bool \<Rightarrow> (da_state, unit) st" where
  "process_state_transitions post a dry_run s =
     (let old_admin_state = (case da_last s of None \<Rightarrow> ADMIN_UNKNOWN | Some l \<Rightarrow> d_admin_state (dev_at s l));
          new_admin_state = d_admin_state (dev_at s a)
      in (case admin_state_fsm old_admin_state new_admin_state of
            None \<Rightarrow> st_ret ()
          | Some Invalid \<Rightarrow> st_raise InvalidStateTransition
          | Some Activate \<Rightarrow> activate_device post a dry_run
          | Some Propagate \<Rightarrow> propagate_change a dry_run
          | Some Disable \<Rightarrow> disable_device a dry_run
          | Some Abandon \<Rightarrow> abandon_device a dry_run
          | Some Reenable \<Rightarrow> reenable_device a dry_run) s)"

fun process_update :: "nat \<Rightarrow> nat \<Rightarrow> (da_state, unit) st" where
  "process_update 0 a = st_raise RecursionError"
| "process_update (Suc fuel) a =
     st_bind (process_state_transitions (process_update fuel) a False) (\<lambda>_.
     st_modify (\<lambda>s. s\<lparr>da_last := Some a\<rparr>))"

definition validate_update :: "nat \<Rightarrow> nat \<Rightarrow> (da_state, nat) st" where
  "validate_update fuel a =
     st_bind (process_state_transitions (process_update fuel) a True) (\<lambda>_. st_ret a)"

definition da_start :: "da_env \<Rightarrow> nat \<Rightarrow> (da_state, unit) st" where
  "da_start E fuel =
     st_bind (set_adapter_agent E) (\<lambda>_.
     st_bind (st_res (\<lambda>s. case da_initial s of None \<Rightarrow> Inl AttributeError | Some a \<Rightarrow> Inr a)) (\<lambda>a.
     st_bind (process_update fuel a) (\<lambda>_. st_modify (\<lambda>s. s\<lparr>da_initial := None\<rparr>))))"

definition da_unregister :: "callback_type \<Rightarrow> da_callback \<Rightarrow> (da_state, unit) st" where
  "da_unregister t c s = (let (r, cbs) = unregister_callback t c (da_cbs s) in (r, s\<lparr>da_cbs := cbs\<rparr>))"

definition da_stop :: "(da_state, unit) st" where
  "da_stop = st_bind (da_unregister PRE_UPDATE Validate_update) (\<lambda>_. da_unregister POST_UPDATE Process_update)"

definition da_remove_device :: "string \<Rightarrow> (da_state, unit) st" where
  "da_remove_device device_id = st_raise NotImplementedError"


section \<open>Flow tables\<close>

text \<open>Without bulk updates the code reads an attribute the agent does not have.\<close>

definition da_bulk_update ::
  "(da_state \<Rightarrow> flow_stats list) \<Rightarrow> (da_state \<Rightarrow> group_entry list) \<Rightarrow> (da_state, unit) st" where
  "da_bulk_update flows groups =
     st_bind (st_res (\<lambda>s. case da_last s of None \<Rightarrow> Inl AttributeError | Some l \<Rightarrow> Inr (dev_at s l))) (\<lambda>dev.
     st_bind (st_res (\<lambda>s. case da_type s of None \<Rightarrow> Inl AttributeError | Some dt \<Rightarrow> Inr (dt_bulk dt))) (\<lambda>bulk.
     if bulk then
       st_bind (st_res (\<lambda>s. if da_adapter s = None then Inl AttributeError else Inr ())) (\<lambda>_.
       st_modify (\<lambda>s. s\<lparr>da_calls := da_calls s @ [Update_flows_bulk dev (flows s) (groups s)]\<rparr>))
     else st_raise AttributeError))"

definition da_flow_table_updated :: "flow_stats list \<Rightarrow> (da_state, unit) st" where
  "da_flow_table_updated flows = da_bulk_update (\<lambda>_. flows) da_groups"

definition da_group_table_updated :: "group_entry list \<Rightarrow> (da_state, unit) st" where
  "da_group_table_updated groups = da_bulk_update da_flows (\<lambda>_. groups)"


section \<open>Properties\<close>

lemma fsm_diagonal: "admin_state_fsm x x = (if x = ADMIN_ENABLED then Some Propagate else None)"
  by (auto simp: admin_state_fsm_def)

text \<open>Processing an update of the data the agent already has does nothing.\<close>

lemma process_update_known:
  assumes "da_last s = Some a"
  shows "process_update (Suc fuel) a s = (Inr (), s)"
  using assms
  by (auto simp: process_state_transitions_def fsm_diagonal propagate_change_def st_bind_def Let_def)

lemma update_device_stores:
  assumes "\<not> dm_children (da_heap s ! a)"
  shows "\<exists>h. da_update_device (process_update (Suc fuel)) a s = (Inr (), s\<lparr>da_last := Some a, da_head := h\<rparr>) \<and>
    dev_at s h = dev_at s a"
proof -
  let ?s = "s\<lparr>da_last := Some a\<rparr>"
  have known: "process_update (Suc fuel) a (?s\<lparr>da_head := a\<rparr>) = (Inr (), ?s\<lparr>da_head := a\<rparr>)"
    by (rule process_update_known) simp
  have same: "?s = ?s\<lparr>da_head := da_head s\<rparr>" by simp
  show ?thesis
    using assms known
    by (intro exI [of _ "if dev_at s (da_head s) = dev_at s a then da_head s else a"])
      (auto simp: da_update_device_def st_bind_def da_proxy_update_def Let_def dev_at_def same [symmetric]
        simp del: process_update.simps)
qed

lemma activate_not_invalid: "fst (activate_device post a dry s) \<noteq> Inl InvalidStateTransition"
  by (simp add: activate_device_def st_bind_def da_update_device_def da_proxy_update_def da_adopt_def Let_def)

text \<open>An example: an \<open>olt\<close> device whose adapter is known, and an update that enables it.\<close>

definition da_ex_dev :: "nat \<Rightarrow> dmsg" where
  "da_ex_dev admin =
     \<lparr>dm_dev = (mk_device ''olt'' True 0)\<lparr>d_adapter := ''simulated_olt'', d_admin_state := admin\<rparr>,
      dm_children = False\<rparr>"

definition da_ex_state :: "nat \<Rightarrow> nat \<Rightarrow> da_state" where
  "da_ex_state old new =
     \<lparr>da_heap = [da_ex_dev old, da_ex_dev new], da_head = 0, da_last = Some 0, da_initial = None,
      da_adapter = Some ''simulated_olt'', da_type = None,
      da_cbs = [(POST_UPDATE, [Process_update])], da_flows_cbs = [], da_groups_cbs = [],
      da_flows = [], da_groups = [], da_calls = []\<rparr>"

lemmas da_ex = da_ex_dev_def da_ex_state_def dev_at_def

text \<open>
  What an adapter writes does not come back to it: \<^verbatim>\<open>DeviceAgent.update_device\<close> stores the
  message, whatever its administrative state, as the device's data and as the agent's last data, and calls no
  method of the adapter.
\<close>

theorem update_device_no_loopback:
  assumes "\<not> dm_children (da_heap s ! a)"
  shows "\<exists>s'. da_update_device (process_update (Suc fuel)) a s = (Inr (), s') \<and>
    da_calls s' = da_calls s \<and> da_last s' = Some a \<and> da_heap s' = da_heap s \<and>
    dev_at s' (da_head s') = dev_at s a"
proof -
  obtain h where "da_update_device (process_update (Suc fuel)) a s = (Inr (), s\<lparr>da_last := Some a, da_head := h\<rparr>)"
    "dev_at s h = dev_at s a"
    using update_device_stores [OF assms] by blast
  then show ?thesis by (simp add: dev_at_def)
qed

theorem update_device_no_loopback_witness:
  "\<not> dm_children (da_heap (da_ex_state ADMIN_PREPROVISIONED ADMIN_ENABLED) ! 1) \<and>
   (\<exists>s'. da_update_device (process_update (Suc 0)) 1 (da_ex_state ADMIN_PREPROVISIONED ADMIN_ENABLED) = (Inr (), s') \<and>
      da_calls s' = [] \<and> dev_at s' (da_head s') = dm_dev (da_ex_dev ADMIN_ENABLED))"
  using update_device_no_loopback [of "da_ex_state ADMIN_PREPROVISIONED ADMIN_ENABLED" 1 0]
  by (fastforce simp: da_ex)

text \<open>
  C20. Activation. When the device's new data is enabled and the agent's last data is absent, of unknown or
  of preprovisioned state, processing the update ends, with the operational status set to activating in the
  message, the message being both the stored data and the agent's last data, and the adapter asked exactly
  once to adopt the device, in that status.
\<close>

theorem activation_adopts_once:
  assumes "\<forall>l. da_last s = Some l \<longrightarrow> d_admin_state (dev_at s l) \<in> {ADMIN_UNKNOWN, ADMIN_PREPROVISIONED}"
    and "d_admin_state (dev_at s a) = ADMIN_ENABLED" and "\<not> dm_children (da_heap s ! a)"
    and "a < length (da_heap s)" and "da_adapter s = Some ad"
  shows "\<exists>s'. process_update (Suc (Suc fuel)) a s = (Inr (), s') \<and>
    da_calls s' = da_calls s @ [Adopt_device ((dev_at s a)\<lparr>d_oper_status := OPER_ACTIVATING\<rparr>)] \<and>
    da_last s' = Some a \<and> dev_at s' (da_head s') = (dev_at s a)\<lparr>d_oper_status := OPER_ACTIVATING\<rparr>"
proof -
  let ?d = "(dev_at s a)\<lparr>d_oper_status := OPER_ACTIVATING\<rparr>"
  let ?s = "s\<lparr>da_heap := (da_heap s)[a := (da_heap s ! a)\<lparr>dm_dev := ?d\<rparr>]\<rparr>"
  have fsm: "admin_state_fsm (case da_last s of None \<Rightarrow> ADMIN_UNKNOWN | Some l \<Rightarrow> d_admin_state (dev_at s l))
      (d_admin_state (dev_at s a)) = Some Activate"
    using assms(1,2) by (auto simp: admin_state_fsm_def split: option.splits)
  have "\<not> dm_children (da_heap ?s ! a)" and d: "dev_at ?s a = ?d"
    using assms by (simp_all add: dev_at_def)
  then obtain h where "da_update_device (process_update (Suc fuel)) a ?s = (Inr (), ?s\<lparr>da_last := Some a, da_head := h\<rparr>)"
    and "dev_at ?s h = ?d"
    using update_device_stores [of ?s a fuel] by metis
  moreover have "process_state_transitions (process_update (Suc fuel)) a False s =
      activate_device (process_update (Suc fuel)) a False s"
    unfolding process_state_transitions_def Let_def fsm by simp
  ultimately show ?thesis
    using d assms(5) unfolding process_update.simps(2) [of "Suc fuel"]
    by (simp add: activate_device_def st_bind_def da_adopt_def dev_at_def del: process_update.simps)
qed

theorem activation_adopts_once_witness:
  "\<exists>s'. process_update (Suc (Suc 0)) 1 (da_ex_state ADMIN_PREPROVISIONED ADMIN_ENABLED) = (Inr (), s') \<and>
     da_calls s' = [Adopt_device ((dm_dev (da_ex_dev ADMIN_ENABLED))\<lparr>d_oper_status := OPER_ACTIVATING\<rparr>)] \<and>
     da_last s' = Some 1"
  using activation_adopts_once [of "da_ex_state ADMIN_PREPROVISIONED ADMIN_ENABLED" 1 "''simulated_olt''" 0]
  by (simp add: da_ex del: process_update.simps) blast

text \<open>
  Which updates the state machine refuses. Processing an update raises
  \<^verbatim>\<open>InvalidStateTransition\<close> exactly when a device whose last known state is preprovisioned, disabled
  or enabled is given the unknown state; the agent is then left as it was.
\<close>

theorem invalid_transition_iff:
  "(fst (process_update (Suc fuel) a s) = Inl InvalidStateTransition \<longleftrightarrow>
    (\<exists>l. da_last s = Some l \<and>
       d_admin_state (dev_at s l) \<in> {ADMIN_PREPROVISIONED, ADMIN_DISABLED, ADMIN_ENABLED}) \<and>
    d_admin_state (dev_at s a) = ADMIN_UNKNOWN) \<and>
   (process_update (Suc fuel) a s = (Inl InvalidStateTransition, s) \<longleftrightarrow>
    fst (process_update (Suc fuel) a s) = Inl InvalidStateTransition)"
proof -
  let ?old = "case da_last s of None \<Rightarrow> ADMIN_UNKNOWN | Some l \<Rightarrow> d_admin_state (dev_at s l)"
  let ?e = "admin_state_fsm ?old (d_admin_state (dev_at s a))"
  have "?e = Some Invalid \<longleftrightarrow> (\<exists>l. da_last s = Some l \<and>
       d_admin_state (dev_at s l) \<in> {ADMIN_PREPROVISIONED, ADMIN_DISABLED, ADMIN_ENABLED}) \<and>
    d_admin_state (dev_at s a) = ADMIN_UNKNOWN"
    by (auto simp: admin_state_fsm_def split: option.splits)
  moreover have "fst (process_update (Suc fuel) a s) = Inl InvalidStateTransition \<longleftrightarrow> ?e = Some Invalid"
    using activate_not_invalid [of "process_update fuel" a False s]
    by (auto simp: process_state_transitions_def Let_def st_bind_def propagate_change_def
        disable_device_def abandon_device_def reenable_device_def
        split: option.splits fsm_entry.splits prod.splits sum.splits if_splits)
  moreover have "?e = Some Invalid \<Longrightarrow> process_update (Suc fuel) a s = (Inl InvalidStateTransition, s)"
    by (simp add: process_state_transitions_def Let_def st_bind_def)
  ultimately show ?thesis by auto
qed


section \<open>What the state machine lets through\<close>

text \<open>
  The refusal does not block anything: it is lost in the \<^verbatim>\<open>Deferred\<close> that \<^verbatim>\<open>_validate_update\<close>
  returns, and the configuration stores the refused data.
\<close>

lemma refused_update_stored:
  "\<exists>s'. fst (validate_update 1 1 (da_ex_state ADMIN_ENABLED ADMIN_UNKNOWN)) = Inl InvalidStateTransition \<and>
     da_proxy_update (process_update 1) 1 (da_ex_state ADMIN_ENABLED ADMIN_UNKNOWN) = (Inr (), s') \<and>
     dev_at s' (da_head s') = dm_dev (da_ex_dev ADMIN_UNKNOWN)"
  by (simp add: validate_update_def process_state_transitions_def st_bind_def da_proxy_update_def da_ex
      admin_state_fsm_def od_get_def callbacks_of_def Let_def mk_device_def)

text \<open>A stopped agent still handles the flow and group tables of its device.\<close>

lemma stop_keeps_table_callbacks:
  "da_stop s = (r, s') \<Longrightarrow> da_flows_cbs s' = da_flows_cbs s \<and> da_groups_cbs s' = da_groups_cbs s"
  by (auto simp: da_stop_def st_bind_def da_unregister_def Let_def split: prod.splits sum.splits)

text \<open>A device type without bulk updates fails on an attribute that the agent never had.\<close>

lemma no_bulk_update_raises:
  assumes "da_last s = Some l" and "da_type s = Some dt" and "\<not> dt_bulk dt"
  shows "da_flow_table_updated flows s = (Inl AttributeError, s)"
  using assms by (simp add: da_flow_table_updated_def da_bulk_update_def st_bind_def)

end
