(* ===== verification/Core.thy ===== *)
theory Core
  imports DeviceAgent AgentTables
begin

text \<open>
  \<^verbatim>\<open>voltha/core/core.py\<close>: the core keeps one agent for every device and every logical device of
  the configuration; it makes and drops them in the callbacks the root of the configuration runs after a
  child was added or removed. The handlers are \<^verbatim>\<open>inlineCallbacks\<close>: an exception of theirs ends in
  their \<^verbatim>\<open>Deferred\<close>, and the callback returns all the same.
\<close>

datatype core_callback = Post_add | Post_remove

datatype config_data = Device_data dmsg | Logical_device_data lda | Other_data

record core =
  co_instance_id :: string
  co_stopped :: bool
  co_root_cbs :: "core_callback callbacks"
  co_device_agents :: "(string, da_state) od"
  co_logical_device_agents :: "(string, lda) od"
  co_packet_in_queue :: "(string \<times> packet_in_msg) list"
  co_change_event_queue :: "(string \<times> port_status) list"

definition mk_core :: "string \<Rightarrow> core" where
  "mk_core instance_id =
     \<lparr>co_instance_id = instance_id, co_stopped = False, co_root_cbs = [], co_device_agents = [],
      co_logical_device_agents = [], co_packet_in_queue = [], co_change_event_queue = []\<rparr>"

definition core_start :: "core \<Rightarrow> core" where
  "core_start s =
     s\<lparr>co_root_cbs := register_callback POST_REMOVE Post_remove
                        (register_callback POST_ADD Post_add (co_root_cbs s))\<rparr>"

definition core_stop :: "core \<Rightarrow> core" where
  "core_stop s = s\<lparr>co_stopped := True\<rparr>"

text \<open>A new device agent, on the message that was added, which is also the device's data.\<close>

definition fresh_agent :: "dmsg \<Rightarrow> da_state" where
  "fresh_agent d =
     \<lparr>da_heap = [d], da_head = 0, da_last = None, da_initial = None, da_adapter = None, da_type = None,
      da_cbs = [], da_flows_cbs = [], da_groups_cbs = [], da_flows = [], da_groups = [], da_calls = []\<rparr>"

definition handle_add_device :: "da_env \<Rightarrow> nat \<Rightarrow> dmsg \<Rightarrow> (core, unit) st" where
  "handle_add_device E fuel d s =
     (let i = d_id (dm_dev d) in
      if od_get i (co_device_agents s) \<noteq> None then (Inl AssertionError, s)
      else
        (case st_bind (da_init E 0) (\<lambda>_. da_start E fuel) (fresh_agent d) of
           (Inl e, _) \<Rightarrow> (Inl e, s)
         | (Inr _, agent) \<Rightarrow> (Inr (), s\<lparr>co_device_agents := od_set i agent (co_device_agents s)\<rparr>)))"

definition handle_remove_device :: "dmsg \<Rightarrow> (core, unit) st" where
  "handle_remove_device d s =
     (let i = d_id (dm_dev d) in
      case od_get i (co_device_agents s) of
        None \<Rightarrow> (Inr (), s)
      | Some agent \<Rightarrow>
          (case da_stop agent of
             (Inl e, agent') \<Rightarrow> (Inl e, s\<lparr>co_device_agents := od_set i agent' (co_device_agents s)\<rparr>)
           | (Inr _, _) \<Rightarrow> (Inr (), s\<lparr>co_device_agents := od_del i (co_device_agents s)\<rparr>)))"

definition get_device_agent :: "string \<Rightarrow> core \<Rightarrow> da_state res" where
  "get_device_agent i s = (case od_get i (co_device_agents s) of None \<Rightarrow> Inl KeyError | Some a \<Rightarrow> Inr a)"

definition handle_add_logical_device :: "lda \<Rightarrow> (core, unit) st" where
  "handle_add_logical_device ld s =
     (if od_get (ld_id ld) (co_logical_device_agents s) \<noteq> None then (Inl AssertionError, s)
      else (Inr (), s\<lparr>co_logical_device_agents := od_set (ld_id ld) (lda_init ld) (co_logical_device_agents s)\<rparr>))"

definition handle_remove_logical_device :: "string \<Rightarrow> (core, unit) st" where
  "handle_remove_logical_device i s =
     (case od_get i (co_logical_device_agents s) of
        None \<Rightarrow> (Inr (), s)
      | Some agent \<Rightarrow>
          (case lda_stop agent of
             (Inl e, agent') \<Rightarrow> (Inl e, s\<lparr>co_logical_device_agents := od_set i agent' (co_logical_device_agents s)\<rparr>)
           | (Inr _, _) \<Rightarrow> (Inr (), s\<lparr>co_logical_device_agents := od_del i (co_logical_device_agents s)\<rparr>)))"

definition get_logical_device_agent :: "string \<Rightarrow> core \<Rightarrow> lda res" where
  "get_logical_device_agent i s =
     (case od_get i (co_logical_device_agents s) of None \<Rightarrow> Inl KeyError | Some a \<Rightarrow> Inr a)"

definition post_add_callback :: "da_env \<Rightarrow> nat \<Rightarrow> config_data \<Rightarrow> core \<Rightarrow> core" where
  "post_add_callback E fuel data s =
     (case data of
        Device_data d \<Rightarrow> snd (handle_add_device E fuel d s)
      | Logical_device_data ld \<Rightarrow> snd (handle_add_logical_device ld s)
      | Other_data \<Rightarrow> s)"

definition post_remove_callback :: "config_data \<Rightarrow> core \<Rightarrow> core" where
  "post_remove_callback data s =
     (case data of
        Device_data d \<Rightarrow> snd (handle_remove_device d s)
      | Logical_device_data ld \<Rightarrow> snd (handle_remove_logical_device (ld_id ld) s)
      | Other_data \<Rightarrow> s)"


section \<open>Agents come and go with their devices\<close>

lemma process_update_cbs: "da_cbs (snd (process_update fuel a s)) = da_cbs s"
proof (induction fuel arbitrary: a s)
  case (Suc fuel)
  have post: "da_cbs (snd (da_update_device (process_update fuel) a s)) = da_cbs s" for a s
    using Suc by (simp add: da_update_device_def st_bind_def da_proxy_update_def Let_def)
  have "da_cbs (snd (activate_device (process_update fuel) a d s)) = da_cbs s" for a d s
    using post by (auto simp: activate_device_def st_bind_def da_adopt_def split: prod.splits sum.splits)
      (metis da_state.select_convs(7) da_state.surjective da_state.update_convs(1) snd_conv)+
  then have "da_cbs (snd (process_state_transitions (process_update fuel) a d s)) = da_cbs s" for a d s
    by (simp add: process_state_transitions_def Let_def propagate_change_def abandon_device_def disable_device_def
        reenable_device_def split: option.split fsm_entry.split)
  then show ?case by (auto simp: st_bind_def split: prod.splits sum.splits) (metis snd_conv)+
qed simp

lemma started_agent_cbs:
  assumes "st_bind (da_init E 0) (\<lambda>_. da_start E fuel) (fresh_agent d) = (Inr (), agent)"
  shows "da_cbs agent = [(PRE_UPDATE, [Validate_update]), (POST_UPDATE, [Process_update])]"
proof -
  obtain s1 s2 s3 a where i: "da_init E 0 (fresh_agent d) = (Inr (), s1)"
    and t: "set_adapter_agent E s1 = (Inr (), s2)" and p: "process_update fuel a s2 = (Inr (), s3)"
    and "da_cbs agent = da_cbs s3"
    using assms by (auto simp: da_start_def st_bind_Inr)
  moreover have "da_cbs s3 = da_cbs s2" using process_update_cbs [of fuel a s2] p by simp
  moreover have "da_cbs s2 = da_cbs s1"
    using t by (auto simp: set_adapter_agent_def st_bind_Inr split: if_splits option.splits)
  moreover have "da_cbs s1 = [(PRE_UPDATE, [Validate_update]), (POST_UPDATE, [Process_update])]"
    using i by (auto simp: da_init_def Let_def fresh_agent_def register_callback_def callbacks_of_def od_get_def
        split: option.splits)
  ultimately show ?thesis by simp
qed

text \<open>Removing a device drops the agent that was made when it was added, and no other.\<close>

lemma remove_added_device:
  assumes "handle_add_device E fuel d s = (Inr (), s')"
  shows "handle_remove_device d s' = (Inr (), s)"
proof -
  let ?i = "d_id (dm_dev d)"
  obtain agent where new: "od_get ?i (co_device_agents s) = None"
    and start: "st_bind (da_init E 0) (\<lambda>_. da_start E fuel) (fresh_agent d) = (Inr (), agent)"
    and s': "s' = s\<lparr>co_device_agents := od_set ?i agent (co_device_agents s)\<rparr>"
    using assms by (auto simp: handle_add_device_def Let_def split: if_splits prod.splits sum.splits)
  have "fst (da_stop agent) = Inr ()"
    by (simp add: da_stop_def st_bind_def da_unregister_def unregister_callback_def started_agent_cbs [OF start]
        callbacks_of_def od_get_def)
  then show ?thesis
    using new by (cases "da_stop agent") (simp add: handle_remove_device_def s' od_del_set)
qed

text \<open>
  The agent of a logical device outlives it: stopping the agent raises, so its entry stays, and a new
  logical device of the same id is refused.
\<close>

lemma logical_agent_stays:
  assumes "handle_add_logical_device ld s = (Inr (), s')"
    and "ld_flows_cbs ld = []" and "ld_groups_cbs ld = []" and "ld_self_cbs ld = []"
  shows "od_get (ld_id ld) (co_logical_device_agents (post_remove_callback (Logical_device_data ld) s')) \<noteq> None \<and>
    fst (handle_add_logical_device ld (post_remove_callback (Logical_device_data ld) s')) = Inl AssertionError"
proof -
  have s': "s' = s\<lparr>co_logical_device_agents := od_set (ld_id ld) (lda_init ld) (co_logical_device_agents s)\<rparr>"
    using assms(1) by (auto simp: handle_add_logical_device_def split: if_splits)
  have "ld\<lparr>ld_flows_cbs := ld_flows_cbs ld, ld_groups_cbs := ld_groups_cbs ld, ld_self_cbs := ld_self_cbs ld\<rparr> = ld"
    by simp
  then have "fst (lda_stop (lda_init ld)) = Inl ValueError"
    using lda_stop_raises [of ld] unfolding assms(2-) by simp
  then have "od_get (ld_id ld) (co_logical_device_agents (post_remove_callback (Logical_device_data ld) s')) \<noteq> None"
    by (cases "lda_stop (lda_init ld)") (simp add: post_remove_callback_def handle_remove_logical_device_def s')
  then show ?thesis by (simp add: handle_add_logical_device_def)
qed

end
