(* ===== verification/LocalHandler.thy ===== *)
theory LocalHandler
  imports ConfigProps LogicalDeviceAgent
begin

text \<open>
  \<^verbatim>\<open>voltha/core/local_handler.py\<close>: the gRPC service of one instance, over the configuration of
  the theory \<open>ConfigRoot\<close> and the logical device agents of the core.

  A handler takes a request and leaves its status in the call's context. A reply is what the configuration
  returned, a message with a list of items, the empty message of a class, or the request itself.
  \<^verbatim>\<open>twisted_async\<close> runs a handler on the reactor's thread and hands its result or exception to the
  caller. Assignment to a field of a message, a function of the protobuf library, is an argument, and so is
  the value of \<^verbatim>\<open>uuid4().hex[:12]\<close>.
\<close>

section \<open>Requests, replies and the state of a call\<close>

datatype status_code = INVALID_ARGUMENT | NOT_FOUND

record grpc_context =
  gc_metadata :: "(string \<times> string) list"
  gc_code :: "status_code option"
  gc_details :: string

datatype 'd request =
    Empty_request
  | Id_request string
  | Flow_request string flow_mod
  | Group_request string group_mod
  | Message_request 'd

datatype 'd reply =
    Got "'d got"
  | Items string "'d ctx option list"
  | Blank string
  | Message_reply 'd

record ('d, 'c) lh_env =
  lh_cfg :: "('d, 'c) cenv"
  lh_run :: "('d, 'c) runner"
  lh_fuel :: nat
  lh_set :: "string \<Rightarrow> pval \<Rightarrow> 'd \<Rightarrow> 'd"
  lh_agent_env :: lda_env

record ('d, 'c) lh_state =
  lh_store :: "('d, 'c) cstore"
  lh_agents :: "(string, lda) od"
  lh_packets_in :: "(string \<times> packet_in_msg) list"
  lh_change_events :: "(string \<times> port_status) list"
  lh_stopped :: bool
  lh_context :: grpc_context

type_synonym ('d, 'c) handler = "'d request \<Rightarrow> (('d, 'c) lh_state, 'd reply) st"

definition request_id :: "'d proto \<Rightarrow> 'd request \<Rightarrow> string res" where
  "request_id P request =
     (case request of
        Empty_request \<Rightarrow> Inl AttributeError
      | Id_request i \<Rightarrow> Inr i
      | Flow_request i _ \<Rightarrow> Inr i
      | Group_request i _ \<Rightarrow> Inr i
      | Message_request d \<Rightarrow> (case p_attr P d ''id'' of PStr i \<Rightarrow> Inr i | _ \<Rightarrow> Inl AttributeError))"

definition set_status :: "status_code \<Rightarrow> string \<Rightarrow> (('d, 'c) lh_state, unit) st" where
  "set_status code details =
     st_modify (\<lambda>s. s\<lparr>lh_context := (lh_context s)\<lparr>gc_details := details, gc_code := Some code\<rparr>\<rparr>)"

definition get_depth :: "(('d, 'c) lh_state, int) st" where
  "get_depth =
     st_res (\<lambda>s. case od_get ''get-depth'' (od_of (gc_metadata (lh_context s)) []) of
                   None \<Rightarrow> Inr 0 | Some v \<Rightarrow> py_int v)"

definition lh_get :: "('d, 'c) lh_env \<Rightarrow> string \<Rightarrow> int \<Rightarrow> (('d, 'c) lh_state, 'd got) st" where
  "lh_get L path depth = st_res (\<lambda>s. node_get (lh_cfg L) (lh_store s) 0 path None depth False NoTx)"

text \<open>An operation of the configuration or of an agent, which keeps what it changed when it raises.\<close>

definition on_store :: "(('d, 'c) cstore, 'a) st \<Rightarrow> (('d, 'c) lh_state, 'a) st" where
  "on_store op s = (let (r, c) = op (lh_store s) in (r, s\<lparr>lh_store := c\<rparr>))"

definition on_agent :: "string \<Rightarrow> (lda, unit) st \<Rightarrow> (('d, 'c) lh_state, unit) st" where
  "on_agent i op s =
     (case od_get i (lh_agents s) of
        None \<Rightarrow> (Inl KeyError, s)
      | Some agent \<Rightarrow> (let (r, agent') = op agent in (r, s\<lparr>lh_agents := od_set i agent' (lh_agents s)\<rparr>)))"

text \<open>\<^verbatim>\<open>Ports(items=items)\<close>: the items are a list of messages.\<close>

definition mk_items :: "string \<Rightarrow> 'd got \<Rightarrow> 'd reply res" where
  "mk_items cls g = (case g of Many l \<Rightarrow> Inr (Items cls l) | One _ \<Rightarrow> Inl TypeError)"

definition quoted :: "string \<Rightarrow> string" where
  "quoted s = [CHR 0x27] @ s @ [CHR 0x27]"

text \<open>
  The frame of the handlers that name a thing by its id: an id with a slash is refused, and a
  \<^verbatim>\<open>KeyError\<close> becomes the status that the thing was not found.
\<close>

definition not_found :: "string \<Rightarrow> string \<Rightarrow> string \<Rightarrow> (('d, 'c) lh_state, 'd reply) st" where
  "not_found What i cls =
     st_bind (set_status NOT_FOUND (What @ '' '' @ quoted i @ '' not found'')) (\<lambda>_. st_ret (Blank cls))"

definition malformed :: "string \<Rightarrow> string \<Rightarrow> string \<Rightarrow> (('d, 'c) lh_state, 'd reply) st" where
  "malformed what i cls =
     st_bind (set_status INVALID_ARGUMENT (''Malformed '' @ what @ '' id '' @ quoted i)) (\<lambda>_. st_ret (Blank cls))"

definition except_key_error :: "('s, 'a) st \<Rightarrow> ('s, 'a) st \<Rightarrow> ('s, 'a) st" where
  "except_key_error body handler s = (case body s of (Inl KeyError, s') \<Rightarrow> handler s' | x \<Rightarrow> x)"

definition by_id ::
  "('d, 'c) lh_env \<Rightarrow> string \<Rightarrow> string \<Rightarrow> string \<Rightarrow> (string \<Rightarrow> (('d, 'c) lh_state, 'd reply) st) \<Rightarrow> ('d, 'c) handler"
where
  "by_id L what What cls body request =
     st_bind (st_res (\<lambda>_. request_id (e_proto (lh_cfg L)) request)) (\<lambda>i.
       if CHR ''/'' \<in> set i then malformed what i cls
       else except_key_error (body i) (not_found What i cls))"

definition read_one :: "('d, 'c) lh_env \<Rightarrow> string \<Rightarrow> int \<Rightarrow> (('d, 'c) lh_state, 'd reply) st" where
  "read_one L path depth = st_bind (lh_get L path depth) (\<lambda>g. st_ret (Got g))"

definition read_items :: "('d, 'c) lh_env \<Rightarrow> string \<Rightarrow> string \<Rightarrow> (('d, 'c) lh_state, 'd reply) st" where
  "read_items L path cls = st_bind (lh_get L path 0) (\<lambda>g. st_res (\<lambda>_. mk_items cls g))"


section \<open>The handlers\<close>

definition lh_start ::
  "('d, 'c) lh_env \<Rightarrow> 'd \<Rightarrow> ('d, 'c) lh_state \<Rightarrow> unit res \<times> ('d, 'c) lh_state" where
  "lh_start L instance_msg s =
     (case root_init (lh_cfg L) instance_msg None of
        (Inl e, c) \<Rightarrow> (Inl e, s)
      | (Inr _, c) \<Rightarrow> (Inr (), s\<lparr>lh_store := c\<rparr>))"

definition lh_stop :: "('d, 'c) lh_state \<Rightarrow> ('d, 'c) lh_state" where
  "lh_stop s = s\<lparr>lh_stopped := True\<rparr>"

definition lh_get_proxy :: "('d, 'c) lh_env \<Rightarrow> string \<Rightarrow> bool \<Rightarrow> (('d, 'c) lh_state, nat) st" where
  "lh_get_proxy L path exclusive = on_store (get_proxy (lh_cfg L) path exclusive)"

definition GetVolthaInstance :: "('d, 'c) lh_env \<Rightarrow> ('d, 'c) handler" where
  "GetVolthaInstance L request = st_bind get_depth (\<lambda>depth. read_one L ''/'' depth)"

definition GetHealth :: "('d, 'c) lh_env \<Rightarrow> ('d, 'c) handler" where
  "GetHealth L request = read_one L ''/health'' 0"

definition ListAdapters :: "('d, 'c) lh_env \<Rightarrow> ('d, 'c) handler" where
  "ListAdapters L request = read_items L ''/adapters'' ''Adapters''"

definition ListLogicalDevices :: "('d, 'c) lh_env \<Rightarrow> ('d, 'c) handler" where
  "ListLogicalDevices L request = read_items L ''/logical_devices'' ''LogicalDevices''"

definition GetLogicalDevice :: "('d, 'c) lh_env \<Rightarrow> ('d, 'c) handler" where
  "GetLogicalDevice L request =
     st_bind get_depth (\<lambda>depth.
       by_id L ''logical device'' ''Logical device'' ''LogicalDevice''
         (\<lambda>i. read_one L (''/logical_devices/'' @ i) depth) request)"

definition ListLogicalDevicePorts :: "('d, 'c) lh_env \<Rightarrow> ('d, 'c) handler" where
  "ListLogicalDevicePorts L =
     by_id L ''logical device'' ''Logical device'' ''LogicalPorts''
       (\<lambda>i. read_items L (''/logical_devices/'' @ i @ ''/ports'') ''LogicalPorts'')"

definition ListLogicalDeviceFlows :: "('d, 'c) lh_env \<Rightarrow> ('d, 'c) handler" where
  "ListLogicalDeviceFlows L =
     by_id L ''logical device'' ''Logical device'' ''Flows''
       (\<lambda>i. read_one L (''/logical_devices/'' @ i @ ''/flows'') 0)"

definition UpdateLogicalDeviceFlowTable :: "('d, 'c) lh_env \<Rightarrow> ('d, 'c) handler" where
  "UpdateLogicalDeviceFlowTable L request =
     by_id L ''logical device'' ''Logical device'' ''Empty''
       (\<lambda>i. case request of
              Flow_request _ fm \<Rightarrow>
                st_bind (on_agent i (update_flow_table (lh_agent_env L) fm)) (\<lambda>_. st_ret (Blank ''Empty''))
            | _ \<Rightarrow> st_bind (on_agent i (st_raise AttributeError)) (\<lambda>_. st_ret (Blank ''Empty''))) request"

definition ListLogicalDeviceFlowGroups :: "('d, 'c) lh_env \<Rightarrow> ('d, 'c) handler" where
  "ListLogicalDeviceFlowGroups L =
     by_id L ''logical device'' ''Logical device'' ''FlowGroups''
       (\<lambda>i. read_one L (''/logical_devices/'' @ i @ ''/flow_groups'') 0)"

definition UpdateLogicalDeviceFlowGroupTable :: "('d, 'c) lh_env \<Rightarrow> ('d, 'c) handler" where
  "UpdateLogicalDeviceFlowGroupTable L request =
     by_id L ''logical device'' ''Logical device'' ''Empty''
       (\<lambda>i. case request of
              Group_request _ gm \<Rightarrow>
                st_bind (on_agent i (update_group_table (lh_agent_env L) gm)) (\<lambda>_. st_ret (Blank ''Empty''))
            | _ \<Rightarrow> st_bind (on_agent i (st_raise AttributeError)) (\<lambda>_. st_ret (Blank ''Empty''))) request"

definition ListDevices :: "('d, 'c) lh_env \<Rightarrow> ('d, 'c) handler" where
  "ListDevices L request = read_items L ''/devices'' ''Devices''"

definition GetDevice :: "('d, 'c) lh_env \<Rightarrow> ('d, 'c) handler" where
  "GetDevice L request =
     st_bind get_depth (\<lambda>depth.
       by_id L ''device'' ''Device'' ''Device'' (\<lambda>i. read_one L (''/devices/'' @ i) depth) request)"

text \<open>
  \<^verbatim>\<open>CreateDevice\<close>: the handler of a failed assertion reads \<^verbatim>\<open>e.msg\<close>, an attribute that
  \<^verbatim>\<open>AssertionError\<close> does not have.
\<close>

definition known_device_types :: "'d proto \<Rightarrow> 'd got \<Rightarrow> (pval, 'd) od res" where
  "known_device_types P g =
     (case g of
        One _ \<Rightarrow> Inl TypeError
      | Many l \<Rightarrow>
          rbind (py_map (\<lambda>x. case x of Some (CData d) \<Rightarrow> Inr (p_attr P d ''id'', d) | _ \<Rightarrow> Inl AttributeError) l)
            (\<lambda>kvs. Inr (od_of kvs [])))"

definition new_device_ok :: "'d proto \<Rightarrow> (pval, 'd) od \<Rightarrow> 'd \<Rightarrow> bool" where
  "new_device_ok P types device \<longleftrightarrow>
     p_cls P device = ''Device'' \<and> p_attr P device ''id'' = PStr [] \<and>
     od_get (p_attr P device ''type'') types \<noteq> None \<and>
     p_attr P device ''admin_state'' \<in> {PInt (int ADMIN_UNKNOWN), PInt (int ADMIN_PREPROVISIONED)}"

definition fill_device :: "('d, 'c) lh_env \<Rightarrow> string \<Rightarrow> 'd \<Rightarrow> 'd \<Rightarrow> 'd" where
  "fill_device L uuid device_type device =
     (let P = e_proto (lh_cfg L);
          d1 = lh_set L ''id'' (PStr uuid) device;
          d2 = lh_set L ''adapter'' (p_attr P device_type ''adapter'') d1
      in if p_attr P d2 ''admin_state'' \<noteq> PInt (int ADMIN_PREPROVISIONED)
         then lh_set L ''oper_status'' (PInt (int OPER_UNKNOWN))
                (lh_set L ''admin_state'' (PInt (int ADMIN_PREPROVISIONED)) d2)
         else d2)"

definition CreateDevice :: "('d, 'c) lh_env \<Rightarrow> string \<Rightarrow> ('d, 'c) handler" where
  "CreateDevice L uuid request =
     st_bind (lh_get L ''/device_types'' 0) (\<lambda>g.
     st_bind (st_res (\<lambda>_. known_device_types (e_proto (lh_cfg L)) g)) (\<lambda>types.
     case request of
       Message_request device \<Rightarrow>
         if new_device_ok (e_proto (lh_cfg L)) types device then
           (case od_get (p_attr (e_proto (lh_cfg L)) device ''type'') types of
              None \<Rightarrow> st_raise KeyError
            | Some dt \<Rightarrow>
                let device' = fill_device L uuid dt device in
                st_bind (on_store (root_add (lh_cfg L) (lh_run L) (lh_fuel L) ''/devices'' device' NoTx))
                  (\<lambda>_. st_ret (Message_reply device')))
         else st_raise AttributeError
     | _ \<Rightarrow> st_raise AttributeError))"

definition the_message :: "'d got \<Rightarrow> 'd res" where
  "the_message g = (case g of One (Some (CData d)) \<Rightarrow> Inr d | _ \<Rightarrow> Inl AttributeError)"

definition ActivateDevice :: "('d, 'c) lh_env \<Rightarrow> ('d, 'c) handler" where
  "ActivateDevice L request =
     st_bind (st_res (\<lambda>_. request_id (e_proto (lh_cfg L)) request)) (\<lambda>i.
       if CHR ''/'' \<in> set i then malformed ''device'' i ''Device''
       else
         except_key_error
           (let path = ''/devices/'' @ i in
            st_bind (lh_get L path 0) (\<lambda>g.
            st_bind (st_res (\<lambda>_. the_message g)) (\<lambda>device.
            st_bind (on_store (root_update (lh_cfg L) (lh_run L) (lh_fuel L) path
                       (lh_set L ''admin_state'' (PInt (int ADMIN_ENABLED)) device) True NoTx)) (\<lambda>_.
              st_ret (Blank ''Empty'')))))
           (not_found ''Device'' i ''Empty''))"

definition ListDevicePorts :: "('d, 'c) lh_env \<Rightarrow> ('d, 'c) handler" where
  "ListDevicePorts L =
     by_id L ''device'' ''Device'' ''Ports'' (\<lambda>i. read_items L (''/devices/'' @ i @ ''/ports'') ''Ports'')"

definition ListDeviceFlows :: "('d, 'c) lh_env \<Rightarrow> ('d, 'c) handler" where
  "ListDeviceFlows L =
     by_id L ''device'' ''Device'' ''Flows'' (\<lambda>i. read_one L (''/devices/'' @ i @ ''/flows'') 0)"

definition ListDeviceFlowGroups :: "('d, 'c) lh_env \<Rightarrow> ('d, 'c) handler" where
  "ListDeviceFlowGroups L =
     by_id L ''device'' ''Device'' ''FlowGroups'' (\<lambda>i. read_one L (''/devices/'' @ i @ ''/flow_groups'') 0)"

definition ListDeviceTypes :: "('d, 'c) lh_env \<Rightarrow> ('d, 'c) handler" where
  "ListDeviceTypes L request = read_items L ''/device_types'' ''DeviceTypes''"

definition GetDeviceType :: "('d, 'c) lh_env \<Rightarrow> ('d, 'c) handler" where
  "GetDeviceType L request =
     st_bind get_depth (\<lambda>depth.
       by_id L ''device type'' ''Device type'' ''DeviceType'' (\<lambda>i. read_one L (''/device_types/'' @ i) depth) request)"

definition ListDeviceGroups :: "('d, 'c) lh_env \<Rightarrow> ('d, 'c) handler" where
  "ListDeviceGroups L request = read_items L ''/device_groups'' ''DeviceGroups''"

definition GetDeviceGroup :: "('d, 'c) lh_env \<Rightarrow> ('d, 'c) handler" where
  "GetDeviceGroup L request =
     st_bind get_depth (\<lambda>depth.
       by_id L ''device group'' ''Device group'' ''DeviceGroup''
         (\<lambda>i. read_one L (''/device_groups/'' @ i) depth) request)"


section \<open>Packets and events\<close>

definition forward_packet_out :: "string \<times> packet_out_msg \<Rightarrow> (('d, 'c) lh_state, unit) st" where
  "forward_packet_out p = on_agent (fst p) (st_modify (lda_packet_out (snd p)))"

definition StreamPacketsOut :: "(string \<times> packet_out_msg) list \<Rightarrow> (('d, 'c) lh_state, 'd reply) st" where
  "StreamPacketsOut requests =
     st_bind (st_for (\<lambda>p _. forward_packet_out p) requests ()) (\<lambda>_. st_ret (Blank ''Empty''))"

definition send_packet_in :: "string \<Rightarrow> packet_in_msg \<Rightarrow> ('d, 'c) lh_state \<Rightarrow> ('d, 'c) lh_state" where
  "send_packet_in device_id p s = s\<lparr>lh_packets_in := lh_packets_in s @ [(device_id, p)]\<rparr>"

text \<open>One turn of the endless loops that feed the streams; \<open>None\<close> when the queue blocks.\<close>

definition ReceivePacketsIn ::
  "('d, 'c) lh_state \<Rightarrow> ((string \<times> packet_in_msg) \<times> ('d, 'c) lh_state) option" where
  "ReceivePacketsIn s =
     (case lh_packets_in s of [] \<Rightarrow> None | p # ps \<Rightarrow> Some (p, s\<lparr>lh_packets_in := ps\<rparr>))"

definition send_port_change_event :: "string \<Rightarrow> port_status \<Rightarrow> ('d, 'c) lh_state \<Rightarrow> ('d, 'c) lh_state" where
  "send_port_change_event device_id status s =
     s\<lparr>lh_change_events := lh_change_events s @ [(device_id, status)]\<rparr>"

definition ReceiveChangeEvents ::
  "('d, 'c) lh_state \<Rightarrow> ((string \<times> port_status) \<times> ('d, 'c) lh_state) option" where
  "ReceiveChangeEvents s =
     (case lh_change_events s of [] \<Rightarrow> None | e # es \<Rightarrow> Some (e, s\<lparr>lh_change_events := es\<rparr>))"


section \<open>An example instance\<close>

definition lx_desc :: "string \<Rightarrow> descriptor" where
  "lx_desc cls =
     (if cls = ''Voltha'' then
        [ex_field ''devices'' 3 (Some ''id'') ''Device'' [(''id'', 9)],
         ex_field ''device_types'' 3 (Some ''id'') ''DeviceType'' [(''id'', 9)],
         ex_field ''logical_devices'' 3 (Some ''id'') ''LogicalDevice'' [(''id'', 9)]]
      else if cls = ''Device'' then [ex_field ''ports'' 3 (Some ''port_no'') ''Port'' [(''port_no'', 13)]]
      else [])"

definition lx_proto :: "ex_msg proto" where
  "lx_proto = ex_proto\<lparr>p_desc := lx_desc\<rparr>"

definition lx_env :: "(ex_msg, nat) lh_env" where
  "lx_env =
     \<lparr>lh_cfg = \<lparr>e_proto = lx_proto, e_hook = (\<lambda>c x. Inr x), e_fuel = 5\<rparr>, lh_run = ex_run, lh_fuel = 3,
      lh_set = (\<lambda>n v m. Msg (m_cls m) (od_set n v (m_fields m)) (m_subs m)),
      lh_agent_env = \<lparr>env_hash = ex_hash, env_sp = ex_sp, env_fuel = 3\<rparr>\<rparr>"

definition lx_type :: ex_msg where
  "lx_type = Msg ''DeviceType'' [(''id'', PStr ''olt''), (''adapter'', PStr ''sim'')] []"

definition lx_logical :: ex_msg where
  "lx_logical = Msg ''LogicalDevice'' [(''id'', PStr ''1''), (''datapath_id'', PInt 1)] []"

definition lx_root :: ex_msg where
  "lx_root = Msg ''Voltha'' []
     [(''devices'', [ex_dev ''olt'' [ex_port 1]]), (''device_types'', [lx_type]), (''logical_devices'', [lx_logical])]"

definition lx_tree :: "ex_msg tree" where
  "lx_tree = Tree (Msg ''Voltha'' [] [])
     [(''devices'', [Tree (ex_dev ''olt'' []) [(''ports'', [Tree (ex_port 1) []])]]),
      (''device_types'', [Tree lx_type []]), (''logical_devices'', [Tree lx_logical []])]"

definition lx_state :: "(ex_msg, nat) lh_state" where
  "lx_state =
     \<lparr>lh_store = snd (root_init (lh_cfg lx_env) lx_root None), lh_agents = [], lh_packets_in = [],
      lh_change_events = [], lh_stopped = False,
      lh_context = \<lparr>gc_metadata = [], gc_code = None, gc_details = []\<rparr>\<rparr>"

lemma lx_simple:
  "e_proto (lh_cfg lx_env) = lx_proto" "e_fuel (lh_cfg lx_env) = 5" "lh_run lx_env = ex_run" "lh_fuel lx_env = 3"
  "clear_keeps_class lx_proto" "clear_keeps_attr lx_proto" "fst (get_depth lx_state) = Inr 0"
  "gc_metadata (lh_context lx_state) = []"
  by (simp_all add: lx_env_def lx_proto_def ex_proto_def clear_keeps_class_def clear_keeps_attr_def get_depth_def
      lx_state_def od_get_def)

lemma lx_ok:
  "store_ok (lh_cfg lx_env) ex_run 3 (lh_store lx_state)" "committed (lh_store lx_state) = Inr lx_tree"
proof -
  have t: "tree_of lx_proto 5 lx_root = Inr lx_tree" by code_simp
  then obtain r where r: "root_init (lh_cfg lx_env) lx_root None = (Inr r, lh_store lx_state)"
    by (elim root_init_total [of "lh_cfg lx_env" lx_root lx_tree None, unfolded lx_simple, OF lx_simple(5)])
      (simp add: lx_state_def)
  show "store_ok (lh_cfg lx_env) ex_run 3 (lh_store lx_state)"
    using root_init_ok(1) [OF r, of ex_run 3] by (simp add: lx_simple ex_simple)
  show "committed (lh_store lx_state) = Inr lx_tree"
    using root_init_ok(2) [OF r, of ex_run 3] t by (simp add: lx_simple ex_simple)
qed


section \<open>Lookups\<close>

abbreviation with_status :: "status_code \<Rightarrow> string \<Rightarrow> ('d, 'c) lh_state \<Rightarrow> ('d, 'c) lh_state" where
  "with_status code details s \<equiv> s\<lparr>lh_context := (lh_context s)\<lparr>gc_details := details, gc_code := Some code\<rparr>\<rparr>"

lemma get_depth_pure: "get_depth s = (fst (get_depth s), s)"
  by (simp add: get_depth_def)

lemma lh_get_committed:
  assumes "store_ok (lh_cfg L) run fuel (lh_store s)" and "committed (lh_store s) = Inr t"
  shows "lh_get L path depth s = (tree_get (e_proto (lh_cfg L)) depth t (lstrip_slash path), s)"
  using cfg.get_law [OF assms] by (simp add: lh_get_def)

lemma by_id_simps:
  "by_id L what What cls body (Id_request i) s =
     (if CHR ''/'' \<in> set i
      then (Inr (Blank cls), with_status INVALID_ARGUMENT (''Malformed '' @ what @ '' id '' @ quoted i) s)
      else case body i s of
        (Inl e, s') \<Rightarrow>
          if e = KeyError then (Inr (Blank cls), with_status NOT_FOUND (What @ '' '' @ quoted i @ '' not found'') s')
          else (Inl e, s')
      | (Inr r, s') \<Rightarrow> (Inr r, s'))"
  by (cases "body i s"; cases "fst (body i s)")
    (auto simp: by_id_def st_bind_def request_id_def malformed_def not_found_def set_status_def
      except_key_error_def split: pyerr.split)

text \<open>
  Looking up a device by its id answers from the committed configuration: an id with a slash is refused
  as an invalid argument with an empty device; a path the configuration does not have gives the empty device
  and the status that it was not found; otherwise the reply is what the configuration holds at that path,
  to the depth the caller asked for. Listing the ports of a device does the same for its ports. The
  configuration is not changed.
\<close>

theorem device_lookup:
  assumes "store_ok (lh_cfg L) run fuel (lh_store s)" and "committed (lh_store s) = Inr t"
    and "fst (get_depth s) = Inr depth"
  shows "GetDevice L (Id_request i) s =
      (if CHR ''/'' \<in> set i
       then (Inr (Blank ''Device''), with_status INVALID_ARGUMENT (''Malformed device id '' @ quoted i) s)
       else case tree_get (e_proto (lh_cfg L)) depth t (''devices/'' @ i) of
         Inl e \<Rightarrow> if e = KeyError
           then (Inr (Blank ''Device''), with_status NOT_FOUND (''Device '' @ quoted i @ '' not found'') s) else (Inl e, s)
       | Inr g \<Rightarrow> (Inr (Got g), s)) \<and>
    ListDevicePorts L (Id_request i) s =
      (if CHR ''/'' \<in> set i
       then (Inr (Blank ''Ports''), with_status INVALID_ARGUMENT (''Malformed device id '' @ quoted i) s)
       else case tree_get (e_proto (lh_cfg L)) 0 t (''devices/'' @ i @ ''/ports'') of
         Inl e \<Rightarrow> if e = KeyError
           then (Inr (Blank ''Ports''), with_status NOT_FOUND (''Device '' @ quoted i @ '' not found'') s) else (Inl e, s)
       | Inr (Many l) \<Rightarrow> (Inr (Items ''Ports'' l), s)
       | Inr (One x) \<Rightarrow> (Inl TypeError, s))"
proof -
  have "get_depth s = (Inr depth, s)" using get_depth_pure [of s] assms(3) by simp
  then show ?thesis
    by (auto simp: GetDevice_def ListDevicePorts_def by_id_simps st_bind_def read_one_def read_items_def
        lh_get_committed [OF assms(1,2)] mk_items_def lstrip_slash_def split: sum.splits got.splits)
qed

theorem device_lookup_witness:
  "GetDevice lx_env (Id_request ''olt'') lx_state = (Inr (Got (One (Some (CData (ex_dev ''olt'' []))))), lx_state) \<and>
   ListDevicePorts lx_env (Id_request ''olt'') lx_state =
     (Inr (Items ''Ports'' [Some (CData (ex_port 1))]), lx_state) \<and>
   fst (GetDevice lx_env (Id_request ''a/b'') lx_state) = Inr (Blank ''Device'')"
proof -
  have "tree_get lx_proto 0 lx_tree (''devices/'' @ ''olt'') = Inr (One (Some (CData (ex_dev ''olt'' []))))"
    "tree_get lx_proto 0 lx_tree (''devices/'' @ ''olt'' @ ''/ports'') = Inr (Many [Some (CData (ex_port 1))])"
    by code_simp+
  then show ?thesis
    using device_lookup [OF lx_ok lx_simple(7), of "''olt''"] device_lookup [OF lx_ok lx_simple(7), of "''a/b''"]
    by (simp add: lx_simple)
qed


section \<open>Creating a device\<close>

text \<open>Assignment to a scalar field of a message, as protobuf has it.\<close>

definition assigns :: "'d proto \<Rightarrow> (string \<Rightarrow> pval \<Rightarrow> 'd \<Rightarrow> 'd) \<Rightarrow> bool" where
  "assigns P asg \<longleftrightarrow> (\<forall>n v d m. p_attr P (asg n v d) m = (if m = n then v else p_attr P d m))"

lemma fill_device_attr:
  assumes "assigns (e_proto (lh_cfg L)) (lh_set L)"
  shows "p_attr (e_proto (lh_cfg L)) (fill_device L uuid dt d) ''id'' = PStr uuid"
    and "p_attr (e_proto (lh_cfg L)) (fill_device L uuid dt d) ''admin_state'' = PInt (int ADMIN_PREPROVISIONED)"
    and "p_attr (e_proto (lh_cfg L)) (fill_device L uuid dt d) ''adapter'' = p_attr (e_proto (lh_cfg L)) dt ''adapter''"
  using assms unfolding assigns_def by (simp_all add: fill_device_def Let_def)

lemma CreateDevice_cases:
  assumes "CreateDevice L uuid (Message_request device) s = (Inr reply, s')"
  obtains dt r c where "reply = Message_reply (fill_device L uuid dt device)" "s' = s\<lparr>lh_store := c\<rparr>"
    "root_add (lh_cfg L) (lh_run L) (lh_fuel L) ''/devices'' (fill_device L uuid dt device) NoTx (lh_store s) = (Inr r, c)"
  using assms
  by (auto simp: CreateDevice_def st_bind_Inr lh_get_def on_store_def Let_def split: if_splits option.splits prod.splits)

text \<open>
  A created device can be read back: when \<^verbatim>\<open>CreateDevice\<close> answers, it answers with the request,
  given the new id and the preprovisioned state, and \<^verbatim>\<open>GetDevice\<close> of that id then finds a device with
  the same values in all its fields, for containers keyed by the textual id, as the devices are.
\<close>

theorem create_then_get:
  assumes "store_ok (lh_cfg L) (lh_run L) (lh_fuel L) (lh_store s)" and "committed (lh_store s) = Inr t"
    and "tree_field (e_proto (lh_cfg L)) t ''/devices'' = Inr f" and "ct_key f = Some ''id''" and "ct_kind f = Some StrKey"
    and "clear_keeps_attr (e_proto (lh_cfg L))" and "assigns (e_proto (lh_cfg L)) (lh_set L)"
    and "uuid \<noteq> []" and "CHR ''/'' \<notin> set uuid" and "gc_metadata (lh_context s) = []"
    and "CreateDevice L uuid (Message_request device) s = (Inr reply, s')"
  shows "\<exists>d d'. reply = Message_reply d \<and> p_attr (e_proto (lh_cfg L)) d ''id'' = PStr uuid \<and>
    p_attr (e_proto (lh_cfg L)) d ''admin_state'' = PInt (int ADMIN_PREPROVISIONED) \<and>
    GetDevice L (Id_request uuid) s' = (Inr (Got (One (Some (CData d')))), s') \<and>
    (\<forall>a. p_attr (e_proto (lh_cfg L)) d' a = p_attr (e_proto (lh_cfg L)) d a)"
proof -
  obtain dt r c where made: "reply = Message_reply (fill_device L uuid dt device)" "s' = s\<lparr>lh_store := c\<rparr>"
    and add: "root_add (lh_cfg L) (lh_run L) (lh_fuel L) ''/devices'' (fill_device L uuid dt device) NoTx (lh_store s) = (Inr r, c)"
    by (rule CreateDevice_cases [OF assms(11)])
  note attr = fill_device_attr [OF assms(7)]
  have "clean_path ''/devices''" by simp
  moreover have "key_from_str f uuid = Inr (p_attr (e_proto (lh_cfg L)) (fill_device L uuid dt device) ''id'')"
    using assms(5) attr(1) by (simp add: key_from_str_def)
  ultimately obtain d where d: "node_get (lh_cfg L) c 0 (''/devices'' @ CHR ''/'' # uuid) None 0 False NoTx = Inr (One (Some (CData d)))"
    "\<forall>a. p_attr (e_proto (lh_cfg L)) d a = p_attr (e_proto (lh_cfg L)) (fill_device L uuid dt device) a"
    using cfg.get_added [OF assms(1,2) add _ assms(6,8,9,3,4)] by blast
  have "GetDevice L (Id_request uuid) s' = (Inr (Got (One (Some (CData d)))), s')"
    using assms(9,10) d(1)
    by (simp add: GetDevice_def made(2) by_id_simps st_bind_def get_depth_def od_get_def read_one_def lh_get_def)
  with d(2) made(1) attr show ?thesis by auto
qed

definition lx_request :: ex_msg where
  "lx_request = Msg ''Device'' [(''id'', PStr []), (''type'', PStr ''olt''), (''admin_state'', PInt 0)] []"

theorem create_then_get_witness:
  "\<exists>d d' s'. CreateDevice lx_env ''d2'' (Message_request lx_request) lx_state = (Inr (Message_reply d), s') \<and>
     p_attr lx_proto d ''admin_state'' = PInt 1 \<and>
     GetDevice lx_env (Id_request ''d2'') s' = (Inr (Got (One (Some (CData d')))), s') \<and>
     (\<forall>a. p_attr lx_proto d' a = p_attr lx_proto d a)"
proof -
  let ?d = "fill_device lx_env ''d2'' lx_type lx_request"
  have "\<not> isl (tree_add lx_proto 5 ?d lx_tree ''/devices'')" by code_simp
  then obtain r c where add: "root_add (lh_cfg lx_env) ex_run 3 ''/devices'' ?d NoTx (lh_store lx_state) = (Inr r, c)"
    using cfg.add_law [OF lx_ok, where path = "''/devices''" and data = ?d]
    by (cases "root_add (lh_cfg lx_env) ex_run 3 ''/devices'' ?d NoTx (lh_store lx_state)")
      (auto simp: lx_simple split: sum.splits)
  have types: "tree_get lx_proto 0 lx_tree ''device_types'' = Inr (Many [Some (CData lx_type)])" by code_simp
  have ok: "known_device_types lx_proto (Many [Some (CData lx_type)]) = Inr [(PStr ''olt'', lx_type)]"
    "new_device_ok lx_proto [(PStr ''olt'', lx_type)] lx_request"
    "p_attr lx_proto lx_request ''type'' = PStr ''olt''" by code_simp+
  have made: "CreateDevice lx_env ''d2'' (Message_request lx_request) lx_state =
      (Inr (Message_reply ?d), lx_state\<lparr>lh_store := c\<rparr>)"
    using add types ok
    by (simp add: CreateDevice_def lh_get_committed [OF lx_ok] lstrip_slash_def st_bind_def lx_simple on_store_def
        od_get_def Let_def)
  have "tree_field lx_proto lx_tree ''/devices'' = Inr \<lparr>ct_module = ''ex'', ct_type = ''Device'', ct_container = True,
      ct_key = Some ''id'', ct_kind = Some StrKey\<rparr>" by code_simp
  moreover have "assigns lx_proto (lh_set lx_env)" by (simp add: assigns_def lx_env_def lx_proto_def ex_proto_def)
  ultimately show ?thesis
    using create_then_get [of lx_env lx_state, unfolded lx_simple, OF lx_ok _ _ _ lx_simple(6) _ _ _ _ made] made
    by (auto simp: lx_simple)
qed


section \<open>Two slips of the service\<close>

text \<open>Every refused request to create a device fails on the way to its status.\<close>

lemma refused_creation_raises:
  assumes "store_ok (lh_cfg L) run fuel (lh_store s)" and "committed (lh_store s) = Inr t"
    and "tree_get (e_proto (lh_cfg L)) 0 t ''device_types'' = Inr g"
    and "known_device_types (e_proto (lh_cfg L)) g = Inr types"
    and "\<not> new_device_ok (e_proto (lh_cfg L)) types device"
  shows "CreateDevice L uuid (Message_request device) s = (Inl AttributeError, s)"
  using assms(3-) by (simp add: CreateDevice_def lh_get_committed [OF assms(1,2)] lstrip_slash_def st_bind_def)

text \<open>An empty id reads the whole container: the reply is not a device but a list.\<close>

lemma empty_id_reads_all:
  "GetDevice lx_env (Id_request []) lx_state = (Inr (Got (Many [Some (CData (ex_dev ''olt'' []))])), lx_state)"
proof -
  have "tree_get lx_proto 0 lx_tree (''devices/'' @ []) = Inr (Many [Some (CData (ex_dev ''olt'' []))])" by code_simp
  then show ?thesis
    by (simp add: GetDevice_def by_id_simps st_bind_def get_depth_def lx_simple od_get_def read_one_def
        lh_get_committed [OF lx_ok] lstrip_slash_def)
qed

end
