(* ===== verification/GlobalHandler.thy ===== *)
theory GlobalHandler
  imports LocalHandler
begin

text \<open>
  \<^verbatim>\<open>voltha/core/dispatcher.py\<close> and \<^verbatim>\<open>voltha/core/global_handler.py\<close>: the service of the
  whole cluster, whose requests the dispatcher hands to the service of an instance, by the name of the
  method. Every request goes to the own instance so far. The members of the cluster, which the coordinator
  reads from Consul, are an argument.
\<close>

section \<open>The dispatcher\<close>

datatype stub = VolthaLocalServiceStub | Other_stub

record dispatcher =
  dp_instance_id :: string
  dp_started :: bool     \<comment> \<open>local\_handler is set\<close>

definition mk_dispatcher :: "string \<Rightarrow> dispatcher" where
  "mk_dispatcher instance_id = \<lparr>dp_instance_id = instance_id, dp_started = False\<rparr>"

definition dp_start :: "dispatcher \<Rightarrow> dispatcher" where
  "dp_start d = d\<lparr>dp_started := True\<rparr>"

text \<open>\<^verbatim>\<open>getattr(self.local_handler, method_name)\<close>, for the methods of the service.\<close>

definition local_method :: "('d, 'c) lh_env \<Rightarrow> string \<Rightarrow> string \<Rightarrow> ('d, 'c) handler option" where
  "local_method L uuid name =
     od_get name
       [(''GetVolthaInstance'', GetVolthaInstance L), (''GetHealth'', GetHealth L),
        (''ListAdapters'', ListAdapters L), (''ListLogicalDevices'', ListLogicalDevices L),
        (''GetLogicalDevice'', GetLogicalDevice L), (''ListLogicalDevicePorts'', ListLogicalDevicePorts L),
        (''ListLogicalDeviceFlows'', ListLogicalDeviceFlows L),
        (''UpdateLogicalDeviceFlowTable'', UpdateLogicalDeviceFlowTable L),
        (''ListLogicalDeviceFlowGroups'', ListLogicalDeviceFlowGroups L),
        (''UpdateLogicalDeviceFlowGroupTable'', UpdateLogicalDeviceFlowGroupTable L),
        (''ListDevices'', ListDevices L), (''GetDevice'', GetDevice L), (''CreateDevice'', CreateDevice L uuid),
        (''ActivateDevice'', ActivateDevice L), (''ListDevicePorts'', ListDevicePorts L),
        (''ListDeviceFlows'', ListDeviceFlows L), (''ListDeviceFlowGroups'', ListDeviceFlowGroups L),
        (''ListDeviceTypes'', ListDeviceTypes L), (''GetDeviceType'', GetDeviceType L),
        (''ListDeviceGroups'', ListDeviceGroups L), (''GetDeviceGroup'', GetDeviceGroup L)]"

definition dispatch ::
  "('d, 'c) lh_env \<Rightarrow> string \<Rightarrow> dispatcher \<Rightarrow> string \<Rightarrow> stub \<Rightarrow> string \<Rightarrow> ('d, 'c) handler" where
  "dispatch L uuid D instance_id stb method_name inp =
     (if instance_id = dp_instance_id D then
        st_bind (st_res (\<lambda>_. py_assert (stb = VolthaLocalServiceStub))) (\<lambda>_.
        st_bind (st_res (\<lambda>_. if dp_started D
                             then (case local_method L uuid method_name of None \<Rightarrow> Inl AttributeError | Some h \<Rightarrow> Inr h)
                             else Inl AttributeError)) (\<lambda>h. h inp))
      else st_raise KeyError)"

definition instance_id_by_logical_device_id :: "dispatcher \<Rightarrow> string \<Rightarrow> string res" where
  "instance_id_by_logical_device_id D logical_device_id = Inr (dp_instance_id D)"

definition instance_id_by_device_id :: "dispatcher \<Rightarrow> string \<Rightarrow> string res" where
  "instance_id_by_device_id D device_id = Inr (dp_instance_id D)"


section \<open>The global service\<close>

record ('d, 'c) gh_env =
  gh_local :: "('d, 'c) lh_env"
  gh_uuid :: string
  gh_dispatcher :: dispatcher
  gh_instance_id :: string
  gh_members :: "'d ctx option list"

record ('d, 'c) gh_state =
  gh_root :: "('d, 'c) cstore"
  gh_stopped :: bool
  gh_lh :: "('d, 'c) lh_state"

type_synonym ('d, 'c) ghandler = "'d request \<Rightarrow> (('d, 'c) gh_state, 'd reply) st"

definition on_local :: "(('d, 'c) lh_state, 'a) st \<Rightarrow> (('d, 'c) gh_state, 'a) st" where
  "on_local op s = (let (r, l) = op (gh_lh s) in (r, s\<lparr>gh_lh := l\<rparr>))"

definition gh_start :: "('d, 'c) gh_env \<Rightarrow> 'd \<Rightarrow> ('d, 'c) gh_state \<Rightarrow> unit res \<times> ('d, 'c) gh_state" where
  "gh_start G voltha_msg s =
     (case root_init (lh_cfg (gh_local G)) voltha_msg None of
        (Inl e, c) \<Rightarrow> (Inl e, s)
      | (Inr _, c) \<Rightarrow> (Inr (), s\<lparr>gh_root := c\<rparr>))"

definition gh_stop :: "('d, 'c) gh_state \<Rightarrow> ('d, 'c) gh_state" where
  "gh_stop s = s\<lparr>gh_stopped := True\<rparr>"

text \<open>To the own instance, or to the instance that a table of the dispatcher names.\<close>

definition gh_dispatch :: "('d, 'c) gh_env \<Rightarrow> string \<Rightarrow> string \<Rightarrow> ('d, 'c) ghandler" where
  "gh_dispatch G instance_id name request =
     on_local (dispatch (gh_local G) (gh_uuid G) (gh_dispatcher G) instance_id VolthaLocalServiceStub name request)"

definition to_self :: "('d, 'c) gh_env \<Rightarrow> string \<Rightarrow> ('d, 'c) ghandler" where
  "to_self G name request = gh_dispatch G (gh_instance_id G) name request"

definition to_owner ::
  "('d, 'c) gh_env \<Rightarrow> (dispatcher \<Rightarrow> string \<Rightarrow> string res) \<Rightarrow> string \<Rightarrow> string \<Rightarrow> string \<Rightarrow> ('d, 'c) ghandler" where
  "to_owner G owner What cls name request =
     st_bind (st_res (\<lambda>_. request_id (e_proto (lh_cfg (gh_local G))) request)) (\<lambda>i.
     case owner (gh_dispatcher G) i of
       Inl e \<Rightarrow> if e = KeyError then on_local (not_found What i cls) else st_raise e
     | Inr instance_id \<Rightarrow> gh_dispatch G instance_id name request)"

definition G_GetVoltha :: "('d, 'c) gh_env \<Rightarrow> ('d, 'c) ghandler" where
  "G_GetVoltha G request =
     st_bind (st_res (\<lambda>s. node_get (lh_cfg (gh_local G)) (gh_root s) 0 ''/'' None 1 False NoTx)) (\<lambda>g. st_ret (Got g))"

definition G_ListVolthaInstances :: "('d, 'c) gh_env \<Rightarrow> ('d, 'c) ghandler" where
  "G_ListVolthaInstances G request = st_ret (Items ''VolthaInstances'' (gh_members G))"

definition G_GetVolthaInstance :: "('d, 'c) gh_env \<Rightarrow> ('d, 'c) ghandler" where
  "G_GetVolthaInstance G request =
     st_bind (st_res (\<lambda>_. request_id (e_proto (lh_cfg (gh_local G))) request)) (\<lambda>instance_id.
       except_key_error (gh_dispatch G instance_id ''GetVolthaInstance'' Empty_request)
         (on_local (not_found ''Voltha instance'' instance_id ''VolthaInstance'')))"

definition G_ListLogicalDevices :: "('d, 'c) gh_env \<Rightarrow> ('d, 'c) ghandler" where
  "G_ListLogicalDevices G request = to_self G ''ListLogicalDevices'' Empty_request"

definition G_GetLogicalDevice :: "('d, 'c) gh_env \<Rightarrow> ('d, 'c) ghandler" where
  "G_GetLogicalDevice G =
     to_owner G instance_id_by_logical_device_id ''Logical device'' ''LogicalDevice'' ''GetLogicalDevice''"

definition G_ListLogicalDevicePorts :: "('d, 'c) gh_env \<Rightarrow> ('d, 'c) ghandler" where
  "G_ListLogicalDevicePorts G =
     to_owner G instance_id_by_logical_device_id ''Logical device'' ''Ports'' ''ListLogicalDevicePorts''"

definition G_ListLogicalDeviceFlows :: "('d, 'c) gh_env \<Rightarrow> ('d, 'c) ghandler" where
  "G_ListLogicalDeviceFlows G =
     to_owner G instance_id_by_logical_device_id ''Logical device'' ''Flows'' ''ListLogicalDeviceFlows''"

definition G_UpdateLogicalDeviceFlowTable :: "('d, 'c) gh_env \<Rightarrow> ('d, 'c) ghandler" where
  "G_UpdateLogicalDeviceFlowTable G =
     to_owner G instance_id_by_logical_device_id ''Logical device'' ''Empty'' ''UpdateLogicalDeviceFlowTable''"

definition G_ListLogicalDeviceFlowGroups :: "('d, 'c) gh_env \<Rightarrow> ('d, 'c) ghandler" where
  "G_ListLogicalDeviceFlowGroups G =
     to_owner G instance_id_by_logical_device_id ''Logical device'' ''FlowGroups'' ''ListLogicalDeviceFlowGroups''"

definition G_UpdateLogicalDeviceFlowGroupTable :: "('d, 'c) gh_env \<Rightarrow> ('d, 'c) ghandler" where
  "G_UpdateLogicalDeviceFlowGroupTable G =
     to_owner G instance_id_by_logical_device_id ''Logical device'' ''Empty'' ''UpdateLogicalDeviceFlowGroupTable''"

definition G_ListDevices :: "('d, 'c) gh_env \<Rightarrow> ('d, 'c) ghandler" where
  "G_ListDevices G request = to_self G ''ListDevices'' request"

definition G_GetDevice :: "('d, 'c) gh_env \<Rightarrow> ('d, 'c) ghandler" where
  "G_GetDevice G = to_owner G instance_id_by_device_id ''Device'' ''Device'' ''GetDevice''"

definition G_CreateDevice :: "('d, 'c) gh_env \<Rightarrow> ('d, 'c) ghandler" where
  "G_CreateDevice G request = to_self G ''CreateDevice'' request"

definition G_ActivateDevice :: "('d, 'c) gh_env \<Rightarrow> ('d, 'c) ghandler" where
  "G_ActivateDevice G request = to_self G ''ActivateDevice'' request"

definition G_ListDevicePorts :: "('d, 'c) gh_env \<Rightarrow> ('d, 'c) ghandler" where
  "G_ListDevicePorts G = to_owner G instance_id_by_device_id ''Device'' ''Ports'' ''ListDevicePorts''"

definition G_ListDeviceFlows :: "('d, 'c) gh_env \<Rightarrow> ('d, 'c) ghandler" where
  "G_ListDeviceFlows G = to_owner G instance_id_by_device_id ''Device'' ''Flows'' ''ListDeviceFlows''"

definition G_ListDeviceFlowGroups :: "('d, 'c) gh_env \<Rightarrow> ('d, 'c) ghandler" where
  "G_ListDeviceFlowGroups G = to_owner G instance_id_by_device_id ''Device'' ''FlowGroups'' ''ListDeviceFlowGroups''"

definition G_ListDeviceTypes :: "('d, 'c) gh_env \<Rightarrow> ('d, 'c) ghandler" where
  "G_ListDeviceTypes G request = to_self G ''ListDeviceTypes'' request"

definition G_GetDeviceType :: "('d, 'c) gh_env \<Rightarrow> ('d, 'c) ghandler" where
  "G_GetDeviceType G request = to_self G ''GetDeviceType'' request"

definition G_ListDeviceGroups :: "('d, 'c) gh_env \<Rightarrow> ('d, 'c) ghandler" where
  "G_ListDeviceGroups G request = to_self G ''ListDeviceGroups'' Empty_request"

definition G_GetDeviceGroup :: "('d, 'c) gh_env \<Rightarrow> ('d, 'c) ghandler" where
  "G_GetDeviceGroup G request = to_self G ''GetDeviceGroup'' request"


section \<open>The global service answers as the local one\<close>

definition gh_ready :: "('d, 'c) gh_env \<Rightarrow> bool" where
  "gh_ready G \<longleftrightarrow> dp_started (gh_dispatcher G) \<and> gh_instance_id G = dp_instance_id (gh_dispatcher G)"

lemma gh_dispatch_self:
  assumes "gh_ready G" and "local_method (gh_local G) (gh_uuid G) name = Some h"
  shows "gh_dispatch G (dp_instance_id (gh_dispatcher G)) name request = on_local (h request)"
  using assms by (simp add: gh_dispatch_def dispatch_def gh_ready_def st_bind_def)

lemma to_self_local:
  assumes "gh_ready G" and "local_method (gh_local G) (gh_uuid G) name = Some h"
  shows "to_self G name request = on_local (h request)"
  using gh_dispatch_self [OF assms] assms(1) by (simp add: to_self_def gh_ready_def)

lemma to_owner_local:
  assumes "gh_ready G" and "local_method (gh_local G) (gh_uuid G) name = Some h"
    and "owner \<in> {instance_id_by_logical_device_id, instance_id_by_device_id}"
    and "request_id (e_proto (lh_cfg (gh_local G))) request = Inr i"
  shows "to_owner G owner What cls name request = on_local (h request)"
  using assms(3,4) gh_dispatch_self [OF assms(1,2), of request]
  by (auto simp: to_owner_def st_bind_def instance_id_by_logical_device_id_def instance_id_by_device_id_def)

lemmas gh_handlers =
  G_ListLogicalDevices_def G_GetLogicalDevice_def G_ListLogicalDevicePorts_def G_ListLogicalDeviceFlows_def
  G_UpdateLogicalDeviceFlowTable_def G_ListLogicalDeviceFlowGroups_def G_UpdateLogicalDeviceFlowGroupTable_def
  G_ListDevices_def G_GetDevice_def G_CreateDevice_def G_ActivateDevice_def G_ListDevicePorts_def
  G_ListDeviceFlows_def G_ListDeviceFlowGroups_def G_ListDeviceTypes_def G_GetDeviceType_def
  G_ListDeviceGroups_def G_GetDeviceGroup_def

text \<open>
  The service without the three methods of its own, as pairs of a global and a local method: the methods
  that go to the own instance, and those that go to the instance the dispatcher finds for the id of the
  request.
\<close>

definition self_dispatched :: "('d, 'c) gh_env \<Rightarrow> (('d, 'c) ghandler \<times> ('d, 'c) handler) list" where
  "self_dispatched G =
     (let L = gh_local G in
      [(G_ListLogicalDevices G, ListLogicalDevices L), (G_ListDevices G, ListDevices L),
       (G_CreateDevice G, CreateDevice L (gh_uuid G)), (G_ActivateDevice G, ActivateDevice L),
       (G_ListDeviceTypes G, ListDeviceTypes L), (G_GetDeviceType G, GetDeviceType L),
       (G_ListDeviceGroups G, ListDeviceGroups L), (G_GetDeviceGroup G, GetDeviceGroup L)])"

definition owner_dispatched :: "('d, 'c) gh_env \<Rightarrow> (('d, 'c) ghandler \<times> ('d, 'c) handler) list" where
  "owner_dispatched G =
     (let L = gh_local G in
      [(G_GetLogicalDevice G, GetLogicalDevice L),
       (G_ListLogicalDevicePorts G, ListLogicalDevicePorts L), (G_ListLogicalDeviceFlows G, ListLogicalDeviceFlows L),
       (G_UpdateLogicalDeviceFlowTable G, UpdateLogicalDeviceFlowTable L),
       (G_ListLogicalDeviceFlowGroups G, ListLogicalDeviceFlowGroups L),
       (G_UpdateLogicalDeviceFlowGroupTable G, UpdateLogicalDeviceFlowGroupTable L),
       (G_GetDevice G, GetDevice L), (G_ListDevicePorts G, ListDevicePorts L),
       (G_ListDeviceFlows G, ListDeviceFlows L), (G_ListDeviceFlowGroups G, ListDeviceFlowGroups L)])"

lemma local_methods:
  "local_method L uuid ''ListLogicalDevices'' = Some (ListLogicalDevices L)"
  "local_method L uuid ''GetVolthaInstance'' = Some (GetVolthaInstance L)"
  "local_method L uuid ''GetLogicalDevice'' = Some (GetLogicalDevice L)"
  "local_method L uuid ''ListLogicalDevicePorts'' = Some (ListLogicalDevicePorts L)"
  "local_method L uuid ''ListLogicalDeviceFlows'' = Some (ListLogicalDeviceFlows L)"
  "local_method L uuid ''UpdateLogicalDeviceFlowTable'' = Some (UpdateLogicalDeviceFlowTable L)"
  "local_method L uuid ''ListLogicalDeviceFlowGroups'' = Some (ListLogicalDeviceFlowGroups L)"
  "local_method L uuid ''UpdateLogicalDeviceFlowGroupTable'' = Some (UpdateLogicalDeviceFlowGroupTable L)"
  "local_method L uuid ''ListDevices'' = Some (ListDevices L)"
  "local_method L uuid ''GetDevice'' = Some (GetDevice L)"
  "local_method L uuid ''CreateDevice'' = Some (CreateDevice L uuid)"
  "local_method L uuid ''ActivateDevice'' = Some (ActivateDevice L)"
  "local_method L uuid ''ListDevicePorts'' = Some (ListDevicePorts L)"
  "local_method L uuid ''ListDeviceFlows'' = Some (ListDeviceFlows L)"
  "local_method L uuid ''ListDeviceFlowGroups'' = Some (ListDeviceFlowGroups L)"
  "local_method L uuid ''ListDeviceTypes'' = Some (ListDeviceTypes L)"
  "local_method L uuid ''GetDeviceType'' = Some (GetDeviceType L)"
  "local_method L uuid ''ListDeviceGroups'' = Some (ListDeviceGroups L)"
  "local_method L uuid ''GetDeviceGroup'' = Some (GetDeviceGroup L)"
  by (simp_all add: local_method_def od_get_def)

lemma self_dispatched_local:
  assumes "gh_ready G"
  shows "list_all (\<lambda>(global, loc). global request = on_local (loc request)) (self_dispatched G)"
proof -
  note self = to_self_local [OF assms]
  have indep: "ListLogicalDevices (gh_local G) Empty_request = ListLogicalDevices (gh_local G) request"
    "ListDeviceGroups (gh_local G) Empty_request = ListDeviceGroups (gh_local G) request"
    by (simp_all add: ListLogicalDevices_def ListDeviceGroups_def)
  show ?thesis
    by (simp add: self_dispatched_def Let_def gh_handlers indep self [OF local_methods(1)]
        self [OF local_methods(9)] self [OF local_methods(11)] self [OF local_methods(12)]
        self [OF local_methods(16)] self [OF local_methods(17)] self [OF local_methods(18)] self [OF local_methods(19)])
qed

lemma owner_dispatched_local:
  assumes "gh_ready G" and "request_id (e_proto (lh_cfg (gh_local G))) request = Inr i"
  shows "list_all (\<lambda>(global, loc). global request = on_local (loc request)) (owner_dispatched G)"
proof -
  note owner = to_owner_local [OF assms(1) _ _ assms(2)]
  show ?thesis
    by (simp add: owner_dispatched_def Let_def gh_handlers owner [OF local_methods(3)] owner [OF local_methods(4)]
        owner [OF local_methods(5)] owner [OF local_methods(6)] owner [OF local_methods(7)] owner [OF local_methods(8)]
        owner [OF local_methods(10)] owner [OF local_methods(13)] owner [OF local_methods(14)] owner [OF local_methods(15)])
qed

lemma owner_dispatched_error:
  assumes "request_id (e_proto (lh_cfg (gh_local G))) request = Inl e"
  shows "list_all (\<lambda>(global, loc). global request = st_raise e) (owner_dispatched G)"
  using assms
  by (simp add: owner_dispatched_def Let_def gh_handlers to_owner_def st_bind_def fun_eq_iff)

lemma instance_local:
  assumes "gh_ready G"
  shows "gh_dispatch G i ''GetVolthaInstance'' Empty_request =
    (if i = gh_instance_id G then on_local (GetVolthaInstance (gh_local G) Empty_request) else st_raise KeyError)"
  using gh_dispatch_self [OF assms local_methods(2)] assms
  by (auto simp: gh_ready_def gh_dispatch_def dispatch_def on_local_def)

text \<open>
  C21. The global service is the local one, once the dispatcher has started. For every request, the empty
  one included, the eight methods that go to the own instance (the lists of devices, logical devices,
  device types and device groups, the reading of a type and of a group, creating and activating a device)
  do to the local service exactly what the local method of the same name does, with the same reply, status
  or exception, and change nothing of their own. So do the ten methods that name a device or a logical
  device, for every request with an id, and the instance is found under its own id only; for a request
  without an id these eleven raise the exception of reading it and change nothing.
\<close>

theorem global_is_local:
  assumes "gh_ready G"
  shows "list_all (\<lambda>(global, loc). global request = on_local (loc request)) (self_dispatched G) \<and>
    (case request_id (e_proto (lh_cfg (gh_local G))) request of
       Inl e \<Rightarrow>
         list_all (\<lambda>(global, loc). global request = st_raise e) (owner_dispatched G) \<and>
         G_GetVolthaInstance G request = st_raise e
     | Inr i \<Rightarrow>
         list_all (\<lambda>(global, loc). global request = on_local (loc request)) (owner_dispatched G) \<and>
         G_GetVolthaInstance G request =
           (if i = gh_instance_id G
            then except_key_error (on_local (GetVolthaInstance (gh_local G) Empty_request))
                   (on_local (not_found ''Voltha instance'' i ''VolthaInstance''))
            else on_local (not_found ''Voltha instance'' i ''VolthaInstance'')))"
proof (cases "request_id (e_proto (lh_cfg (gh_local G))) request")
  case (Inl e)
  then show ?thesis
    using self_dispatched_local [OF assms] owner_dispatched_error [OF Inl]
    by (simp add: G_GetVolthaInstance_def st_bind_def fun_eq_iff)
next
  case (Inr i)
  then have "G_GetVolthaInstance G request =
      (if i = gh_instance_id G
       then except_key_error (on_local (GetVolthaInstance (gh_local G) Empty_request))
              (on_local (not_found ''Voltha instance'' i ''VolthaInstance''))
       else on_local (not_found ''Voltha instance'' i ''VolthaInstance''))"
    by (auto simp: G_GetVolthaInstance_def instance_local [OF assms] st_bind_def except_key_error_def)
  then show ?thesis
    using self_dispatched_local [OF assms] owner_dispatched_local [OF assms Inr] Inr by simp
qed

definition gx_env :: "(ex_msg, nat) gh_env" where
  "gx_env = \<lparr>gh_local = lx_env, gh_uuid = ''d2'', gh_dispatcher = dp_start (mk_dispatcher ''1''),
             gh_instance_id = ''1'', gh_members = []\<rparr>"

definition gx_state :: "(ex_msg, nat) gh_state" where
  "gx_state = \<lparr>gh_root = lh_store lx_state, gh_stopped = False, gh_lh = lx_state\<rparr>"

theorem global_is_local_witness:
  "gh_ready gx_env \<and>
   G_ListDevices gx_env Empty_request gx_state = on_local (ListDevices lx_env Empty_request) gx_state \<and>
   G_GetDevice gx_env (Id_request ''olt'') gx_state = on_local (GetDevice lx_env (Id_request ''olt'')) gx_state \<and>
   G_GetDevice gx_env Empty_request gx_state = (Inl AttributeError, gx_state) \<and>
   fst (G_GetVolthaInstance gx_env (Id_request ''7'') gx_state) = Inr (Blank ''VolthaInstance'')"
proof -
  have r: "gh_ready gx_env" by (simp add: gh_ready_def gx_env_def dp_start_def mk_dispatcher_def)
  have e: "gh_local gx_env = lx_env" "gh_instance_id gx_env = ''1''" by (simp_all add: gx_env_def)
  from global_is_local [OF r, of "Id_request ''olt''"] global_is_local [OF r, of "Id_request ''7''"]
    global_is_local [OF r, of Empty_request] r show ?thesis
    by (simp add: self_dispatched_def owner_dispatched_def Let_def e request_id_def on_local_def not_found_def
        set_status_def st_bind_def gx_state_def)
qed

end
