(* ===== verification/AdapterAgent.thy ===== *)
theory AdapterAgent
  imports LocalHandler EventBus
begin

text \<open>
  \<^verbatim>\<open>voltha/core/adapter_agent.py\<close>: the gateway between the core and one adapter. Towards the core
  it forwards requests to the adapter; towards the adapter it writes devices, ports and logical devices into
  the configuration, through the proxy of the root, and moves packets and proxied messages over the event bus.

  The adapter is any class of the adapter interface: what it returns is the record \<open>adapter_cls\<close>, the calls
  it gets are listed in the state. The protobuf functions the agent uses on messages (assignment, an empty
  message, the peers of a port, the serialized proxy address) are arguments.
\<close>

section \<open>State\<close>

datatype aa_callback = Cb_packet_out string | Cb_send_proxied proxy_address | Cb_receive_proxied proxy_address

datatype bus_msg = M_packet_out packet_out_msg | M_proxied string | M_packet_in u32 string

datatype 'd ad_call =
    Ad_stop
  | Ad_adopt 'd
  | Ad_abandon 'd
  | Ad_deactivate 'd
  | Ad_flows_bulk 'd "flow_stats list" "group_entry list"
  | Ad_packet_out string "u32 option" string
  | Ad_receive_proxied proxy_address string
  | Ad_send_proxied proxy_address string

record 'd adapter_cls =
  ad_new :: "'d got option \<Rightarrow> unit res"      \<comment> \<open>the constructor, given the configuration\<close>
  ad_start :: "unit res"
  ad_descriptor :: 'd
  ad_device_types :: "'d list"

record ('d, 'c) aa_env =
  aa_cfg :: "('d, 'c) cenv"
  aa_run :: "('d, 'c) runner"
  aa_fuel :: nat
  aa_set :: "string \<Rightarrow> pval \<Rightarrow> 'd \<Rightarrow> 'd"
  aa_blank :: "string \<Rightarrow> 'd"
  aa_peers :: "'d \<Rightarrow> (string \<times> nat) list"
  aa_add_peer :: "string \<times> nat \<Rightarrow> 'd \<Rightarrow> 'd"
  aa_set_proxy :: "proxy_address \<Rightarrow> 'd \<Rightarrow> 'd"
  aa_serialize :: "proxy_address \<Rightarrow> string"
  aa_matches :: "string \<Rightarrow> string \<Rightarrow> bool"

record ('d, 'c) aa_state =
  aa_name :: string
  aa_store :: "('d, 'c) cstore"
  aa_adapter :: bool                         \<comment> \<open>adapter is set\<close>
  aa_node :: "string option"                 \<comment> \<open>the path of adapter\_node\_proxy\<close>
  aa_device_agents :: "string list"          \<comment> \<open>the devices the core has agents for\<close>
  aa_rx :: "(string, (bus_msg, aa_callback) subscription) od"
  aa_tx :: "(string, (bus_msg, aa_callback) subscription) od"
  aa_bus :: "(bus_msg, aa_callback) bus"
  aa_calls :: "'d ad_call list"

definition aa_op :: "(('d, 'c) cstore, 'a) st \<Rightarrow> (('d, 'c) aa_state, 'a) st" where
  "aa_op f s = (let (r, c) = f (aa_store s) in (r, s\<lparr>aa_store := c\<rparr>))"

definition aa_call :: "'d ad_call \<Rightarrow> (('d, 'c) aa_state, unit) st" where
  "aa_call c s = (if aa_adapter s then (Inr (), s\<lparr>aa_calls := aa_calls s @ [c]\<rparr>) else (Inl AttributeError, s))"

definition pval_str :: "pval \<Rightarrow> string" where
  "pval_str v =
     (case v of
        PStr s \<Rightarrow> s
      | PInt i \<Rightarrow> if i < 0 then CHR ''-'' # str_nat (nat (- i)) else str_nat (nat i)
      | POther s \<Rightarrow> s)"

abbreviation aa_attr :: "('d, 'c) aa_env \<Rightarrow> 'd \<Rightarrow> string \<Rightarrow> pval" where
  "aa_attr A \<equiv> p_attr (e_proto (aa_cfg A))"


section \<open>Writing into the configuration\<close>

definition root_proxy :: "('d, 'c) aa_env \<Rightarrow> (('d, 'c) aa_state, nat) st" where
  "root_proxy A = aa_op (get_proxy (aa_cfg A) ''/'' False)"

definition rp_get :: "('d, 'c) aa_env \<Rightarrow> nat \<Rightarrow> string \<Rightarrow> (('d, 'c) aa_state, 'd got) st" where
  "rp_get A n path = st_res (\<lambda>s. proxy_get (aa_cfg A) (aa_store s) n path 0 False NoTx)"

definition rp_update :: "('d, 'c) aa_env \<Rightarrow> nat \<Rightarrow> string \<Rightarrow> 'd \<Rightarrow> (('d, 'c) aa_state, unit) st" where
  "rp_update A n path data =
     st_bind (aa_op (proxy_update (aa_cfg A) (aa_run A) (aa_fuel A) n path data False NoTx)) (\<lambda>_. st_ret ())"

definition make_up_to_date :: "('d, 'c) aa_env \<Rightarrow> string \<Rightarrow> pval \<Rightarrow> 'd \<Rightarrow> (('d, 'c) aa_state, string) st" where
  "make_up_to_date A container_path key data =
     (let full_path = container_path @ ''/'' @ pval_str key in
      st_bind (root_proxy A) (\<lambda>n.
      st_bind (except_key_error
          (st_bind (rp_get A n full_path) (\<lambda>_. rp_update A n full_path data))
          (st_bind (aa_op (proxy_add (aa_cfg A) (aa_run A) (aa_fuel A) n container_path data NoTx)) (\<lambda>_. st_ret ()))) (\<lambda>_.
        st_ret full_path)))"

definition get_adapter_config :: "('d, 'c) aa_env \<Rightarrow> (('d, 'c) aa_state, 'd got option) st" where
  "get_adapter_config A s =
     st_bind (root_proxy A) (\<lambda>n.
       except_key_error
         (st_bind (rp_get A n (''/adapters/'' @ aa_name s)) (\<lambda>config. st_ret (Some config)))
         (st_ret None)) s"

definition update_adapter_node :: "('d, 'c) aa_env \<Rightarrow> 'd adapter_cls \<Rightarrow> (('d, 'c) aa_state, string) st" where
  "update_adapter_node A cls s =
     st_bind (st_res (\<lambda>_. py_assert (aa_attr A (ad_descriptor cls) ''id'' = PStr (aa_name s)))) (\<lambda>_.
     st_bind (make_up_to_date A ''/adapters'' (PStr (aa_name s)) (ad_descriptor cls)) (\<lambda>path.
     st_bind (aa_op (get_proxy (aa_cfg A) path False)) (\<lambda>_. st_ret path))) s"

definition update_device_types :: "('d, 'c) aa_env \<Rightarrow> 'd adapter_cls \<Rightarrow> (('d, 'c) aa_state, unit) st" where
  "update_device_types A cls =
     st_for (\<lambda>dt _. st_bind (make_up_to_date A ''/device_types'' (aa_attr A dt ''id'') dt) (\<lambda>_. st_ret ()))
       (ad_device_types cls) ()"

text \<open>Whatever goes wrong in starting the adapter is logged and dropped.\<close>

definition aa_start :: "('d, 'c) aa_env \<Rightarrow> 'd adapter_cls \<Rightarrow> (('d, 'c) aa_state, unit) st" where
  "aa_start A cls =
     st_bind (get_adapter_config A) (\<lambda>config s.
       (Inr (), snd (st_bind (st_res (\<lambda>_. ad_new cls config)) (\<lambda>_.
                     st_bind (st_res (\<lambda>_. ad_start cls)) (\<lambda>_.
                     st_bind (st_modify (\<lambda>s. s\<lparr>aa_adapter := True\<rparr>)) (\<lambda>_.
                     st_bind (update_adapter_node A cls) (\<lambda>path.
                     st_bind (st_modify (\<lambda>s. s\<lparr>aa_node := Some path\<rparr>)) (\<lambda>_.
                       update_device_types A cls))))) s)))"

definition aa_stop :: "(('d, 'c) aa_state, unit) st" where
  "aa_stop s =
     (if aa_adapter s
      then st_bind (aa_call Ad_stop) (\<lambda>_. st_modify (\<lambda>s. s\<lparr>aa_adapter := False\<rparr>)) s
      else (Inr (), s))"


section \<open>For the core\<close>

definition adopt_device :: "'d \<Rightarrow> (('d, 'c) aa_state, unit) st" where
  "adopt_device d = aa_call (Ad_adopt d)"

definition aa_abandon_device :: "'d \<Rightarrow> (('d, 'c) aa_state, unit) st" where
  "aa_abandon_device d = aa_call (Ad_abandon d)"

definition deactivate_device :: "'d \<Rightarrow> (('d, 'c) aa_state, unit) st" where
  "deactivate_device d = aa_call (Ad_deactivate d)"

definition update_flows_bulk ::
  "'d \<Rightarrow> flow_stats list \<Rightarrow> group_entry list \<Rightarrow> (('d, 'c) aa_state, unit) st" where
  "update_flows_bulk d flows groups = aa_call (Ad_flows_bulk d flows groups)"

text \<open>The method calls itself; the number bounds Python's stack.\<close>

fun update_flows_incrementally :: "nat \<Rightarrow> 'd \<Rightarrow> 'f \<Rightarrow> 'g \<Rightarrow> (('d, 'c) aa_state, unit) st" where
  "update_flows_incrementally 0 d flow_changes group_changes = st_raise RecursionError"
| "update_flows_incrementally (Suc stack) d flow_changes group_changes =
     update_flows_incrementally stack d flow_changes group_changes"


section \<open>For the adapter\<close>

definition aa_get_device :: "('d, 'c) aa_env \<Rightarrow> string \<Rightarrow> (('d, 'c) aa_state, 'd got) st" where
  "aa_get_device A device_id = rp_get A 0 (''/devices/'' @ device_id)"

definition aa_add_device :: "('d, 'c) aa_env \<Rightarrow> 'd \<Rightarrow> (('d, 'c) aa_state, unit) st" where
  "aa_add_device A d =
     st_bind (st_res (\<lambda>_. py_assert (p_cls (e_proto (aa_cfg A)) d = ''Device''))) (\<lambda>_.
     st_bind (make_up_to_date A ''/devices'' (aa_attr A d ''id'') d) (\<lambda>_.
     let dg = aa_set A ''id'' (PStr ''1'') (aa_blank A ''DeviceGroup'') in
     st_bind (make_up_to_date A ''/device_groups'' (aa_attr A dg ''id'') dg) (\<lambda>_. st_ret ())))"

text \<open>
  The device agent records the message as its last data and updates the device's node through its proxy,
  whose path is that of the device.
\<close>

definition aa_update_device :: "('d, 'c) aa_env \<Rightarrow> 'd \<Rightarrow> (('d, 'c) aa_state, unit) st" where
  "aa_update_device A d =
     st_bind (st_res (\<lambda>_. py_assert (p_cls (e_proto (aa_cfg A)) d = ''Device''))) (\<lambda>_.
     let i = pval_str (aa_attr A d ''id'') in
     st_bind (st_res (\<lambda>s. if i \<in> set (aa_device_agents s) then Inr () else Inl KeyError)) (\<lambda>_.
     st_bind (aa_op (root_update (aa_cfg A) (aa_run A) (aa_fuel A) (''/devices/'' @ i) d False NoTx)) (\<lambda>_. st_ret ())))"

definition aa_remove_device :: "string \<Rightarrow> (('d, 'c) aa_state, unit) st" where
  "aa_remove_device device_id =
     st_res (\<lambda>s. if device_id \<in> set (aa_device_agents s) then Inl NotImplementedError else Inl KeyError)"

definition add_peer_ref :: "('d, 'c) aa_env \<Rightarrow> string \<times> nat \<Rightarrow> string \<times> nat \<Rightarrow> (('d, 'c) aa_state, unit) st" where
  "add_peer_ref A me_as_peer peer =
     (let path = ''/devices/'' @ fst peer @ ''/ports/'' @ str_nat (snd peer) in
      st_bind (rp_get A 0 path) (\<lambda>g.
      st_bind (st_res (\<lambda>_. the_message g)) (\<lambda>peer_port.
        rp_update A 0 path
          (if me_as_peer \<in> set (aa_peers A peer_port) then peer_port else aa_add_peer A me_as_peer peer_port))))"

definition aa_add_port :: "('d, 'c) aa_env \<Rightarrow> string \<Rightarrow> 'd \<Rightarrow> (('d, 'c) aa_state, unit) st" where
  "aa_add_port A device_id prt =
     st_bind (st_res (\<lambda>_. py_assert (p_cls (e_proto (aa_cfg A)) prt = ''Port''))) (\<lambda>_.
     let prt' = aa_set A ''device_id'' (PStr device_id) prt;
         port_no = (case aa_attr A prt' ''port_no'' of PInt i \<Rightarrow> nat i | _ \<Rightarrow> 0) in
     st_bind (st_for (\<lambda>peer _. add_peer_ref A (device_id, port_no) peer) (aa_peers A prt') ()) (\<lambda>_.
     st_bind (make_up_to_date A (''/devices/'' @ device_id @ ''/ports'') (aa_attr A prt' ''port_no'') prt') (\<lambda>_. st_ret ())))"


section \<open>Logical devices\<close>

text \<open>The loop that looks for a free number ends, since only finitely many are taken.\<close>

definition taken :: "nat list \<Rightarrow> string list \<Rightarrow> nat \<Rightarrow> bool" where
  "taken datapath_ids ids i \<longleftrightarrow> i \<in> set datapath_ids \<or> str_nat i \<in> set ids"

lemma taken_finite: "finite {j. taken ds ids j}"
proof -
  have "{j. taken ds ids j} \<subseteq> set ds \<union> dec_int ` set ids"
    by (auto simp: taken_def image_iff) (metis dec_int_str_nat)
  then show ?thesis by (rule finite_subset) simp
qed

function first_free :: "nat list \<Rightarrow> string list \<Rightarrow> nat \<Rightarrow> nat" where
  "first_free datapath_ids ids i = (if taken datapath_ids ids i then first_free datapath_ids ids (Suc i) else i)"
  by pat_completeness auto
termination first_free
proof (relation "measure (\<lambda>(ds, ids, i). card {j. i \<le> j \<and> taken ds ids j})")
  fix ds ids i
  assume "taken ds ids i"
  then have "i \<in> {j. i \<le> j \<and> taken ds ids j}" by simp
  moreover have "i \<notin> {j. Suc i \<le> j \<and> taken ds ids j}" by simp
  moreover have "{j. Suc i \<le> j \<and> taken ds ids j} \<subseteq> {j. i \<le> j \<and> taken ds ids j}" by auto
  ultimately have "{j. Suc i \<le> j \<and> taken ds ids j} \<subset> {j. i \<le> j \<and> taken ds ids j}" by blast
  moreover have "finite {j. i \<le> j \<and> taken ds ids j}" using taken_finite [of ds ids] by simp
  ultimately show "((ds, ids, Suc i), ds, ids, i) \<in> measure (\<lambda>(ds, ids, i). card {j. i \<le> j \<and> taken ds ids j})"
    by (simp add: psubset_card_mono)
qed simp

declare first_free.simps [simp del]

definition find_first_available_id :: "('d, 'c) aa_env \<Rightarrow> (('d, 'c) aa_state, nat) st" where
  "find_first_available_id A =
     st_bind (rp_get A 0 ''/logical_devices'') (\<lambda>g.
     st_bind (st_res (\<lambda>_. case g of
                 One _ \<Rightarrow> Inl TypeError
               | Many l \<Rightarrow> py_map (\<lambda>x. case x of Some (CData d) \<Rightarrow> Inr d | _ \<Rightarrow> Inl AttributeError) l)) (\<lambda>lds.
       st_ret (first_free
                 (map (\<lambda>ld. case aa_attr A ld ''datapath_id'' of PInt i \<Rightarrow> nat i | _ \<Rightarrow> 0) lds)
                 (map (\<lambda>ld. pval_str (aa_attr A ld ''id'')) lds) 1)))"

definition get_logical_device :: "('d, 'c) aa_env \<Rightarrow> string \<Rightarrow> (('d, 'c) aa_state, 'd got) st" where
  "get_logical_device A logical_device_id = rp_get A 0 (''/logical_devices/'' @ logical_device_id)"

definition aa_subscribe ::
  "string \<Rightarrow> aa_callback \<Rightarrow> (('d, 'c) aa_state, (bus_msg, aa_callback) subscription) st" where
  "aa_subscribe t cb s = (let (r, b) = subscribe (Topic t) cb None (aa_bus s) in (r, s\<lparr>aa_bus := b\<rparr>))"

definition create_logical_device :: "('d, 'c) aa_env \<Rightarrow> 'd \<Rightarrow> (('d, 'c) aa_state, 'd) st" where
  "create_logical_device A ld =
     st_bind (st_res (\<lambda>_. py_assert (p_cls (e_proto (aa_cfg A)) ld = ''LogicalDevice''))) (\<lambda>_.
     st_bind (if aa_attr A ld ''id'' = PStr [] then
                st_bind (find_first_available_id A) (\<lambda>i.
                  st_ret (aa_set A ''datapath_id'' (PInt (int i)) (aa_set A ''id'' (PStr (str_nat i)) ld)))
              else st_ret ld) (\<lambda>ld'.
     st_bind (make_up_to_date A ''/logical_devices'' (aa_attr A ld' ''id'') ld') (\<lambda>_.
     let i = pval_str (aa_attr A ld' ''id'') in
     st_bind (aa_subscribe (''packet-out:'' @ i) (Cb_packet_out i)) (\<lambda>_. st_ret ld'))))"

definition add_logical_port :: "('d, 'c) aa_env \<Rightarrow> string \<Rightarrow> 'd \<Rightarrow> (('d, 'c) aa_state, unit) st" where
  "add_logical_port A logical_device_id prt =
     st_bind (st_res (\<lambda>_. py_assert (p_cls (e_proto (aa_cfg A)) prt = ''LogicalPort''))) (\<lambda>_.
     st_bind (make_up_to_date A (''/logical_devices/'' @ logical_device_id @ ''/ports'') (aa_attr A prt ''id'') prt)
       (\<lambda>_. st_ret ()))"


section \<open>Packets and proxied messages\<close>

fun get_port_out :: "ofp_action list \<Rightarrow> u32 option" where
  "get_port_out [] = None"
| "get_port_out (action # actions) =
     (if act_type action = OUTPUT then Some (act_output_port (act_data action)) else get_port_out actions)"

definition receive_packet_out :: "string \<Rightarrow> packet_out_msg \<Rightarrow> (('d, 'c) aa_state, unit) st" where
  "receive_packet_out logical_device_id p =
     aa_call (Ad_packet_out logical_device_id (get_port_out (po_actions p)) (po_data p))"

definition receive_proxied :: "proxy_address \<Rightarrow> string \<Rightarrow> (('d, 'c) aa_state, unit) st" where
  "receive_proxied pa msg = aa_call (Ad_receive_proxied pa msg)"

definition send_proxied :: "proxy_address \<Rightarrow> string \<Rightarrow> (('d, 'c) aa_state, unit) st" where
  "send_proxied pa msg = aa_call (Ad_send_proxied pa msg)"

text \<open>What the callbacks the agent subscribed do with a message.\<close>

definition aa_deliver :: "aa_callback \<Rightarrow> string \<Rightarrow> bus_msg \<Rightarrow> (('d, 'c) aa_state, unit) st" where
  "aa_deliver cb t msg =
     (case (cb, msg) of
        (Cb_packet_out i, M_packet_out p) \<Rightarrow> receive_packet_out i p
      | (Cb_send_proxied pa, M_proxied m) \<Rightarrow> send_proxied pa m
      | (Cb_receive_proxied pa, M_proxied m) \<Rightarrow> receive_proxied pa m
      | _ \<Rightarrow> st_raise AttributeError)"

definition aa_publish :: "('d, 'c) aa_env \<Rightarrow> string \<Rightarrow> bus_msg \<Rightarrow> ('d, 'c) aa_state \<Rightarrow> ('d, 'c) aa_state" where
  "aa_publish A t msg s =
     (let (b, s') = publish (aa_matches A) aa_deliver t msg (aa_bus s, s) in s'\<lparr>aa_bus := b\<rparr>)"

definition gen_rx_proxy_address_topic :: "('d, 'c) aa_env \<Rightarrow> proxy_address \<Rightarrow> string" where
  "gen_rx_proxy_address_topic A pa = ''rx:'' @ aa_serialize A pa"

definition gen_tx_proxy_address_topic :: "('d, 'c) aa_env \<Rightarrow> proxy_address \<Rightarrow> string" where
  "gen_tx_proxy_address_topic A pa = ''tx:'' @ aa_serialize A pa"

definition child_device_detected ::
  "('d, 'c) aa_env \<Rightarrow> string \<Rightarrow> string \<Rightarrow> nat \<Rightarrow> string \<Rightarrow> proxy_address \<Rightarrow> (string \<times> pval) list
   \<Rightarrow> (('d, 'c) aa_state, unit) st" where
  "child_device_detected A uuid parent_device_id parent_port_no child_device_type pa kw =
     (let d = foldl (\<lambda>m (n, v). aa_set A n v m)
                (aa_set_proxy A pa (aa_blank A ''Device''))
                ([(''id'', PStr uuid), (''type'', PStr child_device_type), (''parent_id'', PStr parent_device_id),
                  (''parent_port_no'', PInt (int parent_port_no)), (''admin_state'', PInt (int ADMIN_ENABLED))] @ kw)
      in
      st_bind (make_up_to_date A ''/devices'' (aa_attr A d ''id'') d) (\<lambda>_.
      let t = gen_tx_proxy_address_topic A pa in
      st_bind (aa_subscribe t (Cb_send_proxied pa)) (\<lambda>sub.
        st_modify (\<lambda>s. s\<lparr>aa_tx := od_set t sub (aa_tx s)\<rparr>))))"

definition register_for_proxied_messages :: "('d, 'c) aa_env \<Rightarrow> proxy_address \<Rightarrow> (('d, 'c) aa_state, unit) st" where
  "register_for_proxied_messages A pa =
     (let t = gen_rx_proxy_address_topic A pa in
      st_bind (aa_subscribe t (Cb_receive_proxied pa)) (\<lambda>sub.
        st_modify (\<lambda>s. s\<lparr>aa_rx := od_set t sub (aa_rx s)\<rparr>)))"

definition send_proxied_message :: "('d, 'c) aa_env \<Rightarrow> proxy_address \<Rightarrow> string \<Rightarrow> ('d, 'c) aa_state \<Rightarrow> ('d, 'c) aa_state" where
  "send_proxied_message A pa msg = aa_publish A (gen_tx_proxy_address_topic A pa) (M_proxied msg)"

definition receive_proxied_message :: "('d, 'c) aa_env \<Rightarrow> proxy_address \<Rightarrow> string \<Rightarrow> ('d, 'c) aa_state \<Rightarrow> ('d, 'c) aa_state" where
  "receive_proxied_message A pa msg = aa_publish A (gen_rx_proxy_address_topic A pa) (M_proxied msg)"

definition aa_send_packet_in :: "('d, 'c) aa_env \<Rightarrow> string \<Rightarrow> u32 \<Rightarrow> string \<Rightarrow> ('d, 'c) aa_state \<Rightarrow> ('d, 'c) aa_state" where
  "aa_send_packet_in A logical_device_id logical_port_no packet =
     aa_publish A (''packet-in:'' @ logical_device_id) (M_packet_in logical_port_no packet)"


section \<open>The proxy of the root\<close>

text \<open>Asking for the proxy of the root the first time changes nothing of the configuration.\<close>

lemma new_root_proxy:
  assumes "store_ok E run fuel c" and "n_proxy (cs_nodes c ! 0) = None"
  shows "store_ok E run fuel (snd (get_proxy E ''/'' False c))"
    and "committed (snd (get_proxy E ''/'' False c)) = committed c"
    and "n_proxy (cs_nodes (snd (get_proxy E ''/'' False c)) ! 0) =
      Some \<lparr>px_path = ''/'', px_exclusive = False, px_callbacks = []\<rparr>"
proof -
  let ?px = "\<lparr>px_path = ''/'', px_exclusive = False, px_callbacks = []\<rparr>"
  let ?c = "set_node 0 (\<lambda>nd. nd\<lparr>n_proxy := Some ?px\<rparr>) c"
  have c: "snd (get_proxy E ''/'' False c) = ?c"
    using assms(2) by (simp add: get_proxy_def st_bind_def proxy_node.simps lstrip_slash_def mk_proxy_def)
  obtain r where r: "latest_rev c 0 NoTx = Inr r" "r_node r = 0" "coh (e_proto E) c r"
    using assms(1) by (auto simp: store_ok_def root_ok_def)
  have len: "0 < length (cs_nodes c)" using coh_head [OF r(3)] r(2) by (simp add: head_def)
  have same: "n_type (cs_nodes ?c ! m) = n_type (cs_nodes c ! m)"
    "n_branches (cs_nodes ?c ! m) = n_branches (cs_nodes c ! m)" for m
    using len by (auto simp: set_node_def nth_list_update)
  have l: "latest_rev ?c n tx = latest_rev c n tx" for n tx by (simp add: latest_rev_def branch_of_def same)
  have "coh (e_proto E) ?c r" using r(3) by (simp add: coh_def head_def same) (simp add: set_node_def)
  then have root: "root_ok (e_proto E) ?c" using r l by (auto simp: root_ok_def)
  have "run_hooks E ((cs_nodes c ! 0)\<lparr>n_proxy := Some ?px\<rparr>) t x = Inr (Some x)" for t x
    by (simp add: run_hooks_def invoke_callbacks_def)
  then have "quiet E ?c"
    using assms(1) by (auto simp: store_ok_def quiet_def set_node_def dest!: set_update_subset_insert [THEN subsetD])
  with root assms(1) show "store_ok E run fuel (snd (get_proxy E ''/'' False c))"
    unfolding c by (simp add: store_ok_def) (simp add: set_node_def)
  show "committed (snd (get_proxy E ''/'' False c)) = committed c" by (simp add: c committed_def l)
  show "n_proxy (cs_nodes (snd (get_proxy E ''/'' False c)) ! 0) = Some ?px"
    using len by (simp add: c set_node_def)
qed

text \<open>An example: the agent of an adapter on the example instance.\<close>

definition ax_env :: "(ex_msg, nat) aa_env" where
  "ax_env =
     \<lparr>aa_cfg = lh_cfg lx_env, aa_run = ex_run, aa_fuel = 3, aa_set = lh_set lx_env, aa_blank = (\<lambda>cls. Msg cls [] []),
      aa_peers = (\<lambda>_. []), aa_add_peer = (\<lambda>_ m. m), aa_set_proxy = (\<lambda>_ m. m),
      aa_serialize = (\<lambda>pa. pa_device_id pa), aa_matches = (\<lambda>_ _. False)\<rparr>"

definition ax_state :: "(ex_msg, nat) aa_state" where
  "ax_state =
     \<lparr>aa_name = ''sim'', aa_store = snd (get_proxy (lh_cfg lx_env) ''/'' False (lh_store lx_state)),
      aa_adapter = True, aa_node = None, aa_device_agents = [], aa_rx = [], aa_tx = [], aa_bus = new_bus,
      aa_calls = []\<rparr>"

lemma ax_simple:
  "aa_cfg ax_env = lh_cfg lx_env" "aa_run ax_env = ex_run" "aa_fuel ax_env = 3"
  by (simp_all add: ax_env_def)

lemma ax_ok:
  "store_ok (lh_cfg lx_env) ex_run 3 (aa_store ax_state)" "committed (aa_store ax_state) = Inr lx_tree"
  "n_proxy (cs_nodes (aa_store ax_state) ! 0) = Some \<lparr>px_path = ''/'', px_exclusive = False, px_callbacks = []\<rparr>"
proof -
  let ?r = "fst (root_init (lh_cfg lx_env) lx_root None)"
  have "root_init (lh_cfg lx_env) lx_root None = (?r, lh_store lx_state)" by (simp add: lx_state_def)
  then have "0 < length (cs_nodes (lh_store lx_state)) \<Longrightarrow> n_proxy (cs_nodes (lh_store lx_state) ! 0) = None"
    using mknode_new(5) [of "lh_cfg lx_env" _ False lx_root "empty_store None" ?r "lh_store lx_state" 0]
    by (simp add: root_init_def empty_store_def)
  moreover have "0 < length (cs_nodes (lh_store lx_state))"
    using lx_ok(1) by (auto simp: store_ok_def root_ok_def dest!: coh_head simp: head_def)
  ultimately have "n_proxy (cs_nodes (lh_store lx_state) ! 0) = None" by simp
  note new = new_root_proxy [OF lx_ok(1) this]
  show "store_ok (lh_cfg lx_env) ex_run 3 (aa_store ax_state)" "committed (aa_store ax_state) = Inr lx_tree"
    "n_proxy (cs_nodes (aa_store ax_state) ! 0) = Some \<lparr>px_path = ''/'', px_exclusive = False, px_callbacks = []\<rparr>"
    using new lx_ok(2) by (simp_all add: ax_state_def)
qed


section \<open>Free numbers\<close>

lemma first_free_spec:
  "i \<le> first_free ds ids i \<and> \<not> taken ds ids (first_free ds ids i) \<and>
   (\<forall>j. i \<le> j \<longrightarrow> j < first_free ds ids i \<longrightarrow> taken ds ids j)"
proof (induction ds ids i rule: first_free.induct)
  case (1 ds ids i)
  show ?case
  proof (cases "taken ds ids i")
    case True
    then have "first_free ds ids i = first_free ds ids (Suc i)" by (subst first_free.simps) simp
    moreover have "j = i \<or> Suc i \<le> j" if "i \<le> j" for j using that by auto
    ultimately show ?thesis using 1 True by (metis Suc_leD)
  next
    case False
    then show ?thesis by (subst (1 2 3) first_free.simps) simp
  qed
qed

lemma first_free_bound: "first_free ds ids 1 \<le> length ds + length ids + 1"
proof -
  let ?i = "first_free ds ids 1"
  have "{1..<?i} \<subseteq> set ds \<union> dec_int ` set ids"
    using first_free_spec [of 1 ds ids] by (auto simp: taken_def image_iff) (metis dec_int_str_nat)
  then have "card {1..<?i} \<le> card (set ds \<union> dec_int ` set ids)" by (intro card_mono) auto
  also have "\<dots> \<le> card (set ds) + card (set ids)"
    by (rule order_trans [OF card_Un_le]) (simp add: card_image_le)
  also have "\<dots> \<le> length ds + length ids" by (simp add: add_mono card_length)
  finally show ?thesis by simp
qed

text \<open>
  C22. Looking for the number of a new logical device always ends, with the least positive number that is
  neither the datapath id nor, written out, the id of a logical device, and after at most two tries for every
  logical device and one more.
\<close>

theorem first_available_id:
  assumes "rp_get A 0 ''/logical_devices'' s = (Inr (Many (map (\<lambda>d. Some (CData d)) lds)), s)"
  shows "\<exists>i. find_first_available_id A s = (Inr i, s) \<and> 1 \<le> i \<and> i \<le> 2 * length lds + 1 \<and>
    (\<forall>ld \<in> set lds. aa_attr A ld ''datapath_id'' \<noteq> PInt (int i) \<and> aa_attr A ld ''id'' \<noteq> PStr (str_nat i)) \<and>
    (\<forall>j. 1 \<le> j \<longrightarrow> j < i \<longrightarrow>
       taken (map (\<lambda>ld. case aa_attr A ld ''datapath_id'' of PInt i \<Rightarrow> nat i | _ \<Rightarrow> 0) lds)
             (map (\<lambda>ld. pval_str (aa_attr A ld ''id'')) lds) j)"
proof -
  let ?ds = "map (\<lambda>ld. case aa_attr A ld ''datapath_id'' of PInt i \<Rightarrow> nat i | _ \<Rightarrow> 0) lds"
  let ?ids = "map (\<lambda>ld. pval_str (aa_attr A ld ''id'')) lds"
  let ?i = "first_free ?ds ?ids 1"
  have "py_map (\<lambda>x. case x of Some (CData d) \<Rightarrow> Inr d | _ \<Rightarrow> Inl AttributeError) (map (\<lambda>d. Some (CData d)) lds) = Inr lds"
    by (induction lds) auto
  then have "find_first_available_id A s = (Inr ?i, s)"
    using assms by (simp add: find_first_available_id_def st_bind_def)
  moreover have "?i \<le> 2 * length lds + 1" using first_free_bound [of ?ds ?ids] by simp
  moreover have "aa_attr A ld ''datapath_id'' \<noteq> PInt (int ?i) \<and> aa_attr A ld ''id'' \<noteq> PStr (str_nat ?i)"
    if "ld \<in> set lds" for ld
    using first_free_spec [of 1 ?ds ?ids] that by (force simp: taken_def pval_str_def image_iff)
  ultimately show ?thesis using first_free_spec [of 1 ?ds ?ids] by blast
qed


theorem first_available_id_witness:
  "\<exists>i. find_first_available_id ax_env ax_state = (Inr i, ax_state) \<and> 1 \<le> i \<and> i \<le> 3 \<and>
     aa_attr ax_env lx_logical ''datapath_id'' \<noteq> PInt (int i)"
proof -
  have "tree_get lx_proto 0 lx_tree ''logical_devices'' = Inr (Many [Some (CData lx_logical)])" by code_simp
  then have "rp_get ax_env 0 ''/logical_devices'' ax_state = (Inr (Many (map (\<lambda>d. Some (CData d)) [lx_logical])), ax_state)"
    using cfg.get_law [OF ax_ok(1,2), where path = "''/logical_devices''" and depth = 0]
    by (simp add: rp_get_def proxy_get_def ax_simple lx_simple lstrip_slash_def)
  from first_available_id [OF this] show ?thesis by (auto simp: numeral_3_eq_3)
qed


section \<open>Make up to date\<close>

lemma root_proxy_there:
  assumes "n_proxy (cs_nodes c ! 0) = Some px" and "\<not> px_exclusive px"
  shows "get_proxy E ''/'' False c = (Inr 0, c)"
  using assms by (simp add: get_proxy_def st_bind_def proxy_node.simps lstrip_slash_def mk_proxy_def)

lemma proxy_full_path_root:
  assumes "n_proxy (cs_nodes c ! 0) = Some px" and "px_path px = ''/''" and "path \<noteq> ''/''"
    and "path \<noteq> []" and "hd path = CHR ''/''"
  shows "proxy_full_path c 0 path = Inr (CHR ''/'' # path)"
  using assms by (simp add: proxy_full_path_def)

text \<open>The two ways it goes, by what the first lookup finds.\<close>

lemma make_up_to_date_eval:
  assumes "n_proxy (cs_nodes (aa_store s) ! 0) = Some px" and "px_path px = ''/''" and "\<not> px_exclusive px"
    and "container \<noteq> []" and "hd container = CHR ''/''" and "container \<noteq> ''/''" and "pval_str key \<noteq> []"
  shows "proxy_get (aa_cfg A) (aa_store s) 0 (container @ ''/'' @ pval_str key) 0 False NoTx = Inl e \<Longrightarrow>
      root_add (aa_cfg A) (aa_run A) (aa_fuel A) (CHR ''/'' # container) data NoTx (aa_store s) = (r, u) \<Longrightarrow>
      make_up_to_date A container key data s =
        (if e = KeyError then (case r of Inl e' \<Rightarrow> Inl e' | Inr _ \<Rightarrow> Inr (container @ ''/'' @ pval_str key), s\<lparr>aa_store := u\<rparr>)
         else (Inl e, s))"
    and "proxy_get (aa_cfg A) (aa_store s) 0 (container @ ''/'' @ pval_str key) 0 False NoTx = Inr g \<Longrightarrow>
      root_update (aa_cfg A) (aa_run A) (aa_fuel A) (CHR ''/'' # container @ ''/'' @ pval_str key) data False NoTx
        (aa_store s) = (r, u) \<Longrightarrow> r \<noteq> Inl KeyError \<Longrightarrow>
      make_up_to_date A container key data s =
        (case r of Inl e' \<Rightarrow> Inl e' | Inr _ \<Rightarrow> Inr (container @ ''/'' @ pval_str key), s\<lparr>aa_store := u\<rparr>)"
proof -
  have full: "proxy_full_path (aa_store s) 0 (container @ ''/'' @ pval_str key) = Inr (CHR ''/'' # container @ ''/'' @ pval_str key)"
    "proxy_full_path (aa_store s) 0 container = Inr (CHR ''/'' # container)"
    using assms(4-) by (auto intro!: proxy_full_path_root [OF assms(1,2)] simp: append_eq_Cons_conv)
  note defs = make_up_to_date_def Let_def root_proxy_def aa_op_def root_proxy_there [OF assms(1,3)] st_bind_def
    except_key_error_def rp_get_def rp_update_def proxy_update_def proxy_add_def
  show "make_up_to_date A container key data s =
        (if e = KeyError then (case r of Inl e' \<Rightarrow> Inl e' | Inr _ \<Rightarrow> Inr (container @ ''/'' @ pval_str key), s\<lparr>aa_store := u\<rparr>)
         else (Inl e, s))"
    if "proxy_get (aa_cfg A) (aa_store s) 0 (container @ ''/'' @ pval_str key) 0 False NoTx = Inl e"
      "root_add (aa_cfg A) (aa_run A) (aa_fuel A) (CHR ''/'' # container) data NoTx (aa_store s) = (r, u)"
    using that full by (cases r; cases e) (simp_all add: defs)
  show "make_up_to_date A container key data s =
        (case r of Inl e' \<Rightarrow> Inl e' | Inr _ \<Rightarrow> Inr (container @ ''/'' @ pval_str key), s\<lparr>aa_store := u\<rparr>)"
    if "proxy_get (aa_cfg A) (aa_store s) 0 (container @ ''/'' @ pval_str key) 0 False NoTx = Inr g"
      "root_update (aa_cfg A) (aa_run A) (aa_fuel A) (CHR ''/'' # container @ ''/'' @ pval_str key) data False NoTx
        (aa_store s) = (r, u)" "r \<noteq> Inl KeyError"
    using that full by (cases r) (simp_all add: defs split: pyerr.splits)
qed

text \<open>
  Writing a message of the adapter: when the agent, whose proxy is the one of the root, brings a message
  up to date under its key in a keyed container, and this returns, the message is in the configuration: reading
  the returned path gives a message with the same values in all its fields, whether the key was there (and the
  message replaced what it held) or not (and the message was added). The configuration stays well formed.
\<close>

theorem make_up_to_date_stores:
  assumes "store_ok (aa_cfg A) (aa_run A) (aa_fuel A) (aa_store s)" and "committed (aa_store s) = Inr t"
    and "n_proxy (cs_nodes (aa_store s) ! 0) = Some px" and "px_path px = ''/''" and "\<not> px_exclusive px"
    and "clean_path container" and "container \<noteq> []" and "hd container = CHR ''/''" and "container \<noteq> ''/''"
    and "tree_field (e_proto (aa_cfg A)) t container = Inr f" and "ct_key f = Some fk"
    and "key_from_str f (pval_str key) = Inr (aa_attr A data fk)"
    and "pval_str key \<noteq> []" and "CHR ''/'' \<notin> set (pval_str key)"
    and "detects (e_proto (aa_cfg A)) data False t (container @ ''/'' @ pval_str key)"
    and "clear_keeps_attr (e_proto (aa_cfg A))" and "\<And>cls. fields_of (e_proto (aa_cfg A)) cls \<noteq> Inl KeyError"
    and "make_up_to_date A container key data s = (Inr path, s')"
  shows "path = container @ ''/'' @ pval_str key \<and> store_ok (aa_cfg A) (aa_run A) (aa_fuel A) (aa_store s') \<and>
    (\<exists>d. rp_get A 0 path s' = (Inr (One (Some (CData d))), s') \<and> (\<forall>a. aa_attr A d a = aa_attr A data a))"
proof -
  let ?P = "e_proto (aa_cfg A)" and ?path = "container @ ''/'' @ pval_str key" and ?c = "aa_store s"
  note eval = make_up_to_date_eval [OF assms(3-5,7-9,13), where A = A and data = data]
  have clean: "clean_path ?path" using clean_append [OF assms(6,7,13,14)] by simp
  have got: "proxy_get (aa_cfg A) ?c 0 ?path 0 False NoTx = tree_get ?P 0 t (lstrip_slash ?path)"
    unfolding proxy_get_def by (rule cfg.get_law [OF assms(1,2)])
  have "path = ?path \<and> store_ok (aa_cfg A) (aa_run A) (aa_fuel A) (aa_store s') \<and>
    (\<exists>d. node_get (aa_cfg A) (aa_store s') 0 path None 0 False NoTx = Inr (One (Some (CData d))) \<and>
      (\<forall>a. aa_attr A d a = aa_attr A data a))"
  proof (cases "tree_get ?P 0 t (lstrip_slash ?path)")
    case (Inl e)
    obtain r u where u: "root_add (aa_cfg A) (aa_run A) (aa_fuel A) (CHR ''/'' # container) data NoTx ?c = (r, u)"
      by (rule prod.exhaust)
    from eval(1) [OF got [unfolded Inl] u] assms(18) have p: "path = ?path" "aa_store s' = u" "\<exists>x. r = Inr x"
      by (auto split: sum.splits if_splits)
    with cfg.add_law [OF assms(1,2), where path = "CHR ''/'' # container" and data = data] u
    have "tree_add ?P (e_fuel (aa_cfg A)) data t container = committed u"
      "store_ok (aa_cfg A) (aa_run A) (aa_fuel A) u" by (auto simp: tree_ops_slash)
    with cfg.added_reads [OF this(2,1) assms(6,16,13,14,10,11,12)] p show ?thesis by auto
  next
    case (Inr g)
    obtain r u where u: "root_update (aa_cfg A) (aa_run A) (aa_fuel A) (CHR ''/'' # ?path) data False NoTx ?c = (r, u)"
      by (rule prod.exhaust)
    note up = cfg.upd_law [OF assms(1,2), where path = "CHR ''/'' # ?path" and data = data and strict = False,
        unfolded tree_ops_slash u, OF assms(15)]
    have "r \<noteq> Inl KeyError" using update_finds [OF Inr clean assms(17)] up by (cases r) auto
    from eval(2) [OF got [unfolded Inr] u this] assms(18) have p: "path = ?path" "aa_store s' = u" "\<exists>x. r = Inr x"
      by (auto split: sum.splits)
    with up have "tree_update ?P data False t ?path = committed u" "store_ok (aa_cfg A) (aa_run A) (aa_fuel A) u"
      by auto
    with cfg.updated_reads [OF this(2,1) clean] p show ?thesis by auto
  qed
  then show ?thesis by (auto simp: rp_get_def proxy_get_def)
qed

definition ax_device :: ex_msg where
  "ax_device = Msg ''Device'' [(''id'', PStr ''d2'')] []"

theorem make_up_to_date_stores_witness:
  "\<exists>s' d. make_up_to_date ax_env ''/devices'' (PStr ''d2'') ax_device ax_state = (Inr ''/devices/d2'', s') \<and>
     rp_get ax_env 0 ''/devices/d2'' s' = (Inr (One (Some (CData d))), s') \<and>
     (\<forall>a. p_attr lx_proto d a = p_attr lx_proto ax_device a)"
proof -
  have key: "pval_str (PStr ''d2'') = ''d2''" by (simp add: pval_str_def)
  have "tree_get lx_proto 0 lx_tree ''devices/d2'' = Inl KeyError" by code_simp
  then have get: "proxy_get (lh_cfg lx_env) (aa_store ax_state) 0 (''/devices'' @ ''/'' @ ''d2'') 0 False NoTx = Inl KeyError"
    using cfg.get_law [OF ax_ok(1,2), where path = "''/devices/d2''" and depth = 0]
    by (simp add: proxy_get_def lx_simple lstrip_slash_def)
  have "\<not> isl (tree_add lx_proto 5 ax_device lx_tree (CHR ''/'' # ''/devices''))" by code_simp
  then obtain r u where add: "root_add (lh_cfg lx_env) ex_run 3 (CHR ''/'' # ''/devices'') ax_device NoTx (aa_store ax_state) = (Inr r, u)"
    using cfg.add_law [OF ax_ok(1,2), where path = "CHR ''/'' # ''/devices''" and data = ax_device]
    by (cases "root_add (lh_cfg lx_env) ex_run 3 (CHR ''/'' # ''/devices'') ax_device NoTx (aa_store ax_state)")
      (auto simp: lx_simple split: sum.splits)
  have made: "make_up_to_date ax_env ''/devices'' (PStr ''d2'') ax_device ax_state =
      (Inr ''/devices/d2'', ax_state\<lparr>aa_store := u\<rparr>)"
    using make_up_to_date_eval(1) [of ax_state _ "''/devices''" "PStr ''d2''" ax_env KeyError ax_device "Inr r" u, OF ax_ok(3)]
      get add by (simp add: key ax_simple)
  have field: "tree_field lx_proto lx_tree ''/devices'' = Inr \<lparr>ct_module = ''ex'', ct_type = ''Device'', ct_container = True,
      ct_key = Some ''id'', ct_kind = Some StrKey\<rparr>" by code_simp
  have det: "detects lx_proto ax_device False lx_tree (''/devices'' @ ''/'' @ ''d2'')" by code_simp
  have k: "key_from_str \<lparr>ct_module = ''ex'', ct_type = ''Device'', ct_container = True, ct_key = Some ''id'',
      ct_kind = Some StrKey\<rparr> ''d2'' = Inr (p_attr lx_proto ax_device ''id'')" by code_simp
  have desc: "fields_of lx_proto cls \<noteq> Inl KeyError" for cls
    by (simp add: fields_of_def lx_proto_def lx_desc_def children_fields_def ex_field_def child_type_of_def od_get_def
        integer_types_def)
  from make_up_to_date_stores [where A = ax_env and s = ax_state and container = "''/devices''" and key = "PStr ''d2''",
      unfolded ax_simple lx_simple key, OF ax_ok _ _ _ _ _ _ field _ k _ _ det lx_simple(6) desc made] made
  show ?thesis by auto
qed


section \<open>A method that never returns\<close>

lemma incremental_update_overflows:
  "update_flows_incrementally stack d flow_changes group_changes s = (Inl RecursionError, s)"
  by (induction stack) simp_all

end
