(* ===== verification/Omci.thy ===== *)
theory Omci
  imports Prelude "HOL-Library.Multiset"
begin

text \<open>
  The managed entities of the ONU management protocol (OMCI):
  \<^verbatim>\<open>src/voltha/extensions/omci/omci_defs.py\<close>, \<^verbatim>\<open>omci_entities.py\<close>
  and the two data fields of \<^verbatim>\<open>omci_messages.py\<close>.

  An entity class is a record with its class id and its list of attributes; every class of the
  source is a definition below.  An attribute is described by a field of the scapy package.
  Scapy is not part of the program: its \<^verbatim>\<open>addfield\<close> and \<^verbatim>\<open>getfield\<close> are the
  arguments \<open>add\<close> and \<open>get\<close> of the definitions, and what the program relies on is the
  predicate \<open>scapy_fields\<close>.

  The lemmas show that attribute masks and sets of attribute names are two views of the same
  thing, that serializing an entity by its own data and by the mask of that data agree, and
  that the data part of a message decodes to what was encoded.
\<close>

section \<open>Definitions of omci_defs.py\<close>

datatype fval =
    NoneV
  | IntV int
  | StrV bytes
  | DictV "(string \<times> fval) list"
  | PktV int "(string \<times> fval) list" bytes

datatype AttributeAccess = R | W | SBC

abbreviation OmciNullPointer :: fval where
  "OmciNullPointer \<equiv> IntV 0xffff"

datatype EntityOperations =
    OP_Create | OP_CreateComplete | OP_Delete | OP_Set | OP_Get | OP_GetComplete
  | OP_GetAllAlarms | OP_GetAllAlarmsNext | OP_MibUpload | OP_MibUploadNext | OP_MibReset
  | OP_AlarmNotification | OP_AttributeValueChange | OP_Test | OP_StartSoftwareDownload
  | OP_DownlaodSection | OP_EndSoftwareDownload | OP_ActivateSoftware | OP_CommitSoftware
  | OP_SynchronizeTime | OP_Reboot | OP_GetNext | OP_TestResult | OP_GetCurrentData

text \<open>
  The loop of \<^verbatim>\<open>bitpos_from_mask\<close> runs until the mask is zero; shifting a negative
  Python integer never reaches zero, so not returning is the value \<^const>\<open>None\<close>.
\<close>

partial_function (option) bitpos_loop ::
    "int \<Rightarrow> int \<Rightarrow> int \<Rightarrow> int list \<Rightarrow> int list option" where
  "bitpos_loop msk lsb_pos inc out =
     (if msk = 0 then Some out
      else bitpos_loop (drop_bit 1 msk) (lsb_pos + inc) inc
             (if msk AND 1 \<noteq> 0 then out @ [lsb_pos] else out))"

definition bitpos_from_mask :: "int \<Rightarrow> int \<Rightarrow> int \<Rightarrow> int list option" where
  "bitpos_from_mask msk lsb_pos inc = map_option sort (bitpos_loop msk lsb_pos inc [])"


section \<open>Entity classes\<close>

datatype fkind = ByteField | ShortField | IntField | MACField | IPField | StrFixedLenField nat

datatype ofld = ofld (fld_kind: fkind) (fld_name: string) (fld_default: fval)

datatype EntityClassAttribute =
  ECA (eca_fld: ofld) (eca_access: "AttributeAccess list") (eca_optional: bool)

record entity_class =
  ec_name :: string
  class_id :: int
  attributes :: "EntityClassAttribute list"
  mandatory_operations :: "EntityOperations list"
  optional_operations :: "EntityOperations list"

definition attr_names :: "entity_class \<Rightarrow> string list" where
  "attr_names ec = map (fld_name \<circ> eca_fld) (attributes ec)"

definition attribute_name_to_index_map :: "entity_class \<Rightarrow> (string, nat) od" where
  "attribute_name_to_index_map ec = od_of (zip (attr_names ec) [0..<length (attributes ec)]) []"

text \<open>
  The two lookup tables are built when the class is created, one entry per mask for which
  \<^verbatim>\<open>bitpos_from_mask\<close> returns, which is every one of them (\<open>bitpos_from_mask_returns\<close>).
\<close>

definition mask_table :: "int \<Rightarrow> (int, int list) od" where
  "mask_table lsb =
     List.map_filter (\<lambda>m. map_option (Pair m) (bitpos_from_mask m lsb (- 1))) (map int [0..<256])"

definition byte1_mask_to_attr_indices :: "(int, int list) od" where
  "byte1_mask_to_attr_indices = mask_table 8"

definition byte2_mask_to_attr_indices :: "(int, int list) od" where
  "byte2_mask_to_attr_indices = mask_table 16"

definition attribute_indices_from_mask :: "int \<Rightarrow> int list res" where
  "attribute_indices_from_mask msk =
     rbind (dict_lookup (drop_bit 8 msk AND 0xff) byte1_mask_to_attr_indices) (\<lambda>i1.
     rbind (dict_lookup (msk AND 0xff) byte2_mask_to_attr_indices) (\<lambda>i2. Inr (i1 @ i2)))"

definition mask_for :: "entity_class \<Rightarrow> string list \<Rightarrow> int res" where
  "mask_for ec names =
     py_for (\<lambda>attr_name msk.
       case od_get attr_name (attribute_name_to_index_map ec) of
         None \<Rightarrow> Inl KeyError
       | Some index \<Rightarrow>
           if index > 16 then Inl ValueError
           else Inr (msk OR push_bit (16 - index) 1)) names 0"

text \<open>Python's \<^verbatim>\<open>xs[i]\<close> on a list: negative indices count from the end.\<close>

definition py_index :: "'a list \<Rightarrow> int \<Rightarrow> 'a res" where
  "py_index xs i =
     (if 0 \<le> i \<and> i < int (length xs) then Inr (xs ! nat i)
      else if - int (length xs) \<le> i \<and> i < 0 then Inr (xs ! nat (int (length xs) + i))
      else Inl IndexError)"

definition EntityClass_init :: "entity_class \<Rightarrow> (string, fval) od \<Rightarrow> (string, fval) od res" where
  "EntityClass_init ec kw =
     (if \<forall>k \<in> set (od_keys kw). od_get k (attribute_name_to_index_map ec) \<noteq> None
      then Inr kw else Inl AssertionError)"

definition attribute_indices_from_data ::
    "entity_class \<Rightarrow> (string, fval) od \<Rightarrow> int list res" where
  "attribute_indices_from_data ec data =
     rbind (py_map (\<lambda>attr_name.
       case od_get attr_name (attribute_name_to_index_map ec) of
         None \<Rightarrow> Inl KeyError | Some index \<Rightarrow> Inr (int index)) (od_keys data))
     (\<lambda>indices. Inr (sort indices))"

type_synonym addfield = "ofld \<Rightarrow> bytes \<Rightarrow> fval \<Rightarrow> bytes res"
type_synonym getfield = "ofld \<Rightarrow> bytes \<Rightarrow> (bytes \<times> fval) res"

definition serialize_indices ::
    "addfield \<Rightarrow> entity_class \<Rightarrow> (string, fval) od \<Rightarrow> int list \<Rightarrow> bytes res" where
  "serialize_indices add ec data indices =
     py_for (\<lambda>index bs.
       rbind (py_index (attributes ec) index) (\<lambda>a.
       case od_get (fld_name (eca_fld a)) data of
         None \<Rightarrow> Inl OmciUninitializedFieldError
       | Some v \<Rightarrow> add (eca_fld a) bs v)) indices []"

definition serialize ::
    "addfield \<Rightarrow> entity_class \<Rightarrow> (string, fval) od \<Rightarrow> int option \<Rightarrow> bytes res" where
  "serialize add ec data msk =
     rbind (case msk of Some m \<Rightarrow> attribute_indices_from_mask m
                      | None \<Rightarrow> attribute_indices_from_data ec data)
       (serialize_indices add ec data)"

definition OntData :: entity_class where
  "OntData = \<lparr>
    ec_name = ''OntData'', class_id = 2,
    attributes = [
      ECA (ofld ShortField ''managed_entity_id'' NoneV) [R] False,
      ECA (ofld ByteField ''mib_data_sync'' (IntV 0)) [R, W] False],
    mandatory_operations = [OP_Get, OP_Set, OP_GetAllAlarms, OP_GetAllAlarmsNext, OP_MibReset, OP_MibUpload, OP_MibUploadNext],
    optional_operations = []\<rparr>"

definition Cardholder :: entity_class where
  "Cardholder = \<lparr>
    ec_name = ''Cardholder'', class_id = 5,
    attributes = [
      ECA (ofld ShortField ''managed_entity_id'' NoneV) [R] False,
      ECA (ofld ByteField ''actual_plugin_unit_type'' NoneV) [R] False,
      ECA (ofld ByteField ''expected_plugin_unit_type'' NoneV) [R, W] False,
      ECA (ofld ByteField ''expected_port_count'' NoneV) [R, W] True,
      ECA (ofld (StrFixedLenField 20) ''expected_equipment_id'' NoneV) [R, W] True,
      ECA (ofld (StrFixedLenField 20) ''actual_equipment_id'' NoneV) [R] True,
      ECA (ofld ByteField ''protection_profile_pointer'' NoneV) [R] True,
      ECA (ofld ByteField ''invoke_protection_switch'' NoneV) [R, W] True,
      ECA (ofld ByteField ''arc'' NoneV) [R, W] False,
      ECA (ofld ByteField ''arc_interval'' NoneV) [R, W] False],
    mandatory_operations = [OP_Get, OP_Set],
    optional_operations = []\<rparr>"

definition CircuitPack :: entity_class where
  "CircuitPack = \<lparr>
    ec_name = ''CircuitPack'', class_id = 6,
    attributes = [
      ECA (ofld (StrFixedLenField 22) ''managed_entity_id'' NoneV) [R, SBC] False,
      ECA (ofld ByteField ''type'' NoneV) [R, SBC] False,
      ECA (ofld ByteField ''number_of_ports'' NoneV) [R] True,
      ECA (ofld (StrFixedLenField 8) ''serial_number'' NoneV) [R] False,
      ECA (ofld (StrFixedLenField 14) ''version'' NoneV) [R] False,
      ECA (ofld (StrFixedLenField 4) ''vendor_id'' NoneV) [R] False,
      ECA (ofld ByteField ''administrative_state'' NoneV) [R, W, SBC] False,
      ECA (ofld ByteField ''operational_state'' NoneV) [R] True,
      ECA (ofld ByteField ''bridged_or_ip_ind'' NoneV) [R, W] True,
      ECA (ofld (StrFixedLenField 20) ''equipment_id'' NoneV) [R] True,
      ECA (ofld ByteField ''card_configuration'' NoneV) [R, W, SBC] False,
      ECA (ofld ByteField ''total_tcont_buffer_number'' NoneV) [R] False,
      ECA (ofld ByteField ''total_priority_queue_number'' NoneV) [R] False,
      ECA (ofld ByteField ''total_traffic_scheduler_number'' NoneV) [R] False,
      ECA (ofld IntField ''power_sched_override'' NoneV) [R, W] True],
    mandatory_operations = [OP_Get, OP_Set, OP_Reboot],
    optional_operations = [OP_Create, OP_Delete, OP_Test]\<rparr>"

definition SoftwareImage :: entity_class where
  "SoftwareImage = \<lparr>
    ec_name = ''SoftwareImage'', class_id = 7,
    attributes = [
      ECA (ofld ShortField ''managed_entity_id'' NoneV) [R] False,
      ECA (ofld (StrFixedLenField 14) ''version'' NoneV) [R] False,
      ECA (ofld ByteField ''is_committed'' NoneV) [R] False,
      ECA (ofld ByteField ''is_active'' NoneV) [R] False,
      ECA (ofld ByteField ''is_valid'' NoneV) [R] False],
    mandatory_operations = [OP_Get],
    optional_operations = []\<rparr>"

definition MacBridgeServiceProfile :: entity_class where
  "MacBridgeServiceProfile = \<lparr>
    ec_name = ''MacBridgeServiceProfile'', class_id = 45,
    attributes = [
      ECA (ofld ShortField ''managed_entity_id'' NoneV) [R, SBC] False,
      ECA (ofld ByteField ''spanning_tree_ind'' (IntV 0)) [R, W, SBC] False,
      ECA (ofld ByteField ''learning_ind'' (IntV 0)) [R, W, SBC] False,
      ECA (ofld ByteField ''port_bridging_ind'' (IntV 0)) [R, W, SBC] False,
      ECA (ofld ShortField ''priority'' NoneV) [R, W, SBC] False,
      ECA (ofld ShortField ''max_age'' NoneV) [R, W, SBC] False,
      ECA (ofld ShortField ''hello_time'' NoneV) [R, W, SBC] False,
      ECA (ofld ShortField ''forward_delay'' NoneV) [R, W, SBC] False,
      ECA (ofld ByteField ''unknown_mac_address_discard'' (IntV 0)) [R, W, SBC] False,
      ECA (ofld ByteField ''mac_learning_depth'' (IntV 0)) [R, W, SBC] True],
    mandatory_operations = [OP_Create, OP_Delete, OP_Get, OP_Set],
    optional_operations = []\<rparr>"

definition MacBridgePortConfigurationData :: entity_class where
  "MacBridgePortConfigurationData = \<lparr>
    ec_name = ''MacBridgePortConfigurationData'', class_id = 47,
    attributes = [
      ECA (ofld ShortField ''managed_entity_id'' NoneV) [R, SBC] False,
      ECA (ofld ShortField ''bridge_id_pointer'' NoneV) [R, W, SBC] False,
      ECA (ofld ByteField ''port_num'' NoneV) [R, W, SBC] False,
      ECA (ofld ByteField ''tp_type'' NoneV) [R, W, SBC] False,
      ECA (ofld ShortField ''tp_pointer'' NoneV) [R, W, SBC] False,
      ECA (ofld ShortField ''port_priority'' NoneV) [R, W, SBC] False,
      ECA (ofld ShortField ''port_path_cost'' NoneV) [R, W, SBC] False,
      ECA (ofld ByteField ''port_spanning_tree_in'' NoneV) [R, W, SBC] False,
      ECA (ofld ByteField ''encapsulation_methods'' NoneV) [R, W, SBC] True,
      ECA (ofld ByteField ''lan_fcs_ind'' NoneV) [R, W, SBC] True,
      ECA (ofld MACField ''port_mac_address'' NoneV) [R] True,
      ECA (ofld ShortField ''outbound_td_pointer'' NoneV) [R, W] True,
      ECA (ofld ShortField ''inbound_td_pointer'' NoneV) [R, W] True],
    mandatory_operations = [OP_Create, OP_Delete, OP_Get, OP_Set],
    optional_operations = []\<rparr>"

definition VlanTaggingFilterData :: entity_class where
  "VlanTaggingFilterData = \<lparr>
    ec_name = ''VlanTaggingFilterData'', class_id = 84,
    attributes = [
      ECA (ofld ShortField ''managed_entity_id'' NoneV) [R, SBC] False,
      ECA (ofld ShortField ''vlan_filter_0'' NoneV) [R, W, SBC] False,
      ECA (ofld ShortField ''vlan_filter_1'' NoneV) [R, W, SBC] False,
      ECA (ofld ShortField ''vlan_filter_2'' NoneV) [R, W, SBC] False,
      ECA (ofld ShortField ''vlan_filter_3'' NoneV) [R, W, SBC] False,
      ECA (ofld ShortField ''vlan_filter_4'' NoneV) [R, W, SBC] False,
      ECA (ofld ShortField ''vlan_filter_5'' NoneV) [R, W, SBC] False,
      ECA (ofld ShortField ''vlan_filter_6'' NoneV) [R, W, SBC] False,
      ECA (ofld ShortField ''vlan_filter_7'' NoneV) [R, W, SBC] False,
      ECA (ofld ShortField ''vlan_filter_8'' NoneV) [R, W, SBC] False,
      ECA (ofld ShortField ''vlan_filter_9'' NoneV) [R, W, SBC] False,
      ECA (ofld ShortField ''vlan_filter_10'' NoneV) [R, W, SBC] False,
      ECA (ofld ShortField ''vlan_filter_11'' NoneV) [R, W, SBC] False,
      ECA (ofld ByteField ''forward_operation'' NoneV) [R, W, SBC] False,
      ECA (ofld ByteField ''number_of_entries'' NoneV) [R, W, SBC] False],
    mandatory_operations = [OP_Create, OP_Delete, OP_Get, OP_Set],
    optional_operations = []\<rparr>"

definition Ieee8021pMapperServiceProfile :: entity_class where
  "Ieee8021pMapperServiceProfile = \<lparr>
    ec_name = ''Ieee8021pMapperServiceProfile'', class_id = 130,
    attributes = [
      ECA (ofld ShortField ''managed_entity_id'' NoneV) [R, SBC] False,
      ECA (ofld ShortField ''tp_pointer'' OmciNullPointer) [R, W, SBC] False,
      ECA (ofld ShortField ''interwork_tp_pointer_for_p_bit_priority_0'' OmciNullPointer) [R, W, SBC] False,
      ECA (ofld ShortField ''interwork_tp_pointer_for_p_bit_priority_1'' OmciNullPointer) [R, W, SBC] False,
      ECA (ofld ShortField ''interwork_tp_pointer_for_p_bit_priority_2'' OmciNullPointer) [R, W, SBC] False,
      ECA (ofld ShortField ''interwork_tp_pointer_for_p_bit_priority_3'' OmciNullPointer) [R, W, SBC] False,
      ECA (ofld ShortField ''interwork_tp_pointer_for_p_bit_priority_4'' OmciNullPointer) [R, W, SBC] False,
      ECA (ofld ShortField ''interwork_tp_pointer_for_p_bit_priority_5'' OmciNullPointer) [R, W, SBC] False,
      ECA (ofld ShortField ''interwork_tp_pointer_for_p_bit_priority_6'' OmciNullPointer) [R, W, SBC] False,
      ECA (ofld ShortField ''interwork_tp_pointer_for_p_bit_priority_7'' OmciNullPointer) [R, W, SBC] False,
      ECA (ofld ByteField ''unmarked_frame_option'' NoneV) [R, W, SBC] False,
      ECA (ofld (StrFixedLenField 24) ''dscp_to_p_bit_mapping'' NoneV) [R, W] False,
      ECA (ofld ByteField ''default_p_bit_marking'' NoneV) [R, W, SBC] False,
      ECA (ofld ByteField ''tp_type'' NoneV) [R, W, SBC] True],
    mandatory_operations = [OP_Create, OP_Delete, OP_Get, OP_Set],
    optional_operations = []\<rparr>"

definition OltG :: entity_class where
  "OltG = \<lparr>
    ec_name = ''OltG'', class_id = 131,
    attributes = [
      ECA (ofld ShortField ''managed_entity_id'' NoneV) [R] False,
      ECA (ofld (StrFixedLenField 4) ''olt_vendor_id'' NoneV) [R, W] False,
      ECA (ofld (StrFixedLenField 20) ''equipment_id'' NoneV) [R, W] False,
      ECA (ofld (StrFixedLenField 14) ''version'' NoneV) [R, W] False,
      ECA (ofld (StrFixedLenField 14) ''time_of_day'' NoneV) [R, W] False],
    mandatory_operations = [OP_Get, OP_Set],
    optional_operations = []\<rparr>"

definition OntPowerShedding :: entity_class where
  "OntPowerShedding = \<lparr>
    ec_name = ''OntPowerShedding'', class_id = 133,
    attributes = [
      ECA (ofld ShortField ''managed_entity_id'' NoneV) [R] False,
      ECA (ofld ShortField ''restore_power_time_reset_interval'' NoneV) [R, W] False,
      ECA (ofld ShortField ''data_class_shedding_interval'' NoneV) [R, W] False,
      ECA (ofld ShortField ''voice_class_shedding_interval'' NoneV) [R, W] False,
      ECA (ofld ShortField ''video_overlay_class_shedding_interval'' NoneV) [R, W] False,
      ECA (ofld ShortField ''video_return_class_shedding_interval'' NoneV) [R, W] False,
      ECA (ofld ShortField ''dsl_class_shedding_interval'' NoneV) [R, W] False,
      ECA (ofld ShortField ''atm_class_shedding_interval'' NoneV) [R, W] False,
      ECA (ofld ShortField ''ces_class_shedding_interval'' NoneV) [R, W] False,
      ECA (ofld ShortField ''frame_class_shedding_interval'' NoneV) [R, W] False,
      ECA (ofld ShortField ''sonet_class_shedding_interval'' NoneV) [R, W] False,
      ECA (ofld ShortField ''shedding_status'' NoneV) [R, W] False],
    mandatory_operations = [OP_Get, OP_Set],
    optional_operations = []\<rparr>"

definition IpHostConfigData :: entity_class where
  "IpHostConfigData = \<lparr>
    ec_name = ''IpHostConfigData'', class_id = 134,
    attributes = [
      ECA (ofld ShortField ''managed_entity_id'' NoneV) [R] False,
      ECA (ofld ByteField ''ip_options'' NoneV) [R, W] False,
      ECA (ofld MACField ''mac_address'' NoneV) [R] False,
      ECA (ofld (StrFixedLenField 25) ''ont_identifier'' NoneV) [R, W] False,
      ECA (ofld IPField ''ip_address'' NoneV) [R, W] False,
      ECA (ofld IPField ''mask'' NoneV) [R, W] False,
      ECA (ofld IPField ''gateway'' NoneV) [R, W] False,
      ECA (ofld IPField ''primary_dns'' NoneV) [R, W] False,
      ECA (ofld IPField ''secondary_dns'' NoneV) [R, W] False,
      ECA (ofld IPField ''current_address'' NoneV) [R] False,
      ECA (ofld IPField ''current_mask'' NoneV) [R] False,
      ECA (ofld IPField ''current_gateway'' NoneV) [R] False,
      ECA (ofld IPField ''current_primary_dns'' NoneV) [R] False,
      ECA (ofld IPField ''current_secondary_dns'' NoneV) [R] False,
      ECA (ofld (StrFixedLenField 25) ''domain_name'' NoneV) [R] False,
      ECA (ofld (StrFixedLenField 25) ''host_name'' NoneV) [R] False],
    mandatory_operations = [OP_Get, OP_Set, OP_Test],
    optional_operations = []\<rparr>"

definition ExtendedVlanTaggingOperationConfigurationData :: entity_class where
  "ExtendedVlanTaggingOperationConfigurationData = \<lparr>
    ec_name = ''ExtendedVlanTaggingOperationConfigurationData'', class_id = 171,
    attributes = [
      ECA (ofld ShortField ''managed_entity_id'' NoneV) [R, SBC] False,
      ECA (ofld ByteField ''association_type'' NoneV) [R, W, SBC] False,
      ECA (ofld ShortField ''received_vlan_tagging_operation_table_max_size'' NoneV) [R] False,
      ECA (ofld ShortField ''input_tpid'' NoneV) [R, W] False,
      ECA (ofld ShortField ''output_tpid'' NoneV) [R, W] False,
      ECA (ofld ByteField ''downstream_mode'' NoneV) [R, W] False,
      ECA (ofld (StrFixedLenField 16) ''received_frame_vlan_tagging_operation_table'' NoneV) [R, W] False,
      ECA (ofld ShortField ''associated_me_pointer'' NoneV) [R, W, SBC] False],
    mandatory_operations = [OP_Create, OP_Delete, OP_Set, OP_Get, OP_GetNext],
    optional_operations = []\<rparr>"

definition OntG :: entity_class where
  "OntG = \<lparr>
    ec_name = ''OntG'', class_id = 256,
    attributes = [
      ECA (ofld ShortField ''managed_entity_id'' NoneV) [R] False,
      ECA (ofld (StrFixedLenField 4) ''vendor_id'' NoneV) [R] False,
      ECA (ofld (StrFixedLenField 14) ''version'' NoneV) [R] False,
      ECA (ofld (StrFixedLenField 8) ''serial_number'' NoneV) [R] False,
      ECA (ofld ByteField ''traffic_management_options'' NoneV) [R] False,
      ECA (ofld ByteField ''vp_vc_cross_connection_option'' NoneV) [R] True,
      ECA (ofld ByteField ''administrative_state'' NoneV) [R, W] False,
      ECA (ofld ByteField ''operational_state'' NoneV) [R] True,
      ECA (ofld ByteField ''ont_survival_time'' NoneV) [R] False],
    mandatory_operations = [OP_Get, OP_Set, OP_Reboot, OP_Test, OP_SynchronizeTime],
    optional_operations = []\<rparr>"

definition Ont2G :: entity_class where
  "Ont2G = \<lparr>
    ec_name = ''Ont2G'', class_id = 257,
    attributes = [
      ECA (ofld ShortField ''managed_entity_id'' NoneV) [R] False,
      ECA (ofld (StrFixedLenField 20) ''equipment_id'' NoneV) [R] False,
      ECA (ofld ByteField ''omcc_version'' NoneV) [R] False,
      ECA (ofld ShortField ''vendor_product_code'' NoneV) [R] True,
      ECA (ofld ByteField ''security_capability'' NoneV) [R] False,
      ECA (ofld ByteField ''security_mode'' NoneV) [R, W] False,
      ECA (ofld ShortField ''total_priority_queue_number'' NoneV) [R] False,
      ECA (ofld ByteField ''total_traffic_scheduler_number'' NoneV) [R] False,
      ECA (ofld ByteField ''mode'' NoneV) [R] False,
      ECA (ofld ShortField ''total_gem_port_id_number'' NoneV) [R] True,
      ECA (ofld IntField ''sys_uptime'' NoneV) [R] True],
    mandatory_operations = [OP_Get, OP_Set],
    optional_operations = []\<rparr>"

definition Tcont :: entity_class where
  "Tcont = \<lparr>
    ec_name = ''Tcont'', class_id = 262,
    attributes = [
      ECA (ofld ShortField ''managed_entity_id'' NoneV) [R] False,
      ECA (ofld ShortField ''alloc_id'' (IntV 255)) [R, W] False,
      ECA (ofld ByteField ''mode_indicator'' (IntV 1)) [R] False,
      ECA (ofld ByteField ''policy'' NoneV) [R, W] False],
    mandatory_operations = [OP_Get, OP_Set],
    optional_operations = []\<rparr>"

definition AniG :: entity_class where
  "AniG = \<lparr>
    ec_name = ''AniG'', class_id = 263,
    attributes = [
      ECA (ofld ShortField ''managed_entity_id'' NoneV) [R] False,
      ECA (ofld ByteField ''sr_indication'' NoneV) [R] False,
      ECA (ofld ShortField ''total_tcont_number'' NoneV) [R] False,
      ECA (ofld ShortField ''gem_block_length'' NoneV) [R, W] False,
      ECA (ofld ByteField ''piggyback_dba_reporting'' NoneV) [R] False,
      ECA (ofld ByteField ''whole_ont_dba_reporting'' NoneV) [R] False,
      ECA (ofld ByteField ''sf_threshold'' NoneV) [R, W] False,
      ECA (ofld ByteField ''sd_threshold'' NoneV) [R, W] False,
      ECA (ofld ByteField ''arc'' NoneV) [R, W] False,
      ECA (ofld ByteField ''arc_interval'' NoneV) [R, W] False,
      ECA (ofld ShortField ''optical_signal_level'' NoneV) [R] False,
      ECA (ofld ByteField ''lower_optical_threshold'' NoneV) [R, W] True,
      ECA (ofld ByteField ''upper_optical_threshold'' NoneV) [R, W] True,
      ECA (ofld ByteField ''ont_response_time'' NoneV) [R] True,
      ECA (ofld ShortField ''transmit_optical_level'' NoneV) [R] True,
      ECA (ofld ByteField ''lower_transmit_power_threshold'' NoneV) [R, W] True,
      ECA (ofld ByteField ''upper_transmit_power_threshold'' NoneV) [R, W] True],
    mandatory_operations = [OP_Get, OP_Set, OP_Test],
    optional_operations = []\<rparr>"

definition UniG :: entity_class where
  "UniG = \<lparr>
    ec_name = ''UniG'', class_id = 264,
    attributes = [
      ECA (ofld ShortField ''managed_entity_id'' NoneV) [R] False,
      ECA (ofld ShortField ''configuration_option_status'' NoneV) [R, W] False,
      ECA (ofld ByteField ''administrative_state'' NoneV) [R, W] False],
    mandatory_operations = [OP_Get, OP_Set],
    optional_operations = []\<rparr>"

definition GemInterworkingTp :: entity_class where
  "GemInterworkingTp = \<lparr>
    ec_name = ''GemInterworkingTp'', class_id = 266,
    attributes = [
      ECA (ofld ShortField ''managed_entity_id'' NoneV) [R, SBC] False,
      ECA (ofld ShortField ''gem_port_network_ctp_pointer'' NoneV) [R, W, SBC] False,
      ECA (ofld ByteField ''interworking_option'' NoneV) [R, W, SBC] False,
      ECA (ofld ShortField ''service_profile_pointer'' NoneV) [R, W, SBC] False,
      ECA (ofld ShortField ''interworking_tp_pointer'' NoneV) [R, W, SBC] False,
      ECA (ofld ByteField ''pptp_counter'' NoneV) [R] True,
      ECA (ofld ByteField ''operational_state'' NoneV) [R] True,
      ECA (ofld ShortField ''gal_profile_pointer'' NoneV) [R, W, SBC] False,
      ECA (ofld ByteField ''gal_loopback_configuration'' NoneV) [R, W] False],
    mandatory_operations = [],
    optional_operations = []\<rparr>"

definition GemPortNetworkCtp :: entity_class where
  "GemPortNetworkCtp = \<lparr>
    ec_name = ''GemPortNetworkCtp'', class_id = 268,
    attributes = [
      ECA (ofld ShortField ''managed_entity_id'' NoneV) [R, SBC] False,
      ECA (ofld ShortField ''port_id'' NoneV) [R, W, SBC] False,
      ECA (ofld ShortField ''tcont_pointer'' NoneV) [R, W, SBC] False,
      ECA (ofld ByteField ''direction'' NoneV) [R, W, SBC] False,
      ECA (ofld ShortField ''traffic_management_pointer_upstream'' NoneV) [R, W, SBC] False,
      ECA (ofld ShortField ''traffic_descriptor_profile_pointer'' NoneV) [R, W, SBC] True,
      ECA (ofld ByteField ''uni_counter'' NoneV) [R] True,
      ECA (ofld ShortField ''priority_queue_pointer_downstream'' NoneV) [R, W, SBC] False,
      ECA (ofld ByteField ''encryption_state'' NoneV) [R] True],
    mandatory_operations = [OP_Create, OP_Delete, OP_Get, OP_Set],
    optional_operations = []\<rparr>"

definition GalEthernetProfile :: entity_class where
  "GalEthernetProfile = \<lparr>
    ec_name = ''GalEthernetProfile'', class_id = 272,
    attributes = [
      ECA (ofld ShortField ''managed_entity_id'' NoneV) [R, SBC] False,
      ECA (ofld ShortField ''max_gem_payload_size'' NoneV) [R, W, SBC] False],
    mandatory_operations = [OP_Create, OP_Delete, OP_Get, OP_Set],
    optional_operations = []\<rparr>"

definition PriorityQueueG :: entity_class where
  "PriorityQueueG = \<lparr>
    ec_name = ''PriorityQueueG'', class_id = 277,
    attributes = [
      ECA (ofld ShortField ''managed_entity_id'' NoneV) [R] False,
      ECA (ofld ByteField ''queue_configuration_option'' NoneV) [R] False,
      ECA (ofld ShortField ''maximum_queue_size'' NoneV) [R] False,
      ECA (ofld ShortField ''allocated_queue_size'' NoneV) [R, W] False,
      ECA (ofld ShortField ''discard_block_countter_reset_interval'' NoneV) [R, W] False,
      ECA (ofld ShortField ''threshold_value_for_discarded_blocks'' NoneV) [R, W] False,
      ECA (ofld IntField ''related_port'' NoneV) [R] False,
      ECA (ofld ShortField ''traffic_scheduler_g_pointer'' NoneV) [R, W] False,
      ECA (ofld ByteField ''weight'' NoneV) [R, W] False,
      ECA (ofld ShortField ''back_pressure_operation'' NoneV) [R, W] False,
      ECA (ofld IntField ''back_pressure_time'' NoneV) [R, W] False,
      ECA (ofld ShortField ''back_pressure_occur_queue_threshold'' NoneV) [R, W] False,
      ECA (ofld ShortField ''back_pressure_clear_queue_threshold'' NoneV) [R, W] False],
    mandatory_operations = [OP_Get, OP_Set],
    optional_operations = []\<rparr>"

definition TrafficSchedulerG :: entity_class where
  "TrafficSchedulerG = \<lparr>
    ec_name = ''TrafficSchedulerG'', class_id = 278,
    attributes = [
      ECA (ofld ShortField ''managed_entity_id'' NoneV) [R] False,
      ECA (ofld ShortField ''tcont_pointer'' NoneV) [R] False,
      ECA (ofld ShortField ''traffic_scheduler_pointer'' NoneV) [R] False,
      ECA (ofld ByteField ''policy'' NoneV) [R] False,
      ECA (ofld ByteField ''priority_weight'' NoneV) [R] False],
    mandatory_operations = [OP_Get, OP_Set],
    optional_operations = []\<rparr>"

definition MulticastGemInterworkingTp :: entity_class where
  "MulticastGemInterworkingTp = \<lparr>
    ec_name = ''MulticastGemInterworkingTp'', class_id = 281,
    attributes = [
      ECA (ofld ShortField ''managed_entity_id'' NoneV) [R, SBC] False,
      ECA (ofld ShortField ''gem_port_network_ctp_pointer'' NoneV) [R, SBC] False,
      ECA (ofld ByteField ''interworking_option'' NoneV) [R, SBC] False,
      ECA (ofld ShortField ''service_profile_pointer'' NoneV) [R, SBC] False,
      ECA (ofld ShortField ''interworking_tp_pointer'' (IntV 0)) [R, SBC] False,
      ECA (ofld ByteField ''pptp_counter'' NoneV) [R] True,
      ECA (ofld ByteField ''operational_state'' NoneV) [R] True,
      ECA (ofld ShortField ''gal_profile_pointer'' NoneV) [R, W, SBC] False,
      ECA (ofld ByteField ''gal_loopback_configuration'' NoneV) [R, W, SBC] False],
    mandatory_operations = [OP_Create, OP_Delete, OP_Get, OP_GetNext, OP_Set],
    optional_operations = []\<rparr>"

definition Unknown329 :: entity_class where
  "Unknown329 = \<lparr>
    ec_name = ''Unknown329'', class_id = 329,
    attributes = [],
    mandatory_operations = [],
    optional_operations = []\<rparr>"

definition Unknown332 :: entity_class where
  "Unknown332 = \<lparr>
    ec_name = ''Unknown332'', class_id = 332,
    attributes = [],
    mandatory_operations = [],
    optional_operations = []\<rparr>"

definition Unknown347 :: entity_class where
  "Unknown347 = \<lparr>
    ec_name = ''Unknown347'', class_id = 347,
    attributes = [],
    mandatory_operations = [],
    optional_operations = []\<rparr>"

text \<open>
  \<^verbatim>\<open>entity_classes\<close> is a list of the values of a dictionary, whose order Python does
  not fix; \<open>entity_map_order\<close> below shows that the order does not matter.
\<close>

definition entity_classes :: "entity_class list" where
  "entity_classes =
     [AniG, Cardholder, CircuitPack, ExtendedVlanTaggingOperationConfigurationData,
      GalEthernetProfile, GemInterworkingTp, GemPortNetworkCtp, Ieee8021pMapperServiceProfile,
      IpHostConfigData, MacBridgePortConfigurationData, MacBridgeServiceProfile,
      MulticastGemInterworkingTp, OltG, Ont2G, OntData, OntG, OntPowerShedding,
      PriorityQueueG, SoftwareImage, Tcont, TrafficSchedulerG, UniG, Unknown329, Unknown332,
      Unknown347, VlanTaggingFilterData]"

definition entity_id_to_class_map :: "(int, entity_class) od" where
  "entity_id_to_class_map = od_of (map (\<lambda>c. (class_id c, c)) entity_classes) []"


section \<open>The data fields of a message\<close>

text \<open>
  \<^verbatim>\<open>OmciData\<close> carries the attributes set by a create request and
  \<^verbatim>\<open>OmciMaskedData\<close> those a mask selects.  Encoding looks the class up with
  \<^verbatim>\<open>dict.get\<close>, so an unknown class is an attribute error on \<^verbatim>\<open>None\<close>; decoding
  masked data raises a key error instead.
\<close>

definition set_by_create :: "entity_class \<Rightarrow> EntityClassAttribute list" where
  "set_by_create ec =
     filter (\<lambda>a. SBC \<in> set (eca_access a) \<and> fld_name (eca_fld a) \<noteq> ''managed_entity_id'')
       (attributes ec)"

text \<open>\<^verbatim>\<open>val.get(name, default)\<close> and \<^verbatim>\<open>val[name]\<close>.\<close>

fun val_get :: "fval \<Rightarrow> string \<Rightarrow> fval \<Rightarrow> fval res" where
  "val_get (DictV d) name dflt = Inr (case od_get name d of None \<Rightarrow> dflt | Some v \<Rightarrow> v)"
| "val_get _ name dflt = Inl AttributeError"

fun val_item :: "fval \<Rightarrow> string \<Rightarrow> fval res" where
  "val_item (DictV d) name = dict_lookup name d"
| "val_item _ name = Inl TypeError"

definition OmciData_addfield ::
    "addfield \<Rightarrow> int \<Rightarrow> bytes \<Rightarrow> fval \<Rightarrow> bytes res" where
  "OmciData_addfield add cid s val =
     (case od_get cid entity_id_to_class_map of
        None \<Rightarrow> Inl AttributeError
      | Some ec \<Rightarrow>
          py_for (\<lambda>a s.
              rbind (val_get val (fld_name (eca_fld a)) (fld_default (eca_fld a))) (add (eca_fld a) s))
            (set_by_create ec) s)"

definition OmciData_getfield ::
    "getfield \<Rightarrow> int \<Rightarrow> bytes \<Rightarrow> (bytes \<times> (string, fval) od) res" where
  "OmciData_getfield get cid s =
     (case od_get cid entity_id_to_class_map of
        None \<Rightarrow> Inl AttributeError
      | Some ec \<Rightarrow>
          py_for (\<lambda>a (s, data).
              rbind (get (eca_fld a) s) (\<lambda>(s, v). Inr (s, od_set (fld_name (eca_fld a)) v data)))
            (set_by_create ec) (s, []))"

definition OmciMaskedData_addfield ::
    "addfield \<Rightarrow> int \<Rightarrow> int \<Rightarrow> bytes \<Rightarrow> fval \<Rightarrow> bytes res" where
  "OmciMaskedData_addfield add cid msk s val =
     (case od_get cid entity_id_to_class_map of
        None \<Rightarrow> Inl AttributeError
      | Some ec \<Rightarrow>
          rbind (attribute_indices_from_mask msk) (\<lambda>indices.
            py_for (\<lambda>index s.
              rbind (py_index (attributes ec) index) (\<lambda>a.
              rbind (val_item val (fld_name (eca_fld a))) (add (eca_fld a) s))) indices s))"

definition OmciMaskedData_getfield ::
    "getfield \<Rightarrow> int \<Rightarrow> int \<Rightarrow> bytes \<Rightarrow> (bytes \<times> (string, fval) od) res" where
  "OmciMaskedData_getfield get cid msk s =
     (case od_get cid entity_id_to_class_map of
        None \<Rightarrow> Inl KeyError
      | Some ec \<Rightarrow>
          rbind (attribute_indices_from_mask msk) (\<lambda>indices.
            py_for (\<lambda>index (s, data).
              case py_index (attributes ec) index of
                Inl e \<Rightarrow> Inr (s, data)
              | Inr a \<Rightarrow>
                  rbind (get (eca_fld a) s) (\<lambda>(s, v).
                  Inr (s, od_set (fld_name (eca_fld a)) v data))) indices (s, [])))"



section \<open>Masks\<close>

lemma bitpos_loop_closed:
  "0 \<le> m \<Longrightarrow> m < 2 ^ n \<Longrightarrow>
   bitpos_loop m l inc out =
     Some (out @ map (\<lambda>k. l + inc * int k) (filter (bit m) [0..<n]))"
proof (induction n arbitrary: m l out)
  case 0
  then show ?case by (simp add: bitpos_loop.simps)
next
  case (Suc n)
  have bits: "filter (bit m) [0..<Suc n] =
      (if m AND 1 \<noteq> 0 then [0] else []) @ map Suc (filter (bit (drop_bit 1 m)) [0..<n])"
  proof -
    have "[0..<Suc n] = 0 # map Suc [0..<n]" by (metis map_Suc_upt upt_conv_Cons zero_less_Suc)
    then show ?thesis
      by (auto simp: filter_map comp_def bit_0 and_one_eq odd_iff_mod_2_eq_one bit_drop_bit_eq
          simp flip: bit_Suc)
  qed
  show ?case
  proof (cases "m = 0")
    case True
    then show ?thesis by (simp add: bitpos_loop.simps)
  next
    case False
    have "0 \<le> drop_bit 1 m" "drop_bit 1 m < 2 ^ n"
      using Suc.prems by (simp_all add: drop_bit_eq_div)
    from Suc.IH [OF this] False show ?thesis
      by (subst bitpos_loop.simps) (simp add: bits comp_def algebra_simps del: upt_Suc)
  qed
qed

lemma bitpos_loop_nonneg: "bitpos_loop m l inc out = Some r \<Longrightarrow> 0 \<le> m"
  by (erule bitpos_loop.raw_induct [rotated, where P = "\<lambda>m l inc out r. 0 \<le> m"])
    (force simp: drop_bit_nonnegative_int_iff split: if_splits)

lemma bitpos_from_mask_returns:
  "bitpos_from_mask m l inc \<noteq> None \<longleftrightarrow> 0 \<le> m"
proof
  assume "0 \<le> m"
  then obtain n :: nat where "m < 2 ^ n" 
    by (metis int_nat_eq less_exp of_nat_less_iff of_nat_numeral of_nat_power)
  with \<open>0 \<le> m\<close> show "bitpos_from_mask m l inc \<noteq> None"
    by (simp add: bitpos_from_mask_def bitpos_loop_closed)
next
  show "bitpos_from_mask m l inc \<noteq> None \<Longrightarrow> 0 \<le> m"
    by (auto simp: bitpos_from_mask_def dest: bitpos_loop_nonneg)
qed

lemma rev_upt_shift: "rev [0..<n] = map (\<lambda>i. n - i) [1..<Suc n]"
proof (rule nth_equalityI)
  fix i
  assume "i < length (rev [0..<n])"
  then have i: "i < n" by simp
  then have "rev [0..<n] ! i = n - Suc i" by (simp add: rev_nth)
  moreover have "map (\<lambda>i. n - i) [1..<Suc n] ! i = n - Suc i" using i by (simp del: upt_Suc)
  ultimately show "rev [0..<n] ! i = map (\<lambda>i. n - i) [1..<Suc n] ! i" by simp
qed simp

lemma bitpos_from_mask_down:
  assumes "0 \<le> m" and "m < 2 ^ n"
  shows "bitpos_from_mask m (int b + int n) (- 1) =
    Some (map (\<lambda>i. int (b + i)) (filter (\<lambda>i. bit m (n - i)) [1..<Suc n]))"
proof -
  let ?xs = "map (\<lambda>k. int b + int n - int k) (filter (bit m) [0..<n])"
  have "sorted (rev ?xs)"
    by (simp add: rev_map sorted_wrt_rev sorted_wrt_map rev_filter [symmetric] sorted_wrt_filter
        del: upt_Suc)
  then have "sort ?xs = rev ?xs"
    by (metis mset_rev properties_for_sort)
  also have "rev ?xs = map (\<lambda>i. int (b + i)) (filter (\<lambda>i. bit m (n - i)) [1..<Suc n])"
    unfolding rev_map rev_filter rev_upt_shift
    by (auto simp: filter_map comp_def simp del: upt_Suc intro!: map_cong)
  finally show ?thesis
    using bitpos_loop_closed [OF assms, of "int b + int n" "- 1" "[]"]
    by (simp add: bitpos_from_mask_def del: upt_Suc)
qed

lemma map_filter_Some: "(\<And>x. x \<in> set xs \<Longrightarrow> g x = Some (f x)) \<Longrightarrow> List.map_filter g xs = map f xs"
  by (induction xs) (auto simp: map_filter_simps)

lemma mask_table_get:
  assumes "0 \<le> m" and "m < 256"
  shows "dict_lookup m (mask_table (int b + 8)) =
    Inr (map (\<lambda>i. int (b + i)) (filter (\<lambda>i. bit m (8 - i)) [1..<9]))"
proof -
  let ?f = "\<lambda>m. map (\<lambda>i. int (b + i)) (filter (\<lambda>i. bit (m :: int) (8 - i)) [1..<9])"
  have eq: "mask_table (int b + 8) = map (\<lambda>m. (m, ?f m)) (map int [0..<256])"
    unfolding mask_table_def
    by (rule map_filter_Some) (use bitpos_from_mask_down [of _ 8 b] in auto)
  have "map_of (map (\<lambda>m. (m, ?f m)) ms) m = Some (?f m)" if "m \<in> set ms" for ms
    using that by (simp add: map_of_map_restrict)
  moreover have "m \<in> set (map int [0..<256])"
    using assms by (auto intro!: image_eqI [of _ _ "nat m"])
  ultimately show ?thesis
    unfolding eq dict_lookup_def od_get_def by (simp del: map_map)
qed

text \<open>The lookup tables compute what the mask says bit by bit.\<close>

lemma attribute_indices_from_mask_closed [code]:
  "attribute_indices_from_mask m =
     Inr (map int (filter (\<lambda>i. bit m (16 - i)) [1..<17]))"
proof -
  have low: "k AND 255 = take_bit 8 k" for k :: int
    by (simp add: take_bit_eq_mask mask_eq_exp_minus_1)
  have b: "bit (drop_bit 8 m AND 255) i = (i < 8 \<and> bit m (8 + i))"
      "bit (m AND 255) i = (i < 8 \<and> bit m i)" for i
    by (auto simp: low bit_take_bit_iff bit_drop_bit_eq)
  have r: "0 \<le> k AND 255" "k AND 255 < (256 :: int)" for k
    using take_bit_int_less_exp [of 8 k] by (simp_all add: low)
  have 1: "filter (\<lambda>i. bit (drop_bit 8 m AND 255) (8 - i)) [1..<9] = filter (\<lambda>i. bit m (16 - i)) [1..<9]"
    by (rule filter_cong) (auto simp: b)
  have 2: "map (\<lambda>i. int (8 + i)) (filter (\<lambda>i. bit (m AND 255) (8 - i)) [1..<9]) =
      map int (filter (\<lambda>i. bit m (16 - i)) [9..<17])"
  proof -
    have "filter (\<lambda>i. bit (m AND 255) (8 - i)) [1..<9] = filter (\<lambda>i. bit m (8 - i)) [1..<9]"
      by (rule filter_cong) (auto simp: b)
    moreover have "[9..<17] = map (\<lambda>i. 8 + i) [1..<9 :: nat]" by (simp add: upt_rec)
    ultimately show ?thesis by (simp add: filter_map comp_def)
  qed
  have 3: "[1..<17] = [1..<9] @ [9..<17 :: nat]" by (simp add: upt_rec)
  have t1: "dict_lookup (drop_bit 8 m AND 255) (mask_table 8) =
      Inr (map int (filter (\<lambda>i. bit (drop_bit 8 m AND 255) (8 - i)) [1..<9]))"
    using mask_table_get [OF r, of "drop_bit 8 m" 0] by simp
  have t2: "dict_lookup (m AND 255) (mask_table 16) =
      Inr (map (\<lambda>i. int (8 + i)) (filter (\<lambda>i. bit (m AND 255) (8 - i)) [1..<9]))"
    using mask_table_get [OF r, of m 8] by simp
  show ?thesis
    unfolding attribute_indices_from_mask_def byte1_mask_to_attr_indices_def
      byte2_mask_to_attr_indices_def t1 t2 rbind_simps 1 2 3
    by (simp only: filter_append map_append)
qed

section \<open>Attribute names\<close>

definition entity_class_ok :: "entity_class \<Rightarrow> bool" where
  "entity_class_ok ec \<longleftrightarrow>
     distinct (attr_names ec) \<and> length (attributes ec) \<le> 17 \<and>
     (attr_names ec \<noteq> [] \<longrightarrow> hd (attr_names ec) = ''managed_entity_id'')"

lemma entity_classes_ok: "list_all entity_class_ok entity_classes"
  by code_simp

lemma entity_ids_distinct: "distinct (map class_id entity_classes)"
  by code_simp

lemma entity_class_okI: "ec \<in> set entity_classes \<Longrightarrow> entity_class_ok ec"
  using entity_classes_ok by (simp add: list_all_iff)

lemma length_attr_names [simp]: "length (attr_names ec) = length (attributes ec)"
  by (simp add: attr_names_def)

lemma attribute_index:
  assumes "distinct (attr_names ec)"
  shows "od_get n (attribute_name_to_index_map ec) = Some i \<longleftrightarrow>
    i < length (attributes ec) \<and> attr_names ec ! i = n"
proof -
  have "attribute_name_to_index_map ec = zip (attr_names ec) [0..<length (attributes ec)]"
    unfolding attribute_name_to_index_map_def
    by (subst od_of_distinct) (simp_all add: assms)
  moreover have "distinct (map fst (zip (attr_names ec) [0..<length (attributes ec)]))"
    by (simp add: assms)
  ultimately show ?thesis
    by (auto simp: od_get_def in_set_zip)
qed

lemma attribute_index_ex:
  assumes "distinct (attr_names ec)" and "n \<in> set (attr_names ec)"
  shows "\<exists>i. od_get n (attribute_name_to_index_map ec) = Some i \<and>
    i < length (attributes ec) \<and> attr_names ec ! i = n"
  using assms by (auto simp: attribute_index in_set_conv_nth)

lemma entity_map_get:
  assumes "od_get cid entity_id_to_class_map = Some ec"
  shows "ec \<in> set entity_classes \<and> class_id ec = cid"
proof -
  have "distinct (map fst (map (\<lambda>c. (class_id c, c)) entity_classes))"
    using entity_ids_distinct by (simp add: comp_def)
  then have eq: "entity_id_to_class_map = map (\<lambda>c. (class_id c, c)) entity_classes"
    unfolding entity_id_to_class_map_def by (subst od_of_distinct) simp_all
  from od_get_mem [OF assms] show ?thesis unfolding eq by auto
qed

lemma entity_map_order:
  assumes "mset cs = mset entity_classes"
  shows "od_get cid (od_of (map (\<lambda>c. (class_id c, c)) cs) []) = od_get cid entity_id_to_class_map"
proof -
  have "distinct (map class_id cs)"
    using entity_ids_distinct assms by (metis mset_eq_imp_distinct_iff mset_map)
  then have d: "distinct (map fst (map (\<lambda>c. (class_id c, c)) cs))" by (simp add: comp_def)
  have e: "distinct (map fst (map (\<lambda>c. (class_id c, c)) entity_classes))"
    using entity_ids_distinct by (simp add: comp_def)
  have "set (map (\<lambda>c. (class_id c, c)) cs) = set (map (\<lambda>c. (class_id c, c)) entity_classes)"
    using mset_eq_setD [OF assms] by simp
  then show ?thesis
    unfolding entity_id_to_class_map_def
    using map_of_inject_set [OF d e] by (simp add: od_of_distinct [OF d] od_of_distinct [OF e] od_get_def)
qed

lemma mask_for_bits:
  assumes d: "distinct (attr_names ec)" and l: "length (attributes ec) \<le> 17"
    and "set names \<subseteq> set (attr_names ec)"
  shows "\<exists>m. mask_for ec names = Inr m \<and>
    (\<forall>k. bit m k \<longleftrightarrow> (\<exists>i < length (attributes ec). attr_names ec ! i \<in> set names \<and> k = 16 - i))"
proof -
  let ?f = "\<lambda>attr_name msk.
       case od_get attr_name (attribute_name_to_index_map ec) of
         None \<Rightarrow> Inl KeyError
       | Some index \<Rightarrow>
           if index > 16 then Inl ValueError
           else Inr (msk OR push_bit (16 - index) 1 :: int)"
  have "\<exists>m. py_for ?f names a = Inr m \<and>
      (\<forall>k. bit m k \<longleftrightarrow> bit a k \<or>
        (\<exists>i < length (attributes ec). attr_names ec ! i \<in> set names \<and> k = 16 - i))" for a
    using assms(3)
  proof (induction names arbitrary: a)
    case Nil
    then show ?case by simp
  next
    case (Cons n names)
    from attribute_index_ex [OF d, of n] Cons.prems obtain j where
      j: "od_get n (attribute_name_to_index_map ec) = Some j" "j < length (attributes ec)"
        "attr_names ec ! j = n" by auto
    have u: "i < length (attributes ec) \<and> attr_names ec ! i = n \<longleftrightarrow> i = j" for i
      using j(2,3) d by (metis nth_eq_iff_index_eq length_attr_names)
    have split: "(\<exists>i < length (attributes ec). attr_names ec ! i \<in> set (n # names) \<and> k = 16 - i) \<longleftrightarrow>
        k = 16 - j \<or> (\<exists>i < length (attributes ec). attr_names ec ! i \<in> set names \<and> k = 16 - i)" for k
      using u by (metis (no_types) set_ConsD list.set_intros)
    have "j \<le> 16" using j l by simp
    then have step: "?f n a = Inr (a OR push_bit (16 - j) 1)" using j(1) by simp
    have new: "bit (a OR push_bit (16 - j) 1) k \<longleftrightarrow> bit a k \<or> k = 16 - j" for k
      by (auto simp: bit_or_iff bit_push_bit_iff bit_1_iff bit_exp_iff)
    obtain m where m: "py_for ?f names (a OR push_bit (16 - j) 1) = Inr m"
      and bits: "\<And>k. bit m k \<longleftrightarrow> bit (a OR push_bit (16 - j) 1) k \<or>
        (\<exists>i < length (attributes ec). attr_names ec ! i \<in> set names \<and> k = 16 - i)"
      using Cons.IH [of "a OR push_bit (16 - j) 1"] Cons.prems by auto
    have "py_for ?f (n # names) a = Inr m" using step m by simp
    then show ?case unfolding split using bits new by blast
  qed
  from this [of 0] show ?thesis by (simp add: mask_for_def)
qed

definition named_indices :: "entity_class \<Rightarrow> string set \<Rightarrow> nat list" where
  "named_indices ec S = filter (\<lambda>i. attr_names ec ! i \<in> S) [0..<length (attributes ec)]"

lemma mask_bound_int:
  fixes m :: int
  assumes "\<And>k. bit m k \<Longrightarrow> k < n"
  shows "0 \<le> m \<and> m < 2 ^ n"
proof -
  have "m = take_bit n m"
    by (rule bit_eqI) (use assms in \<open>auto simp: bit_take_bit_iff\<close>)
  then show ?thesis by (metis take_bit_nonnegative take_bit_int_less_exp)
qed

lemma mask_for_indices:
  assumes ok: "entity_class_ok ec"
    and sub: "set names \<subseteq> set (attr_names ec) - {''managed_entity_id''}"
  obtains m where "mask_for ec names = Inr m" "0 \<le> m" "m < 2 ^ 16"
    "attribute_indices_from_mask m = Inr (map int (named_indices ec (set names)))"
proof -
  let ?n = "length (attributes ec)"
  have d: "distinct (attr_names ec)" and l: "?n \<le> 17" using ok by (auto simp: entity_class_ok_def)
  obtain m where m: "mask_for ec names = Inr m" and
    bits: "\<And>k. bit m k \<longleftrightarrow> (\<exists>i < ?n. attr_names ec ! i \<in> set names \<and> k = 16 - i)"
    using mask_for_bits [OF d l, of names] sub by auto
  have pos: "0 < i" if "i < ?n" "attr_names ec ! i \<in> set names" for i
    using that ok sub by (cases "i = 0") (auto simp: entity_class_ok_def hd_conv_nth)
  have "k < 16" if "bit m k" for k using that pos bits by fastforce
  then have range: "0 \<le> m" "m < 2 ^ 16" using mask_bound_int [of m 16] by auto
  have "filter (\<lambda>i. bit m (16 - i)) [1..<17] = named_indices ec (set names)"
  proof (rule sorted_distinct_set_unique)
    have "i \<in> set (filter (\<lambda>i. bit m (16 - i)) [1..<17]) \<longleftrightarrow> i \<in> set (named_indices ec (set names))" for i
    proof
      assume "i \<in> set (filter (\<lambda>i. bit m (16 - i)) [1..<17])"
      then obtain j where "j < ?n" "attr_names ec ! j \<in> set names" "16 - i = 16 - j" "i < 17"
        using bits by auto
      then have "i = j" using l by simp
      with \<open>j < ?n\<close> \<open>attr_names ec ! j \<in> set names\<close> show "i \<in> set (named_indices ec (set names))"
        by (simp add: named_indices_def)
    next
      assume "i \<in> set (named_indices ec (set names))"
      then have "i < ?n" "attr_names ec ! i \<in> set names" by (auto simp: named_indices_def)
      with pos bits l show "i \<in> set (filter (\<lambda>i. bit m (16 - i)) [1..<17])" by fastforce
    qed
    then show "set (filter (\<lambda>i. bit m (16 - i)) [1..<17]) = set (named_indices ec (set names))" by blast
  qed (auto simp: named_indices_def sorted_wrt_filter)
  then show ?thesis using that m range by (simp add: attribute_indices_from_mask_closed)
qed

lemma named_indices_names:
  "map (\<lambda>i. attr_names ec ! i) (named_indices ec S) = filter (\<lambda>n. n \<in> S) (attr_names ec)"
proof -
  have "attr_names ec = map (\<lambda>i. attr_names ec ! i) [0..<length (attributes ec)]"
    by (metis map_nth length_attr_names)
  then have "filter (\<lambda>n. n \<in> S) (attr_names ec) =
      filter (\<lambda>n. n \<in> S) (map (\<lambda>i. attr_names ec ! i) [0..<length (attributes ec)])" by simp
  then show ?thesis by (simp add: named_indices_def filter_map comp_def)
qed

lemma indices_from_data:
  assumes ok: "entity_class_ok ec" and "od_wf data" and "fst ` set data \<subseteq> set (attr_names ec)"
  shows "attribute_indices_from_data ec data = Inr (map int (named_indices ec (fst ` set data)))"
proof -
  let ?idx = "\<lambda>n. the (od_get n (attribute_name_to_index_map ec))"
  have d: "distinct (attr_names ec)" using ok by (simp add: entity_class_ok_def)
  have idx: "od_get n (attribute_name_to_index_map ec) = Some (?idx n)"
      "?idx n < length (attributes ec)" "attr_names ec ! ?idx n = n"
    if "n \<in> fst ` set data" for n
    using attribute_index_ex [OF d subsetD [OF assms(3) that]] by auto
  have "py_map (\<lambda>attr_name. case od_get attr_name (attribute_name_to_index_map ec) of
         None \<Rightarrow> Inl KeyError | Some index \<Rightarrow> Inr (int index)) (od_keys data) =
      Inr (map (\<lambda>n. int (?idx n)) (od_keys data))"
  proof (rule py_map_total)
    fix n assume "n \<in> set (od_keys data)"
    then have "od_get n (attribute_name_to_index_map ec) = Some (?idx n)"
      using idx(1) by (simp add: od_keys_def)
    then show "(case od_get n (attribute_name_to_index_map ec) of
        None \<Rightarrow> Inl KeyError | Some index \<Rightarrow> Inr (int index)) = Inr (int (?idx n))"
      by (metis option.simps(5))
  qed
  moreover have "sort (map (\<lambda>n. int (?idx n)) (od_keys data)) =
      map int (named_indices ec (fst ` set data))"
  proof (rule sorted_distinct_set_unique)
    have "inj_on (\<lambda>n. int (?idx n)) (fst ` set data)"
      by (rule inj_on_inverseI [where g = "\<lambda>k. attr_names ec ! nat k"]) (simp add: idx(3))
    then show "distinct (sort (map (\<lambda>n. int (?idx n)) (od_keys data)))"
      using assms(2) by (simp add: distinct_map [of _ "map fst data"] od_keys_def od_wf_def
          del: map_map)
    show "sorted (map int (named_indices ec (fst ` set data)))"
      by (simp add: named_indices_def sorted_map sorted_wrt_filter)
    show "distinct (map int (named_indices ec (fst ` set data)))"
      by (simp add: named_indices_def distinct_map)
    have "?idx ` fst ` set data = set (named_indices ec (fst ` set data))"
    proof (intro equalityI subsetI)
      fix i assume "i \<in> set (named_indices ec (fst ` set data))"
      then have i: "i < length (attributes ec)" "attr_names ec ! i \<in> fst ` set data"
        by (auto simp: named_indices_def)
      then have "od_get (attr_names ec ! i) (attribute_name_to_index_map ec) = Some i"
        by (simp add: attribute_index [OF d])
      then have "?idx (attr_names ec ! i) = i" by simp
      with i(2) show "i \<in> ?idx ` fst ` set data" by (metis imageI)
    next
      fix i assume "i \<in> ?idx ` fst ` set data"
      then obtain n where n: "n \<in> fst ` set data" "i = ?idx n" by blast
      with idx(2,3) [OF n(1)] show "i \<in> set (named_indices ec (fst ` set data))"
        by (simp add: named_indices_def)
    qed
    then have "int ` ?idx ` fst ` set data = int ` set (named_indices ec (fst ` set data))"
      by (simp only:)
    then show "set (sort (map (\<lambda>n. int (?idx n)) (od_keys data))) =
        set (map int (named_indices ec (fst ` set data)))"
      by (simp add: od_keys_def image_image)
  qed simp
  ultimately show ?thesis by (simp add: attribute_indices_from_data_def)
qed

section \<open>Encoding and decoding the data of a message\<close>

text \<open>
  What the program relies on of scapy's fixed-size fields: a value that fits a field is appended
  as the number of bytes of the field, and reading those bytes gives the value and the rest back.
  Which values fit a field is an argument, too.
\<close>

fun field_size :: "fkind \<Rightarrow> nat" where
  "field_size ByteField = 1"
| "field_size ShortField = 2"
| "field_size IntField = 4"
| "field_size MACField = 6"
| "field_size IPField = 4"
| "field_size (StrFixedLenField n) = n"

definition scapy_fields :: "addfield \<Rightarrow> getfield \<Rightarrow> (ofld \<Rightarrow> fval \<Rightarrow> bool) \<Rightarrow> bool" where
  "scapy_fields add get fits \<longleftrightarrow>
     (\<forall>f v. fits f v \<longrightarrow>
        (\<exists>bs. length bs = field_size (fld_kind f) \<and>
           (\<forall>s. add f s v = Inr (s @ bs)) \<and> (\<forall>rest. get f (bs @ rest) = Inr (rest, v))))"

lemma encode_fields:
  assumes sf: "scapy_fields add get fits" and "\<forall>a \<in> set as. fits (eca_fld a) (v a)"
  shows "\<exists>bs. length bs = (\<Sum>a \<leftarrow> as. field_size (fld_kind (eca_fld a))) \<and>
    (\<forall>s. py_for (\<lambda>a s. add (eca_fld a) s (v a)) as s = Inr (s @ bs)) \<and>
    (\<forall>rest data. py_for (\<lambda>a (s, data).
        rbind (get (eca_fld a) s) (\<lambda>(s, v). Inr (s, od_set (fld_name (eca_fld a)) v data)))
      as (bs @ rest, data) =
      Inr (rest, od_of (map (\<lambda>a. (fld_name (eca_fld a), v a)) as) data))"
  using assms(2)
proof (induction as)
  case Nil
  then show ?case by simp
next
  case (Cons a as)
  from Cons.prems sf obtain b where b: "length b = field_size (fld_kind (eca_fld a))"
      "\<And>s. add (eca_fld a) s (v a) = Inr (s @ b)"
      "\<And>rest. get (eca_fld a) (b @ rest) = Inr (rest, v a)"
    unfolding scapy_fields_def by (meson list.set_intros(1))
  from Cons.prems have fit: "\<forall>a \<in> set as. fits (eca_fld a) (v a)" by simp
  from Cons.IH [OF fit] obtain bs where
      bs: "length bs = (\<Sum>a \<leftarrow> as. field_size (fld_kind (eca_fld a)))"
      "\<And>s. py_for (\<lambda>a s. add (eca_fld a) s (v a)) as s = Inr (s @ bs)"
      "\<And>rest data. py_for (\<lambda>a (s, data).
          rbind (get (eca_fld a) s) (\<lambda>(s, v). Inr (s, od_set (fld_name (eca_fld a)) v data)))
        as (bs @ rest, data) = Inr (rest, od_of (map (\<lambda>a. (fld_name (eca_fld a), v a)) as) data)"
    by blast
  show ?case
    by (rule exI [of _ "b @ bs"]) (use b bs in simp)
qed

lemma od_get_of_names:
  assumes "distinct (map f as)"
  shows "od_get n (od_of (map (\<lambda>a. (f a, v a)) as) []) =
    (if n \<in> f ` set as then Some (v (the_inv_into (set as) f n)) else None)"
proof -
  have "od_of (map (\<lambda>a. (f a, v a)) as) [] = map (\<lambda>a. (f a, v a)) as"
    by (subst od_of_distinct) (use assms in \<open>auto simp: comp_def\<close>)
  moreover have "map_of (map (\<lambda>a. (f a, v a)) as) (f a) = Some (v a)" if "a \<in> set as" for a
    using assms that by (auto intro!: map_of_is_SomeI simp: comp_def)
  moreover have "inj_on f (set as)" using assms by (simp add: distinct_map)
  ultimately show ?thesis
    by (auto simp: od_get_def the_inv_into_f_f map_of_eq_None_iff image_image)
qed

lemma py_index_int: "i < length xs \<Longrightarrow> py_index xs (int i) = Inr (xs ! i)"
  by (simp add: py_index_def)

lemma py_for_cong:
  "(\<And>x s. x \<in> set xs \<Longrightarrow> f x s = g x s) \<Longrightarrow> py_for f xs s = py_for g xs s"
  by (induction xs arbitrary: s) (auto split: sum.splits)

lemma py_for_map: "py_for f (map h xs) s = py_for (\<lambda>x. f (h x)) xs s"
  by (induction xs arbitrary: s) (auto split: sum.splits)

definition named_attributes :: "entity_class \<Rightarrow> string set \<Rightarrow> EntityClassAttribute list" where
  "named_attributes ec S = map (\<lambda>i. attributes ec ! i) (named_indices ec S)"

lemma named_attributes_names:
  "map (\<lambda>a. fld_name (eca_fld a)) (named_attributes ec S) = filter (\<lambda>n. n \<in> S) (attr_names ec)"
  unfolding named_indices_names [symmetric] named_attributes_def
  by (auto simp: attr_names_def named_indices_def)

lemma named_attributes_filter:
  "named_attributes ec S = filter (\<lambda>a. fld_name (eca_fld a) \<in> S) (attributes ec)"
proof -
  have "filter (\<lambda>a. fld_name (eca_fld a) \<in> S) (map (\<lambda>i. attributes ec ! i) [0..<length (attributes ec)])
      = named_attributes ec S"
    unfolding named_attributes_def named_indices_def filter_map comp_def
    by (intro arg_cong [where f = "map _"] filter_cong) (auto simp: attr_names_def)
  then show ?thesis by (simp only: map_nth)
qed

lemma py_for_named:
  assumes "\<And>i s. i < length (attributes ec) \<Longrightarrow> attr_names ec ! i \<in> S \<Longrightarrow>
    f (int i) s = g (attributes ec ! i) s"
  shows "py_for f (map int (named_indices ec S)) s = py_for g (named_attributes ec S) s"
  unfolding named_attributes_def py_for_map
  by (rule py_for_cong) (use assms in \<open>auto simp: named_indices_def\<close>)

lemma masked_data_codec:
  assumes sf: "scapy_fields add get fits" and ec: "od_get cid entity_id_to_class_map = Some ec"
    and ind: "attribute_indices_from_mask m = Inr (map int (named_indices ec S))"
    and fit: "\<And>a. a \<in> set (attributes ec) \<Longrightarrow> fld_name (eca_fld a) \<in> S \<Longrightarrow>
      od_get (fld_name (eca_fld a)) val = Some (v a) \<and> fits (eca_fld a) (v a)"
  shows "\<exists>bs. length bs = (\<Sum>a \<leftarrow> named_attributes ec S. field_size (fld_kind (eca_fld a))) \<and>
    (\<forall>s. OmciMaskedData_addfield add cid m s (DictV val) = Inr (s @ bs)) \<and>
    (\<forall>rest. OmciMaskedData_getfield get cid m (bs @ rest) =
       Inr (rest, od_of (map (\<lambda>a. (fld_name (eca_fld a), v a)) (named_attributes ec S)) []))"
proof -
  let ?g = "\<lambda>a s. add (eca_fld a) s (v a)"
  have mem: "attributes ec ! i \<in> set (attributes ec)" "fld_name (eca_fld (attributes ec ! i)) \<in> S"
    if "i < length (attributes ec)" "attr_names ec ! i \<in> S" for i
    using that by (auto simp: attr_names_def)
  have "\<forall>a \<in> set (named_attributes ec S). fits (eca_fld a) (v a)"
    using fit mem by (auto simp: named_attributes_def named_indices_def)
  from encode_fields [OF sf this] obtain bs where
      bs: "length bs = (\<Sum>a \<leftarrow> named_attributes ec S. field_size (fld_kind (eca_fld a)))"
      "\<And>s. py_for ?g (named_attributes ec S) s = Inr (s @ bs)"
      "\<And>rest data. py_for (\<lambda>a (s, data).
          rbind (get (eca_fld a) s) (\<lambda>(s, v). Inr (s, od_set (fld_name (eca_fld a)) v data)))
        (named_attributes ec S) (bs @ rest, data) =
        Inr (rest, od_of (map (\<lambda>a. (fld_name (eca_fld a), v a)) (named_attributes ec S)) data)"
    by blast
  have "OmciMaskedData_addfield add cid m s (DictV val) = Inr (s @ bs)" for s
    unfolding OmciMaskedData_addfield_def ec ind option.case rbind_simps
    by (subst py_for_named [where g = ?g])
      (use fit mem in \<open>simp_all add: py_index_int bs dict_lookup_def\<close>)
  moreover have "OmciMaskedData_getfield get cid m (bs @ rest) =
      Inr (rest, od_of (map (\<lambda>a. (fld_name (eca_fld a), v a)) (named_attributes ec S)) [])" for rest
    unfolding OmciMaskedData_getfield_def ec ind option.case rbind_simps
    by (subst py_for_named [where g = "\<lambda>a (s, data).
          rbind (get (eca_fld a) s) (\<lambda>(s, v). Inr (s, od_set (fld_name (eca_fld a)) v data))"])
      (simp_all add: py_index_int bs)
  ultimately show ?thesis using bs(1) by blast
qed

text \<open>
  A concrete reading of the laws of \<open>scapy_fields\<close>: unsigned integers as big-endian bytes and
  strings of the exact length.  It shows that the laws can hold.
\<close>

fun be_enc :: "nat \<Rightarrow> nat \<Rightarrow> bytes" where
  "be_enc 0 v = []"
| "be_enc (Suc n) v = be_enc n (v div 256) @ [of_nat v]"

definition be_dec :: "bytes \<Rightarrow> nat" where
  "be_dec bs = foldl (\<lambda>a b. a * 256 + unat b) 0 bs"

definition is_number :: "fkind \<Rightarrow> bool" where
  "is_number k \<longleftrightarrow> k \<in> {ByteField, ShortField, IntField}"

definition be_add :: addfield where
  "be_add f s v =
     (case v of
        IntV i \<Rightarrow> Inr (s @ be_enc (field_size (fld_kind f)) (nat i))
      | StrV bs \<Rightarrow> Inr (s @ bs)
      | NoneV \<Rightarrow> Inr (s @ be_enc (field_size (fld_kind f)) 0)
      | _ \<Rightarrow> Inl TypeError)"

definition be_get :: getfield where
  "be_get f s =
     (let n = field_size (fld_kind f) in
      if length s < n then Inl OtherException
      else Inr (drop n s,
        if is_number (fld_kind f) then IntV (int (be_dec (take n s))) else StrV (take n s)))"

fun be_fits :: "ofld \<Rightarrow> fval \<Rightarrow> bool" where
  "be_fits f (IntV i) \<longleftrightarrow> is_number (fld_kind f) \<and> 0 \<le> i \<and> i < 256 ^ field_size (fld_kind f)"
| "be_fits f (StrV s) \<longleftrightarrow> \<not> is_number (fld_kind f) \<and> length s = field_size (fld_kind f)"
| "be_fits f _ \<longleftrightarrow> False"

lemma length_be_enc [simp]: "length (be_enc n v) = n"
  by (induction n arbitrary: v) auto

lemma be_dec_enc: "v < 256 ^ n \<Longrightarrow> be_dec (be_enc n v) = v"
proof (induction n arbitrary: v)
  case 0
  then show ?case by (simp add: be_dec_def)
next
  case (Suc n)
  then have "v div 256 < 256 ^ n" by (simp add: less_mult_imp_div_less mult.commute)
  from Suc.IH [OF this] show ?case by (simp add: be_dec_def unat_of_nat)
qed

lemma be_scapy_fields: "scapy_fields be_add be_get be_fits"
  unfolding scapy_fields_def
proof (intro allI impI)
  fix f v
  assume fits: "be_fits f v"
  show "\<exists>bs. length bs = field_size (fld_kind f) \<and> (\<forall>s. be_add f s v = Inr (s @ bs)) \<and>
      (\<forall>rest. be_get f (bs @ rest) = Inr (rest, v))"
  proof (cases v)
    case (IntV i)
    with fits have "nat i < 256 ^ field_size (fld_kind f)" "0 \<le> i" "is_number (fld_kind f)"
      by (auto simp: nat_less_iff)
    then show ?thesis
      by (intro exI [of _ "be_enc (field_size (fld_kind f)) (nat i)"])
        (simp add: IntV be_add_def be_get_def be_dec_enc)
  next
    case (StrV bs)
    with fits show ?thesis
      by (intro exI [of _ bs]) (simp add: be_add_def be_get_def)
  qed (use fits in auto)
qed

lemma named_value:
  assumes "distinct (attr_names ec)" and "set names \<subseteq> set (attr_names ec)"
    and "\<And>a. a \<in> set (attributes ec) \<Longrightarrow> fld_name (eca_fld a) \<in> set names \<Longrightarrow>
      od_get (fld_name (eca_fld a)) val = Some (v a)"
  shows "od_get n (od_of (map (\<lambda>a. (fld_name (eca_fld a), v a)) (named_attributes ec (set names))) []) =
    (if n \<in> set names then od_get n val else None)"
proof -
  let ?as = "named_attributes ec (set names)" and ?f = "\<lambda>a. fld_name (eca_fld a)"
  have d: "distinct (map ?f ?as)" by (simp add: named_attributes_names assms(1))
  have im: "?f ` set ?as = set names"
    using named_attributes_names [of ec "set names"] assms(2) by (metis (no_types) inf.absorb2 list.set_map set_filter
        inter_set_filter [of "set names" "attr_names ec"] Int_commute Collect_conj_eq Collect_mem_eq)
  show ?thesis
  proof (cases "n \<in> set names")
    case True
    then have "n \<in> ?f ` set ?as" by (simp only: im)
    then obtain a where a: "a \<in> set ?as" "?f a = n" by auto
    then have "the_inv_into (set ?as) ?f n = a"
      using d by (auto simp: distinct_map intro: the_inv_into_f_f)
    moreover have "a \<in> set (attributes ec)"
      using a(1) by (auto simp: named_attributes_def named_indices_def)
    ultimately show ?thesis
      using assms(3) [of a] a True im by (simp add: od_get_of_names [OF d])
  qed (simp add: od_get_of_names [OF d] im)
qed

section \<open>Properties\<close>

text \<open>
  C24. Masks and names agree: for every entity class and every choice of its attributes other
  than the entity id, \<^verbatim>\<open>mask_for\<close> returns a mask of 16 bits, and
  \<^verbatim>\<open>attribute_indices_from_mask\<close> turns the mask into the indices of exactly those
  attributes, in the order of the class.
\<close>

theorem mask_round_trip:
  assumes "ec \<in> set entity_classes"
    and "set names \<subseteq> set (attr_names ec) - {''managed_entity_id''}"
  shows "\<exists>m indices. mask_for ec names = Inr m \<and> 0 \<le> m \<and> m < 2 ^ 16 \<and>
    attribute_indices_from_mask m = Inr indices \<and>
    map (\<lambda>i. attr_names ec ! nat i) indices = filter (\<lambda>n. n \<in> set names) (attr_names ec)"
proof -
  obtain m where m: "mask_for ec names = Inr m" "0 \<le> m" "m < 2 ^ 16"
      "attribute_indices_from_mask m = Inr (map int (named_indices ec (set names)))"
    using mask_for_indices [OF entity_class_okI [OF assms(1)] assms(2)] by blast
  have "map (\<lambda>i. attr_names ec ! nat i) (map int (named_indices ec (set names))) =
      filter (\<lambda>n. n \<in> set names) (attr_names ec)"
    by (simp add: comp_def named_indices_names)
  with m show ?thesis by blast
qed

theorem mask_round_trip_witness:
  "\<exists>m indices. mask_for CircuitPack [''bridged_or_ip_ind'', ''vendor_id''] = Inr m \<and> 0 \<le> m \<and>
    m < 2 ^ 16 \<and> attribute_indices_from_mask m = Inr indices \<and>
    map (\<lambda>i. attr_names CircuitPack ! nat i) indices =
      filter (\<lambda>n. n \<in> set [''bridged_or_ip_ind'', ''vendor_id'']) (attr_names CircuitPack)"
proof (rule mask_round_trip)
  show "CircuitPack \<in> set entity_classes" by (simp add: entity_classes_def)
  show "set [''bridged_or_ip_ind'', ''vendor_id''] \<subseteq> set (attr_names CircuitPack) - {''managed_entity_id''}"
    by code_simp
qed

text \<open>
  Serializing an entity from its data alone and from the mask of the attributes its data
  holds are the same, whatever the fields do and also when they raise.
\<close>

theorem serialize_by_mask:
  assumes "ec \<in> set entity_classes" and "od_wf data"
    and "fst ` set data \<subseteq> set (attr_names ec) - {''managed_entity_id''}"
  shows "\<exists>m. mask_for ec (od_keys data) = Inr m \<and>
    serialize add ec data (Some m) = serialize add ec data None"
proof -
  have ok: "entity_class_ok ec" using assms(1) by (rule entity_class_okI)
  have keys: "set (od_keys data) = fst ` set data" by (simp add: od_keys_def)
  obtain m where m: "mask_for ec (od_keys data) = Inr m"
      "attribute_indices_from_mask m = Inr (map int (named_indices ec (fst ` set data)))"
    using mask_for_indices [OF ok, of "od_keys data"] assms(3) unfolding keys by blast
  have "attribute_indices_from_data ec data = Inr (map int (named_indices ec (fst ` set data)))"
    using indices_from_data [OF ok assms(2)] assms(3) by blast
  with m show ?thesis by (simp add: serialize_def)
qed

theorem serialize_by_mask_witness:
  "\<exists>m. mask_for CircuitPack (od_keys [(''vendor_id'', StrV [1, 2, 3, 4]), (''number_of_ports'', IntV 16)])
      = Inr m \<and>
    serialize be_add CircuitPack [(''vendor_id'', StrV [1, 2, 3, 4]), (''number_of_ports'', IntV 16)] (Some m) =
    serialize be_add CircuitPack [(''vendor_id'', StrV [1, 2, 3, 4]), (''number_of_ports'', IntV 16)] None"
proof (rule serialize_by_mask)
  show "CircuitPack \<in> set entity_classes" by (simp add: entity_classes_def)
  show "od_wf [(''vendor_id'', StrV [1, 2, 3, 4]), (''number_of_ports'', IntV 16)]" by code_simp
  show "fst ` set [(''vendor_id'', StrV [1, 2, 3, 4]), (''number_of_ports'', IntV 16)]
      \<subseteq> set (attr_names CircuitPack) - {''managed_entity_id''}" by code_simp
qed

text \<open>
  The data of a set request or a get response survives the wire: for a known class and
  attributes whose values fit their fields, encoding under the mask of the attributes appends
  as many bytes as their fields have, and decoding those bytes, whatever follows them, returns
  the values of exactly those attributes and leaves the rest.
\<close>

theorem masked_data_round_trip:
  assumes sf: "scapy_fields add get fits" and ec: "od_get cid entity_id_to_class_map = Some ec"
    and names: "set names \<subseteq> set (attr_names ec) - {''managed_entity_id''}"
    and fit: "\<forall>a \<in> set (attributes ec). fld_name (eca_fld a) \<in> set names \<longrightarrow>
      (\<exists>v. od_get (fld_name (eca_fld a)) val = Some v \<and> fits (eca_fld a) v)"
  shows "\<exists>m bs data. mask_for ec names = Inr m \<and>
    (\<forall>s. OmciMaskedData_addfield add cid m s (DictV val) = Inr (s @ bs)) \<and>
    (\<forall>rest. OmciMaskedData_getfield get cid m (bs @ rest) = Inr (rest, data)) \<and>
    length bs = (\<Sum>a \<leftarrow> attributes ec. if fld_name (eca_fld a) \<in> set names
                                      then field_size (fld_kind (eca_fld a)) else 0) \<and>
    (\<forall>n. od_get n data = (if n \<in> set names then od_get n val else None))"
proof -
  have ok: "entity_class_ok ec" using entity_map_get [OF ec] entity_class_okI by blast
  then have d: "distinct (attr_names ec)" by (simp add: entity_class_ok_def)
  let ?v = "\<lambda>a. the (od_get (fld_name (eca_fld a)) val)"
  obtain m where m: "mask_for ec names = Inr m"
      "attribute_indices_from_mask m = Inr (map int (named_indices ec (set names)))"
    using mask_for_indices [OF ok names] by blast
  have fit': "od_get (fld_name (eca_fld a)) val = Some (?v a) \<and> fits (eca_fld a) (?v a)"
    if "a \<in> set (attributes ec)" "fld_name (eca_fld a) \<in> set names" for a
    using fit that by auto
  obtain bs where bs:
      "length bs = (\<Sum>a \<leftarrow> named_attributes ec (set names). field_size (fld_kind (eca_fld a)))"
      "\<forall>s. OmciMaskedData_addfield add cid m s (DictV val) = Inr (s @ bs)"
      "\<forall>rest. OmciMaskedData_getfield get cid m (bs @ rest) = Inr (rest,
         od_of (map (\<lambda>a. (fld_name (eca_fld a), ?v a)) (named_attributes ec (set names))) [])"
    using masked_data_codec [where v = ?v, OF sf ec m(2) fit'] by blast
  have "\<forall>n. od_get n (od_of (map (\<lambda>a. (fld_name (eca_fld a), ?v a))
        (named_attributes ec (set names))) []) = (if n \<in> set names then od_get n val else None)"
    using named_value [OF d _ conjunct1 [OF fit']] names by blast
  moreover have "length bs = (\<Sum>a \<leftarrow> attributes ec. if fld_name (eca_fld a) \<in> set names
      then field_size (fld_kind (eca_fld a)) else 0)"
    unfolding bs(1) named_attributes_filter by (simp add: sum_list_map_filter')
  ultimately show ?thesis using m(1) bs(2,3) by blast
qed

theorem masked_data_round_trip_witness:
  "\<exists>m bs data. mask_for Tcont [''policy'', ''alloc_id''] = Inr m \<and>
    (\<forall>s. OmciMaskedData_addfield be_add 262 m s (DictV [(''alloc_id'', IntV 1024), (''policy'', IntV 2)])
       = Inr (s @ bs)) \<and>
    (\<forall>rest. OmciMaskedData_getfield be_get 262 m (bs @ rest) = Inr (rest, data)) \<and>
    length bs = (\<Sum>a \<leftarrow> attributes Tcont. if fld_name (eca_fld a) \<in> set [''policy'', ''alloc_id'']
                                      then field_size (fld_kind (eca_fld a)) else 0) \<and>
    (\<forall>n. od_get n data = (if n \<in> set [''policy'', ''alloc_id'']
       then od_get n [(''alloc_id'', IntV 1024), (''policy'', IntV 2)] else None))"
proof (rule masked_data_round_trip [OF be_scapy_fields])
  show "od_get 262 entity_id_to_class_map = Some Tcont" by code_simp
  show "set [''policy'', ''alloc_id''] \<subseteq> set (attr_names Tcont) - {''managed_entity_id''}"
    by code_simp
  show "\<forall>a \<in> set (attributes Tcont). fld_name (eca_fld a) \<in> set [''policy'', ''alloc_id''] \<longrightarrow>
      (\<exists>v. od_get (fld_name (eca_fld a)) [(''alloc_id'', IntV 1024), (''policy'', IntV 2)] = Some v \<and>
        be_fits (eca_fld a) v)"
    by (simp add: Tcont_def is_number_def)
qed

text \<open>
  The entity id is attribute 0: \<^verbatim>\<open>mask_for\<close> gives it bit 16, which is outside the mask
  field of a message and selects nothing.
\<close>

lemma mask_for_entity_id:
  "mask_for CircuitPack [''managed_entity_id''] = Inr (2 ^ 16)"
  "attribute_indices_from_mask (2 ^ 16) = Inr []"
  by code_simp+

text \<open>
  A mask that selects an attribute the class does not have makes encoding raise, while decoding
  skips the attribute without reading its bytes.
\<close>

lemma mask_past_the_end:
  "OmciMaskedData_addfield be_add 2 0xc000 [] (DictV [(''mib_data_sync'', IntV 7)]) = Inl IndexError"
  "OmciMaskedData_getfield be_get 2 0xc000 [7, 8] = Inr ([8], [(''mib_data_sync'', IntV 7)])"
  by code_simp+

end
