(* ===== verification/OmciFrame.thy ===== *)
theory OmciFrame
  imports Omci
begin

text \<open>
  OMCI messages and frames: \<^verbatim>\<open>src/voltha/extensions/omci/omci_messages.py\<close> and
  \<^verbatim>\<open>omci_frame.py\<close>, with \<^verbatim>\<open>FixedLenField\<close> of \<^verbatim>\<open>omci_defs.py\<close>.

  A packet is the dictionary of its fields; a message inside a frame is the value \<open>PktV\<close>, with
  the id of its class and the bytes scapy keeps as its payload.  The containers of scapy that
  drive these classes (\<^verbatim>\<open>Packet\<close>, \<^verbatim>\<open>ConditionalField\<close>, \<^verbatim>\<open>PadField\<close>,
  \<^verbatim>\<open>PacketField\<close>) are the record \<open>scapy\<close> of functions, an argument of the model, and
  \<open>scapy_ok\<close> states what is relied on of them.  \<^verbatim>\<open>OmciFrame.do_dissect\<close> is part of the
  program and is modelled here; the caches scapy keeps to rebuild a packet are not.

  The property is the round trip of frames: a well-formed frame has 44 bytes and dissects to
  itself.
\<close>

section \<open>Message classes\<close>

datatype mfld =
    Fld ofld
  | OmciData string string
  | OmciMaskedData string string string
  | OnSuccess mfld

fun mfld_name :: "mfld \<Rightarrow> string" where
  "mfld_name (Fld f) = fld_name f"
| "mfld_name (OmciData n _) = n"
| "mfld_name (OmciMaskedData n _ _) = n"
| "mfld_name (OnSuccess f) = mfld_name f"

fun mfld_default :: "mfld \<Rightarrow> fval" where
  "mfld_default (Fld f) = fld_default f"
| "mfld_default (OnSuccess f) = mfld_default f"
| "mfld_default _ = NoneV"

record omci_message =
  msg_name :: string
  message_id :: int
  fields_desc :: "mfld list"

definition OmciCreate :: omci_message where
  "OmciCreate = \<lparr>msg_name = ''OmciCreate'', message_id = 0x44,
    fields_desc = [
      Fld (ofld ShortField ''entity_class'' NoneV),
      Fld (ofld ShortField ''entity_id'' (IntV 0)),
      OmciData ''data'' ''entity_class'']\<rparr>"

definition OmciCreateResponse :: omci_message where
  "OmciCreateResponse = \<lparr>msg_name = ''OmciCreateResponse'', message_id = 0x24,
    fields_desc = [
      Fld (ofld ShortField ''entity_class'' NoneV),
      Fld (ofld ShortField ''entity_id'' NoneV),
      Fld (ofld ByteField ''success_code'' (IntV 0)),
      Fld (ofld ShortField ''parameter_error_attributes_mask'' NoneV)]\<rparr>"

definition OmciDelete :: omci_message where
  "OmciDelete = \<lparr>msg_name = ''OmciDelete'', message_id = 0x46,
    fields_desc = [
      Fld (ofld ShortField ''entity_class'' NoneV),
      Fld (ofld ShortField ''entity_id'' NoneV)]\<rparr>"

definition OmciDeleteResponse :: omci_message where
  "OmciDeleteResponse = \<lparr>msg_name = ''OmciDeleteResponse'', message_id = 0x26,
    fields_desc = [
      Fld (ofld ShortField ''entity_class'' NoneV),
      Fld (ofld ShortField ''entity_id'' NoneV),
      Fld (ofld ByteField ''success_code'' (IntV 0))]\<rparr>"

definition OmciSet :: omci_message where
  "OmciSet = \<lparr>msg_name = ''OmciSet'', message_id = 0x48,
    fields_desc = [
      Fld (ofld ShortField ''entity_class'' NoneV),
      Fld (ofld ShortField ''entity_id'' (IntV 0)),
      Fld (ofld ShortField ''attributes_mask'' NoneV),
      OmciMaskedData ''data'' ''entity_class'' ''attributes_mask'']\<rparr>"

definition OmciSetResponse :: omci_message where
  "OmciSetResponse = \<lparr>msg_name = ''OmciSetResponse'', message_id = 0x28,
    fields_desc = [
      Fld (ofld ShortField ''entity_class'' NoneV),
      Fld (ofld ShortField ''entity_id'' NoneV),
      Fld (ofld ByteField ''success_code'' (IntV 0)),
      Fld (ofld ShortField ''unsupported_attributes_mask'' NoneV),
      Fld (ofld ShortField ''failed_attributes_mask'' NoneV)]\<rparr>"

definition OmciGet :: omci_message where
  "OmciGet = \<lparr>msg_name = ''OmciGet'', message_id = 0x49,
    fields_desc = [
      Fld (ofld ShortField ''entity_class'' NoneV),
      Fld (ofld ShortField ''entity_id'' (IntV 0)),
      Fld (ofld ShortField ''attributes_mask'' NoneV)]\<rparr>"

definition OmciGetResponse :: omci_message where
  "OmciGetResponse = \<lparr>msg_name = ''OmciGetResponse'', message_id = 0x29,
    fields_desc = [
      Fld (ofld ShortField ''entity_class'' NoneV),
      Fld (ofld ShortField ''entity_id'' (IntV 0)),
      Fld (ofld ByteField ''success_code'' (IntV 0)),
      Fld (ofld ShortField ''attributes_mask'' NoneV),
      OnSuccess (OmciMaskedData ''data'' ''entity_class'' ''attributes_mask'')]\<rparr>"

definition OmciGetAllAlarms :: omci_message where
  "OmciGetAllAlarms = \<lparr>msg_name = ''OmciGetAllAlarms'', message_id = 0x4b,
    fields_desc = [
      Fld (ofld ShortField ''entity_class'' (IntV 2)),
      Fld (ofld ShortField ''entity_id'' (IntV 0)),
      Fld (ofld ByteField ''alarm_retrieval_mode'' (IntV 0))]\<rparr>"

definition OmciGetAllAlarmsResponse :: omci_message where
  "OmciGetAllAlarmsResponse = \<lparr>msg_name = ''OmciGetAllAlarmsResponse'', message_id = 0x2b,
    fields_desc = [
      Fld (ofld ShortField ''entity_class'' (IntV 2)),
      Fld (ofld ShortField ''entity_id'' (IntV 0)),
      Fld (ofld ShortField ''number_of_commands'' NoneV)]\<rparr>"

definition OmciGetAllAlarmsNext :: omci_message where
  "OmciGetAllAlarmsNext = \<lparr>msg_name = ''OmciGetAllAlarmsNext'', message_id = 0x4c,
    fields_desc = [
      Fld (ofld ShortField ''entity_class'' (IntV 2)),
      Fld (ofld ShortField ''entity_id'' (IntV 0)),
      Fld (ofld ShortField ''command_sequence_number'' NoneV)]\<rparr>"

definition OmciGetAllAlarmsNextResponse :: omci_message where
  "OmciGetAllAlarmsNextResponse = \<lparr>msg_name = ''OmciGetAllAlarmsNextResponse'', message_id = 0x2c,
    fields_desc = [
      Fld (ofld ShortField ''entity_class'' (IntV 2)),
      Fld (ofld ShortField ''entity_id'' (IntV 0)),
      Fld (ofld ShortField ''alarmed_entity_class'' NoneV),
      Fld (ofld ShortField ''alarmed_entity_id'' (IntV 0)),
      Fld (ofld (StrFixedLenField 27) ''alarm_bit_map'' NoneV)]\<rparr>"

definition OmciMibUpload :: omci_message where
  "OmciMibUpload = \<lparr>msg_name = ''OmciMibUpload'', message_id = 0x4d,
    fields_desc = [
      Fld (ofld ShortField ''entity_class'' (IntV 2)),
      Fld (ofld ShortField ''entity_id'' (IntV 0))]\<rparr>"

definition OmciMibUploadResponse :: omci_message where
  "OmciMibUploadResponse = \<lparr>msg_name = ''OmciMibUploadResponse'', message_id = 0x2d,
    fields_desc = [
      Fld (ofld ShortField ''entity_class'' (IntV 2)),
      Fld (ofld ShortField ''entity_id'' (IntV 0)),
      Fld (ofld ShortField ''number_of_commands'' NoneV)]\<rparr>"

definition OmciMibUploadNext :: omci_message where
  "OmciMibUploadNext = \<lparr>msg_name = ''OmciMibUploadNext'', message_id = 0x4e,
    fields_desc = [
      Fld (ofld ShortField ''entity_class'' (IntV 2)),
      Fld (ofld ShortField ''entity_id'' (IntV 0)),
      Fld (ofld ShortField ''command_sequence_number'' NoneV)]\<rparr>"

definition OmciMibUploadNextResponse :: omci_message where
  "OmciMibUploadNextResponse = \<lparr>msg_name = ''OmciMibUploadNextResponse'', message_id = 0x2e,
    fields_desc = [
      Fld (ofld ShortField ''entity_class'' (IntV 2)),
      Fld (ofld ShortField ''entity_id'' (IntV 0)),
      Fld (ofld ShortField ''object_entity_class'' NoneV),
      Fld (ofld ShortField ''object_entity_id'' (IntV 0)),
      Fld (ofld ShortField ''object_attributes_mask'' NoneV),
      OmciMaskedData ''object_data'' ''object_entity_class'' ''object_attributes_mask'']\<rparr>"

definition OmciMibReset :: omci_message where
  "OmciMibReset = \<lparr>msg_name = ''OmciMibReset'', message_id = 0x4f,
    fields_desc = [
      Fld (ofld ShortField ''entity_class'' NoneV),
      Fld (ofld ShortField ''entity_id'' (IntV 0))]\<rparr>"

definition OmciMibResetResponse :: omci_message where
  "OmciMibResetResponse = \<lparr>msg_name = ''OmciMibResetResponse'', message_id = 0x2f,
    fields_desc = [
      Fld (ofld ShortField ''entity_class'' NoneV),
      Fld (ofld ShortField ''entity_id'' (IntV 0)),
      Fld (ofld ByteField ''success_code'' (IntV 0))]\<rparr>"

definition message_classes :: "omci_message list" where
  "message_classes =
     [OmciCreate, OmciCreateResponse, OmciDelete, OmciDeleteResponse, OmciSet, OmciSetResponse,
      OmciGet, OmciGetResponse, OmciGetAllAlarms, OmciGetAllAlarmsResponse, OmciGetAllAlarmsNext,
      OmciGetAllAlarmsNextResponse, OmciMibUpload, OmciMibUploadResponse, OmciMibUploadNext,
      OmciMibUploadNextResponse, OmciMibReset, OmciMibResetResponse]"


section \<open>The interface of scapy\<close>

type_synonym fields = "(string, fval) od"
type_synonym getter = "fields \<Rightarrow> bytes \<Rightarrow> (bytes \<times> fval) res"

record scapy =
  sc_add :: addfield
  sc_get :: getfield
  sc_build :: "(bytes \<Rightarrow> bytes res) list \<Rightarrow> bytes \<Rightarrow> bytes res"
  sc_dissect :: "(string \<times> getter) list \<Rightarrow> bytes \<Rightarrow> (bytes \<times> fields) res"
  sc_cond_add :: "bool \<Rightarrow> (bytes \<Rightarrow> bytes res) \<Rightarrow> bytes \<Rightarrow> bytes res"
  sc_cond_get :: "bool \<Rightarrow> (bytes \<Rightarrow> (bytes \<times> fval) res) \<Rightarrow> bytes \<Rightarrow> (bytes \<times> fval) res"
  sc_pad_add :: "nat \<Rightarrow> (bytes \<Rightarrow> bytes res) \<Rightarrow> bytes \<Rightarrow> bytes res"
  sc_packet_add :: "bytes res option \<Rightarrow> bytes \<Rightarrow> bytes res"
  sc_packet_get :: "(bytes \<Rightarrow> (bytes \<times> fields) res) \<Rightarrow> bytes \<Rightarrow> (bytes \<times> fields \<times> bytes) res"


section \<open>Messages\<close>

text \<open>\<^verbatim>\<open>getattr(pkt, name)\<close>: the value of the field, or its default.\<close>

definition msg_attr :: "omci_message \<Rightarrow> fields \<Rightarrow> string \<Rightarrow> fval" where
  "msg_attr mc flds n =
     (case od_get n flds of
        Some v \<Rightarrow> v
      | None \<Rightarrow> (case find (\<lambda>f. mfld_name f = n) (fields_desc mc) of
                  Some f \<Rightarrow> mfld_default f | None \<Rightarrow> NoneV))"

fun msg_add :: "scapy \<Rightarrow> omci_message \<Rightarrow> fields \<Rightarrow> mfld \<Rightarrow> bytes \<Rightarrow> bytes res" where
  "msg_add sc mc flds (Fld f) s = sc_add sc f s (msg_attr mc flds (fld_name f))"
| "msg_add sc mc flds (OmciData n ec) s =
     (case msg_attr mc flds ec of
        IntV cid \<Rightarrow> OmciData_addfield (sc_add sc) cid s (msg_attr mc flds n)
      | _ \<Rightarrow> Inl AttributeError)"
| "msg_add sc mc flds (OmciMaskedData n ec am) s =
     (case msg_attr mc flds ec of
        IntV cid \<Rightarrow>
          (case msg_attr mc flds am of
             IntV m \<Rightarrow> OmciMaskedData_addfield (sc_add sc) cid m s (msg_attr mc flds n)
           | _ \<Rightarrow> Inl (if od_get cid entity_id_to_class_map = None then AttributeError else TypeError))
      | _ \<Rightarrow> Inl AttributeError)"
| "msg_add sc mc flds (OnSuccess f) s =
     sc_cond_add sc (msg_attr mc flds ''success_code'' = IntV 0) (msg_add sc mc flds f) s"

fun msg_get :: "scapy \<Rightarrow> omci_message \<Rightarrow> mfld \<Rightarrow> getter" where
  "msg_get sc mc (Fld f) flds s = sc_get sc f s"
| "msg_get sc mc (OmciData n ec) flds s =
     (case msg_attr mc flds ec of
        IntV cid \<Rightarrow> rbind (OmciData_getfield (sc_get sc) cid s) (\<lambda>(s, d). Inr (s, DictV d))
      | _ \<Rightarrow> Inl AttributeError)"
| "msg_get sc mc (OmciMaskedData n ec am) flds s =
     (case msg_attr mc flds ec of
        IntV cid \<Rightarrow>
          (case msg_attr mc flds am of
             IntV m \<Rightarrow> rbind (OmciMaskedData_getfield (sc_get sc) cid m s) (\<lambda>(s, d). Inr (s, DictV d))
           | _ \<Rightarrow> Inl (if od_get cid entity_id_to_class_map = None then KeyError else TypeError))
      | _ \<Rightarrow> Inl KeyError)"
| "msg_get sc mc (OnSuccess f) flds s =
     sc_cond_get sc (msg_attr mc flds ''success_code'' = IntV 0) (msg_get sc mc f flds) s"

definition msg_build :: "scapy \<Rightarrow> omci_message \<Rightarrow> fields \<Rightarrow> bytes \<Rightarrow> bytes res" where
  "msg_build sc mc flds payload = sc_build sc (map (msg_add sc mc flds) (fields_desc mc)) payload"

definition msg_dissect :: "scapy \<Rightarrow> omci_message \<Rightarrow> bytes \<Rightarrow> (bytes \<times> fields) res" where
  "msg_dissect sc mc s = sc_dissect sc (map (\<lambda>f. (mfld_name f, msg_get sc mc f)) (fields_desc mc)) s"


section \<open>Frames\<close>

definition FixedLenField_getfield ::
    "nat \<Rightarrow> (bytes \<Rightarrow> (bytes \<times> fval) res) \<Rightarrow> bytes \<Rightarrow> (bytes \<times> fval) res" where
  "FixedLenField_getfield align fld s =
     rbind (fld (take align s)) (\<lambda>(remain, val).
       Inr (remain @ drop align s,
         case val of
           PktV mid flds payload \<Rightarrow>
             if payload \<noteq> [] \<and> filter (\<lambda>b. b \<noteq> 0) payload = [] then PktV mid flds []
             else PktV mid flds payload
         | v \<Rightarrow> v))"

datatype ffld = FrameFld ofld | FrameMsg omci_message

fun ffld_name :: "ffld \<Rightarrow> string" where
  "ffld_name (FrameFld f) = fld_name f"
| "ffld_name (FrameMsg mc) = ''omci_message''"

definition OmciFrame_fields_desc :: "ffld list" where
  "OmciFrame_fields_desc =
     [FrameFld (ofld ShortField ''transaction_id'' (IntV 0)),
      FrameFld (ofld ByteField ''message_type'' NoneV),
      FrameFld (ofld ByteField ''omci'' (IntV 0x0a))] @
     map FrameMsg message_classes @
     [FrameFld (ofld IntField ''omci_trailer'' (IntV 0x28))]"

definition frame_attr :: "fields \<Rightarrow> string \<Rightarrow> fval" where
  "frame_attr flds n =
     (case od_get n flds of
        Some v \<Rightarrow> v
      | None \<Rightarrow> (case find (\<lambda>f. ffld_name f = n) OmciFrame_fields_desc of
                  Some (FrameFld f) \<Rightarrow> fld_default f | _ \<Rightarrow> NoneV))"

fun frame_add :: "scapy \<Rightarrow> fields \<Rightarrow> ffld \<Rightarrow> bytes \<Rightarrow> bytes res" where
  "frame_add sc flds (FrameFld f) s = sc_add sc f s (frame_attr flds (fld_name f))"
| "frame_add sc flds (FrameMsg mc) s =
     sc_cond_add sc (frame_attr flds ''message_type'' = IntV (message_id mc))
       (sc_pad_add sc 36
         (sc_packet_add sc
           (case frame_attr flds ''omci_message'' of
              PktV mid mflds payload \<Rightarrow>
                map_option (\<lambda>c. msg_build sc c mflds payload)
                  (find (\<lambda>c. message_id c = mid) message_classes)
            | _ \<Rightarrow> None))) s"

fun frame_get :: "scapy \<Rightarrow> ffld \<Rightarrow> getter" where
  "frame_get sc (FrameFld f) flds s = sc_get sc f s"
| "frame_get sc (FrameMsg mc) flds s =
     sc_cond_get sc (frame_attr flds ''message_type'' = IntV (message_id mc))
       (FixedLenField_getfield 36 (\<lambda>s.
          rbind (sc_packet_get sc (msg_dissect sc mc) s) (\<lambda>(s, mflds, payload).
          Inr (s, PktV (message_id mc) mflds payload)))) s"

definition OmciFrame_build :: "scapy \<Rightarrow> fields \<Rightarrow> bytes res" where
  "OmciFrame_build sc flds = sc_build sc (map (frame_add sc flds) OmciFrame_fields_desc) []"

fun dissect_loop :: "scapy \<Rightarrow> ffld list \<Rightarrow> fields \<Rightarrow> bytes \<Rightarrow> (bytes \<times> fields) res" where
  "dissect_loop sc [] flds s = Inr (s, flds)"
| "dissect_loop sc (f # fs) flds s =
     (if s = [] then Inr (s, flds)
      else rbind (frame_get sc f flds s) (\<lambda>(s', fval).
        dissect_loop sc fs
          (if fval \<noteq> NoneV \<or> od_get (ffld_name f) flds = None
           then od_set (ffld_name f) fval flds else flds) s'))"

definition do_dissect :: "scapy \<Rightarrow> bytes \<Rightarrow> (bytes \<times> fields) res" where
  "do_dissect sc s =
     rbind (dissect_loop sc OmciFrame_fields_desc [] s) (\<lambda>(s', flds).
     rbind (py_assert (drop (length s - length s') s = s')) (\<lambda>_. Inr (s', flds)))"


section \<open>What is relied on of scapy\<close>

text \<open>
  \<^item> \<^verbatim>\<open>Packet.build\<close> calls \<^verbatim>\<open>addfield\<close> of the fields in order and appends the payload.
  \<^item> \<^verbatim>\<open>Packet.do_dissect\<close> reads the fields in order while bytes are left.
  \<^item> \<^verbatim>\<open>ConditionalField\<close> skips the field, with value \<^verbatim>\<open>None\<close>, when its condition
    does not hold.
  \<^item> \<^verbatim>\<open>PadField\<close> appends zero bytes up to a multiple of the alignment.
  \<^item> \<^verbatim>\<open>PacketField\<close> appends the built packet, and reads a packet whose payload takes the
    remaining bytes.
\<close>

fun packet_loop :: "(string \<times> getter) list \<Rightarrow> fields \<Rightarrow> bytes \<Rightarrow> (bytes \<times> fields) res" where
  "packet_loop [] flds s = Inr (s, flds)"
| "packet_loop ((n, g) # gs) flds s =
     (if s = [] then Inr (s, flds)
      else rbind (g flds s) (\<lambda>(s', v). packet_loop gs (od_set n v flds) s'))"

definition scapy_ok :: "scapy \<Rightarrow> (ofld \<Rightarrow> fval \<Rightarrow> bool) \<Rightarrow> bool" where
  "scapy_ok sc fits \<longleftrightarrow>
     scapy_fields (sc_add sc) (sc_get sc) fits \<and>
     (\<forall>fs pay. sc_build sc fs pay = rbind (py_for (\<lambda>f s. f s) fs []) (\<lambda>s. Inr (s @ pay))) \<and>
     (\<forall>gs s. sc_dissect sc gs s = packet_loop gs [] s) \<and>
     (\<forall>b f s. sc_cond_add sc b f s = (if b then f s else Inr s)) \<and>
     (\<forall>b g s. sc_cond_get sc b g s = (if b then g s else Inr (s, NoneV))) \<and>
     (\<forall>n f s bs. f [] = Inr bs \<longrightarrow>
        sc_pad_add sc n f s = Inr (s @ bs @ replicate ((n - length bs mod n) mod n) 0)) \<and>
     (\<forall>bs s. sc_packet_add sc (Some (Inr bs)) s = Inr (s @ bs)) \<and>
     (\<forall>d s rest flds. d s = Inr (rest, flds) \<longrightarrow> sc_packet_get sc d s = Inr ([], flds, rest))"



section \<open>Well-formed messages\<close>

definition selected_attributes :: "entity_class \<Rightarrow> int \<Rightarrow> EntityClassAttribute list" where
  "selected_attributes ec m =
     map (\<lambda>i. attributes ec ! i) (filter (\<lambda>i. bit m (16 - i)) [1..<length (attributes ec)])"

definition mask_in_range :: "entity_class \<Rightarrow> int \<Rightarrow> bool" where
  "mask_in_range ec m \<longleftrightarrow> list_all (\<lambda>i. bit m (16 - i) \<longrightarrow> i < length (attributes ec)) [1..<17]"

definition data_ok :: "(ofld \<Rightarrow> fval \<Rightarrow> bool) \<Rightarrow> EntityClassAttribute list \<Rightarrow> fval \<Rightarrow> bool" where
  "data_ok fits as v =
     (case v of
        DictV d \<Rightarrow> list_all2 (\<lambda>a (n, x). n = fld_name (eca_fld a) \<and> fits (eca_fld a) x) as d
      | _ \<Rightarrow> False)"

fun mfld_wf :: "(ofld \<Rightarrow> fval \<Rightarrow> bool) \<Rightarrow> fields \<Rightarrow> mfld \<Rightarrow> fval \<Rightarrow> bool" where
  "mfld_wf fits flds (Fld f) v = fits f v"
| "mfld_wf fits flds (OmciData n ec) v =
     (case od_get ec flds of
        Some (IntV cid) \<Rightarrow>
          (case od_get cid entity_id_to_class_map of
             Some c \<Rightarrow> data_ok fits (set_by_create c) v | None \<Rightarrow> False)
      | _ \<Rightarrow> False)"
| "mfld_wf fits flds (OmciMaskedData n ec am) v =
     (case od_get ec flds of
        Some (IntV cid) \<Rightarrow>
          (case od_get am flds of
             Some (IntV m) \<Rightarrow>
               (case od_get cid entity_id_to_class_map of
                  Some c \<Rightarrow> mask_in_range c m \<and> data_ok fits (selected_attributes c m) v
                | None \<Rightarrow> False)
           | _ \<Rightarrow> False)
      | _ \<Rightarrow> False)"
| "mfld_wf fits flds (OnSuccess f) v =
     (if od_get ''success_code'' flds = Some (IntV 0) then mfld_wf fits flds f v else v = NoneV)"

definition msg_wf :: "(ofld \<Rightarrow> fval \<Rightarrow> bool) \<Rightarrow> omci_message \<Rightarrow> fields \<Rightarrow> bool" where
  "msg_wf fits mc flds \<longleftrightarrow>
     list_all2 (\<lambda>f (n, v). n = mfld_name f \<and> mfld_wf fits flds f v) (fields_desc mc) flds"

text \<open>
  What the codec lemmas need of a message class: its fields have different names, a data field
  comes last, after the fields its encoding depends on, and the other fields leave room in the
  36 bytes of a message.
\<close>

fun mfld_deps :: "mfld \<Rightarrow> string list" where
  "mfld_deps (Fld f) = []"
| "mfld_deps (OmciData n ec) = [ec]"
| "mfld_deps (OmciMaskedData n ec am) = [ec, am]"
| "mfld_deps (OnSuccess f) = ''success_code'' # mfld_deps f"

fun deps_ok :: "string list \<Rightarrow> mfld list \<Rightarrow> bool" where
  "deps_ok seen [] = True"
| "deps_ok seen (f # fs) \<longleftrightarrow> set (mfld_deps f) \<subseteq> set seen \<and> deps_ok (seen @ [mfld_name f]) fs"

fun pre_size :: "mfld list \<Rightarrow> nat" where
  "pre_size (Fld f # g # fs) = field_size (fld_kind f) + pre_size (g # fs)"
| "pre_size _ = 0"

fun all_but_last_fixed :: "mfld list \<Rightarrow> bool" where
  "all_but_last_fixed (Fld f # g # fs) = all_but_last_fixed (g # fs)"
| "all_but_last_fixed (f # g # fs) = False"
| "all_but_last_fixed _ = True"

definition message_class_ok :: "omci_message \<Rightarrow> bool" where
  "message_class_ok mc \<longleftrightarrow>
     distinct (map mfld_name (fields_desc mc)) \<and> deps_ok [] (fields_desc mc) \<and>
     all_but_last_fixed (fields_desc mc) \<and>
     0 < pre_size (fields_desc mc) \<and> pre_size (fields_desc mc) < 36"

lemma message_classes_ok: "list_all message_class_ok message_classes"
  by code_simp

lemma message_ids_distinct: "distinct (map message_id message_classes)"
  by code_simp

lemma data_codec:
  assumes sf: "scapy_fields add get fits" and "distinct (map (\<lambda>a. fld_name (eca_fld a)) as)"
    and "data_ok fits as (DictV d)"
  shows "map (\<lambda>a. (fld_name (eca_fld a), the (od_get (fld_name (eca_fld a)) d))) as = d"
    and "a \<in> set as \<Longrightarrow> od_get (fld_name (eca_fld a)) d = Some (the (od_get (fld_name (eca_fld a)) d)) \<and>
           fits (eca_fld a) (the (od_get (fld_name (eca_fld a)) d))"
    and "od_of d [] = d"
proof -
  have all: "list_all2 (\<lambda>a (n, x). n = fld_name (eca_fld a) \<and> fits (eca_fld a) x) as d"
    using assms(3) by (simp add: data_ok_def)
  then have len: "length as = length d" and
    nth: "\<And>i. i < length d \<Longrightarrow> fst (d ! i) = fld_name (eca_fld (as ! i)) \<and> fits (eca_fld (as ! i)) (snd (d ! i))"
    by (auto simp: list_all2_conv_all_nth case_prod_unfold)
  have names: "map fst d = map (\<lambda>a. fld_name (eca_fld a)) as"
    by (rule nth_equalityI) (use len nth in auto)
  then have wf: "od_wf d" using assms(2) by (simp add: od_wf_def)
  then show "od_of d [] = d" by (subst od_of_distinct) (simp_all add: od_wf_def)
  have get: "od_get (fld_name (eca_fld (as ! i))) d = Some (snd (d ! i))" if "i < length d" for i
    using that nth [OF that] wf by (simp add: od_get_in) (metis nth_mem prod.collapse)
  show "map (\<lambda>a. (fld_name (eca_fld a), the (od_get (fld_name (eca_fld a)) d))) as = d"
    by (rule nth_equalityI) (use len nth get in \<open>auto simp: prod_eq_iff\<close>)
  show "od_get (fld_name (eca_fld a)) d = Some (the (od_get (fld_name (eca_fld a)) d)) \<and>
      fits (eca_fld a) (the (od_get (fld_name (eca_fld a)) d))" if "a \<in> set as"
    using that len nth get by (auto simp: in_set_conv_nth)
qed

lemma data_ok_cases: "data_ok fits as v \<Longrightarrow> \<exists>d. v = DictV d"
  by (cases v) (auto simp: data_ok_def)

lemma known_class:
  assumes "od_get cid entity_id_to_class_map = Some c"
  shows "entity_class_ok c" and "distinct (map (\<lambda>a. fld_name (eca_fld a)) (attributes c))"
  using entity_map_get [OF assms] entity_class_okI
  by (auto simp: entity_class_ok_def attr_names_def comp_def)

lemma distinct_names_filter:
  "distinct (map f xs) \<Longrightarrow> distinct (map f (filter P xs))"
  by (simp add: distinct_map inj_on_def)

lemma create_data_codec:
  assumes sf: "scapy_fields add get fits" and c: "od_get cid entity_id_to_class_map = Some c"
    and ok: "data_ok fits (set_by_create c) v"
  shows "\<exists>bs. (\<forall>s. OmciData_addfield add cid s v = Inr (s @ bs)) \<and>
    (\<forall>rest. rbind (OmciData_getfield get cid (bs @ rest)) (\<lambda>(s, d). Inr (s, DictV d)) = Inr (rest, v))"
proof -
  obtain d where v: "v = DictV d" using data_ok_cases [OF ok] by blast
  let ?as = "set_by_create c" and ?v = "\<lambda>a. the (od_get (fld_name (eca_fld a)) d)"
  have dist: "distinct (map (\<lambda>a. fld_name (eca_fld a)) ?as)"
    unfolding set_by_create_def by (rule distinct_names_filter [OF known_class(2) [OF c]])
  note dc = data_codec [OF sf dist ok [unfolded v]]
  have fit: "\<forall>a \<in> set ?as. fits (eca_fld a) (?v a)" using dc(2) by blast
  obtain bs where bs:
      "\<And>s. py_for (\<lambda>a s. add (eca_fld a) s (?v a)) ?as s = Inr (s @ bs)"
      "\<And>rest data. py_for (\<lambda>a (s, data).
        rbind (get (eca_fld a) s) (\<lambda>(s, v). Inr (s, od_set (fld_name (eca_fld a)) v data)))
      ?as (bs @ rest, data) = Inr (rest, od_of (map (\<lambda>a. (fld_name (eca_fld a), ?v a)) ?as) data)"
    using encode_fields [OF sf fit] by blast
  have "py_for (\<lambda>a s. rbind (val_get v (fld_name (eca_fld a)) (fld_default (eca_fld a))) (add (eca_fld a) s)) ?as s
      = py_for (\<lambda>a s. add (eca_fld a) s (?v a)) ?as s" for s
  proof (rule py_for_cong)
    fix a s assume "a \<in> set ?as"
    then obtain w where "od_get (fld_name (eca_fld a)) d = Some w" using dc(2) by blast
    then show "rbind (val_get v (fld_name (eca_fld a)) (fld_default (eca_fld a))) (add (eca_fld a) s) =
        add (eca_fld a) s (?v a)" by (simp add: v)
  qed
  then show ?thesis
    by (intro exI [of _ bs])
      (simp add: OmciData_addfield_def OmciData_getfield_def c bs dc(1,3) v)
qed

lemma selected_named:
  assumes c: "od_get cid entity_id_to_class_map = Some c" and range: "mask_in_range c m"
  shows "\<exists>S. attribute_indices_from_mask m = Inr (map int (named_indices c S)) \<and>
    named_attributes c S = selected_attributes c m"
proof -
  let ?n = "length (attributes c)"
  let ?sel = "filter (\<lambda>i. bit m (16 - i)) [1..<?n]"
  let ?S = "(\<lambda>i. attr_names c ! i) ` set ?sel"
  have d: "distinct (attr_names c)" and l: "?n \<le> 17"
    using known_class(1) [OF c] by (auto simp: entity_class_ok_def)
  have "named_indices c ?S = ?sel"
  proof (rule sorted_distinct_set_unique)
    have inj: "i = j" if "i < ?n" "j < ?n" "attr_names c ! i = attr_names c ! j" for i j
      using that d nth_eq_iff_index_eq by fastforce
    then show "set (named_indices c ?S) = set ?sel"
      unfolding named_indices_def set_filter set_upt by fastforce
  qed (auto simp: named_indices_def sorted_wrt_filter)
  moreover have "filter (\<lambda>i. bit m (16 - i)) [1..<17] = ?sel"
    by (rule sorted_distinct_set_unique)
      (use range l in \<open>auto simp: mask_in_range_def list_all_iff sorted_wrt_filter\<close>)
  ultimately show ?thesis
    by (intro exI [of _ ?S])
      (simp add: attribute_indices_from_mask_closed named_attributes_def selected_attributes_def)
qed

lemma masked_codec:
  assumes sf: "scapy_fields add get fits" and c: "od_get cid entity_id_to_class_map = Some c"
    and range: "mask_in_range c m" and ok: "data_ok fits (selected_attributes c m) v"
  shows "\<exists>bs. (\<forall>s. OmciMaskedData_addfield add cid m s v = Inr (s @ bs)) \<and>
    (\<forall>rest. rbind (OmciMaskedData_getfield get cid m (bs @ rest)) (\<lambda>(s, d). Inr (s, DictV d)) = Inr (rest, v))"
proof -
  obtain d where v: "v = DictV d" using data_ok_cases [OF ok] by blast
  let ?v = "\<lambda>a. the (od_get (fld_name (eca_fld a)) d)"
  obtain S where S: "attribute_indices_from_mask m = Inr (map int (named_indices c S))"
      and sel: "named_attributes c S = selected_attributes c m"
    using selected_named [OF c range] by blast
  have dist: "distinct (map (\<lambda>a. fld_name (eca_fld a)) (selected_attributes c m))"
    unfolding sel [symmetric] named_attributes_filter
    by (rule distinct_names_filter [OF known_class(2) [OF c]])
  note dc = data_codec [OF sf dist ok [unfolded v]]
  have fit: "od_get (fld_name (eca_fld a)) d = Some (?v a) \<and> fits (eca_fld a) (?v a)"
    if "a \<in> set (attributes c)" "fld_name (eca_fld a) \<in> S" for a
    using dc(2) [of a] that unfolding sel [symmetric] named_attributes_filter by simp
  obtain bs where "\<forall>s. OmciMaskedData_addfield add cid m s (DictV d) = Inr (s @ bs)"
      "\<forall>rest. OmciMaskedData_getfield get cid m (bs @ rest) =
         Inr (rest, od_of (map (\<lambda>a. (fld_name (eca_fld a), ?v a)) (selected_attributes c m)) [])"
    using masked_data_codec [where v = ?v, OF sf c S fit] unfolding sel by blast
  then show ?thesis by (intro exI [of _ bs]) (simp add: v dc(1,3))
qed

lemmas scapy_laws = scapy_ok_def [THEN iffD1, THEN conjunct1]
  scapy_ok_def [THEN iffD1, THEN conjunct2]

lemma field_codec:
  assumes sc: "scapy_ok sc fits" and v: "od_get (mfld_name f) flds = Some v"
    and wf: "mfld_wf fits flds f v" and deps: "\<forall>n \<in> set (mfld_deps f). od_get n flds \<noteq> None"
  shows "\<exists>bs. (\<forall>s. msg_add sc mc flds f s = Inr (s @ bs)) \<and>
    (\<forall>acc rest. (\<forall>n \<in> set (mfld_deps f). od_get n acc = od_get n flds) \<longrightarrow>
       msg_get sc mc f acc (bs @ rest) = Inr (rest, v)) \<and>
    (\<forall>g. f = Fld g \<longrightarrow> length bs = field_size (fld_kind g))"
  using v wf deps
proof (induction f)
  case (Fld f)
  then have "fits f v" by simp
  with scapy_laws(1) [OF sc] obtain bs where "length bs = field_size (fld_kind f)"
      "\<forall>s. sc_add sc f s v = Inr (s @ bs)" "\<forall>rest. sc_get sc f (bs @ rest) = Inr (rest, v)"
    unfolding scapy_fields_def by blast
  with Fld.prems(1) show ?case by (intro exI [of _ bs]) (simp add: msg_attr_def)
next
  case (OmciData n ec)
  then obtain cid c where cid: "od_get ec flds = Some (IntV cid)"
      "od_get cid entity_id_to_class_map = Some c" "data_ok fits (set_by_create c) v"
    by (auto split: option.splits fval.splits)
  from create_data_codec [OF scapy_laws(1) [OF sc] cid(2,3)] obtain bs where
    "(\<forall>s. OmciData_addfield (sc_add sc) cid s v = Inr (s @ bs))"
    "(\<forall>rest. rbind (OmciData_getfield (sc_get sc) cid (bs @ rest)) (\<lambda>(s, d). Inr (s, DictV d)) = Inr (rest, v))"
    by blast
  with OmciData.prems(1) cid(1) show ?case
    by (intro exI [of _ bs]) (simp add: msg_attr_def)
next
  case (OmciMaskedData n ec am)
  then obtain cid m c where cid: "od_get ec flds = Some (IntV cid)" "od_get am flds = Some (IntV m)"
      "od_get cid entity_id_to_class_map = Some c" "mask_in_range c m"
      "data_ok fits (selected_attributes c m) v"
    by (auto split: option.splits fval.splits)
  from masked_codec [OF scapy_laws(1) [OF sc] cid(3,4,5)] obtain bs where
    "(\<forall>s. OmciMaskedData_addfield (sc_add sc) cid m s v = Inr (s @ bs))"
    "(\<forall>rest. rbind (OmciMaskedData_getfield (sc_get sc) cid m (bs @ rest)) (\<lambda>(s, d). Inr (s, DictV d)) = Inr (rest, v))"
    by blast
  with OmciMaskedData.prems(1) cid(1,2) show ?case
    by (intro exI [of _ bs]) (simp add: msg_attr_def)
next
  case (OnSuccess f)
  have cond: "sc_cond_add sc b g s = (if b then g s else Inr s)"
      "sc_cond_get sc b h s = (if b then h s else Inr (s, NoneV))" for b g h s
    using sc by (auto simp: scapy_ok_def)
  show ?case
  proof (cases "od_get ''success_code'' flds = Some (IntV 0)")
    case True
    with OnSuccess.IH OnSuccess.prems obtain bs where "\<forall>s. msg_add sc mc flds f s = Inr (s @ bs)"
        "\<forall>acc rest. (\<forall>n \<in> set (mfld_deps f). od_get n acc = od_get n flds) \<longrightarrow>
           msg_get sc mc f acc (bs @ rest) = Inr (rest, v)"
      by auto
    with True show ?thesis by (intro exI [of _ bs]) (simp add: cond msg_attr_def)
  next
    case False
    with OnSuccess.prems obtain w where w: "od_get ''success_code'' flds = Some w" "w \<noteq> IntV 0" by auto
    with OnSuccess.prems(2) show ?thesis
      by (intro exI [of _ "[]"]) (simp add: cond msg_attr_def)
  qed
qed

section \<open>Round trips\<close>

lemma message_codec:
  assumes sc: "scapy_ok sc fits" and "distinct (map fst flds)" and "flds = acc @ flds'"
    and "list_all2 (\<lambda>f (n, v). n = mfld_name f \<and> mfld_wf fits flds f v) fs flds'"
    and "deps_ok (map fst acc) fs" and "all_but_last_fixed fs"
  shows "\<exists>bs. (\<forall>s. py_for (\<lambda>f s. f s) (map (msg_add sc mc flds) fs) s = Inr (s @ bs)) \<and>
    pre_size fs \<le> length bs \<and>
    (\<forall>rest. pre_size fs < length (bs @ rest) \<longrightarrow>
       packet_loop (map (\<lambda>f. (mfld_name f, msg_get sc mc f)) fs) acc (bs @ rest) = Inr (rest, flds))"
  using assms(3-)
proof (induction fs arbitrary: acc flds')
  case Nil
  then show ?case by simp
next
  case (Cons f fs)
  from Cons.prems(2) obtain v flds'' where f': "flds' = (mfld_name f, v) # flds''"
      and v: "mfld_wf fits flds f v"
      and rest: "list_all2 (\<lambda>f (n, v). n = mfld_name f \<and> mfld_wf fits flds f v) fs flds''"
    by (auto simp: list_all2_Cons1)
  have wf: "od_wf flds" using assms(2) by (simp add: od_wf_def)
  have get: "od_get n flds = od_get n acc" if "n \<in> fst ` set acc" for n
    using that by (auto simp: Cons.prems(1) od_get_def map_add_def split: option.splits
        dest: weak_map_of_SomeI)
  have deps: "set (mfld_deps f) \<subseteq> fst ` set acc" using Cons.prems(3) by simp
  have "od_get (mfld_name f) flds = Some v"
    using wf by (simp add: od_get_in Cons.prems(1) f')
  moreover have "\<forall>n \<in> set (mfld_deps f). od_get n flds \<noteq> None"
    using deps by (auto simp: od_get_None Cons.prems(1))
  ultimately obtain b where b: "\<And>s. msg_add sc mc flds f s = Inr (s @ b)"
      "\<And>acc rest. \<forall>n \<in> set (mfld_deps f). od_get n acc = od_get n flds \<Longrightarrow>
         msg_get sc mc f acc (b @ rest) = Inr (rest, v)"
      "\<And>g. f = Fld g \<Longrightarrow> length b = field_size (fld_kind g)"
    using field_codec [OF sc _ v] by blast
  have fixed: "all_but_last_fixed fs" and "pre_size (f # fs) = (if fs = [] then 0 else length b + pre_size fs)"
    using Cons.prems(4) b(3) by (cases f; cases fs; simp)+
  have acc: "flds = (acc @ [(mfld_name f, v)]) @ flds''" using Cons.prems(1) f' by simp
  have "deps_ok (map fst (acc @ [(mfld_name f, v)])) fs" using Cons.prems(3) by simp
  from Cons.IH [OF acc rest this fixed] obtain bs where bs:
      "\<And>s. py_for (\<lambda>f s. f s) (map (msg_add sc mc flds) fs) s = Inr (s @ bs)" "pre_size fs \<le> length bs"
      "\<And>rest. pre_size fs < length (bs @ rest) \<Longrightarrow>
        packet_loop (map (\<lambda>f. (mfld_name f, msg_get sc mc f)) fs) (acc @ [(mfld_name f, v)]) (bs @ rest)
          = Inr (rest, flds)"
    by blast
  have new: "od_set (mfld_name f) v acc = acc @ [(mfld_name f, v)]"
    using assms(2) Cons.prems(1) f' by (auto intro: od_set_distinct_append)
  have "packet_loop (map (\<lambda>f. (mfld_name f, msg_get sc mc f)) (f # fs)) acc ((b @ bs) @ rest) = Inr (rest, flds)"
    if len: "pre_size (f # fs) < length ((b @ bs) @ rest)" for rest
  proof -
    have "b @ bs @ rest \<noteq> []" using len by auto
    moreover have "msg_get sc mc f acc (b @ bs @ rest) = Inr (bs @ rest, v)"
      by (rule b(2)) (use get deps in \<open>simp add: subset_iff\<close>)
    moreover have "packet_loop (map (\<lambda>f. (mfld_name f, msg_get sc mc f)) fs) (acc @ [(mfld_name f, v)])
        (bs @ rest) = Inr (rest, flds)"
    proof (cases fs)
      case Nil
      with rest acc bs(1) [of "[]"] show ?thesis by simp
    next
      case (Cons g gs)
      with len \<open>pre_size (f # fs) = _\<close> show ?thesis by (intro bs(3)) simp
    qed
    ultimately show ?thesis by (auto simp: new)
  qed
  moreover have "pre_size (f # fs) \<le> length (b @ bs)"
    using \<open>pre_size (f # fs) = _\<close> bs(2) by simp
  moreover have "py_for (\<lambda>f s. f s) (map (msg_add sc mc flds) (f # fs)) s = Inr (s @ b @ bs)" for s
    by (simp add: b(1) bs(1))
  ultimately show ?case by (intro exI [of _ "b @ bs"]) blast
qed

lemma message_in_36_bytes:
  assumes sc: "scapy_ok sc fits" and mc: "mc \<in> set message_classes" and wf: "msg_wf fits mc mflds"
  shows "\<exists>bs. msg_build sc mc mflds [] = Inr bs \<and> bs \<noteq> [] \<and>
    (\<forall>n. length bs + n = 36 \<longrightarrow> msg_dissect sc mc (bs @ replicate n 0) = Inr (replicate n 0, mflds))"
proof -
  have ok: "message_class_ok mc" using message_classes_ok mc by (simp add: list_all_iff)
  have names: "map fst mflds = map mfld_name (fields_desc mc)"
    using wf unfolding msg_wf_def
    by (intro nth_equalityI) (auto simp: list_all2_conv_all_nth case_prod_unfold)
  have d: "distinct (map fst mflds)" using ok by (simp add: names message_class_ok_def)
  have cls: "deps_ok (map fst []) (fields_desc mc)" "all_but_last_fixed (fields_desc mc)"
    using ok by (simp_all add: message_class_ok_def)
  obtain bs where bs: "\<And>s. py_for (\<lambda>f s. f s) (map (msg_add sc mc mflds) (fields_desc mc)) s = Inr (s @ bs)"
      "pre_size (fields_desc mc) \<le> length bs"
      "\<And>rest. pre_size (fields_desc mc) < length (bs @ rest) \<Longrightarrow>
        packet_loop (map (\<lambda>f. (mfld_name f, msg_get sc mc f)) (fields_desc mc)) [] (bs @ rest) = Inr (rest, mflds)"
    using message_codec [OF sc d append_Nil [symmetric] wf [unfolded msg_wf_def] cls] by blast
  have laws: "sc_build sc fs pay = rbind (py_for (\<lambda>f s. f s) fs []) (\<lambda>s. Inr (s @ pay))"
      "sc_dissect sc gs s = packet_loop gs [] s" for fs pay gs s
    using sc by (simp_all add: scapy_ok_def)
  have "bs \<noteq> []" using bs(2) ok by (auto simp: message_class_ok_def)
  moreover have "msg_dissect sc mc (bs @ replicate n 0) = Inr (replicate n 0, mflds)"
    if "length bs + n = 36" for n
    unfolding msg_dissect_def laws by (rule bs(3)) (use that ok in \<open>simp add: message_class_ok_def\<close>)
  ultimately show ?thesis
    by (intro exI [of _ bs]) (simp add: msg_build_def laws bs(1))
qed

lemma frame_attr_simps [simp]:
  "od_get n flds = Some v \<Longrightarrow> frame_attr flds n = v"
  "n \<noteq> k \<Longrightarrow> frame_attr (od_set k v flds) n = frame_attr flds n"
  by (simp_all add: frame_attr_def)

lemma skip_messages:
  assumes sc: "scapy_ok sc fits" and "\<forall>c \<in> set cs. message_id c \<noteq> mid"
    and "frame_attr flds ''message_type'' = IntV mid" and "s \<noteq> []"
  shows "dissect_loop sc (map FrameMsg cs @ fs) flds s =
    dissect_loop sc fs (if cs = [] \<or> od_get ''omci_message'' flds \<noteq> None then flds
                        else od_set ''omci_message'' NoneV flds) s"
  using assms(2,3)
proof (induction cs arbitrary: flds)
  case Nil
  then show ?case by simp
next
  case (Cons c cs)
  have "sc_cond_get sc False g s = Inr (s, NoneV)" for g
    using sc by (simp add: scapy_ok_def)
  with Cons.prems have get: "frame_get sc (FrameMsg c) flds s = Inr (s, NoneV)" by simp
  then show ?case
    using Cons.IH [of flds] Cons.IH [of "od_set ''omci_message'' NoneV flds"] Cons.prems assms(4)
    by auto
qed

lemma skip_message_adds:
  assumes sc: "scapy_ok sc fits" and "\<forall>c \<in> set cs. message_id c \<noteq> mid"
    and "frame_attr flds ''message_type'' = IntV mid"
  shows "py_for (\<lambda>f s. f s) (map (frame_add sc flds) (map FrameMsg cs)) s = Inr s"
  using assms(2)
proof (induction cs)
  case (Cons c cs)
  have "sc_cond_add sc False g s = Inr s" for g using sc by (simp add: scapy_ok_def)
  with Cons assms(3) show ?case by simp
qed simp

lemma frame_message_padded:
  assumes sc: "scapy_ok sc fits" and mc: "mc \<in> set message_classes"
    and "frame_attr flds ''message_type'' = IntV (message_id mc)"
    and "frame_attr flds ''omci_message'' = PktV (message_id mc) mflds []"
    and mb: "msg_build sc mc mflds [] = Inr mb"
  shows "frame_add sc flds (FrameMsg mc) s =
    Inr (s @ mb @ replicate ((36 - length mb mod 36) mod 36) 0)"
proof -
  have "find (\<lambda>c. message_id c = message_id mc) message_classes = Some mc"
    using mc message_ids_distinct by (auto simp: find_Some_iff in_set_conv_nth distinct_conv_nth)
  moreover have "sc_cond_add sc True g s = g s" "sc_packet_add sc (Some (Inr bs)) s = Inr (s @ bs)"
      "f [] = Inr bs \<Longrightarrow> sc_pad_add sc k f s = Inr (s @ bs @ replicate ((k - length bs mod k) mod k) 0)"
    for g s bs f k using sc by (simp_all add: scapy_ok_def)
  ultimately show ?thesis by (simp add: assms(3,4) mb)
qed

lemma frame_message_add:
  assumes "scapy_ok sc fits" and "mc \<in> set message_classes"
    and "frame_attr flds ''message_type'' = IntV (message_id mc)"
    and "frame_attr flds ''omci_message'' = PktV (message_id mc) mflds []"
    and mb: "msg_build sc mc mflds [] = Inr mb" "mb \<noteq> []" "length mb + n = 36"
  shows "frame_add sc flds (FrameMsg mc) s = Inr (s @ mb @ replicate n 0)"
proof -
  have "(36 - length mb mod 36) mod 36 = n"
    using mb(2,3) by (cases "length mb = 36") auto
  then show ?thesis using frame_message_padded [OF assms(1-4) mb(1)] by simp
qed

text \<open>
  Only parsing is limited to 36 bytes: a message of 37 to 72 bytes is padded to 72, and the
  frame it is part of has 80 bytes instead of 44.
\<close>

lemma oversized_message:
  assumes "scapy_ok sc fits" and "mc \<in> set message_classes"
    and "frame_attr flds ''message_type'' = IntV (message_id mc)"
    and "frame_attr flds ''omci_message'' = PktV (message_id mc) mflds []"
    and mb: "msg_build sc mc mflds [] = Inr mb" "36 < length mb" "length mb \<le> 72"
  shows "\<exists>bs. frame_add sc flds (FrameMsg mc) s = Inr (s @ bs) \<and> length bs = 72"
proof -
  have "length mb + (36 - length mb mod 36) mod 36 = 72"
    using mb(2,3) by (simp add: mod_if split: if_splits) presburger
  then show ?thesis using frame_message_padded [OF assms(1-4) mb(1)] by simp
qed

lemma frame_message_get:
  assumes sc: "scapy_ok sc fits" and "frame_attr flds ''message_type'' = IntV (message_id mc)"
    and "msg_dissect sc mc (mb @ replicate n 0) = Inr (replicate n 0, mflds)" and "length mb + n = 36"
  shows "frame_get sc (FrameMsg mc) flds (mb @ replicate n 0 @ rest) =
    Inr (rest, PktV (message_id mc) mflds [])"
proof -
  have laws: "sc_cond_get sc True g s = g s"
      "d s = Inr (r, fl) \<Longrightarrow> sc_packet_get sc d s = Inr ([], fl, r)" for g s d r fl
    using sc by (simp_all add: scapy_ok_def)
  have "take 36 (mb @ replicate n 0 @ rest) = mb @ replicate n 0" "drop 36 (mb @ replicate n 0 @ rest) = rest"
    using assms(4) by auto
  moreover have "sc_packet_get sc (msg_dissect sc mc) (mb @ replicate n 0) = Inr ([], mflds, replicate n 0)"
    using laws(2) [of "msg_dissect sc mc", OF assms(3)] .
  ultimately show ?thesis
    by (simp add: laws(1) assms(2) FixedLenField_getfield_def)
qed

text \<open>A concrete reading of the laws of \<open>scapy_ok\<close>.\<close>

definition be_scapy :: scapy where
  "be_scapy = \<lparr>
     sc_add = be_add, sc_get = be_get,
     sc_build = (\<lambda>fs pay. rbind (py_for (\<lambda>f s. f s) fs []) (\<lambda>s. Inr (s @ pay))),
     sc_dissect = (\<lambda>gs s. packet_loop gs [] s),
     sc_cond_add = (\<lambda>b f s. if b then f s else Inr s),
     sc_cond_get = (\<lambda>b g s. if b then g s else Inr (s, NoneV)),
     sc_pad_add = (\<lambda>n f s. rbind (f []) (\<lambda>bs. Inr (s @ bs @ replicate ((n - length bs mod n) mod n) 0))),
     sc_packet_add = (\<lambda>r s. case r of None \<Rightarrow> Inl TypeError | Some r \<Rightarrow> rbind r (\<lambda>bs. Inr (s @ bs))),
     sc_packet_get = (\<lambda>d s. rbind (d s) (\<lambda>(rest, flds). Inr ([], flds, rest)))\<rparr>"

lemma be_scapy_ok: "scapy_ok be_scapy be_fits"
  by (simp add: scapy_ok_def be_scapy_def be_scapy_fields)

section \<open>The bytes of a frame\<close>

text \<open>The bytes \<open>bs\<close> stand for the value \<open>v\<close> of a field, in both directions.\<close>

definition codes :: "scapy \<Rightarrow> ofld \<Rightarrow> fval \<Rightarrow> bytes \<Rightarrow> bool" where
  "codes sc f v bs \<longleftrightarrow> length bs = field_size (fld_kind f) \<and> (\<forall>s. sc_add sc f s v = Inr (s @ bs)) \<and>
     (\<forall>rest. sc_get sc f (bs @ rest) = Inr (rest, v))"

lemma field_codes: "scapy_ok sc fits \<Longrightarrow> fits f v \<Longrightarrow> \<exists>bs. codes sc f v bs"
  by (simp add: scapy_ok_def scapy_fields_def codes_def)

lemma other_ids:
  assumes "message_classes = pre @ mc # post"
  shows "\<forall>c \<in> set pre. message_id c \<noteq> message_id mc" and "\<forall>c \<in> set post. message_id c \<noteq> message_id mc"
proof -
  have "message_id mc \<notin> message_id ` set pre" "message_id mc \<notin> message_id ` set post"
    using message_ids_distinct unfolding assms by simp_all
  then show "\<forall>c \<in> set pre. message_id c \<noteq> message_id mc" and "\<forall>c \<in> set post. message_id c \<noteq> message_id mc"
    by (metis imageI)+
qed

lemma frame_build_bytes:
  assumes sc: "scapy_ok sc fits" and mc: "mc \<in> set message_classes"
    and mb: "msg_build sc mc mflds [] = Inr mb" "mb \<noteq> []" "length mb + n = 36"
    and bt: "codes sc (ofld ShortField ''transaction_id'' (IntV 0)) t bt"
    and bm: "codes sc (ofld ByteField ''message_type'' NoneV) (IntV (message_id mc)) bm"
    and bo: "codes sc (ofld ByteField ''omci'' (IntV 0x0a)) om bo"
    and br: "codes sc (ofld IntField ''omci_trailer'' (IntV 0x28)) tr br"
    and fr: "fr = [(''transaction_id'', t), (''message_type'', IntV (message_id mc)), (''omci'', om),
      (''omci_message'', PktV (message_id mc) mflds []), (''omci_trailer'', tr)]"
  shows "OmciFrame_build sc fr = Inr (bt @ bm @ bo @ (mb @ replicate n 0) @ br)"
proof -
  obtain pre post where cls: "message_classes = pre @ mc # post" using split_list [OF mc] by blast
  have attr: "frame_attr fr ''message_type'' = IntV (message_id mc)"
      "frame_attr fr ''omci_message'' = PktV (message_id mc) mflds []"
      "frame_attr fr ''transaction_id'' = t" "frame_attr fr ''omci'' = om" "frame_attr fr ''omci_trailer'' = tr"
    by (simp_all add: fr)
  have "sc_build sc fs [] = py_for (\<lambda>f s. f s) fs []" for fs
    using sc by (simp add: scapy_ok_def rbind_def split: sum.splits)
  then show ?thesis
    using skip_message_adds [OF sc other_ids(1) [OF cls] attr(1)] skip_message_adds [OF sc other_ids(2) [OF cls] attr(1)]
      frame_message_add [OF sc mc attr(1,2) mb] bt bm bo br
    by (simp add: codes_def OmciFrame_build_def OmciFrame_fields_desc_def cls py_for_append attr(3-) attr(1)
        del: map_map frame_add.simps(2))
qed

lemma frame_dissect_bytes:
  assumes sc: "scapy_ok sc fits" and mc: "mc \<in> set message_classes"
    and m: "msg_dissect sc mc (mb @ replicate n 0) = Inr (replicate n 0, mflds)" "length mb + n = 36"
    and bt: "codes sc (ofld ShortField ''transaction_id'' (IntV 0)) t bt"
    and bm: "codes sc (ofld ByteField ''message_type'' NoneV) (IntV (message_id mc)) bm"
    and bo: "codes sc (ofld ByteField ''omci'' (IntV 0x0a)) om bo"
    and br: "codes sc (ofld IntField ''omci_trailer'' (IntV 0x28)) tr br"
  shows "do_dissect sc (bt @ bm @ bo @ (mb @ replicate n 0) @ br @ rest) =
    Inr (rest, [(''transaction_id'', t), (''message_type'', IntV (message_id mc)), (''omci'', om),
      (''omci_message'', PktV (message_id mc) mflds []), (''omci_trailer'', tr)])"
proof -
  obtain pre post where cls: "message_classes = pre @ mc # post" using split_list [OF mc] by blast
  let ?tr = "FrameFld (ofld IntField ''omci_trailer'' (IntV 0x28))"
  let ?f3 = "[(''transaction_id'', t), (''message_type'', IntV (message_id mc)), (''omci'', om)]"
  let ?F = "if pre = [] then ?f3 else od_set ''omci_message'' NoneV ?f3"
  let ?F4 = "?f3 @ [(''omci_message'', PktV (message_id mc) mflds [])]"
  have ne: "bt \<noteq> []" "bm \<noteq> []" "bo \<noteq> []" "br \<noteq> []" using bt bm bo br by (auto simp: codes_def)
  then have mb_ne: "mb @ replicate n 0 @ br @ rest \<noteq> []" and br_ne: "br @ rest \<noteq> []" by auto
  have "dissect_loop sc OmciFrame_fields_desc [] (bt @ bm @ bo @ (mb @ replicate n 0) @ br @ rest) =
      dissect_loop sc (map FrameMsg pre @ FrameMsg mc # map FrameMsg post @ [?tr]) ?f3
        (mb @ replicate n 0 @ br @ rest)"
    using bt bm bo by (simp add: codes_def OmciFrame_fields_desc_def cls ne)
  also have "\<dots> = dissect_loop sc (FrameMsg mc # map FrameMsg post @ [?tr]) ?F (mb @ replicate n 0 @ br @ rest)"
    by (subst skip_messages [OF sc other_ids(1) [OF cls] _ mb_ne]) (simp_all del: dissect_loop.simps od_set.simps)
  also have "\<dots> = dissect_loop sc (map FrameMsg post @ [?tr]) ?F4 (br @ rest)"
    using frame_message_get [OF sc _ m, of ?F "br @ rest"] mb_ne
    by (auto simp del: frame_get.simps(2))
  also have "\<dots> = dissect_loop sc [?tr] ?F4 (br @ rest)"
    by (subst skip_messages [OF sc other_ids(2) [OF cls] _ br_ne]) simp_all
  finally show ?thesis using br_ne br by (simp add: do_dissect_def codes_def)
qed

section \<open>Properties\<close>

text \<open>
  C23. Frames survive the wire: a frame with a message of any of the eighteen classes, whose
  fields and data fit and whose message takes at most 36 bytes, is built as 44 bytes, and
  \<^verbatim>\<open>OmciFrame.do_dissect\<close> of these bytes, whatever follows them, returns the frame with
  every field as it was and leaves what follows.
\<close>

theorem frame_round_trip:
  assumes sc: "scapy_ok sc fits" and mc: "mc \<in> set message_classes" and wf: "msg_wf fits mc mflds"
    and mb: "msg_build sc mc mflds [] = Inr mb" "length mb \<le> 36"
    and t: "fits (ofld ShortField ''transaction_id'' (IntV 0)) t"
    and mt: "fits (ofld ByteField ''message_type'' NoneV) (IntV (message_id mc))"
    and om: "fits (ofld ByteField ''omci'' (IntV 0x0a)) om"
    and tr: "fits (ofld IntField ''omci_trailer'' (IntV 0x28)) tr"
    and fr: "fr = [(''transaction_id'', t), (''message_type'', IntV (message_id mc)), (''omci'', om),
      (''omci_message'', PktV (message_id mc) mflds []), (''omci_trailer'', tr)]"
  shows "\<exists>bs. OmciFrame_build sc fr = Inr bs \<and> length bs = 44 \<and>
    (\<forall>rest. do_dissect sc (bs @ rest) = Inr (rest, fr))"
proof -
  obtain n where n: "length mb + n = 36" using mb(2) le_Suc_ex by metis
  have m: "mb \<noteq> []" "msg_dissect sc mc (mb @ replicate n 0) = Inr (replicate n 0, mflds)"
    using message_in_36_bytes [OF sc mc wf] mb(1) n by auto
  obtain bt bm bo br where codes: "codes sc (ofld ShortField ''transaction_id'' (IntV 0)) t bt"
      "codes sc (ofld ByteField ''message_type'' NoneV) (IntV (message_id mc)) bm"
      "codes sc (ofld ByteField ''omci'' (IntV 0x0a)) om bo"
      "codes sc (ofld IntField ''omci_trailer'' (IntV 0x28)) tr br"
    using field_codes [OF sc t] field_codes [OF sc mt] field_codes [OF sc om] field_codes [OF sc tr] by blast
  have "length (bt @ bm @ bo @ (mb @ replicate n 0) @ br) = 44" using codes n by (simp add: codes_def)
  then show ?thesis
    using frame_build_bytes [OF sc mc mb(1) m(1) n codes fr] frame_dissect_bytes [OF sc mc m(2) n codes]
    by (intro exI [of _ "bt @ bm @ bo @ (mb @ replicate n 0) @ br"]) (simp add: fr)
qed

theorem frame_round_trip_witness:
  "\<exists>bs. OmciFrame_build be_scapy [(''transaction_id'', IntV 7), (''message_type'', IntV 0x48), (''omci'', IntV 10),
      (''omci_message'', PktV 0x48 [(''entity_class'', IntV 262), (''entity_id'', IntV 0x8001),
         (''attributes_mask'', IntV 0x8000), (''data'', DictV [(''alloc_id'', IntV 1024)])] []),
      (''omci_trailer'', IntV 0x28)] = Inr bs \<and> length bs = 44 \<and>
    (\<forall>rest. do_dissect be_scapy (bs @ rest) = Inr (rest,
      [(''transaction_id'', IntV 7), (''message_type'', IntV 0x48), (''omci'', IntV 10),
      (''omci_message'', PktV 0x48 [(''entity_class'', IntV 262), (''entity_id'', IntV 0x8001),
         (''attributes_mask'', IntV 0x8000), (''data'', DictV [(''alloc_id'', IntV 1024)])] []),
      (''omci_trailer'', IntV 0x28)]))"
proof (rule frame_round_trip [where mc = OmciSet and mb = "[1, 6, 0x80, 1, 0x80, 0, 4, 0]", OF be_scapy_ok])
  show "OmciSet \<in> set message_classes" by (simp add: message_classes_def)
  show "msg_wf be_fits OmciSet [(''entity_class'', IntV 262), (''entity_id'', IntV 0x8001),
         (''attributes_mask'', IntV 0x8000), (''data'', DictV [(''alloc_id'', IntV 1024)])]"
    by code_simp
  show "msg_build be_scapy OmciSet [(''entity_class'', IntV 262), (''entity_id'', IntV 0x8001),
         (''attributes_mask'', IntV 0x8000), (''data'', DictV [(''alloc_id'', IntV 1024)])] [] =
      Inr [1, 6, 0x80, 1, 0x80, 0, 4, 0]"
  proof -
    have "od_get 262 entity_id_to_class_map = Some Tcont" "attribute_indices_from_mask 0x8000 = Inr [1]"
      by code_simp+
    moreover have "be_enc 2 v = [of_nat (v div 256), of_nat v]" for v by (simp add: numeral_2_eq_2)
    ultimately show ?thesis
      by (simp add: msg_build_def be_scapy_def OmciSet_def msg_attr_def OmciMaskedData_addfield_def
          be_add_def Tcont_def py_index_def dict_lookup_def)
  qed
qed (simp_all add: OmciSet_def is_number_def)

end
