(* ===== verification/Sharding.thy ===== *)
theory Sharding
  imports Prelude
begin

text \<open>
  Sharding of work over the members of a cluster: \<^verbatim>\<open>src/voltha/leader.py\<close> and
  \<^verbatim>\<open>src/voltha/worker.py\<close>.

  The leader watches the members and the workload, computes which member should do which work
  with a consistent hash, and edits the assignment entries of the key-value store accordingly;
  each worker reads the entries under its own id.  The store (Consul) and the hash ring are not
  part of the program: the store is a record of functions on an abstract state, with the laws
  \<open>consul_ok\<close>, and the ring is an argument.  Waiting for the store is not modelled; its
  failures are (in the retry loop of the coordinator, theory \<open>Leadership\<close>).

  The order in which Python runs through a dictionary or a set is not fixed; the model takes the
  order of insertion, and the properties speak only of the resulting entries.
\<close>

section \<open>Keys\<close>

definition strip_prefix :: "string \<Rightarrow> string \<Rightarrow> string option" where
  "strip_prefix p k = (if take (length p) k = p then Some (drop (length p) k) else None)"

definition valid_id :: "string \<Rightarrow> bool" where
  "valid_id s \<longleftrightarrow> s \<noteq> [] \<and> CHR ''/'' \<notin> set s"

text \<open>
  The two regular expressions: the prefix and an id, and the prefix, a member id, a slash and a
  work id, where an id is a non-empty string without a slash. The prefix stands for itself: the source
  puts it into the expression as it is, which is the same for a prefix without special characters, such as
  those that are shipped.
\<close>

definition id_match :: "string \<Rightarrow> string \<Rightarrow> string option" where
  "id_match p k =
     (case strip_prefix p k of
        None \<Rightarrow> None
      | Some r \<Rightarrow> if valid_id r then Some r else None)"

definition assignment_match :: "string \<Rightarrow> string \<Rightarrow> (string \<times> string) option" where
  "assignment_match p k =
     (case strip_prefix p k of
        None \<Rightarrow> None
      | Some r \<Rightarrow>
          (case dropWhile (\<lambda>c. c \<noteq> CHR ''/'') r of
             [] \<Rightarrow> None
           | _ # w \<Rightarrow>
               let m = takeWhile (\<lambda>c. c \<noteq> CHR ''/'') r in
               if valid_id m \<and> valid_id w then Some (m, w) else None))"

definition assignment_key :: "string \<Rightarrow> string \<Rightarrow> string \<Rightarrow> string" where
  "assignment_key p m w = p @ m @ ''/'' @ w"


section \<open>The key-value store\<close>

record 's consul =
  kv_recurse :: "string \<Rightarrow> 's \<Rightarrow> (string \<times> string) list option"
  kv_put :: "string \<Rightarrow> string \<Rightarrow> 's \<Rightarrow> 's"
  kv_delete :: "string \<Rightarrow> 's \<Rightarrow> 's"

definition entries :: "(string \<times> string) list option \<Rightarrow> (string \<times> string) list" where
  "entries r = (case r of None \<Rightarrow> [] | Some es \<Rightarrow> es)"

text \<open>
  What the program relies on of Consul, in terms of the value \<open>look s k\<close> of a key in a state: a
  recursive get returns exactly the entries whose keys start with the prefix, a put sets one key
  and a delete removes one.
\<close>

definition consul_ok :: "'s consul \<Rightarrow> ('s \<Rightarrow> string \<Rightarrow> string option) \<Rightarrow> bool" where
  "consul_ok c look \<longleftrightarrow>
     (\<forall>p s. set (entries (kv_recurse c p s)) =
        {(k, v). look s k = Some v \<and> take (length p) k = p}) \<and>
     (\<forall>k v s. look (kv_put c k v s) = (look s)(k \<mapsto> v)) \<and>
     (\<forall>k s. look (kv_delete c k s) = (look s)(k := None))"


section \<open>Leader\<close>

text \<open>\<^verbatim>\<open>d.setdefault(k, set()).add(w)\<close>\<close>

definition add_work :: "'k \<Rightarrow> string \<Rightarrow> ('k, string list) od \<Rightarrow> ('k, string list) od" where
  "add_work k w d = od_set k (List.insert w (case od_get k d of None \<Rightarrow> [] | Some ws \<Rightarrow> ws)) d"

type_synonym ring = "string list \<Rightarrow> string \<Rightarrow> string option"

definition wanted_assignments ::
    "ring \<Rightarrow> string list \<Rightarrow> string list \<Rightarrow> (string option, string list) od" where
  "wanted_assignments get_node members workload =
     fold (\<lambda>w. add_work (get_node members w) w) workload []"

definition current_assignments ::
    "string \<Rightarrow> (string \<times> string) list \<Rightarrow> (string, string list) od" where
  "current_assignments p results =
     fold (\<lambda>(k, v) d. case assignment_match p k of None \<Rightarrow> d | Some (m, w) \<Rightarrow> add_work m w d)
       results []"

definition work_of :: "'k \<Rightarrow> ('k, string list) od \<Rightarrow> string list" where
  "work_of k d = (case od_get k d of None \<Rightarrow> [] | Some ws \<Rightarrow> ws)"

definition difference :: "string list \<Rightarrow> string list \<Rightarrow> string list" where
  "difference xs ys = filter (\<lambda>x. x \<notin> set ys) xs"

definition work_to_revoke ::
    "(string option, string list) od \<Rightarrow> (string, string list) od \<Rightarrow> (string \<times> string) list" where
  "work_to_revoke wanted current =
     concat (map (\<lambda>(m, ws). map (Pair m) (difference ws (work_of (Some m) wanted))) current)"

definition work_to_assign ::
    "(string option, string list) od \<Rightarrow> (string, string list) od \<Rightarrow> (string option \<times> string) list" where
  "work_to_assign wanted current =
     concat (map (\<lambda>(mo, ws). map (Pair mo)
        (difference ws (case mo of None \<Rightarrow> [] | Some m \<Rightarrow> work_of m current))) wanted)"

fun revoke :: "'s consul \<Rightarrow> string \<Rightarrow> (string \<times> string) list \<Rightarrow> 's \<Rightarrow> 's" where
  "revoke c p [] s = s"
| "revoke c p ((m, w) # mws) s = revoke c p mws (kv_delete c (assignment_key p m w) s)"

text \<open>Adding \<^verbatim>\<open>None\<close> to a string raises: the ring has no node when there is no member.\<close>

fun assign :: "'s consul \<Rightarrow> string \<Rightarrow> (string option \<times> string) list \<Rightarrow> ('s, unit) st" where
  "assign c p [] s = (Inr (), s)"
| "assign c p ((None, w) # mws) s = (Inl TypeError, s)"
| "assign c p ((Some m, w) # mws) s = assign c p mws (kv_put c (assignment_key p m w) [] s)"

definition reassign_work ::
    "'s consul \<Rightarrow> ring \<Rightarrow> string \<Rightarrow> string list \<Rightarrow> string list \<Rightarrow> ('s, unit) st" where
  "reassign_work c get_node p members workload s =
     (let wanted = wanted_assignments get_node members workload;
          current = current_assignments p (entries (kv_recurse c p s))
      in assign c p (work_to_assign wanted current) (revoke c p (work_to_revoke wanted current) s))"

text \<open>\<^verbatim>\<open>_validate_workload\<close> writes a fixed number of entries under the workload prefix.\<close>

definition format_04d :: "nat \<Rightarrow> string" where
  "format_04d n = replicate (4 - length (str_nat n)) CHR ''0'' @ str_nat n"

definition validate_workload :: "'s consul \<Rightarrow> string \<Rightarrow> 's \<Rightarrow> 's" where
  "validate_workload c p s =
     fold (\<lambda>i. kv_put c (p @ ''device_group_'' @ format_04d (i + 1))
                 (''placeholder for device group '' @ str_nat (i + 1) @ '' data'')) [0..<100] s"

text \<open>
  The soak timer is a delayed call of the reactor; cancelling a call that was cancelled before
  raises.
\<close>

datatype timer = NoTimer | Pending | Called | Cancelled

definition restart_timer :: "timer \<Rightarrow> timer res" where
  "restart_timer t = (if t = Cancelled then Inl OtherException else Inr Pending)"

definition stop_timer :: "timer \<Rightarrow> timer" where
  "stop_timer t = (if t = Pending then Cancelled else t)"

record leader =
  halted :: bool
  workload :: "string list"
  members :: "string list"
  reassignment_soak_timer :: timer

definition Leader_init :: leader where
  "Leader_init = \<lparr>halted = False, workload = [], members = [], reassignment_soak_timer = NoTimer\<rparr>"

definition Leader_stop :: "leader \<Rightarrow> leader" where
  "Leader_stop l =
     l\<lparr>halted := True, reassignment_soak_timer := stop_timer (reassignment_soak_timer l)\<rparr>"

definition restart_reassignment_soak_timer :: "(leader, unit) st" where
  "restart_reassignment_soak_timer l =
     (case restart_timer (reassignment_soak_timer l) of
        Inl e \<Rightarrow> (Inl e, l)
      | Inr t \<Rightarrow> (Inr (), l\<lparr>reassignment_soak_timer := t\<rparr>))"

text \<open>
  One turn of a tracking loop ends with whether the loop slept after an error and whether it is
  scheduled again.  \<^verbatim>\<open>_track_members\<close> passes the default of \<^verbatim>\<open>dict.get\<close> to
  \<^verbatim>\<open>asleep\<close>, which raises instead of sleeping.
\<close>

record turn =
  slept :: bool
  again :: bool

definition ids_of :: "string \<Rightarrow> (string \<times> string) list \<Rightarrow> string list" where
  "ids_of p es = List.map_filter (\<lambda>(k, v). id_match p k) es"

definition track_workload ::
    "string \<Rightarrow> (string \<times> string) list option res \<Rightarrow> leader \<Rightarrow> turn \<times> leader" where
  "track_workload p results l =
     (let (r, l') =
        (case results of
           Inl e \<Rightarrow> (Inl e, l)
         | Inr None \<Rightarrow> (Inl TypeError, l)
         | Inr (Some es) \<Rightarrow>
             if ids_of p es \<noteq> workload l
             then restart_reassignment_soak_timer (l\<lparr>workload := ids_of p es\<rparr>)
             else (Inr (), l))
      in (\<lparr>slept = (r \<noteq> Inr ()), again = (\<not> halted l')\<rparr>, l'))"

definition track_members ::
    "string \<Rightarrow> (string \<times> string) list option res \<Rightarrow> leader \<Rightarrow> turn \<times> leader" where
  "track_members p results l =
     (let (r, l') =
        (case results of
           Inl e \<Rightarrow> (Inl e, l)
         | Inr es \<Rightarrow>
             if ids_of p (entries es) \<noteq> members l
             then restart_reassignment_soak_timer (l\<lparr>members := ids_of p (entries es)\<rparr>)
             else (Inr (), l))
      in (\<lparr>slept = False, again = (\<not> halted l')\<rparr>, l'))"

text \<open>The timer fires: \<^verbatim>\<open>_reassign_work\<close>, which tries again in a while if it raises.\<close>

definition reassignment_timer_fires ::
    "'s consul \<Rightarrow> ring \<Rightarrow> string \<Rightarrow> leader \<Rightarrow> 's \<Rightarrow> leader \<times> 's" where
  "reassignment_timer_fires c get_node p l s =
     (let l = l\<lparr>reassignment_soak_timer := Called\<rparr> in
      case reassign_work c get_node p (members l) (workload l) s of
        (Inl e, s') \<Rightarrow> (snd (restart_reassignment_soak_timer l), s')
      | (Inr _, s') \<Rightarrow> (l, s'))"


section \<open>Worker\<close>

record worker =
  instance_id :: string
  w_halted :: bool
  my_workload :: "string set"
  assignment_soak_timer :: timer
  my_candidate_workload :: "string set option"

definition Worker_init :: "string \<Rightarrow> worker" where
  "Worker_init i = \<lparr>instance_id = i, w_halted = False, my_workload = {},
     assignment_soak_timer = NoTimer, my_candidate_workload = Some {}\<rparr>"

definition Worker_stop :: "worker \<Rightarrow> worker" where
  "Worker_stop w = w\<lparr>assignment_soak_timer := stop_timer (assignment_soak_timer w)\<rparr>"

definition stash_and_restart_soak_timer :: "string set \<Rightarrow> (worker, unit) st" where
  "stash_and_restart_soak_timer candidate w =
     (case restart_timer (assignment_soak_timer w) of
        Inl e \<Rightarrow> (Inl e, w)
      | Inr t \<Rightarrow> (Inr (), w\<lparr>my_candidate_workload := Some candidate, assignment_soak_timer := t\<rparr>))"

text \<open>
  The worker asks for the entries under the assignment prefix followed by its id, without a
  slash, and takes every entry that looks like an assignment.
\<close>

definition worker_reads :: "'s consul \<Rightarrow> string \<Rightarrow> string \<Rightarrow> 's \<Rightarrow> string set" where
  "worker_reads c p i s =
     set (List.map_filter (\<lambda>(k, v). map_option snd (assignment_match p k))
       (entries (kv_recurse c (p @ i) s)))"

definition track_my_assignments :: "string set res \<Rightarrow> worker \<Rightarrow> turn \<times> worker" where
  "track_my_assignments result w =
     (let (r, w') =
        (case result of
           Inl e \<Rightarrow> (Inl e, w)
         | Inr ws \<Rightarrow> if ws \<noteq> my_workload w then stash_and_restart_soak_timer ws w else (Inr (), w))
      in (\<lparr>slept = (r \<noteq> Inr ()), again = (\<not> w_halted w')\<rparr>, w'))"

text \<open>
  The timer fires: \<^verbatim>\<open>_update_assignments\<close>, which raises if there is no candidate (the
  logging call takes its length).
\<close>

definition update_assignments :: "(worker, unit) st" where
  "update_assignments w =
     (case my_candidate_workload w of
        None \<Rightarrow> (Inl TypeError, w\<lparr>assignment_soak_timer := Called\<rparr>)
      | Some ws \<Rightarrow> (Inr (), w\<lparr>my_workload := ws, my_candidate_workload := None,
                            assignment_soak_timer := Called\<rparr>))"


section \<open>Lemmas\<close>

lemma strip_prefix_append [simp]: "strip_prefix p (p @ r) = Some r"
  by (simp add: strip_prefix_def)

lemma assignment_match_key [simp]:
  "valid_id m \<Longrightarrow> valid_id w \<Longrightarrow> assignment_match p (assignment_key p m w) = Some (m, w)"
  unfolding assignment_match_def assignment_key_def strip_prefix_append valid_id_def
  by (auto simp: dropWhile_append takeWhile_append Let_def)

lemma assignment_match_iff:
  "assignment_match p k = Some (m, w) \<longleftrightarrow> k = assignment_key p m w \<and> valid_id m \<and> valid_id w"
proof
  assume a: "assignment_match p k = Some (m, w)"
  then obtain r where r1: "strip_prefix p k = Some r"
    by (cases "strip_prefix p k") (simp_all add: assignment_match_def)
  with a obtain c w' where d: "dropWhile (\<lambda>c. c \<noteq> CHR ''/'') r = c # w'"
    by (cases "dropWhile (\<lambda>c. c \<noteq> CHR ''/'') r") (simp_all add: assignment_match_def)
  then have "c = CHR ''/''" using hd_dropWhile [of "\<lambda>c. c \<noteq> CHR ''/''" r] by simp
  with a r1 d have r: "strip_prefix p k = Some r" "dropWhile (\<lambda>c. c \<noteq> CHR ''/'') r = CHR ''/'' # w'"
      "m = takeWhile (\<lambda>c. c \<noteq> CHR ''/'') r" "w = w'" "valid_id m" "valid_id w"
    by (simp_all add: assignment_match_def Let_def split: if_splits)
  have "r = m @ ''/'' @ w" using r(2-4) by (metis append.left_neutral append_Cons takeWhile_dropWhile_id)
  moreover have "k = p @ r"
    using r(1) by (auto simp: strip_prefix_def split: if_splits) (metis append_take_drop_id)
  ultimately show "k = assignment_key p m w \<and> valid_id m \<and> valid_id w"
    using r(5,6) by (simp add: assignment_key_def)
qed auto

lemma work_of_add: "work_of k (add_work k' w d) = (if k = k' then List.insert w (work_of k d) else work_of k d)"
  by (simp add: work_of_def add_work_def)

lemma od_wf_add_work [simp]: "od_wf d \<Longrightarrow> od_wf (add_work k w d)"
  by (simp add: add_work_def)

lemma work_of_mem:
  "od_wf d \<Longrightarrow> w \<in> set (work_of k d) \<longleftrightarrow> (\<exists>ws. (k, ws) \<in> set d \<and> w \<in> set ws)"
  by (cases "od_get k d") (auto simp: work_of_def od_get_in [symmetric])

lemma wanted_fold:
  "od_wf d \<Longrightarrow> od_wf (fold (\<lambda>w. add_work (f w) w) ws d) \<and>
   (\<forall>k w. w \<in> set (work_of k (fold (\<lambda>w. add_work (f w) w) ws d)) \<longleftrightarrow>
      w \<in> set (work_of k d) \<or> w \<in> set ws \<and> f w = k)"
proof (induction ws arbitrary: d)
  case Nil
  then show ?case by simp
next
  case (Cons x ws)
  from Cons.IH [OF od_wf_add_work [OF Cons.prems]] show ?case
    by (auto simp: work_of_add split: if_splits)
qed

lemma wanted_work:
  "od_wf (wanted_assignments g ms ws)"
  "w \<in> set (work_of k (wanted_assignments g ms ws)) \<longleftrightarrow> w \<in> set ws \<and> g ms w = k"
  using wanted_fold [of "[]" "g ms" ws] by (auto simp: wanted_assignments_def work_of_def)

lemma current_fold:
  "od_wf d \<Longrightarrow>
   let d' = fold (\<lambda>(k, v) d. case assignment_match p k of None \<Rightarrow> d | Some (m, w) \<Rightarrow> add_work m w d) es d
   in od_wf d' \<and> (\<forall>m w. w \<in> set (work_of m d') \<longleftrightarrow>
      w \<in> set (work_of m d) \<or> (\<exists>k v. (k, v) \<in> set es \<and> assignment_match p k = Some (m, w)))"
proof (induction es arbitrary: d)
  case Nil
  then show ?case by simp
next
  case (Cons e es)
  obtain k v where e: "e = (k, v)" by (cases e)
  show ?case
  proof (cases "assignment_match p k")
    case None
    with Cons.IH [OF Cons.prems] show ?thesis by (auto simp: e Let_def)
  next
    case (Some mw)
    then obtain m w where mw: "assignment_match p k = Some (m, w)" by (cases mw) auto
    from Cons.IH [OF od_wf_add_work [OF Cons.prems], of m w] show ?thesis
      by (auto simp: e mw Let_def work_of_add split: if_splits)
  qed
qed

lemma current_work:
  "od_wf (current_assignments p es)"
  "w \<in> set (work_of m (current_assignments p es)) \<longleftrightarrow>
     (\<exists>k v. (k, v) \<in> set es \<and> assignment_match p k = Some (m, w))"
  using current_fold [of "[]" p es] by (auto simp: current_assignments_def work_of_def Let_def)

lemma revoke_mem:
  assumes "od_wf current"
  shows "(m, w) \<in> set (work_to_revoke wanted current) \<longleftrightarrow>
    w \<in> set (work_of m current) \<and> w \<notin> set (work_of (Some m) wanted)"
  unfolding work_of_mem [OF assms] by (auto simp: work_to_revoke_def difference_def)

lemma assign_mem:
  assumes "od_wf wanted"
  shows "(mo, w) \<in> set (work_to_assign wanted current) \<longleftrightarrow>
    w \<in> set (work_of mo wanted) \<and> (\<forall>m. mo = Some m \<longrightarrow> w \<notin> set (work_of m current))"
  unfolding work_of_mem [OF assms]
  by (cases mo) (auto simp: work_to_assign_def difference_def split: option.splits intro: rev_bexI)

lemma look_revoke:
  assumes "consul_ok c look"
  shows "look (revoke c p mws s) k =
    (if \<exists>m w. (m, w) \<in> set mws \<and> k = assignment_key p m w then None else look s k)"
  using assms by (induction c p mws s rule: revoke.induct) (auto simp: consul_ok_def)

lemma look_assign:
  assumes "consul_ok c look" and "\<forall>mo w. (mo, w) \<in> set mws \<longrightarrow> mo \<noteq> None"
  shows "fst (assign c p mws s) = Inr ()"
    and "look (snd (assign c p mws s)) k =
      (if \<exists>m w. (Some m, w) \<in> set mws \<and> k = assignment_key p m w then Some [] else look s k)"
  using assms by (induction c p mws s rule: assign.induct) (auto simp: consul_ok_def)


lemma reassign_effect:
  assumes c: "consul_ok c look" and ring: "\<forall>w \<in> set ws. get_node ms w \<noteq> None"
    and valid: "\<forall>w \<in> set ws. valid_id w" "\<forall>w m. w \<in> set ws \<longrightarrow> get_node ms w = Some m \<longrightarrow> valid_id m"
    and run: "reassign_work c get_node p ms ws s = (r, s')"
  shows "r = Inr ()"
    and "look s' k = (case assignment_match p k of
      None \<Rightarrow> look s k
    | Some (m, w) \<Rightarrow>
        if w \<in> set ws \<and> get_node ms w = Some m
        then (if look s k = None then Some [] else look s k) else None)"
proof -
  let ?W = "wanted_assignments get_node ms ws"
  let ?es = "entries (kv_recurse c p s)" 
  let ?C = "current_assignments p ?es"
  let ?A = "work_to_assign ?W ?C" and ?R = "work_to_revoke ?W ?C"
  have some: "\<forall>mo w. (mo, w) \<in> set ?A \<longrightarrow> mo \<noteq> None"
    using ring by (auto simp: assign_mem [OF wanted_work(1)] wanted_work(2))
  have res: "assign c p ?A (revoke c p ?R s) = (r, s')" using run by (simp add: reassign_work_def Let_def)
  show "r = Inr ()" using look_assign(1) [OF c some, of p "revoke c p ?R s"] res by simp
  have look: "look s' k = (if \<exists>m w. (Some m, w) \<in> set ?A \<and> k = assignment_key p m w then Some []
      else if \<exists>m w. (m, w) \<in> set ?R \<and> k = assignment_key p m w then None else look s k)"
  proof -
    have s': "s' = snd (assign c p ?A (revoke c p ?R s))" by (simp add: res)
    show ?thesis unfolding s' look_assign(2) [OF c some] look_revoke [OF c] by (rule refl)
  qed
  have cur: "w \<in> set (work_of m ?C) \<longleftrightarrow> look s (assignment_key p m w) \<noteq> None \<and> valid_id m \<and> valid_id w" for m w
  proof -
    have es: "set ?es = {(k, v). look s k = Some v \<and> take (length p) k = p}"
      using c by (simp add: consul_ok_def)
    show ?thesis
      unfolding current_work(2) es assignment_match_iff by (auto simp: assignment_key_def)
  qed
  have A: "(Some m, w) \<in> set ?A \<longleftrightarrow> w \<in> set ws \<and> get_node ms w = Some m \<and> look s (assignment_key p m w) = None" for m w
    using valid by (auto simp: assign_mem [OF wanted_work(1)] wanted_work(2) cur)
  have R: "(m, w) \<in> set ?R \<longleftrightarrow> look s (assignment_key p m w) \<noteq> None \<and> valid_id m \<and> valid_id w \<and>
      \<not> (w \<in> set ws \<and> get_node ms w = Some m)" for m w
    by (auto simp: revoke_mem [OF current_work(1)] wanted_work(2) cur)
  show "look s' k = (case assignment_match p k of None \<Rightarrow> look s k | Some (m, w) \<Rightarrow>
      if w \<in> set ws \<and> get_node ms w = Some m
      then (if look s k = None then Some [] else look s k) else None)"
  proof (cases "assignment_match p k")
    case None
    then have "k \<noteq> assignment_key p m w" if "valid_id m" "valid_id w" for m w using that by auto
    then show ?thesis using None valid by (auto simp: look A R)
  next
    case (Some mw)
    then obtain m w where mw: "assignment_match p k = Some (m, w)" by (cases mw) auto
    then have k: "k = assignment_key p m w" and v: "valid_id m" "valid_id w" by (auto simp: assignment_match_iff)
    have inj: "assignment_key p m w = assignment_key p m' w' \<longleftrightarrow> m = m' \<and> w = w'"
      if "valid_id m'" "valid_id w'" for m' w'
      using that v by (metis assignment_match_key option.inject prod.inject)
    have "(\<exists>m w. (Some m, w) \<in> set ?A \<and> k = assignment_key p m w) \<longleftrightarrow> (Some m, w) \<in> set ?A"
      using inj valid unfolding k A by blast
    moreover have "(\<exists>m w. (m, w) \<in> set ?R \<and> k = assignment_key p m w) \<longleftrightarrow> (m, w) \<in> set ?R"
      using inj unfolding k R by blast
    ultimately have "look s' k = (if (Some m, w) \<in> set ?A then Some []
        else if (m, w) \<in> set ?R then None else look s k)"
      unfolding look by (simp only:)
    then show ?thesis using v unfolding A R mw k by auto
  qed
qed


lemma key_under_id:
  assumes "valid_id i" "valid_id m" "take (length (p @ i)) (assignment_key p m w) = p @ i"
  shows "take (length i) m = i"
proof -
  have i: "take (length i) (m @ ''/'' @ w) = i"
    using assms(3) by (simp add: assignment_key_def)
  have "length i \<le> length m"
  proof (rule ccontr)
    assume "\<not> length i \<le> length m"
    then have "length m < length i" by simp
    with i have "i ! length m = (m @ ''/'' @ w) ! length m" by (metis nth_take)
    then have "i ! length m = CHR ''/''" by (simp add: nth_append)
    with \<open>length m < length i\<close> have "CHR ''/'' \<in> set i" by (metis nth_mem)
    then show False using assms(1) by (simp add: valid_id_def)
  qed
  with i show ?thesis by simp
qed

lemma in_map_filter: "y \<in> set (List.map_filter f xs) \<longleftrightarrow> (\<exists>x \<in> set xs. f x = Some y)"
  by (force simp: List.map_filter_def)

lemma worker_reads_iff:
  assumes "consul_ok c look"
  shows "w \<in> worker_reads c p i s \<longleftrightarrow>
    (\<exists>m. look s (assignment_key p m w) \<noteq> None \<and> valid_id m \<and> valid_id w \<and>
       take (length (p @ i)) (assignment_key p m w) = p @ i)"
proof -
  have es: "set (entries (kv_recurse c (p @ i) s)) = {(k, v). look s k = Some v \<and> take (length (p @ i)) k = p @ i}"
    using assms by (simp add: consul_ok_def)
  have "w \<in> worker_reads c p i s \<longleftrightarrow>
      (\<exists>k v m. look s k = Some v \<and> take (length (p @ i)) k = p @ i \<and> assignment_match p k = Some (m, w))"
    unfolding worker_reads_def in_map_filter es by auto
  then show ?thesis by (auto simp: assignment_match_iff)
qed

text \<open>A store of association lists, as a concrete reading of the laws.\<close>

definition od_consul :: "(string, string) od consul" where
  "od_consul = \<lparr>
     kv_recurse = (\<lambda>p s. Some (map (\<lambda>k. (k, the (od_get k s)))
       (filter (\<lambda>k. take (length p) k = p) (remdups (map fst s))))),
     kv_put = od_set, kv_delete = od_del\<rparr>"

lemma od_consul_ok: "consul_ok od_consul (\<lambda>s k. od_get k s)"
proof -
  have "(k, v) \<in> set (map (\<lambda>k. (k, the (od_get k s))) (filter P (remdups (map fst s)))) \<longleftrightarrow>
      od_get k s = Some v \<and> P k" for k v P and s :: "(string, string) od"
    using od_get_None [of k s] by (cases "od_get k s") auto
  then have "set (entries (kv_recurse od_consul p s)) =
      {(k, v). od_get k s = Some v \<and> take (length p) k = p}" for p s
    unfolding od_consul_def entries_def consul.simps option.case
    by (intro set_eqI) (simp only: split_paired_all mem_Collect_eq case_prod_conv)
  then show ?thesis by (auto simp: consul_ok_def od_consul_def)
qed


section \<open>Properties\<close>

text \<open>
  C25. Reassigning work makes the assignment entries of the store exactly the wanted ones: for a
  hash ring that maps every work to a member, \<^verbatim>\<open>_reassign_work\<close> does not raise, afterwards
  there is an entry for a member and a work precisely when the work is in the workload and the
  ring gives it to that member; entries that stay keep their value, and every key that is not
  an assignment is untouched.
\<close>

theorem reassign_exact:
  assumes "consul_ok c look" and "\<forall>w. \<exists>m \<in> set ms. get_node ms w = Some m"
    and "\<forall>m \<in> set ms. valid_id m" and "\<forall>w \<in> set ws. valid_id w"
  shows "\<exists>s'. reassign_work c get_node p ms ws s = (Inr (), s') \<and>
    (\<forall>k. look s' k = (case assignment_match p k of
       None \<Rightarrow> look s k
     | Some (m, w) \<Rightarrow>
         if w \<in> set ws \<and> get_node ms w = Some m
         then (if look s k = None then Some [] else look s k) else None))"
proof -
  obtain r s' where run: "reassign_work c get_node p ms ws s = (r, s')" by (rule prod.exhaust)
  have ring: "\<forall>w \<in> set ws. get_node ms w \<noteq> None"
      "\<forall>w m. w \<in> set ws \<longrightarrow> get_node ms w = Some m \<longrightarrow> valid_id m"
    using assms(2,3) by (metis option.distinct(1), metis option.inject)
  show ?thesis
    using reassign_effect [OF assms(1) ring(1) assms(4) ring(2) run] run by blast
qed

theorem reassign_exact_witness:
  "\<exists>s'. reassign_work od_consul (\<lambda>ms w. Some (if w = ''w1'' then ''a'' else ''b'')) ''as/'' [''a'', ''b'']
      [''w1'', ''w2''] [(''as/a/w2'', ''x''), (''as/b/w2'', ''y'')] = (Inr (), s') \<and>
    (\<forall>k. od_get k s' = (case assignment_match ''as/'' k of
       None \<Rightarrow> od_get k [(''as/a/w2'', ''x''), (''as/b/w2'', ''y'')]
     | Some (m, w) \<Rightarrow>
         if w \<in> set [''w1'', ''w2''] \<and> (\<lambda>ms w. Some (if w = ''w1'' then ''a'' else ''b'')) [''a'', ''b''] w = Some m
         then (if od_get k [(''as/a/w2'', ''x''), (''as/b/w2'', ''y'')] = None then Some []
               else od_get k [(''as/a/w2'', ''x''), (''as/b/w2'', ''y'')]) else None))"
  by (rule reassign_exact [OF od_consul_ok]) (simp_all add: valid_id_def)

lemma worker_reads_reassigned:
  assumes "consul_ok c look" and "reassign_work c get_node p ms ws s = (r, s')"
    and "\<forall>w. \<exists>m \<in> set ms. get_node ms w = Some m"
    and "\<forall>m \<in> set ms. valid_id m" and "\<forall>w \<in> set ws. valid_id w" and "i \<in> set ms"
  shows "r = Inr ()"
    and "worker_reads c p i s' = {w \<in> set ws. \<exists>m. get_node ms w = Some m \<and> take (length i) m = i}"
proof -
  have ring: "\<forall>w \<in> set ws. get_node ms w \<noteq> None"
      "\<forall>w m. w \<in> set ws \<longrightarrow> get_node ms w = Some m \<longrightarrow> valid_id m"
    using assms(3,4) by (metis option.distinct(1), metis option.inject)
  note eff = reassign_effect [OF assms(1) ring(1) assms(5) _ assms(2)]
  show "r = Inr ()" using eff(1) ring(2) by blast
  have look: "look s' (assignment_key p m w) \<noteq> None \<longleftrightarrow> w \<in> set ws \<and> get_node ms w = Some m"
    if "valid_id m" "valid_id w" for m w
    using eff(2) [of "assignment_key p m w"] ring(2) that by auto
  have "w \<in> worker_reads c p i s' \<longleftrightarrow> w \<in> set ws \<and> (\<exists>m. get_node ms w = Some m \<and> take (length i) m = i)" for w
  proof
    assume "w \<in> worker_reads c p i s'"
    then obtain m where m: "valid_id m" "w \<in> set ws" "get_node ms w = Some m"
        "take (length (p @ i)) (assignment_key p m w) = p @ i"
      unfolding worker_reads_iff [OF assms(1)] using look by blast
    then have "take (length i) m = i" using key_under_id assms(4,6) by blast
    with m show "w \<in> set ws \<and> (\<exists>m. get_node ms w = Some m \<and> take (length i) m = i)" by blast
  next
    assume "w \<in> set ws \<and> (\<exists>m. get_node ms w = Some m \<and> take (length i) m = i)"
    then obtain m where m: "w \<in> set ws" "get_node ms w = Some m" "take (length i) m = i" by blast
    then have v: "valid_id m" "valid_id w" using ring(2) assms(5) by auto
    have "length i \<le> length m" using arg_cong [OF m(3), of length] by simp
    then have "take (length (p @ i)) (assignment_key p m w) = p @ i"
      using m(3) by (simp add: assignment_key_def)
    then show "w \<in> worker_reads c p i s'"
      unfolding worker_reads_iff [OF assms(1)] using look [OF v] m v by blast
  qed
  then show "worker_reads c p i s' = {w \<in> set ws. \<exists>m. get_node ms w = Some m \<and> take (length i) m = i}"
    by blast
qed

text \<open>
  C26. What the workers read after a reassignment: the worker of a member reads precisely the work that the
  ring gives to the members whose id begins with its own id, its own share always among it, and all the work
  is read by some worker. So, when no member id is a prefix of another, every worker reads exactly the work
  the ring gives to it, and no work is read by two: sharding is a partition. (Ids like \<open>voltha1\<close> and
  \<open>voltha10\<close> are the case the partition leaves out: the first reads the share of the second too.)
\<close>

theorem workers_partition_work:
  assumes "consul_ok c look" and "\<forall>w. \<exists>m \<in> set ms. get_node ms w = Some m"
    and "\<forall>m \<in> set ms. valid_id m" and "\<forall>w \<in> set ws. valid_id w"
  shows "\<exists>s'. reassign_work c get_node p ms ws s = (Inr (), s') \<and>
    (\<forall>i \<in> set ms. worker_reads c p i s' = {w \<in> set ws. \<exists>m. get_node ms w = Some m \<and> take (length i) m = i} \<and>
       {w \<in> set ws. get_node ms w = Some i} \<subseteq> worker_reads c p i s') \<and>
    (\<Union>i \<in> set ms. worker_reads c p i s') = set ws \<and>
    ((\<forall>i \<in> set ms. \<forall>j \<in> set ms. take (length i) j = i \<longrightarrow> i = j) \<longrightarrow>
       (\<forall>i \<in> set ms. worker_reads c p i s' = {w \<in> set ws. get_node ms w = Some i}) \<and>
       (\<forall>i \<in> set ms. \<forall>j \<in> set ms. i \<noteq> j \<longrightarrow> worker_reads c p i s' \<inter> worker_reads c p j s' = {}))"
proof -
  obtain r s' where run: "reassign_work c get_node p ms ws s = (r, s')" by (rule prod.exhaust)
  note reads = worker_reads_reassigned [OF assms(1) run assms(2-4)]
  have own: "{w \<in> set ws. get_node ms w = Some i} \<subseteq> worker_reads c p i s'" if "i \<in> set ms" for i
    using reads(2) [OF that] by auto
  have "(\<Union>i \<in> set ms. worker_reads c p i s') = set ws"
    using reads(2) own assms(2) by (auto; blast)
  moreover have "worker_reads c p i s' = {w \<in> set ws. get_node ms w = Some i}"
    if "\<forall>i \<in> set ms. \<forall>j \<in> set ms. take (length i) j = i \<longrightarrow> i = j" "i \<in> set ms" for i
  proof -
    have "i = m" if "w \<in> set ws" "get_node ms w = Some m" "take (length i) m = i" for w m
      using that \<open>i \<in> set ms\<close> \<open>\<forall>i \<in> set ms. \<forall>j \<in> set ms. take (length i) j = i \<longrightarrow> i = j\<close> assms(2)
      by (metis option.inject)
    then show ?thesis using reads(2) [OF \<open>i \<in> set ms\<close>] own [OF \<open>i \<in> set ms\<close>] by blast
  qed
  moreover have "r = Inr ()" using reads(1) assms(2) by blast
  ultimately show ?thesis using run reads(2) own by (intro exI [of _ s']) auto
qed

theorem workers_partition_work_witness:
  "\<exists>s'. reassign_work od_consul (\<lambda>ms w. Some (if w = ''w1'' then ''a'' else ''b'')) ''as/'' [''a'', ''b'']
      [''w1'', ''w2''] [(''as/a/w2'', ''x'')] = (Inr (), s') \<and>
    worker_reads od_consul ''as/'' ''a'' s' = {''w1''} \<and> worker_reads od_consul ''as/'' ''b'' s' = {''w2''}"
proof -
  have "\<exists>s'. reassign_work od_consul (\<lambda>ms w. Some (if w = ''w1'' then ''a'' else ''b'')) ''as/'' [''a'', ''b'']
      [''w1'', ''w2''] [(''as/a/w2'', ''x'')] = (Inr (), s') \<and>
    (\<forall>i \<in> set [''a'', ''b'']. worker_reads od_consul ''as/'' i s' =
       {w \<in> set [''w1'', ''w2'']. Some (if w = ''w1'' then ''a'' else ''b'') = Some i})"
    using workers_partition_work [OF od_consul_ok, of "[''a'', ''b'']"
      "\<lambda>ms w. Some (if w = ''w1'' then ''a'' else ''b'')" "[''w1'', ''w2'']" "''as/''" "[(''as/a/w2'', ''x'')]"]
    by (fastforce simp: valid_id_def)
  moreover have "{w \<in> set [''w1'', ''w2'']. Some (if w = ''w1'' then ''a'' else ''b'') = Some ''a''} = {''w1''}"
      "{w \<in> set [''w1'', ''w2'']. Some (if w = ''w1'' then ''a'' else ''b'') = Some ''b''} = {''w2''}"
    by auto
  ultimately show ?thesis by fastforce
qed


section \<open>Soaking\<close>

text \<open>
  While the soak timer of a worker is pending the candidate is the last set read that differs
  from the current workload; a set that equals it neither replaces the candidate nor stops the
  timer.
\<close>

lemma worker_candidate:
  assumes "assignment_soak_timer w \<noteq> Cancelled"
    and "w' = fold (\<lambda>r w. snd (track_my_assignments (Inr r) w)) rs w"
  shows "my_workload w' = my_workload w \<and> assignment_soak_timer w' \<noteq> Cancelled \<and>
    (case find (\<lambda>r. r \<noteq> my_workload w) (rev rs) of
       None \<Rightarrow> w' = w
     | Some r \<Rightarrow> assignment_soak_timer w' = Pending \<and> my_candidate_workload w' = Some r)"
  unfolding assms(2) using assms(1)
proof (induction rs rule: rev_induct)
  case Nil
  then show ?case by simp
next
  case (snoc r rs)
  then show ?case
    by (auto simp: track_my_assignments_def stash_and_restart_soak_timer_def restart_timer_def
        split: option.splits)
qed

text \<open>Assignments that change and change back leave the worker with the set in between.\<close>

lemma worker_keeps_stale_work:
  assumes "my_workload w = A" "assignment_soak_timer w \<noteq> Cancelled" "B \<noteq> A"
  shows "my_workload (snd (update_assignments
    (snd (track_my_assignments (Inr A) (snd (track_my_assignments (Inr B) w)))))) = B"
  using worker_candidate [OF assms(2) refl, of "[B, A]"] assms by (simp add: update_assignments_def)

lemma worker_stop_tracks_on:
  "again (fst (track_my_assignments r (Worker_stop (Worker_init i))))"
  by (cases r) (simp_all add: track_my_assignments_def Worker_stop_def Worker_init_def stop_timer_def
      stash_and_restart_soak_timer_def restart_timer_def)

lemma prefix_id_takes_work:
  "worker_reads od_consul ''assignments/'' ''1'' [(''assignments/10/work'', [])] = {''work''}"
  by code_simp

lemma members_error_does_not_sleep:
  "track_members p (Inl e) l = (\<lparr>slept = False, again = (\<not> halted l)\<rparr>, l)"
  by (simp add: track_members_def)

text \<open>A result that arrives after the leader was stopped starts the soak timer again.\<close>

lemma stopped_leader_reassigns:
  assumes "ids_of p es \<noteq> members l" and "reassignment_soak_timer l \<in> {NoTimer, Called}"
  shows "reassignment_soak_timer (snd (track_members p (Inr (Some es)) (Leader_stop l))) = Pending"
  using assms by (auto simp: track_members_def Leader_stop_def stop_timer_def entries_def
      restart_reassignment_soak_timer_def restart_timer_def)

lemma no_members_raises:
  assumes "\<forall>w. get_node [] w = None" and "ws \<noteq> []"
  shows "fst (reassign_work c get_node p [] ws s) = Inl TypeError"
proof -
  let ?C = "current_assignments p (entries (kv_recurse c p s))"
  let ?A = "work_to_assign (wanted_assignments get_node [] ws) ?C"
  have mem: "(mo, w) \<in> set ?A \<longleftrightarrow> w \<in> set ws \<and> mo = None" for mo w
    using assms(1) by (auto simp: assign_mem [OF wanted_work(1)] wanted_work(2))
  then have "?A \<noteq> []" using assms(2) by (metis empty_iff last_in_set list.set(1))
  then obtain mo w mws where A: "?A = (mo, w) # mws" by (metis neq_Nil_conv prod.exhaust)
  then have "mo = None" using mem [of mo w] by simp
  with A show ?thesis by (simp add: reassign_work_def Let_def)
qed

end
