(* ===== verification/Leadership.thy ===== *)
theory Leadership
  imports Sharding
begin

text \<open>
  The coordinator of an instance, \<^verbatim>\<open>src/voltha/coordinator.py\<close>: retries towards Consul,
  the membership record, and the election that gains and loses leadership.

  Everything the coordinator waits for is an event with its result: the attempt to take the
  leader key and the record read back, the turns of the leader it runs, the two halves of
  \<^verbatim>\<open>stop\<close> around the deletion of the session.  The steps of \<open>coord_step\<close> may come in any
  order the reactor allows.  A deferred is a number; the coordinator's \<open>called\<close> lists the
  deferreds that were called, with the leader they were told.  A leader object that was stopped
  stays in \<open>retired\<close>: its pending requests may still return.
\<close>

section \<open>Configuration\<close>

text \<open>\<^verbatim>\<open>self.config.get(self.config[key], default)\<close>\<close>

definition configured :: "(string, string) od \<Rightarrow> string \<Rightarrow> string \<Rightarrow> string res" where
  "configured cfg key dflt =
     rbind (dict_lookup key cfg) (\<lambda>v. Inr (case od_get v cfg of None \<Rightarrow> dflt | Some x \<Rightarrow> x))"

record prefixes =
  leader_prefix :: string
  membership_prefix :: string
  assignment_prefix :: string
  workload_prefix :: string

definition make_prefixes :: "(string, string) od \<Rightarrow> prefixes res" where
  "make_prefixes cfg =
     (let p = (case od_get ''voltha_kv_prefix'' cfg of None \<Rightarrow> ''service/voltha'' | Some x \<Rightarrow> x) in
      rbind (configured cfg ''leader_key'' ''leader'') (\<lambda>l.
      rbind (configured cfg ''membership_key'' ''members'') (\<lambda>m.
      rbind (configured cfg ''assignment_key'' ''assignments'') (\<lambda>a.
      rbind (configured cfg ''workload_key'' ''work'') (\<lambda>w.
      Inr \<lparr>leader_prefix = p @ ''/'' @ l, membership_prefix = p @ ''/'' @ m @ ''/'',
           assignment_prefix = p @ ''/'' @ a @ ''/'', workload_prefix = p @ ''/'' @ w @ ''/''\<rparr>)))))"


section \<open>Coordinator\<close>

record coordinator =
  prefixes :: prefixes
  retries :: nat
  own_id :: string
  session_id :: "string option"
  i_am_leader :: bool
  leader_id :: "string option"
  shutting_down :: bool
  leader_obj :: "leader option"
  retired :: "leader list"
  worker_obj :: worker
  wait_for_leader_deferreds :: "nat list"
  called :: "(nat \<times> string) list"
  next_deferred :: nat

definition Coordinator_init :: "(string, string) od \<Rightarrow> string \<Rightarrow> coordinator res" where
  "Coordinator_init cfg i =
     rbind (make_prefixes cfg) (\<lambda>p.
       Inr \<lparr>prefixes = p, retries = 0, own_id = i, session_id = None, i_am_leader = False,
            leader_id = None, shutting_down = False, leader_obj = None, retired = [], worker_obj = Worker_init i,
            wait_for_leader_deferreds = [], called = [], next_deferred = 0\<rparr>)"

definition stop_begin :: "coordinator \<Rightarrow> coordinator" where
  "stop_begin c = c\<lparr>shutting_down := True\<rparr>"

definition stop_finish :: "coordinator \<Rightarrow> coordinator" where
  "stop_finish c =
     (let c = c\<lparr>worker_obj := Worker_stop (worker_obj c)\<rparr> in
      case leader_obj c of
        None \<Rightarrow> c
      | Some l \<Rightarrow> c\<lparr>leader_obj := None, retired := retired c @ [Leader_stop l]\<rparr>)"

definition wait_for_a_leader :: "coordinator \<Rightarrow> nat \<times> coordinator" where
  "wait_for_a_leader c =
     (let d = next_deferred c; c = c\<lparr>next_deferred := Suc d\<rparr> in
      case leader_id c of
        Some i \<Rightarrow> (d, c\<lparr>called := called c @ [(d, i)]\<rparr>)
      | None \<Rightarrow> (d, c\<lparr>wait_for_leader_deferreds := wait_for_leader_deferreds c @ [d]\<rparr>))"

definition get_members :: "string \<Rightarrow> (string \<times> string) list option \<Rightarrow> string list res" where
  "get_members p r =
     (case r of None \<Rightarrow> Inl TypeError | Some es \<Rightarrow> Inr (map (\<lambda>(k, v). drop (length p) k) es))"

text \<open>Waiting times in milliseconds.\<close>

definition RETRY_BACKOFF :: "nat list" where
  "RETRY_BACKOFF = [50, 100, 200, 500, 1000, 2000, 5000]"

definition backoff :: "coordinator \<Rightarrow> nat \<times> coordinator" where
  "backoff c = (RETRY_BACKOFF ! min (retries c) (length RETRY_BACKOFF - 1), c\<lparr>retries := retries c + 1\<rparr>)"

definition clear_backoff :: "coordinator \<Rightarrow> coordinator" where
  "clear_backoff c = (if retries c \<noteq> 0 then c\<lparr>retries := 0\<rparr> else c)"

text \<open>
  \<^verbatim>\<open>_retry\<close> of a function whose successive calls end as \<open>f 0\<close>, \<open>f 1\<close>, ...; it returns the
  result with the waiting times in between, or runs on for ever (\<^const>\<open>None\<close>).
\<close>

partial_function (option) retry_loop ::
    "(nat \<Rightarrow> 'a res) \<Rightarrow> nat \<Rightarrow> nat list \<Rightarrow> coordinator \<Rightarrow> ('a \<times> nat list \<times> coordinator) option" where
  "retry_loop f k waits c =
     (case f k of
        Inr r \<Rightarrow> Some (r, waits, clear_backoff c)
      | Inl e \<Rightarrow> retry_loop f (Suc k) (waits @ [fst (backoff c)]) (snd (backoff c)))"

definition retry :: "(nat \<Rightarrow> 'a res) \<Rightarrow> coordinator \<Rightarrow> ('a \<times> nat list \<times> coordinator) option" where
  "retry f c = retry_loop f 0 [] c"

record key_record =
  rec_session :: string
  rec_value :: string

definition do_create_membership_record :: "bool \<Rightarrow> unit res" where
  "do_create_membership_record result = (if result then Inr () else Inl OtherException)"

definition must_remake_membership :: "coordinator \<Rightarrow> key_record option \<Rightarrow> bool" where
  "must_remake_membership c r = (case r of None \<Rightarrow> True | Some rec \<Rightarrow> Some (rec_session rec) \<noteq> session_id c)"

definition set_leader_id :: "string \<Rightarrow> coordinator \<Rightarrow> coordinator" where
  "set_leader_id i c =
     c\<lparr>leader_id := Some i, wait_for_leader_deferreds := [],
       called := called c @ map (\<lambda>d. (d, i)) (wait_for_leader_deferreds c)\<rparr>"

definition just_gained_leadership :: "coordinator \<Rightarrow> coordinator" where
  "just_gained_leadership c = c\<lparr>leader_obj := Some Leader_init\<rparr>"

definition halt_leader :: "(coordinator, unit) st" where
  "halt_leader c =
     (case leader_obj c of
        None \<Rightarrow> (Inl AttributeError, c)
      | Some l \<Rightarrow> (Inr (), c\<lparr>leader_obj := None, retired := retired c @ [Leader_stop l]\<rparr>))"

definition assert_leadership :: "(coordinator, unit) st" where
  "assert_leadership c =
     (if \<not> i_am_leader c
      then (Inr (), just_gained_leadership (set_leader_id (own_id c) (c\<lparr>i_am_leader := True\<rparr>)))
      else (Inr (), c))"

definition assert_nonleadership :: "string \<Rightarrow> (coordinator, unit) st" where
  "assert_nonleadership i c =
     (let c = set_leader_id i c in
      if i_am_leader c then halt_leader (c\<lparr>i_am_leader := False\<rparr>) else (Inr (), c))"

text \<open>
  The first part of a turn of the tracking loop, once the key was tried and read back; an
  exception ends the turn and is logged.
\<close>

definition leadership_result :: "bool \<Rightarrow> key_record option \<Rightarrow> (coordinator, unit) st" where
  "leadership_result result r c =
     (case r of
        None \<Rightarrow> (Inr (), c)
      | Some rec \<Rightarrow>
          if result
          then (if Some (rec_session rec) = session_id c then assert_leadership c else (Inr (), c))
          else assert_nonleadership (rec_value rec) c)"

text \<open>The second part watches the key: the updates still to come when it changed.\<close>

fun watch_leader_key :: "key_record option \<Rightarrow> key_record option list \<Rightarrow> key_record option list option" where
  "watch_leader_key None us = Some us"
| "watch_leader_key (Some lst) [] = None"
| "watch_leader_key (Some lst) (u # us) =
     (if u = None \<or> u \<noteq> Some lst then Some us else watch_leader_key u us)"

definition track_again :: "coordinator \<Rightarrow> bool" where
  "track_again c \<longleftrightarrow> \<not> shutting_down c"

text \<open>
  The steps of a coordinator. A leader that was stopped still takes its turns: the reads it has under way
  return, and a timer that such a turn has started fires.
\<close>

inductive coord_step :: "coordinator \<Rightarrow> coordinator \<Rightarrow> bool" where
  session_created: "coord_step c (c\<lparr>session_id := Some sid\<rparr>)"
| waited: "coord_step c (snd (wait_for_a_leader c))"
| leadership: "coord_step c (snd (leadership_result result r c))"
| retried: "retry (f :: nat \<Rightarrow> unit res) c = Some (x, waits, c') \<Longrightarrow> coord_step c c'"
| workload_tracked: "leader_obj c = Some l \<Longrightarrow>
    coord_step c (c\<lparr>leader_obj := Some (snd (track_workload (workload_prefix (prefixes c)) results l))\<rparr>)"
| members_tracked: "leader_obj c = Some l \<Longrightarrow>
    coord_step c (c\<lparr>leader_obj := Some (snd (track_members (membership_prefix (prefixes c)) results l))\<rparr>)"
| timer_fired: "leader_obj c = Some l \<Longrightarrow> reassignment_soak_timer l = Pending \<Longrightarrow>
    coord_step c (c\<lparr>leader_obj := Some (fst (reassignment_timer_fires (kv :: (string, string) od consul) get_node
      (assignment_prefix (prefixes c)) l store))\<rparr>)"
| retired_workload: "i < length (retired c) \<Longrightarrow>
    coord_step c (c\<lparr>retired := (retired c)[i :=
      snd (track_workload (workload_prefix (prefixes c)) results (retired c ! i))]\<rparr>)"
| retired_timer: "i < length (retired c) \<Longrightarrow> reassignment_soak_timer (retired c ! i) = Pending \<Longrightarrow>
    coord_step c (c\<lparr>retired := (retired c)[i :=
      fst (reassignment_timer_fires (kv :: (string, string) od consul) get_node (assignment_prefix (prefixes c))
        (retired c ! i) store)]\<rparr>)"
| retired_tracked: "i < length (retired c) \<Longrightarrow>
    coord_step c (c\<lparr>retired := (retired c)[i :=
      snd (track_members (membership_prefix (prefixes c)) results (retired c ! i))]\<rparr>)"
| assignments_tracked:
    "coord_step c (c\<lparr>worker_obj := snd (track_my_assignments result (worker_obj c))\<rparr>)"
| assignments_updated: "coord_step c (c\<lparr>worker_obj := snd (update_assignments (worker_obj c))\<rparr>)"
| stop_begun: "coord_step c (stop_begin c)"
| stop_finished: "shutting_down c \<Longrightarrow> coord_step c (stop_finish c)"

definition coord_reachable :: "(string, string) od \<Rightarrow> string \<Rightarrow> coordinator \<Rightarrow> bool" where
  "coord_reachable cfg i = reachable (\<lambda>c. Coordinator_init cfg i = Inr c) coord_step"


section \<open>Lemmas\<close>

lemma track_keeps_halted [simp]:
  "halted (snd (track_workload p r l)) = halted l"
  "halted (snd (track_members p r l)) = halted l"
  by (auto simp: track_workload_def track_members_def restart_reassignment_soak_timer_def Let_def
      split: sum.splits option.splits prod.splits if_splits)

lemma timer_keeps_halted [simp]: "halted (fst (reassignment_timer_fires c get_node p l s)) = halted l"
  by (auto simp: reassignment_timer_fires_def restart_reassignment_soak_timer_def Let_def
      split: sum.splits prod.splits)

lemma seven [simp]: "length RETRY_BACKOFF = 7"
  by (simp add: RETRY_BACKOFF_def)

lemma retry_loop_least:
  assumes "f (k + n) = Inr r" and "\<And>j. j < n \<Longrightarrow> \<exists>e. f (k + j) = Inl e"
  shows "retry_loop f k waits c = Some (r,
    waits @ map (\<lambda>j. RETRY_BACKOFF ! min (retries c + j) 6) [0..<n], c\<lparr>retries := 0\<rparr>)"
  using assms
proof (induction n arbitrary: k waits c)
  case 0
  then show ?case by (simp add: retry_loop.simps clear_backoff_def)
next
  case (Suc n)
  obtain e where e: "f k = Inl e" using Suc.prems(2) [of 0] by auto
  have "retry_loop f (Suc k) (waits @ [fst (backoff c)]) (snd (backoff c)) = Some (r,
      (waits @ [fst (backoff c)]) @ map (\<lambda>j. RETRY_BACKOFF ! min (retries (snd (backoff c)) + j) 6) [0..<n],
      (snd (backoff c))\<lparr>retries := 0\<rparr>)"
    using Suc.prems(1) Suc.prems(2) [of "Suc _"] by (intro Suc.IH) auto
  moreover have "[0..<Suc n] = 0 # map Suc [0..<n]" by (simp add: map_Suc_upt upt_conv_Cons del: upt_Suc)
  ultimately show ?case
    by (subst retry_loop.simps)
      (simp add: e backoff_def comp_def del: upt_Suc)
qed

lemma retry_loop_success:
  "retry_loop f k waits c = Some y \<Longrightarrow> \<exists>j \<ge> k. \<exists>r. f j = Inr r"
  by (erule retry_loop.raw_induct [rotated, where P = "\<lambda>f k waits c y. \<exists>j \<ge> k. \<exists>r. f j = Inr r"])
    (force split: sum.splits dest: Suc_leD)

lemma retry_closed:
  "retry f c = (if \<exists>n r. f n = Inr r
     then let n = (LEAST n. \<exists>r. f n = Inr r) in
       Some (projr (f n), map (\<lambda>j. RETRY_BACKOFF ! min (retries c + j) 6) [0..<n], c\<lparr>retries := 0\<rparr>)
     else None)"
proof (cases "\<exists>n r. f n = Inr r")
  case True
  let ?n = "LEAST n. \<exists>r. f n = Inr r"
  from True obtain r where r: "f ?n = Inr r" using LeastI_ex [of "\<lambda>n. \<exists>r. f n = Inr r"] by blast
  have "\<exists>e. f j = Inl e" if "j < ?n" for j
    using not_less_Least [OF that] by (cases "f j") auto
  with retry_loop_least [of f 0 ?n r "[]" c] r True show ?thesis by (simp add: retry_def Let_def)
next
  case False
  then have "retry_loop f 0 [] c = None"
    using retry_loop_success [of f 0 "[]" c] by (cases "retry_loop f 0 [] c") auto
  with False show ?thesis by (simp add: retry_def)
qed

lemma retry_result: "retry f c = Some (r, waits, c') \<Longrightarrow> c' = c\<lparr>retries := 0\<rparr>"
  by (auto simp: retry_closed Let_def split: if_splits)

definition deferreds_ok :: "coordinator \<Rightarrow> bool" where
  "deferreds_ok c \<longleftrightarrow>
     distinct (wait_for_leader_deferreds c @ map fst (called c)) \<and>
     set (wait_for_leader_deferreds c @ map fst (called c)) = {..<next_deferred c}"

definition coord_inv :: "string \<Rightarrow> coordinator \<Rightarrow> bool" where
  "coord_inv i c \<longleftrightarrow>
     own_id c = i \<and>
     (leader_obj c \<noteq> None \<longrightarrow> i_am_leader c) \<and>
     (i_am_leader c \<and> \<not> shutting_down c \<longrightarrow> leader_obj c \<noteq> None) \<and>
     (i_am_leader c \<longrightarrow> leader_id c = Some i) \<and>
     (\<forall>l. leader_obj c = Some l \<longrightarrow> \<not> halted l) \<and>
     list_all halted (retired c) \<and>
     (leader_id c \<noteq> None \<longrightarrow> wait_for_leader_deferreds c = []) \<and>
     deferreds_ok c"

lemma set_leader_id_simps [simp]:
  "own_id (set_leader_id i c) = own_id c" "i_am_leader (set_leader_id i c) = i_am_leader c"
  "leader_id (set_leader_id i c) = Some i" "leader_obj (set_leader_id i c) = leader_obj c"
  "shutting_down (set_leader_id i c) = shutting_down c" "retired (set_leader_id i c) = retired c"
  "wait_for_leader_deferreds (set_leader_id i c) = []" "next_deferred (set_leader_id i c) = next_deferred c"
  "deferreds_ok (set_leader_id i c) = deferreds_ok c"
  by (auto simp: set_leader_id_def comp_def deferreds_ok_def)

lemma deferreds_ok_cong:
  "wait_for_leader_deferreds c = wait_for_leader_deferreds c' \<Longrightarrow> called c = called c' \<Longrightarrow>
   next_deferred c = next_deferred c' \<Longrightarrow> deferreds_ok c = deferreds_ok c'"
  by (simp add: deferreds_ok_def)

lemma deferreds_ok_simps [simp]:
  "deferreds_ok (c\<lparr>i_am_leader := b\<rparr>) = deferreds_ok c"
  "deferreds_ok (c\<lparr>leader_obj := l\<rparr>) = deferreds_ok c"
  "deferreds_ok (c\<lparr>retired := ls\<rparr>) = deferreds_ok c"
  "deferreds_ok (c\<lparr>worker_obj := w\<rparr>) = deferreds_ok c"
  "deferreds_ok (c\<lparr>session_id := s\<rparr>) = deferreds_ok c"
  "deferreds_ok (c\<lparr>retries := n\<rparr>) = deferreds_ok c"
  "deferreds_ok (c\<lparr>shutting_down := b\<rparr>) = deferreds_ok c"
  by (rule deferreds_ok_cong; simp)+

lemma coord_inv_wait: "coord_inv i c \<Longrightarrow> coord_inv i (snd (wait_for_a_leader c))"
  by (auto simp: coord_inv_def wait_for_a_leader_def Let_def lessThan_Suc deferreds_ok_def
      split: option.splits)

lemma coord_inv_assert_leadership: "coord_inv i c \<Longrightarrow> coord_inv i (snd (assert_leadership c))"
  by (cases "i_am_leader c")
    (simp_all add: coord_inv_def assert_leadership_def just_gained_leadership_def Leader_init_def)

lemma coord_inv_assert_nonleadership: "coord_inv i c \<Longrightarrow> coord_inv i (snd (assert_nonleadership j c))"
  by (cases "i_am_leader c"; cases "leader_obj c")
    (simp_all add: coord_inv_def assert_nonleadership_def halt_leader_def Leader_stop_def Let_def)

lemma coord_inv_step: "coord_step c c' \<Longrightarrow> coord_inv i c \<Longrightarrow> coord_inv i c'"
proof (induction rule: coord_step.induct)
  case (leadership c result r)
  then show ?case
    by (auto simp: leadership_result_def coord_inv_assert_leadership coord_inv_assert_nonleadership
        split: option.splits)
next
  case (retried f c x waits c')
  with retry_result [OF retried.hyps] show ?case by (simp add: coord_inv_def)
next
  case (stop_finished c)
  then show ?case by (auto simp: coord_inv_def stop_finish_def Leader_stop_def Let_def split: option.splits)
next
  case (retired_tracked k c results)
  then show ?case by (auto simp: coord_inv_def list_all_iff dest: set_update_subset_insert [THEN subsetD])
next
  case (retired_workload k c results)
  then show ?case by (auto simp: coord_inv_def list_all_iff dest: set_update_subset_insert [THEN subsetD])
next
  case (retired_timer k c kv get_node store)
  then show ?case by (auto simp: coord_inv_def list_all_iff dest: set_update_subset_insert [THEN subsetD])
qed (auto simp: coord_inv_wait, auto simp: coord_inv_def stop_begin_def)

interpretation coord: step_invariant "\<lambda>c. Coordinator_init cfg i = Inr c" coord_step "coord_inv i" for cfg i
proof
  fix c
  assume "Coordinator_init cfg i = Inr c"
  then show "coord_inv i c"
    by (auto simp: Coordinator_init_def coord_inv_def rbind_eq_Inr deferreds_ok_def)
qed (rule coord_inv_step)


section \<open>Properties\<close>

text \<open>
  A request to Consul that eventually succeeds is retried until then: \<^verbatim>\<open>_retry\<close> returns
  its first success, waits once after every failure, for the time the back-off table gives
  (at most five seconds), and clears the counter; a request that never succeeds is retried for
  ever.
\<close>

theorem retry_returns_first_success:
  "retry f c = (if \<exists>n r. f n = Inr r
     then let n = (LEAST n. \<exists>r. f n = Inr r) in
       Some (projr (f n), map (\<lambda>j. RETRY_BACKOFF ! min (retries c + j) 6) [0..<n], c\<lparr>retries := 0\<rparr>)
     else None)"
  by (rule retry_closed)

text \<open>
  C27. In every reachable state of a coordinator, whatever the order of election results,
  retries, turns and timers of its leader, of leaders that were stopped and of its worker, and shutdown: it runs a leader only while it holds
  leadership, and until it shuts down it runs one whenever it does; then the known leader is
  itself; the running leader is not halted and the stopped ones are; nobody waits for a leader
  once one is known, and every deferred handed out is either waiting or was called exactly once.
\<close>

theorem coordinator_invariant:
  assumes "coord_reachable cfg i c"
  shows "coord_inv i c"
  using coord.reachable_inv assms unfolding coord_reachable_def by blast

definition shipped_config :: "(string, string) od" where
  "shipped_config = [(''voltha_kv_prefix'', ''service/voltha''), (''leader_key'', ''leader''),
     (''membership_key'', ''members''), (''assignment_key'', ''assignments''), (''workload_key'', ''work'')]"

definition initial_coordinator :: coordinator where
  "initial_coordinator = projr (Coordinator_init shipped_config ''v1'')"

lemma initial_coordinator_reachable: "coord_reachable shipped_config ''v1'' initial_coordinator"
  unfolding coord_reachable_def by (rule reach_init) code_simp

theorem coordinator_invariant_witness:
  "coord_inv ''v1'' (snd (leadership_result True (Some \<lparr>rec_session = ''s'', rec_value = ''v1''\<rparr>)
     (initial_coordinator\<lparr>session_id := Some ''s''\<rparr>)))"
  by (rule coordinator_invariant, unfold coord_reachable_def, rule reach_step, rule reach_step,
      rule initial_coordinator_reachable [unfolded coord_reachable_def], rule session_created, rule leadership)


section \<open>Findings\<close>

text \<open>The configured names of the keys have no effect.\<close>

lemma configured_key_ignored:
  "map_sum id leader_prefix (make_prefixes (od_set ''leader_key'' ''boss'' shipped_config)) =
   Inr ''service/voltha/leader''"
  by code_simp

text \<open>
  A turn of the tracking loop that is still waiting when the coordinator is stopped makes it
  leader afterwards, with a leader object nobody stops.
\<close>

lemma leader_after_shutdown:
  assumes "\<not> i_am_leader c" and "session_id c = Some sid"
  shows "leader_obj (snd (leadership_result True (Some \<lparr>rec_session = sid, rec_value = v\<rparr>)
    (stop_finish (stop_begin c)))) = Some Leader_init"
  using assms by (auto simp: leadership_result_def assert_leadership_def just_gained_leadership_def
      stop_finish_def stop_begin_def Let_def split: option.splits)

text \<open>Losing leadership after the coordinator was stopped raises an attribute error.\<close>

lemma lost_after_stop_raises:
  assumes "i_am_leader c"
  shows "fst (leadership_result False (Some rec) (stop_finish (stop_begin c))) = Inl AttributeError"
  using assms by (auto simp: leadership_result_def assert_nonleadership_def halt_leader_def
      stop_finish_def stop_begin_def set_leader_id_def Let_def split: option.splits)

end
