(* ===== verification/Converter.thy ===== *)
theory Converter
  imports AgentTables
begin

text \<open>
  The conversions between the OpenFlow bindings of the agent (loxi) and the messages of the core:
  \<^verbatim>\<open>src/ofagent/converter.py\<close>.

  A loxi object is a datatype with one constructor per class that has a converter; every other
  class is an \<open>Other\<close> constructor, for which the lookup of the converter raises a key error.
  \<^verbatim>\<open>pb2dict\<close> lists the fields of a message that are set: members of a oneof that are set,
  scalar fields that are not zero and repeated fields that are not empty; reading any other
  field of the resulting dictionary raises a key error.

  The properties compose the converter with the flow tables of the logical device agent: what a
  controller installs is what it reads back.
\<close>

section \<open>Loxi objects\<close>

datatype loxi_oxm =
    Oxm_eth_type u32 | Oxm_in_port u32 | Oxm_ip_proto u32
  | Oxm_vlan_vid u32 | Oxm_vlan_pcp u32 | Oxm_ipv4_dst u32
  | Oxm_other string

datatype loxi_action =
    Action_output u32 u32
  | Action_group u32
  | Action_set_field loxi_oxm
  | Action_pop_vlan
  | Action_push_vlan u32
  | Action_other string

datatype loxi_instruction =
    Apply_actions "loxi_action list"
  | Goto_table u32
  | Instruction_other string

type_synonym loxi_match = "loxi_oxm list"

record loxi_flow_mod =
  lfm_cookie :: u64
  lfm_cookie_mask :: u64
  lfm_table_id :: u32
  lfm_command :: nat
  lfm_idle_timeout :: u32
  lfm_hard_timeout :: u32
  lfm_priority :: u32
  lfm_buffer_id :: u32
  lfm_out_port :: u32
  lfm_out_group :: u32
  lfm_flags :: u32
  lfm_match :: loxi_match
  lfm_instructions :: "loxi_instruction list"

record loxi_bucket =
  lb_weight :: u32
  lb_watch_port :: u32
  lb_watch_group :: u32
  lb_actions :: "loxi_action list"

record loxi_group_mod =
  lgm_command :: nat
  lgm_group_type :: nat
  lgm_group_id :: u32
  lgm_buckets :: "loxi_bucket list"

record loxi_packet_out =
  lpo_buffer_id :: u32
  lpo_in_port :: u32
  lpo_actions :: "loxi_action list"
  lpo_data :: string

record loxi_flow_stats =
  lfs_table_id :: u32
  lfs_duration_sec :: u32
  lfs_duration_nsec :: u32
  lfs_priority :: u32
  lfs_idle_timeout :: u32
  lfs_hard_timeout :: u32
  lfs_flags :: u32
  lfs_cookie :: u64
  lfs_packet_count :: u64
  lfs_byte_count :: u64
  lfs_match :: loxi_match
  lfs_instructions :: "loxi_instruction list"

record loxi_packet_in =
  lpi_buffer_id :: u32
  lpi_reason :: nat
  lpi_table_id :: u32
  lpi_cookie :: u64
  lpi_match :: loxi_match
  lpi_data :: string

record loxi_group_stats =
  lgs_group_id :: u32
  lgs_ref_count :: u32
  lgs_packet_count :: u64
  lgs_byte_count :: u64
  lgs_duration_sec :: u32
  lgs_duration_nsec :: u32
  lgs_bucket_stats :: "(u64 \<times> u64) list"


section \<open>To the core\<close>

definition basic_oxm :: "nat \<Rightarrow> ofb_value \<Rightarrow> oxm_field" where
  "basic_oxm t v = \<lparr>oxm_class = OFPXMC_OPENFLOW_BASIC,
     oxm_choice = OfbField (default_ofb_field\<lparr>f_type := t, f_value := v\<rparr>)\<rparr>"

definition loxi_oxm_eth_type_to_ofp_oxm :: "u32 \<Rightarrow> oxm_field" where
  "loxi_oxm_eth_type_to_ofp_oxm v = basic_oxm ETH_TYPE (Eth_type v)"

definition loxi_oxm_in_port_to_ofp_oxm :: "u32 \<Rightarrow> oxm_field" where
  "loxi_oxm_in_port_to_ofp_oxm v = basic_oxm IN_PORT (Port v)"

definition loxi_oxm_ip_proto_to_ofp_oxm :: "u32 \<Rightarrow> oxm_field" where
  "loxi_oxm_ip_proto_to_ofp_oxm v = basic_oxm IP_PROTO (Ip_proto v)"

definition loxi_oxm_vlan_vid_to_ofp_oxm :: "u32 \<Rightarrow> oxm_field" where
  "loxi_oxm_vlan_vid_to_ofp_oxm v = basic_oxm VLAN_VID (Vlan_vid v)"

definition loxi_oxm_vlan_pcp_to_ofp_oxm :: "u32 \<Rightarrow> oxm_field" where
  "loxi_oxm_vlan_pcp_to_ofp_oxm v = basic_oxm VLAN_PCP (Vlan_pcp v)"

definition loxi_oxm_ipv4_dst_to_ofp_oxm :: "u32 \<Rightarrow> oxm_field" where
  "loxi_oxm_ipv4_dst_to_ofp_oxm v = basic_oxm IPV4_DST (Ipv4_dst v)"

fun to_grpc_oxm :: "loxi_oxm \<Rightarrow> oxm_field res" where
  "to_grpc_oxm (Oxm_eth_type v) = Inr (loxi_oxm_eth_type_to_ofp_oxm v)"
| "to_grpc_oxm (Oxm_in_port v) = Inr (loxi_oxm_in_port_to_ofp_oxm v)"
| "to_grpc_oxm (Oxm_ip_proto v) = Inr (loxi_oxm_ip_proto_to_ofp_oxm v)"
| "to_grpc_oxm (Oxm_vlan_vid v) = Inr (loxi_oxm_vlan_vid_to_ofp_oxm v)"
| "to_grpc_oxm (Oxm_vlan_pcp v) = Inr (loxi_oxm_vlan_pcp_to_ofp_oxm v)"
| "to_grpc_oxm (Oxm_ipv4_dst v) = Inr (loxi_oxm_ipv4_dst_to_ofp_oxm v)"
| "to_grpc_oxm (Oxm_other _) = Inl KeyError"

definition loxi_output_action_to_ofp_action :: "u32 \<Rightarrow> u32 \<Rightarrow> ofp_action" where
  "loxi_output_action_to_ofp_action p n = \<lparr>act_type = OUTPUT, act_data = ActOutput p n\<rparr>"

definition loxi_group_action_to_ofp_action :: "u32 \<Rightarrow> ofp_action" where
  "loxi_group_action_to_ofp_action g = \<lparr>act_type = GROUP, act_data = ActGroup g\<rparr>"

definition loxi_set_field_action_to_ofp_action :: "loxi_oxm \<Rightarrow> ofp_action res" where
  "loxi_set_field_action_to_ofp_action f =
     rbind (to_grpc_oxm f) (\<lambda>x. Inr \<lparr>act_type = SET_FIELD, act_data = ActSetField x\<rparr>)"

definition loxi_pop_vlan_action_to_ofp_action :: ofp_action where
  "loxi_pop_vlan_action_to_ofp_action = \<lparr>act_type = POP_VLAN, act_data = NoAction\<rparr>"

definition loxi_push_vlan_action_to_ofp_action :: "u32 \<Rightarrow> ofp_action" where
  "loxi_push_vlan_action_to_ofp_action e = \<lparr>act_type = PUSH_VLAN, act_data = ActPush e\<rparr>"

fun to_grpc_action :: "loxi_action \<Rightarrow> ofp_action res" where
  "to_grpc_action (Action_output p n) = Inr (loxi_output_action_to_ofp_action p n)"
| "to_grpc_action (Action_group g) = Inr (loxi_group_action_to_ofp_action g)"
| "to_grpc_action (Action_set_field f) = loxi_set_field_action_to_ofp_action f"
| "to_grpc_action Action_pop_vlan = Inr loxi_pop_vlan_action_to_ofp_action"
| "to_grpc_action (Action_push_vlan e) = Inr (loxi_push_vlan_action_to_ofp_action e)"
| "to_grpc_action (Action_other _) = Inl KeyError"

definition loxi_apply_actions_to_ofp_instruction :: "loxi_action list \<Rightarrow> ofp_instruction res" where
  "loxi_apply_actions_to_ofp_instruction as =
     rbind (py_map to_grpc_action as) (\<lambda>xs. Inr \<lparr>i_type = OFPIT_APPLY_ACTIONS, i_data = InstrActions xs\<rparr>)"

definition loxi_goto_table_to_ofp_instruction :: "u32 \<Rightarrow> ofp_instruction" where
  "loxi_goto_table_to_ofp_instruction t = \<lparr>i_type = OFPIT_GOTO_TABLE, i_data = GotoTable t\<rparr>"

fun to_grpc_instruction :: "loxi_instruction \<Rightarrow> ofp_instruction res" where
  "to_grpc_instruction (Apply_actions as) = loxi_apply_actions_to_ofp_instruction as"
| "to_grpc_instruction (Goto_table t) = Inr (loxi_goto_table_to_ofp_instruction t)"
| "to_grpc_instruction (Instruction_other _) = Inl KeyError"

definition loxi_match_v3_to_ofp_match :: "loxi_match \<Rightarrow> ofp_match res" where
  "loxi_match_v3_to_ofp_match m =
     rbind (py_map to_grpc_oxm m) (\<lambda>fs. Inr \<lparr>m_type = OFPMT_OXM, oxm_fields = fs\<rparr>)"

definition loxi_flow_mod_to_ofp_flow_mod :: "loxi_flow_mod \<Rightarrow> flow_mod res" where
  "loxi_flow_mod_to_ofp_flow_mod lo =
     rbind (loxi_match_v3_to_ofp_match (lfm_match lo)) (\<lambda>m.
     rbind (py_map to_grpc_instruction (lfm_instructions lo)) (\<lambda>is.
     Inr \<lparr>fm_cookie = lfm_cookie lo, fm_cookie_mask = lfm_cookie_mask lo,
          fm_table_id = lfm_table_id lo, fm_command = lfm_command lo,
          fm_idle_timeout = lfm_idle_timeout lo, fm_hard_timeout = lfm_hard_timeout lo,
          fm_priority = lfm_priority lo, fm_buffer_id = lfm_buffer_id lo,
          fm_out_port = lfm_out_port lo, fm_out_group = lfm_out_group lo,
          fm_flags = lfm_flags lo, fm_match = m, fm_instructions = is\<rparr>))"

definition loxi_bucket_to_ofp_bucket :: "loxi_bucket \<Rightarrow> ofp_bucket res" where
  "loxi_bucket_to_ofp_bucket lo =
     rbind (py_map to_grpc_action (lb_actions lo)) (\<lambda>as.
     Inr \<lparr>b_weight = lb_weight lo, b_watch_port = lb_watch_port lo,
          b_watch_group = lb_watch_group lo, b_actions = as\<rparr>)"

definition loxi_group_mod_to_ofp_group_mod :: "loxi_group_mod \<Rightarrow> group_mod res" where
  "loxi_group_mod_to_ofp_group_mod lo =
     rbind (py_map loxi_bucket_to_ofp_bucket (lgm_buckets lo)) (\<lambda>bs.
     Inr \<lparr>gm_command = lgm_command lo, gm_type = lgm_group_type lo,
          gm_group_id = lgm_group_id lo, gm_buckets = bs\<rparr>)"

definition loxi_packet_out_to_ofp_packet_out :: "loxi_packet_out \<Rightarrow> packet_out_msg res" where
  "loxi_packet_out_to_ofp_packet_out lo =
     rbind (py_map to_grpc_action (lpo_actions lo)) (\<lambda>as.
     Inr \<lparr>po_buffer_id = lpo_buffer_id lo, po_in_port = lpo_in_port lo,
          po_actions = as, po_data = lpo_data lo\<rparr>)"


section \<open>From the core\<close>

definition make_loxi_oxm :: "oxm_field \<Rightarrow> loxi_oxm res" where
  "make_loxi_oxm f =
     rbind (if oxm_class f = 0 then Inl KeyError else py_assert (oxm_class f = OFPXMC_OPENFLOW_BASIC)) (\<lambda>_.
     case oxm_choice f of
       OfbField b \<Rightarrow>
         if f_type b = ETH_TYPE
         then (case f_value b of Eth_type v \<Rightarrow> Inr (Oxm_eth_type v) | _ \<Rightarrow> Inl KeyError)
         else if f_type b = IN_PORT
         then (case f_value b of Port v \<Rightarrow> Inr (Oxm_in_port v) | _ \<Rightarrow> Inl KeyError)
         else Inl NotImplementedError
     | _ \<Rightarrow> Inl KeyError)"

definition make_loxi_match :: "ofp_match \<Rightarrow> loxi_match res" where
  "make_loxi_match m =
     rbind (py_assert (m_type m = OFPMT_OXM)) (\<lambda>_. py_map make_loxi_oxm (oxm_fields m))"

definition make_loxi_action :: "ofp_action \<Rightarrow> loxi_action res" where
  "make_loxi_action a =
     (if act_type a = OUTPUT
      then (case act_data a of ActOutput p n \<Rightarrow> Inr (Action_output p n) | _ \<Rightarrow> Inl KeyError)
      else Inl NotImplementedError)"

definition make_loxi_instruction :: "ofp_instruction \<Rightarrow> loxi_instruction res" where
  "make_loxi_instruction i =
     (if i_type i = 0 then Inl KeyError
      else if i_type i = OFPIT_APPLY_ACTIONS
      then (case i_data i of
              InstrActions as \<Rightarrow>
                if as = [] then Inl KeyError
                else rbind (py_map make_loxi_action as) (\<lambda>xs. Inr (Apply_actions xs))
            | _ \<Rightarrow> Inl KeyError)
      else Inl NotImplementedError)"

definition ofp_flow_stats_to_loxi_flow_stats :: "flow_stats \<Rightarrow> loxi_flow_stats res" where
  "ofp_flow_stats_to_loxi_flow_stats f =
     rbind (make_loxi_match (fs_match f)) (\<lambda>m.
     rbind (if fs_instructions f = [] then Inl KeyError
            else py_map make_loxi_instruction (fs_instructions f)) (\<lambda>is.
     if fs_id f = 0 then Inl KeyError
     else Inr \<lparr>lfs_table_id = fs_table_id f, lfs_duration_sec = fs_duration_sec f,
          lfs_duration_nsec = fs_duration_nsec f, lfs_priority = fs_priority f,
          lfs_idle_timeout = fs_idle_timeout f, lfs_hard_timeout = fs_hard_timeout f,
          lfs_flags = fs_flags f, lfs_cookie = fs_cookie f,
          lfs_packet_count = fs_packet_count f, lfs_byte_count = fs_byte_count f,
          lfs_match = m, lfs_instructions = is\<rparr>))"

definition ofp_packet_in_to_loxi_packet_in :: "packet_in_msg \<Rightarrow> loxi_packet_in res" where
  "ofp_packet_in_to_loxi_packet_in p =
     rbind (make_loxi_match (pi_match p)) (\<lambda>m.
     Inr \<lparr>lpi_buffer_id = pi_buffer_id p, lpi_reason = pi_reason p, lpi_table_id = pi_table_id p,
          lpi_cookie = pi_cookie p, lpi_match = m, lpi_data = pi_data p\<rparr>)"

definition ofp_bucket_counter_to_loxy_bucket_counter :: "u64 \<times> u64 \<Rightarrow> u64 \<times> u64" where
  "ofp_bucket_counter_to_loxy_bucket_counter b = (fst b, snd b)"

definition ofp_group_entry_to_loxi_group_entry :: "group_entry \<Rightarrow> loxi_group_stats" where
  "ofp_group_entry_to_loxi_group_entry g =
     \<lparr>lgs_group_id = gs_group_id (g_stats g), lgs_ref_count = gs_ref_count (g_stats g),
      lgs_packet_count = gs_packet_count (g_stats g), lgs_byte_count = gs_byte_count (g_stats g),
      lgs_duration_sec = gs_duration_sec (g_stats g), lgs_duration_nsec = gs_duration_nsec (g_stats g),
      lgs_bucket_stats = map ofp_bucket_counter_to_loxy_bucket_counter (gs_bucket_stats (g_stats g))\<rparr>"


section \<open>Lemmas\<close>

fun oxm_readable :: "loxi_oxm \<Rightarrow> bool" where
  "oxm_readable (Oxm_eth_type _) = True"
| "oxm_readable (Oxm_in_port _) = True"
| "oxm_readable _ = False"

fun action_readable :: "loxi_action \<Rightarrow> bool" where
  "action_readable (Action_output p n) = True"
| "action_readable _ = False"

fun instruction_readable :: "loxi_instruction \<Rightarrow> bool" where
  "instruction_readable (Apply_actions as) \<longleftrightarrow>
     as \<noteq> [] \<and> list_all action_readable as"
| "instruction_readable _ = False"

lemmas oxm_defs = loxi_oxm_eth_type_to_ofp_oxm_def loxi_oxm_in_port_to_ofp_oxm_def
  loxi_oxm_ip_proto_to_ofp_oxm_def loxi_oxm_vlan_vid_to_ofp_oxm_def
  loxi_oxm_vlan_pcp_to_ofp_oxm_def loxi_oxm_ipv4_dst_to_ofp_oxm_def
  basic_oxm_def default_ofb_field_def

lemma py_map_round_trip:
  assumes "\<And>x. x \<in> set xs \<Longrightarrow> \<exists>y. f x = Inr y \<and> g y = Inr x"
  shows "\<exists>ys. py_map f xs = Inr ys \<and> py_map g ys = Inr xs"
  using assms
proof (induction xs)
  case Nil
  then show ?case by simp
next
  case (Cons x xs)
  from Cons.prems [of x] obtain y where "f x = Inr y" "g y = Inr x" by auto
  moreover from Cons obtain ys where "py_map f xs = Inr ys" "py_map g ys = Inr xs" by auto
  ultimately show ?case by (intro exI [of _ "y # ys"]) simp
qed

lemma oxm_round_trip: "oxm_readable x \<Longrightarrow> \<exists>y. to_grpc_oxm x = Inr y \<and> make_loxi_oxm y = Inr x"
  by (cases x) (simp_all add: oxm_defs make_loxi_oxm_def)

lemma match_round_trip:
  assumes "list_all oxm_readable m"
  shows "\<exists>x. loxi_match_v3_to_ofp_match m = Inr x \<and> make_loxi_match x = Inr m"
proof -
  from assms obtain fs where "py_map to_grpc_oxm m = Inr fs" "py_map make_loxi_oxm fs = Inr m"
    using py_map_round_trip [of m to_grpc_oxm make_loxi_oxm] oxm_round_trip by (auto simp: list_all_iff)
  then show ?thesis by (simp add: loxi_match_v3_to_ofp_match_def make_loxi_match_def)
qed

lemma instruction_round_trip:
  assumes "instruction_readable i"
  shows "\<exists>x. to_grpc_instruction i = Inr x \<and> make_loxi_instruction x = Inr i"
proof -
  from assms obtain as where i: "i = Apply_actions as" "as \<noteq> []" and out: "list_all action_readable as"
    by (cases i) simp_all
  have "\<exists>y. to_grpc_action a = Inr y \<and> make_loxi_action y = Inr a" if "a \<in> set as" for a
    using out that by (cases a)
      (auto simp: loxi_output_action_to_ofp_action_def make_loxi_action_def list_all_iff)
  then obtain xs where xs: "py_map to_grpc_action as = Inr xs" "py_map make_loxi_action xs = Inr as"
    using py_map_round_trip [of as to_grpc_action make_loxi_action] by blast
  then have "xs \<noteq> []" using i(2) py_map_length [OF xs(1)] by auto
  with xs i show ?thesis
    by (simp add: loxi_apply_actions_to_ofp_instruction_def make_loxi_instruction_def)
qed

lemma flow_mod_to_grpc_readable:
  assumes "list_all oxm_readable (lfm_match lo)" and "list_all instruction_readable (lfm_instructions lo)"
  shows "\<exists>fm. loxi_flow_mod_to_ofp_flow_mod lo = Inr fm \<and>
    make_loxi_match (fm_match fm) = Inr (lfm_match lo) \<and>
    py_map make_loxi_instruction (fm_instructions fm) = Inr (lfm_instructions lo) \<and>
    fm_table_id fm = lfm_table_id lo \<and> fm_priority fm = lfm_priority lo \<and>
    fm_idle_timeout fm = lfm_idle_timeout lo \<and> fm_hard_timeout fm = lfm_hard_timeout lo \<and>
    fm_flags fm = lfm_flags lo \<and> fm_cookie fm = lfm_cookie lo \<and> fm_cookie_mask fm = lfm_cookie_mask lo"
proof -
  obtain m where m: "loxi_match_v3_to_ofp_match (lfm_match lo) = Inr m" "make_loxi_match m = Inr (lfm_match lo)"
    using match_round_trip [OF assms(1)] by blast
  obtain ins where ins: "py_map to_grpc_instruction (lfm_instructions lo) = Inr ins"
      "py_map make_loxi_instruction ins = Inr (lfm_instructions lo)"
    using py_map_round_trip [of "lfm_instructions lo" to_grpc_instruction make_loxi_instruction]
      instruction_round_trip assms(2) by (auto simp: list_all_iff)
  from m ins show ?thesis by (simp add: loxi_flow_mod_to_ofp_flow_mod_def)
qed


section \<open>Properties\<close>

text \<open>
  C35. Flows of the kind the converter knows in both directions are read back as they were installed.
  Take a flow-mod that matches only on the Ethernet type and the input port, has at least one
  instruction, only ones that apply a non-empty list of output actions, no cookie mask and no overlap
  check, and whose key no flow of the table has and whose id is not zero. Then \<^verbatim>\<open>flow_add\<close> of
  the logical device agent stores it as one new entry at the end of the table, and the converter reads
  this entry back with the match, the instructions, the priority, the time-outs, the flags and the
  cookie of the flow-mod. (Flows outside these conditions can be unreadable: the lemmas below.)
\<close>

theorem controller_flow_read_back:
  assumes "list_all oxm_readable (lfm_match lo)" and "list_all instruction_readable (lfm_instructions lo)"
    and "lfm_instructions lo \<noteq> []" and "lfm_cookie_mask lo = 0"
    and "lfm_flags lo AND OFPFF_CHECK_OVERLAP = 0"
    and "loxi_flow_mod_to_ofp_flow_mod lo = Inr fm"
    and "f = flow_stats_entry_from_flow_mod_message (env_hash E) fm"
    and "find_flow (ld_flows s) f = None" and "fs_id f \<noteq> 0"
  shows "ld_flows (snd (flow_add E fm s)) = ld_flows s @ [f] \<and>
    ofp_flow_stats_to_loxi_flow_stats f = Inr \<lparr>lfs_table_id = lfm_table_id lo, lfs_duration_sec = 0,
      lfs_duration_nsec = 0, lfs_priority = lfm_priority lo, lfs_idle_timeout = lfm_idle_timeout lo,
      lfs_hard_timeout = lfm_hard_timeout lo, lfs_flags = lfm_flags lo, lfs_cookie = lfm_cookie lo,
      lfs_packet_count = 0, lfs_byte_count = 0, lfs_match = lfm_match lo,
      lfs_instructions = lfm_instructions lo\<rparr>"
proof -
  have fm: "make_loxi_match (fm_match fm) = Inr (lfm_match lo)"
      "py_map make_loxi_instruction (fm_instructions fm) = Inr (lfm_instructions lo)"
      "fm_table_id fm = lfm_table_id lo" "fm_priority fm = lfm_priority lo"
      "fm_idle_timeout fm = lfm_idle_timeout lo" "fm_hard_timeout fm = lfm_hard_timeout lo"
      "fm_flags fm = lfm_flags lo" "fm_cookie fm = lfm_cookie lo" "fm_cookie_mask fm = lfm_cookie_mask lo"
    using flow_mod_to_grpc_readable [OF assms(1,2)] assms(6) by auto
  have f: "fs_match f = fm_match fm" "fs_instructions f = fm_instructions fm" "fs_table_id f = fm_table_id fm"
      "fs_priority f = fm_priority fm" "fs_idle_timeout f = fm_idle_timeout fm"
      "fs_hard_timeout f = fm_hard_timeout fm" "fs_flags f = fm_flags fm" "fs_cookie f = fm_cookie fm"
      "fs_duration_sec f = 0" "fs_duration_nsec f = 0" "fs_packet_count f = 0" "fs_byte_count f = 0"
    by (simp_all add: assms(7) flow_stats_entry_from_flow_mod_message_def Let_def)
  have "fm_instructions fm \<noteq> []" using fm(2) assms(3) py_map_length [OF fm(2)] by auto
  then have "ofp_flow_stats_to_loxi_flow_stats f = Inr \<lparr>lfs_table_id = lfm_table_id lo, lfs_duration_sec = 0,
      lfs_duration_nsec = 0, lfs_priority = lfm_priority lo, lfs_idle_timeout = lfm_idle_timeout lo,
      lfs_hard_timeout = lfm_hard_timeout lo, lfs_flags = lfm_flags lo, lfs_cookie = lfm_cookie lo,
      lfs_packet_count = 0, lfs_byte_count = 0, lfs_match = lfm_match lo,
      lfs_instructions = lfm_instructions lo\<rparr>"
    by (simp add: ofp_flow_stats_to_loxi_flow_stats_def f fm assms(9))
  moreover have "ld_flows (snd (flow_add E fm s)) = ld_flows s @ [f]"
    using assms(4,5,8) fm(7,9) unfolding assms(7) by (simp add: flow_add_def Let_def)
  ultimately show ?thesis by blast
qed

definition ex_loxi :: loxi_flow_mod where
  "ex_loxi = \<lparr>lfm_cookie = 7, lfm_cookie_mask = 0, lfm_table_id = 0, lfm_command = 0,
     lfm_idle_timeout = 0, lfm_hard_timeout = 0, lfm_priority = 1000, lfm_buffer_id = 0,
     lfm_out_port = 0xffffffff, lfm_out_group = 0xffffffff, lfm_flags = 0,
     lfm_match = [Oxm_in_port 2, Oxm_eth_type 0x888e],
     lfm_instructions = [Apply_actions [Action_output 0xfffffffd 0]]\<rparr>"

definition ex_loxi_grpc :: flow_mod where
  "ex_loxi_grpc = projr (loxi_flow_mod_to_ofp_flow_mod ex_loxi)"

theorem controller_flow_read_back_witness:
  "ld_flows (snd (flow_add ex_env ex_loxi_grpc ex_agent)) = ld_flows ex_agent @
      [flow_stats_entry_from_flow_mod_message (env_hash ex_env) ex_loxi_grpc] \<and>
   ofp_flow_stats_to_loxi_flow_stats (flow_stats_entry_from_flow_mod_message (env_hash ex_env) ex_loxi_grpc) =
     Inr \<lparr>lfs_table_id = lfm_table_id ex_loxi, lfs_duration_sec = 0, lfs_duration_nsec = 0,
       lfs_priority = lfm_priority ex_loxi, lfs_idle_timeout = lfm_idle_timeout ex_loxi,
       lfs_hard_timeout = lfm_hard_timeout ex_loxi, lfs_flags = lfm_flags ex_loxi,
       lfs_cookie = lfm_cookie ex_loxi, lfs_packet_count = 0, lfs_byte_count = 0,
       lfs_match = lfm_match ex_loxi, lfs_instructions = lfm_instructions ex_loxi\<rparr>"
proof (rule controller_flow_read_back [OF _ _ _ _ _ _ refl])
  show "loxi_flow_mod_to_ofp_flow_mod ex_loxi = Inr ex_loxi_grpc" by code_simp
  show "fs_id (flow_stats_entry_from_flow_mod_message (env_hash ex_env) ex_loxi_grpc) \<noteq> 0" by code_simp
  show "find_flow (ld_flows ex_agent)
      (flow_stats_entry_from_flow_mod_message (env_hash ex_env) ex_loxi_grpc) = None" by code_simp
qed (simp_all add: ex_loxi_def)

text \<open>
  A delete request with the wildcard port of OpenFlow deletes nothing: the converter passes
  \<^verbatim>\<open>OFPP_ANY\<close> of the wire protocol (all ones) on as it is, the logical device agent compares it
  with the \<^verbatim>\<open>OFPP_ANY\<close> of its own messages (which lacks the top bit) and looks for flows that
  output to that port; unless there is one, the table stays as it was.
\<close>

theorem wildcard_delete_deletes_nothing:
  assumes "loxi_flow_mod_to_ofp_flow_mod lo = Inr fm" and "lfm_out_port lo = 0xffffffff"
    and "\<forall>f \<in> set (ld_flows s). \<not> flow_has_out_port f 0xffffffff"
  shows "flow_delete E fm s = (Inr (), s)"
proof -
  have "fm_out_port fm = 0xffffffff"
    using assms(1,2) by (auto simp: loxi_flow_mod_to_ofp_flow_mod_def rbind_eq_Inr)
  then have no: "flow_matches_spec f fm = Inr False" if "f \<in> set (ld_flows s)" for f
    using that assms(3) by (simp add: flow_matches_spec_def)
  have "partition_flows (\<lambda>f. flow_matches_spec f fm) fs = Inr (fs, [])"
    if "set fs \<subseteq> set (ld_flows s)" for fs
    using that by (induction fs) (simp_all add: no)
  then show ?thesis by (simp add: flow_delete_def announce_flows_deleted_def)
qed

theorem wildcard_delete_deletes_nothing_witness:
  "flow_delete ex_env ex_loxi_grpc (snd (flow_add ex_env ex_loxi_grpc ex_agent)) =
     (Inr (), snd (flow_add ex_env ex_loxi_grpc ex_agent))"
proof (rule wildcard_delete_deletes_nothing [where lo = ex_loxi])
  show "loxi_flow_mod_to_ofp_flow_mod ex_loxi = Inr ex_loxi_grpc" by code_simp
  show "lfm_out_port ex_loxi = 0xffffffff" by (simp add: ex_loxi_def)
  show "\<forall>f \<in> set (ld_flows (snd (flow_add ex_env ex_loxi_grpc ex_agent))). \<not> flow_has_out_port f 0xffffffff"
    by code_simp
qed

text \<open>
  A flow whose match the converter accepts from a controller but cannot give back makes reading
  the flows of the device fail.
\<close>

lemma vlan_match_not_readable:
  "to_grpc_oxm (Oxm_vlan_vid v) = Inr x \<Longrightarrow> make_loxi_oxm x = Inl NotImplementedError"
  by (auto simp: oxm_defs make_loxi_oxm_def)

lemma flow_without_instructions_not_readable:
  "fs_instructions f = [] \<Longrightarrow> make_loxi_match (fs_match f) = Inr m \<Longrightarrow>
   ofp_flow_stats_to_loxi_flow_stats f = Inl KeyError"
  by (simp add: ofp_flow_stats_to_loxi_flow_stats_def)

end
