(* ===== verification/MessageQueue.thy ===== *)
theory MessageQueue
  imports Prelude "HOL-Library.Multiset"
begin

text \<open>
  The selective queue between the two halves of the OpenFlow protocol,
  \<^verbatim>\<open>src/common/utils/message_queue.py\<close>.

  A waiter is a deferred (a number) with a predicate.  Calling a deferred is an entry of
  \<open>fired\<close>; a deferred that \<^verbatim>\<open>get\<close> returns already called is such an entry, too.  What the
  callbacks do is not part of the queue.
\<close>

record 'm mqueue =
  waiting :: "(nat \<times> ('m \<Rightarrow> bool)) list"
  queue :: "'m list"
  fired :: "(nat \<times> 'm) list"
  failed :: "nat list"
  next_d :: nat

definition MessageQueue_init :: "'m mqueue" where
  "MessageQueue_init = \<lparr>waiting = [], queue = [], fired = [], failed = [], next_d = 0\<rparr>"

definition mq_reset :: "'m mqueue \<Rightarrow> 'm mqueue" where
  "mq_reset q = q\<lparr>failed := failed q @ map fst (waiting q), waiting := [], queue := []\<rparr>"

text \<open>The first entry that satisfies a test, and the list without it.\<close>

fun pop_first :: "('a \<Rightarrow> bool) \<Rightarrow> 'a list \<Rightarrow> ('a \<times> 'a list) option" where
  "pop_first P [] = None"
| "pop_first P (x # xs) =
     (if P x then Some (x, xs) else map_option (\<lambda>(y, ys). (y, x # ys)) (pop_first P xs))"

definition mq_put :: "'m \<Rightarrow> 'm mqueue \<Rightarrow> 'm mqueue" where
  "mq_put m q =
     (case pop_first (\<lambda>(d, p). p m) (waiting q) of
        Some ((d, p), ws) \<Rightarrow> q\<lparr>waiting := ws, fired := fired q @ [(d, m)]\<rparr>
      | None \<Rightarrow> q\<lparr>queue := queue q @ [m]\<rparr>)"

definition mq_get :: "('m \<Rightarrow> bool) \<Rightarrow> 'm mqueue \<Rightarrow> nat \<times> 'm mqueue" where
  "mq_get p q =
     (let d = next_d q; q = q\<lparr>next_d := Suc d\<rparr> in
      case pop_first p (queue q) of
        Some (m, ms) \<Rightarrow> (d, q\<lparr>queue := ms, fired := fired q @ [(d, m)]\<rparr>)
      | None \<Rightarrow> (d, q\<lparr>waiting := waiting q @ [(d, p)]\<rparr>))"

text \<open>
  \<^verbatim>\<open>_cancelGet\<close> removes entries while it runs through the indices the list had before.
\<close>

fun cancel_loop :: "nat \<Rightarrow> nat list \<Rightarrow> (nat \<times> 'p) list \<Rightarrow> (nat \<times> 'p) list res \<times> (nat \<times> 'p) list" where
  "cancel_loop d [] ws = (Inr ws, ws)"
| "cancel_loop d (i # is) ws =
     (if i < length ws
      then cancel_loop d is (if fst (ws ! i) = d then take i ws @ drop (Suc i) ws else ws)
      else (Inl IndexError, ws))"

definition mq_cancel :: "nat \<Rightarrow> ('m mqueue, unit) st" where
  "mq_cancel d q =
     (case cancel_loop d [0..<length (waiting q)] (waiting q) of
        (Inl e, ws) \<Rightarrow> (Inl e, q\<lparr>waiting := ws\<rparr>)
      | (Inr _, ws) \<Rightarrow> (Inr (), q\<lparr>waiting := ws\<rparr>))"

datatype 'm mq_op = Put 'm | Get "'m \<Rightarrow> bool"

fun mq_do :: "'m mq_op \<Rightarrow> 'm mqueue \<Rightarrow> 'm mqueue" where
  "mq_do (Put m) q = mq_put m q"
| "mq_do (Get p) q = snd (mq_get p q)"

definition mq_run :: "'m mq_op list \<Rightarrow> 'm mqueue" where
  "mq_run ops = fold mq_do ops MessageQueue_init"

fun puts :: "'m mq_op list \<Rightarrow> 'm list" where
  "puts [] = []"
| "puts (Put m # ops) = m # puts ops"
| "puts (Get p # ops) = puts ops"


text \<open>The predicates of the gets; the deferred that the \<open>d\<close>-th get returns has the number \<open>d\<close>.\<close>

fun gets :: "'m mq_op list \<Rightarrow> ('m \<Rightarrow> bool) list" where
  "gets [] = []"
| "gets (Put m # ops) = gets ops"
| "gets (Get p # ops) = p # gets ops"


section \<open>Lemmas\<close>

lemma pop_first_None: "pop_first P xs = None \<longleftrightarrow> (\<forall>x \<in> set xs. \<not> P x)"
  by (induction xs) auto

lemma pop_first_Some:
  "pop_first P xs = Some (y, ys) \<Longrightarrow>
     \<exists>as bs. xs = as @ y # bs \<and> ys = as @ bs \<and> P y \<and> (\<forall>a \<in> set as. \<not> P a)"
proof (induction xs arbitrary: ys)
  case Nil
  then show ?case by simp
next
  case (Cons x xs)
  show ?case
  proof (cases "P x")
    case True
    with Cons.prems show ?thesis by (intro exI [of _ "[]"] exI [of _ ys]) auto
  next
    case False
    with Cons.prems obtain zs where zs: "ys = x # zs" "pop_first P xs = Some (y, zs)" by auto
    from Cons.IH [OF zs(2)] obtain as bs where
      "xs = as @ y # bs" "zs = as @ bs" "P y" "\<forall>a \<in> set as. \<not> P a" by auto
    with False zs(1) show ?thesis by (intro exI [of _ "x # as"] exI [of _ bs]) simp
  qed
qed

text \<open>
  For the predicates \<open>ps\<close> of the gets so far: no queued message satisfies a waiter, every deferred is
  waiting or has been called and not both, a waiter has the predicate of its get, and the message
  a deferred was called with satisfies the predicate of its get.
\<close>

definition mq_inv :: "('m \<Rightarrow> bool) list \<Rightarrow> 'm mqueue \<Rightarrow> bool" where
  "mq_inv ps q \<longleftrightarrow>
     (\<forall>m \<in> set (queue q). \<forall>w \<in> set (waiting q). \<not> snd w m) \<and>
     distinct (map fst (waiting q) @ map fst (fired q)) \<and>
     set (map fst (waiting q) @ map fst (fired q)) = {..<length ps} \<and> next_d q = length ps \<and>
     (\<forall>(d, p) \<in> set (waiting q). ps ! d = p) \<and>
     (\<forall>(d, m) \<in> set (fired q). (ps ! d) m)"

lemma mq_inv_put:
  assumes "mq_inv ps q"
  shows "mq_inv ps (mq_put m q)"
    and "mset (map snd (fired (mq_put m q))) + mset (queue (mq_put m q)) =
      mset (map snd (fired q)) + mset (queue q) + {#m#}"
proof -
  show "mq_inv ps (mq_put m q)"
  proof (cases "pop_first (\<lambda>(d, p). p m) (waiting q)")
    case None
    then have "\<forall>w \<in> set (waiting q). \<not> snd w m" by (auto simp: pop_first_None)
    with None assms show ?thesis by (auto simp: mq_inv_def mq_put_def)
  next
    case (Some r)
    obtain d p ws where r: "r = ((d, p), ws)" by (metis prod.exhaust)
    from pop_first_Some [OF Some [unfolded r]] obtain as bs where
      ws: "waiting q = as @ (d, p) # bs" "ws = as @ bs" "p m" by auto
    moreover have "ps ! d = p" using assms ws(1) by (auto simp: mq_inv_def)
    ultimately show ?thesis using Some r assms by (auto simp: mq_inv_def mq_put_def)
  qed
  show "mset (map snd (fired (mq_put m q))) + mset (queue (mq_put m q)) =
      mset (map snd (fired q)) + mset (queue q) + {#m#}"
    by (auto simp: mq_put_def split: option.splits prod.splits)
qed

text \<open>What is known of the earlier deferreds stays so when a predicate is appended.\<close>

lemma mq_inv_older:
  assumes "mq_inv ps q"
  shows "\<forall>(d, r) \<in> set (waiting q). (ps @ [p]) ! d = r" and "\<forall>(d, m) \<in> set (fired q). ((ps @ [p]) ! d) m"
    and "length ps \<notin> fst ` set (waiting q)" and "length ps \<notin> fst ` set (fired q)"
proof -
  have S: "set (map fst (waiting q) @ map fst (fired q)) = {..<length ps}"
    using assms by (simp only: mq_inv_def)
  have w: "d < length ps \<and> ps ! d = r" if "(d, r) \<in> set (waiting q)" for d r
  proof
    have "d \<in> {..<length ps}" unfolding S [symmetric] using that by force
    then show "d < length ps" by simp
    show "ps ! d = r" using assms that by (auto simp: mq_inv_def)
  qed
  have f: "d < length ps \<and> (ps ! d) m" if "(d, m) \<in> set (fired q)" for d m
  proof
    have "d \<in> {..<length ps}" unfolding S [symmetric] using that by force
    then show "d < length ps" by simp
    show "(ps ! d) m" using assms that by (auto simp: mq_inv_def)
  qed
  show "\<forall>(d, r) \<in> set (waiting q). (ps @ [p]) ! d = r" using w by (auto simp: nth_append)
  show "\<forall>(d, m) \<in> set (fired q). ((ps @ [p]) ! d) m" using f by (auto simp: nth_append)
  show "length ps \<notin> fst ` set (waiting q)" "length ps \<notin> fst ` set (fired q)" using w f by fastforce+
qed

lemma mq_inv_get:
  assumes "mq_inv ps q"
  shows "mq_inv (ps @ [p]) (snd (mq_get p q))"
    and "mset (map snd (fired (snd (mq_get p q)))) + mset (queue (snd (mq_get p q))) =
      mset (map snd (fired q)) + mset (queue q)"
proof -
  note older = mq_inv_older(1,2) [OF assms, where p = p] mq_inv_older(3,4) [OF assms]
  show "mq_inv (ps @ [p]) (snd (mq_get p q))"
  proof (cases "pop_first p (queue q)")
    case None
    then have "\<forall>m \<in> set (queue q). \<not> p m" by (simp add: pop_first_None)
    with None assms older show ?thesis by (simp add: mq_inv_def mq_get_def Let_def lessThan_Suc)
  next
    case (Some r)
    obtain m ms where r: "r = (m, ms)" by (rule prod.exhaust)
    from pop_first_Some [OF Some [unfolded r]] obtain as bs where
      "queue q = as @ m # bs" "ms = as @ bs" "p m" by blast
    with Some r assms older show ?thesis
      by (simp add: mq_inv_def mq_get_def Let_def lessThan_Suc)
  qed
  show "mset (map snd (fired (snd (mq_get p q)))) + mset (queue (snd (mq_get p q))) =
      mset (map snd (fired q)) + mset (queue q)"
    by (auto simp: mq_get_def Let_def dest!: pop_first_Some split: option.splits prod.splits)
qed

lemma puts_append [simp]: "puts (xs @ ys) = puts xs @ puts ys"
  by (induction xs rule: puts.induct) auto

lemma gets_append [simp]: "gets (xs @ ys) = gets xs @ gets ys"
  by (induction xs rule: gets.induct) auto

lemma mq_run_inv:
  "mq_inv (gets ops) (mq_run ops) \<and>
   mset (map snd (fired (mq_run ops))) + mset (queue (mq_run ops)) = mset (puts ops)"
proof (induction ops rule: rev_induct)
  case Nil
  then show ?case by (simp add: mq_run_def MessageQueue_init_def mq_inv_def)
next
  case (snoc op ops)
  have run: "mq_run (ops @ [op]) = mq_do op (mq_run ops)" by (simp add: mq_run_def)
  show ?case
    unfolding run using snoc mq_inv_put [of "gets ops" "mq_run ops"] mq_inv_get [of "gets ops" "mq_run ops"]
    by (cases op) simp_all
qed


section \<open>Properties\<close>

text \<open>
  C28. The queue loses nothing, holds nothing back and gives nobody what they did not ask for: after
  any sequence of puts and gets, every deferred is either waiting or was called exactly once, and
  then with a message that satisfies the predicate of its get; no queued message satisfies the
  predicate of anyone who waits; and the messages put are, with multiplicity, those delivered
  together with those still queued.
\<close>

theorem queue_delivers:
  "distinct (map fst (waiting (mq_run ops)) @ map fst (fired (mq_run ops))) \<and>
   fst ` set (waiting (mq_run ops)) \<union> fst ` set (fired (mq_run ops)) = {..<length (gets ops)} \<and>
   list_all (\<lambda>(d, m). (gets ops ! d) m) (fired (mq_run ops)) \<and>
   list_all (\<lambda>(d, p). list_all (\<lambda>m. \<not> (gets ops ! d) m) (queue (mq_run ops))) (waiting (mq_run ops)) \<and>
   mset (map snd (fired (mq_run ops))) + mset (queue (mq_run ops)) = mset (puts ops)"
proof (intro conjI)
  note inv = mq_run_inv [of ops, THEN conjunct1]
  show "distinct (map fst (waiting (mq_run ops)) @ map fst (fired (mq_run ops)))"
    using inv by (simp only: mq_inv_def)
  show "fst ` set (waiting (mq_run ops)) \<union> fst ` set (fired (mq_run ops)) = {..<length (gets ops)}"
    using inv by (simp add: mq_inv_def)
  show "list_all (\<lambda>(d, m). (gets ops ! d) m) (fired (mq_run ops))"
    using inv by (simp add: mq_inv_def list_all_iff)
  show "list_all (\<lambda>(d, p). list_all (\<lambda>m. \<not> (gets ops ! d) m) (queue (mq_run ops))) (waiting (mq_run ops))"
    using inv unfolding mq_inv_def list_all_iff by fastforce
  show "mset (map snd (fired (mq_run ops))) + mset (queue (mq_run ops)) = mset (puts ops)"
    using mq_run_inv [of ops] by blast
qed

text \<open>Cancelling a waiter that is not the last one removes it and then raises.\<close>

lemma cancel_raises:
  "fst (mq_cancel 0 (mq_run [Get (\<lambda>m. m = (1 :: int)), Get (\<lambda>m. m = 2)])) = Inl IndexError"
  by (simp add: mq_run_def mq_get_def MessageQueue_init_def mq_cancel_def Let_def)

end
