(* ===== verification/OfProtocol.thy ===== *)
theory OfProtocol
  imports Converter MessageQueue
begin

text \<open>
  The upper half of the OpenFlow protocol of the agent:
  \<^verbatim>\<open>src/ofagent/of_protocol_handler.py\<close>, with \<^verbatim>\<open>send\<close> of
  \<^verbatim>\<open>of_connection.py\<close>, the calls of \<^verbatim>\<open>grpc_client.py\<close> and the converters of ports.

  A session is the state of one connection to a controller.  Its coroutine waits for a hello and
  then serves the requests one after the other; the first exception of a handler ends it.  The
  handlers decorated with \<^verbatim>\<open>inlineCallbacks\<close> start a call to the core and return; what they
  do with the result is a continuation, and an exception of theirs is a failure of a deferred
  nobody looks at (\<open>ses_unseen\<close>).  Calls return in any order, or fail.

  Messages are of version 1.3.  They are sent as objects: turning them into bytes is generated
  code.

  The lemmas show which requests end a session, that no reply is sent without a request, and
  that every request is answered when the core answers.
\<close>

section \<open>Messages\<close>

record switch_features =
  sf_datapath_id :: u64
  sf_n_buffers :: u32
  sf_n_tables :: u32
  sf_auxiliary_id :: u32
  sf_capabilities :: u32

record ofp_desc =
  mfr_desc :: string
  hw_desc :: string
  sw_desc :: string
  serial_num :: string
  dp_desc :: string

text \<open>The requests by class; \<open>Request t\<close> is a message of any other class, with type \<open>t\<close>.\<close>

datatype of_body =
    Flow_mod loxi_flow_mod
  | Group_mod loxi_group_mod
  | Packet_out loxi_packet_out
  | Role_request nat u64
  | Stats_request nat
  | Request nat

record of_msg =
  of_xid :: nat
  of_body :: of_body

datatype of_reply =
    Hello
  | Echo_reply
  | Features_reply u64 u32 u32 u32 u32
  | Barrier_reply
  | Get_config_reply nat
  | Role_reply nat u64
  | Desc_stats_reply ofp_desc
  | Flow_stats_reply "loxi_flow_stats list"
  | Group_stats_reply "loxi_group_stats list"
  | Group_desc_stats_reply "unit list"
  | Meter_stats_reply "unit list"
  | Port_stats_reply "unit list"
  | Table_stats_reply "unit list"
  | Port_desc_stats_reply "ofp_port list"
  | Bad_request_error_msg
  | Packet_in loxi_packet_in
  | Port_status nat ofp_port

fun of_type :: "of_body \<Rightarrow> nat" where
  "of_type (Flow_mod _) = 14"
| "of_type (Group_mod _) = 15"
| "of_type (Packet_out _) = 13"
| "of_type (Role_request _ _) = 24"
| "of_type (Stats_request _) = 18"
| "of_type (Request t) = t"

fun to_grpc_flow_mod :: "of_body \<Rightarrow> flow_mod res" where
  "to_grpc_flow_mod (Flow_mod lo) = loxi_flow_mod_to_ofp_flow_mod lo"
| "to_grpc_flow_mod _ = Inl KeyError"

fun to_grpc_group_mod :: "of_body \<Rightarrow> group_mod res" where
  "to_grpc_group_mod (Group_mod lo) = loxi_group_mod_to_ofp_group_mod lo"
| "to_grpc_group_mod _ = Inl KeyError"

fun to_grpc_packet_out :: "of_body \<Rightarrow> packet_out_msg res" where
  "to_grpc_packet_out (Packet_out lo) = loxi_packet_out_to_ofp_packet_out lo"
| "to_grpc_packet_out _ = Inl KeyError"

text \<open>Every field of a port that is not set is zero in both; the address has six zeros.\<close>

definition ofp_port_to_loxi_port_desc :: "ofp_port \<Rightarrow> ofp_port" where
  "ofp_port_to_loxi_port_desc p =
     (if op_hw_addr p = [] then p\<lparr>op_hw_addr := replicate 6 0\<rparr> else p)"

definition ofp_port_status_to_loxi_port_status :: "port_status \<Rightarrow> of_reply" where
  "ofp_port_status_to_loxi_port_status ps =
     Port_status (ps_reason ps) (ofp_port_to_loxi_port_desc (ps_desc ps))"


section \<open>Calls to the core (grpc\_client.py)\<close>

datatype rpc =
    GetLogicalDevice string
  | UpdateLogicalDeviceFlowTable string flow_mod
  | UpdateLogicalDeviceFlowGroupTable string group_mod
  | ListLogicalDeviceFlows string
  | ListLogicalDeviceFlowGroups string
  | ListLogicalDevicePorts string

datatype rpc_result =
    Logical_device switch_features ofp_desc
  | Flows "flow_stats list"
  | Groups "group_entry list"
  | Ports "ofp_port list"
  | Empty

text \<open>What a handler does with the result, for the transaction of its request.\<close>

datatype cont =
    Then_features nat
  | Then_desc nat
  | Then_flow_stats nat
  | Then_group_stats nat
  | Then_port_desc nat
  | Then_nothing


section \<open>Sessions\<close>

datatype phase = Created | Await_hello | Serving | Ended

record session =
  ses_datapath_id :: u64
  ses_device_id :: string
  ses_phase :: phase
  ses_connected :: bool
  ses_next_xid :: nat
  ses_queue :: "of_msg list"
  ses_sent :: "(nat \<times> of_reply) list"
  ses_calls :: "(rpc \<times> cont) list"
  ses_packets_out :: "(string \<times> packet_out_msg) list"
  ses_unseen :: "pyerr list"

type_synonym 'a ses = "(session, 'a) st"

definition OpenFlowProtocolHandler_init :: "u64 \<Rightarrow> string \<Rightarrow> session" where
  "OpenFlowProtocolHandler_init datapath_id device_id =
     \<lparr>ses_datapath_id = datapath_id, ses_device_id = device_id, ses_phase = Created,
      ses_connected = True, ses_next_xid = 1, ses_queue = [], ses_sent = [], ses_calls = [],
      ses_packets_out = [], ses_unseen = []\<rparr>"

definition gen_xid :: "nat ses" where
  "gen_xid s = (Inr (ses_next_xid s), s\<lparr>ses_next_xid := ses_next_xid s + 1\<rparr>)"

definition cxn_send :: "nat option \<Rightarrow> of_reply \<Rightarrow> unit ses" where
  "cxn_send xid msg s =
     (if \<not> ses_connected s then (Inl AssertionError, s)
      else
        st_bind (case xid of None \<Rightarrow> gen_xid | Some x \<Rightarrow> st_ret x)
          (\<lambda>x. st_modify (\<lambda>s. s\<lparr>ses_sent := ses_sent s @ [(x, msg)]\<rparr>)) s)"

text \<open>
  A handler with \<^verbatim>\<open>inlineCallbacks\<close> whose deferred is dropped: nothing of an exception reaches
  the caller.
\<close>

definition unattended :: "unit ses \<Rightarrow> unit ses" where
  "unattended f s =
     (case f s of (Inl e, s') \<Rightarrow> (Inr (), s'\<lparr>ses_unseen := ses_unseen s' @ [e]\<rparr>) | (Inr _, s') \<Rightarrow> (Inr (), s'))"

definition call :: "rpc \<Rightarrow> cont \<Rightarrow> unit ses" where
  "call c k = st_modify (\<lambda>s. s\<lparr>ses_calls := ses_calls s @ [(c, k)]\<rparr>)"

definition rpc_get_device_info :: "cont \<Rightarrow> unit ses" where
  "rpc_get_device_info k s = call (GetLogicalDevice (ses_device_id s)) k s"

definition rpc_update_flow_table :: "flow_mod \<Rightarrow> unit ses" where
  "rpc_update_flow_table fm s = call (UpdateLogicalDeviceFlowTable (ses_device_id s) fm) Then_nothing s"

definition rpc_update_group_table :: "group_mod \<Rightarrow> unit ses" where
  "rpc_update_group_table gm s = call (UpdateLogicalDeviceFlowGroupTable (ses_device_id s) gm) Then_nothing s"

definition rpc_list_flows :: "cont \<Rightarrow> unit ses" where
  "rpc_list_flows k s = call (ListLogicalDeviceFlows (ses_device_id s)) k s"

definition rpc_list_groups :: "cont \<Rightarrow> unit ses" where
  "rpc_list_groups k s = call (ListLogicalDeviceFlowGroups (ses_device_id s)) k s"

definition rpc_get_port_list :: "cont \<Rightarrow> unit ses" where
  "rpc_get_port_list k s = call (ListLogicalDevicePorts (ses_device_id s)) k s"

definition rpc_send_packet_out :: "packet_out_msg \<Rightarrow> unit ses" where
  "rpc_send_packet_out po =
     st_modify (\<lambda>s. s\<lparr>ses_packets_out := ses_packets_out s @ [(ses_device_id s, po)]\<rparr>)"


section \<open>Handlers\<close>

definition handle_echo_request :: "of_msg \<Rightarrow> unit ses" where
  "handle_echo_request req = cxn_send (Some (of_xid req)) Echo_reply"

definition handle_feature_request :: "of_msg \<Rightarrow> unit ses" where
  "handle_feature_request req = unattended (rpc_get_device_info (Then_features (of_xid req)))"

definition handle_barrier_request :: "of_msg \<Rightarrow> unit ses" where
  "handle_barrier_request req = cxn_send (Some (of_xid req)) Barrier_reply"

text \<open>The body of every handler that is not implemented.\<close>

definition handle_not_implemented :: "of_msg \<Rightarrow> unit ses" where
  "handle_not_implemented req = st_raise NotImplementedError"

definition handle_flow_mod_request :: "of_msg \<Rightarrow> unit ses" where
  "handle_flow_mod_request req =
     unattended (st_bind (st_res (\<lambda>_. to_grpc_flow_mod (of_body req))) rpc_update_flow_table)"

definition handle_get_config_request :: "of_msg \<Rightarrow> unit ses" where
  "handle_get_config_request req = cxn_send (Some (of_xid req)) (Get_config_reply 65535)"

definition handle_group_mod_request :: "of_msg \<Rightarrow> unit ses" where
  "handle_group_mod_request req =
     unattended (st_bind (st_res (\<lambda>_. to_grpc_group_mod (of_body req))) rpc_update_group_table)"

abbreviation (input) OFPCR_ROLE_MASTER :: nat where
  "OFPCR_ROLE_MASTER \<equiv> 2"

definition handle_role_request :: "of_msg \<Rightarrow> unit ses" where
  "handle_role_request req =
     (case of_body req of
        Role_request role generation_id \<Rightarrow>
          if role \<noteq> OFPCR_ROLE_MASTER then st_raise NotImplementedError
          else cxn_send (Some (of_xid req)) (Role_reply role generation_id)
      | _ \<Rightarrow> st_raise AttributeError)"

definition handle_packet_out_request :: "of_msg \<Rightarrow> unit ses" where
  "handle_packet_out_request req =
     st_bind (st_res (\<lambda>_. to_grpc_packet_out (of_body req))) rpc_send_packet_out"

definition handle_set_config_request :: "of_msg \<Rightarrow> unit ses" where
  "handle_set_config_request req = st_ret ()"

definition handle_device_description_request :: "of_msg \<Rightarrow> unit ses" where
  "handle_device_description_request req = unattended (rpc_get_device_info (Then_desc (of_xid req)))"

definition handle_flow_stats_request :: "of_msg \<Rightarrow> unit ses" where
  "handle_flow_stats_request req = unattended (rpc_list_flows (Then_flow_stats (of_xid req)))"

definition handle_group_stats_request :: "of_msg \<Rightarrow> unit ses" where
  "handle_group_stats_request req = unattended (rpc_list_groups (Then_group_stats (of_xid req)))"

definition handle_group_descriptor_request :: "of_msg \<Rightarrow> unit ses" where
  "handle_group_descriptor_request req = cxn_send (Some (of_xid req)) (Group_desc_stats_reply [])"

definition handle_meter_stats_request :: "of_msg \<Rightarrow> unit ses" where
  "handle_meter_stats_request req = cxn_send (Some (of_xid req)) (Meter_stats_reply [])"

definition handle_meter_features_request :: "of_msg \<Rightarrow> unit ses" where
  "handle_meter_features_request req = cxn_send None Bad_request_error_msg"

definition handle_port_stats_request :: "of_msg \<Rightarrow> unit ses" where
  "handle_port_stats_request req = cxn_send (Some (of_xid req)) (Port_stats_reply [])"

definition handle_port_desc_request :: "of_msg \<Rightarrow> unit ses" where
  "handle_port_desc_request req = unattended (rpc_get_port_list (Then_port_desc (of_xid req)))"

definition handle_table_stats_request :: "of_msg \<Rightarrow> unit ses" where
  "handle_table_stats_request req = cxn_send (Some (of_xid req)) (Table_stats_reply [])"

text \<open>The types of statistics are the keys, in the order of the source.\<close>

definition stats_handlers :: "(nat, of_msg \<Rightarrow> unit ses) od" where
  "stats_handlers =
     [(2, handle_not_implemented),
      (0, handle_device_description_request),
      (65535, handle_not_implemented),
      (1, handle_flow_stats_request),
      (6, handle_group_stats_request),
      (7, handle_group_descriptor_request),
      (8, handle_not_implemented),
      (9, handle_meter_stats_request),
      (10, handle_not_implemented),
      (11, handle_meter_features_request),
      (4, handle_port_stats_request),
      (13, handle_port_desc_request),
      (5, handle_not_implemented),
      (3, handle_table_stats_request),
      (12, handle_not_implemented)]"

definition handle_stats_request :: "of_msg \<Rightarrow> unit ses" where
  "handle_stats_request req =
     (case of_body req of
        Stats_request t \<Rightarrow>
          (case od_get t stats_handlers of Some h \<Rightarrow> h req | None \<Rightarrow> st_raise OtherException)
      | _ \<Rightarrow> st_raise AttributeError)"

definition main_handlers :: "(nat, of_msg \<Rightarrow> unit ses) od" where
  "main_handlers =
     [(20, handle_barrier_request),
      (2, handle_echo_request),
      (5, handle_feature_request),
      (4, handle_not_implemented),
      (14, handle_flow_mod_request),
      (26, handle_not_implemented),
      (7, handle_get_config_request),
      (15, handle_group_mod_request),
      (29, handle_not_implemented),
      (13, handle_packet_out_request),
      (16, handle_not_implemented),
      (22, handle_not_implemented),
      (24, handle_role_request),
      (28, handle_not_implemented),
      (9, handle_set_config_request),
      (18, handle_stats_request),
      (17, handle_not_implemented)]"

definition dispatch_request :: "of_msg \<Rightarrow> unit ses" where
  "dispatch_request req =
     (case od_get (of_type (of_body req)) main_handlers of Some h \<Rightarrow> h req | None \<Rightarrow> st_ret ())"

text \<open>The parts of the handlers after their calls have returned.\<close>

definition feature_request_done :: "nat \<Rightarrow> switch_features \<Rightarrow> unit ses" where
  "feature_request_done x sf s =
     (if sf_datapath_id sf \<noteq> 0 then (Inl TypeError, s)
      else cxn_send (Some x) (Features_reply (ses_datapath_id s) (sf_n_buffers sf) (sf_n_tables sf)
             (sf_auxiliary_id sf) (sf_capabilities sf)) s)"

definition device_description_done :: "nat \<Rightarrow> ofp_desc \<Rightarrow> unit ses" where
  "device_description_done x d = cxn_send (Some x) (Desc_stats_reply d)"

definition flow_stats_done :: "nat \<Rightarrow> flow_stats list \<Rightarrow> unit ses" where
  "flow_stats_done x fs =
     st_bind (st_res (\<lambda>_. py_map ofp_flow_stats_to_loxi_flow_stats fs))
       (\<lambda>es. cxn_send (Some x) (Flow_stats_reply es))"

definition group_stats_done :: "nat \<Rightarrow> group_entry list \<Rightarrow> unit ses" where
  "group_stats_done x gs =
     cxn_send (Some x) (Group_stats_reply (map ofp_group_entry_to_loxi_group_entry gs))"

definition port_desc_done :: "nat \<Rightarrow> ofp_port list \<Rightarrow> unit ses" where
  "port_desc_done x ps =
     cxn_send (Some x) (Port_desc_stats_reply (map ofp_port_to_loxi_port_desc ps))"

text \<open>A result of another kind has not got the field that is read.\<close>

fun resume :: "cont \<Rightarrow> rpc_result \<Rightarrow> unit ses" where
  "resume (Then_features x) (Logical_device sf _) = feature_request_done x sf"
| "resume (Then_desc x) (Logical_device _ d) = device_description_done x d"
| "resume (Then_flow_stats x) (Flows fs) = flow_stats_done x fs"
| "resume (Then_group_stats x) (Groups gs) = group_stats_done x gs"
| "resume (Then_port_desc x) (Ports ps) = port_desc_done x ps"
| "resume Then_nothing _ = st_ret ()"
| "resume _ _ = st_raise AttributeError"

definition forward_packet_in :: "packet_in_msg \<Rightarrow> unit ses" where
  "forward_packet_in p =
     st_bind (st_res (\<lambda>_. ofp_packet_in_to_loxi_packet_in p)) (\<lambda>m. cxn_send None (Packet_in m))"

definition forward_port_status :: "port_status \<Rightarrow> unit ses" where
  "forward_port_status ps = cxn_send None (ofp_port_status_to_loxi_port_status ps)"


section \<open>The coroutine\<close>

text \<open>
  The loop, with the messages that are in the queue; it asserts the connection before it waits
  for the next message.
\<close>

fun serve :: "of_msg list \<Rightarrow> session \<Rightarrow> session" where
  "serve [] s =
     (if ses_connected s then s\<lparr>ses_phase := Serving, ses_queue := []\<rparr>
      else s\<lparr>ses_phase := Ended, ses_queue := []\<rparr>)"
| "serve (m # ms) s =
     (if ses_connected s
      then (case dispatch_request m s of
              (Inl e, s') \<Rightarrow> s'\<lparr>ses_phase := Ended, ses_queue := ms\<rparr>
            | (Inr _, s') \<Rightarrow> serve ms s')
      else s\<lparr>ses_phase := Ended, ses_queue := m # ms\<rparr>)"

definition is_hello :: "of_msg \<Rightarrow> bool" where
  "is_hello m \<longleftrightarrow> of_body m = Request 0"

definition session_start :: "session \<Rightarrow> session" where
  "session_start s =
     (case cxn_send None Hello s of
        (Inl e, s) \<Rightarrow> s\<lparr>ses_phase := Ended\<rparr>
      | (Inr _, s) \<Rightarrow>
          (case pop_first is_hello (ses_queue s) of
             Some (_, ms) \<Rightarrow> serve ms s
           | None \<Rightarrow> s\<lparr>ses_phase := Await_hello\<rparr>))"

text \<open>A message arrives: who waits for it takes it, or it stays in the queue.\<close>

definition received :: "of_msg \<Rightarrow> session \<Rightarrow> session" where
  "received m s =
     (case ses_phase s of
        Await_hello \<Rightarrow> if is_hello m then serve (ses_queue s) s else s\<lparr>ses_queue := ses_queue s @ [m]\<rparr>
      | Serving \<Rightarrow>
          (case dispatch_request m s of
             (Inl e, s') \<Rightarrow> s'\<lparr>ses_phase := Ended\<rparr>
           | (Inr _, s') \<Rightarrow> serve [] s')
      | _ \<Rightarrow> s\<lparr>ses_queue := ses_queue s @ [m]\<rparr>)"

definition rpc_done :: "nat \<Rightarrow> rpc_result res \<Rightarrow> session \<Rightarrow> session" where
  "rpc_done i r s =
     (if i < length (ses_calls s)
      then snd (unattended (\<lambda>s'. case r of Inl e \<Rightarrow> (Inl e, s') | Inr x \<Rightarrow> resume (snd (ses_calls s ! i)) x s')
                  (s\<lparr>ses_calls := take i (ses_calls s) @ drop (Suc i) (ses_calls s)\<rparr>))
      else s)"

text \<open>
  The events of a session.  Whether the flag \<^verbatim>\<open>connected\<close> is reset when the connection is
  lost is up to Twisted, whose flag it is.
\<close>

datatype session_event =
    Received of_msg
  | Rpc_done nat "rpc_result res"
  | Packet_from_core packet_in_msg
  | Port_status_from_core port_status
  | Connection_lost bool

fun session_do :: "session_event \<Rightarrow> session \<Rightarrow> session" where
  "session_do (Received m) s = received m s"
| "session_do (Rpc_done i r) s = rpc_done i r s"
| "session_do (Packet_from_core p) s = snd (forward_packet_in p s)"
| "session_do (Port_status_from_core p) s = snd (forward_port_status p s)"
| "session_do (Connection_lost c) s = s\<lparr>ses_connected := c\<rparr>"

definition session_run :: "session_event list \<Rightarrow> session \<Rightarrow> session" where
  "session_run evs s = fold session_do evs s"


section \<open>Which requests end a session\<close>

text \<open>
  The requests a session survives.  A flow or group modification the converter rejects is among
  them: its exception is not seen.
\<close>

fun supported_body :: "of_body \<Rightarrow> bool" where
  "supported_body (Flow_mod _) = True"
| "supported_body (Group_mod _) = True"
| "supported_body (Packet_out po) =
     (case loxi_packet_out_to_ofp_packet_out po of Inl _ \<Rightarrow> False | Inr _ \<Rightarrow> True)"
| "supported_body (Role_request r _) \<longleftrightarrow> r = 2"
| "supported_body (Stats_request t) \<longleftrightarrow> t \<in> {0, 1, 3, 4, 6, 7, 9, 11, 13}"
| "supported_body (Request t) \<longleftrightarrow> t \<notin> {4, 13, 16, 17, 18, 22, 24, 26, 28, 29}"

abbreviation supported :: "of_msg \<Rightarrow> bool" where
  "supported m \<equiv> supported_body (of_body m)"

lemmas handler_defs = handle_echo_request_def handle_feature_request_def handle_barrier_request_def
  handle_not_implemented_def handle_flow_mod_request_def handle_get_config_request_def
  handle_group_mod_request_def handle_role_request_def handle_packet_out_request_def
  handle_set_config_request_def handle_device_description_request_def
  handle_flow_stats_request_def handle_group_stats_request_def
  handle_group_descriptor_request_def handle_meter_stats_request_def
  handle_meter_features_request_def handle_port_stats_request_def handle_port_desc_request_def
  handle_table_stats_request_def

lemmas done_defs = feature_request_done_def device_description_done_def flow_stats_done_def
  group_stats_done_def port_desc_done_def

lemmas rpc_defs = rpc_get_device_info_def rpc_update_flow_table_def rpc_update_group_table_def
  rpc_list_flows_def rpc_list_groups_def rpc_get_port_list_def rpc_send_packet_out_def call_def

lemma unattended_Inr [simp]: "fst (unattended f s) = Inr ()"
  by (auto simp: unattended_def split: prod.splits sum.splits)

lemma cxn_send_simp:
  "ses_connected s \<Longrightarrow> cxn_send xid msg s =
     (Inr (), s\<lparr>ses_next_xid := (case xid of None \<Rightarrow> ses_next_xid s + 1 | Some _ \<Rightarrow> ses_next_xid s),
               ses_sent := ses_sent s @ [(case xid of None \<Rightarrow> ses_next_xid s | Some x \<Rightarrow> x, msg)]\<rparr>)"
  "\<not> ses_connected s \<Longrightarrow> cxn_send xid msg s = (Inl AssertionError, s)"
  by (auto simp: cxn_send_def gen_xid_def st_bind_def split: option.splits)


section \<open>Replies and requests\<close>

text \<open>
  The messages that answer a request, with the kind of request they answer and the transaction they
  carry; the others are sent on the agent's own account.  The error message that refuses a request
  for meter features is an answer too, but its transaction is one of the agent's own and says nothing
  about the request.
\<close>

datatype request_kind = To_request nat | To_stats nat

type_synonym answer = "request_kind \<times> nat option"

fun answer_of :: "nat \<times> of_reply \<Rightarrow> answer list" where
  "answer_of (x, Hello) = []"
| "answer_of (x, Echo_reply) = [(To_request 2, Some x)]"
| "answer_of (x, Features_reply _ _ _ _ _) = [(To_request 5, Some x)]"
| "answer_of (x, Get_config_reply _) = [(To_request 7, Some x)]"
| "answer_of (x, Barrier_reply) = [(To_request 20, Some x)]"
| "answer_of (x, Role_reply _ _) = [(To_request 24, Some x)]"
| "answer_of (x, Desc_stats_reply _) = [(To_stats 0, Some x)]"
| "answer_of (x, Flow_stats_reply _) = [(To_stats 1, Some x)]"
| "answer_of (x, Table_stats_reply _) = [(To_stats 3, Some x)]"
| "answer_of (x, Port_stats_reply _) = [(To_stats 4, Some x)]"
| "answer_of (x, Group_stats_reply _) = [(To_stats 6, Some x)]"
| "answer_of (x, Group_desc_stats_reply _) = [(To_stats 7, Some x)]"
| "answer_of (x, Meter_stats_reply _) = [(To_stats 9, Some x)]"
| "answer_of (x, Bad_request_error_msg) = [(To_stats 11, None)]"
| "answer_of (x, Port_desc_stats_reply _) = [(To_stats 13, Some x)]"
| "answer_of (x, Packet_in _) = []"
| "answer_of (x, Port_status _ _) = []"

definition answers :: "session \<Rightarrow> answer list" where
  "answers s = concat (map answer_of (ses_sent s))"

text \<open>The answers that wait for a call to return.\<close>

fun cont_answers :: "cont \<Rightarrow> answer list" where
  "cont_answers (Then_features x) = [(To_request 5, Some x)]"
| "cont_answers (Then_desc x) = [(To_stats 0, Some x)]"
| "cont_answers (Then_flow_stats x) = [(To_stats 1, Some x)]"
| "cont_answers (Then_group_stats x) = [(To_stats 6, Some x)]"
| "cont_answers (Then_port_desc x) = [(To_stats 13, Some x)]"
| "cont_answers Then_nothing = []"

definition pending_answers :: "session \<Rightarrow> answer list" where
  "pending_answers s = concat (map (cont_answers \<circ> snd) (ses_calls s))"

text \<open>The answer a request is owed: of its kind, with its transaction.\<close>

definition owed :: "of_msg \<Rightarrow> answer list" where
  "owed m =
     (case of_body m of
        Role_request r _ \<Rightarrow> if r = 2 then [(To_request 24, Some (of_xid m))] else []
      | Stats_request t \<Rightarrow>
          if t = 11 then [(To_stats 11, None)]
          else if t \<in> {0, 1, 3, 4, 6, 7, 9, 13} then [(To_stats t, Some (of_xid m))] else []
      | Request t \<Rightarrow> if t \<in> {2, 5, 7, 20} then [(To_request t, Some (of_xid m))] else []
      | _ \<Rightarrow> [])"

abbreviation owed_all :: "of_msg list \<Rightarrow> answer multiset" where
  "owed_all ms \<equiv> mset (concat (map owed ms))"

definition account :: "session \<Rightarrow> answer multiset" where
  "account s = mset (answers s) + mset (pending_answers s)"

lemmas account_defs = account_def answers_def pending_answers_def

text \<open>What a handler leaves alone.\<close>

definition same_control :: "session \<Rightarrow> session \<Rightarrow> bool" where
  "same_control s t \<longleftrightarrow> ses_phase t = ses_phase s \<and> ses_connected t = ses_connected s \<and>
     ses_queue t = ses_queue s"

definition handled :: "of_msg \<Rightarrow> session \<Rightarrow> unit res \<times> session \<Rightarrow> bool" where
  "handled m s = (\<lambda>(r, t). same_control s t \<and>
     (if ses_connected s then (r = Inr () \<longleftrightarrow> supported m) \<and> account t = account s + mset (owed m)
      else account t \<subseteq># account s + mset (owed m)))"

lemmas dispatch_defs = dispatch_request_def main_handlers_def handle_stats_request_def stats_handlers_def
  handler_defs rpc_defs unattended_def st_bind_def account_defs same_control_def owed_def handled_def

lemma dispatch_handled: "handled m s (dispatch_request m s)"
proof (cases "ses_connected s")
  case True
  then show ?thesis
    by (cases "of_body m") (simp_all add: dispatch_defs cxn_send_simp split: sum.splits)
next
  case False
  then show ?thesis
    by (cases "of_body m") (simp_all add: dispatch_defs cxn_send_simp split: sum.splits)
qed

lemma dispatch_connected:
  assumes "ses_connected s" and "dispatch_request m s = (r, t)"
  shows "r = Inr () \<longleftrightarrow> supported m" and "account t = account s + mset (owed m)"
    and "same_control s t"
  using dispatch_handled [of m s] assms by (simp_all add: handled_def)

lemma dispatch_account:
  assumes "dispatch_request m s = (r, t)"
  shows "account t \<subseteq># account s + mset (owed m)" and "same_control s t"
  using dispatch_handled [of m s] assms by (simp_all add: handled_def split: if_splits)

definition claims :: "session \<Rightarrow> answer multiset" where
  "claims s = account s + owed_all (ses_queue s)"

lemma account_control [simp]:
  "account (s\<lparr>ses_phase := p\<rparr>) = account s"
  "account (s\<lparr>ses_queue := q\<rparr>) = account s"
  "account (s\<lparr>ses_connected := c\<rparr>) = account s"
  "account (s\<lparr>ses_unseen := u\<rparr>) = account s"
  by (simp_all add: account_defs)

lemma serve_claims: "claims (serve ms s) \<subseteq># account s + owed_all ms"
proof (induction ms arbitrary: s)
  case Nil
  then show ?case by (simp add: claims_def)
next
  case (Cons m ms)
  obtain r t where d: "dispatch_request m s = (r, t)" by force
  note acc = dispatch_account(1) [OF d]
  show ?case
  proof (cases "ses_connected s")
    case True
    from acc have "account t + owed_all ms \<subseteq># account s + (mset (owed m) + owed_all ms)"
      by (simp add: union_assoc [symmetric])
    with True d show ?thesis
      by (cases r) (auto simp: claims_def intro: subset_mset.order_trans [OF Cons.IH [unfolded claims_def]])
  next
    case False
    then show ?thesis by (simp add: claims_def)
  qed
qed

lemma received_claims: "claims (received m s) \<subseteq># claims s + mset (owed m)"
proof (cases "ses_phase s")
  case Await_hello
  then show ?thesis
    using serve_claims [of "ses_queue s" s]
    by (auto simp: received_def claims_def intro: subset_mset.order_trans [OF _ mset_subset_eq_add_left])
next
  case Serving
  obtain r t where d: "dispatch_request m s = (r, t)" by force
  then have t: "account t \<subseteq># account s + mset (owed m)" "ses_queue t = ses_queue s"
    using dispatch_account [OF d] by (simp_all add: same_control_def)
  then have "account t + owed_all (ses_queue s) \<subseteq># claims s + mset (owed m)"
    by (simp add: claims_def union_assoc [symmetric] union_commute union_lcomm)
  then show ?thesis
    using Serving d t serve_claims [of "[]" t] by (cases r)
      (auto simp: received_def claims_def intro: subset_mset.order_trans [OF mset_subset_eq_add_left] subset_mset.order_trans)
qed (simp_all add: received_def claims_def)

fun answerable :: "cont \<Rightarrow> rpc_result res \<Rightarrow> bool" where
  "answerable (Then_features _) (Inr (Logical_device sf _)) \<longleftrightarrow> sf_datapath_id sf = 0"
| "answerable (Then_desc _) (Inr (Logical_device _ _)) = True"
| "answerable (Then_flow_stats _) (Inr (Flows fs)) \<longleftrightarrow>
     (case py_map ofp_flow_stats_to_loxi_flow_stats fs of Inl _ \<Rightarrow> False | Inr _ \<Rightarrow> True)"
| "answerable (Then_group_stats _) (Inr (Groups _)) = True"
| "answerable (Then_port_desc _) (Inr (Ports _)) = True"
| "answerable Then_nothing _ = True"
| "answerable _ _ = False"

lemma resume_account:
  assumes "unattended (\<lambda>s'. case r of Inl e \<Rightarrow> (Inl e, s') | Inr x \<Rightarrow> resume k x s') s = (u, t)"
  shows "account t \<subseteq># account s + mset (cont_answers k)" and "same_control s t"
    and "ses_connected s \<Longrightarrow> answerable k r \<Longrightarrow> account t = account s + mset (cont_answers k)"
proof -
  have "account t \<subseteq># account s + mset (cont_answers k) \<and> same_control s t \<and>
      (ses_connected s \<longrightarrow> answerable k r \<longrightarrow> account t = account s + mset (cont_answers k))"
  proof (cases r)
    case (Inl e)
    with assms show ?thesis
      by (cases k) (auto simp: unattended_def account_defs same_control_def)
  next
    case (Inr x)
    with assms show ?thesis
      by (cases "(k, x)" rule: resume.cases; cases "ses_connected s")
        (auto simp: unattended_def account_defs same_control_def cxn_send_simp st_bind_def done_defs
          split: sum.splits if_splits)
  qed
  then show "account t \<subseteq># account s + mset (cont_answers k)" "same_control s t"
    "ses_connected s \<Longrightarrow> answerable k r \<Longrightarrow> account t = account s + mset (cont_answers k)"
    by simp_all
qed

lemma account_take_call:
  assumes "i < length (ses_calls s)"
  shows "account (s\<lparr>ses_calls := take i (ses_calls s) @ drop (Suc i) (ses_calls s)\<rparr>) +
    mset (cont_answers (snd (ses_calls s ! i))) = account s"
proof -
  have "ses_calls s = take i (ses_calls s) @ ses_calls s ! i # drop (Suc i) (ses_calls s)"
    using assms by (rule id_take_nth_drop)
  then have "mset (pending_answers s) = mset (concat (map (cont_answers \<circ> snd) (take i (ses_calls s)))) +
      (mset (cont_answers (snd (ses_calls s ! i))) + mset (concat (map (cont_answers \<circ> snd) (drop (Suc i) (ses_calls s)))))"
    unfolding pending_answers_def
    by (metis comp_def concat.simps(2) concat_append list.simps(9) map_append mset_append)
  then show ?thesis by (simp add: account_defs)
qed

lemma rpc_done_account:
  shows "account (rpc_done i r s) \<subseteq># account s" and "same_control s (rpc_done i r s)"
    and "ses_connected s \<Longrightarrow> i < length (ses_calls s) \<longrightarrow> answerable (snd (ses_calls s ! i)) r \<Longrightarrow>
      account (rpc_done i r s) = account s"
proof -
  let ?s = "s\<lparr>ses_calls := take i (ses_calls s) @ drop (Suc i) (ses_calls s)\<rparr>"
  let ?k = "snd (ses_calls s ! i)"
  obtain u t where t: "unattended (\<lambda>s'. case r of Inl e \<Rightarrow> (Inl e, s') | Inr x \<Rightarrow> resume ?k x s') ?s = (u, t)"
    by force
  have eq: "rpc_done i r s = (if i < length (ses_calls s) then t else s)"
    using t by (simp add: rpc_done_def)
  note facts = resume_account [OF t] account_take_call [of i s]
  show "account (rpc_done i r s) \<subseteq># account s"
    using facts(1,4) by (cases "i < length (ses_calls s)") (simp_all add: eq)
  show "same_control s (rpc_done i r s)"
    using facts(2) by (simp add: eq same_control_def)
  show "ses_connected s \<Longrightarrow> i < length (ses_calls s) \<longrightarrow> answerable ?k r \<Longrightarrow>
      account (rpc_done i r s) = account s"
    using facts(3,4) by (simp add: eq)
qed

lemma forward_account:
  "account (snd (forward_packet_in p s)) = account s" "same_control s (snd (forward_packet_in p s))"
  "account (snd (forward_port_status ps s)) = account s" "same_control s (snd (forward_port_status ps s))"
  by (cases "ses_connected s"; cases "ofp_packet_in_to_loxi_packet_in p"; simp add: forward_packet_in_def
    forward_port_status_def ofp_port_status_to_loxi_port_status_def st_bind_def cxn_send_simp
    account_defs same_control_def)+

fun requests :: "session_event list \<Rightarrow> of_msg list" where
  "requests [] = []"
| "requests (Received m # evs) = m # requests evs"
| "requests (_ # evs) = requests evs"

lemma session_run_simps [simp]:
  "session_run [] s = s"
  "session_run (ev # evs) s = session_run evs (session_do ev s)"
  by (simp_all add: session_run_def)

lemma same_control_claims: "same_control s t \<Longrightarrow> account t \<subseteq># account s \<Longrightarrow> claims t \<subseteq># claims s"
  by (simp add: claims_def same_control_def)

lemma session_run_claims: "claims (session_run evs s) \<subseteq># claims s + owed_all (requests evs)"
proof (induction evs arbitrary: s)
  case Nil
  then show ?case by simp
next
  case (Cons ev evs)
  have step: "claims (session_do ev s) \<subseteq># claims s + owed_all (requests [ev])"
  proof (cases ev)
    case (Received m)
    then show ?thesis using received_claims [of m s] by simp
  next
    case (Connection_lost c)
    then show ?thesis by (simp add: claims_def)
  qed (simp_all add: same_control_claims rpc_done_account forward_account)
  have "requests (ev # evs) = requests [ev] @ requests evs" by (cases ev) simp_all
  with step Cons.IH [of "session_do ev s"] show ?case
    by (auto simp: union_assoc [symmetric] intro: subset_mset.order_trans)
qed


section \<open>Properties\<close>

text \<open>A session that has just exchanged the hellos.\<close>

definition session_open :: "u64 \<Rightarrow> string \<Rightarrow> nat \<Rightarrow> session" where
  "session_open datapath_id device_id x =
     received \<lparr>of_xid = x, of_body = Request 0\<rparr>
       (session_start (OpenFlowProtocolHandler_init datapath_id device_id))"

lemma session_open_simps:
  "ses_phase (session_open dp dev x) = Serving"
  "ses_connected (session_open dp dev x)"
  "ses_queue (session_open dp dev x) = []"
  "ses_sent (session_open dp dev x) = [(1, Hello)]"
  "ses_calls (session_open dp dev x) = []"
  by (simp_all add: session_open_def session_start_def OpenFlowProtocolHandler_init_def
    cxn_send_simp received_def is_hello_def)

text \<open>
  A session serves requests until the first one it does not support, and then none any more:
  after a sequence of requests it is still serving if it supports all of them, and otherwise it
  has ended.
\<close>

theorem session_ends_iff:
  "ses_phase (session_run (map Received ms) (session_open dp dev x)) =
     (if list_all supported ms then Serving else Ended)"
proof -
  have ended: "ses_phase (session_run (map Received ms) s) = Ended" if "ses_phase s = Ended" for s ms
    using that by (induction ms arbitrary: s) (simp_all add: received_def)
  have "ses_phase (session_run (map Received ms) s) = (if list_all supported ms then Serving else Ended)"
    if "ses_phase s = Serving" "ses_connected s" for s
    using that
  proof (induction ms arbitrary: s)
    case Nil
    then show ?case by simp
  next
    case (Cons m ms)
    obtain r t where d: "dispatch_request m s = (r, t)" by force
    note facts = dispatch_connected [OF Cons.prems(2) d]
    show ?case
    proof (cases "supported m")
      case True
      with facts Cons.prems have "received m s = t\<lparr>ses_phase := Serving, ses_queue := []\<rparr>"
        by (simp add: received_def d same_control_def)
      with True Cons.IH [of "received m s"] facts(3) Cons.prems(2) show ?thesis
        by (simp add: same_control_def)
    next
      case False
      with facts(1) obtain e where "r = Inl e" by (cases r) auto
      with Cons.prems(1) False d show ?thesis by (simp add: received_def ended)
    qed
  qed
  then show ?thesis by (simp add: session_open_simps)
qed

text \<open>
  C36. No reply without a request: whatever arrives from the controller and from the core, and in
  whatever order the calls return or fail, the answers sent to the controller, each taken with the
  kind of request it answers and the transaction it carries, are among those that the received
  requests are owed, each at most once: every reply has the transaction of a received request of its
  kind, and there are at most as many error messages as requests for meter features.  (The error
  message does not carry the transaction of its request, so only its kind counts.)
\<close>

theorem replies_answer_requests:
  "mset (answers (session_run evs (session_start (OpenFlowProtocolHandler_init dp dev))))
     \<subseteq># mset (concat (map owed (requests evs)))"
proof -
  let ?s = "session_start (OpenFlowProtocolHandler_init dp dev)"
  have "claims ?s = {#}"
    by (simp add: session_start_def OpenFlowProtocolHandler_init_def cxn_send_simp claims_def account_defs)
  then have "claims (session_run evs ?s) \<subseteq># owed_all (requests evs)"
    using session_run_claims [of evs ?s] by simp
  then show ?thesis
    unfolding claims_def account_def by (metis mset_subset_eq_add_left subset_mset.order_trans union_assoc)
qed




lemmas run_defs = session_open_def session_start_def OpenFlowProtocolHandler_init_def cxn_send_simp
  received_def is_hello_def rpc_done_def done_defs dispatch_defs




section \<open>Requests that are not answered\<close>

text \<open>
  One flow the converter cannot read leaves the request for the flows of the device without an
  answer: the exception is not seen by anyone, and the session goes on.
\<close>

lemma flow_stats_unanswered:
  assumes "py_map ofp_flow_stats_to_loxi_flow_stats fs = Inl e" and "ses_calls s = [(c, Then_flow_stats x)]"
  shows "ses_sent (rpc_done 0 (Inr (Flows fs)) s) = ses_sent s \<and>
    ses_calls (rpc_done 0 (Inr (Flows fs)) s) = [] \<and>
    ses_unseen (rpc_done 0 (Inr (Flows fs)) s) = ses_unseen s @ [e]"
  using assms by (simp add: rpc_done_def unattended_def st_bind_def flow_stats_done_def)

text \<open>The answer to a request for meter features does not have the transaction of the request.\<close>

lemma meter_features_xid:
  "ses_sent (session_run [Received \<lparr>of_xid = 7, of_body = Stats_request 11\<rparr>] (session_open 5 ''ld1'' 0)) =
     [(1, Hello), (2, Bad_request_error_msg)]"
  by (simp add: run_defs)

end
