(* ===== verification/OfAgent.thy ===== *)
theory OfAgent
  imports OfProtocol
begin

text \<open>
  The agents that connect logical devices to the controller: \<^verbatim>\<open>src/ofagent/agent.py\<close>,
  \<^verbatim>\<open>connection_mgr.py\<close> and the loops of \<^verbatim>\<open>grpc_client.py\<close>.

  An agent keeps one connection to the controller and connects again when it is lost.  Its
  coroutine \<^verbatim>\<open>keep_connected\<close> is the field \<open>ag_keeper\<close>, which says where it waits.  The
  connection manager keeps one agent per logical device of the core.  Twisted is in the order of
  the steps, and in the argument \<open>disc\<close>, the result of \<^verbatim>\<open>connector.disconnect()\<close>.

  The lemmas show that an agent is never without a connection and without a plan to make one,
  that a stopped agent does not connect again, and that the manager's two maps are the inverse of
  each other and follow the devices of the core.
\<close>

section \<open>Endpoints\<close>

text \<open>\<^verbatim>\<open>host, port = endpoint.split(':', 2)\<close>: exactly one colon.\<close>

definition host_port :: "string \<Rightarrow> (string \<times> int) res" where
  "host_port endpoint =
     (if length (filter (\<lambda>c. c = CHR '':'') endpoint) = 1
      then rbind (py_int (snd (partition_at CHR '':'' endpoint)))
             (\<lambda>p. Inr (fst (partition_at CHR '':'' endpoint), p))
      else Inl ValueError)"


section \<open>Agent\<close>

datatype keeper = Not_started | Scheduled | Awaits_disconnect | Sleeps | Finished | Failed

datatype deferred = Unset | Waiting | Called

datatype conn = Idle | Connecting | Established

record of_agent =
  ag_endpoint :: string
  ag_datapath_id :: u64
  ag_device_id :: string
  ag_running :: bool
  ag_connector :: bool
  ag_d_disconnected :: deferred
  ag_connected :: bool
  ag_exiting :: bool
  ag_proto_handler :: "session option"
  ag_keeper :: keeper
  ag_conn :: conn
  ag_attempts :: nat

definition Agent_init :: "string \<Rightarrow> u64 \<Rightarrow> string \<Rightarrow> of_agent" where
  "Agent_init controller_endpoint datapath_id device_id =
     \<lparr>ag_endpoint = controller_endpoint, ag_datapath_id = datapath_id, ag_device_id = device_id,
      ag_running = False, ag_connector = False, ag_d_disconnected = Unset, ag_connected = False,
      ag_exiting = False, ag_proto_handler = None, ag_keeper = Not_started, ag_conn = Idle,
      ag_attempts = 0\<rparr>"

definition Agent_start :: "of_agent \<Rightarrow> of_agent" where
  "Agent_start a = (if ag_running a then a else a\<lparr>ag_running := True, ag_keeper := Scheduled\<rparr>)"

definition Agent_stop :: "(of_agent \<Rightarrow> unit res) \<Rightarrow> (of_agent, unit) st" where
  "Agent_stop disc a =
     (let a = a\<lparr>ag_connected := False, ag_exiting := True\<rparr> in
      if ag_connector a then (disc a, a) else (Inl AttributeError, a))"

text \<open>\<^verbatim>\<open>keep_connected\<close> at the head of its loop, until it waits.\<close>

definition keep_connected :: "of_agent \<Rightarrow> of_agent" where
  "keep_connected a =
     (if ag_exiting a then a\<lparr>ag_keeper := Finished\<rparr>
      else
        (case host_port (ag_endpoint a) of
           Inl e \<Rightarrow> a\<lparr>ag_keeper := Failed\<rparr>
         | Inr _ \<Rightarrow>
             a\<lparr>ag_connector := True, ag_conn := Connecting, ag_attempts := ag_attempts a + 1,
               ag_d_disconnected := Waiting, ag_keeper := Awaits_disconnect\<rparr>))"

definition enter_disconnected :: "(of_agent, unit) st" where
  "enter_disconnected a =
     (let a = a\<lparr>ag_connected := False\<rparr> in
      if ag_exiting a then (Inr (), a)
      else
        (case ag_d_disconnected a of
           Unset \<Rightarrow> (Inl AttributeError, a)
         | Called \<Rightarrow> (Inl OtherException, a)
         | Waiting \<Rightarrow> (Inr (), a\<lparr>ag_d_disconnected := Called, ag_keeper := Sleeps\<rparr>)))"

definition enter_connected :: "(of_agent, unit) st" where
  "enter_connected a =
     (let a = a\<lparr>ag_connected := True\<rparr> in
      case ag_proto_handler a of None \<Rightarrow> (Inl AttributeError, a) | Some _ \<Rightarrow> (Inr (), a))"

definition Agent_protocol :: "of_agent \<Rightarrow> of_agent" where
  "Agent_protocol a =
     a\<lparr>ag_proto_handler := Some (OpenFlowProtocolHandler_init (ag_datapath_id a) (ag_device_id a))\<rparr>"

definition clientConnectionFailed :: "(of_agent, unit) st" where
  "clientConnectionFailed a = enter_disconnected a"

definition clientConnectionLost :: "(of_agent, unit) st" where
  "clientConnectionLost a = (Inr (), a)"

text \<open>An operation of the handler, when there is one.\<close>

definition on_handler :: "unit ses \<Rightarrow> (of_agent, unit) st" where
  "on_handler f a =
     (case ag_proto_handler a of
        None \<Rightarrow> (Inr (), a)
      | Some h \<Rightarrow> (case f h of (r, h') \<Rightarrow> (r, a\<lparr>ag_proto_handler := Some h'\<rparr>)))"

definition Agent_forward_packet_in :: "packet_in_msg \<Rightarrow> (of_agent, unit) st" where
  "Agent_forward_packet_in p = on_handler (forward_packet_in p)"

text \<open>A change event carries a port status, or something this agent does not know.\<close>

definition Agent_forward_change_event :: "port_status option \<Rightarrow> (of_agent, unit) st" where
  "Agent_forward_change_event ev =
     (case ev of Some ps \<Rightarrow> on_handler (forward_port_status ps) | None \<Rightarrow> st_ret ())"

text \<open>
  The steps of an agent.  Twisted makes a connection, or reports that it cannot, while one is
  attempted, and reports the loss of a connection that was made: first to the protocol, then to
  the factory.
\<close>

inductive ofagent_step :: "of_agent \<Rightarrow> of_agent \<Rightarrow> bool" where
  start: "ofagent_step a (Agent_start a)"
| stop: "ofagent_step a (snd (Agent_stop disc a))"
| run: "ag_keeper a = Scheduled \<Longrightarrow> ofagent_step a (keep_connected a)"
| wake: "ag_keeper a = Sleeps \<Longrightarrow> ofagent_step a (keep_connected a)"
| made: "ag_conn a = Connecting \<Longrightarrow>
    ofagent_step a (snd (enter_connected (Agent_protocol (a\<lparr>ag_conn := Established\<rparr>))))"
| cannot: "ag_conn a = Connecting \<Longrightarrow>
    ofagent_step a (snd (clientConnectionFailed (a\<lparr>ag_conn := Idle\<rparr>)))"
| lost: "ag_conn a = Established \<Longrightarrow>
    ofagent_step a (snd (clientConnectionLost (snd (enter_disconnected (a\<lparr>ag_conn := Idle\<rparr>)))))"
| handler: "ofagent_step a (snd (on_handler f a))"

definition ofagent_reachable :: "string \<Rightarrow> u64 \<Rightarrow> string \<Rightarrow> of_agent \<Rightarrow> bool" where
  "ofagent_reachable endpoint datapath_id device_id =
     reachable (\<lambda>a. a = Agent_init endpoint datapath_id device_id) ofagent_step"


section \<open>Lemmas on agents\<close>

lemmas agent_defs = Agent_init_def Agent_start_def Agent_stop_def keep_connected_def
  enter_disconnected_def enter_connected_def Agent_protocol_def clientConnectionFailed_def
  clientConnectionLost_def on_handler_def

text \<open>
  The coroutine waits for the loss of a connection exactly while its deferred is not called, and
  there is then a connection or an attempt, unless the agent is about to exit.
\<close>

definition agent_inv :: "of_agent \<Rightarrow> bool" where
  "agent_inv a \<longleftrightarrow>
     (ag_keeper a = Awaits_disconnect \<longleftrightarrow> ag_d_disconnected a = Waiting) \<and>
     (ag_keeper a = Not_started \<longleftrightarrow> \<not> ag_running a) \<and>
     (ag_conn a \<noteq> Idle \<longrightarrow> ag_keeper a = Awaits_disconnect) \<and>
     (ag_keeper a = Awaits_disconnect \<longrightarrow> ag_conn a \<noteq> Idle \<or> ag_exiting a) \<and>
     (ag_keeper a = Finished \<longrightarrow> ag_exiting a) \<and>
     (ag_keeper a = Failed \<longrightarrow> (\<exists>e. host_port (ag_endpoint a) = Inl e)) \<and>
     (ag_connected a \<longrightarrow> ag_conn a = Established)"

definition same_identity :: "of_agent \<Rightarrow> of_agent \<Rightarrow> bool" where
  "same_identity a b \<longleftrightarrow> ag_endpoint b = ag_endpoint a \<and> ag_datapath_id b = ag_datapath_id a \<and>
     ag_device_id b = ag_device_id a"

lemma ofagent_step_same: "ofagent_step a b \<Longrightarrow> same_identity a b"
  by (induction rule: ofagent_step.induct)
    (auto simp: agent_defs same_identity_def Let_def split: sum.splits deferred.splits option.splits prod.splits)

lemma ofagent_step_inv: "ofagent_step a b \<Longrightarrow> agent_inv a \<Longrightarrow> agent_inv b"
proof (induction rule: ofagent_step.induct)
  case (handler a f)
  then show ?case by (auto simp: agent_inv_def on_handler_def split: option.splits prod.splits)
next
  case (lost a)
  then show ?case
    by (cases "ag_d_disconnected a") (auto simp: agent_inv_def agent_defs Let_def)
next
  case (cannot a)
  then show ?case
    by (cases "ag_d_disconnected a") (auto simp: agent_inv_def agent_defs Let_def)
qed (auto simp: agent_inv_def agent_defs Let_def split: sum.splits)

interpretation ofa: step_invariant "\<lambda>a. a = Agent_init ep dp dev" ofagent_step
  "\<lambda>a. agent_inv a \<and> same_identity (Agent_init ep dp dev) a" for ep dp dev
proof
  fix a
  assume "a = Agent_init ep dp dev"
  then show "agent_inv a \<and> same_identity (Agent_init ep dp dev) a"
    by (simp add: agent_inv_def agent_defs same_identity_def)
next
  fix a b
  assume "ofagent_step a b" and "agent_inv a \<and> same_identity (Agent_init ep dp dev) a"
  then show "agent_inv b \<and> same_identity (Agent_init ep dp dev) b"
    using ofagent_step_inv [of a b] ofagent_step_same [of a b] by (simp add: same_identity_def)
qed

text \<open>An agent that exits keeps to it and makes no attempt.\<close>

interpretation exiting: step_invariant "\<lambda>b. ag_exiting b \<and> ag_attempts b = n" ofagent_step
  "\<lambda>b. ag_exiting b \<and> ag_attempts b = n" for n
proof
  fix a b
  assume "ofagent_step a b" and "ag_exiting a \<and> ag_attempts a = n"
  then show "ag_exiting b \<and> ag_attempts b = n"
    by (induction rule: ofagent_step.induct)
      (auto simp: agent_defs Let_def split: option.splits prod.splits deferred.splits)
qed


section \<open>Properties of agents\<close>

text \<open>
  C40. An agent does not give up: while it runs and is not stopped, and the endpoint of the
  controller can be read, either there is a connection or an attempt to make one, and then the
  report of its loss or failure is taken without an exception and sends the coroutine to sleep;
  or the coroutine is about to run and its next step is a new attempt.
\<close>

theorem agent_keeps_connected:
  assumes "ofagent_reachable ep dp dev a" and "ag_running a" and "\<not> ag_exiting a"
    and "host_port ep = Inr hp"
  shows "(ag_conn a \<noteq> Idle \<and> fst (enter_disconnected a) = Inr () \<and>
      ag_keeper (snd (enter_disconnected a)) = Sleeps) \<or>
    (ag_keeper a \<in> {Scheduled, Sleeps} \<and> ofagent_step a (keep_connected a) \<and>
      ag_conn (keep_connected a) = Connecting)"
proof -
  have inv: "agent_inv a" and ep: "ag_endpoint a = ep"
    using ofa.reachable_inv [OF assms(1) [unfolded ofagent_reachable_def]]
    by (simp_all add: same_identity_def Agent_init_def)
  show ?thesis
  proof (cases "ag_conn a = Idle")
    case True
    with inv ep assms(2-4) have "ag_keeper a \<in> {Scheduled, Sleeps}"
      by (cases "ag_keeper a") (auto simp: agent_inv_def)
    moreover from this have "ofagent_step a (keep_connected a)" by (auto intro: ofagent_step.intros)
    ultimately show ?thesis using assms(3,4) ep by (simp add: keep_connected_def)
  next
    case False
    with inv have "ag_d_disconnected a = Waiting" by (auto simp: agent_inv_def)
    with False assms(3) show ?thesis by (simp add: enter_disconnected_def Let_def)
  qed
qed

theorem agent_keeps_connected_witness:
  "(let a = Agent_start (Agent_init ''c:6633'' 5 ''ld1'') in
    ag_conn (keep_connected a) = Connecting \<and> ag_keeper a = Scheduled)"
proof -
  let ?a = "Agent_start (Agent_init ''c:6633'' 5 ''ld1'')"
  have "ofagent_reachable ''c:6633'' 5 ''ld1'' ?a"
    unfolding ofagent_reachable_def by (rule reach_step, rule reach_init, rule refl, rule ofagent_step.start)
  moreover have "host_port ''c:6633'' = Inr (''c'', 6633)" by code_simp
  ultimately show ?thesis
    using agent_keeps_connected [of "''c:6633''" 5 "''ld1''" ?a] by (simp add: agent_defs)
qed

text \<open>
  A stopped agent does not connect again: whatever happens after \<^verbatim>\<open>stop\<close>, the number of
  attempts stays what it was.
\<close>

theorem stopped_agent_does_not_connect:
  assumes "ofagent_step\<^sup>*\<^sup>* (snd (Agent_stop disc a)) b"
  shows "ag_attempts b = ag_attempts a \<and> ag_exiting b"
  using exiting.steps_inv [OF assms, of "ag_attempts a"] by (simp add: Agent_stop_def Let_def)

theorem stopped_agent_does_not_connect_witness:
  "(let a = keep_connected (Agent_start (Agent_init ''c:6633'' 5 ''ld1''));
        b = snd (Agent_stop (\<lambda>_. Inr ()) a);
        c = snd (clientConnectionFailed (b\<lparr>ag_conn := Idle\<rparr>)) in
    ag_attempts c = 1 \<and> ag_exiting c)"
proof -
  let ?a = "keep_connected (Agent_start (Agent_init ''c:6633'' 5 ''ld1''))"
  let ?b = "snd (Agent_stop (\<lambda>_. Inr ()) ?a)"
  have "host_port ''c:6633'' = Inr (''c'', 6633)" by code_simp
  then have "ag_conn ?b = Connecting" "ag_attempts ?a = 1" by (simp_all add: agent_defs)
  then have "ofagent_step\<^sup>*\<^sup>* ?b (snd (clientConnectionFailed (?b\<lparr>ag_conn := Idle\<rparr>)))"
    by (intro r_into_rtranclp ofagent_step.cannot)
  from stopped_agent_does_not_connect [OF this] \<open>ag_attempts ?a = 1\<close> show ?thesis by (simp add: Let_def)
qed

text \<open>
  An agent that has not yet attempted a connection, or cannot because the endpoint is not of the
  form host:port, cannot be stopped without an exception.
\<close>

lemma stop_without_connector:
  "\<not> ag_connector a \<Longrightarrow> fst (Agent_stop disc a) = Inl AttributeError"
  by (simp add: Agent_stop_def)


section \<open>ConnectionManager\<close>

record logical_dev =
  ldv_id :: string
  ldv_datapath_id :: u64

record manager =
  controller_endpoint :: string
  voltha_endpoint :: string
  has_channel :: bool
  has_client :: bool
  client_stopped :: bool
  agent_map :: "(u64, of_agent) od"
  device_map :: "(string, u64) od"
  mgr_running :: bool
  mgr_dropped :: "of_agent list" \<comment> \<open>the agents that were taken out of the map\<close>

definition ConnectionManager_init :: "string \<Rightarrow> string \<Rightarrow> manager" where
  "ConnectionManager_init voltha controller =
     \<lparr>controller_endpoint = controller, voltha_endpoint = voltha, has_channel = False,
      has_client = False, client_stopped = False, agent_map = [], device_map = [],
      mgr_running = False, mgr_dropped = []\<rparr>"

text \<open>The argument \<open>consul\<close> is \<^verbatim>\<open>get_endpoint_from_consul\<close>.\<close>

definition mgr_resolve_endpoint ::
    "(string \<Rightarrow> string option res) \<Rightarrow> string \<Rightarrow> (string \<times> int) option res" where
  "mgr_resolve_endpoint consul endpoint =
     (case (if endpoint \<noteq> [] \<and> hd endpoint = CHR ''@'' then consul (tl endpoint) else Inr (Some endpoint)) of
        Inl e \<Rightarrow> Inr None
      | Inr None \<Rightarrow> Inr None
      | Inr (Some ep) \<Rightarrow> if ep = [] then Inr None else rbind (host_port ep) (\<lambda>hp. Inr (Some hp)))"

definition get_grpc_channel_with_voltha ::
    "(string \<Rightarrow> string option res) \<Rightarrow> string \<Rightarrow> unit res" where
  "get_grpc_channel_with_voltha consul endpoint =
     rbind (mgr_resolve_endpoint consul endpoint) (\<lambda>r. case r of None \<Rightarrow> Inl TypeError | Some _ \<Rightarrow> Inr ())"

definition ConnectionManager_start :: "(string \<Rightarrow> string option res) \<Rightarrow> (manager, unit) st" where
  "ConnectionManager_start consul m =
     (if mgr_running m then (Inr (), m)
      else
        (let m = m\<lparr>mgr_running := True\<rparr> in
         case get_grpc_channel_with_voltha consul (voltha_endpoint m) of
           Inl e \<Rightarrow> (Inl e, m)
         | Inr _ \<Rightarrow> (Inr (), m\<lparr>has_channel := True, has_client := True\<rparr>)))"

text \<open>\<^verbatim>\<open>agent.stop()\<close> for an agent of the map.\<close>

definition stop_agent :: "(of_agent \<Rightarrow> unit res) \<Rightarrow> u64 \<Rightarrow> (manager, unit) st" where
  "stop_agent disc datapath_id m =
     (case od_get datapath_id (agent_map m) of
        None \<Rightarrow> (Inl KeyError, m)
      | Some a \<Rightarrow> (case Agent_stop disc a of (r, a') \<Rightarrow> (r, m\<lparr>agent_map := od_set datapath_id a' (agent_map m)\<rparr>)))"

definition ConnectionManager_stop :: "(of_agent \<Rightarrow> unit res) \<Rightarrow> (manager, unit) st" where
  "ConnectionManager_stop disc m =
     st_bind (st_for (\<lambda>dp _. stop_agent disc dp) (od_keys (agent_map m)) ()) (\<lambda>_ m.
       let m = m\<lparr>mgr_running := False\<rparr> in
       if has_client m then
         (let m = m\<lparr>client_stopped := True\<rparr> in
          if has_channel m then (Inr (), m\<lparr>has_channel := False\<rparr>) else (Inl AttributeError, m))
       else (Inl AttributeError, m)) m"

text \<open>The list of devices is asked for until the core gives it; \<open>ask n\<close> is the \<open>n\<close>-th answer.\<close>

partial_function (option) get_list_of_logical_devices_from_voltha ::
    "(nat \<Rightarrow> logical_dev list res) \<Rightarrow> nat \<Rightarrow> logical_dev list option" where
  "get_list_of_logical_devices_from_voltha ask n =
     (case ask n of
        Inr devices \<Rightarrow> Some devices
      | Inl e \<Rightarrow> get_list_of_logical_devices_from_voltha ask (Suc n))"

definition create_agent :: "logical_dev \<Rightarrow> (manager, unit) st" where
  "create_agent device m =
     (let dp = ldv_datapath_id device;
          a = Agent_start (Agent_init (controller_endpoint m) dp (ldv_id device)) in
      (Inr (), m\<lparr>agent_map := od_set dp a (agent_map m),
                device_map := od_set (ldv_id device) dp (device_map m)\<rparr>))"

definition delete_agent :: "(of_agent \<Rightarrow> unit res) \<Rightarrow> u64 \<Rightarrow> (manager, unit) st" where
  "delete_agent disc datapath_id m =
     st_bind (stop_agent disc datapath_id) (\<lambda>_ m.
       case od_get datapath_id (agent_map m) of
         None \<Rightarrow> (Inl KeyError, m)
       | Some a \<Rightarrow>
           (let m = m\<lparr>agent_map := od_del datapath_id (agent_map m), mgr_dropped := mgr_dropped m @ [a]\<rparr> in
            if od_get (ag_device_id a) (device_map m) = None then (Inl KeyError, m)
            else (Inr (), m\<lparr>device_map := od_del (ag_device_id a) (device_map m)\<rparr>))) m"

text \<open>The order in which Python runs through the set of obsolete datapaths is \<open>ordr\<close>.\<close>

definition refresh_agent_connections ::
    "(u64 list \<Rightarrow> u64 list) \<Rightarrow> (of_agent \<Rightarrow> unit res) \<Rightarrow> logical_dev list \<Rightarrow> (manager, unit) st" where
  "refresh_agent_connections ordr disc devices m =
     (let desired = map ldv_datapath_id devices;
          current = od_keys (agent_map m);
          to_add = filter (\<lambda>dp. dp \<notin> set current) desired;
          to_del = ordr (filter (\<lambda>dp. dp \<notin> set desired) current) in
      if set desired = set current then (Inr (), m)
      else
        st_bind (st_for (\<lambda>dp _. delete_agent disc dp) to_del ()) (\<lambda>_.
          st_for (\<lambda>d _. if ldv_datapath_id d \<in> set to_add then create_agent d else st_ret ()) devices ()) m)"

text \<open>\<^verbatim>\<open>if datapath_id:\<close> is false for none and for zero.\<close>

definition on_agent_of :: "(of_agent, unit) st \<Rightarrow> string \<Rightarrow> (manager, unit) st" where
  "on_agent_of f device_id m =
     (case od_get device_id (device_map m) of
        None \<Rightarrow> (Inr (), m)
      | Some dp \<Rightarrow>
          if dp = 0 then (Inr (), m)
          else
            (case od_get dp (agent_map m) of
               None \<Rightarrow> (Inl KeyError, m)
             | Some a \<Rightarrow> (case f a of (r, a') \<Rightarrow> (r, m\<lparr>agent_map := od_set dp a' (agent_map m)\<rparr>))))"

definition mgr_forward_packet_in :: "string \<Rightarrow> packet_in_msg \<Rightarrow> (manager, unit) st" where
  "mgr_forward_packet_in device_id p = on_agent_of (Agent_forward_packet_in p) device_id"

definition mgr_forward_change_event :: "string \<Rightarrow> port_status option \<Rightarrow> (manager, unit) st" where
  "mgr_forward_change_event device_id ev = on_agent_of (Agent_forward_change_event ev) device_id"

text \<open>
  The two loops of the client.  Both end after the first entry that is taken when the client has
  been stopped; the first also ends at the first exception.
\<close>

fun packet_in_forwarder_loop :: "(string \<times> packet_in_msg) list \<Rightarrow> (manager, unit) st" where
  "packet_in_forwarder_loop [] m = (Inr (), m)"
| "packet_in_forwarder_loop ((device_id, p) # ps) m =
     (case mgr_forward_packet_in device_id p m of
        (Inl e, m') \<Rightarrow> (Inl e, m')
      | (Inr _, m') \<Rightarrow> if client_stopped m' then (Inr (), m') else packet_in_forwarder_loop ps m')"

fun change_event_processing_loop :: "(string \<times> port_status option) list \<Rightarrow> (manager, unit) st" where
  "change_event_processing_loop [] m = (Inr (), m)"
| "change_event_processing_loop ((device_id, ev) # evs) m =
     (let m' = snd (mgr_forward_change_event device_id ev m) in
      if client_stopped m' then (Inr (), m') else change_event_processing_loop evs m')"


section \<open>Lemmas on the manager\<close>

text \<open>
  The two maps are the inverse of each other.  The core gives every logical device a datapath of
  its own: \<open>dp_of\<close> is one-to-one on the set \<open>I\<close> of the identifiers in use.
\<close>

definition mgr_ok :: "(string \<Rightarrow> u64) \<Rightarrow> string set \<Rightarrow> manager \<Rightarrow> bool" where
  "mgr_ok dp_of I m \<longleftrightarrow> od_wf (agent_map m) \<and>
     (\<forall>dp a. od_get dp (agent_map m) = Some a \<longrightarrow>
        ag_datapath_id a = dp \<and> dp_of (ag_device_id a) = dp \<and> ag_device_id a \<in> I) \<and>
     (\<forall>d dp. od_get d (device_map m) = Some dp \<longleftrightarrow>
        (\<exists>a. od_get dp (agent_map m) = Some a \<and> ag_device_id a = d))"

definition consistent :: "(string \<Rightarrow> u64) \<Rightarrow> string set \<Rightarrow> logical_dev list \<Rightarrow> bool" where
  "consistent dp_of I ds \<longleftrightarrow> (\<forall>d \<in> set ds. ldv_datapath_id d = dp_of (ldv_id d) \<and> ldv_id d \<in> I)"

definition order_ok :: "(u64 list \<Rightarrow> u64 list) \<Rightarrow> bool" where
  "order_ok ordr \<longleftrightarrow> (\<forall>xs. set (ordr xs) = set xs \<and> (distinct xs \<longrightarrow> distinct (ordr xs)))"

definition stoppable :: "(of_agent \<Rightarrow> unit res) \<Rightarrow> of_agent \<Rightarrow> bool" where
  "stoppable disc a \<longleftrightarrow> fst (Agent_stop disc a) = Inr ()"

lemma mgr_okD:
  assumes "mgr_ok dp_of I m"
  shows "od_get dp (agent_map m) = Some a \<Longrightarrow> ag_datapath_id a = dp \<and> dp_of (ag_device_id a) = dp \<and> ag_device_id a \<in> I"
    and "od_get d (device_map m) = Some dp \<longleftrightarrow> (\<exists>a. od_get dp (agent_map m) = Some a \<and> ag_device_id a = d)"
    and "od_wf (agent_map m)"
  using assms unfolding mgr_ok_def by blast+

lemma mgr_okI:
  assumes "od_wf (agent_map m)"
    and "\<And>dp a. od_get dp (agent_map m) = Some a \<Longrightarrow>
      ag_datapath_id a = dp \<and> dp_of (ag_device_id a) = dp \<and> ag_device_id a \<in> I"
    and "\<And>d dp. od_get d (device_map m) = Some dp \<longleftrightarrow>
      (\<exists>a. od_get dp (agent_map m) = Some a \<and> ag_device_id a = d)"
  shows "mgr_ok dp_of I m"
  using assms unfolding mgr_ok_def by blast

lemma od_del_after_set: "od_del k (od_set k v d) = od_del k d"
  by (induction d) (auto simp: od_del_def)

lemma Agent_stop_same: "Agent_stop disc a = (r, b) \<Longrightarrow> same_identity a b"
  by (auto simp: Agent_stop_def Let_def same_identity_def split: if_splits)

lemma mgr_ok_set:
  assumes "mgr_ok dp_of I m" and "od_get dp (agent_map m) = Some a" and "same_identity a b"
  shows "mgr_ok dp_of I (m\<lparr>agent_map := od_set dp b (agent_map m)\<rparr>)"
  using assms unfolding mgr_ok_def same_identity_def by auto

lemma mgr_ok_del:
  assumes "mgr_ok dp_of I m" and "od_get dp (agent_map m) = Some a"
  shows "mgr_ok dp_of I (m\<lparr>agent_map := od_del dp (agent_map m), mgr_dropped := x,
    device_map := od_del (ag_device_id a) (device_map m)\<rparr>)"
    and "od_get (ag_device_id a) (device_map m) = Some dp"
proof -
  have uniq: "k = dp" if "od_get k (agent_map m) = Some b" "ag_device_id b = ag_device_id a" for k b
    using mgr_okD(1) [OF assms(1)] that assms(2) by metis
  show "od_get (ag_device_id a) (device_map m) = Some dp"
    using mgr_okD(2) [OF assms(1)] assms(2) by blast
  show "mgr_ok dp_of I (m\<lparr>agent_map := od_del dp (agent_map m), mgr_dropped := x,
      device_map := od_del (ag_device_id a) (device_map m)\<rparr>)" (is "mgr_ok dp_of I ?m")
  proof (rule mgr_okI)
    fix k b
    assume "od_get k (agent_map ?m) = Some b"
    then show "ag_datapath_id b = k \<and> dp_of (ag_device_id b) = k \<and> ag_device_id b \<in> I"
      using mgr_okD(1) [OF assms(1), of k b] by (simp split: if_splits)
  next
    fix d k
    show "od_get d (device_map ?m) = Some k \<longleftrightarrow> (\<exists>b. od_get k (agent_map ?m) = Some b \<and> ag_device_id b = d)"
    proof -
      have "od_get d (device_map ?m) = Some k \<longleftrightarrow>
          d \<noteq> ag_device_id a \<and> (\<exists>b. od_get k (agent_map m) = Some b \<and> ag_device_id b = d)"
        by (simp add: mgr_okD(2) [OF assms(1)])
      also have "\<dots> \<longleftrightarrow> k \<noteq> dp \<and> (\<exists>b. od_get k (agent_map m) = Some b \<and> ag_device_id b = d)"
        using uniq assms(2) by (metis option.inject)
      finally show ?thesis by simp
    qed
  qed (simp add: mgr_okD(3) [OF assms(1)])
qed

text \<open>A deletion that raises leaves the agent in its place.\<close>

lemma delete_agent_eq:
  assumes "mgr_ok dp_of I m" and "od_get dp (agent_map m) = Some a" and "Agent_stop disc a = (r, b)"
  shows "delete_agent disc dp m =
    (case r of
       Inl e \<Rightarrow> (Inl e, m\<lparr>agent_map := od_set dp b (agent_map m)\<rparr>)
     | Inr _ \<Rightarrow> (Inr (), m\<lparr>agent_map := od_del dp (agent_map m), mgr_dropped := mgr_dropped m @ [b],
                   device_map := od_del (ag_device_id a) (device_map m)\<rparr>))"
proof -
  have b: "ag_device_id b = ag_device_id a" using Agent_stop_same [OF assms(3)] by (simp add: same_identity_def)
  show ?thesis
    using mgr_ok_del(2) [OF assms(1,2)] assms(2,3) b
    by (auto simp: delete_agent_def stop_agent_def st_bind_def od_del_after_set split: sum.splits)
qed

lemma delete_agent_missing: "od_get dp (agent_map m) = None \<Longrightarrow> delete_agent disc dp m = (Inl KeyError, m)"
  by (simp add: delete_agent_def stop_agent_def st_bind_def)

lemma delete_agent_ok:
  assumes "mgr_ok dp_of I m"
  shows "mgr_ok dp_of I (snd (delete_agent disc dp m))"
proof (cases "od_get dp (agent_map m)")
  case None
  with assms show ?thesis by (simp add: delete_agent_missing)
next
  case (Some a)
  obtain r b where stop: "Agent_stop disc a = (r, b)" by force
  show ?thesis
    using delete_agent_eq [OF assms Some stop] mgr_ok_set [OF assms Some Agent_stop_same [OF stop]]
      mgr_ok_del(1) [OF assms Some] by (cases r) simp_all
qed

lemma delete_agents_ok:
  "mgr_ok dp_of I m \<Longrightarrow> mgr_ok dp_of I (snd (st_for (\<lambda>dp _. delete_agent disc dp) dps () m))"
proof (induction dps arbitrary: m)
  case Nil
  then show ?case by simp
next
  case (Cons dp dps)
  then show ?case using delete_agent_ok [OF Cons.prems, of disc dp]
    by (auto simp: st_bind_def split: prod.splits sum.splits)
qed

lemma delete_agents_exact:
  assumes "mgr_ok dp_of I m" and "distinct dps"
    and "\<And>dp. dp \<in> set dps \<Longrightarrow> \<exists>a. od_get dp (agent_map m) = Some a \<and> stoppable disc a"
  shows "\<exists>m'. st_for (\<lambda>dp _. delete_agent disc dp) dps () m = (Inr (), m') \<and>
    mgr_ok dp_of I m' \<and> controller_endpoint m' = controller_endpoint m \<and>
    (\<forall>k. od_get k (agent_map m') = (if k \<in> set dps then None else od_get k (agent_map m))) \<and>
    (\<exists>bs. mgr_dropped m' = mgr_dropped m @ bs \<and> map ag_datapath_id bs = dps \<and> list_all ag_exiting bs)"
  using assms
proof (induction dps arbitrary: m)
  case Nil
  then show ?case by simp
next
  case (Cons dp dps)
  from Cons.prems(3) [of dp] obtain a where a: "od_get dp (agent_map m) = Some a" "stoppable disc a" by auto
  then obtain b where stop: "Agent_stop disc a = (Inr (), b)" by (metis stoppable_def prod.collapse)
  have b: "ag_exiting b" "ag_datapath_id b = dp"
    using stop mgr_okD(1) [OF Cons.prems(1) a(1)] by (auto simp: Agent_stop_def Let_def split: if_splits)
  define m1 where "m1 = m\<lparr>agent_map := od_del dp (agent_map m), mgr_dropped := mgr_dropped m @ [b],
    device_map := od_del (ag_device_id a) (device_map m)\<rparr>"
  have del: "delete_agent disc dp m = (Inr (), m1)"
    using delete_agent_eq [OF Cons.prems(1) a(1) stop] by (simp add: m1_def)
  have "mgr_ok dp_of I m1" using mgr_ok_del(1) [OF Cons.prems(1) a(1)] by (simp add: m1_def)
  moreover have "\<exists>a. od_get k (agent_map m1) = Some a \<and> stoppable disc a" if "k \<in> set dps" for k
    using that Cons.prems(2,3) by (auto simp: m1_def)
  ultimately obtain m' bs where m': "st_for (\<lambda>dp _. delete_agent disc dp) dps () m1 = (Inr (), m')"
      "mgr_ok dp_of I m'" "controller_endpoint m' = controller_endpoint m1"
      "\<forall>k. od_get k (agent_map m') = (if k \<in> set dps then None else od_get k (agent_map m1))"
      "mgr_dropped m' = mgr_dropped m1 @ bs" "map ag_datapath_id bs = dps" "list_all ag_exiting bs"
    using Cons.IH [of m1] Cons.prems(2) by auto
  then show ?case
    using del b by (intro exI [of _ m'] conjI exI [of _ "b # bs"]) (auto simp: st_bind_def m1_def)
qed

abbreviation new_agent :: "string \<Rightarrow> logical_dev \<Rightarrow> of_agent" where
  "new_agent ep d \<equiv> Agent_start (Agent_init ep (ldv_datapath_id d) (ldv_id d))"

lemma create_agent_ok:
  assumes "mgr_ok dp_of I m" and "inj_on dp_of I" and "consistent dp_of I [d]"
  shows "mgr_ok dp_of I (snd (create_agent d m))"
proof -
  have d: "ldv_datapath_id d = dp_of (ldv_id d)" "ldv_id d \<in> I" using assms(3) by (simp_all add: consistent_def)
  have dev: "ag_device_id b = ldv_id d" if "od_get (ldv_datapath_id d) (agent_map m) = Some b" for b
    using mgr_okD(1) [OF assms(1) that] d assms(2) by (auto dest: inj_onD)
  have dp: "k = ldv_datapath_id d" if "od_get k (agent_map m) = Some b" "ag_device_id b = ldv_id d" for k b
    using mgr_okD(1) [OF assms(1) that(1)] that(2) d by simp
  have new: "ag_datapath_id (new_agent ep d) = ldv_datapath_id d" "ag_device_id (new_agent ep d) = ldv_id d"
    for ep by (simp_all add: Agent_start_def Agent_init_def)
  show ?thesis (is "mgr_ok dp_of I ?m")
  proof (rule mgr_okI)
    fix k b
    assume "od_get k (agent_map ?m) = Some b"
    then show "ag_datapath_id b = k \<and> dp_of (ag_device_id b) = k \<and> ag_device_id b \<in> I"
      using mgr_okD(1) [OF assms(1), of k b] d new
      by (auto simp: create_agent_def Let_def split: if_splits)
  next
    fix e k
    show "od_get e (device_map ?m) = Some k \<longleftrightarrow> (\<exists>b. od_get k (agent_map ?m) = Some b \<and> ag_device_id b = e)"
    proof -
      have "od_get e (device_map ?m) = Some k \<longleftrightarrow> (if e = ldv_id d then k = ldv_datapath_id d
          else (\<exists>b. od_get k (agent_map m) = Some b \<and> ag_device_id b = e))"
        using mgr_okD(2) [OF assms(1), of e k] by (auto simp: create_agent_def Let_def)
      also have "\<dots> \<longleftrightarrow> (if k = ldv_datapath_id d then e = ldv_id d
          else (\<exists>b. od_get k (agent_map m) = Some b \<and> ag_device_id b = e))"
        using dev dp by metis
      finally show ?thesis by (simp add: create_agent_def Let_def new eq_commute)
    qed
  qed (simp add: mgr_okD(3) [OF assms(1)] create_agent_def Let_def)
qed

lemma create_agents_exact:
  assumes "mgr_ok dp_of I m" and "inj_on dp_of I" and "consistent dp_of I ds"
  shows "\<exists>m'. st_for (\<lambda>d _. if ldv_datapath_id d \<in> A then create_agent d else st_ret ()) ds () m = (Inr (), m') \<and>
    mgr_ok dp_of I m' \<and> mgr_dropped m' = mgr_dropped m \<and> controller_endpoint m' = controller_endpoint m \<and>
    (\<forall>k. k \<notin> A \<inter> ldv_datapath_id ` set ds \<longrightarrow> od_get k (agent_map m') = od_get k (agent_map m)) \<and>
    (\<forall>d \<in> set ds. ldv_datapath_id d \<in> A \<longrightarrow>
       od_get (ldv_datapath_id d) (agent_map m') = Some (new_agent (controller_endpoint m) d))"
  using assms
proof (induction ds arbitrary: m)
  case Nil
  then show ?case by simp
next
  case (Cons d ds)
  define m1 where "m1 = (if ldv_datapath_id d \<in> A then snd (create_agent d m) else m)"
  have d: "ldv_datapath_id d = dp_of (ldv_id d)" "ldv_id d \<in> I" and ds: "consistent dp_of I ds"
    using Cons.prems(3) by (simp_all add: consistent_def)
  have m1: "mgr_ok dp_of I m1" "controller_endpoint m1 = controller_endpoint m" "mgr_dropped m1 = mgr_dropped m"
    using create_agent_ok [OF Cons.prems(1,2), of d] Cons.prems(1) d
    by (auto simp: m1_def consistent_def create_agent_def Let_def)
  have get: "od_get k (agent_map m1) = (if ldv_datapath_id d \<in> A \<and> k = ldv_datapath_id d
      then Some (new_agent (controller_endpoint m) d) else od_get k (agent_map m))" for k
    by (simp add: m1_def create_agent_def Let_def)
  from Cons.IH [OF m1(1) Cons.prems(2) ds] obtain m' where
    m': "st_for (\<lambda>d _. if ldv_datapath_id d \<in> A then create_agent d else st_ret ()) ds () m1 = (Inr (), m')"
      "mgr_ok dp_of I m'" "mgr_dropped m' = mgr_dropped m1" "controller_endpoint m' = controller_endpoint m1"
      and kept: "\<forall>k. k \<notin> A \<inter> ldv_datapath_id ` set ds \<longrightarrow> od_get k (agent_map m') = od_get k (agent_map m1)"
      and new: "\<forall>d \<in> set ds. ldv_datapath_id d \<in> A \<longrightarrow>
        od_get (ldv_datapath_id d) (agent_map m') = Some (new_agent (controller_endpoint m1) d)"
    by auto
  have "od_get (ldv_datapath_id d) (agent_map m') = Some (new_agent (controller_endpoint m) d)"
    if "ldv_datapath_id d \<in> A"
  proof (cases "ldv_datapath_id d \<in> ldv_datapath_id ` set ds")
    case True
    then obtain d' where d': "d' \<in> set ds" "ldv_datapath_id d' = ldv_datapath_id d" by force
    then have "ldv_id d' = ldv_id d"
      using ds d Cons.prems(2) unfolding consistent_def by (metis inj_onD)
    with new d' that m1(2) show ?thesis by (metis (no_types, lifting))
  next
    case False
    with kept get that show ?thesis by simp
  qed
  moreover have "st_for (\<lambda>d _. if ldv_datapath_id d \<in> A then create_agent d else st_ret ()) (d # ds) () m = (Inr (), m')"
    using m'(1) by (auto simp: st_bind_def m1_def create_agent_def Let_def)
  ultimately show ?case
    using m' m1 kept new get by (intro exI [of _ m'] conjI) auto
qed

lemma agent_serves:
  assumes "mgr_ok dp_of I m" and "inj_on dp_of I" and "consistent dp_of I ds" and "d \<in> set ds"
    and "od_get (ldv_datapath_id d) (agent_map m) = Some a"
  shows "ag_device_id a = ldv_id d \<and> od_get (ldv_id d) (device_map m) = Some (ldv_datapath_id d)"
proof -
  have "ag_device_id a = ldv_id d"
    using mgr_okD(1) [OF assms(1,5)] assms(2-4) unfolding consistent_def by (metis inj_onD)
  with assms(5) show ?thesis using mgr_okD(2) [OF assms(1)] by blast
qed

lemma refresh_ok:
  assumes "mgr_ok dp_of I m" and "inj_on dp_of I" and "consistent dp_of I ds"
  shows "mgr_ok dp_of I (snd (refresh_agent_connections ordr disc ds m))"
proof -
  define to_del where "to_del = ordr (filter (\<lambda>dp. dp \<notin> ldv_datapath_id ` set ds) (od_keys (agent_map m)))"
  obtain r m1 where m1: "st_for (\<lambda>dp _. delete_agent disc dp) to_del () m = (r, m1)" by force
  have ok: "mgr_ok dp_of I m1"
    using delete_agents_ok [OF assms(1), of disc to_del] m1 by simp
  note create = create_agents_exact [OF ok assms(2,3),
    of "{x \<in> ldv_datapath_id ` set ds. x \<notin> set (od_keys (agent_map m))}"]
  show ?thesis
    using assms(1) ok m1 create
    by (cases r) (auto simp: refresh_agent_connections_def Let_def st_bind_def to_del_def)
qed

text \<open>The two loops of a refresh that changes something.\<close>

lemma refresh_changes:
  assumes "mgr_ok dp_of I m" and "inj_on dp_of I" and "consistent dp_of I ds" and "order_ok ordr"
    and "\<forall>dp a. od_get dp (agent_map m) = Some a \<longrightarrow> dp \<notin> ldv_datapath_id ` set ds \<longrightarrow> stoppable disc a"
    and "ldv_datapath_id ` set ds \<noteq> set (od_keys (agent_map m))"
  shows "\<exists>m' bs. refresh_agent_connections ordr disc ds m = (Inr (), m') \<and> mgr_ok dp_of I m' \<and>
    (\<forall>k. k \<notin> ldv_datapath_id ` set ds \<longrightarrow> od_get k (agent_map m') = None) \<and>
    (\<forall>d \<in> set ds. od_get (ldv_datapath_id d) (agent_map m') =
       (case od_get (ldv_datapath_id d) (agent_map m) of
          Some a \<Rightarrow> Some a | None \<Rightarrow> Some (new_agent (controller_endpoint m) d))) \<and>
    mgr_dropped m' = mgr_dropped m @ bs \<and> list_all ag_exiting bs \<and>
    ag_datapath_id ` set bs = set (od_keys (agent_map m)) - ldv_datapath_id ` set ds"
proof -
  let ?want = "ldv_datapath_id ` set ds" and ?cur = "set (od_keys (agent_map m))"
  define to_del where "to_del = ordr (filter (\<lambda>dp. dp \<notin> ?want) (od_keys (agent_map m)))"
  have cur: "dp \<in> ?cur \<longleftrightarrow> (\<exists>a. od_get dp (agent_map m) = Some a)" for dp
    using od_get_None [of dp "agent_map m"] by (auto simp: od_keys_def)
  have "distinct (od_keys (agent_map m))" using mgr_okD(3) [OF assms(1)] by (simp add: od_wf_def od_keys_def)
  then have del: "set to_del = ?cur - ?want" "distinct to_del"
    using assms(4) by (auto simp: to_del_def order_ok_def)
  have "\<exists>a. od_get dp (agent_map m) = Some a \<and> stoppable disc a" if "dp \<in> set to_del" for dp
    using that del(1) cur assms(5) by blast
  from delete_agents_exact [OF assms(1) del(2) this] obtain m1 bs where
    m1: "st_for (\<lambda>dp _. delete_agent disc dp) to_del () m = (Inr (), m1)" "mgr_ok dp_of I m1"
      "controller_endpoint m1 = controller_endpoint m"
      "\<forall>k. od_get k (agent_map m1) = (if k \<in> set to_del then None else od_get k (agent_map m))"
      "mgr_dropped m1 = mgr_dropped m @ bs" "map ag_datapath_id bs = to_del" "list_all ag_exiting bs"
    by blast
  obtain m2 where m2: "st_for (\<lambda>d _. if ldv_datapath_id d \<in> ?want - ?cur then create_agent d else st_ret ()) ds () m1 = (Inr (), m2)"
      "mgr_ok dp_of I m2" "mgr_dropped m2 = mgr_dropped m1"
      "\<forall>k. k \<notin> (?want - ?cur) \<inter> ?want \<longrightarrow> od_get k (agent_map m2) = od_get k (agent_map m1)"
      "\<forall>d \<in> set ds. ldv_datapath_id d \<in> ?want - ?cur \<longrightarrow>
         od_get (ldv_datapath_id d) (agent_map m2) = Some (new_agent (controller_endpoint m1) d)"
    using create_agents_exact [OF m1(2) assms(2,3), of "?want - ?cur"] by blast
  have "refresh_agent_connections ordr disc ds m = (Inr (), m2)"
    using assms(6) m1(1) m2(1)
    by (simp add: refresh_agent_connections_def Let_def st_bind_def to_del_def set_diff_eq)
  moreover have "od_get k (agent_map m2) = None" if "k \<notin> ?want" for k
    using that cur [of k] m1(4) [rule_format, of k] m2(4) [rule_format, of k] del(1)
    by (cases "od_get k (agent_map m)") auto
  moreover have "od_get (ldv_datapath_id d) (agent_map m2) = (case od_get (ldv_datapath_id d) (agent_map m) of
      Some a \<Rightarrow> Some a | None \<Rightarrow> Some (new_agent (controller_endpoint m) d))" if "d \<in> set ds" for d
    using that cur [of "ldv_datapath_id d"] m1(3,4) m2(4,5) del(1) by (auto split: option.splits)
  moreover have "ag_datapath_id ` set bs = ?cur - ?want"
    using m1(6) del(1) by (simp flip: set_map)
  ultimately show ?thesis using m1(5,7) m2(2,3) by (intro exI [of _ m2] exI [of _ bs]) simp
qed

text \<open>The states of the manager.\<close>

inductive mgr_step :: "(string \<Rightarrow> u64) \<Rightarrow> string set \<Rightarrow> manager \<Rightarrow> manager \<Rightarrow> bool"
    for dp_of :: "string \<Rightarrow> u64" and I :: "string set" where
  mgr_start: "mgr_step dp_of I m (snd (ConnectionManager_start consul m))"
| mgr_refresh: "consistent dp_of I ds \<Longrightarrow> order_ok ordr \<Longrightarrow>
    mgr_step dp_of I m (snd (refresh_agent_connections ordr disc ds m))"
| mgr_agent: "od_get dp (agent_map m) = Some a \<Longrightarrow> ofagent_step a b \<Longrightarrow>
    mgr_step dp_of I m (m\<lparr>agent_map := od_set dp b (agent_map m)\<rparr>)"
| mgr_packet: "mgr_step dp_of I m (snd (mgr_forward_packet_in d p m))"
| mgr_event: "mgr_step dp_of I m (snd (mgr_forward_change_event d ev m))"
| mgr_stop: "mgr_step dp_of I m (snd (ConnectionManager_stop disc m))"

definition mgr_reachable :: "(string \<Rightarrow> u64) \<Rightarrow> string set \<Rightarrow> manager \<Rightarrow> bool" where
  "mgr_reachable dp_of I =
     reachable (\<lambda>m. \<exists>voltha controller. m = ConnectionManager_init voltha controller) (mgr_step dp_of I)"

lemma mgr_ok_update [simp]:
  "mgr_ok dp_of I (m\<lparr>mgr_running := b\<rparr>) = mgr_ok dp_of I m"
  "mgr_ok dp_of I (m\<lparr>has_channel := b\<rparr>) = mgr_ok dp_of I m"
  "mgr_ok dp_of I (m\<lparr>has_client := b\<rparr>) = mgr_ok dp_of I m"
  "mgr_ok dp_of I (m\<lparr>client_stopped := b\<rparr>) = mgr_ok dp_of I m"
  by (simp_all add: mgr_ok_def)

lemma stop_agents_ok:
  "mgr_ok dp_of I m \<Longrightarrow> mgr_ok dp_of I (snd (st_for (\<lambda>dp _. stop_agent disc dp) dps () m))"
proof (induction dps arbitrary: m)
  case Nil
  then show ?case by simp
next
  case (Cons dp dps)
  obtain r m1 where m1: "stop_agent disc dp m = (r, m1)" by force
  then have "mgr_ok dp_of I m1"
    using Cons.prems Agent_stop_same mgr_ok_set
    by (auto simp: stop_agent_def split: option.splits prod.splits)
  with m1 Cons.IH show ?case by (cases r) (simp_all add: st_bind_def)
qed

lemma on_agent_of_ok:
  assumes "mgr_ok dp_of I m" and "\<And>a r b. f a = (r, b) \<Longrightarrow> same_identity a b"
  shows "mgr_ok dp_of I (snd (on_agent_of f d m))"
  using assms mgr_ok_set by (auto simp: on_agent_of_def split: option.splits prod.splits)

lemma forward_same:
  "Agent_forward_packet_in p a = (r, b) \<Longrightarrow> same_identity a b"
  "Agent_forward_change_event ev a = (r, b) \<Longrightarrow> same_identity a b"
  by (auto simp: Agent_forward_packet_in_def Agent_forward_change_event_def on_handler_def same_identity_def
    split: option.splits prod.splits)

lemma mgr_step_ok: "mgr_step dp_of I m m' \<Longrightarrow> inj_on dp_of I \<Longrightarrow> mgr_ok dp_of I m \<Longrightarrow> mgr_ok dp_of I m'"
proof (induction rule: mgr_step.induct)
  case (mgr_start m consul)
  then show ?case by (auto simp: ConnectionManager_start_def Let_def split: sum.splits)
next
  case (mgr_refresh ds ordr m disc)
  then show ?case by (simp add: refresh_ok)
next
  case (mgr_agent dp m a b)
  then show ?case using mgr_ok_set ofagent_step_same by blast
next
  case (mgr_packet m d p)
  then show ?case using on_agent_of_ok forward_same(1) by (simp add: mgr_forward_packet_in_def)
next
  case (mgr_event m d ev)
  then show ?case using on_agent_of_ok forward_same(2) by (simp add: mgr_forward_change_event_def)
next
  case (mgr_stop m disc)
  then have "mgr_ok dp_of I (snd (st_for (\<lambda>dp _. stop_agent disc dp) (od_keys (agent_map m)) () m))"
    using stop_agents_ok by blast
  then show ?case
    by (auto simp: ConnectionManager_stop_def st_bind_def Let_def split: prod.splits sum.splits)
qed

interpretation mgr: step_invariant "\<lambda>m. \<exists>voltha controller. m = ConnectionManager_init voltha controller"
  "mgr_step dp_of I" "\<lambda>m. inj_on dp_of I \<longrightarrow> mgr_ok dp_of I m" for dp_of I
  by unfold_locales (auto simp: ConnectionManager_init_def mgr_ok_def dest: mgr_step_ok)

lemma mgr_reachable_ok: "mgr_reachable dp_of I m \<Longrightarrow> inj_on dp_of I \<Longrightarrow> mgr_ok dp_of I m"
  using mgr.reachable_inv by (auto simp: mgr_reachable_def)


section \<open>Properties of the manager\<close>

text \<open>
  C39. The manager's two maps are the inverse of each other in every state, also after an agent
  could not be stopped: the agent of a datapath serves the device whose datapath it is, and a
  device is known exactly when an agent serves it.
\<close>

theorem manager_maps_inverse:
  assumes "mgr_reachable dp_of I m" and "inj_on dp_of I"
  shows "(od_get d (device_map m) = Some dp \<longleftrightarrow>
      (\<exists>a. od_get dp (agent_map m) = Some a \<and> ag_device_id a = d)) \<and>
    (od_get dp (agent_map m) = Some a \<longrightarrow> ag_datapath_id a = dp \<and> dp_of (ag_device_id a) = dp)"
  using mgr_okD [OF mgr_reachable_ok [OF assms]] by blast

definition ex_dp :: "string \<Rightarrow> u64" where
  "ex_dp d = (if d = ''ld1'' then 1 else 2)"

definition ex_ldv :: "string \<Rightarrow> logical_dev" where
  "ex_ldv d = \<lparr>ldv_id = d, ldv_datapath_id = ex_dp d\<rparr>"

definition ex_manager :: manager where
  "ex_manager = snd (refresh_agent_connections id (\<lambda>_. Inr ()) [ex_ldv ''ld1'']
     (ConnectionManager_init ''v:1'' ''c:6633''))"

lemma ex_manager_reachable: "mgr_reachable ex_dp {''ld1'', ''ld2''} ex_manager" "inj_on ex_dp {''ld1'', ''ld2''}"
  unfolding ex_manager_def mgr_reachable_def
  by (rule reach_step, rule reach_init, blast, rule mgr_refresh)
    (auto simp: consistent_def ex_ldv_def ex_dp_def order_ok_def inj_on_def)

theorem manager_maps_inverse_witness:
  "od_get ''ld1'' (device_map ex_manager) = Some 1 \<and>
   (\<exists>a. od_get 1 (agent_map ex_manager) = Some a \<and> ag_device_id a = ''ld1'')"
proof -
  have "od_get ''ld1'' (device_map ex_manager) = Some 1"
    by (simp add: ex_manager_def refresh_agent_connections_def ConnectionManager_init_def
      st_bind_def create_agent_def ex_ldv_def ex_dp_def od_keys_def)
  with manager_maps_inverse [OF ex_manager_reachable, of "''ld1''" 1] show ?thesis by blast
qed

text \<open>
  C38. A refresh follows the core: when the agents it drops can be stopped, afterwards the agents
  are exactly those of the devices of the list, each device is known, the agents of datapaths
  that stay are untouched, those of new datapaths are freshly started, and the dropped ones are
  the obsolete ones and have been told to exit.
\<close>

theorem refresh_follows_core:
  assumes "mgr_reachable dp_of I m" and "inj_on dp_of I" and "consistent dp_of I ds" and "order_ok ordr"
    and "\<forall>dp a. od_get dp (agent_map m) = Some a \<longrightarrow> dp \<notin> ldv_datapath_id ` set ds \<longrightarrow> stoppable disc a"
    and "refresh_agent_connections ordr disc ds m = (r, m')"
  shows "r = Inr () \<and> set (od_keys (agent_map m')) = ldv_datapath_id ` set ds \<and>
    (\<forall>d \<in> set ds. od_get (ldv_id d) (device_map m') = Some (ldv_datapath_id d) \<and>
       od_get (ldv_datapath_id d) (agent_map m') =
         (case od_get (ldv_datapath_id d) (agent_map m) of
            Some a \<Rightarrow> Some a
          | None \<Rightarrow> Some (Agent_start (Agent_init (controller_endpoint m) (ldv_datapath_id d) (ldv_id d))))) \<and>
    (\<exists>bs. mgr_dropped m' = mgr_dropped m @ bs \<and> list_all ag_exiting bs \<and>
       ag_datapath_id ` set bs = set (od_keys (agent_map m)) - ldv_datapath_id ` set ds)"
proof -
  let ?want = "ldv_datapath_id ` set ds"
  have ok: "mgr_ok dp_of I m" using mgr_reachable_ok [OF assms(1,2)] .
  have keys: "k \<in> set (od_keys (agent_map n)) \<longleftrightarrow> od_get k (agent_map n) \<noteq> None" for k n
    using od_get_None [of k "agent_map n"] by (auto simp: od_keys_def)
  have "\<exists>bs. r = Inr () \<and> mgr_ok dp_of I m' \<and>
    (\<forall>k. k \<notin> ?want \<longrightarrow> od_get k (agent_map m') = None) \<and>
    (\<forall>d \<in> set ds. od_get (ldv_datapath_id d) (agent_map m') =
       (case od_get (ldv_datapath_id d) (agent_map m) of
          Some a \<Rightarrow> Some a | None \<Rightarrow> Some (new_agent (controller_endpoint m) d))) \<and>
    mgr_dropped m' = mgr_dropped m @ bs \<and> list_all ag_exiting bs \<and>
    ag_datapath_id ` set bs = set (od_keys (agent_map m)) - ?want"
  proof (cases "?want = set (od_keys (agent_map m))")
    case True
    then have "r = Inr ()" "m' = m" using assms(6) by (simp_all add: refresh_agent_connections_def)
    moreover have "od_get k (agent_map m) = None \<longleftrightarrow> k \<notin> ?want" for k using True keys by blast
    ultimately show ?thesis using ok True by (intro exI [of _ "[]"]) (auto split: option.splits)
  next
    case False
    with refresh_changes [OF ok assms(2-5)] assms(6) show ?thesis by auto
  qed
  then obtain bs where res: "r = Inr ()" and ok': "mgr_ok dp_of I m'"
    and gone: "\<forall>k. k \<notin> ?want \<longrightarrow> od_get k (agent_map m') = None"
    and agents: "\<forall>d \<in> set ds. od_get (ldv_datapath_id d) (agent_map m') =
       (case od_get (ldv_datapath_id d) (agent_map m) of
          Some a \<Rightarrow> Some a | None \<Rightarrow> Some (new_agent (controller_endpoint m) d))"
    and drop: "mgr_dropped m' = mgr_dropped m @ bs" "list_all ag_exiting bs"
      "ag_datapath_id ` set bs = set (od_keys (agent_map m)) - ?want" by blast
  have known: "od_get (ldv_id d) (device_map m') = Some (ldv_datapath_id d)" if "d \<in> set ds" for d
  proof -
    have "\<exists>a. od_get (ldv_datapath_id d) (agent_map m') = Some a"
      using agents that by (cases "od_get (ldv_datapath_id d) (agent_map m)") auto
    then show ?thesis using agent_serves [OF ok' assms(2,3) that] by blast
  qed
  have "set (od_keys (agent_map m')) = ?want"
    using gone agents by (auto simp: keys split: option.splits)
  then show ?thesis using res drop agents known by blast
qed

theorem refresh_follows_core_witness:
  "(let (r, m') = refresh_agent_connections id (\<lambda>_. Inr ()) [ex_ldv ''ld1'', ex_ldv ''ld2''] ex_manager in
    r = Inr () \<and> set (od_keys (agent_map m')) = {1, 2} \<and> od_get ''ld2'' (device_map m') = Some 2)"
proof -
  obtain r m' where m': "refresh_agent_connections id (\<lambda>_. Inr ()) [ex_ldv ''ld1'', ex_ldv ''ld2''] ex_manager = (r, m')"
    by force
  have "od_keys (agent_map ex_manager) = [1]"
    by (simp add: ex_manager_def refresh_agent_connections_def ConnectionManager_init_def
      st_bind_def create_agent_def ex_ldv_def ex_dp_def od_keys_def)
  then have "\<forall>dp a. od_get dp (agent_map ex_manager) = Some a \<longrightarrow>
      dp \<notin> ldv_datapath_id ` set [ex_ldv ''ld1'', ex_ldv ''ld2''] \<longrightarrow> stoppable (\<lambda>_. Inr ()) a"
    by (auto simp: ex_ldv_def ex_dp_def od_keys_def od_get_def dest: map_of_SomeD)
  moreover have "consistent ex_dp {''ld1'', ''ld2''} [ex_ldv ''ld1'', ex_ldv ''ld2'']" "order_ok id"
    by (simp_all add: consistent_def ex_ldv_def order_ok_def)
  ultimately show ?thesis
    using refresh_follows_core [OF ex_manager_reachable _ _ _ m'] m' by (simp add: ex_ldv_def ex_dp_def)
qed

text \<open>The core is asked until it answers.\<close>

lemma get_list_returns:
  assumes "ask (n + k) = Inr devices" and "\<forall>i < k. \<exists>e. ask (n + i) = Inl e"
  shows "get_list_of_logical_devices_from_voltha ask n = Some devices"
  using assms
proof (induction k arbitrary: n)
  case 0
  then show ?case by (simp add: get_list_of_logical_devices_from_voltha.simps [of ask n])
next
  case (Suc k)
  from Suc.prems(2) obtain e where "ask n = Inl e" by (metis add_0_right zero_less_Suc)
  moreover have "\<forall>i < k. \<exists>e. ask (Suc n + i) = Inl e" using Suc.prems(2) by (metis Suc_less_eq add_Suc_shift)
  ultimately show ?case
    using Suc.IH [of "Suc n"] Suc.prems(1)
    by (simp add: get_list_of_logical_devices_from_voltha.simps [of ask n])
qed


section \<open>Where the manager loses track\<close>

text \<open>Packets and events of the device whose datapath is zero are dropped, although it has an agent.\<close>

lemma datapath_zero_dropped:
  "od_get d (device_map m) = Some 0 \<Longrightarrow> mgr_forward_packet_in d p m = (Inr (), m)"
  by (simp add: mgr_forward_packet_in_def on_agent_of_def)

text \<open>When the datapaths are the same, a change of the identifiers of the devices is not noticed.\<close>

lemma refresh_ignores_ids:
  "ldv_datapath_id ` set ds = set (od_keys (agent_map m)) \<Longrightarrow>
   refresh_agent_connections ordr disc ds m = (Inr (), m)"
  by (simp add: refresh_agent_connections_def)

text \<open>A start that fails leaves the manager marked as running: starting it again does nothing.\<close>

lemma failed_start_runs:
  assumes "ConnectionManager_start consul m = (Inl e, m')"
  shows "ConnectionManager_start consul' m' = (Inr (), m') \<and> has_channel m' = has_channel m"
  using assms by (auto simp: ConnectionManager_start_def Let_def split: if_splits sum.splits)

text \<open>
  A packet whose forwarding raises is the last one that is forwarded, for all devices; a change
  event whose forwarding raises is not.
\<close>

lemma packet_loop_ends:
  "mgr_forward_packet_in d p m = (Inl e, m') \<Longrightarrow> packet_in_forwarder_loop ((d, p) # ps) m = (Inl e, m')"
  by simp

lemma event_loop_goes_on:
  "mgr_forward_change_event d ev m = (Inl e, m') \<Longrightarrow> \<not> client_stopped m' \<Longrightarrow>
   change_event_processing_loop ((d, ev) # evs) m = change_event_processing_loop evs m'"
  by simp

end
