(* ===== verification/OfConnection.thy ===== *)
theory OfConnection
  imports MessageQueue
begin

text \<open>
  The lower half of the OpenFlow protocol: \<^verbatim>\<open>src/ofagent/of_connection.py\<close>, with
  \<^verbatim>\<open>parse_header\<close> and \<^verbatim>\<open>parse_message\<close> of the loxi bindings.

  TCP delivers bytes in pieces of any size.  \<^verbatim>\<open>dataReceived\<close> cuts the messages out of them by
  the length in their headers and puts them into the queue.  Decoding the body of a message is
  generated code, the argument \<open>unpack\<close> (\<open>message_unpack\<close> of \<open>LoxiMessages\<close> is that code), which may return an object, return nothing, or raise.

  The lemmas show that the loop of \<^verbatim>\<open>dataReceived\<close> returns for every input, and that it does
  not matter how the stream is cut into pieces.
\<close>

section \<open>Headers and messages (loxi)\<close>

record header =
  h_version :: nat
  h_type :: nat
  h_len :: nat
  h_xid :: nat

text \<open>\<^verbatim>\<open>struct.unpack_from("!BBHL", buf)\<close>\<close>

definition be_nat :: "bytes \<Rightarrow> nat" where
  "be_nat bs = foldl (\<lambda>a b. a * 256 + unat b) 0 bs"

definition parse_header :: "bytes \<Rightarrow> header res" where
  "parse_header buf =
     (if length buf < 8 then Inl ProtocolError
      else Inr \<lparr>h_version = unat (buf ! 0), h_type = unat (buf ! 1),
                h_len = be_nat (take 2 (drop 2 buf)), h_xid = be_nat (take 4 (drop 4 buf))\<rparr>)"

definition loxi_protocol :: "nat \<Rightarrow> nat res" where
  "loxi_protocol ver = (if ver \<in> {1, 2, 3, 4, 5} then Inr ver else Inl ValueError)"

abbreviation (input) OFPT_HELLO :: nat where
  "OFPT_HELLO \<equiv> 0"

type_synonym 'm unpack = "nat \<Rightarrow> bytes \<Rightarrow> 'm option res"

definition parse_message :: "'m unpack \<Rightarrow> nat \<Rightarrow> bytes \<Rightarrow> 'm option res" where
  "parse_message unpack ofp_version buf =
     rbind (parse_header buf) (\<lambda>h.
       if h_version h \<noteq> ofp_version \<and> h_type h \<noteq> OFPT_HELLO then Inl ProtocolError
       else if length buf \<noteq> h_len h then Inl ProtocolError
       else unpack ofp_version buf)"


section \<open>OpenFlowConnection\<close>

record 'm of_connection =
  read_buffer :: "bytes option"
  rx :: "'m mqueue"

definition OpenFlowConnection_init :: "'m of_connection" where
  "OpenFlowConnection_init = \<lparr>read_buffer = None, rx = MessageQueue_init\<rparr>"

text \<open>The loop: the offset it ends with, or the exception, and the queue.\<close>

partial_function (option) receive_loop ::
    "'m unpack \<Rightarrow> bytes \<Rightarrow> nat \<Rightarrow> 'm mqueue \<Rightarrow> (nat res \<times> 'm mqueue) option" where
  "receive_loop unpack buf off q =
     (if off < length buf then
        (if off + 8 > length buf then Some (Inr off, q)
         else
           (case parse_header (drop off buf) of
              Inl e \<Rightarrow> Some (Inl e, q)
            | Inr h \<Rightarrow>
                (case loxi_protocol (h_version h) of
                   Inl e \<Rightarrow> Some (Inl e, q)
                 | Inr ofp \<Rightarrow>
                     (if off + h_len h > length buf then Some (Inr off, q)
                      else
                        (case parse_message unpack ofp (take (h_len h) (drop off buf)) of
                           Inl e \<Rightarrow> Some (Inl e, q)
                         | Inr None \<Rightarrow> Some (Inl AttributeError, q)
                         | Inr (Some msg) \<Rightarrow>
                             receive_loop unpack buf (off + h_len h) (mq_put msg q))))))
      else Some (Inr off, q))"

definition dataReceived ::
    "'m unpack \<Rightarrow> bytes \<Rightarrow> 'm of_connection \<Rightarrow> (unit res \<times> 'm of_connection) option" where
  "dataReceived unpack data c =
     (if data = [] then Some (Inl AssertionError, c)
      else
        (let buf = (case read_buffer c of None \<Rightarrow> data | Some b \<Rightarrow> if b = [] then data else b @ data) in
         map_option (\<lambda>(r, q). case r of
            Inl e \<Rightarrow> (Inl e, c\<lparr>rx := q\<rparr>)
          | Inr off \<Rightarrow>
              (Inr (), c\<lparr>rx := q, read_buffer := (if off = length buf then None else Some (drop off buf))\<rparr>))
         (receive_loop unpack buf 0 (rx c))))"

text \<open>A sequence of pieces; an exception closes the connection.\<close>

fun receive_chunks ::
    "'m unpack \<Rightarrow> bytes list \<Rightarrow> 'm of_connection \<Rightarrow> (unit res \<times> 'm of_connection) option" where
  "receive_chunks unpack [] c = Some (Inr (), c)"
| "receive_chunks unpack (d # ds) c =
     (case dataReceived unpack d c of
        None \<Rightarrow> None
      | Some (Inl e, c') \<Rightarrow> Some (Inl e, c')
      | Some (Inr _, c') \<Rightarrow> receive_chunks unpack ds c')"

definition recv :: "('m \<Rightarrow> bool) \<Rightarrow> 'm of_connection \<Rightarrow> nat \<times> 'm of_connection" where
  "recv p c = (let (d, q) = mq_get p (rx c) in (d, c\<lparr>rx := q\<rparr>))"


section \<open>A reference reading of the stream\<close>

text \<open>
  The first message of a buffer and its length, \<^const>\<open>None\<close> if it is not complete; and the
  messages one after the other, with the exception, if any, and the bytes that are left.
\<close>

definition next_message :: "'m unpack \<Rightarrow> bytes \<Rightarrow> ('m \<times> nat) option res" where
  "next_message unpack buf =
     rbind (parse_header buf) (\<lambda>h.
     rbind (loxi_protocol (h_version h)) (\<lambda>ofp.
       if h_len h > length buf then Inr None
       else rbind (parse_message unpack ofp (take (h_len h) buf)) (\<lambda>m.
         case m of None \<Rightarrow> Inl AttributeError | Some msg \<Rightarrow> Inr (Some (msg, h_len h)))))"

lemma next_message_len:
  assumes "next_message unpack buf = Inr (Some (m, n))"
  shows "8 \<le> n" and "n \<le> length buf"
proof -
  obtain x where x: "parse_header buf = Inr x" using assms by (auto simp: next_message_def rbind_eq_Inr)
  obtain ofp where ofp: "loxi_protocol (h_version x) = Inr ofp"
    using assms x by (auto simp: next_message_def rbind_eq_Inr)
  have h: "n = h_len x" "\<not> h_len x > length buf"
      and p: "parse_message unpack ofp (take (h_len x) buf) = Inr (Some m)"
    using assms by (auto simp: next_message_def x ofp rbind_eq_Inr split: if_splits option.splits)
  show "n \<le> length buf" using h by simp
  from p obtain h' where "parse_header (take (h_len x) buf) = Inr h'"
    by (auto simp: parse_message_def rbind_eq_Inr)
  then show "8 \<le> n" using h by (simp add: parse_header_def split: if_splits)
qed

function consume :: "'m unpack \<Rightarrow> bytes \<Rightarrow> 'm mqueue \<Rightarrow> unit res \<times> bytes \<times> 'm mqueue" where
  "consume unpack buf q =
     (if length buf < 8 then (Inr (), buf, q)
      else
        (case next_message unpack buf of
           Inl e \<Rightarrow> (Inl e, buf, q)
         | Inr None \<Rightarrow> (Inr (), buf, q)
         | Inr (Some (m, n)) \<Rightarrow> consume unpack (drop n buf) (mq_put m q)))"
  by pat_completeness auto

termination
proof (relation "measure (\<lambda>(u, buf, q). length buf)")
  fix unpack :: "'m unpack" and buf q x y m n
  assume "\<not> length buf < 8" "next_message unpack buf = Inr y" "y = Some x" "(m, n) = x"
  then have "8 \<le> n" by (metis next_message_len(1))
  with \<open>\<not> length buf < 8\<close>
  show "((unpack, drop n buf, mq_put m q), unpack, buf, q) \<in> measure (\<lambda>(u, buf, q). length buf)"
    by simp
qed simp

declare consume.simps [simp del]

lemma parse_header_append:
  "8 \<le> length buf \<Longrightarrow> parse_header (buf @ d) = parse_header buf"
  by (auto simp: parse_header_def nth_append)

lemma next_message_append:
  assumes "8 \<le> length buf"
  shows "next_message unpack buf = Inl e \<Longrightarrow> next_message unpack (buf @ d) = Inl e"
    and "next_message unpack buf = Inr (Some x) \<Longrightarrow> next_message unpack (buf @ d) = Inr (Some x)"
proof -
  obtain h where h: "parse_header buf = Inr h" using assms by (simp add: parse_header_def)
  have same: "next_message unpack (buf @ d) = next_message unpack buf"
    if "next_message unpack buf \<noteq> Inr None"
    using that h by (cases "loxi_protocol (h_version h)")
      (auto simp: next_message_def parse_header_append [OF assms] split: if_splits)
  show "next_message unpack buf = Inl e \<Longrightarrow> next_message unpack (buf @ d) = Inl e"
    "next_message unpack buf = Inr (Some x) \<Longrightarrow> next_message unpack (buf @ d) = Inr (Some x)"
    using same by auto
qed

lemma consume_append:
  "consume unpack (buf @ d) q =
     (case consume unpack buf q of
        (Inl e, rest, q') \<Rightarrow> (Inl e, rest @ d, q')
      | (Inr _, rest, q') \<Rightarrow> consume unpack (rest @ d) q')"
proof (induction unpack buf q rule: consume.induct)
  case (1 unpack buf q)
  show ?case
  proof (cases "length buf < 8")
    case True
    then show ?thesis by (simp add: consume.simps [of unpack buf q])
  next
    case False
    then have len: "8 \<le> length buf" by simp
    show ?thesis
    proof (cases "next_message unpack buf")
      case (Inl e)
      with False next_message_append(1) [OF len Inl, of d] show ?thesis
        by (simp add: consume.simps [of unpack buf q] consume.simps [of unpack "buf @ d" q])
    next
      case (Inr y)
      show ?thesis
      proof (cases y)
        case None
        with Inr False show ?thesis by (simp add: consume.simps [of unpack buf q])
      next
        case (Some x)
        obtain m n where x: "x = (m, n)" by (rule prod.exhaust)
        have nm: "next_message unpack buf = Inr (Some (m, n))" using Inr Some x by simp
        have "drop n (buf @ d) = drop n buf @ d" using next_message_len(2) [OF nm] by simp
        with 1 [OF False Inr Some] next_message_append(2) [OF len nm, of d] nm False x show ?thesis
          by (simp add: consume.simps [of unpack buf q] consume.simps [of unpack "buf @ d" q])
      qed
    qed
  qed
qed

lemma consume_idle:
  "consume unpack buf q = (Inr u, rest, q') \<Longrightarrow> consume unpack rest q' = (Inr (), rest, q')"
proof (induction unpack buf q rule: consume.induct)
  case (1 unpack buf q)
  show ?case
  proof (cases "\<exists>m n. \<not> length buf < 8 \<and> next_message unpack buf = Inr (Some (m, n))")
    case True
    then obtain m n where t: "\<not> length buf < 8" "next_message unpack buf = Inr (Some (m, n))" by blast
    with 1(2) have c: "consume unpack (drop n buf) (mq_put m q) = (Inr u, rest, q')"
      by (simp add: consume.simps [of unpack buf q])
    show ?thesis by (rule 1(1) [OF t(1) t(2) refl refl c])
  next
    case False
    with 1(2) have "rest = buf" "q' = q"
      by (auto simp: consume.simps [of unpack buf q] split: if_splits sum.splits option.splits)
    with 1(2) show ?thesis by simp
  qed
qed

lemma receive_loop_consume:
  assumes "off \<le> length buf"
  shows "receive_loop unpack buf off q =
    (case consume unpack (drop off buf) q of
       (Inl e, rest, q') \<Rightarrow> Some (Inl e, q')
     | (Inr _, rest, q') \<Rightarrow> Some (Inr (length buf - length rest), q'))"
  using assms
proof (induction unpack "drop off buf" q arbitrary: off rule: consume.induct)
  case (1 unpack q)
  note loop = receive_loop.simps [of unpack buf off q] and cons = consume.simps [of unpack "drop off buf" q]
  show ?case
  proof (cases "length (drop off buf) < 8")
    case True
    with 1(2) show ?thesis unfolding loop cons by auto
  next
    case False
    then have "off < length buf" "\<not> off + 8 > length buf" by auto
    obtain h where h: "parse_header (drop off buf) = Inr h" using False by (simp add: parse_header_def)
    have big: "off + h_len h > length buf \<longleftrightarrow> h_len h > length (drop off buf)" using 1(2) by auto
    show ?thesis
    proof (cases "next_message unpack (drop off buf)")
      case (Inl e)
      then show ?thesis
        unfolding loop cons using \<open>off < length buf\<close> \<open>\<not> off + 8 > length buf\<close> h big False
        by (auto simp: next_message_def rbind_def split: sum.splits if_splits option.splits)
    next
      case (Inr y)
      show ?thesis
      proof (cases y)
        case None
        with Inr show ?thesis
          unfolding loop cons using \<open>off < length buf\<close> \<open>\<not> off + 8 > length buf\<close> h big False
          by (auto simp: next_message_def rbind_def split: sum.splits if_splits option.splits)
      next
        case (Some x)
        obtain m n where x: "x = (m, n)" by (rule prod.exhaust)
        have nm: "next_message unpack (drop off buf) = Inr (Some (m, n))" using Inr Some x by simp
        from nm obtain ofp where ofp: "loxi_protocol (h_version h) = Inr ofp"
          by (auto simp: next_message_def h rbind_eq_Inr)
        from nm have n: "n = h_len h" "\<not> h_len h > length (drop off buf)"
            and pm: "parse_message unpack ofp (take (h_len h) (drop off buf)) = Inr (Some m)"
          by (auto simp: next_message_def h ofp rbind_eq_Inr split: if_splits option.splits)
        have "receive_loop unpack buf off q = receive_loop unpack buf (off + n) (mq_put m q)"
          unfolding loop using \<open>off < length buf\<close> \<open>\<not> off + 8 > length buf\<close> h ofp n pm big by simp
        also have "\<dots> = (case consume unpack (drop (off + n) buf) (mq_put m q) of
            (Inl e, rest, q') \<Rightarrow> Some (Inl e, q')
          | (Inr _, rest, q') \<Rightarrow> Some (Inr (length buf - length rest), q'))"
          by (rule 1(1) [OF False Inr Some x [symmetric]]) (use n 1(2) in \<open>auto simp: add.commute\<close>)
        also have "consume unpack (drop (off + n) buf) (mq_put m q) = consume unpack (drop off buf) q"
          unfolding cons using False nm by (simp add: add.commute)
        finally show ?thesis .
      qed
    qed
  qed
qed

lemma consume_rest:
  "consume unpack buf q = (r, rest, q') \<Longrightarrow> length rest \<le> length buf \<and> rest = drop (length buf - length rest) buf"
proof (induction unpack buf q rule: consume.induct)
  case (1 unpack buf q)
  show ?case
  proof (cases "\<exists>m n. \<not> length buf < 8 \<and> next_message unpack buf = Inr (Some (m, n))")
    case True
    then obtain m n where t: "\<not> length buf < 8" "next_message unpack buf = Inr (Some (m, n))" by blast
    with 1(2) have c: "consume unpack (drop n buf) (mq_put m q) = (r, rest, q')"
      by (simp add: consume.simps [of unpack buf q])
    have n: "n \<le> length buf" using next_message_len(2) [OF t(2)] .
    from 1(1) [OF t(1) t(2) refl refl c]
    have r: "length rest \<le> length buf - n" "rest = drop (length buf - n - length rest + n) buf" by auto
    then have "length buf - n - length rest + n = length buf - length rest" using n by simp
    with r n show ?thesis by simp
  next
    case False
    with 1(2) have "rest = buf"
      by (auto simp: consume.simps [of unpack buf q] split: if_splits sum.splits option.splits)
    then show ?thesis by simp
  qed
qed

text \<open>What \<^verbatim>\<open>dataReceived\<close> does, in terms of the reference reading.\<close>

definition buffered :: "'m of_connection \<Rightarrow> bytes" where
  "buffered c = (case read_buffer c of None \<Rightarrow> [] | Some b \<Rightarrow> b)"

lemma dataReceived_consume:
  assumes "data \<noteq> []" and "consume unpack (buffered c @ data) (rx c) = (r, rest, q')"
  shows "dataReceived unpack data c = Some (case r of
      Inl e \<Rightarrow> (Inl e, c\<lparr>rx := q'\<rparr>)
    | Inr _ \<Rightarrow> (Inr (), c\<lparr>rx := q', read_buffer := (if rest = [] then None else Some rest)\<rparr>))"
proof -
  have buf: "(case read_buffer c of None \<Rightarrow> data | Some b \<Rightarrow> if b = [] then data else b @ data) = buffered c @ data"
    by (simp add: buffered_def split: option.splits)
  have rest: "length rest \<le> length (buffered c @ data)"
      "rest = drop (length (buffered c @ data) - length rest) (buffered c @ data)"
    using consume_rest [OF assms(2)] by auto
  show ?thesis
  proof (cases r)
    case (Inl e)
    with assms show ?thesis
      by (simp add: dataReceived_def buf receive_loop_consume del: length_append)
  next
    case (Inr u)
    have "length (buffered c @ data) - length rest = length (buffered c @ data) \<longleftrightarrow> rest = []"
      using rest(1) assms(1) by (cases rest) auto
    with Inr assms rest(2) [symmetric] show ?thesis
      unfolding dataReceived_def buf Let_def
      by (simp add: receive_loop_consume del: length_append)
  qed
qed

lemma receive_chunks_consume:
  assumes "\<forall>d \<in> set ds. d \<noteq> []" and "\<forall>b. read_buffer c = Some b \<longrightarrow> b \<noteq> []"
    and "consume unpack (buffered c) (rx c) = (Inr (), buffered c, rx c)"
    and "consume unpack (buffered c @ concat ds) (rx c) = (r, rest, q')"
  shows "\<exists>c'. receive_chunks unpack ds c = Some (r, c') \<and> rx c' = q' \<and>
    (r = Inr () \<longrightarrow> c' = c\<lparr>rx := q', read_buffer := (if rest = [] then None else Some rest)\<rparr>)"
  using assms
proof (induction ds arbitrary: c)
  case Nil
  then show ?case
    by (cases "read_buffer c") (auto simp: buffered_def)
next
  case (Cons d ds)
  obtain r1 rest1 q1 where d: "consume unpack (buffered c @ d) (rx c) = (r1, rest1, q1)"
    by (metis prod.exhaust)
  have data: "dataReceived unpack d c = Some (case r1 of
      Inl e \<Rightarrow> (Inl e, c\<lparr>rx := q1\<rparr>)
    | Inr _ \<Rightarrow> (Inr (), c\<lparr>rx := q1, read_buffer := (if rest1 = [] then None else Some rest1)\<rparr>))"
    using dataReceived_consume [OF _ d] Cons.prems(1) by simp
  have all: "consume unpack ((buffered c @ d) @ concat ds) (rx c) = (r, rest, q')"
    using Cons.prems(4) by simp
  then have split: "(case (r1, rest1, q1) of (Inl e, rest, q') \<Rightarrow> (Inl e, rest @ concat ds, q')
      | (Inr _, rest, q') \<Rightarrow> consume unpack (rest @ concat ds) q') = (r, rest, q')"
    unfolding consume_append [of unpack "buffered c @ d"] d .
  show ?case
  proof (cases r1)
    case (Inl e)
    then have "r = Inl e" "q' = q1" using split by auto
    with data Inl show ?thesis by simp
  next
    case (Inr u)
    let ?c = "c\<lparr>rx := q1, read_buffer := (if rest1 = [] then None else Some rest1)\<rparr>"
    have b: "buffered ?c = rest1" by (simp add: buffered_def)
    have "consume unpack (rest1 @ concat ds) q1 = (r, rest, q')" using split Inr by simp
    moreover have "consume unpack rest1 q1 = (Inr (), rest1, q1)"
      using consume_idle [OF d [unfolded Inr]] by simp
    ultimately have "\<exists>c'. receive_chunks unpack ds ?c = Some (r, c') \<and> rx c' = q' \<and>
        (r = Inr () \<longrightarrow> c' = ?c\<lparr>rx := q', read_buffer := (if rest = [] then None else Some rest)\<rparr>)"
      using Cons.prems(1) by (intro Cons.IH) (simp_all add: b)
    with data Inr show ?thesis by simp
  qed
qed

section \<open>Properties\<close>

text \<open>
  C29. The stream is cut correctly however TCP delivers it: from a fresh connection, receiving
  any sequence of non-empty pieces one by one returns, puts the same messages in the queue and
  ends in the same way as receiving all the bytes at once, and, unless that way is an exception,
  leaves the same incomplete rest in the buffer.
\<close>

theorem stream_chunking:
  fixes unpack :: "'m unpack"
  assumes "ds \<noteq> []" and "\<forall>d \<in> set ds. d \<noteq> []"
  shows "\<exists>r c1 c2. dataReceived unpack (concat ds) OpenFlowConnection_init = Some (r, c1) \<and>
    receive_chunks unpack ds OpenFlowConnection_init = Some (r, c2) \<and> rx c1 = rx c2 \<and>
    (r = Inr () \<longrightarrow> c1 = c2)"
proof -
  let ?c = "OpenFlowConnection_init :: 'm of_connection"
  obtain r rest q' where c: "consume unpack (buffered ?c @ concat ds) (rx ?c) = (r, rest, q')"
    by (metis prod.exhaust)
  have ne: "concat ds \<noteq> []" using assms by (cases ds) auto
  have idle: "consume unpack (buffered ?c) (rx ?c) = (Inr (), buffered ?c, rx ?c)"
    by (simp add: buffered_def OpenFlowConnection_init_def consume.simps)
  have "\<forall>b. read_buffer ?c = Some b \<longrightarrow> b \<noteq> []" by (simp add: OpenFlowConnection_init_def)
  with receive_chunks_consume [OF assms(2) _ idle c] dataReceived_consume [OF ne c]
  show ?thesis by (cases r) auto
qed

text \<open>Messages of two bytes of body, their number as value; the third is incomplete.\<close>

theorem stream_chunking_witness:
  "\<exists>r c1 c2.
    dataReceived (\<lambda>v bs. Inr (Some (bs ! 8))) (concat [[4, 2, 0, 10, 0, 0], [0, 1, 7, 0, 4], [2, 0, 10, 0, 0, 0, 2, 9, 0, 4]])
      OpenFlowConnection_init = Some (r, c1) \<and>
    receive_chunks (\<lambda>v bs. Inr (Some (bs ! 8))) [[4, 2, 0, 10, 0, 0], [0, 1, 7, 0, 4], [2, 0, 10, 0, 0, 0, 2, 9, 0, 4]]
      OpenFlowConnection_init = Some (r, c2) \<and> rx c1 = rx c2 \<and> (r = Inr () \<longrightarrow> c1 = c2)"
  by (rule stream_chunking) simp_all

end
