(* ===== verification/LoxiReader.thy ===== *)
theory LoxiReader
  imports OfConnection
begin

text \<open>
  The version independent part of the loxi bindings: \<^verbatim>\<open>src/ofagent/loxi/generic_util.py\<close>
  (the cursor \<^verbatim>\<open>OFReader\<close>, \<^verbatim>\<open>unpack_list\<close>, \<^verbatim>\<open>pad_to\<close>), the formats of
  \<^verbatim>\<open>struct\<close> that the generated classes use, and the helpers of
  \<^verbatim>\<open>src/ofagent/loxi/of13/util.py\<close> for bitmaps and checksums.

  The lemmas describe a reader by the bytes that remain in it: reading, skipping and slicing take
  bytes off their front, and no operation leaves the part of the buffer that the reader was given.
\<close>

section \<open>Big-endian integers\<close>

fun be_bytes :: "nat \<Rightarrow> nat \<Rightarrow> bytes" where
  "be_bytes 0 n = []"
| "be_bytes (Suc w) n = be_bytes w (n div 256) @ [of_nat (n mod 256)]"

lemma length_be_bytes [simp]: "length (be_bytes w n) = w"
  by (induction w n rule: be_bytes.induct) auto

lemma be_nat_append: "be_nat (xs @ [b]) = be_nat xs * 256 + unat b"
  by (simp add: be_nat_def)

lemma be_nat_Nil [simp]: "be_nat [] = 0"
  by (simp add: be_nat_def)

lemma be_nat_foldl: "foldl (\<lambda>a b. a * 256 + unat b) n bs = n * 256 ^ length bs + be_nat bs"
proof (induction bs rule: rev_induct)
  case (snoc b bs)
  then show ?case by (simp add: be_nat_append algebra_simps)
qed simp

lemma be_nat_append2: "be_nat (xs @ ys) = be_nat xs * 256 ^ length ys + be_nat ys"
  using be_nat_foldl [of "be_nat xs" ys] by (simp add: be_nat_def)

lemma unat_byte [simp]: "unat (of_nat (n mod 256) :: 8 word) = n mod 256"
  by (simp add: unat_of_nat)

lemma be_nat_less: "be_nat bs < 256 ^ length bs"
proof (induction bs rule: rev_induct)
  case (snoc b bs)
  have "unat b < 256" using unsigned_less [of b] by simp
  then show ?case using snoc by (simp add: be_nat_append)
qed simp

lemma be_nat_be_bytes: "be_nat (be_bytes w n) = n mod 256 ^ w"
proof (induction w n rule: be_bytes.induct)
  case (2 w n)
  have "n mod (256 * 256 ^ w) = 256 * (n div 256 mod 256 ^ w) + n mod 256"
    by (simp add: mod_mult2_eq)
  then show ?case by (simp add: be_nat_append 2)
qed simp

lemma be_nat_be_bytes_less [simp]: "n < 256 ^ w \<Longrightarrow> be_nat (be_bytes w n) = n"
  by (simp add: be_nat_be_bytes)

lemma be_bytes_be_nat [simp]: "be_bytes (length bs) (be_nat bs) = bs"
proof (induction bs rule: rev_induct)
  case (snoc b bs)
  have "unat b < 256" using unsigned_less [of b] by simp
  then have "(be_nat bs * 256 + unat b) div 256 = be_nat bs" "(be_nat bs * 256 + unat b) mod 256 = unat b"
    by simp_all
  then show ?case by (simp add: be_nat_append snoc)
qed simp

lemma be_bytes_add:
  "be_bytes (v + w) n = be_bytes v (n div 256 ^ w) @ be_bytes w n"
proof (induction w arbitrary: n)
  case (Suc w)
  then show ?case by (simp add: div_mult2_eq)
qed simp

lemma be_bytes_mod [simp]: "be_bytes w (n mod 256 ^ w) = be_bytes w n"
  using be_bytes_be_nat [of "be_bytes w n"] by (simp add: be_nat_be_bytes)


section \<open>OFReader\<close>

record ofreader =
  rd_buf :: bytes
  rd_start :: nat
  rd_length :: nat
  rd_offset :: nat

definition OFReader :: "bytes \<Rightarrow> nat \<Rightarrow> nat option \<Rightarrow> ofreader" where
  "OFReader buf start len =
     \<lparr>rd_buf = buf, rd_start = start,
      rd_length = (case len of None \<Rightarrow> length buf - start | Some n \<Rightarrow> n), rd_offset = 0\<rparr>"

text \<open>
  The bytes that \<^verbatim>\<open>struct.Struct(fmt).unpack_from(self.buf, pos)\<close> decodes; \<open>n\<close> is the
  size of the format.
\<close>

definition unpack_from :: "nat \<Rightarrow> bytes \<Rightarrow> nat \<Rightarrow> bytes res" where
  "unpack_from n buf pos =
     (if pos + n > length buf then Inl StructError else Inr (take n (drop pos buf)))"

definition rd_read :: "nat \<Rightarrow> ofreader \<Rightarrow> (bytes \<times> ofreader) res" where
  "rd_read n r =
     (if rd_offset r + n > rd_length r then Inl ProtocolError
      else rbind (unpack_from n (rd_buf r) (rd_start r + rd_offset r)) (\<lambda>bs.
        Inr (bs, r\<lparr>rd_offset := rd_offset r + n\<rparr>)))"

definition rd_read_all :: "ofreader \<Rightarrow> (bytes \<times> ofreader) res" where
  "rd_read_all r =
     (let s = take (rd_length r - rd_offset r) (drop (rd_start r + rd_offset r) (rd_buf r)) in
      if length s \<noteq> rd_length r - rd_offset r then Inl AssertionError
      else Inr (s, r\<lparr>rd_offset := rd_length r\<rparr>))"

definition rd_peek :: "nat \<Rightarrow> nat \<Rightarrow> ofreader \<Rightarrow> bytes res" where
  "rd_peek n off r =
     (if rd_offset r + off + n > rd_length r then Inl ProtocolError
      else unpack_from n (rd_buf r) (rd_start r + rd_offset r + off))"

definition rd_skip :: "nat \<Rightarrow> ofreader \<Rightarrow> ofreader res" where
  "rd_skip n r =
     (if rd_offset r + n > rd_length r then Inl ProtocolError
      else Inr (r\<lparr>rd_offset := rd_offset r + n\<rparr>))"

definition rd_skip_align :: "ofreader \<Rightarrow> ofreader res" where
  "rd_skip_align r =
     (let new_offset = (rd_offset r + 7) div 8 * 8 in
      if new_offset > rd_length r then Inl ProtocolError
      else Inr (r\<lparr>rd_offset := new_offset\<rparr>))"

definition rd_is_empty :: "ofreader \<Rightarrow> bool" where
  "rd_is_empty r \<longleftrightarrow> rd_offset r = rd_length r"

text \<open>
  \<^verbatim>\<open>slice(length, rewind)\<close>: the new reader, and the old one moved past it.  The number of bytes
  to rewind is that of bytes already read, so the subtraction from the position is one of numbers.
\<close>

definition rd_slice :: "nat \<Rightarrow> nat \<Rightarrow> ofreader \<Rightarrow> (ofreader \<times> ofreader) res" where
  "rd_slice len rewind r =
     (if rd_offset r + len > rd_length r + rewind then Inl ProtocolError
      else rbind (rd_skip rewind (OFReader (rd_buf r) (rd_start r + rd_offset r - rewind) (Some len))) (\<lambda>reader.
        Inr (reader, r\<lparr>rd_offset := rd_offset r + len - rewind\<rparr>)))"

text \<open>
  \<^verbatim>\<open>unpack_list\<close>.  The loop ends when the reader is empty; a deserializer that leaves the
  reader where it was would run for ever, which the bound turns into \<^const>\<open>OutOfFuel\<close>.  The
  bound that \<open>unpack_list\<close> takes is the number of bytes that remain.
\<close>

primrec unpack_list_fuel ::
    "nat \<Rightarrow> (ofreader \<Rightarrow> ('a \<times> ofreader) res) \<Rightarrow> ofreader \<Rightarrow> ('a list \<times> ofreader) res" where
  "unpack_list_fuel 0 f r = (if rd_is_empty r then Inr ([], r) else Inl OutOfFuel)"
| "unpack_list_fuel (Suc n) f r =
     (if rd_is_empty r then Inr ([], r)
      else rbind (f r) (\<lambda>(x, r'). rbind (unpack_list_fuel n f r') (\<lambda>(xs, r''). Inr (x # xs, r''))))"

definition unpack_list ::
    "(ofreader \<Rightarrow> ('a \<times> ofreader) res) \<Rightarrow> ofreader \<Rightarrow> ('a list \<times> ofreader) res" where
  "unpack_list f r = unpack_list_fuel (rd_length r - rd_offset r) f r"

definition pad_to :: "nat \<Rightarrow> nat \<Rightarrow> bytes" where
  "pad_to alignment len = replicate ((len + alignment - 1) div alignment * alignment - len) 0"


section \<open>A reader as the bytes that remain\<close>

definition rd_valid :: "ofreader \<Rightarrow> bool" where
  "rd_valid r \<longleftrightarrow> rd_offset r \<le> rd_length r \<and> rd_start r + rd_length r \<le> length (rd_buf r)"

definition remaining :: "ofreader \<Rightarrow> bytes" where
  "remaining r = take (rd_length r - rd_offset r) (drop (rd_start r + rd_offset r) (rd_buf r))"

definition advance :: "nat \<Rightarrow> ofreader \<Rightarrow> ofreader" where
  "advance n r = r\<lparr>rd_offset := rd_offset r + n\<rparr>"

lemma length_remaining: "rd_valid r \<Longrightarrow> length (remaining r) = rd_length r - rd_offset r"
  by (auto simp: rd_valid_def remaining_def)

lemma advance_simps [simp]:
  "advance 0 r = r"
  "advance m (advance n r) = advance (n + m) r"
  "rd_offset (advance n r) = rd_offset r + n"
  "rd_length (advance n r) = rd_length r"
  "rd_start (advance n r) = rd_start r"
  "rd_buf (advance n r) = rd_buf r"
  by (simp_all add: advance_def)

lemma remaining_advance [simp]: "remaining (advance n r) = drop n (remaining r)"
  by (simp add: remaining_def drop_take add.commute add.left_commute)

lemma rd_valid_advance:
  "rd_valid r \<Longrightarrow> n \<le> length (remaining r) \<Longrightarrow> rd_valid (advance n r)"
  using length_remaining [of r] by (auto simp: rd_valid_def)

lemma remaining_OFReader [simp]: "remaining (OFReader buf 0 None) = buf"
  by (simp add: remaining_def OFReader_def)

lemma rd_valid_OFReader [simp]: "rd_valid (OFReader buf 0 None)"
  by (simp add: rd_valid_def OFReader_def)

lemma rd_is_empty_iff: "rd_valid r \<Longrightarrow> rd_is_empty r \<longleftrightarrow> remaining r = []"
  using length_remaining [of r] by (auto simp: rd_is_empty_def rd_valid_def)

lemma rd_read_eq:
  assumes "rd_valid r"
  shows "rd_read n r =
    (if n \<le> length (remaining r) then Inr (take n (remaining r), advance n r) else Inl ProtocolError)"
proof -
  have "unpack_from n (rd_buf r) (rd_start r + rd_offset r) = Inr (take n (remaining r))"
    if "n \<le> length (remaining r)"
    using assms that length_remaining [OF assms]
    by (auto simp: unpack_from_def rd_valid_def remaining_def min_def)
  moreover have "rd_offset r + n > rd_length r \<longleftrightarrow> \<not> n \<le> length (remaining r)"
    using assms length_remaining [OF assms] by (auto simp: rd_valid_def)
  ultimately show ?thesis by (auto simp: rd_read_def advance_def)
qed

lemma rd_peek_eq:
  assumes "rd_valid r"
  shows "rd_peek n off r =
    (if off + n \<le> length (remaining r) then Inr (take n (drop off (remaining r))) else Inl ProtocolError)"
proof -
  have "unpack_from n (rd_buf r) (rd_start r + rd_offset r + off) = Inr (take n (drop off (remaining r)))"
    if "off + n \<le> length (remaining r)"
    using assms that length_remaining [OF assms]
    by (auto simp: unpack_from_def rd_valid_def remaining_def min_def drop_take add.commute add.left_commute)
  moreover have "rd_offset r + off + n > rd_length r \<longleftrightarrow> \<not> off + n \<le> length (remaining r)"
    using assms length_remaining [OF assms] by (auto simp: rd_valid_def)
  ultimately show ?thesis by (auto simp: rd_peek_def)
qed

lemma rd_skip_eq:
  assumes "rd_valid r"
  shows "rd_skip n r = (if n \<le> length (remaining r) then Inr (advance n r) else Inl ProtocolError)"
  using assms length_remaining [OF assms] by (auto simp: rd_skip_def advance_def rd_valid_def)

lemma rd_read_all_eq:
  assumes "rd_valid r"
  shows "rd_read_all r = Inr (remaining r, advance (length (remaining r)) r)"
  using assms length_remaining [OF assms]
  by (auto simp: rd_read_all_def Let_def rd_valid_def remaining_def advance_def)

lemma rd_skip_align_eq:
  assumes "rd_valid r" and "rd_offset r = a + n" and "8 dvd a"
  shows "rd_skip_align r =
    (if length (pad_to 8 n) \<le> length (remaining r) then Inr (advance (length (pad_to 8 n)) r)
     else Inl ProtocolError)"
proof -
  obtain k where k: "a = 8 * k" using assms(3) by (auto elim: dvdE)
  have "(8 * k + (n + 7)) div 8 = k + (n + 7) div 8" by simp
  moreover have "n \<le> (n + 7) div 8 * 8" by presburger
  ultimately have "(rd_offset r + 7) div 8 * 8 = rd_offset r + length (pad_to 8 n)"
    unfolding assms(2) k pad_to_def length_replicate by (simp add: add.assoc)
  then show ?thesis
    using assms(1) length_remaining [OF assms(1)]
    by (auto simp: rd_skip_align_def Let_def advance_def rd_valid_def)
qed

text \<open>
  What a slice of \<open>len\<close> bytes that starts \<open>rewind\<close> bytes back gives: a reader of the next
  \<open>len - rewind\<close> bytes, and the rest for the caller.
\<close>

definition sub_reader :: "nat \<Rightarrow> nat \<Rightarrow> ofreader \<Rightarrow> ofreader" where
  "sub_reader len rewind r =
     \<lparr>rd_buf = rd_buf r, rd_start = rd_start r + rd_offset r - rewind, rd_length = len, rd_offset = rewind\<rparr>"

lemma rd_slice_eq:
  assumes "rd_valid r" and "rewind \<le> rd_offset r"
  shows "rd_slice len rewind r =
    (if rewind \<le> len \<and> len - rewind \<le> length (remaining r)
     then Inr (sub_reader len rewind r, advance (len - rewind) r) else Inl ProtocolError)"
  using assms length_remaining [OF assms(1)]
  by (auto simp: rd_slice_def rd_skip_def OFReader_def sub_reader_def advance_def rd_valid_def)

lemma sub_reader_simps [simp]:
  "rd_offset (sub_reader len rewind r) = rewind"
  "rd_length (sub_reader len rewind r) = len"
  by (simp_all add: sub_reader_def)

lemma sub_reader_valid:
  assumes "rd_valid r" and "rewind \<le> rd_offset r" "rewind \<le> len" "len - rewind \<le> length (remaining r)"
  shows "rd_valid (sub_reader len rewind r)"
    and "remaining (sub_reader len rewind r) = take (len - rewind) (remaining r)"
  using assms length_remaining [OF assms(1)]
  by (auto simp: rd_valid_def sub_reader_def remaining_def min_def)

end
