(* ===== verification/LoxiCodec.thy ===== *)
theory LoxiCodec
  imports LoxiReader
begin

text \<open>
  The classes that LOXI generates (\<^verbatim>\<open>src/ofagent/loxi/of1*/*.py\<close>).  All of them are made
  from one template: an \<^verbatim>\<open>__init__\<close> that sets attributes to defaults, a \<^verbatim>\<open>pack\<close>
  that appends strings to a list and patches lengths into it, an \<^verbatim>\<open>unpack\<close> that reads the
  same fields from an \<^verbatim>\<open>OFReader\<close>, and for a superclass a dictionary \<^verbatim>\<open>subtypes\<close>
  that \<^verbatim>\<open>unpack\<close> consults first.

  A class is the value of a datatype whose statements are those of the template, one constructor per
  form of line; \<^verbatim>\<open>pack\<close> and \<^verbatim>\<open>unpack\<close> of a class are transcribed independently of
  each other.  This theory gives the statements their meaning.  That the two agree is not built in
  but checked for every class in the theories that define them.
\<close>

section \<open>Formats\<close>

text \<open>
  \<^verbatim>\<open>!B\<close>, \<^verbatim>\<open>!H\<close>, \<^verbatim>\<open>!L\<close>, \<^verbatim>\<open>!Q\<close>, \<^verbatim>\<open>!6B\<close>,
  \<^verbatim>\<open>!<n>s\<close>, the last with \<^verbatim>\<open>.rstrip("\x00")\<close> after reading, and the helpers of
  \<^verbatim>\<open>util.py\<close>.
\<close>

datatype fmt =
    fB | fH | fL | fQ
  | f6B
  | fS nat
  | fS_rstrip nat
  | fBitmap_128
  | fBitmap_512
  | fChecksum_128

fun fmt_size :: "fmt \<Rightarrow> nat" where
  "fmt_size fB = 1"
| "fmt_size fH = 2"
| "fmt_size fL = 4"
| "fmt_size fQ = 8"
| "fmt_size f6B = 6"
| "fmt_size (fS n) = n"
| "fmt_size (fS_rstrip n) = n"
| "fmt_size fBitmap_128 = 16"
| "fmt_size fBitmap_512 = 64"
| "fmt_size fChecksum_128 = 16"

fun is_int_fmt :: "fmt \<Rightarrow> bool" where
  "is_int_fmt f = (f = fB \<or> f = fH \<or> f = fL \<or> f = fQ)"


section \<open>Classes\<close>

text \<open>
  The names of attributes and locals are numbers, one per name, so that names are compared quickly;
  the theory \<open>LoxiNames\<close> has an abbreviation for each.
\<close>

type_synonym pyname = nat

text \<open>The lines of \<^verbatim>\<open>pack\<close>.\<close>

datatype pstmt =
    P_field pyname fmt     \<comment> \<open>\<^verbatim>\<open>packed.append(struct.pack(fmt, self.a))\<close>\<close>
  | P_pad nat              \<comment> \<open>\<^verbatim>\<open>packed.append('\x00' * n)\<close>\<close>
  | P_placeholder          \<comment> \<open>\<^verbatim>\<open>packed.append(struct.pack("!H", 0))\<close>\<close>
  | P_list pyname          \<comment> \<open>\<^verbatim>\<open>packed.append(loxi.generic_util.pack_list(self.a))\<close>\<close>
  | P_obj pyname           \<comment> \<open>\<^verbatim>\<open>packed.append(self.a.pack())\<close>\<close>
  | P_raw pyname           \<comment> \<open>\<^verbatim>\<open>packed.append(self.a)\<close>\<close>
  | P_len_last nat         \<comment> \<open>\<^verbatim>\<open>packed[i] = struct.pack("!H", len(packed[-1]))\<close>\<close>
  | P_length               \<comment> \<open>\<^verbatim>\<open>length = sum([len(x) for x in packed])\<close>\<close>
  | P_pad_to nat           \<comment> \<open>\<^verbatim>\<open>packed.append(loxi.generic_util.pad_to(n, length))\<close>\<close>
  | P_length_add           \<comment> \<open>\<^verbatim>\<open>length += len(packed[-1])\<close>\<close>
  | P_set_len nat          \<comment> \<open>\<^verbatim>\<open>packed[i] = struct.pack("!H", length)\<close>\<close>

text \<open>
  A class: its name, class attributes, the attributes of an instance with the defaults of
  \<^verbatim>\<open>__init__\<close>, \<^verbatim>\<open>pack\<close>, the format and offset that \<^verbatim>\<open>unpack\<close> peeks at with
  the dictionary \<^verbatim>\<open>subtypes\<close>, the rest of \<^verbatim>\<open>unpack\<close>, and the attributes that
  \<^verbatim>\<open>__eq__\<close> compares.
\<close>

datatype cls =
    Cls (cls_name: string) (cls_consts: "(pyname \<times> nat) list") (cls_init: "(pyname \<times> dflt) list")
        (cls_pack: "pstmt list") (cls_dispatch: "(fmt \<times> nat \<times> (nat \<times> cls) list) option")
        (cls_unpack: "ustmt list") (cls_eq: "pyname list")
and dflt =
    D_None
  | D_num nat
  | D_str bytes
  | D_nums "nat list"
  | D_list
  | D_set
  | D_new cls
and ustmt =
    U_local pyname fmt         \<comment> \<open>\<^verbatim>\<open>_v = reader.read(fmt)[0]\<close>\<close>
  | U_assert pyname nat        \<comment> \<open>\<^verbatim>\<open>assert(_v == n)\<close>\<close>
  | U_field pyname fmt         \<comment> \<open>\<^verbatim>\<open>obj.a = reader.read(fmt)[0]\<close>\<close>
  | U_slice pyname nat         \<comment> \<open>\<^verbatim>\<open>orig_reader = reader; reader = orig_reader.slice(_v, n)\<close>\<close>
  | U_skip nat                 \<comment> \<open>\<^verbatim>\<open>reader.skip(n)\<close>\<close>
  | U_orig_skip_align          \<comment> \<open>\<^verbatim>\<open>orig_reader.skip_align()\<close>\<close>
  | U_list pyname cls          \<comment> \<open>\<^verbatim>\<open>obj.a = unpack_list(reader, c.unpack)\<close>\<close>
  | U_list_tlv pyname          \<comment> \<open>the same with \<^verbatim>\<open>ofp.bsn_tlv.bsn_tlv.unpack\<close>, in the module \<^verbatim>\<open>bsn_tlv\<close>\<close>
  | U_list_of pyname pyname cls \<comment> \<open>\<^verbatim>\<open>obj.a = unpack_list(reader.slice(_v), c.unpack)\<close>\<close>
  | U_obj pyname cls           \<comment> \<open>\<^verbatim>\<open>obj.a = c.unpack(reader)\<close>\<close>
  | U_read_all pyname          \<comment> \<open>\<^verbatim>\<open>obj.a = str(reader.read_all())\<close>\<close>

text \<open>
  Python values.  An object is its class and its attributes, a string a list of bytes, a set of
  integers the list of its members.
\<close>

datatype lval =
    PyNone
  | Num int
  | Str bytes
  | PyList "lval list"
  | PySet "int list"
  | Obj cls "(pyname \<times> lval) list"

fun new_obj :: "cls \<Rightarrow> lval" and default_val :: "dflt \<Rightarrow> lval" where
  "new_obj (Cls nm ks ini ps disp us eqs) =
     Obj (Cls nm ks ini ps disp us eqs) (map (\<lambda>(a, d). (a, default_val d)) ini)"
| "default_val D_None = PyNone"
| "default_val (D_num n) = Num (int n)"
| "default_val (D_str bs) = Str bs"
| "default_val (D_nums ns) = PyList (map (\<lambda>n. Num (int n)) ns)"
| "default_val D_list = PyList []"
| "default_val D_set = PySet []"
| "default_val (D_new c) = new_obj c"

text \<open>The constructor with keyword arguments: \<^verbatim>\<open>None\<close> stands for an argument not given.\<close>

fun init_obj :: "cls \<Rightarrow> (pyname \<times> lval) list \<Rightarrow> lval" where
  "init_obj c args =
     (case new_obj c of
        Obj c as \<Rightarrow>
          Obj c (map (\<lambda>(a, d). (a, case map_of args a of
              None \<Rightarrow> d
            | Some v \<Rightarrow> if v = PyNone then d else v)) as)
      | v \<Rightarrow> v)"


section \<open>Formats: struct.pack and util.py\<close>

definition pack_uint :: "nat \<Rightarrow> lval \<Rightarrow> bytes res" where
  "pack_uint w v =
     (case v of
        Num i \<Rightarrow> if 0 \<le> i \<and> i < 256 ^ w then Inr (be_bytes w (nat i)) else Inl StructError
      | _ \<Rightarrow> Inl StructError)"

definition pack_6B :: "lval \<Rightarrow> bytes res" where
  "pack_6B v =
     (case v of
        PyList vs \<Rightarrow> if length vs \<noteq> 6 then Inl StructError else rbind (py_map (pack_uint 1) vs) (\<lambda>bss. Inr (concat bss))
      | _ \<Rightarrow> Inl TypeError)"

definition pack_str :: "nat \<Rightarrow> lval \<Rightarrow> bytes res" where
  "pack_str n v =
     (case v of
        Str bs \<Rightarrow> Inr (take n (bs @ replicate n 0))
      | _ \<Rightarrow> Inl StructError)"

definition rstrip :: "bytes \<Rightarrow> bytes" where
  "rstrip bs = List.rev (dropWhile (\<lambda>b. b = 0) (List.rev bs))"

text \<open>The shift \<^verbatim>\<open>1 << y\<close> raises for a negative \<open>y\<close>.\<close>

definition shift_one :: "int \<Rightarrow> nat res" where
  "shift_one y = (if y < 0 then Inl ValueError else Inr (2 ^ nat y))"

definition pack_bitmap_128 :: "lval \<Rightarrow> bytes res" where
  "pack_bitmap_128 v =
     (case v of
        PySet ys \<Rightarrow>
          rbind (py_for (\<lambda>y x. rbind (shift_one y) (\<lambda>b. Inr (or x b))) ys (0 :: nat)) (\<lambda>x.
            Inr (be_bytes 8 (x div 2 ^ 64 mod 2 ^ 64) @ be_bytes 8 (x mod 2 ^ 64)))
      | _ \<Rightarrow> Inl TypeError)"

fun set_bits_from :: "nat \<Rightarrow> nat \<Rightarrow> int list" where
  "set_bits_from i x =
     (if x = 0 then []
      else (if odd x then int i # set_bits_from (i + 1) (x div 2) else set_bits_from (i + 1) (x div 2)))"

definition unpack_bitmap_128 :: "bytes \<Rightarrow> lval" where
  "unpack_bitmap_128 bs = PySet (set_bits_from 0 (be_nat (take 8 bs) * 2 ^ 64 + be_nat (drop 8 bs)))"

text \<open>\<^verbatim>\<open>words[7-v/64]\<close> is out of range for a negative \<open>v\<close>.\<close>

definition bitmap_512_step :: "int \<Rightarrow> nat list \<Rightarrow> nat list res" where
  "bitmap_512_step v words =
     (if \<not> v < 512 then Inl AssertionError
      else if v < 0 then Inl IndexError
      else let i = 7 - nat v div 64 in Inr (words [i := or (words ! i) (2 ^ (nat v mod 64))]))"

definition pack_bitmap_512 :: "lval \<Rightarrow> bytes res" where
  "pack_bitmap_512 value =
     (case value of
        PySet vs \<Rightarrow>
          rbind (py_for bitmap_512_step vs (replicate 8 0)) (\<lambda>words. Inr (concat (map (be_bytes 8) words)))
      | _ \<Rightarrow> Inl TypeError)"

fun words_of :: "nat \<Rightarrow> bytes \<Rightarrow> nat list" where
  "words_of 0 bs = []"
| "words_of (Suc n) bs = be_nat (take 8 bs) # words_of n (drop 8 bs)"

definition words_value :: "nat list \<Rightarrow> nat" where
  "words_value ws = foldl (\<lambda>x word. x * 2 ^ 64 + word) 0 ws"

definition unpack_bitmap_512 :: "bytes \<Rightarrow> lval" where
  "unpack_bitmap_512 bs =
     PySet (set_bits_from 0 (words_value (words_of 8 bs)))"

definition pack_checksum_128 :: "lval \<Rightarrow> bytes res" where
  "pack_checksum_128 v =
     (case v of
        Num i \<Rightarrow> Inr (be_bytes 8 (nat (i div 2 ^ 64 mod 2 ^ 64)) @ be_bytes 8 (nat (i mod 2 ^ 64)))
      | _ \<Rightarrow> Inl TypeError)"

definition unpack_checksum_128 :: "bytes \<Rightarrow> lval" where
  "unpack_checksum_128 bs = Num (int (be_nat (take 8 bs) * 2 ^ 64 + be_nat (drop 8 bs)))"

fun pack_fmt :: "fmt \<Rightarrow> lval \<Rightarrow> bytes res" where
  "pack_fmt f6B v = pack_6B v"
| "pack_fmt (fS n) v = pack_str n v"
| "pack_fmt (fS_rstrip n) v = pack_str n v"
| "pack_fmt fBitmap_128 v = pack_bitmap_128 v"
| "pack_fmt fBitmap_512 v = pack_bitmap_512 v"
| "pack_fmt fChecksum_128 v = pack_checksum_128 v"
| "pack_fmt f v = pack_uint (fmt_size f) v"

fun decode_fmt :: "fmt \<Rightarrow> bytes \<Rightarrow> lval" where
  "decode_fmt f6B bs = PyList (map (\<lambda>b. Num (uint b)) bs)"
| "decode_fmt (fS n) bs = Str bs"
| "decode_fmt (fS_rstrip n) bs = Str (rstrip bs)"
| "decode_fmt fBitmap_128 bs = unpack_bitmap_128 bs"
| "decode_fmt fBitmap_512 bs = unpack_bitmap_512 bs"
| "decode_fmt fChecksum_128 bs = unpack_checksum_128 bs"
| "decode_fmt f bs = Num (int (be_nat bs))"


section \<open>pack\<close>

text \<open>
  An attribute is looked up in the instance and then in the class.  The interpreter is given, beside
  each attribute of the instance, the result that \<^verbatim>\<open>.pack()\<close> of its value, or of the members
  of its value, has.
\<close>

definition attr_of :: "cls \<Rightarrow> (pyname \<times> lval \<times> bytes res) list \<Rightarrow> pyname \<Rightarrow> (lval \<times> bytes res) res" where
  "attr_of c env a =
     (case map_of env a of
        Some x \<Rightarrow> Inr x
      | None \<Rightarrow> (case map_of (cls_consts c) a of
                   Some n \<Rightarrow> Inr (Num (int n), Inl AttributeError)
                 | None \<Rightarrow> Inl AttributeError))"

text \<open>The string that a line appends.\<close>

fun emitted :: "cls \<Rightarrow> (pyname \<times> lval \<times> bytes res) list \<Rightarrow> nat \<Rightarrow> pstmt \<Rightarrow> bytes res option" where
  "emitted c env len (P_field a f) = Some (rbind (attr_of c env a) (\<lambda>(v, _). pack_fmt f v))"
| "emitted c env len (P_pad n) = Some (Inr (replicate n 0))"
| "emitted c env len P_placeholder = Some (Inr (be_bytes 2 0))"
| "emitted c env len (P_list a) = Some (rbind (attr_of c env a) (\<lambda>(v, packed).
     case v of PyList _ \<Rightarrow> packed | _ \<Rightarrow> Inl TypeError))"
| "emitted c env len (P_obj a) = Some (rbind (attr_of c env a) (\<lambda>(v, packed).
     case v of Obj _ _ \<Rightarrow> packed | _ \<Rightarrow> Inl AttributeError))"
| "emitted c env len (P_raw a) = Some (rbind (attr_of c env a) (\<lambda>(v, _).
     case v of Str bs \<Rightarrow> Inr bs | _ \<Rightarrow> Inl TypeError))"
| "emitted c env len (P_pad_to n) = Some (Inr (pad_to n len))"
| "emitted c env len s = None"

text \<open>The list \<^verbatim>\<open>packed\<close> and the variable \<^verbatim>\<open>length\<close> after each line.\<close>

definition set_packed :: "nat \<Rightarrow> nat \<Rightarrow> bytes list \<Rightarrow> bytes list res" where
  "set_packed i n packed =
     (if n \<ge> 65536 then Inl StructError
      else if i \<ge> length packed then Inl IndexError
      else Inr (packed [i := be_bytes 2 n]))"

fun pack_stmt ::
    "cls \<Rightarrow> (pyname \<times> lval \<times> bytes res) list \<Rightarrow> pstmt \<Rightarrow> bytes list \<times> nat \<Rightarrow> (bytes list \<times> nat) res" where
  "pack_stmt c env (P_len_last i) (packed, len) =
     (if packed = [] then Inl IndexError
      else rbind (set_packed i (length (List.last packed)) packed) (\<lambda>p. Inr (p, len)))"
| "pack_stmt c env P_length (packed, len) = Inr (packed, sum_list (map length packed))"
| "pack_stmt c env P_length_add (packed, len) =
     (if packed = [] then Inl IndexError else Inr (packed, len + length (List.last packed)))"
| "pack_stmt c env (P_set_len i) (packed, len) = rbind (set_packed i len packed) (\<lambda>p. Inr (p, len))"
| "pack_stmt c env s (packed, len) =
     (case emitted c env len s of
        Some r \<Rightarrow> rbind r (\<lambda>bs. Inr (packed @ [bs], len))
      | None \<Rightarrow> Inr (packed, len))"

definition pack_body :: "cls \<Rightarrow> (pyname \<times> lval \<times> bytes res) list \<Rightarrow> bytes res" where
  "pack_body c env =
     rbind (py_for (pack_stmt c env) (cls_pack c) ([], 0)) (\<lambda>(packed, len). Inr (concat packed))"

fun pack :: "lval \<Rightarrow> bytes res" where
  "pack (Obj c as) = pack_body c (map (\<lambda>(a, v). (a, v, pack v)) as)"
| "pack (PyList vs) =
     rbind (py_map (\<lambda>(v, packed). case v of Obj _ _ \<Rightarrow> packed | _ \<Rightarrow> Inl AttributeError)
       (map (\<lambda>v. (v, pack v)) vs)) (\<lambda>bss. Inr (concat bss))"
| "pack v = Inl AttributeError"


text \<open>For a list, \<^const>\<open>pack\<close> is \<^verbatim>\<open>pack_list\<close>.\<close>


section \<open>unpack\<close>

text \<open>
  The variables of \<^verbatim>\<open>unpack\<close>: \<^verbatim>\<open>reader\<close>, \<^verbatim>\<open>orig_reader\<close> once it is set,
  the locals, and the attributes of \<^verbatim>\<open>obj\<close>.
\<close>

record uvars =
  uv_reader :: ofreader
  uv_orig :: "ofreader option"
  uv_locals :: "(pyname \<times> nat) list"
  uv_attrs :: "(pyname \<times> lval) list"

fun attrs_of :: "lval \<Rightarrow> (pyname \<times> lval) list" where
  "attrs_of (Obj c as) = as"
| "attrs_of _ = []"

text \<open>The reader that the caller passed, after \<^verbatim>\<open>unpack\<close>.\<close>

definition uv_caller :: "uvars \<Rightarrow> ofreader" where
  "uv_caller s = (case uv_orig s of None \<Rightarrow> uv_reader s | Some r \<Rightarrow> r)"

definition uv_local :: "uvars \<Rightarrow> pyname \<Rightarrow> nat res" where
  "uv_local s v = (case map_of (uv_locals s) v of None \<Rightarrow> Inl OtherException | Some n \<Rightarrow> Inr n)"

definition uv_set :: "pyname \<Rightarrow> lval \<times> ofreader \<Rightarrow> uvars \<Rightarrow> uvars" where
  "uv_set a = (\<lambda>(v, r) s. s\<lparr>uv_reader := r, uv_attrs := od_set a v (uv_attrs s)\<rparr>)"

text \<open>
  A TLV may contain TLVs: \<^verbatim>\<open>unpack\<close> of \<^verbatim>\<open>bsn_tlv\<close> calls itself.  The argument
  \<open>rec\<close> is the function that a nested call runs.
\<close>

type_synonym deserializer = "ofreader \<Rightarrow> (lval \<times> ofreader) res"

fun unpack :: "deserializer \<Rightarrow> cls \<Rightarrow> ofreader \<Rightarrow> (lval \<times> ofreader) res"
  and unpack_subtype :: "deserializer \<Rightarrow> (nat \<times> cls) list \<Rightarrow> nat \<Rightarrow> ofreader \<Rightarrow> (lval \<times> ofreader) res option"
  and unpack_stmts :: "deserializer \<Rightarrow> ustmt list \<Rightarrow> uvars \<Rightarrow> uvars res"
  and unpack_stmt :: "deserializer \<Rightarrow> ustmt \<Rightarrow> uvars \<Rightarrow> uvars res" where
  "unpack rec (Cls nm ks ini ps disp us eqs) reader =
     (let c = Cls nm ks ini ps disp us eqs;
          body = rbind (unpack_stmts rec us \<lparr>uv_reader = reader, uv_orig = None, uv_locals = [],
                                          uv_attrs = attrs_of (new_obj c)\<rparr>) (\<lambda>s.
                   Inr (Obj c (uv_attrs s), uv_caller s)) in
      case disp of
        None \<Rightarrow> body
      | Some (f, off, subtypes) \<Rightarrow>
          rbind (rd_peek (fmt_size f) off reader) (\<lambda>bs.
            case unpack_subtype rec subtypes (be_nat bs) reader of
              Some r \<Rightarrow> r
            | None \<Rightarrow> body))"
| "unpack_subtype rec [] k reader = None"
| "unpack_subtype rec ((k', c) # cs) k reader =
     (if k = k' then Some (unpack rec c reader) else unpack_subtype rec cs k reader)"
| "unpack_stmts rec [] s = Inr s"
| "unpack_stmts rec (u # us) s = rbind (unpack_stmt rec u s) (unpack_stmts rec us)"
| "unpack_stmt rec (U_local v f) s =
     rbind (rd_read (fmt_size f) (uv_reader s)) (\<lambda>(bs, r).
       Inr (s\<lparr>uv_reader := r, uv_locals := (v, be_nat bs) # uv_locals s\<rparr>))"
| "unpack_stmt rec (U_assert v n) s =
     rbind (uv_local s v) (\<lambda>m. if m = n then Inr s else Inl AssertionError)"
| "unpack_stmt rec (U_field a f) s =
     rbind (rd_read (fmt_size f) (uv_reader s)) (\<lambda>(bs, r). Inr (uv_set a (decode_fmt f bs, r) s))"
| "unpack_stmt rec (U_slice v rewind) s =
     rbind (uv_local s v) (\<lambda>n.
     rbind (rd_slice n rewind (uv_reader s)) (\<lambda>(r, orig).
       Inr (s\<lparr>uv_reader := r, uv_orig := Some orig\<rparr>)))"
| "unpack_stmt rec (U_skip n) s =
     rbind (rd_skip n (uv_reader s)) (\<lambda>r. Inr (s\<lparr>uv_reader := r\<rparr>))"
| "unpack_stmt rec U_orig_skip_align s =
     (case uv_orig s of
        None \<Rightarrow> Inl OtherException
      | Some orig \<Rightarrow> rbind (rd_skip_align orig) (\<lambda>r. Inr (s\<lparr>uv_orig := Some r\<rparr>)))"
| "unpack_stmt rec (U_list a c) s =
     rbind (unpack_list (\<lambda>r. unpack rec c r) (uv_reader s)) (\<lambda>(vs, r).
       Inr (uv_set a (PyList vs, r) s))"
| "unpack_stmt rec (U_list_tlv a) s =
     rbind (unpack_list rec (uv_reader s)) (\<lambda>(vs, r).
       Inr (uv_set a (PyList vs, r) s))"
| "unpack_stmt rec (U_list_of a v c) s =
     rbind (uv_local s v) (\<lambda>n.
     rbind (rd_slice n 0 (uv_reader s)) (\<lambda>(sub, r).
     rbind (unpack_list (\<lambda>r. unpack rec c r) sub) (\<lambda>(vs, _).
       Inr (uv_set a (PyList vs, r) s))))"
| "unpack_stmt rec (U_obj a c) s =
     rbind (unpack rec c (uv_reader s)) (\<lambda>vr. Inr (uv_set a vr s))"
| "unpack_stmt rec (U_read_all a) s =
     rbind (rd_read_all (uv_reader s)) (\<lambda>(bs, r). Inr (uv_set a (Str bs, r) s))"

text \<open>
  The recursion tied: \<open>d\<close> is the number of nested TLVs that the stack of the interpreter has room
  for, beyond which Python raises a \<^verbatim>\<open>RuntimeError\<close>.
\<close>

fun unpack_tlv :: "cls \<Rightarrow> nat \<Rightarrow> deserializer" where
  "unpack_tlv e 0 reader = Inl RecursionError"
| "unpack_tlv e (Suc d) reader = unpack (unpack_tlv e d) e reader"


section \<open>Equality of objects\<close>

text \<open>
  \<^verbatim>\<open>__eq__\<close>: the same class and equal values of the attributes it names.  Values that are
  lists are compared member by member.
\<close>

fun obj_eq :: "lval \<Rightarrow> lval \<Rightarrow> bool" where
  "obj_eq (Obj c as) w =
     (case w of
        Obj c' bs \<Rightarrow>
          c = c' \<and>
          list_all (\<lambda>a. case (map_of (map (\<lambda>(a, v). (a, obj_eq v)) as) a, map_of bs a) of
              (Some eq, Some v) \<Rightarrow> eq v
            | _ \<Rightarrow> False) (cls_eq c)
      | _ \<Rightarrow> False)"
| "obj_eq (PyList vs) w =
     (case w of PyList ws \<Rightarrow> list_all2 (\<lambda>eq w. eq w) (map (\<lambda>v. obj_eq v) vs) ws | _ \<Rightarrow> False)"
| "obj_eq (PySet xs) w = (case w of PySet ys \<Rightarrow> set xs = set ys | _ \<Rightarrow> False)"
| "obj_eq v w = (v = w)"

end
