(* ===== verification/LoxiFormats.thy ===== *)
theory LoxiFormats
  imports LoxiCodec
begin

text \<open>
  Every format of the generated classes reads back what it has written: integers of one to eight
  bytes, hardware addresses, strings with and without their padding, bitmaps and checksums.
\<close>

section \<open>Bitmaps\<close>

declare set_bits_from.simps [simp del]

lemma or_less_exp: "x < 2 ^ n \<Longrightarrow> y < 2 ^ n \<Longrightarrow> or x y < (2 :: nat) ^ n"
  by (metis take_bit_nat_eq_self_iff take_bit_or)

lemma set_bits_from_eq:
  "x < 2 ^ n \<Longrightarrow> set_bits_from i x = map (\<lambda>k. int (i + k)) (filter (bit x) [0..<n])"
proof (induction n arbitrary: i x)
  case 0
  then show ?case by (simp add: set_bits_from.simps)
next
  case (Suc n)
  have less: "x div 2 < 2 ^ n" using Suc.prems by simp
  have shift: "filter (bit x) (map Suc [0..<n]) = map Suc (filter (bit (x div 2)) [0..<n])"
    by (simp add: filter_map bit_Suc o_def)
  have "filter (bit x) [0..<Suc n] = (if odd x then [0] else []) @ map Suc (filter (bit (x div 2)) [0..<n])"
    by (subst upt_conv_Cons, simp)
       (simp add: map_Suc_upt [symmetric] shift bit_0 del: map_Suc_upt upt_Suc)
  then show ?case
    using Suc.IH [OF less, of "i + 1"]
    by (cases "x = 0") (simp_all add: set_bits_from.simps [of i x] set_bits_from.simps [of i 0])
qed

lemma set_bits_from_set:
  assumes "x < 2 ^ n" and "sorted_wrt (<) ys" and "\<forall>y\<in>set ys. 0 \<le> y \<and> y < int n"
    and "\<And>k. k < n \<Longrightarrow> bit x k \<longleftrightarrow> int k \<in> set ys"
  shows "set_bits_from 0 x = ys"
proof -
  let ?zs = "map int (filter (bit x) [0..<n])"
  have "sorted ?zs" "distinct ?zs"
    by (simp_all add: sorted_map sorted_wrt_filter distinct_map strict_sorted_iff inj_on_def)
  moreover have "sorted ys" "distinct ys" using assms(2) by (simp_all add: strict_sorted_iff)
  moreover have "set ?zs = set ys"
  proof (rule set_eqI)
    fix y
    show "y \<in> set ?zs \<longleftrightarrow> y \<in> set ys"
      using assms(3,4) by (cases y rule: int_cases2) (auto simp: image_iff)
  qed
  ultimately have "?zs = ys" using sorted_distinct_set_unique by blast
  then show ?thesis using set_bits_from_eq [OF assms(1), of 0] by simp
qed

text \<open>The loop of \<^verbatim>\<open>pack_bitmap_128\<close>.\<close>

lemma bitmap_128_loop:
  assumes "py_for (\<lambda>y x. rbind (shift_one y) (\<lambda>b. Inr (or x b))) ys (x :: nat) = Inr z"
  shows "bit z k \<longleftrightarrow> bit x k \<or> int k \<in> set ys"
    and "x < 2 ^ n \<Longrightarrow> \<forall>y\<in>set ys. y < int n \<Longrightarrow> z < 2 ^ n"
    and "\<forall>y\<in>set ys. 0 \<le> y"
  using assms
proof (induction ys arbitrary: x)
  case (Cons y ys)
  { case 1
    then show ?case using Cons.IH(1) [of "or x (2 ^ nat y)"]
      by (auto simp: shift_one_def bit_simps split: if_splits sum.splits)
  next
    case 2
    then have y: "0 \<le> y" and z: "py_for (\<lambda>y x. rbind (shift_one y) (\<lambda>b. Inr (or x b))) ys (or x (2 ^ nat y)) = Inr z"
      by (auto simp: shift_one_def split: if_splits sum.splits)
    have "(2 :: nat) ^ nat y < 2 ^ n" using 2 y by (simp add: nat_less_iff)
    then have "or x (2 ^ nat y) < 2 ^ n" using 2 by (intro or_less_exp) simp_all
    then show ?case using Cons.IH(2) [OF _ _ z] 2 by simp
  next
    case 3
    then show ?case using Cons.IH(3) [of "or x (2 ^ nat y)"]
      by (auto simp: shift_one_def split: if_splits sum.splits) }
qed simp_all

lemma two_words:
  "be_bytes 8 (x div 2 ^ 64 mod 2 ^ 64) @ be_bytes 8 (x mod 2 ^ 64) = be_bytes 16 (x :: nat)"
proof -
  have "be_bytes 8 (x div 256 ^ 8 mod 256 ^ 8) @ be_bytes 8 (x mod 256 ^ 8) = be_bytes (8 + 8) x"
    by (simp only: be_bytes_mod be_bytes_add)
  then show ?thesis by simp
qed

lemma be_nat_two_words: "length bs = 16 \<Longrightarrow> be_nat (take 8 bs) * 2 ^ 64 + be_nat (drop 8 bs) = be_nat bs"
  using be_nat_append2 [of "take 8 bs" "drop 8 bs"] by simp

lemma bitmap_128_roundtrip:
  assumes "pack_bitmap_128 v = Inr bs" and "v = PySet ys" "sorted_wrt (<) ys" "\<forall>y\<in>set ys. y < 128"
  shows "length bs = 16" and "unpack_bitmap_128 bs = v"
proof -
  obtain x where x: "py_for (\<lambda>y x. rbind (shift_one y) (\<lambda>b. Inr (or x b))) ys (0 :: nat) = Inr x"
    and bs: "bs = be_bytes 16 x"
    using assms(1,2) by (auto simp: pack_bitmap_128_def rbind_eq_Inr two_words [simplified])
  show "length bs = 16" by (simp add: bs)
  have small: "x < 2 ^ 128" using bitmap_128_loop(2) [OF x, of 128] assms(4) by simp
  then have "be_nat bs = x" by (simp add: bs)
  moreover have "set_bits_from 0 x = ys"
    using bitmap_128_loop(1,3) [OF x] assms(3,4) by (intro set_bits_from_set [OF small]) auto
  ultimately show "unpack_bitmap_128 bs = v"
    using be_nat_two_words [of bs] by (simp add: unpack_bitmap_128_def assms(2) bs)
qed

text \<open>Eight words of 64 bits as one number.\<close>

lemma bit_add_word:
  assumes "w < 2 ^ m"
  shows "bit (x * 2 ^ m + w) k \<longleftrightarrow> (if k < m then bit w k else bit (x :: nat) (k - m))"
proof (cases "k < m")
  case True
  have "bit (x * 2 ^ m + w) k \<longleftrightarrow> bit (take_bit m (x * 2 ^ m + w)) k"
    using True by (simp add: bit_take_bit_iff)
  also have "take_bit m (x * 2 ^ m + w) = w" using assms by (simp add: take_bit_eq_mod)
  finally show ?thesis using True by simp
next
  case False
  have "bit (x * 2 ^ m + w) k \<longleftrightarrow> bit (drop_bit m (x * 2 ^ m + w)) (k - m)"
    using False by (simp add: bit_drop_bit_eq)
  also have "drop_bit m (x * 2 ^ m + w) = x" using assms by (simp add: drop_bit_eq_div)
  finally show ?thesis using False by simp
qed

lemma words_value_snoc: "words_value (ws @ [w]) = words_value ws * 2 ^ 64 + w"
  by (simp add: words_value_def)

lemma bit_words_value:
  assumes "\<forall>w\<in>set ws. w < 2 ^ 64"
  shows "bit (words_value ws) k \<longleftrightarrow>
    k div 64 < length ws \<and> bit (ws ! (length ws - 1 - k div 64)) (k mod 64)"
  using assms
proof (induction ws arbitrary: k rule: rev_induct)
  case (snoc w ws)
  have w: "w < 2 ^ 64" and ws: "\<forall>w\<in>set ws. w < 2 ^ 64" using snoc.prems by auto
  show ?case
  proof (cases "k < 64")
    case True
    then show ?thesis using w by (simp add: words_value_snoc bit_add_word [of w 64, simplified] )
  next
    case False
    then have k: "k div 64 = Suc ((k - 64) div 64)" "k mod 64 = (k - 64) mod 64"
      by (simp_all add: le_div_geq le_mod_geq)
    have "bit (words_value (ws @ [w])) k \<longleftrightarrow> bit (words_value ws) (k - 64)"
      using False bit_add_word [OF w, of "words_value ws" k] by (simp only: words_value_snoc if_False)
    also have "\<dots> \<longleftrightarrow> (k - 64) div 64 < length ws \<and> bit (ws ! (length ws - 1 - (k - 64) div 64)) ((k - 64) mod 64)"
      by (rule snoc.IH [OF ws])
    finally show ?thesis by (auto simp: k nth_append)
  qed
qed (simp add: words_value_def)

lemma words_value_less:
  "\<forall>w\<in>set ws. w < 2 ^ 64 \<Longrightarrow> words_value ws < 2 ^ (64 * length ws)"
proof (induction ws rule: rev_induct)
  case (snoc w ws)
  then have "words_value ws + 1 \<le> 2 ^ (64 * length ws)" "w < 2 ^ 64" by auto
  then have "(words_value ws + 1) * 2 ^ 64 \<le> 2 ^ (64 * length ws) * 2 ^ 64"
    by (intro mult_right_mono) simp_all
  also have "\<dots> = 2 ^ (64 * length (ws @ [w]))" by (simp add: power_add)
  finally show ?case using \<open>w < 2 ^ 64\<close> by (simp add: words_value_snoc algebra_simps)
qed (simp add: words_value_def)

lemma words_of_concat:
  "\<forall>w\<in>set ws. w < 2 ^ 64 \<Longrightarrow> words_of (length ws) (concat (map (be_bytes 8) ws)) = ws"
  by (induction ws) simp_all

text \<open>The loop of \<^verbatim>\<open>pack_bitmap_512\<close>.\<close>

lemma bitmap_512_step_ok:
  assumes "bitmap_512_step v ws = Inr ws'" and "length ws = 8" and "\<forall>w\<in>set ws. w < 2 ^ 64"
  shows "0 \<le> v" "v < 512" "length ws' = 8" "\<forall>w\<in>set ws'. w < 2 ^ 64"
    and "k < 512 \<Longrightarrow> bit (ws' ! (7 - k div 64)) (k mod 64) \<longleftrightarrow>
      bit (ws ! (7 - k div 64)) (k mod 64) \<or> int k = v"
proof -
  let ?i = "7 - nat v div 64"
  show v: "0 \<le> v" "v < 512" using assms(1) by (auto simp: bitmap_512_step_def split: if_splits)
  have ws': "ws' = ws [?i := or (ws ! ?i) (2 ^ (nat v mod 64))]"
    using assms(1) v by (simp add: bitmap_512_step_def Let_def)
  show "length ws' = 8" using assms(2) by (simp add: ws')
  have "(2 :: nat) ^ (nat v mod 64) < 2 ^ 64" by (rule power_strict_increasing) simp_all
  then have "or (ws ! ?i) (2 ^ (nat v mod 64)) < 2 ^ 64" using assms by (intro or_less_exp) auto
  then show "\<forall>w\<in>set ws'. w < 2 ^ 64"
    using assms(3) by (auto simp: ws' dest: set_update_subset_insert [THEN subsetD])
  assume k: "k < 512"
  have "int k = v \<longleftrightarrow> k = nat v" using v by auto
  also have "\<dots> \<longleftrightarrow> k div 64 = nat v div 64 \<and> k mod 64 = nat v mod 64"
    using div_mult_mod_eq [of k 64] div_mult_mod_eq [of "nat v" 64] by metis
  also have "\<dots> \<longleftrightarrow> 7 - k div 64 = ?i \<and> k mod 64 = nat v mod 64"
  proof -
    have "nat v < 512" using v by simp
    moreover have "7 - a = 7 - b \<longleftrightarrow> a = b" if "a < 8" "b < 8" for a b :: nat using that by auto
    ultimately show ?thesis
      using k less_mult_imp_div_less [of k 8 64] less_mult_imp_div_less [of "nat v" 8 64] by simp
  qed
  finally show "bit (ws' ! (7 - k div 64)) (k mod 64) \<longleftrightarrow>
      bit (ws ! (7 - k div 64)) (k mod 64) \<or> int k = v"
    using assms(2) by (auto simp: ws' nth_list_update bit_or_iff bit_exp_iff)
qed

lemma bitmap_512_loop:
  assumes "py_for bitmap_512_step vs ws = Inr zs" and "length ws = 8" and "\<forall>w\<in>set ws. w < 2 ^ 64"
  shows "length zs = 8 \<and> (\<forall>w\<in>set zs. w < 2 ^ 64) \<and> (\<forall>v\<in>set vs. 0 \<le> v \<and> v < 512) \<and>
    (\<forall>k < 512. bit (zs ! (7 - k div 64)) (k mod 64) \<longleftrightarrow>
      bit (ws ! (7 - k div 64)) (k mod 64) \<or> int k \<in> set vs)"
  using assms
proof (induction vs arbitrary: ws)
  case (Cons v vs)
  then obtain ws' where ws': "bitmap_512_step v ws = Inr ws'" and zs: "py_for bitmap_512_step vs ws' = Inr zs"
    by (auto split: sum.splits)
  note step = bitmap_512_step_ok [OF ws' Cons.prems(2,3)]
  show ?case using Cons.IH [OF zs step(3,4)] step(1,2,5) by simp
qed simp

lemma bitmap_512_roundtrip:
  assumes "pack_bitmap_512 v = Inr bs" and "v = PySet vs" "sorted_wrt (<) vs"
  shows "length bs = 64" and "unpack_bitmap_512 bs = v"
proof -
  obtain ws where ws: "py_for bitmap_512_step vs (replicate 8 0) = Inr ws"
    and bs: "bs = concat (map (be_bytes 8) ws)"
    using assms(1,2) by (auto simp: pack_bitmap_512_def rbind_eq_Inr)
  have init: "length (replicate 8 (0 :: nat)) = 8" "\<forall>w\<in>set (replicate 8 0). w < (2 :: nat) ^ 64" by simp_all
  have loop: "length ws = 8" "\<forall>w\<in>set ws. w < 2 ^ 64" "\<forall>v\<in>set vs. 0 \<le> v \<and> v < 512"
    "\<And>k. k < 512 \<Longrightarrow> bit (ws ! (7 - k div 64)) (k mod 64) \<longleftrightarrow> int k \<in> set vs"
    using bitmap_512_loop [OF ws init] by simp_all
  have "length bs = sum_list (map (\<lambda>w. 8) ws)" by (simp add: bs length_concat o_def)
  then show "length bs = 64" using loop(1) by (simp add: sum_list_triv)
  have "words_of 8 bs = ws" using words_of_concat [OF loop(2)] loop(1) by (simp add: bs)
  moreover have "words_value ws < 2 ^ 512" using words_value_less [OF loop(2)] loop(1) by simp
  moreover have "bit (words_value ws) k \<longleftrightarrow> int k \<in> set vs" if "k < 512" for k
    using bit_words_value [OF loop(2), of k] loop(4) [OF that] loop(1) that by (simp add: less_mult_imp_div_less)
  ultimately show "unpack_bitmap_512 bs = v"
    using set_bits_from_set [of "words_value ws" 512 vs] loop(3) assms(3)
    by (simp add: unpack_bitmap_512_def assms(2))
qed


section \<open>Strings\<close>

lemma rstrip_append_zeros: "bs = [] \<or> List.last bs \<noteq> 0 \<Longrightarrow> rstrip (bs @ replicate n 0) = bs"
  by (cases bs rule: rev_cases) (auto simp: rstrip_def dropWhile_append)


section \<open>All formats\<close>

text \<open>
  What a value of a format has to satisfy beyond what \<^verbatim>\<open>pack\<close> checks itself: \<^verbatim>\<open>pack\<close>
  truncates long strings and large checksums, and \<^verbatim>\<open>unpack\<close> strips trailing zeros.
\<close>

fun val_ok :: "fmt \<Rightarrow> lval \<Rightarrow> bool" where
  "val_ok (fS n) v = (case v of Str bs \<Rightarrow> length bs = n | _ \<Rightarrow> False)"
| "val_ok (fS_rstrip n) v =
     (case v of Str bs \<Rightarrow> length bs \<le> n \<and> (bs = [] \<or> List.last bs \<noteq> 0) | _ \<Rightarrow> False)"
| "val_ok fBitmap_128 v =
     (case v of PySet ys \<Rightarrow> sorted_wrt (<) ys \<and> list_all (\<lambda>y. y < 128) ys | _ \<Rightarrow> False)"
| "val_ok fBitmap_512 v = (case v of PySet ys \<Rightarrow> sorted_wrt (<) ys | _ \<Rightarrow> False)"
| "val_ok fChecksum_128 v = (case v of Num i \<Rightarrow> 0 \<le> i \<and> i < 2 ^ 128 | _ \<Rightarrow> False)"
| "val_ok f v = True"

text \<open>The format that reads what another has written.\<close>

fun reads :: "fmt \<Rightarrow> fmt \<Rightarrow> bool" where
  "reads (fS n) g \<longleftrightarrow> g = fS n \<or> g = fS_rstrip n"
| "reads f g \<longleftrightarrow> f = g"

lemma py_map_uints:
  "py_map (pack_uint 1) vs = Inr bss \<Longrightarrow>
   length (concat bss) = length vs \<and> map (\<lambda>b. Num (uint b)) (concat bss) = vs"
proof (induction vs arbitrary: bss)
  case (Cons v vs)
  then obtain b bs where b: "pack_uint 1 v = Inr b" and bs: "py_map (pack_uint 1) vs = Inr bs" "bss = b # bs"
    by (auto split: sum.splits)
  obtain i where i: "v = Num i" "0 \<le> i" "i < 256" "b = [of_nat (nat i)]"
    using b by (auto simp: pack_uint_def split: lval.splits if_splits)
  have "uint (of_nat (nat i) :: 8 word) = i" using i by (simp add: unsigned_of_int take_bit_int_eq_self)
  then show ?case using Cons.IH [OF bs(1)] by (simp add: bs(2) i)
qed simp

lemma pack_uint_roundtrip:
  "pack_uint w v = Inr bs \<Longrightarrow> length bs = w \<and> Num (int (be_nat bs)) = v"
  by (auto simp: pack_uint_def nat_less_iff split: lval.splits if_splits)

lemma checksum_roundtrip:
  assumes "pack_checksum_128 (Num i) = Inr bs" "0 \<le> i" "i < 2 ^ 128"
  shows "length bs = 16" and "unpack_checksum_128 bs = Num i"
proof -
  have "bs = be_bytes 16 (nat i)"
    using assms(1,2) two_words [of "nat i"]
    by (simp add: pack_checksum_128_def nat_mod_distrib nat_div_distrib)
  moreover have "nat i < 2 ^ 128" using assms by (simp add: nat_less_iff)
  ultimately show "length bs = 16" "unpack_checksum_128 bs = Num i"
    using be_nat_two_words [of bs] assms by (simp_all add: unpack_checksum_128_def)
qed

theorem fmt_roundtrip:
  assumes "pack_fmt f v = Inr bs" and "reads f g" and "val_ok g v"
  shows "length bs = fmt_size g \<and> decode_fmt g bs = v"
proof (cases f)
  case f6B
  then show ?thesis using assms py_map_uints
    by (auto simp: pack_6B_def rbind_eq_Inr split: lval.splits if_splits)
next
  case (fS n)
  then show ?thesis using assms rstrip_append_zeros
    by (auto simp: pack_str_def take_append split: lval.splits)
next
  case (fS_rstrip n)
  then show ?thesis using assms rstrip_append_zeros
    by (auto simp: pack_str_def take_append split: lval.splits)
next
  case fBitmap_128
  then show ?thesis using assms bitmap_128_roundtrip [of v bs]
    by (auto split: lval.splits simp: list_all_iff)
next
  case fBitmap_512
  then show ?thesis using assms bitmap_512_roundtrip [of v bs] by (auto split: lval.splits)
next
  case fChecksum_128
  then show ?thesis using assms checksum_roundtrip by (auto split: lval.splits)
qed (use assms pack_uint_roundtrip in auto)

end
