(* ===== verification/LoxiSafe.thy ===== *)
theory LoxiSafe
  imports LoxiFormats
begin

text \<open>
  Parsing untrusted bytes.  A class whose statements read before they test, slice no further back
  than they have read, and consume at least one byte (\<open>safe_cls\<close>, a check of its text) has an
  \<^verbatim>\<open>unpack\<close> that returns on every input: an object with the reader moved forward inside its
  bounds, or one of the exceptions \<^verbatim>\<open>ProtocolError\<close> and \<^verbatim>\<open>AssertionError\<close>.
\<close>

section \<open>The check\<close>

text \<open>
  Whether \<^verbatim>\<open>orig_reader\<close> is set, the locals assigned so far, and a number of bytes that the
  current reader has certainly consumed.
\<close>

type_synonym scan = "bool \<times> pyname list \<times> nat"

fun safe_cls :: "cls \<Rightarrow> bool"
  and safe_subtypes :: "(nat \<times> cls) list \<Rightarrow> bool"
  and safe_stmts :: "ustmt list \<Rightarrow> scan \<Rightarrow> bool"
  and safe_stmt :: "ustmt \<Rightarrow> scan \<Rightarrow> scan option" where
  "safe_cls (Cls nm ks ini ps disp us eqs) \<longleftrightarrow>
     safe_stmts us (False, [], 0) \<and>
     (case disp of None \<Rightarrow> True | Some (f, off, subtypes) \<Rightarrow> safe_subtypes subtypes)"
| "safe_subtypes [] \<longleftrightarrow> True"
| "safe_subtypes ((k, c) # cs) \<longleftrightarrow> safe_cls c \<and> safe_subtypes cs"
| "safe_stmts [] (sl, vs, n) \<longleftrightarrow> sl \<or> 0 < n"
| "safe_stmts (u # us) t \<longleftrightarrow> (case safe_stmt u t of None \<Rightarrow> False | Some t' \<Rightarrow> safe_stmts us t')"
| "safe_stmt (U_local v f) (sl, vs, n) = Some (sl, v # vs, n + fmt_size f)"
| "safe_stmt (U_assert v k) (sl, vs, n) = (if v \<in> set vs then Some (sl, vs, n) else None)"
| "safe_stmt (U_field a f) (sl, vs, n) = Some (sl, vs, n + fmt_size f)"
| "safe_stmt (U_slice v rewind) (sl, vs, n) =
     (if \<not> sl \<and> v \<in> set vs \<and> 0 < rewind \<and> rewind \<le> n then Some (True, vs, rewind) else None)"
| "safe_stmt (U_skip k) (sl, vs, n) = Some (sl, vs, n + k)"
| "safe_stmt U_orig_skip_align (sl, vs, n) = (if sl then Some (sl, vs, n) else None)"
| "safe_stmt (U_list a c) (sl, vs, n) = (if safe_cls c then Some (sl, vs, n) else None)"
| "safe_stmt (U_list_tlv a) (sl, vs, n) = Some (sl, vs, n)"
| "safe_stmt (U_list_of a v c) (sl, vs, n) = (if safe_cls c \<and> v \<in> set vs then Some (sl, vs, n) else None)"
| "safe_stmt (U_obj a c) (sl, vs, n) = (if safe_cls c then Some (sl, vs, n) else None)"
| "safe_stmt (U_read_all a) (sl, vs, n) = Some (sl, vs, n)"


section \<open>What it gives\<close>

text \<open>A result that stays within the reader: at least \<open>k\<close> and at most all bytes consumed.\<close>

definition parsed :: "nat \<Rightarrow> ofreader \<Rightarrow> ('a \<times> ofreader) res \<Rightarrow> bool" where
  "parsed k r res \<longleftrightarrow>
     (case res of
        Inl x \<Rightarrow> x \<in> {ProtocolError, AssertionError, RecursionError}
      | Inr (v, r') \<Rightarrow> \<exists>n. k \<le> n \<and> n \<le> length (remaining r) \<and> r' = advance n r)"

lemma parsed_unpack_list_fuel:
  assumes "\<And>r. rd_valid r \<Longrightarrow> parsed 1 r (f r)" and "rd_valid r" and "length (remaining r) \<le> fuel"
  shows "parsed 0 r (unpack_list_fuel fuel f r)"
  using assms(2,3)
proof (induction fuel arbitrary: r)
  case 0
  then show ?case by (auto simp: parsed_def rd_is_empty_iff intro!: exI [of _ 0])
next
  case (Suc fuel)
  show ?case
  proof (cases "rd_is_empty r")
    case True
    then show ?thesis by (auto simp: parsed_def intro!: exI [of _ 0])
  next
    case False
    show ?thesis
    proof (cases "f r")
      case (Inl e)
      then show ?thesis using assms(1) [OF Suc.prems(1)] False by (simp add: parsed_def)
    next
      case (Inr x)
      then obtain v n where x: "f r = Inr (v, advance n r)" "1 \<le> n" "n \<le> length (remaining r)"
        using assms(1) [OF Suc.prems(1)] by (cases x) (auto simp: parsed_def)
      have valid: "rd_valid (advance n r)" using Suc.prems(1) x(3) by (rule rd_valid_advance)
      have "parsed 0 (advance n r) (unpack_list_fuel fuel f (advance n r))"
        using Suc.prems(2) x(2) by (intro Suc.IH [OF valid]) simp
      moreover have "n + m \<le> length (remaining r)" if "m \<le> length (remaining r) - n" for m
        using that x(3) by simp
      ultimately show ?thesis using False
        by (cases "unpack_list_fuel fuel f (advance n r)") (auto simp: parsed_def x(1), blast)
    qed
  qed
qed

lemma parsed_unpack_list:
  "(\<And>r. rd_valid r \<Longrightarrow> parsed 1 r (f r)) \<Longrightarrow> rd_valid r \<Longrightarrow> parsed 0 r (unpack_list f r)"
  unfolding unpack_list_def by (rule parsed_unpack_list_fuel) (simp_all add: length_remaining)

text \<open>The invariant of the variables of \<^verbatim>\<open>unpack\<close>, called with the reader \<open>r0\<close>.\<close>

fun uv_inv :: "ofreader \<Rightarrow> scan \<Rightarrow> uvars \<Rightarrow> bool" where
  "uv_inv r0 (sl, vs, n) s \<longleftrightarrow>
     rd_valid r0 \<and> rd_valid (uv_reader s) \<and> set vs = fst ` set (uv_locals s) \<and>
     (case uv_orig s of
        None \<Rightarrow> \<not> sl \<and> (\<exists>m. n \<le> m \<and> m \<le> length (remaining r0) \<and> uv_reader s = advance m r0)
      | Some r \<Rightarrow> sl \<and> n \<le> rd_offset (uv_reader s) \<and>
          (\<exists>m. 1 \<le> m \<and> m \<le> length (remaining r0) \<and> r = advance m r0))"

definition uv_ok :: "ofreader \<Rightarrow> scan \<Rightarrow> uvars res \<Rightarrow> bool" where
  "uv_ok r0 t res \<longleftrightarrow>
     (case res of Inl x \<Rightarrow> x \<in> {ProtocolError, AssertionError, RecursionError} | Inr s \<Rightarrow> uv_inv r0 t s)"

text \<open>Moving the current reader forward keeps the invariant.\<close>

lemma uv_inv_advance:
  assumes "uv_inv r0 (sl, vs, n) s" and "k \<le> length (remaining (uv_reader s))" and "j \<le> k"
    and "uv_reader s' = advance k (uv_reader s)" "uv_orig s' = uv_orig s"
    and "set vs' = fst ` set (uv_locals s')"
  shows "uv_inv r0 (sl, vs', n + j) s'"
proof -
  have valid: "rd_valid (uv_reader s')" using assms(1,2,4) rd_valid_advance by auto
  show ?thesis
  proof (cases "uv_orig s")
    case None
    then obtain m where m: "n \<le> m" "m \<le> length (remaining r0)" "uv_reader s = advance m r0" "\<not> sl"
      using assms(1) by auto
    then show ?thesis using assms valid None by (auto intro!: exI [of _ "m + k"])
  next
    case (Some r)
    then show ?thesis using assms valid by auto
  qed
qed

lemma uv_local_defined:
  assumes "uv_inv r0 (sl, vs, k) s" and "v \<in> set vs"
  shows "\<exists>n. uv_local s v = Inr n"
proof -
  have "v \<in> fst ` set (uv_locals s)" using assms by simp
  then have "map_of (uv_locals s) v \<noteq> None" by (simp add: map_of_eq_None_iff)
  then show ?thesis by (auto simp: uv_local_def)
qed

lemma uv_set_simps [simp]:
  "uv_reader (uv_set a (v, r) s) = r"
  "uv_orig (uv_set a (v, r) s) = uv_orig s"
  "uv_locals (uv_set a (v, r) s) = uv_locals s"
  "uv_attrs (uv_set a (v, r) s) = od_set a v (uv_attrs s)"
  by (simp_all add: uv_set_def)

lemma uv_ok_set:
  assumes "uv_inv r0 (sl, vs, n) s" and "parsed 0 (uv_reader s) res"
  shows "uv_ok r0 (sl, vs, n) (rbind res (\<lambda>vr. Inr (uv_set a vr s)))"
proof (cases res)
  case (Inl e)
  then show ?thesis using assms(2) by (simp add: uv_ok_def parsed_def)
next
  case (Inr vr)
  then obtain v k where "res = Inr (v, advance k (uv_reader s))" "k \<le> length (remaining (uv_reader s))"
    using assms(2) by (cases vr) (auto simp: parsed_def)
  then show ?thesis
    using uv_inv_advance [OF assms(1), of k 0 "uv_set a (v, advance k (uv_reader s)) s" vs] assms(1)
    by (simp add: uv_ok_def)
qed

lemma parsed_mono: "parsed k r res \<Longrightarrow> j \<le> k \<Longrightarrow> parsed j r res"
  unfolding parsed_def by (cases res) (auto dest: order_trans)

lemma parsed_bind:
  "parsed k r (rbind res (\<lambda>(x, r'). Inr (g x, r'))) \<longleftrightarrow> parsed k r res"
  by (auto simp: parsed_def split: sum.splits prod.splits)

text \<open>Each line keeps the invariant.\<close>

lemma uv_ok_local:
  assumes inv: "uv_inv r0 (sl, vs, n) s"
  shows "uv_ok r0 (sl, v # vs, n + fmt_size f) (unpack_stmt rec (U_local v f) s)"
proof -
  have valid: "rd_valid (uv_reader s)" using inv by simp
  show ?thesis
  proof (cases "fmt_size f \<le> length (remaining (uv_reader s))")
    case True
    let ?s = "s\<lparr>uv_reader := advance (fmt_size f) (uv_reader s),
        uv_locals := (v, be_nat (take (fmt_size f) (remaining (uv_reader s)))) # uv_locals s\<rparr>"
    have "uv_inv r0 (sl, v # vs, n + fmt_size f) ?s"
      using inv by (intro uv_inv_advance [OF _ True, where vs = vs]) auto
    then show ?thesis using True by (simp add: rd_read_eq [OF valid] uv_ok_def del: uv_inv.simps)
  qed (simp add: rd_read_eq [OF valid] uv_ok_def)
qed

lemma uv_ok_field:
  assumes inv: "uv_inv r0 (sl, vs, n) s"
  shows "uv_ok r0 (sl, vs, n + fmt_size f) (unpack_stmt rec (U_field a f) s)"
proof -
  have valid: "rd_valid (uv_reader s)" using inv by simp
  show ?thesis
  proof (cases "fmt_size f \<le> length (remaining (uv_reader s))")
    case True
    let ?s = "uv_set a (decode_fmt f (take (fmt_size f) (remaining (uv_reader s))),
        advance (fmt_size f) (uv_reader s)) s"
    have "uv_inv r0 (sl, vs, n + fmt_size f) ?s"
      using inv by (intro uv_inv_advance [OF _ True, where vs = vs]) auto
    then show ?thesis using True by (simp add: rd_read_eq [OF valid] uv_ok_def del: uv_inv.simps)
  qed (simp add: rd_read_eq [OF valid] uv_ok_def)
qed

lemma uv_ok_assert:
  assumes inv: "uv_inv r0 (sl, vs, n) s" and "v \<in> set vs"
  shows "uv_ok r0 (sl, vs, n) (unpack_stmt rec (U_assert v k) s)"
proof -
  obtain m where "uv_local s v = Inr m" using uv_local_defined [OF assms] by blast
  then show ?thesis using inv by (simp add: uv_ok_def del: uv_inv.simps)
qed

lemma uv_ok_slice:
  assumes inv: "uv_inv r0 (sl, vs, n) s" and "\<not> sl" "v \<in> set vs" and rewind: "0 < rewind" "rewind \<le> n"
  shows "uv_ok r0 (True, vs, rewind) (unpack_stmt rec (U_slice v rewind) s)"
proof -
  obtain len where len: "uv_local s v = Inr len" using uv_local_defined [OF inv \<open>v \<in> set vs\<close>] by blast
  obtain m where m: "n \<le> m" "m \<le> length (remaining r0)" "uv_reader s = advance m r0"
    using inv \<open>\<not> sl\<close> by (auto split: option.splits)
  have valid: "rd_valid (uv_reader s)" using inv by simp
  have "rewind \<le> rd_offset (uv_reader s)" using m rewind by simp
  note slice = rd_slice_eq [OF valid this] and sub = sub_reader_valid [OF valid this]
  show ?thesis
  proof (cases "rewind \<le> len \<and> len - rewind \<le> length (remaining (uv_reader s))")
    case True
    let ?s = "s\<lparr>uv_reader := sub_reader len rewind (uv_reader s),
        uv_orig := Some (advance (len - rewind) (uv_reader s))\<rparr>"
    have "1 \<le> m + (len - rewind)" "m + (len - rewind) \<le> length (remaining r0)" using True m rewind by auto
    then have "\<exists>m. 1 \<le> m \<and> m \<le> length (remaining r0) \<and> advance (len - rewind) (uv_reader s) = advance m r0"
      by (intro exI [of _ "m + (len - rewind)"]) (simp add: m(3))
    then have "uv_inv r0 (True, vs, rewind) ?s" using sub(1) True inv by simp
    then show ?thesis using True by (simp add: len slice uv_ok_def del: uv_inv.simps)
  next
    case False
    then have "rd_slice len rewind (uv_reader s) = Inl ProtocolError" by (simp only: slice if_False)
    then show ?thesis by (simp add: len uv_ok_def)
  qed
qed

lemma uv_ok_skip:
  assumes inv: "uv_inv r0 (sl, vs, n) s"
  shows "uv_ok r0 (sl, vs, n + k) (unpack_stmt rec (U_skip k) s)"
proof -
  have valid: "rd_valid (uv_reader s)" using inv by simp
  show ?thesis
  proof (cases "k \<le> length (remaining (uv_reader s))")
    case True
    have "uv_inv r0 (sl, vs, n + k) (s\<lparr>uv_reader := advance k (uv_reader s)\<rparr>)"
      using inv by (intro uv_inv_advance [OF _ True, where vs = vs]) auto
    then show ?thesis using True by (simp add: rd_skip_eq [OF valid] uv_ok_def del: uv_inv.simps)
  qed (simp add: rd_skip_eq [OF valid] uv_ok_def)
qed

lemma rd_skip_align_cases:
  assumes "rd_valid r" and "m \<le> length (remaining r)"
  shows "rd_skip_align (advance m r) = Inl ProtocolError \<or>
    (\<exists>k. rd_skip_align (advance m r) = Inr (advance (m + k) r) \<and> m + k \<le> length (remaining r))"
proof -
  have "rd_offset r + m \<le> (rd_offset r + m + 7) div 8 * 8" by presburger
  then obtain k where k: "(rd_offset r + m + 7) div 8 * 8 = rd_offset r + m + k"
    using nat_le_iff_add by auto
  then show ?thesis
    using assms(2) length_remaining [OF assms(1)]
    by (auto simp: rd_skip_align_def Let_def k [unfolded add.assoc] k advance_def add.assoc intro!: exI [of _ k])
qed

lemma uv_ok_skip_align:
  assumes inv: "uv_inv r0 (sl, vs, n) s" and sl
  shows "uv_ok r0 (sl, vs, n) (unpack_stmt rec U_orig_skip_align s)"
proof -
  obtain m where m: "1 \<le> m" "m \<le> length (remaining r0)" "uv_orig s = Some (advance m r0)"
    using assms by (auto split: option.splits)
  have "rd_valid r0" using inv by simp
  from rd_skip_align_cases [OF this m(2)] show ?thesis
  proof
    assume "rd_skip_align (advance m r0) = Inl ProtocolError"
    then show ?thesis by (simp add: m(3) uv_ok_def)
  next
    assume "\<exists>k. rd_skip_align (advance m r0) = Inr (advance (m + k) r0) \<and> m + k \<le> length (remaining r0)"
    then obtain k where "rd_skip_align (advance m r0) = Inr (advance (m + k) r0)" "m + k \<le> length (remaining r0)"
      by blast
    then show ?thesis using inv m by (auto simp: uv_ok_def intro!: exI [of _ "m + k"])
  qed
qed

lemma uv_ok_unpack_list:
  assumes inv: "uv_inv r0 (sl, vs, n) s" and f: "\<And>r. rd_valid r \<Longrightarrow> parsed 1 r (f r)"
  shows "uv_ok r0 (sl, vs, n)
    (rbind (unpack_list f (uv_reader s)) (\<lambda>(vs, r). Inr (uv_set a (PyList vs, r) s)))"
proof -
  have "rd_valid (uv_reader s)" using inv by simp
  with f have "parsed 0 (uv_reader s) (unpack_list f (uv_reader s))" by (rule parsed_unpack_list)
  then have "parsed 0 (uv_reader s) (rbind (unpack_list f (uv_reader s)) (\<lambda>(vs, r). Inr (PyList vs, r)))"
    by (simp only: parsed_bind)
  from uv_ok_set [OF inv this, of a] show ?thesis
    by (cases "unpack_list f (uv_reader s)") auto
qed

lemma uv_ok_unpack_list_of:
  assumes inv: "uv_inv r0 (sl, vs, n) s" and "v \<in> set vs" and f: "\<And>r. rd_valid r \<Longrightarrow> parsed 1 r (f r)"
  shows "uv_ok r0 (sl, vs, n)
    (rbind (uv_local s v) (\<lambda>n. rbind (rd_slice n 0 (uv_reader s)) (\<lambda>(sub, r).
     rbind (unpack_list f sub) (\<lambda>(vs, _). Inr (uv_set a (PyList vs, r) s)))))"
proof -
  have valid: "rd_valid (uv_reader s)" using inv by simp
  obtain len where len: "uv_local s v = Inr len" using uv_local_defined [OF inv \<open>v \<in> set vs\<close>] by blast
  note slice = rd_slice_eq [OF valid le0, of len] and sub = sub_reader_valid [OF valid le0, of len]
  show ?thesis
  proof (cases "len \<le> length (remaining (uv_reader s))")
    case True
    then have "rd_valid (sub_reader len 0 (uv_reader s))" using sub by simp
    with f have "parsed 0 (sub_reader len 0 (uv_reader s)) (unpack_list f (sub_reader len 0 (uv_reader s)))"
      by (rule parsed_unpack_list)
    moreover have "uv_inv r0 (sl, vs, n) (uv_set a (PyList xs, advance len (uv_reader s)) s)" for xs
      using uv_inv_advance [OF inv True, of 0 "uv_set a (PyList xs, advance len (uv_reader s)) s" vs]
        inv by simp
    ultimately show ?thesis using True
      by (cases "unpack_list f (sub_reader len 0 (uv_reader s))")
         (auto simp: len slice uv_ok_def parsed_def simp del: uv_inv.simps)
  qed (simp add: len slice uv_ok_def)
qed

lemma uv_ok_read_all:
  assumes inv: "uv_inv r0 (sl, vs, n) s"
  shows "uv_ok r0 (sl, vs, n) (unpack_stmt rec (U_read_all a) s)"
proof -
  have valid: "rd_valid (uv_reader s)" using inv by simp
  have "parsed 0 (uv_reader s) (Inr (Str (remaining (uv_reader s)),
      advance (length (remaining (uv_reader s))) (uv_reader s)))"
    by (auto simp: parsed_def)
  from uv_ok_set [OF inv this] show ?thesis by (simp add: rd_read_all_eq [OF valid])
qed

lemma uv_inv_end:
  assumes "safe_stmts [] (sl, vs, n)" and "uv_inv r0 (sl, vs, n) s"
  shows "\<exists>m. 1 \<le> m \<and> m \<le> length (remaining r0) \<and> uv_caller s = advance m r0"
proof (cases "uv_orig s")
  case None
  then obtain m where "n \<le> m" "0 < n" "m \<le> length (remaining r0)" "uv_reader s = advance m r0"
    using assms by auto
  then show ?thesis using None by (intro exI [of _ m]) (simp add: uv_caller_def)
next
  case (Some r)
  then show ?thesis using assms by (simp add: uv_caller_def)
qed

text \<open>\<^verbatim>\<open>unpack\<close> of a class, of the body and of the subtypes.\<close>

definition unpack_body :: "deserializer \<Rightarrow> cls \<Rightarrow> deserializer" where
  "unpack_body rec c reader =
     rbind (unpack_stmts rec (cls_unpack c) \<lparr>uv_reader = reader, uv_orig = None, uv_locals = [],
                                             uv_attrs = attrs_of (new_obj c)\<rparr>) (\<lambda>s.
       Inr (Obj c (uv_attrs s), uv_caller s))"

lemma unpack_eq:
  assumes "rd_valid r"
  shows "unpack rec c r =
    (case cls_dispatch c of
       None \<Rightarrow> unpack_body rec c r
     | Some (f, off, cs) \<Rightarrow>
         if off + fmt_size f \<le> length (remaining r) then
           (case unpack_subtype rec cs (be_nat (take (fmt_size f) (drop off (remaining r)))) r of
              Some res \<Rightarrow> res
            | None \<Rightarrow> unpack_body rec c r)
         else Inl ProtocolError)"
  using assms by (cases c) (simp add: unpack_body_def rd_peek_eq Let_def split: option.split prod.split)

lemma parsed_dispatch:
  assumes "rd_valid r" and "parsed 1 r (unpack_body rec c r)"
    and "\<And>f off cs k res. cls_dispatch c = Some (f, off, cs) \<Longrightarrow>
      unpack_subtype rec cs k r = Some res \<Longrightarrow> parsed 1 r res"
  shows "parsed 1 r (unpack rec c r)"
  using assms by (auto simp: unpack_eq parsed_def split: option.split)

lemma uv_ok_Cons:
  assumes "uv_ok r0 t (unpack_stmt rec u s)"
    and "\<And>s'. unpack_stmt rec u s = Inr s' \<Longrightarrow> uv_inv r0 t s' \<Longrightarrow>
      (case unpack_stmts rec us s' of
         Inl x \<Rightarrow> x \<in> {ProtocolError, AssertionError, RecursionError}
       | Inr s' \<Rightarrow> \<exists>m. 1 \<le> m \<and> m \<le> length (remaining r0) \<and> uv_caller s' = advance m r0)"
  shows "case unpack_stmts rec (u # us) s of
         Inl x \<Rightarrow> x \<in> {ProtocolError, AssertionError, RecursionError}
       | Inr s' \<Rightarrow> \<exists>m. 1 \<le> m \<and> m \<le> length (remaining r0) \<and> uv_caller s' = advance m r0"
proof (cases "unpack_stmt rec u s")
  case (Inl e)
  then show ?thesis using assms(1) by (simp add: uv_ok_def)
next
  case (Inr s')
  then have "uv_inv r0 t s'" using assms(1) by (simp add: uv_ok_def)
  then show ?thesis using assms(2) [OF Inr] Inr by simp
qed

lemma unpack_parsed_all:
  assumes rec: "\<And>r. rd_valid r \<Longrightarrow> parsed 1 r (rec r)"
  shows
  "\<And>r. safe_cls c \<Longrightarrow> rd_valid r \<Longrightarrow> parsed 1 r (unpack rec c r)"
  "\<And>r k res. safe_subtypes cs \<Longrightarrow> rd_valid r \<Longrightarrow> unpack_subtype rec cs k r = Some res \<Longrightarrow> parsed 1 r res"
  "\<And>r0 s. safe_stmts us t \<Longrightarrow> uv_inv r0 t s \<Longrightarrow>
     (case unpack_stmts rec us s of
        Inl x \<Rightarrow> x \<in> {ProtocolError, AssertionError, RecursionError}
      | Inr s' \<Rightarrow> \<exists>m. 1 \<le> m \<and> m \<le> length (remaining r0) \<and> uv_caller s' = advance m r0)"
  "\<And>r0 s t'. safe_stmt u t = Some t' \<Longrightarrow> uv_inv r0 t s \<Longrightarrow> uv_ok r0 t' (unpack_stmt rec u s)"
proof (induction c and cs and us t and u t rule: safe_cls_safe_subtypes_safe_stmts_safe_stmt.induct)
  case (1 nm ks ini ps disp us eqs)
  let ?c = "Cls nm ks ini ps disp us eqs"
  let ?s = "\<lparr>uv_reader = r, uv_orig = None, uv_locals = [], uv_attrs = attrs_of (new_obj ?c)\<rparr>"
  have inv: "uv_inv r (False, [], 0) ?s" using 1(4) by (auto intro!: exI [of _ 0])
  have "safe_stmts us (False, [], 0)" using 1(3) by simp
  from 1(1) [OF this inv] have "parsed 1 r (unpack_body rec ?c r)"
    by (cases "unpack_stmts rec us ?s") (simp_all add: unpack_body_def parsed_def)
  then show ?case using 1(2-4) by (intro parsed_dispatch) auto
next
  case (3 k' c cs)
  then show ?case by (auto split: if_splits)
next
  case (4 sl vs n)
  then show ?case using uv_inv_end by simp
next
  case (5 u us t)
  obtain t' where t': "safe_stmt u t = Some t'" "safe_stmts us t'" using 5(3) by (auto split: option.splits)
  show ?case by (rule uv_ok_Cons [OF 5(1) [OF t'(1) 5(4)] 5(2) [OF t'(1,2)]])
next
  case (6 v f sl vs n)
  then show ?case using uv_ok_local [OF 6(2)] by (auto split: if_splits simp del: uv_inv.simps unpack_stmt.simps)
next
  case (7 v k sl vs n)
  then show ?case using uv_ok_assert [OF 7(2)] by (auto split: if_splits simp del: uv_inv.simps unpack_stmt.simps)
next
  case (8 a f sl vs n)
  then show ?case using uv_ok_field [OF 8(2)] by (auto split: if_splits simp del: uv_inv.simps unpack_stmt.simps)
next
  case (9 v rewind sl vs n)
  then show ?case using uv_ok_slice [OF 9(2)] by (auto split: if_splits simp del: uv_inv.simps unpack_stmt.simps)
next
  case (10 k sl vs n)
  then show ?case using uv_ok_skip [OF 10(2)] by (auto split: if_splits simp del: uv_inv.simps unpack_stmt.simps)
next
  case (11 sl vs n)
  then show ?case using uv_ok_skip_align [OF 11(2)] by (auto split: if_splits simp del: uv_inv.simps unpack_stmt.simps)
next
  case (12 a c sl vs n)
  then show ?case using uv_ok_unpack_list [of r0 sl vs n s "unpack rec c"] by (auto split: if_splits simp del: uv_inv.simps)
next
  case (13 a sl vs n)
  then show ?case using uv_ok_unpack_list [OF 13(2) rec] by (auto simp del: uv_inv.simps)
next
  case (14 a v c sl vs n)
  then show ?case using uv_ok_unpack_list_of [of r0 sl vs n s v "unpack rec c"] by (auto split: if_splits simp del: uv_inv.simps)
next
  case (15 a c sl vs n)
  then have "rd_valid (uv_reader s)" "safe_cls c" "t' = (sl, vs, n)" by (auto split: if_splits)
  then show ?case using uv_ok_set [OF 15(3), of "unpack rec c (uv_reader s)" a] parsed_mono [OF 15(1)] by simp
next
  case (16 a sl vs n)
  then show ?case using uv_ok_read_all [OF 16(2)] by (auto split: if_splits simp del: uv_inv.simps unpack_stmt.simps)
qed simp

theorem unpack_tlv_parsed:
  "safe_cls e \<Longrightarrow> rd_valid r \<Longrightarrow> parsed 1 r (unpack_tlv e d r)"
proof (induction d arbitrary: r)
  case (Suc d)
  then show ?case using unpack_parsed_all(1) [of "unpack_tlv e d" e r] by simp
qed (simp add: parsed_def)

theorem unpack_parsed:
  "safe_cls e \<Longrightarrow> safe_cls c \<Longrightarrow> rd_valid r \<Longrightarrow> parsed 1 r (unpack (unpack_tlv e d) c r)"
  by (rule unpack_parsed_all(1)) (rule unpack_tlv_parsed)

end
