(* ===== verification/LoxiRoundtrip.thy ===== *)
theory LoxiRoundtrip
  imports LoxiSafe
begin

text \<open>
  When \<^verbatim>\<open>unpack\<close> of a class reads what its \<^verbatim>\<open>pack\<close> writes.  \<open>codec_ok\<close>
  compares the two texts line by line: it is a check of the class alone, evaluated for each class in
  the theory that defines it.  The theorem is that for a class that passes it, packing an object and
  unpacking the bytes gives the object back, whatever follows the bytes.
\<close>

section \<open>The check\<close>

text \<open>The attribute that is written, in the format \<open>f\<close>, at a fixed offset.\<close>

fun field_at :: "nat \<Rightarrow> fmt \<Rightarrow> pstmt list \<Rightarrow> pyname option" where
  "field_at off f (P_field a g # ps) =
     (if off = 0 then (if g = f then Some a else None)
      else if fmt_size g \<le> off then field_at (off - fmt_size g) f ps else None)"
| "field_at off f (P_pad n # ps) = (if n \<le> off then field_at (off - n) f ps else None)"
| "field_at off f (P_placeholder # ps) = (if 2 \<le> off then field_at (off - 2) f ps else None)"
| "field_at off f ps = None"

text \<open>Every class of a family writes the constant \<open>k\<close> there.\<close>

fun writes_const :: "fmt \<Rightarrow> nat \<Rightarrow> nat \<Rightarrow> cls \<Rightarrow> bool"
  and all_write_const :: "fmt \<Rightarrow> nat \<Rightarrow> nat \<Rightarrow> (nat \<times> cls) list \<Rightarrow> bool" where
  "writes_const f off k (Cls nm ks ini ps disp us eqs) \<longleftrightarrow>
     (case field_at off f ps of
        Some a \<Rightarrow> map_of ks a = Some k \<and> a \<notin> fst ` set ini
      | None \<Rightarrow> False) \<and>
     (case disp of None \<Rightarrow> True | Some (_, _, cs) \<Rightarrow> all_write_const f off k cs)"
| "all_write_const f off k [] \<longleftrightarrow> True"
| "all_write_const f off k ((_, c) # cs) \<longleftrightarrow> writes_const f off k c \<and> all_write_const f off k cs"

text \<open>The classes that \<^verbatim>\<open>unpack\<close> of a class can return objects of.\<close>

fun classes :: "cls \<Rightarrow> cls list" and sub_classes :: "(nat \<times> cls) list \<Rightarrow> cls list" where
  "classes (Cls nm ks ini ps disp us eqs) =
     Cls nm ks ini ps disp us eqs #
       (case disp of None \<Rightarrow> [] | Some (_, _, cs) \<Rightarrow> sub_classes cs)"
| "sub_classes [] = []"
| "sub_classes ((_, c) # cs) = classes c @ sub_classes cs"

text \<open>Some class of the family ends with \<^verbatim>\<open>orig_reader.skip_align()\<close>.\<close>

fun needs_align :: "cls \<Rightarrow> bool" and some_need_align :: "(nat \<times> cls) list \<Rightarrow> bool" where
  "needs_align (Cls nm ks ini ps disp us eqs) \<longleftrightarrow>
     U_orig_skip_align \<in> set us \<or>
     (case disp of None \<Rightarrow> False | Some (_, _, cs) \<Rightarrow> some_need_align cs)"
| "some_need_align [] \<longleftrightarrow> False"
| "some_need_align ((_, c) # cs) \<longleftrightarrow> needs_align c \<or> some_need_align cs"

text \<open>Lengths are patched only into placeholders, and into each at most once.\<close>

fun patch_ok :: "nat list \<Rightarrow> nat \<Rightarrow> pstmt list \<Rightarrow> bool" where
  "patch_ok H i [] \<longleftrightarrow> True"
| "patch_ok H i (P_placeholder # ps) \<longleftrightarrow> patch_ok (i # H) (i + 1) ps"
| "patch_ok H i (P_len_last j # ps) \<longleftrightarrow> j \<in> set H \<and> patch_ok (removeAll j H) i ps"
| "patch_ok H i (P_set_len j # ps) \<longleftrightarrow> j \<in> set H \<and> patch_ok (removeAll j H) i ps"
| "patch_ok H i (P_length # ps) \<longleftrightarrow> patch_ok H i ps"
| "patch_ok H i (P_length_add # ps) \<longleftrightarrow> patch_ok H i ps"
| "patch_ok H i (s # ps) \<longleftrightarrow> patch_ok H (i + 1) ps"

text \<open>
  The lines at the end: the index of the length of the object, and whether padding follows that the
  length does not count.
\<close>

fun set_len_of :: "pstmt \<Rightarrow> nat option" where
  "set_len_of (P_set_len m) = Some m"
| "set_len_of s = None"

definition closing_tail :: "pstmt list \<Rightarrow> (nat \<times> bool) option" where
  "closing_tail ps =
     (if length ps = 1 then map_option (\<lambda>m. (m, False)) (set_len_of (ps ! 0))
      else if length ps = 2 \<and> ps ! 1 = P_pad_to 8 then map_option (\<lambda>m. (m, True)) (set_len_of (ps ! 0))
      else if length ps = 3 \<and> ps ! 0 = P_pad_to 8 \<and> ps ! 1 = P_length_add
        then map_option (\<lambda>m. (m, False)) (set_len_of (ps ! 2))
      else None)"

fun closing :: "pstmt list \<Rightarrow> (nat \<times> bool) option" where
  "closing [] = None"
| "closing (s # ps) = (if s = P_length then closing_tail ps else closing ps)"

text \<open>What is known of a local: the constant it must be, or the index of the length it holds.\<close>

datatype lvar = Known nat | Len_at nat

text \<open>
  The state of the comparison: the number of strings appended, the number of bytes before them if it
  is fixed, whether the reader has been sliced, the locals, the attributes assigned.
\<close>

type_synonym cmp = "nat \<times> nat option \<times> bool \<times> (pyname \<times> lvar) list \<times> pyname list"

definition plus_off :: "nat option \<Rightarrow> nat \<Rightarrow> nat option" where
  "plus_off off n = map_option (\<lambda>m. m + n) off"

definition aligned_off :: "bool \<Rightarrow> nat option \<Rightarrow> bool" where
  "aligned_off sl off \<longleftrightarrow> sl \<and> (case off of None \<Rightarrow> False | Some n \<Rightarrow> 8 dvd n)"

text \<open>The lines that may follow a field without a length of its own.\<close>

fun ends_after :: "pstmt list \<Rightarrow> bool" where
  "ends_after [] \<longleftrightarrow> False"
| "ends_after (s # ps) \<longleftrightarrow> s = P_length \<and> length ps \<le> 2 \<and> closing_tail ps \<noteq> None"

fun pads_after :: "pstmt list \<Rightarrow> bool" where
  "pads_after [] \<longleftrightarrow> False"
| "pads_after (s # ps) \<longleftrightarrow> s = P_length \<and> length ps = 3 \<and> closing_tail ps \<noteq> None"

fun agree :: "(pyname \<times> nat) list \<Rightarrow> pyname list \<Rightarrow> (nat \<times> bool) option \<Rightarrow> cmp \<Rightarrow>
      pstmt list \<Rightarrow> ustmt list \<Rightarrow> bool"
  and codec_ok :: "cls \<Rightarrow> bool"
  and codecs_ok :: "fmt \<Rightarrow> nat \<Rightarrow> (nat \<times> cls) list \<Rightarrow> bool" where
  "agree ks as cl (i, off, sl, vars, seen) ps [] \<longleftrightarrow>
     set as \<subseteq> set seen \<and>
     (if sl then (case cl of Some (m, padded) \<Rightarrow> \<not> padded | None \<Rightarrow> False) else ps = [])"
| "agree ks as cl (i, off, sl, vars, seen) ps (U_orig_skip_align # us) \<longleftrightarrow>
     us = [] \<and> sl \<and> set as \<subseteq> set seen \<and> (case cl of Some (m, padded) \<Rightarrow> padded | None \<Rightarrow> False)"
| "agree ks as cl (i, off, sl, vars, seen) ps (U_local v f # us) \<longleftrightarrow>
     (case ps of
        P_field a g # ps' \<Rightarrow>
          g = f \<and> is_int_fmt f \<and> a \<notin> set as \<and>
          (case map_of ks a of
             Some k \<Rightarrow> agree ks as cl (i + 1, plus_off off (fmt_size f), sl, (v, Known k) # vars, seen) ps' us
           | None \<Rightarrow> False)
      | P_placeholder # ps' \<Rightarrow>
          f = fH \<and> agree ks as cl (i + 1, plus_off off 2, sl, (v, Len_at i) # vars, seen) ps' us
      | _ \<Rightarrow> False)"
| "agree ks as cl (i, off, sl, vars, seen) ps (U_assert v k # us) \<longleftrightarrow>
     map_of vars v = Some (Known k) \<and> agree ks as cl (i, off, sl, vars, seen) ps us"
| "agree ks as cl (i, off, sl, vars, seen) ps (U_field a g # us) \<longleftrightarrow>
     (case ps of
        P_field b f # ps' \<Rightarrow>
          a = b \<and> reads f g \<and> a \<in> set as \<and>
          agree ks as cl (i + 1, plus_off off (fmt_size g), sl, vars, a # seen) ps' us
      | _ \<Rightarrow> False)"
| "agree ks as cl (i, off, sl, vars, seen) ps (U_slice v rewind # us) \<longleftrightarrow>
     \<not> sl \<and> off = Some rewind \<and>
     (case cl of Some (m, padded) \<Rightarrow> map_of vars v = Some (Len_at m) | None \<Rightarrow> False) \<and>
     agree ks as cl (i, off, True, vars, seen) ps us"
| "agree ks as cl (i, off, sl, vars, seen) ps (U_skip n # us) \<longleftrightarrow>
     (case ps of
        P_pad m # ps' \<Rightarrow> m = n \<and> agree ks as cl (i + 1, plus_off off n, sl, vars, seen) ps' us
      | _ \<Rightarrow> False)"
| "agree ks as cl (i, off, sl, vars, seen) ps (U_list a c # us) \<longleftrightarrow>
     (case ps of
        P_list b # ps' \<Rightarrow>
          a = b \<and> a \<in> set as \<and> sl \<and> ends_after ps' \<and> codec_ok c \<and> safe_cls c \<and>
          (needs_align c \<longrightarrow> aligned_off sl off) \<and>
          agree ks as cl (i + 1, None, sl, vars, a # seen) ps' us
      | _ \<Rightarrow> False)"
| "agree ks as cl (i, off, sl, vars, seen) ps (U_list_tlv a # us) \<longleftrightarrow>
     (case ps of
        P_list b # ps' \<Rightarrow>
          a = b \<and> a \<in> set as \<and> sl \<and> ends_after ps' \<and>
          agree ks as cl (i + 1, None, sl, vars, a # seen) ps' us
      | _ \<Rightarrow> False)"
| "agree ks as cl (i, off, sl, vars, seen) ps (U_list_of a v c # us) \<longleftrightarrow>
     (case ps of
        P_list b # P_len_last j # ps' \<Rightarrow>
          a = b \<and> a \<in> set as \<and> codec_ok c \<and> safe_cls c \<and> map_of vars v = Some (Len_at j) \<and>
          agree ks as cl (i + 1, None, sl, vars, a # seen) ps' us
      | _ \<Rightarrow> False)"
| "agree ks as cl (i, off, sl, vars, seen) ps (U_obj a c # us) \<longleftrightarrow>
     (case ps of
        P_obj b # ps' \<Rightarrow>
          a = b \<and> a \<in> set as \<and> codec_ok c \<and> (needs_align c \<longrightarrow> aligned_off sl off) \<and>
          agree ks as cl (i + 1, None, sl, vars, a # seen) ps' us
      | _ \<Rightarrow> False)"
| "agree ks as cl (i, off, sl, vars, seen) ps (U_read_all a # us) \<longleftrightarrow>
     (case ps of
        P_raw b # ps' \<Rightarrow>
          a = b \<and> a \<in> set as \<and> sl \<and> (ends_after ps' \<or> pads_after ps' \<and> off \<noteq> None) \<and>
          agree ks as cl (i + 1, None, sl, vars, a # seen) ps' us
      | _ \<Rightarrow> False)"
| "codec_ok (Cls nm ks ini ps disp us eqs) \<longleftrightarrow>
     distinct (map fst ini) \<and> eqs = map fst ini \<and> patch_ok [] 0 ps \<and>
     agree ks (map fst ini) (closing ps) (0, Some 0, False, [], []) ps us \<and>
     (case disp of
        None \<Rightarrow> True
      | Some (f, off, cs) \<Rightarrow>
          is_int_fmt f \<and> distinct (map fst cs) \<and>
          (case field_at off f ps of Some a \<Rightarrow> a \<in> fst ` set ini | None \<Rightarrow> False) \<and>
          codecs_ok f off cs)"
| "codecs_ok f off [] \<longleftrightarrow> True"
| "codecs_ok f off ((k, c) # cs) \<longleftrightarrow> codec_ok c \<and> writes_const f off k c \<and> codecs_ok f off cs"


section \<open>What pack writes\<close>

text \<open>
  The strings \<open>K\<close> in the list \<^verbatim>\<open>packed\<close> at the end, described by the lines: the
  \<open>i\<close>-th is what its line appends, and the patched ones hold the lengths.
\<close>

fun packs :: "cls \<Rightarrow> (pyname \<times> lval \<times> bytes res) list \<Rightarrow> bytes list \<Rightarrow> nat \<Rightarrow> nat \<Rightarrow> pstmt list \<Rightarrow> bool" where
  "packs c env K i l [] \<longleftrightarrow> length K = i"
| "packs c env K i l (P_placeholder # ps) \<longleftrightarrow>
     i < length K \<and> length (K ! i) = 2 \<and> packs c env K (i + 1) l ps"
| "packs c env K i l (P_len_last j # ps) \<longleftrightarrow>
     0 < i \<and> length (K ! (i - 1)) < 65536 \<and> K ! j = be_bytes 2 (length (K ! (i - 1))) \<and> packs c env K i l ps"
| "packs c env K i l (P_length # ps) \<longleftrightarrow> packs c env K i (length (concat (take i K))) ps"
| "packs c env K i l (P_length_add # ps) \<longleftrightarrow> 0 < i \<and> packs c env K i (l + length (K ! (i - 1))) ps"
| "packs c env K i l (P_set_len j # ps) \<longleftrightarrow> l < 65536 \<and> K ! j = be_bytes 2 l \<and> packs c env K i l ps"
| "packs c env K i l (s # ps) \<longleftrightarrow>
     i < length K \<and> emitted c env l s = Some (Inr (K ! i)) \<and> packs c env K (i + 1) l ps"

text \<open>What later lines leave of the list: all lengths, and all strings but the open placeholders.\<close>

definition keeps :: "nat list \<Rightarrow> bytes list \<Rightarrow> bytes list \<Rightarrow> bool" where
  "keeps H P K \<longleftrightarrow>
     length P \<le> length K \<and> (\<forall>j < length P. length (K ! j) = length (P ! j)) \<and>
     (\<forall>j < length P. j \<notin> set H \<longrightarrow> K ! j = P ! j)"

definition open_at :: "nat list \<Rightarrow> bytes list \<Rightarrow> bool" where
  "open_at H P \<longleftrightarrow> (\<forall>j\<in>set H. j < length P \<and> length (P ! j) = 2)"

lemma keeps_snoc: "keeps H (P @ [b]) K \<Longrightarrow> keeps H P K"
  by (auto simp: keeps_def nth_append split: if_splits)

lemma keeps_snoc_nth:
  "keeps H (P @ [b]) K \<Longrightarrow> open_at H P \<Longrightarrow> length P < length K \<and> K ! length P = b"
  by (auto simp: keeps_def open_at_def dest: spec [of _ "length P"])

lemma keeps_open: "keeps (length P # H) (P @ [b]) K \<Longrightarrow> keeps H P K"
  by (auto simp: keeps_def nth_append split: if_splits)

lemma keeps_update:
  assumes "keeps (removeAll j H) (P [j := b]) K" and "j \<in> set H" "open_at H P" "length b = 2"
  shows "keeps H P K" and "K ! j = b"
proof -
  have j: "j < length P" "length (P ! j) = 2" using assms(2,3) by (auto simp: open_at_def)
  show "K ! j = b" using assms(1) j by (auto simp: keeps_def nth_list_update)
  show "keeps H P K" using assms(1) j assms(4) \<open>K ! j = b\<close> assms(2)
    by (auto simp: keeps_def nth_list_update split: if_splits)
qed

lemma open_at_update: "open_at H P \<Longrightarrow> open_at (removeAll j H) (P [j := b])"
  by (auto simp: open_at_def nth_list_update)

lemma open_at_snoc: "open_at H P \<Longrightarrow> open_at H (P @ [b])"
  by (auto simp: open_at_def nth_append)

lemma keeps_length_concat:
  assumes "keeps H P K"
  shows "length (concat (take (length P) K)) = sum_list (map length P)"
proof -
  have "map length (take (length P) K) = map length P"
    using assms by (intro nth_equalityI) (auto simp: keeps_def)
  then show ?thesis by (simp add: length_concat)
qed

lemma keeps_last:
  "keeps H P K \<Longrightarrow> P \<noteq> [] \<Longrightarrow> length (K ! (length P - 1)) = length (List.last P)"
  by (simp add: keeps_def last_conv_nth)

lemma emitted_facts:
  assumes "emitted c env l s = Some r" and "s \<noteq> P_placeholder"
  shows "patch_ok H i (s # ps) = patch_ok H (i + 1) ps"
    and "packs c env K i l (s # ps) = (i < length K \<and> r = Inr (K ! i) \<and> packs c env K (i + 1) l ps)"
    and "pack_stmt c env s (P, l) = rbind r (\<lambda>bs. Inr (P @ [bs], l))"
  using assms by (cases s; auto)+

lemma pack_stmts_packs:
  assumes "py_for (pack_stmt c env) ps (P, l) = Inr (K, l')" and "patch_ok H (length P) ps" and "open_at H P"
  shows "packs c env K (length P) l ps \<and> keeps H P K"
  using assms
proof (induction ps arbitrary: P l H)
  case Nil
  then show ?case by (simp add: keeps_def)
next
  case (Cons s ps)
  have emit: ?case if s: "emitted c env l s = Some r" "s \<noteq> P_placeholder" for r
  proof -
    obtain bs where bs: "r = Inr bs" "py_for (pack_stmt c env) ps (P @ [bs], l) = Inr (K, l')"
      using Cons.prems(1) emitted_facts(3) [OF s] by (cases r) simp_all
    have "packs c env K (length (P @ [bs])) l ps \<and> keeps H (P @ [bs]) K"
      using Cons.prems(2,3) by (intro Cons.IH [OF bs(2)]) (simp_all add: emitted_facts(1) [OF s] open_at_snoc)
    then show ?thesis
      using keeps_snoc [of H P bs K] keeps_snoc_nth [of H P bs K] Cons.prems(3)
      by (simp add: emitted_facts(2) [OF s] bs(1))
  qed
  show ?case
  proof (cases s)
    case P_placeholder
    have "packs c env K (length (P @ [be_bytes 2 0])) l ps \<and> keeps (length P # H) (P @ [be_bytes 2 0]) K"
      using Cons.prems by (intro Cons.IH) (auto simp: P_placeholder open_at_def nth_append)
    then show ?thesis using keeps_open [of P H "be_bytes 2 0" K]
      by (auto simp: P_placeholder keeps_def nth_append dest: spec [of _ "length P"])
  next
    case (P_len_last j)
    let ?b = "be_bytes 2 (length (List.last P))"
    have P: "P \<noteq> []" "length (List.last P) < 65536" "py_for (pack_stmt c env) ps (P [j := ?b], l) = Inr (K, l')"
      using Cons.prems(1) by (auto simp: P_len_last set_packed_def split: if_splits)
    have j: "j \<in> set H" using Cons.prems(2) by (simp add: P_len_last)
    have "packs c env K (length (P [j := ?b])) l ps \<and> keeps (removeAll j H) (P [j := ?b]) K"
      using Cons.prems by (intro Cons.IH [OF P(3)]) (simp_all add: P_len_last open_at_update)
    then show ?thesis
      using keeps_update [OF _ j Cons.prems(3), of ?b K] keeps_last [of H P K] P(1,2) by (simp add: P_len_last)
  next
    case P_length
    then show ?thesis using Cons.IH [of P "sum_list (map length P)" H] Cons.prems keeps_length_concat [of H P K]
      by simp
  next
    case P_length_add
    have P: "P \<noteq> []" using Cons.prems(1) by (auto simp: P_length_add split: if_splits)
    then show ?thesis using Cons.IH [of P "l + length (List.last P)" H] Cons.prems keeps_last [of H P K]
      by (simp add: P_length_add)
  next
    case (P_set_len j)
    let ?b = "be_bytes 2 l"
    have P: "l < 65536" "py_for (pack_stmt c env) ps (P [j := ?b], l) = Inr (K, l')"
      using Cons.prems(1) by (auto simp: P_set_len set_packed_def split: if_splits)
    have j: "j \<in> set H" using Cons.prems(2) by (simp add: P_set_len)
    have "packs c env K (length (P [j := ?b])) l ps \<and> keeps (removeAll j H) (P [j := ?b]) K"
      using Cons.prems by (intro Cons.IH [OF P(2)]) (simp_all add: P_set_len open_at_update)
    then show ?thesis
      using keeps_update [OF _ j Cons.prems(3), of ?b K] P(1) by (simp add: P_set_len)
  qed (use emit in simp_all)
qed

lemma pack_body_packs:
  assumes "pack_body c env = Inr bs" and "patch_ok [] 0 (cls_pack c)"
  obtains K where "packs c env K 0 0 (cls_pack c)" and "bs = concat K"
proof -
  obtain K l where K: "py_for (pack_stmt c env) (cls_pack c) ([], 0) = Inr (K, l)" "bs = concat K"
    using assms(1) by (auto simp: pack_body_def rbind_eq_Inr)
  have "packs c env K (length []) 0 (cls_pack c)"
    using pack_stmts_packs [OF K(1), of "[]"] assms(2) by (simp add: open_at_def)
  then show ?thesis using that K(2) by simp
qed

text \<open>The length of the object.\<close>

lemma packs_last_pad:
  "packs c env K i l ps \<Longrightarrow> ps \<noteq> [] \<Longrightarrow> List.last ps = P_pad_to n \<Longrightarrow> i < length K"
proof (induction ps arbitrary: i l)
  case (Cons s ps)
  then show ?case by (cases s; cases "ps = []"; fastforce dest: Suc_lessD)
qed simp

lemma set_len_of_eq [simp]: "set_len_of s = Some m \<longleftrightarrow> s = P_set_len m"
  by (cases s) auto

lemma closing_tail_cases:
  assumes "closing_tail ps = Some (m, padded)"
  obtains (plain) "ps = [P_set_len m]" "\<not> padded"
    | (after) "ps = [P_set_len m, P_pad_to 8]" "padded"
    | (inside) "ps = [P_pad_to 8, P_length_add, P_set_len m]" "\<not> padded"
  using assms
  by (auto simp: closing_tail_def length_Suc_conv numeral_2_eq_2 numeral_3_eq_3 One_nat_def split: if_splits)

lemma closing_length:
  assumes "packs c env K i l ps" and "closing ps = Some (m, padded)"
  shows "\<exists>L < 65536. K ! m = be_bytes 2 L \<and> L = length (concat (if padded then butlast K else K)) \<and>
    (padded \<longrightarrow> K \<noteq> [] \<and> List.last K = pad_to 8 L)"
  using assms
proof (induction ps arbitrary: i l)
  case (Cons s ps)
  show ?case
  proof (cases "s = P_length")
    case True
    then have "closing_tail ps = Some (m, padded)" using Cons.prems(2) by simp
    then show ?thesis
    proof (cases rule: closing_tail_cases)
      case plain
      then show ?thesis using Cons.prems(1) True by (auto intro!: exI [of _ "length (concat K)"])
    next
      case after
      then have "length K = i + 1" "K ! i = pad_to 8 (length (concat (take i K)))"
          "K ! m = be_bytes 2 (length (concat (take i K)))" "length (concat (take i K)) < 65536"
        using Cons.prems(1) True by auto
      moreover then have "List.last K = K ! i" by (simp add: last_conv_nth flip: length_greater_0_conv)
      ultimately show ?thesis using after by (auto simp: butlast_conv_take)
    next
      case inside
      then have "length K = i + 1" "K ! m = be_bytes 2 (length (concat (take i K)) + length (K ! i))"
          "length (concat (take i K)) + length (K ! i) < 65536"
        using Cons.prems(1) True by auto
      moreover then have "concat K = concat (take i K) @ K ! i"
        using arg_cong [OF take_Suc_conv_app_nth [of i K], of concat] by simp
      ultimately show ?thesis using inside by simp
    qed
  next
    case False
    then have "\<exists>i l. packs c env K i l ps" using Cons.prems(1) by (cases s) auto
    then show ?thesis using Cons.IH Cons.prems(2) False by auto
  qed
qed simp

end
