(* ===== verification/LoxiLaws.thy ===== *)
theory LoxiLaws
  imports LoxiRoundtrip
begin

text \<open>
  The round trip for every class that passes the check: \<open>typed\<close> says which objects a class can
  represent, and \<open>unpack_pack\<close> that \<^verbatim>\<open>unpack\<close> reads back what \<^verbatim>\<open>pack\<close> of such
  an object has written.
\<close>

section \<open>Typed objects\<close>

text \<open>An object of a superclass itself has a subtype that is in no dictionary.\<close>

definition unregistered :: "cls \<Rightarrow> (pyname \<times> lval) list \<Rightarrow> bool" where
  "unregistered c as \<longleftrightarrow>
     (case cls_dispatch c of
        None \<Rightarrow> True
      | Some (f, off, cs) \<Rightarrow>
          (case field_at off f (cls_pack c) of
             None \<Rightarrow> False
           | Some a \<Rightarrow> (case map_of as a of Some (Num n) \<Rightarrow> nat n \<notin> fst ` set cs | _ \<Rightarrow> False)))"

text \<open>
  The data at the end of an object that is padded inside its length has to fill the last eight
  bytes itself: \<^verbatim>\<open>unpack\<close> cannot tell padding from data.
\<close>

fun raw_fits :: "nat \<Rightarrow> nat \<Rightarrow> pstmt list \<Rightarrow> bool" where
  "raw_fits off n [] \<longleftrightarrow> True"
| "raw_fits off n (P_field a f # ps) \<longleftrightarrow> raw_fits (off + fmt_size f) n ps"
| "raw_fits off n (P_pad k # ps) \<longleftrightarrow> raw_fits (off + k) n ps"
| "raw_fits off n (P_placeholder # ps) \<longleftrightarrow> raw_fits (off + 2) n ps"
| "raw_fits off n (P_raw a # ps) \<longleftrightarrow> (pads_after ps \<longrightarrow> 8 dvd off + n)"
| "raw_fits off n (s # ps) \<longleftrightarrow> raw_fits off n ps"

definition aligned_size :: "lval \<Rightarrow> bool" where
  "aligned_size v \<longleftrightarrow> (case pack v of Inr bs \<Rightarrow> 8 dvd length bs | Inl _ \<Rightarrow> False)"

fun is_obj :: "lval \<Rightarrow> bool" where
  "is_obj (Obj c as) \<longleftrightarrow> True"
| "is_obj v \<longleftrightarrow> False"

fun typed_stmt ::
    "cls \<Rightarrow> nat \<Rightarrow> cls \<Rightarrow> (pyname \<times> lval \<times> (nat \<Rightarrow> cls \<Rightarrow> bool)) list \<Rightarrow> ustmt \<Rightarrow> bool" where
  "typed_stmt e d c env (U_field a f) \<longleftrightarrow>
     (case map_of env a of Some (v, _) \<Rightarrow> val_ok f v | None \<Rightarrow> False)"
| "typed_stmt e d c env (U_list a c') \<longleftrightarrow>
     (case map_of env a of Some (PyList vs, t) \<Rightarrow> t d c' | _ \<Rightarrow> False)"
| "typed_stmt e d c env (U_list_of a v c') \<longleftrightarrow>
     (case map_of env a of Some (PyList vs, t) \<Rightarrow> t d c' | _ \<Rightarrow> False)"
| "typed_stmt e d c env (U_list_tlv a) \<longleftrightarrow>
     (case map_of env a of Some (PyList vs, t) \<Rightarrow> vs = [] \<or> 0 < d \<and> t (d - 1) e | _ \<Rightarrow> False)"
| "typed_stmt e d c env (U_obj a c') \<longleftrightarrow>
     (case map_of env a of Some (v, t) \<Rightarrow> is_obj v \<and> t d c' | _ \<Rightarrow> False)"
| "typed_stmt e d c env (U_read_all a) \<longleftrightarrow>
     (case map_of env a of Some (Str bs, _) \<Rightarrow> raw_fits 0 (length bs) (cls_pack c) | _ \<Rightarrow> False)"
| "typed_stmt e d c env u \<longleftrightarrow> True"

text \<open>
  \<open>typed v e d c\<close>: \<open>v\<close> is an object of \<open>c\<close> or of one of its subtypes, with TLVs of the
  class \<open>e\<close> nested at most \<open>d\<close> deep; for a list, all members are.
\<close>

fun typed :: "lval \<Rightarrow> cls \<Rightarrow> nat \<Rightarrow> cls \<Rightarrow> bool" where
  "typed (Obj c as) e d c' \<longleftrightarrow>
     c \<in> set (classes c') \<and> map fst as = map fst (cls_init c) \<and> unregistered c as \<and>
     list_all (typed_stmt e d c (map (\<lambda>(a, v). (a, v, typed v e)) as)) (cls_unpack c)"
| "typed (PyList vs) e d c' \<longleftrightarrow>
     list_all (\<lambda>v. is_obj v \<and> typed v e d c' \<and> (needs_align c' \<longrightarrow> aligned_size v)) vs"
| "typed v e d c' \<longleftrightarrow> False"


section \<open>Lists\<close>

lemma advance_inject: "advance m r = advance n r \<longleftrightarrow> m = n"
proof
  assume "advance m r = advance n r"
  then have "rd_offset (advance m r) = rd_offset (advance n r)" by simp
  then show "m = n" by simp
qed simp

text \<open>A deserializer that reads back one value.\<close>

definition restores :: "bool \<Rightarrow> deserializer \<Rightarrow> lval \<Rightarrow> bytes \<Rightarrow> bool" where
  "restores al f v bs \<longleftrightarrow>
     (\<forall>r rest. rd_valid r \<longrightarrow> remaining r = bs @ rest \<longrightarrow> (al \<longrightarrow> 8 dvd rd_offset r) \<longrightarrow>
        f r = Inr (v, advance (length bs) r))"

lemma unpack_list_fuel_restores:
  assumes "list_all2 (\<lambda>v bs. restores al f v bs \<and> (al \<longrightarrow> 8 dvd length bs)) vs bss"
    and "\<And>r. rd_valid r \<Longrightarrow> parsed 1 r (f r)"
    and "rd_valid r" "remaining r = concat bss" "al \<longrightarrow> 8 dvd rd_offset r" "length (remaining r) \<le> n"
  shows "unpack_list_fuel n f r = Inr (vs, advance (length (concat bss)) r)"
  using assms(1,3-)
proof (induction vs bss arbitrary: r n rule: list_all2_induct)
  case Nil
  then show ?case by (cases n) (simp_all add: rd_is_empty_iff)
next
  case (Cons v vs bs bss)
  have f: "f r = Inr (v, advance (length bs) r)"
    using Cons.hyps(1) Cons.prems by (auto simp: restores_def)
  obtain k where k: "1 \<le> k" "advance (length bs) r = advance k r"
    using assms(2) [OF Cons.prems(1)] by (auto simp: f parsed_def)
  then have bs: "bs \<noteq> []" by (auto simp: advance_inject)
  then have ne: "\<not> rd_is_empty r" using Cons.prems by (simp add: rd_is_empty_iff)
  obtain n' where n': "n = Suc n'" using Cons.prems(2,4) bs by (cases n) auto
  have "unpack_list_fuel n' f (advance (length bs) r) =
      Inr (vs, advance (length (concat bss)) (advance (length bs) r))"
  proof (rule Cons.IH)
    show "rd_valid (advance (length bs) r)" using Cons.prems(1,2) by (simp add: rd_valid_advance)
    show "al \<longrightarrow> 8 dvd rd_offset (advance (length bs) r)" using Cons.hyps(1) Cons.prems(3) by simp
    show "length (remaining (advance (length bs) r)) \<le> n'"
      using Cons.prems(2,4) bs by (cases bs) (simp_all add: n')
  qed (simp add: Cons.prems)
  then show ?case using ne by (simp add: n' f)
qed

lemma unpack_list_restores:
  assumes "list_all2 (\<lambda>v bs. restores al f v bs \<and> (al \<longrightarrow> 8 dvd length bs)) vs bss"
    and "\<And>r. rd_valid r \<Longrightarrow> parsed 1 r (f r)"
    and "rd_valid r" "remaining r = concat bss" "al \<longrightarrow> 8 dvd rd_offset r"
  shows "unpack_list f r = Inr (vs, advance (length (concat bss)) r)"
  unfolding unpack_list_def
  using assms length_remaining [OF assms(3)] by (intro unpack_list_fuel_restores [where al = al]) simp_all

lemma unpack_list_fuel_empty: "rd_is_empty r \<Longrightarrow> unpack_list_fuel n f r = Inr ([], r)"
  by (cases n) simp_all

lemma pack_PyList:
  "pack (PyList vs) = Inr bs \<Longrightarrow> \<exists>bss. bs = concat bss \<and> list_all2 (\<lambda>v bs. is_obj v \<and> pack v = Inr bs) vs bss"
proof (induction vs arbitrary: bs)
  case (Cons v vs)
  let ?f = "\<lambda>(v, packed). case v of Obj _ _ \<Rightarrow> packed | _ \<Rightarrow> Inl AttributeError"
  obtain b bss where b: "?f (v, pack v) = Inr b" and bss: "py_map ?f (map (\<lambda>v. (v, pack v)) vs) = Inr bss"
      and bs: "bs = b @ concat bss"
    using Cons.prems by (auto simp: rbind_eq_Inr split: sum.splits)
  have "is_obj v \<and> pack v = Inr b" using b by (cases v) simp_all
  moreover obtain bss' where "concat bss = concat bss'" "list_all2 (\<lambda>v bs. is_obj v \<and> pack v = Inr bs) vs bss'"
    using Cons.IH [of "concat bss"] bss by auto
  ultimately show ?case using bs by (intro exI [of _ "b # bss'"]) simp
qed simp


section \<open>The reader along the strings\<close>

lemma packs_le: "packs c env K i l ps \<Longrightarrow> i \<le> length K"
proof (induction ps arbitrary: i l)
  case (Cons s ps)
  then show ?case by (cases s) (auto dest: Suc_leD)
qed simp

text \<open>The strings that the length of the object counts.\<close>

definition body_of :: "(nat \<times> bool) option \<Rightarrow> bytes list \<Rightarrow> bytes list" where
  "body_of cl K = (case cl of Some (m, True) \<Rightarrow> butlast K | _ \<Rightarrow> K)"

lemma body_of_prefix: "\<exists>tl. concat K = concat (body_of cl K) @ tl"
  by (cases K rule: rev_cases) (auto simp: body_of_def split: option.split bool.split)

lemma closing_padded_last:
  "closing ps = Some (m, True) \<Longrightarrow> ps \<noteq> [] \<and> List.last ps = P_pad_to 8"
proof (induction ps)
  case (Cons s ps)
  then show ?case by (auto split: if_splits elim: closing_tail_cases)
qed simp

lemma in_body:
  assumes "packs c env K (i + 1) l ps" "i < length K" and "closing ps = cl"
  shows "i < length (body_of cl K)" and "body_of cl K ! i = K ! i"
proof -
  show i: "i < length (body_of cl K)"
    using assms closing_padded_last [of ps] packs_last_pad [OF assms(1), of 8]
    by (auto simp: body_of_def split: option.split bool.split)
  then show "body_of cl K ! i = K ! i"
    by (auto simp: body_of_def nth_butlast split: option.splits bool.splits)
qed

text \<open>
  The reader has consumed the first \<open>i\<close> strings.  Until it is sliced it is the reader \<open>r0\<close>
  of the caller, then a reader of the body, with offsets that count from the start of the object.
\<close>

definition at_string ::
    "bytes list \<Rightarrow> (nat \<times> bool) option \<Rightarrow> ofreader \<Rightarrow> bool \<Rightarrow> nat \<Rightarrow> uvars \<Rightarrow> bool" where
  "at_string K cl r0 sl i s \<longleftrightarrow>
     (let pos = length (concat (take i K)) in
      if sl then
        uv_orig s = Some (advance (length (concat (body_of cl K))) r0) \<and> rd_valid (uv_reader s) \<and>
        rd_offset (uv_reader s) = pos \<and> remaining (uv_reader s) = concat (drop i (body_of cl K))
      else uv_orig s = None \<and> uv_reader s = advance pos r0)"

lemma concat_take_Suc:
  "i < length K \<Longrightarrow> concat (take (Suc i) K) = concat (take i K) @ K ! i"
  by (simp add: take_Suc_conv_app_nth)

lemma concat_drop_Suc:
  "i < length K \<Longrightarrow> concat (drop i K) = K ! i @ concat (drop (Suc i) K)"
  by (simp add: Cons_nth_drop_Suc [symmetric])

lemma drop_concat_take: "drop (length (concat (take i K))) (concat K) = concat (drop i K)"
proof -
  have "concat K = concat (take i K) @ concat (drop i K)" by (simp flip: concat_append)
  then show ?thesis by (metis append_eq_conv_conj)
qed

lemma length_concat_take: "length (concat (take i K)) \<le> length (concat K)"
proof -
  have "concat K = concat (take i K) @ concat (drop i K)" by (simp flip: concat_append)
  then show ?thesis by (metis le_add1 length_append)
qed

text \<open>The next string is at the front, and consuming it leads to the one after.\<close>

lemma at_string_next:
  assumes s: "at_string K cl r0 sl i s" and r0: "rd_valid r0" "remaining r0 = concat K @ rest"
    and i: "i < length (body_of cl K)" "body_of cl K ! i = K ! i"
  shows "rd_valid (uv_reader s)" and "\<exists>rest'. remaining (uv_reader s) = K ! i @ rest'"
    and "uv_reader s' = advance (length (K ! i)) (uv_reader s) \<Longrightarrow> uv_orig s' = uv_orig s \<Longrightarrow>
      at_string K cl r0 sl (i + 1) s'"
proof -
  have len: "length (body_of cl K) \<le> length K"
    by (auto simp: body_of_def split: option.split bool.split)
  then have iK: "i < length K" using i by simp
  have rem: "remaining (uv_reader s) = K ! i @ concat (drop (Suc i) K) @ rest" if "\<not> sl"
    using s that r0(2) length_concat_take [of i K]
    by (simp add: at_string_def drop_concat_take concat_drop_Suc [OF iK])
  have rem': "remaining (uv_reader s) = K ! i @ concat (drop (Suc i) (body_of cl K))" if sl
    using s that concat_drop_Suc [OF i(1)] i(2) by (simp add: at_string_def Let_def)
  show "\<exists>rest'. remaining (uv_reader s) = K ! i @ rest'" using rem rem' by (cases sl) auto
  show valid: "rd_valid (uv_reader s)"
    using s r0 length_concat_take [of i K]
    by (cases sl) (auto simp: at_string_def Let_def intro!: rd_valid_advance)
  assume s': "uv_reader s' = advance (length (K ! i)) (uv_reader s)" "uv_orig s' = uv_orig s"
  have "rd_valid (uv_reader s')" if sl
    using valid rem' [OF that] by (simp add: s' rd_valid_advance)
  moreover have "remaining (uv_reader s') = concat (drop (Suc i) (body_of cl K))" if sl
    using s'(1) rem' [OF that] by simp
  ultimately show "at_string K cl r0 sl (i + 1) s'"
    using s s' concat_take_Suc [OF iK] by (cases sl) (simp_all add: at_string_def Let_def)
qed


section \<open>The invariant of a comparison\<close>

definition pack_env :: "(pyname \<times> lval) list \<Rightarrow> (pyname \<times> lval \<times> bytes res) list" where
  "pack_env as = map (\<lambda>(a, v). (a, v, pack v)) as"

lemma map_of_env: "map_of (map (\<lambda>(a, v). (a, v, g v)) as) a = map_option (\<lambda>v. (v, g v)) (map_of as a)"
  by (induction as) auto

lemma attr_of_instance:
  "map_of as a = Some v \<Longrightarrow> attr_of c (pack_env as) a = Inr (v, pack v)"
  by (simp add: attr_of_def pack_env_def map_of_env)

lemma attr_of_class:
  "a \<notin> fst ` set as \<Longrightarrow> map_of (cls_consts c) a = Some k \<Longrightarrow>
   attr_of c (pack_env as) a = Inr (Num (int k), Inl AttributeError)"
  by (simp add: attr_of_def pack_env_def map_of_env map_of_eq_None_iff [THEN iffD2])

text \<open>
  After the lines compared so far the variables of \<^verbatim>\<open>unpack\<close> are as the strings \<open>K\<close> and
  the attributes \<open>as\<close> of the packed object say.
\<close>

fun sim :: "(pyname \<times> lval) list \<Rightarrow> bytes list \<Rightarrow> (nat \<times> bool) option \<Rightarrow> ofreader \<Rightarrow> cmp \<Rightarrow> uvars \<Rightarrow> bool" where
  "sim as K cl r0 (i, off, sl, vars, seen) s \<longleftrightarrow>
     at_string K cl r0 sl i s \<and> (\<forall>n. off = Some n \<longrightarrow> n = length (concat (take i K))) \<and>
     (\<forall>v k. map_of vars v = Some (Known k) \<longrightarrow> map_of (uv_locals s) v = Some k) \<and>
     (\<forall>v j. map_of vars v = Some (Len_at j) \<longrightarrow> map_of (uv_locals s) v = Some (be_nat (K ! j))) \<and>
     map fst (uv_attrs s) = map fst as \<and> (\<forall>a\<in>set seen. map_of (uv_attrs s) a = map_of as a)"

text \<open>The rest of the comparison.\<close>

definition in_step ::
    "cls \<Rightarrow> nat \<Rightarrow> cls \<Rightarrow> (pyname \<times> lval) list \<Rightarrow> bytes list \<Rightarrow> ofreader \<Rightarrow> cmp \<Rightarrow> pstmt list \<Rightarrow> ustmt list \<Rightarrow>
     uvars \<Rightarrow> bool" where
  "in_step e d c as K r0 t ps us s \<longleftrightarrow>
     (\<exists>l. packs c (pack_env as) K (fst t) l ps) \<and> closing ps = closing (cls_pack c) \<and>
     agree (cls_consts c) (map fst as) (closing (cls_pack c)) t ps us \<and>
     list_all (typed_stmt e d c (map (\<lambda>(a, v). (a, v, typed v e)) as)) us \<and>
     (\<forall>k n. fst (snd t) = Some k \<longrightarrow> raw_fits 0 n (cls_pack c) \<longrightarrow> raw_fits k n ps) \<and>
     sim as K (closing (cls_pack c)) r0 t s"

definition source_ok :: "bytes list \<Rightarrow> ofreader \<Rightarrow> bool" where
  "source_ok K r0 \<longleftrightarrow> rd_valid r0 \<and> (\<exists>rest. remaining r0 = concat K @ rest)"

lemma map_of_od_set: "map_of (od_set a v as) = (map_of as)(a \<mapsto> v)"
  using od_get_set [of _ a v as] by (auto simp: od_get_def fun_eq_iff)

lemma map_fst_od_set: "a \<in> fst ` set as \<Longrightarrow> map fst (od_set a v as) = map fst as"
  by (induction as) force+

text \<open>Consuming the next string, without and with an assignment to an attribute.\<close>

lemma sim_read:
  assumes "sim as K cl r0 (i, off, sl, vars, seen) s" "source_ok K r0"
    and "i < length (body_of cl K)" "body_of cl K ! i = K ! i"
    and "off' = None \<or> off' = plus_off off (length (K ! i))"
    and "uv_reader s' = advance (length (K ! i)) (uv_reader s)" "uv_orig s' = uv_orig s"
    and "uv_locals s' = uv_locals s" "uv_attrs s' = uv_attrs s"
  shows "sim as K cl r0 (i + 1, off', sl, vars, seen) s'"
proof -
  obtain rest where r0: "rd_valid r0" "remaining r0 = concat K @ rest" using assms(2) by (auto simp: source_ok_def)
  have "at_string K cl r0 sl (i + 1) s'"
    using at_string_next(3) [OF _ r0 assms(3,4) assms(6,7)] assms(1) by simp
  moreover have "i < length K"
    using assms(3) by (auto simp: body_of_def split: option.splits bool.splits)
  ultimately show ?thesis
    using assms(1,5,8,9) concat_take_Suc [of i K] by (cases off) (auto simp: plus_off_def)
qed

lemma sim_set:
  assumes "sim as K cl r0 (i, off, sl, vars, seen) s" "source_ok K r0"
    and "i < length (body_of cl K)" "body_of cl K ! i = K ! i"
    and "off' = None \<or> off' = plus_off off (length (K ! i))"
    and "map_of as a = Some v"
  shows "sim as K cl r0 (i + 1, off', sl, vars, a # seen)
    (uv_set a (v, advance (length (K ! i)) (uv_reader s)) s)"
proof -
  let ?s = "s\<lparr>uv_reader := advance (length (K ! i)) (uv_reader s)\<rparr>"
  have "sim as K cl r0 (i + 1, off', sl, vars, seen) ?s"
    by (rule sim_read [OF assms(1-5)]) simp_all
  moreover have "a \<in> fst ` set (uv_attrs s)"
  proof -
    have "a \<in> set (map fst as)" using assms(6) by (metis map_of_eq_None_iff option.distinct(1) list.set_map)
    then show ?thesis using assms(1) by (metis sim.simps list.set_map)
  qed
  ultimately show ?thesis
    using assms(6) by (auto simp: map_of_od_set map_fst_od_set at_string_def Let_def)
qed

lemma pack_int_const:
  assumes "is_int_fmt f" and "pack_fmt f (Num (int k)) = Inr bs"
  shows "length bs = fmt_size f" and "be_nat bs = k"
proof -
  have "pack_uint (fmt_size f) (Num (int k)) = Inr bs" using assms by auto
  from pack_uint_roundtrip [OF this] show "length bs = fmt_size f" "be_nat bs = k" by auto
qed

lemma in_step_cons:
  assumes "in_step e d c as K r0 (i, off, sl, vars, seen) (p # ps) us s" "source_ok K r0" "p \<noteq> P_length"
    and "i < length K" "packs c (pack_env as) K (i + 1) l ps"
  shows "closing ps = closing (cls_pack c)"
    and "i < length (body_of (closing (cls_pack c)) K)" "body_of (closing (cls_pack c)) K ! i = K ! i"
    and "rd_valid (uv_reader s)" "\<exists>rest. remaining (uv_reader s) = K ! i @ rest"
proof -
  obtain rest where r0: "rd_valid r0" "remaining r0 = concat K @ rest"
    using assms(2) by (auto simp: source_ok_def)
  show cl: "closing ps = closing (cls_pack c)" using assms(1,3) by (simp add: in_step_def)
  note body = in_body [OF assms(5,4) cl]
  show "i < length (body_of (closing (cls_pack c)) K)" "body_of (closing (cls_pack c)) K ! i = K ! i"
    by (fact body)+
  have "at_string K (closing (cls_pack c)) r0 sl i s" using assms(1) by (simp add: in_step_def)
  from at_string_next(1,2) [OF this r0 body]
  show "rd_valid (uv_reader s)" "\<exists>rest. remaining (uv_reader s) = K ! i @ rest" by simp_all
qed

lemma in_step_sim: "in_step e d c as K r0 t ps us s \<Longrightarrow> sim as K (closing (cls_pack c)) r0 t s"
  by (simp add: in_step_def)

lemma in_step_agree:
  "in_step e d c as K r0 t ps us s \<Longrightarrow> agree (cls_consts c) (map fst as) (closing (cls_pack c)) t ps us"
  by (simp add: in_step_def)

lemma in_step_packs: "in_step e d c as K r0 (i, x) ps us s \<Longrightarrow> \<exists>l. packs c (pack_env as) K i l ps"
  by (simp add: in_step_def)

lemma in_step_raw:
  "in_step e d c as K r0 (i, Some k, x) ps us s \<Longrightarrow> raw_fits 0 n (cls_pack c) \<Longrightarrow> raw_fits k n ps"
  by (auto simp: in_step_def simp del: sim.simps agree.simps)

text \<open>From one line to the next.\<close>

lemma in_step_step:
  assumes "in_step e d c as K r0 (i, off, sl, vars, seen) (p # ps) (u # us) s" "p \<noteq> P_length"
    and "packs c (pack_env as) K (i + 1) l ps"
    and "agree (cls_consts c) (map fst as) (closing (cls_pack c)) (i + 1, off', sl', vars', seen') ps us"
    and "\<And>k' n. off' = Some k' \<Longrightarrow> \<exists>k. off = Some k \<and> raw_fits k n (p # ps) = raw_fits k' n ps"
    and "sim as K (closing (cls_pack c)) r0 (i + 1, off', sl', vars', seen') s'"
  shows "in_step e d c as K r0 (i + 1, off', sl', vars', seen') ps us s'"
  using assms by (fastforce simp: in_step_def simp del: sim.simps agree.simps)

lemma in_step_read_local:
  assumes lk: "in_step e d c as K r0 (i, off, sl, vars, seen) (p # ps) (U_local v f # us) s"
    and so: "source_ok K r0" and p: "p \<noteq> P_length"
    and i: "i < length K" "packs c (pack_env as) K (i + 1) l ps"
    and x: "length (K ! i) = fmt_size f" "\<forall>k. x = Known k \<longrightarrow> be_nat (K ! i) = k" "\<forall>j. x = Len_at j \<longrightarrow> j = i"
    and ag: "agree (cls_consts c) (map fst as) (closing (cls_pack c))
      (i + 1, plus_off off (fmt_size f), sl, (v, x) # vars, seen) ps us"
    and raw: "\<And>k n. raw_fits k n (p # ps) = raw_fits (k + fmt_size f) n ps"
  shows "\<exists>t' ps' s'. unpack_stmt rec (U_local v f) s = Inr s' \<and> in_step e d c as K r0 t' ps' us s'"
proof -
  let ?t = "(i + 1, plus_off off (fmt_size f), sl, (v, x) # vars, seen)"
  let ?s = "s\<lparr>uv_reader := advance (fmt_size f) (uv_reader s), uv_locals := (v, be_nat (K ! i)) # uv_locals s\<rparr>"
  note c = in_step_cons [OF lk so p i]
  have "unpack_stmt rec (U_local v f) s = Inr ?s"
    using c(5) rd_read_eq [OF c(4), of "fmt_size f"] x(1) by auto
  moreover have "sim as K (closing (cls_pack c)) r0 (i + 1, plus_off off (fmt_size f), sl, vars, seen)
      (s\<lparr>uv_reader := advance (fmt_size f) (uv_reader s)\<rparr>)"
    by (rule sim_read [OF in_step_sim [OF lk] so c(2,3)]) (simp_all add: x(1))
  then have "sim as K (closing (cls_pack c)) r0 ?t ?s" using x(2,3) by (auto simp: at_string_def Let_def)
  then have "in_step e d c as K r0 ?t ps us ?s"
    by (intro in_step_step [OF lk p i(2) ag]) (auto simp: plus_off_def raw)
  ultimately show ?thesis by blast
qed

lemma in_step_local:
  assumes lk: "in_step e d c as K r0 (i, off, sl, vars, seen) ps (U_local v f # us) s" and so: "source_ok K r0"
  shows "\<exists>t' ps' s'. unpack_stmt rec (U_local v f) s = Inr s' \<and> in_step e d c as K r0 t' ps' us s'"
proof -
  let ?cl = "closing (cls_pack c)"
  obtain l where l: "packs c (pack_env as) K i l ps" using in_step_packs [OF lk] by blast
  note ag = in_step_agree [OF lk]
  show ?thesis
  proof (cases ps)
    case (Cons p ps')
    note lk' = lk [unfolded Cons]
    show ?thesis
    proof (cases p)
      case (P_field a g)
      then obtain k where k: "g = f" "is_int_fmt f" "a \<notin> fst ` set as" "map_of (cls_consts c) a = Some k"
          "agree (cls_consts c) (map fst as) ?cl (i + 1, plus_off off (fmt_size f), sl, (v, Known k) # vars, seen) ps' us"
        using ag Cons by (auto split: option.splits simp del: is_int_fmt.simps)
      have e: "pack_fmt f (Num (int k)) = Inr (K ! i)" "i < length K" "packs c (pack_env as) K (i + 1) l ps'"
        using l Cons P_field k attr_of_class [OF k(3,4)] by auto
      show ?thesis
        using pack_int_const [OF k(2) e(1)] P_field k(1)
        by (intro in_step_read_local [OF lk' so _ e(2,3) _ _ _ k(5)]) auto
    next
      case P_placeholder
      then show ?thesis using ag l Cons
        by (intro in_step_read_local [OF lk' so, where x = "Len_at i" and l = l]) auto
    qed (use ag Cons in simp_all)
  qed (use ag in simp)
qed


lemma in_step_assert:
  assumes lk: "in_step e d c as K r0 (i, off, sl, vars, seen) ps (U_assert v k # us) s"
  shows "\<exists>t' ps' s'. unpack_stmt rec (U_assert v k) s = Inr s' \<and> in_step e d c as K r0 t' ps' us s'"
proof -
  have "map_of (uv_locals s) v = Some k" using in_step_agree [OF lk] in_step_sim [OF lk] by simp
  moreover have "in_step e d c as K r0 (i, off, sl, vars, seen) ps us s"
    using lk by (auto simp: in_step_def simp del: sim.simps)
  moreover have "unpack_stmt rec (U_assert v k) s = Inr s" if "map_of (uv_locals s) v = Some k"
    using that by (simp add: uv_local_def)
  ultimately show ?thesis by blast
qed

lemma in_step_skip:
  assumes lk: "in_step e d c as K r0 (i, off, sl, vars, seen) ps (U_skip n # us) s" and so: "source_ok K r0"
  shows "\<exists>t' ps' s'. unpack_stmt rec (U_skip n) s = Inr s' \<and> in_step e d c as K r0 t' ps' us s'"
proof -
  obtain l where l: "packs c (pack_env as) K i l ps" using in_step_packs [OF lk] by blast
  obtain ps' where ps: "ps = P_pad n # ps'"
      and ag: "agree (cls_consts c) (map fst as) (closing (cls_pack c)) (i + 1, plus_off off n, sl, vars, seen) ps' us"
    using in_step_agree [OF lk] by (auto split: list.splits pstmt.splits)
  have i: "i < length K" "packs c (pack_env as) K (i + 1) l ps'" "K ! i = replicate n 0" using l by (auto simp: ps)
  note lk' = lk [unfolded ps]
  note c = in_step_cons [OF lk' so _ i(1,2), simplified]
  let ?s = "s\<lparr>uv_reader := advance n (uv_reader s)\<rparr>"
  have "unpack_stmt rec (U_skip n) s = Inr ?s" using c(5) rd_skip_eq [OF c(4), of n] i(3) by auto
  moreover have "sim as K (closing (cls_pack c)) r0 (i + 1, plus_off off n, sl, vars, seen) ?s"
    by (rule sim_read [OF in_step_sim [OF lk] so c(2,3)]) (simp_all add: i(3))
  then have "in_step e d c as K r0 (i + 1, plus_off off n, sl, vars, seen) ps' us ?s"
    by (intro in_step_step [OF lk' _ i(2) ag]) (auto simp: plus_off_def)
  ultimately show ?thesis by blast
qed

text \<open>A line that assigns an attribute: the value read is that of the packed object.\<close>

lemma in_step_assign:
  assumes lk: "in_step e d c as K r0 (i, off, sl, vars, seen) (p # ps) (u # us) s"
    and so: "source_ok K r0" and p: "p \<noteq> P_length"
    and i: "i < length K" "packs c (pack_env as) K (i + 1) l ps"
    and off': "off' = None \<or> off' = plus_off off (length (K ! i)) \<and>
      (\<forall>k n. raw_fits k n (p # ps) = raw_fits (k + length (K ! i)) n ps)"
    and ag: "agree (cls_consts c) (map fst as) (closing (cls_pack c)) (i + 1, off', sl, vars, a # seen) ps us"
    and a: "map_of as a = Some v"
    and u: "unpack_stmt rec u s = Inr (uv_set a (v, advance (length (K ! i)) (uv_reader s)) s)"
  shows "\<exists>t' ps' s'. unpack_stmt rec u s = Inr s' \<and> in_step e d c as K r0 t' ps' us s'"
proof -
  let ?s = "uv_set a (v, advance (length (K ! i)) (uv_reader s)) s"
  note c = in_step_cons [OF lk so p i]
  have "sim as K (closing (cls_pack c)) r0 (i + 1, off', sl, vars, a # seen) ?s"
    using off' by (intro sim_set [OF in_step_sim [OF lk] so c(2,3) _ a]) blast
  then have "in_step e d c as K r0 (i + 1, off', sl, vars, a # seen) ps us ?s"
    using off' by (intro in_step_step [OF lk p i(2) ag]) (cases off; auto simp: plus_off_def simp del: sim.simps)+
  then show ?thesis using u by blast
qed

text \<open>The value of an attribute that a line names.\<close>

lemma in_step_typed:
  assumes "in_step e d c as K r0 t ps (u # us) s"
  shows "typed_stmt e d c (map (\<lambda>(a, v). (a, v, typed v e)) as) u"
  using assms by (simp add: in_step_def)

lemma in_step_field:
  assumes lk: "in_step e d c as K r0 (i, off, sl, vars, seen) ps (U_field a g # us) s" and so: "source_ok K r0"
  shows "\<exists>t' ps' s'. unpack_stmt rec (U_field a g) s = Inr s' \<and> in_step e d c as K r0 t' ps' us s'"
proof -
  obtain l where l: "packs c (pack_env as) K i l ps" using in_step_packs [OF lk] by blast
  obtain f ps' where ps: "ps = P_field a f # ps'" and f: "reads f g"
      and ag: "agree (cls_consts c) (map fst as) (closing (cls_pack c)) (i + 1, plus_off off (fmt_size g), sl, vars, a # seen) ps' us"
    using in_step_agree [OF lk] by (auto split: list.splits pstmt.splits)
  obtain v where v: "map_of as a = Some v" "val_ok g v"
    using in_step_typed [OF lk] by (auto simp: map_of_env split: option.splits)
  have i: "i < length K" "packs c (pack_env as) K (i + 1) l ps'" "pack_fmt f v = Inr (K ! i)"
    using l attr_of_instance [OF v(1)] by (auto simp: ps)
  have rt: "length (K ! i) = fmt_size g" "decode_fmt g (K ! i) = v" using fmt_roundtrip [OF i(3) f v(2)] by auto
  have sz: "fmt_size f = fmt_size g" using f by (cases f) auto
  note c = in_step_cons [OF lk [unfolded ps] so _ i(1,2), simplified]
  show ?thesis
  proof (rule in_step_assign [OF lk [unfolded ps] so _ i(1,2) _ ag v(1)])
    show "unpack_stmt rec (U_field a g) s = Inr (uv_set a (v, advance (length (K ! i)) (uv_reader s)) s)"
      using c(5) rd_read_eq [OF c(4), of "fmt_size g"] rt by auto
  qed (simp_all add: rt(1) sz)
qed

lemma in_step_slice:
  assumes lk: "in_step e d c as K r0 (i, off, sl, vars, seen) ps (U_slice v rewind # us) s"
    and so: "source_ok K r0" and full: "packs c (pack_env as) K 0 0 (cls_pack c)"
  shows "\<exists>t' ps' s'. unpack_stmt rec (U_slice v rewind) s = Inr s' \<and> in_step e d c as K r0 t' ps' us s'"
proof -
  let ?cl = "closing (cls_pack c)" and ?pos = "length (concat (take i K))"
  let ?B = "body_of ?cl K"
  obtain m padded where cl: "?cl = Some (m, padded)" and ag: "\<not> sl" "off = Some rewind"
      "map_of vars v = Some (Len_at m)" "agree (cls_consts c) (map fst as) ?cl (i, off, True, vars, seen) ps us"
    using in_step_agree [OF lk] by (auto split: option.splits)
  obtain L where L: "L < 65536" "K ! m = be_bytes 2 L" "L = length (concat ?B)"
    using closing_length [OF full cl] by (auto simp: body_of_def cl split: if_splits)
  obtain rest where r0: "rd_valid r0" "remaining r0 = concat K @ rest" using so by (auto simp: source_ok_def)
  note sim = in_step_sim [OF lk]
  have local: "uv_local s v = Inr L" using sim ag(3) L(1,2) by (simp add: uv_local_def)
  have rd: "uv_reader s = advance ?pos r0" "rewind = ?pos" using sim ag(1,2) by (simp_all add: at_string_def)
  have i: "i \<le> length ?B" "take i ?B = take i K"
  proof -
    obtain l where l: "packs c (pack_env as) K i l ps" using in_step_packs [OF lk] by blast
    have "i \<le> length K" using l by (rule packs_le)
    moreover have "i < length K" if padded
      using l lk that cl closing_padded_last [of ps m] packs_last_pad [OF l, of 8] by (auto simp: in_step_def)
    ultimately show "i \<le> length ?B" "take i ?B = take i K"
      by (auto simp: body_of_def cl take_butlast split: bool.split)
  qed
  have split: "concat ?B = concat (take i K) @ concat (drop i ?B)"
    using concat_append [of "take i ?B" "drop i ?B"] i(2) by (metis append_take_drop_id)
  obtain tl where K: "concat K = concat ?B @ tl" using body_of_prefix by blast
  have rem: "remaining (uv_reader s) = concat (drop i ?B) @ tl @ rest"
    using rd(1) r0(2) by (simp add: K split)
  have valid: "rd_valid (uv_reader s)" using r0 rd(1) by (auto intro!: rd_valid_advance simp: K split)
  have off: "rewind \<le> rd_offset (uv_reader s)" "rewind \<le> L" "L - rewind \<le> length (remaining (uv_reader s))"
    using rd L(3) rem by (simp_all add: split)
  let ?s = "s\<lparr>uv_reader := sub_reader L rewind (uv_reader s), uv_orig := Some (advance (L - rewind) (uv_reader s))\<rparr>"
  have "unpack_stmt rec (U_slice v rewind) s = Inr ?s"
    using off by (simp add: local rd_slice_eq [OF valid off(1)])
  moreover have "at_string K ?cl r0 True i ?s"
  proof -
    have "advance (L - rewind) (uv_reader s) = advance L r0" using rd off(2) by simp
    moreover have "take (L - rewind) (remaining (uv_reader s)) = concat (drop i ?B)"
      using rem L(3) rd(2) by (simp add: split)
    ultimately show ?thesis
      using sub_reader_valid [OF valid off] rd(2) L(3) by (simp add: at_string_def Let_def)
  qed
  then have "sim as K ?cl r0 (i, off, True, vars, seen) ?s" using sim by simp
  then have "in_step e d c as K r0 (i, off, True, vars, seen) ps us ?s"
    using lk ag(4) by (auto simp: in_step_def simp del: sim.simps)
  ultimately show ?thesis by blast
qed


section \<open>Objects inside objects\<close>

text \<open>What is shown of every object, and assumed of the objects inside one.\<close>

definition env_ok :: "cls \<Rightarrow> bool" where
  "env_ok e \<longleftrightarrow> codec_ok e \<and> safe_cls e \<and> \<not> needs_align e"

definition roundtrips :: "lval \<Rightarrow> bool" where
  "roundtrips v \<longleftrightarrow>
     (\<forall>e d c bs. env_ok e \<longrightarrow> codec_ok c \<longrightarrow> typed v e d c \<longrightarrow> pack v = Inr bs \<longrightarrow>
        restores (needs_align c) (unpack (unpack_tlv e d) c) v bs)"

fun parts_roundtrip :: "lval \<Rightarrow> bool" where
  "parts_roundtrip (PyList vs) \<longleftrightarrow> (\<forall>v\<in>set vs. is_obj v \<longrightarrow> roundtrips v)"
| "parts_roundtrip v \<longleftrightarrow> (is_obj v \<longrightarrow> roundtrips v)"

lemma list_restores:
  assumes "parts_roundtrip (PyList vs)" "env_ok e" "codec_ok c" "typed (PyList vs) e d c"
    and "list_all2 (\<lambda>v bs. is_obj v \<and> pack v = Inr bs) vs bss"
  shows "list_all2 (\<lambda>v bs. restores (needs_align c) (unpack (unpack_tlv e d) c) v bs \<and>
    (needs_align c \<longrightarrow> 8 dvd length bs)) vs bss"
  using assms(5)
proof (rule list.rel_mono_strong)
  fix v bs
  assume v: "v \<in> set vs" and "bs \<in> set bss" and bs: "is_obj v \<and> pack v = Inr bs"
  have "typed v e d c" "needs_align c \<longrightarrow> aligned_size v" using assms(4) v by (auto simp: list_all_iff)
  moreover have "roundtrips v" using assms(1) v bs by simp
  ultimately show "restores (needs_align c) (unpack (unpack_tlv e d) c) v bs \<and> (needs_align c \<longrightarrow> 8 dvd length bs)"
    using assms(2,3) bs by (auto simp: roundtrips_def aligned_size_def)
qed

lemma unpack_list_packed:
  assumes "parts_roundtrip (PyList vs)" "env_ok e" "codec_ok c" "safe_cls c" "typed (PyList vs) e d c"
    and "pack (PyList vs) = Inr bs" and "rd_valid r" "remaining r = bs" "needs_align c \<longrightarrow> 8 dvd rd_offset r"
  shows "unpack_list (unpack (unpack_tlv e d) c) r = Inr (vs, advance (length bs) r)"
proof -
  obtain bss where bss: "bs = concat bss" "list_all2 (\<lambda>v bs. is_obj v \<and> pack v = Inr bs) vs bss"
    using pack_PyList [OF assms(6)] by blast
  have "\<And>r. rd_valid r \<Longrightarrow> parsed 1 r (unpack (unpack_tlv e d) c r)"
    using assms(2,4) by (intro unpack_parsed) (simp_all add: env_ok_def)
  then show ?thesis
    using unpack_list_restores [OF list_restores [OF assms(1,2,3,5) bss(2)] _ assms(7)] assms(8,9)
    by (simp add: bss(1))
qed

lemma unpack_list_tlv_packed:
  assumes "parts_roundtrip (PyList vs)" "env_ok e" "vs = [] \<or> 0 < d \<and> typed (PyList vs) e (d - 1) e"
    and "pack (PyList vs) = Inr bs" and "rd_valid r" "remaining r = bs"
  shows "unpack_list (unpack_tlv e d) r = Inr (vs, advance (length bs) r)"
proof (cases "vs = []")
  case True
  then show ?thesis using assms(4-6) by (simp add: unpack_list_def rd_is_empty_iff unpack_list_fuel_empty)
next
  case False
  then obtain d' where "d = Suc d'" "typed (PyList vs) e d' e" using assms(3) by (cases d) auto
  moreover have "unpack_tlv e (Suc d') = unpack (unpack_tlv e d') e" by (rule ext) simp
  ultimately show ?thesis
    using unpack_list_packed [OF assms(1,2) _ _ _ assms(4,5,6)] assms(2) by (simp add: env_ok_def)
qed

text \<open>A field that runs to the end of the slice.\<close>

lemma ends_after_body:
  assumes "packs c env K j l ps" and "ends_after ps"
  shows "length (body_of (closing ps) K) = j"
proof -
  obtain tl where ps: "ps = P_length # tl" "length tl \<le> 2" "closing_tail tl \<noteq> None"
    using assms(2) by (cases ps) auto
  then obtain m padded where "closing_tail tl = Some (m, padded)" by (cases "closing_tail tl") auto
  then show ?thesis
    by (cases rule: closing_tail_cases) (use assms(1) ps in \<open>auto simp: body_of_def closing_tail_def\<close>)
qed

lemma at_string_last:
  assumes "at_string K cl r0 True i s" and "i < length (body_of cl K)" "body_of cl K ! i = K ! i"
    and "length (body_of cl K) = i + 1"
  shows "remaining (uv_reader s) = K ! i"
  using assms concat_drop_Suc [OF assms(2)] by (simp add: at_string_def Let_def)

lemma in_step_last:
  assumes lk: "in_step e d c as K r0 (i, off, sl, vars, seen) (p # ps) us s" and so: "source_ok K r0" and p: "p \<noteq> P_length"
    and i: "i < length K" "packs c (pack_env as) K (i + 1) l ps" and sl: sl "ends_after ps"
  shows "remaining (uv_reader s) = K ! i"
proof -
  note c = in_step_cons [OF lk so p i]
  have "at_string K (closing (cls_pack c)) r0 True i s" using in_step_sim [OF lk] sl(1) by simp
  moreover have "length (body_of (closing (cls_pack c)) K) = i + 1"
    using ends_after_body [OF i(2) sl(2)] by (simp add: c(1))
  ultimately show ?thesis using c(2,3) by (intro at_string_last)
qed

lemma aligned_off_reader:
  assumes "sim as K cl r0 (i, off, sl, vars, seen) s" and "aligned_off sl off"
  shows "8 dvd rd_offset (uv_reader s)"
  using assms by (cases off) (auto simp: aligned_off_def at_string_def Let_def)

lemma in_step_list:
  assumes lk: "in_step e d c as K r0 (i, off, sl, vars, seen) ps (U_list a c' # us) s" and so: "source_ok K r0"
    and parts: "\<And>a v. map_of as a = Some v \<Longrightarrow> parts_roundtrip v" and "env_ok e"
  shows "\<exists>t' ps' s'. unpack_stmt (unpack_tlv e d) (U_list a c') s = Inr s' \<and> in_step e d c as K r0 t' ps' us s'"
proof -
  obtain l where l: "packs c (pack_env as) K i l ps" using in_step_packs [OF lk] by blast
  obtain ps' where ps: "ps = P_list a # ps'" and sl: sl "ends_after ps'" "codec_ok c'" "safe_cls c'"
      "needs_align c' \<longrightarrow> aligned_off sl off"
      and ag: "agree (cls_consts c) (map fst as) (closing (cls_pack c)) (i + 1, None, sl, vars, a # seen) ps' us"
    using in_step_agree [OF lk] by (auto split: list.splits pstmt.splits)
  obtain vs where v: "map_of as a = Some (PyList vs)" "typed (PyList vs) e d c'"
    using in_step_typed [OF lk] by (auto simp: map_of_env split: option.splits lval.splits)
  have i: "i < length K" "packs c (pack_env as) K (i + 1) l ps'" "pack (PyList vs) = Inr (K ! i)"
    using l attr_of_instance [OF v(1)] by (auto simp: ps)
  note c = in_step_cons [OF lk [unfolded ps] so _ i(1,2), simplified]
  note in_step_last [OF lk [unfolded ps] so _ i(1,2) sl(1,2), simplified]
  from unpack_list_packed [OF parts [OF v(1)] \<open>env_ok e\<close> sl(3,4) v(2) i(3) c(4) \<open>remaining (uv_reader s) = K ! i\<close>]
  have "unpack_list (unpack (unpack_tlv e d) c') (uv_reader s) = Inr (vs, advance (length (K ! i)) (uv_reader s))"
    using sl(5) aligned_off_reader [OF in_step_sim [OF lk]] by blast
  then show ?thesis
    by (intro in_step_assign [OF lk [unfolded ps] so _ i(1,2) _ ag v(1)]) simp_all
qed

lemma in_step_list_tlv:
  assumes lk: "in_step e d c as K r0 (i, off, sl, vars, seen) ps (U_list_tlv a # us) s" and so: "source_ok K r0"
    and parts: "\<And>a v. map_of as a = Some v \<Longrightarrow> parts_roundtrip v" and "env_ok e"
  shows "\<exists>t' ps' s'. unpack_stmt (unpack_tlv e d) (U_list_tlv a) s = Inr s' \<and> in_step e d c as K r0 t' ps' us s'"
proof -
  obtain l where l: "packs c (pack_env as) K i l ps" using in_step_packs [OF lk] by blast
  obtain ps' where ps: "ps = P_list a # ps'" and sl: sl "ends_after ps'"
      and ag: "agree (cls_consts c) (map fst as) (closing (cls_pack c)) (i + 1, None, sl, vars, a # seen) ps' us"
    using in_step_agree [OF lk] by (auto split: list.splits pstmt.splits)
  obtain vs where v: "map_of as a = Some (PyList vs)" "vs = [] \<or> 0 < d \<and> typed (PyList vs) e (d - 1) e"
    using in_step_typed [OF lk] by (auto simp: map_of_env split: option.splits lval.splits)
  have i: "i < length K" "packs c (pack_env as) K (i + 1) l ps'" "pack (PyList vs) = Inr (K ! i)"
    using l attr_of_instance [OF v(1)] by (auto simp: ps)
  note c = in_step_cons [OF lk [unfolded ps] so _ i(1,2), simplified]
  note in_step_last [OF lk [unfolded ps] so _ i(1,2) sl(1,2), simplified]
  from unpack_list_tlv_packed [OF parts [OF v(1)] \<open>env_ok e\<close> v(2) i(3) c(4) \<open>remaining (uv_reader s) = K ! i\<close>]
  show ?thesis
    by (intro in_step_assign [OF lk [unfolded ps] so _ i(1,2) _ ag v(1)]) simp_all
qed

lemma in_step_obj:
  assumes lk: "in_step e d c as K r0 (i, off, sl, vars, seen) ps (U_obj a c' # us) s" and so: "source_ok K r0"
    and parts: "\<And>a v. map_of as a = Some v \<Longrightarrow> parts_roundtrip v" and "env_ok e"
  shows "\<exists>t' ps' s'. unpack_stmt (unpack_tlv e d) (U_obj a c') s = Inr s' \<and> in_step e d c as K r0 t' ps' us s'"
proof -
  obtain l where l: "packs c (pack_env as) K i l ps" using in_step_packs [OF lk] by blast
  obtain ps' where ps: "ps = P_obj a # ps'" and c': "codec_ok c'" "needs_align c' \<longrightarrow> aligned_off sl off"
      and ag: "agree (cls_consts c) (map fst as) (closing (cls_pack c)) (i + 1, None, sl, vars, a # seen) ps' us"
    using in_step_agree [OF lk] by (auto split: list.splits pstmt.splits)
  obtain v where v: "map_of as a = Some v" "is_obj v" "typed v e d c'"
    using in_step_typed [OF lk] by (auto simp: map_of_env split: option.splits)
  have i: "i < length K" "packs c (pack_env as) K (i + 1) l ps'" "pack v = Inr (K ! i)"
    using l attr_of_instance [OF v(1)] v(2) by (auto simp: ps elim: is_obj.elims)
  note c = in_step_cons [OF lk [unfolded ps] so _ i(1,2), simplified]
  have "roundtrips v" using parts [OF v(1)] v(2) by (auto elim: is_obj.elims)
  then have "restores (needs_align c') (unpack (unpack_tlv e d) c') v (K ! i)"
    using \<open>env_ok e\<close> c'(1) v(3) i(3) by (simp add: roundtrips_def)
  then have "unpack (unpack_tlv e d) c' (uv_reader s) = Inr (v, advance (length (K ! i)) (uv_reader s))"
    using c(4,5) c'(2) aligned_off_reader [OF in_step_sim [OF lk]] unfolding restores_def by blast
  then show ?thesis
    by (intro in_step_assign [OF lk [unfolded ps] so _ i(1,2) _ ag v(1)]) simp_all
qed


lemma agree_list_of:
  assumes ag: "agree ks as cl (i, off, sl, vars, seen) ps (U_list_of a v c # us)"
  shows "\<exists>j ps'. ps = P_list a # P_len_last j # ps' \<and> codec_ok c \<and> safe_cls c \<and>
    map_of vars v = Some (Len_at j) \<and> agree ks as cl (i + 1, None, sl, vars, a # seen) ps' us"
proof (cases ps)
  case (Cons p qs)
  with ag have "\<exists>b. p = P_list b" by (cases p) simp_all
  then obtain b where p: "p = P_list b" by blast
  show ?thesis
  proof (cases qs)
    case (Cons q qs')
    with ag \<open>ps = p # qs\<close> p have "\<exists>j. q = P_len_last j" by (cases q) simp_all
    then show ?thesis using ag \<open>ps = p # qs\<close> p Cons by auto
  qed (use ag Cons p in simp)
qed (use ag in simp)

lemma in_step_list_of:
  assumes lk: "in_step e d c as K r0 (i, off, sl, vars, seen) ps (U_list_of a v c' # us) s" and so: "source_ok K r0"
    and parts: "\<And>a v. map_of as a = Some v \<Longrightarrow> parts_roundtrip v" and "env_ok e"
  shows "\<exists>t' ps' s'. unpack_stmt (unpack_tlv e d) (U_list_of a v c') s = Inr s' \<and> in_step e d c as K r0 t' ps' us s'"
proof -
  obtain l where l: "packs c (pack_env as) K i l ps" using in_step_packs [OF lk] by blast
  obtain j ps' where ps: "ps = P_list a # P_len_last j # ps'" and c': "codec_ok c'" "safe_cls c'"
      "map_of vars v = Some (Len_at j)"
      and ag: "agree (cls_consts c) (map fst as) (closing (cls_pack c)) (i + 1, None, sl, vars, a # seen) ps' us"
    using agree_list_of [OF in_step_agree [OF lk]] by blast
  obtain vs where w: "map_of as a = Some (PyList vs)" "typed (PyList vs) e d c'"
    using in_step_typed [OF lk] by (auto simp: map_of_env split: option.splits lval.splits)
  have i: "i < length K" "packs c (pack_env as) K (i + 1) l (P_len_last j # ps')" "pack (PyList vs) = Inr (K ! i)"
    using l attr_of_instance [OF w(1)] by (auto simp: ps)
  have j: "K ! j = be_bytes 2 (length (K ! i))" "length (K ! i) < 65536" using i(2) by simp_all
  note c = in_step_cons [OF lk [unfolded ps] so _ i(1,2), simplified]
  note sim = in_step_sim [OF lk]
  have len: "length (K ! i) \<le> length (remaining (uv_reader s))"
    and rem: "take (length (K ! i)) (remaining (uv_reader s)) = K ! i"
    using c(5) by auto
  let ?sub = "sub_reader (length (K ! i)) 0 (uv_reader s)"
  let ?s = "uv_set a (PyList vs, advance (length (K ! i)) (uv_reader s)) s"
  have "uv_local s v = Inr (length (K ! i))" using sim c'(3) j by (simp add: uv_local_def)
  moreover have "rd_slice (length (K ! i)) 0 (uv_reader s) = Inr (?sub, advance (length (K ! i)) (uv_reader s))"
    using len rd_slice_eq [OF c(4) le0, of "length (K ! i)"] by simp
  moreover have "unpack_list (unpack (unpack_tlv e d) c') ?sub = Inr (vs, advance (length (K ! i)) ?sub)"
    using len rem sub_reader_valid [OF c(4) le0, of "length (K ! i)"]
    by (intro unpack_list_packed [OF parts [OF w(1)] \<open>env_ok e\<close> c'(1,2) w(2) i(3)]) simp_all
  ultimately have "unpack_stmt (unpack_tlv e d) (U_list_of a v c') s = Inr ?s" by simp
  moreover have "sim as K (closing (cls_pack c)) r0 (i + 1, None, sl, vars, a # seen) ?s"
    by (rule sim_set [OF sim so c(2,3) _ w(1)]) simp
  then have "in_step e d c as K r0 (i + 1, None, sl, vars, a # seen) ps' us ?s"
    using lk ag i(2) c(1) by (auto simp: in_step_def simp del: sim.simps)
  ultimately show ?thesis by blast
qed

lemma pad_to_multiple: "8 dvd n \<Longrightarrow> pad_to 8 n = []"
  by (auto simp: pad_to_def elim!: dvdE)

lemma in_step_read_all:
  assumes lk: "in_step e d c as K r0 (i, off, sl, vars, seen) ps (U_read_all a # us) s" and so: "source_ok K r0"
  shows "\<exists>t' ps' s'. unpack_stmt rec (U_read_all a) s = Inr s' \<and> in_step e d c as K r0 t' ps' us s'"
proof -
  obtain l where l: "packs c (pack_env as) K i l ps" using in_step_packs [OF lk] by blast
  obtain ps' where ps: "ps = P_raw a # ps'" and sl: sl "ends_after ps' \<or> pads_after ps' \<and> off \<noteq> None"
      and ag: "agree (cls_consts c) (map fst as) (closing (cls_pack c)) (i + 1, None, sl, vars, a # seen) ps' us"
    using in_step_agree [OF lk] by (auto split: list.splits pstmt.splits)
  obtain bs where v: "map_of as a = Some (Str bs)" "raw_fits 0 (length bs) (cls_pack c)"
    using in_step_typed [OF lk] by (auto simp: map_of_env split: option.splits lval.splits)
  have i: "i < length K" "packs c (pack_env as) K (i + 1) l ps'" "K ! i = bs"
    using l attr_of_instance [OF v(1)] by (auto simp: ps)
  note c = in_step_cons [OF lk [unfolded ps] so _ i(1,2), simplified]
  have "remaining (uv_reader s) = K ! i"
    using sl(2)
  proof
    assume "ends_after ps'"
    then show ?thesis using in_step_last [OF lk [unfolded ps] so _ i(1,2) sl(1)] by simp
  next
    assume pads: "pads_after ps' \<and> off \<noteq> None"
    then obtain k where k: "off = Some k" by blast
    then have k2: "k = length (concat (take i K))" using in_step_sim [OF lk] by simp
    have "raw_fits k (length bs) ps" using in_step_raw [OF lk [unfolded k] v(2)] by simp
    then have "8 dvd k + length bs" using pads by (simp add: ps)
    moreover obtain tl m padded where ps': "ps' = P_length # tl" "length tl = 3" "closing_tail tl = Some (m, padded)"
      using pads by (cases ps') auto
    then have "tl = [P_pad_to 8, P_length_add, P_set_len m]" "\<not> padded"
      by (auto elim: closing_tail_cases)
    then have "length K = i + 2" "K ! (i + 1) = pad_to 8 (length (concat (take (i + 1) K)))"
        "closing (cls_pack c) = Some (m, False)"
      using i(2) c(1) ps' by auto
    ultimately have "K ! (i + 1) = []" "body_of (closing (cls_pack c)) K = K" "drop (i + 1) K = [K ! (i + 1)]"
      using concat_take_Suc [OF i(1)] k2 i(3)
      by (simp_all add: pad_to_multiple body_of_def Cons_nth_drop_Suc [symmetric])
    then show ?thesis
      using in_step_sim [OF lk] sl(1) concat_drop_Suc [OF i(1)] by (simp add: at_string_def Let_def)
  qed
  then show ?thesis
    using rd_read_all_eq [OF c(4)] i(3)
    by (intro in_step_assign [OF lk [unfolded ps] so _ i(1,2) _ ag v(1)]) simp_all
qed

text \<open>The end of \<^verbatim>\<open>unpack\<close>.\<close>

lemma same_attrs:
  "map fst xs = map fst ys \<Longrightarrow> distinct (map fst ys) \<Longrightarrow> \<forall>a\<in>set (map fst ys). map_of xs a = map_of ys a \<Longrightarrow> xs = ys"
proof (induction xs arbitrary: ys)
  case (Cons x xs)
  obtain y ys' where ys: "ys = y # ys'" "fst x = fst y" "map fst xs = map fst ys'" using Cons.prems(1) by (cases ys) auto
  have "snd x = snd y" using Cons.prems(3) ys by (cases x; cases y) auto
  moreover have "xs = ys'"
  proof (rule Cons.IH [OF ys(3)])
    show "distinct (map fst ys')" using Cons.prems(2) ys by simp
    show "\<forall>a\<in>set (map fst ys'). map_of xs a = map_of ys' a"
    proof
      fix a assume a: "a \<in> set (map fst ys')"
      then have "a \<noteq> fst y" using Cons.prems(2) ys by (metis distinct.simps(2) list.simps(9))
      moreover have "map_of (x # xs) a = map_of ys a" using Cons.prems(3) a ys by auto
      ultimately show "map_of xs a = map_of ys' a" using ys by (cases x; cases y) simp
    qed
  qed
  ultimately show ?case using ys by (simp add: prod_eq_iff)
qed simp

lemma in_step_Nil:
  assumes lk: "in_step e d c as K r0 (i, off, sl, vars, seen) ps [] s" and "distinct (map fst as)"
  shows "uv_attrs s = as" and "uv_caller s = advance (length (concat K)) r0"
proof -
  note sim = in_step_sim [OF lk] and ag = in_step_agree [OF lk]
  show "uv_attrs s = as" using sim ag assms(2) by (intro same_attrs) auto
  show "uv_caller s = advance (length (concat K)) r0"
  proof (cases sl)
    case True
    then show ?thesis using sim ag
      by (auto simp: at_string_def Let_def uv_caller_def body_of_def split: option.splits bool.splits)
  next
    case False
    then have "length K = i" using in_step_packs [OF lk] ag by auto
    then show ?thesis using sim False by (simp add: at_string_def uv_caller_def)
  qed
qed

lemma in_step_skip_align:
  assumes lk: "in_step e d c as K r0 (i, off, sl, vars, seen) ps (U_orig_skip_align # us) s" and so: "source_ok K r0"
    and full: "packs c (pack_env as) K 0 0 (cls_pack c)" and al: "8 dvd rd_offset r0" and "distinct (map fst as)"
  shows "\<exists>s'. unpack_stmts rec (U_orig_skip_align # us) s = Inr s' \<and> uv_attrs s' = as \<and>
    uv_caller s' = advance (length (concat K)) r0"
proof -
  note sim = in_step_sim [OF lk] and ag = in_step_agree [OF lk]
  obtain m where cl: "closing (cls_pack c) = Some (m, True)" and us: "us = []" "sl" using ag by (auto split: option.splits)
  let ?L = "length (concat (butlast K))"
  have K: "K \<noteq> []" "List.last K = pad_to 8 ?L" using closing_length [OF full cl] by auto
  have "K = butlast K @ [List.last K]" using K(1) by simp
  then have "concat K = concat (butlast K @ [List.last K])" by (rule arg_cong)
  then have split: "concat K = concat (butlast K) @ pad_to 8 ?L" using K(2) by simp
  obtain rest where r0: "rd_valid r0" "remaining r0 = concat K @ rest" using so by (auto simp: source_ok_def)
  have orig: "uv_orig s = Some (advance ?L r0)" using sim us(2) by (simp add: at_string_def Let_def body_of_def cl)
  have "rd_valid (advance ?L r0)" using r0 by (auto intro!: rd_valid_advance simp: split)
  from rd_skip_align_eq [OF this _ al] have "rd_skip_align (advance ?L r0) = Inr (advance (length (concat K)) r0)"
    using r0(2) by (simp add: split)
  moreover have "uv_attrs s = as" using sim ag assms(5) by (intro same_attrs) auto
  ultimately show ?thesis by (simp add: us(1) orig uv_caller_def)
qed



section \<open>The body of unpack\<close>

lemma unpack_stmts_linked:
  assumes "in_step e d c as K r0 t ps us s" "source_ok K r0" "packs c (pack_env as) K 0 0 (cls_pack c)"
    and "U_orig_skip_align \<in> set us \<longrightarrow> 8 dvd rd_offset r0" "distinct (map fst as)" "env_ok e"
    and parts: "\<And>a v. map_of as a = Some v \<Longrightarrow> parts_roundtrip v"
  shows "\<exists>s'. unpack_stmts (unpack_tlv e d) us s = Inr s' \<and> uv_attrs s' = as \<and>
    uv_caller s' = advance (length (concat K)) r0"
  using assms(1,4)
proof (induction us arbitrary: t ps s)
  case Nil
  then show ?case using in_step_Nil [of e d c as K r0] assms(5) by (cases t) auto
next
  case (Cons u us)
  obtain i off sl vars seen where t: "t = (i, off, sl, vars, seen)" by (cases t)
  note lk = Cons.prems(1) [unfolded t]
  show ?case
  proof (cases "u = U_orig_skip_align")
    case True
    then show ?thesis using in_step_skip_align [OF lk [unfolded True] assms(2,3) _ assms(5)] Cons.prems(2) by simp
  next
    case False
    have "\<exists>t' ps' s'. unpack_stmt (unpack_tlv e d) u s = Inr s' \<and> in_step e d c as K r0 t' ps' us s'"
    proof (cases u)
      case (U_local v f)
      show ?thesis unfolding U_local by (rule in_step_local [OF lk [unfolded U_local] assms(2)])
    next
      case (U_assert v k)
      show ?thesis unfolding U_assert by (rule in_step_assert [OF lk [unfolded U_assert]])
    next
      case (U_field a f)
      show ?thesis unfolding U_field by (rule in_step_field [OF lk [unfolded U_field] assms(2)])
    next
      case (U_slice v n)
      show ?thesis unfolding U_slice by (rule in_step_slice [OF lk [unfolded U_slice] assms(2,3)])
    next
      case (U_skip n)
      show ?thesis unfolding U_skip by (rule in_step_skip [OF lk [unfolded U_skip] assms(2)])
    next
      case (U_list a c')
      show ?thesis unfolding U_list by (rule in_step_list [OF lk [unfolded U_list] assms(2) parts assms(6)])
    next
      case (U_list_tlv a)
      show ?thesis unfolding U_list_tlv by (rule in_step_list_tlv [OF lk [unfolded U_list_tlv] assms(2) parts assms(6)])
    next
      case (U_list_of a v c')
      show ?thesis unfolding U_list_of by (rule in_step_list_of [OF lk [unfolded U_list_of] assms(2) parts assms(6)])
    next
      case (U_obj a c')
      show ?thesis unfolding U_obj by (rule in_step_obj [OF lk [unfolded U_obj] assms(2) parts assms(6)])
    next
      case (U_read_all a)
      show ?thesis unfolding U_read_all by (rule in_step_read_all [OF lk [unfolded U_read_all] assms(2)])
    qed (use False in simp)
    then obtain t' ps' s' where s': "unpack_stmt (unpack_tlv e d) u s = Inr s'" "in_step e d c as K r0 t' ps' us s'"
      by blast
    show ?thesis using Cons.IH [OF s'(2)] Cons.prems(2) s'(1) by simp
  qed
qed

lemma map_fst_new_obj: "map fst (attrs_of (new_obj c)) = map fst (cls_init c)"
  by (cases c) (auto simp: case_prod_unfold o_def)

lemma unpack_body_pack:
  assumes "codec_ok c" "env_ok e" "map fst as = map fst (cls_init c)"
    and "list_all (typed_stmt e d c (map (\<lambda>(a, v). (a, v, typed v e)) as)) (cls_unpack c)"
    and "pack (Obj c as) = Inr bs" and "rd_valid r" "remaining r = bs @ rest"
    and "U_orig_skip_align \<in> set (cls_unpack c) \<longrightarrow> 8 dvd rd_offset r"
    and parts: "\<And>a v. map_of as a = Some v \<Longrightarrow> parts_roundtrip v"
  shows "unpack_body (unpack_tlv e d) c r = Inr (Obj c as, advance (length bs) r)"
proof -
  have ok: "distinct (map fst as)" "patch_ok [] 0 (cls_pack c)"
      "agree (cls_consts c) (map fst as) (closing (cls_pack c)) (0, Some 0, False, [], []) (cls_pack c) (cls_unpack c)"
    using assms(1,3) by (cases c; simp)+
  obtain K where K: "packs c (pack_env as) K 0 0 (cls_pack c)" "bs = concat K"
    using pack_body_packs [of c "pack_env as" bs] assms(5) ok(2) by (auto simp: pack_env_def)
  let ?s = "\<lparr>uv_reader = r, uv_orig = None, uv_locals = [], uv_attrs = attrs_of (new_obj c)\<rparr>"
  have "in_step e d c as K r (0, Some 0, False, [], []) (cls_pack c) (cls_unpack c) ?s"
    using K(1) ok assms(3,4) by (auto simp: in_step_def at_string_def map_fst_new_obj simp del: agree.simps)
  moreover have "source_ok K r" using assms(6,7) K(2) by (auto simp: source_ok_def)
  ultimately have "\<exists>s'. unpack_stmts (unpack_tlv e d) (cls_unpack c) ?s = Inr s' \<and> uv_attrs s' = as \<and>
      uv_caller s' = advance (length (concat K)) r"
    by (rule unpack_stmts_linked [OF _ _ K(1) assms(8) ok(1) assms(2) parts])
  then show ?thesis by (auto simp: unpack_body_def K(2))
qed

end
