(* ===== verification/LoxiDispatch.thy ===== *)
theory LoxiDispatch
  imports LoxiLaws
begin

text \<open>
  \<^verbatim>\<open>unpack\<close> of a superclass finds the class that has packed an object by peeking at its bytes.
  With the round trip of the body this gives the round trip of whole objects, and the bytes of an
  object tell it apart from every other one.
\<close>

section \<open>Sizes of formats\<close>

lemma bitmap_512_length: "py_for bitmap_512_step vs ws = Inr zs \<Longrightarrow> length zs = length ws"
proof (induction vs arbitrary: ws)
  case (Cons v vs)
  then obtain ws' where "bitmap_512_step v ws = Inr ws'" "py_for bitmap_512_step vs ws' = Inr zs"
    by (auto split: sum.splits)
  moreover then have "length ws' = length ws" by (auto simp: bitmap_512_step_def Let_def split: if_splits)
  ultimately show ?case using Cons.IH by metis
qed simp

lemma pack_fmt_length: "pack_fmt f v = Inr bs \<Longrightarrow> length bs = fmt_size f"
proof (cases f)
  case f6B
  then show "pack_fmt f v = Inr bs \<Longrightarrow> ?thesis" using py_map_uints
    by (auto simp: pack_6B_def rbind_eq_Inr split: lval.splits if_splits)
next
  case fBitmap_512
  moreover have "length (concat (map (be_bytes 8) ws)) = 8 * length ws" for ws by (induction ws) simp_all
  ultimately show "pack_fmt f v = Inr bs \<Longrightarrow> ?thesis"
    by (auto simp: pack_bitmap_512_def rbind_eq_Inr dest: bitmap_512_length split: lval.splits)
qed (auto simp: pack_uint_def pack_str_def pack_bitmap_128_def pack_checksum_128_def rbind_eq_Inr
  split: lval.splits if_splits)


section \<open>The field at an offset\<close>

lemma field_at_packed:
  assumes "packs c env K i l ps" and "field_at off f ps = Some a"
  shows "\<exists>v r bs. attr_of c env a = Inr (v, r) \<and> pack_fmt f v = Inr bs \<and>
    off + fmt_size f \<le> length (concat (drop i K)) \<and> take (fmt_size f) (drop off (concat (drop i K))) = bs"
  using assms
proof (induction off f ps arbitrary: i rule: field_at.induct)
  case (1 off f b g ps)
  obtain v r where v: "attr_of c env b = Inr (v, r)" "pack_fmt g v = Inr (K ! i)"
    using 1(2) by (auto simp: rbind_eq_Inr)
  have i: "i < length K" "packs c env K (i + 1) l ps" using 1(2) by auto
  note sz = pack_fmt_length [OF v(2)] and K = concat_drop_Suc [OF i(1)]
  show ?case
  proof (cases "off = 0")
    case True
    then show ?thesis using 1(3) v sz by (auto simp: K split: if_splits)
  next
    case False
    then have off: "fmt_size g \<le> off" and at: "field_at (off - fmt_size g) f ps = Some a"
      using 1(3) by (auto split: if_splits)
    show ?thesis using 1(1) [OF False off i(2) at] off sz by (auto simp: K)
  qed
next
  case (2 off f n ps)
  have i: "i < length K" "packs c env K (i + 1) l ps" "K ! i = replicate n 0" using 2(2) by auto
  have off: "n \<le> off" and at: "field_at (off - n) f ps = Some a" using 2(3) by (auto split: if_splits)
  show ?case using 2(1) [OF off i(2) at] off by (auto simp: concat_drop_Suc [OF i(1)] i(3))
next
  case (3 off f ps)
  have i: "i < length K" "packs c env K (i + 1) l ps" "length (K ! i) = 2" using 3(2) by auto
  have off: "2 \<le> off" and at: "field_at (off - 2) f ps = Some a" using 3(3) by (auto split: if_splits)
  show ?case using 3(1) [OF off i(2) at] off i(3) by (auto simp: concat_drop_Suc [OF i(1)])
qed simp_all


section \<open>Families of classes\<close>

lemma classes_self: "c \<in> set (classes c)"
  by (cases c) simp

lemma sub_classes_iff: "c \<in> set (sub_classes cs) \<longleftrightarrow> (\<exists>k s. (k, s) \<in> set cs \<and> c \<in> set (classes s))"
proof (induction cs)
  case (Cons x cs)
  then show ?case by (cases x) auto
qed simp

lemma classes_cases:
  assumes "c \<in> set (classes s)"
  obtains (self) "c = s"
    | (sub) f off cs k s' where "cls_dispatch s = Some (f, off, cs)" "(k, s') \<in> set cs" "c \<in> set (classes s')"
  using assms by (cases s) (auto simp: sub_classes_iff split: option.splits)

lemma codecs_ok_iff: "codecs_ok f off cs \<longleftrightarrow> (\<forall>(k, c)\<in>set cs. codec_ok c \<and> writes_const f off k c)"
  by (induction cs) auto

lemma all_write_const_iff: "all_write_const f off k cs \<longleftrightarrow> (\<forall>(_, c)\<in>set cs. writes_const f off k c)"
  by (induction cs) auto

lemma some_need_align_iff: "some_need_align cs \<longleftrightarrow> (\<exists>(_, c)\<in>set cs. needs_align c)"
  by (induction cs) auto

lemma codec_ok_dispatch:
  assumes "codec_ok c" "cls_dispatch c = Some (f, off, cs)"
  shows "is_int_fmt f" "distinct (map fst cs)" "\<exists>a. field_at off f (cls_pack c) = Some a"
    and "(k, s) \<in> set cs \<Longrightarrow> codec_ok s \<and> writes_const f off k s"
  using assms by (cases c; auto simp: codecs_ok_iff split: option.splits)+

lemma writes_const_sub:
  "writes_const f off k c \<Longrightarrow> cls_dispatch c = Some (g, n, cs) \<Longrightarrow> (j, s) \<in> set cs \<Longrightarrow> writes_const f off k s"
  by (cases c) (auto simp: all_write_const_iff)

lemma writes_const_self:
  "writes_const f off k c \<Longrightarrow>
   \<exists>a. field_at off f (cls_pack c) = Some a \<and> map_of (cls_consts c) a = Some k \<and> a \<notin> fst ` set (cls_init c)"
  by (cases c) (auto split: option.splits)

lemma needs_align_sub:
  "cls_dispatch c = Some (g, n, cs) \<Longrightarrow> (j, s) \<in> set cs \<Longrightarrow> needs_align s \<Longrightarrow> needs_align c"
  by (cases c) (auto simp: some_need_align_iff)

lemma size_subtype: "cls_dispatch c = Some (f, off, cs) \<Longrightarrow> (k, s) \<in> set cs \<Longrightarrow> size s < size c"
  by (cases c) (auto dest!: size_list_estimation' [where f = "size_prod (\<lambda>_. 0) size" and y = "size s"])

text \<open>A fact that holds of a class and passes to subtypes holds of the whole family.\<close>

lemma classes_induct:
  assumes "c \<in> set (classes s)" and "P s"
    and "\<And>s f off cs k s'. P s \<Longrightarrow> cls_dispatch s = Some (f, off, cs) \<Longrightarrow> (k, s') \<in> set cs \<Longrightarrow> P s'"
  shows "P c"
  using assms(1,2)
proof (induction "size s" arbitrary: s rule: less_induct)
  case less
  from less.prems(1) show ?case
  proof (cases rule: classes_cases)
    case self
    then show ?thesis using less.prems(2) by simp
  next
    case (sub f off cs k s')
    then show ?thesis using less.hyps [OF size_subtype] assms(3) less.prems(2) by blast
  qed
qed

lemma codec_ok_classes: "c \<in> set (classes s) \<Longrightarrow> codec_ok s \<Longrightarrow> codec_ok c"
  by (erule classes_induct) (auto dest: codec_ok_dispatch)

lemma writes_const_classes: "c \<in> set (classes s) \<Longrightarrow> writes_const f off k s \<Longrightarrow> writes_const f off k c"
  by (erule classes_induct) (auto dest: writes_const_sub)

lemma needs_align_classes: "c \<in> set (classes s) \<Longrightarrow> \<not> needs_align s \<Longrightarrow> \<not> needs_align c"
  by (erule classes_induct) (auto dest: needs_align_sub)


section \<open>Dispatch\<close>

lemma unpack_subtype_eq:
  "distinct (map fst cs) \<Longrightarrow> (k, c) \<in> set cs \<Longrightarrow> unpack_subtype rec cs k r = Some (unpack rec c r)"
  by (induction cs) force+

lemma unpack_subtype_None: "k \<notin> fst ` set cs \<Longrightarrow> unpack_subtype rec cs k r = None"
  by (induction cs) auto

lemma unpack_subtype_Some:
  "unpack_subtype rec cs k r = Some res \<Longrightarrow> \<exists>k s. (k, s) \<in> set cs \<and> res = unpack rec s r"
proof (induction cs)
  case (Cons x cs)
  obtain j c where x: "x = (j, c)" by (cases x)
  then show ?case using Cons by (cases "k = j") auto
qed simp

lemma unpack_is_obj: "unpack rec c r = Inr (v, r') \<Longrightarrow> is_obj v"
proof (induction "size c" arbitrary: c rule: less_induct)
  case less
  obtain nm ks ini ps disp us eqs where c: "c = Cls nm ks ini ps disp us eqs" by (cases c)
  show ?case
  proof (cases "\<exists>f off cs k. disp = Some (f, off, cs) \<and> unpack_subtype rec cs k r = Some (Inr (v, r'))")
    case True
    then obtain f off cs k s where s: "cls_dispatch c = Some (f, off, cs)" "(k, s) \<in> set cs" "unpack rec s r = Inr (v, r')"
      using unpack_subtype_Some by (fastforce simp: c)
    show ?thesis by (rule less.hyps [OF size_subtype [OF s(1,2)] s(3)])
  next
    case False
    then show ?thesis using less.prems
      by (auto simp: c Let_def rbind_eq_Inr split: option.splits)
  qed
qed

lemma int_field_value:
  assumes "is_int_fmt f" "pack_fmt f (Num n) = Inr bs"
  shows "be_nat bs = nat n"
  using assms pack_uint_roundtrip [of "fmt_size f" "Num n" bs] by auto

text \<open>The number that a superclass peeks at.\<close>

lemma peeked:
  assumes "pack (Obj c as) = Inr bs" "codec_ok c" "is_int_fmt f" "field_at off f (cls_pack c) = Some a"
    and "attr_of c (pack_env as) a = Inr (Num n, x)"
  shows "off + fmt_size f \<le> length bs" "be_nat (take (fmt_size f) (drop off bs)) = nat n"
proof -
  have "patch_ok [] 0 (cls_pack c)" using assms(2) by (cases c) simp
  then obtain K where K: "packs c (pack_env as) K 0 0 (cls_pack c)" "bs = concat K"
    using pack_body_packs [of c "pack_env as" bs] assms(1) by (auto simp: pack_env_def)
  obtain b where b: "pack_fmt f (Num n) = Inr b" "off + fmt_size f \<le> length bs" "take (fmt_size f) (drop off bs) = b"
    using field_at_packed [OF K(1) assms(4)] assms(5) K(2) by auto
  then show "off + fmt_size f \<le> length bs" "be_nat (take (fmt_size f) (drop off bs)) = nat n"
    using int_field_value [OF assms(3) b(1)] by auto
qed

lemma unpack_finds_class:
  assumes "c \<in> set (classes s)" "codec_ok s" and c: "map fst as = map fst (cls_init c)" "unregistered c as"
    and bs: "pack (Obj c as) = Inr bs" and r: "rd_valid r" "remaining r = bs @ rest"
  shows "unpack rec s r = unpack_body rec c r"
  using assms(1,2)
proof (induction "size s" arbitrary: s rule: less_induct)
  case less
  have ok: "codec_ok c" using codec_ok_classes [OF less.prems] .
  from less.prems(1) show ?case
  proof (cases rule: classes_cases)
    case self
    show ?thesis
    proof (cases "cls_dispatch c")
      case None
      then show ?thesis by (simp add: self unpack_eq [OF r(1)])
    next
      case (Some x)
      then obtain f off cs where x: "cls_dispatch c = Some (f, off, cs)" by (cases x) auto
      obtain a n where a: "field_at off f (cls_pack c) = Some a" "map_of as a = Some (Num n)" "nat n \<notin> fst ` set cs"
        using c(2) by (auto simp: unregistered_def x split: option.splits lval.splits)
      note peek = peeked [OF bs ok codec_ok_dispatch(1) [OF ok x] a(1) attr_of_instance [OF a(2)]]
      then show ?thesis
        using unpack_subtype_None [OF a(3)] r(2) by (simp add: self [symmetric] unpack_eq [OF r(1)] x)
    qed
  next
    case (sub f off cs k s')
    note disp = codec_ok_dispatch [OF less.prems(2) sub(1)]
    have s': "codec_ok s'" "writes_const f off k s'" using disp(4) [OF sub(2)] by auto
    obtain a where a: "field_at off f (cls_pack c) = Some a" "map_of (cls_consts c) a = Some k" "a \<notin> fst ` set as"
      using writes_const_self [OF writes_const_classes [OF sub(3) s'(2)]] c(1) by (metis list.set_map)
    note peek = peeked [OF bs ok disp(1) a(1) attr_of_class [OF a(3,2)]]
    have "unpack rec s r = unpack rec s' r"
      using peek unpack_subtype_eq [OF disp(2) sub(2)] r(2) by (simp add: unpack_eq [OF r(1), of rec s] sub(1))
    also have "\<dots> = unpack_body rec c r" using less.hyps [OF size_subtype [OF sub(1,2)] sub(3) s'(1)] .
    finally show ?thesis .
  qed
qed


section \<open>The round trip\<close>

lemma obj_roundtrips:
  assumes parts: "\<And>a v. map_of as a = Some v \<Longrightarrow> parts_roundtrip v"
  shows "roundtrips (Obj c as)"
  unfolding roundtrips_def restores_def
proof (intro allI impI)
  fix e d s bs r rest
  assume "env_ok e" "codec_ok s" and typed: "typed (Obj c as) e d s" and bs: "pack (Obj c as) = Inr bs"
    and r: "rd_valid r" "remaining r = bs @ rest" and al: "needs_align s \<longrightarrow> 8 dvd rd_offset r"
  have c: "c \<in> set (classes s)" "map fst as = map fst (cls_init c)" "unregistered c as"
      "list_all (typed_stmt e d c (map (\<lambda>(a, v). (a, v, typed v e)) as)) (cls_unpack c)"
    using typed by simp_all
  have "U_orig_skip_align \<in> set (cls_unpack c) \<longrightarrow> 8 dvd rd_offset r"
    using al needs_align_classes [OF c(1)] by (cases c) auto
  then have "unpack_body (unpack_tlv e d) c r = Inr (Obj c as, advance (length bs) r)"
    by (intro unpack_body_pack [OF codec_ok_classes [OF c(1) \<open>codec_ok s\<close>] \<open>env_ok e\<close> c(2,4) bs r]) (auto intro: parts)
  then show "unpack (unpack_tlv e d) s r = Inr (Obj c as, advance (length bs) r)"
    using unpack_finds_class [OF c(1) \<open>codec_ok s\<close> c(2,3) bs r] by simp
qed

lemma all_parts_roundtrip: "parts_roundtrip v \<and> (is_obj v \<longrightarrow> roundtrips v)"
proof (induction v)
  case (Obj c as)
  have "roundtrips (Obj c as)" using Obj by (intro obj_roundtrips) (fastforce dest: map_of_SomeD)
  then show ?case by simp
qed simp_all

theorem unpack_pack:
  assumes "env_ok e" "codec_ok c" "typed v e d c" "is_obj v" "pack v = Inr bs"
    and "rd_valid r" "remaining r = bs @ rest" "needs_align c \<longrightarrow> 8 dvd rd_offset r"
  shows "unpack (unpack_tlv e d) c r = Inr (v, advance (length bs) r)"
  using all_parts_roundtrip [of v] assms unfolding roundtrips_def restores_def by blast

end
