(* ===== verification/LoxiNames.thy ===== *)
theory LoxiNames
  imports LoxiDispatch
begin

text \<open>
  The names of the attributes and of the local variables of the generated classes, and the collections
  of facts with which the check of a class is evaluated.
\<close>

named_theorems loxi_formats "formats of the helpers of util.py"
named_theorems loxi_checked "classes that have been checked"

lemmas loxi_eval = plus_off_def closing_tail_def aligned_off_def

section \<open>Names\<close>

abbreviation (input) nm___command :: pyname where
  "nm___command \<equiv> 2"

abbreviation (input) nm__actions_len :: pyname where
  "nm__actions_len \<equiv> 3"

abbreviation (input) nm__command :: pyname where
  "nm__command \<equiv> 4"

abbreviation (input) nm__err_type :: pyname where
  "nm__err_type \<equiv> 5"

abbreviation (input) nm__exp_type :: pyname where
  "nm__exp_type \<equiv> 6"

abbreviation (input) nm__experimenter :: pyname where
  "nm__experimenter \<equiv> 7"

abbreviation (input) nm__key_length :: pyname where
  "nm__key_length \<equiv> 8"

abbreviation (input) nm__len :: pyname where
  "nm__len \<equiv> 9"

abbreviation (input) nm__length :: pyname where
  "nm__length \<equiv> 10"

abbreviation (input) nm__stats_type :: pyname where
  "nm__stats_type \<equiv> 11"

abbreviation (input) nm__subtype :: pyname where
  "nm__subtype \<equiv> 12"

abbreviation (input) nm__type :: pyname where
  "nm__type \<equiv> 13"

abbreviation (input) nm__type_len :: pyname where
  "nm__type_len \<equiv> 14"

abbreviation (input) nm__version :: pyname where
  "nm__version \<equiv> 15"

abbreviation (input) nm_action_ids :: pyname where
  "nm_action_ids \<equiv> 16"

abbreviation (input) nm_actions :: pyname where
  "nm_actions \<equiv> 17"

abbreviation (input) nm_actions_all :: pyname where
  "nm_actions_all \<equiv> 18"

abbreviation (input) nm_actions_ff :: pyname where
  "nm_actions_ff \<equiv> 19"

abbreviation (input) nm_actions_indirect :: pyname where
  "nm_actions_indirect \<equiv> 20"

abbreviation (input) nm_actions_select :: pyname where
  "nm_actions_select \<equiv> 21"

abbreviation (input) nm_active_count :: pyname where
  "nm_active_count \<equiv> 22"

abbreviation (input) nm_actor_key :: pyname where
  "nm_actor_key \<equiv> 23"

abbreviation (input) nm_actor_port_num :: pyname where
  "nm_actor_port_num \<equiv> 24"

abbreviation (input) nm_actor_port_priority :: pyname where
  "nm_actor_port_priority \<equiv> 25"

abbreviation (input) nm_actor_sys_mac :: pyname where
  "nm_actor_sys_mac \<equiv> 26"

abbreviation (input) nm_actor_sys_priority :: pyname where
  "nm_actor_sys_priority \<equiv> 27"

abbreviation (input) nm_advertise :: pyname where
  "nm_advertise \<equiv> 28"

abbreviation (input) nm_advertised :: pyname where
  "nm_advertised \<equiv> 29"

abbreviation (input) nm_apply_actions :: pyname where
  "nm_apply_actions \<equiv> 30"

abbreviation (input) nm_apply_setfields :: pyname where
  "nm_apply_setfields \<equiv> 31"

abbreviation (input) nm_auxiliary_id :: pyname where
  "nm_auxiliary_id \<equiv> 32"

abbreviation (input) nm_band_stats :: pyname where
  "nm_band_stats \<equiv> 33"

abbreviation (input) nm_band_types :: pyname where
  "nm_band_types \<equiv> 34"

abbreviation (input) nm_bands :: pyname where
  "nm_bands \<equiv> 35"

abbreviation (input) nm_bias_current :: pyname where
  "nm_bias_current \<equiv> 36"

abbreviation (input) nm_bitmaps :: pyname where
  "nm_bitmaps \<equiv> 37"

abbreviation (input) nm_bucket_stats :: pyname where
  "nm_bucket_stats \<equiv> 38"

abbreviation (input) nm_buckets :: pyname where
  "nm_buckets \<equiv> 39"

abbreviation (input) nm_buckets_size :: pyname where
  "nm_buckets_size \<equiv> 40"

abbreviation (input) nm_buffer_id :: pyname where
  "nm_buffer_id \<equiv> 41"

abbreviation (input) nm_bundle_ctrl_type :: pyname where
  "nm_bundle_ctrl_type \<equiv> 42"

abbreviation (input) nm_bundle_id :: pyname where
  "nm_bundle_id \<equiv> 43"

abbreviation (input) nm_burst_size :: pyname where
  "nm_burst_size \<equiv> 44"

abbreviation (input) nm_byte_band_count :: pyname where
  "nm_byte_band_count \<equiv> 45"

abbreviation (input) nm_byte_count :: pyname where
  "nm_byte_count \<equiv> 46"

abbreviation (input) nm_byte_in_count :: pyname where
  "nm_byte_in_count \<equiv> 47"

abbreviation (input) nm_capabilities :: pyname where
  "nm_capabilities \<equiv> 48"

abbreviation (input) nm_checksum :: pyname where
  "nm_checksum \<equiv> 49"

abbreviation (input) nm_checksum_mask :: pyname where
  "nm_checksum_mask \<equiv> 50"

abbreviation (input) nm_code :: pyname where
  "nm_code \<equiv> 51"

abbreviation (input) nm_collisions :: pyname where
  "nm_collisions \<equiv> 52"

abbreviation (input) nm_command :: pyname where
  "nm_command \<equiv> 53"

abbreviation (input) nm_config :: pyname where
  "nm_config \<equiv> 54"

abbreviation (input) nm_configure :: pyname where
  "nm_configure \<equiv> 55"

abbreviation (input) nm_connections :: pyname where
  "nm_connections \<equiv> 56"

abbreviation (input) nm_convergence_status :: pyname where
  "nm_convergence_status \<equiv> 57"

abbreviation (input) nm_cookie :: pyname where
  "nm_cookie \<equiv> 58"

abbreviation (input) nm_cookie_mask :: pyname where
  "nm_cookie_mask \<equiv> 59"

abbreviation (input) nm_copy_stage :: pyname where
  "nm_copy_stage \<equiv> 60"

abbreviation (input) nm_counter_id :: pyname where
  "nm_counter_id \<equiv> 61"

abbreviation (input) nm_curr :: pyname where
  "nm_curr \<equiv> 62"

abbreviation (input) nm_curr_speed :: pyname where
  "nm_curr_speed \<equiv> 63"

abbreviation (input) nm_data :: pyname where
  "nm_data \<equiv> 64"

abbreviation (input) nm_datapath_id :: pyname where
  "nm_datapath_id \<equiv> 65"

abbreviation (input) nm_deleted_count :: pyname where
  "nm_deleted_count \<equiv> 66"

abbreviation (input) nm_desc :: pyname where
  "nm_desc \<equiv> 67"

abbreviation (input) nm_description :: pyname where
  "nm_description \<equiv> 68"

abbreviation (input) nm_dest_port :: pyname where
  "nm_dest_port \<equiv> 69"

abbreviation (input) nm_dl_addr :: pyname where
  "nm_dl_addr \<equiv> 70"

abbreviation (input) nm_dp_desc :: pyname where
  "nm_dp_desc \<equiv> 71"

abbreviation (input) nm_dscp :: pyname where
  "nm_dscp \<equiv> 72"

abbreviation (input) nm_dst :: pyname where
  "nm_dst \<equiv> 73"

abbreviation (input) nm_dst_ip :: pyname where
  "nm_dst_ip \<equiv> 74"

abbreviation (input) nm_duration_nsec :: pyname where
  "nm_duration_nsec \<equiv> 75"

abbreviation (input) nm_duration_sec :: pyname where
  "nm_duration_sec \<equiv> 76"

abbreviation (input) nm_egress_tpid :: pyname where
  "nm_egress_tpid \<equiv> 77"

abbreviation (input) nm_egress_vlan_id :: pyname where
  "nm_egress_vlan_id \<equiv> 78"

abbreviation (input) nm_elements :: pyname where
  "nm_elements \<equiv> 79"

abbreviation (input) nm_enable :: pyname where
  "nm_enable \<equiv> 80"

abbreviation (input) nm_enabled :: pyname where
  "nm_enabled \<equiv> 81"

abbreviation (input) nm_entries :: pyname where
  "nm_entries \<equiv> 82"

abbreviation (input) nm_entry_count :: pyname where
  "nm_entry_count \<equiv> 83"

abbreviation (input) nm_err_msg :: pyname where
  "nm_err_msg \<equiv> 84"

abbreviation (input) nm_err_type :: pyname where
  "nm_err_type \<equiv> 85"

abbreviation (input) nm_error_count :: pyname where
  "nm_error_count \<equiv> 86"

abbreviation (input) nm_eth_dst :: pyname where
  "nm_eth_dst \<equiv> 87"

abbreviation (input) nm_eth_dst_mask :: pyname where
  "nm_eth_dst_mask \<equiv> 88"

abbreviation (input) nm_eth_src :: pyname where
  "nm_eth_src \<equiv> 89"

abbreviation (input) nm_eth_src_mask :: pyname where
  "nm_eth_src_mask \<equiv> 90"

abbreviation (input) nm_eth_type :: pyname where
  "nm_eth_type \<equiv> 91"

abbreviation (input) nm_ethertype :: pyname where
  "nm_ethertype \<equiv> 92"

abbreviation (input) nm_exp_type :: pyname where
  "nm_exp_type \<equiv> 93"

abbreviation (input) nm_experimenter :: pyname where
  "nm_experimenter \<equiv> 94"

abbreviation (input) nm_experimenter_data :: pyname where
  "nm_experimenter_data \<equiv> 95"

abbreviation (input) nm_features :: pyname where
  "nm_features \<equiv> 96"

abbreviation (input) nm_field :: pyname where
  "nm_field \<equiv> 97"

abbreviation (input) nm_filename :: pyname where
  "nm_filename \<equiv> 98"

abbreviation (input) nm_fl_offset :: pyname where
  "nm_fl_offset \<equiv> 99"

abbreviation (input) nm_flags :: pyname where
  "nm_flags \<equiv> 100"

abbreviation (input) nm_flow_count :: pyname where
  "nm_flow_count \<equiv> 101"

abbreviation (input) nm_flow_removed_mask_equal_master :: pyname where
  "nm_flow_removed_mask_equal_master \<equiv> 102"

abbreviation (input) nm_flow_removed_mask_slave :: pyname where
  "nm_flow_removed_mask_slave \<equiv> 103"

abbreviation (input) nm_freq_ldma :: pyname where
  "nm_freq_ldma \<equiv> 104"

abbreviation (input) nm_generation_id :: pyname where
  "nm_generation_id \<equiv> 105"

abbreviation (input) nm_grid_span :: pyname where
  "nm_grid_span \<equiv> 106"

abbreviation (input) nm_group_id :: pyname where
  "nm_group_id \<equiv> 107"

abbreviation (input) nm_group_type :: pyname where
  "nm_group_type \<equiv> 108"

abbreviation (input) nm_hard_timeout :: pyname where
  "nm_hard_timeout \<equiv> 109"

abbreviation (input) nm_hw_addr :: pyname where
  "nm_hw_addr \<equiv> 110"

abbreviation (input) nm_hw_desc :: pyname where
  "nm_hw_desc \<equiv> 111"

abbreviation (input) nm_hybrid_enable :: pyname where
  "nm_hybrid_enable \<equiv> 112"

abbreviation (input) nm_hybrid_version :: pyname where
  "nm_hybrid_version \<equiv> 113"

abbreviation (input) nm_idle_timeout :: pyname where
  "nm_idle_timeout \<equiv> 114"

abbreviation (input) nm_if_name :: pyname where
  "nm_if_name \<equiv> 115"

abbreviation (input) nm_image_checksum :: pyname where
  "nm_image_checksum \<equiv> 116"

abbreviation (input) nm_importance :: pyname where
  "nm_importance \<equiv> 117"

abbreviation (input) nm_in_phy_port :: pyname where
  "nm_in_phy_port \<equiv> 118"

abbreviation (input) nm_in_port :: pyname where
  "nm_in_port \<equiv> 119"

abbreviation (input) nm_index :: pyname where
  "nm_index \<equiv> 120"

abbreviation (input) nm_ingress_tpid :: pyname where
  "nm_ingress_tpid \<equiv> 121"

abbreviation (input) nm_ingress_vlan_id :: pyname where
  "nm_ingress_vlan_id \<equiv> 122"

abbreviation (input) nm_instruction_ids :: pyname where
  "nm_instruction_ids \<equiv> 123"

abbreviation (input) nm_instructions :: pyname where
  "nm_instructions \<equiv> 124"

abbreviation (input) nm_interfaces :: pyname where
  "nm_interfaces \<equiv> 125"

abbreviation (input) nm_ip_dscp :: pyname where
  "nm_ip_dscp \<equiv> 126"

abbreviation (input) nm_ip_proto :: pyname where
  "nm_ip_proto \<equiv> 127"

abbreviation (input) nm_ipv4_addr :: pyname where
  "nm_ipv4_addr \<equiv> 128"

abbreviation (input) nm_ipv4_dst :: pyname where
  "nm_ipv4_dst \<equiv> 129"

abbreviation (input) nm_ipv4_dst_mask :: pyname where
  "nm_ipv4_dst_mask \<equiv> 130"

abbreviation (input) nm_ipv4_netmask :: pyname where
  "nm_ipv4_netmask \<equiv> 131"

abbreviation (input) nm_ipv4_src :: pyname where
  "nm_ipv4_src \<equiv> 132"

abbreviation (input) nm_ipv4_src_mask :: pyname where
  "nm_ipv4_src_mask \<equiv> 133"

abbreviation (input) nm_key :: pyname where
  "nm_key \<equiv> 134"

abbreviation (input) nm_l2_table_enable :: pyname where
  "nm_l2_table_enable \<equiv> 135"

abbreviation (input) nm_l2_table_priority :: pyname where
  "nm_l2_table_priority \<equiv> 136"

abbreviation (input) nm_local_mac :: pyname where
  "nm_local_mac \<equiv> 137"

abbreviation (input) nm_loglevel :: pyname where
  "nm_loglevel \<equiv> 138"

abbreviation (input) nm_lookup_count :: pyname where
  "nm_lookup_count \<equiv> 139"

abbreviation (input) nm_loopback_port_no :: pyname where
  "nm_loopback_port_no \<equiv> 140"

abbreviation (input) nm_mac :: pyname where
  "nm_mac \<equiv> 141"

abbreviation (input) nm_mask :: pyname where
  "nm_mask \<equiv> 142"

abbreviation (input) nm_match :: pyname where
  "nm_match \<equiv> 143"

abbreviation (input) nm_matched_count :: pyname where
  "nm_matched_count \<equiv> 144"

abbreviation (input) nm_max_bands :: pyname where
  "nm_max_bands \<equiv> 145"

abbreviation (input) nm_max_color :: pyname where
  "nm_max_color \<equiv> 146"

abbreviation (input) nm_max_entries :: pyname where
  "nm_max_entries \<equiv> 147"

abbreviation (input) nm_max_groups_all :: pyname where
  "nm_max_groups_all \<equiv> 148"

abbreviation (input) nm_max_groups_ff :: pyname where
  "nm_max_groups_ff \<equiv> 149"

abbreviation (input) nm_max_groups_indirect :: pyname where
  "nm_max_groups_indirect \<equiv> 150"

abbreviation (input) nm_max_groups_select :: pyname where
  "nm_max_groups_select \<equiv> 151"

abbreviation (input) nm_max_len :: pyname where
  "nm_max_len \<equiv> 152"

abbreviation (input) nm_max_meter :: pyname where
  "nm_max_meter \<equiv> 153"

abbreviation (input) nm_max_speed :: pyname where
  "nm_max_speed \<equiv> 154"

abbreviation (input) nm_metadata :: pyname where
  "nm_metadata \<equiv> 155"

abbreviation (input) nm_metadata_mask :: pyname where
  "nm_metadata_mask \<equiv> 156"

abbreviation (input) nm_metadata_match :: pyname where
  "nm_metadata_match \<equiv> 157"

abbreviation (input) nm_metadata_write :: pyname where
  "nm_metadata_write \<equiv> 158"

abbreviation (input) nm_meter_id :: pyname where
  "nm_meter_id \<equiv> 159"

abbreviation (input) nm_meters :: pyname where
  "nm_meters \<equiv> 160"

abbreviation (input) nm_mfr_desc :: pyname where
  "nm_mfr_desc \<equiv> 161"

abbreviation (input) nm_miss_send_len :: pyname where
  "nm_miss_send_len \<equiv> 162"

abbreviation (input) nm_mpls_label :: pyname where
  "nm_mpls_label \<equiv> 163"

abbreviation (input) nm_mpls_tc :: pyname where
  "nm_mpls_tc \<equiv> 164"

abbreviation (input) nm_mpls_ttl :: pyname where
  "nm_mpls_ttl \<equiv> 165"

abbreviation (input) nm_n_buffers :: pyname where
  "nm_n_buffers \<equiv> 166"

abbreviation (input) nm_n_tables :: pyname where
  "nm_n_tables \<equiv> 167"

abbreviation (input) nm_name :: pyname where
  "nm_name \<equiv> 168"

abbreviation (input) nm_next_table_ids :: pyname where
  "nm_next_table_ids \<equiv> 169"

abbreviation (input) nm_nh_mac :: pyname where
  "nm_nh_mac \<equiv> 170"

abbreviation (input) nm_num_aux :: pyname where
  "nm_num_aux \<equiv> 171"

abbreviation (input) nm_nw_addr :: pyname where
  "nm_nw_addr \<equiv> 172"

abbreviation (input) nm_nw_ecn :: pyname where
  "nm_nw_ecn \<equiv> 173"

abbreviation (input) nm_nw_tos :: pyname where
  "nm_nw_tos \<equiv> 174"

abbreviation (input) nm_nw_ttl :: pyname where
  "nm_nw_ttl \<equiv> 175"

abbreviation (input) nm_out_group :: pyname where
  "nm_out_group \<equiv> 176"

abbreviation (input) nm_out_port :: pyname where
  "nm_out_port \<equiv> 177"

abbreviation (input) nm_oxm_ids :: pyname where
  "nm_oxm_ids \<equiv> 178"

abbreviation (input) nm_oxm_list :: pyname where
  "nm_oxm_list \<equiv> 179"

abbreviation (input) nm_packet_band_count :: pyname where
  "nm_packet_band_count \<equiv> 180"

abbreviation (input) nm_packet_count :: pyname where
  "nm_packet_count \<equiv> 181"

abbreviation (input) nm_packet_in_count :: pyname where
  "nm_packet_in_count \<equiv> 182"

abbreviation (input) nm_packet_in_mask_equal_master :: pyname where
  "nm_packet_in_mask_equal_master \<equiv> 183"

abbreviation (input) nm_packet_in_mask_slave :: pyname where
  "nm_packet_in_mask_slave \<equiv> 184"

abbreviation (input) nm_partner_key :: pyname where
  "nm_partner_key \<equiv> 185"

abbreviation (input) nm_partner_port_num :: pyname where
  "nm_partner_port_num \<equiv> 186"

abbreviation (input) nm_partner_port_priority :: pyname where
  "nm_partner_port_priority \<equiv> 187"

abbreviation (input) nm_partner_sys_mac :: pyname where
  "nm_partner_sys_mac \<equiv> 188"

abbreviation (input) nm_partner_sys_priority :: pyname where
  "nm_partner_sys_priority \<equiv> 189"

abbreviation (input) nm_peer :: pyname where
  "nm_peer \<equiv> 190"

abbreviation (input) nm_pipeline :: pyname where
  "nm_pipeline \<equiv> 191"

abbreviation (input) nm_port :: pyname where
  "nm_port \<equiv> 192"

abbreviation (input) nm_port_no :: pyname where
  "nm_port_no \<equiv> 193"

abbreviation (input) nm_port_status_mask_equal_master :: pyname where
  "nm_port_status_mask_equal_master \<equiv> 194"

abbreviation (input) nm_port_status_mask_slave :: pyname where
  "nm_port_status_mask_slave \<equiv> 195"

abbreviation (input) nm_ports :: pyname where
  "nm_ports \<equiv> 196"

abbreviation (input) nm_prec_level :: pyname where
  "nm_prec_level \<equiv> 197"

abbreviation (input) nm_priority :: pyname where
  "nm_priority \<equiv> 198"

abbreviation (input) nm_properties :: pyname where
  "nm_properties \<equiv> 199"

abbreviation (input) nm_queue_id :: pyname where
  "nm_queue_id \<equiv> 200"

abbreviation (input) nm_queues :: pyname where
  "nm_queues \<equiv> 201"

abbreviation (input) nm_rate :: pyname where
  "nm_rate \<equiv> 202"

abbreviation (input) nm_rate_limit :: pyname where
  "nm_rate_limit \<equiv> 203"

abbreviation (input) nm_reason :: pyname where
  "nm_reason \<equiv> 204"

abbreviation (input) nm_ref_count :: pyname where
  "nm_ref_count \<equiv> 205"

abbreviation (input) nm_report_mirror_ports :: pyname where
  "nm_report_mirror_ports \<equiv> 206"

abbreviation (input) nm_reserved :: pyname where
  "nm_reserved \<equiv> 207"

abbreviation (input) nm_role :: pyname where
  "nm_role \<equiv> 208"

abbreviation (input) nm_rx_bytes :: pyname where
  "nm_rx_bytes \<equiv> 209"

abbreviation (input) nm_rx_crc_err :: pyname where
  "nm_rx_crc_err \<equiv> 210"

abbreviation (input) nm_rx_dropped :: pyname where
  "nm_rx_dropped \<equiv> 211"

abbreviation (input) nm_rx_errors :: pyname where
  "nm_rx_errors \<equiv> 212"

abbreviation (input) nm_rx_frame_err :: pyname where
  "nm_rx_frame_err \<equiv> 213"

abbreviation (input) nm_rx_freq_lmda :: pyname where
  "nm_rx_freq_lmda \<equiv> 214"

abbreviation (input) nm_rx_grid_freq_lmda :: pyname where
  "nm_rx_grid_freq_lmda \<equiv> 215"

abbreviation (input) nm_rx_grid_span :: pyname where
  "nm_rx_grid_span \<equiv> 216"

abbreviation (input) nm_rx_max_freq_lmda :: pyname where
  "nm_rx_max_freq_lmda \<equiv> 217"

abbreviation (input) nm_rx_min_freq_lmda :: pyname where
  "nm_rx_min_freq_lmda \<equiv> 218"

abbreviation (input) nm_rx_offset :: pyname where
  "nm_rx_offset \<equiv> 219"

abbreviation (input) nm_rx_over_err :: pyname where
  "nm_rx_over_err \<equiv> 220"

abbreviation (input) nm_rx_packets :: pyname where
  "nm_rx_packets \<equiv> 221"

abbreviation (input) nm_rx_pwr :: pyname where
  "nm_rx_pwr \<equiv> 222"

abbreviation (input) nm_seed1 :: pyname where
  "nm_seed1 \<equiv> 223"

abbreviation (input) nm_seed2 :: pyname where
  "nm_seed2 \<equiv> 224"

abbreviation (input) nm_serial_num :: pyname where
  "nm_serial_num \<equiv> 225"

abbreviation (input) nm_service :: pyname where
  "nm_service \<equiv> 226"

abbreviation (input) nm_slot_num :: pyname where
  "nm_slot_num \<equiv> 227"

abbreviation (input) nm_src_ip :: pyname where
  "nm_src_ip \<equiv> 228"

abbreviation (input) nm_startup_config_checksum :: pyname where
  "nm_startup_config_checksum \<equiv> 229"

abbreviation (input) nm_state :: pyname where
  "nm_state \<equiv> 230"

abbreviation (input) nm_stats :: pyname where
  "nm_stats \<equiv> 231"

abbreviation (input) nm_stats_type :: pyname where
  "nm_stats_type \<equiv> 232"

abbreviation (input) nm_status :: pyname where
  "nm_status \<equiv> 233"

abbreviation (input) nm_subtype :: pyname where
  "nm_subtype \<equiv> 234"

abbreviation (input) nm_supported :: pyname where
  "nm_supported \<equiv> 235"

abbreviation (input) nm_sw_desc :: pyname where
  "nm_sw_desc \<equiv> 236"

abbreviation (input) nm_table :: pyname where
  "nm_table \<equiv> 237"

abbreviation (input) nm_table_id :: pyname where
  "nm_table_id \<equiv> 238"

abbreviation (input) nm_table_ids :: pyname where
  "nm_table_ids \<equiv> 239"

abbreviation (input) nm_tcp_dst :: pyname where
  "nm_tcp_dst \<equiv> 240"

abbreviation (input) nm_tcp_src :: pyname where
  "nm_tcp_src \<equiv> 241"

abbreviation (input) nm_temperature :: pyname where
  "nm_temperature \<equiv> 242"

abbreviation (input) nm_time_ms :: pyname where
  "nm_time_ms \<equiv> 243"

abbreviation (input) nm_timeout_ms :: pyname where
  "nm_timeout_ms \<equiv> 244"

abbreviation (input) nm_tlvs :: pyname where
  "nm_tlvs \<equiv> 245"

abbreviation (input) nm_total_len :: pyname where
  "nm_total_len \<equiv> 246"

abbreviation (input) nm_tp_port :: pyname where
  "nm_tp_port \<equiv> 247"

abbreviation (input) nm_ttl :: pyname where
  "nm_ttl \<equiv> 248"

abbreviation (input) nm_tx_bytes :: pyname where
  "nm_tx_bytes \<equiv> 249"

abbreviation (input) nm_tx_dropped :: pyname where
  "nm_tx_dropped \<equiv> 250"

abbreviation (input) nm_tx_errors :: pyname where
  "nm_tx_errors \<equiv> 251"

abbreviation (input) nm_tx_freq_lmda :: pyname where
  "nm_tx_freq_lmda \<equiv> 252"

abbreviation (input) nm_tx_grid_freq_lmda :: pyname where
  "nm_tx_grid_freq_lmda \<equiv> 253"

abbreviation (input) nm_tx_grid_span :: pyname where
  "nm_tx_grid_span \<equiv> 254"

abbreviation (input) nm_tx_interval_ms :: pyname where
  "nm_tx_interval_ms \<equiv> 255"

abbreviation (input) nm_tx_max_freq_lmda :: pyname where
  "nm_tx_max_freq_lmda \<equiv> 256"

abbreviation (input) nm_tx_min_freq_lmda :: pyname where
  "nm_tx_min_freq_lmda \<equiv> 257"

abbreviation (input) nm_tx_offset :: pyname where
  "nm_tx_offset \<equiv> 258"

abbreviation (input) nm_tx_packets :: pyname where
  "nm_tx_packets \<equiv> 259"

abbreviation (input) nm_tx_pwr :: pyname where
  "nm_tx_pwr \<equiv> 260"

abbreviation (input) nm_tx_pwr_max :: pyname where
  "nm_tx_pwr_max \<equiv> 261"

abbreviation (input) nm_tx_pwr_min :: pyname where
  "nm_tx_pwr_min \<equiv> 262"

abbreviation (input) nm_type :: pyname where
  "nm_type \<equiv> 263"

abbreviation (input) nm_type_len :: pyname where
  "nm_type_len \<equiv> 264"

abbreviation (input) nm_types :: pyname where
  "nm_types \<equiv> 265"

abbreviation (input) nm_uri :: pyname where
  "nm_uri \<equiv> 266"

abbreviation (input) nm_vacancy :: pyname where
  "nm_vacancy \<equiv> 267"

abbreviation (input) nm_vacancy_down :: pyname where
  "nm_vacancy_down \<equiv> 268"

abbreviation (input) nm_vacancy_up :: pyname where
  "nm_vacancy_up \<equiv> 269"

abbreviation (input) nm_value :: pyname where
  "nm_value \<equiv> 270"

abbreviation (input) nm_value_mask :: pyname where
  "nm_value_mask \<equiv> 271"

abbreviation (input) nm_values :: pyname where
  "nm_values \<equiv> 272"

abbreviation (input) nm_version :: pyname where
  "nm_version \<equiv> 273"

abbreviation (input) nm_vlan_pcp :: pyname where
  "nm_vlan_pcp \<equiv> 274"

abbreviation (input) nm_vlan_tag :: pyname where
  "nm_vlan_tag \<equiv> 275"

abbreviation (input) nm_vlan_vid :: pyname where
  "nm_vlan_vid \<equiv> 276"

abbreviation (input) nm_vpn :: pyname where
  "nm_vpn \<equiv> 277"

abbreviation (input) nm_vport :: pyname where
  "nm_vport \<equiv> 278"

abbreviation (input) nm_vport_no :: pyname where
  "nm_vport_no \<equiv> 279"

abbreviation (input) nm_vrf :: pyname where
  "nm_vrf \<equiv> 280"

abbreviation (input) nm_watch_group :: pyname where
  "nm_watch_group \<equiv> 281"

abbreviation (input) nm_watch_port :: pyname where
  "nm_watch_port \<equiv> 282"

abbreviation (input) nm_weight :: pyname where
  "nm_weight \<equiv> 283"

abbreviation (input) nm_wildcards :: pyname where
  "nm_wildcards \<equiv> 284"

abbreviation (input) nm_write_actions :: pyname where
  "nm_write_actions \<equiv> 285"

abbreviation (input) nm_write_setfields :: pyname where
  "nm_write_setfields \<equiv> 286"

abbreviation (input) nm_xid :: pyname where
  "nm_xid \<equiv> 287"

end
