(* ===== verification/LoxiHeader.thy ===== *)
theory LoxiHeader
  imports LoxiNames
begin

text \<open>
  The header that all messages begin with.  \<open>has_header\<close> checks that the classes of a family
  write it, with the length of the message in its third field; then \<^verbatim>\<open>parse_header\<close>, with
  which the connection cuts its stream, reads that length.
\<close>

fun has_header :: "nat \<Rightarrow> cls \<Rightarrow> bool" and all_have_header :: "nat \<Rightarrow> (nat \<times> cls) list \<Rightarrow> bool" where
  "has_header ver (Cls nm ks ini ps disp us eqs) \<longleftrightarrow>
     take 4 ps = [P_field nm_version fB, P_field nm_type fB, P_placeholder, P_field nm_xid fL] \<and>
     map_of ks nm_version = Some ver \<and> nm_version \<notin> fst ` set ini \<and> nm_xid \<in> fst ` set ini \<and>
     closing ps = Some (2, False) \<and>
     (case disp of None \<Rightarrow> True | Some (_, _, cs) \<Rightarrow> all_have_header ver cs)"
| "all_have_header ver [] \<longleftrightarrow> True"
| "all_have_header ver ((_, c) # cs) \<longleftrightarrow> has_header ver c \<and> all_have_header ver cs"

lemma all_have_header_iff: "all_have_header ver cs \<longleftrightarrow> (\<forall>(_, c)\<in>set cs. has_header ver c)"
  by (induction cs) auto

lemma has_header_sub:
  "has_header ver c \<Longrightarrow> cls_dispatch c = Some (f, off, cs) \<Longrightarrow> (k, s) \<in> set cs \<Longrightarrow> has_header ver s"
  by (cases c) (auto simp: all_have_header_iff)

lemma has_header_classes: "c \<in> set (classes s) \<Longrightarrow> has_header ver s \<Longrightarrow> has_header ver c"
  by (erule classes_induct) (auto dest: has_header_sub)

lemma has_header_own:
  "has_header ver c \<Longrightarrow>
   take 4 (cls_pack c) = [P_field nm_version fB, P_field nm_type fB, P_placeholder, P_field nm_xid fL] \<and>
   map_of (cls_consts c) nm_version = Some ver \<and> nm_version \<notin> set (map fst (cls_init c)) \<and>
   nm_xid \<in> set (map fst (cls_init c)) \<and> closing (cls_pack c) = Some (2, False)"
  by (cases c) simp

lemma codec_ok_patch: "codec_ok c \<Longrightarrow> patch_ok [] 0 (cls_pack c)"
  by (cases c) (simp only: codec_ok.simps cls.sel)

lemma pack_fB: "pack_fmt fB v = Inr bs \<Longrightarrow> \<exists>b. bs = [b] \<and> v = Num (int (unat b))"
  using pack_uint_roundtrip [of 1 v bs] by (auto simp: length_Suc_conv be_nat_def)

lemma header_packed:
  assumes "has_header ver c" "codec_ok c" "pack (Obj c as) = Inr bs" "map fst as = map fst (cls_init c)"
  obtains t xid where "parse_header bs = Inr \<lparr>h_version = ver, h_type = t, h_len = length bs, h_xid = xid\<rparr>"
    and "map_of as nm_xid = Some (Num (int xid))"
proof -
  have ps: "take 4 (cls_pack c) = [P_field nm_version fB, P_field nm_type fB, P_placeholder, P_field nm_xid fL]"
    and k: "map_of (cls_consts c) nm_version = Some ver" "nm_version \<notin> fst ` set as" "nm_xid \<in> fst ` set as"
    and cl: "closing (cls_pack c) = Some (2, False)" and patch: "patch_ok [] 0 (cls_pack c)"
    using has_header_own [OF assms(1)] codec_ok_patch [OF assms(2)] unfolding assms(4) [symmetric] by auto
  obtain K where K: "packs c (pack_env as) K 0 0 (cls_pack c)" "bs = concat K"
    using pack_body_packs [OF _ patch, of "pack_env as" bs] assms(3) by (auto simp: pack_env_def)
  obtain qs where qs: "cls_pack c = P_field nm_version fB # P_field nm_type fB # P_placeholder # P_field nm_xid fL # qs"
    using ps append_take_drop_id [of 4 "cls_pack c"] by (metis append_Cons append_Nil)
  obtain xv where xv: "map_of as nm_xid = Some xv" using k(3) by (metis map_of_eq_None_iff not_Some_eq)
  have K0: "pack_fmt fB (Num (int ver)) = Inr (K ! 0)"
    using K(1) attr_of_class [OF k(2,1)] by (simp add: qs)
  have K1: "\<exists>v. pack_fmt fB v = Inr (K ! 1)" using K(1) by (auto simp: qs rbind_eq_Inr)
  have K3: "pack_fmt fL xv = Inr (K ! 3)" using K(1) attr_of_instance [OF xv] by (simp add: qs numeral_3_eq_3)
  have len: "4 \<le> length K" using K(1) by (auto simp: qs)
  obtain L where L: "L < 65536" "K ! 2 = be_bytes 2 L" "L = length bs"
    using closing_length [OF K(1) cl] by (auto simp: K(2))
  obtain b0 b1 where b: "K ! 0 = [b0]" "ver = unat b0" "K ! 1 = [b1]" using pack_fB [OF K0] K1 pack_fB by fastforce
  have x: "length (K ! 3) = 4" "xv = Num (int (be_nat (K ! 3)))" using pack_uint_roundtrip [of 4 xv "K ! 3"] K3 by auto
  have "K = [K ! 0, K ! 1, K ! 2, K ! 3] @ drop 4 K"
    using len by (cases K; cases "tl K"; cases "tl (tl K)"; cases "tl (tl (tl K))") auto
  then have "concat K = concat ([K ! 0, K ! 1, K ! 2, K ! 3] @ drop 4 K)" by (rule arg_cong)
  then have bs: "bs = [b0, b1] @ be_bytes 2 L @ K ! 3 @ concat (drop 4 K)" using b L(2) by (simp add: K(2))
  have l: "length bs = 8 + length (concat (drop 4 K))" unfolding bs using x(1) by simp
  have "take 2 (drop 2 bs) = be_bytes 2 L" "take 4 (drop 4 bs) = K ! 3" "bs ! 0 = b0" "bs ! 1 = b1"
    unfolding bs using x(1) by simp_all
  then have "parse_header bs = Inr \<lparr>h_version = ver, h_type = unat b1, h_len = length bs, h_xid = be_nat (K ! 3)\<rparr>"
    using l L b(2) by (simp add: parse_header_def)
  then show ?thesis using that xv x(2) by blast
qed

end
