(* ===== verification/Of11.thy ===== *)
theory Of11
  imports LoxiHeader
begin

text \<open>
  OpenFlow 1.1: the 145 classes of \<^verbatim>\<open>action.py\<close>, \<^verbatim>\<open>common.py\<close>, \<^verbatim>\<open>instruction.py\<close>,
  \<^verbatim>\<open>message.py\<close>
  under \<^verbatim>\<open>src/ofagent/loxi/of11\<close>, and the check that \<^verbatim>\<open>unpack\<close> of each class
  reads what its \<^verbatim>\<open>pack\<close> writes.
\<close>

section \<open>Formats of util.py\<close>

definition of11_port_no :: fmt where
  [loxi_formats]: "of11_port_no = fL"

definition of11_fm_cmd :: fmt where
  [loxi_formats]: "of11_fm_cmd = fB"

definition of11_wc_bmap :: fmt where
  [loxi_formats]: "of11_wc_bmap = fL"

definition of11_match_bmap :: fmt where
  [loxi_formats]: "of11_match_bmap = fL"


section \<open>Classes\<close>

definition of11_action_bsn_checksum :: cls where
  "of11_action_bsn_checksum =
     Cls ''bsn_checksum'' [(nm_type, 65535), (nm_experimenter, 6035143), (nm_subtype, 4)]
       [(nm_checksum, D_num 0)]
       [P_field nm_type fH, P_placeholder, P_field nm_experimenter fL, P_field nm_subtype fL,
        P_field nm_checksum fChecksum_128, P_length, P_set_len 1]
       None
       [U_local nm__type fH, U_assert nm__type 65535, U_local nm__len fH, U_slice nm__len 4,
        U_local nm__experimenter fL, U_assert nm__experimenter 6035143, U_local nm__subtype fL,
        U_assert nm__subtype 4, U_field nm_checksum fChecksum_128]
       [nm_checksum]"

definition of11_action_bsn_mirror :: cls where
  "of11_action_bsn_mirror =
     Cls ''bsn_mirror'' [(nm_type, 65535), (nm_experimenter, 6035143), (nm_subtype, 1)]
       [(nm_dest_port, D_num 0), (nm_vlan_tag, D_num 0), (nm_copy_stage, D_num 0)]
       [P_field nm_type fH, P_placeholder, P_field nm_experimenter fL, P_field nm_subtype fL,
        P_field nm_dest_port fL, P_field nm_vlan_tag fL, P_field nm_copy_stage fB, P_pad 3,
        P_length, P_set_len 1]
       None
       [U_local nm__type fH, U_assert nm__type 65535, U_local nm__len fH, U_slice nm__len 4,
        U_local nm__experimenter fL, U_assert nm__experimenter 6035143, U_local nm__subtype fL,
        U_assert nm__subtype 1, U_field nm_dest_port fL, U_field nm_vlan_tag fL,
        U_field nm_copy_stage fB, U_skip 3]
       [nm_dest_port, nm_vlan_tag, nm_copy_stage]"

definition of11_action_bsn_set_tunnel_dst :: cls where
  "of11_action_bsn_set_tunnel_dst =
     Cls ''bsn_set_tunnel_dst'' [(nm_type, 65535), (nm_experimenter, 6035143), (nm_subtype, 2)]
       [(nm_dst, D_num 0)]
       [P_field nm_type fH, P_placeholder, P_field nm_experimenter fL, P_field nm_subtype fL,
        P_field nm_dst fL, P_length, P_set_len 1]
       None
       [U_local nm__type fH, U_assert nm__type 65535, U_local nm__len fH, U_slice nm__len 4,
        U_local nm__experimenter fL, U_assert nm__experimenter 6035143, U_local nm__subtype fL,
        U_assert nm__subtype 2, U_field nm_dst fL]
       [nm_dst]"

definition of11_action_bsn :: cls where
  "of11_action_bsn =
     Cls ''bsn'' [(nm_type, 65535), (nm_experimenter, 6035143)]
       [(nm_subtype, D_num 0)]
       [P_field nm_type fH, P_placeholder, P_field nm_experimenter fL, P_field nm_subtype fL,
        P_pad 4, P_length, P_set_len 1]
       (Some (fL, 8,
         [(4, of11_action_bsn_checksum), (1, of11_action_bsn_mirror),
          (2, of11_action_bsn_set_tunnel_dst)]))
       [U_local nm__type fH, U_assert nm__type 65535, U_local nm__len fH, U_slice nm__len 4,
        U_local nm__experimenter fL, U_assert nm__experimenter 6035143, U_field nm_subtype fL,
        U_skip 4]
       [nm_subtype]"

definition of11_action_nicira_dec_ttl :: cls where
  "of11_action_nicira_dec_ttl =
     Cls ''nicira_dec_ttl'' [(nm_type, 65535), (nm_experimenter, 8992), (nm_subtype, 18)]
       []
       [P_field nm_type fH, P_placeholder, P_field nm_experimenter fL, P_field nm_subtype fH,
        P_pad 2, P_pad 4, P_length, P_set_len 1]
       None
       [U_local nm__type fH, U_assert nm__type 65535, U_local nm__len fH, U_slice nm__len 4,
        U_local nm__experimenter fL, U_assert nm__experimenter 8992, U_local nm__subtype fH,
        U_assert nm__subtype 18, U_skip 2, U_skip 4]
       []"

definition of11_action_nicira :: cls where
  "of11_action_nicira =
     Cls ''nicira'' [(nm_type, 65535), (nm_experimenter, 8992)]
       [(nm_subtype, D_num 0)]
       [P_field nm_type fH, P_placeholder, P_field nm_experimenter fL, P_field nm_subtype fH,
        P_pad 2, P_pad 4, P_length, P_set_len 1]
       (Some (fH, 8,
         [(18, of11_action_nicira_dec_ttl)]))
       [U_local nm__type fH, U_assert nm__type 65535, U_local nm__len fH, U_slice nm__len 4,
        U_local nm__experimenter fL, U_assert nm__experimenter 8992, U_field nm_subtype fH,
        U_skip 2, U_skip 4]
       [nm_subtype]"

definition of11_action_experimenter :: cls where
  "of11_action_experimenter =
     Cls ''experimenter'' [(nm_type, 65535)]
       [(nm_experimenter, D_num 0), (nm_data, D_str [])]
       [P_field nm_type fH, P_placeholder, P_field nm_experimenter fL, P_raw nm_data, P_length,
        P_set_len 1]
       (Some (fL, 4,
         [(6035143, of11_action_bsn), (8992, of11_action_nicira)]))
       [U_local nm__type fH, U_assert nm__type 65535, U_local nm__len fH, U_slice nm__len 4,
        U_field nm_experimenter fL, U_read_all nm_data]
       [nm_experimenter, nm_data]"

definition of11_action_copy_ttl_in :: cls where
  "of11_action_copy_ttl_in =
     Cls ''copy_ttl_in'' [(nm_type, 12)]
       []
       [P_field nm_type fH, P_placeholder, P_pad 4, P_length, P_set_len 1]
       None
       [U_local nm__type fH, U_assert nm__type 12, U_local nm__len fH, U_slice nm__len 4, U_skip 4]
       []"

definition of11_action_copy_ttl_out :: cls where
  "of11_action_copy_ttl_out =
     Cls ''copy_ttl_out'' [(nm_type, 11)]
       []
       [P_field nm_type fH, P_placeholder, P_pad 4, P_length, P_set_len 1]
       None
       [U_local nm__type fH, U_assert nm__type 11, U_local nm__len fH, U_slice nm__len 4, U_skip 4]
       []"

definition of11_action_dec_mpls_ttl :: cls where
  "of11_action_dec_mpls_ttl =
     Cls ''dec_mpls_ttl'' [(nm_type, 16)]
       []
       [P_field nm_type fH, P_placeholder, P_pad 4, P_length, P_set_len 1]
       None
       [U_local nm__type fH, U_assert nm__type 16, U_local nm__len fH, U_slice nm__len 4, U_skip 4]
       []"

definition of11_action_dec_nw_ttl :: cls where
  "of11_action_dec_nw_ttl =
     Cls ''dec_nw_ttl'' [(nm_type, 24)]
       []
       [P_field nm_type fH, P_placeholder, P_pad 4, P_length, P_set_len 1]
       None
       [U_local nm__type fH, U_assert nm__type 24, U_local nm__len fH, U_slice nm__len 4, U_skip 4]
       []"

definition of11_action_group :: cls where
  "of11_action_group =
     Cls ''group'' [(nm_type, 22)]
       [(nm_group_id, D_num 0)]
       [P_field nm_type fH, P_placeholder, P_field nm_group_id fL, P_length, P_set_len 1]
       None
       [U_local nm__type fH, U_assert nm__type 22, U_local nm__len fH, U_slice nm__len 4,
        U_field nm_group_id fL]
       [nm_group_id]"

definition of11_action_output :: cls where
  "of11_action_output =
     Cls ''output'' [(nm_type, 0)]
       [(nm_port, D_num 0), (nm_max_len, D_num 0)]
       [P_field nm_type fH, P_placeholder, P_field nm_port of11_port_no, P_field nm_max_len fH,
        P_pad 6, P_length, P_set_len 1]
       None
       [U_local nm__type fH, U_assert nm__type 0, U_local nm__len fH, U_slice nm__len 4,
        U_field nm_port of11_port_no, U_field nm_max_len fH, U_skip 6]
       [nm_port, nm_max_len]"

definition of11_action_pop_mpls :: cls where
  "of11_action_pop_mpls =
     Cls ''pop_mpls'' [(nm_type, 20)]
       [(nm_ethertype, D_num 0)]
       [P_field nm_type fH, P_placeholder, P_field nm_ethertype fH, P_pad 2, P_length, P_set_len 1]
       None
       [U_local nm__type fH, U_assert nm__type 20, U_local nm__len fH, U_slice nm__len 4,
        U_field nm_ethertype fH, U_skip 2]
       [nm_ethertype]"

definition of11_action_pop_vlan :: cls where
  "of11_action_pop_vlan =
     Cls ''pop_vlan'' [(nm_type, 18)]
       []
       [P_field nm_type fH, P_placeholder, P_pad 4, P_length, P_set_len 1]
       None
       [U_local nm__type fH, U_assert nm__type 18, U_local nm__len fH, U_slice nm__len 4, U_skip 4]
       []"

definition of11_action_push_mpls :: cls where
  "of11_action_push_mpls =
     Cls ''push_mpls'' [(nm_type, 19)]
       [(nm_ethertype, D_num 0)]
       [P_field nm_type fH, P_placeholder, P_field nm_ethertype fH, P_pad 2, P_length, P_set_len 1]
       None
       [U_local nm__type fH, U_assert nm__type 19, U_local nm__len fH, U_slice nm__len 4,
        U_field nm_ethertype fH, U_skip 2]
       [nm_ethertype]"

definition of11_action_push_vlan :: cls where
  "of11_action_push_vlan =
     Cls ''push_vlan'' [(nm_type, 17)]
       [(nm_ethertype, D_num 0)]
       [P_field nm_type fH, P_placeholder, P_field nm_ethertype fH, P_pad 2, P_length, P_set_len 1]
       None
       [U_local nm__type fH, U_assert nm__type 17, U_local nm__len fH, U_slice nm__len 4,
        U_field nm_ethertype fH, U_skip 2]
       [nm_ethertype]"

definition of11_action_set_dl_dst :: cls where
  "of11_action_set_dl_dst =
     Cls ''set_dl_dst'' [(nm_type, 4)]
       [(nm_dl_addr, D_nums [0,0,0,0,0,0])]
       [P_field nm_type fH, P_placeholder, P_field nm_dl_addr f6B, P_pad 6, P_length, P_set_len 1]
       None
       [U_local nm__type fH, U_assert nm__type 4, U_local nm__len fH, U_slice nm__len 4,
        U_field nm_dl_addr f6B, U_skip 6]
       [nm_dl_addr]"

definition of11_action_set_dl_src :: cls where
  "of11_action_set_dl_src =
     Cls ''set_dl_src'' [(nm_type, 3)]
       [(nm_dl_addr, D_nums [0,0,0,0,0,0])]
       [P_field nm_type fH, P_placeholder, P_field nm_dl_addr f6B, P_pad 6, P_length, P_set_len 1]
       None
       [U_local nm__type fH, U_assert nm__type 3, U_local nm__len fH, U_slice nm__len 4,
        U_field nm_dl_addr f6B, U_skip 6]
       [nm_dl_addr]"

definition of11_action_set_mpls_label :: cls where
  "of11_action_set_mpls_label =
     Cls ''set_mpls_label'' [(nm_type, 13)]
       [(nm_mpls_label, D_num 0)]
       [P_field nm_type fH, P_placeholder, P_field nm_mpls_label fL, P_length, P_set_len 1]
       None
       [U_local nm__type fH, U_assert nm__type 13, U_local nm__len fH, U_slice nm__len 4,
        U_field nm_mpls_label fL]
       [nm_mpls_label]"

definition of11_action_set_mpls_tc :: cls where
  "of11_action_set_mpls_tc =
     Cls ''set_mpls_tc'' [(nm_type, 14)]
       [(nm_mpls_tc, D_num 0)]
       [P_field nm_type fH, P_placeholder, P_field nm_mpls_tc fB, P_pad 3, P_length, P_set_len 1]
       None
       [U_local nm__type fH, U_assert nm__type 14, U_local nm__len fH, U_slice nm__len 4,
        U_field nm_mpls_tc fB, U_skip 3]
       [nm_mpls_tc]"

definition of11_action_set_mpls_ttl :: cls where
  "of11_action_set_mpls_ttl =
     Cls ''set_mpls_ttl'' [(nm_type, 15)]
       [(nm_mpls_ttl, D_num 0)]
       [P_field nm_type fH, P_placeholder, P_field nm_mpls_ttl fB, P_pad 3, P_length, P_set_len 1]
       None
       [U_local nm__type fH, U_assert nm__type 15, U_local nm__len fH, U_slice nm__len 4,
        U_field nm_mpls_ttl fB, U_skip 3]
       [nm_mpls_ttl]"

definition of11_action_set_nw_dst :: cls where
  "of11_action_set_nw_dst =
     Cls ''set_nw_dst'' [(nm_type, 6)]
       [(nm_nw_addr, D_num 0)]
       [P_field nm_type fH, P_placeholder, P_field nm_nw_addr fL, P_length, P_set_len 1]
       None
       [U_local nm__type fH, U_assert nm__type 6, U_local nm__len fH, U_slice nm__len 4,
        U_field nm_nw_addr fL]
       [nm_nw_addr]"

definition of11_action_set_nw_ecn :: cls where
  "of11_action_set_nw_ecn =
     Cls ''set_nw_ecn'' [(nm_type, 8)]
       [(nm_nw_ecn, D_num 0)]
       [P_field nm_type fH, P_placeholder, P_field nm_nw_ecn fB, P_pad 3, P_length, P_set_len 1]
       None
       [U_local nm__type fH, U_assert nm__type 8, U_local nm__len fH, U_slice nm__len 4,
        U_field nm_nw_ecn fB, U_skip 3]
       [nm_nw_ecn]"

definition of11_action_set_nw_src :: cls where
  "of11_action_set_nw_src =
     Cls ''set_nw_src'' [(nm_type, 5)]
       [(nm_nw_addr, D_num 0)]
       [P_field nm_type fH, P_placeholder, P_field nm_nw_addr fL, P_length, P_set_len 1]
       None
       [U_local nm__type fH, U_assert nm__type 5, U_local nm__len fH, U_slice nm__len 4,
        U_field nm_nw_addr fL]
       [nm_nw_addr]"

definition of11_action_set_nw_tos :: cls where
  "of11_action_set_nw_tos =
     Cls ''set_nw_tos'' [(nm_type, 7)]
       [(nm_nw_tos, D_num 0)]
       [P_field nm_type fH, P_placeholder, P_field nm_nw_tos fB, P_pad 3, P_length, P_set_len 1]
       None
       [U_local nm__type fH, U_assert nm__type 7, U_local nm__len fH, U_slice nm__len 4,
        U_field nm_nw_tos fB, U_skip 3]
       [nm_nw_tos]"

definition of11_action_set_nw_ttl :: cls where
  "of11_action_set_nw_ttl =
     Cls ''set_nw_ttl'' [(nm_type, 23)]
       [(nm_nw_ttl, D_num 0)]
       [P_field nm_type fH, P_placeholder, P_field nm_nw_ttl fB, P_pad 3, P_length, P_set_len 1]
       None
       [U_local nm__type fH, U_assert nm__type 23, U_local nm__len fH, U_slice nm__len 4,
        U_field nm_nw_ttl fB, U_skip 3]
       [nm_nw_ttl]"

definition of11_action_set_queue :: cls where
  "of11_action_set_queue =
     Cls ''set_queue'' [(nm_type, 21)]
       [(nm_queue_id, D_num 0)]
       [P_field nm_type fH, P_placeholder, P_field nm_queue_id fL, P_length, P_set_len 1]
       None
       [U_local nm__type fH, U_assert nm__type 21, U_local nm__len fH, U_slice nm__len 4,
        U_field nm_queue_id fL]
       [nm_queue_id]"

definition of11_action_set_tp_dst :: cls where
  "of11_action_set_tp_dst =
     Cls ''set_tp_dst'' [(nm_type, 10)]
       [(nm_tp_port, D_num 0)]
       [P_field nm_type fH, P_placeholder, P_field nm_tp_port fH, P_pad 2, P_length, P_set_len 1]
       None
       [U_local nm__type fH, U_assert nm__type 10, U_local nm__len fH, U_slice nm__len 4,
        U_field nm_tp_port fH, U_skip 2]
       [nm_tp_port]"

definition of11_action_set_tp_src :: cls where
  "of11_action_set_tp_src =
     Cls ''set_tp_src'' [(nm_type, 9)]
       [(nm_tp_port, D_num 0)]
       [P_field nm_type fH, P_placeholder, P_field nm_tp_port fH, P_pad 2, P_length, P_set_len 1]
       None
       [U_local nm__type fH, U_assert nm__type 9, U_local nm__len fH, U_slice nm__len 4,
        U_field nm_tp_port fH, U_skip 2]
       [nm_tp_port]"

definition of11_action_set_vlan_pcp :: cls where
  "of11_action_set_vlan_pcp =
     Cls ''set_vlan_pcp'' [(nm_type, 2)]
       [(nm_vlan_pcp, D_num 0)]
       [P_field nm_type fH, P_placeholder, P_field nm_vlan_pcp fB, P_pad 3, P_length, P_set_len 1]
       None
       [U_local nm__type fH, U_assert nm__type 2, U_local nm__len fH, U_slice nm__len 4,
        U_field nm_vlan_pcp fB, U_skip 3]
       [nm_vlan_pcp]"

definition of11_action_set_vlan_vid :: cls where
  "of11_action_set_vlan_vid =
     Cls ''set_vlan_vid'' [(nm_type, 1)]
       [(nm_vlan_vid, D_num 0)]
       [P_field nm_type fH, P_placeholder, P_field nm_vlan_vid fH, P_pad 2, P_length, P_set_len 1]
       None
       [U_local nm__type fH, U_assert nm__type 1, U_local nm__len fH, U_slice nm__len 4,
        U_field nm_vlan_vid fH, U_skip 2]
       [nm_vlan_vid]"

definition of11_action_action :: cls where
  "of11_action_action =
     Cls ''action'' []
       [(nm_type, D_num 0)]
       [P_field nm_type fH, P_placeholder, P_pad 4, P_length, P_set_len 1]
       (Some (fH, 0,
         [(65535, of11_action_experimenter), (12, of11_action_copy_ttl_in),
          (11, of11_action_copy_ttl_out), (16, of11_action_dec_mpls_ttl),
          (24, of11_action_dec_nw_ttl), (22, of11_action_group), (0, of11_action_output),
          (20, of11_action_pop_mpls), (18, of11_action_pop_vlan), (19, of11_action_push_mpls),
          (17, of11_action_push_vlan), (4, of11_action_set_dl_dst), (3, of11_action_set_dl_src),
          (13, of11_action_set_mpls_label), (14, of11_action_set_mpls_tc),
          (15, of11_action_set_mpls_ttl), (6, of11_action_set_nw_dst), (8, of11_action_set_nw_ecn),
          (5, of11_action_set_nw_src), (7, of11_action_set_nw_tos), (23, of11_action_set_nw_ttl),
          (21, of11_action_set_queue), (10, of11_action_set_tp_dst), (9, of11_action_set_tp_src),
          (2, of11_action_set_vlan_pcp), (1, of11_action_set_vlan_vid)]))
       [U_field nm_type fH, U_local nm__len fH, U_slice nm__len 4, U_skip 4]
       [nm_type]"

definition of11_common_bsn_interface :: cls where
  "of11_common_bsn_interface =
     Cls ''bsn_interface'' []
       [(nm_hw_addr, D_nums [0,0,0,0,0,0]), (nm_name, D_str []), (nm_ipv4_addr, D_num 0),
        (nm_ipv4_netmask, D_num 0)]
       [P_field nm_hw_addr f6B, P_pad 2, P_field nm_name (fS 16), P_field nm_ipv4_addr fL,
        P_field nm_ipv4_netmask fL]
       None
       [U_field nm_hw_addr f6B, U_skip 2, U_field nm_name (fS_rstrip 16), U_field nm_ipv4_addr fL,
        U_field nm_ipv4_netmask fL]
       [nm_hw_addr, nm_name, nm_ipv4_addr, nm_ipv4_netmask]"

definition of11_common_bsn_vport_l2gre :: cls where
  "of11_common_bsn_vport_l2gre =
     Cls ''bsn_vport_l2gre'' [(nm_type, 1)]
       [(nm_flags, D_num 0), (nm_port_no, D_num 0), (nm_loopback_port_no, D_num 0),
        (nm_local_mac, D_nums [0,0,0,0,0,0]), (nm_nh_mac, D_nums [0,0,0,0,0,0]),
        (nm_src_ip, D_num 0), (nm_dst_ip, D_num 0), (nm_dscp, D_num 0), (nm_ttl, D_num 0),
        (nm_vpn, D_num 0), (nm_rate_limit, D_num 0), (nm_if_name, D_str [])]
       [P_field nm_type fH, P_placeholder, P_field nm_flags fL, P_field nm_port_no of11_port_no,
        P_field nm_loopback_port_no of11_port_no, P_field nm_local_mac f6B, P_field nm_nh_mac f6B,
        P_field nm_src_ip fL, P_field nm_dst_ip fL, P_field nm_dscp fB, P_field nm_ttl fB, P_pad 2,
        P_field nm_vpn fL, P_field nm_rate_limit fL, P_field nm_if_name (fS 16), P_length,
        P_set_len 1]
       None
       [U_local nm__type fH, U_assert nm__type 1, U_local nm__length fH, U_slice nm__length 4,
        U_field nm_flags fL, U_field nm_port_no of11_port_no,
        U_field nm_loopback_port_no of11_port_no, U_field nm_local_mac f6B, U_field nm_nh_mac f6B,
        U_field nm_src_ip fL, U_field nm_dst_ip fL, U_field nm_dscp fB, U_field nm_ttl fB,
        U_skip 2, U_field nm_vpn fL, U_field nm_rate_limit fL, U_field nm_if_name (fS_rstrip 16)]
       [nm_flags, nm_port_no, nm_loopback_port_no, nm_local_mac, nm_nh_mac, nm_src_ip, nm_dst_ip,
        nm_dscp, nm_ttl, nm_vpn, nm_rate_limit, nm_if_name]"

definition of11_common_bsn_vport_q_in_q :: cls where
  "of11_common_bsn_vport_q_in_q =
     Cls ''bsn_vport_q_in_q'' [(nm_type, 0)]
       [(nm_port_no, D_num 0), (nm_ingress_tpid, D_num 0), (nm_ingress_vlan_id, D_num 0),
        (nm_egress_tpid, D_num 0), (nm_egress_vlan_id, D_num 0), (nm_if_name, D_str [])]
       [P_field nm_type fH, P_placeholder, P_field nm_port_no fL, P_field nm_ingress_tpid fH,
        P_field nm_ingress_vlan_id fH, P_field nm_egress_tpid fH, P_field nm_egress_vlan_id fH,
        P_field nm_if_name (fS 16), P_length, P_set_len 1]
       None
       [U_local nm__type fH, U_assert nm__type 0, U_local nm__length fH, U_slice nm__length 4,
        U_field nm_port_no fL, U_field nm_ingress_tpid fH, U_field nm_ingress_vlan_id fH,
        U_field nm_egress_tpid fH, U_field nm_egress_vlan_id fH, U_field nm_if_name (fS_rstrip 16)]
       [nm_port_no, nm_ingress_tpid, nm_ingress_vlan_id, nm_egress_tpid, nm_egress_vlan_id,
        nm_if_name]"

definition of11_common_bsn_vport :: cls where
  "of11_common_bsn_vport =
     Cls ''bsn_vport'' []
       [(nm_type, D_num 0)]
       [P_field nm_type fH, P_placeholder, P_length, P_set_len 1]
       (Some (fH, 0,
         [(1, of11_common_bsn_vport_l2gre), (0, of11_common_bsn_vport_q_in_q)]))
       [U_field nm_type fH, U_local nm__length fH, U_slice nm__length 4]
       [nm_type]"

definition of11_common_bucket :: cls where
  "of11_common_bucket =
     Cls ''bucket'' []
       [(nm_weight, D_num 0), (nm_watch_port, D_num 0), (nm_watch_group, D_num 0),
        (nm_actions, D_list)]
       [P_placeholder, P_field nm_weight fH, P_field nm_watch_port of11_port_no,
        P_field nm_watch_group fL, P_pad 4, P_list nm_actions, P_length, P_set_len 0]
       None
       [U_local nm__len fH, U_slice nm__len 2, U_field nm_weight fH,
        U_field nm_watch_port of11_port_no, U_field nm_watch_group fL, U_skip 4,
        U_list nm_actions of11_action_action]
       [nm_weight, nm_watch_port, nm_watch_group, nm_actions]"

definition of11_common_bucket_counter :: cls where
  "of11_common_bucket_counter =
     Cls ''bucket_counter'' []
       [(nm_packet_count, D_num 0), (nm_byte_count, D_num 0)]
       [P_field nm_packet_count fQ, P_field nm_byte_count fQ]
       None
       [U_field nm_packet_count fQ, U_field nm_byte_count fQ]
       [nm_packet_count, nm_byte_count]"

definition of11_common_match_v2 :: cls where
  "of11_common_match_v2 =
     Cls ''match_v2'' [(nm_type, 0)]
       [(nm_in_port, D_num 0), (nm_wildcards, D_num 0), (nm_eth_src, D_nums [0,0,0,0,0,0]),
        (nm_eth_src_mask, D_nums [0,0,0,0,0,0]), (nm_eth_dst, D_nums [0,0,0,0,0,0]),
        (nm_eth_dst_mask, D_nums [0,0,0,0,0,0]), (nm_vlan_vid, D_num 0), (nm_vlan_pcp, D_num 0),
        (nm_eth_type, D_num 0), (nm_ip_dscp, D_num 0), (nm_ip_proto, D_num 0),
        (nm_ipv4_src, D_num 0), (nm_ipv4_src_mask, D_num 0), (nm_ipv4_dst, D_num 0),
        (nm_ipv4_dst_mask, D_num 0), (nm_tcp_src, D_num 0), (nm_tcp_dst, D_num 0),
        (nm_mpls_label, D_num 0), (nm_mpls_tc, D_num 0), (nm_metadata, D_num 0),
        (nm_metadata_mask, D_num 0)]
       [P_field nm_type fH, P_placeholder, P_field nm_in_port of11_port_no,
        P_field nm_wildcards of11_wc_bmap, P_field nm_eth_src f6B, P_field nm_eth_src_mask f6B,
        P_field nm_eth_dst f6B, P_field nm_eth_dst_mask f6B, P_field nm_vlan_vid fH,
        P_field nm_vlan_pcp fB, P_pad 1, P_field nm_eth_type fH, P_field nm_ip_dscp fB,
        P_field nm_ip_proto fB, P_field nm_ipv4_src fL, P_field nm_ipv4_src_mask fL,
        P_field nm_ipv4_dst fL, P_field nm_ipv4_dst_mask fL, P_field nm_tcp_src fH,
        P_field nm_tcp_dst fH, P_field nm_mpls_label fL, P_field nm_mpls_tc fB, P_pad 3,
        P_field nm_metadata fQ, P_field nm_metadata_mask fQ, P_length, P_set_len 1]
       None
       [U_local nm__type fH, U_assert nm__type 0, U_local nm__length fH, U_slice nm__length 4,
        U_field nm_in_port of11_port_no, U_field nm_wildcards of11_wc_bmap, U_field nm_eth_src f6B,
        U_field nm_eth_src_mask f6B, U_field nm_eth_dst f6B, U_field nm_eth_dst_mask f6B,
        U_field nm_vlan_vid fH, U_field nm_vlan_pcp fB, U_skip 1, U_field nm_eth_type fH,
        U_field nm_ip_dscp fB, U_field nm_ip_proto fB, U_field nm_ipv4_src fL,
        U_field nm_ipv4_src_mask fL, U_field nm_ipv4_dst fL, U_field nm_ipv4_dst_mask fL,
        U_field nm_tcp_src fH, U_field nm_tcp_dst fH, U_field nm_mpls_label fL,
        U_field nm_mpls_tc fB, U_skip 3, U_field nm_metadata fQ, U_field nm_metadata_mask fQ]
       [nm_in_port, nm_wildcards, nm_eth_src, nm_eth_src_mask, nm_eth_dst, nm_eth_dst_mask,
        nm_vlan_vid, nm_vlan_pcp, nm_eth_type, nm_ip_dscp, nm_ip_proto, nm_ipv4_src,
        nm_ipv4_src_mask, nm_ipv4_dst, nm_ipv4_dst_mask, nm_tcp_src, nm_tcp_dst, nm_mpls_label,
        nm_mpls_tc, nm_metadata, nm_metadata_mask]"

definition of11_instruction_apply_actions :: cls where
  "of11_instruction_apply_actions =
     Cls ''apply_actions'' [(nm_type, 4)]
       [(nm_actions, D_list)]
       [P_field nm_type fH, P_placeholder, P_pad 4, P_list nm_actions, P_length, P_set_len 1]
       None
       [U_local nm__type fH, U_assert nm__type 4, U_local nm__len fH, U_slice nm__len 4, U_skip 4,
        U_list nm_actions of11_action_action]
       [nm_actions]"

definition of11_instruction_clear_actions :: cls where
  "of11_instruction_clear_actions =
     Cls ''clear_actions'' [(nm_type, 5)]
       []
       [P_field nm_type fH, P_placeholder, P_pad 4, P_length, P_set_len 1]
       None
       [U_local nm__type fH, U_assert nm__type 5, U_local nm__len fH, U_slice nm__len 4, U_skip 4]
       []"

definition of11_instruction_experimenter :: cls where
  "of11_instruction_experimenter =
     Cls ''experimenter'' [(nm_type, 65535)]
       [(nm_experimenter, D_num 0), (nm_data, D_str [])]
       [P_field nm_type fH, P_placeholder, P_field nm_experimenter fL, P_raw nm_data, P_length,
        P_set_len 1]
       (Some (fL, 4,
         []))
       [U_local nm__type fH, U_assert nm__type 65535, U_local nm__len fH, U_slice nm__len 4,
        U_field nm_experimenter fL, U_read_all nm_data]
       [nm_experimenter, nm_data]"

definition of11_instruction_goto_table :: cls where
  "of11_instruction_goto_table =
     Cls ''goto_table'' [(nm_type, 1)]
       [(nm_table_id, D_num 0)]
       [P_field nm_type fH, P_placeholder, P_field nm_table_id fB, P_pad 3, P_length, P_set_len 1]
       None
       [U_local nm__type fH, U_assert nm__type 1, U_local nm__len fH, U_slice nm__len 4,
        U_field nm_table_id fB, U_skip 3]
       [nm_table_id]"

definition of11_instruction_write_actions :: cls where
  "of11_instruction_write_actions =
     Cls ''write_actions'' [(nm_type, 3)]
       [(nm_actions, D_list)]
       [P_field nm_type fH, P_placeholder, P_pad 4, P_list nm_actions, P_length, P_set_len 1]
       None
       [U_local nm__type fH, U_assert nm__type 3, U_local nm__len fH, U_slice nm__len 4, U_skip 4,
        U_list nm_actions of11_action_action]
       [nm_actions]"

definition of11_instruction_write_metadata :: cls where
  "of11_instruction_write_metadata =
     Cls ''write_metadata'' [(nm_type, 2)]
       [(nm_metadata, D_num 0), (nm_metadata_mask, D_num 0)]
       [P_field nm_type fH, P_placeholder, P_pad 4, P_field nm_metadata fQ,
        P_field nm_metadata_mask fQ, P_length, P_set_len 1]
       None
       [U_local nm__type fH, U_assert nm__type 2, U_local nm__len fH, U_slice nm__len 4, U_skip 4,
        U_field nm_metadata fQ, U_field nm_metadata_mask fQ]
       [nm_metadata, nm_metadata_mask]"

definition of11_instruction_instruction :: cls where
  "of11_instruction_instruction =
     Cls ''instruction'' []
       [(nm_type, D_num 0)]
       [P_field nm_type fH, P_placeholder, P_pad 4, P_length, P_set_len 1]
       (Some (fH, 0,
         [(4, of11_instruction_apply_actions), (5, of11_instruction_clear_actions),
          (65535, of11_instruction_experimenter), (1, of11_instruction_goto_table),
          (3, of11_instruction_write_actions), (2, of11_instruction_write_metadata)]))
       [U_field nm_type fH, U_local nm__len fH, U_slice nm__len 4, U_skip 4]
       [nm_type]"

definition of11_common_flow_stats_entry :: cls where
  "of11_common_flow_stats_entry =
     Cls ''flow_stats_entry'' []
       [(nm_table_id, D_num 0), (nm_duration_sec, D_num 0), (nm_duration_nsec, D_num 0),
        (nm_priority, D_num 0), (nm_idle_timeout, D_num 0), (nm_hard_timeout, D_num 0),
        (nm_cookie, D_num 0), (nm_packet_count, D_num 0), (nm_byte_count, D_num 0),
        (nm_match, D_new of11_common_match_v2), (nm_instructions, D_list)]
       [P_placeholder, P_field nm_table_id fB, P_pad 1, P_field nm_duration_sec fL,
        P_field nm_duration_nsec fL, P_field nm_priority fH, P_field nm_idle_timeout fH,
        P_field nm_hard_timeout fH, P_pad 6, P_field nm_cookie fQ, P_field nm_packet_count fQ,
        P_field nm_byte_count fQ, P_obj nm_match, P_list nm_instructions, P_length, P_set_len 0]
       None
       [U_local nm__length fH, U_slice nm__length 2, U_field nm_table_id fB, U_skip 1,
        U_field nm_duration_sec fL, U_field nm_duration_nsec fL, U_field nm_priority fH,
        U_field nm_idle_timeout fH, U_field nm_hard_timeout fH, U_skip 6, U_field nm_cookie fQ,
        U_field nm_packet_count fQ, U_field nm_byte_count fQ, U_obj nm_match of11_common_match_v2,
        U_list nm_instructions of11_instruction_instruction]
       [nm_table_id, nm_duration_sec, nm_duration_nsec, nm_priority, nm_idle_timeout,
        nm_hard_timeout, nm_cookie, nm_packet_count, nm_byte_count, nm_match, nm_instructions]"

definition of11_common_group_desc_stats_entry :: cls where
  "of11_common_group_desc_stats_entry =
     Cls ''group_desc_stats_entry'' []
       [(nm_group_type, D_num 0), (nm_group_id, D_num 0), (nm_buckets, D_list)]
       [P_placeholder, P_field nm_group_type fB, P_pad 1, P_field nm_group_id fL,
        P_list nm_buckets, P_length, P_set_len 0]
       None
       [U_local nm__length fH, U_slice nm__length 2, U_field nm_group_type fB, U_skip 1,
        U_field nm_group_id fL, U_list nm_buckets of11_common_bucket]
       [nm_group_type, nm_group_id, nm_buckets]"

definition of11_common_group_stats_entry :: cls where
  "of11_common_group_stats_entry =
     Cls ''group_stats_entry'' []
       [(nm_group_id, D_num 0), (nm_ref_count, D_num 0), (nm_packet_count, D_num 0),
        (nm_byte_count, D_num 0), (nm_bucket_stats, D_list)]
       [P_placeholder, P_pad 2, P_field nm_group_id fL, P_field nm_ref_count fL, P_pad 4,
        P_field nm_packet_count fQ, P_field nm_byte_count fQ, P_list nm_bucket_stats, P_length,
        P_set_len 0]
       None
       [U_local nm__length fH, U_slice nm__length 2, U_skip 2, U_field nm_group_id fL,
        U_field nm_ref_count fL, U_skip 4, U_field nm_packet_count fQ, U_field nm_byte_count fQ,
        U_list nm_bucket_stats of11_common_bucket_counter]
       [nm_group_id, nm_ref_count, nm_packet_count, nm_byte_count, nm_bucket_stats]"

definition of11_common_queue_prop_min_rate :: cls where
  "of11_common_queue_prop_min_rate =
     Cls ''queue_prop_min_rate'' [(nm_type, 1)]
       [(nm_rate, D_num 0)]
       [P_field nm_type fH, P_placeholder, P_pad 4, P_field nm_rate fH, P_pad 6, P_length,
        P_set_len 1]
       None
       [U_local nm__type fH, U_assert nm__type 1, U_local nm__len fH, U_slice nm__len 4, U_skip 4,
        U_field nm_rate fH, U_skip 6]
       [nm_rate]"

definition of11_common_queue_prop :: cls where
  "of11_common_queue_prop =
     Cls ''queue_prop'' []
       [(nm_type, D_num 0)]
       [P_field nm_type fH, P_placeholder, P_pad 4, P_length, P_set_len 1]
       (Some (fH, 0,
         [(1, of11_common_queue_prop_min_rate)]))
       [U_field nm_type fH, U_local nm__len fH, U_slice nm__len 4, U_skip 4]
       [nm_type]"

definition of11_common_packet_queue :: cls where
  "of11_common_packet_queue =
     Cls ''packet_queue'' []
       [(nm_queue_id, D_num 0), (nm_properties, D_list)]
       [P_field nm_queue_id fL, P_placeholder, P_pad 2, P_list nm_properties, P_length,
        P_set_len 1]
       None
       [U_field nm_queue_id fL, U_local nm__len fH, U_slice nm__len 6, U_skip 2,
        U_list nm_properties of11_common_queue_prop]
       [nm_queue_id, nm_properties]"

definition of11_common_port_desc :: cls where
  "of11_common_port_desc =
     Cls ''port_desc'' []
       [(nm_port_no, D_num 0), (nm_hw_addr, D_nums [0,0,0,0,0,0]), (nm_name, D_str []),
        (nm_config, D_num 0), (nm_state, D_num 0), (nm_curr, D_num 0), (nm_advertised, D_num 0),
        (nm_supported, D_num 0), (nm_peer, D_num 0), (nm_curr_speed, D_num 0),
        (nm_max_speed, D_num 0)]
       [P_field nm_port_no of11_port_no, P_pad 4, P_field nm_hw_addr f6B, P_pad 2,
        P_field nm_name (fS 16), P_field nm_config fL, P_field nm_state fL, P_field nm_curr fL,
        P_field nm_advertised fL, P_field nm_supported fL, P_field nm_peer fL,
        P_field nm_curr_speed fL, P_field nm_max_speed fL]
       None
       [U_field nm_port_no of11_port_no, U_skip 4, U_field nm_hw_addr f6B, U_skip 2,
        U_field nm_name (fS_rstrip 16), U_field nm_config fL, U_field nm_state fL,
        U_field nm_curr fL, U_field nm_advertised fL, U_field nm_supported fL, U_field nm_peer fL,
        U_field nm_curr_speed fL, U_field nm_max_speed fL]
       [nm_port_no, nm_hw_addr, nm_name, nm_config, nm_state, nm_curr, nm_advertised, nm_supported,
        nm_peer, nm_curr_speed, nm_max_speed]"

definition of11_common_port_stats_entry :: cls where
  "of11_common_port_stats_entry =
     Cls ''port_stats_entry'' []
       [(nm_port_no, D_num 0), (nm_rx_packets, D_num 0), (nm_tx_packets, D_num 0),
        (nm_rx_bytes, D_num 0), (nm_tx_bytes, D_num 0), (nm_rx_dropped, D_num 0),
        (nm_tx_dropped, D_num 0), (nm_rx_errors, D_num 0), (nm_tx_errors, D_num 0),
        (nm_rx_frame_err, D_num 0), (nm_rx_over_err, D_num 0), (nm_rx_crc_err, D_num 0),
        (nm_collisions, D_num 0)]
       [P_field nm_port_no of11_port_no, P_pad 4, P_field nm_rx_packets fQ,
        P_field nm_tx_packets fQ, P_field nm_rx_bytes fQ, P_field nm_tx_bytes fQ,
        P_field nm_rx_dropped fQ, P_field nm_tx_dropped fQ, P_field nm_rx_errors fQ,
        P_field nm_tx_errors fQ, P_field nm_rx_frame_err fQ, P_field nm_rx_over_err fQ,
        P_field nm_rx_crc_err fQ, P_field nm_collisions fQ]
       None
       [U_field nm_port_no of11_port_no, U_skip 4, U_field nm_rx_packets fQ,
        U_field nm_tx_packets fQ, U_field nm_rx_bytes fQ, U_field nm_tx_bytes fQ,
        U_field nm_rx_dropped fQ, U_field nm_tx_dropped fQ, U_field nm_rx_errors fQ,
        U_field nm_tx_errors fQ, U_field nm_rx_frame_err fQ, U_field nm_rx_over_err fQ,
        U_field nm_rx_crc_err fQ, U_field nm_collisions fQ]
       [nm_port_no, nm_rx_packets, nm_tx_packets, nm_rx_bytes, nm_tx_bytes, nm_rx_dropped,
        nm_tx_dropped, nm_rx_errors, nm_tx_errors, nm_rx_frame_err, nm_rx_over_err, nm_rx_crc_err,
        nm_collisions]"

definition of11_common_queue_stats_entry :: cls where
  "of11_common_queue_stats_entry =
     Cls ''queue_stats_entry'' []
       [(nm_port_no, D_num 0), (nm_queue_id, D_num 0), (nm_tx_bytes, D_num 0),
        (nm_tx_packets, D_num 0), (nm_tx_errors, D_num 0)]
       [P_field nm_port_no of11_port_no, P_field nm_queue_id fL, P_field nm_tx_bytes fQ,
        P_field nm_tx_packets fQ, P_field nm_tx_errors fQ]
       None
       [U_field nm_port_no of11_port_no, U_field nm_queue_id fL, U_field nm_tx_bytes fQ,
        U_field nm_tx_packets fQ, U_field nm_tx_errors fQ]
       [nm_port_no, nm_queue_id, nm_tx_bytes, nm_tx_packets, nm_tx_errors]"

definition of11_common_table_stats_entry :: cls where
  "of11_common_table_stats_entry =
     Cls ''table_stats_entry'' []
       [(nm_table_id, D_num 0), (nm_name, D_str []), (nm_wildcards, D_num 0), (nm_match, D_num 0),
        (nm_instructions, D_num 0), (nm_write_actions, D_num 0), (nm_apply_actions, D_num 0),
        (nm_config, D_num 0), (nm_max_entries, D_num 0), (nm_active_count, D_num 0),
        (nm_lookup_count, D_num 0), (nm_matched_count, D_num 0)]
       [P_field nm_table_id fB, P_pad 7, P_field nm_name (fS 32),
        P_field nm_wildcards of11_wc_bmap, P_field nm_match of11_match_bmap,
        P_field nm_instructions fL, P_field nm_write_actions fL, P_field nm_apply_actions fL,
        P_field nm_config fL, P_field nm_max_entries fL, P_field nm_active_count fL,
        P_field nm_lookup_count fQ, P_field nm_matched_count fQ]
       None
       [U_field nm_table_id fB, U_skip 7, U_field nm_name (fS_rstrip 32),
        U_field nm_wildcards of11_wc_bmap, U_field nm_match of11_match_bmap,
        U_field nm_instructions fL, U_field nm_write_actions fL, U_field nm_apply_actions fL,
        U_field nm_config fL, U_field nm_max_entries fL, U_field nm_active_count fL,
        U_field nm_lookup_count fQ, U_field nm_matched_count fQ]
       [nm_table_id, nm_name, nm_wildcards, nm_match, nm_instructions, nm_write_actions,
        nm_apply_actions, nm_config, nm_max_entries, nm_active_count, nm_lookup_count,
        nm_matched_count]"

definition of11_message_aggregate_stats_reply :: cls where
  "of11_message_aggregate_stats_reply =
     Cls ''aggregate_stats_reply'' [(nm_version, 2), (nm_type, 19), (nm_stats_type, 2)]
       [(nm_xid, D_None), (nm_flags, D_num 0), (nm_packet_count, D_num 0),
        (nm_byte_count, D_num 0), (nm_flow_count, D_num 0)]
       [P_field nm_version fB, P_field nm_type fB, P_placeholder, P_field nm_xid fL,
        P_field nm_stats_type fH, P_field nm_flags fH, P_pad 4, P_field nm_packet_count fQ,
        P_field nm_byte_count fQ, P_field nm_flow_count fL, P_pad 4, P_length, P_set_len 2]
       None
       [U_local nm__version fB, U_assert nm__version 2, U_local nm__type fB, U_assert nm__type 19,
        U_local nm__length fH, U_slice nm__length 4, U_field nm_xid fL, U_local nm__stats_type fH,
        U_assert nm__stats_type 2, U_field nm_flags fH, U_skip 4, U_field nm_packet_count fQ,
        U_field nm_byte_count fQ, U_field nm_flow_count fL, U_skip 4]
       [nm_xid, nm_flags, nm_packet_count, nm_byte_count, nm_flow_count]"

definition of11_message_bsn_stats_reply :: cls where
  "of11_message_bsn_stats_reply =
     Cls ''bsn_stats_reply'' [(nm_version, 2), (nm_type, 19), (nm_stats_type, 65535), (nm_experimenter, 6035143)]
       [(nm_xid, D_None), (nm_flags, D_num 0), (nm_subtype, D_num 0)]
       [P_field nm_version fB, P_field nm_type fB, P_placeholder, P_field nm_xid fL,
        P_field nm_stats_type fH, P_field nm_flags fH, P_pad 4, P_field nm_experimenter fL,
        P_field nm_subtype fL, P_length, P_set_len 2]
       (Some (fL, 20,
         []))
       [U_local nm__version fB, U_assert nm__version 2, U_local nm__type fB, U_assert nm__type 19,
        U_local nm__length fH, U_slice nm__length 4, U_field nm_xid fL, U_local nm__stats_type fH,
        U_assert nm__stats_type 65535, U_field nm_flags fH, U_skip 4, U_local nm__experimenter fL,
        U_assert nm__experimenter 6035143, U_field nm_subtype fL]
       [nm_xid, nm_flags, nm_subtype]"

definition of11_message_experimenter_stats_reply :: cls where
  "of11_message_experimenter_stats_reply =
     Cls ''experimenter_stats_reply'' [(nm_version, 2), (nm_type, 19), (nm_stats_type, 65535)]
       [(nm_xid, D_None), (nm_flags, D_num 0), (nm_experimenter, D_num 0), (nm_data, D_str [])]
       [P_field nm_version fB, P_field nm_type fB, P_placeholder, P_field nm_xid fL,
        P_field nm_stats_type fH, P_field nm_flags fH, P_pad 4, P_field nm_experimenter fL,
        P_pad 4, P_raw nm_data, P_length, P_set_len 2]
       (Some (fL, 16,
         [(6035143, of11_message_bsn_stats_reply)]))
       [U_local nm__version fB, U_assert nm__version 2, U_local nm__type fB, U_assert nm__type 19,
        U_local nm__length fH, U_slice nm__length 4, U_field nm_xid fL, U_local nm__stats_type fH,
        U_assert nm__stats_type 65535, U_field nm_flags fH, U_skip 4, U_field nm_experimenter fL,
        U_skip 4, U_read_all nm_data]
       [nm_xid, nm_flags, nm_experimenter, nm_data]"

definition of11_message_desc_stats_reply :: cls where
  "of11_message_desc_stats_reply =
     Cls ''desc_stats_reply'' [(nm_version, 2), (nm_type, 19), (nm_stats_type, 0)]
       [(nm_xid, D_None), (nm_flags, D_num 0), (nm_mfr_desc, D_str []), (nm_hw_desc, D_str []),
        (nm_sw_desc, D_str []), (nm_serial_num, D_str []), (nm_dp_desc, D_str [])]
       [P_field nm_version fB, P_field nm_type fB, P_placeholder, P_field nm_xid fL,
        P_field nm_stats_type fH, P_field nm_flags fH, P_pad 4, P_field nm_mfr_desc (fS 256),
        P_field nm_hw_desc (fS 256), P_field nm_sw_desc (fS 256), P_field nm_serial_num (fS 32),
        P_field nm_dp_desc (fS 256), P_length, P_set_len 2]
       None
       [U_local nm__version fB, U_assert nm__version 2, U_local nm__type fB, U_assert nm__type 19,
        U_local nm__length fH, U_slice nm__length 4, U_field nm_xid fL, U_local nm__stats_type fH,
        U_assert nm__stats_type 0, U_field nm_flags fH, U_skip 4,
        U_field nm_mfr_desc (fS_rstrip 256), U_field nm_hw_desc (fS_rstrip 256),
        U_field nm_sw_desc (fS_rstrip 256), U_field nm_serial_num (fS_rstrip 32),
        U_field nm_dp_desc (fS_rstrip 256)]
       [nm_xid, nm_flags, nm_mfr_desc, nm_hw_desc, nm_sw_desc, nm_serial_num, nm_dp_desc]"

definition of11_message_flow_stats_reply :: cls where
  "of11_message_flow_stats_reply =
     Cls ''flow_stats_reply'' [(nm_version, 2), (nm_type, 19), (nm_stats_type, 1)]
       [(nm_xid, D_None), (nm_flags, D_num 0), (nm_entries, D_list)]
       [P_field nm_version fB, P_field nm_type fB, P_placeholder, P_field nm_xid fL,
        P_field nm_stats_type fH, P_field nm_flags fH, P_pad 4, P_list nm_entries, P_length,
        P_set_len 2]
       None
       [U_local nm__version fB, U_assert nm__version 2, U_local nm__type fB, U_assert nm__type 19,
        U_local nm__length fH, U_slice nm__length 4, U_field nm_xid fL, U_local nm__stats_type fH,
        U_assert nm__stats_type 1, U_field nm_flags fH, U_skip 4,
        U_list nm_entries of11_common_flow_stats_entry]
       [nm_xid, nm_flags, nm_entries]"

definition of11_message_group_desc_stats_reply :: cls where
  "of11_message_group_desc_stats_reply =
     Cls ''group_desc_stats_reply'' [(nm_version, 2), (nm_type, 19), (nm_stats_type, 7)]
       [(nm_xid, D_None), (nm_flags, D_num 0), (nm_entries, D_list)]
       [P_field nm_version fB, P_field nm_type fB, P_placeholder, P_field nm_xid fL,
        P_field nm_stats_type fH, P_field nm_flags fH, P_pad 4, P_list nm_entries, P_length,
        P_set_len 2]
       None
       [U_local nm__version fB, U_assert nm__version 2, U_local nm__type fB, U_assert nm__type 19,
        U_local nm__length fH, U_slice nm__length 4, U_field nm_xid fL, U_local nm__stats_type fH,
        U_assert nm__stats_type 7, U_field nm_flags fH, U_skip 4,
        U_list nm_entries of11_common_group_desc_stats_entry]
       [nm_xid, nm_flags, nm_entries]"

definition of11_message_group_stats_reply :: cls where
  "of11_message_group_stats_reply =
     Cls ''group_stats_reply'' [(nm_version, 2), (nm_type, 19), (nm_stats_type, 6)]
       [(nm_xid, D_None), (nm_flags, D_num 0), (nm_entries, D_list)]
       [P_field nm_version fB, P_field nm_type fB, P_placeholder, P_field nm_xid fL,
        P_field nm_stats_type fH, P_field nm_flags fH, P_pad 4, P_list nm_entries, P_length,
        P_set_len 2]
       None
       [U_local nm__version fB, U_assert nm__version 2, U_local nm__type fB, U_assert nm__type 19,
        U_local nm__length fH, U_slice nm__length 4, U_field nm_xid fL, U_local nm__stats_type fH,
        U_assert nm__stats_type 6, U_field nm_flags fH, U_skip 4,
        U_list nm_entries of11_common_group_stats_entry]
       [nm_xid, nm_flags, nm_entries]"

definition of11_message_port_stats_reply :: cls where
  "of11_message_port_stats_reply =
     Cls ''port_stats_reply'' [(nm_version, 2), (nm_type, 19), (nm_stats_type, 4)]
       [(nm_xid, D_None), (nm_flags, D_num 0), (nm_entries, D_list)]
       [P_field nm_version fB, P_field nm_type fB, P_placeholder, P_field nm_xid fL,
        P_field nm_stats_type fH, P_field nm_flags fH, P_pad 4, P_list nm_entries, P_length,
        P_set_len 2]
       None
       [U_local nm__version fB, U_assert nm__version 2, U_local nm__type fB, U_assert nm__type 19,
        U_local nm__length fH, U_slice nm__length 4, U_field nm_xid fL, U_local nm__stats_type fH,
        U_assert nm__stats_type 4, U_field nm_flags fH, U_skip 4,
        U_list nm_entries of11_common_port_stats_entry]
       [nm_xid, nm_flags, nm_entries]"

definition of11_message_queue_stats_reply :: cls where
  "of11_message_queue_stats_reply =
     Cls ''queue_stats_reply'' [(nm_version, 2), (nm_type, 19), (nm_stats_type, 5)]
       [(nm_xid, D_None), (nm_flags, D_num 0), (nm_entries, D_list)]
       [P_field nm_version fB, P_field nm_type fB, P_placeholder, P_field nm_xid fL,
        P_field nm_stats_type fH, P_field nm_flags fH, P_pad 4, P_list nm_entries, P_length,
        P_set_len 2]
       None
       [U_local nm__version fB, U_assert nm__version 2, U_local nm__type fB, U_assert nm__type 19,
        U_local nm__length fH, U_slice nm__length 4, U_field nm_xid fL, U_local nm__stats_type fH,
        U_assert nm__stats_type 5, U_field nm_flags fH, U_skip 4,
        U_list nm_entries of11_common_queue_stats_entry]
       [nm_xid, nm_flags, nm_entries]"

definition of11_message_table_stats_reply :: cls where
  "of11_message_table_stats_reply =
     Cls ''table_stats_reply'' [(nm_version, 2), (nm_type, 19), (nm_stats_type, 3)]
       [(nm_xid, D_None), (nm_flags, D_num 0), (nm_entries, D_list)]
       [P_field nm_version fB, P_field nm_type fB, P_placeholder, P_field nm_xid fL,
        P_field nm_stats_type fH, P_field nm_flags fH, P_pad 4, P_list nm_entries, P_length,
        P_set_len 2]
       None
       [U_local nm__version fB, U_assert nm__version 2, U_local nm__type fB, U_assert nm__type 19,
        U_local nm__length fH, U_slice nm__length 4, U_field nm_xid fL, U_local nm__stats_type fH,
        U_assert nm__stats_type 3, U_field nm_flags fH, U_skip 4,
        U_list nm_entries of11_common_table_stats_entry]
       [nm_xid, nm_flags, nm_entries]"

definition of11_message_stats_reply :: cls where
  "of11_message_stats_reply =
     Cls ''stats_reply'' [(nm_version, 2), (nm_type, 19)]
       [(nm_xid, D_None), (nm_stats_type, D_num 0), (nm_flags, D_num 0)]
       [P_field nm_version fB, P_field nm_type fB, P_placeholder, P_field nm_xid fL,
        P_field nm_stats_type fH, P_field nm_flags fH, P_pad 4, P_length, P_set_len 2]
       (Some (fH, 8,
         [(2, of11_message_aggregate_stats_reply), (65535, of11_message_experimenter_stats_reply),
          (0, of11_message_desc_stats_reply), (1, of11_message_flow_stats_reply),
          (7, of11_message_group_desc_stats_reply), (6, of11_message_group_stats_reply),
          (4, of11_message_port_stats_reply), (5, of11_message_queue_stats_reply),
          (3, of11_message_table_stats_reply)]))
       [U_local nm__version fB, U_assert nm__version 2, U_local nm__type fB, U_assert nm__type 19,
        U_local nm__length fH, U_slice nm__length 4, U_field nm_xid fL, U_field nm_stats_type fH,
        U_field nm_flags fH, U_skip 4]
       [nm_xid, nm_stats_type, nm_flags]"

definition of11_message_aggregate_stats_request :: cls where
  "of11_message_aggregate_stats_request =
     Cls ''aggregate_stats_request'' [(nm_version, 2), (nm_type, 18), (nm_stats_type, 2)]
       [(nm_xid, D_None), (nm_flags, D_num 0), (nm_table_id, D_num 0), (nm_out_port, D_num 0),
        (nm_out_group, D_num 0), (nm_cookie, D_num 0), (nm_cookie_mask, D_num 0),
        (nm_match, D_new of11_common_match_v2)]
       [P_field nm_version fB, P_field nm_type fB, P_placeholder, P_field nm_xid fL,
        P_field nm_stats_type fH, P_field nm_flags fH, P_pad 4, P_field nm_table_id fB, P_pad 3,
        P_field nm_out_port of11_port_no, P_field nm_out_group fL, P_pad 4, P_field nm_cookie fQ,
        P_field nm_cookie_mask fQ, P_obj nm_match, P_length, P_set_len 2]
       None
       [U_local nm__version fB, U_assert nm__version 2, U_local nm__type fB, U_assert nm__type 18,
        U_local nm__length fH, U_slice nm__length 4, U_field nm_xid fL, U_local nm__stats_type fH,
        U_assert nm__stats_type 2, U_field nm_flags fH, U_skip 4, U_field nm_table_id fB, U_skip 3,
        U_field nm_out_port of11_port_no, U_field nm_out_group fL, U_skip 4, U_field nm_cookie fQ,
        U_field nm_cookie_mask fQ, U_obj nm_match of11_common_match_v2]
       [nm_xid, nm_flags, nm_table_id, nm_out_port, nm_out_group, nm_cookie, nm_cookie_mask,
        nm_match]"

definition of11_message_bsn_stats_request :: cls where
  "of11_message_bsn_stats_request =
     Cls ''bsn_stats_request'' [(nm_version, 2), (nm_type, 18), (nm_stats_type, 65535), (nm_experimenter, 6035143)]
       [(nm_xid, D_None), (nm_flags, D_num 0), (nm_subtype, D_num 0)]
       [P_field nm_version fB, P_field nm_type fB, P_placeholder, P_field nm_xid fL,
        P_field nm_stats_type fH, P_field nm_flags fH, P_pad 4, P_field nm_experimenter fL,
        P_field nm_subtype fL, P_length, P_set_len 2]
       (Some (fL, 20,
         []))
       [U_local nm__version fB, U_assert nm__version 2, U_local nm__type fB, U_assert nm__type 18,
        U_local nm__length fH, U_slice nm__length 4, U_field nm_xid fL, U_local nm__stats_type fH,
        U_assert nm__stats_type 65535, U_field nm_flags fH, U_skip 4, U_local nm__experimenter fL,
        U_assert nm__experimenter 6035143, U_field nm_subtype fL]
       [nm_xid, nm_flags, nm_subtype]"

definition of11_message_experimenter_stats_request :: cls where
  "of11_message_experimenter_stats_request =
     Cls ''experimenter_stats_request'' [(nm_version, 2), (nm_type, 18), (nm_stats_type, 65535)]
       [(nm_xid, D_None), (nm_flags, D_num 0), (nm_experimenter, D_num 0), (nm_data, D_str [])]
       [P_field nm_version fB, P_field nm_type fB, P_placeholder, P_field nm_xid fL,
        P_field nm_stats_type fH, P_field nm_flags fH, P_pad 4, P_field nm_experimenter fL,
        P_pad 4, P_raw nm_data, P_length, P_set_len 2]
       (Some (fL, 16,
         [(6035143, of11_message_bsn_stats_request)]))
       [U_local nm__version fB, U_assert nm__version 2, U_local nm__type fB, U_assert nm__type 18,
        U_local nm__length fH, U_slice nm__length 4, U_field nm_xid fL, U_local nm__stats_type fH,
        U_assert nm__stats_type 65535, U_field nm_flags fH, U_skip 4, U_field nm_experimenter fL,
        U_skip 4, U_read_all nm_data]
       [nm_xid, nm_flags, nm_experimenter, nm_data]"

definition of11_message_desc_stats_request :: cls where
  "of11_message_desc_stats_request =
     Cls ''desc_stats_request'' [(nm_version, 2), (nm_type, 18), (nm_stats_type, 0)]
       [(nm_xid, D_None), (nm_flags, D_num 0)]
       [P_field nm_version fB, P_field nm_type fB, P_placeholder, P_field nm_xid fL,
        P_field nm_stats_type fH, P_field nm_flags fH, P_pad 4, P_length, P_set_len 2]
       None
       [U_local nm__version fB, U_assert nm__version 2, U_local nm__type fB, U_assert nm__type 18,
        U_local nm__length fH, U_slice nm__length 4, U_field nm_xid fL, U_local nm__stats_type fH,
        U_assert nm__stats_type 0, U_field nm_flags fH, U_skip 4]
       [nm_xid, nm_flags]"

definition of11_message_flow_stats_request :: cls where
  "of11_message_flow_stats_request =
     Cls ''flow_stats_request'' [(nm_version, 2), (nm_type, 18), (nm_stats_type, 1)]
       [(nm_xid, D_None), (nm_flags, D_num 0), (nm_table_id, D_num 0), (nm_out_port, D_num 0),
        (nm_out_group, D_num 0), (nm_cookie, D_num 0), (nm_cookie_mask, D_num 0),
        (nm_match, D_new of11_common_match_v2)]
       [P_field nm_version fB, P_field nm_type fB, P_placeholder, P_field nm_xid fL,
        P_field nm_stats_type fH, P_field nm_flags fH, P_pad 4, P_field nm_table_id fB, P_pad 3,
        P_field nm_out_port of11_port_no, P_field nm_out_group fL, P_pad 4, P_field nm_cookie fQ,
        P_field nm_cookie_mask fQ, P_obj nm_match, P_length, P_set_len 2]
       None
       [U_local nm__version fB, U_assert nm__version 2, U_local nm__type fB, U_assert nm__type 18,
        U_local nm__length fH, U_slice nm__length 4, U_field nm_xid fL, U_local nm__stats_type fH,
        U_assert nm__stats_type 1, U_field nm_flags fH, U_skip 4, U_field nm_table_id fB, U_skip 3,
        U_field nm_out_port of11_port_no, U_field nm_out_group fL, U_skip 4, U_field nm_cookie fQ,
        U_field nm_cookie_mask fQ, U_obj nm_match of11_common_match_v2]
       [nm_xid, nm_flags, nm_table_id, nm_out_port, nm_out_group, nm_cookie, nm_cookie_mask,
        nm_match]"

definition of11_message_group_desc_stats_request :: cls where
  "of11_message_group_desc_stats_request =
     Cls ''group_desc_stats_request'' [(nm_version, 2), (nm_type, 18), (nm_stats_type, 7)]
       [(nm_xid, D_None), (nm_flags, D_num 0)]
       [P_field nm_version fB, P_field nm_type fB, P_placeholder, P_field nm_xid fL,
        P_field nm_stats_type fH, P_field nm_flags fH, P_pad 4, P_length, P_set_len 2]
       None
       [U_local nm__version fB, U_assert nm__version 2, U_local nm__type fB, U_assert nm__type 18,
        U_local nm__length fH, U_slice nm__length 4, U_field nm_xid fL, U_local nm__stats_type fH,
        U_assert nm__stats_type 7, U_field nm_flags fH, U_skip 4]
       [nm_xid, nm_flags]"

definition of11_message_group_stats_request :: cls where
  "of11_message_group_stats_request =
     Cls ''group_stats_request'' [(nm_version, 2), (nm_type, 18), (nm_stats_type, 6)]
       [(nm_xid, D_None), (nm_flags, D_num 0), (nm_group_id, D_num 0)]
       [P_field nm_version fB, P_field nm_type fB, P_placeholder, P_field nm_xid fL,
        P_field nm_stats_type fH, P_field nm_flags fH, P_pad 4, P_field nm_group_id fL, P_pad 4,
        P_length, P_set_len 2]
       None
       [U_local nm__version fB, U_assert nm__version 2, U_local nm__type fB, U_assert nm__type 18,
        U_local nm__length fH, U_slice nm__length 4, U_field nm_xid fL, U_local nm__stats_type fH,
        U_assert nm__stats_type 6, U_field nm_flags fH, U_skip 4, U_field nm_group_id fL, U_skip 4]
       [nm_xid, nm_flags, nm_group_id]"

definition of11_message_port_stats_request :: cls where
  "of11_message_port_stats_request =
     Cls ''port_stats_request'' [(nm_version, 2), (nm_type, 18), (nm_stats_type, 4)]
       [(nm_xid, D_None), (nm_flags, D_num 0), (nm_port_no, D_num 0)]
       [P_field nm_version fB, P_field nm_type fB, P_placeholder, P_field nm_xid fL,
        P_field nm_stats_type fH, P_field nm_flags fH, P_pad 4, P_field nm_port_no of11_port_no,
        P_pad 4, P_length, P_set_len 2]
       None
       [U_local nm__version fB, U_assert nm__version 2, U_local nm__type fB, U_assert nm__type 18,
        U_local nm__length fH, U_slice nm__length 4, U_field nm_xid fL, U_local nm__stats_type fH,
        U_assert nm__stats_type 4, U_field nm_flags fH, U_skip 4, U_field nm_port_no of11_port_no,
        U_skip 4]
       [nm_xid, nm_flags, nm_port_no]"

definition of11_message_queue_stats_request :: cls where
  "of11_message_queue_stats_request =
     Cls ''queue_stats_request'' [(nm_version, 2), (nm_type, 18), (nm_stats_type, 5)]
       [(nm_xid, D_None), (nm_flags, D_num 0), (nm_port_no, D_num 0), (nm_queue_id, D_num 0)]
       [P_field nm_version fB, P_field nm_type fB, P_placeholder, P_field nm_xid fL,
        P_field nm_stats_type fH, P_field nm_flags fH, P_pad 4, P_field nm_port_no of11_port_no,
        P_field nm_queue_id fL, P_length, P_set_len 2]
       None
       [U_local nm__version fB, U_assert nm__version 2, U_local nm__type fB, U_assert nm__type 18,
        U_local nm__length fH, U_slice nm__length 4, U_field nm_xid fL, U_local nm__stats_type fH,
        U_assert nm__stats_type 5, U_field nm_flags fH, U_skip 4, U_field nm_port_no of11_port_no,
        U_field nm_queue_id fL]
       [nm_xid, nm_flags, nm_port_no, nm_queue_id]"

definition of11_message_table_stats_request :: cls where
  "of11_message_table_stats_request =
     Cls ''table_stats_request'' [(nm_version, 2), (nm_type, 18), (nm_stats_type, 3)]
       [(nm_xid, D_None), (nm_flags, D_num 0)]
       [P_field nm_version fB, P_field nm_type fB, P_placeholder, P_field nm_xid fL,
        P_field nm_stats_type fH, P_field nm_flags fH, P_pad 4, P_length, P_set_len 2]
       None
       [U_local nm__version fB, U_assert nm__version 2, U_local nm__type fB, U_assert nm__type 18,
        U_local nm__length fH, U_slice nm__length 4, U_field nm_xid fL, U_local nm__stats_type fH,
        U_assert nm__stats_type 3, U_field nm_flags fH, U_skip 4]
       [nm_xid, nm_flags]"

definition of11_message_stats_request :: cls where
  "of11_message_stats_request =
     Cls ''stats_request'' [(nm_version, 2), (nm_type, 18)]
       [(nm_xid, D_None), (nm_stats_type, D_num 0), (nm_flags, D_num 0)]
       [P_field nm_version fB, P_field nm_type fB, P_placeholder, P_field nm_xid fL,
        P_field nm_stats_type fH, P_field nm_flags fH, P_pad 4, P_length, P_set_len 2]
       (Some (fH, 8,
         [(2, of11_message_aggregate_stats_request),
          (65535, of11_message_experimenter_stats_request), (0, of11_message_desc_stats_request),
          (1, of11_message_flow_stats_request), (7, of11_message_group_desc_stats_request),
          (6, of11_message_group_stats_request), (4, of11_message_port_stats_request),
          (5, of11_message_queue_stats_request), (3, of11_message_table_stats_request)]))
       [U_local nm__version fB, U_assert nm__version 2, U_local nm__type fB, U_assert nm__type 18,
        U_local nm__length fH, U_slice nm__length 4, U_field nm_xid fL, U_field nm_stats_type fH,
        U_field nm_flags fH, U_skip 4]
       [nm_xid, nm_stats_type, nm_flags]"

definition of11_message_bad_action_error_msg :: cls where
  "of11_message_bad_action_error_msg =
     Cls ''bad_action_error_msg'' [(nm_version, 2), (nm_type, 1), (nm_err_type, 2)]
       [(nm_xid, D_None), (nm_code, D_num 0), (nm_data, D_str [])]
       [P_field nm_version fB, P_field nm_type fB, P_placeholder, P_field nm_xid fL,
        P_field nm_err_type fH, P_field nm_code fH, P_raw nm_data, P_length, P_set_len 2]
       None
       [U_local nm__version fB, U_assert nm__version 2, U_local nm__type fB, U_assert nm__type 1,
        U_local nm__length fH, U_slice nm__length 4, U_field nm_xid fL, U_local nm__err_type fH,
        U_assert nm__err_type 2, U_field nm_code fH, U_read_all nm_data]
       [nm_xid, nm_code, nm_data]"

definition of11_message_bad_instruction_error_msg :: cls where
  "of11_message_bad_instruction_error_msg =
     Cls ''bad_instruction_error_msg'' [(nm_version, 2), (nm_type, 1), (nm_err_type, 3)]
       [(nm_xid, D_None), (nm_code, D_num 0), (nm_data, D_str [])]
       [P_field nm_version fB, P_field nm_type fB, P_placeholder, P_field nm_xid fL,
        P_field nm_err_type fH, P_field nm_code fH, P_raw nm_data, P_length, P_set_len 2]
       None
       [U_local nm__version fB, U_assert nm__version 2, U_local nm__type fB, U_assert nm__type 1,
        U_local nm__length fH, U_slice nm__length 4, U_field nm_xid fL, U_local nm__err_type fH,
        U_assert nm__err_type 3, U_field nm_code fH, U_read_all nm_data]
       [nm_xid, nm_code, nm_data]"

definition of11_message_bad_match_error_msg :: cls where
  "of11_message_bad_match_error_msg =
     Cls ''bad_match_error_msg'' [(nm_version, 2), (nm_type, 1), (nm_err_type, 4)]
       [(nm_xid, D_None), (nm_code, D_num 0), (nm_data, D_str [])]
       [P_field nm_version fB, P_field nm_type fB, P_placeholder, P_field nm_xid fL,
        P_field nm_err_type fH, P_field nm_code fH, P_raw nm_data, P_length, P_set_len 2]
       None
       [U_local nm__version fB, U_assert nm__version 2, U_local nm__type fB, U_assert nm__type 1,
        U_local nm__length fH, U_slice nm__length 4, U_field nm_xid fL, U_local nm__err_type fH,
        U_assert nm__err_type 4, U_field nm_code fH, U_read_all nm_data]
       [nm_xid, nm_code, nm_data]"

definition of11_message_bad_request_error_msg :: cls where
  "of11_message_bad_request_error_msg =
     Cls ''bad_request_error_msg'' [(nm_version, 2), (nm_type, 1), (nm_err_type, 1)]
       [(nm_xid, D_None), (nm_code, D_num 0), (nm_data, D_str [])]
       [P_field nm_version fB, P_field nm_type fB, P_placeholder, P_field nm_xid fL,
        P_field nm_err_type fH, P_field nm_code fH, P_raw nm_data, P_length, P_set_len 2]
       None
       [U_local nm__version fB, U_assert nm__version 2, U_local nm__type fB, U_assert nm__type 1,
        U_local nm__length fH, U_slice nm__length 4, U_field nm_xid fL, U_local nm__err_type fH,
        U_assert nm__err_type 1, U_field nm_code fH, U_read_all nm_data]
       [nm_xid, nm_code, nm_data]"

definition of11_message_flow_mod_failed_error_msg :: cls where
  "of11_message_flow_mod_failed_error_msg =
     Cls ''flow_mod_failed_error_msg'' [(nm_version, 2), (nm_type, 1), (nm_err_type, 5)]
       [(nm_xid, D_None), (nm_code, D_num 0), (nm_data, D_str [])]
       [P_field nm_version fB, P_field nm_type fB, P_placeholder, P_field nm_xid fL,
        P_field nm_err_type fH, P_field nm_code fH, P_raw nm_data, P_length, P_set_len 2]
       None
       [U_local nm__version fB, U_assert nm__version 2, U_local nm__type fB, U_assert nm__type 1,
        U_local nm__length fH, U_slice nm__length 4, U_field nm_xid fL, U_local nm__err_type fH,
        U_assert nm__err_type 5, U_field nm_code fH, U_read_all nm_data]
       [nm_xid, nm_code, nm_data]"

definition of11_message_group_mod_failed_error_msg :: cls where
  "of11_message_group_mod_failed_error_msg =
     Cls ''group_mod_failed_error_msg'' [(nm_version, 2), (nm_type, 1), (nm_err_type, 6)]
       [(nm_xid, D_None), (nm_code, D_num 0), (nm_data, D_str [])]
       [P_field nm_version fB, P_field nm_type fB, P_placeholder, P_field nm_xid fL,
        P_field nm_err_type fH, P_field nm_code fH, P_raw nm_data, P_length, P_set_len 2]
       None
       [U_local nm__version fB, U_assert nm__version 2, U_local nm__type fB, U_assert nm__type 1,
        U_local nm__length fH, U_slice nm__length 4, U_field nm_xid fL, U_local nm__err_type fH,
        U_assert nm__err_type 6, U_field nm_code fH, U_read_all nm_data]
       [nm_xid, nm_code, nm_data]"

definition of11_message_hello_failed_error_msg :: cls where
  "of11_message_hello_failed_error_msg =
     Cls ''hello_failed_error_msg'' [(nm_version, 2), (nm_type, 1), (nm_err_type, 0)]
       [(nm_xid, D_None), (nm_code, D_num 0), (nm_data, D_str [])]
       [P_field nm_version fB, P_field nm_type fB, P_placeholder, P_field nm_xid fL,
        P_field nm_err_type fH, P_field nm_code fH, P_raw nm_data, P_length, P_set_len 2]
       None
       [U_local nm__version fB, U_assert nm__version 2, U_local nm__type fB, U_assert nm__type 1,
        U_local nm__length fH, U_slice nm__length 4, U_field nm_xid fL, U_local nm__err_type fH,
        U_assert nm__err_type 0, U_field nm_code fH, U_read_all nm_data]
       [nm_xid, nm_code, nm_data]"

definition of11_message_port_mod_failed_error_msg :: cls where
  "of11_message_port_mod_failed_error_msg =
     Cls ''port_mod_failed_error_msg'' [(nm_version, 2), (nm_type, 1), (nm_err_type, 7)]
       [(nm_xid, D_None), (nm_code, D_num 0), (nm_data, D_str [])]
       [P_field nm_version fB, P_field nm_type fB, P_placeholder, P_field nm_xid fL,
        P_field nm_err_type fH, P_field nm_code fH, P_raw nm_data, P_length, P_set_len 2]
       None
       [U_local nm__version fB, U_assert nm__version 2, U_local nm__type fB, U_assert nm__type 1,
        U_local nm__length fH, U_slice nm__length 4, U_field nm_xid fL, U_local nm__err_type fH,
        U_assert nm__err_type 7, U_field nm_code fH, U_read_all nm_data]
       [nm_xid, nm_code, nm_data]"

definition of11_message_queue_op_failed_error_msg :: cls where
  "of11_message_queue_op_failed_error_msg =
     Cls ''queue_op_failed_error_msg'' [(nm_version, 2), (nm_type, 1), (nm_err_type, 9)]
       [(nm_xid, D_None), (nm_code, D_num 0), (nm_data, D_str [])]
       [P_field nm_version fB, P_field nm_type fB, P_placeholder, P_field nm_xid fL,
        P_field nm_err_type fH, P_field nm_code fH, P_raw nm_data, P_length, P_set_len 2]
       None
       [U_local nm__version fB, U_assert nm__version 2, U_local nm__type fB, U_assert nm__type 1,
        U_local nm__length fH, U_slice nm__length 4, U_field nm_xid fL, U_local nm__err_type fH,
        U_assert nm__err_type 9, U_field nm_code fH, U_read_all nm_data]
       [nm_xid, nm_code, nm_data]"

definition of11_message_switch_config_failed_error_msg :: cls where
  "of11_message_switch_config_failed_error_msg =
     Cls ''switch_config_failed_error_msg'' [(nm_version, 2), (nm_type, 1), (nm_err_type, 10)]
       [(nm_xid, D_None), (nm_code, D_num 0), (nm_data, D_str [])]
       [P_field nm_version fB, P_field nm_type fB, P_placeholder, P_field nm_xid fL,
        P_field nm_err_type fH, P_field nm_code fH, P_raw nm_data, P_length, P_set_len 2]
       None
       [U_local nm__version fB, U_assert nm__version 2, U_local nm__type fB, U_assert nm__type 1,
        U_local nm__length fH, U_slice nm__length 4, U_field nm_xid fL, U_local nm__err_type fH,
        U_assert nm__err_type 10, U_field nm_code fH, U_read_all nm_data]
       [nm_xid, nm_code, nm_data]"

definition of11_message_table_mod_failed_error_msg :: cls where
  "of11_message_table_mod_failed_error_msg =
     Cls ''table_mod_failed_error_msg'' [(nm_version, 2), (nm_type, 1), (nm_err_type, 8)]
       [(nm_xid, D_None), (nm_code, D_num 0), (nm_data, D_str [])]
       [P_field nm_version fB, P_field nm_type fB, P_placeholder, P_field nm_xid fL,
        P_field nm_err_type fH, P_field nm_code fH, P_raw nm_data, P_length, P_set_len 2]
       None
       [U_local nm__version fB, U_assert nm__version 2, U_local nm__type fB, U_assert nm__type 1,
        U_local nm__length fH, U_slice nm__length 4, U_field nm_xid fL, U_local nm__err_type fH,
        U_assert nm__err_type 8, U_field nm_code fH, U_read_all nm_data]
       [nm_xid, nm_code, nm_data]"

definition of11_message_error_msg :: cls where
  "of11_message_error_msg =
     Cls ''error_msg'' [(nm_version, 2), (nm_type, 1)]
       [(nm_xid, D_None), (nm_err_type, D_num 0)]
       [P_field nm_version fB, P_field nm_type fB, P_placeholder, P_field nm_xid fL,
        P_field nm_err_type fH, P_length, P_set_len 2]
       (Some (fH, 8,
         [(2, of11_message_bad_action_error_msg), (3, of11_message_bad_instruction_error_msg),
          (4, of11_message_bad_match_error_msg), (1, of11_message_bad_request_error_msg),
          (5, of11_message_flow_mod_failed_error_msg),
          (6, of11_message_group_mod_failed_error_msg), (0, of11_message_hello_failed_error_msg),
          (7, of11_message_port_mod_failed_error_msg), (9, of11_message_queue_op_failed_error_msg),
          (10, of11_message_switch_config_failed_error_msg),
          (8, of11_message_table_mod_failed_error_msg)]))
       [U_local nm__version fB, U_assert nm__version 2, U_local nm__type fB, U_assert nm__type 1,
        U_local nm__length fH, U_slice nm__length 4, U_field nm_xid fL, U_field nm_err_type fH]
       [nm_xid, nm_err_type]"

definition of11_message_barrier_reply :: cls where
  "of11_message_barrier_reply =
     Cls ''barrier_reply'' [(nm_version, 2), (nm_type, 21)]
       [(nm_xid, D_None)]
       [P_field nm_version fB, P_field nm_type fB, P_placeholder, P_field nm_xid fL, P_length,
        P_set_len 2]
       None
       [U_local nm__version fB, U_assert nm__version 2, U_local nm__type fB, U_assert nm__type 21,
        U_local nm__length fH, U_slice nm__length 4, U_field nm_xid fL]
       [nm_xid]"

definition of11_message_barrier_request :: cls where
  "of11_message_barrier_request =
     Cls ''barrier_request'' [(nm_version, 2), (nm_type, 20)]
       [(nm_xid, D_None)]
       [P_field nm_version fB, P_field nm_type fB, P_placeholder, P_field nm_xid fL, P_length,
        P_set_len 2]
       None
       [U_local nm__version fB, U_assert nm__version 2, U_local nm__type fB, U_assert nm__type 20,
        U_local nm__length fH, U_slice nm__length 4, U_field nm_xid fL]
       [nm_xid]"

definition of11_message_bsn_bw_clear_data_reply :: cls where
  "of11_message_bsn_bw_clear_data_reply =
     Cls ''bsn_bw_clear_data_reply'' [(nm_version, 2), (nm_type, 4), (nm_experimenter, 6035143), (nm_subtype, 22)]
       [(nm_xid, D_None), (nm_status, D_num 0)]
       [P_field nm_version fB, P_field nm_type fB, P_placeholder, P_field nm_xid fL,
        P_field nm_experimenter fL, P_field nm_subtype fL, P_field nm_status fL, P_length,
        P_set_len 2]
       None
       [U_local nm__version fB, U_assert nm__version 2, U_local nm__type fB, U_assert nm__type 4,
        U_local nm__length fH, U_slice nm__length 4, U_field nm_xid fL,
        U_local nm__experimenter fL, U_assert nm__experimenter 6035143, U_local nm__subtype fL,
        U_assert nm__subtype 22, U_field nm_status fL]
       [nm_xid, nm_status]"

definition of11_message_bsn_bw_clear_data_request :: cls where
  "of11_message_bsn_bw_clear_data_request =
     Cls ''bsn_bw_clear_data_request'' [(nm_version, 2), (nm_type, 4), (nm_experimenter, 6035143), (nm_subtype, 21)]
       [(nm_xid, D_None)]
       [P_field nm_version fB, P_field nm_type fB, P_placeholder, P_field nm_xid fL,
        P_field nm_experimenter fL, P_field nm_subtype fL, P_length, P_set_len 2]
       None
       [U_local nm__version fB, U_assert nm__version 2, U_local nm__type fB, U_assert nm__type 4,
        U_local nm__length fH, U_slice nm__length 4, U_field nm_xid fL,
        U_local nm__experimenter fL, U_assert nm__experimenter 6035143, U_local nm__subtype fL,
        U_assert nm__subtype 21]
       [nm_xid]"

definition of11_message_bsn_bw_enable_get_reply :: cls where
  "of11_message_bsn_bw_enable_get_reply =
     Cls ''bsn_bw_enable_get_reply'' [(nm_version, 2), (nm_type, 4), (nm_experimenter, 6035143), (nm_subtype, 20)]
       [(nm_xid, D_None), (nm_enabled, D_num 0)]
       [P_field nm_version fB, P_field nm_type fB, P_placeholder, P_field nm_xid fL,
        P_field nm_experimenter fL, P_field nm_subtype fL, P_field nm_enabled fL, P_length,
        P_set_len 2]
       None
       [U_local nm__version fB, U_assert nm__version 2, U_local nm__type fB, U_assert nm__type 4,
        U_local nm__length fH, U_slice nm__length 4, U_field nm_xid fL,
        U_local nm__experimenter fL, U_assert nm__experimenter 6035143, U_local nm__subtype fL,
        U_assert nm__subtype 20, U_field nm_enabled fL]
       [nm_xid, nm_enabled]"

definition of11_message_bsn_bw_enable_get_request :: cls where
  "of11_message_bsn_bw_enable_get_request =
     Cls ''bsn_bw_enable_get_request'' [(nm_version, 2), (nm_type, 4), (nm_experimenter, 6035143), (nm_subtype, 19)]
       [(nm_xid, D_None)]
       [P_field nm_version fB, P_field nm_type fB, P_placeholder, P_field nm_xid fL,
        P_field nm_experimenter fL, P_field nm_subtype fL, P_length, P_set_len 2]
       None
       [U_local nm__version fB, U_assert nm__version 2, U_local nm__type fB, U_assert nm__type 4,
        U_local nm__length fH, U_slice nm__length 4, U_field nm_xid fL,
        U_local nm__experimenter fL, U_assert nm__experimenter 6035143, U_local nm__subtype fL,
        U_assert nm__subtype 19]
       [nm_xid]"

definition of11_message_bsn_bw_enable_set_reply :: cls where
  "of11_message_bsn_bw_enable_set_reply =
     Cls ''bsn_bw_enable_set_reply'' [(nm_version, 2), (nm_type, 4), (nm_experimenter, 6035143), (nm_subtype, 23)]
       [(nm_xid, D_None), (nm_enable, D_num 0), (nm_status, D_num 0)]
       [P_field nm_version fB, P_field nm_type fB, P_placeholder, P_field nm_xid fL,
        P_field nm_experimenter fL, P_field nm_subtype fL, P_field nm_enable fL,
        P_field nm_status fL, P_length, P_set_len 2]
       None
       [U_local nm__version fB, U_assert nm__version 2, U_local nm__type fB, U_assert nm__type 4,
        U_local nm__length fH, U_slice nm__length 4, U_field nm_xid fL,
        U_local nm__experimenter fL, U_assert nm__experimenter 6035143, U_local nm__subtype fL,
        U_assert nm__subtype 23, U_field nm_enable fL, U_field nm_status fL]
       [nm_xid, nm_enable, nm_status]"

definition of11_message_bsn_bw_enable_set_request :: cls where
  "of11_message_bsn_bw_enable_set_request =
     Cls ''bsn_bw_enable_set_request'' [(nm_version, 2), (nm_type, 4), (nm_experimenter, 6035143), (nm_subtype, 18)]
       [(nm_xid, D_None), (nm_enable, D_num 0)]
       [P_field nm_version fB, P_field nm_type fB, P_placeholder, P_field nm_xid fL,
        P_field nm_experimenter fL, P_field nm_subtype fL, P_field nm_enable fL, P_length,
        P_set_len 2]
       None
       [U_local nm__version fB, U_assert nm__version 2, U_local nm__type fB, U_assert nm__type 4,
        U_local nm__length fH, U_slice nm__length 4, U_field nm_xid fL,
        U_local nm__experimenter fL, U_assert nm__experimenter 6035143, U_local nm__subtype fL,
        U_assert nm__subtype 18, U_field nm_enable fL]
       [nm_xid, nm_enable]"

definition of11_message_bsn_get_interfaces_reply :: cls where
  "of11_message_bsn_get_interfaces_reply =
     Cls ''bsn_get_interfaces_reply'' [(nm_version, 2), (nm_type, 4), (nm_experimenter, 6035143), (nm_subtype, 10)]
       [(nm_xid, D_None), (nm_interfaces, D_list)]
       [P_field nm_version fB, P_field nm_type fB, P_placeholder, P_field nm_xid fL,
        P_field nm_experimenter fL, P_field nm_subtype fL, P_list nm_interfaces, P_length,
        P_set_len 2]
       None
       [U_local nm__version fB, U_assert nm__version 2, U_local nm__type fB, U_assert nm__type 4,
        U_local nm__length fH, U_slice nm__length 4, U_field nm_xid fL,
        U_local nm__experimenter fL, U_assert nm__experimenter 6035143, U_local nm__subtype fL,
        U_assert nm__subtype 10, U_list nm_interfaces of11_common_bsn_interface]
       [nm_xid, nm_interfaces]"

definition of11_message_bsn_get_interfaces_request :: cls where
  "of11_message_bsn_get_interfaces_request =
     Cls ''bsn_get_interfaces_request'' [(nm_version, 2), (nm_type, 4), (nm_experimenter, 6035143), (nm_subtype, 9)]
       [(nm_xid, D_None)]
       [P_field nm_version fB, P_field nm_type fB, P_placeholder, P_field nm_xid fL,
        P_field nm_experimenter fL, P_field nm_subtype fL, P_length, P_set_len 2]
       None
       [U_local nm__version fB, U_assert nm__version 2, U_local nm__type fB, U_assert nm__type 4,
        U_local nm__length fH, U_slice nm__length 4, U_field nm_xid fL,
        U_local nm__experimenter fL, U_assert nm__experimenter 6035143, U_local nm__subtype fL,
        U_assert nm__subtype 9]
       [nm_xid]"

definition of11_message_bsn_get_mirroring_reply :: cls where
  "of11_message_bsn_get_mirroring_reply =
     Cls ''bsn_get_mirroring_reply'' [(nm_version, 2), (nm_type, 4), (nm_experimenter, 6035143), (nm_subtype, 5)]
       [(nm_xid, D_None), (nm_report_mirror_ports, D_num 0)]
       [P_field nm_version fB, P_field nm_type fB, P_placeholder, P_field nm_xid fL,
        P_field nm_experimenter fL, P_field nm_subtype fL, P_field nm_report_mirror_ports fB,
        P_pad 3, P_length, P_set_len 2]
       None
       [U_local nm__version fB, U_assert nm__version 2, U_local nm__type fB, U_assert nm__type 4,
        U_local nm__length fH, U_slice nm__length 4, U_field nm_xid fL,
        U_local nm__experimenter fL, U_assert nm__experimenter 6035143, U_local nm__subtype fL,
        U_assert nm__subtype 5, U_field nm_report_mirror_ports fB, U_skip 3]
       [nm_xid, nm_report_mirror_ports]"

definition of11_message_bsn_get_mirroring_request :: cls where
  "of11_message_bsn_get_mirroring_request =
     Cls ''bsn_get_mirroring_request'' [(nm_version, 2), (nm_type, 4), (nm_experimenter, 6035143), (nm_subtype, 4)]
       [(nm_xid, D_None), (nm_report_mirror_ports, D_num 0)]
       [P_field nm_version fB, P_field nm_type fB, P_placeholder, P_field nm_xid fL,
        P_field nm_experimenter fL, P_field nm_subtype fL, P_field nm_report_mirror_ports fB,
        P_pad 3, P_length, P_set_len 2]
       None
       [U_local nm__version fB, U_assert nm__version 2, U_local nm__type fB, U_assert nm__type 4,
        U_local nm__length fH, U_slice nm__length 4, U_field nm_xid fL,
        U_local nm__experimenter fL, U_assert nm__experimenter 6035143, U_local nm__subtype fL,
        U_assert nm__subtype 4, U_field nm_report_mirror_ports fB, U_skip 3]
       [nm_xid, nm_report_mirror_ports]"

definition of11_message_bsn_pdu_rx_reply :: cls where
  "of11_message_bsn_pdu_rx_reply =
     Cls ''bsn_pdu_rx_reply'' [(nm_version, 2), (nm_type, 4), (nm_experimenter, 6035143), (nm_subtype, 34)]
       [(nm_xid, D_None), (nm_status, D_num 0), (nm_port_no, D_num 0), (nm_slot_num, D_num 0)]
       [P_field nm_version fB, P_field nm_type fB, P_placeholder, P_field nm_xid fL,
        P_field nm_experimenter fL, P_field nm_subtype fL, P_field nm_status fL,
        P_field nm_port_no of11_port_no, P_field nm_slot_num fB, P_length, P_set_len 2]
       None
       [U_local nm__version fB, U_assert nm__version 2, U_local nm__type fB, U_assert nm__type 4,
        U_local nm__length fH, U_slice nm__length 4, U_field nm_xid fL,
        U_local nm__experimenter fL, U_assert nm__experimenter 6035143, U_local nm__subtype fL,
        U_assert nm__subtype 34, U_field nm_status fL, U_field nm_port_no of11_port_no,
        U_field nm_slot_num fB]
       [nm_xid, nm_status, nm_port_no, nm_slot_num]"

definition of11_message_bsn_pdu_rx_request :: cls where
  "of11_message_bsn_pdu_rx_request =
     Cls ''bsn_pdu_rx_request'' [(nm_version, 2), (nm_type, 4), (nm_experimenter, 6035143), (nm_subtype, 33)]
       [(nm_xid, D_None), (nm_timeout_ms, D_num 0), (nm_port_no, D_num 0), (nm_slot_num, D_num 0),
        (nm_data, D_str [])]
       [P_field nm_version fB, P_field nm_type fB, P_placeholder, P_field nm_xid fL,
        P_field nm_experimenter fL, P_field nm_subtype fL, P_field nm_timeout_ms fL,
        P_field nm_port_no of11_port_no, P_field nm_slot_num fB, P_pad 3, P_raw nm_data, P_length,
        P_set_len 2]
       None
       [U_local nm__version fB, U_assert nm__version 2, U_local nm__type fB, U_assert nm__type 4,
        U_local nm__length fH, U_slice nm__length 4, U_field nm_xid fL,
        U_local nm__experimenter fL, U_assert nm__experimenter 6035143, U_local nm__subtype fL,
        U_assert nm__subtype 33, U_field nm_timeout_ms fL, U_field nm_port_no of11_port_no,
        U_field nm_slot_num fB, U_skip 3, U_read_all nm_data]
       [nm_xid, nm_timeout_ms, nm_port_no, nm_slot_num, nm_data]"

definition of11_message_bsn_pdu_rx_timeout :: cls where
  "of11_message_bsn_pdu_rx_timeout =
     Cls ''bsn_pdu_rx_timeout'' [(nm_version, 2), (nm_type, 4), (nm_experimenter, 6035143), (nm_subtype, 35)]
       [(nm_xid, D_None), (nm_port_no, D_num 0), (nm_slot_num, D_num 0)]
       [P_field nm_version fB, P_field nm_type fB, P_placeholder, P_field nm_xid fL,
        P_field nm_experimenter fL, P_field nm_subtype fL, P_field nm_port_no of11_port_no,
        P_field nm_slot_num fB, P_length, P_set_len 2]
       None
       [U_local nm__version fB, U_assert nm__version 2, U_local nm__type fB, U_assert nm__type 4,
        U_local nm__length fH, U_slice nm__length 4, U_field nm_xid fL,
        U_local nm__experimenter fL, U_assert nm__experimenter 6035143, U_local nm__subtype fL,
        U_assert nm__subtype 35, U_field nm_port_no of11_port_no, U_field nm_slot_num fB]
       [nm_xid, nm_port_no, nm_slot_num]"

definition of11_message_bsn_pdu_tx_reply :: cls where
  "of11_message_bsn_pdu_tx_reply =
     Cls ''bsn_pdu_tx_reply'' [(nm_version, 2), (nm_type, 4), (nm_experimenter, 6035143), (nm_subtype, 32)]
       [(nm_xid, D_None), (nm_status, D_num 0), (nm_port_no, D_num 0), (nm_slot_num, D_num 0)]
       [P_field nm_version fB, P_field nm_type fB, P_placeholder, P_field nm_xid fL,
        P_field nm_experimenter fL, P_field nm_subtype fL, P_field nm_status fL,
        P_field nm_port_no of11_port_no, P_field nm_slot_num fB, P_length, P_set_len 2]
       None
       [U_local nm__version fB, U_assert nm__version 2, U_local nm__type fB, U_assert nm__type 4,
        U_local nm__length fH, U_slice nm__length 4, U_field nm_xid fL,
        U_local nm__experimenter fL, U_assert nm__experimenter 6035143, U_local nm__subtype fL,
        U_assert nm__subtype 32, U_field nm_status fL, U_field nm_port_no of11_port_no,
        U_field nm_slot_num fB]
       [nm_xid, nm_status, nm_port_no, nm_slot_num]"

definition of11_message_bsn_pdu_tx_request :: cls where
  "of11_message_bsn_pdu_tx_request =
     Cls ''bsn_pdu_tx_request'' [(nm_version, 2), (nm_type, 4), (nm_experimenter, 6035143), (nm_subtype, 31)]
       [(nm_xid, D_None), (nm_tx_interval_ms, D_num 0), (nm_port_no, D_num 0),
        (nm_slot_num, D_num 0), (nm_data, D_str [])]
       [P_field nm_version fB, P_field nm_type fB, P_placeholder, P_field nm_xid fL,
        P_field nm_experimenter fL, P_field nm_subtype fL, P_field nm_tx_interval_ms fL,
        P_field nm_port_no of11_port_no, P_field nm_slot_num fB, P_pad 3, P_raw nm_data, P_length,
        P_set_len 2]
       None
       [U_local nm__version fB, U_assert nm__version 2, U_local nm__type fB, U_assert nm__type 4,
        U_local nm__length fH, U_slice nm__length 4, U_field nm_xid fL,
        U_local nm__experimenter fL, U_assert nm__experimenter 6035143, U_local nm__subtype fL,
        U_assert nm__subtype 31, U_field nm_tx_interval_ms fL, U_field nm_port_no of11_port_no,
        U_field nm_slot_num fB, U_skip 3, U_read_all nm_data]
       [nm_xid, nm_tx_interval_ms, nm_port_no, nm_slot_num, nm_data]"

definition of11_message_bsn_set_mirroring :: cls where
  "of11_message_bsn_set_mirroring =
     Cls ''bsn_set_mirroring'' [(nm_version, 2), (nm_type, 4), (nm_experimenter, 6035143), (nm_subtype, 3)]
       [(nm_xid, D_None), (nm_report_mirror_ports, D_num 0)]
       [P_field nm_version fB, P_field nm_type fB, P_placeholder, P_field nm_xid fL,
        P_field nm_experimenter fL, P_field nm_subtype fL, P_field nm_report_mirror_ports fB,
        P_pad 3, P_length, P_set_len 2]
       None
       [U_local nm__version fB, U_assert nm__version 2, U_local nm__type fB, U_assert nm__type 4,
        U_local nm__length fH, U_slice nm__length 4, U_field nm_xid fL,
        U_local nm__experimenter fL, U_assert nm__experimenter 6035143, U_local nm__subtype fL,
        U_assert nm__subtype 3, U_field nm_report_mirror_ports fB, U_skip 3]
       [nm_xid, nm_report_mirror_ports]"

definition of11_message_bsn_set_pktin_suppression_reply :: cls where
  "of11_message_bsn_set_pktin_suppression_reply =
     Cls ''bsn_set_pktin_suppression_reply'' [(nm_version, 2), (nm_type, 4), (nm_experimenter, 6035143), (nm_subtype, 25)]
       [(nm_xid, D_None), (nm_status, D_num 0)]
       [P_field nm_version fB, P_field nm_type fB, P_placeholder, P_field nm_xid fL,
        P_field nm_experimenter fL, P_field nm_subtype fL, P_field nm_status fL, P_length,
        P_set_len 2]
       None
       [U_local nm__version fB, U_assert nm__version 2, U_local nm__type fB, U_assert nm__type 4,
        U_local nm__length fH, U_slice nm__length 4, U_field nm_xid fL,
        U_local nm__experimenter fL, U_assert nm__experimenter 6035143, U_local nm__subtype fL,
        U_assert nm__subtype 25, U_field nm_status fL]
       [nm_xid, nm_status]"

definition of11_message_bsn_set_pktin_suppression_request :: cls where
  "of11_message_bsn_set_pktin_suppression_request =
     Cls ''bsn_set_pktin_suppression_request'' [(nm_version, 2), (nm_type, 4), (nm_experimenter, 6035143), (nm_subtype, 11)]
       [(nm_xid, D_None), (nm_enabled, D_num 0), (nm_idle_timeout, D_num 0),
        (nm_hard_timeout, D_num 0), (nm_priority, D_num 0), (nm_cookie, D_num 0)]
       [P_field nm_version fB, P_field nm_type fB, P_placeholder, P_field nm_xid fL,
        P_field nm_experimenter fL, P_field nm_subtype fL, P_field nm_enabled fB, P_pad 1,
        P_field nm_idle_timeout fH, P_field nm_hard_timeout fH, P_field nm_priority fH,
        P_field nm_cookie fQ, P_length, P_set_len 2]
       None
       [U_local nm__version fB, U_assert nm__version 2, U_local nm__type fB, U_assert nm__type 4,
        U_local nm__length fH, U_slice nm__length 4, U_field nm_xid fL,
        U_local nm__experimenter fL, U_assert nm__experimenter 6035143, U_local nm__subtype fL,
        U_assert nm__subtype 11, U_field nm_enabled fB, U_skip 1, U_field nm_idle_timeout fH,
        U_field nm_hard_timeout fH, U_field nm_priority fH, U_field nm_cookie fQ]
       [nm_xid, nm_enabled, nm_idle_timeout, nm_hard_timeout, nm_priority, nm_cookie]"

definition of11_message_bsn_virtual_port_create_reply :: cls where
  "of11_message_bsn_virtual_port_create_reply =
     Cls ''bsn_virtual_port_create_reply'' [(nm_version, 2), (nm_type, 4), (nm_experimenter, 6035143), (nm_subtype, 16)]
       [(nm_xid, D_None), (nm_status, D_num 0), (nm_vport_no, D_num 0)]
       [P_field nm_version fB, P_field nm_type fB, P_placeholder, P_field nm_xid fL,
        P_field nm_experimenter fL, P_field nm_subtype fL, P_field nm_status fL,
        P_field nm_vport_no fL, P_length, P_set_len 2]
       None
       [U_local nm__version fB, U_assert nm__version 2, U_local nm__type fB, U_assert nm__type 4,
        U_local nm__length fH, U_slice nm__length 4, U_field nm_xid fL,
        U_local nm__experimenter fL, U_assert nm__experimenter 6035143, U_local nm__subtype fL,
        U_assert nm__subtype 16, U_field nm_status fL, U_field nm_vport_no fL]
       [nm_xid, nm_status, nm_vport_no]"

definition of11_message_bsn_virtual_port_create_request :: cls where
  "of11_message_bsn_virtual_port_create_request =
     Cls ''bsn_virtual_port_create_request'' [(nm_version, 2), (nm_type, 4), (nm_experimenter, 6035143), (nm_subtype, 15)]
       [(nm_xid, D_None), (nm_vport, D_new of11_common_bsn_vport)]
       [P_field nm_version fB, P_field nm_type fB, P_placeholder, P_field nm_xid fL,
        P_field nm_experimenter fL, P_field nm_subtype fL, P_obj nm_vport, P_length, P_set_len 2]
       None
       [U_local nm__version fB, U_assert nm__version 2, U_local nm__type fB, U_assert nm__type 4,
        U_local nm__length fH, U_slice nm__length 4, U_field nm_xid fL,
        U_local nm__experimenter fL, U_assert nm__experimenter 6035143, U_local nm__subtype fL,
        U_assert nm__subtype 15, U_obj nm_vport of11_common_bsn_vport]
       [nm_xid, nm_vport]"

definition of11_message_bsn_virtual_port_remove_reply :: cls where
  "of11_message_bsn_virtual_port_remove_reply =
     Cls ''bsn_virtual_port_remove_reply'' [(nm_version, 2), (nm_type, 4), (nm_experimenter, 6035143), (nm_subtype, 26)]
       [(nm_xid, D_None), (nm_status, D_num 0)]
       [P_field nm_version fB, P_field nm_type fB, P_placeholder, P_field nm_xid fL,
        P_field nm_experimenter fL, P_field nm_subtype fL, P_field nm_status fL, P_length,
        P_set_len 2]
       None
       [U_local nm__version fB, U_assert nm__version 2, U_local nm__type fB, U_assert nm__type 4,
        U_local nm__length fH, U_slice nm__length 4, U_field nm_xid fL,
        U_local nm__experimenter fL, U_assert nm__experimenter 6035143, U_local nm__subtype fL,
        U_assert nm__subtype 26, U_field nm_status fL]
       [nm_xid, nm_status]"

definition of11_message_bsn_virtual_port_remove_request :: cls where
  "of11_message_bsn_virtual_port_remove_request =
     Cls ''bsn_virtual_port_remove_request'' [(nm_version, 2), (nm_type, 4), (nm_experimenter, 6035143), (nm_subtype, 17)]
       [(nm_xid, D_None), (nm_vport_no, D_num 0)]
       [P_field nm_version fB, P_field nm_type fB, P_placeholder, P_field nm_xid fL,
        P_field nm_experimenter fL, P_field nm_subtype fL, P_field nm_vport_no fL, P_length,
        P_set_len 2]
       None
       [U_local nm__version fB, U_assert nm__version 2, U_local nm__type fB, U_assert nm__type 4,
        U_local nm__length fH, U_slice nm__length 4, U_field nm_xid fL,
        U_local nm__experimenter fL, U_assert nm__experimenter 6035143, U_local nm__subtype fL,
        U_assert nm__subtype 17, U_field nm_vport_no fL]
       [nm_xid, nm_vport_no]"

definition of11_message_bsn_header :: cls where
  "of11_message_bsn_header =
     Cls ''bsn_header'' [(nm_version, 2), (nm_type, 4), (nm_experimenter, 6035143)]
       [(nm_xid, D_None), (nm_subtype, D_num 0)]
       [P_field nm_version fB, P_field nm_type fB, P_placeholder, P_field nm_xid fL,
        P_field nm_experimenter fL, P_field nm_subtype fL, P_length, P_set_len 2]
       (Some (fL, 12,
         [(22, of11_message_bsn_bw_clear_data_reply), (21, of11_message_bsn_bw_clear_data_request),
          (20, of11_message_bsn_bw_enable_get_reply), (19, of11_message_bsn_bw_enable_get_request),
          (23, of11_message_bsn_bw_enable_set_reply), (18, of11_message_bsn_bw_enable_set_request),
          (10, of11_message_bsn_get_interfaces_reply),
          (9, of11_message_bsn_get_interfaces_request), (5, of11_message_bsn_get_mirroring_reply),
          (4, of11_message_bsn_get_mirroring_request), (34, of11_message_bsn_pdu_rx_reply),
          (33, of11_message_bsn_pdu_rx_request), (35, of11_message_bsn_pdu_rx_timeout),
          (32, of11_message_bsn_pdu_tx_reply), (31, of11_message_bsn_pdu_tx_request),
          (3, of11_message_bsn_set_mirroring), (25, of11_message_bsn_set_pktin_suppression_reply),
          (11, of11_message_bsn_set_pktin_suppression_request),
          (16, of11_message_bsn_virtual_port_create_reply),
          (15, of11_message_bsn_virtual_port_create_request),
          (26, of11_message_bsn_virtual_port_remove_reply),
          (17, of11_message_bsn_virtual_port_remove_request)]))
       [U_local nm__version fB, U_assert nm__version 2, U_local nm__type fB, U_assert nm__type 4,
        U_local nm__length fH, U_slice nm__length 4, U_field nm_xid fL,
        U_local nm__experimenter fL, U_assert nm__experimenter 6035143, U_field nm_subtype fL]
       [nm_xid, nm_subtype]"

definition of11_message_nicira_header :: cls where
  "of11_message_nicira_header =
     Cls ''nicira_header'' [(nm_version, 2), (nm_type, 4), (nm_experimenter, 8992)]
       [(nm_xid, D_None), (nm_subtype, D_num 0)]
       [P_field nm_version fB, P_field nm_type fB, P_placeholder, P_field nm_xid fL,
        P_field nm_experimenter fL, P_field nm_subtype fL, P_length, P_set_len 2]
       (Some (fL, 12,
         []))
       [U_local nm__version fB, U_assert nm__version 2, U_local nm__type fB, U_assert nm__type 4,
        U_local nm__length fH, U_slice nm__length 4, U_field nm_xid fL,
        U_local nm__experimenter fL, U_assert nm__experimenter 8992, U_field nm_subtype fL]
       [nm_xid, nm_subtype]"

definition of11_message_experimenter :: cls where
  "of11_message_experimenter =
     Cls ''experimenter'' [(nm_version, 2), (nm_type, 4)]
       [(nm_xid, D_None), (nm_experimenter, D_num 0), (nm_data, D_str [])]
       [P_field nm_version fB, P_field nm_type fB, P_placeholder, P_field nm_xid fL,
        P_field nm_experimenter fL, P_raw nm_data, P_length, P_set_len 2]
       (Some (fL, 8,
         [(6035143, of11_message_bsn_header), (8992, of11_message_nicira_header)]))
       [U_local nm__version fB, U_assert nm__version 2, U_local nm__type fB, U_assert nm__type 4,
        U_local nm__length fH, U_slice nm__length 4, U_field nm_xid fL, U_field nm_experimenter fL,
        U_read_all nm_data]
       [nm_xid, nm_experimenter, nm_data]"

definition of11_message_echo_reply :: cls where
  "of11_message_echo_reply =
     Cls ''echo_reply'' [(nm_version, 2), (nm_type, 3)]
       [(nm_xid, D_None), (nm_data, D_str [])]
       [P_field nm_version fB, P_field nm_type fB, P_placeholder, P_field nm_xid fL, P_raw nm_data,
        P_length, P_set_len 2]
       None
       [U_local nm__version fB, U_assert nm__version 2, U_local nm__type fB, U_assert nm__type 3,
        U_local nm__length fH, U_slice nm__length 4, U_field nm_xid fL, U_read_all nm_data]
       [nm_xid, nm_data]"

definition of11_message_echo_request :: cls where
  "of11_message_echo_request =
     Cls ''echo_request'' [(nm_version, 2), (nm_type, 2)]
       [(nm_xid, D_None), (nm_data, D_str [])]
       [P_field nm_version fB, P_field nm_type fB, P_placeholder, P_field nm_xid fL, P_raw nm_data,
        P_length, P_set_len 2]
       None
       [U_local nm__version fB, U_assert nm__version 2, U_local nm__type fB, U_assert nm__type 2,
        U_local nm__length fH, U_slice nm__length 4, U_field nm_xid fL, U_read_all nm_data]
       [nm_xid, nm_data]"

definition of11_message_features_reply :: cls where
  "of11_message_features_reply =
     Cls ''features_reply'' [(nm_version, 2), (nm_type, 6)]
       [(nm_xid, D_None), (nm_datapath_id, D_num 0), (nm_n_buffers, D_num 0),
        (nm_n_tables, D_num 0), (nm_capabilities, D_num 0), (nm_reserved, D_num 0),
        (nm_ports, D_list)]
       [P_field nm_version fB, P_field nm_type fB, P_placeholder, P_field nm_xid fL,
        P_field nm_datapath_id fQ, P_field nm_n_buffers fL, P_field nm_n_tables fB, P_pad 3,
        P_field nm_capabilities fL, P_field nm_reserved fL, P_list nm_ports, P_length, P_set_len 2]
       None
       [U_local nm__version fB, U_assert nm__version 2, U_local nm__type fB, U_assert nm__type 6,
        U_local nm__length fH, U_slice nm__length 4, U_field nm_xid fL, U_field nm_datapath_id fQ,
        U_field nm_n_buffers fL, U_field nm_n_tables fB, U_skip 3, U_field nm_capabilities fL,
        U_field nm_reserved fL, U_list nm_ports of11_common_port_desc]
       [nm_xid, nm_datapath_id, nm_n_buffers, nm_n_tables, nm_capabilities, nm_reserved, nm_ports]"

definition of11_message_features_request :: cls where
  "of11_message_features_request =
     Cls ''features_request'' [(nm_version, 2), (nm_type, 5)]
       [(nm_xid, D_None)]
       [P_field nm_version fB, P_field nm_type fB, P_placeholder, P_field nm_xid fL, P_length,
        P_set_len 2]
       None
       [U_local nm__version fB, U_assert nm__version 2, U_local nm__type fB, U_assert nm__type 5,
        U_local nm__length fH, U_slice nm__length 4, U_field nm_xid fL]
       [nm_xid]"

definition of11_message_flow_add :: cls where
  "of11_message_flow_add =
     Cls ''flow_add'' [(nm_version, 2), (nm_type, 14), (nm__command, 0)]
       [(nm_xid, D_None), (nm_cookie, D_num 0), (nm_cookie_mask, D_num 0), (nm_table_id, D_num 0),
        (nm_idle_timeout, D_num 0), (nm_hard_timeout, D_num 0), (nm_priority, D_num 0),
        (nm_buffer_id, D_num 0), (nm_out_port, D_num 0), (nm_out_group, D_num 0),
        (nm_flags, D_num 0), (nm_match, D_new of11_common_match_v2), (nm_instructions, D_list)]
       [P_field nm_version fB, P_field nm_type fB, P_placeholder, P_field nm_xid fL,
        P_field nm_cookie fQ, P_field nm_cookie_mask fQ, P_field nm_table_id fB,
        P_field nm__command of11_fm_cmd, P_field nm_idle_timeout fH, P_field nm_hard_timeout fH,
        P_field nm_priority fH, P_field nm_buffer_id fL, P_field nm_out_port of11_port_no,
        P_field nm_out_group fL, P_field nm_flags fH, P_pad 2, P_obj nm_match,
        P_list nm_instructions, P_length, P_set_len 2]
       None
       [U_local nm__version fB, U_assert nm__version 2, U_local nm__type fB, U_assert nm__type 14,
        U_local nm__length fH, U_slice nm__length 4, U_field nm_xid fL, U_field nm_cookie fQ,
        U_field nm_cookie_mask fQ, U_field nm_table_id fB, U_local nm___command of11_fm_cmd,
        U_assert nm___command 0, U_field nm_idle_timeout fH, U_field nm_hard_timeout fH,
        U_field nm_priority fH, U_field nm_buffer_id fL, U_field nm_out_port of11_port_no,
        U_field nm_out_group fL, U_field nm_flags fH, U_skip 2,
        U_obj nm_match of11_common_match_v2, U_list nm_instructions of11_instruction_instruction]
       [nm_xid, nm_cookie, nm_cookie_mask, nm_table_id, nm_idle_timeout, nm_hard_timeout,
        nm_priority, nm_buffer_id, nm_out_port, nm_out_group, nm_flags, nm_match, nm_instructions]"

definition of11_message_flow_delete :: cls where
  "of11_message_flow_delete =
     Cls ''flow_delete'' [(nm_version, 2), (nm_type, 14), (nm__command, 3)]
       [(nm_xid, D_None), (nm_cookie, D_num 0), (nm_cookie_mask, D_num 0), (nm_table_id, D_num 0),
        (nm_idle_timeout, D_num 0), (nm_hard_timeout, D_num 0), (nm_priority, D_num 0),
        (nm_buffer_id, D_num 0), (nm_out_port, D_num 0), (nm_out_group, D_num 0),
        (nm_flags, D_num 0), (nm_match, D_new of11_common_match_v2), (nm_instructions, D_list)]
       [P_field nm_version fB, P_field nm_type fB, P_placeholder, P_field nm_xid fL,
        P_field nm_cookie fQ, P_field nm_cookie_mask fQ, P_field nm_table_id fB,
        P_field nm__command of11_fm_cmd, P_field nm_idle_timeout fH, P_field nm_hard_timeout fH,
        P_field nm_priority fH, P_field nm_buffer_id fL, P_field nm_out_port of11_port_no,
        P_field nm_out_group fL, P_field nm_flags fH, P_pad 2, P_obj nm_match,
        P_list nm_instructions, P_length, P_set_len 2]
       None
       [U_local nm__version fB, U_assert nm__version 2, U_local nm__type fB, U_assert nm__type 14,
        U_local nm__length fH, U_slice nm__length 4, U_field nm_xid fL, U_field nm_cookie fQ,
        U_field nm_cookie_mask fQ, U_field nm_table_id fB, U_local nm___command of11_fm_cmd,
        U_assert nm___command 3, U_field nm_idle_timeout fH, U_field nm_hard_timeout fH,
        U_field nm_priority fH, U_field nm_buffer_id fL, U_field nm_out_port of11_port_no,
        U_field nm_out_group fL, U_field nm_flags fH, U_skip 2,
        U_obj nm_match of11_common_match_v2, U_list nm_instructions of11_instruction_instruction]
       [nm_xid, nm_cookie, nm_cookie_mask, nm_table_id, nm_idle_timeout, nm_hard_timeout,
        nm_priority, nm_buffer_id, nm_out_port, nm_out_group, nm_flags, nm_match, nm_instructions]"

definition of11_message_flow_delete_strict :: cls where
  "of11_message_flow_delete_strict =
     Cls ''flow_delete_strict'' [(nm_version, 2), (nm_type, 14), (nm__command, 4)]
       [(nm_xid, D_None), (nm_cookie, D_num 0), (nm_cookie_mask, D_num 0), (nm_table_id, D_num 0),
        (nm_idle_timeout, D_num 0), (nm_hard_timeout, D_num 0), (nm_priority, D_num 0),
        (nm_buffer_id, D_num 0), (nm_out_port, D_num 0), (nm_out_group, D_num 0),
        (nm_flags, D_num 0), (nm_match, D_new of11_common_match_v2), (nm_instructions, D_list)]
       [P_field nm_version fB, P_field nm_type fB, P_placeholder, P_field nm_xid fL,
        P_field nm_cookie fQ, P_field nm_cookie_mask fQ, P_field nm_table_id fB,
        P_field nm__command of11_fm_cmd, P_field nm_idle_timeout fH, P_field nm_hard_timeout fH,
        P_field nm_priority fH, P_field nm_buffer_id fL, P_field nm_out_port of11_port_no,
        P_field nm_out_group fL, P_field nm_flags fH, P_pad 2, P_obj nm_match,
        P_list nm_instructions, P_length, P_set_len 2]
       None
       [U_local nm__version fB, U_assert nm__version 2, U_local nm__type fB, U_assert nm__type 14,
        U_local nm__length fH, U_slice nm__length 4, U_field nm_xid fL, U_field nm_cookie fQ,
        U_field nm_cookie_mask fQ, U_field nm_table_id fB, U_local nm___command of11_fm_cmd,
        U_assert nm___command 4, U_field nm_idle_timeout fH, U_field nm_hard_timeout fH,
        U_field nm_priority fH, U_field nm_buffer_id fL, U_field nm_out_port of11_port_no,
        U_field nm_out_group fL, U_field nm_flags fH, U_skip 2,
        U_obj nm_match of11_common_match_v2, U_list nm_instructions of11_instruction_instruction]
       [nm_xid, nm_cookie, nm_cookie_mask, nm_table_id, nm_idle_timeout, nm_hard_timeout,
        nm_priority, nm_buffer_id, nm_out_port, nm_out_group, nm_flags, nm_match, nm_instructions]"

definition of11_message_flow_modify :: cls where
  "of11_message_flow_modify =
     Cls ''flow_modify'' [(nm_version, 2), (nm_type, 14), (nm__command, 1)]
       [(nm_xid, D_None), (nm_cookie, D_num 0), (nm_cookie_mask, D_num 0), (nm_table_id, D_num 0),
        (nm_idle_timeout, D_num 0), (nm_hard_timeout, D_num 0), (nm_priority, D_num 0),
        (nm_buffer_id, D_num 0), (nm_out_port, D_num 0), (nm_out_group, D_num 0),
        (nm_flags, D_num 0), (nm_match, D_new of11_common_match_v2), (nm_instructions, D_list)]
       [P_field nm_version fB, P_field nm_type fB, P_placeholder, P_field nm_xid fL,
        P_field nm_cookie fQ, P_field nm_cookie_mask fQ, P_field nm_table_id fB,
        P_field nm__command of11_fm_cmd, P_field nm_idle_timeout fH, P_field nm_hard_timeout fH,
        P_field nm_priority fH, P_field nm_buffer_id fL, P_field nm_out_port of11_port_no,
        P_field nm_out_group fL, P_field nm_flags fH, P_pad 2, P_obj nm_match,
        P_list nm_instructions, P_length, P_set_len 2]
       None
       [U_local nm__version fB, U_assert nm__version 2, U_local nm__type fB, U_assert nm__type 14,
        U_local nm__length fH, U_slice nm__length 4, U_field nm_xid fL, U_field nm_cookie fQ,
        U_field nm_cookie_mask fQ, U_field nm_table_id fB, U_local nm___command of11_fm_cmd,
        U_assert nm___command 1, U_field nm_idle_timeout fH, U_field nm_hard_timeout fH,
        U_field nm_priority fH, U_field nm_buffer_id fL, U_field nm_out_port of11_port_no,
        U_field nm_out_group fL, U_field nm_flags fH, U_skip 2,
        U_obj nm_match of11_common_match_v2, U_list nm_instructions of11_instruction_instruction]
       [nm_xid, nm_cookie, nm_cookie_mask, nm_table_id, nm_idle_timeout, nm_hard_timeout,
        nm_priority, nm_buffer_id, nm_out_port, nm_out_group, nm_flags, nm_match, nm_instructions]"

definition of11_message_flow_modify_strict :: cls where
  "of11_message_flow_modify_strict =
     Cls ''flow_modify_strict'' [(nm_version, 2), (nm_type, 14), (nm__command, 2)]
       [(nm_xid, D_None), (nm_cookie, D_num 0), (nm_cookie_mask, D_num 0), (nm_table_id, D_num 0),
        (nm_idle_timeout, D_num 0), (nm_hard_timeout, D_num 0), (nm_priority, D_num 0),
        (nm_buffer_id, D_num 0), (nm_out_port, D_num 0), (nm_out_group, D_num 0),
        (nm_flags, D_num 0), (nm_match, D_new of11_common_match_v2), (nm_instructions, D_list)]
       [P_field nm_version fB, P_field nm_type fB, P_placeholder, P_field nm_xid fL,
        P_field nm_cookie fQ, P_field nm_cookie_mask fQ, P_field nm_table_id fB,
        P_field nm__command of11_fm_cmd, P_field nm_idle_timeout fH, P_field nm_hard_timeout fH,
        P_field nm_priority fH, P_field nm_buffer_id fL, P_field nm_out_port of11_port_no,
        P_field nm_out_group fL, P_field nm_flags fH, P_pad 2, P_obj nm_match,
        P_list nm_instructions, P_length, P_set_len 2]
       None
       [U_local nm__version fB, U_assert nm__version 2, U_local nm__type fB, U_assert nm__type 14,
        U_local nm__length fH, U_slice nm__length 4, U_field nm_xid fL, U_field nm_cookie fQ,
        U_field nm_cookie_mask fQ, U_field nm_table_id fB, U_local nm___command of11_fm_cmd,
        U_assert nm___command 2, U_field nm_idle_timeout fH, U_field nm_hard_timeout fH,
        U_field nm_priority fH, U_field nm_buffer_id fL, U_field nm_out_port of11_port_no,
        U_field nm_out_group fL, U_field nm_flags fH, U_skip 2,
        U_obj nm_match of11_common_match_v2, U_list nm_instructions of11_instruction_instruction]
       [nm_xid, nm_cookie, nm_cookie_mask, nm_table_id, nm_idle_timeout, nm_hard_timeout,
        nm_priority, nm_buffer_id, nm_out_port, nm_out_group, nm_flags, nm_match, nm_instructions]"

definition of11_message_flow_mod :: cls where
  "of11_message_flow_mod =
     Cls ''flow_mod'' [(nm_version, 2), (nm_type, 14)]
       [(nm_xid, D_None), (nm_cookie, D_num 0), (nm_cookie_mask, D_num 0), (nm_table_id, D_num 0),
        (nm__command, D_num 0), (nm_idle_timeout, D_num 0), (nm_hard_timeout, D_num 0),
        (nm_priority, D_num 0), (nm_buffer_id, D_num 0), (nm_out_port, D_num 0),
        (nm_out_group, D_num 0), (nm_flags, D_num 0), (nm_match, D_new of11_common_match_v2),
        (nm_instructions, D_list)]
       [P_field nm_version fB, P_field nm_type fB, P_placeholder, P_field nm_xid fL,
        P_field nm_cookie fQ, P_field nm_cookie_mask fQ, P_field nm_table_id fB,
        P_field nm__command of11_fm_cmd, P_field nm_idle_timeout fH, P_field nm_hard_timeout fH,
        P_field nm_priority fH, P_field nm_buffer_id fL, P_field nm_out_port of11_port_no,
        P_field nm_out_group fL, P_field nm_flags fH, P_pad 2, P_obj nm_match,
        P_list nm_instructions, P_length, P_set_len 2]
       (Some (fB, 25,
         [(0, of11_message_flow_add), (3, of11_message_flow_delete),
          (4, of11_message_flow_delete_strict), (1, of11_message_flow_modify),
          (2, of11_message_flow_modify_strict)]))
       [U_local nm__version fB, U_assert nm__version 2, U_local nm__type fB, U_assert nm__type 14,
        U_local nm__length fH, U_slice nm__length 4, U_field nm_xid fL, U_field nm_cookie fQ,
        U_field nm_cookie_mask fQ, U_field nm_table_id fB, U_field nm__command of11_fm_cmd,
        U_field nm_idle_timeout fH, U_field nm_hard_timeout fH, U_field nm_priority fH,
        U_field nm_buffer_id fL, U_field nm_out_port of11_port_no, U_field nm_out_group fL,
        U_field nm_flags fH, U_skip 2, U_obj nm_match of11_common_match_v2,
        U_list nm_instructions of11_instruction_instruction]
       [nm_xid, nm_cookie, nm_cookie_mask, nm_table_id, nm__command, nm_idle_timeout,
        nm_hard_timeout, nm_priority, nm_buffer_id, nm_out_port, nm_out_group, nm_flags, nm_match,
        nm_instructions]"

definition of11_message_flow_removed :: cls where
  "of11_message_flow_removed =
     Cls ''flow_removed'' [(nm_version, 2), (nm_type, 11)]
       [(nm_xid, D_None), (nm_cookie, D_num 0), (nm_priority, D_num 0), (nm_reason, D_num 0),
        (nm_table_id, D_num 0), (nm_duration_sec, D_num 0), (nm_duration_nsec, D_num 0),
        (nm_idle_timeout, D_num 0), (nm_packet_count, D_num 0), (nm_byte_count, D_num 0),
        (nm_match, D_new of11_common_match_v2)]
       [P_field nm_version fB, P_field nm_type fB, P_placeholder, P_field nm_xid fL,
        P_field nm_cookie fQ, P_field nm_priority fH, P_field nm_reason fB, P_field nm_table_id fB,
        P_field nm_duration_sec fL, P_field nm_duration_nsec fL, P_field nm_idle_timeout fH,
        P_pad 2, P_field nm_packet_count fQ, P_field nm_byte_count fQ, P_obj nm_match, P_length,
        P_set_len 2]
       None
       [U_local nm__version fB, U_assert nm__version 2, U_local nm__type fB, U_assert nm__type 11,
        U_local nm__length fH, U_slice nm__length 4, U_field nm_xid fL, U_field nm_cookie fQ,
        U_field nm_priority fH, U_field nm_reason fB, U_field nm_table_id fB,
        U_field nm_duration_sec fL, U_field nm_duration_nsec fL, U_field nm_idle_timeout fH,
        U_skip 2, U_field nm_packet_count fQ, U_field nm_byte_count fQ,
        U_obj nm_match of11_common_match_v2]
       [nm_xid, nm_cookie, nm_priority, nm_reason, nm_table_id, nm_duration_sec, nm_duration_nsec,
        nm_idle_timeout, nm_packet_count, nm_byte_count, nm_match]"

definition of11_message_get_config_reply :: cls where
  "of11_message_get_config_reply =
     Cls ''get_config_reply'' [(nm_version, 2), (nm_type, 8)]
       [(nm_xid, D_None), (nm_flags, D_num 0), (nm_miss_send_len, D_num 0)]
       [P_field nm_version fB, P_field nm_type fB, P_placeholder, P_field nm_xid fL,
        P_field nm_flags fH, P_field nm_miss_send_len fH, P_length, P_set_len 2]
       None
       [U_local nm__version fB, U_assert nm__version 2, U_local nm__type fB, U_assert nm__type 8,
        U_local nm__length fH, U_slice nm__length 4, U_field nm_xid fL, U_field nm_flags fH,
        U_field nm_miss_send_len fH]
       [nm_xid, nm_flags, nm_miss_send_len]"

definition of11_message_get_config_request :: cls where
  "of11_message_get_config_request =
     Cls ''get_config_request'' [(nm_version, 2), (nm_type, 7)]
       [(nm_xid, D_None)]
       [P_field nm_version fB, P_field nm_type fB, P_placeholder, P_field nm_xid fL, P_length,
        P_set_len 2]
       None
       [U_local nm__version fB, U_assert nm__version 2, U_local nm__type fB, U_assert nm__type 7,
        U_local nm__length fH, U_slice nm__length 4, U_field nm_xid fL]
       [nm_xid]"

definition of11_message_group_add :: cls where
  "of11_message_group_add =
     Cls ''group_add'' [(nm_version, 2), (nm_type, 15), (nm_command, 0)]
       [(nm_xid, D_None), (nm_group_type, D_num 0), (nm_group_id, D_num 0), (nm_buckets, D_list)]
       [P_field nm_version fB, P_field nm_type fB, P_placeholder, P_field nm_xid fL,
        P_field nm_command fH, P_field nm_group_type fB, P_pad 1, P_field nm_group_id fL,
        P_list nm_buckets, P_length, P_set_len 2]
       None
       [U_local nm__version fB, U_assert nm__version 2, U_local nm__type fB, U_assert nm__type 15,
        U_local nm__length fH, U_slice nm__length 4, U_field nm_xid fL, U_local nm__command fH,
        U_assert nm__command 0, U_field nm_group_type fB, U_skip 1, U_field nm_group_id fL,
        U_list nm_buckets of11_common_bucket]
       [nm_xid, nm_group_type, nm_group_id, nm_buckets]"

definition of11_message_group_delete :: cls where
  "of11_message_group_delete =
     Cls ''group_delete'' [(nm_version, 2), (nm_type, 15), (nm_command, 2)]
       [(nm_xid, D_None), (nm_group_type, D_num 0), (nm_group_id, D_num 0), (nm_buckets, D_list)]
       [P_field nm_version fB, P_field nm_type fB, P_placeholder, P_field nm_xid fL,
        P_field nm_command fH, P_field nm_group_type fB, P_pad 1, P_field nm_group_id fL,
        P_list nm_buckets, P_length, P_set_len 2]
       None
       [U_local nm__version fB, U_assert nm__version 2, U_local nm__type fB, U_assert nm__type 15,
        U_local nm__length fH, U_slice nm__length 4, U_field nm_xid fL, U_local nm__command fH,
        U_assert nm__command 2, U_field nm_group_type fB, U_skip 1, U_field nm_group_id fL,
        U_list nm_buckets of11_common_bucket]
       [nm_xid, nm_group_type, nm_group_id, nm_buckets]"

definition of11_message_group_modify :: cls where
  "of11_message_group_modify =
     Cls ''group_modify'' [(nm_version, 2), (nm_type, 15), (nm_command, 1)]
       [(nm_xid, D_None), (nm_group_type, D_num 0), (nm_group_id, D_num 0), (nm_buckets, D_list)]
       [P_field nm_version fB, P_field nm_type fB, P_placeholder, P_field nm_xid fL,
        P_field nm_command fH, P_field nm_group_type fB, P_pad 1, P_field nm_group_id fL,
        P_list nm_buckets, P_length, P_set_len 2]
       None
       [U_local nm__version fB, U_assert nm__version 2, U_local nm__type fB, U_assert nm__type 15,
        U_local nm__length fH, U_slice nm__length 4, U_field nm_xid fL, U_local nm__command fH,
        U_assert nm__command 1, U_field nm_group_type fB, U_skip 1, U_field nm_group_id fL,
        U_list nm_buckets of11_common_bucket]
       [nm_xid, nm_group_type, nm_group_id, nm_buckets]"

definition of11_message_group_mod :: cls where
  "of11_message_group_mod =
     Cls ''group_mod'' [(nm_version, 2), (nm_type, 15)]
       [(nm_xid, D_None), (nm_command, D_num 0), (nm_group_type, D_num 0), (nm_group_id, D_num 0),
        (nm_buckets, D_list)]
       [P_field nm_version fB, P_field nm_type fB, P_placeholder, P_field nm_xid fL,
        P_field nm_command fH, P_field nm_group_type fB, P_pad 1, P_field nm_group_id fL,
        P_list nm_buckets, P_length, P_set_len 2]
       (Some (fH, 8,
         [(0, of11_message_group_add), (2, of11_message_group_delete),
          (1, of11_message_group_modify)]))
       [U_local nm__version fB, U_assert nm__version 2, U_local nm__type fB, U_assert nm__type 15,
        U_local nm__length fH, U_slice nm__length 4, U_field nm_xid fL, U_field nm_command fH,
        U_field nm_group_type fB, U_skip 1, U_field nm_group_id fL,
        U_list nm_buckets of11_common_bucket]
       [nm_xid, nm_command, nm_group_type, nm_group_id, nm_buckets]"

definition of11_message_hello :: cls where
  "of11_message_hello =
     Cls ''hello'' [(nm_version, 2), (nm_type, 0)]
       [(nm_xid, D_None)]
       [P_field nm_version fB, P_field nm_type fB, P_placeholder, P_field nm_xid fL, P_length,
        P_set_len 2]
       None
       [U_local nm__version fB, U_assert nm__version 2, U_local nm__type fB, U_assert nm__type 0,
        U_local nm__length fH, U_slice nm__length 4, U_field nm_xid fL]
       [nm_xid]"

definition of11_message_packet_in :: cls where
  "of11_message_packet_in =
     Cls ''packet_in'' [(nm_version, 2), (nm_type, 10)]
       [(nm_xid, D_None), (nm_buffer_id, D_num 0), (nm_in_port, D_num 0),
        (nm_in_phy_port, D_num 0), (nm_total_len, D_num 0), (nm_reason, D_num 0),
        (nm_table_id, D_num 0), (nm_data, D_str [])]
       [P_field nm_version fB, P_field nm_type fB, P_placeholder, P_field nm_xid fL,
        P_field nm_buffer_id fL, P_field nm_in_port of11_port_no,
        P_field nm_in_phy_port of11_port_no, P_field nm_total_len fH, P_field nm_reason fB,
        P_field nm_table_id fB, P_raw nm_data, P_length, P_set_len 2]
       None
       [U_local nm__version fB, U_assert nm__version 2, U_local nm__type fB, U_assert nm__type 10,
        U_local nm__length fH, U_slice nm__length 4, U_field nm_xid fL, U_field nm_buffer_id fL,
        U_field nm_in_port of11_port_no, U_field nm_in_phy_port of11_port_no,
        U_field nm_total_len fH, U_field nm_reason fB, U_field nm_table_id fB, U_read_all nm_data]
       [nm_xid, nm_buffer_id, nm_in_port, nm_in_phy_port, nm_total_len, nm_reason, nm_table_id,
        nm_data]"

definition of11_message_packet_out :: cls where
  "of11_message_packet_out =
     Cls ''packet_out'' [(nm_version, 2), (nm_type, 13)]
       [(nm_xid, D_None), (nm_buffer_id, D_num 0), (nm_in_port, D_num 0), (nm_actions, D_list),
        (nm_data, D_str [])]
       [P_field nm_version fB, P_field nm_type fB, P_placeholder, P_field nm_xid fL,
        P_field nm_buffer_id fL, P_field nm_in_port of11_port_no, P_placeholder, P_pad 6,
        P_list nm_actions, P_len_last 6, P_raw nm_data, P_length, P_set_len 2]
       None
       [U_local nm__version fB, U_assert nm__version 2, U_local nm__type fB, U_assert nm__type 13,
        U_local nm__length fH, U_slice nm__length 4, U_field nm_xid fL, U_field nm_buffer_id fL,
        U_field nm_in_port of11_port_no, U_local nm__actions_len fH, U_skip 6,
        U_list_of nm_actions nm__actions_len of11_action_action, U_read_all nm_data]
       [nm_xid, nm_buffer_id, nm_in_port, nm_actions, nm_data]"

definition of11_message_port_mod :: cls where
  "of11_message_port_mod =
     Cls ''port_mod'' [(nm_version, 2), (nm_type, 16)]
       [(nm_xid, D_None), (nm_port_no, D_num 0), (nm_hw_addr, D_nums [0,0,0,0,0,0]),
        (nm_config, D_num 0), (nm_mask, D_num 0), (nm_advertise, D_num 0)]
       [P_field nm_version fB, P_field nm_type fB, P_placeholder, P_field nm_xid fL,
        P_field nm_port_no of11_port_no, P_pad 4, P_field nm_hw_addr f6B, P_pad 2,
        P_field nm_config fL, P_field nm_mask fL, P_field nm_advertise fL, P_pad 4, P_length,
        P_set_len 2]
       None
       [U_local nm__version fB, U_assert nm__version 2, U_local nm__type fB, U_assert nm__type 16,
        U_local nm__length fH, U_slice nm__length 4, U_field nm_xid fL,
        U_field nm_port_no of11_port_no, U_skip 4, U_field nm_hw_addr f6B, U_skip 2,
        U_field nm_config fL, U_field nm_mask fL, U_field nm_advertise fL, U_skip 4]
       [nm_xid, nm_port_no, nm_hw_addr, nm_config, nm_mask, nm_advertise]"

definition of11_message_port_status :: cls where
  "of11_message_port_status =
     Cls ''port_status'' [(nm_version, 2), (nm_type, 12)]
       [(nm_xid, D_None), (nm_reason, D_num 0), (nm_desc, D_new of11_common_port_desc)]
       [P_field nm_version fB, P_field nm_type fB, P_placeholder, P_field nm_xid fL,
        P_field nm_reason fB, P_pad 7, P_obj nm_desc, P_length, P_set_len 2]
       None
       [U_local nm__version fB, U_assert nm__version 2, U_local nm__type fB, U_assert nm__type 12,
        U_local nm__length fH, U_slice nm__length 4, U_field nm_xid fL, U_field nm_reason fB,
        U_skip 7, U_obj nm_desc of11_common_port_desc]
       [nm_xid, nm_reason, nm_desc]"

definition of11_message_queue_get_config_reply :: cls where
  "of11_message_queue_get_config_reply =
     Cls ''queue_get_config_reply'' [(nm_version, 2), (nm_type, 23)]
       [(nm_xid, D_None), (nm_port, D_num 0), (nm_queues, D_list)]
       [P_field nm_version fB, P_field nm_type fB, P_placeholder, P_field nm_xid fL,
        P_field nm_port of11_port_no, P_pad 4, P_list nm_queues, P_length, P_set_len 2]
       None
       [U_local nm__version fB, U_assert nm__version 2, U_local nm__type fB, U_assert nm__type 23,
        U_local nm__length fH, U_slice nm__length 4, U_field nm_xid fL,
        U_field nm_port of11_port_no, U_skip 4, U_list nm_queues of11_common_packet_queue]
       [nm_xid, nm_port, nm_queues]"

definition of11_message_queue_get_config_request :: cls where
  "of11_message_queue_get_config_request =
     Cls ''queue_get_config_request'' [(nm_version, 2), (nm_type, 22)]
       [(nm_xid, D_None), (nm_port, D_num 0)]
       [P_field nm_version fB, P_field nm_type fB, P_placeholder, P_field nm_xid fL,
        P_field nm_port of11_port_no, P_pad 4, P_length, P_set_len 2]
       None
       [U_local nm__version fB, U_assert nm__version 2, U_local nm__type fB, U_assert nm__type 22,
        U_local nm__length fH, U_slice nm__length 4, U_field nm_xid fL,
        U_field nm_port of11_port_no, U_skip 4]
       [nm_xid, nm_port]"

definition of11_message_set_config :: cls where
  "of11_message_set_config =
     Cls ''set_config'' [(nm_version, 2), (nm_type, 9)]
       [(nm_xid, D_None), (nm_flags, D_num 0), (nm_miss_send_len, D_num 0)]
       [P_field nm_version fB, P_field nm_type fB, P_placeholder, P_field nm_xid fL,
        P_field nm_flags fH, P_field nm_miss_send_len fH, P_length, P_set_len 2]
       None
       [U_local nm__version fB, U_assert nm__version 2, U_local nm__type fB, U_assert nm__type 9,
        U_local nm__length fH, U_slice nm__length 4, U_field nm_xid fL, U_field nm_flags fH,
        U_field nm_miss_send_len fH]
       [nm_xid, nm_flags, nm_miss_send_len]"

definition of11_message_table_mod :: cls where
  "of11_message_table_mod =
     Cls ''table_mod'' [(nm_version, 2), (nm_type, 17)]
       [(nm_xid, D_None), (nm_table_id, D_num 0), (nm_config, D_num 0)]
       [P_field nm_version fB, P_field nm_type fB, P_placeholder, P_field nm_xid fL,
        P_field nm_table_id fB, P_pad 3, P_field nm_config fL, P_length, P_set_len 2]
       None
       [U_local nm__version fB, U_assert nm__version 2, U_local nm__type fB, U_assert nm__type 17,
        U_local nm__length fH, U_slice nm__length 4, U_field nm_xid fL, U_field nm_table_id fB,
        U_skip 3, U_field nm_config fL]
       [nm_xid, nm_table_id, nm_config]"

definition of11_message_message :: cls where
  "of11_message_message =
     Cls ''message'' [(nm_version, 2)]
       [(nm_type, D_num 0), (nm_xid, D_None)]
       [P_field nm_version fB, P_field nm_type fB, P_placeholder, P_field nm_xid fL, P_length,
        P_set_len 2]
       (Some (fB, 1,
         [(19, of11_message_stats_reply), (18, of11_message_stats_request),
          (1, of11_message_error_msg), (21, of11_message_barrier_reply),
          (20, of11_message_barrier_request), (4, of11_message_experimenter),
          (3, of11_message_echo_reply), (2, of11_message_echo_request),
          (6, of11_message_features_reply), (5, of11_message_features_request),
          (14, of11_message_flow_mod), (11, of11_message_flow_removed),
          (8, of11_message_get_config_reply), (7, of11_message_get_config_request),
          (15, of11_message_group_mod), (0, of11_message_hello), (10, of11_message_packet_in),
          (13, of11_message_packet_out), (16, of11_message_port_mod),
          (12, of11_message_port_status), (23, of11_message_queue_get_config_reply),
          (22, of11_message_queue_get_config_request), (9, of11_message_set_config),
          (17, of11_message_table_mod)]))
       [U_local nm__version fB, U_assert nm__version 2, U_field nm_type fB, U_local nm__length fH,
        U_slice nm__length 4, U_field nm_xid fL]
       [nm_type, nm_xid]"


section \<open>pack and unpack agree\<close>

lemma of11_checked_1a [unfolded list.pred_inject prod.case, loxi_checked]:
  "list_all codec_ok
    [of11_action_bsn_checksum, of11_action_bsn_mirror, of11_action_bsn_set_tunnel_dst,
     of11_action_nicira_dec_ttl, of11_action_copy_ttl_in, of11_action_copy_ttl_out,
     of11_action_dec_mpls_ttl, of11_action_dec_nw_ttl, of11_action_group, of11_action_output,
     of11_action_pop_mpls, of11_action_pop_vlan, of11_action_push_mpls, of11_action_push_vlan,
     of11_action_set_dl_dst, of11_action_set_dl_src, of11_action_set_mpls_label, of11_action_set_mpls_tc,
     of11_action_set_mpls_ttl, of11_action_set_nw_dst, of11_action_set_nw_ecn, of11_action_set_nw_src,
     of11_action_set_nw_tos, of11_action_set_nw_ttl, of11_action_set_queue, of11_action_set_tp_dst,
     of11_action_set_tp_src, of11_action_set_vlan_pcp, of11_action_set_vlan_vid, of11_common_bsn_interface,
     of11_common_bsn_vport_l2gre, of11_common_bsn_vport_q_in_q, of11_common_bucket_counter,
     of11_common_match_v2, of11_instruction_clear_actions, of11_instruction_experimenter,
     of11_instruction_goto_table, of11_instruction_write_metadata, of11_common_queue_prop_min_rate,
     of11_common_port_desc]"
  "list_all safe_cls
    [of11_action_bsn_checksum, of11_action_bsn_mirror, of11_action_bsn_set_tunnel_dst,
     of11_action_nicira_dec_ttl, of11_action_copy_ttl_in, of11_action_copy_ttl_out,
     of11_action_dec_mpls_ttl, of11_action_dec_nw_ttl, of11_action_group, of11_action_output,
     of11_action_pop_mpls, of11_action_pop_vlan, of11_action_push_mpls, of11_action_push_vlan,
     of11_action_set_dl_dst, of11_action_set_dl_src, of11_action_set_mpls_label, of11_action_set_mpls_tc,
     of11_action_set_mpls_ttl, of11_action_set_nw_dst, of11_action_set_nw_ecn, of11_action_set_nw_src,
     of11_action_set_nw_tos, of11_action_set_nw_ttl, of11_action_set_queue, of11_action_set_tp_dst,
     of11_action_set_tp_src, of11_action_set_vlan_pcp, of11_action_set_vlan_vid, of11_common_bsn_interface,
     of11_common_bsn_vport_l2gre, of11_common_bsn_vport_q_in_q, of11_common_bucket_counter,
     of11_common_match_v2, of11_instruction_clear_actions, of11_instruction_experimenter,
     of11_instruction_goto_table, of11_instruction_write_metadata, of11_common_queue_prop_min_rate,
     of11_common_port_desc]"
  "list_all (\<lambda>c. \<not> needs_align c)
    [of11_action_bsn_checksum, of11_action_bsn_mirror, of11_action_bsn_set_tunnel_dst,
     of11_action_nicira_dec_ttl, of11_action_copy_ttl_in, of11_action_copy_ttl_out,
     of11_action_dec_mpls_ttl, of11_action_dec_nw_ttl, of11_action_group, of11_action_output,
     of11_action_pop_mpls, of11_action_pop_vlan, of11_action_push_mpls, of11_action_push_vlan,
     of11_action_set_dl_dst, of11_action_set_dl_src, of11_action_set_mpls_label, of11_action_set_mpls_tc,
     of11_action_set_mpls_ttl, of11_action_set_nw_dst, of11_action_set_nw_ecn, of11_action_set_nw_src,
     of11_action_set_nw_tos, of11_action_set_nw_ttl, of11_action_set_queue, of11_action_set_tp_dst,
     of11_action_set_tp_src, of11_action_set_vlan_pcp, of11_action_set_vlan_vid, of11_common_bsn_interface,
     of11_common_bsn_vport_l2gre, of11_common_bsn_vport_q_in_q, of11_common_bucket_counter,
     of11_common_match_v2, of11_instruction_clear_actions, of11_instruction_experimenter,
     of11_instruction_goto_table, of11_instruction_write_metadata, of11_common_queue_prop_min_rate,
     of11_common_port_desc]"
  "list_all (\<lambda>(k, c). writes_const fH 0 k c)
    [(65535, of11_action_bsn_checksum), (65535, of11_action_bsn_mirror),
     (65535, of11_action_bsn_set_tunnel_dst), (65535, of11_action_nicira_dec_ttl),
     (12, of11_action_copy_ttl_in), (11, of11_action_copy_ttl_out), (16, of11_action_dec_mpls_ttl),
     (24, of11_action_dec_nw_ttl), (22, of11_action_group), (0, of11_action_output),
     (20, of11_action_pop_mpls), (18, of11_action_pop_vlan), (19, of11_action_push_mpls),
     (17, of11_action_push_vlan), (4, of11_action_set_dl_dst), (3, of11_action_set_dl_src),
     (13, of11_action_set_mpls_label), (14, of11_action_set_mpls_tc), (15, of11_action_set_mpls_ttl),
     (6, of11_action_set_nw_dst), (8, of11_action_set_nw_ecn), (5, of11_action_set_nw_src),
     (7, of11_action_set_nw_tos), (23, of11_action_set_nw_ttl), (21, of11_action_set_queue),
     (10, of11_action_set_tp_dst), (9, of11_action_set_tp_src), (2, of11_action_set_vlan_pcp),
     (1, of11_action_set_vlan_vid), (1, of11_common_bsn_vport_l2gre), (0, of11_common_bsn_vport_q_in_q),
     (5, of11_instruction_clear_actions), (65535, of11_instruction_experimenter),
     (1, of11_instruction_goto_table), (2, of11_instruction_write_metadata),
     (1, of11_common_queue_prop_min_rate)]"
  "list_all (\<lambda>(k, c). writes_const fL 4 k c)
    [(6035143, of11_action_bsn_checksum), (6035143, of11_action_bsn_mirror),
     (6035143, of11_action_bsn_set_tunnel_dst), (8992, of11_action_nicira_dec_ttl)]"
  "list_all (\<lambda>(k, c). writes_const fL 8 k c)
    [(4, of11_action_bsn_checksum), (1, of11_action_bsn_mirror), (2, of11_action_bsn_set_tunnel_dst)]"
  "list_all (\<lambda>(k, c). writes_const fH 8 k c)
    [(18, of11_action_nicira_dec_ttl)]"
  by (simp_all add: loxi_formats loxi_eval loxi_checked
    of11_action_bsn_checksum_def of11_action_bsn_mirror_def of11_action_bsn_set_tunnel_dst_def
    of11_action_nicira_dec_ttl_def of11_action_copy_ttl_in_def of11_action_copy_ttl_out_def
    of11_action_dec_mpls_ttl_def of11_action_dec_nw_ttl_def of11_action_group_def
    of11_action_output_def of11_action_pop_mpls_def of11_action_pop_vlan_def of11_action_push_mpls_def
    of11_action_push_vlan_def of11_action_set_dl_dst_def of11_action_set_dl_src_def
    of11_action_set_mpls_label_def of11_action_set_mpls_tc_def of11_action_set_mpls_ttl_def
    of11_action_set_nw_dst_def of11_action_set_nw_ecn_def of11_action_set_nw_src_def
    of11_action_set_nw_tos_def of11_action_set_nw_ttl_def of11_action_set_queue_def
    of11_action_set_tp_dst_def of11_action_set_tp_src_def of11_action_set_vlan_pcp_def
    of11_action_set_vlan_vid_def of11_common_bsn_interface_def of11_common_bsn_vport_l2gre_def
    of11_common_bsn_vport_q_in_q_def of11_common_bucket_counter_def of11_common_match_v2_def
    of11_instruction_clear_actions_def of11_instruction_experimenter_def of11_instruction_goto_table_def
    of11_instruction_write_metadata_def of11_common_queue_prop_min_rate_def of11_common_port_desc_def
    del: One_nat_def)

lemma of11_checked_1b [unfolded list.pred_inject prod.case, loxi_checked]:
  "list_all codec_ok
    [of11_common_port_stats_entry, of11_common_queue_stats_entry, of11_common_table_stats_entry,
     of11_message_aggregate_stats_reply, of11_message_bsn_stats_reply, of11_message_desc_stats_reply,
     of11_message_bsn_stats_request, of11_message_desc_stats_request,
     of11_message_group_desc_stats_request, of11_message_group_stats_request,
     of11_message_port_stats_request, of11_message_queue_stats_request, of11_message_table_stats_request,
     of11_message_bad_action_error_msg, of11_message_bad_instruction_error_msg,
     of11_message_bad_match_error_msg, of11_message_bad_request_error_msg,
     of11_message_flow_mod_failed_error_msg, of11_message_group_mod_failed_error_msg,
     of11_message_hello_failed_error_msg, of11_message_port_mod_failed_error_msg,
     of11_message_queue_op_failed_error_msg, of11_message_switch_config_failed_error_msg,
     of11_message_table_mod_failed_error_msg, of11_message_barrier_reply, of11_message_barrier_request,
     of11_message_bsn_bw_clear_data_reply, of11_message_bsn_bw_clear_data_request,
     of11_message_bsn_bw_enable_get_reply, of11_message_bsn_bw_enable_get_request,
     of11_message_bsn_bw_enable_set_reply, of11_message_bsn_bw_enable_set_request,
     of11_message_bsn_get_interfaces_request, of11_message_bsn_get_mirroring_reply,
     of11_message_bsn_get_mirroring_request, of11_message_bsn_pdu_rx_reply,
     of11_message_bsn_pdu_rx_request, of11_message_bsn_pdu_rx_timeout, of11_message_bsn_pdu_tx_reply,
     of11_message_bsn_pdu_tx_request]"
  "list_all safe_cls
    [of11_common_port_stats_entry, of11_common_queue_stats_entry, of11_common_table_stats_entry,
     of11_message_aggregate_stats_reply, of11_message_bsn_stats_reply, of11_message_desc_stats_reply,
     of11_message_bsn_stats_request, of11_message_desc_stats_request,
     of11_message_group_desc_stats_request, of11_message_group_stats_request,
     of11_message_port_stats_request, of11_message_queue_stats_request, of11_message_table_stats_request,
     of11_message_bad_action_error_msg, of11_message_bad_instruction_error_msg,
     of11_message_bad_match_error_msg, of11_message_bad_request_error_msg,
     of11_message_flow_mod_failed_error_msg, of11_message_group_mod_failed_error_msg,
     of11_message_hello_failed_error_msg, of11_message_port_mod_failed_error_msg,
     of11_message_queue_op_failed_error_msg, of11_message_switch_config_failed_error_msg,
     of11_message_table_mod_failed_error_msg, of11_message_barrier_reply, of11_message_barrier_request,
     of11_message_bsn_bw_clear_data_reply, of11_message_bsn_bw_clear_data_request,
     of11_message_bsn_bw_enable_get_reply, of11_message_bsn_bw_enable_get_request,
     of11_message_bsn_bw_enable_set_reply, of11_message_bsn_bw_enable_set_request,
     of11_message_bsn_get_interfaces_request, of11_message_bsn_get_mirroring_reply,
     of11_message_bsn_get_mirroring_request, of11_message_bsn_pdu_rx_reply,
     of11_message_bsn_pdu_rx_request, of11_message_bsn_pdu_rx_timeout, of11_message_bsn_pdu_tx_reply,
     of11_message_bsn_pdu_tx_request]"
  "list_all (\<lambda>c. \<not> needs_align c)
    [of11_common_port_stats_entry, of11_common_queue_stats_entry, of11_common_table_stats_entry,
     of11_message_aggregate_stats_reply, of11_message_bsn_stats_reply, of11_message_desc_stats_reply,
     of11_message_bsn_stats_request, of11_message_desc_stats_request,
     of11_message_group_desc_stats_request, of11_message_group_stats_request,
     of11_message_port_stats_request, of11_message_queue_stats_request, of11_message_table_stats_request,
     of11_message_bad_action_error_msg, of11_message_bad_instruction_error_msg,
     of11_message_bad_match_error_msg, of11_message_bad_request_error_msg,
     of11_message_flow_mod_failed_error_msg, of11_message_group_mod_failed_error_msg,
     of11_message_hello_failed_error_msg, of11_message_port_mod_failed_error_msg,
     of11_message_queue_op_failed_error_msg, of11_message_switch_config_failed_error_msg,
     of11_message_table_mod_failed_error_msg, of11_message_barrier_reply, of11_message_barrier_request,
     of11_message_bsn_bw_clear_data_reply, of11_message_bsn_bw_clear_data_request,
     of11_message_bsn_bw_enable_get_reply, of11_message_bsn_bw_enable_get_request,
     of11_message_bsn_bw_enable_set_reply, of11_message_bsn_bw_enable_set_request,
     of11_message_bsn_get_interfaces_request, of11_message_bsn_get_mirroring_reply,
     of11_message_bsn_get_mirroring_request, of11_message_bsn_pdu_rx_reply,
     of11_message_bsn_pdu_rx_request, of11_message_bsn_pdu_rx_timeout, of11_message_bsn_pdu_tx_reply,
     of11_message_bsn_pdu_tx_request]"
  "list_all (has_header 2)
    [of11_message_aggregate_stats_reply, of11_message_bsn_stats_reply, of11_message_desc_stats_reply,
     of11_message_bsn_stats_request, of11_message_desc_stats_request,
     of11_message_group_desc_stats_request, of11_message_group_stats_request,
     of11_message_port_stats_request, of11_message_queue_stats_request, of11_message_table_stats_request,
     of11_message_bad_action_error_msg, of11_message_bad_instruction_error_msg,
     of11_message_bad_match_error_msg, of11_message_bad_request_error_msg,
     of11_message_flow_mod_failed_error_msg, of11_message_group_mod_failed_error_msg,
     of11_message_hello_failed_error_msg, of11_message_port_mod_failed_error_msg,
     of11_message_queue_op_failed_error_msg, of11_message_switch_config_failed_error_msg,
     of11_message_table_mod_failed_error_msg, of11_message_barrier_reply, of11_message_barrier_request,
     of11_message_bsn_bw_clear_data_reply, of11_message_bsn_bw_clear_data_request,
     of11_message_bsn_bw_enable_get_reply, of11_message_bsn_bw_enable_get_request,
     of11_message_bsn_bw_enable_set_reply, of11_message_bsn_bw_enable_set_request,
     of11_message_bsn_get_interfaces_request, of11_message_bsn_get_mirroring_reply,
     of11_message_bsn_get_mirroring_request, of11_message_bsn_pdu_rx_reply,
     of11_message_bsn_pdu_rx_request, of11_message_bsn_pdu_rx_timeout, of11_message_bsn_pdu_tx_reply,
     of11_message_bsn_pdu_tx_request]"
  "list_all (\<lambda>(k, c). writes_const fB 1 k c)
    [(19, of11_message_aggregate_stats_reply), (19, of11_message_bsn_stats_reply),
     (19, of11_message_desc_stats_reply), (18, of11_message_bsn_stats_request),
     (18, of11_message_desc_stats_request), (18, of11_message_group_desc_stats_request),
     (18, of11_message_group_stats_request), (18, of11_message_port_stats_request),
     (18, of11_message_queue_stats_request), (18, of11_message_table_stats_request),
     (1, of11_message_bad_action_error_msg), (1, of11_message_bad_instruction_error_msg),
     (1, of11_message_bad_match_error_msg), (1, of11_message_bad_request_error_msg),
     (1, of11_message_flow_mod_failed_error_msg), (1, of11_message_group_mod_failed_error_msg),
     (1, of11_message_hello_failed_error_msg), (1, of11_message_port_mod_failed_error_msg),
     (1, of11_message_queue_op_failed_error_msg), (1, of11_message_switch_config_failed_error_msg),
     (1, of11_message_table_mod_failed_error_msg), (21, of11_message_barrier_reply),
     (20, of11_message_barrier_request), (4, of11_message_bsn_bw_clear_data_reply),
     (4, of11_message_bsn_bw_clear_data_request), (4, of11_message_bsn_bw_enable_get_reply),
     (4, of11_message_bsn_bw_enable_get_request), (4, of11_message_bsn_bw_enable_set_reply),
     (4, of11_message_bsn_bw_enable_set_request), (4, of11_message_bsn_get_interfaces_request),
     (4, of11_message_bsn_get_mirroring_reply), (4, of11_message_bsn_get_mirroring_request),
     (4, of11_message_bsn_pdu_rx_reply), (4, of11_message_bsn_pdu_rx_request),
     (4, of11_message_bsn_pdu_rx_timeout), (4, of11_message_bsn_pdu_tx_reply),
     (4, of11_message_bsn_pdu_tx_request)]"
  "list_all (\<lambda>(k, c). writes_const fH 8 k c)
    [(2, of11_message_aggregate_stats_reply), (65535, of11_message_bsn_stats_reply),
     (0, of11_message_desc_stats_reply), (65535, of11_message_bsn_stats_request),
     (0, of11_message_desc_stats_request), (7, of11_message_group_desc_stats_request),
     (6, of11_message_group_stats_request), (4, of11_message_port_stats_request),
     (5, of11_message_queue_stats_request), (3, of11_message_table_stats_request),
     (2, of11_message_bad_action_error_msg), (3, of11_message_bad_instruction_error_msg),
     (4, of11_message_bad_match_error_msg), (1, of11_message_bad_request_error_msg),
     (5, of11_message_flow_mod_failed_error_msg), (6, of11_message_group_mod_failed_error_msg),
     (0, of11_message_hello_failed_error_msg), (7, of11_message_port_mod_failed_error_msg),
     (9, of11_message_queue_op_failed_error_msg), (10, of11_message_switch_config_failed_error_msg),
     (8, of11_message_table_mod_failed_error_msg)]"
  "list_all (\<lambda>(k, c). writes_const fL 16 k c)
    [(6035143, of11_message_bsn_stats_reply), (6035143, of11_message_bsn_stats_request)]"
  "list_all (\<lambda>(k, c). writes_const fL 8 k c)
    [(6035143, of11_message_bsn_bw_clear_data_reply), (6035143, of11_message_bsn_bw_clear_data_request),
     (6035143, of11_message_bsn_bw_enable_get_reply), (6035143, of11_message_bsn_bw_enable_get_request),
     (6035143, of11_message_bsn_bw_enable_set_reply), (6035143, of11_message_bsn_bw_enable_set_request),
     (6035143, of11_message_bsn_get_interfaces_request), (6035143, of11_message_bsn_get_mirroring_reply),
     (6035143, of11_message_bsn_get_mirroring_request), (6035143, of11_message_bsn_pdu_rx_reply),
     (6035143, of11_message_bsn_pdu_rx_request), (6035143, of11_message_bsn_pdu_rx_timeout),
     (6035143, of11_message_bsn_pdu_tx_reply), (6035143, of11_message_bsn_pdu_tx_request)]"
  "list_all (\<lambda>(k, c). writes_const fL 12 k c)
    [(22, of11_message_bsn_bw_clear_data_reply), (21, of11_message_bsn_bw_clear_data_request),
     (20, of11_message_bsn_bw_enable_get_reply), (19, of11_message_bsn_bw_enable_get_request),
     (23, of11_message_bsn_bw_enable_set_reply), (18, of11_message_bsn_bw_enable_set_request),
     (9, of11_message_bsn_get_interfaces_request), (5, of11_message_bsn_get_mirroring_reply),
     (4, of11_message_bsn_get_mirroring_request), (34, of11_message_bsn_pdu_rx_reply),
     (33, of11_message_bsn_pdu_rx_request), (35, of11_message_bsn_pdu_rx_timeout),
     (32, of11_message_bsn_pdu_tx_reply), (31, of11_message_bsn_pdu_tx_request)]"
  by (simp_all add: loxi_formats loxi_eval loxi_checked
    of11_common_port_stats_entry_def of11_common_queue_stats_entry_def of11_common_table_stats_entry_def
    of11_message_aggregate_stats_reply_def of11_message_bsn_stats_reply_def
    of11_message_desc_stats_reply_def of11_message_bsn_stats_request_def
    of11_message_desc_stats_request_def of11_message_group_desc_stats_request_def
    of11_message_group_stats_request_def of11_message_port_stats_request_def
    of11_message_queue_stats_request_def of11_message_table_stats_request_def
    of11_message_bad_action_error_msg_def of11_message_bad_instruction_error_msg_def
    of11_message_bad_match_error_msg_def of11_message_bad_request_error_msg_def
    of11_message_flow_mod_failed_error_msg_def of11_message_group_mod_failed_error_msg_def
    of11_message_hello_failed_error_msg_def of11_message_port_mod_failed_error_msg_def
    of11_message_queue_op_failed_error_msg_def of11_message_switch_config_failed_error_msg_def
    of11_message_table_mod_failed_error_msg_def of11_message_barrier_reply_def
    of11_message_barrier_request_def of11_message_bsn_bw_clear_data_reply_def
    of11_message_bsn_bw_clear_data_request_def of11_message_bsn_bw_enable_get_reply_def
    of11_message_bsn_bw_enable_get_request_def of11_message_bsn_bw_enable_set_reply_def
    of11_message_bsn_bw_enable_set_request_def of11_message_bsn_get_interfaces_request_def
    of11_message_bsn_get_mirroring_reply_def of11_message_bsn_get_mirroring_request_def
    of11_message_bsn_pdu_rx_reply_def of11_message_bsn_pdu_rx_request_def
    of11_message_bsn_pdu_rx_timeout_def of11_message_bsn_pdu_tx_reply_def
    of11_message_bsn_pdu_tx_request_def
    del: One_nat_def)

lemma of11_checked_1c [unfolded list.pred_inject prod.case, loxi_checked]:
  "list_all codec_ok
    [of11_message_bsn_set_mirroring, of11_message_bsn_set_pktin_suppression_reply,
     of11_message_bsn_set_pktin_suppression_request, of11_message_bsn_virtual_port_create_reply,
     of11_message_bsn_virtual_port_remove_reply, of11_message_bsn_virtual_port_remove_request,
     of11_message_nicira_header, of11_message_echo_reply, of11_message_echo_request,
     of11_message_features_request, of11_message_get_config_reply, of11_message_get_config_request,
     of11_message_hello, of11_message_packet_in, of11_message_port_mod,
     of11_message_queue_get_config_request, of11_message_set_config, of11_message_table_mod]"
  "list_all safe_cls
    [of11_message_bsn_set_mirroring, of11_message_bsn_set_pktin_suppression_reply,
     of11_message_bsn_set_pktin_suppression_request, of11_message_bsn_virtual_port_create_reply,
     of11_message_bsn_virtual_port_remove_reply, of11_message_bsn_virtual_port_remove_request,
     of11_message_nicira_header, of11_message_echo_reply, of11_message_echo_request,
     of11_message_features_request, of11_message_get_config_reply, of11_message_get_config_request,
     of11_message_hello, of11_message_packet_in, of11_message_port_mod,
     of11_message_queue_get_config_request, of11_message_set_config, of11_message_table_mod]"
  "list_all (\<lambda>c. \<not> needs_align c)
    [of11_message_bsn_set_mirroring, of11_message_bsn_set_pktin_suppression_reply,
     of11_message_bsn_set_pktin_suppression_request, of11_message_bsn_virtual_port_create_reply,
     of11_message_bsn_virtual_port_remove_reply, of11_message_bsn_virtual_port_remove_request,
     of11_message_nicira_header, of11_message_echo_reply, of11_message_echo_request,
     of11_message_features_request, of11_message_get_config_reply, of11_message_get_config_request,
     of11_message_hello, of11_message_packet_in, of11_message_port_mod,
     of11_message_queue_get_config_request, of11_message_set_config, of11_message_table_mod]"
  "list_all (has_header 2)
    [of11_message_bsn_set_mirroring, of11_message_bsn_set_pktin_suppression_reply,
     of11_message_bsn_set_pktin_suppression_request, of11_message_bsn_virtual_port_create_reply,
     of11_message_bsn_virtual_port_remove_reply, of11_message_bsn_virtual_port_remove_request,
     of11_message_nicira_header, of11_message_echo_reply, of11_message_echo_request,
     of11_message_features_request, of11_message_get_config_reply, of11_message_get_config_request,
     of11_message_hello, of11_message_packet_in, of11_message_port_mod,
     of11_message_queue_get_config_request, of11_message_set_config, of11_message_table_mod]"
  "list_all (\<lambda>(k, c). writes_const fB 1 k c)
    [(4, of11_message_bsn_set_mirroring), (4, of11_message_bsn_set_pktin_suppression_reply),
     (4, of11_message_bsn_set_pktin_suppression_request), (4, of11_message_bsn_virtual_port_create_reply),
     (4, of11_message_bsn_virtual_port_remove_reply), (4, of11_message_bsn_virtual_port_remove_request),
     (4, of11_message_nicira_header), (3, of11_message_echo_reply), (2, of11_message_echo_request),
     (5, of11_message_features_request), (8, of11_message_get_config_reply),
     (7, of11_message_get_config_request), (0, of11_message_hello), (10, of11_message_packet_in),
     (16, of11_message_port_mod), (22, of11_message_queue_get_config_request),
     (9, of11_message_set_config), (17, of11_message_table_mod)]"
  "list_all (\<lambda>(k, c). writes_const fL 8 k c)
    [(6035143, of11_message_bsn_set_mirroring), (6035143, of11_message_bsn_set_pktin_suppression_reply),
     (6035143, of11_message_bsn_set_pktin_suppression_request),
     (6035143, of11_message_bsn_virtual_port_create_reply),
     (6035143, of11_message_bsn_virtual_port_remove_reply),
     (6035143, of11_message_bsn_virtual_port_remove_request), (8992, of11_message_nicira_header)]"
  "list_all (\<lambda>(k, c). writes_const fL 12 k c)
    [(3, of11_message_bsn_set_mirroring), (25, of11_message_bsn_set_pktin_suppression_reply),
     (11, of11_message_bsn_set_pktin_suppression_request),
     (16, of11_message_bsn_virtual_port_create_reply), (26, of11_message_bsn_virtual_port_remove_reply),
     (17, of11_message_bsn_virtual_port_remove_request)]"
  by (simp_all add: loxi_formats loxi_eval loxi_checked
    of11_message_bsn_set_mirroring_def of11_message_bsn_set_pktin_suppression_reply_def
    of11_message_bsn_set_pktin_suppression_request_def of11_message_bsn_virtual_port_create_reply_def
    of11_message_bsn_virtual_port_remove_reply_def of11_message_bsn_virtual_port_remove_request_def
    of11_message_nicira_header_def of11_message_echo_reply_def of11_message_echo_request_def
    of11_message_features_request_def of11_message_get_config_reply_def
    of11_message_get_config_request_def of11_message_hello_def of11_message_packet_in_def
    of11_message_port_mod_def of11_message_queue_get_config_request_def of11_message_set_config_def
    of11_message_table_mod_def
    del: One_nat_def)

lemma of11_checked_2 [unfolded list.pred_inject prod.case, loxi_checked]:
  "list_all codec_ok
    [of11_action_bsn, of11_action_nicira, of11_common_bsn_vport, of11_common_group_stats_entry,
     of11_common_queue_prop, of11_message_experimenter_stats_reply, of11_message_port_stats_reply,
     of11_message_queue_stats_reply, of11_message_table_stats_reply, of11_message_aggregate_stats_request,
     of11_message_experimenter_stats_request, of11_message_flow_stats_request, of11_message_error_msg,
     of11_message_bsn_get_interfaces_reply, of11_message_features_reply, of11_message_flow_removed,
     of11_message_port_status]"
  "list_all safe_cls
    [of11_action_bsn, of11_action_nicira, of11_common_bsn_vport, of11_common_group_stats_entry,
     of11_common_queue_prop, of11_message_experimenter_stats_reply, of11_message_port_stats_reply,
     of11_message_queue_stats_reply, of11_message_table_stats_reply, of11_message_aggregate_stats_request,
     of11_message_experimenter_stats_request, of11_message_flow_stats_request, of11_message_error_msg,
     of11_message_bsn_get_interfaces_reply, of11_message_features_reply, of11_message_flow_removed,
     of11_message_port_status]"
  "list_all (\<lambda>c. \<not> needs_align c)
    [of11_action_bsn, of11_action_nicira, of11_common_bsn_vport, of11_common_group_stats_entry,
     of11_common_queue_prop, of11_message_experimenter_stats_reply, of11_message_port_stats_reply,
     of11_message_queue_stats_reply, of11_message_table_stats_reply, of11_message_aggregate_stats_request,
     of11_message_experimenter_stats_request, of11_message_flow_stats_request, of11_message_error_msg,
     of11_message_bsn_get_interfaces_reply, of11_message_features_reply, of11_message_flow_removed,
     of11_message_port_status]"
  "list_all (has_header 2)
    [of11_message_experimenter_stats_reply, of11_message_port_stats_reply, of11_message_queue_stats_reply,
     of11_message_table_stats_reply, of11_message_aggregate_stats_request,
     of11_message_experimenter_stats_request, of11_message_flow_stats_request, of11_message_error_msg,
     of11_message_bsn_get_interfaces_reply, of11_message_features_reply, of11_message_flow_removed,
     of11_message_port_status]"
  "list_all (\<lambda>(k, c). writes_const fH 0 k c)
    [(65535, of11_action_bsn), (65535, of11_action_nicira)]"
  "list_all (\<lambda>(k, c). writes_const fL 4 k c)
    [(6035143, of11_action_bsn), (8992, of11_action_nicira)]"
  "list_all (\<lambda>(k, c). writes_const fB 1 k c)
    [(19, of11_message_experimenter_stats_reply), (19, of11_message_port_stats_reply),
     (19, of11_message_queue_stats_reply), (19, of11_message_table_stats_reply),
     (18, of11_message_aggregate_stats_request), (18, of11_message_experimenter_stats_request),
     (18, of11_message_flow_stats_request), (1, of11_message_error_msg),
     (4, of11_message_bsn_get_interfaces_reply), (6, of11_message_features_reply),
     (11, of11_message_flow_removed), (12, of11_message_port_status)]"
  "list_all (\<lambda>(k, c). writes_const fH 8 k c)
    [(65535, of11_message_experimenter_stats_reply), (4, of11_message_port_stats_reply),
     (5, of11_message_queue_stats_reply), (3, of11_message_table_stats_reply),
     (2, of11_message_aggregate_stats_request), (65535, of11_message_experimenter_stats_request),
     (1, of11_message_flow_stats_request)]"
  "list_all (\<lambda>(k, c). writes_const fL 8 k c)
    [(6035143, of11_message_bsn_get_interfaces_reply)]"
  "list_all (\<lambda>(k, c). writes_const fL 12 k c)
    [(10, of11_message_bsn_get_interfaces_reply)]"
  by (simp_all add: loxi_formats loxi_eval loxi_checked
    of11_action_bsn_def of11_action_nicira_def of11_common_bsn_vport_def
    of11_common_group_stats_entry_def of11_common_queue_prop_def
    of11_message_experimenter_stats_reply_def of11_message_port_stats_reply_def
    of11_message_queue_stats_reply_def of11_message_table_stats_reply_def
    of11_message_aggregate_stats_request_def of11_message_experimenter_stats_request_def
    of11_message_flow_stats_request_def of11_message_error_msg_def
    of11_message_bsn_get_interfaces_reply_def of11_message_features_reply_def
    of11_message_flow_removed_def of11_message_port_status_def
    del: One_nat_def)

lemma of11_checked_3 [unfolded list.pred_inject prod.case, loxi_checked]:
  "list_all codec_ok
    [of11_action_experimenter, of11_common_packet_queue, of11_message_group_stats_reply,
     of11_message_stats_request, of11_message_bsn_virtual_port_create_request]"
  "list_all safe_cls
    [of11_action_experimenter, of11_common_packet_queue, of11_message_group_stats_reply,
     of11_message_stats_request, of11_message_bsn_virtual_port_create_request]"
  "list_all (\<lambda>c. \<not> needs_align c)
    [of11_action_experimenter, of11_common_packet_queue, of11_message_group_stats_reply,
     of11_message_stats_request, of11_message_bsn_virtual_port_create_request]"
  "list_all (has_header 2)
    [of11_message_group_stats_reply, of11_message_stats_request,
     of11_message_bsn_virtual_port_create_request]"
  "list_all (\<lambda>(k, c). writes_const fH 0 k c)
    [(65535, of11_action_experimenter)]"
  "list_all (\<lambda>(k, c). writes_const fB 1 k c)
    [(19, of11_message_group_stats_reply), (18, of11_message_stats_request),
     (4, of11_message_bsn_virtual_port_create_request)]"
  "list_all (\<lambda>(k, c). writes_const fH 8 k c)
    [(6, of11_message_group_stats_reply)]"
  "list_all (\<lambda>(k, c). writes_const fL 8 k c)
    [(6035143, of11_message_bsn_virtual_port_create_request)]"
  "list_all (\<lambda>(k, c). writes_const fL 12 k c)
    [(15, of11_message_bsn_virtual_port_create_request)]"
  by (simp_all add: loxi_formats loxi_eval loxi_checked
    of11_action_experimenter_def of11_common_packet_queue_def of11_message_group_stats_reply_def
    of11_message_stats_request_def of11_message_bsn_virtual_port_create_request_def
    del: One_nat_def)

lemma of11_checked_4 [unfolded list.pred_inject prod.case, loxi_checked]:
  "list_all codec_ok
    [of11_action_action, of11_message_bsn_header, of11_message_queue_get_config_reply]"
  "list_all safe_cls
    [of11_action_action, of11_message_bsn_header, of11_message_queue_get_config_reply]"
  "list_all (\<lambda>c. \<not> needs_align c)
    [of11_action_action, of11_message_bsn_header, of11_message_queue_get_config_reply]"
  "list_all (has_header 2)
    [of11_message_bsn_header, of11_message_queue_get_config_reply]"
  "list_all (\<lambda>(k, c). writes_const fB 1 k c)
    [(4, of11_message_bsn_header), (23, of11_message_queue_get_config_reply)]"
  "list_all (\<lambda>(k, c). writes_const fL 8 k c)
    [(6035143, of11_message_bsn_header)]"
  by (simp_all add: loxi_formats loxi_eval loxi_checked
    of11_action_action_def of11_message_bsn_header_def of11_message_queue_get_config_reply_def
    del: One_nat_def)

lemma of11_checked_5 [unfolded list.pred_inject prod.case, loxi_checked]:
  "list_all codec_ok
    [of11_common_bucket, of11_instruction_apply_actions, of11_instruction_write_actions,
     of11_message_experimenter, of11_message_packet_out]"
  "list_all safe_cls
    [of11_common_bucket, of11_instruction_apply_actions, of11_instruction_write_actions,
     of11_message_experimenter, of11_message_packet_out]"
  "list_all (\<lambda>c. \<not> needs_align c)
    [of11_common_bucket, of11_instruction_apply_actions, of11_instruction_write_actions,
     of11_message_experimenter, of11_message_packet_out]"
  "list_all (has_header 2)
    [of11_message_experimenter, of11_message_packet_out]"
  "list_all (\<lambda>(k, c). writes_const fH 0 k c)
    [(4, of11_instruction_apply_actions), (3, of11_instruction_write_actions)]"
  "list_all (\<lambda>(k, c). writes_const fB 1 k c)
    [(4, of11_message_experimenter), (13, of11_message_packet_out)]"
  by (simp_all add: loxi_formats loxi_eval loxi_checked
    of11_common_bucket_def of11_instruction_apply_actions_def of11_instruction_write_actions_def
    of11_message_experimenter_def of11_message_packet_out_def
    del: One_nat_def)

lemma of11_checked_6 [unfolded list.pred_inject prod.case, loxi_checked]:
  "list_all codec_ok
    [of11_instruction_instruction, of11_common_group_desc_stats_entry, of11_message_group_add,
     of11_message_group_delete, of11_message_group_modify]"
  "list_all safe_cls
    [of11_instruction_instruction, of11_common_group_desc_stats_entry, of11_message_group_add,
     of11_message_group_delete, of11_message_group_modify]"
  "list_all (\<lambda>c. \<not> needs_align c)
    [of11_instruction_instruction, of11_common_group_desc_stats_entry, of11_message_group_add,
     of11_message_group_delete, of11_message_group_modify]"
  "list_all (has_header 2)
    [of11_message_group_add, of11_message_group_delete, of11_message_group_modify]"
  "list_all (\<lambda>(k, c). writes_const fB 1 k c)
    [(15, of11_message_group_add), (15, of11_message_group_delete), (15, of11_message_group_modify)]"
  "list_all (\<lambda>(k, c). writes_const fH 8 k c)
    [(0, of11_message_group_add), (2, of11_message_group_delete), (1, of11_message_group_modify)]"
  by (simp_all add: loxi_formats loxi_eval loxi_checked
    of11_instruction_instruction_def of11_common_group_desc_stats_entry_def of11_message_group_add_def
    of11_message_group_delete_def of11_message_group_modify_def
    del: One_nat_def)

lemma of11_checked_7 [unfolded list.pred_inject prod.case, loxi_checked]:
  "list_all codec_ok
    [of11_common_flow_stats_entry, of11_message_group_desc_stats_reply, of11_message_flow_add,
     of11_message_flow_delete, of11_message_flow_delete_strict, of11_message_flow_modify,
     of11_message_flow_modify_strict, of11_message_group_mod]"
  "list_all safe_cls
    [of11_common_flow_stats_entry, of11_message_group_desc_stats_reply, of11_message_flow_add,
     of11_message_flow_delete, of11_message_flow_delete_strict, of11_message_flow_modify,
     of11_message_flow_modify_strict, of11_message_group_mod]"
  "list_all (\<lambda>c. \<not> needs_align c)
    [of11_common_flow_stats_entry, of11_message_group_desc_stats_reply, of11_message_flow_add,
     of11_message_flow_delete, of11_message_flow_delete_strict, of11_message_flow_modify,
     of11_message_flow_modify_strict, of11_message_group_mod]"
  "list_all (has_header 2)
    [of11_message_group_desc_stats_reply, of11_message_flow_add, of11_message_flow_delete,
     of11_message_flow_delete_strict, of11_message_flow_modify, of11_message_flow_modify_strict,
     of11_message_group_mod]"
  "list_all (\<lambda>(k, c). writes_const fB 1 k c)
    [(19, of11_message_group_desc_stats_reply), (14, of11_message_flow_add),
     (14, of11_message_flow_delete), (14, of11_message_flow_delete_strict), (14, of11_message_flow_modify),
     (14, of11_message_flow_modify_strict), (15, of11_message_group_mod)]"
  "list_all (\<lambda>(k, c). writes_const fH 8 k c)
    [(7, of11_message_group_desc_stats_reply)]"
  "list_all (\<lambda>(k, c). writes_const fB 25 k c)
    [(0, of11_message_flow_add), (3, of11_message_flow_delete), (4, of11_message_flow_delete_strict),
     (1, of11_message_flow_modify), (2, of11_message_flow_modify_strict)]"
  by (simp_all add: loxi_formats loxi_eval loxi_checked
    of11_common_flow_stats_entry_def of11_message_group_desc_stats_reply_def of11_message_flow_add_def
    of11_message_flow_delete_def of11_message_flow_delete_strict_def of11_message_flow_modify_def
    of11_message_flow_modify_strict_def of11_message_group_mod_def
    del: One_nat_def)

lemma of11_checked_8 [unfolded list.pred_inject prod.case, loxi_checked]:
  "list_all codec_ok
    [of11_message_flow_stats_reply, of11_message_flow_mod]"
  "list_all safe_cls
    [of11_message_flow_stats_reply, of11_message_flow_mod]"
  "list_all (\<lambda>c. \<not> needs_align c)
    [of11_message_flow_stats_reply, of11_message_flow_mod]"
  "list_all (has_header 2)
    [of11_message_flow_stats_reply, of11_message_flow_mod]"
  "list_all (\<lambda>(k, c). writes_const fB 1 k c)
    [(19, of11_message_flow_stats_reply), (14, of11_message_flow_mod)]"
  "list_all (\<lambda>(k, c). writes_const fH 8 k c)
    [(1, of11_message_flow_stats_reply)]"
  by (simp_all add: loxi_formats loxi_eval loxi_checked
    of11_message_flow_stats_reply_def of11_message_flow_mod_def
    del: One_nat_def)

lemma of11_checked_9 [unfolded list.pred_inject prod.case, loxi_checked]:
  "list_all codec_ok
    [of11_message_stats_reply]"
  "list_all safe_cls
    [of11_message_stats_reply]"
  "list_all (\<lambda>c. \<not> needs_align c)
    [of11_message_stats_reply]"
  "list_all (has_header 2)
    [of11_message_stats_reply]"
  "list_all (\<lambda>(k, c). writes_const fB 1 k c)
    [(19, of11_message_stats_reply)]"
  by (simp_all add: loxi_formats loxi_eval loxi_checked
    of11_message_stats_reply_def
    del: One_nat_def)

lemma of11_checked_10 [unfolded list.pred_inject prod.case, loxi_checked]:
  "list_all codec_ok
    [of11_message_message]"
  "list_all safe_cls
    [of11_message_message]"
  "list_all (\<lambda>c. \<not> needs_align c)
    [of11_message_message]"
  "list_all (has_header 2)
    [of11_message_message]"
  by (simp_all add: loxi_formats loxi_eval loxi_checked
    of11_message_message_def
    del: One_nat_def)

end
