(* ===== verification/Of12Oxm.thy ===== *)
theory Of12Oxm
  imports LoxiHeader
begin

text \<open>
  OpenFlow 1.2: the 119 classes of \<^verbatim>\<open>oxm.py\<close>
  under \<^verbatim>\<open>src/ofagent/loxi/of12\<close>, and the check that \<^verbatim>\<open>unpack\<close> of each class
  reads what its \<^verbatim>\<open>pack\<close> writes.
\<close>

section \<open>Formats of util.py\<close>

definition of12_port_no :: fmt where
  [loxi_formats]: "of12_port_no = fL"

definition of12_fm_cmd :: fmt where
  [loxi_formats]: "of12_fm_cmd = fB"

definition of12_wc_bmap :: fmt where
  [loxi_formats]: "of12_wc_bmap = fQ"

definition of12_match_bmap :: fmt where
  [loxi_formats]: "of12_match_bmap = fQ"


section \<open>Classes\<close>

definition of12_oxm_arp_op :: cls where
  "of12_oxm_arp_op =
     Cls ''arp_op'' [(nm_type_len, 2147494402)]
       [(nm_value, D_num 0)]
       [P_field nm_type_len fL, P_field nm_value fH]
       None
       [U_local nm__type_len fL, U_assert nm__type_len 2147494402, U_field nm_value fH]
       [nm_value]"

definition of12_oxm_arp_op_masked :: cls where
  "of12_oxm_arp_op_masked =
     Cls ''arp_op_masked'' [(nm_type_len, 2147494660)]
       [(nm_value, D_num 0), (nm_value_mask, D_num 0)]
       [P_field nm_type_len fL, P_field nm_value fH, P_field nm_value_mask fH]
       None
       [U_local nm__type_len fL, U_assert nm__type_len 2147494660, U_field nm_value fH,
        U_field nm_value_mask fH]
       [nm_value, nm_value_mask]"

definition of12_oxm_arp_sha :: cls where
  "of12_oxm_arp_sha =
     Cls ''arp_sha'' [(nm_type_len, 2147495942)]
       [(nm_value, D_nums [0,0,0,0,0,0])]
       [P_field nm_type_len fL, P_field nm_value f6B]
       None
       [U_local nm__type_len fL, U_assert nm__type_len 2147495942, U_field nm_value f6B]
       [nm_value]"

definition of12_oxm_arp_sha_masked :: cls where
  "of12_oxm_arp_sha_masked =
     Cls ''arp_sha_masked'' [(nm_type_len, 2147496204)]
       [(nm_value, D_nums [0,0,0,0,0,0]), (nm_value_mask, D_nums [0,0,0,0,0,0])]
       [P_field nm_type_len fL, P_field nm_value f6B, P_field nm_value_mask f6B]
       None
       [U_local nm__type_len fL, U_assert nm__type_len 2147496204, U_field nm_value f6B,
        U_field nm_value_mask f6B]
       [nm_value, nm_value_mask]"

definition of12_oxm_arp_spa :: cls where
  "of12_oxm_arp_spa =
     Cls ''arp_spa'' [(nm_type_len, 2147494916)]
       [(nm_value, D_num 0)]
       [P_field nm_type_len fL, P_field nm_value fL]
       None
       [U_local nm__type_len fL, U_assert nm__type_len 2147494916, U_field nm_value fL]
       [nm_value]"

definition of12_oxm_arp_spa_masked :: cls where
  "of12_oxm_arp_spa_masked =
     Cls ''arp_spa_masked'' [(nm_type_len, 2147495176)]
       [(nm_value, D_num 0), (nm_value_mask, D_num 0)]
       [P_field nm_type_len fL, P_field nm_value fL, P_field nm_value_mask fL]
       None
       [U_local nm__type_len fL, U_assert nm__type_len 2147495176, U_field nm_value fL,
        U_field nm_value_mask fL]
       [nm_value, nm_value_mask]"

definition of12_oxm_arp_tha :: cls where
  "of12_oxm_arp_tha =
     Cls ''arp_tha'' [(nm_type_len, 2147496454)]
       [(nm_value, D_nums [0,0,0,0,0,0])]
       [P_field nm_type_len fL, P_field nm_value f6B]
       None
       [U_local nm__type_len fL, U_assert nm__type_len 2147496454, U_field nm_value f6B]
       [nm_value]"

definition of12_oxm_arp_tha_masked :: cls where
  "of12_oxm_arp_tha_masked =
     Cls ''arp_tha_masked'' [(nm_type_len, 2147496716)]
       [(nm_value, D_nums [0,0,0,0,0,0]), (nm_value_mask, D_nums [0,0,0,0,0,0])]
       [P_field nm_type_len fL, P_field nm_value f6B, P_field nm_value_mask f6B]
       None
       [U_local nm__type_len fL, U_assert nm__type_len 2147496716, U_field nm_value f6B,
        U_field nm_value_mask f6B]
       [nm_value, nm_value_mask]"

definition of12_oxm_arp_tpa :: cls where
  "of12_oxm_arp_tpa =
     Cls ''arp_tpa'' [(nm_type_len, 2147495428)]
       [(nm_value, D_num 0)]
       [P_field nm_type_len fL, P_field nm_value fL]
       None
       [U_local nm__type_len fL, U_assert nm__type_len 2147495428, U_field nm_value fL]
       [nm_value]"

definition of12_oxm_arp_tpa_masked :: cls where
  "of12_oxm_arp_tpa_masked =
     Cls ''arp_tpa_masked'' [(nm_type_len, 2147495688)]
       [(nm_value, D_num 0), (nm_value_mask, D_num 0)]
       [P_field nm_type_len fL, P_field nm_value fL, P_field nm_value_mask fL]
       None
       [U_local nm__type_len fL, U_assert nm__type_len 2147495688, U_field nm_value fL,
        U_field nm_value_mask fL]
       [nm_value, nm_value_mask]"

definition of12_oxm_bsn_egr_port_group_id :: cls where
  "of12_oxm_bsn_egr_port_group_id =
     Cls ''bsn_egr_port_group_id'' [(nm_type_len, 200196)]
       [(nm_value, D_num 0)]
       [P_field nm_type_len fL, P_field nm_value fL]
       None
       [U_local nm__type_len fL, U_assert nm__type_len 200196, U_field nm_value fL]
       [nm_value]"

definition of12_oxm_bsn_egr_port_group_id_masked :: cls where
  "of12_oxm_bsn_egr_port_group_id_masked =
     Cls ''bsn_egr_port_group_id_masked'' [(nm_type_len, 200456)]
       [(nm_value, D_num 0), (nm_value_mask, D_num 0)]
       [P_field nm_type_len fL, P_field nm_value fL, P_field nm_value_mask fL]
       None
       [U_local nm__type_len fL, U_assert nm__type_len 200456, U_field nm_value fL,
        U_field nm_value_mask fL]
       [nm_value, nm_value_mask]"

definition of12_oxm_bsn_global_vrf_allowed :: cls where
  "of12_oxm_bsn_global_vrf_allowed =
     Cls ''bsn_global_vrf_allowed'' [(nm_type_len, 198145)]
       [(nm_value, D_num 0)]
       [P_field nm_type_len fL, P_field nm_value fB]
       None
       [U_local nm__type_len fL, U_assert nm__type_len 198145, U_field nm_value fB]
       [nm_value]"

definition of12_oxm_bsn_global_vrf_allowed_masked :: cls where
  "of12_oxm_bsn_global_vrf_allowed_masked =
     Cls ''bsn_global_vrf_allowed_masked'' [(nm_type_len, 198402)]
       [(nm_value, D_num 0), (nm_value_mask, D_num 0)]
       [P_field nm_type_len fL, P_field nm_value fB, P_field nm_value_mask fB]
       None
       [U_local nm__type_len fL, U_assert nm__type_len 198402, U_field nm_value fB,
        U_field nm_value_mask fB]
       [nm_value, nm_value_mask]"

definition of12_oxm_bsn_in_ports_128 :: cls where
  "of12_oxm_bsn_in_ports_128 =
     Cls ''bsn_in_ports_128'' [(nm_type_len, 196624)]
       [(nm_value, D_set)]
       [P_field nm_type_len fL, P_field nm_value fBitmap_128]
       None
       [U_local nm__type_len fL, U_assert nm__type_len 196624, U_field nm_value fBitmap_128]
       [nm_value]"

definition of12_oxm_bsn_in_ports_128_masked :: cls where
  "of12_oxm_bsn_in_ports_128_masked =
     Cls ''bsn_in_ports_128_masked'' [(nm_type_len, 196896)]
       [(nm_value, D_set), (nm_value_mask, D_set)]
       [P_field nm_type_len fL, P_field nm_value fBitmap_128, P_field nm_value_mask fBitmap_128]
       None
       [U_local nm__type_len fL, U_assert nm__type_len 196896, U_field nm_value fBitmap_128,
        U_field nm_value_mask fBitmap_128]
       [nm_value, nm_value_mask]"

definition of12_oxm_bsn_in_ports_512 :: cls where
  "of12_oxm_bsn_in_ports_512 =
     Cls ''bsn_in_ports_512'' [(nm_type_len, 206400)]
       [(nm_value, D_set)]
       [P_field nm_type_len fL, P_field nm_value fBitmap_512]
       None
       [U_local nm__type_len fL, U_assert nm__type_len 206400, U_field nm_value fBitmap_512]
       [nm_value]"

definition of12_oxm_bsn_in_ports_512_masked :: cls where
  "of12_oxm_bsn_in_ports_512_masked =
     Cls ''bsn_in_ports_512_masked'' [(nm_type_len, 206720)]
       [(nm_value, D_set), (nm_value_mask, D_set)]
       [P_field nm_type_len fL, P_field nm_value fBitmap_512, P_field nm_value_mask fBitmap_512]
       None
       [U_local nm__type_len fL, U_assert nm__type_len 206720, U_field nm_value fBitmap_512,
        U_field nm_value_mask fBitmap_512]
       [nm_value, nm_value_mask]"

definition of12_oxm_bsn_ingress_port_group_id :: cls where
  "of12_oxm_bsn_ingress_port_group_id =
     Cls ''bsn_ingress_port_group_id'' [(nm_type_len, 206852)]
       [(nm_value, D_num 0)]
       [P_field nm_type_len fL, P_field nm_value fL]
       None
       [U_local nm__type_len fL, U_assert nm__type_len 206852, U_field nm_value fL]
       [nm_value]"

definition of12_oxm_bsn_ingress_port_group_id_masked :: cls where
  "of12_oxm_bsn_ingress_port_group_id_masked =
     Cls ''bsn_ingress_port_group_id_masked'' [(nm_type_len, 207112)]
       [(nm_value, D_num 0), (nm_value_mask, D_num 0)]
       [P_field nm_type_len fL, P_field nm_value fL, P_field nm_value_mask fL]
       None
       [U_local nm__type_len fL, U_assert nm__type_len 207112, U_field nm_value fL,
        U_field nm_value_mask fL]
       [nm_value, nm_value_mask]"

definition of12_oxm_bsn_l2_cache_hit :: cls where
  "of12_oxm_bsn_l2_cache_hit =
     Cls ''bsn_l2_cache_hit'' [(nm_type_len, 205825)]
       [(nm_value, D_num 0)]
       [P_field nm_type_len fL, P_field nm_value fB]
       None
       [U_local nm__type_len fL, U_assert nm__type_len 205825, U_field nm_value fB]
       [nm_value]"

definition of12_oxm_bsn_l2_cache_hit_masked :: cls where
  "of12_oxm_bsn_l2_cache_hit_masked =
     Cls ''bsn_l2_cache_hit_masked'' [(nm_type_len, 206082)]
       [(nm_value, D_num 0), (nm_value_mask, D_num 0)]
       [P_field nm_type_len fL, P_field nm_value fB, P_field nm_value_mask fB]
       None
       [U_local nm__type_len fL, U_assert nm__type_len 206082, U_field nm_value fB,
        U_field nm_value_mask fB]
       [nm_value, nm_value_mask]"

definition of12_oxm_bsn_l3_dst_class_id :: cls where
  "of12_oxm_bsn_l3_dst_class_id =
     Cls ''bsn_l3_dst_class_id'' [(nm_type_len, 199684)]
       [(nm_value, D_num 0)]
       [P_field nm_type_len fL, P_field nm_value fL]
       None
       [U_local nm__type_len fL, U_assert nm__type_len 199684, U_field nm_value fL]
       [nm_value]"

definition of12_oxm_bsn_l3_dst_class_id_masked :: cls where
  "of12_oxm_bsn_l3_dst_class_id_masked =
     Cls ''bsn_l3_dst_class_id_masked'' [(nm_type_len, 199944)]
       [(nm_value, D_num 0), (nm_value_mask, D_num 0)]
       [P_field nm_type_len fL, P_field nm_value fL, P_field nm_value_mask fL]
       None
       [U_local nm__type_len fL, U_assert nm__type_len 199944, U_field nm_value fL,
        U_field nm_value_mask fL]
       [nm_value, nm_value_mask]"

definition of12_oxm_bsn_l3_interface_class_id :: cls where
  "of12_oxm_bsn_l3_interface_class_id =
     Cls ''bsn_l3_interface_class_id'' [(nm_type_len, 198660)]
       [(nm_value, D_num 0)]
       [P_field nm_type_len fL, P_field nm_value fL]
       None
       [U_local nm__type_len fL, U_assert nm__type_len 198660, U_field nm_value fL]
       [nm_value]"

definition of12_oxm_bsn_l3_interface_class_id_masked :: cls where
  "of12_oxm_bsn_l3_interface_class_id_masked =
     Cls ''bsn_l3_interface_class_id_masked'' [(nm_type_len, 198920)]
       [(nm_value, D_num 0), (nm_value_mask, D_num 0)]
       [P_field nm_type_len fL, P_field nm_value fL, P_field nm_value_mask fL]
       None
       [U_local nm__type_len fL, U_assert nm__type_len 198920, U_field nm_value fL,
        U_field nm_value_mask fL]
       [nm_value, nm_value_mask]"

definition of12_oxm_bsn_l3_src_class_id :: cls where
  "of12_oxm_bsn_l3_src_class_id =
     Cls ''bsn_l3_src_class_id'' [(nm_type_len, 199172)]
       [(nm_value, D_num 0)]
       [P_field nm_type_len fL, P_field nm_value fL]
       None
       [U_local nm__type_len fL, U_assert nm__type_len 199172, U_field nm_value fL]
       [nm_value]"

definition of12_oxm_bsn_l3_src_class_id_masked :: cls where
  "of12_oxm_bsn_l3_src_class_id_masked =
     Cls ''bsn_l3_src_class_id_masked'' [(nm_type_len, 199432)]
       [(nm_value, D_num 0), (nm_value_mask, D_num 0)]
       [P_field nm_type_len fL, P_field nm_value fL, P_field nm_value_mask fL]
       None
       [U_local nm__type_len fL, U_assert nm__type_len 199432, U_field nm_value fL,
        U_field nm_value_mask fL]
       [nm_value, nm_value_mask]"

definition of12_oxm_bsn_lag_id :: cls where
  "of12_oxm_bsn_lag_id =
     Cls ''bsn_lag_id'' [(nm_type_len, 197124)]
       [(nm_value, D_num 0)]
       [P_field nm_type_len fL, P_field nm_value fL]
       None
       [U_local nm__type_len fL, U_assert nm__type_len 197124, U_field nm_value fL]
       [nm_value]"

definition of12_oxm_bsn_lag_id_masked :: cls where
  "of12_oxm_bsn_lag_id_masked =
     Cls ''bsn_lag_id_masked'' [(nm_type_len, 197384)]
       [(nm_value, D_num 0), (nm_value_mask, D_num 0)]
       [P_field nm_type_len fL, P_field nm_value fL, P_field nm_value_mask fL]
       None
       [U_local nm__type_len fL, U_assert nm__type_len 197384, U_field nm_value fL,
        U_field nm_value_mask fL]
       [nm_value, nm_value_mask]"

definition of12_oxm_bsn_tcp_flags :: cls where
  "of12_oxm_bsn_tcp_flags =
     Cls ''bsn_tcp_flags'' [(nm_type_len, 204802)]
       [(nm_value, D_num 0)]
       [P_field nm_type_len fL, P_field nm_value fH]
       None
       [U_local nm__type_len fL, U_assert nm__type_len 204802, U_field nm_value fH]
       [nm_value]"

definition of12_oxm_bsn_tcp_flags_masked :: cls where
  "of12_oxm_bsn_tcp_flags_masked =
     Cls ''bsn_tcp_flags_masked'' [(nm_type_len, 205060)]
       [(nm_value, D_num 0), (nm_value_mask, D_num 0)]
       [P_field nm_type_len fL, P_field nm_value fH, P_field nm_value_mask fH]
       None
       [U_local nm__type_len fL, U_assert nm__type_len 205060, U_field nm_value fH,
        U_field nm_value_mask fH]
       [nm_value, nm_value_mask]"

definition of12_oxm_bsn_udf0 :: cls where
  "of12_oxm_bsn_udf0 =
     Cls ''bsn_udf0'' [(nm_type_len, 200708)]
       [(nm_value, D_num 0)]
       [P_field nm_type_len fL, P_field nm_value fL]
       None
       [U_local nm__type_len fL, U_assert nm__type_len 200708, U_field nm_value fL]
       [nm_value]"

definition of12_oxm_bsn_udf0_masked :: cls where
  "of12_oxm_bsn_udf0_masked =
     Cls ''bsn_udf0_masked'' [(nm_type_len, 200968)]
       [(nm_value, D_num 0), (nm_value_mask, D_num 0)]
       [P_field nm_type_len fL, P_field nm_value fL, P_field nm_value_mask fL]
       None
       [U_local nm__type_len fL, U_assert nm__type_len 200968, U_field nm_value fL,
        U_field nm_value_mask fL]
       [nm_value, nm_value_mask]"

definition of12_oxm_bsn_udf1 :: cls where
  "of12_oxm_bsn_udf1 =
     Cls ''bsn_udf1'' [(nm_type_len, 201220)]
       [(nm_value, D_num 0)]
       [P_field nm_type_len fL, P_field nm_value fL]
       None
       [U_local nm__type_len fL, U_assert nm__type_len 201220, U_field nm_value fL]
       [nm_value]"

definition of12_oxm_bsn_udf1_masked :: cls where
  "of12_oxm_bsn_udf1_masked =
     Cls ''bsn_udf1_masked'' [(nm_type_len, 201480)]
       [(nm_value, D_num 0), (nm_value_mask, D_num 0)]
       [P_field nm_type_len fL, P_field nm_value fL, P_field nm_value_mask fL]
       None
       [U_local nm__type_len fL, U_assert nm__type_len 201480, U_field nm_value fL,
        U_field nm_value_mask fL]
       [nm_value, nm_value_mask]"

definition of12_oxm_bsn_udf2 :: cls where
  "of12_oxm_bsn_udf2 =
     Cls ''bsn_udf2'' [(nm_type_len, 201732)]
       [(nm_value, D_num 0)]
       [P_field nm_type_len fL, P_field nm_value fL]
       None
       [U_local nm__type_len fL, U_assert nm__type_len 201732, U_field nm_value fL]
       [nm_value]"

definition of12_oxm_bsn_udf2_masked :: cls where
  "of12_oxm_bsn_udf2_masked =
     Cls ''bsn_udf2_masked'' [(nm_type_len, 201992)]
       [(nm_value, D_num 0), (nm_value_mask, D_num 0)]
       [P_field nm_type_len fL, P_field nm_value fL, P_field nm_value_mask fL]
       None
       [U_local nm__type_len fL, U_assert nm__type_len 201992, U_field nm_value fL,
        U_field nm_value_mask fL]
       [nm_value, nm_value_mask]"

definition of12_oxm_bsn_udf3 :: cls where
  "of12_oxm_bsn_udf3 =
     Cls ''bsn_udf3'' [(nm_type_len, 202244)]
       [(nm_value, D_num 0)]
       [P_field nm_type_len fL, P_field nm_value fL]
       None
       [U_local nm__type_len fL, U_assert nm__type_len 202244, U_field nm_value fL]
       [nm_value]"

definition of12_oxm_bsn_udf3_masked :: cls where
  "of12_oxm_bsn_udf3_masked =
     Cls ''bsn_udf3_masked'' [(nm_type_len, 202504)]
       [(nm_value, D_num 0), (nm_value_mask, D_num 0)]
       [P_field nm_type_len fL, P_field nm_value fL, P_field nm_value_mask fL]
       None
       [U_local nm__type_len fL, U_assert nm__type_len 202504, U_field nm_value fL,
        U_field nm_value_mask fL]
       [nm_value, nm_value_mask]"

definition of12_oxm_bsn_udf4 :: cls where
  "of12_oxm_bsn_udf4 =
     Cls ''bsn_udf4'' [(nm_type_len, 202756)]
       [(nm_value, D_num 0)]
       [P_field nm_type_len fL, P_field nm_value fL]
       None
       [U_local nm__type_len fL, U_assert nm__type_len 202756, U_field nm_value fL]
       [nm_value]"

definition of12_oxm_bsn_udf4_masked :: cls where
  "of12_oxm_bsn_udf4_masked =
     Cls ''bsn_udf4_masked'' [(nm_type_len, 203016)]
       [(nm_value, D_num 0), (nm_value_mask, D_num 0)]
       [P_field nm_type_len fL, P_field nm_value fL, P_field nm_value_mask fL]
       None
       [U_local nm__type_len fL, U_assert nm__type_len 203016, U_field nm_value fL,
        U_field nm_value_mask fL]
       [nm_value, nm_value_mask]"

definition of12_oxm_bsn_udf5 :: cls where
  "of12_oxm_bsn_udf5 =
     Cls ''bsn_udf5'' [(nm_type_len, 203268)]
       [(nm_value, D_num 0)]
       [P_field nm_type_len fL, P_field nm_value fL]
       None
       [U_local nm__type_len fL, U_assert nm__type_len 203268, U_field nm_value fL]
       [nm_value]"

definition of12_oxm_bsn_udf5_masked :: cls where
  "of12_oxm_bsn_udf5_masked =
     Cls ''bsn_udf5_masked'' [(nm_type_len, 203528)]
       [(nm_value, D_num 0), (nm_value_mask, D_num 0)]
       [P_field nm_type_len fL, P_field nm_value fL, P_field nm_value_mask fL]
       None
       [U_local nm__type_len fL, U_assert nm__type_len 203528, U_field nm_value fL,
        U_field nm_value_mask fL]
       [nm_value, nm_value_mask]"

definition of12_oxm_bsn_udf6 :: cls where
  "of12_oxm_bsn_udf6 =
     Cls ''bsn_udf6'' [(nm_type_len, 203780)]
       [(nm_value, D_num 0)]
       [P_field nm_type_len fL, P_field nm_value fL]
       None
       [U_local nm__type_len fL, U_assert nm__type_len 203780, U_field nm_value fL]
       [nm_value]"

definition of12_oxm_bsn_udf6_masked :: cls where
  "of12_oxm_bsn_udf6_masked =
     Cls ''bsn_udf6_masked'' [(nm_type_len, 204040)]
       [(nm_value, D_num 0), (nm_value_mask, D_num 0)]
       [P_field nm_type_len fL, P_field nm_value fL, P_field nm_value_mask fL]
       None
       [U_local nm__type_len fL, U_assert nm__type_len 204040, U_field nm_value fL,
        U_field nm_value_mask fL]
       [nm_value, nm_value_mask]"

definition of12_oxm_bsn_udf7 :: cls where
  "of12_oxm_bsn_udf7 =
     Cls ''bsn_udf7'' [(nm_type_len, 204292)]
       [(nm_value, D_num 0)]
       [P_field nm_type_len fL, P_field nm_value fL]
       None
       [U_local nm__type_len fL, U_assert nm__type_len 204292, U_field nm_value fL]
       [nm_value]"

definition of12_oxm_bsn_udf7_masked :: cls where
  "of12_oxm_bsn_udf7_masked =
     Cls ''bsn_udf7_masked'' [(nm_type_len, 204552)]
       [(nm_value, D_num 0), (nm_value_mask, D_num 0)]
       [P_field nm_type_len fL, P_field nm_value fL, P_field nm_value_mask fL]
       None
       [U_local nm__type_len fL, U_assert nm__type_len 204552, U_field nm_value fL,
        U_field nm_value_mask fL]
       [nm_value, nm_value_mask]"

definition of12_oxm_bsn_vlan_xlate_port_group_id :: cls where
  "of12_oxm_bsn_vlan_xlate_port_group_id =
     Cls ''bsn_vlan_xlate_port_group_id'' [(nm_type_len, 205316)]
       [(nm_value, D_num 0)]
       [P_field nm_type_len fL, P_field nm_value fL]
       None
       [U_local nm__type_len fL, U_assert nm__type_len 205316, U_field nm_value fL]
       [nm_value]"

definition of12_oxm_bsn_vlan_xlate_port_group_id_masked :: cls where
  "of12_oxm_bsn_vlan_xlate_port_group_id_masked =
     Cls ''bsn_vlan_xlate_port_group_id_masked'' [(nm_type_len, 205576)]
       [(nm_value, D_num 0), (nm_value_mask, D_num 0)]
       [P_field nm_type_len fL, P_field nm_value fL, P_field nm_value_mask fL]
       None
       [U_local nm__type_len fL, U_assert nm__type_len 205576, U_field nm_value fL,
        U_field nm_value_mask fL]
       [nm_value, nm_value_mask]"

definition of12_oxm_bsn_vrf :: cls where
  "of12_oxm_bsn_vrf =
     Cls ''bsn_vrf'' [(nm_type_len, 197636)]
       [(nm_value, D_num 0)]
       [P_field nm_type_len fL, P_field nm_value fL]
       None
       [U_local nm__type_len fL, U_assert nm__type_len 197636, U_field nm_value fL]
       [nm_value]"

definition of12_oxm_bsn_vrf_masked :: cls where
  "of12_oxm_bsn_vrf_masked =
     Cls ''bsn_vrf_masked'' [(nm_type_len, 197896)]
       [(nm_value, D_num 0), (nm_value_mask, D_num 0)]
       [P_field nm_type_len fL, P_field nm_value fL, P_field nm_value_mask fL]
       None
       [U_local nm__type_len fL, U_assert nm__type_len 197896, U_field nm_value fL,
        U_field nm_value_mask fL]
       [nm_value, nm_value_mask]"

definition of12_oxm_eth_dst :: cls where
  "of12_oxm_eth_dst =
     Cls ''eth_dst'' [(nm_type_len, 2147485190)]
       [(nm_value, D_nums [0,0,0,0,0,0])]
       [P_field nm_type_len fL, P_field nm_value f6B]
       None
       [U_local nm__type_len fL, U_assert nm__type_len 2147485190, U_field nm_value f6B]
       [nm_value]"

definition of12_oxm_eth_dst_masked :: cls where
  "of12_oxm_eth_dst_masked =
     Cls ''eth_dst_masked'' [(nm_type_len, 2147485452)]
       [(nm_value, D_nums [0,0,0,0,0,0]), (nm_value_mask, D_nums [0,0,0,0,0,0])]
       [P_field nm_type_len fL, P_field nm_value f6B, P_field nm_value_mask f6B]
       None
       [U_local nm__type_len fL, U_assert nm__type_len 2147485452, U_field nm_value f6B,
        U_field nm_value_mask f6B]
       [nm_value, nm_value_mask]"

definition of12_oxm_eth_src :: cls where
  "of12_oxm_eth_src =
     Cls ''eth_src'' [(nm_type_len, 2147485702)]
       [(nm_value, D_nums [0,0,0,0,0,0])]
       [P_field nm_type_len fL, P_field nm_value f6B]
       None
       [U_local nm__type_len fL, U_assert nm__type_len 2147485702, U_field nm_value f6B]
       [nm_value]"

definition of12_oxm_eth_src_masked :: cls where
  "of12_oxm_eth_src_masked =
     Cls ''eth_src_masked'' [(nm_type_len, 2147485964)]
       [(nm_value, D_nums [0,0,0,0,0,0]), (nm_value_mask, D_nums [0,0,0,0,0,0])]
       [P_field nm_type_len fL, P_field nm_value f6B, P_field nm_value_mask f6B]
       None
       [U_local nm__type_len fL, U_assert nm__type_len 2147485964, U_field nm_value f6B,
        U_field nm_value_mask f6B]
       [nm_value, nm_value_mask]"

definition of12_oxm_eth_type :: cls where
  "of12_oxm_eth_type =
     Cls ''eth_type'' [(nm_type_len, 2147486210)]
       [(nm_value, D_num 0)]
       [P_field nm_type_len fL, P_field nm_value fH]
       None
       [U_local nm__type_len fL, U_assert nm__type_len 2147486210, U_field nm_value fH]
       [nm_value]"

definition of12_oxm_eth_type_masked :: cls where
  "of12_oxm_eth_type_masked =
     Cls ''eth_type_masked'' [(nm_type_len, 2147486468)]
       [(nm_value, D_num 0), (nm_value_mask, D_num 0)]
       [P_field nm_type_len fL, P_field nm_value fH, P_field nm_value_mask fH]
       None
       [U_local nm__type_len fL, U_assert nm__type_len 2147486468, U_field nm_value fH,
        U_field nm_value_mask fH]
       [nm_value, nm_value_mask]"

definition of12_oxm_icmpv4_code :: cls where
  "of12_oxm_icmpv4_code =
     Cls ''icmpv4_code'' [(nm_type_len, 2147493889)]
       [(nm_value, D_num 0)]
       [P_field nm_type_len fL, P_field nm_value fB]
       None
       [U_local nm__type_len fL, U_assert nm__type_len 2147493889, U_field nm_value fB]
       [nm_value]"

definition of12_oxm_icmpv4_code_masked :: cls where
  "of12_oxm_icmpv4_code_masked =
     Cls ''icmpv4_code_masked'' [(nm_type_len, 2147494146)]
       [(nm_value, D_num 0), (nm_value_mask, D_num 0)]
       [P_field nm_type_len fL, P_field nm_value fB, P_field nm_value_mask fB]
       None
       [U_local nm__type_len fL, U_assert nm__type_len 2147494146, U_field nm_value fB,
        U_field nm_value_mask fB]
       [nm_value, nm_value_mask]"

definition of12_oxm_icmpv4_type :: cls where
  "of12_oxm_icmpv4_type =
     Cls ''icmpv4_type'' [(nm_type_len, 2147493377)]
       [(nm_value, D_num 0)]
       [P_field nm_type_len fL, P_field nm_value fB]
       None
       [U_local nm__type_len fL, U_assert nm__type_len 2147493377, U_field nm_value fB]
       [nm_value]"

definition of12_oxm_icmpv4_type_masked :: cls where
  "of12_oxm_icmpv4_type_masked =
     Cls ''icmpv4_type_masked'' [(nm_type_len, 2147493634)]
       [(nm_value, D_num 0), (nm_value_mask, D_num 0)]
       [P_field nm_type_len fL, P_field nm_value fB, P_field nm_value_mask fB]
       None
       [U_local nm__type_len fL, U_assert nm__type_len 2147493634, U_field nm_value fB,
        U_field nm_value_mask fB]
       [nm_value, nm_value_mask]"

definition of12_oxm_icmpv6_code :: cls where
  "of12_oxm_icmpv6_code =
     Cls ''icmpv6_code'' [(nm_type_len, 2147499009)]
       [(nm_value, D_num 0)]
       [P_field nm_type_len fL, P_field nm_value fB]
       None
       [U_local nm__type_len fL, U_assert nm__type_len 2147499009, U_field nm_value fB]
       [nm_value]"

definition of12_oxm_icmpv6_code_masked :: cls where
  "of12_oxm_icmpv6_code_masked =
     Cls ''icmpv6_code_masked'' [(nm_type_len, 2147499266)]
       [(nm_value, D_num 0), (nm_value_mask, D_num 0)]
       [P_field nm_type_len fL, P_field nm_value fB, P_field nm_value_mask fB]
       None
       [U_local nm__type_len fL, U_assert nm__type_len 2147499266, U_field nm_value fB,
        U_field nm_value_mask fB]
       [nm_value, nm_value_mask]"

definition of12_oxm_icmpv6_type :: cls where
  "of12_oxm_icmpv6_type =
     Cls ''icmpv6_type'' [(nm_type_len, 2147498497)]
       [(nm_value, D_num 0)]
       [P_field nm_type_len fL, P_field nm_value fB]
       None
       [U_local nm__type_len fL, U_assert nm__type_len 2147498497, U_field nm_value fB]
       [nm_value]"

definition of12_oxm_icmpv6_type_masked :: cls where
  "of12_oxm_icmpv6_type_masked =
     Cls ''icmpv6_type_masked'' [(nm_type_len, 2147498754)]
       [(nm_value, D_num 0), (nm_value_mask, D_num 0)]
       [P_field nm_type_len fL, P_field nm_value fB, P_field nm_value_mask fB]
       None
       [U_local nm__type_len fL, U_assert nm__type_len 2147498754, U_field nm_value fB,
        U_field nm_value_mask fB]
       [nm_value, nm_value_mask]"

definition of12_oxm_in_phy_port :: cls where
  "of12_oxm_in_phy_port =
     Cls ''in_phy_port'' [(nm_type_len, 2147484164)]
       [(nm_value, D_num 0)]
       [P_field nm_type_len fL, P_field nm_value of12_port_no]
       None
       [U_local nm__type_len fL, U_assert nm__type_len 2147484164, U_field nm_value of12_port_no]
       [nm_value]"

definition of12_oxm_in_phy_port_masked :: cls where
  "of12_oxm_in_phy_port_masked =
     Cls ''in_phy_port_masked'' [(nm_type_len, 2147484424)]
       [(nm_value, D_num 0), (nm_value_mask, D_num 0)]
       [P_field nm_type_len fL, P_field nm_value of12_port_no, P_field nm_value_mask of12_port_no]
       None
       [U_local nm__type_len fL, U_assert nm__type_len 2147484424, U_field nm_value of12_port_no,
        U_field nm_value_mask of12_port_no]
       [nm_value, nm_value_mask]"

definition of12_oxm_in_port :: cls where
  "of12_oxm_in_port =
     Cls ''in_port'' [(nm_type_len, 2147483652)]
       [(nm_value, D_num 0)]
       [P_field nm_type_len fL, P_field nm_value of12_port_no]
       None
       [U_local nm__type_len fL, U_assert nm__type_len 2147483652, U_field nm_value of12_port_no]
       [nm_value]"

definition of12_oxm_in_port_masked :: cls where
  "of12_oxm_in_port_masked =
     Cls ''in_port_masked'' [(nm_type_len, 2147483912)]
       [(nm_value, D_num 0), (nm_value_mask, D_num 0)]
       [P_field nm_type_len fL, P_field nm_value of12_port_no, P_field nm_value_mask of12_port_no]
       None
       [U_local nm__type_len fL, U_assert nm__type_len 2147483912, U_field nm_value of12_port_no,
        U_field nm_value_mask of12_port_no]
       [nm_value, nm_value_mask]"

definition of12_oxm_ip_dscp :: cls where
  "of12_oxm_ip_dscp =
     Cls ''ip_dscp'' [(nm_type_len, 2147487745)]
       [(nm_value, D_num 0)]
       [P_field nm_type_len fL, P_field nm_value fB]
       None
       [U_local nm__type_len fL, U_assert nm__type_len 2147487745, U_field nm_value fB]
       [nm_value]"

definition of12_oxm_ip_dscp_masked :: cls where
  "of12_oxm_ip_dscp_masked =
     Cls ''ip_dscp_masked'' [(nm_type_len, 2147488002)]
       [(nm_value, D_num 0), (nm_value_mask, D_num 0)]
       [P_field nm_type_len fL, P_field nm_value fB, P_field nm_value_mask fB]
       None
       [U_local nm__type_len fL, U_assert nm__type_len 2147488002, U_field nm_value fB,
        U_field nm_value_mask fB]
       [nm_value, nm_value_mask]"

definition of12_oxm_ip_ecn :: cls where
  "of12_oxm_ip_ecn =
     Cls ''ip_ecn'' [(nm_type_len, 2147488257)]
       [(nm_value, D_num 0)]
       [P_field nm_type_len fL, P_field nm_value fB]
       None
       [U_local nm__type_len fL, U_assert nm__type_len 2147488257, U_field nm_value fB]
       [nm_value]"

definition of12_oxm_ip_ecn_masked :: cls where
  "of12_oxm_ip_ecn_masked =
     Cls ''ip_ecn_masked'' [(nm_type_len, 2147488514)]
       [(nm_value, D_num 0), (nm_value_mask, D_num 0)]
       [P_field nm_type_len fL, P_field nm_value fB, P_field nm_value_mask fB]
       None
       [U_local nm__type_len fL, U_assert nm__type_len 2147488514, U_field nm_value fB,
        U_field nm_value_mask fB]
       [nm_value, nm_value_mask]"

definition of12_oxm_ip_proto :: cls where
  "of12_oxm_ip_proto =
     Cls ''ip_proto'' [(nm_type_len, 2147488769)]
       [(nm_value, D_num 0)]
       [P_field nm_type_len fL, P_field nm_value fB]
       None
       [U_local nm__type_len fL, U_assert nm__type_len 2147488769, U_field nm_value fB]
       [nm_value]"

definition of12_oxm_ip_proto_masked :: cls where
  "of12_oxm_ip_proto_masked =
     Cls ''ip_proto_masked'' [(nm_type_len, 2147489026)]
       [(nm_value, D_num 0), (nm_value_mask, D_num 0)]
       [P_field nm_type_len fL, P_field nm_value fB, P_field nm_value_mask fB]
       None
       [U_local nm__type_len fL, U_assert nm__type_len 2147489026, U_field nm_value fB,
        U_field nm_value_mask fB]
       [nm_value, nm_value_mask]"

definition of12_oxm_ipv4_dst :: cls where
  "of12_oxm_ipv4_dst =
     Cls ''ipv4_dst'' [(nm_type_len, 2147489796)]
       [(nm_value, D_num 0)]
       [P_field nm_type_len fL, P_field nm_value fL]
       None
       [U_local nm__type_len fL, U_assert nm__type_len 2147489796, U_field nm_value fL]
       [nm_value]"

definition of12_oxm_ipv4_dst_masked :: cls where
  "of12_oxm_ipv4_dst_masked =
     Cls ''ipv4_dst_masked'' [(nm_type_len, 2147490056)]
       [(nm_value, D_num 0), (nm_value_mask, D_num 0)]
       [P_field nm_type_len fL, P_field nm_value fL, P_field nm_value_mask fL]
       None
       [U_local nm__type_len fL, U_assert nm__type_len 2147490056, U_field nm_value fL,
        U_field nm_value_mask fL]
       [nm_value, nm_value_mask]"

definition of12_oxm_ipv4_src :: cls where
  "of12_oxm_ipv4_src =
     Cls ''ipv4_src'' [(nm_type_len, 2147489284)]
       [(nm_value, D_num 0)]
       [P_field nm_type_len fL, P_field nm_value fL]
       None
       [U_local nm__type_len fL, U_assert nm__type_len 2147489284, U_field nm_value fL]
       [nm_value]"

definition of12_oxm_ipv4_src_masked :: cls where
  "of12_oxm_ipv4_src_masked =
     Cls ''ipv4_src_masked'' [(nm_type_len, 2147489544)]
       [(nm_value, D_num 0), (nm_value_mask, D_num 0)]
       [P_field nm_type_len fL, P_field nm_value fL, P_field nm_value_mask fL]
       None
       [U_local nm__type_len fL, U_assert nm__type_len 2147489544, U_field nm_value fL,
        U_field nm_value_mask fL]
       [nm_value, nm_value_mask]"

definition of12_oxm_ipv6_dst :: cls where
  "of12_oxm_ipv6_dst =
     Cls ''ipv6_dst'' [(nm_type_len, 2147497488)]
       [(nm_value, D_str (replicate 16 0))]
       [P_field nm_type_len fL, P_field nm_value (fS 16)]
       None
       [U_local nm__type_len fL, U_assert nm__type_len 2147497488, U_field nm_value (fS 16)]
       [nm_value]"

definition of12_oxm_ipv6_dst_masked :: cls where
  "of12_oxm_ipv6_dst_masked =
     Cls ''ipv6_dst_masked'' [(nm_type_len, 2147497760)]
       [(nm_value, D_str (replicate 16 0)), (nm_value_mask, D_str (replicate 16 0))]
       [P_field nm_type_len fL, P_field nm_value (fS 16), P_field nm_value_mask (fS 16)]
       None
       [U_local nm__type_len fL, U_assert nm__type_len 2147497760, U_field nm_value (fS 16),
        U_field nm_value_mask (fS 16)]
       [nm_value, nm_value_mask]"

definition of12_oxm_ipv6_flabel :: cls where
  "of12_oxm_ipv6_flabel =
     Cls ''ipv6_flabel'' [(nm_type_len, 2147497988)]
       [(nm_value, D_num 0)]
       [P_field nm_type_len fL, P_field nm_value fL]
       None
       [U_local nm__type_len fL, U_assert nm__type_len 2147497988, U_field nm_value fL]
       [nm_value]"

definition of12_oxm_ipv6_flabel_masked :: cls where
  "of12_oxm_ipv6_flabel_masked =
     Cls ''ipv6_flabel_masked'' [(nm_type_len, 2147498248)]
       [(nm_value, D_num 0), (nm_value_mask, D_num 0)]
       [P_field nm_type_len fL, P_field nm_value fL, P_field nm_value_mask fL]
       None
       [U_local nm__type_len fL, U_assert nm__type_len 2147498248, U_field nm_value fL,
        U_field nm_value_mask fL]
       [nm_value, nm_value_mask]"

definition of12_oxm_ipv6_nd_sll :: cls where
  "of12_oxm_ipv6_nd_sll =
     Cls ''ipv6_nd_sll'' [(nm_type_len, 2147500038)]
       [(nm_value, D_nums [0,0,0,0,0,0])]
       [P_field nm_type_len fL, P_field nm_value f6B]
       None
       [U_local nm__type_len fL, U_assert nm__type_len 2147500038, U_field nm_value f6B]
       [nm_value]"

definition of12_oxm_ipv6_nd_sll_masked :: cls where
  "of12_oxm_ipv6_nd_sll_masked =
     Cls ''ipv6_nd_sll_masked'' [(nm_type_len, 2147500300)]
       [(nm_value, D_nums [0,0,0,0,0,0]), (nm_value_mask, D_nums [0,0,0,0,0,0])]
       [P_field nm_type_len fL, P_field nm_value f6B, P_field nm_value_mask f6B]
       None
       [U_local nm__type_len fL, U_assert nm__type_len 2147500300, U_field nm_value f6B,
        U_field nm_value_mask f6B]
       [nm_value, nm_value_mask]"

definition of12_oxm_ipv6_nd_target :: cls where
  "of12_oxm_ipv6_nd_target =
     Cls ''ipv6_nd_target'' [(nm_type_len, 2147499536)]
       [(nm_value, D_str (replicate 16 0))]
       [P_field nm_type_len fL, P_field nm_value (fS 16)]
       None
       [U_local nm__type_len fL, U_assert nm__type_len 2147499536, U_field nm_value (fS 16)]
       [nm_value]"

definition of12_oxm_ipv6_nd_target_masked :: cls where
  "of12_oxm_ipv6_nd_target_masked =
     Cls ''ipv6_nd_target_masked'' [(nm_type_len, 2147499808)]
       [(nm_value, D_str (replicate 16 0)), (nm_value_mask, D_str (replicate 16 0))]
       [P_field nm_type_len fL, P_field nm_value (fS 16), P_field nm_value_mask (fS 16)]
       None
       [U_local nm__type_len fL, U_assert nm__type_len 2147499808, U_field nm_value (fS 16),
        U_field nm_value_mask (fS 16)]
       [nm_value, nm_value_mask]"

definition of12_oxm_ipv6_nd_tll :: cls where
  "of12_oxm_ipv6_nd_tll =
     Cls ''ipv6_nd_tll'' [(nm_type_len, 2147500550)]
       [(nm_value, D_nums [0,0,0,0,0,0])]
       [P_field nm_type_len fL, P_field nm_value f6B]
       None
       [U_local nm__type_len fL, U_assert nm__type_len 2147500550, U_field nm_value f6B]
       [nm_value]"

definition of12_oxm_ipv6_nd_tll_masked :: cls where
  "of12_oxm_ipv6_nd_tll_masked =
     Cls ''ipv6_nd_tll_masked'' [(nm_type_len, 2147500812)]
       [(nm_value, D_nums [0,0,0,0,0,0]), (nm_value_mask, D_nums [0,0,0,0,0,0])]
       [P_field nm_type_len fL, P_field nm_value f6B, P_field nm_value_mask f6B]
       None
       [U_local nm__type_len fL, U_assert nm__type_len 2147500812, U_field nm_value f6B,
        U_field nm_value_mask f6B]
       [nm_value, nm_value_mask]"

definition of12_oxm_ipv6_src :: cls where
  "of12_oxm_ipv6_src =
     Cls ''ipv6_src'' [(nm_type_len, 2147496976)]
       [(nm_value, D_str (replicate 16 0))]
       [P_field nm_type_len fL, P_field nm_value (fS 16)]
       None
       [U_local nm__type_len fL, U_assert nm__type_len 2147496976, U_field nm_value (fS 16)]
       [nm_value]"

definition of12_oxm_ipv6_src_masked :: cls where
  "of12_oxm_ipv6_src_masked =
     Cls ''ipv6_src_masked'' [(nm_type_len, 2147497248)]
       [(nm_value, D_str (replicate 16 0)), (nm_value_mask, D_str (replicate 16 0))]
       [P_field nm_type_len fL, P_field nm_value (fS 16), P_field nm_value_mask (fS 16)]
       None
       [U_local nm__type_len fL, U_assert nm__type_len 2147497248, U_field nm_value (fS 16),
        U_field nm_value_mask (fS 16)]
       [nm_value, nm_value_mask]"

definition of12_oxm_metadata :: cls where
  "of12_oxm_metadata =
     Cls ''metadata'' [(nm_type_len, 2147484680)]
       [(nm_value, D_num 0)]
       [P_field nm_type_len fL, P_field nm_value fQ]
       None
       [U_local nm__type_len fL, U_assert nm__type_len 2147484680, U_field nm_value fQ]
       [nm_value]"

definition of12_oxm_metadata_masked :: cls where
  "of12_oxm_metadata_masked =
     Cls ''metadata_masked'' [(nm_type_len, 2147484944)]
       [(nm_value, D_num 0), (nm_value_mask, D_num 0)]
       [P_field nm_type_len fL, P_field nm_value fQ, P_field nm_value_mask fQ]
       None
       [U_local nm__type_len fL, U_assert nm__type_len 2147484944, U_field nm_value fQ,
        U_field nm_value_mask fQ]
       [nm_value, nm_value_mask]"

definition of12_oxm_mpls_label :: cls where
  "of12_oxm_mpls_label =
     Cls ''mpls_label'' [(nm_type_len, 2147501060)]
       [(nm_value, D_num 0)]
       [P_field nm_type_len fL, P_field nm_value fL]
       None
       [U_local nm__type_len fL, U_assert nm__type_len 2147501060, U_field nm_value fL]
       [nm_value]"

definition of12_oxm_mpls_label_masked :: cls where
  "of12_oxm_mpls_label_masked =
     Cls ''mpls_label_masked'' [(nm_type_len, 2147501320)]
       [(nm_value, D_num 0), (nm_value_mask, D_num 0)]
       [P_field nm_type_len fL, P_field nm_value fL, P_field nm_value_mask fL]
       None
       [U_local nm__type_len fL, U_assert nm__type_len 2147501320, U_field nm_value fL,
        U_field nm_value_mask fL]
       [nm_value, nm_value_mask]"

definition of12_oxm_mpls_tc :: cls where
  "of12_oxm_mpls_tc =
     Cls ''mpls_tc'' [(nm_type_len, 2147501569)]
       [(nm_value, D_num 0)]
       [P_field nm_type_len fL, P_field nm_value fB]
       None
       [U_local nm__type_len fL, U_assert nm__type_len 2147501569, U_field nm_value fB]
       [nm_value]"

definition of12_oxm_mpls_tc_masked :: cls where
  "of12_oxm_mpls_tc_masked =
     Cls ''mpls_tc_masked'' [(nm_type_len, 2147501826)]
       [(nm_value, D_num 0), (nm_value_mask, D_num 0)]
       [P_field nm_type_len fL, P_field nm_value fB, P_field nm_value_mask fB]
       None
       [U_local nm__type_len fL, U_assert nm__type_len 2147501826, U_field nm_value fB,
        U_field nm_value_mask fB]
       [nm_value, nm_value_mask]"

definition of12_oxm_sctp_dst :: cls where
  "of12_oxm_sctp_dst =
     Cls ''sctp_dst'' [(nm_type_len, 2147492866)]
       [(nm_value, D_num 0)]
       [P_field nm_type_len fL, P_field nm_value fH]
       None
       [U_local nm__type_len fL, U_assert nm__type_len 2147492866, U_field nm_value fH]
       [nm_value]"

definition of12_oxm_sctp_dst_masked :: cls where
  "of12_oxm_sctp_dst_masked =
     Cls ''sctp_dst_masked'' [(nm_type_len, 2147493124)]
       [(nm_value, D_num 0), (nm_value_mask, D_num 0)]
       [P_field nm_type_len fL, P_field nm_value fH, P_field nm_value_mask fH]
       None
       [U_local nm__type_len fL, U_assert nm__type_len 2147493124, U_field nm_value fH,
        U_field nm_value_mask fH]
       [nm_value, nm_value_mask]"

definition of12_oxm_sctp_src :: cls where
  "of12_oxm_sctp_src =
     Cls ''sctp_src'' [(nm_type_len, 2147492354)]
       [(nm_value, D_num 0)]
       [P_field nm_type_len fL, P_field nm_value fH]
       None
       [U_local nm__type_len fL, U_assert nm__type_len 2147492354, U_field nm_value fH]
       [nm_value]"

definition of12_oxm_sctp_src_masked :: cls where
  "of12_oxm_sctp_src_masked =
     Cls ''sctp_src_masked'' [(nm_type_len, 2147492612)]
       [(nm_value, D_num 0), (nm_value_mask, D_num 0)]
       [P_field nm_type_len fL, P_field nm_value fH, P_field nm_value_mask fH]
       None
       [U_local nm__type_len fL, U_assert nm__type_len 2147492612, U_field nm_value fH,
        U_field nm_value_mask fH]
       [nm_value, nm_value_mask]"

definition of12_oxm_tcp_dst :: cls where
  "of12_oxm_tcp_dst =
     Cls ''tcp_dst'' [(nm_type_len, 2147490818)]
       [(nm_value, D_num 0)]
       [P_field nm_type_len fL, P_field nm_value fH]
       None
       [U_local nm__type_len fL, U_assert nm__type_len 2147490818, U_field nm_value fH]
       [nm_value]"

definition of12_oxm_tcp_dst_masked :: cls where
  "of12_oxm_tcp_dst_masked =
     Cls ''tcp_dst_masked'' [(nm_type_len, 2147491076)]
       [(nm_value, D_num 0), (nm_value_mask, D_num 0)]
       [P_field nm_type_len fL, P_field nm_value fH, P_field nm_value_mask fH]
       None
       [U_local nm__type_len fL, U_assert nm__type_len 2147491076, U_field nm_value fH,
        U_field nm_value_mask fH]
       [nm_value, nm_value_mask]"

definition of12_oxm_tcp_src :: cls where
  "of12_oxm_tcp_src =
     Cls ''tcp_src'' [(nm_type_len, 2147490306)]
       [(nm_value, D_num 0)]
       [P_field nm_type_len fL, P_field nm_value fH]
       None
       [U_local nm__type_len fL, U_assert nm__type_len 2147490306, U_field nm_value fH]
       [nm_value]"

definition of12_oxm_tcp_src_masked :: cls where
  "of12_oxm_tcp_src_masked =
     Cls ''tcp_src_masked'' [(nm_type_len, 2147490564)]
       [(nm_value, D_num 0), (nm_value_mask, D_num 0)]
       [P_field nm_type_len fL, P_field nm_value fH, P_field nm_value_mask fH]
       None
       [U_local nm__type_len fL, U_assert nm__type_len 2147490564, U_field nm_value fH,
        U_field nm_value_mask fH]
       [nm_value, nm_value_mask]"

definition of12_oxm_tunnel_ipv4_dst :: cls where
  "of12_oxm_tunnel_ipv4_dst =
     Cls ''tunnel_ipv4_dst'' [(nm_type_len, 81924)]
       [(nm_value, D_num 0)]
       [P_field nm_type_len fL, P_field nm_value fL]
       None
       [U_local nm__type_len fL, U_assert nm__type_len 81924, U_field nm_value fL]
       [nm_value]"

definition of12_oxm_tunnel_ipv4_dst_masked :: cls where
  "of12_oxm_tunnel_ipv4_dst_masked =
     Cls ''tunnel_ipv4_dst_masked'' [(nm_type_len, 82184)]
       [(nm_value, D_num 0), (nm_value_mask, D_num 0)]
       [P_field nm_type_len fL, P_field nm_value fL, P_field nm_value_mask fL]
       None
       [U_local nm__type_len fL, U_assert nm__type_len 82184, U_field nm_value fL,
        U_field nm_value_mask fL]
       [nm_value, nm_value_mask]"

definition of12_oxm_tunnel_ipv4_src :: cls where
  "of12_oxm_tunnel_ipv4_src =
     Cls ''tunnel_ipv4_src'' [(nm_type_len, 81412)]
       [(nm_value, D_num 0)]
       [P_field nm_type_len fL, P_field nm_value fL]
       None
       [U_local nm__type_len fL, U_assert nm__type_len 81412, U_field nm_value fL]
       [nm_value]"

definition of12_oxm_tunnel_ipv4_src_masked :: cls where
  "of12_oxm_tunnel_ipv4_src_masked =
     Cls ''tunnel_ipv4_src_masked'' [(nm_type_len, 81672)]
       [(nm_value, D_num 0), (nm_value_mask, D_num 0)]
       [P_field nm_type_len fL, P_field nm_value fL, P_field nm_value_mask fL]
       None
       [U_local nm__type_len fL, U_assert nm__type_len 81672, U_field nm_value fL,
        U_field nm_value_mask fL]
       [nm_value, nm_value_mask]"

definition of12_oxm_udp_dst :: cls where
  "of12_oxm_udp_dst =
     Cls ''udp_dst'' [(nm_type_len, 2147491842)]
       [(nm_value, D_num 0)]
       [P_field nm_type_len fL, P_field nm_value fH]
       None
       [U_local nm__type_len fL, U_assert nm__type_len 2147491842, U_field nm_value fH]
       [nm_value]"

definition of12_oxm_udp_dst_masked :: cls where
  "of12_oxm_udp_dst_masked =
     Cls ''udp_dst_masked'' [(nm_type_len, 2147492100)]
       [(nm_value, D_num 0), (nm_value_mask, D_num 0)]
       [P_field nm_type_len fL, P_field nm_value fH, P_field nm_value_mask fH]
       None
       [U_local nm__type_len fL, U_assert nm__type_len 2147492100, U_field nm_value fH,
        U_field nm_value_mask fH]
       [nm_value, nm_value_mask]"

definition of12_oxm_udp_src :: cls where
  "of12_oxm_udp_src =
     Cls ''udp_src'' [(nm_type_len, 2147491330)]
       [(nm_value, D_num 0)]
       [P_field nm_type_len fL, P_field nm_value fH]
       None
       [U_local nm__type_len fL, U_assert nm__type_len 2147491330, U_field nm_value fH]
       [nm_value]"

definition of12_oxm_udp_src_masked :: cls where
  "of12_oxm_udp_src_masked =
     Cls ''udp_src_masked'' [(nm_type_len, 2147491588)]
       [(nm_value, D_num 0), (nm_value_mask, D_num 0)]
       [P_field nm_type_len fL, P_field nm_value fH, P_field nm_value_mask fH]
       None
       [U_local nm__type_len fL, U_assert nm__type_len 2147491588, U_field nm_value fH,
        U_field nm_value_mask fH]
       [nm_value, nm_value_mask]"

definition of12_oxm_vlan_pcp :: cls where
  "of12_oxm_vlan_pcp =
     Cls ''vlan_pcp'' [(nm_type_len, 2147487233)]
       [(nm_value, D_num 0)]
       [P_field nm_type_len fL, P_field nm_value fB]
       None
       [U_local nm__type_len fL, U_assert nm__type_len 2147487233, U_field nm_value fB]
       [nm_value]"

definition of12_oxm_vlan_pcp_masked :: cls where
  "of12_oxm_vlan_pcp_masked =
     Cls ''vlan_pcp_masked'' [(nm_type_len, 2147487490)]
       [(nm_value, D_num 0), (nm_value_mask, D_num 0)]
       [P_field nm_type_len fL, P_field nm_value fB, P_field nm_value_mask fB]
       None
       [U_local nm__type_len fL, U_assert nm__type_len 2147487490, U_field nm_value fB,
        U_field nm_value_mask fB]
       [nm_value, nm_value_mask]"

definition of12_oxm_vlan_vid :: cls where
  "of12_oxm_vlan_vid =
     Cls ''vlan_vid'' [(nm_type_len, 2147486722)]
       [(nm_value, D_num 0)]
       [P_field nm_type_len fL, P_field nm_value fH]
       None
       [U_local nm__type_len fL, U_assert nm__type_len 2147486722, U_field nm_value fH]
       [nm_value]"

definition of12_oxm_vlan_vid_masked :: cls where
  "of12_oxm_vlan_vid_masked =
     Cls ''vlan_vid_masked'' [(nm_type_len, 2147486980)]
       [(nm_value, D_num 0), (nm_value_mask, D_num 0)]
       [P_field nm_type_len fL, P_field nm_value fH, P_field nm_value_mask fH]
       None
       [U_local nm__type_len fL, U_assert nm__type_len 2147486980, U_field nm_value fH,
        U_field nm_value_mask fH]
       [nm_value, nm_value_mask]"

definition of12_oxm_oxm :: cls where
  "of12_oxm_oxm =
     Cls ''oxm'' []
       [(nm_type_len, D_num 0)]
       [P_field nm_type_len fL]
       (Some (fL, 0,
         [(2147494402, of12_oxm_arp_op), (2147494660, of12_oxm_arp_op_masked),
          (2147495942, of12_oxm_arp_sha), (2147496204, of12_oxm_arp_sha_masked),
          (2147494916, of12_oxm_arp_spa), (2147495176, of12_oxm_arp_spa_masked),
          (2147496454, of12_oxm_arp_tha), (2147496716, of12_oxm_arp_tha_masked),
          (2147495428, of12_oxm_arp_tpa), (2147495688, of12_oxm_arp_tpa_masked),
          (200196, of12_oxm_bsn_egr_port_group_id),
          (200456, of12_oxm_bsn_egr_port_group_id_masked),
          (198145, of12_oxm_bsn_global_vrf_allowed),
          (198402, of12_oxm_bsn_global_vrf_allowed_masked), (196624, of12_oxm_bsn_in_ports_128),
          (196896, of12_oxm_bsn_in_ports_128_masked), (206400, of12_oxm_bsn_in_ports_512),
          (206720, of12_oxm_bsn_in_ports_512_masked), (206852, of12_oxm_bsn_ingress_port_group_id),
          (207112, of12_oxm_bsn_ingress_port_group_id_masked), (205825, of12_oxm_bsn_l2_cache_hit),
          (206082, of12_oxm_bsn_l2_cache_hit_masked), (199684, of12_oxm_bsn_l3_dst_class_id),
          (199944, of12_oxm_bsn_l3_dst_class_id_masked),
          (198660, of12_oxm_bsn_l3_interface_class_id),
          (198920, of12_oxm_bsn_l3_interface_class_id_masked),
          (199172, of12_oxm_bsn_l3_src_class_id), (199432, of12_oxm_bsn_l3_src_class_id_masked),
          (197124, of12_oxm_bsn_lag_id), (197384, of12_oxm_bsn_lag_id_masked),
          (204802, of12_oxm_bsn_tcp_flags), (205060, of12_oxm_bsn_tcp_flags_masked),
          (200708, of12_oxm_bsn_udf0), (200968, of12_oxm_bsn_udf0_masked),
          (201220, of12_oxm_bsn_udf1), (201480, of12_oxm_bsn_udf1_masked),
          (201732, of12_oxm_bsn_udf2), (201992, of12_oxm_bsn_udf2_masked),
          (202244, of12_oxm_bsn_udf3), (202504, of12_oxm_bsn_udf3_masked),
          (202756, of12_oxm_bsn_udf4), (203016, of12_oxm_bsn_udf4_masked),
          (203268, of12_oxm_bsn_udf5), (203528, of12_oxm_bsn_udf5_masked),
          (203780, of12_oxm_bsn_udf6), (204040, of12_oxm_bsn_udf6_masked),
          (204292, of12_oxm_bsn_udf7), (204552, of12_oxm_bsn_udf7_masked),
          (205316, of12_oxm_bsn_vlan_xlate_port_group_id),
          (205576, of12_oxm_bsn_vlan_xlate_port_group_id_masked), (197636, of12_oxm_bsn_vrf),
          (197896, of12_oxm_bsn_vrf_masked), (2147485190, of12_oxm_eth_dst),
          (2147485452, of12_oxm_eth_dst_masked), (2147485702, of12_oxm_eth_src),
          (2147485964, of12_oxm_eth_src_masked), (2147486210, of12_oxm_eth_type),
          (2147486468, of12_oxm_eth_type_masked), (2147493889, of12_oxm_icmpv4_code),
          (2147494146, of12_oxm_icmpv4_code_masked), (2147493377, of12_oxm_icmpv4_type),
          (2147493634, of12_oxm_icmpv4_type_masked), (2147499009, of12_oxm_icmpv6_code),
          (2147499266, of12_oxm_icmpv6_code_masked), (2147498497, of12_oxm_icmpv6_type),
          (2147498754, of12_oxm_icmpv6_type_masked), (2147484164, of12_oxm_in_phy_port),
          (2147484424, of12_oxm_in_phy_port_masked), (2147483652, of12_oxm_in_port),
          (2147483912, of12_oxm_in_port_masked), (2147487745, of12_oxm_ip_dscp),
          (2147488002, of12_oxm_ip_dscp_masked), (2147488257, of12_oxm_ip_ecn),
          (2147488514, of12_oxm_ip_ecn_masked), (2147488769, of12_oxm_ip_proto),
          (2147489026, of12_oxm_ip_proto_masked), (2147489796, of12_oxm_ipv4_dst),
          (2147490056, of12_oxm_ipv4_dst_masked), (2147489284, of12_oxm_ipv4_src),
          (2147489544, of12_oxm_ipv4_src_masked), (2147497488, of12_oxm_ipv6_dst),
          (2147497760, of12_oxm_ipv6_dst_masked), (2147497988, of12_oxm_ipv6_flabel),
          (2147498248, of12_oxm_ipv6_flabel_masked), (2147500038, of12_oxm_ipv6_nd_sll),
          (2147500300, of12_oxm_ipv6_nd_sll_masked), (2147499536, of12_oxm_ipv6_nd_target),
          (2147499808, of12_oxm_ipv6_nd_target_masked), (2147500550, of12_oxm_ipv6_nd_tll),
          (2147500812, of12_oxm_ipv6_nd_tll_masked), (2147496976, of12_oxm_ipv6_src),
          (2147497248, of12_oxm_ipv6_src_masked), (2147484680, of12_oxm_metadata),
          (2147484944, of12_oxm_metadata_masked), (2147501060, of12_oxm_mpls_label),
          (2147501320, of12_oxm_mpls_label_masked), (2147501569, of12_oxm_mpls_tc),
          (2147501826, of12_oxm_mpls_tc_masked), (2147492866, of12_oxm_sctp_dst),
          (2147493124, of12_oxm_sctp_dst_masked), (2147492354, of12_oxm_sctp_src),
          (2147492612, of12_oxm_sctp_src_masked), (2147490818, of12_oxm_tcp_dst),
          (2147491076, of12_oxm_tcp_dst_masked), (2147490306, of12_oxm_tcp_src),
          (2147490564, of12_oxm_tcp_src_masked), (81924, of12_oxm_tunnel_ipv4_dst),
          (82184, of12_oxm_tunnel_ipv4_dst_masked), (81412, of12_oxm_tunnel_ipv4_src),
          (81672, of12_oxm_tunnel_ipv4_src_masked), (2147491842, of12_oxm_udp_dst),
          (2147492100, of12_oxm_udp_dst_masked), (2147491330, of12_oxm_udp_src),
          (2147491588, of12_oxm_udp_src_masked), (2147487233, of12_oxm_vlan_pcp),
          (2147487490, of12_oxm_vlan_pcp_masked), (2147486722, of12_oxm_vlan_vid),
          (2147486980, of12_oxm_vlan_vid_masked)]))
       [U_field nm_type_len fL]
       [nm_type_len]"


section \<open>pack and unpack agree\<close>

lemma of12Oxm_checked_1a [unfolded list.pred_inject prod.case, loxi_checked]:
  "list_all codec_ok
    [of12_oxm_arp_op, of12_oxm_arp_op_masked, of12_oxm_arp_sha, of12_oxm_arp_sha_masked, of12_oxm_arp_spa,
     of12_oxm_arp_spa_masked, of12_oxm_arp_tha, of12_oxm_arp_tha_masked, of12_oxm_arp_tpa,
     of12_oxm_arp_tpa_masked, of12_oxm_bsn_egr_port_group_id, of12_oxm_bsn_egr_port_group_id_masked,
     of12_oxm_bsn_global_vrf_allowed, of12_oxm_bsn_global_vrf_allowed_masked, of12_oxm_bsn_in_ports_128,
     of12_oxm_bsn_in_ports_128_masked, of12_oxm_bsn_in_ports_512, of12_oxm_bsn_in_ports_512_masked,
     of12_oxm_bsn_ingress_port_group_id, of12_oxm_bsn_ingress_port_group_id_masked,
     of12_oxm_bsn_l2_cache_hit, of12_oxm_bsn_l2_cache_hit_masked, of12_oxm_bsn_l3_dst_class_id,
     of12_oxm_bsn_l3_dst_class_id_masked, of12_oxm_bsn_l3_interface_class_id,
     of12_oxm_bsn_l3_interface_class_id_masked, of12_oxm_bsn_l3_src_class_id,
     of12_oxm_bsn_l3_src_class_id_masked, of12_oxm_bsn_lag_id, of12_oxm_bsn_lag_id_masked,
     of12_oxm_bsn_tcp_flags, of12_oxm_bsn_tcp_flags_masked, of12_oxm_bsn_udf0, of12_oxm_bsn_udf0_masked,
     of12_oxm_bsn_udf1, of12_oxm_bsn_udf1_masked, of12_oxm_bsn_udf2, of12_oxm_bsn_udf2_masked,
     of12_oxm_bsn_udf3, of12_oxm_bsn_udf3_masked]"
  "list_all safe_cls
    [of12_oxm_arp_op, of12_oxm_arp_op_masked, of12_oxm_arp_sha, of12_oxm_arp_sha_masked, of12_oxm_arp_spa,
     of12_oxm_arp_spa_masked, of12_oxm_arp_tha, of12_oxm_arp_tha_masked, of12_oxm_arp_tpa,
     of12_oxm_arp_tpa_masked, of12_oxm_bsn_egr_port_group_id, of12_oxm_bsn_egr_port_group_id_masked,
     of12_oxm_bsn_global_vrf_allowed, of12_oxm_bsn_global_vrf_allowed_masked, of12_oxm_bsn_in_ports_128,
     of12_oxm_bsn_in_ports_128_masked, of12_oxm_bsn_in_ports_512, of12_oxm_bsn_in_ports_512_masked,
     of12_oxm_bsn_ingress_port_group_id, of12_oxm_bsn_ingress_port_group_id_masked,
     of12_oxm_bsn_l2_cache_hit, of12_oxm_bsn_l2_cache_hit_masked, of12_oxm_bsn_l3_dst_class_id,
     of12_oxm_bsn_l3_dst_class_id_masked, of12_oxm_bsn_l3_interface_class_id,
     of12_oxm_bsn_l3_interface_class_id_masked, of12_oxm_bsn_l3_src_class_id,
     of12_oxm_bsn_l3_src_class_id_masked, of12_oxm_bsn_lag_id, of12_oxm_bsn_lag_id_masked,
     of12_oxm_bsn_tcp_flags, of12_oxm_bsn_tcp_flags_masked, of12_oxm_bsn_udf0, of12_oxm_bsn_udf0_masked,
     of12_oxm_bsn_udf1, of12_oxm_bsn_udf1_masked, of12_oxm_bsn_udf2, of12_oxm_bsn_udf2_masked,
     of12_oxm_bsn_udf3, of12_oxm_bsn_udf3_masked]"
  "list_all (\<lambda>c. \<not> needs_align c)
    [of12_oxm_arp_op, of12_oxm_arp_op_masked, of12_oxm_arp_sha, of12_oxm_arp_sha_masked, of12_oxm_arp_spa,
     of12_oxm_arp_spa_masked, of12_oxm_arp_tha, of12_oxm_arp_tha_masked, of12_oxm_arp_tpa,
     of12_oxm_arp_tpa_masked, of12_oxm_bsn_egr_port_group_id, of12_oxm_bsn_egr_port_group_id_masked,
     of12_oxm_bsn_global_vrf_allowed, of12_oxm_bsn_global_vrf_allowed_masked, of12_oxm_bsn_in_ports_128,
     of12_oxm_bsn_in_ports_128_masked, of12_oxm_bsn_in_ports_512, of12_oxm_bsn_in_ports_512_masked,
     of12_oxm_bsn_ingress_port_group_id, of12_oxm_bsn_ingress_port_group_id_masked,
     of12_oxm_bsn_l2_cache_hit, of12_oxm_bsn_l2_cache_hit_masked, of12_oxm_bsn_l3_dst_class_id,
     of12_oxm_bsn_l3_dst_class_id_masked, of12_oxm_bsn_l3_interface_class_id,
     of12_oxm_bsn_l3_interface_class_id_masked, of12_oxm_bsn_l3_src_class_id,
     of12_oxm_bsn_l3_src_class_id_masked, of12_oxm_bsn_lag_id, of12_oxm_bsn_lag_id_masked,
     of12_oxm_bsn_tcp_flags, of12_oxm_bsn_tcp_flags_masked, of12_oxm_bsn_udf0, of12_oxm_bsn_udf0_masked,
     of12_oxm_bsn_udf1, of12_oxm_bsn_udf1_masked, of12_oxm_bsn_udf2, of12_oxm_bsn_udf2_masked,
     of12_oxm_bsn_udf3, of12_oxm_bsn_udf3_masked]"
  "list_all (\<lambda>(k, c). writes_const fL 0 k c)
    [(2147494402, of12_oxm_arp_op), (2147494660, of12_oxm_arp_op_masked), (2147495942, of12_oxm_arp_sha),
     (2147496204, of12_oxm_arp_sha_masked), (2147494916, of12_oxm_arp_spa),
     (2147495176, of12_oxm_arp_spa_masked), (2147496454, of12_oxm_arp_tha),
     (2147496716, of12_oxm_arp_tha_masked), (2147495428, of12_oxm_arp_tpa),
     (2147495688, of12_oxm_arp_tpa_masked), (200196, of12_oxm_bsn_egr_port_group_id),
     (200456, of12_oxm_bsn_egr_port_group_id_masked), (198145, of12_oxm_bsn_global_vrf_allowed),
     (198402, of12_oxm_bsn_global_vrf_allowed_masked), (196624, of12_oxm_bsn_in_ports_128),
     (196896, of12_oxm_bsn_in_ports_128_masked), (206400, of12_oxm_bsn_in_ports_512),
     (206720, of12_oxm_bsn_in_ports_512_masked), (206852, of12_oxm_bsn_ingress_port_group_id),
     (207112, of12_oxm_bsn_ingress_port_group_id_masked), (205825, of12_oxm_bsn_l2_cache_hit),
     (206082, of12_oxm_bsn_l2_cache_hit_masked), (199684, of12_oxm_bsn_l3_dst_class_id),
     (199944, of12_oxm_bsn_l3_dst_class_id_masked), (198660, of12_oxm_bsn_l3_interface_class_id),
     (198920, of12_oxm_bsn_l3_interface_class_id_masked), (199172, of12_oxm_bsn_l3_src_class_id),
     (199432, of12_oxm_bsn_l3_src_class_id_masked), (197124, of12_oxm_bsn_lag_id),
     (197384, of12_oxm_bsn_lag_id_masked), (204802, of12_oxm_bsn_tcp_flags),
     (205060, of12_oxm_bsn_tcp_flags_masked), (200708, of12_oxm_bsn_udf0),
     (200968, of12_oxm_bsn_udf0_masked), (201220, of12_oxm_bsn_udf1), (201480, of12_oxm_bsn_udf1_masked),
     (201732, of12_oxm_bsn_udf2), (201992, of12_oxm_bsn_udf2_masked), (202244, of12_oxm_bsn_udf3),
     (202504, of12_oxm_bsn_udf3_masked)]"
  by (simp_all add: loxi_formats loxi_eval loxi_checked
    of12_oxm_arp_op_def of12_oxm_arp_op_masked_def of12_oxm_arp_sha_def of12_oxm_arp_sha_masked_def
    of12_oxm_arp_spa_def of12_oxm_arp_spa_masked_def of12_oxm_arp_tha_def of12_oxm_arp_tha_masked_def
    of12_oxm_arp_tpa_def of12_oxm_arp_tpa_masked_def of12_oxm_bsn_egr_port_group_id_def
    of12_oxm_bsn_egr_port_group_id_masked_def of12_oxm_bsn_global_vrf_allowed_def
    of12_oxm_bsn_global_vrf_allowed_masked_def of12_oxm_bsn_in_ports_128_def
    of12_oxm_bsn_in_ports_128_masked_def of12_oxm_bsn_in_ports_512_def
    of12_oxm_bsn_in_ports_512_masked_def of12_oxm_bsn_ingress_port_group_id_def
    of12_oxm_bsn_ingress_port_group_id_masked_def of12_oxm_bsn_l2_cache_hit_def
    of12_oxm_bsn_l2_cache_hit_masked_def of12_oxm_bsn_l3_dst_class_id_def
    of12_oxm_bsn_l3_dst_class_id_masked_def of12_oxm_bsn_l3_interface_class_id_def
    of12_oxm_bsn_l3_interface_class_id_masked_def of12_oxm_bsn_l3_src_class_id_def
    of12_oxm_bsn_l3_src_class_id_masked_def of12_oxm_bsn_lag_id_def of12_oxm_bsn_lag_id_masked_def
    of12_oxm_bsn_tcp_flags_def of12_oxm_bsn_tcp_flags_masked_def of12_oxm_bsn_udf0_def
    of12_oxm_bsn_udf0_masked_def of12_oxm_bsn_udf1_def of12_oxm_bsn_udf1_masked_def
    of12_oxm_bsn_udf2_def of12_oxm_bsn_udf2_masked_def of12_oxm_bsn_udf3_def
    of12_oxm_bsn_udf3_masked_def
    del: One_nat_def)

lemma of12Oxm_checked_1b [unfolded list.pred_inject prod.case, loxi_checked]:
  "list_all codec_ok
    [of12_oxm_bsn_udf4, of12_oxm_bsn_udf4_masked, of12_oxm_bsn_udf5, of12_oxm_bsn_udf5_masked,
     of12_oxm_bsn_udf6, of12_oxm_bsn_udf6_masked, of12_oxm_bsn_udf7, of12_oxm_bsn_udf7_masked,
     of12_oxm_bsn_vlan_xlate_port_group_id, of12_oxm_bsn_vlan_xlate_port_group_id_masked, of12_oxm_bsn_vrf,
     of12_oxm_bsn_vrf_masked, of12_oxm_eth_dst, of12_oxm_eth_dst_masked, of12_oxm_eth_src,
     of12_oxm_eth_src_masked, of12_oxm_eth_type, of12_oxm_eth_type_masked, of12_oxm_icmpv4_code,
     of12_oxm_icmpv4_code_masked, of12_oxm_icmpv4_type, of12_oxm_icmpv4_type_masked, of12_oxm_icmpv6_code,
     of12_oxm_icmpv6_code_masked, of12_oxm_icmpv6_type, of12_oxm_icmpv6_type_masked, of12_oxm_in_phy_port,
     of12_oxm_in_phy_port_masked, of12_oxm_in_port, of12_oxm_in_port_masked, of12_oxm_ip_dscp,
     of12_oxm_ip_dscp_masked, of12_oxm_ip_ecn, of12_oxm_ip_ecn_masked, of12_oxm_ip_proto,
     of12_oxm_ip_proto_masked, of12_oxm_ipv4_dst, of12_oxm_ipv4_dst_masked, of12_oxm_ipv4_src,
     of12_oxm_ipv4_src_masked]"
  "list_all safe_cls
    [of12_oxm_bsn_udf4, of12_oxm_bsn_udf4_masked, of12_oxm_bsn_udf5, of12_oxm_bsn_udf5_masked,
     of12_oxm_bsn_udf6, of12_oxm_bsn_udf6_masked, of12_oxm_bsn_udf7, of12_oxm_bsn_udf7_masked,
     of12_oxm_bsn_vlan_xlate_port_group_id, of12_oxm_bsn_vlan_xlate_port_group_id_masked, of12_oxm_bsn_vrf,
     of12_oxm_bsn_vrf_masked, of12_oxm_eth_dst, of12_oxm_eth_dst_masked, of12_oxm_eth_src,
     of12_oxm_eth_src_masked, of12_oxm_eth_type, of12_oxm_eth_type_masked, of12_oxm_icmpv4_code,
     of12_oxm_icmpv4_code_masked, of12_oxm_icmpv4_type, of12_oxm_icmpv4_type_masked, of12_oxm_icmpv6_code,
     of12_oxm_icmpv6_code_masked, of12_oxm_icmpv6_type, of12_oxm_icmpv6_type_masked, of12_oxm_in_phy_port,
     of12_oxm_in_phy_port_masked, of12_oxm_in_port, of12_oxm_in_port_masked, of12_oxm_ip_dscp,
     of12_oxm_ip_dscp_masked, of12_oxm_ip_ecn, of12_oxm_ip_ecn_masked, of12_oxm_ip_proto,
     of12_oxm_ip_proto_masked, of12_oxm_ipv4_dst, of12_oxm_ipv4_dst_masked, of12_oxm_ipv4_src,
     of12_oxm_ipv4_src_masked]"
  "list_all (\<lambda>c. \<not> needs_align c)
    [of12_oxm_bsn_udf4, of12_oxm_bsn_udf4_masked, of12_oxm_bsn_udf5, of12_oxm_bsn_udf5_masked,
     of12_oxm_bsn_udf6, of12_oxm_bsn_udf6_masked, of12_oxm_bsn_udf7, of12_oxm_bsn_udf7_masked,
     of12_oxm_bsn_vlan_xlate_port_group_id, of12_oxm_bsn_vlan_xlate_port_group_id_masked, of12_oxm_bsn_vrf,
     of12_oxm_bsn_vrf_masked, of12_oxm_eth_dst, of12_oxm_eth_dst_masked, of12_oxm_eth_src,
     of12_oxm_eth_src_masked, of12_oxm_eth_type, of12_oxm_eth_type_masked, of12_oxm_icmpv4_code,
     of12_oxm_icmpv4_code_masked, of12_oxm_icmpv4_type, of12_oxm_icmpv4_type_masked, of12_oxm_icmpv6_code,
     of12_oxm_icmpv6_code_masked, of12_oxm_icmpv6_type, of12_oxm_icmpv6_type_masked, of12_oxm_in_phy_port,
     of12_oxm_in_phy_port_masked, of12_oxm_in_port, of12_oxm_in_port_masked, of12_oxm_ip_dscp,
     of12_oxm_ip_dscp_masked, of12_oxm_ip_ecn, of12_oxm_ip_ecn_masked, of12_oxm_ip_proto,
     of12_oxm_ip_proto_masked, of12_oxm_ipv4_dst, of12_oxm_ipv4_dst_masked, of12_oxm_ipv4_src,
     of12_oxm_ipv4_src_masked]"
  "list_all (\<lambda>(k, c). writes_const fL 0 k c)
    [(202756, of12_oxm_bsn_udf4), (203016, of12_oxm_bsn_udf4_masked), (203268, of12_oxm_bsn_udf5),
     (203528, of12_oxm_bsn_udf5_masked), (203780, of12_oxm_bsn_udf6), (204040, of12_oxm_bsn_udf6_masked),
     (204292, of12_oxm_bsn_udf7), (204552, of12_oxm_bsn_udf7_masked),
     (205316, of12_oxm_bsn_vlan_xlate_port_group_id),
     (205576, of12_oxm_bsn_vlan_xlate_port_group_id_masked), (197636, of12_oxm_bsn_vrf),
     (197896, of12_oxm_bsn_vrf_masked), (2147485190, of12_oxm_eth_dst),
     (2147485452, of12_oxm_eth_dst_masked), (2147485702, of12_oxm_eth_src),
     (2147485964, of12_oxm_eth_src_masked), (2147486210, of12_oxm_eth_type),
     (2147486468, of12_oxm_eth_type_masked), (2147493889, of12_oxm_icmpv4_code),
     (2147494146, of12_oxm_icmpv4_code_masked), (2147493377, of12_oxm_icmpv4_type),
     (2147493634, of12_oxm_icmpv4_type_masked), (2147499009, of12_oxm_icmpv6_code),
     (2147499266, of12_oxm_icmpv6_code_masked), (2147498497, of12_oxm_icmpv6_type),
     (2147498754, of12_oxm_icmpv6_type_masked), (2147484164, of12_oxm_in_phy_port),
     (2147484424, of12_oxm_in_phy_port_masked), (2147483652, of12_oxm_in_port),
     (2147483912, of12_oxm_in_port_masked), (2147487745, of12_oxm_ip_dscp),
     (2147488002, of12_oxm_ip_dscp_masked), (2147488257, of12_oxm_ip_ecn),
     (2147488514, of12_oxm_ip_ecn_masked), (2147488769, of12_oxm_ip_proto),
     (2147489026, of12_oxm_ip_proto_masked), (2147489796, of12_oxm_ipv4_dst),
     (2147490056, of12_oxm_ipv4_dst_masked), (2147489284, of12_oxm_ipv4_src),
     (2147489544, of12_oxm_ipv4_src_masked)]"
  by (simp_all add: loxi_formats loxi_eval loxi_checked
    of12_oxm_bsn_udf4_def of12_oxm_bsn_udf4_masked_def of12_oxm_bsn_udf5_def
    of12_oxm_bsn_udf5_masked_def of12_oxm_bsn_udf6_def of12_oxm_bsn_udf6_masked_def
    of12_oxm_bsn_udf7_def of12_oxm_bsn_udf7_masked_def of12_oxm_bsn_vlan_xlate_port_group_id_def
    of12_oxm_bsn_vlan_xlate_port_group_id_masked_def of12_oxm_bsn_vrf_def of12_oxm_bsn_vrf_masked_def
    of12_oxm_eth_dst_def of12_oxm_eth_dst_masked_def of12_oxm_eth_src_def of12_oxm_eth_src_masked_def
    of12_oxm_eth_type_def of12_oxm_eth_type_masked_def of12_oxm_icmpv4_code_def
    of12_oxm_icmpv4_code_masked_def of12_oxm_icmpv4_type_def of12_oxm_icmpv4_type_masked_def
    of12_oxm_icmpv6_code_def of12_oxm_icmpv6_code_masked_def of12_oxm_icmpv6_type_def
    of12_oxm_icmpv6_type_masked_def of12_oxm_in_phy_port_def of12_oxm_in_phy_port_masked_def
    of12_oxm_in_port_def of12_oxm_in_port_masked_def of12_oxm_ip_dscp_def of12_oxm_ip_dscp_masked_def
    of12_oxm_ip_ecn_def of12_oxm_ip_ecn_masked_def of12_oxm_ip_proto_def of12_oxm_ip_proto_masked_def
    of12_oxm_ipv4_dst_def of12_oxm_ipv4_dst_masked_def of12_oxm_ipv4_src_def
    of12_oxm_ipv4_src_masked_def
    del: One_nat_def)

lemma of12Oxm_checked_1c [unfolded list.pred_inject prod.case, loxi_checked]:
  "list_all codec_ok
    [of12_oxm_ipv6_dst, of12_oxm_ipv6_dst_masked, of12_oxm_ipv6_flabel, of12_oxm_ipv6_flabel_masked,
     of12_oxm_ipv6_nd_sll, of12_oxm_ipv6_nd_sll_masked, of12_oxm_ipv6_nd_target,
     of12_oxm_ipv6_nd_target_masked, of12_oxm_ipv6_nd_tll, of12_oxm_ipv6_nd_tll_masked, of12_oxm_ipv6_src,
     of12_oxm_ipv6_src_masked, of12_oxm_metadata, of12_oxm_metadata_masked, of12_oxm_mpls_label,
     of12_oxm_mpls_label_masked, of12_oxm_mpls_tc, of12_oxm_mpls_tc_masked, of12_oxm_sctp_dst,
     of12_oxm_sctp_dst_masked, of12_oxm_sctp_src, of12_oxm_sctp_src_masked, of12_oxm_tcp_dst,
     of12_oxm_tcp_dst_masked, of12_oxm_tcp_src, of12_oxm_tcp_src_masked, of12_oxm_tunnel_ipv4_dst,
     of12_oxm_tunnel_ipv4_dst_masked, of12_oxm_tunnel_ipv4_src, of12_oxm_tunnel_ipv4_src_masked,
     of12_oxm_udp_dst, of12_oxm_udp_dst_masked, of12_oxm_udp_src, of12_oxm_udp_src_masked,
     of12_oxm_vlan_pcp, of12_oxm_vlan_pcp_masked, of12_oxm_vlan_vid, of12_oxm_vlan_vid_masked]"
  "list_all safe_cls
    [of12_oxm_ipv6_dst, of12_oxm_ipv6_dst_masked, of12_oxm_ipv6_flabel, of12_oxm_ipv6_flabel_masked,
     of12_oxm_ipv6_nd_sll, of12_oxm_ipv6_nd_sll_masked, of12_oxm_ipv6_nd_target,
     of12_oxm_ipv6_nd_target_masked, of12_oxm_ipv6_nd_tll, of12_oxm_ipv6_nd_tll_masked, of12_oxm_ipv6_src,
     of12_oxm_ipv6_src_masked, of12_oxm_metadata, of12_oxm_metadata_masked, of12_oxm_mpls_label,
     of12_oxm_mpls_label_masked, of12_oxm_mpls_tc, of12_oxm_mpls_tc_masked, of12_oxm_sctp_dst,
     of12_oxm_sctp_dst_masked, of12_oxm_sctp_src, of12_oxm_sctp_src_masked, of12_oxm_tcp_dst,
     of12_oxm_tcp_dst_masked, of12_oxm_tcp_src, of12_oxm_tcp_src_masked, of12_oxm_tunnel_ipv4_dst,
     of12_oxm_tunnel_ipv4_dst_masked, of12_oxm_tunnel_ipv4_src, of12_oxm_tunnel_ipv4_src_masked,
     of12_oxm_udp_dst, of12_oxm_udp_dst_masked, of12_oxm_udp_src, of12_oxm_udp_src_masked,
     of12_oxm_vlan_pcp, of12_oxm_vlan_pcp_masked, of12_oxm_vlan_vid, of12_oxm_vlan_vid_masked]"
  "list_all (\<lambda>c. \<not> needs_align c)
    [of12_oxm_ipv6_dst, of12_oxm_ipv6_dst_masked, of12_oxm_ipv6_flabel, of12_oxm_ipv6_flabel_masked,
     of12_oxm_ipv6_nd_sll, of12_oxm_ipv6_nd_sll_masked, of12_oxm_ipv6_nd_target,
     of12_oxm_ipv6_nd_target_masked, of12_oxm_ipv6_nd_tll, of12_oxm_ipv6_nd_tll_masked, of12_oxm_ipv6_src,
     of12_oxm_ipv6_src_masked, of12_oxm_metadata, of12_oxm_metadata_masked, of12_oxm_mpls_label,
     of12_oxm_mpls_label_masked, of12_oxm_mpls_tc, of12_oxm_mpls_tc_masked, of12_oxm_sctp_dst,
     of12_oxm_sctp_dst_masked, of12_oxm_sctp_src, of12_oxm_sctp_src_masked, of12_oxm_tcp_dst,
     of12_oxm_tcp_dst_masked, of12_oxm_tcp_src, of12_oxm_tcp_src_masked, of12_oxm_tunnel_ipv4_dst,
     of12_oxm_tunnel_ipv4_dst_masked, of12_oxm_tunnel_ipv4_src, of12_oxm_tunnel_ipv4_src_masked,
     of12_oxm_udp_dst, of12_oxm_udp_dst_masked, of12_oxm_udp_src, of12_oxm_udp_src_masked,
     of12_oxm_vlan_pcp, of12_oxm_vlan_pcp_masked, of12_oxm_vlan_vid, of12_oxm_vlan_vid_masked]"
  "list_all (\<lambda>(k, c). writes_const fL 0 k c)
    [(2147497488, of12_oxm_ipv6_dst), (2147497760, of12_oxm_ipv6_dst_masked),
     (2147497988, of12_oxm_ipv6_flabel), (2147498248, of12_oxm_ipv6_flabel_masked),
     (2147500038, of12_oxm_ipv6_nd_sll), (2147500300, of12_oxm_ipv6_nd_sll_masked),
     (2147499536, of12_oxm_ipv6_nd_target), (2147499808, of12_oxm_ipv6_nd_target_masked),
     (2147500550, of12_oxm_ipv6_nd_tll), (2147500812, of12_oxm_ipv6_nd_tll_masked),
     (2147496976, of12_oxm_ipv6_src), (2147497248, of12_oxm_ipv6_src_masked),
     (2147484680, of12_oxm_metadata), (2147484944, of12_oxm_metadata_masked),
     (2147501060, of12_oxm_mpls_label), (2147501320, of12_oxm_mpls_label_masked),
     (2147501569, of12_oxm_mpls_tc), (2147501826, of12_oxm_mpls_tc_masked),
     (2147492866, of12_oxm_sctp_dst), (2147493124, of12_oxm_sctp_dst_masked),
     (2147492354, of12_oxm_sctp_src), (2147492612, of12_oxm_sctp_src_masked),
     (2147490818, of12_oxm_tcp_dst), (2147491076, of12_oxm_tcp_dst_masked), (2147490306, of12_oxm_tcp_src),
     (2147490564, of12_oxm_tcp_src_masked), (81924, of12_oxm_tunnel_ipv4_dst),
     (82184, of12_oxm_tunnel_ipv4_dst_masked), (81412, of12_oxm_tunnel_ipv4_src),
     (81672, of12_oxm_tunnel_ipv4_src_masked), (2147491842, of12_oxm_udp_dst),
     (2147492100, of12_oxm_udp_dst_masked), (2147491330, of12_oxm_udp_src),
     (2147491588, of12_oxm_udp_src_masked), (2147487233, of12_oxm_vlan_pcp),
     (2147487490, of12_oxm_vlan_pcp_masked), (2147486722, of12_oxm_vlan_vid),
     (2147486980, of12_oxm_vlan_vid_masked)]"
  by (simp_all add: loxi_formats loxi_eval loxi_checked
    of12_oxm_ipv6_dst_def of12_oxm_ipv6_dst_masked_def of12_oxm_ipv6_flabel_def
    of12_oxm_ipv6_flabel_masked_def of12_oxm_ipv6_nd_sll_def of12_oxm_ipv6_nd_sll_masked_def
    of12_oxm_ipv6_nd_target_def of12_oxm_ipv6_nd_target_masked_def of12_oxm_ipv6_nd_tll_def
    of12_oxm_ipv6_nd_tll_masked_def of12_oxm_ipv6_src_def of12_oxm_ipv6_src_masked_def
    of12_oxm_metadata_def of12_oxm_metadata_masked_def of12_oxm_mpls_label_def
    of12_oxm_mpls_label_masked_def of12_oxm_mpls_tc_def of12_oxm_mpls_tc_masked_def
    of12_oxm_sctp_dst_def of12_oxm_sctp_dst_masked_def of12_oxm_sctp_src_def
    of12_oxm_sctp_src_masked_def of12_oxm_tcp_dst_def of12_oxm_tcp_dst_masked_def of12_oxm_tcp_src_def
    of12_oxm_tcp_src_masked_def of12_oxm_tunnel_ipv4_dst_def of12_oxm_tunnel_ipv4_dst_masked_def
    of12_oxm_tunnel_ipv4_src_def of12_oxm_tunnel_ipv4_src_masked_def of12_oxm_udp_dst_def
    of12_oxm_udp_dst_masked_def of12_oxm_udp_src_def of12_oxm_udp_src_masked_def of12_oxm_vlan_pcp_def
    of12_oxm_vlan_pcp_masked_def of12_oxm_vlan_vid_def of12_oxm_vlan_vid_masked_def
    del: One_nat_def)

lemma of12Oxm_checked_2 [unfolded list.pred_inject prod.case, loxi_checked]:
  "list_all codec_ok
    [of12_oxm_oxm]"
  "list_all safe_cls
    [of12_oxm_oxm]"
  "list_all (\<lambda>c. \<not> needs_align c)
    [of12_oxm_oxm]"
  by (simp_all add: loxi_formats loxi_eval loxi_checked
    of12_oxm_oxm_def
    del: One_nat_def)

end
