(* ===== verification/Of13Elements.thy ===== *)
theory Of13Elements
  imports Of13Oxm
begin

text \<open>
  OpenFlow 1.3: the 203 classes of \<^verbatim>\<open>action.py\<close>, \<^verbatim>\<open>action_id.py\<close>, \<^verbatim>\<open>bsn_tlv.py\<close>,
  \<^verbatim>\<open>instruction.py\<close>, \<^verbatim>\<open>instruction_id.py\<close>, \<^verbatim>\<open>meter_band.py\<close>
  under \<^verbatim>\<open>src/ofagent/loxi/of13\<close>, and the check that \<^verbatim>\<open>unpack\<close> of each class
  reads what its \<^verbatim>\<open>pack\<close> writes.
\<close>


section \<open>Classes\<close>

definition of13_action_bsn_checksum :: cls where
  "of13_action_bsn_checksum =
     Cls ''bsn_checksum'' [(nm_type, 65535), (nm_experimenter, 6035143), (nm_subtype, 4)]
       [(nm_checksum, D_num 0)]
       [P_field nm_type fH, P_placeholder, P_field nm_experimenter fL, P_field nm_subtype fL,
        P_field nm_checksum fChecksum_128, P_length, P_set_len 1]
       None
       [U_local nm__type fH, U_assert nm__type 65535, U_local nm__len fH, U_slice nm__len 4,
        U_local nm__experimenter fL, U_assert nm__experimenter 6035143, U_local nm__subtype fL,
        U_assert nm__subtype 4, U_field nm_checksum fChecksum_128]
       [nm_checksum]"

definition of13_bsn_tlv_actor_key :: cls where
  "of13_bsn_tlv_actor_key =
     Cls ''actor_key'' [(nm_type, 44)]
       [(nm_value, D_num 0)]
       [P_field nm_type fH, P_placeholder, P_field nm_value fH, P_length, P_set_len 1]
       None
       [U_local nm__type fH, U_assert nm__type 44, U_local nm__length fH, U_slice nm__length 4,
        U_field nm_value fH]
       [nm_value]"

definition of13_bsn_tlv_actor_port_num :: cls where
  "of13_bsn_tlv_actor_port_num =
     Cls ''actor_port_num'' [(nm_type, 43)]
       [(nm_value, D_num 0)]
       [P_field nm_type fH, P_placeholder, P_field nm_value fH, P_length, P_set_len 1]
       None
       [U_local nm__type fH, U_assert nm__type 43, U_local nm__length fH, U_slice nm__length 4,
        U_field nm_value fH]
       [nm_value]"

definition of13_bsn_tlv_actor_port_priority :: cls where
  "of13_bsn_tlv_actor_port_priority =
     Cls ''actor_port_priority'' [(nm_type, 42)]
       [(nm_value, D_num 0)]
       [P_field nm_type fH, P_placeholder, P_field nm_value fH, P_length, P_set_len 1]
       None
       [U_local nm__type fH, U_assert nm__type 42, U_local nm__length fH, U_slice nm__length 4,
        U_field nm_value fH]
       [nm_value]"

definition of13_bsn_tlv_actor_state :: cls where
  "of13_bsn_tlv_actor_state =
     Cls ''actor_state'' [(nm_type, 53)]
       [(nm_value, D_num 0)]
       [P_field nm_type fH, P_placeholder, P_field nm_value fB, P_length, P_set_len 1]
       None
       [U_local nm__type fH, U_assert nm__type 53, U_local nm__length fH, U_slice nm__length 4,
        U_field nm_value fB]
       [nm_value]"

definition of13_bsn_tlv_actor_system_mac :: cls where
  "of13_bsn_tlv_actor_system_mac =
     Cls ''actor_system_mac'' [(nm_type, 41)]
       [(nm_value, D_nums [0,0,0,0,0,0])]
       [P_field nm_type fH, P_placeholder, P_field nm_value f6B, P_length, P_set_len 1]
       None
       [U_local nm__type fH, U_assert nm__type 41, U_local nm__length fH, U_slice nm__length 4,
        U_field nm_value f6B]
       [nm_value]"

definition of13_bsn_tlv_actor_system_priority :: cls where
  "of13_bsn_tlv_actor_system_priority =
     Cls ''actor_system_priority'' [(nm_type, 40)]
       [(nm_value, D_num 0)]
       [P_field nm_type fH, P_placeholder, P_field nm_value fH, P_length, P_set_len 1]
       None
       [U_local nm__type fH, U_assert nm__type 40, U_local nm__length fH, U_slice nm__length 4,
        U_field nm_value fH]
       [nm_value]"

definition of13_bsn_tlv_anchor :: cls where
  "of13_bsn_tlv_anchor =
     Cls ''anchor'' [(nm_type, 81)]
       [(nm_value, D_num 0)]
       [P_field nm_type fH, P_placeholder, P_field nm_value fH, P_length, P_set_len 1]
       None
       [U_local nm__type fH, U_assert nm__type 81, U_local nm__length fH, U_slice nm__length 4,
        U_field nm_value fH]
       [nm_value]"

definition of13_bsn_tlv_broadcast_query_timeout :: cls where
  "of13_bsn_tlv_broadcast_query_timeout =
     Cls ''broadcast_query_timeout'' [(nm_type, 10)]
       [(nm_value, D_num 0)]
       [P_field nm_type fH, P_placeholder, P_field nm_value fL, P_length, P_set_len 1]
       None
       [U_local nm__type fH, U_assert nm__type 10, U_local nm__length fH, U_slice nm__length 4,
        U_field nm_value fL]
       [nm_value]"

definition of13_bsn_tlv_broadcast_rate :: cls where
  "of13_bsn_tlv_broadcast_rate =
     Cls ''broadcast_rate'' [(nm_type, 90)]
       [(nm_value, D_num 0)]
       [P_field nm_type fH, P_placeholder, P_field nm_value fL, P_length, P_set_len 1]
       None
       [U_local nm__type fH, U_assert nm__type 90, U_local nm__length fH, U_slice nm__length 4,
        U_field nm_value fL]
       [nm_value]"

definition of13_bsn_tlv_bucket :: cls where
  "of13_bsn_tlv_bucket =
     Cls ''bucket'' [(nm_type, 64)]
       [(nm_value, D_list)]
       [P_field nm_type fH, P_placeholder, P_list nm_value, P_length, P_set_len 1]
       None
       [U_local nm__type fH, U_assert nm__type 64, U_local nm__length fH, U_slice nm__length 4,
        U_list_tlv nm_value]
       [nm_value]"

definition of13_bsn_tlv_circuit_id :: cls where
  "of13_bsn_tlv_circuit_id =
     Cls ''circuit_id'' [(nm_type, 14)]
       [(nm_value, D_str [])]
       [P_field nm_type fH, P_placeholder, P_raw nm_value, P_length, P_set_len 1]
       None
       [U_local nm__type fH, U_assert nm__type 14, U_local nm__length fH, U_slice nm__length 4,
        U_read_all nm_value]
       [nm_value]"

definition of13_bsn_tlv_convergence_status :: cls where
  "of13_bsn_tlv_convergence_status =
     Cls ''convergence_status'' [(nm_type, 45)]
       [(nm_value, D_num 0)]
       [P_field nm_type fH, P_placeholder, P_field nm_value fB, P_length, P_set_len 1]
       None
       [U_local nm__type fH, U_assert nm__type 45, U_local nm__length fH, U_slice nm__length 4,
        U_field nm_value fB]
       [nm_value]"

definition of13_bsn_tlv_crc_enabled :: cls where
  "of13_bsn_tlv_crc_enabled =
     Cls ''crc_enabled'' [(nm_type, 22)]
       [(nm_value, D_num 0)]
       [P_field nm_type fH, P_placeholder, P_field nm_value fB, P_length, P_set_len 1]
       None
       [U_local nm__type fH, U_assert nm__type 22, U_local nm__length fH, U_slice nm__length 4,
        U_field nm_value fB]
       [nm_value]"

definition of13_bsn_tlv_data :: cls where
  "of13_bsn_tlv_data =
     Cls ''data'' [(nm_type, 55)]
       [(nm_value, D_str [])]
       [P_field nm_type fH, P_placeholder, P_raw nm_value, P_length, P_set_len 1]
       None
       [U_local nm__type fH, U_assert nm__type 55, U_local nm__length fH, U_slice nm__length 4,
        U_read_all nm_value]
       [nm_value]"

definition of13_bsn_tlv_decap :: cls where
  "of13_bsn_tlv_decap =
     Cls ''decap'' [(nm_type, 85)]
       [(nm_value, D_num 0)]
       [P_field nm_type fH, P_placeholder, P_field nm_value fH, P_length, P_set_len 1]
       None
       [U_local nm__type fH, U_assert nm__type 85, U_local nm__length fH, U_slice nm__length 4,
        U_field nm_value fH]
       [nm_value]"

definition of13_bsn_tlv_eth_dst :: cls where
  "of13_bsn_tlv_eth_dst =
     Cls ''eth_dst'' [(nm_type, 33)]
       [(nm_value, D_nums [0,0,0,0,0,0])]
       [P_field nm_type fH, P_placeholder, P_field nm_value f6B, P_length, P_set_len 1]
       None
       [U_local nm__type fH, U_assert nm__type 33, U_local nm__length fH, U_slice nm__length 4,
        U_field nm_value f6B]
       [nm_value]"

definition of13_bsn_tlv_eth_src :: cls where
  "of13_bsn_tlv_eth_src =
     Cls ''eth_src'' [(nm_type, 32)]
       [(nm_value, D_nums [0,0,0,0,0,0])]
       [P_field nm_type fH, P_placeholder, P_field nm_value f6B, P_length, P_set_len 1]
       None
       [U_local nm__type fH, U_assert nm__type 32, U_local nm__length fH, U_slice nm__length 4,
        U_field nm_value f6B]
       [nm_value]"

definition of13_bsn_tlv_external_gateway_ip :: cls where
  "of13_bsn_tlv_external_gateway_ip =
     Cls ''external_gateway_ip'' [(nm_type, 26)]
       [(nm_value, D_num 0)]
       [P_field nm_type fH, P_placeholder, P_field nm_value fL, P_length, P_set_len 1]
       None
       [U_local nm__type fH, U_assert nm__type 26, U_local nm__length fH, U_slice nm__length 4,
        U_field nm_value fL]
       [nm_value]"

definition of13_bsn_tlv_external_gateway_mac :: cls where
  "of13_bsn_tlv_external_gateway_mac =
     Cls ''external_gateway_mac'' [(nm_type, 29)]
       [(nm_value, D_nums [0,0,0,0,0,0])]
       [P_field nm_type fH, P_placeholder, P_field nm_value f6B, P_length, P_set_len 1]
       None
       [U_local nm__type fH, U_assert nm__type 29, U_local nm__length fH, U_slice nm__length 4,
        U_field nm_value f6B]
       [nm_value]"

definition of13_bsn_tlv_external_ip :: cls where
  "of13_bsn_tlv_external_ip =
     Cls ''external_ip'' [(nm_type, 23)]
       [(nm_value, D_num 0)]
       [P_field nm_type fH, P_placeholder, P_field nm_value fL, P_length, P_set_len 1]
       None
       [U_local nm__type fH, U_assert nm__type 23, U_local nm__length fH, U_slice nm__length 4,
        U_field nm_value fL]
       [nm_value]"

definition of13_bsn_tlv_external_mac :: cls where
  "of13_bsn_tlv_external_mac =
     Cls ''external_mac'' [(nm_type, 24)]
       [(nm_value, D_nums [0,0,0,0,0,0])]
       [P_field nm_type fH, P_placeholder, P_field nm_value f6B, P_length, P_set_len 1]
       None
       [U_local nm__type fH, U_assert nm__type 24, U_local nm__length fH, U_slice nm__length 4,
        U_field nm_value f6B]
       [nm_value]"

definition of13_bsn_tlv_external_netmask :: cls where
  "of13_bsn_tlv_external_netmask =
     Cls ''external_netmask'' [(nm_type, 25)]
       [(nm_value, D_num 0)]
       [P_field nm_type fH, P_placeholder, P_field nm_value fL, P_length, P_set_len 1]
       None
       [U_local nm__type fH, U_assert nm__type 25, U_local nm__length fH, U_slice nm__length 4,
        U_field nm_value fL]
       [nm_value]"

definition of13_bsn_tlv_generation_id :: cls where
  "of13_bsn_tlv_generation_id =
     Cls ''generation_id'' [(nm_type, 80)]
       [(nm_value, D_num 0)]
       [P_field nm_type fH, P_placeholder, P_field nm_value fQ, P_length, P_set_len 1]
       None
       [U_local nm__type fH, U_assert nm__type 80, U_local nm__length fH, U_slice nm__length 4,
        U_field nm_value fQ]
       [nm_value]"

definition of13_bsn_tlv_hash_packet_field :: cls where
  "of13_bsn_tlv_hash_packet_field =
     Cls ''hash_packet_field'' [(nm_type, 103)]
       [(nm_value, D_num 0)]
       [P_field nm_type fH, P_placeholder, P_field nm_value fQ, P_length, P_set_len 1]
       None
       [U_local nm__type fH, U_assert nm__type 103, U_local nm__length fH, U_slice nm__length 4,
        U_field nm_value fQ]
       [nm_value]"

definition of13_bsn_tlv_hash_packet_type :: cls where
  "of13_bsn_tlv_hash_packet_type =
     Cls ''hash_packet_type'' [(nm_type, 102)]
       [(nm_value, D_num 0)]
       [P_field nm_type fH, P_placeholder, P_field nm_value fB, P_length, P_set_len 1]
       None
       [U_local nm__type fH, U_assert nm__type 102, U_local nm__length fH, U_slice nm__length 4,
        U_field nm_value fB]
       [nm_value]"

definition of13_bsn_tlv_hash_seed :: cls where
  "of13_bsn_tlv_hash_seed =
     Cls ''hash_seed'' [(nm_type, 100)]
       [(nm_seed1, D_num 0), (nm_seed2, D_num 0)]
       [P_field nm_type fH, P_placeholder, P_field nm_seed1 fL, P_field nm_seed2 fL, P_length,
        P_set_len 1]
       None
       [U_local nm__type fH, U_assert nm__type 100, U_local nm__length fH, U_slice nm__length 4,
        U_field nm_seed1 fL, U_field nm_seed2 fL]
       [nm_seed1, nm_seed2]"

definition of13_bsn_tlv_hash_type :: cls where
  "of13_bsn_tlv_hash_type =
     Cls ''hash_type'' [(nm_type, 101)]
       [(nm_value, D_num 0)]
       [P_field nm_type fH, P_placeholder, P_field nm_value fB, P_length, P_set_len 1]
       None
       [U_local nm__type fH, U_assert nm__type 101, U_local nm__length fH, U_slice nm__length 4,
        U_field nm_value fB]
       [nm_value]"

definition of13_bsn_tlv_header_size :: cls where
  "of13_bsn_tlv_header_size =
     Cls ''header_size'' [(nm_type, 31)]
       [(nm_value, D_num 0)]
       [P_field nm_type fH, P_placeholder, P_field nm_value fL, P_length, P_set_len 1]
       None
       [U_local nm__type fH, U_assert nm__type 31, U_local nm__length fH, U_slice nm__length 4,
        U_field nm_value fL]
       [nm_value]"

definition of13_bsn_tlv_icmp_code :: cls where
  "of13_bsn_tlv_icmp_code =
     Cls ''icmp_code'' [(nm_type, 69)]
       [(nm_value, D_num 0)]
       [P_field nm_type fH, P_placeholder, P_field nm_value fB, P_length, P_set_len 1]
       None
       [U_local nm__type fH, U_assert nm__type 69, U_local nm__length fH, U_slice nm__length 4,
        U_field nm_value fB]
       [nm_value]"

definition of13_bsn_tlv_icmp_id :: cls where
  "of13_bsn_tlv_icmp_id =
     Cls ''icmp_id'' [(nm_type, 70)]
       [(nm_value, D_num 0)]
       [P_field nm_type fH, P_placeholder, P_field nm_value fH, P_length, P_set_len 1]
       None
       [U_local nm__type fH, U_assert nm__type 70, U_local nm__length fH, U_slice nm__length 4,
        U_field nm_value fH]
       [nm_value]"

definition of13_bsn_tlv_icmp_type :: cls where
  "of13_bsn_tlv_icmp_type =
     Cls ''icmp_type'' [(nm_type, 68)]
       [(nm_value, D_num 0)]
       [P_field nm_type fH, P_placeholder, P_field nm_value fB, P_length, P_set_len 1]
       None
       [U_local nm__type fH, U_assert nm__type 68, U_local nm__length fH, U_slice nm__length 4,
        U_field nm_value fB]
       [nm_value]"

definition of13_bsn_tlv_idle_notification :: cls where
  "of13_bsn_tlv_idle_notification =
     Cls ''idle_notification'' [(nm_type, 7)]
       []
       [P_field nm_type fH, P_placeholder, P_length, P_set_len 1]
       None
       [U_local nm__type fH, U_assert nm__type 7, U_local nm__length fH, U_slice nm__length 4]
       []"

definition of13_bsn_tlv_idle_time :: cls where
  "of13_bsn_tlv_idle_time =
     Cls ''idle_time'' [(nm_type, 5)]
       [(nm_value, D_num 0)]
       [P_field nm_type fH, P_placeholder, P_field nm_value fQ, P_length, P_set_len 1]
       None
       [U_local nm__type fH, U_assert nm__type 5, U_local nm__length fH, U_slice nm__length 4,
        U_field nm_value fQ]
       [nm_value]"

definition of13_bsn_tlv_idle_timeout :: cls where
  "of13_bsn_tlv_idle_timeout =
     Cls ''idle_timeout'' [(nm_type, 8)]
       [(nm_value, D_num 0)]
       [P_field nm_type fH, P_placeholder, P_field nm_value fL, P_length, P_set_len 1]
       None
       [U_local nm__type fH, U_assert nm__type 8, U_local nm__length fH, U_slice nm__length 4,
        U_field nm_value fL]
       [nm_value]"

definition of13_bsn_tlv_igmp_snooping :: cls where
  "of13_bsn_tlv_igmp_snooping =
     Cls ''igmp_snooping'' [(nm_type, 78)]
       []
       [P_field nm_type fH, P_placeholder, P_length, P_set_len 1]
       None
       [U_local nm__type fH, U_assert nm__type 78, U_local nm__length fH, U_slice nm__length 4]
       []"

definition of13_bsn_tlv_internal_gateway_mac :: cls where
  "of13_bsn_tlv_internal_gateway_mac =
     Cls ''internal_gateway_mac'' [(nm_type, 28)]
       [(nm_value, D_nums [0,0,0,0,0,0])]
       [P_field nm_type fH, P_placeholder, P_field nm_value f6B, P_length, P_set_len 1]
       None
       [U_local nm__type fH, U_assert nm__type 28, U_local nm__length fH, U_slice nm__length 4,
        U_field nm_value f6B]
       [nm_value]"

definition of13_bsn_tlv_internal_mac :: cls where
  "of13_bsn_tlv_internal_mac =
     Cls ''internal_mac'' [(nm_type, 27)]
       [(nm_value, D_nums [0,0,0,0,0,0])]
       [P_field nm_type fH, P_placeholder, P_field nm_value f6B, P_length, P_set_len 1]
       None
       [U_local nm__type fH, U_assert nm__type 27, U_local nm__length fH, U_slice nm__length 4,
        U_field nm_value f6B]
       [nm_value]"

definition of13_bsn_tlv_interval :: cls where
  "of13_bsn_tlv_interval =
     Cls ''interval'' [(nm_type, 58)]
       [(nm_value, D_num 0)]
       [P_field nm_type fH, P_placeholder, P_field nm_value fL, P_length, P_set_len 1]
       None
       [U_local nm__type fH, U_assert nm__type 58, U_local nm__length fH, U_slice nm__length 4,
        U_field nm_value fL]
       [nm_value]"

definition of13_bsn_tlv_ip_proto :: cls where
  "of13_bsn_tlv_ip_proto =
     Cls ''ip_proto'' [(nm_type, 67)]
       [(nm_value, D_num 0)]
       [P_field nm_type fH, P_placeholder, P_field nm_value fB, P_length, P_set_len 1]
       None
       [U_local nm__type fH, U_assert nm__type 67, U_local nm__length fH, U_slice nm__length 4,
        U_field nm_value fB]
       [nm_value]"

definition of13_bsn_tlv_ipv4 :: cls where
  "of13_bsn_tlv_ipv4 =
     Cls ''ipv4'' [(nm_type, 4)]
       [(nm_value, D_num 0)]
       [P_field nm_type fH, P_placeholder, P_field nm_value fL, P_length, P_set_len 1]
       None
       [U_local nm__type fH, U_assert nm__type 4, U_local nm__length fH, U_slice nm__length 4,
        U_field nm_value fL]
       [nm_value]"

definition of13_bsn_tlv_ipv4_dst :: cls where
  "of13_bsn_tlv_ipv4_dst =
     Cls ''ipv4_dst'' [(nm_type, 35)]
       [(nm_value, D_num 0)]
       [P_field nm_type fH, P_placeholder, P_field nm_value fL, P_length, P_set_len 1]
       None
       [U_local nm__type fH, U_assert nm__type 35, U_local nm__length fH, U_slice nm__length 4,
        U_field nm_value fL]
       [nm_value]"

definition of13_bsn_tlv_ipv4_netmask :: cls where
  "of13_bsn_tlv_ipv4_netmask =
     Cls ''ipv4_netmask'' [(nm_type, 60)]
       [(nm_value, D_num 0)]
       [P_field nm_type fH, P_placeholder, P_field nm_value fL, P_length, P_set_len 1]
       None
       [U_local nm__type fH, U_assert nm__type 60, U_local nm__length fH, U_slice nm__length 4,
        U_field nm_value fL]
       [nm_value]"

definition of13_bsn_tlv_ipv4_src :: cls where
  "of13_bsn_tlv_ipv4_src =
     Cls ''ipv4_src'' [(nm_type, 34)]
       [(nm_value, D_num 0)]
       [P_field nm_type fH, P_placeholder, P_field nm_value fL, P_length, P_set_len 1]
       None
       [U_local nm__type fH, U_assert nm__type 34, U_local nm__length fH, U_slice nm__length 4,
        U_field nm_value fL]
       [nm_value]"

definition of13_bsn_tlv_ipv6 :: cls where
  "of13_bsn_tlv_ipv6 =
     Cls ''ipv6'' [(nm_type, 84)]
       [(nm_value, D_str (replicate 16 0))]
       [P_field nm_type fH, P_placeholder, P_field nm_value (fS 16), P_length, P_set_len 1]
       None
       [U_local nm__type fH, U_assert nm__type 84, U_local nm__length fH, U_slice nm__length 4,
        U_field nm_value (fS 16)]
       [nm_value]"

definition of13_bsn_tlv_known_multicast_rate :: cls where
  "of13_bsn_tlv_known_multicast_rate =
     Cls ''known_multicast_rate'' [(nm_type, 91)]
       [(nm_value, D_num 0)]
       [P_field nm_type fH, P_placeholder, P_field nm_value fL, P_length, P_set_len 1]
       None
       [U_local nm__type fH, U_assert nm__type 91, U_local nm__length fH, U_slice nm__length 4,
        U_field nm_value fL]
       [nm_value]"

definition of13_bsn_tlv_l2_multicast_lookup :: cls where
  "of13_bsn_tlv_l2_multicast_lookup =
     Cls ''l2_multicast_lookup'' [(nm_type, 79)]
       []
       [P_field nm_type fH, P_placeholder, P_length, P_set_len 1]
       None
       [U_local nm__type fH, U_assert nm__type 79, U_local nm__length fH, U_slice nm__length 4]
       []"

definition of13_bsn_tlv_mac :: cls where
  "of13_bsn_tlv_mac =
     Cls ''mac'' [(nm_type, 1)]
       [(nm_value, D_nums [0,0,0,0,0,0])]
       [P_field nm_type fH, P_placeholder, P_field nm_value f6B, P_length, P_set_len 1]
       None
       [U_local nm__type fH, U_assert nm__type 1, U_local nm__length fH, U_slice nm__length 4,
        U_field nm_value f6B]
       [nm_value]"

definition of13_bsn_tlv_mac_mask :: cls where
  "of13_bsn_tlv_mac_mask =
     Cls ''mac_mask'' [(nm_type, 56)]
       [(nm_value, D_nums [0,0,0,0,0,0])]
       [P_field nm_type fH, P_placeholder, P_field nm_value f6B, P_length, P_set_len 1]
       None
       [U_local nm__type fH, U_assert nm__type 56, U_local nm__length fH, U_slice nm__length 4,
        U_field nm_value f6B]
       [nm_value]"

definition of13_bsn_tlv_mcg_type_vxlan :: cls where
  "of13_bsn_tlv_mcg_type_vxlan =
     Cls ''mcg_type_vxlan'' [(nm_type, 87)]
       []
       [P_field nm_type fH, P_placeholder, P_length, P_set_len 1]
       None
       [U_local nm__type fH, U_assert nm__type 87, U_local nm__length fH, U_slice nm__length 4]
       []"

definition of13_bsn_tlv_miss_packets :: cls where
  "of13_bsn_tlv_miss_packets =
     Cls ''miss_packets'' [(nm_type, 13)]
       [(nm_value, D_num 0)]
       [P_field nm_type fH, P_placeholder, P_field nm_value fQ, P_length, P_set_len 1]
       None
       [U_local nm__type fH, U_assert nm__type 13, U_local nm__length fH, U_slice nm__length 4,
        U_field nm_value fQ]
       [nm_value]"

definition of13_bsn_tlv_mpls_control_word :: cls where
  "of13_bsn_tlv_mpls_control_word =
     Cls ''mpls_control_word'' [(nm_type, 62)]
       [(nm_value, D_num 0)]
       [P_field nm_type fH, P_placeholder, P_field nm_value fB, P_length, P_set_len 1]
       None
       [U_local nm__type fH, U_assert nm__type 62, U_local nm__length fH, U_slice nm__length 4,
        U_field nm_value fB]
       [nm_value]"

definition of13_bsn_tlv_mpls_label :: cls where
  "of13_bsn_tlv_mpls_label =
     Cls ''mpls_label'' [(nm_type, 61)]
       [(nm_value, D_num 0)]
       [P_field nm_type fH, P_placeholder, P_field nm_value fL, P_length, P_set_len 1]
       None
       [U_local nm__type fH, U_assert nm__type 61, U_local nm__length fH, U_slice nm__length 4,
        U_field nm_value fL]
       [nm_value]"

definition of13_bsn_tlv_mpls_sequenced :: cls where
  "of13_bsn_tlv_mpls_sequenced =
     Cls ''mpls_sequenced'' [(nm_type, 63)]
       [(nm_value, D_num 0)]
       [P_field nm_type fH, P_placeholder, P_field nm_value fB, P_length, P_set_len 1]
       None
       [U_local nm__type fH, U_assert nm__type 63, U_local nm__length fH, U_slice nm__length 4,
        U_field nm_value fB]
       [nm_value]"

definition of13_bsn_tlv_multicast_interface_id :: cls where
  "of13_bsn_tlv_multicast_interface_id =
     Cls ''multicast_interface_id'' [(nm_type, 95)]
       [(nm_value, D_num 0)]
       [P_field nm_type fH, P_placeholder, P_field nm_value fL, P_length, P_set_len 1]
       None
       [U_local nm__type fH, U_assert nm__type 95, U_local nm__length fH, U_slice nm__length 4,
        U_field nm_value fL]
       [nm_value]"

definition of13_bsn_tlv_name :: cls where
  "of13_bsn_tlv_name =
     Cls ''name'' [(nm_type, 52)]
       [(nm_value, D_str [])]
       [P_field nm_type fH, P_placeholder, P_raw nm_value, P_length, P_set_len 1]
       None
       [U_local nm__type fH, U_assert nm__type 52, U_local nm__length fH, U_slice nm__length 4,
        U_read_all nm_value]
       [nm_value]"

definition of13_bsn_tlv_negate :: cls where
  "of13_bsn_tlv_negate =
     Cls ''negate'' [(nm_type, 83)]
       []
       [P_field nm_type fH, P_placeholder, P_length, P_set_len 1]
       None
       [U_local nm__type fH, U_assert nm__type 83, U_local nm__length fH, U_slice nm__length 4]
       []"

definition of13_bsn_tlv_nexthop_type_vxlan :: cls where
  "of13_bsn_tlv_nexthop_type_vxlan =
     Cls ''nexthop_type_vxlan'' [(nm_type, 94)]
       []
       [P_field nm_type fH, P_placeholder, P_length, P_set_len 1]
       None
       [U_local nm__type fH, U_assert nm__type 94, U_local nm__length fH, U_slice nm__length 4]
       []"

definition of13_bsn_tlv_offset :: cls where
  "of13_bsn_tlv_offset =
     Cls ''offset'' [(nm_type, 82)]
       [(nm_value, D_num 0)]
       [P_field nm_type fH, P_placeholder, P_field nm_value fH, P_length, P_set_len 1]
       None
       [U_local nm__type fH, U_assert nm__type 82, U_local nm__length fH, U_slice nm__length 4,
        U_field nm_value fH]
       [nm_value]"

definition of13_bsn_tlv_partner_key :: cls where
  "of13_bsn_tlv_partner_key =
     Cls ''partner_key'' [(nm_type, 51)]
       [(nm_value, D_num 0)]
       [P_field nm_type fH, P_placeholder, P_field nm_value fH, P_length, P_set_len 1]
       None
       [U_local nm__type fH, U_assert nm__type 51, U_local nm__length fH, U_slice nm__length 4,
        U_field nm_value fH]
       [nm_value]"

definition of13_bsn_tlv_partner_port_num :: cls where
  "of13_bsn_tlv_partner_port_num =
     Cls ''partner_port_num'' [(nm_type, 50)]
       [(nm_value, D_num 0)]
       [P_field nm_type fH, P_placeholder, P_field nm_value fH, P_length, P_set_len 1]
       None
       [U_local nm__type fH, U_assert nm__type 50, U_local nm__length fH, U_slice nm__length 4,
        U_field nm_value fH]
       [nm_value]"

definition of13_bsn_tlv_partner_port_priority :: cls where
  "of13_bsn_tlv_partner_port_priority =
     Cls ''partner_port_priority'' [(nm_type, 49)]
       [(nm_value, D_num 0)]
       [P_field nm_type fH, P_placeholder, P_field nm_value fH, P_length, P_set_len 1]
       None
       [U_local nm__type fH, U_assert nm__type 49, U_local nm__length fH, U_slice nm__length 4,
        U_field nm_value fH]
       [nm_value]"

definition of13_bsn_tlv_partner_state :: cls where
  "of13_bsn_tlv_partner_state =
     Cls ''partner_state'' [(nm_type, 54)]
       [(nm_value, D_num 0)]
       [P_field nm_type fH, P_placeholder, P_field nm_value fB, P_length, P_set_len 1]
       None
       [U_local nm__type fH, U_assert nm__type 54, U_local nm__length fH, U_slice nm__length 4,
        U_field nm_value fB]
       [nm_value]"

definition of13_bsn_tlv_partner_system_mac :: cls where
  "of13_bsn_tlv_partner_system_mac =
     Cls ''partner_system_mac'' [(nm_type, 48)]
       [(nm_value, D_nums [0,0,0,0,0,0])]
       [P_field nm_type fH, P_placeholder, P_field nm_value f6B, P_length, P_set_len 1]
       None
       [U_local nm__type fH, U_assert nm__type 48, U_local nm__length fH, U_slice nm__length 4,
        U_field nm_value f6B]
       [nm_value]"

definition of13_bsn_tlv_partner_system_priority :: cls where
  "of13_bsn_tlv_partner_system_priority =
     Cls ''partner_system_priority'' [(nm_type, 47)]
       [(nm_value, D_num 0)]
       [P_field nm_type fH, P_placeholder, P_field nm_value fH, P_length, P_set_len 1]
       None
       [U_local nm__type fH, U_assert nm__type 47, U_local nm__length fH, U_slice nm__length 4,
        U_field nm_value fH]
       [nm_value]"

definition of13_bsn_tlv_port :: cls where
  "of13_bsn_tlv_port =
     Cls ''port'' [(nm_type, 0)]
       [(nm_value, D_num 0)]
       [P_field nm_type fH, P_placeholder, P_field nm_value of13_port_no, P_length, P_set_len 1]
       None
       [U_local nm__type fH, U_assert nm__type 0, U_local nm__length fH, U_slice nm__length 4,
        U_field nm_value of13_port_no]
       [nm_value]"

definition of13_bsn_tlv_port_vxlan_mode :: cls where
  "of13_bsn_tlv_port_vxlan_mode =
     Cls ''port_vxlan_mode'' [(nm_type, 88)]
       [(nm_value, D_num 0)]
       [P_field nm_type fH, P_placeholder, P_field nm_value fB, P_length, P_set_len 1]
       None
       [U_local nm__type fH, U_assert nm__type 88, U_local nm__length fH, U_slice nm__length 4,
        U_field nm_value fB]
       [nm_value]"

definition of13_bsn_tlv_priority :: cls where
  "of13_bsn_tlv_priority =
     Cls ''priority'' [(nm_type, 57)]
       [(nm_value, D_num 0)]
       [P_field nm_type fH, P_placeholder, P_field nm_value fL, P_length, P_set_len 1]
       None
       [U_local nm__type fH, U_assert nm__type 57, U_local nm__length fH, U_slice nm__length 4,
        U_field nm_value fL]
       [nm_value]"

definition of13_bsn_tlv_queue_id :: cls where
  "of13_bsn_tlv_queue_id =
     Cls ''queue_id'' [(nm_type, 20)]
       [(nm_value, D_num 0)]
       [P_field nm_type fH, P_placeholder, P_field nm_value fL, P_length, P_set_len 1]
       None
       [U_local nm__type fH, U_assert nm__type 20, U_local nm__length fH, U_slice nm__length 4,
        U_field nm_value fL]
       [nm_value]"

definition of13_bsn_tlv_queue_weight :: cls where
  "of13_bsn_tlv_queue_weight =
     Cls ''queue_weight'' [(nm_type, 21)]
       [(nm_value, D_num 0)]
       [P_field nm_type fH, P_placeholder, P_field nm_value fL, P_length, P_set_len 1]
       None
       [U_local nm__type fH, U_assert nm__type 21, U_local nm__length fH, U_slice nm__length 4,
        U_field nm_value fL]
       [nm_value]"

definition of13_bsn_tlv_rate_unit :: cls where
  "of13_bsn_tlv_rate_unit =
     Cls ''rate_unit'' [(nm_type, 89)]
       [(nm_value, D_num 0)]
       [P_field nm_type fH, P_placeholder, P_field nm_value fB, P_length, P_set_len 1]
       None
       [U_local nm__type fH, U_assert nm__type 89, U_local nm__length fH, U_slice nm__length 4,
        U_field nm_value fB]
       [nm_value]"

definition of13_bsn_tlv_reference :: cls where
  "of13_bsn_tlv_reference =
     Cls ''reference'' [(nm_type, 59)]
       [(nm_table_id, D_num 0), (nm_key, D_list)]
       [P_field nm_type fH, P_placeholder, P_field nm_table_id fH, P_list nm_key, P_length,
        P_set_len 1]
       None
       [U_local nm__type fH, U_assert nm__type 59, U_local nm__length fH, U_slice nm__length 4,
        U_field nm_table_id fH, U_list_tlv nm_key]
       [nm_table_id, nm_key]"

definition of13_bsn_tlv_reply_packets :: cls where
  "of13_bsn_tlv_reply_packets =
     Cls ''reply_packets'' [(nm_type, 12)]
       [(nm_value, D_num 0)]
       [P_field nm_type fH, P_placeholder, P_field nm_value fQ, P_length, P_set_len 1]
       None
       [U_local nm__type fH, U_assert nm__type 12, U_local nm__length fH, U_slice nm__length 4,
        U_field nm_value fQ]
       [nm_value]"

definition of13_bsn_tlv_request_packets :: cls where
  "of13_bsn_tlv_request_packets =
     Cls ''request_packets'' [(nm_type, 11)]
       [(nm_value, D_num 0)]
       [P_field nm_type fH, P_placeholder, P_field nm_value fQ, P_length, P_set_len 1]
       None
       [U_local nm__type fH, U_assert nm__type 11, U_local nm__length fH, U_slice nm__length 4,
        U_field nm_value fQ]
       [nm_value]"

definition of13_bsn_tlv_rx_bytes :: cls where
  "of13_bsn_tlv_rx_bytes =
     Cls ''rx_bytes'' [(nm_type, 71)]
       [(nm_value, D_num 0)]
       [P_field nm_type fH, P_placeholder, P_field nm_value fQ, P_length, P_set_len 1]
       None
       [U_local nm__type fH, U_assert nm__type 71, U_local nm__length fH, U_slice nm__length 4,
        U_field nm_value fQ]
       [nm_value]"

definition of13_bsn_tlv_rx_packets :: cls where
  "of13_bsn_tlv_rx_packets =
     Cls ''rx_packets'' [(nm_type, 2)]
       [(nm_value, D_num 0)]
       [P_field nm_type fH, P_placeholder, P_field nm_value fQ, P_length, P_set_len 1]
       None
       [U_local nm__type fH, U_assert nm__type 2, U_local nm__length fH, U_slice nm__length 4,
        U_field nm_value fQ]
       [nm_value]"

definition of13_bsn_tlv_sampling_rate :: cls where
  "of13_bsn_tlv_sampling_rate =
     Cls ''sampling_rate'' [(nm_type, 30)]
       [(nm_value, D_num 0)]
       [P_field nm_type fH, P_placeholder, P_field nm_value fL, P_length, P_set_len 1]
       None
       [U_local nm__type fH, U_assert nm__type 30, U_local nm__length fH, U_slice nm__length 4,
        U_field nm_value fL]
       [nm_value]"

definition of13_bsn_tlv_set_loopback_mode :: cls where
  "of13_bsn_tlv_set_loopback_mode =
     Cls ''set_loopback_mode'' [(nm_type, 74)]
       []
       [P_field nm_type fH, P_placeholder, P_length, P_set_len 1]
       None
       [U_local nm__type fH, U_assert nm__type 74, U_local nm__length fH, U_slice nm__length 4]
       []"

definition of13_bsn_tlv_status :: cls where
  "of13_bsn_tlv_status =
     Cls ''status'' [(nm_type, 97)]
       [(nm_value, D_num 0)]
       [P_field nm_type fH, P_placeholder, P_field nm_value fB, P_length, P_set_len 1]
       None
       [U_local nm__type fH, U_assert nm__type 97, U_local nm__length fH, U_slice nm__length 4,
        U_field nm_value fB]
       [nm_value]"

definition of13_bsn_tlv_strip_mpls_l2_on_ingress :: cls where
  "of13_bsn_tlv_strip_mpls_l2_on_ingress =
     Cls ''strip_mpls_l2_on_ingress'' [(nm_type, 75)]
       []
       [P_field nm_type fH, P_placeholder, P_length, P_set_len 1]
       None
       [U_local nm__type fH, U_assert nm__type 75, U_local nm__length fH, U_slice nm__length 4]
       []"

definition of13_bsn_tlv_strip_mpls_l3_on_ingress :: cls where
  "of13_bsn_tlv_strip_mpls_l3_on_ingress =
     Cls ''strip_mpls_l3_on_ingress'' [(nm_type, 76)]
       []
       [P_field nm_type fH, P_placeholder, P_length, P_set_len 1]
       None
       [U_local nm__type fH, U_assert nm__type 76, U_local nm__length fH, U_slice nm__length 4]
       []"

definition of13_bsn_tlv_strip_vlan_on_egress :: cls where
  "of13_bsn_tlv_strip_vlan_on_egress =
     Cls ''strip_vlan_on_egress'' [(nm_type, 73)]
       []
       [P_field nm_type fH, P_placeholder, P_length, P_set_len 1]
       None
       [U_local nm__type fH, U_assert nm__type 73, U_local nm__length fH, U_slice nm__length 4]
       []"

definition of13_bsn_tlv_sub_agent_id :: cls where
  "of13_bsn_tlv_sub_agent_id =
     Cls ''sub_agent_id'' [(nm_type, 38)]
       [(nm_value, D_num 0)]
       [P_field nm_type fH, P_placeholder, P_field nm_value fL, P_length, P_set_len 1]
       None
       [U_local nm__type fH, U_assert nm__type 38, U_local nm__length fH, U_slice nm__length 4,
        U_field nm_value fL]
       [nm_value]"

definition of13_bsn_tlv_tcp_dst :: cls where
  "of13_bsn_tlv_tcp_dst =
     Cls ''tcp_dst'' [(nm_type, 66)]
       [(nm_value, D_num 0)]
       [P_field nm_type fH, P_placeholder, P_field nm_value fH, P_length, P_set_len 1]
       None
       [U_local nm__type fH, U_assert nm__type 66, U_local nm__length fH, U_slice nm__length 4,
        U_field nm_value fH]
       [nm_value]"

definition of13_bsn_tlv_tcp_src :: cls where
  "of13_bsn_tlv_tcp_src =
     Cls ''tcp_src'' [(nm_type, 65)]
       [(nm_value, D_num 0)]
       [P_field nm_type fH, P_placeholder, P_field nm_value fH, P_length, P_set_len 1]
       None
       [U_local nm__type fH, U_assert nm__type 65, U_local nm__length fH, U_slice nm__length 4,
        U_field nm_value fH]
       [nm_value]"

definition of13_bsn_tlv_tx_bytes :: cls where
  "of13_bsn_tlv_tx_bytes =
     Cls ''tx_bytes'' [(nm_type, 39)]
       [(nm_value, D_num 0)]
       [P_field nm_type fH, P_placeholder, P_field nm_value fQ, P_length, P_set_len 1]
       None
       [U_local nm__type fH, U_assert nm__type 39, U_local nm__length fH, U_slice nm__length 4,
        U_field nm_value fQ]
       [nm_value]"

definition of13_bsn_tlv_tx_packets :: cls where
  "of13_bsn_tlv_tx_packets =
     Cls ''tx_packets'' [(nm_type, 3)]
       [(nm_value, D_num 0)]
       [P_field nm_type fH, P_placeholder, P_field nm_value fQ, P_length, P_set_len 1]
       None
       [U_local nm__type fH, U_assert nm__type 3, U_local nm__length fH, U_slice nm__length 4,
        U_field nm_value fQ]
       [nm_value]"

definition of13_bsn_tlv_udf_anchor :: cls where
  "of13_bsn_tlv_udf_anchor =
     Cls ''udf_anchor'' [(nm_type, 16)]
       [(nm_value, D_num 0)]
       [P_field nm_type fH, P_placeholder, P_field nm_value fH, P_length, P_set_len 1]
       None
       [U_local nm__type fH, U_assert nm__type 16, U_local nm__length fH, U_slice nm__length 4,
        U_field nm_value fH]
       [nm_value]"

definition of13_bsn_tlv_udf_id :: cls where
  "of13_bsn_tlv_udf_id =
     Cls ''udf_id'' [(nm_type, 15)]
       [(nm_value, D_num 0)]
       [P_field nm_type fH, P_placeholder, P_field nm_value fH, P_length, P_set_len 1]
       None
       [U_local nm__type fH, U_assert nm__type 15, U_local nm__length fH, U_slice nm__length 4,
        U_field nm_value fH]
       [nm_value]"

definition of13_bsn_tlv_udf_length :: cls where
  "of13_bsn_tlv_udf_length =
     Cls ''udf_length'' [(nm_type, 18)]
       [(nm_value, D_num 0)]
       [P_field nm_type fH, P_placeholder, P_field nm_value fH, P_length, P_set_len 1]
       None
       [U_local nm__type fH, U_assert nm__type 18, U_local nm__length fH, U_slice nm__length 4,
        U_field nm_value fH]
       [nm_value]"

definition of13_bsn_tlv_udf_offset :: cls where
  "of13_bsn_tlv_udf_offset =
     Cls ''udf_offset'' [(nm_type, 17)]
       [(nm_value, D_num 0)]
       [P_field nm_type fH, P_placeholder, P_field nm_value fH, P_length, P_set_len 1]
       None
       [U_local nm__type fH, U_assert nm__type 17, U_local nm__length fH, U_slice nm__length 4,
        U_field nm_value fH]
       [nm_value]"

definition of13_bsn_tlv_udp_dst :: cls where
  "of13_bsn_tlv_udp_dst =
     Cls ''udp_dst'' [(nm_type, 37)]
       [(nm_value, D_num 0)]
       [P_field nm_type fH, P_placeholder, P_field nm_value fH, P_length, P_set_len 1]
       None
       [U_local nm__type fH, U_assert nm__type 37, U_local nm__length fH, U_slice nm__length 4,
        U_field nm_value fH]
       [nm_value]"

definition of13_bsn_tlv_udp_src :: cls where
  "of13_bsn_tlv_udp_src =
     Cls ''udp_src'' [(nm_type, 36)]
       [(nm_value, D_num 0)]
       [P_field nm_type fH, P_placeholder, P_field nm_value fH, P_length, P_set_len 1]
       None
       [U_local nm__type fH, U_assert nm__type 36, U_local nm__length fH, U_slice nm__length 4,
        U_field nm_value fH]
       [nm_value]"

definition of13_bsn_tlv_unicast_query_timeout :: cls where
  "of13_bsn_tlv_unicast_query_timeout =
     Cls ''unicast_query_timeout'' [(nm_type, 9)]
       [(nm_value, D_num 0)]
       [P_field nm_type fH, P_placeholder, P_field nm_value fL, P_length, P_set_len 1]
       None
       [U_local nm__type fH, U_assert nm__type 9, U_local nm__length fH, U_slice nm__length 4,
        U_field nm_value fL]
       [nm_value]"

definition of13_bsn_tlv_unicast_rate :: cls where
  "of13_bsn_tlv_unicast_rate =
     Cls ''unicast_rate'' [(nm_type, 93)]
       [(nm_value, D_num 0)]
       [P_field nm_type fH, P_placeholder, P_field nm_value fL, P_length, P_set_len 1]
       None
       [U_local nm__type fH, U_assert nm__type 93, U_local nm__length fH, U_slice nm__length 4,
        U_field nm_value fL]
       [nm_value]"

definition of13_bsn_tlv_unknown_multicast_rate :: cls where
  "of13_bsn_tlv_unknown_multicast_rate =
     Cls ''unknown_multicast_rate'' [(nm_type, 92)]
       [(nm_value, D_num 0)]
       [P_field nm_type fH, P_placeholder, P_field nm_value fL, P_length, P_set_len 1]
       None
       [U_local nm__type fH, U_assert nm__type 92, U_local nm__length fH, U_slice nm__length 4,
        U_field nm_value fL]
       [nm_value]"

definition of13_bsn_tlv_use_packet_state :: cls where
  "of13_bsn_tlv_use_packet_state =
     Cls ''use_packet_state'' [(nm_type, 96)]
       [(nm_value, D_num 0)]
       [P_field nm_type fH, P_placeholder, P_field nm_value fB, P_length, P_set_len 1]
       None
       [U_local nm__type fH, U_assert nm__type 96, U_local nm__length fH, U_slice nm__length 4,
        U_field nm_value fB]
       [nm_value]"

definition of13_bsn_tlv_vfi :: cls where
  "of13_bsn_tlv_vfi =
     Cls ''vfi'' [(nm_type, 99)]
       [(nm_value, D_num 0)]
       [P_field nm_type fH, P_placeholder, P_field nm_value fH, P_length, P_set_len 1]
       None
       [U_local nm__type fH, U_assert nm__type 99, U_local nm__length fH, U_slice nm__length 4,
        U_field nm_value fH]
       [nm_value]"

definition of13_bsn_tlv_vlan_pcp :: cls where
  "of13_bsn_tlv_vlan_pcp =
     Cls ''vlan_pcp'' [(nm_type, 72)]
       [(nm_value, D_num 0)]
       [P_field nm_type fH, P_placeholder, P_field nm_value fB, P_length, P_set_len 1]
       None
       [U_local nm__type fH, U_assert nm__type 72, U_local nm__length fH, U_slice nm__length 4,
        U_field nm_value fB]
       [nm_value]"

definition of13_bsn_tlv_vlan_vid :: cls where
  "of13_bsn_tlv_vlan_vid =
     Cls ''vlan_vid'' [(nm_type, 6)]
       [(nm_value, D_num 0)]
       [P_field nm_type fH, P_placeholder, P_field nm_value fH, P_length, P_set_len 1]
       None
       [U_local nm__type fH, U_assert nm__type 6, U_local nm__length fH, U_slice nm__length 4,
        U_field nm_value fH]
       [nm_value]"

definition of13_bsn_tlv_vlan_vid_mask :: cls where
  "of13_bsn_tlv_vlan_vid_mask =
     Cls ''vlan_vid_mask'' [(nm_type, 77)]
       [(nm_value, D_num 0)]
       [P_field nm_type fH, P_placeholder, P_field nm_value fH, P_length, P_set_len 1]
       None
       [U_local nm__type fH, U_assert nm__type 77, U_local nm__length fH, U_slice nm__length 4,
        U_field nm_value fH]
       [nm_value]"

definition of13_bsn_tlv_vni :: cls where
  "of13_bsn_tlv_vni =
     Cls ''vni'' [(nm_type, 86)]
       [(nm_value, D_num 0)]
       [P_field nm_type fH, P_placeholder, P_field nm_value fL, P_length, P_set_len 1]
       None
       [U_local nm__type fH, U_assert nm__type 86, U_local nm__length fH, U_slice nm__length 4,
        U_field nm_value fL]
       [nm_value]"

definition of13_bsn_tlv_vrf :: cls where
  "of13_bsn_tlv_vrf =
     Cls ''vrf'' [(nm_type, 19)]
       [(nm_value, D_num 0)]
       [P_field nm_type fH, P_placeholder, P_field nm_value fL, P_length, P_set_len 1]
       None
       [U_local nm__type fH, U_assert nm__type 19, U_local nm__length fH, U_slice nm__length 4,
        U_field nm_value fL]
       [nm_value]"

definition of13_bsn_tlv_bsn_tlv :: cls where
  "of13_bsn_tlv_bsn_tlv =
     Cls ''bsn_tlv'' []
       [(nm_type, D_num 0)]
       [P_field nm_type fH, P_placeholder, P_length, P_set_len 1]
       (Some (fH, 0,
         [(44, of13_bsn_tlv_actor_key), (43, of13_bsn_tlv_actor_port_num),
          (42, of13_bsn_tlv_actor_port_priority), (53, of13_bsn_tlv_actor_state),
          (41, of13_bsn_tlv_actor_system_mac), (40, of13_bsn_tlv_actor_system_priority),
          (81, of13_bsn_tlv_anchor), (10, of13_bsn_tlv_broadcast_query_timeout),
          (90, of13_bsn_tlv_broadcast_rate), (64, of13_bsn_tlv_bucket),
          (14, of13_bsn_tlv_circuit_id), (45, of13_bsn_tlv_convergence_status),
          (22, of13_bsn_tlv_crc_enabled), (55, of13_bsn_tlv_data), (85, of13_bsn_tlv_decap),
          (33, of13_bsn_tlv_eth_dst), (32, of13_bsn_tlv_eth_src),
          (26, of13_bsn_tlv_external_gateway_ip), (29, of13_bsn_tlv_external_gateway_mac),
          (23, of13_bsn_tlv_external_ip), (24, of13_bsn_tlv_external_mac),
          (25, of13_bsn_tlv_external_netmask), (80, of13_bsn_tlv_generation_id),
          (103, of13_bsn_tlv_hash_packet_field), (102, of13_bsn_tlv_hash_packet_type),
          (100, of13_bsn_tlv_hash_seed), (101, of13_bsn_tlv_hash_type),
          (31, of13_bsn_tlv_header_size), (69, of13_bsn_tlv_icmp_code), (70, of13_bsn_tlv_icmp_id),
          (68, of13_bsn_tlv_icmp_type), (7, of13_bsn_tlv_idle_notification),
          (5, of13_bsn_tlv_idle_time), (8, of13_bsn_tlv_idle_timeout),
          (78, of13_bsn_tlv_igmp_snooping), (28, of13_bsn_tlv_internal_gateway_mac),
          (27, of13_bsn_tlv_internal_mac), (58, of13_bsn_tlv_interval),
          (67, of13_bsn_tlv_ip_proto), (4, of13_bsn_tlv_ipv4), (35, of13_bsn_tlv_ipv4_dst),
          (60, of13_bsn_tlv_ipv4_netmask), (34, of13_bsn_tlv_ipv4_src), (84, of13_bsn_tlv_ipv6),
          (91, of13_bsn_tlv_known_multicast_rate), (79, of13_bsn_tlv_l2_multicast_lookup),
          (1, of13_bsn_tlv_mac), (56, of13_bsn_tlv_mac_mask), (87, of13_bsn_tlv_mcg_type_vxlan),
          (13, of13_bsn_tlv_miss_packets), (62, of13_bsn_tlv_mpls_control_word),
          (61, of13_bsn_tlv_mpls_label), (63, of13_bsn_tlv_mpls_sequenced),
          (95, of13_bsn_tlv_multicast_interface_id), (52, of13_bsn_tlv_name),
          (83, of13_bsn_tlv_negate), (94, of13_bsn_tlv_nexthop_type_vxlan),
          (82, of13_bsn_tlv_offset), (51, of13_bsn_tlv_partner_key),
          (50, of13_bsn_tlv_partner_port_num), (49, of13_bsn_tlv_partner_port_priority),
          (54, of13_bsn_tlv_partner_state), (48, of13_bsn_tlv_partner_system_mac),
          (47, of13_bsn_tlv_partner_system_priority), (0, of13_bsn_tlv_port),
          (88, of13_bsn_tlv_port_vxlan_mode), (57, of13_bsn_tlv_priority),
          (20, of13_bsn_tlv_queue_id), (21, of13_bsn_tlv_queue_weight),
          (89, of13_bsn_tlv_rate_unit), (59, of13_bsn_tlv_reference),
          (12, of13_bsn_tlv_reply_packets), (11, of13_bsn_tlv_request_packets),
          (71, of13_bsn_tlv_rx_bytes), (2, of13_bsn_tlv_rx_packets),
          (30, of13_bsn_tlv_sampling_rate), (74, of13_bsn_tlv_set_loopback_mode),
          (97, of13_bsn_tlv_status), (75, of13_bsn_tlv_strip_mpls_l2_on_ingress),
          (76, of13_bsn_tlv_strip_mpls_l3_on_ingress), (73, of13_bsn_tlv_strip_vlan_on_egress),
          (38, of13_bsn_tlv_sub_agent_id), (66, of13_bsn_tlv_tcp_dst), (65, of13_bsn_tlv_tcp_src),
          (39, of13_bsn_tlv_tx_bytes), (3, of13_bsn_tlv_tx_packets), (16, of13_bsn_tlv_udf_anchor),
          (15, of13_bsn_tlv_udf_id), (18, of13_bsn_tlv_udf_length), (17, of13_bsn_tlv_udf_offset),
          (37, of13_bsn_tlv_udp_dst), (36, of13_bsn_tlv_udp_src),
          (9, of13_bsn_tlv_unicast_query_timeout), (93, of13_bsn_tlv_unicast_rate),
          (92, of13_bsn_tlv_unknown_multicast_rate), (96, of13_bsn_tlv_use_packet_state),
          (99, of13_bsn_tlv_vfi), (72, of13_bsn_tlv_vlan_pcp), (6, of13_bsn_tlv_vlan_vid),
          (77, of13_bsn_tlv_vlan_vid_mask), (86, of13_bsn_tlv_vni), (19, of13_bsn_tlv_vrf)]))
       [U_field nm_type fH, U_local nm__length fH, U_slice nm__length 4]
       [nm_type]"

definition of13_action_bsn_gentable :: cls where
  "of13_action_bsn_gentable =
     Cls ''bsn_gentable'' [(nm_type, 65535), (nm_experimenter, 6035143), (nm_subtype, 5)]
       [(nm_table_id, D_num 0), (nm_key, D_list)]
       [P_field nm_type fH, P_placeholder, P_field nm_experimenter fL, P_field nm_subtype fL,
        P_field nm_table_id fL, P_list nm_key, P_length, P_set_len 1]
       None
       [U_local nm__type fH, U_assert nm__type 65535, U_local nm__len fH, U_slice nm__len 4,
        U_local nm__experimenter fL, U_assert nm__experimenter 6035143, U_local nm__subtype fL,
        U_assert nm__subtype 5, U_field nm_table_id fL, U_list nm_key of13_bsn_tlv_bsn_tlv]
       [nm_table_id, nm_key]"

definition of13_action_bsn_mirror :: cls where
  "of13_action_bsn_mirror =
     Cls ''bsn_mirror'' [(nm_type, 65535), (nm_experimenter, 6035143), (nm_subtype, 1)]
       [(nm_dest_port, D_num 0), (nm_vlan_tag, D_num 0), (nm_copy_stage, D_num 0)]
       [P_field nm_type fH, P_placeholder, P_field nm_experimenter fL, P_field nm_subtype fL,
        P_field nm_dest_port fL, P_field nm_vlan_tag fL, P_field nm_copy_stage fB, P_pad 3,
        P_length, P_set_len 1]
       None
       [U_local nm__type fH, U_assert nm__type 65535, U_local nm__len fH, U_slice nm__len 4,
        U_local nm__experimenter fL, U_assert nm__experimenter 6035143, U_local nm__subtype fL,
        U_assert nm__subtype 1, U_field nm_dest_port fL, U_field nm_vlan_tag fL,
        U_field nm_copy_stage fB, U_skip 3]
       [nm_dest_port, nm_vlan_tag, nm_copy_stage]"

definition of13_action_bsn_set_tunnel_dst :: cls where
  "of13_action_bsn_set_tunnel_dst =
     Cls ''bsn_set_tunnel_dst'' [(nm_type, 65535), (nm_experimenter, 6035143), (nm_subtype, 2)]
       [(nm_dst, D_num 0)]
       [P_field nm_type fH, P_placeholder, P_field nm_experimenter fL, P_field nm_subtype fL,
        P_field nm_dst fL, P_length, P_set_len 1]
       None
       [U_local nm__type fH, U_assert nm__type 65535, U_local nm__len fH, U_slice nm__len 4,
        U_local nm__experimenter fL, U_assert nm__experimenter 6035143, U_local nm__subtype fL,
        U_assert nm__subtype 2, U_field nm_dst fL]
       [nm_dst]"

definition of13_action_bsn :: cls where
  "of13_action_bsn =
     Cls ''bsn'' [(nm_type, 65535), (nm_experimenter, 6035143)]
       [(nm_subtype, D_num 0)]
       [P_field nm_type fH, P_placeholder, P_field nm_experimenter fL, P_field nm_subtype fL,
        P_pad 4, P_length, P_set_len 1]
       (Some (fL, 8,
         [(4, of13_action_bsn_checksum), (5, of13_action_bsn_gentable),
          (1, of13_action_bsn_mirror), (2, of13_action_bsn_set_tunnel_dst)]))
       [U_local nm__type fH, U_assert nm__type 65535, U_local nm__len fH, U_slice nm__len 4,
        U_local nm__experimenter fL, U_assert nm__experimenter 6035143, U_field nm_subtype fL,
        U_skip 4]
       [nm_subtype]"

definition of13_action_nicira_dec_ttl :: cls where
  "of13_action_nicira_dec_ttl =
     Cls ''nicira_dec_ttl'' [(nm_type, 65535), (nm_experimenter, 8992), (nm_subtype, 18)]
       []
       [P_field nm_type fH, P_placeholder, P_field nm_experimenter fL, P_field nm_subtype fH,
        P_pad 2, P_pad 4, P_length, P_set_len 1]
       None
       [U_local nm__type fH, U_assert nm__type 65535, U_local nm__len fH, U_slice nm__len 4,
        U_local nm__experimenter fL, U_assert nm__experimenter 8992, U_local nm__subtype fH,
        U_assert nm__subtype 18, U_skip 2, U_skip 4]
       []"

definition of13_action_nicira :: cls where
  "of13_action_nicira =
     Cls ''nicira'' [(nm_type, 65535), (nm_experimenter, 8992)]
       [(nm_subtype, D_num 0)]
       [P_field nm_type fH, P_placeholder, P_field nm_experimenter fL, P_field nm_subtype fH,
        P_pad 2, P_pad 4, P_length, P_set_len 1]
       (Some (fH, 8,
         [(18, of13_action_nicira_dec_ttl)]))
       [U_local nm__type fH, U_assert nm__type 65535, U_local nm__len fH, U_slice nm__len 4,
        U_local nm__experimenter fL, U_assert nm__experimenter 8992, U_field nm_subtype fH,
        U_skip 2, U_skip 4]
       [nm_subtype]"

definition of13_action_experimenter :: cls where
  "of13_action_experimenter =
     Cls ''experimenter'' [(nm_type, 65535)]
       [(nm_experimenter, D_num 0), (nm_data, D_str [])]
       [P_field nm_type fH, P_placeholder, P_field nm_experimenter fL, P_raw nm_data, P_length,
        P_pad_to 8, P_length_add, P_set_len 1]
       (Some (fL, 4,
         [(6035143, of13_action_bsn), (8992, of13_action_nicira)]))
       [U_local nm__type fH, U_assert nm__type 65535, U_local nm__len fH, U_slice nm__len 4,
        U_field nm_experimenter fL, U_read_all nm_data]
       [nm_experimenter, nm_data]"

definition of13_action_copy_ttl_in :: cls where
  "of13_action_copy_ttl_in =
     Cls ''copy_ttl_in'' [(nm_type, 12)]
       []
       [P_field nm_type fH, P_placeholder, P_pad 4, P_length, P_set_len 1]
       None
       [U_local nm__type fH, U_assert nm__type 12, U_local nm__len fH, U_slice nm__len 4, U_skip 4]
       []"

definition of13_action_copy_ttl_out :: cls where
  "of13_action_copy_ttl_out =
     Cls ''copy_ttl_out'' [(nm_type, 11)]
       []
       [P_field nm_type fH, P_placeholder, P_pad 4, P_length, P_set_len 1]
       None
       [U_local nm__type fH, U_assert nm__type 11, U_local nm__len fH, U_slice nm__len 4, U_skip 4]
       []"

definition of13_action_dec_mpls_ttl :: cls where
  "of13_action_dec_mpls_ttl =
     Cls ''dec_mpls_ttl'' [(nm_type, 16)]
       []
       [P_field nm_type fH, P_placeholder, P_pad 4, P_length, P_set_len 1]
       None
       [U_local nm__type fH, U_assert nm__type 16, U_local nm__len fH, U_slice nm__len 4, U_skip 4]
       []"

definition of13_action_dec_nw_ttl :: cls where
  "of13_action_dec_nw_ttl =
     Cls ''dec_nw_ttl'' [(nm_type, 24)]
       []
       [P_field nm_type fH, P_placeholder, P_pad 4, P_length, P_set_len 1]
       None
       [U_local nm__type fH, U_assert nm__type 24, U_local nm__len fH, U_slice nm__len 4, U_skip 4]
       []"

definition of13_action_group :: cls where
  "of13_action_group =
     Cls ''group'' [(nm_type, 22)]
       [(nm_group_id, D_num 0)]
       [P_field nm_type fH, P_placeholder, P_field nm_group_id fL, P_length, P_set_len 1]
       None
       [U_local nm__type fH, U_assert nm__type 22, U_local nm__len fH, U_slice nm__len 4,
        U_field nm_group_id fL]
       [nm_group_id]"

definition of13_action_output :: cls where
  "of13_action_output =
     Cls ''output'' [(nm_type, 0)]
       [(nm_port, D_num 0), (nm_max_len, D_num 0)]
       [P_field nm_type fH, P_placeholder, P_field nm_port of13_port_no, P_field nm_max_len fH,
        P_pad 6, P_length, P_set_len 1]
       None
       [U_local nm__type fH, U_assert nm__type 0, U_local nm__len fH, U_slice nm__len 4,
        U_field nm_port of13_port_no, U_field nm_max_len fH, U_skip 6]
       [nm_port, nm_max_len]"

definition of13_action_pop_mpls :: cls where
  "of13_action_pop_mpls =
     Cls ''pop_mpls'' [(nm_type, 20)]
       [(nm_ethertype, D_num 0)]
       [P_field nm_type fH, P_placeholder, P_field nm_ethertype fH, P_pad 2, P_length, P_set_len 1]
       None
       [U_local nm__type fH, U_assert nm__type 20, U_local nm__len fH, U_slice nm__len 4,
        U_field nm_ethertype fH, U_skip 2]
       [nm_ethertype]"

definition of13_action_pop_pbb :: cls where
  "of13_action_pop_pbb =
     Cls ''pop_pbb'' [(nm_type, 27)]
       []
       [P_field nm_type fH, P_placeholder, P_pad 4, P_length, P_set_len 1]
       None
       [U_local nm__type fH, U_assert nm__type 27, U_local nm__len fH, U_slice nm__len 4, U_skip 4]
       []"

definition of13_action_pop_vlan :: cls where
  "of13_action_pop_vlan =
     Cls ''pop_vlan'' [(nm_type, 18)]
       []
       [P_field nm_type fH, P_placeholder, P_pad 4, P_length, P_set_len 1]
       None
       [U_local nm__type fH, U_assert nm__type 18, U_local nm__len fH, U_slice nm__len 4, U_skip 4]
       []"

definition of13_action_push_mpls :: cls where
  "of13_action_push_mpls =
     Cls ''push_mpls'' [(nm_type, 19)]
       [(nm_ethertype, D_num 0)]
       [P_field nm_type fH, P_placeholder, P_field nm_ethertype fH, P_pad 2, P_length, P_set_len 1]
       None
       [U_local nm__type fH, U_assert nm__type 19, U_local nm__len fH, U_slice nm__len 4,
        U_field nm_ethertype fH, U_skip 2]
       [nm_ethertype]"

definition of13_action_push_pbb :: cls where
  "of13_action_push_pbb =
     Cls ''push_pbb'' [(nm_type, 26)]
       [(nm_ethertype, D_num 0)]
       [P_field nm_type fH, P_placeholder, P_field nm_ethertype fH, P_pad 2, P_length, P_set_len 1]
       None
       [U_local nm__type fH, U_assert nm__type 26, U_local nm__len fH, U_slice nm__len 4,
        U_field nm_ethertype fH, U_skip 2]
       [nm_ethertype]"

definition of13_action_push_vlan :: cls where
  "of13_action_push_vlan =
     Cls ''push_vlan'' [(nm_type, 17)]
       [(nm_ethertype, D_num 0)]
       [P_field nm_type fH, P_placeholder, P_field nm_ethertype fH, P_pad 2, P_length, P_set_len 1]
       None
       [U_local nm__type fH, U_assert nm__type 17, U_local nm__len fH, U_slice nm__len 4,
        U_field nm_ethertype fH, U_skip 2]
       [nm_ethertype]"

definition of13_action_set_field :: cls where
  "of13_action_set_field =
     Cls ''set_field'' [(nm_type, 25)]
       [(nm_field, D_None)]
       [P_field nm_type fH, P_placeholder, P_obj nm_field, P_length, P_pad_to 8, P_length_add,
        P_set_len 1]
       None
       [U_local nm__type fH, U_assert nm__type 25, U_local nm__len fH, U_slice nm__len 4,
        U_obj nm_field of13_oxm_oxm]
       [nm_field]"

definition of13_action_set_mpls_ttl :: cls where
  "of13_action_set_mpls_ttl =
     Cls ''set_mpls_ttl'' [(nm_type, 15)]
       [(nm_mpls_ttl, D_num 0)]
       [P_field nm_type fH, P_placeholder, P_field nm_mpls_ttl fB, P_pad 3, P_length, P_set_len 1]
       None
       [U_local nm__type fH, U_assert nm__type 15, U_local nm__len fH, U_slice nm__len 4,
        U_field nm_mpls_ttl fB, U_skip 3]
       [nm_mpls_ttl]"

definition of13_action_set_nw_ttl :: cls where
  "of13_action_set_nw_ttl =
     Cls ''set_nw_ttl'' [(nm_type, 23)]
       [(nm_nw_ttl, D_num 0)]
       [P_field nm_type fH, P_placeholder, P_field nm_nw_ttl fB, P_pad 3, P_length, P_set_len 1]
       None
       [U_local nm__type fH, U_assert nm__type 23, U_local nm__len fH, U_slice nm__len 4,
        U_field nm_nw_ttl fB, U_skip 3]
       [nm_nw_ttl]"

definition of13_action_set_queue :: cls where
  "of13_action_set_queue =
     Cls ''set_queue'' [(nm_type, 21)]
       [(nm_queue_id, D_num 0)]
       [P_field nm_type fH, P_placeholder, P_field nm_queue_id fL, P_length, P_set_len 1]
       None
       [U_local nm__type fH, U_assert nm__type 21, U_local nm__len fH, U_slice nm__len 4,
        U_field nm_queue_id fL]
       [nm_queue_id]"

definition of13_action_action :: cls where
  "of13_action_action =
     Cls ''action'' []
       [(nm_type, D_num 0)]
       [P_field nm_type fH, P_placeholder, P_pad 4, P_length, P_set_len 1]
       (Some (fH, 0,
         [(65535, of13_action_experimenter), (12, of13_action_copy_ttl_in),
          (11, of13_action_copy_ttl_out), (16, of13_action_dec_mpls_ttl),
          (24, of13_action_dec_nw_ttl), (22, of13_action_group), (0, of13_action_output),
          (20, of13_action_pop_mpls), (27, of13_action_pop_pbb), (18, of13_action_pop_vlan),
          (19, of13_action_push_mpls), (26, of13_action_push_pbb), (17, of13_action_push_vlan),
          (25, of13_action_set_field), (15, of13_action_set_mpls_ttl),
          (23, of13_action_set_nw_ttl), (21, of13_action_set_queue)]))
       [U_field nm_type fH, U_local nm__len fH, U_slice nm__len 4, U_skip 4]
       [nm_type]"

definition of13_action_id_bsn_checksum :: cls where
  "of13_action_id_bsn_checksum =
     Cls ''bsn_checksum'' [(nm_type, 65535), (nm_experimenter, 6035143), (nm_subtype, 4)]
       []
       [P_field nm_type fH, P_placeholder, P_field nm_experimenter fL, P_field nm_subtype fL,
        P_length, P_set_len 1]
       None
       [U_local nm__type fH, U_assert nm__type 65535, U_local nm__len fH, U_slice nm__len 4,
        U_local nm__experimenter fL, U_assert nm__experimenter 6035143, U_local nm__subtype fL,
        U_assert nm__subtype 4]
       []"

definition of13_action_id_bsn_gentable :: cls where
  "of13_action_id_bsn_gentable =
     Cls ''bsn_gentable'' [(nm_type, 65535), (nm_experimenter, 6035143), (nm_subtype, 5)]
       []
       [P_field nm_type fH, P_placeholder, P_field nm_experimenter fL, P_field nm_subtype fL,
        P_length, P_set_len 1]
       None
       [U_local nm__type fH, U_assert nm__type 65535, U_local nm__len fH, U_slice nm__len 4,
        U_local nm__experimenter fL, U_assert nm__experimenter 6035143, U_local nm__subtype fL,
        U_assert nm__subtype 5]
       []"

definition of13_action_id_bsn_mirror :: cls where
  "of13_action_id_bsn_mirror =
     Cls ''bsn_mirror'' [(nm_type, 65535), (nm_experimenter, 6035143), (nm_subtype, 1)]
       []
       [P_field nm_type fH, P_placeholder, P_field nm_experimenter fL, P_field nm_subtype fL,
        P_length, P_set_len 1]
       None
       [U_local nm__type fH, U_assert nm__type 65535, U_local nm__len fH, U_slice nm__len 4,
        U_local nm__experimenter fL, U_assert nm__experimenter 6035143, U_local nm__subtype fL,
        U_assert nm__subtype 1]
       []"

definition of13_action_id_bsn_set_tunnel_dst :: cls where
  "of13_action_id_bsn_set_tunnel_dst =
     Cls ''bsn_set_tunnel_dst'' [(nm_type, 65535), (nm_experimenter, 6035143), (nm_subtype, 2)]
       []
       [P_field nm_type fH, P_placeholder, P_field nm_experimenter fL, P_field nm_subtype fL,
        P_length, P_set_len 1]
       None
       [U_local nm__type fH, U_assert nm__type 65535, U_local nm__len fH, U_slice nm__len 4,
        U_local nm__experimenter fL, U_assert nm__experimenter 6035143, U_local nm__subtype fL,
        U_assert nm__subtype 2]
       []"

definition of13_action_id_bsn :: cls where
  "of13_action_id_bsn =
     Cls ''bsn'' [(nm_type, 65535), (nm_experimenter, 6035143)]
       [(nm_subtype, D_num 0)]
       [P_field nm_type fH, P_placeholder, P_field nm_experimenter fL, P_field nm_subtype fL,
        P_length, P_set_len 1]
       (Some (fL, 8,
         [(4, of13_action_id_bsn_checksum), (5, of13_action_id_bsn_gentable),
          (1, of13_action_id_bsn_mirror), (2, of13_action_id_bsn_set_tunnel_dst)]))
       [U_local nm__type fH, U_assert nm__type 65535, U_local nm__len fH, U_slice nm__len 4,
        U_local nm__experimenter fL, U_assert nm__experimenter 6035143, U_field nm_subtype fL]
       [nm_subtype]"

definition of13_action_id_nicira_dec_ttl :: cls where
  "of13_action_id_nicira_dec_ttl =
     Cls ''nicira_dec_ttl'' [(nm_type, 65535), (nm_experimenter, 8992), (nm_subtype, 18)]
       []
       [P_field nm_type fH, P_placeholder, P_field nm_experimenter fL, P_field nm_subtype fH,
        P_length, P_set_len 1]
       None
       [U_local nm__type fH, U_assert nm__type 65535, U_local nm__len fH, U_slice nm__len 4,
        U_local nm__experimenter fL, U_assert nm__experimenter 8992, U_local nm__subtype fH,
        U_assert nm__subtype 18]
       []"

definition of13_action_id_nicira :: cls where
  "of13_action_id_nicira =
     Cls ''nicira'' [(nm_type, 65535), (nm_experimenter, 8992)]
       [(nm_subtype, D_num 0)]
       [P_field nm_type fH, P_placeholder, P_field nm_experimenter fL, P_field nm_subtype fH,
        P_length, P_set_len 1]
       (Some (fH, 8,
         [(18, of13_action_id_nicira_dec_ttl)]))
       [U_local nm__type fH, U_assert nm__type 65535, U_local nm__len fH, U_slice nm__len 4,
        U_local nm__experimenter fL, U_assert nm__experimenter 8992, U_field nm_subtype fH]
       [nm_subtype]"

definition of13_action_id_experimenter :: cls where
  "of13_action_id_experimenter =
     Cls ''experimenter'' [(nm_type, 65535)]
       [(nm_experimenter, D_num 0)]
       [P_field nm_type fH, P_placeholder, P_field nm_experimenter fL, P_length, P_set_len 1]
       (Some (fL, 4,
         [(6035143, of13_action_id_bsn), (8992, of13_action_id_nicira)]))
       [U_local nm__type fH, U_assert nm__type 65535, U_local nm__len fH, U_slice nm__len 4,
        U_field nm_experimenter fL]
       [nm_experimenter]"

definition of13_action_id_copy_ttl_in :: cls where
  "of13_action_id_copy_ttl_in =
     Cls ''copy_ttl_in'' [(nm_type, 12)]
       []
       [P_field nm_type fH, P_placeholder, P_length, P_set_len 1]
       None
       [U_local nm__type fH, U_assert nm__type 12, U_local nm__len fH, U_slice nm__len 4]
       []"

definition of13_action_id_copy_ttl_out :: cls where
  "of13_action_id_copy_ttl_out =
     Cls ''copy_ttl_out'' [(nm_type, 11)]
       []
       [P_field nm_type fH, P_placeholder, P_length, P_set_len 1]
       None
       [U_local nm__type fH, U_assert nm__type 11, U_local nm__len fH, U_slice nm__len 4]
       []"

definition of13_action_id_dec_mpls_ttl :: cls where
  "of13_action_id_dec_mpls_ttl =
     Cls ''dec_mpls_ttl'' [(nm_type, 16)]
       []
       [P_field nm_type fH, P_placeholder, P_length, P_set_len 1]
       None
       [U_local nm__type fH, U_assert nm__type 16, U_local nm__len fH, U_slice nm__len 4]
       []"

definition of13_action_id_dec_nw_ttl :: cls where
  "of13_action_id_dec_nw_ttl =
     Cls ''dec_nw_ttl'' [(nm_type, 24)]
       []
       [P_field nm_type fH, P_placeholder, P_length, P_set_len 1]
       None
       [U_local nm__type fH, U_assert nm__type 24, U_local nm__len fH, U_slice nm__len 4]
       []"

definition of13_action_id_group :: cls where
  "of13_action_id_group =
     Cls ''group'' [(nm_type, 22)]
       []
       [P_field nm_type fH, P_placeholder, P_length, P_set_len 1]
       None
       [U_local nm__type fH, U_assert nm__type 22, U_local nm__len fH, U_slice nm__len 4]
       []"

definition of13_action_id_output :: cls where
  "of13_action_id_output =
     Cls ''output'' [(nm_type, 0)]
       []
       [P_field nm_type fH, P_placeholder, P_length, P_set_len 1]
       None
       [U_local nm__type fH, U_assert nm__type 0, U_local nm__len fH, U_slice nm__len 4]
       []"

definition of13_action_id_pop_mpls :: cls where
  "of13_action_id_pop_mpls =
     Cls ''pop_mpls'' [(nm_type, 20)]
       []
       [P_field nm_type fH, P_placeholder, P_length, P_set_len 1]
       None
       [U_local nm__type fH, U_assert nm__type 20, U_local nm__len fH, U_slice nm__len 4]
       []"

definition of13_action_id_pop_pbb :: cls where
  "of13_action_id_pop_pbb =
     Cls ''pop_pbb'' [(nm_type, 27)]
       []
       [P_field nm_type fH, P_placeholder, P_length, P_set_len 1]
       None
       [U_local nm__type fH, U_assert nm__type 27, U_local nm__len fH, U_slice nm__len 4]
       []"

definition of13_action_id_pop_vlan :: cls where
  "of13_action_id_pop_vlan =
     Cls ''pop_vlan'' [(nm_type, 18)]
       []
       [P_field nm_type fH, P_placeholder, P_length, P_set_len 1]
       None
       [U_local nm__type fH, U_assert nm__type 18, U_local nm__len fH, U_slice nm__len 4]
       []"

definition of13_action_id_push_mpls :: cls where
  "of13_action_id_push_mpls =
     Cls ''push_mpls'' [(nm_type, 19)]
       []
       [P_field nm_type fH, P_placeholder, P_length, P_set_len 1]
       None
       [U_local nm__type fH, U_assert nm__type 19, U_local nm__len fH, U_slice nm__len 4]
       []"

definition of13_action_id_push_pbb :: cls where
  "of13_action_id_push_pbb =
     Cls ''push_pbb'' [(nm_type, 26)]
       []
       [P_field nm_type fH, P_placeholder, P_length, P_set_len 1]
       None
       [U_local nm__type fH, U_assert nm__type 26, U_local nm__len fH, U_slice nm__len 4]
       []"

definition of13_action_id_push_vlan :: cls where
  "of13_action_id_push_vlan =
     Cls ''push_vlan'' [(nm_type, 17)]
       []
       [P_field nm_type fH, P_placeholder, P_length, P_set_len 1]
       None
       [U_local nm__type fH, U_assert nm__type 17, U_local nm__len fH, U_slice nm__len 4]
       []"

definition of13_action_id_set_field :: cls where
  "of13_action_id_set_field =
     Cls ''set_field'' [(nm_type, 25)]
       []
       [P_field nm_type fH, P_placeholder, P_length, P_set_len 1]
       None
       [U_local nm__type fH, U_assert nm__type 25, U_local nm__len fH, U_slice nm__len 4]
       []"

definition of13_action_id_set_mpls_ttl :: cls where
  "of13_action_id_set_mpls_ttl =
     Cls ''set_mpls_ttl'' [(nm_type, 15)]
       []
       [P_field nm_type fH, P_placeholder, P_length, P_set_len 1]
       None
       [U_local nm__type fH, U_assert nm__type 15, U_local nm__len fH, U_slice nm__len 4]
       []"

definition of13_action_id_set_nw_ttl :: cls where
  "of13_action_id_set_nw_ttl =
     Cls ''set_nw_ttl'' [(nm_type, 23)]
       []
       [P_field nm_type fH, P_placeholder, P_length, P_set_len 1]
       None
       [U_local nm__type fH, U_assert nm__type 23, U_local nm__len fH, U_slice nm__len 4]
       []"

definition of13_action_id_set_queue :: cls where
  "of13_action_id_set_queue =
     Cls ''set_queue'' [(nm_type, 21)]
       []
       [P_field nm_type fH, P_placeholder, P_length, P_set_len 1]
       None
       [U_local nm__type fH, U_assert nm__type 21, U_local nm__len fH, U_slice nm__len 4]
       []"

definition of13_action_id_action_id :: cls where
  "of13_action_id_action_id =
     Cls ''action_id'' []
       [(nm_type, D_num 0)]
       [P_field nm_type fH, P_placeholder, P_length, P_set_len 1]
       (Some (fH, 0,
         [(65535, of13_action_id_experimenter), (12, of13_action_id_copy_ttl_in),
          (11, of13_action_id_copy_ttl_out), (16, of13_action_id_dec_mpls_ttl),
          (24, of13_action_id_dec_nw_ttl), (22, of13_action_id_group), (0, of13_action_id_output),
          (20, of13_action_id_pop_mpls), (27, of13_action_id_pop_pbb),
          (18, of13_action_id_pop_vlan), (19, of13_action_id_push_mpls),
          (26, of13_action_id_push_pbb), (17, of13_action_id_push_vlan),
          (25, of13_action_id_set_field), (15, of13_action_id_set_mpls_ttl),
          (23, of13_action_id_set_nw_ttl), (21, of13_action_id_set_queue)]))
       [U_field nm_type fH, U_local nm__len fH, U_slice nm__len 4]
       [nm_type]"

definition of13_instruction_apply_actions :: cls where
  "of13_instruction_apply_actions =
     Cls ''apply_actions'' [(nm_type, 4)]
       [(nm_actions, D_list)]
       [P_field nm_type fH, P_placeholder, P_pad 4, P_list nm_actions, P_length, P_set_len 1]
       None
       [U_local nm__type fH, U_assert nm__type 4, U_local nm__len fH, U_slice nm__len 4, U_skip 4,
        U_list nm_actions of13_action_action]
       [nm_actions]"

definition of13_instruction_bsn_arp_offload :: cls where
  "of13_instruction_bsn_arp_offload =
     Cls ''bsn_arp_offload'' [(nm_type, 65535), (nm_experimenter, 6035143), (nm_subtype, 1)]
       []
       [P_field nm_type fH, P_placeholder, P_field nm_experimenter fL, P_field nm_subtype fL,
        P_pad 4, P_length, P_set_len 1]
       None
       [U_local nm__type fH, U_assert nm__type 65535, U_local nm__len fH, U_slice nm__len 4,
        U_local nm__experimenter fL, U_assert nm__experimenter 6035143, U_local nm__subtype fL,
        U_assert nm__subtype 1, U_skip 4]
       []"

definition of13_instruction_bsn_auto_negotiation :: cls where
  "of13_instruction_bsn_auto_negotiation =
     Cls ''bsn_auto_negotiation'' [(nm_type, 65535), (nm_experimenter, 6035143), (nm_subtype, 11)]
       []
       [P_field nm_type fH, P_placeholder, P_field nm_experimenter fL, P_field nm_subtype fL,
        P_pad 4, P_length, P_set_len 1]
       None
       [U_local nm__type fH, U_assert nm__type 65535, U_local nm__len fH, U_slice nm__len 4,
        U_local nm__experimenter fL, U_assert nm__experimenter 6035143, U_local nm__subtype fL,
        U_assert nm__subtype 11, U_skip 4]
       []"

definition of13_instruction_bsn_deny :: cls where
  "of13_instruction_bsn_deny =
     Cls ''bsn_deny'' [(nm_type, 65535), (nm_experimenter, 6035143), (nm_subtype, 5)]
       []
       [P_field nm_type fH, P_placeholder, P_field nm_experimenter fL, P_field nm_subtype fL,
        P_pad 4, P_length, P_set_len 1]
       None
       [U_local nm__type fH, U_assert nm__type 65535, U_local nm__len fH, U_slice nm__len 4,
        U_local nm__experimenter fL, U_assert nm__experimenter 6035143, U_local nm__subtype fL,
        U_assert nm__subtype 5, U_skip 4]
       []"

definition of13_instruction_bsn_dhcp_offload :: cls where
  "of13_instruction_bsn_dhcp_offload =
     Cls ''bsn_dhcp_offload'' [(nm_type, 65535), (nm_experimenter, 6035143), (nm_subtype, 2)]
       []
       [P_field nm_type fH, P_placeholder, P_field nm_experimenter fL, P_field nm_subtype fL,
        P_pad 4, P_length, P_set_len 1]
       None
       [U_local nm__type fH, U_assert nm__type 65535, U_local nm__len fH, U_slice nm__len 4,
        U_local nm__experimenter fL, U_assert nm__experimenter 6035143, U_local nm__subtype fL,
        U_assert nm__subtype 2, U_skip 4]
       []"

definition of13_instruction_bsn_disable_l3 :: cls where
  "of13_instruction_bsn_disable_l3 =
     Cls ''bsn_disable_l3'' [(nm_type, 65535), (nm_experimenter, 6035143), (nm_subtype, 13)]
       []
       [P_field nm_type fH, P_placeholder, P_field nm_experimenter fL, P_field nm_subtype fL,
        P_pad 4, P_length, P_set_len 1]
       None
       [U_local nm__type fH, U_assert nm__type 65535, U_local nm__len fH, U_slice nm__len 4,
        U_local nm__experimenter fL, U_assert nm__experimenter 6035143, U_local nm__subtype fL,
        U_assert nm__subtype 13, U_skip 4]
       []"

definition of13_instruction_bsn_disable_split_horizon_check :: cls where
  "of13_instruction_bsn_disable_split_horizon_check =
     Cls ''bsn_disable_split_horizon_check'' [(nm_type, 65535), (nm_experimenter, 6035143), (nm_subtype, 3)]
       []
       [P_field nm_type fH, P_placeholder, P_field nm_experimenter fL, P_field nm_subtype fL,
        P_pad 4, P_length, P_set_len 1]
       None
       [U_local nm__type fH, U_assert nm__type 65535, U_local nm__len fH, U_slice nm__len 4,
        U_local nm__experimenter fL, U_assert nm__experimenter 6035143, U_local nm__subtype fL,
        U_assert nm__subtype 3, U_skip 4]
       []"

definition of13_instruction_bsn_disable_src_mac_check :: cls where
  "of13_instruction_bsn_disable_src_mac_check =
     Cls ''bsn_disable_src_mac_check'' [(nm_type, 65535), (nm_experimenter, 6035143), (nm_subtype, 0)]
       []
       [P_field nm_type fH, P_placeholder, P_field nm_experimenter fL, P_field nm_subtype fL,
        P_pad 4, P_length, P_set_len 1]
       None
       [U_local nm__type fH, U_assert nm__type 65535, U_local nm__len fH, U_slice nm__len 4,
        U_local nm__experimenter fL, U_assert nm__experimenter 6035143, U_local nm__subtype fL,
        U_assert nm__subtype 0, U_skip 4]
       []"

definition of13_instruction_bsn_disable_vlan_counters :: cls where
  "of13_instruction_bsn_disable_vlan_counters =
     Cls ''bsn_disable_vlan_counters'' [(nm_type, 65535), (nm_experimenter, 6035143), (nm_subtype, 9)]
       []
       [P_field nm_type fH, P_placeholder, P_field nm_experimenter fL, P_field nm_subtype fL,
        P_pad 4, P_length, P_set_len 1]
       None
       [U_local nm__type fH, U_assert nm__type 65535, U_local nm__len fH, U_slice nm__len 4,
        U_local nm__experimenter fL, U_assert nm__experimenter 6035143, U_local nm__subtype fL,
        U_assert nm__subtype 9, U_skip 4]
       []"

definition of13_instruction_bsn_internal_priority :: cls where
  "of13_instruction_bsn_internal_priority =
     Cls ''bsn_internal_priority'' [(nm_type, 65535), (nm_experimenter, 6035143), (nm_subtype, 12)]
       [(nm_value, D_num 0)]
       [P_field nm_type fH, P_placeholder, P_field nm_experimenter fL, P_field nm_subtype fL,
        P_field nm_value fL, P_length, P_set_len 1]
       None
       [U_local nm__type fH, U_assert nm__type 65535, U_local nm__len fH, U_slice nm__len 4,
        U_local nm__experimenter fL, U_assert nm__experimenter 6035143, U_local nm__subtype fL,
        U_assert nm__subtype 12, U_field nm_value fL]
       [nm_value]"

definition of13_instruction_bsn_packet_of_death :: cls where
  "of13_instruction_bsn_packet_of_death =
     Cls ''bsn_packet_of_death'' [(nm_type, 65535), (nm_experimenter, 6035143), (nm_subtype, 6)]
       []
       [P_field nm_type fH, P_placeholder, P_field nm_experimenter fL, P_field nm_subtype fL,
        P_pad 4, P_length, P_set_len 1]
       None
       [U_local nm__type fH, U_assert nm__type 65535, U_local nm__len fH, U_slice nm__len 4,
        U_local nm__experimenter fL, U_assert nm__experimenter 6035143, U_local nm__subtype fL,
        U_assert nm__subtype 6, U_skip 4]
       []"

definition of13_instruction_bsn_permit :: cls where
  "of13_instruction_bsn_permit =
     Cls ''bsn_permit'' [(nm_type, 65535), (nm_experimenter, 6035143), (nm_subtype, 4)]
       []
       [P_field nm_type fH, P_placeholder, P_field nm_experimenter fL, P_field nm_subtype fL,
        P_pad 4, P_length, P_set_len 1]
       None
       [U_local nm__type fH, U_assert nm__type 65535, U_local nm__len fH, U_slice nm__len 4,
        U_local nm__experimenter fL, U_assert nm__experimenter 6035143, U_local nm__subtype fL,
        U_assert nm__subtype 4, U_skip 4]
       []"

definition of13_instruction_bsn_prioritize_pdus :: cls where
  "of13_instruction_bsn_prioritize_pdus =
     Cls ''bsn_prioritize_pdus'' [(nm_type, 65535), (nm_experimenter, 6035143), (nm_subtype, 7)]
       []
       [P_field nm_type fH, P_placeholder, P_field nm_experimenter fL, P_field nm_subtype fL,
        P_pad 4, P_length, P_set_len 1]
       None
       [U_local nm__type fH, U_assert nm__type 65535, U_local nm__len fH, U_slice nm__len 4,
        U_local nm__experimenter fL, U_assert nm__experimenter 6035143, U_local nm__subtype fL,
        U_assert nm__subtype 7, U_skip 4]
       []"

definition of13_instruction_bsn_require_vlan_xlate :: cls where
  "of13_instruction_bsn_require_vlan_xlate =
     Cls ''bsn_require_vlan_xlate'' [(nm_type, 65535), (nm_experimenter, 6035143), (nm_subtype, 8)]
       []
       [P_field nm_type fH, P_placeholder, P_field nm_experimenter fL, P_field nm_subtype fL,
        P_pad 4, P_length, P_set_len 1]
       None
       [U_local nm__type fH, U_assert nm__type 65535, U_local nm__len fH, U_slice nm__len 4,
        U_local nm__experimenter fL, U_assert nm__experimenter 6035143, U_local nm__subtype fL,
        U_assert nm__subtype 8, U_skip 4]
       []"

definition of13_instruction_bsn_span_destination :: cls where
  "of13_instruction_bsn_span_destination =
     Cls ''bsn_span_destination'' [(nm_type, 65535), (nm_experimenter, 6035143), (nm_subtype, 10)]
       []
       [P_field nm_type fH, P_placeholder, P_field nm_experimenter fL, P_field nm_subtype fL,
        P_pad 4, P_length, P_set_len 1]
       None
       [U_local nm__type fH, U_assert nm__type 65535, U_local nm__len fH, U_slice nm__len 4,
        U_local nm__experimenter fL, U_assert nm__experimenter 6035143, U_local nm__subtype fL,
        U_assert nm__subtype 10, U_skip 4]
       []"

definition of13_instruction_bsn :: cls where
  "of13_instruction_bsn =
     Cls ''bsn'' [(nm_type, 65535), (nm_experimenter, 6035143)]
       [(nm_subtype, D_num 0)]
       [P_field nm_type fH, P_placeholder, P_field nm_experimenter fL, P_field nm_subtype fL,
        P_pad 4, P_length, P_set_len 1]
       (Some (fL, 8,
         [(1, of13_instruction_bsn_arp_offload), (11, of13_instruction_bsn_auto_negotiation),
          (5, of13_instruction_bsn_deny), (2, of13_instruction_bsn_dhcp_offload),
          (13, of13_instruction_bsn_disable_l3),
          (3, of13_instruction_bsn_disable_split_horizon_check),
          (0, of13_instruction_bsn_disable_src_mac_check),
          (9, of13_instruction_bsn_disable_vlan_counters),
          (12, of13_instruction_bsn_internal_priority), (6, of13_instruction_bsn_packet_of_death),
          (4, of13_instruction_bsn_permit), (7, of13_instruction_bsn_prioritize_pdus),
          (8, of13_instruction_bsn_require_vlan_xlate),
          (10, of13_instruction_bsn_span_destination)]))
       [U_local nm__type fH, U_assert nm__type 65535, U_local nm__len fH, U_slice nm__len 4,
        U_local nm__experimenter fL, U_assert nm__experimenter 6035143, U_field nm_subtype fL,
        U_skip 4]
       [nm_subtype]"

definition of13_instruction_experimenter :: cls where
  "of13_instruction_experimenter =
     Cls ''experimenter'' [(nm_type, 65535)]
       [(nm_experimenter, D_num 0), (nm_data, D_str [])]
       [P_field nm_type fH, P_placeholder, P_field nm_experimenter fL, P_raw nm_data, P_length,
        P_set_len 1]
       (Some (fL, 4,
         [(6035143, of13_instruction_bsn)]))
       [U_local nm__type fH, U_assert nm__type 65535, U_local nm__len fH, U_slice nm__len 4,
        U_field nm_experimenter fL, U_read_all nm_data]
       [nm_experimenter, nm_data]"

definition of13_instruction_clear_actions :: cls where
  "of13_instruction_clear_actions =
     Cls ''clear_actions'' [(nm_type, 5)]
       []
       [P_field nm_type fH, P_placeholder, P_pad 4, P_length, P_set_len 1]
       None
       [U_local nm__type fH, U_assert nm__type 5, U_local nm__len fH, U_slice nm__len 4, U_skip 4]
       []"

definition of13_instruction_goto_table :: cls where
  "of13_instruction_goto_table =
     Cls ''goto_table'' [(nm_type, 1)]
       [(nm_table_id, D_num 0)]
       [P_field nm_type fH, P_placeholder, P_field nm_table_id fB, P_pad 3, P_length, P_set_len 1]
       None
       [U_local nm__type fH, U_assert nm__type 1, U_local nm__len fH, U_slice nm__len 4,
        U_field nm_table_id fB, U_skip 3]
       [nm_table_id]"

definition of13_instruction_meter :: cls where
  "of13_instruction_meter =
     Cls ''meter'' [(nm_type, 6)]
       [(nm_meter_id, D_num 0)]
       [P_field nm_type fH, P_placeholder, P_field nm_meter_id fL, P_length, P_set_len 1]
       None
       [U_local nm__type fH, U_assert nm__type 6, U_local nm__len fH, U_slice nm__len 4,
        U_field nm_meter_id fL]
       [nm_meter_id]"

definition of13_instruction_write_actions :: cls where
  "of13_instruction_write_actions =
     Cls ''write_actions'' [(nm_type, 3)]
       [(nm_actions, D_list)]
       [P_field nm_type fH, P_placeholder, P_pad 4, P_list nm_actions, P_length, P_set_len 1]
       None
       [U_local nm__type fH, U_assert nm__type 3, U_local nm__len fH, U_slice nm__len 4, U_skip 4,
        U_list nm_actions of13_action_action]
       [nm_actions]"

definition of13_instruction_write_metadata :: cls where
  "of13_instruction_write_metadata =
     Cls ''write_metadata'' [(nm_type, 2)]
       [(nm_metadata, D_num 0), (nm_metadata_mask, D_num 0)]
       [P_field nm_type fH, P_placeholder, P_pad 4, P_field nm_metadata fQ,
        P_field nm_metadata_mask fQ, P_length, P_set_len 1]
       None
       [U_local nm__type fH, U_assert nm__type 2, U_local nm__len fH, U_slice nm__len 4, U_skip 4,
        U_field nm_metadata fQ, U_field nm_metadata_mask fQ]
       [nm_metadata, nm_metadata_mask]"

definition of13_instruction_instruction :: cls where
  "of13_instruction_instruction =
     Cls ''instruction'' []
       [(nm_type, D_num 0)]
       [P_field nm_type fH, P_placeholder, P_length, P_set_len 1]
       (Some (fH, 0,
         [(4, of13_instruction_apply_actions), (65535, of13_instruction_experimenter),
          (5, of13_instruction_clear_actions), (1, of13_instruction_goto_table),
          (6, of13_instruction_meter), (3, of13_instruction_write_actions),
          (2, of13_instruction_write_metadata)]))
       [U_field nm_type fH, U_local nm__len fH, U_slice nm__len 4]
       [nm_type]"

definition of13_meter_band_drop :: cls where
  "of13_meter_band_drop =
     Cls ''drop'' [(nm_type, 1)]
       [(nm_rate, D_num 0), (nm_burst_size, D_num 0)]
       [P_field nm_type fH, P_placeholder, P_field nm_rate fL, P_field nm_burst_size fL, P_pad 4,
        P_length, P_set_len 1]
       None
       [U_local nm__type fH, U_assert nm__type 1, U_local nm__len fH, U_slice nm__len 4,
        U_field nm_rate fL, U_field nm_burst_size fL, U_skip 4]
       [nm_rate, nm_burst_size]"

definition of13_meter_band_dscp_remark :: cls where
  "of13_meter_band_dscp_remark =
     Cls ''dscp_remark'' [(nm_type, 2)]
       [(nm_rate, D_num 0), (nm_burst_size, D_num 0), (nm_prec_level, D_num 0)]
       [P_field nm_type fH, P_placeholder, P_field nm_rate fL, P_field nm_burst_size fL,
        P_field nm_prec_level fB, P_pad 3, P_length, P_set_len 1]
       None
       [U_local nm__type fH, U_assert nm__type 2, U_local nm__len fH, U_slice nm__len 4,
        U_field nm_rate fL, U_field nm_burst_size fL, U_field nm_prec_level fB, U_skip 3]
       [nm_rate, nm_burst_size, nm_prec_level]"

definition of13_meter_band_experimenter :: cls where
  "of13_meter_band_experimenter =
     Cls ''experimenter'' [(nm_type, 65535)]
       [(nm_rate, D_num 0), (nm_burst_size, D_num 0), (nm_experimenter, D_num 0)]
       [P_field nm_type fH, P_placeholder, P_field nm_rate fL, P_field nm_burst_size fL,
        P_field nm_experimenter fL, P_length, P_set_len 1]
       None
       [U_local nm__type fH, U_assert nm__type 65535, U_local nm__len fH, U_slice nm__len 4,
        U_field nm_rate fL, U_field nm_burst_size fL, U_field nm_experimenter fL]
       [nm_rate, nm_burst_size, nm_experimenter]"

definition of13_meter_band_meter_band :: cls where
  "of13_meter_band_meter_band =
     Cls ''meter_band'' []
       [(nm_type, D_num 0)]
       [P_field nm_type fH, P_placeholder, P_length, P_set_len 1]
       (Some (fH, 0,
         [(1, of13_meter_band_drop), (2, of13_meter_band_dscp_remark),
          (65535, of13_meter_band_experimenter)]))
       [U_field nm_type fH, U_local nm__len fH, U_slice nm__len 4]
       [nm_type]"

definition of13_instruction_id_apply_actions :: cls where
  "of13_instruction_id_apply_actions =
     Cls ''apply_actions'' [(nm_type, 4)]
       []
       [P_field nm_type fH, P_placeholder, P_length, P_set_len 1]
       None
       [U_local nm__type fH, U_assert nm__type 4, U_local nm__len fH, U_slice nm__len 4]
       []"

definition of13_instruction_id_bsn_arp_offload :: cls where
  "of13_instruction_id_bsn_arp_offload =
     Cls ''bsn_arp_offload'' [(nm_type, 65535), (nm_experimenter, 6035143), (nm_subtype, 1)]
       []
       [P_field nm_type fH, P_placeholder, P_field nm_experimenter fL, P_field nm_subtype fL,
        P_length, P_set_len 1]
       None
       [U_local nm__type fH, U_assert nm__type 65535, U_local nm__len fH, U_slice nm__len 4,
        U_local nm__experimenter fL, U_assert nm__experimenter 6035143, U_local nm__subtype fL,
        U_assert nm__subtype 1]
       []"

definition of13_instruction_id_bsn_auto_negotiation :: cls where
  "of13_instruction_id_bsn_auto_negotiation =
     Cls ''bsn_auto_negotiation'' [(nm_type, 65535), (nm_experimenter, 6035143), (nm_subtype, 11)]
       []
       [P_field nm_type fH, P_placeholder, P_field nm_experimenter fL, P_field nm_subtype fL,
        P_length, P_set_len 1]
       None
       [U_local nm__type fH, U_assert nm__type 65535, U_local nm__len fH, U_slice nm__len 4,
        U_local nm__experimenter fL, U_assert nm__experimenter 6035143, U_local nm__subtype fL,
        U_assert nm__subtype 11]
       []"

definition of13_instruction_id_bsn_deny :: cls where
  "of13_instruction_id_bsn_deny =
     Cls ''bsn_deny'' [(nm_type, 65535), (nm_experimenter, 6035143), (nm_subtype, 5)]
       []
       [P_field nm_type fH, P_placeholder, P_field nm_experimenter fL, P_field nm_subtype fL,
        P_length, P_set_len 1]
       None
       [U_local nm__type fH, U_assert nm__type 65535, U_local nm__len fH, U_slice nm__len 4,
        U_local nm__experimenter fL, U_assert nm__experimenter 6035143, U_local nm__subtype fL,
        U_assert nm__subtype 5]
       []"

definition of13_instruction_id_bsn_dhcp_offload :: cls where
  "of13_instruction_id_bsn_dhcp_offload =
     Cls ''bsn_dhcp_offload'' [(nm_type, 65535), (nm_experimenter, 6035143), (nm_subtype, 2)]
       []
       [P_field nm_type fH, P_placeholder, P_field nm_experimenter fL, P_field nm_subtype fL,
        P_length, P_set_len 1]
       None
       [U_local nm__type fH, U_assert nm__type 65535, U_local nm__len fH, U_slice nm__len 4,
        U_local nm__experimenter fL, U_assert nm__experimenter 6035143, U_local nm__subtype fL,
        U_assert nm__subtype 2]
       []"

definition of13_instruction_id_bsn_disable_l3 :: cls where
  "of13_instruction_id_bsn_disable_l3 =
     Cls ''bsn_disable_l3'' [(nm_type, 65535), (nm_experimenter, 6035143), (nm_subtype, 13)]
       []
       [P_field nm_type fH, P_placeholder, P_field nm_experimenter fL, P_field nm_subtype fL,
        P_length, P_set_len 1]
       None
       [U_local nm__type fH, U_assert nm__type 65535, U_local nm__len fH, U_slice nm__len 4,
        U_local nm__experimenter fL, U_assert nm__experimenter 6035143, U_local nm__subtype fL,
        U_assert nm__subtype 13]
       []"

definition of13_instruction_id_bsn_disable_split_horizon_check :: cls where
  "of13_instruction_id_bsn_disable_split_horizon_check =
     Cls ''bsn_disable_split_horizon_check'' [(nm_type, 65535), (nm_experimenter, 6035143), (nm_subtype, 3)]
       []
       [P_field nm_type fH, P_placeholder, P_field nm_experimenter fL, P_field nm_subtype fL,
        P_length, P_set_len 1]
       None
       [U_local nm__type fH, U_assert nm__type 65535, U_local nm__len fH, U_slice nm__len 4,
        U_local nm__experimenter fL, U_assert nm__experimenter 6035143, U_local nm__subtype fL,
        U_assert nm__subtype 3]
       []"

definition of13_instruction_id_bsn_disable_src_mac_check :: cls where
  "of13_instruction_id_bsn_disable_src_mac_check =
     Cls ''bsn_disable_src_mac_check'' [(nm_type, 65535), (nm_experimenter, 6035143), (nm_subtype, 0)]
       []
       [P_field nm_type fH, P_placeholder, P_field nm_experimenter fL, P_field nm_subtype fL,
        P_length, P_set_len 1]
       None
       [U_local nm__type fH, U_assert nm__type 65535, U_local nm__len fH, U_slice nm__len 4,
        U_local nm__experimenter fL, U_assert nm__experimenter 6035143, U_local nm__subtype fL,
        U_assert nm__subtype 0]
       []"

definition of13_instruction_id_bsn_disable_vlan_counters :: cls where
  "of13_instruction_id_bsn_disable_vlan_counters =
     Cls ''bsn_disable_vlan_counters'' [(nm_type, 65535), (nm_experimenter, 6035143), (nm_subtype, 9)]
       []
       [P_field nm_type fH, P_placeholder, P_field nm_experimenter fL, P_field nm_subtype fL,
        P_length, P_set_len 1]
       None
       [U_local nm__type fH, U_assert nm__type 65535, U_local nm__len fH, U_slice nm__len 4,
        U_local nm__experimenter fL, U_assert nm__experimenter 6035143, U_local nm__subtype fL,
        U_assert nm__subtype 9]
       []"

definition of13_instruction_id_bsn_internal_priority :: cls where
  "of13_instruction_id_bsn_internal_priority =
     Cls ''bsn_internal_priority'' [(nm_type, 65535), (nm_experimenter, 6035143), (nm_subtype, 12)]
       []
       [P_field nm_type fH, P_placeholder, P_field nm_experimenter fL, P_field nm_subtype fL,
        P_length, P_set_len 1]
       None
       [U_local nm__type fH, U_assert nm__type 65535, U_local nm__len fH, U_slice nm__len 4,
        U_local nm__experimenter fL, U_assert nm__experimenter 6035143, U_local nm__subtype fL,
        U_assert nm__subtype 12]
       []"

definition of13_instruction_id_bsn_packet_of_death :: cls where
  "of13_instruction_id_bsn_packet_of_death =
     Cls ''bsn_packet_of_death'' [(nm_type, 65535), (nm_experimenter, 6035143), (nm_subtype, 6)]
       []
       [P_field nm_type fH, P_placeholder, P_field nm_experimenter fL, P_field nm_subtype fL,
        P_length, P_set_len 1]
       None
       [U_local nm__type fH, U_assert nm__type 65535, U_local nm__len fH, U_slice nm__len 4,
        U_local nm__experimenter fL, U_assert nm__experimenter 6035143, U_local nm__subtype fL,
        U_assert nm__subtype 6]
       []"

definition of13_instruction_id_bsn_permit :: cls where
  "of13_instruction_id_bsn_permit =
     Cls ''bsn_permit'' [(nm_type, 65535), (nm_experimenter, 6035143), (nm_subtype, 4)]
       []
       [P_field nm_type fH, P_placeholder, P_field nm_experimenter fL, P_field nm_subtype fL,
        P_length, P_set_len 1]
       None
       [U_local nm__type fH, U_assert nm__type 65535, U_local nm__len fH, U_slice nm__len 4,
        U_local nm__experimenter fL, U_assert nm__experimenter 6035143, U_local nm__subtype fL,
        U_assert nm__subtype 4]
       []"

definition of13_instruction_id_bsn_prioritize_pdus :: cls where
  "of13_instruction_id_bsn_prioritize_pdus =
     Cls ''bsn_prioritize_pdus'' [(nm_type, 65535), (nm_experimenter, 6035143), (nm_subtype, 7)]
       []
       [P_field nm_type fH, P_placeholder, P_field nm_experimenter fL, P_field nm_subtype fL,
        P_length, P_set_len 1]
       None
       [U_local nm__type fH, U_assert nm__type 65535, U_local nm__len fH, U_slice nm__len 4,
        U_local nm__experimenter fL, U_assert nm__experimenter 6035143, U_local nm__subtype fL,
        U_assert nm__subtype 7]
       []"

definition of13_instruction_id_bsn_require_vlan_xlate :: cls where
  "of13_instruction_id_bsn_require_vlan_xlate =
     Cls ''bsn_require_vlan_xlate'' [(nm_type, 65535), (nm_experimenter, 6035143), (nm_subtype, 8)]
       []
       [P_field nm_type fH, P_placeholder, P_field nm_experimenter fL, P_field nm_subtype fL,
        P_length, P_set_len 1]
       None
       [U_local nm__type fH, U_assert nm__type 65535, U_local nm__len fH, U_slice nm__len 4,
        U_local nm__experimenter fL, U_assert nm__experimenter 6035143, U_local nm__subtype fL,
        U_assert nm__subtype 8]
       []"

definition of13_instruction_id_bsn_span_destination :: cls where
  "of13_instruction_id_bsn_span_destination =
     Cls ''bsn_span_destination'' [(nm_type, 65535), (nm_experimenter, 6035143), (nm_subtype, 10)]
       []
       [P_field nm_type fH, P_placeholder, P_field nm_experimenter fL, P_field nm_subtype fL,
        P_length, P_set_len 1]
       None
       [U_local nm__type fH, U_assert nm__type 65535, U_local nm__len fH, U_slice nm__len 4,
        U_local nm__experimenter fL, U_assert nm__experimenter 6035143, U_local nm__subtype fL,
        U_assert nm__subtype 10]
       []"

definition of13_instruction_id_bsn :: cls where
  "of13_instruction_id_bsn =
     Cls ''bsn'' [(nm_type, 65535), (nm_experimenter, 6035143)]
       [(nm_subtype, D_num 0)]
       [P_field nm_type fH, P_placeholder, P_field nm_experimenter fL, P_field nm_subtype fL,
        P_length, P_set_len 1]
       (Some (fL, 8,
         [(1, of13_instruction_id_bsn_arp_offload), (11, of13_instruction_id_bsn_auto_negotiation),
          (5, of13_instruction_id_bsn_deny), (2, of13_instruction_id_bsn_dhcp_offload),
          (13, of13_instruction_id_bsn_disable_l3),
          (3, of13_instruction_id_bsn_disable_split_horizon_check),
          (0, of13_instruction_id_bsn_disable_src_mac_check),
          (9, of13_instruction_id_bsn_disable_vlan_counters),
          (12, of13_instruction_id_bsn_internal_priority),
          (6, of13_instruction_id_bsn_packet_of_death), (4, of13_instruction_id_bsn_permit),
          (7, of13_instruction_id_bsn_prioritize_pdus),
          (8, of13_instruction_id_bsn_require_vlan_xlate),
          (10, of13_instruction_id_bsn_span_destination)]))
       [U_local nm__type fH, U_assert nm__type 65535, U_local nm__len fH, U_slice nm__len 4,
        U_local nm__experimenter fL, U_assert nm__experimenter 6035143, U_field nm_subtype fL]
       [nm_subtype]"

definition of13_instruction_id_experimenter :: cls where
  "of13_instruction_id_experimenter =
     Cls ''experimenter'' [(nm_type, 65535)]
       [(nm_experimenter, D_num 0)]
       [P_field nm_type fH, P_placeholder, P_field nm_experimenter fL, P_length, P_set_len 1]
       (Some (fL, 4,
         [(6035143, of13_instruction_id_bsn)]))
       [U_local nm__type fH, U_assert nm__type 65535, U_local nm__len fH, U_slice nm__len 4,
        U_field nm_experimenter fL]
       [nm_experimenter]"

definition of13_instruction_id_clear_actions :: cls where
  "of13_instruction_id_clear_actions =
     Cls ''clear_actions'' [(nm_type, 5)]
       []
       [P_field nm_type fH, P_placeholder, P_length, P_set_len 1]
       None
       [U_local nm__type fH, U_assert nm__type 5, U_local nm__len fH, U_slice nm__len 4]
       []"

definition of13_instruction_id_goto_table :: cls where
  "of13_instruction_id_goto_table =
     Cls ''goto_table'' [(nm_type, 1)]
       []
       [P_field nm_type fH, P_placeholder, P_length, P_set_len 1]
       None
       [U_local nm__type fH, U_assert nm__type 1, U_local nm__len fH, U_slice nm__len 4]
       []"

definition of13_instruction_id_meter :: cls where
  "of13_instruction_id_meter =
     Cls ''meter'' [(nm_type, 6)]
       []
       [P_field nm_type fH, P_placeholder, P_length, P_set_len 1]
       None
       [U_local nm__type fH, U_assert nm__type 6, U_local nm__len fH, U_slice nm__len 4]
       []"

definition of13_instruction_id_write_actions :: cls where
  "of13_instruction_id_write_actions =
     Cls ''write_actions'' [(nm_type, 3)]
       []
       [P_field nm_type fH, P_placeholder, P_length, P_set_len 1]
       None
       [U_local nm__type fH, U_assert nm__type 3, U_local nm__len fH, U_slice nm__len 4]
       []"

definition of13_instruction_id_write_metadata :: cls where
  "of13_instruction_id_write_metadata =
     Cls ''write_metadata'' [(nm_type, 2)]
       []
       [P_field nm_type fH, P_placeholder, P_length, P_set_len 1]
       None
       [U_local nm__type fH, U_assert nm__type 2, U_local nm__len fH, U_slice nm__len 4]
       []"

definition of13_instruction_id_instruction_id :: cls where
  "of13_instruction_id_instruction_id =
     Cls ''instruction_id'' []
       [(nm_type, D_num 0)]
       [P_field nm_type fH, P_placeholder, P_length, P_set_len 1]
       (Some (fH, 0,
         [(4, of13_instruction_id_apply_actions), (65535, of13_instruction_id_experimenter),
          (5, of13_instruction_id_clear_actions), (1, of13_instruction_id_goto_table),
          (6, of13_instruction_id_meter), (3, of13_instruction_id_write_actions),
          (2, of13_instruction_id_write_metadata)]))
       [U_field nm_type fH, U_local nm__len fH, U_slice nm__len 4]
       [nm_type]"


section \<open>pack and unpack agree\<close>

lemma of13Elements_checked_1a [unfolded list.pred_inject prod.case, loxi_checked]:
  "list_all codec_ok
    [of13_action_bsn_checksum, of13_bsn_tlv_actor_key, of13_bsn_tlv_actor_port_num,
     of13_bsn_tlv_actor_port_priority, of13_bsn_tlv_actor_state, of13_bsn_tlv_actor_system_mac,
     of13_bsn_tlv_actor_system_priority, of13_bsn_tlv_anchor, of13_bsn_tlv_broadcast_query_timeout,
     of13_bsn_tlv_broadcast_rate, of13_bsn_tlv_bucket, of13_bsn_tlv_circuit_id,
     of13_bsn_tlv_convergence_status, of13_bsn_tlv_crc_enabled, of13_bsn_tlv_data, of13_bsn_tlv_decap,
     of13_bsn_tlv_eth_dst, of13_bsn_tlv_eth_src, of13_bsn_tlv_external_gateway_ip,
     of13_bsn_tlv_external_gateway_mac, of13_bsn_tlv_external_ip, of13_bsn_tlv_external_mac,
     of13_bsn_tlv_external_netmask, of13_bsn_tlv_generation_id, of13_bsn_tlv_hash_packet_field,
     of13_bsn_tlv_hash_packet_type, of13_bsn_tlv_hash_seed, of13_bsn_tlv_hash_type,
     of13_bsn_tlv_header_size, of13_bsn_tlv_icmp_code, of13_bsn_tlv_icmp_id, of13_bsn_tlv_icmp_type,
     of13_bsn_tlv_idle_notification, of13_bsn_tlv_idle_time, of13_bsn_tlv_idle_timeout,
     of13_bsn_tlv_igmp_snooping, of13_bsn_tlv_internal_gateway_mac, of13_bsn_tlv_internal_mac,
     of13_bsn_tlv_interval, of13_bsn_tlv_ip_proto]"
  "list_all safe_cls
    [of13_action_bsn_checksum, of13_bsn_tlv_actor_key, of13_bsn_tlv_actor_port_num,
     of13_bsn_tlv_actor_port_priority, of13_bsn_tlv_actor_state, of13_bsn_tlv_actor_system_mac,
     of13_bsn_tlv_actor_system_priority, of13_bsn_tlv_anchor, of13_bsn_tlv_broadcast_query_timeout,
     of13_bsn_tlv_broadcast_rate, of13_bsn_tlv_bucket, of13_bsn_tlv_circuit_id,
     of13_bsn_tlv_convergence_status, of13_bsn_tlv_crc_enabled, of13_bsn_tlv_data, of13_bsn_tlv_decap,
     of13_bsn_tlv_eth_dst, of13_bsn_tlv_eth_src, of13_bsn_tlv_external_gateway_ip,
     of13_bsn_tlv_external_gateway_mac, of13_bsn_tlv_external_ip, of13_bsn_tlv_external_mac,
     of13_bsn_tlv_external_netmask, of13_bsn_tlv_generation_id, of13_bsn_tlv_hash_packet_field,
     of13_bsn_tlv_hash_packet_type, of13_bsn_tlv_hash_seed, of13_bsn_tlv_hash_type,
     of13_bsn_tlv_header_size, of13_bsn_tlv_icmp_code, of13_bsn_tlv_icmp_id, of13_bsn_tlv_icmp_type,
     of13_bsn_tlv_idle_notification, of13_bsn_tlv_idle_time, of13_bsn_tlv_idle_timeout,
     of13_bsn_tlv_igmp_snooping, of13_bsn_tlv_internal_gateway_mac, of13_bsn_tlv_internal_mac,
     of13_bsn_tlv_interval, of13_bsn_tlv_ip_proto]"
  "list_all (\<lambda>c. \<not> needs_align c)
    [of13_action_bsn_checksum, of13_bsn_tlv_actor_key, of13_bsn_tlv_actor_port_num,
     of13_bsn_tlv_actor_port_priority, of13_bsn_tlv_actor_state, of13_bsn_tlv_actor_system_mac,
     of13_bsn_tlv_actor_system_priority, of13_bsn_tlv_anchor, of13_bsn_tlv_broadcast_query_timeout,
     of13_bsn_tlv_broadcast_rate, of13_bsn_tlv_bucket, of13_bsn_tlv_circuit_id,
     of13_bsn_tlv_convergence_status, of13_bsn_tlv_crc_enabled, of13_bsn_tlv_data, of13_bsn_tlv_decap,
     of13_bsn_tlv_eth_dst, of13_bsn_tlv_eth_src, of13_bsn_tlv_external_gateway_ip,
     of13_bsn_tlv_external_gateway_mac, of13_bsn_tlv_external_ip, of13_bsn_tlv_external_mac,
     of13_bsn_tlv_external_netmask, of13_bsn_tlv_generation_id, of13_bsn_tlv_hash_packet_field,
     of13_bsn_tlv_hash_packet_type, of13_bsn_tlv_hash_seed, of13_bsn_tlv_hash_type,
     of13_bsn_tlv_header_size, of13_bsn_tlv_icmp_code, of13_bsn_tlv_icmp_id, of13_bsn_tlv_icmp_type,
     of13_bsn_tlv_idle_notification, of13_bsn_tlv_idle_time, of13_bsn_tlv_idle_timeout,
     of13_bsn_tlv_igmp_snooping, of13_bsn_tlv_internal_gateway_mac, of13_bsn_tlv_internal_mac,
     of13_bsn_tlv_interval, of13_bsn_tlv_ip_proto]"
  "list_all (\<lambda>(k, c). writes_const fH 0 k c)
    [(65535, of13_action_bsn_checksum), (44, of13_bsn_tlv_actor_key), (43, of13_bsn_tlv_actor_port_num),
     (42, of13_bsn_tlv_actor_port_priority), (53, of13_bsn_tlv_actor_state),
     (41, of13_bsn_tlv_actor_system_mac), (40, of13_bsn_tlv_actor_system_priority),
     (81, of13_bsn_tlv_anchor), (10, of13_bsn_tlv_broadcast_query_timeout),
     (90, of13_bsn_tlv_broadcast_rate), (64, of13_bsn_tlv_bucket), (14, of13_bsn_tlv_circuit_id),
     (45, of13_bsn_tlv_convergence_status), (22, of13_bsn_tlv_crc_enabled), (55, of13_bsn_tlv_data),
     (85, of13_bsn_tlv_decap), (33, of13_bsn_tlv_eth_dst), (32, of13_bsn_tlv_eth_src),
     (26, of13_bsn_tlv_external_gateway_ip), (29, of13_bsn_tlv_external_gateway_mac),
     (23, of13_bsn_tlv_external_ip), (24, of13_bsn_tlv_external_mac), (25, of13_bsn_tlv_external_netmask),
     (80, of13_bsn_tlv_generation_id), (103, of13_bsn_tlv_hash_packet_field),
     (102, of13_bsn_tlv_hash_packet_type), (100, of13_bsn_tlv_hash_seed), (101, of13_bsn_tlv_hash_type),
     (31, of13_bsn_tlv_header_size), (69, of13_bsn_tlv_icmp_code), (70, of13_bsn_tlv_icmp_id),
     (68, of13_bsn_tlv_icmp_type), (7, of13_bsn_tlv_idle_notification), (5, of13_bsn_tlv_idle_time),
     (8, of13_bsn_tlv_idle_timeout), (78, of13_bsn_tlv_igmp_snooping),
     (28, of13_bsn_tlv_internal_gateway_mac), (27, of13_bsn_tlv_internal_mac), (58, of13_bsn_tlv_interval),
     (67, of13_bsn_tlv_ip_proto)]"
  "list_all (\<lambda>(k, c). writes_const fL 4 k c)
    [(6035143, of13_action_bsn_checksum)]"
  "list_all (\<lambda>(k, c). writes_const fL 8 k c)
    [(4, of13_action_bsn_checksum)]"
  by (simp_all add: loxi_formats loxi_eval loxi_checked
    of13_action_bsn_checksum_def of13_bsn_tlv_actor_key_def of13_bsn_tlv_actor_port_num_def
    of13_bsn_tlv_actor_port_priority_def of13_bsn_tlv_actor_state_def of13_bsn_tlv_actor_system_mac_def
    of13_bsn_tlv_actor_system_priority_def of13_bsn_tlv_anchor_def
    of13_bsn_tlv_broadcast_query_timeout_def of13_bsn_tlv_broadcast_rate_def of13_bsn_tlv_bucket_def
    of13_bsn_tlv_circuit_id_def of13_bsn_tlv_convergence_status_def of13_bsn_tlv_crc_enabled_def
    of13_bsn_tlv_data_def of13_bsn_tlv_decap_def of13_bsn_tlv_eth_dst_def of13_bsn_tlv_eth_src_def
    of13_bsn_tlv_external_gateway_ip_def of13_bsn_tlv_external_gateway_mac_def
    of13_bsn_tlv_external_ip_def of13_bsn_tlv_external_mac_def of13_bsn_tlv_external_netmask_def
    of13_bsn_tlv_generation_id_def of13_bsn_tlv_hash_packet_field_def of13_bsn_tlv_hash_packet_type_def
    of13_bsn_tlv_hash_seed_def of13_bsn_tlv_hash_type_def of13_bsn_tlv_header_size_def
    of13_bsn_tlv_icmp_code_def of13_bsn_tlv_icmp_id_def of13_bsn_tlv_icmp_type_def
    of13_bsn_tlv_idle_notification_def of13_bsn_tlv_idle_time_def of13_bsn_tlv_idle_timeout_def
    of13_bsn_tlv_igmp_snooping_def of13_bsn_tlv_internal_gateway_mac_def of13_bsn_tlv_internal_mac_def
    of13_bsn_tlv_interval_def of13_bsn_tlv_ip_proto_def
    del: One_nat_def)

lemma of13Elements_checked_1b [unfolded list.pred_inject prod.case, loxi_checked]:
  "list_all codec_ok
    [of13_bsn_tlv_ipv4, of13_bsn_tlv_ipv4_dst, of13_bsn_tlv_ipv4_netmask, of13_bsn_tlv_ipv4_src,
     of13_bsn_tlv_ipv6, of13_bsn_tlv_known_multicast_rate, of13_bsn_tlv_l2_multicast_lookup,
     of13_bsn_tlv_mac, of13_bsn_tlv_mac_mask, of13_bsn_tlv_mcg_type_vxlan, of13_bsn_tlv_miss_packets,
     of13_bsn_tlv_mpls_control_word, of13_bsn_tlv_mpls_label, of13_bsn_tlv_mpls_sequenced,
     of13_bsn_tlv_multicast_interface_id, of13_bsn_tlv_name, of13_bsn_tlv_negate,
     of13_bsn_tlv_nexthop_type_vxlan, of13_bsn_tlv_offset, of13_bsn_tlv_partner_key,
     of13_bsn_tlv_partner_port_num, of13_bsn_tlv_partner_port_priority, of13_bsn_tlv_partner_state,
     of13_bsn_tlv_partner_system_mac, of13_bsn_tlv_partner_system_priority, of13_bsn_tlv_port,
     of13_bsn_tlv_port_vxlan_mode, of13_bsn_tlv_priority, of13_bsn_tlv_queue_id, of13_bsn_tlv_queue_weight,
     of13_bsn_tlv_rate_unit, of13_bsn_tlv_reference, of13_bsn_tlv_reply_packets,
     of13_bsn_tlv_request_packets, of13_bsn_tlv_rx_bytes, of13_bsn_tlv_rx_packets,
     of13_bsn_tlv_sampling_rate, of13_bsn_tlv_set_loopback_mode, of13_bsn_tlv_status,
     of13_bsn_tlv_strip_mpls_l2_on_ingress]"
  "list_all safe_cls
    [of13_bsn_tlv_ipv4, of13_bsn_tlv_ipv4_dst, of13_bsn_tlv_ipv4_netmask, of13_bsn_tlv_ipv4_src,
     of13_bsn_tlv_ipv6, of13_bsn_tlv_known_multicast_rate, of13_bsn_tlv_l2_multicast_lookup,
     of13_bsn_tlv_mac, of13_bsn_tlv_mac_mask, of13_bsn_tlv_mcg_type_vxlan, of13_bsn_tlv_miss_packets,
     of13_bsn_tlv_mpls_control_word, of13_bsn_tlv_mpls_label, of13_bsn_tlv_mpls_sequenced,
     of13_bsn_tlv_multicast_interface_id, of13_bsn_tlv_name, of13_bsn_tlv_negate,
     of13_bsn_tlv_nexthop_type_vxlan, of13_bsn_tlv_offset, of13_bsn_tlv_partner_key,
     of13_bsn_tlv_partner_port_num, of13_bsn_tlv_partner_port_priority, of13_bsn_tlv_partner_state,
     of13_bsn_tlv_partner_system_mac, of13_bsn_tlv_partner_system_priority, of13_bsn_tlv_port,
     of13_bsn_tlv_port_vxlan_mode, of13_bsn_tlv_priority, of13_bsn_tlv_queue_id, of13_bsn_tlv_queue_weight,
     of13_bsn_tlv_rate_unit, of13_bsn_tlv_reference, of13_bsn_tlv_reply_packets,
     of13_bsn_tlv_request_packets, of13_bsn_tlv_rx_bytes, of13_bsn_tlv_rx_packets,
     of13_bsn_tlv_sampling_rate, of13_bsn_tlv_set_loopback_mode, of13_bsn_tlv_status,
     of13_bsn_tlv_strip_mpls_l2_on_ingress]"
  "list_all (\<lambda>c. \<not> needs_align c)
    [of13_bsn_tlv_ipv4, of13_bsn_tlv_ipv4_dst, of13_bsn_tlv_ipv4_netmask, of13_bsn_tlv_ipv4_src,
     of13_bsn_tlv_ipv6, of13_bsn_tlv_known_multicast_rate, of13_bsn_tlv_l2_multicast_lookup,
     of13_bsn_tlv_mac, of13_bsn_tlv_mac_mask, of13_bsn_tlv_mcg_type_vxlan, of13_bsn_tlv_miss_packets,
     of13_bsn_tlv_mpls_control_word, of13_bsn_tlv_mpls_label, of13_bsn_tlv_mpls_sequenced,
     of13_bsn_tlv_multicast_interface_id, of13_bsn_tlv_name, of13_bsn_tlv_negate,
     of13_bsn_tlv_nexthop_type_vxlan, of13_bsn_tlv_offset, of13_bsn_tlv_partner_key,
     of13_bsn_tlv_partner_port_num, of13_bsn_tlv_partner_port_priority, of13_bsn_tlv_partner_state,
     of13_bsn_tlv_partner_system_mac, of13_bsn_tlv_partner_system_priority, of13_bsn_tlv_port,
     of13_bsn_tlv_port_vxlan_mode, of13_bsn_tlv_priority, of13_bsn_tlv_queue_id, of13_bsn_tlv_queue_weight,
     of13_bsn_tlv_rate_unit, of13_bsn_tlv_reference, of13_bsn_tlv_reply_packets,
     of13_bsn_tlv_request_packets, of13_bsn_tlv_rx_bytes, of13_bsn_tlv_rx_packets,
     of13_bsn_tlv_sampling_rate, of13_bsn_tlv_set_loopback_mode, of13_bsn_tlv_status,
     of13_bsn_tlv_strip_mpls_l2_on_ingress]"
  "list_all (\<lambda>(k, c). writes_const fH 0 k c)
    [(4, of13_bsn_tlv_ipv4), (35, of13_bsn_tlv_ipv4_dst), (60, of13_bsn_tlv_ipv4_netmask),
     (34, of13_bsn_tlv_ipv4_src), (84, of13_bsn_tlv_ipv6), (91, of13_bsn_tlv_known_multicast_rate),
     (79, of13_bsn_tlv_l2_multicast_lookup), (1, of13_bsn_tlv_mac), (56, of13_bsn_tlv_mac_mask),
     (87, of13_bsn_tlv_mcg_type_vxlan), (13, of13_bsn_tlv_miss_packets),
     (62, of13_bsn_tlv_mpls_control_word), (61, of13_bsn_tlv_mpls_label),
     (63, of13_bsn_tlv_mpls_sequenced), (95, of13_bsn_tlv_multicast_interface_id), (52, of13_bsn_tlv_name),
     (83, of13_bsn_tlv_negate), (94, of13_bsn_tlv_nexthop_type_vxlan), (82, of13_bsn_tlv_offset),
     (51, of13_bsn_tlv_partner_key), (50, of13_bsn_tlv_partner_port_num),
     (49, of13_bsn_tlv_partner_port_priority), (54, of13_bsn_tlv_partner_state),
     (48, of13_bsn_tlv_partner_system_mac), (47, of13_bsn_tlv_partner_system_priority),
     (0, of13_bsn_tlv_port), (88, of13_bsn_tlv_port_vxlan_mode), (57, of13_bsn_tlv_priority),
     (20, of13_bsn_tlv_queue_id), (21, of13_bsn_tlv_queue_weight), (89, of13_bsn_tlv_rate_unit),
     (59, of13_bsn_tlv_reference), (12, of13_bsn_tlv_reply_packets), (11, of13_bsn_tlv_request_packets),
     (71, of13_bsn_tlv_rx_bytes), (2, of13_bsn_tlv_rx_packets), (30, of13_bsn_tlv_sampling_rate),
     (74, of13_bsn_tlv_set_loopback_mode), (97, of13_bsn_tlv_status),
     (75, of13_bsn_tlv_strip_mpls_l2_on_ingress)]"
  by (simp_all add: loxi_formats loxi_eval loxi_checked
    of13_bsn_tlv_ipv4_def of13_bsn_tlv_ipv4_dst_def of13_bsn_tlv_ipv4_netmask_def
    of13_bsn_tlv_ipv4_src_def of13_bsn_tlv_ipv6_def of13_bsn_tlv_known_multicast_rate_def
    of13_bsn_tlv_l2_multicast_lookup_def of13_bsn_tlv_mac_def of13_bsn_tlv_mac_mask_def
    of13_bsn_tlv_mcg_type_vxlan_def of13_bsn_tlv_miss_packets_def of13_bsn_tlv_mpls_control_word_def
    of13_bsn_tlv_mpls_label_def of13_bsn_tlv_mpls_sequenced_def of13_bsn_tlv_multicast_interface_id_def
    of13_bsn_tlv_name_def of13_bsn_tlv_negate_def of13_bsn_tlv_nexthop_type_vxlan_def
    of13_bsn_tlv_offset_def of13_bsn_tlv_partner_key_def of13_bsn_tlv_partner_port_num_def
    of13_bsn_tlv_partner_port_priority_def of13_bsn_tlv_partner_state_def
    of13_bsn_tlv_partner_system_mac_def of13_bsn_tlv_partner_system_priority_def of13_bsn_tlv_port_def
    of13_bsn_tlv_port_vxlan_mode_def of13_bsn_tlv_priority_def of13_bsn_tlv_queue_id_def
    of13_bsn_tlv_queue_weight_def of13_bsn_tlv_rate_unit_def of13_bsn_tlv_reference_def
    of13_bsn_tlv_reply_packets_def of13_bsn_tlv_request_packets_def of13_bsn_tlv_rx_bytes_def
    of13_bsn_tlv_rx_packets_def of13_bsn_tlv_sampling_rate_def of13_bsn_tlv_set_loopback_mode_def
    of13_bsn_tlv_status_def of13_bsn_tlv_strip_mpls_l2_on_ingress_def
    del: One_nat_def)

lemma of13Elements_checked_1c [unfolded list.pred_inject prod.case, loxi_checked]:
  "list_all codec_ok
    [of13_bsn_tlv_strip_mpls_l3_on_ingress, of13_bsn_tlv_strip_vlan_on_egress, of13_bsn_tlv_sub_agent_id,
     of13_bsn_tlv_tcp_dst, of13_bsn_tlv_tcp_src, of13_bsn_tlv_tx_bytes, of13_bsn_tlv_tx_packets,
     of13_bsn_tlv_udf_anchor, of13_bsn_tlv_udf_id, of13_bsn_tlv_udf_length, of13_bsn_tlv_udf_offset,
     of13_bsn_tlv_udp_dst, of13_bsn_tlv_udp_src, of13_bsn_tlv_unicast_query_timeout,
     of13_bsn_tlv_unicast_rate, of13_bsn_tlv_unknown_multicast_rate, of13_bsn_tlv_use_packet_state,
     of13_bsn_tlv_vfi, of13_bsn_tlv_vlan_pcp, of13_bsn_tlv_vlan_vid, of13_bsn_tlv_vlan_vid_mask,
     of13_bsn_tlv_vni, of13_bsn_tlv_vrf, of13_action_bsn_mirror, of13_action_bsn_set_tunnel_dst,
     of13_action_nicira_dec_ttl, of13_action_copy_ttl_in, of13_action_copy_ttl_out,
     of13_action_dec_mpls_ttl, of13_action_dec_nw_ttl, of13_action_group, of13_action_output,
     of13_action_pop_mpls, of13_action_pop_pbb, of13_action_pop_vlan, of13_action_push_mpls,
     of13_action_push_pbb, of13_action_push_vlan, of13_action_set_field, of13_action_set_mpls_ttl]"
  "list_all safe_cls
    [of13_bsn_tlv_strip_mpls_l3_on_ingress, of13_bsn_tlv_strip_vlan_on_egress, of13_bsn_tlv_sub_agent_id,
     of13_bsn_tlv_tcp_dst, of13_bsn_tlv_tcp_src, of13_bsn_tlv_tx_bytes, of13_bsn_tlv_tx_packets,
     of13_bsn_tlv_udf_anchor, of13_bsn_tlv_udf_id, of13_bsn_tlv_udf_length, of13_bsn_tlv_udf_offset,
     of13_bsn_tlv_udp_dst, of13_bsn_tlv_udp_src, of13_bsn_tlv_unicast_query_timeout,
     of13_bsn_tlv_unicast_rate, of13_bsn_tlv_unknown_multicast_rate, of13_bsn_tlv_use_packet_state,
     of13_bsn_tlv_vfi, of13_bsn_tlv_vlan_pcp, of13_bsn_tlv_vlan_vid, of13_bsn_tlv_vlan_vid_mask,
     of13_bsn_tlv_vni, of13_bsn_tlv_vrf, of13_action_bsn_mirror, of13_action_bsn_set_tunnel_dst,
     of13_action_nicira_dec_ttl, of13_action_copy_ttl_in, of13_action_copy_ttl_out,
     of13_action_dec_mpls_ttl, of13_action_dec_nw_ttl, of13_action_group, of13_action_output,
     of13_action_pop_mpls, of13_action_pop_pbb, of13_action_pop_vlan, of13_action_push_mpls,
     of13_action_push_pbb, of13_action_push_vlan, of13_action_set_field, of13_action_set_mpls_ttl]"
  "list_all (\<lambda>c. \<not> needs_align c)
    [of13_bsn_tlv_strip_mpls_l3_on_ingress, of13_bsn_tlv_strip_vlan_on_egress, of13_bsn_tlv_sub_agent_id,
     of13_bsn_tlv_tcp_dst, of13_bsn_tlv_tcp_src, of13_bsn_tlv_tx_bytes, of13_bsn_tlv_tx_packets,
     of13_bsn_tlv_udf_anchor, of13_bsn_tlv_udf_id, of13_bsn_tlv_udf_length, of13_bsn_tlv_udf_offset,
     of13_bsn_tlv_udp_dst, of13_bsn_tlv_udp_src, of13_bsn_tlv_unicast_query_timeout,
     of13_bsn_tlv_unicast_rate, of13_bsn_tlv_unknown_multicast_rate, of13_bsn_tlv_use_packet_state,
     of13_bsn_tlv_vfi, of13_bsn_tlv_vlan_pcp, of13_bsn_tlv_vlan_vid, of13_bsn_tlv_vlan_vid_mask,
     of13_bsn_tlv_vni, of13_bsn_tlv_vrf, of13_action_bsn_mirror, of13_action_bsn_set_tunnel_dst,
     of13_action_nicira_dec_ttl, of13_action_copy_ttl_in, of13_action_copy_ttl_out,
     of13_action_dec_mpls_ttl, of13_action_dec_nw_ttl, of13_action_group, of13_action_output,
     of13_action_pop_mpls, of13_action_pop_pbb, of13_action_pop_vlan, of13_action_push_mpls,
     of13_action_push_pbb, of13_action_push_vlan, of13_action_set_field, of13_action_set_mpls_ttl]"
  "list_all (\<lambda>(k, c). writes_const fH 0 k c)
    [(76, of13_bsn_tlv_strip_mpls_l3_on_ingress), (73, of13_bsn_tlv_strip_vlan_on_egress),
     (38, of13_bsn_tlv_sub_agent_id), (66, of13_bsn_tlv_tcp_dst), (65, of13_bsn_tlv_tcp_src),
     (39, of13_bsn_tlv_tx_bytes), (3, of13_bsn_tlv_tx_packets), (16, of13_bsn_tlv_udf_anchor),
     (15, of13_bsn_tlv_udf_id), (18, of13_bsn_tlv_udf_length), (17, of13_bsn_tlv_udf_offset),
     (37, of13_bsn_tlv_udp_dst), (36, of13_bsn_tlv_udp_src), (9, of13_bsn_tlv_unicast_query_timeout),
     (93, of13_bsn_tlv_unicast_rate), (92, of13_bsn_tlv_unknown_multicast_rate),
     (96, of13_bsn_tlv_use_packet_state), (99, of13_bsn_tlv_vfi), (72, of13_bsn_tlv_vlan_pcp),
     (6, of13_bsn_tlv_vlan_vid), (77, of13_bsn_tlv_vlan_vid_mask), (86, of13_bsn_tlv_vni),
     (19, of13_bsn_tlv_vrf), (65535, of13_action_bsn_mirror), (65535, of13_action_bsn_set_tunnel_dst),
     (65535, of13_action_nicira_dec_ttl), (12, of13_action_copy_ttl_in), (11, of13_action_copy_ttl_out),
     (16, of13_action_dec_mpls_ttl), (24, of13_action_dec_nw_ttl), (22, of13_action_group),
     (0, of13_action_output), (20, of13_action_pop_mpls), (27, of13_action_pop_pbb),
     (18, of13_action_pop_vlan), (19, of13_action_push_mpls), (26, of13_action_push_pbb),
     (17, of13_action_push_vlan), (25, of13_action_set_field), (15, of13_action_set_mpls_ttl)]"
  "list_all (\<lambda>(k, c). writes_const fL 4 k c)
    [(6035143, of13_action_bsn_mirror), (6035143, of13_action_bsn_set_tunnel_dst),
     (8992, of13_action_nicira_dec_ttl)]"
  "list_all (\<lambda>(k, c). writes_const fL 8 k c)
    [(1, of13_action_bsn_mirror), (2, of13_action_bsn_set_tunnel_dst)]"
  "list_all (\<lambda>(k, c). writes_const fH 8 k c)
    [(18, of13_action_nicira_dec_ttl)]"
  by (simp_all add: loxi_formats loxi_eval loxi_checked
    of13_bsn_tlv_strip_mpls_l3_on_ingress_def of13_bsn_tlv_strip_vlan_on_egress_def
    of13_bsn_tlv_sub_agent_id_def of13_bsn_tlv_tcp_dst_def of13_bsn_tlv_tcp_src_def
    of13_bsn_tlv_tx_bytes_def of13_bsn_tlv_tx_packets_def of13_bsn_tlv_udf_anchor_def
    of13_bsn_tlv_udf_id_def of13_bsn_tlv_udf_length_def of13_bsn_tlv_udf_offset_def
    of13_bsn_tlv_udp_dst_def of13_bsn_tlv_udp_src_def of13_bsn_tlv_unicast_query_timeout_def
    of13_bsn_tlv_unicast_rate_def of13_bsn_tlv_unknown_multicast_rate_def
    of13_bsn_tlv_use_packet_state_def of13_bsn_tlv_vfi_def of13_bsn_tlv_vlan_pcp_def
    of13_bsn_tlv_vlan_vid_def of13_bsn_tlv_vlan_vid_mask_def of13_bsn_tlv_vni_def of13_bsn_tlv_vrf_def
    of13_action_bsn_mirror_def of13_action_bsn_set_tunnel_dst_def of13_action_nicira_dec_ttl_def
    of13_action_copy_ttl_in_def of13_action_copy_ttl_out_def of13_action_dec_mpls_ttl_def
    of13_action_dec_nw_ttl_def of13_action_group_def of13_action_output_def of13_action_pop_mpls_def
    of13_action_pop_pbb_def of13_action_pop_vlan_def of13_action_push_mpls_def of13_action_push_pbb_def
    of13_action_push_vlan_def of13_action_set_field_def of13_action_set_mpls_ttl_def
    del: One_nat_def)

lemma of13Elements_checked_1d [unfolded list.pred_inject prod.case, loxi_checked]:
  "list_all codec_ok
    [of13_action_set_nw_ttl, of13_action_set_queue, of13_action_id_bsn_checksum,
     of13_action_id_bsn_gentable, of13_action_id_bsn_mirror, of13_action_id_bsn_set_tunnel_dst,
     of13_action_id_nicira_dec_ttl, of13_action_id_copy_ttl_in, of13_action_id_copy_ttl_out,
     of13_action_id_dec_mpls_ttl, of13_action_id_dec_nw_ttl, of13_action_id_group, of13_action_id_output,
     of13_action_id_pop_mpls, of13_action_id_pop_pbb, of13_action_id_pop_vlan, of13_action_id_push_mpls,
     of13_action_id_push_pbb, of13_action_id_push_vlan, of13_action_id_set_field,
     of13_action_id_set_mpls_ttl, of13_action_id_set_nw_ttl, of13_action_id_set_queue,
     of13_instruction_bsn_arp_offload, of13_instruction_bsn_auto_negotiation, of13_instruction_bsn_deny,
     of13_instruction_bsn_dhcp_offload, of13_instruction_bsn_disable_l3,
     of13_instruction_bsn_disable_split_horizon_check, of13_instruction_bsn_disable_src_mac_check,
     of13_instruction_bsn_disable_vlan_counters, of13_instruction_bsn_internal_priority,
     of13_instruction_bsn_packet_of_death, of13_instruction_bsn_permit,
     of13_instruction_bsn_prioritize_pdus, of13_instruction_bsn_require_vlan_xlate,
     of13_instruction_bsn_span_destination, of13_instruction_clear_actions, of13_instruction_goto_table,
     of13_instruction_meter]"
  "list_all safe_cls
    [of13_action_set_nw_ttl, of13_action_set_queue, of13_action_id_bsn_checksum,
     of13_action_id_bsn_gentable, of13_action_id_bsn_mirror, of13_action_id_bsn_set_tunnel_dst,
     of13_action_id_nicira_dec_ttl, of13_action_id_copy_ttl_in, of13_action_id_copy_ttl_out,
     of13_action_id_dec_mpls_ttl, of13_action_id_dec_nw_ttl, of13_action_id_group, of13_action_id_output,
     of13_action_id_pop_mpls, of13_action_id_pop_pbb, of13_action_id_pop_vlan, of13_action_id_push_mpls,
     of13_action_id_push_pbb, of13_action_id_push_vlan, of13_action_id_set_field,
     of13_action_id_set_mpls_ttl, of13_action_id_set_nw_ttl, of13_action_id_set_queue,
     of13_instruction_bsn_arp_offload, of13_instruction_bsn_auto_negotiation, of13_instruction_bsn_deny,
     of13_instruction_bsn_dhcp_offload, of13_instruction_bsn_disable_l3,
     of13_instruction_bsn_disable_split_horizon_check, of13_instruction_bsn_disable_src_mac_check,
     of13_instruction_bsn_disable_vlan_counters, of13_instruction_bsn_internal_priority,
     of13_instruction_bsn_packet_of_death, of13_instruction_bsn_permit,
     of13_instruction_bsn_prioritize_pdus, of13_instruction_bsn_require_vlan_xlate,
     of13_instruction_bsn_span_destination, of13_instruction_clear_actions, of13_instruction_goto_table,
     of13_instruction_meter]"
  "list_all (\<lambda>c. \<not> needs_align c)
    [of13_action_set_nw_ttl, of13_action_set_queue, of13_action_id_bsn_checksum,
     of13_action_id_bsn_gentable, of13_action_id_bsn_mirror, of13_action_id_bsn_set_tunnel_dst,
     of13_action_id_nicira_dec_ttl, of13_action_id_copy_ttl_in, of13_action_id_copy_ttl_out,
     of13_action_id_dec_mpls_ttl, of13_action_id_dec_nw_ttl, of13_action_id_group, of13_action_id_output,
     of13_action_id_pop_mpls, of13_action_id_pop_pbb, of13_action_id_pop_vlan, of13_action_id_push_mpls,
     of13_action_id_push_pbb, of13_action_id_push_vlan, of13_action_id_set_field,
     of13_action_id_set_mpls_ttl, of13_action_id_set_nw_ttl, of13_action_id_set_queue,
     of13_instruction_bsn_arp_offload, of13_instruction_bsn_auto_negotiation, of13_instruction_bsn_deny,
     of13_instruction_bsn_dhcp_offload, of13_instruction_bsn_disable_l3,
     of13_instruction_bsn_disable_split_horizon_check, of13_instruction_bsn_disable_src_mac_check,
     of13_instruction_bsn_disable_vlan_counters, of13_instruction_bsn_internal_priority,
     of13_instruction_bsn_packet_of_death, of13_instruction_bsn_permit,
     of13_instruction_bsn_prioritize_pdus, of13_instruction_bsn_require_vlan_xlate,
     of13_instruction_bsn_span_destination, of13_instruction_clear_actions, of13_instruction_goto_table,
     of13_instruction_meter]"
  "list_all (\<lambda>(k, c). writes_const fH 0 k c)
    [(23, of13_action_set_nw_ttl), (21, of13_action_set_queue), (65535, of13_action_id_bsn_checksum),
     (65535, of13_action_id_bsn_gentable), (65535, of13_action_id_bsn_mirror),
     (65535, of13_action_id_bsn_set_tunnel_dst), (65535, of13_action_id_nicira_dec_ttl),
     (12, of13_action_id_copy_ttl_in), (11, of13_action_id_copy_ttl_out),
     (16, of13_action_id_dec_mpls_ttl), (24, of13_action_id_dec_nw_ttl), (22, of13_action_id_group),
     (0, of13_action_id_output), (20, of13_action_id_pop_mpls), (27, of13_action_id_pop_pbb),
     (18, of13_action_id_pop_vlan), (19, of13_action_id_push_mpls), (26, of13_action_id_push_pbb),
     (17, of13_action_id_push_vlan), (25, of13_action_id_set_field), (15, of13_action_id_set_mpls_ttl),
     (23, of13_action_id_set_nw_ttl), (21, of13_action_id_set_queue),
     (65535, of13_instruction_bsn_arp_offload), (65535, of13_instruction_bsn_auto_negotiation),
     (65535, of13_instruction_bsn_deny), (65535, of13_instruction_bsn_dhcp_offload),
     (65535, of13_instruction_bsn_disable_l3), (65535, of13_instruction_bsn_disable_split_horizon_check),
     (65535, of13_instruction_bsn_disable_src_mac_check),
     (65535, of13_instruction_bsn_disable_vlan_counters), (65535, of13_instruction_bsn_internal_priority),
     (65535, of13_instruction_bsn_packet_of_death), (65535, of13_instruction_bsn_permit),
     (65535, of13_instruction_bsn_prioritize_pdus), (65535, of13_instruction_bsn_require_vlan_xlate),
     (65535, of13_instruction_bsn_span_destination), (5, of13_instruction_clear_actions),
     (1, of13_instruction_goto_table), (6, of13_instruction_meter)]"
  "list_all (\<lambda>(k, c). writes_const fL 4 k c)
    [(6035143, of13_action_id_bsn_checksum), (6035143, of13_action_id_bsn_gentable),
     (6035143, of13_action_id_bsn_mirror), (6035143, of13_action_id_bsn_set_tunnel_dst),
     (8992, of13_action_id_nicira_dec_ttl), (6035143, of13_instruction_bsn_arp_offload),
     (6035143, of13_instruction_bsn_auto_negotiation), (6035143, of13_instruction_bsn_deny),
     (6035143, of13_instruction_bsn_dhcp_offload), (6035143, of13_instruction_bsn_disable_l3),
     (6035143, of13_instruction_bsn_disable_split_horizon_check),
     (6035143, of13_instruction_bsn_disable_src_mac_check),
     (6035143, of13_instruction_bsn_disable_vlan_counters),
     (6035143, of13_instruction_bsn_internal_priority), (6035143, of13_instruction_bsn_packet_of_death),
     (6035143, of13_instruction_bsn_permit), (6035143, of13_instruction_bsn_prioritize_pdus),
     (6035143, of13_instruction_bsn_require_vlan_xlate), (6035143, of13_instruction_bsn_span_destination)]"
  "list_all (\<lambda>(k, c). writes_const fL 8 k c)
    [(4, of13_action_id_bsn_checksum), (5, of13_action_id_bsn_gentable), (1, of13_action_id_bsn_mirror),
     (2, of13_action_id_bsn_set_tunnel_dst), (1, of13_instruction_bsn_arp_offload),
     (11, of13_instruction_bsn_auto_negotiation), (5, of13_instruction_bsn_deny),
     (2, of13_instruction_bsn_dhcp_offload), (13, of13_instruction_bsn_disable_l3),
     (3, of13_instruction_bsn_disable_split_horizon_check),
     (0, of13_instruction_bsn_disable_src_mac_check), (9, of13_instruction_bsn_disable_vlan_counters),
     (12, of13_instruction_bsn_internal_priority), (6, of13_instruction_bsn_packet_of_death),
     (4, of13_instruction_bsn_permit), (7, of13_instruction_bsn_prioritize_pdus),
     (8, of13_instruction_bsn_require_vlan_xlate), (10, of13_instruction_bsn_span_destination)]"
  "list_all (\<lambda>(k, c). writes_const fH 8 k c)
    [(18, of13_action_id_nicira_dec_ttl)]"
  by (simp_all add: loxi_formats loxi_eval loxi_checked
    of13_action_set_nw_ttl_def of13_action_set_queue_def of13_action_id_bsn_checksum_def
    of13_action_id_bsn_gentable_def of13_action_id_bsn_mirror_def of13_action_id_bsn_set_tunnel_dst_def
    of13_action_id_nicira_dec_ttl_def of13_action_id_copy_ttl_in_def of13_action_id_copy_ttl_out_def
    of13_action_id_dec_mpls_ttl_def of13_action_id_dec_nw_ttl_def of13_action_id_group_def
    of13_action_id_output_def of13_action_id_pop_mpls_def of13_action_id_pop_pbb_def
    of13_action_id_pop_vlan_def of13_action_id_push_mpls_def of13_action_id_push_pbb_def
    of13_action_id_push_vlan_def of13_action_id_set_field_def of13_action_id_set_mpls_ttl_def
    of13_action_id_set_nw_ttl_def of13_action_id_set_queue_def of13_instruction_bsn_arp_offload_def
    of13_instruction_bsn_auto_negotiation_def of13_instruction_bsn_deny_def
    of13_instruction_bsn_dhcp_offload_def of13_instruction_bsn_disable_l3_def
    of13_instruction_bsn_disable_split_horizon_check_def of13_instruction_bsn_disable_src_mac_check_def
    of13_instruction_bsn_disable_vlan_counters_def of13_instruction_bsn_internal_priority_def
    of13_instruction_bsn_packet_of_death_def of13_instruction_bsn_permit_def
    of13_instruction_bsn_prioritize_pdus_def of13_instruction_bsn_require_vlan_xlate_def
    of13_instruction_bsn_span_destination_def of13_instruction_clear_actions_def
    of13_instruction_goto_table_def of13_instruction_meter_def
    del: One_nat_def)

lemma of13Elements_checked_1e [unfolded list.pred_inject prod.case, loxi_checked]:
  "list_all codec_ok
    [of13_instruction_write_metadata, of13_meter_band_drop, of13_meter_band_dscp_remark,
     of13_meter_band_experimenter, of13_instruction_id_apply_actions, of13_instruction_id_bsn_arp_offload,
     of13_instruction_id_bsn_auto_negotiation, of13_instruction_id_bsn_deny,
     of13_instruction_id_bsn_dhcp_offload, of13_instruction_id_bsn_disable_l3,
     of13_instruction_id_bsn_disable_split_horizon_check, of13_instruction_id_bsn_disable_src_mac_check,
     of13_instruction_id_bsn_disable_vlan_counters, of13_instruction_id_bsn_internal_priority,
     of13_instruction_id_bsn_packet_of_death, of13_instruction_id_bsn_permit,
     of13_instruction_id_bsn_prioritize_pdus, of13_instruction_id_bsn_require_vlan_xlate,
     of13_instruction_id_bsn_span_destination, of13_instruction_id_clear_actions,
     of13_instruction_id_goto_table, of13_instruction_id_meter, of13_instruction_id_write_actions,
     of13_instruction_id_write_metadata]"
  "list_all safe_cls
    [of13_instruction_write_metadata, of13_meter_band_drop, of13_meter_band_dscp_remark,
     of13_meter_band_experimenter, of13_instruction_id_apply_actions, of13_instruction_id_bsn_arp_offload,
     of13_instruction_id_bsn_auto_negotiation, of13_instruction_id_bsn_deny,
     of13_instruction_id_bsn_dhcp_offload, of13_instruction_id_bsn_disable_l3,
     of13_instruction_id_bsn_disable_split_horizon_check, of13_instruction_id_bsn_disable_src_mac_check,
     of13_instruction_id_bsn_disable_vlan_counters, of13_instruction_id_bsn_internal_priority,
     of13_instruction_id_bsn_packet_of_death, of13_instruction_id_bsn_permit,
     of13_instruction_id_bsn_prioritize_pdus, of13_instruction_id_bsn_require_vlan_xlate,
     of13_instruction_id_bsn_span_destination, of13_instruction_id_clear_actions,
     of13_instruction_id_goto_table, of13_instruction_id_meter, of13_instruction_id_write_actions,
     of13_instruction_id_write_metadata]"
  "list_all (\<lambda>c. \<not> needs_align c)
    [of13_instruction_write_metadata, of13_meter_band_drop, of13_meter_band_dscp_remark,
     of13_meter_band_experimenter, of13_instruction_id_apply_actions, of13_instruction_id_bsn_arp_offload,
     of13_instruction_id_bsn_auto_negotiation, of13_instruction_id_bsn_deny,
     of13_instruction_id_bsn_dhcp_offload, of13_instruction_id_bsn_disable_l3,
     of13_instruction_id_bsn_disable_split_horizon_check, of13_instruction_id_bsn_disable_src_mac_check,
     of13_instruction_id_bsn_disable_vlan_counters, of13_instruction_id_bsn_internal_priority,
     of13_instruction_id_bsn_packet_of_death, of13_instruction_id_bsn_permit,
     of13_instruction_id_bsn_prioritize_pdus, of13_instruction_id_bsn_require_vlan_xlate,
     of13_instruction_id_bsn_span_destination, of13_instruction_id_clear_actions,
     of13_instruction_id_goto_table, of13_instruction_id_meter, of13_instruction_id_write_actions,
     of13_instruction_id_write_metadata]"
  "list_all (\<lambda>(k, c). writes_const fH 0 k c)
    [(2, of13_instruction_write_metadata), (1, of13_meter_band_drop), (2, of13_meter_band_dscp_remark),
     (65535, of13_meter_band_experimenter), (4, of13_instruction_id_apply_actions),
     (65535, of13_instruction_id_bsn_arp_offload), (65535, of13_instruction_id_bsn_auto_negotiation),
     (65535, of13_instruction_id_bsn_deny), (65535, of13_instruction_id_bsn_dhcp_offload),
     (65535, of13_instruction_id_bsn_disable_l3),
     (65535, of13_instruction_id_bsn_disable_split_horizon_check),
     (65535, of13_instruction_id_bsn_disable_src_mac_check),
     (65535, of13_instruction_id_bsn_disable_vlan_counters),
     (65535, of13_instruction_id_bsn_internal_priority), (65535, of13_instruction_id_bsn_packet_of_death),
     (65535, of13_instruction_id_bsn_permit), (65535, of13_instruction_id_bsn_prioritize_pdus),
     (65535, of13_instruction_id_bsn_require_vlan_xlate),
     (65535, of13_instruction_id_bsn_span_destination), (5, of13_instruction_id_clear_actions),
     (1, of13_instruction_id_goto_table), (6, of13_instruction_id_meter),
     (3, of13_instruction_id_write_actions), (2, of13_instruction_id_write_metadata)]"
  "list_all (\<lambda>(k, c). writes_const fL 4 k c)
    [(6035143, of13_instruction_id_bsn_arp_offload), (6035143, of13_instruction_id_bsn_auto_negotiation),
     (6035143, of13_instruction_id_bsn_deny), (6035143, of13_instruction_id_bsn_dhcp_offload),
     (6035143, of13_instruction_id_bsn_disable_l3),
     (6035143, of13_instruction_id_bsn_disable_split_horizon_check),
     (6035143, of13_instruction_id_bsn_disable_src_mac_check),
     (6035143, of13_instruction_id_bsn_disable_vlan_counters),
     (6035143, of13_instruction_id_bsn_internal_priority),
     (6035143, of13_instruction_id_bsn_packet_of_death), (6035143, of13_instruction_id_bsn_permit),
     (6035143, of13_instruction_id_bsn_prioritize_pdus),
     (6035143, of13_instruction_id_bsn_require_vlan_xlate),
     (6035143, of13_instruction_id_bsn_span_destination)]"
  "list_all (\<lambda>(k, c). writes_const fL 8 k c)
    [(1, of13_instruction_id_bsn_arp_offload), (11, of13_instruction_id_bsn_auto_negotiation),
     (5, of13_instruction_id_bsn_deny), (2, of13_instruction_id_bsn_dhcp_offload),
     (13, of13_instruction_id_bsn_disable_l3), (3, of13_instruction_id_bsn_disable_split_horizon_check),
     (0, of13_instruction_id_bsn_disable_src_mac_check),
     (9, of13_instruction_id_bsn_disable_vlan_counters), (12, of13_instruction_id_bsn_internal_priority),
     (6, of13_instruction_id_bsn_packet_of_death), (4, of13_instruction_id_bsn_permit),
     (7, of13_instruction_id_bsn_prioritize_pdus), (8, of13_instruction_id_bsn_require_vlan_xlate),
     (10, of13_instruction_id_bsn_span_destination)]"
  by (simp_all add: loxi_formats loxi_eval loxi_checked
    of13_instruction_write_metadata_def of13_meter_band_drop_def of13_meter_band_dscp_remark_def
    of13_meter_band_experimenter_def of13_instruction_id_apply_actions_def
    of13_instruction_id_bsn_arp_offload_def of13_instruction_id_bsn_auto_negotiation_def
    of13_instruction_id_bsn_deny_def of13_instruction_id_bsn_dhcp_offload_def
    of13_instruction_id_bsn_disable_l3_def of13_instruction_id_bsn_disable_split_horizon_check_def
    of13_instruction_id_bsn_disable_src_mac_check_def of13_instruction_id_bsn_disable_vlan_counters_def
    of13_instruction_id_bsn_internal_priority_def of13_instruction_id_bsn_packet_of_death_def
    of13_instruction_id_bsn_permit_def of13_instruction_id_bsn_prioritize_pdus_def
    of13_instruction_id_bsn_require_vlan_xlate_def of13_instruction_id_bsn_span_destination_def
    of13_instruction_id_clear_actions_def of13_instruction_id_goto_table_def
    of13_instruction_id_meter_def of13_instruction_id_write_actions_def
    of13_instruction_id_write_metadata_def
    del: One_nat_def)

lemma of13Elements_checked_2 [unfolded list.pred_inject prod.case, loxi_checked]:
  "list_all codec_ok
    [of13_bsn_tlv_bsn_tlv, of13_action_nicira, of13_action_id_bsn, of13_action_id_nicira,
     of13_instruction_bsn, of13_meter_band_meter_band, of13_instruction_id_bsn]"
  "list_all safe_cls
    [of13_bsn_tlv_bsn_tlv, of13_action_nicira, of13_action_id_bsn, of13_action_id_nicira,
     of13_instruction_bsn, of13_meter_band_meter_band, of13_instruction_id_bsn]"
  "list_all (\<lambda>c. \<not> needs_align c)
    [of13_bsn_tlv_bsn_tlv, of13_action_nicira, of13_action_id_bsn, of13_action_id_nicira,
     of13_instruction_bsn, of13_meter_band_meter_band, of13_instruction_id_bsn]"
  "list_all (\<lambda>(k, c). writes_const fH 0 k c)
    [(65535, of13_action_nicira), (65535, of13_action_id_bsn), (65535, of13_action_id_nicira),
     (65535, of13_instruction_bsn), (65535, of13_instruction_id_bsn)]"
  "list_all (\<lambda>(k, c). writes_const fL 4 k c)
    [(8992, of13_action_nicira), (6035143, of13_action_id_bsn), (8992, of13_action_id_nicira),
     (6035143, of13_instruction_bsn), (6035143, of13_instruction_id_bsn)]"
  by (simp_all add: loxi_formats loxi_eval loxi_checked
    of13_bsn_tlv_bsn_tlv_def of13_action_nicira_def of13_action_id_bsn_def of13_action_id_nicira_def
    of13_instruction_bsn_def of13_meter_band_meter_band_def of13_instruction_id_bsn_def
    del: One_nat_def)

lemma of13Elements_checked_3 [unfolded list.pred_inject prod.case, loxi_checked]:
  "list_all codec_ok
    [of13_action_bsn_gentable, of13_action_id_experimenter, of13_instruction_experimenter,
     of13_instruction_id_experimenter]"
  "list_all safe_cls
    [of13_action_bsn_gentable, of13_action_id_experimenter, of13_instruction_experimenter,
     of13_instruction_id_experimenter]"
  "list_all (\<lambda>c. \<not> needs_align c)
    [of13_action_bsn_gentable, of13_action_id_experimenter, of13_instruction_experimenter,
     of13_instruction_id_experimenter]"
  "list_all (\<lambda>(k, c). writes_const fH 0 k c)
    [(65535, of13_action_bsn_gentable), (65535, of13_action_id_experimenter),
     (65535, of13_instruction_experimenter), (65535, of13_instruction_id_experimenter)]"
  "list_all (\<lambda>(k, c). writes_const fL 4 k c)
    [(6035143, of13_action_bsn_gentable)]"
  "list_all (\<lambda>(k, c). writes_const fL 8 k c)
    [(5, of13_action_bsn_gentable)]"
  by (simp_all add: loxi_formats loxi_eval loxi_checked
    of13_action_bsn_gentable_def of13_action_id_experimenter_def of13_instruction_experimenter_def
    of13_instruction_id_experimenter_def
    del: One_nat_def)

lemma of13Elements_checked_4 [unfolded list.pred_inject prod.case, loxi_checked]:
  "list_all codec_ok
    [of13_action_bsn, of13_action_id_action_id, of13_instruction_id_instruction_id]"
  "list_all safe_cls
    [of13_action_bsn, of13_action_id_action_id, of13_instruction_id_instruction_id]"
  "list_all (\<lambda>c. \<not> needs_align c)
    [of13_action_bsn, of13_action_id_action_id, of13_instruction_id_instruction_id]"
  "list_all (\<lambda>(k, c). writes_const fH 0 k c)
    [(65535, of13_action_bsn)]"
  "list_all (\<lambda>(k, c). writes_const fL 4 k c)
    [(6035143, of13_action_bsn)]"
  by (simp_all add: loxi_formats loxi_eval loxi_checked
    of13_action_bsn_def of13_action_id_action_id_def of13_instruction_id_instruction_id_def
    del: One_nat_def)

lemma of13Elements_checked_5 [unfolded list.pred_inject prod.case, loxi_checked]:
  "list_all codec_ok
    [of13_action_experimenter]"
  "list_all safe_cls
    [of13_action_experimenter]"
  "list_all (\<lambda>c. \<not> needs_align c)
    [of13_action_experimenter]"
  "list_all (\<lambda>(k, c). writes_const fH 0 k c)
    [(65535, of13_action_experimenter)]"
  by (simp_all add: loxi_formats loxi_eval loxi_checked
    of13_action_experimenter_def
    del: One_nat_def)

lemma of13Elements_checked_6 [unfolded list.pred_inject prod.case, loxi_checked]:
  "list_all codec_ok
    [of13_action_action]"
  "list_all safe_cls
    [of13_action_action]"
  "list_all (\<lambda>c. \<not> needs_align c)
    [of13_action_action]"
  by (simp_all add: loxi_formats loxi_eval loxi_checked
    of13_action_action_def
    del: One_nat_def)

lemma of13Elements_checked_7 [unfolded list.pred_inject prod.case, loxi_checked]:
  "list_all codec_ok
    [of13_instruction_apply_actions, of13_instruction_write_actions]"
  "list_all safe_cls
    [of13_instruction_apply_actions, of13_instruction_write_actions]"
  "list_all (\<lambda>c. \<not> needs_align c)
    [of13_instruction_apply_actions, of13_instruction_write_actions]"
  "list_all (\<lambda>(k, c). writes_const fH 0 k c)
    [(4, of13_instruction_apply_actions), (3, of13_instruction_write_actions)]"
  by (simp_all add: loxi_formats loxi_eval loxi_checked
    of13_instruction_apply_actions_def of13_instruction_write_actions_def
    del: One_nat_def)

lemma of13Elements_checked_8 [unfolded list.pred_inject prod.case, loxi_checked]:
  "list_all codec_ok
    [of13_instruction_instruction]"
  "list_all safe_cls
    [of13_instruction_instruction]"
  "list_all (\<lambda>c. \<not> needs_align c)
    [of13_instruction_instruction]"
  by (simp_all add: loxi_formats loxi_eval loxi_checked
    of13_instruction_instruction_def
    del: One_nat_def)

end
