(* ===== verification/Of13Common.thy ===== *)
theory Of13Common
  imports Of13Elements
begin

text \<open>
  OpenFlow 1.3: the 64 classes of \<^verbatim>\<open>common.py\<close>
  under \<^verbatim>\<open>src/ofagent/loxi/of13\<close>, and the check that \<^verbatim>\<open>unpack\<close> of each class
  reads what its \<^verbatim>\<open>pack\<close> writes.
\<close>


section \<open>Classes\<close>

definition of13_common_bsn_controller_connection :: cls where
  "of13_common_bsn_controller_connection =
     Cls ''bsn_controller_connection'' []
       [(nm_state, D_num 0), (nm_auxiliary_id, D_num 0), (nm_role, D_num 0), (nm_uri, D_str [])]
       [P_field nm_state fB, P_field nm_auxiliary_id fB, P_pad 2, P_field nm_role fL,
        P_field nm_uri (fS 256)]
       None
       [U_field nm_state fB, U_field nm_auxiliary_id fB, U_skip 2, U_field nm_role fL,
        U_field nm_uri (fS_rstrip 256)]
       [nm_state, nm_auxiliary_id, nm_role, nm_uri]"

definition of13_common_bsn_debug_counter_desc_stats_entry :: cls where
  "of13_common_bsn_debug_counter_desc_stats_entry =
     Cls ''bsn_debug_counter_desc_stats_entry'' []
       [(nm_counter_id, D_num 0), (nm_name, D_str []), (nm_description, D_str [])]
       [P_field nm_counter_id fQ, P_field nm_name (fS 64), P_field nm_description (fS 256)]
       None
       [U_field nm_counter_id fQ, U_field nm_name (fS_rstrip 64),
        U_field nm_description (fS_rstrip 256)]
       [nm_counter_id, nm_name, nm_description]"

definition of13_common_bsn_debug_counter_stats_entry :: cls where
  "of13_common_bsn_debug_counter_stats_entry =
     Cls ''bsn_debug_counter_stats_entry'' []
       [(nm_counter_id, D_num 0), (nm_value, D_num 0)]
       [P_field nm_counter_id fQ, P_field nm_value fQ]
       None
       [U_field nm_counter_id fQ, U_field nm_value fQ]
       [nm_counter_id, nm_value]"

definition of13_common_bsn_flow_checksum_bucket_stats_entry :: cls where
  "of13_common_bsn_flow_checksum_bucket_stats_entry =
     Cls ''bsn_flow_checksum_bucket_stats_entry'' []
       [(nm_checksum, D_num 0)]
       [P_field nm_checksum fQ]
       None
       [U_field nm_checksum fQ]
       [nm_checksum]"

definition of13_common_bsn_generic_stats_entry :: cls where
  "of13_common_bsn_generic_stats_entry =
     Cls ''bsn_generic_stats_entry'' []
       [(nm_tlvs, D_list)]
       [P_placeholder, P_list nm_tlvs, P_length, P_set_len 0]
       None
       [U_local nm__length fH, U_slice nm__length 2, U_list nm_tlvs of13_bsn_tlv_bsn_tlv]
       [nm_tlvs]"

definition of13_common_bsn_gentable_bucket_stats_entry :: cls where
  "of13_common_bsn_gentable_bucket_stats_entry =
     Cls ''bsn_gentable_bucket_stats_entry'' []
       [(nm_checksum, D_num 0)]
       [P_field nm_checksum fChecksum_128]
       None
       [U_field nm_checksum fChecksum_128]
       [nm_checksum]"

definition of13_common_bsn_gentable_desc_stats_entry :: cls where
  "of13_common_bsn_gentable_desc_stats_entry =
     Cls ''bsn_gentable_desc_stats_entry'' []
       [(nm_table_id, D_num 0), (nm_name, D_str []), (nm_buckets_size, D_num 0),
        (nm_max_entries, D_num 0)]
       [P_placeholder, P_field nm_table_id fH, P_field nm_name (fS 32), P_field nm_buckets_size fL,
        P_field nm_max_entries fL, P_pad 4, P_length, P_set_len 0]
       None
       [U_local nm__length fH, U_slice nm__length 2, U_field nm_table_id fH,
        U_field nm_name (fS_rstrip 32), U_field nm_buckets_size fL, U_field nm_max_entries fL,
        U_skip 4]
       [nm_table_id, nm_name, nm_buckets_size, nm_max_entries]"

definition of13_common_bsn_gentable_entry_desc_stats_entry :: cls where
  "of13_common_bsn_gentable_entry_desc_stats_entry =
     Cls ''bsn_gentable_entry_desc_stats_entry'' []
       [(nm_checksum, D_num 0), (nm_key, D_list), (nm_value, D_list)]
       [P_placeholder, P_placeholder, P_field nm_checksum fChecksum_128, P_list nm_key,
        P_len_last 1, P_list nm_value, P_length, P_set_len 0]
       None
       [U_local nm__length fH, U_slice nm__length 2, U_local nm__key_length fH,
        U_field nm_checksum fChecksum_128, U_list_of nm_key nm__key_length of13_bsn_tlv_bsn_tlv,
        U_list nm_value of13_bsn_tlv_bsn_tlv]
       [nm_checksum, nm_key, nm_value]"

definition of13_common_bsn_gentable_entry_stats_entry :: cls where
  "of13_common_bsn_gentable_entry_stats_entry =
     Cls ''bsn_gentable_entry_stats_entry'' []
       [(nm_key, D_list), (nm_stats, D_list)]
       [P_placeholder, P_placeholder, P_list nm_key, P_len_last 1, P_list nm_stats, P_length,
        P_set_len 0]
       None
       [U_local nm__length fH, U_slice nm__length 2, U_local nm__key_length fH,
        U_list_of nm_key nm__key_length of13_bsn_tlv_bsn_tlv, U_list nm_stats of13_bsn_tlv_bsn_tlv]
       [nm_key, nm_stats]"

definition of13_common_bsn_gentable_stats_entry :: cls where
  "of13_common_bsn_gentable_stats_entry =
     Cls ''bsn_gentable_stats_entry'' []
       [(nm_table_id, D_num 0), (nm_entry_count, D_num 0), (nm_checksum, D_num 0)]
       [P_field nm_table_id fH, P_pad 2, P_field nm_entry_count fL,
        P_field nm_checksum fChecksum_128]
       None
       [U_field nm_table_id fH, U_skip 2, U_field nm_entry_count fL,
        U_field nm_checksum fChecksum_128]
       [nm_table_id, nm_entry_count, nm_checksum]"

definition of13_common_bsn_interface :: cls where
  "of13_common_bsn_interface =
     Cls ''bsn_interface'' []
       [(nm_hw_addr, D_nums [0,0,0,0,0,0]), (nm_name, D_str []), (nm_ipv4_addr, D_num 0),
        (nm_ipv4_netmask, D_num 0)]
       [P_field nm_hw_addr f6B, P_pad 2, P_field nm_name (fS 16), P_field nm_ipv4_addr fL,
        P_field nm_ipv4_netmask fL]
       None
       [U_field nm_hw_addr f6B, U_skip 2, U_field nm_name (fS_rstrip 16), U_field nm_ipv4_addr fL,
        U_field nm_ipv4_netmask fL]
       [nm_hw_addr, nm_name, nm_ipv4_addr, nm_ipv4_netmask]"

definition of13_common_bsn_lacp_stats_entry :: cls where
  "of13_common_bsn_lacp_stats_entry =
     Cls ''bsn_lacp_stats_entry'' []
       [(nm_port_no, D_num 0), (nm_actor_sys_priority, D_num 0),
        (nm_actor_sys_mac, D_nums [0,0,0,0,0,0]), (nm_actor_port_priority, D_num 0),
        (nm_actor_port_num, D_num 0), (nm_actor_key, D_num 0), (nm_convergence_status, D_num 0),
        (nm_partner_sys_priority, D_num 0), (nm_partner_sys_mac, D_nums [0,0,0,0,0,0]),
        (nm_partner_port_priority, D_num 0), (nm_partner_port_num, D_num 0),
        (nm_partner_key, D_num 0)]
       [P_field nm_port_no of13_port_no, P_field nm_actor_sys_priority fH,
        P_field nm_actor_sys_mac f6B, P_field nm_actor_port_priority fH,
        P_field nm_actor_port_num fH, P_field nm_actor_key fH, P_field nm_convergence_status fB,
        P_pad 1, P_field nm_partner_sys_priority fH, P_field nm_partner_sys_mac f6B,
        P_field nm_partner_port_priority fH, P_field nm_partner_port_num fH,
        P_field nm_partner_key fH, P_pad 2]
       None
       [U_field nm_port_no of13_port_no, U_field nm_actor_sys_priority fH,
        U_field nm_actor_sys_mac f6B, U_field nm_actor_port_priority fH,
        U_field nm_actor_port_num fH, U_field nm_actor_key fH, U_field nm_convergence_status fB,
        U_skip 1, U_field nm_partner_sys_priority fH, U_field nm_partner_sys_mac f6B,
        U_field nm_partner_port_priority fH, U_field nm_partner_port_num fH,
        U_field nm_partner_key fH, U_skip 2]
       [nm_port_no, nm_actor_sys_priority, nm_actor_sys_mac, nm_actor_port_priority,
        nm_actor_port_num, nm_actor_key, nm_convergence_status, nm_partner_sys_priority,
        nm_partner_sys_mac, nm_partner_port_priority, nm_partner_port_num, nm_partner_key]"

definition of13_common_uint64 :: cls where
  "of13_common_uint64 =
     Cls ''uint64'' []
       [(nm_value, D_num 0)]
       [P_field nm_value fQ]
       None
       [U_field nm_value fQ]
       [nm_value]"

definition of13_common_bsn_port_counter_stats_entry :: cls where
  "of13_common_bsn_port_counter_stats_entry =
     Cls ''bsn_port_counter_stats_entry'' []
       [(nm_port_no, D_num 0), (nm_values, D_list)]
       [P_placeholder, P_pad 2, P_field nm_port_no of13_port_no, P_list nm_values, P_length,
        P_set_len 0]
       None
       [U_local nm__length fH, U_slice nm__length 2, U_skip 2, U_field nm_port_no of13_port_no,
        U_list nm_values of13_common_uint64]
       [nm_port_no, nm_values]"

definition of13_common_bsn_switch_pipeline_stats_entry :: cls where
  "of13_common_bsn_switch_pipeline_stats_entry =
     Cls ''bsn_switch_pipeline_stats_entry'' []
       [(nm_pipeline, D_str [])]
       [P_field nm_pipeline (fS 256)]
       None
       [U_field nm_pipeline (fS_rstrip 256)]
       [nm_pipeline]"

definition of13_common_bsn_table_checksum_stats_entry :: cls where
  "of13_common_bsn_table_checksum_stats_entry =
     Cls ''bsn_table_checksum_stats_entry'' []
       [(nm_table_id, D_num 0), (nm_checksum, D_num 0)]
       [P_field nm_table_id fB, P_field nm_checksum fQ]
       None
       [U_field nm_table_id fB, U_field nm_checksum fQ]
       [nm_table_id, nm_checksum]"

definition of13_common_bsn_vlan_mac :: cls where
  "of13_common_bsn_vlan_mac =
     Cls ''bsn_vlan_mac'' []
       [(nm_vlan_vid, D_num 0), (nm_mac, D_nums [0,0,0,0,0,0])]
       [P_field nm_vlan_vid fH, P_field nm_mac f6B]
       None
       [U_field nm_vlan_vid fH, U_field nm_mac f6B]
       [nm_vlan_vid, nm_mac]"

definition of13_common_bsn_tlv_vlan_mac_list :: cls where
  "of13_common_bsn_tlv_vlan_mac_list =
     Cls ''bsn_tlv_vlan_mac_list'' [(nm_type, 98)]
       [(nm_key, D_list)]
       [P_field nm_type fH, P_placeholder, P_list nm_key, P_length, P_set_len 1]
       None
       [U_local nm__type fH, U_assert nm__type 98, U_local nm__length fH, U_slice nm__length 4,
        U_list nm_key of13_common_bsn_vlan_mac]
       [nm_key]"

definition of13_common_bsn_vport_l2gre :: cls where
  "of13_common_bsn_vport_l2gre =
     Cls ''bsn_vport_l2gre'' [(nm_type, 1)]
       [(nm_flags, D_num 0), (nm_port_no, D_num 0), (nm_loopback_port_no, D_num 0),
        (nm_local_mac, D_nums [0,0,0,0,0,0]), (nm_nh_mac, D_nums [0,0,0,0,0,0]),
        (nm_src_ip, D_num 0), (nm_dst_ip, D_num 0), (nm_dscp, D_num 0), (nm_ttl, D_num 0),
        (nm_vpn, D_num 0), (nm_rate_limit, D_num 0), (nm_if_name, D_str [])]
       [P_field nm_type fH, P_placeholder, P_field nm_flags fL, P_field nm_port_no of13_port_no,
        P_field nm_loopback_port_no of13_port_no, P_field nm_local_mac f6B, P_field nm_nh_mac f6B,
        P_field nm_src_ip fL, P_field nm_dst_ip fL, P_field nm_dscp fB, P_field nm_ttl fB, P_pad 2,
        P_field nm_vpn fL, P_field nm_rate_limit fL, P_field nm_if_name (fS 16), P_length,
        P_set_len 1]
       None
       [U_local nm__type fH, U_assert nm__type 1, U_local nm__length fH, U_slice nm__length 4,
        U_field nm_flags fL, U_field nm_port_no of13_port_no,
        U_field nm_loopback_port_no of13_port_no, U_field nm_local_mac f6B, U_field nm_nh_mac f6B,
        U_field nm_src_ip fL, U_field nm_dst_ip fL, U_field nm_dscp fB, U_field nm_ttl fB,
        U_skip 2, U_field nm_vpn fL, U_field nm_rate_limit fL, U_field nm_if_name (fS_rstrip 16)]
       [nm_flags, nm_port_no, nm_loopback_port_no, nm_local_mac, nm_nh_mac, nm_src_ip, nm_dst_ip,
        nm_dscp, nm_ttl, nm_vpn, nm_rate_limit, nm_if_name]"

definition of13_common_bsn_vport_q_in_q :: cls where
  "of13_common_bsn_vport_q_in_q =
     Cls ''bsn_vport_q_in_q'' [(nm_type, 0)]
       [(nm_port_no, D_num 0), (nm_ingress_tpid, D_num 0), (nm_ingress_vlan_id, D_num 0),
        (nm_egress_tpid, D_num 0), (nm_egress_vlan_id, D_num 0), (nm_if_name, D_str [])]
       [P_field nm_type fH, P_placeholder, P_field nm_port_no fL, P_field nm_ingress_tpid fH,
        P_field nm_ingress_vlan_id fH, P_field nm_egress_tpid fH, P_field nm_egress_vlan_id fH,
        P_field nm_if_name (fS 16), P_length, P_set_len 1]
       None
       [U_local nm__type fH, U_assert nm__type 0, U_local nm__length fH, U_slice nm__length 4,
        U_field nm_port_no fL, U_field nm_ingress_tpid fH, U_field nm_ingress_vlan_id fH,
        U_field nm_egress_tpid fH, U_field nm_egress_vlan_id fH, U_field nm_if_name (fS_rstrip 16)]
       [nm_port_no, nm_ingress_tpid, nm_ingress_vlan_id, nm_egress_tpid, nm_egress_vlan_id,
        nm_if_name]"

definition of13_common_bsn_vport :: cls where
  "of13_common_bsn_vport =
     Cls ''bsn_vport'' []
       [(nm_type, D_num 0)]
       [P_field nm_type fH, P_placeholder, P_length, P_set_len 1]
       (Some (fH, 0,
         [(1, of13_common_bsn_vport_l2gre), (0, of13_common_bsn_vport_q_in_q)]))
       [U_field nm_type fH, U_local nm__length fH, U_slice nm__length 4]
       [nm_type]"

definition of13_common_bsn_vlan_counter_stats_entry :: cls where
  "of13_common_bsn_vlan_counter_stats_entry =
     Cls ''bsn_vlan_counter_stats_entry'' []
       [(nm_vlan_vid, D_num 0), (nm_values, D_list)]
       [P_placeholder, P_field nm_vlan_vid fH, P_pad 4, P_list nm_values, P_length, P_set_len 0]
       None
       [U_local nm__length fH, U_slice nm__length 2, U_field nm_vlan_vid fH, U_skip 4,
        U_list nm_values of13_common_uint64]
       [nm_vlan_vid, nm_values]"

definition of13_common_bsn_vrf_counter_stats_entry :: cls where
  "of13_common_bsn_vrf_counter_stats_entry =
     Cls ''bsn_vrf_counter_stats_entry'' []
       [(nm_vrf, D_num 0), (nm_values, D_list)]
       [P_placeholder, P_pad 2, P_field nm_vrf fL, P_list nm_values, P_length, P_set_len 0]
       None
       [U_local nm__length fH, U_slice nm__length 2, U_skip 2, U_field nm_vrf fL,
        U_list nm_values of13_common_uint64]
       [nm_vrf, nm_values]"

definition of13_common_bucket :: cls where
  "of13_common_bucket =
     Cls ''bucket'' []
       [(nm_weight, D_num 0), (nm_watch_port, D_num 0), (nm_watch_group, D_num 0),
        (nm_actions, D_list)]
       [P_placeholder, P_field nm_weight fH, P_field nm_watch_port of13_port_no,
        P_field nm_watch_group fL, P_pad 4, P_list nm_actions, P_length, P_set_len 0]
       None
       [U_local nm__len fH, U_slice nm__len 2, U_field nm_weight fH,
        U_field nm_watch_port of13_port_no, U_field nm_watch_group fL, U_skip 4,
        U_list nm_actions of13_action_action]
       [nm_weight, nm_watch_port, nm_watch_group, nm_actions]"

definition of13_common_bucket_counter :: cls where
  "of13_common_bucket_counter =
     Cls ''bucket_counter'' []
       [(nm_packet_count, D_num 0), (nm_byte_count, D_num 0)]
       [P_field nm_packet_count fQ, P_field nm_byte_count fQ]
       None
       [U_field nm_packet_count fQ, U_field nm_byte_count fQ]
       [nm_packet_count, nm_byte_count]"

definition of13_common_match_v3 :: cls where
  "of13_common_match_v3 =
     Cls ''match_v3'' [(nm_type, 1)]
       [(nm_oxm_list, D_list)]
       [P_field nm_type fH, P_placeholder, P_list nm_oxm_list, P_length, P_set_len 1, P_pad_to 8]
       None
       [U_local nm__type fH, U_assert nm__type 1, U_local nm__length fH, U_slice nm__length 4,
        U_list nm_oxm_list of13_oxm_oxm, U_orig_skip_align]
       [nm_oxm_list]"

definition of13_common_flow_stats_entry :: cls where
  "of13_common_flow_stats_entry =
     Cls ''flow_stats_entry'' []
       [(nm_table_id, D_num 0), (nm_duration_sec, D_num 0), (nm_duration_nsec, D_num 0),
        (nm_priority, D_num 0), (nm_idle_timeout, D_num 0), (nm_hard_timeout, D_num 0),
        (nm_flags, D_num 0), (nm_cookie, D_num 0), (nm_packet_count, D_num 0),
        (nm_byte_count, D_num 0), (nm_match, D_new of13_common_match_v3),
        (nm_instructions, D_list)]
       [P_placeholder, P_field nm_table_id fB, P_pad 1, P_field nm_duration_sec fL,
        P_field nm_duration_nsec fL, P_field nm_priority fH, P_field nm_idle_timeout fH,
        P_field nm_hard_timeout fH, P_field nm_flags fH, P_pad 4, P_field nm_cookie fQ,
        P_field nm_packet_count fQ, P_field nm_byte_count fQ, P_obj nm_match,
        P_list nm_instructions, P_length, P_set_len 0]
       None
       [U_local nm__length fH, U_slice nm__length 2, U_field nm_table_id fB, U_skip 1,
        U_field nm_duration_sec fL, U_field nm_duration_nsec fL, U_field nm_priority fH,
        U_field nm_idle_timeout fH, U_field nm_hard_timeout fH, U_field nm_flags fH, U_skip 4,
        U_field nm_cookie fQ, U_field nm_packet_count fQ, U_field nm_byte_count fQ,
        U_obj nm_match of13_common_match_v3, U_list nm_instructions of13_instruction_instruction]
       [nm_table_id, nm_duration_sec, nm_duration_nsec, nm_priority, nm_idle_timeout,
        nm_hard_timeout, nm_flags, nm_cookie, nm_packet_count, nm_byte_count, nm_match,
        nm_instructions]"

definition of13_common_group_desc_stats_entry :: cls where
  "of13_common_group_desc_stats_entry =
     Cls ''group_desc_stats_entry'' []
       [(nm_group_type, D_num 0), (nm_group_id, D_num 0), (nm_buckets, D_list)]
       [P_placeholder, P_field nm_group_type fB, P_pad 1, P_field nm_group_id fL,
        P_list nm_buckets, P_length, P_set_len 0]
       None
       [U_local nm__length fH, U_slice nm__length 2, U_field nm_group_type fB, U_skip 1,
        U_field nm_group_id fL, U_list nm_buckets of13_common_bucket]
       [nm_group_type, nm_group_id, nm_buckets]"

definition of13_common_group_stats_entry :: cls where
  "of13_common_group_stats_entry =
     Cls ''group_stats_entry'' []
       [(nm_group_id, D_num 0), (nm_ref_count, D_num 0), (nm_packet_count, D_num 0),
        (nm_byte_count, D_num 0), (nm_duration_sec, D_num 0), (nm_duration_nsec, D_num 0),
        (nm_bucket_stats, D_list)]
       [P_placeholder, P_pad 2, P_field nm_group_id fL, P_field nm_ref_count fL, P_pad 4,
        P_field nm_packet_count fQ, P_field nm_byte_count fQ, P_field nm_duration_sec fL,
        P_field nm_duration_nsec fL, P_list nm_bucket_stats, P_length, P_set_len 0]
       None
       [U_local nm__length fH, U_slice nm__length 2, U_skip 2, U_field nm_group_id fL,
        U_field nm_ref_count fL, U_skip 4, U_field nm_packet_count fQ, U_field nm_byte_count fQ,
        U_field nm_duration_sec fL, U_field nm_duration_nsec fL,
        U_list nm_bucket_stats of13_common_bucket_counter]
       [nm_group_id, nm_ref_count, nm_packet_count, nm_byte_count, nm_duration_sec,
        nm_duration_nsec, nm_bucket_stats]"

definition of13_common_uint32 :: cls where
  "of13_common_uint32 =
     Cls ''uint32'' []
       [(nm_value, D_num 0)]
       [P_field nm_value fL]
       None
       [U_field nm_value fL]
       [nm_value]"

definition of13_common_hello_elem_versionbitmap :: cls where
  "of13_common_hello_elem_versionbitmap =
     Cls ''hello_elem_versionbitmap'' [(nm_type, 1)]
       [(nm_bitmaps, D_list)]
       [P_field nm_type fH, P_placeholder, P_list nm_bitmaps, P_length, P_set_len 1]
       None
       [U_local nm__type fH, U_assert nm__type 1, U_local nm__length fH, U_slice nm__length 4,
        U_list nm_bitmaps of13_common_uint32]
       [nm_bitmaps]"

definition of13_common_hello_elem :: cls where
  "of13_common_hello_elem =
     Cls ''hello_elem'' []
       [(nm_type, D_num 0)]
       [P_field nm_type fH, P_placeholder, P_length, P_set_len 1]
       (Some (fH, 0,
         [(1, of13_common_hello_elem_versionbitmap)]))
       [U_field nm_type fH, U_local nm__length fH, U_slice nm__length 4]
       [nm_type]"

definition of13_common_meter_band_stats :: cls where
  "of13_common_meter_band_stats =
     Cls ''meter_band_stats'' []
       [(nm_packet_band_count, D_num 0), (nm_byte_band_count, D_num 0)]
       [P_field nm_packet_band_count fQ, P_field nm_byte_band_count fQ]
       None
       [U_field nm_packet_band_count fQ, U_field nm_byte_band_count fQ]
       [nm_packet_band_count, nm_byte_band_count]"

definition of13_common_meter_config :: cls where
  "of13_common_meter_config =
     Cls ''meter_config'' []
       [(nm_flags, D_num 0), (nm_meter_id, D_num 0), (nm_entries, D_list)]
       [P_placeholder, P_field nm_flags fH, P_field nm_meter_id fL, P_list nm_entries, P_length,
        P_set_len 0]
       None
       [U_local nm__length fH, U_slice nm__length 2, U_field nm_flags fH, U_field nm_meter_id fL,
        U_list nm_entries of13_meter_band_meter_band]
       [nm_flags, nm_meter_id, nm_entries]"

definition of13_common_meter_features :: cls where
  "of13_common_meter_features =
     Cls ''meter_features'' []
       [(nm_max_meter, D_num 0), (nm_band_types, D_num 0), (nm_capabilities, D_num 0),
        (nm_max_bands, D_num 0), (nm_max_color, D_num 0)]
       [P_field nm_max_meter fL, P_field nm_band_types fL, P_field nm_capabilities fL,
        P_field nm_max_bands fB, P_field nm_max_color fB, P_pad 2]
       None
       [U_field nm_max_meter fL, U_field nm_band_types fL, U_field nm_capabilities fL,
        U_field nm_max_bands fB, U_field nm_max_color fB, U_skip 2]
       [nm_max_meter, nm_band_types, nm_capabilities, nm_max_bands, nm_max_color]"

definition of13_common_meter_stats :: cls where
  "of13_common_meter_stats =
     Cls ''meter_stats'' []
       [(nm_meter_id, D_num 0), (nm_flow_count, D_num 0), (nm_packet_in_count, D_num 0),
        (nm_byte_in_count, D_num 0), (nm_duration_sec, D_num 0), (nm_duration_nsec, D_num 0),
        (nm_band_stats, D_list)]
       [P_field nm_meter_id fL, P_placeholder, P_pad 6, P_field nm_flow_count fL,
        P_field nm_packet_in_count fQ, P_field nm_byte_in_count fQ, P_field nm_duration_sec fL,
        P_field nm_duration_nsec fL, P_list nm_band_stats, P_length, P_set_len 1]
       None
       [U_field nm_meter_id fL, U_local nm__len fH, U_slice nm__len 6, U_skip 6,
        U_field nm_flow_count fL, U_field nm_packet_in_count fQ, U_field nm_byte_in_count fQ,
        U_field nm_duration_sec fL, U_field nm_duration_nsec fL,
        U_list nm_band_stats of13_common_meter_band_stats]
       [nm_meter_id, nm_flow_count, nm_packet_in_count, nm_byte_in_count, nm_duration_sec,
        nm_duration_nsec, nm_band_stats]"

definition of13_common_queue_prop_experimenter :: cls where
  "of13_common_queue_prop_experimenter =
     Cls ''queue_prop_experimenter'' [(nm_type, 65535)]
       [(nm_experimenter, D_num 0), (nm_data, D_str [])]
       [P_field nm_type fH, P_placeholder, P_pad 4, P_field nm_experimenter fL, P_pad 4,
        P_raw nm_data, P_length, P_set_len 1]
       (Some (fL, 8,
         []))
       [U_local nm__type fH, U_assert nm__type 65535, U_local nm__len fH, U_slice nm__len 4,
        U_skip 4, U_field nm_experimenter fL, U_skip 4, U_read_all nm_data]
       [nm_experimenter, nm_data]"

definition of13_common_queue_prop_max_rate :: cls where
  "of13_common_queue_prop_max_rate =
     Cls ''queue_prop_max_rate'' [(nm_type, 2)]
       [(nm_rate, D_num 0)]
       [P_field nm_type fH, P_placeholder, P_pad 4, P_field nm_rate fH, P_pad 6, P_length,
        P_set_len 1]
       None
       [U_local nm__type fH, U_assert nm__type 2, U_local nm__len fH, U_slice nm__len 4, U_skip 4,
        U_field nm_rate fH, U_skip 6]
       [nm_rate]"

definition of13_common_queue_prop_min_rate :: cls where
  "of13_common_queue_prop_min_rate =
     Cls ''queue_prop_min_rate'' [(nm_type, 1)]
       [(nm_rate, D_num 0)]
       [P_field nm_type fH, P_placeholder, P_pad 4, P_field nm_rate fH, P_pad 6, P_length,
        P_set_len 1]
       None
       [U_local nm__type fH, U_assert nm__type 1, U_local nm__len fH, U_slice nm__len 4, U_skip 4,
        U_field nm_rate fH, U_skip 6]
       [nm_rate]"

definition of13_common_queue_prop :: cls where
  "of13_common_queue_prop =
     Cls ''queue_prop'' []
       [(nm_type, D_num 0)]
       [P_field nm_type fH, P_placeholder, P_pad 4, P_length, P_set_len 1]
       (Some (fH, 0,
         [(65535, of13_common_queue_prop_experimenter), (2, of13_common_queue_prop_max_rate),
          (1, of13_common_queue_prop_min_rate)]))
       [U_field nm_type fH, U_local nm__len fH, U_slice nm__len 4, U_skip 4]
       [nm_type]"

definition of13_common_packet_queue :: cls where
  "of13_common_packet_queue =
     Cls ''packet_queue'' []
       [(nm_queue_id, D_num 0), (nm_port, D_num 0), (nm_properties, D_list)]
       [P_field nm_queue_id fL, P_field nm_port of13_port_no, P_placeholder, P_pad 6,
        P_list nm_properties, P_length, P_set_len 2]
       None
       [U_field nm_queue_id fL, U_field nm_port of13_port_no, U_local nm__len fH,
        U_slice nm__len 10, U_skip 6, U_list nm_properties of13_common_queue_prop]
       [nm_queue_id, nm_port, nm_properties]"

definition of13_common_port_desc :: cls where
  "of13_common_port_desc =
     Cls ''port_desc'' []
       [(nm_port_no, D_num 0), (nm_hw_addr, D_nums [0,0,0,0,0,0]), (nm_name, D_str []),
        (nm_config, D_num 0), (nm_state, D_num 0), (nm_curr, D_num 0), (nm_advertised, D_num 0),
        (nm_supported, D_num 0), (nm_peer, D_num 0), (nm_curr_speed, D_num 0),
        (nm_max_speed, D_num 0)]
       [P_field nm_port_no of13_port_no, P_pad 4, P_field nm_hw_addr f6B, P_pad 2,
        P_field nm_name (fS 16), P_field nm_config fL, P_field nm_state fL, P_field nm_curr fL,
        P_field nm_advertised fL, P_field nm_supported fL, P_field nm_peer fL,
        P_field nm_curr_speed fL, P_field nm_max_speed fL]
       None
       [U_field nm_port_no of13_port_no, U_skip 4, U_field nm_hw_addr f6B, U_skip 2,
        U_field nm_name (fS_rstrip 16), U_field nm_config fL, U_field nm_state fL,
        U_field nm_curr fL, U_field nm_advertised fL, U_field nm_supported fL, U_field nm_peer fL,
        U_field nm_curr_speed fL, U_field nm_max_speed fL]
       [nm_port_no, nm_hw_addr, nm_name, nm_config, nm_state, nm_curr, nm_advertised, nm_supported,
        nm_peer, nm_curr_speed, nm_max_speed]"

definition of13_common_port_stats_entry :: cls where
  "of13_common_port_stats_entry =
     Cls ''port_stats_entry'' []
       [(nm_port_no, D_num 0), (nm_rx_packets, D_num 0), (nm_tx_packets, D_num 0),
        (nm_rx_bytes, D_num 0), (nm_tx_bytes, D_num 0), (nm_rx_dropped, D_num 0),
        (nm_tx_dropped, D_num 0), (nm_rx_errors, D_num 0), (nm_tx_errors, D_num 0),
        (nm_rx_frame_err, D_num 0), (nm_rx_over_err, D_num 0), (nm_rx_crc_err, D_num 0),
        (nm_collisions, D_num 0), (nm_duration_sec, D_num 0), (nm_duration_nsec, D_num 0)]
       [P_field nm_port_no of13_port_no, P_pad 4, P_field nm_rx_packets fQ,
        P_field nm_tx_packets fQ, P_field nm_rx_bytes fQ, P_field nm_tx_bytes fQ,
        P_field nm_rx_dropped fQ, P_field nm_tx_dropped fQ, P_field nm_rx_errors fQ,
        P_field nm_tx_errors fQ, P_field nm_rx_frame_err fQ, P_field nm_rx_over_err fQ,
        P_field nm_rx_crc_err fQ, P_field nm_collisions fQ, P_field nm_duration_sec fL,
        P_field nm_duration_nsec fL]
       None
       [U_field nm_port_no of13_port_no, U_skip 4, U_field nm_rx_packets fQ,
        U_field nm_tx_packets fQ, U_field nm_rx_bytes fQ, U_field nm_tx_bytes fQ,
        U_field nm_rx_dropped fQ, U_field nm_tx_dropped fQ, U_field nm_rx_errors fQ,
        U_field nm_tx_errors fQ, U_field nm_rx_frame_err fQ, U_field nm_rx_over_err fQ,
        U_field nm_rx_crc_err fQ, U_field nm_collisions fQ, U_field nm_duration_sec fL,
        U_field nm_duration_nsec fL]
       [nm_port_no, nm_rx_packets, nm_tx_packets, nm_rx_bytes, nm_tx_bytes, nm_rx_dropped,
        nm_tx_dropped, nm_rx_errors, nm_tx_errors, nm_rx_frame_err, nm_rx_over_err, nm_rx_crc_err,
        nm_collisions, nm_duration_sec, nm_duration_nsec]"

definition of13_common_queue_stats_entry :: cls where
  "of13_common_queue_stats_entry =
     Cls ''queue_stats_entry'' []
       [(nm_port_no, D_num 0), (nm_queue_id, D_num 0), (nm_tx_bytes, D_num 0),
        (nm_tx_packets, D_num 0), (nm_tx_errors, D_num 0), (nm_duration_sec, D_num 0),
        (nm_duration_nsec, D_num 0)]
       [P_field nm_port_no of13_port_no, P_field nm_queue_id fL, P_field nm_tx_bytes fQ,
        P_field nm_tx_packets fQ, P_field nm_tx_errors fQ, P_field nm_duration_sec fL,
        P_field nm_duration_nsec fL]
       None
       [U_field nm_port_no of13_port_no, U_field nm_queue_id fL, U_field nm_tx_bytes fQ,
        U_field nm_tx_packets fQ, U_field nm_tx_errors fQ, U_field nm_duration_sec fL,
        U_field nm_duration_nsec fL]
       [nm_port_no, nm_queue_id, nm_tx_bytes, nm_tx_packets, nm_tx_errors, nm_duration_sec,
        nm_duration_nsec]"

definition of13_common_table_feature_prop_apply_actions :: cls where
  "of13_common_table_feature_prop_apply_actions =
     Cls ''table_feature_prop_apply_actions'' [(nm_type, 6)]
       [(nm_action_ids, D_list)]
       [P_field nm_type fH, P_placeholder, P_list nm_action_ids, P_length, P_set_len 1, P_pad_to 8]
       None
       [U_local nm__type fH, U_assert nm__type 6, U_local nm__length fH, U_slice nm__length 4,
        U_list nm_action_ids of13_action_id_action_id, U_orig_skip_align]
       [nm_action_ids]"

definition of13_common_table_feature_prop_apply_actions_miss :: cls where
  "of13_common_table_feature_prop_apply_actions_miss =
     Cls ''table_feature_prop_apply_actions_miss'' [(nm_type, 7)]
       [(nm_action_ids, D_list)]
       [P_field nm_type fH, P_placeholder, P_list nm_action_ids, P_length, P_set_len 1, P_pad_to 8]
       None
       [U_local nm__type fH, U_assert nm__type 7, U_local nm__length fH, U_slice nm__length 4,
        U_list nm_action_ids of13_action_id_action_id, U_orig_skip_align]
       [nm_action_ids]"

definition of13_common_table_feature_prop_apply_setfield :: cls where
  "of13_common_table_feature_prop_apply_setfield =
     Cls ''table_feature_prop_apply_setfield'' [(nm_type, 14)]
       [(nm_oxm_ids, D_list)]
       [P_field nm_type fH, P_placeholder, P_list nm_oxm_ids, P_length, P_set_len 1, P_pad_to 8]
       None
       [U_local nm__type fH, U_assert nm__type 14, U_local nm__length fH, U_slice nm__length 4,
        U_list nm_oxm_ids of13_common_uint32, U_orig_skip_align]
       [nm_oxm_ids]"

definition of13_common_table_feature_prop_apply_setfield_miss :: cls where
  "of13_common_table_feature_prop_apply_setfield_miss =
     Cls ''table_feature_prop_apply_setfield_miss'' [(nm_type, 15)]
       [(nm_oxm_ids, D_list)]
       [P_field nm_type fH, P_placeholder, P_list nm_oxm_ids, P_length, P_set_len 1, P_pad_to 8]
       None
       [U_local nm__type fH, U_assert nm__type 15, U_local nm__length fH, U_slice nm__length 4,
        U_list nm_oxm_ids of13_common_uint32, U_orig_skip_align]
       [nm_oxm_ids]"

definition of13_common_table_feature_prop_experimenter :: cls where
  "of13_common_table_feature_prop_experimenter =
     Cls ''table_feature_prop_experimenter'' [(nm_type, 65534)]
       [(nm_experimenter, D_num 0), (nm_subtype, D_num 0), (nm_experimenter_data, D_str [])]
       [P_field nm_type fH, P_placeholder, P_field nm_experimenter fL, P_field nm_subtype fL,
        P_raw nm_experimenter_data, P_length, P_set_len 1, P_pad_to 8]
       (Some (fL, 4,
         []))
       [U_local nm__type fH, U_assert nm__type 65534, U_local nm__length fH, U_slice nm__length 4,
        U_field nm_experimenter fL, U_field nm_subtype fL, U_read_all nm_experimenter_data,
        U_orig_skip_align]
       [nm_experimenter, nm_subtype, nm_experimenter_data]"

definition of13_common_table_feature_prop_experimenter_miss :: cls where
  "of13_common_table_feature_prop_experimenter_miss =
     Cls ''table_feature_prop_experimenter_miss'' [(nm_type, 65535)]
       [(nm_experimenter, D_num 0), (nm_subtype, D_num 0), (nm_experimenter_data, D_str [])]
       [P_field nm_type fH, P_placeholder, P_field nm_experimenter fL, P_field nm_subtype fL,
        P_raw nm_experimenter_data, P_length, P_set_len 1, P_pad_to 8]
       (Some (fL, 4,
         []))
       [U_local nm__type fH, U_assert nm__type 65535, U_local nm__length fH, U_slice nm__length 4,
        U_field nm_experimenter fL, U_field nm_subtype fL, U_read_all nm_experimenter_data,
        U_orig_skip_align]
       [nm_experimenter, nm_subtype, nm_experimenter_data]"

definition of13_common_table_feature_prop_instructions :: cls where
  "of13_common_table_feature_prop_instructions =
     Cls ''table_feature_prop_instructions'' [(nm_type, 0)]
       [(nm_instruction_ids, D_list)]
       [P_field nm_type fH, P_placeholder, P_list nm_instruction_ids, P_length, P_set_len 1,
        P_pad_to 8]
       None
       [U_local nm__type fH, U_assert nm__type 0, U_local nm__length fH, U_slice nm__length 4,
        U_list nm_instruction_ids of13_instruction_id_instruction_id, U_orig_skip_align]
       [nm_instruction_ids]"

definition of13_common_table_feature_prop_instructions_miss :: cls where
  "of13_common_table_feature_prop_instructions_miss =
     Cls ''table_feature_prop_instructions_miss'' [(nm_type, 1)]
       [(nm_instruction_ids, D_list)]
       [P_field nm_type fH, P_placeholder, P_list nm_instruction_ids, P_length, P_set_len 1,
        P_pad_to 8]
       None
       [U_local nm__type fH, U_assert nm__type 1, U_local nm__length fH, U_slice nm__length 4,
        U_list nm_instruction_ids of13_instruction_id_instruction_id, U_orig_skip_align]
       [nm_instruction_ids]"

definition of13_common_table_feature_prop_match :: cls where
  "of13_common_table_feature_prop_match =
     Cls ''table_feature_prop_match'' [(nm_type, 8)]
       [(nm_oxm_ids, D_list)]
       [P_field nm_type fH, P_placeholder, P_list nm_oxm_ids, P_length, P_set_len 1, P_pad_to 8]
       None
       [U_local nm__type fH, U_assert nm__type 8, U_local nm__length fH, U_slice nm__length 4,
        U_list nm_oxm_ids of13_common_uint32, U_orig_skip_align]
       [nm_oxm_ids]"

definition of13_common_uint8 :: cls where
  "of13_common_uint8 =
     Cls ''uint8'' []
       [(nm_value, D_num 0)]
       [P_field nm_value fB]
       None
       [U_field nm_value fB]
       [nm_value]"

definition of13_common_table_feature_prop_next_tables :: cls where
  "of13_common_table_feature_prop_next_tables =
     Cls ''table_feature_prop_next_tables'' [(nm_type, 2)]
       [(nm_next_table_ids, D_list)]
       [P_field nm_type fH, P_placeholder, P_list nm_next_table_ids, P_length, P_set_len 1,
        P_pad_to 8]
       None
       [U_local nm__type fH, U_assert nm__type 2, U_local nm__length fH, U_slice nm__length 4,
        U_list nm_next_table_ids of13_common_uint8, U_orig_skip_align]
       [nm_next_table_ids]"

definition of13_common_table_feature_prop_next_tables_miss :: cls where
  "of13_common_table_feature_prop_next_tables_miss =
     Cls ''table_feature_prop_next_tables_miss'' [(nm_type, 3)]
       [(nm_next_table_ids, D_list)]
       [P_field nm_type fH, P_placeholder, P_list nm_next_table_ids, P_length, P_set_len 1,
        P_pad_to 8]
       None
       [U_local nm__type fH, U_assert nm__type 3, U_local nm__length fH, U_slice nm__length 4,
        U_list nm_next_table_ids of13_common_uint8, U_orig_skip_align]
       [nm_next_table_ids]"

definition of13_common_table_feature_prop_wildcards :: cls where
  "of13_common_table_feature_prop_wildcards =
     Cls ''table_feature_prop_wildcards'' [(nm_type, 10)]
       [(nm_oxm_ids, D_list)]
       [P_field nm_type fH, P_placeholder, P_list nm_oxm_ids, P_length, P_set_len 1, P_pad_to 8]
       None
       [U_local nm__type fH, U_assert nm__type 10, U_local nm__length fH, U_slice nm__length 4,
        U_list nm_oxm_ids of13_common_uint32, U_orig_skip_align]
       [nm_oxm_ids]"

definition of13_common_table_feature_prop_write_actions :: cls where
  "of13_common_table_feature_prop_write_actions =
     Cls ''table_feature_prop_write_actions'' [(nm_type, 4)]
       [(nm_action_ids, D_list)]
       [P_field nm_type fH, P_placeholder, P_list nm_action_ids, P_length, P_set_len 1, P_pad_to 8]
       None
       [U_local nm__type fH, U_assert nm__type 4, U_local nm__length fH, U_slice nm__length 4,
        U_list nm_action_ids of13_action_id_action_id, U_orig_skip_align]
       [nm_action_ids]"

definition of13_common_table_feature_prop_write_actions_miss :: cls where
  "of13_common_table_feature_prop_write_actions_miss =
     Cls ''table_feature_prop_write_actions_miss'' [(nm_type, 5)]
       [(nm_action_ids, D_list)]
       [P_field nm_type fH, P_placeholder, P_list nm_action_ids, P_length, P_set_len 1, P_pad_to 8]
       None
       [U_local nm__type fH, U_assert nm__type 5, U_local nm__length fH, U_slice nm__length 4,
        U_list nm_action_ids of13_action_id_action_id, U_orig_skip_align]
       [nm_action_ids]"

definition of13_common_table_feature_prop_write_setfield :: cls where
  "of13_common_table_feature_prop_write_setfield =
     Cls ''table_feature_prop_write_setfield'' [(nm_type, 12)]
       [(nm_oxm_ids, D_list)]
       [P_field nm_type fH, P_placeholder, P_list nm_oxm_ids, P_length, P_set_len 1, P_pad_to 8]
       None
       [U_local nm__type fH, U_assert nm__type 12, U_local nm__length fH, U_slice nm__length 4,
        U_list nm_oxm_ids of13_common_uint32, U_orig_skip_align]
       [nm_oxm_ids]"

definition of13_common_table_feature_prop_write_setfield_miss :: cls where
  "of13_common_table_feature_prop_write_setfield_miss =
     Cls ''table_feature_prop_write_setfield_miss'' [(nm_type, 13)]
       [(nm_oxm_ids, D_list)]
       [P_field nm_type fH, P_placeholder, P_list nm_oxm_ids, P_length, P_set_len 1, P_pad_to 8]
       None
       [U_local nm__type fH, U_assert nm__type 13, U_local nm__length fH, U_slice nm__length 4,
        U_list nm_oxm_ids of13_common_uint32, U_orig_skip_align]
       [nm_oxm_ids]"

definition of13_common_table_feature_prop :: cls where
  "of13_common_table_feature_prop =
     Cls ''table_feature_prop'' []
       [(nm_type, D_num 0)]
       [P_field nm_type fH, P_placeholder, P_length, P_set_len 1]
       (Some (fH, 0,
         [(6, of13_common_table_feature_prop_apply_actions),
          (7, of13_common_table_feature_prop_apply_actions_miss),
          (14, of13_common_table_feature_prop_apply_setfield),
          (15, of13_common_table_feature_prop_apply_setfield_miss),
          (65534, of13_common_table_feature_prop_experimenter),
          (65535, of13_common_table_feature_prop_experimenter_miss),
          (0, of13_common_table_feature_prop_instructions),
          (1, of13_common_table_feature_prop_instructions_miss),
          (8, of13_common_table_feature_prop_match),
          (2, of13_common_table_feature_prop_next_tables),
          (3, of13_common_table_feature_prop_next_tables_miss),
          (10, of13_common_table_feature_prop_wildcards),
          (4, of13_common_table_feature_prop_write_actions),
          (5, of13_common_table_feature_prop_write_actions_miss),
          (12, of13_common_table_feature_prop_write_setfield),
          (13, of13_common_table_feature_prop_write_setfield_miss)]))
       [U_field nm_type fH, U_local nm__length fH, U_slice nm__length 4]
       [nm_type]"

definition of13_common_table_features :: cls where
  "of13_common_table_features =
     Cls ''table_features'' []
       [(nm_table_id, D_num 0), (nm_name, D_str []), (nm_metadata_match, D_num 0),
        (nm_metadata_write, D_num 0), (nm_config, D_num 0), (nm_max_entries, D_num 0),
        (nm_properties, D_list)]
       [P_placeholder, P_field nm_table_id fB, P_pad 5, P_field nm_name (fS 32),
        P_field nm_metadata_match fQ, P_field nm_metadata_write fQ, P_field nm_config fL,
        P_field nm_max_entries fL, P_list nm_properties, P_length, P_set_len 0]
       None
       [U_local nm__length fH, U_slice nm__length 2, U_field nm_table_id fB, U_skip 5,
        U_field nm_name (fS_rstrip 32), U_field nm_metadata_match fQ, U_field nm_metadata_write fQ,
        U_field nm_config fL, U_field nm_max_entries fL,
        U_list nm_properties of13_common_table_feature_prop]
       [nm_table_id, nm_name, nm_metadata_match, nm_metadata_write, nm_config, nm_max_entries,
        nm_properties]"

definition of13_common_table_stats_entry :: cls where
  "of13_common_table_stats_entry =
     Cls ''table_stats_entry'' []
       [(nm_table_id, D_num 0), (nm_active_count, D_num 0), (nm_lookup_count, D_num 0),
        (nm_matched_count, D_num 0)]
       [P_field nm_table_id fB, P_pad 3, P_field nm_active_count fL, P_field nm_lookup_count fQ,
        P_field nm_matched_count fQ]
       None
       [U_field nm_table_id fB, U_skip 3, U_field nm_active_count fL, U_field nm_lookup_count fQ,
        U_field nm_matched_count fQ]
       [nm_table_id, nm_active_count, nm_lookup_count, nm_matched_count]"


section \<open>pack and unpack agree\<close>

lemma of13Common_checked_1a [unfolded list.pred_inject prod.case, loxi_checked]:
  "list_all codec_ok
    [of13_common_bsn_controller_connection, of13_common_bsn_debug_counter_desc_stats_entry,
     of13_common_bsn_debug_counter_stats_entry, of13_common_bsn_flow_checksum_bucket_stats_entry,
     of13_common_bsn_generic_stats_entry, of13_common_bsn_gentable_bucket_stats_entry,
     of13_common_bsn_gentable_desc_stats_entry, of13_common_bsn_gentable_entry_desc_stats_entry,
     of13_common_bsn_gentable_entry_stats_entry, of13_common_bsn_gentable_stats_entry,
     of13_common_bsn_interface, of13_common_bsn_lacp_stats_entry, of13_common_uint64,
     of13_common_bsn_switch_pipeline_stats_entry, of13_common_bsn_table_checksum_stats_entry,
     of13_common_bsn_vlan_mac, of13_common_bsn_vport_l2gre, of13_common_bsn_vport_q_in_q,
     of13_common_bucket, of13_common_bucket_counter, of13_common_match_v3, of13_common_uint32,
     of13_common_meter_band_stats, of13_common_meter_config, of13_common_meter_features,
     of13_common_queue_prop_experimenter, of13_common_queue_prop_max_rate, of13_common_queue_prop_min_rate,
     of13_common_port_desc, of13_common_port_stats_entry, of13_common_queue_stats_entry,
     of13_common_table_feature_prop_apply_actions, of13_common_table_feature_prop_apply_actions_miss,
     of13_common_table_feature_prop_experimenter, of13_common_table_feature_prop_experimenter_miss,
     of13_common_table_feature_prop_instructions, of13_common_table_feature_prop_instructions_miss,
     of13_common_uint8, of13_common_table_feature_prop_write_actions,
     of13_common_table_feature_prop_write_actions_miss]"
  "list_all safe_cls
    [of13_common_bsn_controller_connection, of13_common_bsn_debug_counter_desc_stats_entry,
     of13_common_bsn_debug_counter_stats_entry, of13_common_bsn_flow_checksum_bucket_stats_entry,
     of13_common_bsn_generic_stats_entry, of13_common_bsn_gentable_bucket_stats_entry,
     of13_common_bsn_gentable_desc_stats_entry, of13_common_bsn_gentable_entry_desc_stats_entry,
     of13_common_bsn_gentable_entry_stats_entry, of13_common_bsn_gentable_stats_entry,
     of13_common_bsn_interface, of13_common_bsn_lacp_stats_entry, of13_common_uint64,
     of13_common_bsn_switch_pipeline_stats_entry, of13_common_bsn_table_checksum_stats_entry,
     of13_common_bsn_vlan_mac, of13_common_bsn_vport_l2gre, of13_common_bsn_vport_q_in_q,
     of13_common_bucket, of13_common_bucket_counter, of13_common_match_v3, of13_common_uint32,
     of13_common_meter_band_stats, of13_common_meter_config, of13_common_meter_features,
     of13_common_queue_prop_experimenter, of13_common_queue_prop_max_rate, of13_common_queue_prop_min_rate,
     of13_common_port_desc, of13_common_port_stats_entry, of13_common_queue_stats_entry,
     of13_common_table_feature_prop_apply_actions, of13_common_table_feature_prop_apply_actions_miss,
     of13_common_table_feature_prop_experimenter, of13_common_table_feature_prop_experimenter_miss,
     of13_common_table_feature_prop_instructions, of13_common_table_feature_prop_instructions_miss,
     of13_common_uint8, of13_common_table_feature_prop_write_actions,
     of13_common_table_feature_prop_write_actions_miss]"
  "list_all (\<lambda>c. \<not> needs_align c)
    [of13_common_bsn_controller_connection, of13_common_bsn_debug_counter_desc_stats_entry,
     of13_common_bsn_debug_counter_stats_entry, of13_common_bsn_flow_checksum_bucket_stats_entry,
     of13_common_bsn_generic_stats_entry, of13_common_bsn_gentable_bucket_stats_entry,
     of13_common_bsn_gentable_desc_stats_entry, of13_common_bsn_gentable_entry_desc_stats_entry,
     of13_common_bsn_gentable_entry_stats_entry, of13_common_bsn_gentable_stats_entry,
     of13_common_bsn_interface, of13_common_bsn_lacp_stats_entry, of13_common_uint64,
     of13_common_bsn_switch_pipeline_stats_entry, of13_common_bsn_table_checksum_stats_entry,
     of13_common_bsn_vlan_mac, of13_common_bsn_vport_l2gre, of13_common_bsn_vport_q_in_q,
     of13_common_bucket, of13_common_bucket_counter, of13_common_uint32, of13_common_meter_band_stats,
     of13_common_meter_config, of13_common_meter_features, of13_common_queue_prop_experimenter,
     of13_common_queue_prop_max_rate, of13_common_queue_prop_min_rate, of13_common_port_desc,
     of13_common_port_stats_entry, of13_common_queue_stats_entry, of13_common_uint8]"
  "list_all needs_align
    [of13_common_match_v3, of13_common_table_feature_prop_apply_actions,
     of13_common_table_feature_prop_apply_actions_miss, of13_common_table_feature_prop_experimenter,
     of13_common_table_feature_prop_experimenter_miss, of13_common_table_feature_prop_instructions,
     of13_common_table_feature_prop_instructions_miss, of13_common_table_feature_prop_write_actions,
     of13_common_table_feature_prop_write_actions_miss]"
  "list_all (\<lambda>(k, c). writes_const fH 0 k c)
    [(1, of13_common_bsn_vport_l2gre), (0, of13_common_bsn_vport_q_in_q),
     (65535, of13_common_queue_prop_experimenter), (2, of13_common_queue_prop_max_rate),
     (1, of13_common_queue_prop_min_rate), (6, of13_common_table_feature_prop_apply_actions),
     (7, of13_common_table_feature_prop_apply_actions_miss),
     (65534, of13_common_table_feature_prop_experimenter),
     (65535, of13_common_table_feature_prop_experimenter_miss),
     (0, of13_common_table_feature_prop_instructions),
     (1, of13_common_table_feature_prop_instructions_miss),
     (4, of13_common_table_feature_prop_write_actions),
     (5, of13_common_table_feature_prop_write_actions_miss)]"
  by (simp_all add: loxi_formats loxi_eval loxi_checked
    of13_common_bsn_controller_connection_def of13_common_bsn_debug_counter_desc_stats_entry_def
    of13_common_bsn_debug_counter_stats_entry_def of13_common_bsn_flow_checksum_bucket_stats_entry_def
    of13_common_bsn_generic_stats_entry_def of13_common_bsn_gentable_bucket_stats_entry_def
    of13_common_bsn_gentable_desc_stats_entry_def of13_common_bsn_gentable_entry_desc_stats_entry_def
    of13_common_bsn_gentable_entry_stats_entry_def of13_common_bsn_gentable_stats_entry_def
    of13_common_bsn_interface_def of13_common_bsn_lacp_stats_entry_def of13_common_uint64_def
    of13_common_bsn_switch_pipeline_stats_entry_def of13_common_bsn_table_checksum_stats_entry_def
    of13_common_bsn_vlan_mac_def of13_common_bsn_vport_l2gre_def of13_common_bsn_vport_q_in_q_def
    of13_common_bucket_def of13_common_bucket_counter_def of13_common_match_v3_def
    of13_common_uint32_def of13_common_meter_band_stats_def of13_common_meter_config_def
    of13_common_meter_features_def of13_common_queue_prop_experimenter_def
    of13_common_queue_prop_max_rate_def of13_common_queue_prop_min_rate_def of13_common_port_desc_def
    of13_common_port_stats_entry_def of13_common_queue_stats_entry_def
    of13_common_table_feature_prop_apply_actions_def
    of13_common_table_feature_prop_apply_actions_miss_def of13_common_table_feature_prop_experimenter_def
    of13_common_table_feature_prop_experimenter_miss_def of13_common_table_feature_prop_instructions_def
    of13_common_table_feature_prop_instructions_miss_def of13_common_uint8_def
    of13_common_table_feature_prop_write_actions_def
    of13_common_table_feature_prop_write_actions_miss_def
    del: One_nat_def)

lemma of13Common_checked_1b [unfolded list.pred_inject prod.case, loxi_checked]:
  "list_all codec_ok
    [of13_common_table_stats_entry]"
  "list_all safe_cls
    [of13_common_table_stats_entry]"
  "list_all (\<lambda>c. \<not> needs_align c)
    [of13_common_table_stats_entry]"
  by (simp_all add: loxi_formats loxi_eval loxi_checked
    of13_common_table_stats_entry_def
    del: One_nat_def)

lemma of13Common_checked_2 [unfolded list.pred_inject prod.case, loxi_checked]:
  "list_all codec_ok
    [of13_common_bsn_port_counter_stats_entry, of13_common_bsn_tlv_vlan_mac_list, of13_common_bsn_vport,
     of13_common_bsn_vlan_counter_stats_entry, of13_common_bsn_vrf_counter_stats_entry,
     of13_common_flow_stats_entry, of13_common_group_desc_stats_entry, of13_common_group_stats_entry,
     of13_common_hello_elem_versionbitmap, of13_common_meter_stats, of13_common_queue_prop,
     of13_common_table_feature_prop_apply_setfield, of13_common_table_feature_prop_apply_setfield_miss,
     of13_common_table_feature_prop_match, of13_common_table_feature_prop_next_tables,
     of13_common_table_feature_prop_next_tables_miss, of13_common_table_feature_prop_wildcards,
     of13_common_table_feature_prop_write_setfield, of13_common_table_feature_prop_write_setfield_miss]"
  "list_all safe_cls
    [of13_common_bsn_port_counter_stats_entry, of13_common_bsn_tlv_vlan_mac_list, of13_common_bsn_vport,
     of13_common_bsn_vlan_counter_stats_entry, of13_common_bsn_vrf_counter_stats_entry,
     of13_common_flow_stats_entry, of13_common_group_desc_stats_entry, of13_common_group_stats_entry,
     of13_common_hello_elem_versionbitmap, of13_common_meter_stats, of13_common_queue_prop,
     of13_common_table_feature_prop_apply_setfield, of13_common_table_feature_prop_apply_setfield_miss,
     of13_common_table_feature_prop_match, of13_common_table_feature_prop_next_tables,
     of13_common_table_feature_prop_next_tables_miss, of13_common_table_feature_prop_wildcards,
     of13_common_table_feature_prop_write_setfield, of13_common_table_feature_prop_write_setfield_miss]"
  "list_all (\<lambda>c. \<not> needs_align c)
    [of13_common_bsn_port_counter_stats_entry, of13_common_bsn_tlv_vlan_mac_list, of13_common_bsn_vport,
     of13_common_bsn_vlan_counter_stats_entry, of13_common_bsn_vrf_counter_stats_entry,
     of13_common_flow_stats_entry, of13_common_group_desc_stats_entry, of13_common_group_stats_entry,
     of13_common_hello_elem_versionbitmap, of13_common_meter_stats, of13_common_queue_prop]"
  "list_all needs_align
    [of13_common_table_feature_prop_apply_setfield, of13_common_table_feature_prop_apply_setfield_miss,
     of13_common_table_feature_prop_match, of13_common_table_feature_prop_next_tables,
     of13_common_table_feature_prop_next_tables_miss, of13_common_table_feature_prop_wildcards,
     of13_common_table_feature_prop_write_setfield, of13_common_table_feature_prop_write_setfield_miss]"
  "list_all (\<lambda>(k, c). writes_const fH 0 k c)
    [(1, of13_common_hello_elem_versionbitmap), (14, of13_common_table_feature_prop_apply_setfield),
     (15, of13_common_table_feature_prop_apply_setfield_miss), (8, of13_common_table_feature_prop_match),
     (2, of13_common_table_feature_prop_next_tables), (3, of13_common_table_feature_prop_next_tables_miss),
     (10, of13_common_table_feature_prop_wildcards), (12, of13_common_table_feature_prop_write_setfield),
     (13, of13_common_table_feature_prop_write_setfield_miss)]"
  by (simp_all add: loxi_formats loxi_eval loxi_checked
    of13_common_bsn_port_counter_stats_entry_def of13_common_bsn_tlv_vlan_mac_list_def
    of13_common_bsn_vport_def of13_common_bsn_vlan_counter_stats_entry_def
    of13_common_bsn_vrf_counter_stats_entry_def of13_common_flow_stats_entry_def
    of13_common_group_desc_stats_entry_def of13_common_group_stats_entry_def
    of13_common_hello_elem_versionbitmap_def of13_common_meter_stats_def of13_common_queue_prop_def
    of13_common_table_feature_prop_apply_setfield_def
    of13_common_table_feature_prop_apply_setfield_miss_def of13_common_table_feature_prop_match_def
    of13_common_table_feature_prop_next_tables_def of13_common_table_feature_prop_next_tables_miss_def
    of13_common_table_feature_prop_wildcards_def of13_common_table_feature_prop_write_setfield_def
    of13_common_table_feature_prop_write_setfield_miss_def
    del: One_nat_def)

lemma of13Common_checked_3 [unfolded list.pred_inject prod.case, loxi_checked]:
  "list_all codec_ok
    [of13_common_hello_elem, of13_common_packet_queue, of13_common_table_feature_prop]"
  "list_all safe_cls
    [of13_common_hello_elem, of13_common_packet_queue, of13_common_table_feature_prop]"
  "list_all (\<lambda>c. \<not> needs_align c)
    [of13_common_hello_elem, of13_common_packet_queue]"
  "list_all needs_align
    [of13_common_table_feature_prop]"
  by (simp_all add: loxi_formats loxi_eval loxi_checked
    of13_common_hello_elem_def of13_common_packet_queue_def of13_common_table_feature_prop_def
    del: One_nat_def)

lemma of13Common_checked_4 [unfolded list.pred_inject prod.case, loxi_checked]:
  "list_all codec_ok
    [of13_common_table_features]"
  "list_all safe_cls
    [of13_common_table_features]"
  "list_all (\<lambda>c. \<not> needs_align c)
    [of13_common_table_features]"
  by (simp_all add: loxi_formats loxi_eval loxi_checked
    of13_common_table_features_def
    del: One_nat_def)

end
