(* ===== verification/Of13Message.thy ===== *)
theory Of13Message
  imports Of13Common
begin

text \<open>
  OpenFlow 1.3: the 176 classes of \<^verbatim>\<open>message.py\<close>
  under \<^verbatim>\<open>src/ofagent/loxi/of13\<close>, and the check that \<^verbatim>\<open>unpack\<close> of each class
  reads what its \<^verbatim>\<open>pack\<close> writes.
\<close>


section \<open>Classes\<close>

definition of13_message_aggregate_stats_reply :: cls where
  "of13_message_aggregate_stats_reply =
     Cls ''aggregate_stats_reply'' [(nm_version, 4), (nm_type, 19), (nm_stats_type, 2)]
       [(nm_xid, D_None), (nm_flags, D_num 0), (nm_packet_count, D_num 0),
        (nm_byte_count, D_num 0), (nm_flow_count, D_num 0)]
       [P_field nm_version fB, P_field nm_type fB, P_placeholder, P_field nm_xid fL,
        P_field nm_stats_type fH, P_field nm_flags fH, P_pad 4, P_field nm_packet_count fQ,
        P_field nm_byte_count fQ, P_field nm_flow_count fL, P_pad 4, P_length, P_set_len 2]
       None
       [U_local nm__version fB, U_assert nm__version 4, U_local nm__type fB, U_assert nm__type 19,
        U_local nm__length fH, U_slice nm__length 4, U_field nm_xid fL, U_local nm__stats_type fH,
        U_assert nm__stats_type 2, U_field nm_flags fH, U_skip 4, U_field nm_packet_count fQ,
        U_field nm_byte_count fQ, U_field nm_flow_count fL, U_skip 4]
       [nm_xid, nm_flags, nm_packet_count, nm_byte_count, nm_flow_count]"

definition of13_message_bsn_debug_counter_desc_stats_reply :: cls where
  "of13_message_bsn_debug_counter_desc_stats_reply =
     Cls ''bsn_debug_counter_desc_stats_reply'' [(nm_version, 4), (nm_type, 19), (nm_stats_type, 65535), (nm_experimenter, 6035143),
        (nm_subtype, 13)]
       [(nm_xid, D_None), (nm_flags, D_num 0), (nm_entries, D_list)]
       [P_field nm_version fB, P_field nm_type fB, P_placeholder, P_field nm_xid fL,
        P_field nm_stats_type fH, P_field nm_flags fH, P_pad 4, P_field nm_experimenter fL,
        P_field nm_subtype fL, P_list nm_entries, P_length, P_set_len 2]
       None
       [U_local nm__version fB, U_assert nm__version 4, U_local nm__type fB, U_assert nm__type 19,
        U_local nm__length fH, U_slice nm__length 4, U_field nm_xid fL, U_local nm__stats_type fH,
        U_assert nm__stats_type 65535, U_field nm_flags fH, U_skip 4, U_local nm__experimenter fL,
        U_assert nm__experimenter 6035143, U_local nm__subtype fL, U_assert nm__subtype 13,
        U_list nm_entries of13_common_bsn_debug_counter_desc_stats_entry]
       [nm_xid, nm_flags, nm_entries]"

definition of13_message_bsn_debug_counter_stats_reply :: cls where
  "of13_message_bsn_debug_counter_stats_reply =
     Cls ''bsn_debug_counter_stats_reply'' [(nm_version, 4), (nm_type, 19), (nm_stats_type, 65535), (nm_experimenter, 6035143),
        (nm_subtype, 12)]
       [(nm_xid, D_None), (nm_flags, D_num 0), (nm_entries, D_list)]
       [P_field nm_version fB, P_field nm_type fB, P_placeholder, P_field nm_xid fL,
        P_field nm_stats_type fH, P_field nm_flags fH, P_pad 4, P_field nm_experimenter fL,
        P_field nm_subtype fL, P_list nm_entries, P_length, P_set_len 2]
       None
       [U_local nm__version fB, U_assert nm__version 4, U_local nm__type fB, U_assert nm__type 19,
        U_local nm__length fH, U_slice nm__length 4, U_field nm_xid fL, U_local nm__stats_type fH,
        U_assert nm__stats_type 65535, U_field nm_flags fH, U_skip 4, U_local nm__experimenter fL,
        U_assert nm__experimenter 6035143, U_local nm__subtype fL, U_assert nm__subtype 12,
        U_list nm_entries of13_common_bsn_debug_counter_stats_entry]
       [nm_xid, nm_flags, nm_entries]"

definition of13_message_bsn_flow_checksum_bucket_stats_reply :: cls where
  "of13_message_bsn_flow_checksum_bucket_stats_reply =
     Cls ''bsn_flow_checksum_bucket_stats_reply'' [(nm_version, 4), (nm_type, 19), (nm_stats_type, 65535), (nm_experimenter, 6035143),
        (nm_subtype, 10)]
       [(nm_xid, D_None), (nm_flags, D_num 0), (nm_entries, D_list)]
       [P_field nm_version fB, P_field nm_type fB, P_placeholder, P_field nm_xid fL,
        P_field nm_stats_type fH, P_field nm_flags fH, P_pad 4, P_field nm_experimenter fL,
        P_field nm_subtype fL, P_list nm_entries, P_length, P_set_len 2]
       None
       [U_local nm__version fB, U_assert nm__version 4, U_local nm__type fB, U_assert nm__type 19,
        U_local nm__length fH, U_slice nm__length 4, U_field nm_xid fL, U_local nm__stats_type fH,
        U_assert nm__stats_type 65535, U_field nm_flags fH, U_skip 4, U_local nm__experimenter fL,
        U_assert nm__experimenter 6035143, U_local nm__subtype fL, U_assert nm__subtype 10,
        U_list nm_entries of13_common_bsn_flow_checksum_bucket_stats_entry]
       [nm_xid, nm_flags, nm_entries]"

definition of13_message_bsn_generic_stats_reply :: cls where
  "of13_message_bsn_generic_stats_reply =
     Cls ''bsn_generic_stats_reply'' [(nm_version, 4), (nm_type, 19), (nm_stats_type, 65535), (nm_experimenter, 6035143),
        (nm_subtype, 16)]
       [(nm_xid, D_None), (nm_flags, D_num 0), (nm_entries, D_list)]
       [P_field nm_version fB, P_field nm_type fB, P_placeholder, P_field nm_xid fL,
        P_field nm_stats_type fH, P_field nm_flags fH, P_pad 4, P_field nm_experimenter fL,
        P_field nm_subtype fL, P_list nm_entries, P_length, P_set_len 2]
       None
       [U_local nm__version fB, U_assert nm__version 4, U_local nm__type fB, U_assert nm__type 19,
        U_local nm__length fH, U_slice nm__length 4, U_field nm_xid fL, U_local nm__stats_type fH,
        U_assert nm__stats_type 65535, U_field nm_flags fH, U_skip 4, U_local nm__experimenter fL,
        U_assert nm__experimenter 6035143, U_local nm__subtype fL, U_assert nm__subtype 16,
        U_list nm_entries of13_common_bsn_generic_stats_entry]
       [nm_xid, nm_flags, nm_entries]"

definition of13_message_bsn_gentable_bucket_stats_reply :: cls where
  "of13_message_bsn_gentable_bucket_stats_reply =
     Cls ''bsn_gentable_bucket_stats_reply'' [(nm_version, 4), (nm_type, 19), (nm_stats_type, 65535), (nm_experimenter, 6035143),
        (nm_subtype, 5)]
       [(nm_xid, D_None), (nm_flags, D_num 0), (nm_entries, D_list)]
       [P_field nm_version fB, P_field nm_type fB, P_placeholder, P_field nm_xid fL,
        P_field nm_stats_type fH, P_field nm_flags fH, P_pad 4, P_field nm_experimenter fL,
        P_field nm_subtype fL, P_list nm_entries, P_length, P_set_len 2]
       None
       [U_local nm__version fB, U_assert nm__version 4, U_local nm__type fB, U_assert nm__type 19,
        U_local nm__length fH, U_slice nm__length 4, U_field nm_xid fL, U_local nm__stats_type fH,
        U_assert nm__stats_type 65535, U_field nm_flags fH, U_skip 4, U_local nm__experimenter fL,
        U_assert nm__experimenter 6035143, U_local nm__subtype fL, U_assert nm__subtype 5,
        U_list nm_entries of13_common_bsn_gentable_bucket_stats_entry]
       [nm_xid, nm_flags, nm_entries]"

definition of13_message_bsn_gentable_desc_stats_reply :: cls where
  "of13_message_bsn_gentable_desc_stats_reply =
     Cls ''bsn_gentable_desc_stats_reply'' [(nm_version, 4), (nm_type, 19), (nm_stats_type, 65535), (nm_experimenter, 6035143),
        (nm_subtype, 4)]
       [(nm_xid, D_None), (nm_flags, D_num 0), (nm_entries, D_list)]
       [P_field nm_version fB, P_field nm_type fB, P_placeholder, P_field nm_xid fL,
        P_field nm_stats_type fH, P_field nm_flags fH, P_pad 4, P_field nm_experimenter fL,
        P_field nm_subtype fL, P_list nm_entries, P_length, P_set_len 2]
       None
       [U_local nm__version fB, U_assert nm__version 4, U_local nm__type fB, U_assert nm__type 19,
        U_local nm__length fH, U_slice nm__length 4, U_field nm_xid fL, U_local nm__stats_type fH,
        U_assert nm__stats_type 65535, U_field nm_flags fH, U_skip 4, U_local nm__experimenter fL,
        U_assert nm__experimenter 6035143, U_local nm__subtype fL, U_assert nm__subtype 4,
        U_list nm_entries of13_common_bsn_gentable_desc_stats_entry]
       [nm_xid, nm_flags, nm_entries]"

definition of13_message_bsn_gentable_entry_desc_stats_reply :: cls where
  "of13_message_bsn_gentable_entry_desc_stats_reply =
     Cls ''bsn_gentable_entry_desc_stats_reply'' [(nm_version, 4), (nm_type, 19), (nm_stats_type, 65535), (nm_experimenter, 6035143),
        (nm_subtype, 2)]
       [(nm_xid, D_None), (nm_flags, D_num 0), (nm_entries, D_list)]
       [P_field nm_version fB, P_field nm_type fB, P_placeholder, P_field nm_xid fL,
        P_field nm_stats_type fH, P_field nm_flags fH, P_pad 4, P_field nm_experimenter fL,
        P_field nm_subtype fL, P_list nm_entries, P_length, P_set_len 2]
       None
       [U_local nm__version fB, U_assert nm__version 4, U_local nm__type fB, U_assert nm__type 19,
        U_local nm__length fH, U_slice nm__length 4, U_field nm_xid fL, U_local nm__stats_type fH,
        U_assert nm__stats_type 65535, U_field nm_flags fH, U_skip 4, U_local nm__experimenter fL,
        U_assert nm__experimenter 6035143, U_local nm__subtype fL, U_assert nm__subtype 2,
        U_list nm_entries of13_common_bsn_gentable_entry_desc_stats_entry]
       [nm_xid, nm_flags, nm_entries]"

definition of13_message_bsn_gentable_entry_stats_reply :: cls where
  "of13_message_bsn_gentable_entry_stats_reply =
     Cls ''bsn_gentable_entry_stats_reply'' [(nm_version, 4), (nm_type, 19), (nm_stats_type, 65535), (nm_experimenter, 6035143),
        (nm_subtype, 3)]
       [(nm_xid, D_None), (nm_flags, D_num 0), (nm_entries, D_list)]
       [P_field nm_version fB, P_field nm_type fB, P_placeholder, P_field nm_xid fL,
        P_field nm_stats_type fH, P_field nm_flags fH, P_pad 4, P_field nm_experimenter fL,
        P_field nm_subtype fL, P_list nm_entries, P_length, P_set_len 2]
       None
       [U_local nm__version fB, U_assert nm__version 4, U_local nm__type fB, U_assert nm__type 19,
        U_local nm__length fH, U_slice nm__length 4, U_field nm_xid fL, U_local nm__stats_type fH,
        U_assert nm__stats_type 65535, U_field nm_flags fH, U_skip 4, U_local nm__experimenter fL,
        U_assert nm__experimenter 6035143, U_local nm__subtype fL, U_assert nm__subtype 3,
        U_list nm_entries of13_common_bsn_gentable_entry_stats_entry]
       [nm_xid, nm_flags, nm_entries]"

definition of13_message_bsn_gentable_stats_reply :: cls where
  "of13_message_bsn_gentable_stats_reply =
     Cls ''bsn_gentable_stats_reply'' [(nm_version, 4), (nm_type, 19), (nm_stats_type, 65535), (nm_experimenter, 6035143),
        (nm_subtype, 7)]
       [(nm_xid, D_None), (nm_flags, D_num 0), (nm_entries, D_list)]
       [P_field nm_version fB, P_field nm_type fB, P_placeholder, P_field nm_xid fL,
        P_field nm_stats_type fH, P_field nm_flags fH, P_pad 4, P_field nm_experimenter fL,
        P_field nm_subtype fL, P_list nm_entries, P_length, P_set_len 2]
       None
       [U_local nm__version fB, U_assert nm__version 4, U_local nm__type fB, U_assert nm__type 19,
        U_local nm__length fH, U_slice nm__length 4, U_field nm_xid fL, U_local nm__stats_type fH,
        U_assert nm__stats_type 65535, U_field nm_flags fH, U_skip 4, U_local nm__experimenter fL,
        U_assert nm__experimenter 6035143, U_local nm__subtype fL, U_assert nm__subtype 7,
        U_list nm_entries of13_common_bsn_gentable_stats_entry]
       [nm_xid, nm_flags, nm_entries]"

definition of13_message_bsn_image_desc_stats_reply :: cls where
  "of13_message_bsn_image_desc_stats_reply =
     Cls ''bsn_image_desc_stats_reply'' [(nm_version, 4), (nm_type, 19), (nm_stats_type, 65535), (nm_experimenter, 6035143),
        (nm_subtype, 14)]
       [(nm_xid, D_None), (nm_flags, D_num 0), (nm_image_checksum, D_str []),
        (nm_startup_config_checksum, D_str [])]
       [P_field nm_version fB, P_field nm_type fB, P_placeholder, P_field nm_xid fL,
        P_field nm_stats_type fH, P_field nm_flags fH, P_pad 4, P_field nm_experimenter fL,
        P_field nm_subtype fL, P_field nm_image_checksum (fS 256),
        P_field nm_startup_config_checksum (fS 256), P_length, P_set_len 2]
       None
       [U_local nm__version fB, U_assert nm__version 4, U_local nm__type fB, U_assert nm__type 19,
        U_local nm__length fH, U_slice nm__length 4, U_field nm_xid fL, U_local nm__stats_type fH,
        U_assert nm__stats_type 65535, U_field nm_flags fH, U_skip 4, U_local nm__experimenter fL,
        U_assert nm__experimenter 6035143, U_local nm__subtype fL, U_assert nm__subtype 14,
        U_field nm_image_checksum (fS_rstrip 256),
        U_field nm_startup_config_checksum (fS_rstrip 256)]
       [nm_xid, nm_flags, nm_image_checksum, nm_startup_config_checksum]"

definition of13_message_bsn_lacp_stats_reply :: cls where
  "of13_message_bsn_lacp_stats_reply =
     Cls ''bsn_lacp_stats_reply'' [(nm_version, 4), (nm_type, 19), (nm_stats_type, 65535), (nm_experimenter, 6035143),
        (nm_subtype, 1)]
       [(nm_xid, D_None), (nm_flags, D_num 0), (nm_entries, D_list)]
       [P_field nm_version fB, P_field nm_type fB, P_placeholder, P_field nm_xid fL,
        P_field nm_stats_type fH, P_field nm_flags fH, P_pad 4, P_field nm_experimenter fL,
        P_field nm_subtype fL, P_list nm_entries, P_length, P_set_len 2]
       None
       [U_local nm__version fB, U_assert nm__version 4, U_local nm__type fB, U_assert nm__type 19,
        U_local nm__length fH, U_slice nm__length 4, U_field nm_xid fL, U_local nm__stats_type fH,
        U_assert nm__stats_type 65535, U_field nm_flags fH, U_skip 4, U_local nm__experimenter fL,
        U_assert nm__experimenter 6035143, U_local nm__subtype fL, U_assert nm__subtype 1,
        U_list nm_entries of13_common_bsn_lacp_stats_entry]
       [nm_xid, nm_flags, nm_entries]"

definition of13_message_bsn_port_counter_stats_reply :: cls where
  "of13_message_bsn_port_counter_stats_reply =
     Cls ''bsn_port_counter_stats_reply'' [(nm_version, 4), (nm_type, 19), (nm_stats_type, 65535), (nm_experimenter, 6035143),
        (nm_subtype, 8)]
       [(nm_xid, D_None), (nm_flags, D_num 0), (nm_entries, D_list)]
       [P_field nm_version fB, P_field nm_type fB, P_placeholder, P_field nm_xid fL,
        P_field nm_stats_type fH, P_field nm_flags fH, P_pad 4, P_field nm_experimenter fL,
        P_field nm_subtype fL, P_list nm_entries, P_length, P_set_len 2]
       None
       [U_local nm__version fB, U_assert nm__version 4, U_local nm__type fB, U_assert nm__type 19,
        U_local nm__length fH, U_slice nm__length 4, U_field nm_xid fL, U_local nm__stats_type fH,
        U_assert nm__stats_type 65535, U_field nm_flags fH, U_skip 4, U_local nm__experimenter fL,
        U_assert nm__experimenter 6035143, U_local nm__subtype fL, U_assert nm__subtype 8,
        U_list nm_entries of13_common_bsn_port_counter_stats_entry]
       [nm_xid, nm_flags, nm_entries]"

definition of13_message_bsn_switch_pipeline_stats_reply :: cls where
  "of13_message_bsn_switch_pipeline_stats_reply =
     Cls ''bsn_switch_pipeline_stats_reply'' [(nm_version, 4), (nm_type, 19), (nm_stats_type, 65535), (nm_experimenter, 6035143),
        (nm_subtype, 6)]
       [(nm_xid, D_None), (nm_flags, D_num 0), (nm_entries, D_list)]
       [P_field nm_version fB, P_field nm_type fB, P_placeholder, P_field nm_xid fL,
        P_field nm_stats_type fH, P_field nm_flags fH, P_pad 4, P_field nm_experimenter fL,
        P_field nm_subtype fL, P_list nm_entries, P_length, P_set_len 2]
       None
       [U_local nm__version fB, U_assert nm__version 4, U_local nm__type fB, U_assert nm__type 19,
        U_local nm__length fH, U_slice nm__length 4, U_field nm_xid fL, U_local nm__stats_type fH,
        U_assert nm__stats_type 65535, U_field nm_flags fH, U_skip 4, U_local nm__experimenter fL,
        U_assert nm__experimenter 6035143, U_local nm__subtype fL, U_assert nm__subtype 6,
        U_list nm_entries of13_common_bsn_switch_pipeline_stats_entry]
       [nm_xid, nm_flags, nm_entries]"

definition of13_message_bsn_table_checksum_stats_reply :: cls where
  "of13_message_bsn_table_checksum_stats_reply =
     Cls ''bsn_table_checksum_stats_reply'' [(nm_version, 4), (nm_type, 19), (nm_stats_type, 65535), (nm_experimenter, 6035143),
        (nm_subtype, 11)]
       [(nm_xid, D_None), (nm_flags, D_num 0), (nm_entries, D_list)]
       [P_field nm_version fB, P_field nm_type fB, P_placeholder, P_field nm_xid fL,
        P_field nm_stats_type fH, P_field nm_flags fH, P_pad 4, P_field nm_experimenter fL,
        P_field nm_subtype fL, P_list nm_entries, P_length, P_set_len 2]
       None
       [U_local nm__version fB, U_assert nm__version 4, U_local nm__type fB, U_assert nm__type 19,
        U_local nm__length fH, U_slice nm__length 4, U_field nm_xid fL, U_local nm__stats_type fH,
        U_assert nm__stats_type 65535, U_field nm_flags fH, U_skip 4, U_local nm__experimenter fL,
        U_assert nm__experimenter 6035143, U_local nm__subtype fL, U_assert nm__subtype 11,
        U_list nm_entries of13_common_bsn_table_checksum_stats_entry]
       [nm_xid, nm_flags, nm_entries]"

definition of13_message_bsn_vlan_counter_stats_reply :: cls where
  "of13_message_bsn_vlan_counter_stats_reply =
     Cls ''bsn_vlan_counter_stats_reply'' [(nm_version, 4), (nm_type, 19), (nm_stats_type, 65535), (nm_experimenter, 6035143),
        (nm_subtype, 9)]
       [(nm_xid, D_None), (nm_flags, D_num 0), (nm_entries, D_list)]
       [P_field nm_version fB, P_field nm_type fB, P_placeholder, P_field nm_xid fL,
        P_field nm_stats_type fH, P_field nm_flags fH, P_pad 4, P_field nm_experimenter fL,
        P_field nm_subtype fL, P_list nm_entries, P_length, P_set_len 2]
       None
       [U_local nm__version fB, U_assert nm__version 4, U_local nm__type fB, U_assert nm__type 19,
        U_local nm__length fH, U_slice nm__length 4, U_field nm_xid fL, U_local nm__stats_type fH,
        U_assert nm__stats_type 65535, U_field nm_flags fH, U_skip 4, U_local nm__experimenter fL,
        U_assert nm__experimenter 6035143, U_local nm__subtype fL, U_assert nm__subtype 9,
        U_list nm_entries of13_common_bsn_vlan_counter_stats_entry]
       [nm_xid, nm_flags, nm_entries]"

definition of13_message_bsn_vrf_counter_stats_reply :: cls where
  "of13_message_bsn_vrf_counter_stats_reply =
     Cls ''bsn_vrf_counter_stats_reply'' [(nm_version, 4), (nm_type, 19), (nm_stats_type, 65535), (nm_experimenter, 6035143),
        (nm_subtype, 15)]
       [(nm_xid, D_None), (nm_flags, D_num 0), (nm_entries, D_list)]
       [P_field nm_version fB, P_field nm_type fB, P_placeholder, P_field nm_xid fL,
        P_field nm_stats_type fH, P_field nm_flags fH, P_pad 4, P_field nm_experimenter fL,
        P_field nm_subtype fL, P_list nm_entries, P_length, P_set_len 2]
       None
       [U_local nm__version fB, U_assert nm__version 4, U_local nm__type fB, U_assert nm__type 19,
        U_local nm__length fH, U_slice nm__length 4, U_field nm_xid fL, U_local nm__stats_type fH,
        U_assert nm__stats_type 65535, U_field nm_flags fH, U_skip 4, U_local nm__experimenter fL,
        U_assert nm__experimenter 6035143, U_local nm__subtype fL, U_assert nm__subtype 15,
        U_list nm_entries of13_common_bsn_vrf_counter_stats_entry]
       [nm_xid, nm_flags, nm_entries]"

definition of13_message_bsn_stats_reply :: cls where
  "of13_message_bsn_stats_reply =
     Cls ''bsn_stats_reply'' [(nm_version, 4), (nm_type, 19), (nm_stats_type, 65535), (nm_experimenter, 6035143)]
       [(nm_xid, D_None), (nm_flags, D_num 0), (nm_subtype, D_num 0)]
       [P_field nm_version fB, P_field nm_type fB, P_placeholder, P_field nm_xid fL,
        P_field nm_stats_type fH, P_field nm_flags fH, P_pad 4, P_field nm_experimenter fL,
        P_field nm_subtype fL, P_length, P_set_len 2]
       (Some (fL, 20,
         [(13, of13_message_bsn_debug_counter_desc_stats_reply),
          (12, of13_message_bsn_debug_counter_stats_reply),
          (10, of13_message_bsn_flow_checksum_bucket_stats_reply),
          (16, of13_message_bsn_generic_stats_reply),
          (5, of13_message_bsn_gentable_bucket_stats_reply),
          (4, of13_message_bsn_gentable_desc_stats_reply),
          (2, of13_message_bsn_gentable_entry_desc_stats_reply),
          (3, of13_message_bsn_gentable_entry_stats_reply),
          (7, of13_message_bsn_gentable_stats_reply),
          (14, of13_message_bsn_image_desc_stats_reply), (1, of13_message_bsn_lacp_stats_reply),
          (8, of13_message_bsn_port_counter_stats_reply),
          (6, of13_message_bsn_switch_pipeline_stats_reply),
          (11, of13_message_bsn_table_checksum_stats_reply),
          (9, of13_message_bsn_vlan_counter_stats_reply),
          (15, of13_message_bsn_vrf_counter_stats_reply)]))
       [U_local nm__version fB, U_assert nm__version 4, U_local nm__type fB, U_assert nm__type 19,
        U_local nm__length fH, U_slice nm__length 4, U_field nm_xid fL, U_local nm__stats_type fH,
        U_assert nm__stats_type 65535, U_field nm_flags fH, U_skip 4, U_local nm__experimenter fL,
        U_assert nm__experimenter 6035143, U_field nm_subtype fL]
       [nm_xid, nm_flags, nm_subtype]"

definition of13_message_experimenter_stats_reply :: cls where
  "of13_message_experimenter_stats_reply =
     Cls ''experimenter_stats_reply'' [(nm_version, 4), (nm_type, 19), (nm_stats_type, 65535)]
       [(nm_xid, D_None), (nm_flags, D_num 0), (nm_experimenter, D_num 0), (nm_subtype, D_num 0)]
       [P_field nm_version fB, P_field nm_type fB, P_placeholder, P_field nm_xid fL,
        P_field nm_stats_type fH, P_field nm_flags fH, P_pad 4, P_field nm_experimenter fL,
        P_field nm_subtype fL, P_length, P_set_len 2]
       (Some (fL, 16,
         [(6035143, of13_message_bsn_stats_reply)]))
       [U_local nm__version fB, U_assert nm__version 4, U_local nm__type fB, U_assert nm__type 19,
        U_local nm__length fH, U_slice nm__length 4, U_field nm_xid fL, U_local nm__stats_type fH,
        U_assert nm__stats_type 65535, U_field nm_flags fH, U_skip 4, U_field nm_experimenter fL,
        U_field nm_subtype fL]
       [nm_xid, nm_flags, nm_experimenter, nm_subtype]"

definition of13_message_desc_stats_reply :: cls where
  "of13_message_desc_stats_reply =
     Cls ''desc_stats_reply'' [(nm_version, 4), (nm_type, 19), (nm_stats_type, 0)]
       [(nm_xid, D_None), (nm_flags, D_num 0), (nm_mfr_desc, D_str []), (nm_hw_desc, D_str []),
        (nm_sw_desc, D_str []), (nm_serial_num, D_str []), (nm_dp_desc, D_str [])]
       [P_field nm_version fB, P_field nm_type fB, P_placeholder, P_field nm_xid fL,
        P_field nm_stats_type fH, P_field nm_flags fH, P_pad 4, P_field nm_mfr_desc (fS 256),
        P_field nm_hw_desc (fS 256), P_field nm_sw_desc (fS 256), P_field nm_serial_num (fS 32),
        P_field nm_dp_desc (fS 256), P_length, P_set_len 2]
       None
       [U_local nm__version fB, U_assert nm__version 4, U_local nm__type fB, U_assert nm__type 19,
        U_local nm__length fH, U_slice nm__length 4, U_field nm_xid fL, U_local nm__stats_type fH,
        U_assert nm__stats_type 0, U_field nm_flags fH, U_skip 4,
        U_field nm_mfr_desc (fS_rstrip 256), U_field nm_hw_desc (fS_rstrip 256),
        U_field nm_sw_desc (fS_rstrip 256), U_field nm_serial_num (fS_rstrip 32),
        U_field nm_dp_desc (fS_rstrip 256)]
       [nm_xid, nm_flags, nm_mfr_desc, nm_hw_desc, nm_sw_desc, nm_serial_num, nm_dp_desc]"

definition of13_message_flow_stats_reply :: cls where
  "of13_message_flow_stats_reply =
     Cls ''flow_stats_reply'' [(nm_version, 4), (nm_type, 19), (nm_stats_type, 1)]
       [(nm_xid, D_None), (nm_flags, D_num 0), (nm_entries, D_list)]
       [P_field nm_version fB, P_field nm_type fB, P_placeholder, P_field nm_xid fL,
        P_field nm_stats_type fH, P_field nm_flags fH, P_pad 4, P_list nm_entries, P_length,
        P_set_len 2]
       None
       [U_local nm__version fB, U_assert nm__version 4, U_local nm__type fB, U_assert nm__type 19,
        U_local nm__length fH, U_slice nm__length 4, U_field nm_xid fL, U_local nm__stats_type fH,
        U_assert nm__stats_type 1, U_field nm_flags fH, U_skip 4,
        U_list nm_entries of13_common_flow_stats_entry]
       [nm_xid, nm_flags, nm_entries]"

definition of13_message_group_desc_stats_reply :: cls where
  "of13_message_group_desc_stats_reply =
     Cls ''group_desc_stats_reply'' [(nm_version, 4), (nm_type, 19), (nm_stats_type, 7)]
       [(nm_xid, D_None), (nm_flags, D_num 0), (nm_entries, D_list)]
       [P_field nm_version fB, P_field nm_type fB, P_placeholder, P_field nm_xid fL,
        P_field nm_stats_type fH, P_field nm_flags fH, P_pad 4, P_list nm_entries, P_length,
        P_set_len 2]
       None
       [U_local nm__version fB, U_assert nm__version 4, U_local nm__type fB, U_assert nm__type 19,
        U_local nm__length fH, U_slice nm__length 4, U_field nm_xid fL, U_local nm__stats_type fH,
        U_assert nm__stats_type 7, U_field nm_flags fH, U_skip 4,
        U_list nm_entries of13_common_group_desc_stats_entry]
       [nm_xid, nm_flags, nm_entries]"

definition of13_message_group_features_stats_reply :: cls where
  "of13_message_group_features_stats_reply =
     Cls ''group_features_stats_reply'' [(nm_version, 4), (nm_type, 19), (nm_stats_type, 8)]
       [(nm_xid, D_None), (nm_flags, D_num 0), (nm_types, D_num 0), (nm_capabilities, D_num 0),
        (nm_max_groups_all, D_num 0), (nm_max_groups_select, D_num 0),
        (nm_max_groups_indirect, D_num 0), (nm_max_groups_ff, D_num 0), (nm_actions_all, D_num 0),
        (nm_actions_select, D_num 0), (nm_actions_indirect, D_num 0), (nm_actions_ff, D_num 0)]
       [P_field nm_version fB, P_field nm_type fB, P_placeholder, P_field nm_xid fL,
        P_field nm_stats_type fH, P_field nm_flags fH, P_pad 4, P_field nm_types fL,
        P_field nm_capabilities fL, P_field nm_max_groups_all fL, P_field nm_max_groups_select fL,
        P_field nm_max_groups_indirect fL, P_field nm_max_groups_ff fL, P_field nm_actions_all fL,
        P_field nm_actions_select fL, P_field nm_actions_indirect fL, P_field nm_actions_ff fL,
        P_length, P_set_len 2]
       None
       [U_local nm__version fB, U_assert nm__version 4, U_local nm__type fB, U_assert nm__type 19,
        U_local nm__length fH, U_slice nm__length 4, U_field nm_xid fL, U_local nm__stats_type fH,
        U_assert nm__stats_type 8, U_field nm_flags fH, U_skip 4, U_field nm_types fL,
        U_field nm_capabilities fL, U_field nm_max_groups_all fL, U_field nm_max_groups_select fL,
        U_field nm_max_groups_indirect fL, U_field nm_max_groups_ff fL, U_field nm_actions_all fL,
        U_field nm_actions_select fL, U_field nm_actions_indirect fL, U_field nm_actions_ff fL]
       [nm_xid, nm_flags, nm_types, nm_capabilities, nm_max_groups_all, nm_max_groups_select,
        nm_max_groups_indirect, nm_max_groups_ff, nm_actions_all, nm_actions_select,
        nm_actions_indirect, nm_actions_ff]"

definition of13_message_group_stats_reply :: cls where
  "of13_message_group_stats_reply =
     Cls ''group_stats_reply'' [(nm_version, 4), (nm_type, 19), (nm_stats_type, 6)]
       [(nm_xid, D_None), (nm_flags, D_num 0), (nm_entries, D_list)]
       [P_field nm_version fB, P_field nm_type fB, P_placeholder, P_field nm_xid fL,
        P_field nm_stats_type fH, P_field nm_flags fH, P_pad 4, P_list nm_entries, P_length,
        P_set_len 2]
       None
       [U_local nm__version fB, U_assert nm__version 4, U_local nm__type fB, U_assert nm__type 19,
        U_local nm__length fH, U_slice nm__length 4, U_field nm_xid fL, U_local nm__stats_type fH,
        U_assert nm__stats_type 6, U_field nm_flags fH, U_skip 4,
        U_list nm_entries of13_common_group_stats_entry]
       [nm_xid, nm_flags, nm_entries]"

definition of13_message_meter_config_stats_reply :: cls where
  "of13_message_meter_config_stats_reply =
     Cls ''meter_config_stats_reply'' [(nm_version, 4), (nm_type, 19), (nm_stats_type, 10)]
       [(nm_xid, D_None), (nm_flags, D_num 0), (nm_entries, D_list)]
       [P_field nm_version fB, P_field nm_type fB, P_placeholder, P_field nm_xid fL,
        P_field nm_stats_type fH, P_field nm_flags fH, P_pad 4, P_list nm_entries, P_length,
        P_set_len 2]
       None
       [U_local nm__version fB, U_assert nm__version 4, U_local nm__type fB, U_assert nm__type 19,
        U_local nm__length fH, U_slice nm__length 4, U_field nm_xid fL, U_local nm__stats_type fH,
        U_assert nm__stats_type 10, U_field nm_flags fH, U_skip 4,
        U_list nm_entries of13_common_meter_config]
       [nm_xid, nm_flags, nm_entries]"

definition of13_message_meter_features_stats_reply :: cls where
  "of13_message_meter_features_stats_reply =
     Cls ''meter_features_stats_reply'' [(nm_version, 4), (nm_type, 19), (nm_stats_type, 11)]
       [(nm_xid, D_None), (nm_flags, D_num 0), (nm_features, D_new of13_common_meter_features)]
       [P_field nm_version fB, P_field nm_type fB, P_placeholder, P_field nm_xid fL,
        P_field nm_stats_type fH, P_field nm_flags fH, P_pad 4, P_obj nm_features, P_length,
        P_set_len 2]
       None
       [U_local nm__version fB, U_assert nm__version 4, U_local nm__type fB, U_assert nm__type 19,
        U_local nm__length fH, U_slice nm__length 4, U_field nm_xid fL, U_local nm__stats_type fH,
        U_assert nm__stats_type 11, U_field nm_flags fH, U_skip 4,
        U_obj nm_features of13_common_meter_features]
       [nm_xid, nm_flags, nm_features]"

definition of13_message_meter_stats_reply :: cls where
  "of13_message_meter_stats_reply =
     Cls ''meter_stats_reply'' [(nm_version, 4), (nm_type, 19), (nm_stats_type, 9)]
       [(nm_xid, D_None), (nm_flags, D_num 0), (nm_entries, D_list)]
       [P_field nm_version fB, P_field nm_type fB, P_placeholder, P_field nm_xid fL,
        P_field nm_stats_type fH, P_field nm_flags fH, P_pad 4, P_list nm_entries, P_length,
        P_set_len 2]
       None
       [U_local nm__version fB, U_assert nm__version 4, U_local nm__type fB, U_assert nm__type 19,
        U_local nm__length fH, U_slice nm__length 4, U_field nm_xid fL, U_local nm__stats_type fH,
        U_assert nm__stats_type 9, U_field nm_flags fH, U_skip 4,
        U_list nm_entries of13_common_meter_stats]
       [nm_xid, nm_flags, nm_entries]"

definition of13_message_port_desc_stats_reply :: cls where
  "of13_message_port_desc_stats_reply =
     Cls ''port_desc_stats_reply'' [(nm_version, 4), (nm_type, 19), (nm_stats_type, 13)]
       [(nm_xid, D_None), (nm_flags, D_num 0), (nm_entries, D_list)]
       [P_field nm_version fB, P_field nm_type fB, P_placeholder, P_field nm_xid fL,
        P_field nm_stats_type fH, P_field nm_flags fH, P_pad 4, P_list nm_entries, P_length,
        P_set_len 2]
       None
       [U_local nm__version fB, U_assert nm__version 4, U_local nm__type fB, U_assert nm__type 19,
        U_local nm__length fH, U_slice nm__length 4, U_field nm_xid fL, U_local nm__stats_type fH,
        U_assert nm__stats_type 13, U_field nm_flags fH, U_skip 4,
        U_list nm_entries of13_common_port_desc]
       [nm_xid, nm_flags, nm_entries]"

definition of13_message_port_stats_reply :: cls where
  "of13_message_port_stats_reply =
     Cls ''port_stats_reply'' [(nm_version, 4), (nm_type, 19), (nm_stats_type, 4)]
       [(nm_xid, D_None), (nm_flags, D_num 0), (nm_entries, D_list)]
       [P_field nm_version fB, P_field nm_type fB, P_placeholder, P_field nm_xid fL,
        P_field nm_stats_type fH, P_field nm_flags fH, P_pad 4, P_list nm_entries, P_length,
        P_set_len 2]
       None
       [U_local nm__version fB, U_assert nm__version 4, U_local nm__type fB, U_assert nm__type 19,
        U_local nm__length fH, U_slice nm__length 4, U_field nm_xid fL, U_local nm__stats_type fH,
        U_assert nm__stats_type 4, U_field nm_flags fH, U_skip 4,
        U_list nm_entries of13_common_port_stats_entry]
       [nm_xid, nm_flags, nm_entries]"

definition of13_message_queue_stats_reply :: cls where
  "of13_message_queue_stats_reply =
     Cls ''queue_stats_reply'' [(nm_version, 4), (nm_type, 19), (nm_stats_type, 5)]
       [(nm_xid, D_None), (nm_flags, D_num 0), (nm_entries, D_list)]
       [P_field nm_version fB, P_field nm_type fB, P_placeholder, P_field nm_xid fL,
        P_field nm_stats_type fH, P_field nm_flags fH, P_pad 4, P_list nm_entries, P_length,
        P_set_len 2]
       None
       [U_local nm__version fB, U_assert nm__version 4, U_local nm__type fB, U_assert nm__type 19,
        U_local nm__length fH, U_slice nm__length 4, U_field nm_xid fL, U_local nm__stats_type fH,
        U_assert nm__stats_type 5, U_field nm_flags fH, U_skip 4,
        U_list nm_entries of13_common_queue_stats_entry]
       [nm_xid, nm_flags, nm_entries]"

definition of13_message_table_features_stats_reply :: cls where
  "of13_message_table_features_stats_reply =
     Cls ''table_features_stats_reply'' [(nm_version, 4), (nm_type, 19), (nm_stats_type, 12)]
       [(nm_xid, D_None), (nm_flags, D_num 0), (nm_entries, D_list)]
       [P_field nm_version fB, P_field nm_type fB, P_placeholder, P_field nm_xid fL,
        P_field nm_stats_type fH, P_field nm_flags fH, P_pad 4, P_list nm_entries, P_length,
        P_set_len 2]
       None
       [U_local nm__version fB, U_assert nm__version 4, U_local nm__type fB, U_assert nm__type 19,
        U_local nm__length fH, U_slice nm__length 4, U_field nm_xid fL, U_local nm__stats_type fH,
        U_assert nm__stats_type 12, U_field nm_flags fH, U_skip 4,
        U_list nm_entries of13_common_table_features]
       [nm_xid, nm_flags, nm_entries]"

definition of13_message_table_stats_reply :: cls where
  "of13_message_table_stats_reply =
     Cls ''table_stats_reply'' [(nm_version, 4), (nm_type, 19), (nm_stats_type, 3)]
       [(nm_xid, D_None), (nm_flags, D_num 0), (nm_entries, D_list)]
       [P_field nm_version fB, P_field nm_type fB, P_placeholder, P_field nm_xid fL,
        P_field nm_stats_type fH, P_field nm_flags fH, P_pad 4, P_list nm_entries, P_length,
        P_set_len 2]
       None
       [U_local nm__version fB, U_assert nm__version 4, U_local nm__type fB, U_assert nm__type 19,
        U_local nm__length fH, U_slice nm__length 4, U_field nm_xid fL, U_local nm__stats_type fH,
        U_assert nm__stats_type 3, U_field nm_flags fH, U_skip 4,
        U_list nm_entries of13_common_table_stats_entry]
       [nm_xid, nm_flags, nm_entries]"

definition of13_message_stats_reply :: cls where
  "of13_message_stats_reply =
     Cls ''stats_reply'' [(nm_version, 4), (nm_type, 19)]
       [(nm_xid, D_None), (nm_stats_type, D_num 0), (nm_flags, D_num 0)]
       [P_field nm_version fB, P_field nm_type fB, P_placeholder, P_field nm_xid fL,
        P_field nm_stats_type fH, P_field nm_flags fH, P_pad 4, P_length, P_set_len 2]
       (Some (fH, 8,
         [(2, of13_message_aggregate_stats_reply), (65535, of13_message_experimenter_stats_reply),
          (0, of13_message_desc_stats_reply), (1, of13_message_flow_stats_reply),
          (7, of13_message_group_desc_stats_reply), (8, of13_message_group_features_stats_reply),
          (6, of13_message_group_stats_reply), (10, of13_message_meter_config_stats_reply),
          (11, of13_message_meter_features_stats_reply), (9, of13_message_meter_stats_reply),
          (13, of13_message_port_desc_stats_reply), (4, of13_message_port_stats_reply),
          (5, of13_message_queue_stats_reply), (12, of13_message_table_features_stats_reply),
          (3, of13_message_table_stats_reply)]))
       [U_local nm__version fB, U_assert nm__version 4, U_local nm__type fB, U_assert nm__type 19,
        U_local nm__length fH, U_slice nm__length 4, U_field nm_xid fL, U_field nm_stats_type fH,
        U_field nm_flags fH, U_skip 4]
       [nm_xid, nm_stats_type, nm_flags]"

definition of13_message_aggregate_stats_request :: cls where
  "of13_message_aggregate_stats_request =
     Cls ''aggregate_stats_request'' [(nm_version, 4), (nm_type, 18), (nm_stats_type, 2)]
       [(nm_xid, D_None), (nm_flags, D_num 0), (nm_table_id, D_num 0), (nm_out_port, D_num 0),
        (nm_out_group, D_num 0), (nm_cookie, D_num 0), (nm_cookie_mask, D_num 0),
        (nm_match, D_new of13_common_match_v3)]
       [P_field nm_version fB, P_field nm_type fB, P_placeholder, P_field nm_xid fL,
        P_field nm_stats_type fH, P_field nm_flags fH, P_pad 4, P_field nm_table_id fB, P_pad 3,
        P_field nm_out_port of13_port_no, P_field nm_out_group fL, P_pad 4, P_field nm_cookie fQ,
        P_field nm_cookie_mask fQ, P_obj nm_match, P_length, P_set_len 2]
       None
       [U_local nm__version fB, U_assert nm__version 4, U_local nm__type fB, U_assert nm__type 18,
        U_local nm__length fH, U_slice nm__length 4, U_field nm_xid fL, U_local nm__stats_type fH,
        U_assert nm__stats_type 2, U_field nm_flags fH, U_skip 4, U_field nm_table_id fB, U_skip 3,
        U_field nm_out_port of13_port_no, U_field nm_out_group fL, U_skip 4, U_field nm_cookie fQ,
        U_field nm_cookie_mask fQ, U_obj nm_match of13_common_match_v3]
       [nm_xid, nm_flags, nm_table_id, nm_out_port, nm_out_group, nm_cookie, nm_cookie_mask,
        nm_match]"

definition of13_message_bsn_debug_counter_desc_stats_request :: cls where
  "of13_message_bsn_debug_counter_desc_stats_request =
     Cls ''bsn_debug_counter_desc_stats_request'' [(nm_version, 4), (nm_type, 18), (nm_stats_type, 65535), (nm_experimenter, 6035143),
        (nm_subtype, 13)]
       [(nm_xid, D_None), (nm_flags, D_num 0)]
       [P_field nm_version fB, P_field nm_type fB, P_placeholder, P_field nm_xid fL,
        P_field nm_stats_type fH, P_field nm_flags fH, P_pad 4, P_field nm_experimenter fL,
        P_field nm_subtype fL, P_length, P_set_len 2]
       None
       [U_local nm__version fB, U_assert nm__version 4, U_local nm__type fB, U_assert nm__type 18,
        U_local nm__length fH, U_slice nm__length 4, U_field nm_xid fL, U_local nm__stats_type fH,
        U_assert nm__stats_type 65535, U_field nm_flags fH, U_skip 4, U_local nm__experimenter fL,
        U_assert nm__experimenter 6035143, U_local nm__subtype fL, U_assert nm__subtype 13]
       [nm_xid, nm_flags]"

definition of13_message_bsn_debug_counter_stats_request :: cls where
  "of13_message_bsn_debug_counter_stats_request =
     Cls ''bsn_debug_counter_stats_request'' [(nm_version, 4), (nm_type, 18), (nm_stats_type, 65535), (nm_experimenter, 6035143),
        (nm_subtype, 12)]
       [(nm_xid, D_None), (nm_flags, D_num 0)]
       [P_field nm_version fB, P_field nm_type fB, P_placeholder, P_field nm_xid fL,
        P_field nm_stats_type fH, P_field nm_flags fH, P_pad 4, P_field nm_experimenter fL,
        P_field nm_subtype fL, P_length, P_set_len 2]
       None
       [U_local nm__version fB, U_assert nm__version 4, U_local nm__type fB, U_assert nm__type 18,
        U_local nm__length fH, U_slice nm__length 4, U_field nm_xid fL, U_local nm__stats_type fH,
        U_assert nm__stats_type 65535, U_field nm_flags fH, U_skip 4, U_local nm__experimenter fL,
        U_assert nm__experimenter 6035143, U_local nm__subtype fL, U_assert nm__subtype 12]
       [nm_xid, nm_flags]"

definition of13_message_bsn_flow_checksum_bucket_stats_request :: cls where
  "of13_message_bsn_flow_checksum_bucket_stats_request =
     Cls ''bsn_flow_checksum_bucket_stats_request'' [(nm_version, 4), (nm_type, 18), (nm_stats_type, 65535), (nm_experimenter, 6035143),
        (nm_subtype, 10)]
       [(nm_xid, D_None), (nm_flags, D_num 0), (nm_table_id, D_num 0)]
       [P_field nm_version fB, P_field nm_type fB, P_placeholder, P_field nm_xid fL,
        P_field nm_stats_type fH, P_field nm_flags fH, P_pad 4, P_field nm_experimenter fL,
        P_field nm_subtype fL, P_field nm_table_id fB, P_length, P_set_len 2]
       None
       [U_local nm__version fB, U_assert nm__version 4, U_local nm__type fB, U_assert nm__type 18,
        U_local nm__length fH, U_slice nm__length 4, U_field nm_xid fL, U_local nm__stats_type fH,
        U_assert nm__stats_type 65535, U_field nm_flags fH, U_skip 4, U_local nm__experimenter fL,
        U_assert nm__experimenter 6035143, U_local nm__subtype fL, U_assert nm__subtype 10,
        U_field nm_table_id fB]
       [nm_xid, nm_flags, nm_table_id]"

definition of13_message_bsn_generic_stats_request :: cls where
  "of13_message_bsn_generic_stats_request =
     Cls ''bsn_generic_stats_request'' [(nm_version, 4), (nm_type, 18), (nm_stats_type, 65535), (nm_experimenter, 6035143),
        (nm_subtype, 16)]
       [(nm_xid, D_None), (nm_flags, D_num 0), (nm_name, D_str []), (nm_tlvs, D_list)]
       [P_field nm_version fB, P_field nm_type fB, P_placeholder, P_field nm_xid fL,
        P_field nm_stats_type fH, P_field nm_flags fH, P_pad 4, P_field nm_experimenter fL,
        P_field nm_subtype fL, P_field nm_name (fS 64), P_list nm_tlvs, P_length, P_set_len 2]
       None
       [U_local nm__version fB, U_assert nm__version 4, U_local nm__type fB, U_assert nm__type 18,
        U_local nm__length fH, U_slice nm__length 4, U_field nm_xid fL, U_local nm__stats_type fH,
        U_assert nm__stats_type 65535, U_field nm_flags fH, U_skip 4, U_local nm__experimenter fL,
        U_assert nm__experimenter 6035143, U_local nm__subtype fL, U_assert nm__subtype 16,
        U_field nm_name (fS_rstrip 64), U_list nm_tlvs of13_bsn_tlv_bsn_tlv]
       [nm_xid, nm_flags, nm_name, nm_tlvs]"

definition of13_message_bsn_gentable_bucket_stats_request :: cls where
  "of13_message_bsn_gentable_bucket_stats_request =
     Cls ''bsn_gentable_bucket_stats_request'' [(nm_version, 4), (nm_type, 18), (nm_stats_type, 65535), (nm_experimenter, 6035143),
        (nm_subtype, 5)]
       [(nm_xid, D_None), (nm_flags, D_num 0), (nm_table_id, D_num 0)]
       [P_field nm_version fB, P_field nm_type fB, P_placeholder, P_field nm_xid fL,
        P_field nm_stats_type fH, P_field nm_flags fH, P_pad 4, P_field nm_experimenter fL,
        P_field nm_subtype fL, P_field nm_table_id fH, P_length, P_set_len 2]
       None
       [U_local nm__version fB, U_assert nm__version 4, U_local nm__type fB, U_assert nm__type 18,
        U_local nm__length fH, U_slice nm__length 4, U_field nm_xid fL, U_local nm__stats_type fH,
        U_assert nm__stats_type 65535, U_field nm_flags fH, U_skip 4, U_local nm__experimenter fL,
        U_assert nm__experimenter 6035143, U_local nm__subtype fL, U_assert nm__subtype 5,
        U_field nm_table_id fH]
       [nm_xid, nm_flags, nm_table_id]"

definition of13_message_bsn_gentable_desc_stats_request :: cls where
  "of13_message_bsn_gentable_desc_stats_request =
     Cls ''bsn_gentable_desc_stats_request'' [(nm_version, 4), (nm_type, 18), (nm_stats_type, 65535), (nm_experimenter, 6035143),
        (nm_subtype, 4)]
       [(nm_xid, D_None), (nm_flags, D_num 0)]
       [P_field nm_version fB, P_field nm_type fB, P_placeholder, P_field nm_xid fL,
        P_field nm_stats_type fH, P_field nm_flags fH, P_pad 4, P_field nm_experimenter fL,
        P_field nm_subtype fL, P_length, P_set_len 2]
       None
       [U_local nm__version fB, U_assert nm__version 4, U_local nm__type fB, U_assert nm__type 18,
        U_local nm__length fH, U_slice nm__length 4, U_field nm_xid fL, U_local nm__stats_type fH,
        U_assert nm__stats_type 65535, U_field nm_flags fH, U_skip 4, U_local nm__experimenter fL,
        U_assert nm__experimenter 6035143, U_local nm__subtype fL, U_assert nm__subtype 4]
       [nm_xid, nm_flags]"

definition of13_message_bsn_gentable_entry_desc_stats_request :: cls where
  "of13_message_bsn_gentable_entry_desc_stats_request =
     Cls ''bsn_gentable_entry_desc_stats_request'' [(nm_version, 4), (nm_type, 18), (nm_stats_type, 65535), (nm_experimenter, 6035143),
        (nm_subtype, 2)]
       [(nm_xid, D_None), (nm_flags, D_num 0), (nm_table_id, D_num 0), (nm_checksum, D_num 0),
        (nm_checksum_mask, D_num 0)]
       [P_field nm_version fB, P_field nm_type fB, P_placeholder, P_field nm_xid fL,
        P_field nm_stats_type fH, P_field nm_flags fH, P_pad 4, P_field nm_experimenter fL,
        P_field nm_subtype fL, P_field nm_table_id fH, P_pad 2, P_field nm_checksum fChecksum_128,
        P_field nm_checksum_mask fChecksum_128, P_length, P_set_len 2]
       None
       [U_local nm__version fB, U_assert nm__version 4, U_local nm__type fB, U_assert nm__type 18,
        U_local nm__length fH, U_slice nm__length 4, U_field nm_xid fL, U_local nm__stats_type fH,
        U_assert nm__stats_type 65535, U_field nm_flags fH, U_skip 4, U_local nm__experimenter fL,
        U_assert nm__experimenter 6035143, U_local nm__subtype fL, U_assert nm__subtype 2,
        U_field nm_table_id fH, U_skip 2, U_field nm_checksum fChecksum_128,
        U_field nm_checksum_mask fChecksum_128]
       [nm_xid, nm_flags, nm_table_id, nm_checksum, nm_checksum_mask]"

definition of13_message_bsn_gentable_entry_stats_request :: cls where
  "of13_message_bsn_gentable_entry_stats_request =
     Cls ''bsn_gentable_entry_stats_request'' [(nm_version, 4), (nm_type, 18), (nm_stats_type, 65535), (nm_experimenter, 6035143),
        (nm_subtype, 3)]
       [(nm_xid, D_None), (nm_flags, D_num 0), (nm_table_id, D_num 0), (nm_checksum, D_num 0),
        (nm_checksum_mask, D_num 0)]
       [P_field nm_version fB, P_field nm_type fB, P_placeholder, P_field nm_xid fL,
        P_field nm_stats_type fH, P_field nm_flags fH, P_pad 4, P_field nm_experimenter fL,
        P_field nm_subtype fL, P_field nm_table_id fH, P_pad 2, P_field nm_checksum fChecksum_128,
        P_field nm_checksum_mask fChecksum_128, P_length, P_set_len 2]
       None
       [U_local nm__version fB, U_assert nm__version 4, U_local nm__type fB, U_assert nm__type 18,
        U_local nm__length fH, U_slice nm__length 4, U_field nm_xid fL, U_local nm__stats_type fH,
        U_assert nm__stats_type 65535, U_field nm_flags fH, U_skip 4, U_local nm__experimenter fL,
        U_assert nm__experimenter 6035143, U_local nm__subtype fL, U_assert nm__subtype 3,
        U_field nm_table_id fH, U_skip 2, U_field nm_checksum fChecksum_128,
        U_field nm_checksum_mask fChecksum_128]
       [nm_xid, nm_flags, nm_table_id, nm_checksum, nm_checksum_mask]"

definition of13_message_bsn_gentable_stats_request :: cls where
  "of13_message_bsn_gentable_stats_request =
     Cls ''bsn_gentable_stats_request'' [(nm_version, 4), (nm_type, 18), (nm_stats_type, 65535), (nm_experimenter, 6035143),
        (nm_subtype, 7)]
       [(nm_xid, D_None), (nm_flags, D_num 0)]
       [P_field nm_version fB, P_field nm_type fB, P_placeholder, P_field nm_xid fL,
        P_field nm_stats_type fH, P_field nm_flags fH, P_pad 4, P_field nm_experimenter fL,
        P_field nm_subtype fL, P_length, P_set_len 2]
       None
       [U_local nm__version fB, U_assert nm__version 4, U_local nm__type fB, U_assert nm__type 18,
        U_local nm__length fH, U_slice nm__length 4, U_field nm_xid fL, U_local nm__stats_type fH,
        U_assert nm__stats_type 65535, U_field nm_flags fH, U_skip 4, U_local nm__experimenter fL,
        U_assert nm__experimenter 6035143, U_local nm__subtype fL, U_assert nm__subtype 7]
       [nm_xid, nm_flags]"

definition of13_message_bsn_image_desc_stats_request :: cls where
  "of13_message_bsn_image_desc_stats_request =
     Cls ''bsn_image_desc_stats_request'' [(nm_version, 4), (nm_type, 18), (nm_stats_type, 65535), (nm_experimenter, 6035143),
        (nm_subtype, 14)]
       [(nm_xid, D_None), (nm_flags, D_num 0)]
       [P_field nm_version fB, P_field nm_type fB, P_placeholder, P_field nm_xid fL,
        P_field nm_stats_type fH, P_field nm_flags fH, P_pad 4, P_field nm_experimenter fL,
        P_field nm_subtype fL, P_length, P_set_len 2]
       None
       [U_local nm__version fB, U_assert nm__version 4, U_local nm__type fB, U_assert nm__type 18,
        U_local nm__length fH, U_slice nm__length 4, U_field nm_xid fL, U_local nm__stats_type fH,
        U_assert nm__stats_type 65535, U_field nm_flags fH, U_skip 4, U_local nm__experimenter fL,
        U_assert nm__experimenter 6035143, U_local nm__subtype fL, U_assert nm__subtype 14]
       [nm_xid, nm_flags]"

definition of13_message_bsn_lacp_stats_request :: cls where
  "of13_message_bsn_lacp_stats_request =
     Cls ''bsn_lacp_stats_request'' [(nm_version, 4), (nm_type, 18), (nm_stats_type, 65535), (nm_experimenter, 6035143),
        (nm_subtype, 1)]
       [(nm_xid, D_None), (nm_flags, D_num 0)]
       [P_field nm_version fB, P_field nm_type fB, P_placeholder, P_field nm_xid fL,
        P_field nm_stats_type fH, P_field nm_flags fH, P_pad 4, P_field nm_experimenter fL,
        P_field nm_subtype fL, P_length, P_set_len 2]
       None
       [U_local nm__version fB, U_assert nm__version 4, U_local nm__type fB, U_assert nm__type 18,
        U_local nm__length fH, U_slice nm__length 4, U_field nm_xid fL, U_local nm__stats_type fH,
        U_assert nm__stats_type 65535, U_field nm_flags fH, U_skip 4, U_local nm__experimenter fL,
        U_assert nm__experimenter 6035143, U_local nm__subtype fL, U_assert nm__subtype 1]
       [nm_xid, nm_flags]"

definition of13_message_bsn_port_counter_stats_request :: cls where
  "of13_message_bsn_port_counter_stats_request =
     Cls ''bsn_port_counter_stats_request'' [(nm_version, 4), (nm_type, 18), (nm_stats_type, 65535), (nm_experimenter, 6035143),
        (nm_subtype, 8)]
       [(nm_xid, D_None), (nm_flags, D_num 0), (nm_port_no, D_num 0)]
       [P_field nm_version fB, P_field nm_type fB, P_placeholder, P_field nm_xid fL,
        P_field nm_stats_type fH, P_field nm_flags fH, P_pad 4, P_field nm_experimenter fL,
        P_field nm_subtype fL, P_field nm_port_no of13_port_no, P_length, P_set_len 2]
       None
       [U_local nm__version fB, U_assert nm__version 4, U_local nm__type fB, U_assert nm__type 18,
        U_local nm__length fH, U_slice nm__length 4, U_field nm_xid fL, U_local nm__stats_type fH,
        U_assert nm__stats_type 65535, U_field nm_flags fH, U_skip 4, U_local nm__experimenter fL,
        U_assert nm__experimenter 6035143, U_local nm__subtype fL, U_assert nm__subtype 8,
        U_field nm_port_no of13_port_no]
       [nm_xid, nm_flags, nm_port_no]"

definition of13_message_bsn_switch_pipeline_stats_request :: cls where
  "of13_message_bsn_switch_pipeline_stats_request =
     Cls ''bsn_switch_pipeline_stats_request'' [(nm_version, 4), (nm_type, 18), (nm_stats_type, 65535), (nm_experimenter, 6035143),
        (nm_subtype, 6)]
       [(nm_xid, D_None), (nm_flags, D_num 0)]
       [P_field nm_version fB, P_field nm_type fB, P_placeholder, P_field nm_xid fL,
        P_field nm_stats_type fH, P_field nm_flags fH, P_pad 4, P_field nm_experimenter fL,
        P_field nm_subtype fL, P_length, P_set_len 2]
       None
       [U_local nm__version fB, U_assert nm__version 4, U_local nm__type fB, U_assert nm__type 18,
        U_local nm__length fH, U_slice nm__length 4, U_field nm_xid fL, U_local nm__stats_type fH,
        U_assert nm__stats_type 65535, U_field nm_flags fH, U_skip 4, U_local nm__experimenter fL,
        U_assert nm__experimenter 6035143, U_local nm__subtype fL, U_assert nm__subtype 6]
       [nm_xid, nm_flags]"

definition of13_message_bsn_table_checksum_stats_request :: cls where
  "of13_message_bsn_table_checksum_stats_request =
     Cls ''bsn_table_checksum_stats_request'' [(nm_version, 4), (nm_type, 18), (nm_stats_type, 65535), (nm_experimenter, 6035143),
        (nm_subtype, 11)]
       [(nm_xid, D_None), (nm_flags, D_num 0)]
       [P_field nm_version fB, P_field nm_type fB, P_placeholder, P_field nm_xid fL,
        P_field nm_stats_type fH, P_field nm_flags fH, P_pad 4, P_field nm_experimenter fL,
        P_field nm_subtype fL, P_length, P_set_len 2]
       None
       [U_local nm__version fB, U_assert nm__version 4, U_local nm__type fB, U_assert nm__type 18,
        U_local nm__length fH, U_slice nm__length 4, U_field nm_xid fL, U_local nm__stats_type fH,
        U_assert nm__stats_type 65535, U_field nm_flags fH, U_skip 4, U_local nm__experimenter fL,
        U_assert nm__experimenter 6035143, U_local nm__subtype fL, U_assert nm__subtype 11]
       [nm_xid, nm_flags]"

definition of13_message_bsn_vlan_counter_stats_request :: cls where
  "of13_message_bsn_vlan_counter_stats_request =
     Cls ''bsn_vlan_counter_stats_request'' [(nm_version, 4), (nm_type, 18), (nm_stats_type, 65535), (nm_experimenter, 6035143),
        (nm_subtype, 9)]
       [(nm_xid, D_None), (nm_flags, D_num 0), (nm_vlan_vid, D_num 0)]
       [P_field nm_version fB, P_field nm_type fB, P_placeholder, P_field nm_xid fL,
        P_field nm_stats_type fH, P_field nm_flags fH, P_pad 4, P_field nm_experimenter fL,
        P_field nm_subtype fL, P_field nm_vlan_vid fH, P_length, P_set_len 2]
       None
       [U_local nm__version fB, U_assert nm__version 4, U_local nm__type fB, U_assert nm__type 18,
        U_local nm__length fH, U_slice nm__length 4, U_field nm_xid fL, U_local nm__stats_type fH,
        U_assert nm__stats_type 65535, U_field nm_flags fH, U_skip 4, U_local nm__experimenter fL,
        U_assert nm__experimenter 6035143, U_local nm__subtype fL, U_assert nm__subtype 9,
        U_field nm_vlan_vid fH]
       [nm_xid, nm_flags, nm_vlan_vid]"

definition of13_message_bsn_vrf_counter_stats_request :: cls where
  "of13_message_bsn_vrf_counter_stats_request =
     Cls ''bsn_vrf_counter_stats_request'' [(nm_version, 4), (nm_type, 18), (nm_stats_type, 65535), (nm_experimenter, 6035143),
        (nm_subtype, 15)]
       [(nm_xid, D_None), (nm_flags, D_num 0), (nm_vrf, D_num 0)]
       [P_field nm_version fB, P_field nm_type fB, P_placeholder, P_field nm_xid fL,
        P_field nm_stats_type fH, P_field nm_flags fH, P_pad 4, P_field nm_experimenter fL,
        P_field nm_subtype fL, P_field nm_vrf fL, P_length, P_set_len 2]
       None
       [U_local nm__version fB, U_assert nm__version 4, U_local nm__type fB, U_assert nm__type 18,
        U_local nm__length fH, U_slice nm__length 4, U_field nm_xid fL, U_local nm__stats_type fH,
        U_assert nm__stats_type 65535, U_field nm_flags fH, U_skip 4, U_local nm__experimenter fL,
        U_assert nm__experimenter 6035143, U_local nm__subtype fL, U_assert nm__subtype 15,
        U_field nm_vrf fL]
       [nm_xid, nm_flags, nm_vrf]"

definition of13_message_bsn_stats_request :: cls where
  "of13_message_bsn_stats_request =
     Cls ''bsn_stats_request'' [(nm_version, 4), (nm_type, 18), (nm_stats_type, 65535), (nm_experimenter, 6035143)]
       [(nm_xid, D_None), (nm_flags, D_num 0), (nm_subtype, D_num 0)]
       [P_field nm_version fB, P_field nm_type fB, P_placeholder, P_field nm_xid fL,
        P_field nm_stats_type fH, P_field nm_flags fH, P_pad 4, P_field nm_experimenter fL,
        P_field nm_subtype fL, P_length, P_set_len 2]
       (Some (fL, 20,
         [(13, of13_message_bsn_debug_counter_desc_stats_request),
          (12, of13_message_bsn_debug_counter_stats_request),
          (10, of13_message_bsn_flow_checksum_bucket_stats_request),
          (16, of13_message_bsn_generic_stats_request),
          (5, of13_message_bsn_gentable_bucket_stats_request),
          (4, of13_message_bsn_gentable_desc_stats_request),
          (2, of13_message_bsn_gentable_entry_desc_stats_request),
          (3, of13_message_bsn_gentable_entry_stats_request),
          (7, of13_message_bsn_gentable_stats_request),
          (14, of13_message_bsn_image_desc_stats_request),
          (1, of13_message_bsn_lacp_stats_request),
          (8, of13_message_bsn_port_counter_stats_request),
          (6, of13_message_bsn_switch_pipeline_stats_request),
          (11, of13_message_bsn_table_checksum_stats_request),
          (9, of13_message_bsn_vlan_counter_stats_request),
          (15, of13_message_bsn_vrf_counter_stats_request)]))
       [U_local nm__version fB, U_assert nm__version 4, U_local nm__type fB, U_assert nm__type 18,
        U_local nm__length fH, U_slice nm__length 4, U_field nm_xid fL, U_local nm__stats_type fH,
        U_assert nm__stats_type 65535, U_field nm_flags fH, U_skip 4, U_local nm__experimenter fL,
        U_assert nm__experimenter 6035143, U_field nm_subtype fL]
       [nm_xid, nm_flags, nm_subtype]"

definition of13_message_experimenter_stats_request :: cls where
  "of13_message_experimenter_stats_request =
     Cls ''experimenter_stats_request'' [(nm_version, 4), (nm_type, 18), (nm_stats_type, 65535)]
       [(nm_xid, D_None), (nm_flags, D_num 0), (nm_experimenter, D_num 0), (nm_subtype, D_num 0)]
       [P_field nm_version fB, P_field nm_type fB, P_placeholder, P_field nm_xid fL,
        P_field nm_stats_type fH, P_field nm_flags fH, P_pad 4, P_field nm_experimenter fL,
        P_field nm_subtype fL, P_length, P_set_len 2]
       (Some (fL, 16,
         [(6035143, of13_message_bsn_stats_request)]))
       [U_local nm__version fB, U_assert nm__version 4, U_local nm__type fB, U_assert nm__type 18,
        U_local nm__length fH, U_slice nm__length 4, U_field nm_xid fL, U_local nm__stats_type fH,
        U_assert nm__stats_type 65535, U_field nm_flags fH, U_skip 4, U_field nm_experimenter fL,
        U_field nm_subtype fL]
       [nm_xid, nm_flags, nm_experimenter, nm_subtype]"

definition of13_message_desc_stats_request :: cls where
  "of13_message_desc_stats_request =
     Cls ''desc_stats_request'' [(nm_version, 4), (nm_type, 18), (nm_stats_type, 0)]
       [(nm_xid, D_None), (nm_flags, D_num 0)]
       [P_field nm_version fB, P_field nm_type fB, P_placeholder, P_field nm_xid fL,
        P_field nm_stats_type fH, P_field nm_flags fH, P_pad 4, P_length, P_set_len 2]
       None
       [U_local nm__version fB, U_assert nm__version 4, U_local nm__type fB, U_assert nm__type 18,
        U_local nm__length fH, U_slice nm__length 4, U_field nm_xid fL, U_local nm__stats_type fH,
        U_assert nm__stats_type 0, U_field nm_flags fH, U_skip 4]
       [nm_xid, nm_flags]"

definition of13_message_flow_stats_request :: cls where
  "of13_message_flow_stats_request =
     Cls ''flow_stats_request'' [(nm_version, 4), (nm_type, 18), (nm_stats_type, 1)]
       [(nm_xid, D_None), (nm_flags, D_num 0), (nm_table_id, D_num 0), (nm_out_port, D_num 0),
        (nm_out_group, D_num 0), (nm_cookie, D_num 0), (nm_cookie_mask, D_num 0),
        (nm_match, D_new of13_common_match_v3)]
       [P_field nm_version fB, P_field nm_type fB, P_placeholder, P_field nm_xid fL,
        P_field nm_stats_type fH, P_field nm_flags fH, P_pad 4, P_field nm_table_id fB, P_pad 3,
        P_field nm_out_port of13_port_no, P_field nm_out_group fL, P_pad 4, P_field nm_cookie fQ,
        P_field nm_cookie_mask fQ, P_obj nm_match, P_length, P_set_len 2]
       None
       [U_local nm__version fB, U_assert nm__version 4, U_local nm__type fB, U_assert nm__type 18,
        U_local nm__length fH, U_slice nm__length 4, U_field nm_xid fL, U_local nm__stats_type fH,
        U_assert nm__stats_type 1, U_field nm_flags fH, U_skip 4, U_field nm_table_id fB, U_skip 3,
        U_field nm_out_port of13_port_no, U_field nm_out_group fL, U_skip 4, U_field nm_cookie fQ,
        U_field nm_cookie_mask fQ, U_obj nm_match of13_common_match_v3]
       [nm_xid, nm_flags, nm_table_id, nm_out_port, nm_out_group, nm_cookie, nm_cookie_mask,
        nm_match]"

definition of13_message_group_desc_stats_request :: cls where
  "of13_message_group_desc_stats_request =
     Cls ''group_desc_stats_request'' [(nm_version, 4), (nm_type, 18), (nm_stats_type, 7)]
       [(nm_xid, D_None), (nm_flags, D_num 0)]
       [P_field nm_version fB, P_field nm_type fB, P_placeholder, P_field nm_xid fL,
        P_field nm_stats_type fH, P_field nm_flags fH, P_pad 4, P_length, P_set_len 2]
       None
       [U_local nm__version fB, U_assert nm__version 4, U_local nm__type fB, U_assert nm__type 18,
        U_local nm__length fH, U_slice nm__length 4, U_field nm_xid fL, U_local nm__stats_type fH,
        U_assert nm__stats_type 7, U_field nm_flags fH, U_skip 4]
       [nm_xid, nm_flags]"

definition of13_message_group_features_stats_request :: cls where
  "of13_message_group_features_stats_request =
     Cls ''group_features_stats_request'' [(nm_version, 4), (nm_type, 18), (nm_stats_type, 8)]
       [(nm_xid, D_None), (nm_flags, D_num 0)]
       [P_field nm_version fB, P_field nm_type fB, P_placeholder, P_field nm_xid fL,
        P_field nm_stats_type fH, P_field nm_flags fH, P_pad 4, P_length, P_set_len 2]
       None
       [U_local nm__version fB, U_assert nm__version 4, U_local nm__type fB, U_assert nm__type 18,
        U_local nm__length fH, U_slice nm__length 4, U_field nm_xid fL, U_local nm__stats_type fH,
        U_assert nm__stats_type 8, U_field nm_flags fH, U_skip 4]
       [nm_xid, nm_flags]"

definition of13_message_group_stats_request :: cls where
  "of13_message_group_stats_request =
     Cls ''group_stats_request'' [(nm_version, 4), (nm_type, 18), (nm_stats_type, 6)]
       [(nm_xid, D_None), (nm_flags, D_num 0), (nm_group_id, D_num 0)]
       [P_field nm_version fB, P_field nm_type fB, P_placeholder, P_field nm_xid fL,
        P_field nm_stats_type fH, P_field nm_flags fH, P_pad 4, P_field nm_group_id fL, P_pad 4,
        P_length, P_set_len 2]
       None
       [U_local nm__version fB, U_assert nm__version 4, U_local nm__type fB, U_assert nm__type 18,
        U_local nm__length fH, U_slice nm__length 4, U_field nm_xid fL, U_local nm__stats_type fH,
        U_assert nm__stats_type 6, U_field nm_flags fH, U_skip 4, U_field nm_group_id fL, U_skip 4]
       [nm_xid, nm_flags, nm_group_id]"

definition of13_message_meter_config_stats_request :: cls where
  "of13_message_meter_config_stats_request =
     Cls ''meter_config_stats_request'' [(nm_version, 4), (nm_type, 18), (nm_stats_type, 10)]
       [(nm_xid, D_None), (nm_flags, D_num 0), (nm_meter_id, D_num 0)]
       [P_field nm_version fB, P_field nm_type fB, P_placeholder, P_field nm_xid fL,
        P_field nm_stats_type fH, P_field nm_flags fH, P_pad 4, P_field nm_meter_id fL, P_pad 4,
        P_length, P_set_len 2]
       None
       [U_local nm__version fB, U_assert nm__version 4, U_local nm__type fB, U_assert nm__type 18,
        U_local nm__length fH, U_slice nm__length 4, U_field nm_xid fL, U_local nm__stats_type fH,
        U_assert nm__stats_type 10, U_field nm_flags fH, U_skip 4, U_field nm_meter_id fL,
        U_skip 4]
       [nm_xid, nm_flags, nm_meter_id]"

definition of13_message_meter_features_stats_request :: cls where
  "of13_message_meter_features_stats_request =
     Cls ''meter_features_stats_request'' [(nm_version, 4), (nm_type, 18), (nm_stats_type, 11)]
       [(nm_xid, D_None), (nm_flags, D_num 0)]
       [P_field nm_version fB, P_field nm_type fB, P_placeholder, P_field nm_xid fL,
        P_field nm_stats_type fH, P_field nm_flags fH, P_pad 4, P_length, P_set_len 2]
       None
       [U_local nm__version fB, U_assert nm__version 4, U_local nm__type fB, U_assert nm__type 18,
        U_local nm__length fH, U_slice nm__length 4, U_field nm_xid fL, U_local nm__stats_type fH,
        U_assert nm__stats_type 11, U_field nm_flags fH, U_skip 4]
       [nm_xid, nm_flags]"

definition of13_message_meter_stats_request :: cls where
  "of13_message_meter_stats_request =
     Cls ''meter_stats_request'' [(nm_version, 4), (nm_type, 18), (nm_stats_type, 9)]
       [(nm_xid, D_None), (nm_flags, D_num 0), (nm_meter_id, D_num 0)]
       [P_field nm_version fB, P_field nm_type fB, P_placeholder, P_field nm_xid fL,
        P_field nm_stats_type fH, P_field nm_flags fH, P_pad 4, P_field nm_meter_id fL, P_pad 4,
        P_length, P_set_len 2]
       None
       [U_local nm__version fB, U_assert nm__version 4, U_local nm__type fB, U_assert nm__type 18,
        U_local nm__length fH, U_slice nm__length 4, U_field nm_xid fL, U_local nm__stats_type fH,
        U_assert nm__stats_type 9, U_field nm_flags fH, U_skip 4, U_field nm_meter_id fL, U_skip 4]
       [nm_xid, nm_flags, nm_meter_id]"

definition of13_message_port_desc_stats_request :: cls where
  "of13_message_port_desc_stats_request =
     Cls ''port_desc_stats_request'' [(nm_version, 4), (nm_type, 18), (nm_stats_type, 13)]
       [(nm_xid, D_None), (nm_flags, D_num 0)]
       [P_field nm_version fB, P_field nm_type fB, P_placeholder, P_field nm_xid fL,
        P_field nm_stats_type fH, P_field nm_flags fH, P_pad 4, P_length, P_set_len 2]
       None
       [U_local nm__version fB, U_assert nm__version 4, U_local nm__type fB, U_assert nm__type 18,
        U_local nm__length fH, U_slice nm__length 4, U_field nm_xid fL, U_local nm__stats_type fH,
        U_assert nm__stats_type 13, U_field nm_flags fH, U_skip 4]
       [nm_xid, nm_flags]"

definition of13_message_port_stats_request :: cls where
  "of13_message_port_stats_request =
     Cls ''port_stats_request'' [(nm_version, 4), (nm_type, 18), (nm_stats_type, 4)]
       [(nm_xid, D_None), (nm_flags, D_num 0), (nm_port_no, D_num 0)]
       [P_field nm_version fB, P_field nm_type fB, P_placeholder, P_field nm_xid fL,
        P_field nm_stats_type fH, P_field nm_flags fH, P_pad 4, P_field nm_port_no of13_port_no,
        P_pad 4, P_length, P_set_len 2]
       None
       [U_local nm__version fB, U_assert nm__version 4, U_local nm__type fB, U_assert nm__type 18,
        U_local nm__length fH, U_slice nm__length 4, U_field nm_xid fL, U_local nm__stats_type fH,
        U_assert nm__stats_type 4, U_field nm_flags fH, U_skip 4, U_field nm_port_no of13_port_no,
        U_skip 4]
       [nm_xid, nm_flags, nm_port_no]"

definition of13_message_queue_stats_request :: cls where
  "of13_message_queue_stats_request =
     Cls ''queue_stats_request'' [(nm_version, 4), (nm_type, 18), (nm_stats_type, 5)]
       [(nm_xid, D_None), (nm_flags, D_num 0), (nm_port_no, D_num 0), (nm_queue_id, D_num 0)]
       [P_field nm_version fB, P_field nm_type fB, P_placeholder, P_field nm_xid fL,
        P_field nm_stats_type fH, P_field nm_flags fH, P_pad 4, P_field nm_port_no of13_port_no,
        P_field nm_queue_id fL, P_length, P_set_len 2]
       None
       [U_local nm__version fB, U_assert nm__version 4, U_local nm__type fB, U_assert nm__type 18,
        U_local nm__length fH, U_slice nm__length 4, U_field nm_xid fL, U_local nm__stats_type fH,
        U_assert nm__stats_type 5, U_field nm_flags fH, U_skip 4, U_field nm_port_no of13_port_no,
        U_field nm_queue_id fL]
       [nm_xid, nm_flags, nm_port_no, nm_queue_id]"

definition of13_message_table_features_stats_request :: cls where
  "of13_message_table_features_stats_request =
     Cls ''table_features_stats_request'' [(nm_version, 4), (nm_type, 18), (nm_stats_type, 12)]
       [(nm_xid, D_None), (nm_flags, D_num 0), (nm_entries, D_list)]
       [P_field nm_version fB, P_field nm_type fB, P_placeholder, P_field nm_xid fL,
        P_field nm_stats_type fH, P_field nm_flags fH, P_pad 4, P_list nm_entries, P_length,
        P_set_len 2]
       None
       [U_local nm__version fB, U_assert nm__version 4, U_local nm__type fB, U_assert nm__type 18,
        U_local nm__length fH, U_slice nm__length 4, U_field nm_xid fL, U_local nm__stats_type fH,
        U_assert nm__stats_type 12, U_field nm_flags fH, U_skip 4,
        U_list nm_entries of13_common_table_features]
       [nm_xid, nm_flags, nm_entries]"

definition of13_message_table_stats_request :: cls where
  "of13_message_table_stats_request =
     Cls ''table_stats_request'' [(nm_version, 4), (nm_type, 18), (nm_stats_type, 3)]
       [(nm_xid, D_None), (nm_flags, D_num 0)]
       [P_field nm_version fB, P_field nm_type fB, P_placeholder, P_field nm_xid fL,
        P_field nm_stats_type fH, P_field nm_flags fH, P_pad 4, P_length, P_set_len 2]
       None
       [U_local nm__version fB, U_assert nm__version 4, U_local nm__type fB, U_assert nm__type 18,
        U_local nm__length fH, U_slice nm__length 4, U_field nm_xid fL, U_local nm__stats_type fH,
        U_assert nm__stats_type 3, U_field nm_flags fH, U_skip 4]
       [nm_xid, nm_flags]"

definition of13_message_stats_request :: cls where
  "of13_message_stats_request =
     Cls ''stats_request'' [(nm_version, 4), (nm_type, 18)]
       [(nm_xid, D_None), (nm_stats_type, D_num 0), (nm_flags, D_num 0)]
       [P_field nm_version fB, P_field nm_type fB, P_placeholder, P_field nm_xid fL,
        P_field nm_stats_type fH, P_field nm_flags fH, P_pad 4, P_length, P_set_len 2]
       (Some (fH, 8,
         [(2, of13_message_aggregate_stats_request),
          (65535, of13_message_experimenter_stats_request), (0, of13_message_desc_stats_request),
          (1, of13_message_flow_stats_request), (7, of13_message_group_desc_stats_request),
          (8, of13_message_group_features_stats_request), (6, of13_message_group_stats_request),
          (10, of13_message_meter_config_stats_request),
          (11, of13_message_meter_features_stats_request), (9, of13_message_meter_stats_request),
          (13, of13_message_port_desc_stats_request), (4, of13_message_port_stats_request),
          (5, of13_message_queue_stats_request), (12, of13_message_table_features_stats_request),
          (3, of13_message_table_stats_request)]))
       [U_local nm__version fB, U_assert nm__version 4, U_local nm__type fB, U_assert nm__type 18,
        U_local nm__length fH, U_slice nm__length 4, U_field nm_xid fL, U_field nm_stats_type fH,
        U_field nm_flags fH, U_skip 4]
       [nm_xid, nm_stats_type, nm_flags]"

definition of13_message_async_get_reply :: cls where
  "of13_message_async_get_reply =
     Cls ''async_get_reply'' [(nm_version, 4), (nm_type, 27)]
       [(nm_xid, D_None), (nm_packet_in_mask_equal_master, D_num 0),
        (nm_packet_in_mask_slave, D_num 0), (nm_port_status_mask_equal_master, D_num 0),
        (nm_port_status_mask_slave, D_num 0), (nm_flow_removed_mask_equal_master, D_num 0),
        (nm_flow_removed_mask_slave, D_num 0)]
       [P_field nm_version fB, P_field nm_type fB, P_placeholder, P_field nm_xid fL,
        P_field nm_packet_in_mask_equal_master fL, P_field nm_packet_in_mask_slave fL,
        P_field nm_port_status_mask_equal_master fL, P_field nm_port_status_mask_slave fL,
        P_field nm_flow_removed_mask_equal_master fL, P_field nm_flow_removed_mask_slave fL,
        P_length, P_set_len 2]
       None
       [U_local nm__version fB, U_assert nm__version 4, U_local nm__type fB, U_assert nm__type 27,
        U_local nm__length fH, U_slice nm__length 4, U_field nm_xid fL,
        U_field nm_packet_in_mask_equal_master fL, U_field nm_packet_in_mask_slave fL,
        U_field nm_port_status_mask_equal_master fL, U_field nm_port_status_mask_slave fL,
        U_field nm_flow_removed_mask_equal_master fL, U_field nm_flow_removed_mask_slave fL]
       [nm_xid, nm_packet_in_mask_equal_master, nm_packet_in_mask_slave,
        nm_port_status_mask_equal_master, nm_port_status_mask_slave,
        nm_flow_removed_mask_equal_master, nm_flow_removed_mask_slave]"

definition of13_message_async_get_request :: cls where
  "of13_message_async_get_request =
     Cls ''async_get_request'' [(nm_version, 4), (nm_type, 26)]
       [(nm_xid, D_None)]
       [P_field nm_version fB, P_field nm_type fB, P_placeholder, P_field nm_xid fL, P_length,
        P_set_len 2]
       None
       [U_local nm__version fB, U_assert nm__version 4, U_local nm__type fB, U_assert nm__type 26,
        U_local nm__length fH, U_slice nm__length 4, U_field nm_xid fL]
       [nm_xid]"

definition of13_message_async_set :: cls where
  "of13_message_async_set =
     Cls ''async_set'' [(nm_version, 4), (nm_type, 28)]
       [(nm_xid, D_None), (nm_packet_in_mask_equal_master, D_num 0),
        (nm_packet_in_mask_slave, D_num 0), (nm_port_status_mask_equal_master, D_num 0),
        (nm_port_status_mask_slave, D_num 0), (nm_flow_removed_mask_equal_master, D_num 0),
        (nm_flow_removed_mask_slave, D_num 0)]
       [P_field nm_version fB, P_field nm_type fB, P_placeholder, P_field nm_xid fL,
        P_field nm_packet_in_mask_equal_master fL, P_field nm_packet_in_mask_slave fL,
        P_field nm_port_status_mask_equal_master fL, P_field nm_port_status_mask_slave fL,
        P_field nm_flow_removed_mask_equal_master fL, P_field nm_flow_removed_mask_slave fL,
        P_length, P_set_len 2]
       None
       [U_local nm__version fB, U_assert nm__version 4, U_local nm__type fB, U_assert nm__type 28,
        U_local nm__length fH, U_slice nm__length 4, U_field nm_xid fL,
        U_field nm_packet_in_mask_equal_master fL, U_field nm_packet_in_mask_slave fL,
        U_field nm_port_status_mask_equal_master fL, U_field nm_port_status_mask_slave fL,
        U_field nm_flow_removed_mask_equal_master fL, U_field nm_flow_removed_mask_slave fL]
       [nm_xid, nm_packet_in_mask_equal_master, nm_packet_in_mask_slave,
        nm_port_status_mask_equal_master, nm_port_status_mask_slave,
        nm_flow_removed_mask_equal_master, nm_flow_removed_mask_slave]"

definition of13_message_bad_action_error_msg :: cls where
  "of13_message_bad_action_error_msg =
     Cls ''bad_action_error_msg'' [(nm_version, 4), (nm_type, 1), (nm_err_type, 2)]
       [(nm_xid, D_None), (nm_code, D_num 0), (nm_data, D_str [])]
       [P_field nm_version fB, P_field nm_type fB, P_placeholder, P_field nm_xid fL,
        P_field nm_err_type fH, P_field nm_code fH, P_raw nm_data, P_length, P_set_len 2]
       None
       [U_local nm__version fB, U_assert nm__version 4, U_local nm__type fB, U_assert nm__type 1,
        U_local nm__length fH, U_slice nm__length 4, U_field nm_xid fL, U_local nm__err_type fH,
        U_assert nm__err_type 2, U_field nm_code fH, U_read_all nm_data]
       [nm_xid, nm_code, nm_data]"

definition of13_message_bad_instruction_error_msg :: cls where
  "of13_message_bad_instruction_error_msg =
     Cls ''bad_instruction_error_msg'' [(nm_version, 4), (nm_type, 1), (nm_err_type, 3)]
       [(nm_xid, D_None), (nm_code, D_num 0), (nm_data, D_str [])]
       [P_field nm_version fB, P_field nm_type fB, P_placeholder, P_field nm_xid fL,
        P_field nm_err_type fH, P_field nm_code fH, P_raw nm_data, P_length, P_set_len 2]
       None
       [U_local nm__version fB, U_assert nm__version 4, U_local nm__type fB, U_assert nm__type 1,
        U_local nm__length fH, U_slice nm__length 4, U_field nm_xid fL, U_local nm__err_type fH,
        U_assert nm__err_type 3, U_field nm_code fH, U_read_all nm_data]
       [nm_xid, nm_code, nm_data]"

definition of13_message_bad_match_error_msg :: cls where
  "of13_message_bad_match_error_msg =
     Cls ''bad_match_error_msg'' [(nm_version, 4), (nm_type, 1), (nm_err_type, 4)]
       [(nm_xid, D_None), (nm_code, D_num 0), (nm_data, D_str [])]
       [P_field nm_version fB, P_field nm_type fB, P_placeholder, P_field nm_xid fL,
        P_field nm_err_type fH, P_field nm_code fH, P_raw nm_data, P_length, P_set_len 2]
       None
       [U_local nm__version fB, U_assert nm__version 4, U_local nm__type fB, U_assert nm__type 1,
        U_local nm__length fH, U_slice nm__length 4, U_field nm_xid fL, U_local nm__err_type fH,
        U_assert nm__err_type 4, U_field nm_code fH, U_read_all nm_data]
       [nm_xid, nm_code, nm_data]"

definition of13_message_bad_request_error_msg :: cls where
  "of13_message_bad_request_error_msg =
     Cls ''bad_request_error_msg'' [(nm_version, 4), (nm_type, 1), (nm_err_type, 1)]
       [(nm_xid, D_None), (nm_code, D_num 0), (nm_data, D_str [])]
       [P_field nm_version fB, P_field nm_type fB, P_placeholder, P_field nm_xid fL,
        P_field nm_err_type fH, P_field nm_code fH, P_raw nm_data, P_length, P_set_len 2]
       None
       [U_local nm__version fB, U_assert nm__version 4, U_local nm__type fB, U_assert nm__type 1,
        U_local nm__length fH, U_slice nm__length 4, U_field nm_xid fL, U_local nm__err_type fH,
        U_assert nm__err_type 1, U_field nm_code fH, U_read_all nm_data]
       [nm_xid, nm_code, nm_data]"

definition of13_message_bsn_error :: cls where
  "of13_message_bsn_error =
     Cls ''bsn_error'' [(nm_version, 4), (nm_type, 1), (nm_err_type, 65535), (nm_subtype, 1),
        (nm_experimenter, 6035143)]
       [(nm_xid, D_None), (nm_err_msg, D_str []), (nm_data, D_str [])]
       [P_field nm_version fB, P_field nm_type fB, P_placeholder, P_field nm_xid fL,
        P_field nm_err_type fH, P_field nm_subtype fH, P_field nm_experimenter fL,
        P_field nm_err_msg (fS 256), P_raw nm_data, P_length, P_set_len 2]
       None
       [U_local nm__version fB, U_assert nm__version 4, U_local nm__type fB, U_assert nm__type 1,
        U_local nm__length fH, U_slice nm__length 4, U_field nm_xid fL, U_local nm__err_type fH,
        U_assert nm__err_type 65535, U_local nm__subtype fH, U_assert nm__subtype 1,
        U_local nm__experimenter fL, U_assert nm__experimenter 6035143,
        U_field nm_err_msg (fS_rstrip 256), U_read_all nm_data]
       [nm_xid, nm_err_msg, nm_data]"

definition of13_message_bsn_base_error :: cls where
  "of13_message_bsn_base_error =
     Cls ''bsn_base_error'' [(nm_version, 4), (nm_type, 1), (nm_err_type, 65535), (nm_experimenter, 6035143)]
       [(nm_xid, D_None), (nm_subtype, D_num 0), (nm_err_msg, D_str []), (nm_data, D_str [])]
       [P_field nm_version fB, P_field nm_type fB, P_placeholder, P_field nm_xid fL,
        P_field nm_err_type fH, P_field nm_subtype fH, P_field nm_experimenter fL,
        P_field nm_err_msg (fS 256), P_raw nm_data, P_length, P_set_len 2]
       (Some (fH, 10,
         [(1, of13_message_bsn_error)]))
       [U_local nm__version fB, U_assert nm__version 4, U_local nm__type fB, U_assert nm__type 1,
        U_local nm__length fH, U_slice nm__length 4, U_field nm_xid fL, U_local nm__err_type fH,
        U_assert nm__err_type 65535, U_field nm_subtype fH, U_local nm__experimenter fL,
        U_assert nm__experimenter 6035143, U_field nm_err_msg (fS_rstrip 256), U_read_all nm_data]
       [nm_xid, nm_subtype, nm_err_msg, nm_data]"

definition of13_message_experimenter_error_msg :: cls where
  "of13_message_experimenter_error_msg =
     Cls ''experimenter_error_msg'' [(nm_version, 4), (nm_type, 1), (nm_err_type, 65535)]
       [(nm_xid, D_None), (nm_subtype, D_num 0), (nm_experimenter, D_num 0), (nm_data, D_str [])]
       [P_field nm_version fB, P_field nm_type fB, P_placeholder, P_field nm_xid fL,
        P_field nm_err_type fH, P_field nm_subtype fH, P_field nm_experimenter fL, P_raw nm_data,
        P_length, P_set_len 2]
       (Some (fL, 12,
         [(6035143, of13_message_bsn_base_error)]))
       [U_local nm__version fB, U_assert nm__version 4, U_local nm__type fB, U_assert nm__type 1,
        U_local nm__length fH, U_slice nm__length 4, U_field nm_xid fL, U_local nm__err_type fH,
        U_assert nm__err_type 65535, U_field nm_subtype fH, U_field nm_experimenter fL,
        U_read_all nm_data]
       [nm_xid, nm_subtype, nm_experimenter, nm_data]"

definition of13_message_flow_mod_failed_error_msg :: cls where
  "of13_message_flow_mod_failed_error_msg =
     Cls ''flow_mod_failed_error_msg'' [(nm_version, 4), (nm_type, 1), (nm_err_type, 5)]
       [(nm_xid, D_None), (nm_code, D_num 0), (nm_data, D_str [])]
       [P_field nm_version fB, P_field nm_type fB, P_placeholder, P_field nm_xid fL,
        P_field nm_err_type fH, P_field nm_code fH, P_raw nm_data, P_length, P_set_len 2]
       None
       [U_local nm__version fB, U_assert nm__version 4, U_local nm__type fB, U_assert nm__type 1,
        U_local nm__length fH, U_slice nm__length 4, U_field nm_xid fL, U_local nm__err_type fH,
        U_assert nm__err_type 5, U_field nm_code fH, U_read_all nm_data]
       [nm_xid, nm_code, nm_data]"

definition of13_message_group_mod_failed_error_msg :: cls where
  "of13_message_group_mod_failed_error_msg =
     Cls ''group_mod_failed_error_msg'' [(nm_version, 4), (nm_type, 1), (nm_err_type, 6)]
       [(nm_xid, D_None), (nm_code, D_num 0), (nm_data, D_str [])]
       [P_field nm_version fB, P_field nm_type fB, P_placeholder, P_field nm_xid fL,
        P_field nm_err_type fH, P_field nm_code fH, P_raw nm_data, P_length, P_set_len 2]
       None
       [U_local nm__version fB, U_assert nm__version 4, U_local nm__type fB, U_assert nm__type 1,
        U_local nm__length fH, U_slice nm__length 4, U_field nm_xid fL, U_local nm__err_type fH,
        U_assert nm__err_type 6, U_field nm_code fH, U_read_all nm_data]
       [nm_xid, nm_code, nm_data]"

definition of13_message_hello_failed_error_msg :: cls where
  "of13_message_hello_failed_error_msg =
     Cls ''hello_failed_error_msg'' [(nm_version, 4), (nm_type, 1), (nm_err_type, 0)]
       [(nm_xid, D_None), (nm_code, D_num 0), (nm_data, D_str [])]
       [P_field nm_version fB, P_field nm_type fB, P_placeholder, P_field nm_xid fL,
        P_field nm_err_type fH, P_field nm_code fH, P_raw nm_data, P_length, P_set_len 2]
       None
       [U_local nm__version fB, U_assert nm__version 4, U_local nm__type fB, U_assert nm__type 1,
        U_local nm__length fH, U_slice nm__length 4, U_field nm_xid fL, U_local nm__err_type fH,
        U_assert nm__err_type 0, U_field nm_code fH, U_read_all nm_data]
       [nm_xid, nm_code, nm_data]"

definition of13_message_meter_mod_failed_error_msg :: cls where
  "of13_message_meter_mod_failed_error_msg =
     Cls ''meter_mod_failed_error_msg'' [(nm_version, 4), (nm_type, 1), (nm_err_type, 12)]
       [(nm_xid, D_None), (nm_code, D_num 0), (nm_data, D_str [])]
       [P_field nm_version fB, P_field nm_type fB, P_placeholder, P_field nm_xid fL,
        P_field nm_err_type fH, P_field nm_code fH, P_raw nm_data, P_length, P_set_len 2]
       None
       [U_local nm__version fB, U_assert nm__version 4, U_local nm__type fB, U_assert nm__type 1,
        U_local nm__length fH, U_slice nm__length 4, U_field nm_xid fL, U_local nm__err_type fH,
        U_assert nm__err_type 12, U_field nm_code fH, U_read_all nm_data]
       [nm_xid, nm_code, nm_data]"

definition of13_message_port_mod_failed_error_msg :: cls where
  "of13_message_port_mod_failed_error_msg =
     Cls ''port_mod_failed_error_msg'' [(nm_version, 4), (nm_type, 1), (nm_err_type, 7)]
       [(nm_xid, D_None), (nm_code, D_num 0), (nm_data, D_str [])]
       [P_field nm_version fB, P_field nm_type fB, P_placeholder, P_field nm_xid fL,
        P_field nm_err_type fH, P_field nm_code fH, P_raw nm_data, P_length, P_set_len 2]
       None
       [U_local nm__version fB, U_assert nm__version 4, U_local nm__type fB, U_assert nm__type 1,
        U_local nm__length fH, U_slice nm__length 4, U_field nm_xid fL, U_local nm__err_type fH,
        U_assert nm__err_type 7, U_field nm_code fH, U_read_all nm_data]
       [nm_xid, nm_code, nm_data]"

definition of13_message_queue_op_failed_error_msg :: cls where
  "of13_message_queue_op_failed_error_msg =
     Cls ''queue_op_failed_error_msg'' [(nm_version, 4), (nm_type, 1), (nm_err_type, 9)]
       [(nm_xid, D_None), (nm_code, D_num 0), (nm_data, D_str [])]
       [P_field nm_version fB, P_field nm_type fB, P_placeholder, P_field nm_xid fL,
        P_field nm_err_type fH, P_field nm_code fH, P_raw nm_data, P_length, P_set_len 2]
       None
       [U_local nm__version fB, U_assert nm__version 4, U_local nm__type fB, U_assert nm__type 1,
        U_local nm__length fH, U_slice nm__length 4, U_field nm_xid fL, U_local nm__err_type fH,
        U_assert nm__err_type 9, U_field nm_code fH, U_read_all nm_data]
       [nm_xid, nm_code, nm_data]"

definition of13_message_role_request_failed_error_msg :: cls where
  "of13_message_role_request_failed_error_msg =
     Cls ''role_request_failed_error_msg'' [(nm_version, 4), (nm_type, 1), (nm_err_type, 11)]
       [(nm_xid, D_None), (nm_code, D_num 0), (nm_data, D_str [])]
       [P_field nm_version fB, P_field nm_type fB, P_placeholder, P_field nm_xid fL,
        P_field nm_err_type fH, P_field nm_code fH, P_raw nm_data, P_length, P_set_len 2]
       None
       [U_local nm__version fB, U_assert nm__version 4, U_local nm__type fB, U_assert nm__type 1,
        U_local nm__length fH, U_slice nm__length 4, U_field nm_xid fL, U_local nm__err_type fH,
        U_assert nm__err_type 11, U_field nm_code fH, U_read_all nm_data]
       [nm_xid, nm_code, nm_data]"

definition of13_message_switch_config_failed_error_msg :: cls where
  "of13_message_switch_config_failed_error_msg =
     Cls ''switch_config_failed_error_msg'' [(nm_version, 4), (nm_type, 1), (nm_err_type, 10)]
       [(nm_xid, D_None), (nm_code, D_num 0), (nm_data, D_str [])]
       [P_field nm_version fB, P_field nm_type fB, P_placeholder, P_field nm_xid fL,
        P_field nm_err_type fH, P_field nm_code fH, P_raw nm_data, P_length, P_set_len 2]
       None
       [U_local nm__version fB, U_assert nm__version 4, U_local nm__type fB, U_assert nm__type 1,
        U_local nm__length fH, U_slice nm__length 4, U_field nm_xid fL, U_local nm__err_type fH,
        U_assert nm__err_type 10, U_field nm_code fH, U_read_all nm_data]
       [nm_xid, nm_code, nm_data]"

definition of13_message_table_features_failed_error_msg :: cls where
  "of13_message_table_features_failed_error_msg =
     Cls ''table_features_failed_error_msg'' [(nm_version, 4), (nm_type, 1), (nm_err_type, 13)]
       [(nm_xid, D_None), (nm_code, D_num 0), (nm_data, D_str [])]
       [P_field nm_version fB, P_field nm_type fB, P_placeholder, P_field nm_xid fL,
        P_field nm_err_type fH, P_field nm_code fH, P_raw nm_data, P_length, P_set_len 2]
       None
       [U_local nm__version fB, U_assert nm__version 4, U_local nm__type fB, U_assert nm__type 1,
        U_local nm__length fH, U_slice nm__length 4, U_field nm_xid fL, U_local nm__err_type fH,
        U_assert nm__err_type 13, U_field nm_code fH, U_read_all nm_data]
       [nm_xid, nm_code, nm_data]"

definition of13_message_table_mod_failed_error_msg :: cls where
  "of13_message_table_mod_failed_error_msg =
     Cls ''table_mod_failed_error_msg'' [(nm_version, 4), (nm_type, 1), (nm_err_type, 8)]
       [(nm_xid, D_None), (nm_code, D_num 0), (nm_data, D_str [])]
       [P_field nm_version fB, P_field nm_type fB, P_placeholder, P_field nm_xid fL,
        P_field nm_err_type fH, P_field nm_code fH, P_raw nm_data, P_length, P_set_len 2]
       None
       [U_local nm__version fB, U_assert nm__version 4, U_local nm__type fB, U_assert nm__type 1,
        U_local nm__length fH, U_slice nm__length 4, U_field nm_xid fL, U_local nm__err_type fH,
        U_assert nm__err_type 8, U_field nm_code fH, U_read_all nm_data]
       [nm_xid, nm_code, nm_data]"

definition of13_message_error_msg :: cls where
  "of13_message_error_msg =
     Cls ''error_msg'' [(nm_version, 4), (nm_type, 1)]
       [(nm_xid, D_None), (nm_err_type, D_num 0)]
       [P_field nm_version fB, P_field nm_type fB, P_placeholder, P_field nm_xid fL,
        P_field nm_err_type fH, P_length, P_set_len 2]
       (Some (fH, 8,
         [(2, of13_message_bad_action_error_msg), (3, of13_message_bad_instruction_error_msg),
          (4, of13_message_bad_match_error_msg), (1, of13_message_bad_request_error_msg),
          (65535, of13_message_experimenter_error_msg),
          (5, of13_message_flow_mod_failed_error_msg),
          (6, of13_message_group_mod_failed_error_msg), (0, of13_message_hello_failed_error_msg),
          (12, of13_message_meter_mod_failed_error_msg),
          (7, of13_message_port_mod_failed_error_msg), (9, of13_message_queue_op_failed_error_msg),
          (11, of13_message_role_request_failed_error_msg),
          (10, of13_message_switch_config_failed_error_msg),
          (13, of13_message_table_features_failed_error_msg),
          (8, of13_message_table_mod_failed_error_msg)]))
       [U_local nm__version fB, U_assert nm__version 4, U_local nm__type fB, U_assert nm__type 1,
        U_local nm__length fH, U_slice nm__length 4, U_field nm_xid fL, U_field nm_err_type fH]
       [nm_xid, nm_err_type]"

definition of13_message_barrier_reply :: cls where
  "of13_message_barrier_reply =
     Cls ''barrier_reply'' [(nm_version, 4), (nm_type, 21)]
       [(nm_xid, D_None)]
       [P_field nm_version fB, P_field nm_type fB, P_placeholder, P_field nm_xid fL, P_length,
        P_set_len 2]
       None
       [U_local nm__version fB, U_assert nm__version 4, U_local nm__type fB, U_assert nm__type 21,
        U_local nm__length fH, U_slice nm__length 4, U_field nm_xid fL]
       [nm_xid]"

definition of13_message_barrier_request :: cls where
  "of13_message_barrier_request =
     Cls ''barrier_request'' [(nm_version, 4), (nm_type, 20)]
       [(nm_xid, D_None)]
       [P_field nm_version fB, P_field nm_type fB, P_placeholder, P_field nm_xid fL, P_length,
        P_set_len 2]
       None
       [U_local nm__version fB, U_assert nm__version 4, U_local nm__type fB, U_assert nm__type 20,
        U_local nm__length fH, U_slice nm__length 4, U_field nm_xid fL]
       [nm_xid]"

definition of13_message_bsn_arp_idle :: cls where
  "of13_message_bsn_arp_idle =
     Cls ''bsn_arp_idle'' [(nm_version, 4), (nm_type, 4), (nm_experimenter, 6035143), (nm_subtype, 60)]
       [(nm_xid, D_None), (nm_vlan_vid, D_num 0), (nm_ipv4_addr, D_num 0)]
       [P_field nm_version fB, P_field nm_type fB, P_placeholder, P_field nm_xid fL,
        P_field nm_experimenter fL, P_field nm_subtype fL, P_field nm_vlan_vid fH, P_pad 2,
        P_field nm_ipv4_addr fL, P_length, P_set_len 2]
       None
       [U_local nm__version fB, U_assert nm__version 4, U_local nm__type fB, U_assert nm__type 4,
        U_local nm__length fH, U_slice nm__length 4, U_field nm_xid fL,
        U_local nm__experimenter fL, U_assert nm__experimenter 6035143, U_local nm__subtype fL,
        U_assert nm__subtype 60, U_field nm_vlan_vid fH, U_skip 2, U_field nm_ipv4_addr fL]
       [nm_xid, nm_vlan_vid, nm_ipv4_addr]"

definition of13_message_bsn_bw_clear_data_reply :: cls where
  "of13_message_bsn_bw_clear_data_reply =
     Cls ''bsn_bw_clear_data_reply'' [(nm_version, 4), (nm_type, 4), (nm_experimenter, 6035143), (nm_subtype, 22)]
       [(nm_xid, D_None), (nm_status, D_num 0)]
       [P_field nm_version fB, P_field nm_type fB, P_placeholder, P_field nm_xid fL,
        P_field nm_experimenter fL, P_field nm_subtype fL, P_field nm_status fL, P_length,
        P_set_len 2]
       None
       [U_local nm__version fB, U_assert nm__version 4, U_local nm__type fB, U_assert nm__type 4,
        U_local nm__length fH, U_slice nm__length 4, U_field nm_xid fL,
        U_local nm__experimenter fL, U_assert nm__experimenter 6035143, U_local nm__subtype fL,
        U_assert nm__subtype 22, U_field nm_status fL]
       [nm_xid, nm_status]"

definition of13_message_bsn_bw_clear_data_request :: cls where
  "of13_message_bsn_bw_clear_data_request =
     Cls ''bsn_bw_clear_data_request'' [(nm_version, 4), (nm_type, 4), (nm_experimenter, 6035143), (nm_subtype, 21)]
       [(nm_xid, D_None)]
       [P_field nm_version fB, P_field nm_type fB, P_placeholder, P_field nm_xid fL,
        P_field nm_experimenter fL, P_field nm_subtype fL, P_length, P_set_len 2]
       None
       [U_local nm__version fB, U_assert nm__version 4, U_local nm__type fB, U_assert nm__type 4,
        U_local nm__length fH, U_slice nm__length 4, U_field nm_xid fL,
        U_local nm__experimenter fL, U_assert nm__experimenter 6035143, U_local nm__subtype fL,
        U_assert nm__subtype 21]
       [nm_xid]"

definition of13_message_bsn_bw_enable_get_reply :: cls where
  "of13_message_bsn_bw_enable_get_reply =
     Cls ''bsn_bw_enable_get_reply'' [(nm_version, 4), (nm_type, 4), (nm_experimenter, 6035143), (nm_subtype, 20)]
       [(nm_xid, D_None), (nm_enabled, D_num 0)]
       [P_field nm_version fB, P_field nm_type fB, P_placeholder, P_field nm_xid fL,
        P_field nm_experimenter fL, P_field nm_subtype fL, P_field nm_enabled fL, P_length,
        P_set_len 2]
       None
       [U_local nm__version fB, U_assert nm__version 4, U_local nm__type fB, U_assert nm__type 4,
        U_local nm__length fH, U_slice nm__length 4, U_field nm_xid fL,
        U_local nm__experimenter fL, U_assert nm__experimenter 6035143, U_local nm__subtype fL,
        U_assert nm__subtype 20, U_field nm_enabled fL]
       [nm_xid, nm_enabled]"

definition of13_message_bsn_bw_enable_get_request :: cls where
  "of13_message_bsn_bw_enable_get_request =
     Cls ''bsn_bw_enable_get_request'' [(nm_version, 4), (nm_type, 4), (nm_experimenter, 6035143), (nm_subtype, 19)]
       [(nm_xid, D_None)]
       [P_field nm_version fB, P_field nm_type fB, P_placeholder, P_field nm_xid fL,
        P_field nm_experimenter fL, P_field nm_subtype fL, P_length, P_set_len 2]
       None
       [U_local nm__version fB, U_assert nm__version 4, U_local nm__type fB, U_assert nm__type 4,
        U_local nm__length fH, U_slice nm__length 4, U_field nm_xid fL,
        U_local nm__experimenter fL, U_assert nm__experimenter 6035143, U_local nm__subtype fL,
        U_assert nm__subtype 19]
       [nm_xid]"

definition of13_message_bsn_bw_enable_set_reply :: cls where
  "of13_message_bsn_bw_enable_set_reply =
     Cls ''bsn_bw_enable_set_reply'' [(nm_version, 4), (nm_type, 4), (nm_experimenter, 6035143), (nm_subtype, 23)]
       [(nm_xid, D_None), (nm_enable, D_num 0), (nm_status, D_num 0)]
       [P_field nm_version fB, P_field nm_type fB, P_placeholder, P_field nm_xid fL,
        P_field nm_experimenter fL, P_field nm_subtype fL, P_field nm_enable fL,
        P_field nm_status fL, P_length, P_set_len 2]
       None
       [U_local nm__version fB, U_assert nm__version 4, U_local nm__type fB, U_assert nm__type 4,
        U_local nm__length fH, U_slice nm__length 4, U_field nm_xid fL,
        U_local nm__experimenter fL, U_assert nm__experimenter 6035143, U_local nm__subtype fL,
        U_assert nm__subtype 23, U_field nm_enable fL, U_field nm_status fL]
       [nm_xid, nm_enable, nm_status]"

definition of13_message_bsn_bw_enable_set_request :: cls where
  "of13_message_bsn_bw_enable_set_request =
     Cls ''bsn_bw_enable_set_request'' [(nm_version, 4), (nm_type, 4), (nm_experimenter, 6035143), (nm_subtype, 18)]
       [(nm_xid, D_None), (nm_enable, D_num 0)]
       [P_field nm_version fB, P_field nm_type fB, P_placeholder, P_field nm_xid fL,
        P_field nm_experimenter fL, P_field nm_subtype fL, P_field nm_enable fL, P_length,
        P_set_len 2]
       None
       [U_local nm__version fB, U_assert nm__version 4, U_local nm__type fB, U_assert nm__type 4,
        U_local nm__length fH, U_slice nm__length 4, U_field nm_xid fL,
        U_local nm__experimenter fL, U_assert nm__experimenter 6035143, U_local nm__subtype fL,
        U_assert nm__subtype 18, U_field nm_enable fL]
       [nm_xid, nm_enable]"

definition of13_message_bsn_controller_connections_reply :: cls where
  "of13_message_bsn_controller_connections_reply =
     Cls ''bsn_controller_connections_reply'' [(nm_version, 4), (nm_type, 4), (nm_experimenter, 6035143), (nm_subtype, 57)]
       [(nm_xid, D_None), (nm_connections, D_list)]
       [P_field nm_version fB, P_field nm_type fB, P_placeholder, P_field nm_xid fL,
        P_field nm_experimenter fL, P_field nm_subtype fL, P_list nm_connections, P_length,
        P_set_len 2]
       None
       [U_local nm__version fB, U_assert nm__version 4, U_local nm__type fB, U_assert nm__type 4,
        U_local nm__length fH, U_slice nm__length 4, U_field nm_xid fL,
        U_local nm__experimenter fL, U_assert nm__experimenter 6035143, U_local nm__subtype fL,
        U_assert nm__subtype 57, U_list nm_connections of13_common_bsn_controller_connection]
       [nm_xid, nm_connections]"

definition of13_message_bsn_controller_connections_request :: cls where
  "of13_message_bsn_controller_connections_request =
     Cls ''bsn_controller_connections_request'' [(nm_version, 4), (nm_type, 4), (nm_experimenter, 6035143), (nm_subtype, 56)]
       [(nm_xid, D_None)]
       [P_field nm_version fB, P_field nm_type fB, P_placeholder, P_field nm_xid fL,
        P_field nm_experimenter fL, P_field nm_subtype fL, P_length, P_set_len 2]
       None
       [U_local nm__version fB, U_assert nm__version 4, U_local nm__type fB, U_assert nm__type 4,
        U_local nm__length fH, U_slice nm__length 4, U_field nm_xid fL,
        U_local nm__experimenter fL, U_assert nm__experimenter 6035143, U_local nm__subtype fL,
        U_assert nm__subtype 56]
       [nm_xid]"

definition of13_message_bsn_flow_idle :: cls where
  "of13_message_bsn_flow_idle =
     Cls ''bsn_flow_idle'' [(nm_version, 4), (nm_type, 4), (nm_experimenter, 6035143), (nm_subtype, 40)]
       [(nm_xid, D_None), (nm_cookie, D_num 0), (nm_priority, D_num 0), (nm_table_id, D_num 0),
        (nm_match, D_new of13_common_match_v3)]
       [P_field nm_version fB, P_field nm_type fB, P_placeholder, P_field nm_xid fL,
        P_field nm_experimenter fL, P_field nm_subtype fL, P_field nm_cookie fQ,
        P_field nm_priority fH, P_field nm_table_id fB, P_pad 5, P_obj nm_match, P_length,
        P_set_len 2]
       None
       [U_local nm__version fB, U_assert nm__version 4, U_local nm__type fB, U_assert nm__type 4,
        U_local nm__length fH, U_slice nm__length 4, U_field nm_xid fL,
        U_local nm__experimenter fL, U_assert nm__experimenter 6035143, U_local nm__subtype fL,
        U_assert nm__subtype 40, U_field nm_cookie fQ, U_field nm_priority fH,
        U_field nm_table_id fB, U_skip 5, U_obj nm_match of13_common_match_v3]
       [nm_xid, nm_cookie, nm_priority, nm_table_id, nm_match]"

definition of13_message_bsn_flow_idle_enable_get_reply :: cls where
  "of13_message_bsn_flow_idle_enable_get_reply =
     Cls ''bsn_flow_idle_enable_get_reply'' [(nm_version, 4), (nm_type, 4), (nm_experimenter, 6035143), (nm_subtype, 39)]
       [(nm_xid, D_None), (nm_enabled, D_num 0)]
       [P_field nm_version fB, P_field nm_type fB, P_placeholder, P_field nm_xid fL,
        P_field nm_experimenter fL, P_field nm_subtype fL, P_field nm_enabled fL, P_length,
        P_set_len 2]
       None
       [U_local nm__version fB, U_assert nm__version 4, U_local nm__type fB, U_assert nm__type 4,
        U_local nm__length fH, U_slice nm__length 4, U_field nm_xid fL,
        U_local nm__experimenter fL, U_assert nm__experimenter 6035143, U_local nm__subtype fL,
        U_assert nm__subtype 39, U_field nm_enabled fL]
       [nm_xid, nm_enabled]"

definition of13_message_bsn_flow_idle_enable_get_request :: cls where
  "of13_message_bsn_flow_idle_enable_get_request =
     Cls ''bsn_flow_idle_enable_get_request'' [(nm_version, 4), (nm_type, 4), (nm_experimenter, 6035143), (nm_subtype, 38)]
       [(nm_xid, D_None)]
       [P_field nm_version fB, P_field nm_type fB, P_placeholder, P_field nm_xid fL,
        P_field nm_experimenter fL, P_field nm_subtype fL, P_length, P_set_len 2]
       None
       [U_local nm__version fB, U_assert nm__version 4, U_local nm__type fB, U_assert nm__type 4,
        U_local nm__length fH, U_slice nm__length 4, U_field nm_xid fL,
        U_local nm__experimenter fL, U_assert nm__experimenter 6035143, U_local nm__subtype fL,
        U_assert nm__subtype 38]
       [nm_xid]"

definition of13_message_bsn_flow_idle_enable_set_reply :: cls where
  "of13_message_bsn_flow_idle_enable_set_reply =
     Cls ''bsn_flow_idle_enable_set_reply'' [(nm_version, 4), (nm_type, 4), (nm_experimenter, 6035143), (nm_subtype, 37)]
       [(nm_xid, D_None), (nm_enable, D_num 0), (nm_status, D_num 0)]
       [P_field nm_version fB, P_field nm_type fB, P_placeholder, P_field nm_xid fL,
        P_field nm_experimenter fL, P_field nm_subtype fL, P_field nm_enable fL,
        P_field nm_status fL, P_length, P_set_len 2]
       None
       [U_local nm__version fB, U_assert nm__version 4, U_local nm__type fB, U_assert nm__type 4,
        U_local nm__length fH, U_slice nm__length 4, U_field nm_xid fL,
        U_local nm__experimenter fL, U_assert nm__experimenter 6035143, U_local nm__subtype fL,
        U_assert nm__subtype 37, U_field nm_enable fL, U_field nm_status fL]
       [nm_xid, nm_enable, nm_status]"

definition of13_message_bsn_flow_idle_enable_set_request :: cls where
  "of13_message_bsn_flow_idle_enable_set_request =
     Cls ''bsn_flow_idle_enable_set_request'' [(nm_version, 4), (nm_type, 4), (nm_experimenter, 6035143), (nm_subtype, 36)]
       [(nm_xid, D_None), (nm_enable, D_num 0)]
       [P_field nm_version fB, P_field nm_type fB, P_placeholder, P_field nm_xid fL,
        P_field nm_experimenter fL, P_field nm_subtype fL, P_field nm_enable fL, P_length,
        P_set_len 2]
       None
       [U_local nm__version fB, U_assert nm__version 4, U_local nm__type fB, U_assert nm__type 4,
        U_local nm__length fH, U_slice nm__length 4, U_field nm_xid fL,
        U_local nm__experimenter fL, U_assert nm__experimenter 6035143, U_local nm__subtype fL,
        U_assert nm__subtype 36, U_field nm_enable fL]
       [nm_xid, nm_enable]"

definition of13_message_bsn_gentable_clear_reply :: cls where
  "of13_message_bsn_gentable_clear_reply =
     Cls ''bsn_gentable_clear_reply'' [(nm_version, 4), (nm_type, 4), (nm_experimenter, 6035143), (nm_subtype, 49)]
       [(nm_xid, D_None), (nm_table_id, D_num 0), (nm_deleted_count, D_num 0),
        (nm_error_count, D_num 0)]
       [P_field nm_version fB, P_field nm_type fB, P_placeholder, P_field nm_xid fL,
        P_field nm_experimenter fL, P_field nm_subtype fL, P_field nm_table_id fH, P_pad 2,
        P_field nm_deleted_count fL, P_field nm_error_count fL, P_length, P_set_len 2]
       None
       [U_local nm__version fB, U_assert nm__version 4, U_local nm__type fB, U_assert nm__type 4,
        U_local nm__length fH, U_slice nm__length 4, U_field nm_xid fL,
        U_local nm__experimenter fL, U_assert nm__experimenter 6035143, U_local nm__subtype fL,
        U_assert nm__subtype 49, U_field nm_table_id fH, U_skip 2, U_field nm_deleted_count fL,
        U_field nm_error_count fL]
       [nm_xid, nm_table_id, nm_deleted_count, nm_error_count]"

definition of13_message_bsn_gentable_clear_request :: cls where
  "of13_message_bsn_gentable_clear_request =
     Cls ''bsn_gentable_clear_request'' [(nm_version, 4), (nm_type, 4), (nm_experimenter, 6035143), (nm_subtype, 48)]
       [(nm_xid, D_None), (nm_table_id, D_num 0), (nm_checksum, D_num 0),
        (nm_checksum_mask, D_num 0)]
       [P_field nm_version fB, P_field nm_type fB, P_placeholder, P_field nm_xid fL,
        P_field nm_experimenter fL, P_field nm_subtype fL, P_field nm_table_id fH, P_pad 2,
        P_field nm_checksum fChecksum_128, P_field nm_checksum_mask fChecksum_128, P_length,
        P_set_len 2]
       None
       [U_local nm__version fB, U_assert nm__version 4, U_local nm__type fB, U_assert nm__type 4,
        U_local nm__length fH, U_slice nm__length 4, U_field nm_xid fL,
        U_local nm__experimenter fL, U_assert nm__experimenter 6035143, U_local nm__subtype fL,
        U_assert nm__subtype 48, U_field nm_table_id fH, U_skip 2,
        U_field nm_checksum fChecksum_128, U_field nm_checksum_mask fChecksum_128]
       [nm_xid, nm_table_id, nm_checksum, nm_checksum_mask]"

definition of13_message_bsn_gentable_entry_add :: cls where
  "of13_message_bsn_gentable_entry_add =
     Cls ''bsn_gentable_entry_add'' [(nm_version, 4), (nm_type, 4), (nm_experimenter, 6035143), (nm_subtype, 46)]
       [(nm_xid, D_None), (nm_table_id, D_num 0), (nm_checksum, D_num 0), (nm_key, D_list),
        (nm_value, D_list)]
       [P_field nm_version fB, P_field nm_type fB, P_placeholder, P_field nm_xid fL,
        P_field nm_experimenter fL, P_field nm_subtype fL, P_field nm_table_id fH, P_placeholder,
        P_field nm_checksum fChecksum_128, P_list nm_key, P_len_last 7, P_list nm_value, P_length,
        P_set_len 2]
       None
       [U_local nm__version fB, U_assert nm__version 4, U_local nm__type fB, U_assert nm__type 4,
        U_local nm__length fH, U_slice nm__length 4, U_field nm_xid fL,
        U_local nm__experimenter fL, U_assert nm__experimenter 6035143, U_local nm__subtype fL,
        U_assert nm__subtype 46, U_field nm_table_id fH, U_local nm__key_length fH,
        U_field nm_checksum fChecksum_128, U_list_of nm_key nm__key_length of13_bsn_tlv_bsn_tlv,
        U_list nm_value of13_bsn_tlv_bsn_tlv]
       [nm_xid, nm_table_id, nm_checksum, nm_key, nm_value]"

definition of13_message_bsn_gentable_entry_delete :: cls where
  "of13_message_bsn_gentable_entry_delete =
     Cls ''bsn_gentable_entry_delete'' [(nm_version, 4), (nm_type, 4), (nm_experimenter, 6035143), (nm_subtype, 47)]
       [(nm_xid, D_None), (nm_table_id, D_num 0), (nm_key, D_list)]
       [P_field nm_version fB, P_field nm_type fB, P_placeholder, P_field nm_xid fL,
        P_field nm_experimenter fL, P_field nm_subtype fL, P_field nm_table_id fH, P_list nm_key,
        P_length, P_set_len 2]
       None
       [U_local nm__version fB, U_assert nm__version 4, U_local nm__type fB, U_assert nm__type 4,
        U_local nm__length fH, U_slice nm__length 4, U_field nm_xid fL,
        U_local nm__experimenter fL, U_assert nm__experimenter 6035143, U_local nm__subtype fL,
        U_assert nm__subtype 47, U_field nm_table_id fH, U_list nm_key of13_bsn_tlv_bsn_tlv]
       [nm_xid, nm_table_id, nm_key]"

definition of13_message_bsn_gentable_set_buckets_size :: cls where
  "of13_message_bsn_gentable_set_buckets_size =
     Cls ''bsn_gentable_set_buckets_size'' [(nm_version, 4), (nm_type, 4), (nm_experimenter, 6035143), (nm_subtype, 50)]
       [(nm_xid, D_None), (nm_table_id, D_num 0), (nm_buckets_size, D_num 0)]
       [P_field nm_version fB, P_field nm_type fB, P_placeholder, P_field nm_xid fL,
        P_field nm_experimenter fL, P_field nm_subtype fL, P_field nm_table_id fH, P_pad 2,
        P_field nm_buckets_size fL, P_length, P_set_len 2]
       None
       [U_local nm__version fB, U_assert nm__version 4, U_local nm__type fB, U_assert nm__type 4,
        U_local nm__length fH, U_slice nm__length 4, U_field nm_xid fL,
        U_local nm__experimenter fL, U_assert nm__experimenter 6035143, U_local nm__subtype fL,
        U_assert nm__subtype 50, U_field nm_table_id fH, U_skip 2, U_field nm_buckets_size fL]
       [nm_xid, nm_table_id, nm_buckets_size]"

definition of13_message_bsn_get_interfaces_reply :: cls where
  "of13_message_bsn_get_interfaces_reply =
     Cls ''bsn_get_interfaces_reply'' [(nm_version, 4), (nm_type, 4), (nm_experimenter, 6035143), (nm_subtype, 10)]
       [(nm_xid, D_None), (nm_interfaces, D_list)]
       [P_field nm_version fB, P_field nm_type fB, P_placeholder, P_field nm_xid fL,
        P_field nm_experimenter fL, P_field nm_subtype fL, P_list nm_interfaces, P_length,
        P_set_len 2]
       None
       [U_local nm__version fB, U_assert nm__version 4, U_local nm__type fB, U_assert nm__type 4,
        U_local nm__length fH, U_slice nm__length 4, U_field nm_xid fL,
        U_local nm__experimenter fL, U_assert nm__experimenter 6035143, U_local nm__subtype fL,
        U_assert nm__subtype 10, U_list nm_interfaces of13_common_bsn_interface]
       [nm_xid, nm_interfaces]"

definition of13_message_bsn_get_interfaces_request :: cls where
  "of13_message_bsn_get_interfaces_request =
     Cls ''bsn_get_interfaces_request'' [(nm_version, 4), (nm_type, 4), (nm_experimenter, 6035143), (nm_subtype, 9)]
       [(nm_xid, D_None)]
       [P_field nm_version fB, P_field nm_type fB, P_placeholder, P_field nm_xid fL,
        P_field nm_experimenter fL, P_field nm_subtype fL, P_length, P_set_len 2]
       None
       [U_local nm__version fB, U_assert nm__version 4, U_local nm__type fB, U_assert nm__type 4,
        U_local nm__length fH, U_slice nm__length 4, U_field nm_xid fL,
        U_local nm__experimenter fL, U_assert nm__experimenter 6035143, U_local nm__subtype fL,
        U_assert nm__subtype 9]
       [nm_xid]"

definition of13_message_bsn_get_mirroring_reply :: cls where
  "of13_message_bsn_get_mirroring_reply =
     Cls ''bsn_get_mirroring_reply'' [(nm_version, 4), (nm_type, 4), (nm_experimenter, 6035143), (nm_subtype, 5)]
       [(nm_xid, D_None), (nm_report_mirror_ports, D_num 0)]
       [P_field nm_version fB, P_field nm_type fB, P_placeholder, P_field nm_xid fL,
        P_field nm_experimenter fL, P_field nm_subtype fL, P_field nm_report_mirror_ports fB,
        P_pad 3, P_length, P_set_len 2]
       None
       [U_local nm__version fB, U_assert nm__version 4, U_local nm__type fB, U_assert nm__type 4,
        U_local nm__length fH, U_slice nm__length 4, U_field nm_xid fL,
        U_local nm__experimenter fL, U_assert nm__experimenter 6035143, U_local nm__subtype fL,
        U_assert nm__subtype 5, U_field nm_report_mirror_ports fB, U_skip 3]
       [nm_xid, nm_report_mirror_ports]"

definition of13_message_bsn_get_mirroring_request :: cls where
  "of13_message_bsn_get_mirroring_request =
     Cls ''bsn_get_mirroring_request'' [(nm_version, 4), (nm_type, 4), (nm_experimenter, 6035143), (nm_subtype, 4)]
       [(nm_xid, D_None), (nm_report_mirror_ports, D_num 0)]
       [P_field nm_version fB, P_field nm_type fB, P_placeholder, P_field nm_xid fL,
        P_field nm_experimenter fL, P_field nm_subtype fL, P_field nm_report_mirror_ports fB,
        P_pad 3, P_length, P_set_len 2]
       None
       [U_local nm__version fB, U_assert nm__version 4, U_local nm__type fB, U_assert nm__type 4,
        U_local nm__length fH, U_slice nm__length 4, U_field nm_xid fL,
        U_local nm__experimenter fL, U_assert nm__experimenter 6035143, U_local nm__subtype fL,
        U_assert nm__subtype 4, U_field nm_report_mirror_ports fB, U_skip 3]
       [nm_xid, nm_report_mirror_ports]"

definition of13_message_bsn_get_switch_pipeline_reply :: cls where
  "of13_message_bsn_get_switch_pipeline_reply =
     Cls ''bsn_get_switch_pipeline_reply'' [(nm_version, 4), (nm_type, 4), (nm_experimenter, 6035143), (nm_subtype, 52)]
       [(nm_xid, D_None), (nm_pipeline, D_str [])]
       [P_field nm_version fB, P_field nm_type fB, P_placeholder, P_field nm_xid fL,
        P_field nm_experimenter fL, P_field nm_subtype fL, P_field nm_pipeline (fS 256), P_length,
        P_set_len 2]
       None
       [U_local nm__version fB, U_assert nm__version 4, U_local nm__type fB, U_assert nm__type 4,
        U_local nm__length fH, U_slice nm__length 4, U_field nm_xid fL,
        U_local nm__experimenter fL, U_assert nm__experimenter 6035143, U_local nm__subtype fL,
        U_assert nm__subtype 52, U_field nm_pipeline (fS_rstrip 256)]
       [nm_xid, nm_pipeline]"

definition of13_message_bsn_get_switch_pipeline_request :: cls where
  "of13_message_bsn_get_switch_pipeline_request =
     Cls ''bsn_get_switch_pipeline_request'' [(nm_version, 4), (nm_type, 4), (nm_experimenter, 6035143), (nm_subtype, 51)]
       [(nm_xid, D_None)]
       [P_field nm_version fB, P_field nm_type fB, P_placeholder, P_field nm_xid fL,
        P_field nm_experimenter fL, P_field nm_subtype fL, P_length, P_set_len 2]
       None
       [U_local nm__version fB, U_assert nm__version 4, U_local nm__type fB, U_assert nm__type 4,
        U_local nm__length fH, U_slice nm__length 4, U_field nm_xid fL,
        U_local nm__experimenter fL, U_assert nm__experimenter 6035143, U_local nm__subtype fL,
        U_assert nm__subtype 51]
       [nm_xid]"

definition of13_message_bsn_lacp_convergence_notif :: cls where
  "of13_message_bsn_lacp_convergence_notif =
     Cls ''bsn_lacp_convergence_notif'' [(nm_version, 4), (nm_type, 4), (nm_experimenter, 6035143), (nm_subtype, 43)]
       [(nm_xid, D_None), (nm_convergence_status, D_num 0), (nm_port_no, D_num 0),
        (nm_actor_sys_priority, D_num 0), (nm_actor_sys_mac, D_nums [0,0,0,0,0,0]),
        (nm_actor_port_priority, D_num 0), (nm_actor_port_num, D_num 0), (nm_actor_key, D_num 0),
        (nm_partner_sys_priority, D_num 0), (nm_partner_sys_mac, D_nums [0,0,0,0,0,0]),
        (nm_partner_port_priority, D_num 0), (nm_partner_port_num, D_num 0),
        (nm_partner_key, D_num 0)]
       [P_field nm_version fB, P_field nm_type fB, P_placeholder, P_field nm_xid fL,
        P_field nm_experimenter fL, P_field nm_subtype fL, P_field nm_convergence_status fB,
        P_pad 3, P_field nm_port_no of13_port_no, P_field nm_actor_sys_priority fH,
        P_field nm_actor_sys_mac f6B, P_field nm_actor_port_priority fH,
        P_field nm_actor_port_num fH, P_field nm_actor_key fH, P_field nm_partner_sys_priority fH,
        P_field nm_partner_sys_mac f6B, P_field nm_partner_port_priority fH,
        P_field nm_partner_port_num fH, P_field nm_partner_key fH, P_length, P_set_len 2]
       None
       [U_local nm__version fB, U_assert nm__version 4, U_local nm__type fB, U_assert nm__type 4,
        U_local nm__length fH, U_slice nm__length 4, U_field nm_xid fL,
        U_local nm__experimenter fL, U_assert nm__experimenter 6035143, U_local nm__subtype fL,
        U_assert nm__subtype 43, U_field nm_convergence_status fB, U_skip 3,
        U_field nm_port_no of13_port_no, U_field nm_actor_sys_priority fH,
        U_field nm_actor_sys_mac f6B, U_field nm_actor_port_priority fH,
        U_field nm_actor_port_num fH, U_field nm_actor_key fH, U_field nm_partner_sys_priority fH,
        U_field nm_partner_sys_mac f6B, U_field nm_partner_port_priority fH,
        U_field nm_partner_port_num fH, U_field nm_partner_key fH]
       [nm_xid, nm_convergence_status, nm_port_no, nm_actor_sys_priority, nm_actor_sys_mac,
        nm_actor_port_priority, nm_actor_port_num, nm_actor_key, nm_partner_sys_priority,
        nm_partner_sys_mac, nm_partner_port_priority, nm_partner_port_num, nm_partner_key]"

definition of13_message_bsn_log :: cls where
  "of13_message_bsn_log =
     Cls ''bsn_log'' [(nm_version, 4), (nm_type, 4), (nm_experimenter, 6035143), (nm_subtype, 63)]
       [(nm_xid, D_None), (nm_loglevel, D_num 0), (nm_data, D_str [])]
       [P_field nm_version fB, P_field nm_type fB, P_placeholder, P_field nm_xid fL,
        P_field nm_experimenter fL, P_field nm_subtype fL, P_field nm_loglevel fB, P_raw nm_data,
        P_length, P_set_len 2]
       None
       [U_local nm__version fB, U_assert nm__version 4, U_local nm__type fB, U_assert nm__type 4,
        U_local nm__length fH, U_slice nm__length 4, U_field nm_xid fL,
        U_local nm__experimenter fL, U_assert nm__experimenter 6035143, U_local nm__subtype fL,
        U_assert nm__subtype 63, U_field nm_loglevel fB, U_read_all nm_data]
       [nm_xid, nm_loglevel, nm_data]"

definition of13_message_bsn_lua_command_reply :: cls where
  "of13_message_bsn_lua_command_reply =
     Cls ''bsn_lua_command_reply'' [(nm_version, 4), (nm_type, 4), (nm_experimenter, 6035143), (nm_subtype, 66)]
       [(nm_xid, D_None), (nm_data, D_str [])]
       [P_field nm_version fB, P_field nm_type fB, P_placeholder, P_field nm_xid fL,
        P_field nm_experimenter fL, P_field nm_subtype fL, P_raw nm_data, P_length, P_set_len 2]
       None
       [U_local nm__version fB, U_assert nm__version 4, U_local nm__type fB, U_assert nm__type 4,
        U_local nm__length fH, U_slice nm__length 4, U_field nm_xid fL,
        U_local nm__experimenter fL, U_assert nm__experimenter 6035143, U_local nm__subtype fL,
        U_assert nm__subtype 66, U_read_all nm_data]
       [nm_xid, nm_data]"

definition of13_message_bsn_lua_command_request :: cls where
  "of13_message_bsn_lua_command_request =
     Cls ''bsn_lua_command_request'' [(nm_version, 4), (nm_type, 4), (nm_experimenter, 6035143), (nm_subtype, 65)]
       [(nm_xid, D_None), (nm_data, D_str [])]
       [P_field nm_version fB, P_field nm_type fB, P_placeholder, P_field nm_xid fL,
        P_field nm_experimenter fL, P_field nm_subtype fL, P_raw nm_data, P_length, P_set_len 2]
       None
       [U_local nm__version fB, U_assert nm__version 4, U_local nm__type fB, U_assert nm__type 4,
        U_local nm__length fH, U_slice nm__length 4, U_field nm_xid fL,
        U_local nm__experimenter fL, U_assert nm__experimenter 6035143, U_local nm__subtype fL,
        U_assert nm__subtype 65, U_read_all nm_data]
       [nm_xid, nm_data]"

definition of13_message_bsn_lua_notification :: cls where
  "of13_message_bsn_lua_notification =
     Cls ''bsn_lua_notification'' [(nm_version, 4), (nm_type, 4), (nm_experimenter, 6035143), (nm_subtype, 67)]
       [(nm_xid, D_None), (nm_data, D_str [])]
       [P_field nm_version fB, P_field nm_type fB, P_placeholder, P_field nm_xid fL,
        P_field nm_experimenter fL, P_field nm_subtype fL, P_raw nm_data, P_length, P_set_len 2]
       None
       [U_local nm__version fB, U_assert nm__version 4, U_local nm__type fB, U_assert nm__type 4,
        U_local nm__length fH, U_slice nm__length 4, U_field nm_xid fL,
        U_local nm__experimenter fL, U_assert nm__experimenter 6035143, U_local nm__subtype fL,
        U_assert nm__subtype 67, U_read_all nm_data]
       [nm_xid, nm_data]"

definition of13_message_bsn_lua_upload :: cls where
  "of13_message_bsn_lua_upload =
     Cls ''bsn_lua_upload'' [(nm_version, 4), (nm_type, 4), (nm_experimenter, 6035143), (nm_subtype, 64)]
       [(nm_xid, D_None), (nm_flags, D_num 0), (nm_filename, D_str []), (nm_data, D_str [])]
       [P_field nm_version fB, P_field nm_type fB, P_placeholder, P_field nm_xid fL,
        P_field nm_experimenter fL, P_field nm_subtype fL, P_field nm_flags fH,
        P_field nm_filename (fS 64), P_raw nm_data, P_length, P_set_len 2]
       None
       [U_local nm__version fB, U_assert nm__version 4, U_local nm__type fB, U_assert nm__type 4,
        U_local nm__length fH, U_slice nm__length 4, U_field nm_xid fL,
        U_local nm__experimenter fL, U_assert nm__experimenter 6035143, U_local nm__subtype fL,
        U_assert nm__subtype 64, U_field nm_flags fH, U_field nm_filename (fS_rstrip 64),
        U_read_all nm_data]
       [nm_xid, nm_flags, nm_filename, nm_data]"

definition of13_message_bsn_pdu_rx_reply :: cls where
  "of13_message_bsn_pdu_rx_reply =
     Cls ''bsn_pdu_rx_reply'' [(nm_version, 4), (nm_type, 4), (nm_experimenter, 6035143), (nm_subtype, 34)]
       [(nm_xid, D_None), (nm_status, D_num 0), (nm_port_no, D_num 0), (nm_slot_num, D_num 0)]
       [P_field nm_version fB, P_field nm_type fB, P_placeholder, P_field nm_xid fL,
        P_field nm_experimenter fL, P_field nm_subtype fL, P_field nm_status fL,
        P_field nm_port_no of13_port_no, P_field nm_slot_num fB, P_length, P_set_len 2]
       None
       [U_local nm__version fB, U_assert nm__version 4, U_local nm__type fB, U_assert nm__type 4,
        U_local nm__length fH, U_slice nm__length 4, U_field nm_xid fL,
        U_local nm__experimenter fL, U_assert nm__experimenter 6035143, U_local nm__subtype fL,
        U_assert nm__subtype 34, U_field nm_status fL, U_field nm_port_no of13_port_no,
        U_field nm_slot_num fB]
       [nm_xid, nm_status, nm_port_no, nm_slot_num]"

definition of13_message_bsn_pdu_rx_request :: cls where
  "of13_message_bsn_pdu_rx_request =
     Cls ''bsn_pdu_rx_request'' [(nm_version, 4), (nm_type, 4), (nm_experimenter, 6035143), (nm_subtype, 33)]
       [(nm_xid, D_None), (nm_timeout_ms, D_num 0), (nm_port_no, D_num 0), (nm_slot_num, D_num 0),
        (nm_data, D_str [])]
       [P_field nm_version fB, P_field nm_type fB, P_placeholder, P_field nm_xid fL,
        P_field nm_experimenter fL, P_field nm_subtype fL, P_field nm_timeout_ms fL,
        P_field nm_port_no of13_port_no, P_field nm_slot_num fB, P_pad 3, P_raw nm_data, P_length,
        P_set_len 2]
       None
       [U_local nm__version fB, U_assert nm__version 4, U_local nm__type fB, U_assert nm__type 4,
        U_local nm__length fH, U_slice nm__length 4, U_field nm_xid fL,
        U_local nm__experimenter fL, U_assert nm__experimenter 6035143, U_local nm__subtype fL,
        U_assert nm__subtype 33, U_field nm_timeout_ms fL, U_field nm_port_no of13_port_no,
        U_field nm_slot_num fB, U_skip 3, U_read_all nm_data]
       [nm_xid, nm_timeout_ms, nm_port_no, nm_slot_num, nm_data]"

definition of13_message_bsn_pdu_rx_timeout :: cls where
  "of13_message_bsn_pdu_rx_timeout =
     Cls ''bsn_pdu_rx_timeout'' [(nm_version, 4), (nm_type, 4), (nm_experimenter, 6035143), (nm_subtype, 35)]
       [(nm_xid, D_None), (nm_port_no, D_num 0), (nm_slot_num, D_num 0)]
       [P_field nm_version fB, P_field nm_type fB, P_placeholder, P_field nm_xid fL,
        P_field nm_experimenter fL, P_field nm_subtype fL, P_field nm_port_no of13_port_no,
        P_field nm_slot_num fB, P_length, P_set_len 2]
       None
       [U_local nm__version fB, U_assert nm__version 4, U_local nm__type fB, U_assert nm__type 4,
        U_local nm__length fH, U_slice nm__length 4, U_field nm_xid fL,
        U_local nm__experimenter fL, U_assert nm__experimenter 6035143, U_local nm__subtype fL,
        U_assert nm__subtype 35, U_field nm_port_no of13_port_no, U_field nm_slot_num fB]
       [nm_xid, nm_port_no, nm_slot_num]"

definition of13_message_bsn_pdu_tx_reply :: cls where
  "of13_message_bsn_pdu_tx_reply =
     Cls ''bsn_pdu_tx_reply'' [(nm_version, 4), (nm_type, 4), (nm_experimenter, 6035143), (nm_subtype, 32)]
       [(nm_xid, D_None), (nm_status, D_num 0), (nm_port_no, D_num 0), (nm_slot_num, D_num 0)]
       [P_field nm_version fB, P_field nm_type fB, P_placeholder, P_field nm_xid fL,
        P_field nm_experimenter fL, P_field nm_subtype fL, P_field nm_status fL,
        P_field nm_port_no of13_port_no, P_field nm_slot_num fB, P_length, P_set_len 2]
       None
       [U_local nm__version fB, U_assert nm__version 4, U_local nm__type fB, U_assert nm__type 4,
        U_local nm__length fH, U_slice nm__length 4, U_field nm_xid fL,
        U_local nm__experimenter fL, U_assert nm__experimenter 6035143, U_local nm__subtype fL,
        U_assert nm__subtype 32, U_field nm_status fL, U_field nm_port_no of13_port_no,
        U_field nm_slot_num fB]
       [nm_xid, nm_status, nm_port_no, nm_slot_num]"

definition of13_message_bsn_pdu_tx_request :: cls where
  "of13_message_bsn_pdu_tx_request =
     Cls ''bsn_pdu_tx_request'' [(nm_version, 4), (nm_type, 4), (nm_experimenter, 6035143), (nm_subtype, 31)]
       [(nm_xid, D_None), (nm_tx_interval_ms, D_num 0), (nm_port_no, D_num 0),
        (nm_slot_num, D_num 0), (nm_data, D_str [])]
       [P_field nm_version fB, P_field nm_type fB, P_placeholder, P_field nm_xid fL,
        P_field nm_experimenter fL, P_field nm_subtype fL, P_field nm_tx_interval_ms fL,
        P_field nm_port_no of13_port_no, P_field nm_slot_num fB, P_pad 3, P_raw nm_data, P_length,
        P_set_len 2]
       None
       [U_local nm__version fB, U_assert nm__version 4, U_local nm__type fB, U_assert nm__type 4,
        U_local nm__length fH, U_slice nm__length 4, U_field nm_xid fL,
        U_local nm__experimenter fL, U_assert nm__experimenter 6035143, U_local nm__subtype fL,
        U_assert nm__subtype 31, U_field nm_tx_interval_ms fL, U_field nm_port_no of13_port_no,
        U_field nm_slot_num fB, U_skip 3, U_read_all nm_data]
       [nm_xid, nm_tx_interval_ms, nm_port_no, nm_slot_num, nm_data]"

definition of13_message_bsn_role_status :: cls where
  "of13_message_bsn_role_status =
     Cls ''bsn_role_status'' [(nm_version, 4), (nm_type, 4), (nm_experimenter, 6035143), (nm_subtype, 55)]
       [(nm_xid, D_None), (nm_role, D_num 0), (nm_reason, D_num 0), (nm_generation_id, D_num 0)]
       [P_field nm_version fB, P_field nm_type fB, P_placeholder, P_field nm_xid fL,
        P_field nm_experimenter fL, P_field nm_subtype fL, P_field nm_role fL,
        P_field nm_reason fB, P_pad 3, P_field nm_generation_id fQ, P_length, P_set_len 2]
       None
       [U_local nm__version fB, U_assert nm__version 4, U_local nm__type fB, U_assert nm__type 4,
        U_local nm__length fH, U_slice nm__length 4, U_field nm_xid fL,
        U_local nm__experimenter fL, U_assert nm__experimenter 6035143, U_local nm__subtype fL,
        U_assert nm__subtype 55, U_field nm_role fL, U_field nm_reason fB, U_skip 3,
        U_field nm_generation_id fQ]
       [nm_xid, nm_role, nm_reason, nm_generation_id]"

definition of13_message_bsn_set_aux_cxns_reply :: cls where
  "of13_message_bsn_set_aux_cxns_reply =
     Cls ''bsn_set_aux_cxns_reply'' [(nm_version, 4), (nm_type, 4), (nm_experimenter, 6035143), (nm_subtype, 59)]
       [(nm_xid, D_None), (nm_num_aux, D_num 0), (nm_status, D_num 0)]
       [P_field nm_version fB, P_field nm_type fB, P_placeholder, P_field nm_xid fL,
        P_field nm_experimenter fL, P_field nm_subtype fL, P_field nm_num_aux fL,
        P_field nm_status fL, P_length, P_set_len 2]
       None
       [U_local nm__version fB, U_assert nm__version 4, U_local nm__type fB, U_assert nm__type 4,
        U_local nm__length fH, U_slice nm__length 4, U_field nm_xid fL,
        U_local nm__experimenter fL, U_assert nm__experimenter 6035143, U_local nm__subtype fL,
        U_assert nm__subtype 59, U_field nm_num_aux fL, U_field nm_status fL]
       [nm_xid, nm_num_aux, nm_status]"

definition of13_message_bsn_set_aux_cxns_request :: cls where
  "of13_message_bsn_set_aux_cxns_request =
     Cls ''bsn_set_aux_cxns_request'' [(nm_version, 4), (nm_type, 4), (nm_experimenter, 6035143), (nm_subtype, 58)]
       [(nm_xid, D_None), (nm_num_aux, D_num 0)]
       [P_field nm_version fB, P_field nm_type fB, P_placeholder, P_field nm_xid fL,
        P_field nm_experimenter fL, P_field nm_subtype fL, P_field nm_num_aux fL, P_length,
        P_set_len 2]
       None
       [U_local nm__version fB, U_assert nm__version 4, U_local nm__type fB, U_assert nm__type 4,
        U_local nm__length fH, U_slice nm__length 4, U_field nm_xid fL,
        U_local nm__experimenter fL, U_assert nm__experimenter 6035143, U_local nm__subtype fL,
        U_assert nm__subtype 58, U_field nm_num_aux fL]
       [nm_xid, nm_num_aux]"

definition of13_message_bsn_set_lacp_reply :: cls where
  "of13_message_bsn_set_lacp_reply =
     Cls ''bsn_set_lacp_reply'' [(nm_version, 4), (nm_type, 4), (nm_experimenter, 6035143), (nm_subtype, 42)]
       [(nm_xid, D_None), (nm_status, D_num 0), (nm_port_no, D_num 0)]
       [P_field nm_version fB, P_field nm_type fB, P_placeholder, P_field nm_xid fL,
        P_field nm_experimenter fL, P_field nm_subtype fL, P_field nm_status fL,
        P_field nm_port_no of13_port_no, P_length, P_set_len 2]
       None
       [U_local nm__version fB, U_assert nm__version 4, U_local nm__type fB, U_assert nm__type 4,
        U_local nm__length fH, U_slice nm__length 4, U_field nm_xid fL,
        U_local nm__experimenter fL, U_assert nm__experimenter 6035143, U_local nm__subtype fL,
        U_assert nm__subtype 42, U_field nm_status fL, U_field nm_port_no of13_port_no]
       [nm_xid, nm_status, nm_port_no]"

definition of13_message_bsn_set_lacp_request :: cls where
  "of13_message_bsn_set_lacp_request =
     Cls ''bsn_set_lacp_request'' [(nm_version, 4), (nm_type, 4), (nm_experimenter, 6035143), (nm_subtype, 41)]
       [(nm_xid, D_None), (nm_enabled, D_num 0), (nm_port_no, D_num 0),
        (nm_actor_sys_priority, D_num 0), (nm_actor_sys_mac, D_nums [0,0,0,0,0,0]),
        (nm_actor_port_priority, D_num 0), (nm_actor_port_num, D_num 0), (nm_actor_key, D_num 0)]
       [P_field nm_version fB, P_field nm_type fB, P_placeholder, P_field nm_xid fL,
        P_field nm_experimenter fL, P_field nm_subtype fL, P_field nm_enabled fB, P_pad 3,
        P_field nm_port_no of13_port_no, P_field nm_actor_sys_priority fH,
        P_field nm_actor_sys_mac f6B, P_field nm_actor_port_priority fH,
        P_field nm_actor_port_num fH, P_field nm_actor_key fH, P_length, P_set_len 2]
       None
       [U_local nm__version fB, U_assert nm__version 4, U_local nm__type fB, U_assert nm__type 4,
        U_local nm__length fH, U_slice nm__length 4, U_field nm_xid fL,
        U_local nm__experimenter fL, U_assert nm__experimenter 6035143, U_local nm__subtype fL,
        U_assert nm__subtype 41, U_field nm_enabled fB, U_skip 3, U_field nm_port_no of13_port_no,
        U_field nm_actor_sys_priority fH, U_field nm_actor_sys_mac f6B,
        U_field nm_actor_port_priority fH, U_field nm_actor_port_num fH, U_field nm_actor_key fH]
       [nm_xid, nm_enabled, nm_port_no, nm_actor_sys_priority, nm_actor_sys_mac,
        nm_actor_port_priority, nm_actor_port_num, nm_actor_key]"

definition of13_message_bsn_set_mirroring :: cls where
  "of13_message_bsn_set_mirroring =
     Cls ''bsn_set_mirroring'' [(nm_version, 4), (nm_type, 4), (nm_experimenter, 6035143), (nm_subtype, 3)]
       [(nm_xid, D_None), (nm_report_mirror_ports, D_num 0)]
       [P_field nm_version fB, P_field nm_type fB, P_placeholder, P_field nm_xid fL,
        P_field nm_experimenter fL, P_field nm_subtype fL, P_field nm_report_mirror_ports fB,
        P_pad 3, P_length, P_set_len 2]
       None
       [U_local nm__version fB, U_assert nm__version 4, U_local nm__type fB, U_assert nm__type 4,
        U_local nm__length fH, U_slice nm__length 4, U_field nm_xid fL,
        U_local nm__experimenter fL, U_assert nm__experimenter 6035143, U_local nm__subtype fL,
        U_assert nm__subtype 3, U_field nm_report_mirror_ports fB, U_skip 3]
       [nm_xid, nm_report_mirror_ports]"

definition of13_message_bsn_set_pktin_suppression_reply :: cls where
  "of13_message_bsn_set_pktin_suppression_reply =
     Cls ''bsn_set_pktin_suppression_reply'' [(nm_version, 4), (nm_type, 4), (nm_experimenter, 6035143), (nm_subtype, 25)]
       [(nm_xid, D_None), (nm_status, D_num 0)]
       [P_field nm_version fB, P_field nm_type fB, P_placeholder, P_field nm_xid fL,
        P_field nm_experimenter fL, P_field nm_subtype fL, P_field nm_status fL, P_length,
        P_set_len 2]
       None
       [U_local nm__version fB, U_assert nm__version 4, U_local nm__type fB, U_assert nm__type 4,
        U_local nm__length fH, U_slice nm__length 4, U_field nm_xid fL,
        U_local nm__experimenter fL, U_assert nm__experimenter 6035143, U_local nm__subtype fL,
        U_assert nm__subtype 25, U_field nm_status fL]
       [nm_xid, nm_status]"

definition of13_message_bsn_set_pktin_suppression_request :: cls where
  "of13_message_bsn_set_pktin_suppression_request =
     Cls ''bsn_set_pktin_suppression_request'' [(nm_version, 4), (nm_type, 4), (nm_experimenter, 6035143), (nm_subtype, 11)]
       [(nm_xid, D_None), (nm_enabled, D_num 0), (nm_idle_timeout, D_num 0),
        (nm_hard_timeout, D_num 0), (nm_priority, D_num 0), (nm_cookie, D_num 0)]
       [P_field nm_version fB, P_field nm_type fB, P_placeholder, P_field nm_xid fL,
        P_field nm_experimenter fL, P_field nm_subtype fL, P_field nm_enabled fB, P_pad 1,
        P_field nm_idle_timeout fH, P_field nm_hard_timeout fH, P_field nm_priority fH,
        P_field nm_cookie fQ, P_length, P_set_len 2]
       None
       [U_local nm__version fB, U_assert nm__version 4, U_local nm__type fB, U_assert nm__type 4,
        U_local nm__length fH, U_slice nm__length 4, U_field nm_xid fL,
        U_local nm__experimenter fL, U_assert nm__experimenter 6035143, U_local nm__subtype fL,
        U_assert nm__subtype 11, U_field nm_enabled fB, U_skip 1, U_field nm_idle_timeout fH,
        U_field nm_hard_timeout fH, U_field nm_priority fH, U_field nm_cookie fQ]
       [nm_xid, nm_enabled, nm_idle_timeout, nm_hard_timeout, nm_priority, nm_cookie]"

definition of13_message_bsn_set_switch_pipeline_reply :: cls where
  "of13_message_bsn_set_switch_pipeline_reply =
     Cls ''bsn_set_switch_pipeline_reply'' [(nm_version, 4), (nm_type, 4), (nm_experimenter, 6035143), (nm_subtype, 54)]
       [(nm_xid, D_None), (nm_status, D_num 0)]
       [P_field nm_version fB, P_field nm_type fB, P_placeholder, P_field nm_xid fL,
        P_field nm_experimenter fL, P_field nm_subtype fL, P_field nm_status fL, P_length,
        P_set_len 2]
       None
       [U_local nm__version fB, U_assert nm__version 4, U_local nm__type fB, U_assert nm__type 4,
        U_local nm__length fH, U_slice nm__length 4, U_field nm_xid fL,
        U_local nm__experimenter fL, U_assert nm__experimenter 6035143, U_local nm__subtype fL,
        U_assert nm__subtype 54, U_field nm_status fL]
       [nm_xid, nm_status]"

definition of13_message_bsn_set_switch_pipeline_request :: cls where
  "of13_message_bsn_set_switch_pipeline_request =
     Cls ''bsn_set_switch_pipeline_request'' [(nm_version, 4), (nm_type, 4), (nm_experimenter, 6035143), (nm_subtype, 53)]
       [(nm_xid, D_None), (nm_pipeline, D_str [])]
       [P_field nm_version fB, P_field nm_type fB, P_placeholder, P_field nm_xid fL,
        P_field nm_experimenter fL, P_field nm_subtype fL, P_field nm_pipeline (fS 256), P_length,
        P_set_len 2]
       None
       [U_local nm__version fB, U_assert nm__version 4, U_local nm__type fB, U_assert nm__type 4,
        U_local nm__length fH, U_slice nm__length 4, U_field nm_xid fL,
        U_local nm__experimenter fL, U_assert nm__experimenter 6035143, U_local nm__subtype fL,
        U_assert nm__subtype 53, U_field nm_pipeline (fS_rstrip 256)]
       [nm_xid, nm_pipeline]"

definition of13_message_bsn_table_set_buckets_size :: cls where
  "of13_message_bsn_table_set_buckets_size =
     Cls ''bsn_table_set_buckets_size'' [(nm_version, 4), (nm_type, 4), (nm_experimenter, 6035143), (nm_subtype, 61)]
       [(nm_xid, D_None), (nm_table_id, D_num 0), (nm_buckets_size, D_num 0)]
       [P_field nm_version fB, P_field nm_type fB, P_placeholder, P_field nm_xid fL,
        P_field nm_experimenter fL, P_field nm_subtype fL, P_pad 1, P_field nm_table_id fB,
        P_pad 2, P_field nm_buckets_size fL, P_length, P_set_len 2]
       None
       [U_local nm__version fB, U_assert nm__version 4, U_local nm__type fB, U_assert nm__type 4,
        U_local nm__length fH, U_slice nm__length 4, U_field nm_xid fL,
        U_local nm__experimenter fL, U_assert nm__experimenter 6035143, U_local nm__subtype fL,
        U_assert nm__subtype 61, U_skip 1, U_field nm_table_id fB, U_skip 2,
        U_field nm_buckets_size fL]
       [nm_xid, nm_table_id, nm_buckets_size]"

definition of13_message_bsn_time_reply :: cls where
  "of13_message_bsn_time_reply =
     Cls ''bsn_time_reply'' [(nm_version, 4), (nm_type, 4), (nm_experimenter, 6035143), (nm_subtype, 45)]
       [(nm_xid, D_None), (nm_time_ms, D_num 0)]
       [P_field nm_version fB, P_field nm_type fB, P_placeholder, P_field nm_xid fL,
        P_field nm_experimenter fL, P_field nm_subtype fL, P_field nm_time_ms fQ, P_length,
        P_set_len 2]
       None
       [U_local nm__version fB, U_assert nm__version 4, U_local nm__type fB, U_assert nm__type 4,
        U_local nm__length fH, U_slice nm__length 4, U_field nm_xid fL,
        U_local nm__experimenter fL, U_assert nm__experimenter 6035143, U_local nm__subtype fL,
        U_assert nm__subtype 45, U_field nm_time_ms fQ]
       [nm_xid, nm_time_ms]"

definition of13_message_bsn_time_request :: cls where
  "of13_message_bsn_time_request =
     Cls ''bsn_time_request'' [(nm_version, 4), (nm_type, 4), (nm_experimenter, 6035143), (nm_subtype, 44)]
       [(nm_xid, D_None)]
       [P_field nm_version fB, P_field nm_type fB, P_placeholder, P_field nm_xid fL,
        P_field nm_experimenter fL, P_field nm_subtype fL, P_length, P_set_len 2]
       None
       [U_local nm__version fB, U_assert nm__version 4, U_local nm__type fB, U_assert nm__type 4,
        U_local nm__length fH, U_slice nm__length 4, U_field nm_xid fL,
        U_local nm__experimenter fL, U_assert nm__experimenter 6035143, U_local nm__subtype fL,
        U_assert nm__subtype 44]
       [nm_xid]"

definition of13_message_bsn_virtual_port_create_reply :: cls where
  "of13_message_bsn_virtual_port_create_reply =
     Cls ''bsn_virtual_port_create_reply'' [(nm_version, 4), (nm_type, 4), (nm_experimenter, 6035143), (nm_subtype, 16)]
       [(nm_xid, D_None), (nm_status, D_num 0), (nm_vport_no, D_num 0)]
       [P_field nm_version fB, P_field nm_type fB, P_placeholder, P_field nm_xid fL,
        P_field nm_experimenter fL, P_field nm_subtype fL, P_field nm_status fL,
        P_field nm_vport_no fL, P_length, P_set_len 2]
       None
       [U_local nm__version fB, U_assert nm__version 4, U_local nm__type fB, U_assert nm__type 4,
        U_local nm__length fH, U_slice nm__length 4, U_field nm_xid fL,
        U_local nm__experimenter fL, U_assert nm__experimenter 6035143, U_local nm__subtype fL,
        U_assert nm__subtype 16, U_field nm_status fL, U_field nm_vport_no fL]
       [nm_xid, nm_status, nm_vport_no]"

definition of13_message_bsn_virtual_port_create_request :: cls where
  "of13_message_bsn_virtual_port_create_request =
     Cls ''bsn_virtual_port_create_request'' [(nm_version, 4), (nm_type, 4), (nm_experimenter, 6035143), (nm_subtype, 15)]
       [(nm_xid, D_None), (nm_vport, D_new of13_common_bsn_vport)]
       [P_field nm_version fB, P_field nm_type fB, P_placeholder, P_field nm_xid fL,
        P_field nm_experimenter fL, P_field nm_subtype fL, P_obj nm_vport, P_length, P_set_len 2]
       None
       [U_local nm__version fB, U_assert nm__version 4, U_local nm__type fB, U_assert nm__type 4,
        U_local nm__length fH, U_slice nm__length 4, U_field nm_xid fL,
        U_local nm__experimenter fL, U_assert nm__experimenter 6035143, U_local nm__subtype fL,
        U_assert nm__subtype 15, U_obj nm_vport of13_common_bsn_vport]
       [nm_xid, nm_vport]"

definition of13_message_bsn_virtual_port_remove_reply :: cls where
  "of13_message_bsn_virtual_port_remove_reply =
     Cls ''bsn_virtual_port_remove_reply'' [(nm_version, 4), (nm_type, 4), (nm_experimenter, 6035143), (nm_subtype, 26)]
       [(nm_xid, D_None), (nm_status, D_num 0)]
       [P_field nm_version fB, P_field nm_type fB, P_placeholder, P_field nm_xid fL,
        P_field nm_experimenter fL, P_field nm_subtype fL, P_field nm_status fL, P_length,
        P_set_len 2]
       None
       [U_local nm__version fB, U_assert nm__version 4, U_local nm__type fB, U_assert nm__type 4,
        U_local nm__length fH, U_slice nm__length 4, U_field nm_xid fL,
        U_local nm__experimenter fL, U_assert nm__experimenter 6035143, U_local nm__subtype fL,
        U_assert nm__subtype 26, U_field nm_status fL]
       [nm_xid, nm_status]"

definition of13_message_bsn_virtual_port_remove_request :: cls where
  "of13_message_bsn_virtual_port_remove_request =
     Cls ''bsn_virtual_port_remove_request'' [(nm_version, 4), (nm_type, 4), (nm_experimenter, 6035143), (nm_subtype, 17)]
       [(nm_xid, D_None), (nm_vport_no, D_num 0)]
       [P_field nm_version fB, P_field nm_type fB, P_placeholder, P_field nm_xid fL,
        P_field nm_experimenter fL, P_field nm_subtype fL, P_field nm_vport_no fL, P_length,
        P_set_len 2]
       None
       [U_local nm__version fB, U_assert nm__version 4, U_local nm__type fB, U_assert nm__type 4,
        U_local nm__length fH, U_slice nm__length 4, U_field nm_xid fL,
        U_local nm__experimenter fL, U_assert nm__experimenter 6035143, U_local nm__subtype fL,
        U_assert nm__subtype 17, U_field nm_vport_no fL]
       [nm_xid, nm_vport_no]"

definition of13_message_bsn_vlan_counter_clear :: cls where
  "of13_message_bsn_vlan_counter_clear =
     Cls ''bsn_vlan_counter_clear'' [(nm_version, 4), (nm_type, 4), (nm_experimenter, 6035143), (nm_subtype, 70)]
       [(nm_xid, D_None), (nm_vlan_vid, D_num 0)]
       [P_field nm_version fB, P_field nm_type fB, P_placeholder, P_field nm_xid fL,
        P_field nm_experimenter fL, P_field nm_subtype fL, P_field nm_vlan_vid fH, P_length,
        P_set_len 2]
       None
       [U_local nm__version fB, U_assert nm__version 4, U_local nm__type fB, U_assert nm__type 4,
        U_local nm__length fH, U_slice nm__length 4, U_field nm_xid fL,
        U_local nm__experimenter fL, U_assert nm__experimenter 6035143, U_local nm__subtype fL,
        U_assert nm__subtype 70, U_field nm_vlan_vid fH]
       [nm_xid, nm_vlan_vid]"

definition of13_message_bsn_header :: cls where
  "of13_message_bsn_header =
     Cls ''bsn_header'' [(nm_version, 4), (nm_type, 4), (nm_experimenter, 6035143)]
       [(nm_xid, D_None), (nm_subtype, D_num 0)]
       [P_field nm_version fB, P_field nm_type fB, P_placeholder, P_field nm_xid fL,
        P_field nm_experimenter fL, P_field nm_subtype fL, P_length, P_set_len 2]
       (Some (fL, 12,
         [(60, of13_message_bsn_arp_idle), (22, of13_message_bsn_bw_clear_data_reply),
          (21, of13_message_bsn_bw_clear_data_request), (20, of13_message_bsn_bw_enable_get_reply),
          (19, of13_message_bsn_bw_enable_get_request), (23, of13_message_bsn_bw_enable_set_reply),
          (18, of13_message_bsn_bw_enable_set_request),
          (57, of13_message_bsn_controller_connections_reply),
          (56, of13_message_bsn_controller_connections_request), (40, of13_message_bsn_flow_idle),
          (39, of13_message_bsn_flow_idle_enable_get_reply),
          (38, of13_message_bsn_flow_idle_enable_get_request),
          (37, of13_message_bsn_flow_idle_enable_set_reply),
          (36, of13_message_bsn_flow_idle_enable_set_request),
          (49, of13_message_bsn_gentable_clear_reply),
          (48, of13_message_bsn_gentable_clear_request), (46, of13_message_bsn_gentable_entry_add),
          (47, of13_message_bsn_gentable_entry_delete),
          (50, of13_message_bsn_gentable_set_buckets_size),
          (10, of13_message_bsn_get_interfaces_reply),
          (9, of13_message_bsn_get_interfaces_request), (5, of13_message_bsn_get_mirroring_reply),
          (4, of13_message_bsn_get_mirroring_request),
          (52, of13_message_bsn_get_switch_pipeline_reply),
          (51, of13_message_bsn_get_switch_pipeline_request),
          (43, of13_message_bsn_lacp_convergence_notif), (63, of13_message_bsn_log),
          (66, of13_message_bsn_lua_command_reply), (65, of13_message_bsn_lua_command_request),
          (67, of13_message_bsn_lua_notification), (64, of13_message_bsn_lua_upload),
          (34, of13_message_bsn_pdu_rx_reply), (33, of13_message_bsn_pdu_rx_request),
          (35, of13_message_bsn_pdu_rx_timeout), (32, of13_message_bsn_pdu_tx_reply),
          (31, of13_message_bsn_pdu_tx_request), (55, of13_message_bsn_role_status),
          (59, of13_message_bsn_set_aux_cxns_reply), (58, of13_message_bsn_set_aux_cxns_request),
          (42, of13_message_bsn_set_lacp_reply), (41, of13_message_bsn_set_lacp_request),
          (3, of13_message_bsn_set_mirroring), (25, of13_message_bsn_set_pktin_suppression_reply),
          (11, of13_message_bsn_set_pktin_suppression_request),
          (54, of13_message_bsn_set_switch_pipeline_reply),
          (53, of13_message_bsn_set_switch_pipeline_request),
          (61, of13_message_bsn_table_set_buckets_size), (45, of13_message_bsn_time_reply),
          (44, of13_message_bsn_time_request), (16, of13_message_bsn_virtual_port_create_reply),
          (15, of13_message_bsn_virtual_port_create_request),
          (26, of13_message_bsn_virtual_port_remove_reply),
          (17, of13_message_bsn_virtual_port_remove_request),
          (70, of13_message_bsn_vlan_counter_clear)]))
       [U_local nm__version fB, U_assert nm__version 4, U_local nm__type fB, U_assert nm__type 4,
        U_local nm__length fH, U_slice nm__length 4, U_field nm_xid fL,
        U_local nm__experimenter fL, U_assert nm__experimenter 6035143, U_field nm_subtype fL]
       [nm_xid, nm_subtype]"

definition of13_message_nicira_header :: cls where
  "of13_message_nicira_header =
     Cls ''nicira_header'' [(nm_version, 4), (nm_type, 4), (nm_experimenter, 8992)]
       [(nm_xid, D_None), (nm_subtype, D_num 0)]
       [P_field nm_version fB, P_field nm_type fB, P_placeholder, P_field nm_xid fL,
        P_field nm_experimenter fL, P_field nm_subtype fL, P_length, P_set_len 2]
       (Some (fL, 12,
         []))
       [U_local nm__version fB, U_assert nm__version 4, U_local nm__type fB, U_assert nm__type 4,
        U_local nm__length fH, U_slice nm__length 4, U_field nm_xid fL,
        U_local nm__experimenter fL, U_assert nm__experimenter 8992, U_field nm_subtype fL]
       [nm_xid, nm_subtype]"

definition of13_message_experimenter :: cls where
  "of13_message_experimenter =
     Cls ''experimenter'' [(nm_version, 4), (nm_type, 4)]
       [(nm_xid, D_None), (nm_experimenter, D_num 0), (nm_subtype, D_num 0), (nm_data, D_str [])]
       [P_field nm_version fB, P_field nm_type fB, P_placeholder, P_field nm_xid fL,
        P_field nm_experimenter fL, P_field nm_subtype fL, P_raw nm_data, P_length, P_set_len 2]
       (Some (fL, 8,
         [(6035143, of13_message_bsn_header), (8992, of13_message_nicira_header)]))
       [U_local nm__version fB, U_assert nm__version 4, U_local nm__type fB, U_assert nm__type 4,
        U_local nm__length fH, U_slice nm__length 4, U_field nm_xid fL, U_field nm_experimenter fL,
        U_field nm_subtype fL, U_read_all nm_data]
       [nm_xid, nm_experimenter, nm_subtype, nm_data]"

definition of13_message_echo_reply :: cls where
  "of13_message_echo_reply =
     Cls ''echo_reply'' [(nm_version, 4), (nm_type, 3)]
       [(nm_xid, D_None), (nm_data, D_str [])]
       [P_field nm_version fB, P_field nm_type fB, P_placeholder, P_field nm_xid fL, P_raw nm_data,
        P_length, P_set_len 2]
       None
       [U_local nm__version fB, U_assert nm__version 4, U_local nm__type fB, U_assert nm__type 3,
        U_local nm__length fH, U_slice nm__length 4, U_field nm_xid fL, U_read_all nm_data]
       [nm_xid, nm_data]"

definition of13_message_echo_request :: cls where
  "of13_message_echo_request =
     Cls ''echo_request'' [(nm_version, 4), (nm_type, 2)]
       [(nm_xid, D_None), (nm_data, D_str [])]
       [P_field nm_version fB, P_field nm_type fB, P_placeholder, P_field nm_xid fL, P_raw nm_data,
        P_length, P_set_len 2]
       None
       [U_local nm__version fB, U_assert nm__version 4, U_local nm__type fB, U_assert nm__type 2,
        U_local nm__length fH, U_slice nm__length 4, U_field nm_xid fL, U_read_all nm_data]
       [nm_xid, nm_data]"

definition of13_message_features_reply :: cls where
  "of13_message_features_reply =
     Cls ''features_reply'' [(nm_version, 4), (nm_type, 6)]
       [(nm_xid, D_None), (nm_datapath_id, D_num 0), (nm_n_buffers, D_num 0),
        (nm_n_tables, D_num 0), (nm_auxiliary_id, D_num 0), (nm_capabilities, D_num 0),
        (nm_reserved, D_num 0)]
       [P_field nm_version fB, P_field nm_type fB, P_placeholder, P_field nm_xid fL,
        P_field nm_datapath_id fQ, P_field nm_n_buffers fL, P_field nm_n_tables fB,
        P_field nm_auxiliary_id fB, P_pad 2, P_field nm_capabilities fL, P_field nm_reserved fL,
        P_length, P_set_len 2]
       None
       [U_local nm__version fB, U_assert nm__version 4, U_local nm__type fB, U_assert nm__type 6,
        U_local nm__length fH, U_slice nm__length 4, U_field nm_xid fL, U_field nm_datapath_id fQ,
        U_field nm_n_buffers fL, U_field nm_n_tables fB, U_field nm_auxiliary_id fB, U_skip 2,
        U_field nm_capabilities fL, U_field nm_reserved fL]
       [nm_xid, nm_datapath_id, nm_n_buffers, nm_n_tables, nm_auxiliary_id, nm_capabilities,
        nm_reserved]"

definition of13_message_features_request :: cls where
  "of13_message_features_request =
     Cls ''features_request'' [(nm_version, 4), (nm_type, 5)]
       [(nm_xid, D_None)]
       [P_field nm_version fB, P_field nm_type fB, P_placeholder, P_field nm_xid fL, P_length,
        P_set_len 2]
       None
       [U_local nm__version fB, U_assert nm__version 4, U_local nm__type fB, U_assert nm__type 5,
        U_local nm__length fH, U_slice nm__length 4, U_field nm_xid fL]
       [nm_xid]"

definition of13_message_flow_add :: cls where
  "of13_message_flow_add =
     Cls ''flow_add'' [(nm_version, 4), (nm_type, 14), (nm__command, 0)]
       [(nm_xid, D_None), (nm_cookie, D_num 0), (nm_cookie_mask, D_num 0), (nm_table_id, D_num 0),
        (nm_idle_timeout, D_num 0), (nm_hard_timeout, D_num 0), (nm_priority, D_num 0),
        (nm_buffer_id, D_num 0), (nm_out_port, D_num 0), (nm_out_group, D_num 0),
        (nm_flags, D_num 0), (nm_match, D_new of13_common_match_v3), (nm_instructions, D_list)]
       [P_field nm_version fB, P_field nm_type fB, P_placeholder, P_field nm_xid fL,
        P_field nm_cookie fQ, P_field nm_cookie_mask fQ, P_field nm_table_id fB,
        P_field nm__command of13_fm_cmd, P_field nm_idle_timeout fH, P_field nm_hard_timeout fH,
        P_field nm_priority fH, P_field nm_buffer_id fL, P_field nm_out_port of13_port_no,
        P_field nm_out_group fL, P_field nm_flags fH, P_pad 2, P_obj nm_match,
        P_list nm_instructions, P_length, P_set_len 2]
       None
       [U_local nm__version fB, U_assert nm__version 4, U_local nm__type fB, U_assert nm__type 14,
        U_local nm__length fH, U_slice nm__length 4, U_field nm_xid fL, U_field nm_cookie fQ,
        U_field nm_cookie_mask fQ, U_field nm_table_id fB, U_local nm___command of13_fm_cmd,
        U_assert nm___command 0, U_field nm_idle_timeout fH, U_field nm_hard_timeout fH,
        U_field nm_priority fH, U_field nm_buffer_id fL, U_field nm_out_port of13_port_no,
        U_field nm_out_group fL, U_field nm_flags fH, U_skip 2,
        U_obj nm_match of13_common_match_v3, U_list nm_instructions of13_instruction_instruction]
       [nm_xid, nm_cookie, nm_cookie_mask, nm_table_id, nm_idle_timeout, nm_hard_timeout,
        nm_priority, nm_buffer_id, nm_out_port, nm_out_group, nm_flags, nm_match, nm_instructions]"

definition of13_message_flow_delete :: cls where
  "of13_message_flow_delete =
     Cls ''flow_delete'' [(nm_version, 4), (nm_type, 14), (nm__command, 3)]
       [(nm_xid, D_None), (nm_cookie, D_num 0), (nm_cookie_mask, D_num 0), (nm_table_id, D_num 0),
        (nm_idle_timeout, D_num 0), (nm_hard_timeout, D_num 0), (nm_priority, D_num 0),
        (nm_buffer_id, D_num 0), (nm_out_port, D_num 0), (nm_out_group, D_num 0),
        (nm_flags, D_num 0), (nm_match, D_new of13_common_match_v3), (nm_instructions, D_list)]
       [P_field nm_version fB, P_field nm_type fB, P_placeholder, P_field nm_xid fL,
        P_field nm_cookie fQ, P_field nm_cookie_mask fQ, P_field nm_table_id fB,
        P_field nm__command of13_fm_cmd, P_field nm_idle_timeout fH, P_field nm_hard_timeout fH,
        P_field nm_priority fH, P_field nm_buffer_id fL, P_field nm_out_port of13_port_no,
        P_field nm_out_group fL, P_field nm_flags fH, P_pad 2, P_obj nm_match,
        P_list nm_instructions, P_length, P_set_len 2]
       None
       [U_local nm__version fB, U_assert nm__version 4, U_local nm__type fB, U_assert nm__type 14,
        U_local nm__length fH, U_slice nm__length 4, U_field nm_xid fL, U_field nm_cookie fQ,
        U_field nm_cookie_mask fQ, U_field nm_table_id fB, U_local nm___command of13_fm_cmd,
        U_assert nm___command 3, U_field nm_idle_timeout fH, U_field nm_hard_timeout fH,
        U_field nm_priority fH, U_field nm_buffer_id fL, U_field nm_out_port of13_port_no,
        U_field nm_out_group fL, U_field nm_flags fH, U_skip 2,
        U_obj nm_match of13_common_match_v3, U_list nm_instructions of13_instruction_instruction]
       [nm_xid, nm_cookie, nm_cookie_mask, nm_table_id, nm_idle_timeout, nm_hard_timeout,
        nm_priority, nm_buffer_id, nm_out_port, nm_out_group, nm_flags, nm_match, nm_instructions]"

definition of13_message_flow_delete_strict :: cls where
  "of13_message_flow_delete_strict =
     Cls ''flow_delete_strict'' [(nm_version, 4), (nm_type, 14), (nm__command, 4)]
       [(nm_xid, D_None), (nm_cookie, D_num 0), (nm_cookie_mask, D_num 0), (nm_table_id, D_num 0),
        (nm_idle_timeout, D_num 0), (nm_hard_timeout, D_num 0), (nm_priority, D_num 0),
        (nm_buffer_id, D_num 0), (nm_out_port, D_num 0), (nm_out_group, D_num 0),
        (nm_flags, D_num 0), (nm_match, D_new of13_common_match_v3), (nm_instructions, D_list)]
       [P_field nm_version fB, P_field nm_type fB, P_placeholder, P_field nm_xid fL,
        P_field nm_cookie fQ, P_field nm_cookie_mask fQ, P_field nm_table_id fB,
        P_field nm__command of13_fm_cmd, P_field nm_idle_timeout fH, P_field nm_hard_timeout fH,
        P_field nm_priority fH, P_field nm_buffer_id fL, P_field nm_out_port of13_port_no,
        P_field nm_out_group fL, P_field nm_flags fH, P_pad 2, P_obj nm_match,
        P_list nm_instructions, P_length, P_set_len 2]
       None
       [U_local nm__version fB, U_assert nm__version 4, U_local nm__type fB, U_assert nm__type 14,
        U_local nm__length fH, U_slice nm__length 4, U_field nm_xid fL, U_field nm_cookie fQ,
        U_field nm_cookie_mask fQ, U_field nm_table_id fB, U_local nm___command of13_fm_cmd,
        U_assert nm___command 4, U_field nm_idle_timeout fH, U_field nm_hard_timeout fH,
        U_field nm_priority fH, U_field nm_buffer_id fL, U_field nm_out_port of13_port_no,
        U_field nm_out_group fL, U_field nm_flags fH, U_skip 2,
        U_obj nm_match of13_common_match_v3, U_list nm_instructions of13_instruction_instruction]
       [nm_xid, nm_cookie, nm_cookie_mask, nm_table_id, nm_idle_timeout, nm_hard_timeout,
        nm_priority, nm_buffer_id, nm_out_port, nm_out_group, nm_flags, nm_match, nm_instructions]"

definition of13_message_flow_modify :: cls where
  "of13_message_flow_modify =
     Cls ''flow_modify'' [(nm_version, 4), (nm_type, 14), (nm__command, 1)]
       [(nm_xid, D_None), (nm_cookie, D_num 0), (nm_cookie_mask, D_num 0), (nm_table_id, D_num 0),
        (nm_idle_timeout, D_num 0), (nm_hard_timeout, D_num 0), (nm_priority, D_num 0),
        (nm_buffer_id, D_num 0), (nm_out_port, D_num 0), (nm_out_group, D_num 0),
        (nm_flags, D_num 0), (nm_match, D_new of13_common_match_v3), (nm_instructions, D_list)]
       [P_field nm_version fB, P_field nm_type fB, P_placeholder, P_field nm_xid fL,
        P_field nm_cookie fQ, P_field nm_cookie_mask fQ, P_field nm_table_id fB,
        P_field nm__command of13_fm_cmd, P_field nm_idle_timeout fH, P_field nm_hard_timeout fH,
        P_field nm_priority fH, P_field nm_buffer_id fL, P_field nm_out_port of13_port_no,
        P_field nm_out_group fL, P_field nm_flags fH, P_pad 2, P_obj nm_match,
        P_list nm_instructions, P_length, P_set_len 2]
       None
       [U_local nm__version fB, U_assert nm__version 4, U_local nm__type fB, U_assert nm__type 14,
        U_local nm__length fH, U_slice nm__length 4, U_field nm_xid fL, U_field nm_cookie fQ,
        U_field nm_cookie_mask fQ, U_field nm_table_id fB, U_local nm___command of13_fm_cmd,
        U_assert nm___command 1, U_field nm_idle_timeout fH, U_field nm_hard_timeout fH,
        U_field nm_priority fH, U_field nm_buffer_id fL, U_field nm_out_port of13_port_no,
        U_field nm_out_group fL, U_field nm_flags fH, U_skip 2,
        U_obj nm_match of13_common_match_v3, U_list nm_instructions of13_instruction_instruction]
       [nm_xid, nm_cookie, nm_cookie_mask, nm_table_id, nm_idle_timeout, nm_hard_timeout,
        nm_priority, nm_buffer_id, nm_out_port, nm_out_group, nm_flags, nm_match, nm_instructions]"

definition of13_message_flow_modify_strict :: cls where
  "of13_message_flow_modify_strict =
     Cls ''flow_modify_strict'' [(nm_version, 4), (nm_type, 14), (nm__command, 2)]
       [(nm_xid, D_None), (nm_cookie, D_num 0), (nm_cookie_mask, D_num 0), (nm_table_id, D_num 0),
        (nm_idle_timeout, D_num 0), (nm_hard_timeout, D_num 0), (nm_priority, D_num 0),
        (nm_buffer_id, D_num 0), (nm_out_port, D_num 0), (nm_out_group, D_num 0),
        (nm_flags, D_num 0), (nm_match, D_new of13_common_match_v3), (nm_instructions, D_list)]
       [P_field nm_version fB, P_field nm_type fB, P_placeholder, P_field nm_xid fL,
        P_field nm_cookie fQ, P_field nm_cookie_mask fQ, P_field nm_table_id fB,
        P_field nm__command of13_fm_cmd, P_field nm_idle_timeout fH, P_field nm_hard_timeout fH,
        P_field nm_priority fH, P_field nm_buffer_id fL, P_field nm_out_port of13_port_no,
        P_field nm_out_group fL, P_field nm_flags fH, P_pad 2, P_obj nm_match,
        P_list nm_instructions, P_length, P_set_len 2]
       None
       [U_local nm__version fB, U_assert nm__version 4, U_local nm__type fB, U_assert nm__type 14,
        U_local nm__length fH, U_slice nm__length 4, U_field nm_xid fL, U_field nm_cookie fQ,
        U_field nm_cookie_mask fQ, U_field nm_table_id fB, U_local nm___command of13_fm_cmd,
        U_assert nm___command 2, U_field nm_idle_timeout fH, U_field nm_hard_timeout fH,
        U_field nm_priority fH, U_field nm_buffer_id fL, U_field nm_out_port of13_port_no,
        U_field nm_out_group fL, U_field nm_flags fH, U_skip 2,
        U_obj nm_match of13_common_match_v3, U_list nm_instructions of13_instruction_instruction]
       [nm_xid, nm_cookie, nm_cookie_mask, nm_table_id, nm_idle_timeout, nm_hard_timeout,
        nm_priority, nm_buffer_id, nm_out_port, nm_out_group, nm_flags, nm_match, nm_instructions]"

definition of13_message_flow_mod :: cls where
  "of13_message_flow_mod =
     Cls ''flow_mod'' [(nm_version, 4), (nm_type, 14)]
       [(nm_xid, D_None), (nm_cookie, D_num 0), (nm_cookie_mask, D_num 0), (nm_table_id, D_num 0),
        (nm__command, D_num 0), (nm_idle_timeout, D_num 0), (nm_hard_timeout, D_num 0),
        (nm_priority, D_num 0), (nm_buffer_id, D_num 0), (nm_out_port, D_num 0),
        (nm_out_group, D_num 0), (nm_flags, D_num 0), (nm_match, D_new of13_common_match_v3),
        (nm_instructions, D_list)]
       [P_field nm_version fB, P_field nm_type fB, P_placeholder, P_field nm_xid fL,
        P_field nm_cookie fQ, P_field nm_cookie_mask fQ, P_field nm_table_id fB,
        P_field nm__command of13_fm_cmd, P_field nm_idle_timeout fH, P_field nm_hard_timeout fH,
        P_field nm_priority fH, P_field nm_buffer_id fL, P_field nm_out_port of13_port_no,
        P_field nm_out_group fL, P_field nm_flags fH, P_pad 2, P_obj nm_match,
        P_list nm_instructions, P_length, P_set_len 2]
       (Some (fB, 25,
         [(0, of13_message_flow_add), (3, of13_message_flow_delete),
          (4, of13_message_flow_delete_strict), (1, of13_message_flow_modify),
          (2, of13_message_flow_modify_strict)]))
       [U_local nm__version fB, U_assert nm__version 4, U_local nm__type fB, U_assert nm__type 14,
        U_local nm__length fH, U_slice nm__length 4, U_field nm_xid fL, U_field nm_cookie fQ,
        U_field nm_cookie_mask fQ, U_field nm_table_id fB, U_field nm__command of13_fm_cmd,
        U_field nm_idle_timeout fH, U_field nm_hard_timeout fH, U_field nm_priority fH,
        U_field nm_buffer_id fL, U_field nm_out_port of13_port_no, U_field nm_out_group fL,
        U_field nm_flags fH, U_skip 2, U_obj nm_match of13_common_match_v3,
        U_list nm_instructions of13_instruction_instruction]
       [nm_xid, nm_cookie, nm_cookie_mask, nm_table_id, nm__command, nm_idle_timeout,
        nm_hard_timeout, nm_priority, nm_buffer_id, nm_out_port, nm_out_group, nm_flags, nm_match,
        nm_instructions]"

definition of13_message_flow_removed :: cls where
  "of13_message_flow_removed =
     Cls ''flow_removed'' [(nm_version, 4), (nm_type, 11)]
       [(nm_xid, D_None), (nm_cookie, D_num 0), (nm_priority, D_num 0), (nm_reason, D_num 0),
        (nm_table_id, D_num 0), (nm_duration_sec, D_num 0), (nm_duration_nsec, D_num 0),
        (nm_idle_timeout, D_num 0), (nm_hard_timeout, D_num 0), (nm_packet_count, D_num 0),
        (nm_byte_count, D_num 0), (nm_match, D_new of13_common_match_v3)]
       [P_field nm_version fB, P_field nm_type fB, P_placeholder, P_field nm_xid fL,
        P_field nm_cookie fQ, P_field nm_priority fH, P_field nm_reason fB, P_field nm_table_id fB,
        P_field nm_duration_sec fL, P_field nm_duration_nsec fL, P_field nm_idle_timeout fH,
        P_field nm_hard_timeout fH, P_field nm_packet_count fQ, P_field nm_byte_count fQ,
        P_obj nm_match, P_length, P_set_len 2]
       None
       [U_local nm__version fB, U_assert nm__version 4, U_local nm__type fB, U_assert nm__type 11,
        U_local nm__length fH, U_slice nm__length 4, U_field nm_xid fL, U_field nm_cookie fQ,
        U_field nm_priority fH, U_field nm_reason fB, U_field nm_table_id fB,
        U_field nm_duration_sec fL, U_field nm_duration_nsec fL, U_field nm_idle_timeout fH,
        U_field nm_hard_timeout fH, U_field nm_packet_count fQ, U_field nm_byte_count fQ,
        U_obj nm_match of13_common_match_v3]
       [nm_xid, nm_cookie, nm_priority, nm_reason, nm_table_id, nm_duration_sec, nm_duration_nsec,
        nm_idle_timeout, nm_hard_timeout, nm_packet_count, nm_byte_count, nm_match]"

definition of13_message_get_config_reply :: cls where
  "of13_message_get_config_reply =
     Cls ''get_config_reply'' [(nm_version, 4), (nm_type, 8)]
       [(nm_xid, D_None), (nm_flags, D_num 0), (nm_miss_send_len, D_num 0)]
       [P_field nm_version fB, P_field nm_type fB, P_placeholder, P_field nm_xid fL,
        P_field nm_flags fH, P_field nm_miss_send_len fH, P_length, P_set_len 2]
       None
       [U_local nm__version fB, U_assert nm__version 4, U_local nm__type fB, U_assert nm__type 8,
        U_local nm__length fH, U_slice nm__length 4, U_field nm_xid fL, U_field nm_flags fH,
        U_field nm_miss_send_len fH]
       [nm_xid, nm_flags, nm_miss_send_len]"

definition of13_message_get_config_request :: cls where
  "of13_message_get_config_request =
     Cls ''get_config_request'' [(nm_version, 4), (nm_type, 7)]
       [(nm_xid, D_None)]
       [P_field nm_version fB, P_field nm_type fB, P_placeholder, P_field nm_xid fL, P_length,
        P_set_len 2]
       None
       [U_local nm__version fB, U_assert nm__version 4, U_local nm__type fB, U_assert nm__type 7,
        U_local nm__length fH, U_slice nm__length 4, U_field nm_xid fL]
       [nm_xid]"

definition of13_message_group_add :: cls where
  "of13_message_group_add =
     Cls ''group_add'' [(nm_version, 4), (nm_type, 15), (nm_command, 0)]
       [(nm_xid, D_None), (nm_group_type, D_num 0), (nm_group_id, D_num 0), (nm_buckets, D_list)]
       [P_field nm_version fB, P_field nm_type fB, P_placeholder, P_field nm_xid fL,
        P_field nm_command fH, P_field nm_group_type fB, P_pad 1, P_field nm_group_id fL,
        P_list nm_buckets, P_length, P_set_len 2]
       None
       [U_local nm__version fB, U_assert nm__version 4, U_local nm__type fB, U_assert nm__type 15,
        U_local nm__length fH, U_slice nm__length 4, U_field nm_xid fL, U_local nm__command fH,
        U_assert nm__command 0, U_field nm_group_type fB, U_skip 1, U_field nm_group_id fL,
        U_list nm_buckets of13_common_bucket]
       [nm_xid, nm_group_type, nm_group_id, nm_buckets]"

definition of13_message_group_delete :: cls where
  "of13_message_group_delete =
     Cls ''group_delete'' [(nm_version, 4), (nm_type, 15), (nm_command, 2)]
       [(nm_xid, D_None), (nm_group_type, D_num 0), (nm_group_id, D_num 0), (nm_buckets, D_list)]
       [P_field nm_version fB, P_field nm_type fB, P_placeholder, P_field nm_xid fL,
        P_field nm_command fH, P_field nm_group_type fB, P_pad 1, P_field nm_group_id fL,
        P_list nm_buckets, P_length, P_set_len 2]
       None
       [U_local nm__version fB, U_assert nm__version 4, U_local nm__type fB, U_assert nm__type 15,
        U_local nm__length fH, U_slice nm__length 4, U_field nm_xid fL, U_local nm__command fH,
        U_assert nm__command 2, U_field nm_group_type fB, U_skip 1, U_field nm_group_id fL,
        U_list nm_buckets of13_common_bucket]
       [nm_xid, nm_group_type, nm_group_id, nm_buckets]"

definition of13_message_group_modify :: cls where
  "of13_message_group_modify =
     Cls ''group_modify'' [(nm_version, 4), (nm_type, 15), (nm_command, 1)]
       [(nm_xid, D_None), (nm_group_type, D_num 0), (nm_group_id, D_num 0), (nm_buckets, D_list)]
       [P_field nm_version fB, P_field nm_type fB, P_placeholder, P_field nm_xid fL,
        P_field nm_command fH, P_field nm_group_type fB, P_pad 1, P_field nm_group_id fL,
        P_list nm_buckets, P_length, P_set_len 2]
       None
       [U_local nm__version fB, U_assert nm__version 4, U_local nm__type fB, U_assert nm__type 15,
        U_local nm__length fH, U_slice nm__length 4, U_field nm_xid fL, U_local nm__command fH,
        U_assert nm__command 1, U_field nm_group_type fB, U_skip 1, U_field nm_group_id fL,
        U_list nm_buckets of13_common_bucket]
       [nm_xid, nm_group_type, nm_group_id, nm_buckets]"

definition of13_message_group_mod :: cls where
  "of13_message_group_mod =
     Cls ''group_mod'' [(nm_version, 4), (nm_type, 15)]
       [(nm_xid, D_None), (nm_command, D_num 0), (nm_group_type, D_num 0), (nm_group_id, D_num 0),
        (nm_buckets, D_list)]
       [P_field nm_version fB, P_field nm_type fB, P_placeholder, P_field nm_xid fL,
        P_field nm_command fH, P_field nm_group_type fB, P_pad 1, P_field nm_group_id fL,
        P_list nm_buckets, P_length, P_set_len 2]
       (Some (fH, 8,
         [(0, of13_message_group_add), (2, of13_message_group_delete),
          (1, of13_message_group_modify)]))
       [U_local nm__version fB, U_assert nm__version 4, U_local nm__type fB, U_assert nm__type 15,
        U_local nm__length fH, U_slice nm__length 4, U_field nm_xid fL, U_field nm_command fH,
        U_field nm_group_type fB, U_skip 1, U_field nm_group_id fL,
        U_list nm_buckets of13_common_bucket]
       [nm_xid, nm_command, nm_group_type, nm_group_id, nm_buckets]"

definition of13_message_hello :: cls where
  "of13_message_hello =
     Cls ''hello'' [(nm_version, 4), (nm_type, 0)]
       [(nm_xid, D_None), (nm_elements, D_list)]
       [P_field nm_version fB, P_field nm_type fB, P_placeholder, P_field nm_xid fL,
        P_list nm_elements, P_length, P_set_len 2]
       None
       [U_local nm__version fB, U_assert nm__version 4, U_local nm__type fB, U_assert nm__type 0,
        U_local nm__length fH, U_slice nm__length 4, U_field nm_xid fL,
        U_list nm_elements of13_common_hello_elem]
       [nm_xid, nm_elements]"

definition of13_message_meter_mod :: cls where
  "of13_message_meter_mod =
     Cls ''meter_mod'' [(nm_version, 4), (nm_type, 29)]
       [(nm_xid, D_None), (nm_command, D_num 0), (nm_flags, D_num 0), (nm_meter_id, D_num 0),
        (nm_meters, D_list)]
       [P_field nm_version fB, P_field nm_type fB, P_placeholder, P_field nm_xid fL,
        P_field nm_command fH, P_field nm_flags fH, P_field nm_meter_id fL, P_list nm_meters,
        P_length, P_set_len 2]
       None
       [U_local nm__version fB, U_assert nm__version 4, U_local nm__type fB, U_assert nm__type 29,
        U_local nm__length fH, U_slice nm__length 4, U_field nm_xid fL, U_field nm_command fH,
        U_field nm_flags fH, U_field nm_meter_id fL, U_list nm_meters of13_meter_band_meter_band]
       [nm_xid, nm_command, nm_flags, nm_meter_id, nm_meters]"

definition of13_message_packet_in :: cls where
  "of13_message_packet_in =
     Cls ''packet_in'' [(nm_version, 4), (nm_type, 10)]
       [(nm_xid, D_None), (nm_buffer_id, D_num 0), (nm_total_len, D_num 0), (nm_reason, D_num 0),
        (nm_table_id, D_num 0), (nm_cookie, D_num 0), (nm_match, D_new of13_common_match_v3),
        (nm_data, D_str [])]
       [P_field nm_version fB, P_field nm_type fB, P_placeholder, P_field nm_xid fL,
        P_field nm_buffer_id fL, P_field nm_total_len fH, P_field nm_reason fB,
        P_field nm_table_id fB, P_field nm_cookie fQ, P_obj nm_match, P_pad 2, P_raw nm_data,
        P_length, P_set_len 2]
       None
       [U_local nm__version fB, U_assert nm__version 4, U_local nm__type fB, U_assert nm__type 10,
        U_local nm__length fH, U_slice nm__length 4, U_field nm_xid fL, U_field nm_buffer_id fL,
        U_field nm_total_len fH, U_field nm_reason fB, U_field nm_table_id fB,
        U_field nm_cookie fQ, U_obj nm_match of13_common_match_v3, U_skip 2, U_read_all nm_data]
       [nm_xid, nm_buffer_id, nm_total_len, nm_reason, nm_table_id, nm_cookie, nm_match, nm_data]"

definition of13_message_packet_out :: cls where
  "of13_message_packet_out =
     Cls ''packet_out'' [(nm_version, 4), (nm_type, 13)]
       [(nm_xid, D_None), (nm_buffer_id, D_num 0), (nm_in_port, D_num 0), (nm_actions, D_list),
        (nm_data, D_str [])]
       [P_field nm_version fB, P_field nm_type fB, P_placeholder, P_field nm_xid fL,
        P_field nm_buffer_id fL, P_field nm_in_port of13_port_no, P_placeholder, P_pad 6,
        P_list nm_actions, P_len_last 6, P_raw nm_data, P_length, P_set_len 2]
       None
       [U_local nm__version fB, U_assert nm__version 4, U_local nm__type fB, U_assert nm__type 13,
        U_local nm__length fH, U_slice nm__length 4, U_field nm_xid fL, U_field nm_buffer_id fL,
        U_field nm_in_port of13_port_no, U_local nm__actions_len fH, U_skip 6,
        U_list_of nm_actions nm__actions_len of13_action_action, U_read_all nm_data]
       [nm_xid, nm_buffer_id, nm_in_port, nm_actions, nm_data]"

definition of13_message_port_mod :: cls where
  "of13_message_port_mod =
     Cls ''port_mod'' [(nm_version, 4), (nm_type, 16)]
       [(nm_xid, D_None), (nm_port_no, D_num 0), (nm_hw_addr, D_nums [0,0,0,0,0,0]),
        (nm_config, D_num 0), (nm_mask, D_num 0), (nm_advertise, D_num 0)]
       [P_field nm_version fB, P_field nm_type fB, P_placeholder, P_field nm_xid fL,
        P_field nm_port_no of13_port_no, P_pad 4, P_field nm_hw_addr f6B, P_pad 2,
        P_field nm_config fL, P_field nm_mask fL, P_field nm_advertise fL, P_pad 4, P_length,
        P_set_len 2]
       None
       [U_local nm__version fB, U_assert nm__version 4, U_local nm__type fB, U_assert nm__type 16,
        U_local nm__length fH, U_slice nm__length 4, U_field nm_xid fL,
        U_field nm_port_no of13_port_no, U_skip 4, U_field nm_hw_addr f6B, U_skip 2,
        U_field nm_config fL, U_field nm_mask fL, U_field nm_advertise fL, U_skip 4]
       [nm_xid, nm_port_no, nm_hw_addr, nm_config, nm_mask, nm_advertise]"

definition of13_message_port_status :: cls where
  "of13_message_port_status =
     Cls ''port_status'' [(nm_version, 4), (nm_type, 12)]
       [(nm_xid, D_None), (nm_reason, D_num 0), (nm_desc, D_new of13_common_port_desc)]
       [P_field nm_version fB, P_field nm_type fB, P_placeholder, P_field nm_xid fL,
        P_field nm_reason fB, P_pad 7, P_obj nm_desc, P_length, P_set_len 2]
       None
       [U_local nm__version fB, U_assert nm__version 4, U_local nm__type fB, U_assert nm__type 12,
        U_local nm__length fH, U_slice nm__length 4, U_field nm_xid fL, U_field nm_reason fB,
        U_skip 7, U_obj nm_desc of13_common_port_desc]
       [nm_xid, nm_reason, nm_desc]"

definition of13_message_queue_get_config_reply :: cls where
  "of13_message_queue_get_config_reply =
     Cls ''queue_get_config_reply'' [(nm_version, 4), (nm_type, 23)]
       [(nm_xid, D_None), (nm_port, D_num 0), (nm_queues, D_list)]
       [P_field nm_version fB, P_field nm_type fB, P_placeholder, P_field nm_xid fL,
        P_field nm_port of13_port_no, P_pad 4, P_list nm_queues, P_length, P_set_len 2]
       None
       [U_local nm__version fB, U_assert nm__version 4, U_local nm__type fB, U_assert nm__type 23,
        U_local nm__length fH, U_slice nm__length 4, U_field nm_xid fL,
        U_field nm_port of13_port_no, U_skip 4, U_list nm_queues of13_common_packet_queue]
       [nm_xid, nm_port, nm_queues]"

definition of13_message_queue_get_config_request :: cls where
  "of13_message_queue_get_config_request =
     Cls ''queue_get_config_request'' [(nm_version, 4), (nm_type, 22)]
       [(nm_xid, D_None), (nm_port, D_num 0)]
       [P_field nm_version fB, P_field nm_type fB, P_placeholder, P_field nm_xid fL,
        P_field nm_port of13_port_no, P_pad 4, P_length, P_set_len 2]
       None
       [U_local nm__version fB, U_assert nm__version 4, U_local nm__type fB, U_assert nm__type 22,
        U_local nm__length fH, U_slice nm__length 4, U_field nm_xid fL,
        U_field nm_port of13_port_no, U_skip 4]
       [nm_xid, nm_port]"

definition of13_message_role_reply :: cls where
  "of13_message_role_reply =
     Cls ''role_reply'' [(nm_version, 4), (nm_type, 25)]
       [(nm_xid, D_None), (nm_role, D_num 0), (nm_generation_id, D_num 0)]
       [P_field nm_version fB, P_field nm_type fB, P_placeholder, P_field nm_xid fL,
        P_field nm_role fL, P_pad 4, P_field nm_generation_id fQ, P_length, P_set_len 2]
       None
       [U_local nm__version fB, U_assert nm__version 4, U_local nm__type fB, U_assert nm__type 25,
        U_local nm__length fH, U_slice nm__length 4, U_field nm_xid fL, U_field nm_role fL,
        U_skip 4, U_field nm_generation_id fQ]
       [nm_xid, nm_role, nm_generation_id]"

definition of13_message_role_request :: cls where
  "of13_message_role_request =
     Cls ''role_request'' [(nm_version, 4), (nm_type, 24)]
       [(nm_xid, D_None), (nm_role, D_num 0), (nm_generation_id, D_num 0)]
       [P_field nm_version fB, P_field nm_type fB, P_placeholder, P_field nm_xid fL,
        P_field nm_role fL, P_pad 4, P_field nm_generation_id fQ, P_length, P_set_len 2]
       None
       [U_local nm__version fB, U_assert nm__version 4, U_local nm__type fB, U_assert nm__type 24,
        U_local nm__length fH, U_slice nm__length 4, U_field nm_xid fL, U_field nm_role fL,
        U_skip 4, U_field nm_generation_id fQ]
       [nm_xid, nm_role, nm_generation_id]"

definition of13_message_set_config :: cls where
  "of13_message_set_config =
     Cls ''set_config'' [(nm_version, 4), (nm_type, 9)]
       [(nm_xid, D_None), (nm_flags, D_num 0), (nm_miss_send_len, D_num 0)]
       [P_field nm_version fB, P_field nm_type fB, P_placeholder, P_field nm_xid fL,
        P_field nm_flags fH, P_field nm_miss_send_len fH, P_length, P_set_len 2]
       None
       [U_local nm__version fB, U_assert nm__version 4, U_local nm__type fB, U_assert nm__type 9,
        U_local nm__length fH, U_slice nm__length 4, U_field nm_xid fL, U_field nm_flags fH,
        U_field nm_miss_send_len fH]
       [nm_xid, nm_flags, nm_miss_send_len]"

definition of13_message_table_mod :: cls where
  "of13_message_table_mod =
     Cls ''table_mod'' [(nm_version, 4), (nm_type, 17)]
       [(nm_xid, D_None), (nm_table_id, D_num 0), (nm_config, D_num 0)]
       [P_field nm_version fB, P_field nm_type fB, P_placeholder, P_field nm_xid fL,
        P_field nm_table_id fB, P_pad 3, P_field nm_config fL, P_length, P_set_len 2]
       None
       [U_local nm__version fB, U_assert nm__version 4, U_local nm__type fB, U_assert nm__type 17,
        U_local nm__length fH, U_slice nm__length 4, U_field nm_xid fL, U_field nm_table_id fB,
        U_skip 3, U_field nm_config fL]
       [nm_xid, nm_table_id, nm_config]"

definition of13_message_message :: cls where
  "of13_message_message =
     Cls ''message'' [(nm_version, 4)]
       [(nm_type, D_num 0), (nm_xid, D_None)]
       [P_field nm_version fB, P_field nm_type fB, P_placeholder, P_field nm_xid fL, P_length,
        P_set_len 2]
       (Some (fB, 1,
         [(19, of13_message_stats_reply), (18, of13_message_stats_request),
          (27, of13_message_async_get_reply), (26, of13_message_async_get_request),
          (28, of13_message_async_set), (1, of13_message_error_msg),
          (21, of13_message_barrier_reply), (20, of13_message_barrier_request),
          (4, of13_message_experimenter), (3, of13_message_echo_reply),
          (2, of13_message_echo_request), (6, of13_message_features_reply),
          (5, of13_message_features_request), (14, of13_message_flow_mod),
          (11, of13_message_flow_removed), (8, of13_message_get_config_reply),
          (7, of13_message_get_config_request), (15, of13_message_group_mod),
          (0, of13_message_hello), (29, of13_message_meter_mod), (10, of13_message_packet_in),
          (13, of13_message_packet_out), (16, of13_message_port_mod),
          (12, of13_message_port_status), (23, of13_message_queue_get_config_reply),
          (22, of13_message_queue_get_config_request), (25, of13_message_role_reply),
          (24, of13_message_role_request), (9, of13_message_set_config),
          (17, of13_message_table_mod)]))
       [U_local nm__version fB, U_assert nm__version 4, U_field nm_type fB, U_local nm__length fH,
        U_slice nm__length 4, U_field nm_xid fL]
       [nm_type, nm_xid]"


section \<open>pack and unpack agree\<close>

lemma of13Message_checked_1a [unfolded list.pred_inject prod.case, loxi_checked]:
  "list_all codec_ok
    [of13_message_aggregate_stats_reply, of13_message_bsn_debug_counter_desc_stats_reply,
     of13_message_bsn_debug_counter_stats_reply, of13_message_bsn_flow_checksum_bucket_stats_reply,
     of13_message_bsn_generic_stats_reply, of13_message_bsn_gentable_bucket_stats_reply,
     of13_message_bsn_gentable_desc_stats_reply, of13_message_bsn_gentable_entry_desc_stats_reply,
     of13_message_bsn_gentable_entry_stats_reply, of13_message_bsn_gentable_stats_reply,
     of13_message_bsn_image_desc_stats_reply, of13_message_bsn_lacp_stats_reply,
     of13_message_bsn_port_counter_stats_reply, of13_message_bsn_switch_pipeline_stats_reply,
     of13_message_bsn_table_checksum_stats_reply, of13_message_bsn_vlan_counter_stats_reply,
     of13_message_bsn_vrf_counter_stats_reply, of13_message_desc_stats_reply,
     of13_message_flow_stats_reply, of13_message_group_desc_stats_reply,
     of13_message_group_features_stats_reply, of13_message_group_stats_reply,
     of13_message_meter_config_stats_reply, of13_message_meter_features_stats_reply,
     of13_message_meter_stats_reply, of13_message_port_desc_stats_reply, of13_message_port_stats_reply,
     of13_message_queue_stats_reply, of13_message_table_features_stats_reply,
     of13_message_table_stats_reply, of13_message_aggregate_stats_request,
     of13_message_bsn_debug_counter_desc_stats_request, of13_message_bsn_debug_counter_stats_request,
     of13_message_bsn_flow_checksum_bucket_stats_request, of13_message_bsn_generic_stats_request,
     of13_message_bsn_gentable_bucket_stats_request, of13_message_bsn_gentable_desc_stats_request,
     of13_message_bsn_gentable_entry_desc_stats_request, of13_message_bsn_gentable_entry_stats_request,
     of13_message_bsn_gentable_stats_request]"
  "list_all safe_cls
    [of13_message_aggregate_stats_reply, of13_message_bsn_debug_counter_desc_stats_reply,
     of13_message_bsn_debug_counter_stats_reply, of13_message_bsn_flow_checksum_bucket_stats_reply,
     of13_message_bsn_generic_stats_reply, of13_message_bsn_gentable_bucket_stats_reply,
     of13_message_bsn_gentable_desc_stats_reply, of13_message_bsn_gentable_entry_desc_stats_reply,
     of13_message_bsn_gentable_entry_stats_reply, of13_message_bsn_gentable_stats_reply,
     of13_message_bsn_image_desc_stats_reply, of13_message_bsn_lacp_stats_reply,
     of13_message_bsn_port_counter_stats_reply, of13_message_bsn_switch_pipeline_stats_reply,
     of13_message_bsn_table_checksum_stats_reply, of13_message_bsn_vlan_counter_stats_reply,
     of13_message_bsn_vrf_counter_stats_reply, of13_message_desc_stats_reply,
     of13_message_flow_stats_reply, of13_message_group_desc_stats_reply,
     of13_message_group_features_stats_reply, of13_message_group_stats_reply,
     of13_message_meter_config_stats_reply, of13_message_meter_features_stats_reply,
     of13_message_meter_stats_reply, of13_message_port_desc_stats_reply, of13_message_port_stats_reply,
     of13_message_queue_stats_reply, of13_message_table_features_stats_reply,
     of13_message_table_stats_reply, of13_message_aggregate_stats_request,
     of13_message_bsn_debug_counter_desc_stats_request, of13_message_bsn_debug_counter_stats_request,
     of13_message_bsn_flow_checksum_bucket_stats_request, of13_message_bsn_generic_stats_request,
     of13_message_bsn_gentable_bucket_stats_request, of13_message_bsn_gentable_desc_stats_request,
     of13_message_bsn_gentable_entry_desc_stats_request, of13_message_bsn_gentable_entry_stats_request,
     of13_message_bsn_gentable_stats_request]"
  "list_all (\<lambda>c. \<not> needs_align c)
    [of13_message_aggregate_stats_reply, of13_message_bsn_debug_counter_desc_stats_reply,
     of13_message_bsn_debug_counter_stats_reply, of13_message_bsn_flow_checksum_bucket_stats_reply,
     of13_message_bsn_generic_stats_reply, of13_message_bsn_gentable_bucket_stats_reply,
     of13_message_bsn_gentable_desc_stats_reply, of13_message_bsn_gentable_entry_desc_stats_reply,
     of13_message_bsn_gentable_entry_stats_reply, of13_message_bsn_gentable_stats_reply,
     of13_message_bsn_image_desc_stats_reply, of13_message_bsn_lacp_stats_reply,
     of13_message_bsn_port_counter_stats_reply, of13_message_bsn_switch_pipeline_stats_reply,
     of13_message_bsn_table_checksum_stats_reply, of13_message_bsn_vlan_counter_stats_reply,
     of13_message_bsn_vrf_counter_stats_reply, of13_message_desc_stats_reply,
     of13_message_flow_stats_reply, of13_message_group_desc_stats_reply,
     of13_message_group_features_stats_reply, of13_message_group_stats_reply,
     of13_message_meter_config_stats_reply, of13_message_meter_features_stats_reply,
     of13_message_meter_stats_reply, of13_message_port_desc_stats_reply, of13_message_port_stats_reply,
     of13_message_queue_stats_reply, of13_message_table_features_stats_reply,
     of13_message_table_stats_reply, of13_message_aggregate_stats_request,
     of13_message_bsn_debug_counter_desc_stats_request, of13_message_bsn_debug_counter_stats_request,
     of13_message_bsn_flow_checksum_bucket_stats_request, of13_message_bsn_generic_stats_request,
     of13_message_bsn_gentable_bucket_stats_request, of13_message_bsn_gentable_desc_stats_request,
     of13_message_bsn_gentable_entry_desc_stats_request, of13_message_bsn_gentable_entry_stats_request,
     of13_message_bsn_gentable_stats_request]"
  "list_all (has_header 4)
    [of13_message_aggregate_stats_reply, of13_message_bsn_debug_counter_desc_stats_reply,
     of13_message_bsn_debug_counter_stats_reply, of13_message_bsn_flow_checksum_bucket_stats_reply,
     of13_message_bsn_generic_stats_reply, of13_message_bsn_gentable_bucket_stats_reply,
     of13_message_bsn_gentable_desc_stats_reply, of13_message_bsn_gentable_entry_desc_stats_reply,
     of13_message_bsn_gentable_entry_stats_reply, of13_message_bsn_gentable_stats_reply,
     of13_message_bsn_image_desc_stats_reply, of13_message_bsn_lacp_stats_reply,
     of13_message_bsn_port_counter_stats_reply, of13_message_bsn_switch_pipeline_stats_reply,
     of13_message_bsn_table_checksum_stats_reply, of13_message_bsn_vlan_counter_stats_reply,
     of13_message_bsn_vrf_counter_stats_reply, of13_message_desc_stats_reply,
     of13_message_flow_stats_reply, of13_message_group_desc_stats_reply,
     of13_message_group_features_stats_reply, of13_message_group_stats_reply,
     of13_message_meter_config_stats_reply, of13_message_meter_features_stats_reply,
     of13_message_meter_stats_reply, of13_message_port_desc_stats_reply, of13_message_port_stats_reply,
     of13_message_queue_stats_reply, of13_message_table_features_stats_reply,
     of13_message_table_stats_reply, of13_message_aggregate_stats_request,
     of13_message_bsn_debug_counter_desc_stats_request, of13_message_bsn_debug_counter_stats_request,
     of13_message_bsn_flow_checksum_bucket_stats_request, of13_message_bsn_generic_stats_request,
     of13_message_bsn_gentable_bucket_stats_request, of13_message_bsn_gentable_desc_stats_request,
     of13_message_bsn_gentable_entry_desc_stats_request, of13_message_bsn_gentable_entry_stats_request,
     of13_message_bsn_gentable_stats_request]"
  "list_all (\<lambda>(k, c). writes_const fB 1 k c)
    [(19, of13_message_aggregate_stats_reply), (19, of13_message_bsn_debug_counter_desc_stats_reply),
     (19, of13_message_bsn_debug_counter_stats_reply),
     (19, of13_message_bsn_flow_checksum_bucket_stats_reply), (19, of13_message_bsn_generic_stats_reply),
     (19, of13_message_bsn_gentable_bucket_stats_reply), (19, of13_message_bsn_gentable_desc_stats_reply),
     (19, of13_message_bsn_gentable_entry_desc_stats_reply),
     (19, of13_message_bsn_gentable_entry_stats_reply), (19, of13_message_bsn_gentable_stats_reply),
     (19, of13_message_bsn_image_desc_stats_reply), (19, of13_message_bsn_lacp_stats_reply),
     (19, of13_message_bsn_port_counter_stats_reply), (19, of13_message_bsn_switch_pipeline_stats_reply),
     (19, of13_message_bsn_table_checksum_stats_reply), (19, of13_message_bsn_vlan_counter_stats_reply),
     (19, of13_message_bsn_vrf_counter_stats_reply), (19, of13_message_desc_stats_reply),
     (19, of13_message_flow_stats_reply), (19, of13_message_group_desc_stats_reply),
     (19, of13_message_group_features_stats_reply), (19, of13_message_group_stats_reply),
     (19, of13_message_meter_config_stats_reply), (19, of13_message_meter_features_stats_reply),
     (19, of13_message_meter_stats_reply), (19, of13_message_port_desc_stats_reply),
     (19, of13_message_port_stats_reply), (19, of13_message_queue_stats_reply),
     (19, of13_message_table_features_stats_reply), (19, of13_message_table_stats_reply),
     (18, of13_message_aggregate_stats_request), (18, of13_message_bsn_debug_counter_desc_stats_request),
     (18, of13_message_bsn_debug_counter_stats_request),
     (18, of13_message_bsn_flow_checksum_bucket_stats_request),
     (18, of13_message_bsn_generic_stats_request), (18, of13_message_bsn_gentable_bucket_stats_request),
     (18, of13_message_bsn_gentable_desc_stats_request),
     (18, of13_message_bsn_gentable_entry_desc_stats_request),
     (18, of13_message_bsn_gentable_entry_stats_request), (18, of13_message_bsn_gentable_stats_request)]"
  "list_all (\<lambda>(k, c). writes_const fH 8 k c)
    [(2, of13_message_aggregate_stats_reply), (65535, of13_message_bsn_debug_counter_desc_stats_reply),
     (65535, of13_message_bsn_debug_counter_stats_reply),
     (65535, of13_message_bsn_flow_checksum_bucket_stats_reply),
     (65535, of13_message_bsn_generic_stats_reply), (65535, of13_message_bsn_gentable_bucket_stats_reply),
     (65535, of13_message_bsn_gentable_desc_stats_reply),
     (65535, of13_message_bsn_gentable_entry_desc_stats_reply),
     (65535, of13_message_bsn_gentable_entry_stats_reply), (65535, of13_message_bsn_gentable_stats_reply),
     (65535, of13_message_bsn_image_desc_stats_reply), (65535, of13_message_bsn_lacp_stats_reply),
     (65535, of13_message_bsn_port_counter_stats_reply),
     (65535, of13_message_bsn_switch_pipeline_stats_reply),
     (65535, of13_message_bsn_table_checksum_stats_reply),
     (65535, of13_message_bsn_vlan_counter_stats_reply), (65535, of13_message_bsn_vrf_counter_stats_reply),
     (0, of13_message_desc_stats_reply), (1, of13_message_flow_stats_reply),
     (7, of13_message_group_desc_stats_reply), (8, of13_message_group_features_stats_reply),
     (6, of13_message_group_stats_reply), (10, of13_message_meter_config_stats_reply),
     (11, of13_message_meter_features_stats_reply), (9, of13_message_meter_stats_reply),
     (13, of13_message_port_desc_stats_reply), (4, of13_message_port_stats_reply),
     (5, of13_message_queue_stats_reply), (12, of13_message_table_features_stats_reply),
     (3, of13_message_table_stats_reply), (2, of13_message_aggregate_stats_request),
     (65535, of13_message_bsn_debug_counter_desc_stats_request),
     (65535, of13_message_bsn_debug_counter_stats_request),
     (65535, of13_message_bsn_flow_checksum_bucket_stats_request),
     (65535, of13_message_bsn_generic_stats_request),
     (65535, of13_message_bsn_gentable_bucket_stats_request),
     (65535, of13_message_bsn_gentable_desc_stats_request),
     (65535, of13_message_bsn_gentable_entry_desc_stats_request),
     (65535, of13_message_bsn_gentable_entry_stats_request),
     (65535, of13_message_bsn_gentable_stats_request)]"
  "list_all (\<lambda>(k, c). writes_const fL 16 k c)
    [(6035143, of13_message_bsn_debug_counter_desc_stats_reply),
     (6035143, of13_message_bsn_debug_counter_stats_reply),
     (6035143, of13_message_bsn_flow_checksum_bucket_stats_reply),
     (6035143, of13_message_bsn_generic_stats_reply),
     (6035143, of13_message_bsn_gentable_bucket_stats_reply),
     (6035143, of13_message_bsn_gentable_desc_stats_reply),
     (6035143, of13_message_bsn_gentable_entry_desc_stats_reply),
     (6035143, of13_message_bsn_gentable_entry_stats_reply),
     (6035143, of13_message_bsn_gentable_stats_reply), (6035143, of13_message_bsn_image_desc_stats_reply),
     (6035143, of13_message_bsn_lacp_stats_reply), (6035143, of13_message_bsn_port_counter_stats_reply),
     (6035143, of13_message_bsn_switch_pipeline_stats_reply),
     (6035143, of13_message_bsn_table_checksum_stats_reply),
     (6035143, of13_message_bsn_vlan_counter_stats_reply),
     (6035143, of13_message_bsn_vrf_counter_stats_reply),
     (6035143, of13_message_bsn_debug_counter_desc_stats_request),
     (6035143, of13_message_bsn_debug_counter_stats_request),
     (6035143, of13_message_bsn_flow_checksum_bucket_stats_request),
     (6035143, of13_message_bsn_generic_stats_request),
     (6035143, of13_message_bsn_gentable_bucket_stats_request),
     (6035143, of13_message_bsn_gentable_desc_stats_request),
     (6035143, of13_message_bsn_gentable_entry_desc_stats_request),
     (6035143, of13_message_bsn_gentable_entry_stats_request),
     (6035143, of13_message_bsn_gentable_stats_request)]"
  "list_all (\<lambda>(k, c). writes_const fL 20 k c)
    [(13, of13_message_bsn_debug_counter_desc_stats_reply),
     (12, of13_message_bsn_debug_counter_stats_reply),
     (10, of13_message_bsn_flow_checksum_bucket_stats_reply), (16, of13_message_bsn_generic_stats_reply),
     (5, of13_message_bsn_gentable_bucket_stats_reply), (4, of13_message_bsn_gentable_desc_stats_reply),
     (2, of13_message_bsn_gentable_entry_desc_stats_reply),
     (3, of13_message_bsn_gentable_entry_stats_reply), (7, of13_message_bsn_gentable_stats_reply),
     (14, of13_message_bsn_image_desc_stats_reply), (1, of13_message_bsn_lacp_stats_reply),
     (8, of13_message_bsn_port_counter_stats_reply), (6, of13_message_bsn_switch_pipeline_stats_reply),
     (11, of13_message_bsn_table_checksum_stats_reply), (9, of13_message_bsn_vlan_counter_stats_reply),
     (15, of13_message_bsn_vrf_counter_stats_reply),
     (13, of13_message_bsn_debug_counter_desc_stats_request),
     (12, of13_message_bsn_debug_counter_stats_request),
     (10, of13_message_bsn_flow_checksum_bucket_stats_request),
     (16, of13_message_bsn_generic_stats_request), (5, of13_message_bsn_gentable_bucket_stats_request),
     (4, of13_message_bsn_gentable_desc_stats_request),
     (2, of13_message_bsn_gentable_entry_desc_stats_request),
     (3, of13_message_bsn_gentable_entry_stats_request), (7, of13_message_bsn_gentable_stats_request)]"
  by (simp_all add: loxi_formats loxi_eval loxi_checked
    of13_message_aggregate_stats_reply_def of13_message_bsn_debug_counter_desc_stats_reply_def
    of13_message_bsn_debug_counter_stats_reply_def of13_message_bsn_flow_checksum_bucket_stats_reply_def
    of13_message_bsn_generic_stats_reply_def of13_message_bsn_gentable_bucket_stats_reply_def
    of13_message_bsn_gentable_desc_stats_reply_def of13_message_bsn_gentable_entry_desc_stats_reply_def
    of13_message_bsn_gentable_entry_stats_reply_def of13_message_bsn_gentable_stats_reply_def
    of13_message_bsn_image_desc_stats_reply_def of13_message_bsn_lacp_stats_reply_def
    of13_message_bsn_port_counter_stats_reply_def of13_message_bsn_switch_pipeline_stats_reply_def
    of13_message_bsn_table_checksum_stats_reply_def of13_message_bsn_vlan_counter_stats_reply_def
    of13_message_bsn_vrf_counter_stats_reply_def of13_message_desc_stats_reply_def
    of13_message_flow_stats_reply_def of13_message_group_desc_stats_reply_def
    of13_message_group_features_stats_reply_def of13_message_group_stats_reply_def
    of13_message_meter_config_stats_reply_def of13_message_meter_features_stats_reply_def
    of13_message_meter_stats_reply_def of13_message_port_desc_stats_reply_def
    of13_message_port_stats_reply_def of13_message_queue_stats_reply_def
    of13_message_table_features_stats_reply_def of13_message_table_stats_reply_def
    of13_message_aggregate_stats_request_def of13_message_bsn_debug_counter_desc_stats_request_def
    of13_message_bsn_debug_counter_stats_request_def
    of13_message_bsn_flow_checksum_bucket_stats_request_def of13_message_bsn_generic_stats_request_def
    of13_message_bsn_gentable_bucket_stats_request_def of13_message_bsn_gentable_desc_stats_request_def
    of13_message_bsn_gentable_entry_desc_stats_request_def
    of13_message_bsn_gentable_entry_stats_request_def of13_message_bsn_gentable_stats_request_def
    del: One_nat_def)

lemma of13Message_checked_1b [unfolded list.pred_inject prod.case, loxi_checked]:
  "list_all codec_ok
    [of13_message_bsn_image_desc_stats_request, of13_message_bsn_lacp_stats_request,
     of13_message_bsn_port_counter_stats_request, of13_message_bsn_switch_pipeline_stats_request,
     of13_message_bsn_table_checksum_stats_request, of13_message_bsn_vlan_counter_stats_request,
     of13_message_bsn_vrf_counter_stats_request, of13_message_desc_stats_request,
     of13_message_flow_stats_request, of13_message_group_desc_stats_request,
     of13_message_group_features_stats_request, of13_message_group_stats_request,
     of13_message_meter_config_stats_request, of13_message_meter_features_stats_request,
     of13_message_meter_stats_request, of13_message_port_desc_stats_request,
     of13_message_port_stats_request, of13_message_queue_stats_request,
     of13_message_table_features_stats_request, of13_message_table_stats_request,
     of13_message_async_get_reply, of13_message_async_get_request, of13_message_async_set,
     of13_message_bad_action_error_msg, of13_message_bad_instruction_error_msg,
     of13_message_bad_match_error_msg, of13_message_bad_request_error_msg, of13_message_bsn_error,
     of13_message_flow_mod_failed_error_msg, of13_message_group_mod_failed_error_msg,
     of13_message_hello_failed_error_msg, of13_message_meter_mod_failed_error_msg,
     of13_message_port_mod_failed_error_msg, of13_message_queue_op_failed_error_msg,
     of13_message_role_request_failed_error_msg, of13_message_switch_config_failed_error_msg,
     of13_message_table_features_failed_error_msg, of13_message_table_mod_failed_error_msg,
     of13_message_barrier_reply, of13_message_barrier_request]"
  "list_all safe_cls
    [of13_message_bsn_image_desc_stats_request, of13_message_bsn_lacp_stats_request,
     of13_message_bsn_port_counter_stats_request, of13_message_bsn_switch_pipeline_stats_request,
     of13_message_bsn_table_checksum_stats_request, of13_message_bsn_vlan_counter_stats_request,
     of13_message_bsn_vrf_counter_stats_request, of13_message_desc_stats_request,
     of13_message_flow_stats_request, of13_message_group_desc_stats_request,
     of13_message_group_features_stats_request, of13_message_group_stats_request,
     of13_message_meter_config_stats_request, of13_message_meter_features_stats_request,
     of13_message_meter_stats_request, of13_message_port_desc_stats_request,
     of13_message_port_stats_request, of13_message_queue_stats_request,
     of13_message_table_features_stats_request, of13_message_table_stats_request,
     of13_message_async_get_reply, of13_message_async_get_request, of13_message_async_set,
     of13_message_bad_action_error_msg, of13_message_bad_instruction_error_msg,
     of13_message_bad_match_error_msg, of13_message_bad_request_error_msg, of13_message_bsn_error,
     of13_message_flow_mod_failed_error_msg, of13_message_group_mod_failed_error_msg,
     of13_message_hello_failed_error_msg, of13_message_meter_mod_failed_error_msg,
     of13_message_port_mod_failed_error_msg, of13_message_queue_op_failed_error_msg,
     of13_message_role_request_failed_error_msg, of13_message_switch_config_failed_error_msg,
     of13_message_table_features_failed_error_msg, of13_message_table_mod_failed_error_msg,
     of13_message_barrier_reply, of13_message_barrier_request]"
  "list_all (\<lambda>c. \<not> needs_align c)
    [of13_message_bsn_image_desc_stats_request, of13_message_bsn_lacp_stats_request,
     of13_message_bsn_port_counter_stats_request, of13_message_bsn_switch_pipeline_stats_request,
     of13_message_bsn_table_checksum_stats_request, of13_message_bsn_vlan_counter_stats_request,
     of13_message_bsn_vrf_counter_stats_request, of13_message_desc_stats_request,
     of13_message_flow_stats_request, of13_message_group_desc_stats_request,
     of13_message_group_features_stats_request, of13_message_group_stats_request,
     of13_message_meter_config_stats_request, of13_message_meter_features_stats_request,
     of13_message_meter_stats_request, of13_message_port_desc_stats_request,
     of13_message_port_stats_request, of13_message_queue_stats_request,
     of13_message_table_features_stats_request, of13_message_table_stats_request,
     of13_message_async_get_reply, of13_message_async_get_request, of13_message_async_set,
     of13_message_bad_action_error_msg, of13_message_bad_instruction_error_msg,
     of13_message_bad_match_error_msg, of13_message_bad_request_error_msg, of13_message_bsn_error,
     of13_message_flow_mod_failed_error_msg, of13_message_group_mod_failed_error_msg,
     of13_message_hello_failed_error_msg, of13_message_meter_mod_failed_error_msg,
     of13_message_port_mod_failed_error_msg, of13_message_queue_op_failed_error_msg,
     of13_message_role_request_failed_error_msg, of13_message_switch_config_failed_error_msg,
     of13_message_table_features_failed_error_msg, of13_message_table_mod_failed_error_msg,
     of13_message_barrier_reply, of13_message_barrier_request]"
  "list_all (has_header 4)
    [of13_message_bsn_image_desc_stats_request, of13_message_bsn_lacp_stats_request,
     of13_message_bsn_port_counter_stats_request, of13_message_bsn_switch_pipeline_stats_request,
     of13_message_bsn_table_checksum_stats_request, of13_message_bsn_vlan_counter_stats_request,
     of13_message_bsn_vrf_counter_stats_request, of13_message_desc_stats_request,
     of13_message_flow_stats_request, of13_message_group_desc_stats_request,
     of13_message_group_features_stats_request, of13_message_group_stats_request,
     of13_message_meter_config_stats_request, of13_message_meter_features_stats_request,
     of13_message_meter_stats_request, of13_message_port_desc_stats_request,
     of13_message_port_stats_request, of13_message_queue_stats_request,
     of13_message_table_features_stats_request, of13_message_table_stats_request,
     of13_message_async_get_reply, of13_message_async_get_request, of13_message_async_set,
     of13_message_bad_action_error_msg, of13_message_bad_instruction_error_msg,
     of13_message_bad_match_error_msg, of13_message_bad_request_error_msg, of13_message_bsn_error,
     of13_message_flow_mod_failed_error_msg, of13_message_group_mod_failed_error_msg,
     of13_message_hello_failed_error_msg, of13_message_meter_mod_failed_error_msg,
     of13_message_port_mod_failed_error_msg, of13_message_queue_op_failed_error_msg,
     of13_message_role_request_failed_error_msg, of13_message_switch_config_failed_error_msg,
     of13_message_table_features_failed_error_msg, of13_message_table_mod_failed_error_msg,
     of13_message_barrier_reply, of13_message_barrier_request]"
  "list_all (\<lambda>(k, c). writes_const fB 1 k c)
    [(18, of13_message_bsn_image_desc_stats_request), (18, of13_message_bsn_lacp_stats_request),
     (18, of13_message_bsn_port_counter_stats_request),
     (18, of13_message_bsn_switch_pipeline_stats_request),
     (18, of13_message_bsn_table_checksum_stats_request),
     (18, of13_message_bsn_vlan_counter_stats_request), (18, of13_message_bsn_vrf_counter_stats_request),
     (18, of13_message_desc_stats_request), (18, of13_message_flow_stats_request),
     (18, of13_message_group_desc_stats_request), (18, of13_message_group_features_stats_request),
     (18, of13_message_group_stats_request), (18, of13_message_meter_config_stats_request),
     (18, of13_message_meter_features_stats_request), (18, of13_message_meter_stats_request),
     (18, of13_message_port_desc_stats_request), (18, of13_message_port_stats_request),
     (18, of13_message_queue_stats_request), (18, of13_message_table_features_stats_request),
     (18, of13_message_table_stats_request), (27, of13_message_async_get_reply),
     (26, of13_message_async_get_request), (28, of13_message_async_set),
     (1, of13_message_bad_action_error_msg), (1, of13_message_bad_instruction_error_msg),
     (1, of13_message_bad_match_error_msg), (1, of13_message_bad_request_error_msg),
     (1, of13_message_bsn_error), (1, of13_message_flow_mod_failed_error_msg),
     (1, of13_message_group_mod_failed_error_msg), (1, of13_message_hello_failed_error_msg),
     (1, of13_message_meter_mod_failed_error_msg), (1, of13_message_port_mod_failed_error_msg),
     (1, of13_message_queue_op_failed_error_msg), (1, of13_message_role_request_failed_error_msg),
     (1, of13_message_switch_config_failed_error_msg), (1, of13_message_table_features_failed_error_msg),
     (1, of13_message_table_mod_failed_error_msg), (21, of13_message_barrier_reply),
     (20, of13_message_barrier_request)]"
  "list_all (\<lambda>(k, c). writes_const fH 8 k c)
    [(65535, of13_message_bsn_image_desc_stats_request), (65535, of13_message_bsn_lacp_stats_request),
     (65535, of13_message_bsn_port_counter_stats_request),
     (65535, of13_message_bsn_switch_pipeline_stats_request),
     (65535, of13_message_bsn_table_checksum_stats_request),
     (65535, of13_message_bsn_vlan_counter_stats_request),
     (65535, of13_message_bsn_vrf_counter_stats_request), (0, of13_message_desc_stats_request),
     (1, of13_message_flow_stats_request), (7, of13_message_group_desc_stats_request),
     (8, of13_message_group_features_stats_request), (6, of13_message_group_stats_request),
     (10, of13_message_meter_config_stats_request), (11, of13_message_meter_features_stats_request),
     (9, of13_message_meter_stats_request), (13, of13_message_port_desc_stats_request),
     (4, of13_message_port_stats_request), (5, of13_message_queue_stats_request),
     (12, of13_message_table_features_stats_request), (3, of13_message_table_stats_request),
     (2, of13_message_bad_action_error_msg), (3, of13_message_bad_instruction_error_msg),
     (4, of13_message_bad_match_error_msg), (1, of13_message_bad_request_error_msg),
     (65535, of13_message_bsn_error), (5, of13_message_flow_mod_failed_error_msg),
     (6, of13_message_group_mod_failed_error_msg), (0, of13_message_hello_failed_error_msg),
     (12, of13_message_meter_mod_failed_error_msg), (7, of13_message_port_mod_failed_error_msg),
     (9, of13_message_queue_op_failed_error_msg), (11, of13_message_role_request_failed_error_msg),
     (10, of13_message_switch_config_failed_error_msg), (13, of13_message_table_features_failed_error_msg),
     (8, of13_message_table_mod_failed_error_msg)]"
  "list_all (\<lambda>(k, c). writes_const fL 16 k c)
    [(6035143, of13_message_bsn_image_desc_stats_request), (6035143, of13_message_bsn_lacp_stats_request),
     (6035143, of13_message_bsn_port_counter_stats_request),
     (6035143, of13_message_bsn_switch_pipeline_stats_request),
     (6035143, of13_message_bsn_table_checksum_stats_request),
     (6035143, of13_message_bsn_vlan_counter_stats_request),
     (6035143, of13_message_bsn_vrf_counter_stats_request)]"
  "list_all (\<lambda>(k, c). writes_const fL 20 k c)
    [(14, of13_message_bsn_image_desc_stats_request), (1, of13_message_bsn_lacp_stats_request),
     (8, of13_message_bsn_port_counter_stats_request), (6, of13_message_bsn_switch_pipeline_stats_request),
     (11, of13_message_bsn_table_checksum_stats_request), (9, of13_message_bsn_vlan_counter_stats_request),
     (15, of13_message_bsn_vrf_counter_stats_request)]"
  "list_all (\<lambda>(k, c). writes_const fL 12 k c)
    [(6035143, of13_message_bsn_error)]"
  "list_all (\<lambda>(k, c). writes_const fH 10 k c)
    [(1, of13_message_bsn_error)]"
  by (simp_all add: loxi_formats loxi_eval loxi_checked
    of13_message_bsn_image_desc_stats_request_def of13_message_bsn_lacp_stats_request_def
    of13_message_bsn_port_counter_stats_request_def of13_message_bsn_switch_pipeline_stats_request_def
    of13_message_bsn_table_checksum_stats_request_def of13_message_bsn_vlan_counter_stats_request_def
    of13_message_bsn_vrf_counter_stats_request_def of13_message_desc_stats_request_def
    of13_message_flow_stats_request_def of13_message_group_desc_stats_request_def
    of13_message_group_features_stats_request_def of13_message_group_stats_request_def
    of13_message_meter_config_stats_request_def of13_message_meter_features_stats_request_def
    of13_message_meter_stats_request_def of13_message_port_desc_stats_request_def
    of13_message_port_stats_request_def of13_message_queue_stats_request_def
    of13_message_table_features_stats_request_def of13_message_table_stats_request_def
    of13_message_async_get_reply_def of13_message_async_get_request_def of13_message_async_set_def
    of13_message_bad_action_error_msg_def of13_message_bad_instruction_error_msg_def
    of13_message_bad_match_error_msg_def of13_message_bad_request_error_msg_def
    of13_message_bsn_error_def of13_message_flow_mod_failed_error_msg_def
    of13_message_group_mod_failed_error_msg_def of13_message_hello_failed_error_msg_def
    of13_message_meter_mod_failed_error_msg_def of13_message_port_mod_failed_error_msg_def
    of13_message_queue_op_failed_error_msg_def of13_message_role_request_failed_error_msg_def
    of13_message_switch_config_failed_error_msg_def of13_message_table_features_failed_error_msg_def
    of13_message_table_mod_failed_error_msg_def of13_message_barrier_reply_def
    of13_message_barrier_request_def
    del: One_nat_def)

lemma of13Message_checked_1c [unfolded list.pred_inject prod.case, loxi_checked]:
  "list_all codec_ok
    [of13_message_bsn_arp_idle, of13_message_bsn_bw_clear_data_reply,
     of13_message_bsn_bw_clear_data_request, of13_message_bsn_bw_enable_get_reply,
     of13_message_bsn_bw_enable_get_request, of13_message_bsn_bw_enable_set_reply,
     of13_message_bsn_bw_enable_set_request, of13_message_bsn_controller_connections_reply,
     of13_message_bsn_controller_connections_request, of13_message_bsn_flow_idle,
     of13_message_bsn_flow_idle_enable_get_reply, of13_message_bsn_flow_idle_enable_get_request,
     of13_message_bsn_flow_idle_enable_set_reply, of13_message_bsn_flow_idle_enable_set_request,
     of13_message_bsn_gentable_clear_reply, of13_message_bsn_gentable_clear_request,
     of13_message_bsn_gentable_entry_add, of13_message_bsn_gentable_entry_delete,
     of13_message_bsn_gentable_set_buckets_size, of13_message_bsn_get_interfaces_reply,
     of13_message_bsn_get_interfaces_request, of13_message_bsn_get_mirroring_reply,
     of13_message_bsn_get_mirroring_request, of13_message_bsn_get_switch_pipeline_reply,
     of13_message_bsn_get_switch_pipeline_request, of13_message_bsn_lacp_convergence_notif,
     of13_message_bsn_log, of13_message_bsn_lua_command_reply, of13_message_bsn_lua_command_request,
     of13_message_bsn_lua_notification, of13_message_bsn_lua_upload, of13_message_bsn_pdu_rx_reply,
     of13_message_bsn_pdu_rx_request, of13_message_bsn_pdu_rx_timeout, of13_message_bsn_pdu_tx_reply,
     of13_message_bsn_pdu_tx_request, of13_message_bsn_role_status, of13_message_bsn_set_aux_cxns_reply,
     of13_message_bsn_set_aux_cxns_request, of13_message_bsn_set_lacp_reply]"
  "list_all safe_cls
    [of13_message_bsn_arp_idle, of13_message_bsn_bw_clear_data_reply,
     of13_message_bsn_bw_clear_data_request, of13_message_bsn_bw_enable_get_reply,
     of13_message_bsn_bw_enable_get_request, of13_message_bsn_bw_enable_set_reply,
     of13_message_bsn_bw_enable_set_request, of13_message_bsn_controller_connections_reply,
     of13_message_bsn_controller_connections_request, of13_message_bsn_flow_idle,
     of13_message_bsn_flow_idle_enable_get_reply, of13_message_bsn_flow_idle_enable_get_request,
     of13_message_bsn_flow_idle_enable_set_reply, of13_message_bsn_flow_idle_enable_set_request,
     of13_message_bsn_gentable_clear_reply, of13_message_bsn_gentable_clear_request,
     of13_message_bsn_gentable_entry_add, of13_message_bsn_gentable_entry_delete,
     of13_message_bsn_gentable_set_buckets_size, of13_message_bsn_get_interfaces_reply,
     of13_message_bsn_get_interfaces_request, of13_message_bsn_get_mirroring_reply,
     of13_message_bsn_get_mirroring_request, of13_message_bsn_get_switch_pipeline_reply,
     of13_message_bsn_get_switch_pipeline_request, of13_message_bsn_lacp_convergence_notif,
     of13_message_bsn_log, of13_message_bsn_lua_command_reply, of13_message_bsn_lua_command_request,
     of13_message_bsn_lua_notification, of13_message_bsn_lua_upload, of13_message_bsn_pdu_rx_reply,
     of13_message_bsn_pdu_rx_request, of13_message_bsn_pdu_rx_timeout, of13_message_bsn_pdu_tx_reply,
     of13_message_bsn_pdu_tx_request, of13_message_bsn_role_status, of13_message_bsn_set_aux_cxns_reply,
     of13_message_bsn_set_aux_cxns_request, of13_message_bsn_set_lacp_reply]"
  "list_all (\<lambda>c. \<not> needs_align c)
    [of13_message_bsn_arp_idle, of13_message_bsn_bw_clear_data_reply,
     of13_message_bsn_bw_clear_data_request, of13_message_bsn_bw_enable_get_reply,
     of13_message_bsn_bw_enable_get_request, of13_message_bsn_bw_enable_set_reply,
     of13_message_bsn_bw_enable_set_request, of13_message_bsn_controller_connections_reply,
     of13_message_bsn_controller_connections_request, of13_message_bsn_flow_idle,
     of13_message_bsn_flow_idle_enable_get_reply, of13_message_bsn_flow_idle_enable_get_request,
     of13_message_bsn_flow_idle_enable_set_reply, of13_message_bsn_flow_idle_enable_set_request,
     of13_message_bsn_gentable_clear_reply, of13_message_bsn_gentable_clear_request,
     of13_message_bsn_gentable_entry_add, of13_message_bsn_gentable_entry_delete,
     of13_message_bsn_gentable_set_buckets_size, of13_message_bsn_get_interfaces_reply,
     of13_message_bsn_get_interfaces_request, of13_message_bsn_get_mirroring_reply,
     of13_message_bsn_get_mirroring_request, of13_message_bsn_get_switch_pipeline_reply,
     of13_message_bsn_get_switch_pipeline_request, of13_message_bsn_lacp_convergence_notif,
     of13_message_bsn_log, of13_message_bsn_lua_command_reply, of13_message_bsn_lua_command_request,
     of13_message_bsn_lua_notification, of13_message_bsn_lua_upload, of13_message_bsn_pdu_rx_reply,
     of13_message_bsn_pdu_rx_request, of13_message_bsn_pdu_rx_timeout, of13_message_bsn_pdu_tx_reply,
     of13_message_bsn_pdu_tx_request, of13_message_bsn_role_status, of13_message_bsn_set_aux_cxns_reply,
     of13_message_bsn_set_aux_cxns_request, of13_message_bsn_set_lacp_reply]"
  "list_all (has_header 4)
    [of13_message_bsn_arp_idle, of13_message_bsn_bw_clear_data_reply,
     of13_message_bsn_bw_clear_data_request, of13_message_bsn_bw_enable_get_reply,
     of13_message_bsn_bw_enable_get_request, of13_message_bsn_bw_enable_set_reply,
     of13_message_bsn_bw_enable_set_request, of13_message_bsn_controller_connections_reply,
     of13_message_bsn_controller_connections_request, of13_message_bsn_flow_idle,
     of13_message_bsn_flow_idle_enable_get_reply, of13_message_bsn_flow_idle_enable_get_request,
     of13_message_bsn_flow_idle_enable_set_reply, of13_message_bsn_flow_idle_enable_set_request,
     of13_message_bsn_gentable_clear_reply, of13_message_bsn_gentable_clear_request,
     of13_message_bsn_gentable_entry_add, of13_message_bsn_gentable_entry_delete,
     of13_message_bsn_gentable_set_buckets_size, of13_message_bsn_get_interfaces_reply,
     of13_message_bsn_get_interfaces_request, of13_message_bsn_get_mirroring_reply,
     of13_message_bsn_get_mirroring_request, of13_message_bsn_get_switch_pipeline_reply,
     of13_message_bsn_get_switch_pipeline_request, of13_message_bsn_lacp_convergence_notif,
     of13_message_bsn_log, of13_message_bsn_lua_command_reply, of13_message_bsn_lua_command_request,
     of13_message_bsn_lua_notification, of13_message_bsn_lua_upload, of13_message_bsn_pdu_rx_reply,
     of13_message_bsn_pdu_rx_request, of13_message_bsn_pdu_rx_timeout, of13_message_bsn_pdu_tx_reply,
     of13_message_bsn_pdu_tx_request, of13_message_bsn_role_status, of13_message_bsn_set_aux_cxns_reply,
     of13_message_bsn_set_aux_cxns_request, of13_message_bsn_set_lacp_reply]"
  "list_all (\<lambda>(k, c). writes_const fB 1 k c)
    [(4, of13_message_bsn_arp_idle), (4, of13_message_bsn_bw_clear_data_reply),
     (4, of13_message_bsn_bw_clear_data_request), (4, of13_message_bsn_bw_enable_get_reply),
     (4, of13_message_bsn_bw_enable_get_request), (4, of13_message_bsn_bw_enable_set_reply),
     (4, of13_message_bsn_bw_enable_set_request), (4, of13_message_bsn_controller_connections_reply),
     (4, of13_message_bsn_controller_connections_request), (4, of13_message_bsn_flow_idle),
     (4, of13_message_bsn_flow_idle_enable_get_reply), (4, of13_message_bsn_flow_idle_enable_get_request),
     (4, of13_message_bsn_flow_idle_enable_set_reply), (4, of13_message_bsn_flow_idle_enable_set_request),
     (4, of13_message_bsn_gentable_clear_reply), (4, of13_message_bsn_gentable_clear_request),
     (4, of13_message_bsn_gentable_entry_add), (4, of13_message_bsn_gentable_entry_delete),
     (4, of13_message_bsn_gentable_set_buckets_size), (4, of13_message_bsn_get_interfaces_reply),
     (4, of13_message_bsn_get_interfaces_request), (4, of13_message_bsn_get_mirroring_reply),
     (4, of13_message_bsn_get_mirroring_request), (4, of13_message_bsn_get_switch_pipeline_reply),
     (4, of13_message_bsn_get_switch_pipeline_request), (4, of13_message_bsn_lacp_convergence_notif),
     (4, of13_message_bsn_log), (4, of13_message_bsn_lua_command_reply),
     (4, of13_message_bsn_lua_command_request), (4, of13_message_bsn_lua_notification),
     (4, of13_message_bsn_lua_upload), (4, of13_message_bsn_pdu_rx_reply),
     (4, of13_message_bsn_pdu_rx_request), (4, of13_message_bsn_pdu_rx_timeout),
     (4, of13_message_bsn_pdu_tx_reply), (4, of13_message_bsn_pdu_tx_request),
     (4, of13_message_bsn_role_status), (4, of13_message_bsn_set_aux_cxns_reply),
     (4, of13_message_bsn_set_aux_cxns_request), (4, of13_message_bsn_set_lacp_reply)]"
  "list_all (\<lambda>(k, c). writes_const fL 8 k c)
    [(6035143, of13_message_bsn_arp_idle), (6035143, of13_message_bsn_bw_clear_data_reply),
     (6035143, of13_message_bsn_bw_clear_data_request), (6035143, of13_message_bsn_bw_enable_get_reply),
     (6035143, of13_message_bsn_bw_enable_get_request), (6035143, of13_message_bsn_bw_enable_set_reply),
     (6035143, of13_message_bsn_bw_enable_set_request),
     (6035143, of13_message_bsn_controller_connections_reply),
     (6035143, of13_message_bsn_controller_connections_request), (6035143, of13_message_bsn_flow_idle),
     (6035143, of13_message_bsn_flow_idle_enable_get_reply),
     (6035143, of13_message_bsn_flow_idle_enable_get_request),
     (6035143, of13_message_bsn_flow_idle_enable_set_reply),
     (6035143, of13_message_bsn_flow_idle_enable_set_request),
     (6035143, of13_message_bsn_gentable_clear_reply), (6035143, of13_message_bsn_gentable_clear_request),
     (6035143, of13_message_bsn_gentable_entry_add), (6035143, of13_message_bsn_gentable_entry_delete),
     (6035143, of13_message_bsn_gentable_set_buckets_size),
     (6035143, of13_message_bsn_get_interfaces_reply), (6035143, of13_message_bsn_get_interfaces_request),
     (6035143, of13_message_bsn_get_mirroring_reply), (6035143, of13_message_bsn_get_mirroring_request),
     (6035143, of13_message_bsn_get_switch_pipeline_reply),
     (6035143, of13_message_bsn_get_switch_pipeline_request),
     (6035143, of13_message_bsn_lacp_convergence_notif), (6035143, of13_message_bsn_log),
     (6035143, of13_message_bsn_lua_command_reply), (6035143, of13_message_bsn_lua_command_request),
     (6035143, of13_message_bsn_lua_notification), (6035143, of13_message_bsn_lua_upload),
     (6035143, of13_message_bsn_pdu_rx_reply), (6035143, of13_message_bsn_pdu_rx_request),
     (6035143, of13_message_bsn_pdu_rx_timeout), (6035143, of13_message_bsn_pdu_tx_reply),
     (6035143, of13_message_bsn_pdu_tx_request), (6035143, of13_message_bsn_role_status),
     (6035143, of13_message_bsn_set_aux_cxns_reply), (6035143, of13_message_bsn_set_aux_cxns_request),
     (6035143, of13_message_bsn_set_lacp_reply)]"
  "list_all (\<lambda>(k, c). writes_const fL 12 k c)
    [(60, of13_message_bsn_arp_idle), (22, of13_message_bsn_bw_clear_data_reply),
     (21, of13_message_bsn_bw_clear_data_request), (20, of13_message_bsn_bw_enable_get_reply),
     (19, of13_message_bsn_bw_enable_get_request), (23, of13_message_bsn_bw_enable_set_reply),
     (18, of13_message_bsn_bw_enable_set_request), (57, of13_message_bsn_controller_connections_reply),
     (56, of13_message_bsn_controller_connections_request), (40, of13_message_bsn_flow_idle),
     (39, of13_message_bsn_flow_idle_enable_get_reply),
     (38, of13_message_bsn_flow_idle_enable_get_request),
     (37, of13_message_bsn_flow_idle_enable_set_reply),
     (36, of13_message_bsn_flow_idle_enable_set_request), (49, of13_message_bsn_gentable_clear_reply),
     (48, of13_message_bsn_gentable_clear_request), (46, of13_message_bsn_gentable_entry_add),
     (47, of13_message_bsn_gentable_entry_delete), (50, of13_message_bsn_gentable_set_buckets_size),
     (10, of13_message_bsn_get_interfaces_reply), (9, of13_message_bsn_get_interfaces_request),
     (5, of13_message_bsn_get_mirroring_reply), (4, of13_message_bsn_get_mirroring_request),
     (52, of13_message_bsn_get_switch_pipeline_reply), (51, of13_message_bsn_get_switch_pipeline_request),
     (43, of13_message_bsn_lacp_convergence_notif), (63, of13_message_bsn_log),
     (66, of13_message_bsn_lua_command_reply), (65, of13_message_bsn_lua_command_request),
     (67, of13_message_bsn_lua_notification), (64, of13_message_bsn_lua_upload),
     (34, of13_message_bsn_pdu_rx_reply), (33, of13_message_bsn_pdu_rx_request),
     (35, of13_message_bsn_pdu_rx_timeout), (32, of13_message_bsn_pdu_tx_reply),
     (31, of13_message_bsn_pdu_tx_request), (55, of13_message_bsn_role_status),
     (59, of13_message_bsn_set_aux_cxns_reply), (58, of13_message_bsn_set_aux_cxns_request),
     (42, of13_message_bsn_set_lacp_reply)]"
  by (simp_all add: loxi_formats loxi_eval loxi_checked
    of13_message_bsn_arp_idle_def of13_message_bsn_bw_clear_data_reply_def
    of13_message_bsn_bw_clear_data_request_def of13_message_bsn_bw_enable_get_reply_def
    of13_message_bsn_bw_enable_get_request_def of13_message_bsn_bw_enable_set_reply_def
    of13_message_bsn_bw_enable_set_request_def of13_message_bsn_controller_connections_reply_def
    of13_message_bsn_controller_connections_request_def of13_message_bsn_flow_idle_def
    of13_message_bsn_flow_idle_enable_get_reply_def of13_message_bsn_flow_idle_enable_get_request_def
    of13_message_bsn_flow_idle_enable_set_reply_def of13_message_bsn_flow_idle_enable_set_request_def
    of13_message_bsn_gentable_clear_reply_def of13_message_bsn_gentable_clear_request_def
    of13_message_bsn_gentable_entry_add_def of13_message_bsn_gentable_entry_delete_def
    of13_message_bsn_gentable_set_buckets_size_def of13_message_bsn_get_interfaces_reply_def
    of13_message_bsn_get_interfaces_request_def of13_message_bsn_get_mirroring_reply_def
    of13_message_bsn_get_mirroring_request_def of13_message_bsn_get_switch_pipeline_reply_def
    of13_message_bsn_get_switch_pipeline_request_def of13_message_bsn_lacp_convergence_notif_def
    of13_message_bsn_log_def of13_message_bsn_lua_command_reply_def
    of13_message_bsn_lua_command_request_def of13_message_bsn_lua_notification_def
    of13_message_bsn_lua_upload_def of13_message_bsn_pdu_rx_reply_def
    of13_message_bsn_pdu_rx_request_def of13_message_bsn_pdu_rx_timeout_def
    of13_message_bsn_pdu_tx_reply_def of13_message_bsn_pdu_tx_request_def
    of13_message_bsn_role_status_def of13_message_bsn_set_aux_cxns_reply_def
    of13_message_bsn_set_aux_cxns_request_def of13_message_bsn_set_lacp_reply_def
    del: One_nat_def)

lemma of13Message_checked_1d [unfolded list.pred_inject prod.case, loxi_checked]:
  "list_all codec_ok
    [of13_message_bsn_set_lacp_request, of13_message_bsn_set_mirroring,
     of13_message_bsn_set_pktin_suppression_reply, of13_message_bsn_set_pktin_suppression_request,
     of13_message_bsn_set_switch_pipeline_reply, of13_message_bsn_set_switch_pipeline_request,
     of13_message_bsn_table_set_buckets_size, of13_message_bsn_time_reply, of13_message_bsn_time_request,
     of13_message_bsn_virtual_port_create_reply, of13_message_bsn_virtual_port_create_request,
     of13_message_bsn_virtual_port_remove_reply, of13_message_bsn_virtual_port_remove_request,
     of13_message_bsn_vlan_counter_clear, of13_message_nicira_header, of13_message_echo_reply,
     of13_message_echo_request, of13_message_features_reply, of13_message_features_request,
     of13_message_flow_add, of13_message_flow_delete, of13_message_flow_delete_strict,
     of13_message_flow_modify, of13_message_flow_modify_strict, of13_message_flow_removed,
     of13_message_get_config_reply, of13_message_get_config_request, of13_message_group_add,
     of13_message_group_delete, of13_message_group_modify, of13_message_hello, of13_message_meter_mod,
     of13_message_packet_in, of13_message_packet_out, of13_message_port_mod, of13_message_port_status,
     of13_message_queue_get_config_reply, of13_message_queue_get_config_request, of13_message_role_reply,
     of13_message_role_request]"
  "list_all safe_cls
    [of13_message_bsn_set_lacp_request, of13_message_bsn_set_mirroring,
     of13_message_bsn_set_pktin_suppression_reply, of13_message_bsn_set_pktin_suppression_request,
     of13_message_bsn_set_switch_pipeline_reply, of13_message_bsn_set_switch_pipeline_request,
     of13_message_bsn_table_set_buckets_size, of13_message_bsn_time_reply, of13_message_bsn_time_request,
     of13_message_bsn_virtual_port_create_reply, of13_message_bsn_virtual_port_create_request,
     of13_message_bsn_virtual_port_remove_reply, of13_message_bsn_virtual_port_remove_request,
     of13_message_bsn_vlan_counter_clear, of13_message_nicira_header, of13_message_echo_reply,
     of13_message_echo_request, of13_message_features_reply, of13_message_features_request,
     of13_message_flow_add, of13_message_flow_delete, of13_message_flow_delete_strict,
     of13_message_flow_modify, of13_message_flow_modify_strict, of13_message_flow_removed,
     of13_message_get_config_reply, of13_message_get_config_request, of13_message_group_add,
     of13_message_group_delete, of13_message_group_modify, of13_message_hello, of13_message_meter_mod,
     of13_message_packet_in, of13_message_packet_out, of13_message_port_mod, of13_message_port_status,
     of13_message_queue_get_config_reply, of13_message_queue_get_config_request, of13_message_role_reply,
     of13_message_role_request]"
  "list_all (\<lambda>c. \<not> needs_align c)
    [of13_message_bsn_set_lacp_request, of13_message_bsn_set_mirroring,
     of13_message_bsn_set_pktin_suppression_reply, of13_message_bsn_set_pktin_suppression_request,
     of13_message_bsn_set_switch_pipeline_reply, of13_message_bsn_set_switch_pipeline_request,
     of13_message_bsn_table_set_buckets_size, of13_message_bsn_time_reply, of13_message_bsn_time_request,
     of13_message_bsn_virtual_port_create_reply, of13_message_bsn_virtual_port_create_request,
     of13_message_bsn_virtual_port_remove_reply, of13_message_bsn_virtual_port_remove_request,
     of13_message_bsn_vlan_counter_clear, of13_message_nicira_header, of13_message_echo_reply,
     of13_message_echo_request, of13_message_features_reply, of13_message_features_request,
     of13_message_flow_add, of13_message_flow_delete, of13_message_flow_delete_strict,
     of13_message_flow_modify, of13_message_flow_modify_strict, of13_message_flow_removed,
     of13_message_get_config_reply, of13_message_get_config_request, of13_message_group_add,
     of13_message_group_delete, of13_message_group_modify, of13_message_hello, of13_message_meter_mod,
     of13_message_packet_in, of13_message_packet_out, of13_message_port_mod, of13_message_port_status,
     of13_message_queue_get_config_reply, of13_message_queue_get_config_request, of13_message_role_reply,
     of13_message_role_request]"
  "list_all (has_header 4)
    [of13_message_bsn_set_lacp_request, of13_message_bsn_set_mirroring,
     of13_message_bsn_set_pktin_suppression_reply, of13_message_bsn_set_pktin_suppression_request,
     of13_message_bsn_set_switch_pipeline_reply, of13_message_bsn_set_switch_pipeline_request,
     of13_message_bsn_table_set_buckets_size, of13_message_bsn_time_reply, of13_message_bsn_time_request,
     of13_message_bsn_virtual_port_create_reply, of13_message_bsn_virtual_port_create_request,
     of13_message_bsn_virtual_port_remove_reply, of13_message_bsn_virtual_port_remove_request,
     of13_message_bsn_vlan_counter_clear, of13_message_nicira_header, of13_message_echo_reply,
     of13_message_echo_request, of13_message_features_reply, of13_message_features_request,
     of13_message_flow_add, of13_message_flow_delete, of13_message_flow_delete_strict,
     of13_message_flow_modify, of13_message_flow_modify_strict, of13_message_flow_removed,
     of13_message_get_config_reply, of13_message_get_config_request, of13_message_group_add,
     of13_message_group_delete, of13_message_group_modify, of13_message_hello, of13_message_meter_mod,
     of13_message_packet_in, of13_message_packet_out, of13_message_port_mod, of13_message_port_status,
     of13_message_queue_get_config_reply, of13_message_queue_get_config_request, of13_message_role_reply,
     of13_message_role_request]"
  "list_all (\<lambda>(k, c). writes_const fB 1 k c)
    [(4, of13_message_bsn_set_lacp_request), (4, of13_message_bsn_set_mirroring),
     (4, of13_message_bsn_set_pktin_suppression_reply),
     (4, of13_message_bsn_set_pktin_suppression_request), (4, of13_message_bsn_set_switch_pipeline_reply),
     (4, of13_message_bsn_set_switch_pipeline_request), (4, of13_message_bsn_table_set_buckets_size),
     (4, of13_message_bsn_time_reply), (4, of13_message_bsn_time_request),
     (4, of13_message_bsn_virtual_port_create_reply), (4, of13_message_bsn_virtual_port_create_request),
     (4, of13_message_bsn_virtual_port_remove_reply), (4, of13_message_bsn_virtual_port_remove_request),
     (4, of13_message_bsn_vlan_counter_clear), (4, of13_message_nicira_header),
     (3, of13_message_echo_reply), (2, of13_message_echo_request), (6, of13_message_features_reply),
     (5, of13_message_features_request), (14, of13_message_flow_add), (14, of13_message_flow_delete),
     (14, of13_message_flow_delete_strict), (14, of13_message_flow_modify),
     (14, of13_message_flow_modify_strict), (11, of13_message_flow_removed),
     (8, of13_message_get_config_reply), (7, of13_message_get_config_request),
     (15, of13_message_group_add), (15, of13_message_group_delete), (15, of13_message_group_modify),
     (0, of13_message_hello), (29, of13_message_meter_mod), (10, of13_message_packet_in),
     (13, of13_message_packet_out), (16, of13_message_port_mod), (12, of13_message_port_status),
     (23, of13_message_queue_get_config_reply), (22, of13_message_queue_get_config_request),
     (25, of13_message_role_reply), (24, of13_message_role_request)]"
  "list_all (\<lambda>(k, c). writes_const fL 8 k c)
    [(6035143, of13_message_bsn_set_lacp_request), (6035143, of13_message_bsn_set_mirroring),
     (6035143, of13_message_bsn_set_pktin_suppression_reply),
     (6035143, of13_message_bsn_set_pktin_suppression_request),
     (6035143, of13_message_bsn_set_switch_pipeline_reply),
     (6035143, of13_message_bsn_set_switch_pipeline_request),
     (6035143, of13_message_bsn_table_set_buckets_size), (6035143, of13_message_bsn_time_reply),
     (6035143, of13_message_bsn_time_request), (6035143, of13_message_bsn_virtual_port_create_reply),
     (6035143, of13_message_bsn_virtual_port_create_request),
     (6035143, of13_message_bsn_virtual_port_remove_reply),
     (6035143, of13_message_bsn_virtual_port_remove_request),
     (6035143, of13_message_bsn_vlan_counter_clear), (8992, of13_message_nicira_header)]"
  "list_all (\<lambda>(k, c). writes_const fL 12 k c)
    [(41, of13_message_bsn_set_lacp_request), (3, of13_message_bsn_set_mirroring),
     (25, of13_message_bsn_set_pktin_suppression_reply),
     (11, of13_message_bsn_set_pktin_suppression_request),
     (54, of13_message_bsn_set_switch_pipeline_reply), (53, of13_message_bsn_set_switch_pipeline_request),
     (61, of13_message_bsn_table_set_buckets_size), (45, of13_message_bsn_time_reply),
     (44, of13_message_bsn_time_request), (16, of13_message_bsn_virtual_port_create_reply),
     (15, of13_message_bsn_virtual_port_create_request), (26, of13_message_bsn_virtual_port_remove_reply),
     (17, of13_message_bsn_virtual_port_remove_request), (70, of13_message_bsn_vlan_counter_clear)]"
  "list_all (\<lambda>(k, c). writes_const fB 25 k c)
    [(0, of13_message_flow_add), (3, of13_message_flow_delete), (4, of13_message_flow_delete_strict),
     (1, of13_message_flow_modify), (2, of13_message_flow_modify_strict)]"
  "list_all (\<lambda>(k, c). writes_const fH 8 k c)
    [(0, of13_message_group_add), (2, of13_message_group_delete), (1, of13_message_group_modify)]"
  by (simp_all add: loxi_formats loxi_eval loxi_checked
    of13_message_bsn_set_lacp_request_def of13_message_bsn_set_mirroring_def
    of13_message_bsn_set_pktin_suppression_reply_def of13_message_bsn_set_pktin_suppression_request_def
    of13_message_bsn_set_switch_pipeline_reply_def of13_message_bsn_set_switch_pipeline_request_def
    of13_message_bsn_table_set_buckets_size_def of13_message_bsn_time_reply_def
    of13_message_bsn_time_request_def of13_message_bsn_virtual_port_create_reply_def
    of13_message_bsn_virtual_port_create_request_def of13_message_bsn_virtual_port_remove_reply_def
    of13_message_bsn_virtual_port_remove_request_def of13_message_bsn_vlan_counter_clear_def
    of13_message_nicira_header_def of13_message_echo_reply_def of13_message_echo_request_def
    of13_message_features_reply_def of13_message_features_request_def of13_message_flow_add_def
    of13_message_flow_delete_def of13_message_flow_delete_strict_def of13_message_flow_modify_def
    of13_message_flow_modify_strict_def of13_message_flow_removed_def of13_message_get_config_reply_def
    of13_message_get_config_request_def of13_message_group_add_def of13_message_group_delete_def
    of13_message_group_modify_def of13_message_hello_def of13_message_meter_mod_def
    of13_message_packet_in_def of13_message_packet_out_def of13_message_port_mod_def
    of13_message_port_status_def of13_message_queue_get_config_reply_def
    of13_message_queue_get_config_request_def of13_message_role_reply_def of13_message_role_request_def
    del: One_nat_def)

lemma of13Message_checked_1e [unfolded list.pred_inject prod.case, loxi_checked]:
  "list_all codec_ok
    [of13_message_set_config, of13_message_table_mod]"
  "list_all safe_cls
    [of13_message_set_config, of13_message_table_mod]"
  "list_all (\<lambda>c. \<not> needs_align c)
    [of13_message_set_config, of13_message_table_mod]"
  "list_all (has_header 4)
    [of13_message_set_config, of13_message_table_mod]"
  "list_all (\<lambda>(k, c). writes_const fB 1 k c)
    [(9, of13_message_set_config), (17, of13_message_table_mod)]"
  by (simp_all add: loxi_formats loxi_eval loxi_checked
    of13_message_set_config_def of13_message_table_mod_def
    del: One_nat_def)

lemma of13Message_checked_2 [unfolded list.pred_inject prod.case, loxi_checked]:
  "list_all codec_ok
    [of13_message_bsn_stats_reply, of13_message_bsn_stats_request, of13_message_bsn_base_error,
     of13_message_bsn_header, of13_message_flow_mod, of13_message_group_mod]"
  "list_all safe_cls
    [of13_message_bsn_stats_reply, of13_message_bsn_stats_request, of13_message_bsn_base_error,
     of13_message_bsn_header, of13_message_flow_mod, of13_message_group_mod]"
  "list_all (\<lambda>c. \<not> needs_align c)
    [of13_message_bsn_stats_reply, of13_message_bsn_stats_request, of13_message_bsn_base_error,
     of13_message_bsn_header, of13_message_flow_mod, of13_message_group_mod]"
  "list_all (has_header 4)
    [of13_message_bsn_stats_reply, of13_message_bsn_stats_request, of13_message_bsn_base_error,
     of13_message_bsn_header, of13_message_flow_mod, of13_message_group_mod]"
  "list_all (\<lambda>(k, c). writes_const fB 1 k c)
    [(19, of13_message_bsn_stats_reply), (18, of13_message_bsn_stats_request),
     (1, of13_message_bsn_base_error), (4, of13_message_bsn_header), (14, of13_message_flow_mod),
     (15, of13_message_group_mod)]"
  "list_all (\<lambda>(k, c). writes_const fH 8 k c)
    [(65535, of13_message_bsn_stats_reply), (65535, of13_message_bsn_stats_request),
     (65535, of13_message_bsn_base_error)]"
  "list_all (\<lambda>(k, c). writes_const fL 16 k c)
    [(6035143, of13_message_bsn_stats_reply), (6035143, of13_message_bsn_stats_request)]"
  "list_all (\<lambda>(k, c). writes_const fL 12 k c)
    [(6035143, of13_message_bsn_base_error)]"
  "list_all (\<lambda>(k, c). writes_const fL 8 k c)
    [(6035143, of13_message_bsn_header)]"
  by (simp_all add: loxi_formats loxi_eval loxi_checked
    of13_message_bsn_stats_reply_def of13_message_bsn_stats_request_def of13_message_bsn_base_error_def
    of13_message_bsn_header_def of13_message_flow_mod_def of13_message_group_mod_def
    del: One_nat_def)

lemma of13Message_checked_3 [unfolded list.pred_inject prod.case, loxi_checked]:
  "list_all codec_ok
    [of13_message_experimenter_stats_reply, of13_message_experimenter_stats_request,
     of13_message_experimenter_error_msg, of13_message_experimenter]"
  "list_all safe_cls
    [of13_message_experimenter_stats_reply, of13_message_experimenter_stats_request,
     of13_message_experimenter_error_msg, of13_message_experimenter]"
  "list_all (\<lambda>c. \<not> needs_align c)
    [of13_message_experimenter_stats_reply, of13_message_experimenter_stats_request,
     of13_message_experimenter_error_msg, of13_message_experimenter]"
  "list_all (has_header 4)
    [of13_message_experimenter_stats_reply, of13_message_experimenter_stats_request,
     of13_message_experimenter_error_msg, of13_message_experimenter]"
  "list_all (\<lambda>(k, c). writes_const fB 1 k c)
    [(19, of13_message_experimenter_stats_reply), (18, of13_message_experimenter_stats_request),
     (1, of13_message_experimenter_error_msg), (4, of13_message_experimenter)]"
  "list_all (\<lambda>(k, c). writes_const fH 8 k c)
    [(65535, of13_message_experimenter_stats_reply), (65535, of13_message_experimenter_stats_request),
     (65535, of13_message_experimenter_error_msg)]"
  by (simp_all add: loxi_formats loxi_eval loxi_checked
    of13_message_experimenter_stats_reply_def of13_message_experimenter_stats_request_def
    of13_message_experimenter_error_msg_def of13_message_experimenter_def
    del: One_nat_def)

lemma of13Message_checked_4 [unfolded list.pred_inject prod.case, loxi_checked]:
  "list_all codec_ok
    [of13_message_stats_reply, of13_message_stats_request, of13_message_error_msg]"
  "list_all safe_cls
    [of13_message_stats_reply, of13_message_stats_request, of13_message_error_msg]"
  "list_all (\<lambda>c. \<not> needs_align c)
    [of13_message_stats_reply, of13_message_stats_request, of13_message_error_msg]"
  "list_all (has_header 4)
    [of13_message_stats_reply, of13_message_stats_request, of13_message_error_msg]"
  "list_all (\<lambda>(k, c). writes_const fB 1 k c)
    [(19, of13_message_stats_reply), (18, of13_message_stats_request), (1, of13_message_error_msg)]"
  by (simp_all add: loxi_formats loxi_eval loxi_checked
    of13_message_stats_reply_def of13_message_stats_request_def of13_message_error_msg_def
    del: One_nat_def)

lemma of13Message_checked_5 [unfolded list.pred_inject prod.case, loxi_checked]:
  "list_all codec_ok
    [of13_message_message]"
  "list_all safe_cls
    [of13_message_message]"
  "list_all (\<lambda>c. \<not> needs_align c)
    [of13_message_message]"
  "list_all (has_header 4)
    [of13_message_message]"
  by (simp_all add: loxi_formats loxi_eval loxi_checked
    of13_message_message_def
    del: One_nat_def)

end
