(* ===== verification/Of14Oxm.thy ===== *)
theory Of14Oxm
  imports LoxiHeader
begin

text \<open>
  OpenFlow 1.4: the 133 classes of \<^verbatim>\<open>oxm.py\<close>
  under \<^verbatim>\<open>src/ofagent/loxi/of14\<close>, and the check that \<^verbatim>\<open>unpack\<close> of each class
  reads what its \<^verbatim>\<open>pack\<close> writes.
\<close>

section \<open>Formats of util.py\<close>

definition of14_port_no :: fmt where
  [loxi_formats]: "of14_port_no = fL"

definition of14_fm_cmd :: fmt where
  [loxi_formats]: "of14_fm_cmd = fB"

definition of14_wc_bmap :: fmt where
  [loxi_formats]: "of14_wc_bmap = fQ"

definition of14_match_bmap :: fmt where
  [loxi_formats]: "of14_match_bmap = fQ"


section \<open>Classes\<close>

definition of14_oxm_arp_op :: cls where
  "of14_oxm_arp_op =
     Cls ''arp_op'' [(nm_type_len, 2147494402)]
       [(nm_value, D_num 0)]
       [P_field nm_type_len fL, P_field nm_value fH]
       None
       [U_local nm__type_len fL, U_assert nm__type_len 2147494402, U_field nm_value fH]
       [nm_value]"

definition of14_oxm_arp_op_masked :: cls where
  "of14_oxm_arp_op_masked =
     Cls ''arp_op_masked'' [(nm_type_len, 2147494660)]
       [(nm_value, D_num 0), (nm_value_mask, D_num 0)]
       [P_field nm_type_len fL, P_field nm_value fH, P_field nm_value_mask fH]
       None
       [U_local nm__type_len fL, U_assert nm__type_len 2147494660, U_field nm_value fH,
        U_field nm_value_mask fH]
       [nm_value, nm_value_mask]"

definition of14_oxm_arp_sha :: cls where
  "of14_oxm_arp_sha =
     Cls ''arp_sha'' [(nm_type_len, 2147495942)]
       [(nm_value, D_nums [0,0,0,0,0,0])]
       [P_field nm_type_len fL, P_field nm_value f6B]
       None
       [U_local nm__type_len fL, U_assert nm__type_len 2147495942, U_field nm_value f6B]
       [nm_value]"

definition of14_oxm_arp_sha_masked :: cls where
  "of14_oxm_arp_sha_masked =
     Cls ''arp_sha_masked'' [(nm_type_len, 2147496204)]
       [(nm_value, D_nums [0,0,0,0,0,0]), (nm_value_mask, D_nums [0,0,0,0,0,0])]
       [P_field nm_type_len fL, P_field nm_value f6B, P_field nm_value_mask f6B]
       None
       [U_local nm__type_len fL, U_assert nm__type_len 2147496204, U_field nm_value f6B,
        U_field nm_value_mask f6B]
       [nm_value, nm_value_mask]"

definition of14_oxm_arp_spa :: cls where
  "of14_oxm_arp_spa =
     Cls ''arp_spa'' [(nm_type_len, 2147494916)]
       [(nm_value, D_num 0)]
       [P_field nm_type_len fL, P_field nm_value fL]
       None
       [U_local nm__type_len fL, U_assert nm__type_len 2147494916, U_field nm_value fL]
       [nm_value]"

definition of14_oxm_arp_spa_masked :: cls where
  "of14_oxm_arp_spa_masked =
     Cls ''arp_spa_masked'' [(nm_type_len, 2147495176)]
       [(nm_value, D_num 0), (nm_value_mask, D_num 0)]
       [P_field nm_type_len fL, P_field nm_value fL, P_field nm_value_mask fL]
       None
       [U_local nm__type_len fL, U_assert nm__type_len 2147495176, U_field nm_value fL,
        U_field nm_value_mask fL]
       [nm_value, nm_value_mask]"

definition of14_oxm_arp_tha :: cls where
  "of14_oxm_arp_tha =
     Cls ''arp_tha'' [(nm_type_len, 2147496454)]
       [(nm_value, D_nums [0,0,0,0,0,0])]
       [P_field nm_type_len fL, P_field nm_value f6B]
       None
       [U_local nm__type_len fL, U_assert nm__type_len 2147496454, U_field nm_value f6B]
       [nm_value]"

definition of14_oxm_arp_tha_masked :: cls where
  "of14_oxm_arp_tha_masked =
     Cls ''arp_tha_masked'' [(nm_type_len, 2147496716)]
       [(nm_value, D_nums [0,0,0,0,0,0]), (nm_value_mask, D_nums [0,0,0,0,0,0])]
       [P_field nm_type_len fL, P_field nm_value f6B, P_field nm_value_mask f6B]
       None
       [U_local nm__type_len fL, U_assert nm__type_len 2147496716, U_field nm_value f6B,
        U_field nm_value_mask f6B]
       [nm_value, nm_value_mask]"

definition of14_oxm_arp_tpa :: cls where
  "of14_oxm_arp_tpa =
     Cls ''arp_tpa'' [(nm_type_len, 2147495428)]
       [(nm_value, D_num 0)]
       [P_field nm_type_len fL, P_field nm_value fL]
       None
       [U_local nm__type_len fL, U_assert nm__type_len 2147495428, U_field nm_value fL]
       [nm_value]"

definition of14_oxm_arp_tpa_masked :: cls where
  "of14_oxm_arp_tpa_masked =
     Cls ''arp_tpa_masked'' [(nm_type_len, 2147495688)]
       [(nm_value, D_num 0), (nm_value_mask, D_num 0)]
       [P_field nm_type_len fL, P_field nm_value fL, P_field nm_value_mask fL]
       None
       [U_local nm__type_len fL, U_assert nm__type_len 2147495688, U_field nm_value fL,
        U_field nm_value_mask fL]
       [nm_value, nm_value_mask]"

definition of14_oxm_bsn_egr_port_group_id :: cls where
  "of14_oxm_bsn_egr_port_group_id =
     Cls ''bsn_egr_port_group_id'' [(nm_type_len, 200196)]
       [(nm_value, D_num 0)]
       [P_field nm_type_len fL, P_field nm_value fL]
       None
       [U_local nm__type_len fL, U_assert nm__type_len 200196, U_field nm_value fL]
       [nm_value]"

definition of14_oxm_bsn_egr_port_group_id_masked :: cls where
  "of14_oxm_bsn_egr_port_group_id_masked =
     Cls ''bsn_egr_port_group_id_masked'' [(nm_type_len, 200456)]
       [(nm_value, D_num 0), (nm_value_mask, D_num 0)]
       [P_field nm_type_len fL, P_field nm_value fL, P_field nm_value_mask fL]
       None
       [U_local nm__type_len fL, U_assert nm__type_len 200456, U_field nm_value fL,
        U_field nm_value_mask fL]
       [nm_value, nm_value_mask]"

definition of14_oxm_bsn_in_ports_128 :: cls where
  "of14_oxm_bsn_in_ports_128 =
     Cls ''bsn_in_ports_128'' [(nm_type_len, 196624)]
       [(nm_value, D_set)]
       [P_field nm_type_len fL, P_field nm_value fBitmap_128]
       None
       [U_local nm__type_len fL, U_assert nm__type_len 196624, U_field nm_value fBitmap_128]
       [nm_value]"

definition of14_oxm_bsn_in_ports_128_masked :: cls where
  "of14_oxm_bsn_in_ports_128_masked =
     Cls ''bsn_in_ports_128_masked'' [(nm_type_len, 196896)]
       [(nm_value, D_set), (nm_value_mask, D_set)]
       [P_field nm_type_len fL, P_field nm_value fBitmap_128, P_field nm_value_mask fBitmap_128]
       None
       [U_local nm__type_len fL, U_assert nm__type_len 196896, U_field nm_value fBitmap_128,
        U_field nm_value_mask fBitmap_128]
       [nm_value, nm_value_mask]"

definition of14_oxm_bsn_in_ports_512 :: cls where
  "of14_oxm_bsn_in_ports_512 =
     Cls ''bsn_in_ports_512'' [(nm_type_len, 206400)]
       [(nm_value, D_set)]
       [P_field nm_type_len fL, P_field nm_value fBitmap_512]
       None
       [U_local nm__type_len fL, U_assert nm__type_len 206400, U_field nm_value fBitmap_512]
       [nm_value]"

definition of14_oxm_bsn_in_ports_512_masked :: cls where
  "of14_oxm_bsn_in_ports_512_masked =
     Cls ''bsn_in_ports_512_masked'' [(nm_type_len, 206720)]
       [(nm_value, D_set), (nm_value_mask, D_set)]
       [P_field nm_type_len fL, P_field nm_value fBitmap_512, P_field nm_value_mask fBitmap_512]
       None
       [U_local nm__type_len fL, U_assert nm__type_len 206720, U_field nm_value fBitmap_512,
        U_field nm_value_mask fBitmap_512]
       [nm_value, nm_value_mask]"

definition of14_oxm_bsn_ingress_port_group_id :: cls where
  "of14_oxm_bsn_ingress_port_group_id =
     Cls ''bsn_ingress_port_group_id'' [(nm_type_len, 206852)]
       [(nm_value, D_num 0)]
       [P_field nm_type_len fL, P_field nm_value fL]
       None
       [U_local nm__type_len fL, U_assert nm__type_len 206852, U_field nm_value fL]
       [nm_value]"

definition of14_oxm_bsn_ingress_port_group_id_masked :: cls where
  "of14_oxm_bsn_ingress_port_group_id_masked =
     Cls ''bsn_ingress_port_group_id_masked'' [(nm_type_len, 207112)]
       [(nm_value, D_num 0), (nm_value_mask, D_num 0)]
       [P_field nm_type_len fL, P_field nm_value fL, P_field nm_value_mask fL]
       None
       [U_local nm__type_len fL, U_assert nm__type_len 207112, U_field nm_value fL,
        U_field nm_value_mask fL]
       [nm_value, nm_value_mask]"

definition of14_oxm_bsn_inner_eth_dst :: cls where
  "of14_oxm_bsn_inner_eth_dst =
     Cls ''bsn_inner_eth_dst'' [(nm_type_len, 207878)]
       [(nm_value, D_nums [0,0,0,0,0,0])]
       [P_field nm_type_len fL, P_field nm_value f6B]
       None
       [U_local nm__type_len fL, U_assert nm__type_len 207878, U_field nm_value f6B]
       [nm_value]"

definition of14_oxm_bsn_inner_eth_dst_masked :: cls where
  "of14_oxm_bsn_inner_eth_dst_masked =
     Cls ''bsn_inner_eth_dst_masked'' [(nm_type_len, 208140)]
       [(nm_value, D_nums [0,0,0,0,0,0]), (nm_value_mask, D_nums [0,0,0,0,0,0])]
       [P_field nm_type_len fL, P_field nm_value f6B, P_field nm_value_mask f6B]
       None
       [U_local nm__type_len fL, U_assert nm__type_len 208140, U_field nm_value f6B,
        U_field nm_value_mask f6B]
       [nm_value, nm_value_mask]"

definition of14_oxm_bsn_inner_eth_src :: cls where
  "of14_oxm_bsn_inner_eth_src =
     Cls ''bsn_inner_eth_src'' [(nm_type_len, 208390)]
       [(nm_value, D_nums [0,0,0,0,0,0])]
       [P_field nm_type_len fL, P_field nm_value f6B]
       None
       [U_local nm__type_len fL, U_assert nm__type_len 208390, U_field nm_value f6B]
       [nm_value]"

definition of14_oxm_bsn_inner_eth_src_masked :: cls where
  "of14_oxm_bsn_inner_eth_src_masked =
     Cls ''bsn_inner_eth_src_masked'' [(nm_type_len, 208652)]
       [(nm_value, D_nums [0,0,0,0,0,0]), (nm_value_mask, D_nums [0,0,0,0,0,0])]
       [P_field nm_type_len fL, P_field nm_value f6B, P_field nm_value_mask f6B]
       None
       [U_local nm__type_len fL, U_assert nm__type_len 208652, U_field nm_value f6B,
        U_field nm_value_mask f6B]
       [nm_value, nm_value_mask]"

definition of14_oxm_bsn_inner_vlan_vid :: cls where
  "of14_oxm_bsn_inner_vlan_vid =
     Cls ''bsn_inner_vlan_vid'' [(nm_type_len, 208898)]
       [(nm_value, D_num 0)]
       [P_field nm_type_len fL, P_field nm_value fH]
       None
       [U_local nm__type_len fL, U_assert nm__type_len 208898, U_field nm_value fH]
       [nm_value]"

definition of14_oxm_bsn_inner_vlan_vid_masked :: cls where
  "of14_oxm_bsn_inner_vlan_vid_masked =
     Cls ''bsn_inner_vlan_vid_masked'' [(nm_type_len, 209156)]
       [(nm_value, D_num 0), (nm_value_mask, D_num 0)]
       [P_field nm_type_len fL, P_field nm_value fH, P_field nm_value_mask fH]
       None
       [U_local nm__type_len fL, U_assert nm__type_len 209156, U_field nm_value fH,
        U_field nm_value_mask fH]
       [nm_value, nm_value_mask]"

definition of14_oxm_bsn_l2_cache_hit :: cls where
  "of14_oxm_bsn_l2_cache_hit =
     Cls ''bsn_l2_cache_hit'' [(nm_type_len, 205825)]
       [(nm_value, D_num 0)]
       [P_field nm_type_len fL, P_field nm_value fB]
       None
       [U_local nm__type_len fL, U_assert nm__type_len 205825, U_field nm_value fB]
       [nm_value]"

definition of14_oxm_bsn_l2_cache_hit_masked :: cls where
  "of14_oxm_bsn_l2_cache_hit_masked =
     Cls ''bsn_l2_cache_hit_masked'' [(nm_type_len, 206082)]
       [(nm_value, D_num 0), (nm_value_mask, D_num 0)]
       [P_field nm_type_len fL, P_field nm_value fB, P_field nm_value_mask fB]
       None
       [U_local nm__type_len fL, U_assert nm__type_len 206082, U_field nm_value fB,
        U_field nm_value_mask fB]
       [nm_value, nm_value_mask]"

definition of14_oxm_bsn_l3_interface_class_id :: cls where
  "of14_oxm_bsn_l3_interface_class_id =
     Cls ''bsn_l3_interface_class_id'' [(nm_type_len, 198660)]
       [(nm_value, D_num 0)]
       [P_field nm_type_len fL, P_field nm_value fL]
       None
       [U_local nm__type_len fL, U_assert nm__type_len 198660, U_field nm_value fL]
       [nm_value]"

definition of14_oxm_bsn_l3_interface_class_id_masked :: cls where
  "of14_oxm_bsn_l3_interface_class_id_masked =
     Cls ''bsn_l3_interface_class_id_masked'' [(nm_type_len, 198920)]
       [(nm_value, D_num 0), (nm_value_mask, D_num 0)]
       [P_field nm_type_len fL, P_field nm_value fL, P_field nm_value_mask fL]
       None
       [U_local nm__type_len fL, U_assert nm__type_len 198920, U_field nm_value fL,
        U_field nm_value_mask fL]
       [nm_value, nm_value_mask]"

definition of14_oxm_bsn_l3_src_class_id :: cls where
  "of14_oxm_bsn_l3_src_class_id =
     Cls ''bsn_l3_src_class_id'' [(nm_type_len, 199172)]
       [(nm_value, D_num 0)]
       [P_field nm_type_len fL, P_field nm_value fL]
       None
       [U_local nm__type_len fL, U_assert nm__type_len 199172, U_field nm_value fL]
       [nm_value]"

definition of14_oxm_bsn_l3_src_class_id_masked :: cls where
  "of14_oxm_bsn_l3_src_class_id_masked =
     Cls ''bsn_l3_src_class_id_masked'' [(nm_type_len, 199432)]
       [(nm_value, D_num 0), (nm_value_mask, D_num 0)]
       [P_field nm_type_len fL, P_field nm_value fL, P_field nm_value_mask fL]
       None
       [U_local nm__type_len fL, U_assert nm__type_len 199432, U_field nm_value fL,
        U_field nm_value_mask fL]
       [nm_value, nm_value_mask]"

definition of14_oxm_bsn_lag_id :: cls where
  "of14_oxm_bsn_lag_id =
     Cls ''bsn_lag_id'' [(nm_type_len, 197124)]
       [(nm_value, D_num 0)]
       [P_field nm_type_len fL, P_field nm_value fL]
       None
       [U_local nm__type_len fL, U_assert nm__type_len 197124, U_field nm_value fL]
       [nm_value]"

definition of14_oxm_bsn_lag_id_masked :: cls where
  "of14_oxm_bsn_lag_id_masked =
     Cls ''bsn_lag_id_masked'' [(nm_type_len, 197384)]
       [(nm_value, D_num 0), (nm_value_mask, D_num 0)]
       [P_field nm_type_len fL, P_field nm_value fL, P_field nm_value_mask fL]
       None
       [U_local nm__type_len fL, U_assert nm__type_len 197384, U_field nm_value fL,
        U_field nm_value_mask fL]
       [nm_value, nm_value_mask]"

definition of14_oxm_bsn_tcp_flags :: cls where
  "of14_oxm_bsn_tcp_flags =
     Cls ''bsn_tcp_flags'' [(nm_type_len, 204802)]
       [(nm_value, D_num 0)]
       [P_field nm_type_len fL, P_field nm_value fH]
       None
       [U_local nm__type_len fL, U_assert nm__type_len 204802, U_field nm_value fH]
       [nm_value]"

definition of14_oxm_bsn_tcp_flags_masked :: cls where
  "of14_oxm_bsn_tcp_flags_masked =
     Cls ''bsn_tcp_flags_masked'' [(nm_type_len, 205060)]
       [(nm_value, D_num 0), (nm_value_mask, D_num 0)]
       [P_field nm_type_len fL, P_field nm_value fH, P_field nm_value_mask fH]
       None
       [U_local nm__type_len fL, U_assert nm__type_len 205060, U_field nm_value fH,
        U_field nm_value_mask fH]
       [nm_value, nm_value_mask]"

definition of14_oxm_bsn_udf0 :: cls where
  "of14_oxm_bsn_udf0 =
     Cls ''bsn_udf0'' [(nm_type_len, 200708)]
       [(nm_value, D_num 0)]
       [P_field nm_type_len fL, P_field nm_value fL]
       None
       [U_local nm__type_len fL, U_assert nm__type_len 200708, U_field nm_value fL]
       [nm_value]"

definition of14_oxm_bsn_udf0_masked :: cls where
  "of14_oxm_bsn_udf0_masked =
     Cls ''bsn_udf0_masked'' [(nm_type_len, 200968)]
       [(nm_value, D_num 0), (nm_value_mask, D_num 0)]
       [P_field nm_type_len fL, P_field nm_value fL, P_field nm_value_mask fL]
       None
       [U_local nm__type_len fL, U_assert nm__type_len 200968, U_field nm_value fL,
        U_field nm_value_mask fL]
       [nm_value, nm_value_mask]"

definition of14_oxm_bsn_udf1 :: cls where
  "of14_oxm_bsn_udf1 =
     Cls ''bsn_udf1'' [(nm_type_len, 201220)]
       [(nm_value, D_num 0)]
       [P_field nm_type_len fL, P_field nm_value fL]
       None
       [U_local nm__type_len fL, U_assert nm__type_len 201220, U_field nm_value fL]
       [nm_value]"

definition of14_oxm_bsn_udf1_masked :: cls where
  "of14_oxm_bsn_udf1_masked =
     Cls ''bsn_udf1_masked'' [(nm_type_len, 201480)]
       [(nm_value, D_num 0), (nm_value_mask, D_num 0)]
       [P_field nm_type_len fL, P_field nm_value fL, P_field nm_value_mask fL]
       None
       [U_local nm__type_len fL, U_assert nm__type_len 201480, U_field nm_value fL,
        U_field nm_value_mask fL]
       [nm_value, nm_value_mask]"

definition of14_oxm_bsn_udf2 :: cls where
  "of14_oxm_bsn_udf2 =
     Cls ''bsn_udf2'' [(nm_type_len, 201732)]
       [(nm_value, D_num 0)]
       [P_field nm_type_len fL, P_field nm_value fL]
       None
       [U_local nm__type_len fL, U_assert nm__type_len 201732, U_field nm_value fL]
       [nm_value]"

definition of14_oxm_bsn_udf2_masked :: cls where
  "of14_oxm_bsn_udf2_masked =
     Cls ''bsn_udf2_masked'' [(nm_type_len, 201992)]
       [(nm_value, D_num 0), (nm_value_mask, D_num 0)]
       [P_field nm_type_len fL, P_field nm_value fL, P_field nm_value_mask fL]
       None
       [U_local nm__type_len fL, U_assert nm__type_len 201992, U_field nm_value fL,
        U_field nm_value_mask fL]
       [nm_value, nm_value_mask]"

definition of14_oxm_bsn_udf3 :: cls where
  "of14_oxm_bsn_udf3 =
     Cls ''bsn_udf3'' [(nm_type_len, 202244)]
       [(nm_value, D_num 0)]
       [P_field nm_type_len fL, P_field nm_value fL]
       None
       [U_local nm__type_len fL, U_assert nm__type_len 202244, U_field nm_value fL]
       [nm_value]"

definition of14_oxm_bsn_udf3_masked :: cls where
  "of14_oxm_bsn_udf3_masked =
     Cls ''bsn_udf3_masked'' [(nm_type_len, 202504)]
       [(nm_value, D_num 0), (nm_value_mask, D_num 0)]
       [P_field nm_type_len fL, P_field nm_value fL, P_field nm_value_mask fL]
       None
       [U_local nm__type_len fL, U_assert nm__type_len 202504, U_field nm_value fL,
        U_field nm_value_mask fL]
       [nm_value, nm_value_mask]"

definition of14_oxm_bsn_udf4 :: cls where
  "of14_oxm_bsn_udf4 =
     Cls ''bsn_udf4'' [(nm_type_len, 202756)]
       [(nm_value, D_num 0)]
       [P_field nm_type_len fL, P_field nm_value fL]
       None
       [U_local nm__type_len fL, U_assert nm__type_len 202756, U_field nm_value fL]
       [nm_value]"

definition of14_oxm_bsn_udf4_masked :: cls where
  "of14_oxm_bsn_udf4_masked =
     Cls ''bsn_udf4_masked'' [(nm_type_len, 203016)]
       [(nm_value, D_num 0), (nm_value_mask, D_num 0)]
       [P_field nm_type_len fL, P_field nm_value fL, P_field nm_value_mask fL]
       None
       [U_local nm__type_len fL, U_assert nm__type_len 203016, U_field nm_value fL,
        U_field nm_value_mask fL]
       [nm_value, nm_value_mask]"

definition of14_oxm_bsn_udf5 :: cls where
  "of14_oxm_bsn_udf5 =
     Cls ''bsn_udf5'' [(nm_type_len, 203268)]
       [(nm_value, D_num 0)]
       [P_field nm_type_len fL, P_field nm_value fL]
       None
       [U_local nm__type_len fL, U_assert nm__type_len 203268, U_field nm_value fL]
       [nm_value]"

definition of14_oxm_bsn_udf5_masked :: cls where
  "of14_oxm_bsn_udf5_masked =
     Cls ''bsn_udf5_masked'' [(nm_type_len, 203528)]
       [(nm_value, D_num 0), (nm_value_mask, D_num 0)]
       [P_field nm_type_len fL, P_field nm_value fL, P_field nm_value_mask fL]
       None
       [U_local nm__type_len fL, U_assert nm__type_len 203528, U_field nm_value fL,
        U_field nm_value_mask fL]
       [nm_value, nm_value_mask]"

definition of14_oxm_bsn_udf6 :: cls where
  "of14_oxm_bsn_udf6 =
     Cls ''bsn_udf6'' [(nm_type_len, 203780)]
       [(nm_value, D_num 0)]
       [P_field nm_type_len fL, P_field nm_value fL]
       None
       [U_local nm__type_len fL, U_assert nm__type_len 203780, U_field nm_value fL]
       [nm_value]"

definition of14_oxm_bsn_udf6_masked :: cls where
  "of14_oxm_bsn_udf6_masked =
     Cls ''bsn_udf6_masked'' [(nm_type_len, 204040)]
       [(nm_value, D_num 0), (nm_value_mask, D_num 0)]
       [P_field nm_type_len fL, P_field nm_value fL, P_field nm_value_mask fL]
       None
       [U_local nm__type_len fL, U_assert nm__type_len 204040, U_field nm_value fL,
        U_field nm_value_mask fL]
       [nm_value, nm_value_mask]"

definition of14_oxm_bsn_udf7 :: cls where
  "of14_oxm_bsn_udf7 =
     Cls ''bsn_udf7'' [(nm_type_len, 204292)]
       [(nm_value, D_num 0)]
       [P_field nm_type_len fL, P_field nm_value fL]
       None
       [U_local nm__type_len fL, U_assert nm__type_len 204292, U_field nm_value fL]
       [nm_value]"

definition of14_oxm_bsn_udf7_masked :: cls where
  "of14_oxm_bsn_udf7_masked =
     Cls ''bsn_udf7_masked'' [(nm_type_len, 204552)]
       [(nm_value, D_num 0), (nm_value_mask, D_num 0)]
       [P_field nm_type_len fL, P_field nm_value fL, P_field nm_value_mask fL]
       None
       [U_local nm__type_len fL, U_assert nm__type_len 204552, U_field nm_value fL,
        U_field nm_value_mask fL]
       [nm_value, nm_value_mask]"

definition of14_oxm_bsn_vfi :: cls where
  "of14_oxm_bsn_vfi =
     Cls ''bsn_vfi'' [(nm_type_len, 209410)]
       [(nm_value, D_num 0)]
       [P_field nm_type_len fL, P_field nm_value fH]
       None
       [U_local nm__type_len fL, U_assert nm__type_len 209410, U_field nm_value fH]
       [nm_value]"

definition of14_oxm_bsn_vfi_masked :: cls where
  "of14_oxm_bsn_vfi_masked =
     Cls ''bsn_vfi_masked'' [(nm_type_len, 209668)]
       [(nm_value, D_num 0), (nm_value_mask, D_num 0)]
       [P_field nm_type_len fL, P_field nm_value fH, P_field nm_value_mask fH]
       None
       [U_local nm__type_len fL, U_assert nm__type_len 209668, U_field nm_value fH,
        U_field nm_value_mask fH]
       [nm_value, nm_value_mask]"

definition of14_oxm_bsn_vlan_xlate_port_group_id :: cls where
  "of14_oxm_bsn_vlan_xlate_port_group_id =
     Cls ''bsn_vlan_xlate_port_group_id'' [(nm_type_len, 205316)]
       [(nm_value, D_num 0)]
       [P_field nm_type_len fL, P_field nm_value fL]
       None
       [U_local nm__type_len fL, U_assert nm__type_len 205316, U_field nm_value fL]
       [nm_value]"

definition of14_oxm_bsn_vlan_xlate_port_group_id_masked :: cls where
  "of14_oxm_bsn_vlan_xlate_port_group_id_masked =
     Cls ''bsn_vlan_xlate_port_group_id_masked'' [(nm_type_len, 205576)]
       [(nm_value, D_num 0), (nm_value_mask, D_num 0)]
       [P_field nm_type_len fL, P_field nm_value fL, P_field nm_value_mask fL]
       None
       [U_local nm__type_len fL, U_assert nm__type_len 205576, U_field nm_value fL,
        U_field nm_value_mask fL]
       [nm_value, nm_value_mask]"

definition of14_oxm_bsn_vrf :: cls where
  "of14_oxm_bsn_vrf =
     Cls ''bsn_vrf'' [(nm_type_len, 197636)]
       [(nm_value, D_num 0)]
       [P_field nm_type_len fL, P_field nm_value fL]
       None
       [U_local nm__type_len fL, U_assert nm__type_len 197636, U_field nm_value fL]
       [nm_value]"

definition of14_oxm_bsn_vrf_masked :: cls where
  "of14_oxm_bsn_vrf_masked =
     Cls ''bsn_vrf_masked'' [(nm_type_len, 197896)]
       [(nm_value, D_num 0), (nm_value_mask, D_num 0)]
       [P_field nm_type_len fL, P_field nm_value fL, P_field nm_value_mask fL]
       None
       [U_local nm__type_len fL, U_assert nm__type_len 197896, U_field nm_value fL,
        U_field nm_value_mask fL]
       [nm_value, nm_value_mask]"

definition of14_oxm_bsn_vxlan_network_id :: cls where
  "of14_oxm_bsn_vxlan_network_id =
     Cls ''bsn_vxlan_network_id'' [(nm_type_len, 207364)]
       [(nm_value, D_num 0)]
       [P_field nm_type_len fL, P_field nm_value fL]
       None
       [U_local nm__type_len fL, U_assert nm__type_len 207364, U_field nm_value fL]
       [nm_value]"

definition of14_oxm_bsn_vxlan_network_id_masked :: cls where
  "of14_oxm_bsn_vxlan_network_id_masked =
     Cls ''bsn_vxlan_network_id_masked'' [(nm_type_len, 207624)]
       [(nm_value, D_num 0), (nm_value_mask, D_num 0)]
       [P_field nm_type_len fL, P_field nm_value fL, P_field nm_value_mask fL]
       None
       [U_local nm__type_len fL, U_assert nm__type_len 207624, U_field nm_value fL,
        U_field nm_value_mask fL]
       [nm_value, nm_value_mask]"

definition of14_oxm_eth_dst :: cls where
  "of14_oxm_eth_dst =
     Cls ''eth_dst'' [(nm_type_len, 2147485190)]
       [(nm_value, D_nums [0,0,0,0,0,0])]
       [P_field nm_type_len fL, P_field nm_value f6B]
       None
       [U_local nm__type_len fL, U_assert nm__type_len 2147485190, U_field nm_value f6B]
       [nm_value]"

definition of14_oxm_eth_dst_masked :: cls where
  "of14_oxm_eth_dst_masked =
     Cls ''eth_dst_masked'' [(nm_type_len, 2147485452)]
       [(nm_value, D_nums [0,0,0,0,0,0]), (nm_value_mask, D_nums [0,0,0,0,0,0])]
       [P_field nm_type_len fL, P_field nm_value f6B, P_field nm_value_mask f6B]
       None
       [U_local nm__type_len fL, U_assert nm__type_len 2147485452, U_field nm_value f6B,
        U_field nm_value_mask f6B]
       [nm_value, nm_value_mask]"

definition of14_oxm_eth_src :: cls where
  "of14_oxm_eth_src =
     Cls ''eth_src'' [(nm_type_len, 2147485702)]
       [(nm_value, D_nums [0,0,0,0,0,0])]
       [P_field nm_type_len fL, P_field nm_value f6B]
       None
       [U_local nm__type_len fL, U_assert nm__type_len 2147485702, U_field nm_value f6B]
       [nm_value]"

definition of14_oxm_eth_src_masked :: cls where
  "of14_oxm_eth_src_masked =
     Cls ''eth_src_masked'' [(nm_type_len, 2147485964)]
       [(nm_value, D_nums [0,0,0,0,0,0]), (nm_value_mask, D_nums [0,0,0,0,0,0])]
       [P_field nm_type_len fL, P_field nm_value f6B, P_field nm_value_mask f6B]
       None
       [U_local nm__type_len fL, U_assert nm__type_len 2147485964, U_field nm_value f6B,
        U_field nm_value_mask f6B]
       [nm_value, nm_value_mask]"

definition of14_oxm_eth_type :: cls where
  "of14_oxm_eth_type =
     Cls ''eth_type'' [(nm_type_len, 2147486210)]
       [(nm_value, D_num 0)]
       [P_field nm_type_len fL, P_field nm_value fH]
       None
       [U_local nm__type_len fL, U_assert nm__type_len 2147486210, U_field nm_value fH]
       [nm_value]"

definition of14_oxm_eth_type_masked :: cls where
  "of14_oxm_eth_type_masked =
     Cls ''eth_type_masked'' [(nm_type_len, 2147486468)]
       [(nm_value, D_num 0), (nm_value_mask, D_num 0)]
       [P_field nm_type_len fL, P_field nm_value fH, P_field nm_value_mask fH]
       None
       [U_local nm__type_len fL, U_assert nm__type_len 2147486468, U_field nm_value fH,
        U_field nm_value_mask fH]
       [nm_value, nm_value_mask]"

definition of14_oxm_icmpv4_code :: cls where
  "of14_oxm_icmpv4_code =
     Cls ''icmpv4_code'' [(nm_type_len, 2147493889)]
       [(nm_value, D_num 0)]
       [P_field nm_type_len fL, P_field nm_value fB]
       None
       [U_local nm__type_len fL, U_assert nm__type_len 2147493889, U_field nm_value fB]
       [nm_value]"

definition of14_oxm_icmpv4_code_masked :: cls where
  "of14_oxm_icmpv4_code_masked =
     Cls ''icmpv4_code_masked'' [(nm_type_len, 2147494146)]
       [(nm_value, D_num 0), (nm_value_mask, D_num 0)]
       [P_field nm_type_len fL, P_field nm_value fB, P_field nm_value_mask fB]
       None
       [U_local nm__type_len fL, U_assert nm__type_len 2147494146, U_field nm_value fB,
        U_field nm_value_mask fB]
       [nm_value, nm_value_mask]"

definition of14_oxm_icmpv4_type :: cls where
  "of14_oxm_icmpv4_type =
     Cls ''icmpv4_type'' [(nm_type_len, 2147493377)]
       [(nm_value, D_num 0)]
       [P_field nm_type_len fL, P_field nm_value fB]
       None
       [U_local nm__type_len fL, U_assert nm__type_len 2147493377, U_field nm_value fB]
       [nm_value]"

definition of14_oxm_icmpv4_type_masked :: cls where
  "of14_oxm_icmpv4_type_masked =
     Cls ''icmpv4_type_masked'' [(nm_type_len, 2147493634)]
       [(nm_value, D_num 0), (nm_value_mask, D_num 0)]
       [P_field nm_type_len fL, P_field nm_value fB, P_field nm_value_mask fB]
       None
       [U_local nm__type_len fL, U_assert nm__type_len 2147493634, U_field nm_value fB,
        U_field nm_value_mask fB]
       [nm_value, nm_value_mask]"

definition of14_oxm_icmpv6_code :: cls where
  "of14_oxm_icmpv6_code =
     Cls ''icmpv6_code'' [(nm_type_len, 2147499009)]
       [(nm_value, D_num 0)]
       [P_field nm_type_len fL, P_field nm_value fB]
       None
       [U_local nm__type_len fL, U_assert nm__type_len 2147499009, U_field nm_value fB]
       [nm_value]"

definition of14_oxm_icmpv6_code_masked :: cls where
  "of14_oxm_icmpv6_code_masked =
     Cls ''icmpv6_code_masked'' [(nm_type_len, 2147499266)]
       [(nm_value, D_num 0), (nm_value_mask, D_num 0)]
       [P_field nm_type_len fL, P_field nm_value fB, P_field nm_value_mask fB]
       None
       [U_local nm__type_len fL, U_assert nm__type_len 2147499266, U_field nm_value fB,
        U_field nm_value_mask fB]
       [nm_value, nm_value_mask]"

definition of14_oxm_icmpv6_type :: cls where
  "of14_oxm_icmpv6_type =
     Cls ''icmpv6_type'' [(nm_type_len, 2147498497)]
       [(nm_value, D_num 0)]
       [P_field nm_type_len fL, P_field nm_value fB]
       None
       [U_local nm__type_len fL, U_assert nm__type_len 2147498497, U_field nm_value fB]
       [nm_value]"

definition of14_oxm_icmpv6_type_masked :: cls where
  "of14_oxm_icmpv6_type_masked =
     Cls ''icmpv6_type_masked'' [(nm_type_len, 2147498754)]
       [(nm_value, D_num 0), (nm_value_mask, D_num 0)]
       [P_field nm_type_len fL, P_field nm_value fB, P_field nm_value_mask fB]
       None
       [U_local nm__type_len fL, U_assert nm__type_len 2147498754, U_field nm_value fB,
        U_field nm_value_mask fB]
       [nm_value, nm_value_mask]"

definition of14_oxm_in_phy_port :: cls where
  "of14_oxm_in_phy_port =
     Cls ''in_phy_port'' [(nm_type_len, 2147484164)]
       [(nm_value, D_num 0)]
       [P_field nm_type_len fL, P_field nm_value of14_port_no]
       None
       [U_local nm__type_len fL, U_assert nm__type_len 2147484164, U_field nm_value of14_port_no]
       [nm_value]"

definition of14_oxm_in_phy_port_masked :: cls where
  "of14_oxm_in_phy_port_masked =
     Cls ''in_phy_port_masked'' [(nm_type_len, 2147484424)]
       [(nm_value, D_num 0), (nm_value_mask, D_num 0)]
       [P_field nm_type_len fL, P_field nm_value of14_port_no, P_field nm_value_mask of14_port_no]
       None
       [U_local nm__type_len fL, U_assert nm__type_len 2147484424, U_field nm_value of14_port_no,
        U_field nm_value_mask of14_port_no]
       [nm_value, nm_value_mask]"

definition of14_oxm_in_port :: cls where
  "of14_oxm_in_port =
     Cls ''in_port'' [(nm_type_len, 2147483652)]
       [(nm_value, D_num 0)]
       [P_field nm_type_len fL, P_field nm_value of14_port_no]
       None
       [U_local nm__type_len fL, U_assert nm__type_len 2147483652, U_field nm_value of14_port_no]
       [nm_value]"

definition of14_oxm_in_port_masked :: cls where
  "of14_oxm_in_port_masked =
     Cls ''in_port_masked'' [(nm_type_len, 2147483912)]
       [(nm_value, D_num 0), (nm_value_mask, D_num 0)]
       [P_field nm_type_len fL, P_field nm_value of14_port_no, P_field nm_value_mask of14_port_no]
       None
       [U_local nm__type_len fL, U_assert nm__type_len 2147483912, U_field nm_value of14_port_no,
        U_field nm_value_mask of14_port_no]
       [nm_value, nm_value_mask]"

definition of14_oxm_ip_dscp :: cls where
  "of14_oxm_ip_dscp =
     Cls ''ip_dscp'' [(nm_type_len, 2147487745)]
       [(nm_value, D_num 0)]
       [P_field nm_type_len fL, P_field nm_value fB]
       None
       [U_local nm__type_len fL, U_assert nm__type_len 2147487745, U_field nm_value fB]
       [nm_value]"

definition of14_oxm_ip_dscp_masked :: cls where
  "of14_oxm_ip_dscp_masked =
     Cls ''ip_dscp_masked'' [(nm_type_len, 2147488002)]
       [(nm_value, D_num 0), (nm_value_mask, D_num 0)]
       [P_field nm_type_len fL, P_field nm_value fB, P_field nm_value_mask fB]
       None
       [U_local nm__type_len fL, U_assert nm__type_len 2147488002, U_field nm_value fB,
        U_field nm_value_mask fB]
       [nm_value, nm_value_mask]"

definition of14_oxm_ip_ecn :: cls where
  "of14_oxm_ip_ecn =
     Cls ''ip_ecn'' [(nm_type_len, 2147488257)]
       [(nm_value, D_num 0)]
       [P_field nm_type_len fL, P_field nm_value fB]
       None
       [U_local nm__type_len fL, U_assert nm__type_len 2147488257, U_field nm_value fB]
       [nm_value]"

definition of14_oxm_ip_ecn_masked :: cls where
  "of14_oxm_ip_ecn_masked =
     Cls ''ip_ecn_masked'' [(nm_type_len, 2147488514)]
       [(nm_value, D_num 0), (nm_value_mask, D_num 0)]
       [P_field nm_type_len fL, P_field nm_value fB, P_field nm_value_mask fB]
       None
       [U_local nm__type_len fL, U_assert nm__type_len 2147488514, U_field nm_value fB,
        U_field nm_value_mask fB]
       [nm_value, nm_value_mask]"

definition of14_oxm_ip_proto :: cls where
  "of14_oxm_ip_proto =
     Cls ''ip_proto'' [(nm_type_len, 2147488769)]
       [(nm_value, D_num 0)]
       [P_field nm_type_len fL, P_field nm_value fB]
       None
       [U_local nm__type_len fL, U_assert nm__type_len 2147488769, U_field nm_value fB]
       [nm_value]"

definition of14_oxm_ip_proto_masked :: cls where
  "of14_oxm_ip_proto_masked =
     Cls ''ip_proto_masked'' [(nm_type_len, 2147489026)]
       [(nm_value, D_num 0), (nm_value_mask, D_num 0)]
       [P_field nm_type_len fL, P_field nm_value fB, P_field nm_value_mask fB]
       None
       [U_local nm__type_len fL, U_assert nm__type_len 2147489026, U_field nm_value fB,
        U_field nm_value_mask fB]
       [nm_value, nm_value_mask]"

definition of14_oxm_ipv4_dst :: cls where
  "of14_oxm_ipv4_dst =
     Cls ''ipv4_dst'' [(nm_type_len, 2147489796)]
       [(nm_value, D_num 0)]
       [P_field nm_type_len fL, P_field nm_value fL]
       None
       [U_local nm__type_len fL, U_assert nm__type_len 2147489796, U_field nm_value fL]
       [nm_value]"

definition of14_oxm_ipv4_dst_masked :: cls where
  "of14_oxm_ipv4_dst_masked =
     Cls ''ipv4_dst_masked'' [(nm_type_len, 2147490056)]
       [(nm_value, D_num 0), (nm_value_mask, D_num 0)]
       [P_field nm_type_len fL, P_field nm_value fL, P_field nm_value_mask fL]
       None
       [U_local nm__type_len fL, U_assert nm__type_len 2147490056, U_field nm_value fL,
        U_field nm_value_mask fL]
       [nm_value, nm_value_mask]"

definition of14_oxm_ipv4_src :: cls where
  "of14_oxm_ipv4_src =
     Cls ''ipv4_src'' [(nm_type_len, 2147489284)]
       [(nm_value, D_num 0)]
       [P_field nm_type_len fL, P_field nm_value fL]
       None
       [U_local nm__type_len fL, U_assert nm__type_len 2147489284, U_field nm_value fL]
       [nm_value]"

definition of14_oxm_ipv4_src_masked :: cls where
  "of14_oxm_ipv4_src_masked =
     Cls ''ipv4_src_masked'' [(nm_type_len, 2147489544)]
       [(nm_value, D_num 0), (nm_value_mask, D_num 0)]
       [P_field nm_type_len fL, P_field nm_value fL, P_field nm_value_mask fL]
       None
       [U_local nm__type_len fL, U_assert nm__type_len 2147489544, U_field nm_value fL,
        U_field nm_value_mask fL]
       [nm_value, nm_value_mask]"

definition of14_oxm_ipv6_dst :: cls where
  "of14_oxm_ipv6_dst =
     Cls ''ipv6_dst'' [(nm_type_len, 2147497488)]
       [(nm_value, D_str (replicate 16 0))]
       [P_field nm_type_len fL, P_field nm_value (fS 16)]
       None
       [U_local nm__type_len fL, U_assert nm__type_len 2147497488, U_field nm_value (fS 16)]
       [nm_value]"

definition of14_oxm_ipv6_dst_masked :: cls where
  "of14_oxm_ipv6_dst_masked =
     Cls ''ipv6_dst_masked'' [(nm_type_len, 2147497760)]
       [(nm_value, D_str (replicate 16 0)), (nm_value_mask, D_str (replicate 16 0))]
       [P_field nm_type_len fL, P_field nm_value (fS 16), P_field nm_value_mask (fS 16)]
       None
       [U_local nm__type_len fL, U_assert nm__type_len 2147497760, U_field nm_value (fS 16),
        U_field nm_value_mask (fS 16)]
       [nm_value, nm_value_mask]"

definition of14_oxm_ipv6_exthdr :: cls where
  "of14_oxm_ipv6_exthdr =
     Cls ''ipv6_exthdr'' [(nm_type_len, 2147503618)]
       [(nm_value, D_num 0)]
       [P_field nm_type_len fL, P_field nm_value fH]
       None
       [U_local nm__type_len fL, U_assert nm__type_len 2147503618, U_field nm_value fH]
       [nm_value]"

definition of14_oxm_ipv6_exthdr_masked :: cls where
  "of14_oxm_ipv6_exthdr_masked =
     Cls ''ipv6_exthdr_masked'' [(nm_type_len, 2147503876)]
       [(nm_value, D_num 0), (nm_value_mask, D_num 0)]
       [P_field nm_type_len fL, P_field nm_value fH, P_field nm_value_mask fH]
       None
       [U_local nm__type_len fL, U_assert nm__type_len 2147503876, U_field nm_value fH,
        U_field nm_value_mask fH]
       [nm_value, nm_value_mask]"

definition of14_oxm_ipv6_flabel :: cls where
  "of14_oxm_ipv6_flabel =
     Cls ''ipv6_flabel'' [(nm_type_len, 2147497988)]
       [(nm_value, D_num 0)]
       [P_field nm_type_len fL, P_field nm_value fL]
       None
       [U_local nm__type_len fL, U_assert nm__type_len 2147497988, U_field nm_value fL]
       [nm_value]"

definition of14_oxm_ipv6_flabel_masked :: cls where
  "of14_oxm_ipv6_flabel_masked =
     Cls ''ipv6_flabel_masked'' [(nm_type_len, 2147498248)]
       [(nm_value, D_num 0), (nm_value_mask, D_num 0)]
       [P_field nm_type_len fL, P_field nm_value fL, P_field nm_value_mask fL]
       None
       [U_local nm__type_len fL, U_assert nm__type_len 2147498248, U_field nm_value fL,
        U_field nm_value_mask fL]
       [nm_value, nm_value_mask]"

definition of14_oxm_ipv6_nd_sll :: cls where
  "of14_oxm_ipv6_nd_sll =
     Cls ''ipv6_nd_sll'' [(nm_type_len, 2147500038)]
       [(nm_value, D_nums [0,0,0,0,0,0])]
       [P_field nm_type_len fL, P_field nm_value f6B]
       None
       [U_local nm__type_len fL, U_assert nm__type_len 2147500038, U_field nm_value f6B]
       [nm_value]"

definition of14_oxm_ipv6_nd_sll_masked :: cls where
  "of14_oxm_ipv6_nd_sll_masked =
     Cls ''ipv6_nd_sll_masked'' [(nm_type_len, 2147500300)]
       [(nm_value, D_nums [0,0,0,0,0,0]), (nm_value_mask, D_nums [0,0,0,0,0,0])]
       [P_field nm_type_len fL, P_field nm_value f6B, P_field nm_value_mask f6B]
       None
       [U_local nm__type_len fL, U_assert nm__type_len 2147500300, U_field nm_value f6B,
        U_field nm_value_mask f6B]
       [nm_value, nm_value_mask]"

definition of14_oxm_ipv6_nd_target :: cls where
  "of14_oxm_ipv6_nd_target =
     Cls ''ipv6_nd_target'' [(nm_type_len, 2147499536)]
       [(nm_value, D_str (replicate 16 0))]
       [P_field nm_type_len fL, P_field nm_value (fS 16)]
       None
       [U_local nm__type_len fL, U_assert nm__type_len 2147499536, U_field nm_value (fS 16)]
       [nm_value]"

definition of14_oxm_ipv6_nd_target_masked :: cls where
  "of14_oxm_ipv6_nd_target_masked =
     Cls ''ipv6_nd_target_masked'' [(nm_type_len, 2147499808)]
       [(nm_value, D_str (replicate 16 0)), (nm_value_mask, D_str (replicate 16 0))]
       [P_field nm_type_len fL, P_field nm_value (fS 16), P_field nm_value_mask (fS 16)]
       None
       [U_local nm__type_len fL, U_assert nm__type_len 2147499808, U_field nm_value (fS 16),
        U_field nm_value_mask (fS 16)]
       [nm_value, nm_value_mask]"

definition of14_oxm_ipv6_nd_tll :: cls where
  "of14_oxm_ipv6_nd_tll =
     Cls ''ipv6_nd_tll'' [(nm_type_len, 2147500550)]
       [(nm_value, D_nums [0,0,0,0,0,0])]
       [P_field nm_type_len fL, P_field nm_value f6B]
       None
       [U_local nm__type_len fL, U_assert nm__type_len 2147500550, U_field nm_value f6B]
       [nm_value]"

definition of14_oxm_ipv6_nd_tll_masked :: cls where
  "of14_oxm_ipv6_nd_tll_masked =
     Cls ''ipv6_nd_tll_masked'' [(nm_type_len, 2147500812)]
       [(nm_value, D_nums [0,0,0,0,0,0]), (nm_value_mask, D_nums [0,0,0,0,0,0])]
       [P_field nm_type_len fL, P_field nm_value f6B, P_field nm_value_mask f6B]
       None
       [U_local nm__type_len fL, U_assert nm__type_len 2147500812, U_field nm_value f6B,
        U_field nm_value_mask f6B]
       [nm_value, nm_value_mask]"

definition of14_oxm_ipv6_src :: cls where
  "of14_oxm_ipv6_src =
     Cls ''ipv6_src'' [(nm_type_len, 2147496976)]
       [(nm_value, D_str (replicate 16 0))]
       [P_field nm_type_len fL, P_field nm_value (fS 16)]
       None
       [U_local nm__type_len fL, U_assert nm__type_len 2147496976, U_field nm_value (fS 16)]
       [nm_value]"

definition of14_oxm_ipv6_src_masked :: cls where
  "of14_oxm_ipv6_src_masked =
     Cls ''ipv6_src_masked'' [(nm_type_len, 2147497248)]
       [(nm_value, D_str (replicate 16 0)), (nm_value_mask, D_str (replicate 16 0))]
       [P_field nm_type_len fL, P_field nm_value (fS 16), P_field nm_value_mask (fS 16)]
       None
       [U_local nm__type_len fL, U_assert nm__type_len 2147497248, U_field nm_value (fS 16),
        U_field nm_value_mask (fS 16)]
       [nm_value, nm_value_mask]"

definition of14_oxm_metadata :: cls where
  "of14_oxm_metadata =
     Cls ''metadata'' [(nm_type_len, 2147484680)]
       [(nm_value, D_num 0)]
       [P_field nm_type_len fL, P_field nm_value fQ]
       None
       [U_local nm__type_len fL, U_assert nm__type_len 2147484680, U_field nm_value fQ]
       [nm_value]"

definition of14_oxm_metadata_masked :: cls where
  "of14_oxm_metadata_masked =
     Cls ''metadata_masked'' [(nm_type_len, 2147484944)]
       [(nm_value, D_num 0), (nm_value_mask, D_num 0)]
       [P_field nm_type_len fL, P_field nm_value fQ, P_field nm_value_mask fQ]
       None
       [U_local nm__type_len fL, U_assert nm__type_len 2147484944, U_field nm_value fQ,
        U_field nm_value_mask fQ]
       [nm_value, nm_value_mask]"

definition of14_oxm_mpls_bos :: cls where
  "of14_oxm_mpls_bos =
     Cls ''mpls_bos'' [(nm_type_len, 2147502081)]
       [(nm_value, D_num 0)]
       [P_field nm_type_len fL, P_field nm_value fB]
       None
       [U_local nm__type_len fL, U_assert nm__type_len 2147502081, U_field nm_value fB]
       [nm_value]"

definition of14_oxm_mpls_bos_masked :: cls where
  "of14_oxm_mpls_bos_masked =
     Cls ''mpls_bos_masked'' [(nm_type_len, 2147502338)]
       [(nm_value, D_num 0), (nm_value_mask, D_num 0)]
       [P_field nm_type_len fL, P_field nm_value fB, P_field nm_value_mask fB]
       None
       [U_local nm__type_len fL, U_assert nm__type_len 2147502338, U_field nm_value fB,
        U_field nm_value_mask fB]
       [nm_value, nm_value_mask]"

definition of14_oxm_mpls_label :: cls where
  "of14_oxm_mpls_label =
     Cls ''mpls_label'' [(nm_type_len, 2147501060)]
       [(nm_value, D_num 0)]
       [P_field nm_type_len fL, P_field nm_value fL]
       None
       [U_local nm__type_len fL, U_assert nm__type_len 2147501060, U_field nm_value fL]
       [nm_value]"

definition of14_oxm_mpls_label_masked :: cls where
  "of14_oxm_mpls_label_masked =
     Cls ''mpls_label_masked'' [(nm_type_len, 2147501320)]
       [(nm_value, D_num 0), (nm_value_mask, D_num 0)]
       [P_field nm_type_len fL, P_field nm_value fL, P_field nm_value_mask fL]
       None
       [U_local nm__type_len fL, U_assert nm__type_len 2147501320, U_field nm_value fL,
        U_field nm_value_mask fL]
       [nm_value, nm_value_mask]"

definition of14_oxm_mpls_tc :: cls where
  "of14_oxm_mpls_tc =
     Cls ''mpls_tc'' [(nm_type_len, 2147501569)]
       [(nm_value, D_num 0)]
       [P_field nm_type_len fL, P_field nm_value fB]
       None
       [U_local nm__type_len fL, U_assert nm__type_len 2147501569, U_field nm_value fB]
       [nm_value]"

definition of14_oxm_mpls_tc_masked :: cls where
  "of14_oxm_mpls_tc_masked =
     Cls ''mpls_tc_masked'' [(nm_type_len, 2147501826)]
       [(nm_value, D_num 0), (nm_value_mask, D_num 0)]
       [P_field nm_type_len fL, P_field nm_value fB, P_field nm_value_mask fB]
       None
       [U_local nm__type_len fL, U_assert nm__type_len 2147501826, U_field nm_value fB,
        U_field nm_value_mask fB]
       [nm_value, nm_value_mask]"

definition of14_oxm_pbb_uca :: cls where
  "of14_oxm_pbb_uca =
     Cls ''pbb_uca'' [(nm_type_len, 2147504641)]
       [(nm_value, D_num 0)]
       [P_field nm_type_len fL, P_field nm_value fB]
       None
       [U_local nm__type_len fL, U_assert nm__type_len 2147504641, U_field nm_value fB]
       [nm_value]"

definition of14_oxm_pbb_uca_masked :: cls where
  "of14_oxm_pbb_uca_masked =
     Cls ''pbb_uca_masked'' [(nm_type_len, 2147504898)]
       [(nm_value, D_num 0), (nm_value_mask, D_num 0)]
       [P_field nm_type_len fL, P_field nm_value fB, P_field nm_value_mask fB]
       None
       [U_local nm__type_len fL, U_assert nm__type_len 2147504898, U_field nm_value fB,
        U_field nm_value_mask fB]
       [nm_value, nm_value_mask]"

definition of14_oxm_sctp_dst :: cls where
  "of14_oxm_sctp_dst =
     Cls ''sctp_dst'' [(nm_type_len, 2147492866)]
       [(nm_value, D_num 0)]
       [P_field nm_type_len fL, P_field nm_value fH]
       None
       [U_local nm__type_len fL, U_assert nm__type_len 2147492866, U_field nm_value fH]
       [nm_value]"

definition of14_oxm_sctp_dst_masked :: cls where
  "of14_oxm_sctp_dst_masked =
     Cls ''sctp_dst_masked'' [(nm_type_len, 2147493124)]
       [(nm_value, D_num 0), (nm_value_mask, D_num 0)]
       [P_field nm_type_len fL, P_field nm_value fH, P_field nm_value_mask fH]
       None
       [U_local nm__type_len fL, U_assert nm__type_len 2147493124, U_field nm_value fH,
        U_field nm_value_mask fH]
       [nm_value, nm_value_mask]"

definition of14_oxm_sctp_src :: cls where
  "of14_oxm_sctp_src =
     Cls ''sctp_src'' [(nm_type_len, 2147492354)]
       [(nm_value, D_num 0)]
       [P_field nm_type_len fL, P_field nm_value fH]
       None
       [U_local nm__type_len fL, U_assert nm__type_len 2147492354, U_field nm_value fH]
       [nm_value]"

definition of14_oxm_sctp_src_masked :: cls where
  "of14_oxm_sctp_src_masked =
     Cls ''sctp_src_masked'' [(nm_type_len, 2147492612)]
       [(nm_value, D_num 0), (nm_value_mask, D_num 0)]
       [P_field nm_type_len fL, P_field nm_value fH, P_field nm_value_mask fH]
       None
       [U_local nm__type_len fL, U_assert nm__type_len 2147492612, U_field nm_value fH,
        U_field nm_value_mask fH]
       [nm_value, nm_value_mask]"

definition of14_oxm_tcp_dst :: cls where
  "of14_oxm_tcp_dst =
     Cls ''tcp_dst'' [(nm_type_len, 2147490818)]
       [(nm_value, D_num 0)]
       [P_field nm_type_len fL, P_field nm_value fH]
       None
       [U_local nm__type_len fL, U_assert nm__type_len 2147490818, U_field nm_value fH]
       [nm_value]"

definition of14_oxm_tcp_dst_masked :: cls where
  "of14_oxm_tcp_dst_masked =
     Cls ''tcp_dst_masked'' [(nm_type_len, 2147491076)]
       [(nm_value, D_num 0), (nm_value_mask, D_num 0)]
       [P_field nm_type_len fL, P_field nm_value fH, P_field nm_value_mask fH]
       None
       [U_local nm__type_len fL, U_assert nm__type_len 2147491076, U_field nm_value fH,
        U_field nm_value_mask fH]
       [nm_value, nm_value_mask]"

definition of14_oxm_tcp_src :: cls where
  "of14_oxm_tcp_src =
     Cls ''tcp_src'' [(nm_type_len, 2147490306)]
       [(nm_value, D_num 0)]
       [P_field nm_type_len fL, P_field nm_value fH]
       None
       [U_local nm__type_len fL, U_assert nm__type_len 2147490306, U_field nm_value fH]
       [nm_value]"

definition of14_oxm_tcp_src_masked :: cls where
  "of14_oxm_tcp_src_masked =
     Cls ''tcp_src_masked'' [(nm_type_len, 2147490564)]
       [(nm_value, D_num 0), (nm_value_mask, D_num 0)]
       [P_field nm_type_len fL, P_field nm_value fH, P_field nm_value_mask fH]
       None
       [U_local nm__type_len fL, U_assert nm__type_len 2147490564, U_field nm_value fH,
        U_field nm_value_mask fH]
       [nm_value, nm_value_mask]"

definition of14_oxm_tunnel_id :: cls where
  "of14_oxm_tunnel_id =
     Cls ''tunnel_id'' [(nm_type_len, 2147503112)]
       [(nm_value, D_num 0)]
       [P_field nm_type_len fL, P_field nm_value fQ]
       None
       [U_local nm__type_len fL, U_assert nm__type_len 2147503112, U_field nm_value fQ]
       [nm_value]"

definition of14_oxm_tunnel_id_masked :: cls where
  "of14_oxm_tunnel_id_masked =
     Cls ''tunnel_id_masked'' [(nm_type_len, 2147503376)]
       [(nm_value, D_num 0), (nm_value_mask, D_num 0)]
       [P_field nm_type_len fL, P_field nm_value fQ, P_field nm_value_mask fQ]
       None
       [U_local nm__type_len fL, U_assert nm__type_len 2147503376, U_field nm_value fQ,
        U_field nm_value_mask fQ]
       [nm_value, nm_value_mask]"

definition of14_oxm_tunnel_ipv4_dst :: cls where
  "of14_oxm_tunnel_ipv4_dst =
     Cls ''tunnel_ipv4_dst'' [(nm_type_len, 81924)]
       [(nm_value, D_num 0)]
       [P_field nm_type_len fL, P_field nm_value fL]
       None
       [U_local nm__type_len fL, U_assert nm__type_len 81924, U_field nm_value fL]
       [nm_value]"

definition of14_oxm_tunnel_ipv4_dst_masked :: cls where
  "of14_oxm_tunnel_ipv4_dst_masked =
     Cls ''tunnel_ipv4_dst_masked'' [(nm_type_len, 82184)]
       [(nm_value, D_num 0), (nm_value_mask, D_num 0)]
       [P_field nm_type_len fL, P_field nm_value fL, P_field nm_value_mask fL]
       None
       [U_local nm__type_len fL, U_assert nm__type_len 82184, U_field nm_value fL,
        U_field nm_value_mask fL]
       [nm_value, nm_value_mask]"

definition of14_oxm_tunnel_ipv4_src :: cls where
  "of14_oxm_tunnel_ipv4_src =
     Cls ''tunnel_ipv4_src'' [(nm_type_len, 81412)]
       [(nm_value, D_num 0)]
       [P_field nm_type_len fL, P_field nm_value fL]
       None
       [U_local nm__type_len fL, U_assert nm__type_len 81412, U_field nm_value fL]
       [nm_value]"

definition of14_oxm_tunnel_ipv4_src_masked :: cls where
  "of14_oxm_tunnel_ipv4_src_masked =
     Cls ''tunnel_ipv4_src_masked'' [(nm_type_len, 81672)]
       [(nm_value, D_num 0), (nm_value_mask, D_num 0)]
       [P_field nm_type_len fL, P_field nm_value fL, P_field nm_value_mask fL]
       None
       [U_local nm__type_len fL, U_assert nm__type_len 81672, U_field nm_value fL,
        U_field nm_value_mask fL]
       [nm_value, nm_value_mask]"

definition of14_oxm_udp_dst :: cls where
  "of14_oxm_udp_dst =
     Cls ''udp_dst'' [(nm_type_len, 2147491842)]
       [(nm_value, D_num 0)]
       [P_field nm_type_len fL, P_field nm_value fH]
       None
       [U_local nm__type_len fL, U_assert nm__type_len 2147491842, U_field nm_value fH]
       [nm_value]"

definition of14_oxm_udp_dst_masked :: cls where
  "of14_oxm_udp_dst_masked =
     Cls ''udp_dst_masked'' [(nm_type_len, 2147492100)]
       [(nm_value, D_num 0), (nm_value_mask, D_num 0)]
       [P_field nm_type_len fL, P_field nm_value fH, P_field nm_value_mask fH]
       None
       [U_local nm__type_len fL, U_assert nm__type_len 2147492100, U_field nm_value fH,
        U_field nm_value_mask fH]
       [nm_value, nm_value_mask]"

definition of14_oxm_udp_src :: cls where
  "of14_oxm_udp_src =
     Cls ''udp_src'' [(nm_type_len, 2147491330)]
       [(nm_value, D_num 0)]
       [P_field nm_type_len fL, P_field nm_value fH]
       None
       [U_local nm__type_len fL, U_assert nm__type_len 2147491330, U_field nm_value fH]
       [nm_value]"

definition of14_oxm_udp_src_masked :: cls where
  "of14_oxm_udp_src_masked =
     Cls ''udp_src_masked'' [(nm_type_len, 2147491588)]
       [(nm_value, D_num 0), (nm_value_mask, D_num 0)]
       [P_field nm_type_len fL, P_field nm_value fH, P_field nm_value_mask fH]
       None
       [U_local nm__type_len fL, U_assert nm__type_len 2147491588, U_field nm_value fH,
        U_field nm_value_mask fH]
       [nm_value, nm_value_mask]"

definition of14_oxm_vlan_pcp :: cls where
  "of14_oxm_vlan_pcp =
     Cls ''vlan_pcp'' [(nm_type_len, 2147487233)]
       [(nm_value, D_num 0)]
       [P_field nm_type_len fL, P_field nm_value fB]
       None
       [U_local nm__type_len fL, U_assert nm__type_len 2147487233, U_field nm_value fB]
       [nm_value]"

definition of14_oxm_vlan_pcp_masked :: cls where
  "of14_oxm_vlan_pcp_masked =
     Cls ''vlan_pcp_masked'' [(nm_type_len, 2147487490)]
       [(nm_value, D_num 0), (nm_value_mask, D_num 0)]
       [P_field nm_type_len fL, P_field nm_value fB, P_field nm_value_mask fB]
       None
       [U_local nm__type_len fL, U_assert nm__type_len 2147487490, U_field nm_value fB,
        U_field nm_value_mask fB]
       [nm_value, nm_value_mask]"

definition of14_oxm_vlan_vid :: cls where
  "of14_oxm_vlan_vid =
     Cls ''vlan_vid'' [(nm_type_len, 2147486722)]
       [(nm_value, D_num 0)]
       [P_field nm_type_len fL, P_field nm_value fH]
       None
       [U_local nm__type_len fL, U_assert nm__type_len 2147486722, U_field nm_value fH]
       [nm_value]"

definition of14_oxm_vlan_vid_masked :: cls where
  "of14_oxm_vlan_vid_masked =
     Cls ''vlan_vid_masked'' [(nm_type_len, 2147486980)]
       [(nm_value, D_num 0), (nm_value_mask, D_num 0)]
       [P_field nm_type_len fL, P_field nm_value fH, P_field nm_value_mask fH]
       None
       [U_local nm__type_len fL, U_assert nm__type_len 2147486980, U_field nm_value fH,
        U_field nm_value_mask fH]
       [nm_value, nm_value_mask]"

definition of14_oxm_oxm :: cls where
  "of14_oxm_oxm =
     Cls ''oxm'' []
       [(nm_type_len, D_num 0)]
       [P_field nm_type_len fL]
       (Some (fL, 0,
         [(2147494402, of14_oxm_arp_op), (2147494660, of14_oxm_arp_op_masked),
          (2147495942, of14_oxm_arp_sha), (2147496204, of14_oxm_arp_sha_masked),
          (2147494916, of14_oxm_arp_spa), (2147495176, of14_oxm_arp_spa_masked),
          (2147496454, of14_oxm_arp_tha), (2147496716, of14_oxm_arp_tha_masked),
          (2147495428, of14_oxm_arp_tpa), (2147495688, of14_oxm_arp_tpa_masked),
          (200196, of14_oxm_bsn_egr_port_group_id),
          (200456, of14_oxm_bsn_egr_port_group_id_masked), (196624, of14_oxm_bsn_in_ports_128),
          (196896, of14_oxm_bsn_in_ports_128_masked), (206400, of14_oxm_bsn_in_ports_512),
          (206720, of14_oxm_bsn_in_ports_512_masked), (206852, of14_oxm_bsn_ingress_port_group_id),
          (207112, of14_oxm_bsn_ingress_port_group_id_masked),
          (207878, of14_oxm_bsn_inner_eth_dst), (208140, of14_oxm_bsn_inner_eth_dst_masked),
          (208390, of14_oxm_bsn_inner_eth_src), (208652, of14_oxm_bsn_inner_eth_src_masked),
          (208898, of14_oxm_bsn_inner_vlan_vid), (209156, of14_oxm_bsn_inner_vlan_vid_masked),
          (205825, of14_oxm_bsn_l2_cache_hit), (206082, of14_oxm_bsn_l2_cache_hit_masked),
          (198660, of14_oxm_bsn_l3_interface_class_id),
          (198920, of14_oxm_bsn_l3_interface_class_id_masked),
          (199172, of14_oxm_bsn_l3_src_class_id), (199432, of14_oxm_bsn_l3_src_class_id_masked),
          (197124, of14_oxm_bsn_lag_id), (197384, of14_oxm_bsn_lag_id_masked),
          (204802, of14_oxm_bsn_tcp_flags), (205060, of14_oxm_bsn_tcp_flags_masked),
          (200708, of14_oxm_bsn_udf0), (200968, of14_oxm_bsn_udf0_masked),
          (201220, of14_oxm_bsn_udf1), (201480, of14_oxm_bsn_udf1_masked),
          (201732, of14_oxm_bsn_udf2), (201992, of14_oxm_bsn_udf2_masked),
          (202244, of14_oxm_bsn_udf3), (202504, of14_oxm_bsn_udf3_masked),
          (202756, of14_oxm_bsn_udf4), (203016, of14_oxm_bsn_udf4_masked),
          (203268, of14_oxm_bsn_udf5), (203528, of14_oxm_bsn_udf5_masked),
          (203780, of14_oxm_bsn_udf6), (204040, of14_oxm_bsn_udf6_masked),
          (204292, of14_oxm_bsn_udf7), (204552, of14_oxm_bsn_udf7_masked),
          (209410, of14_oxm_bsn_vfi), (209668, of14_oxm_bsn_vfi_masked),
          (205316, of14_oxm_bsn_vlan_xlate_port_group_id),
          (205576, of14_oxm_bsn_vlan_xlate_port_group_id_masked), (197636, of14_oxm_bsn_vrf),
          (197896, of14_oxm_bsn_vrf_masked), (207364, of14_oxm_bsn_vxlan_network_id),
          (207624, of14_oxm_bsn_vxlan_network_id_masked), (2147485190, of14_oxm_eth_dst),
          (2147485452, of14_oxm_eth_dst_masked), (2147485702, of14_oxm_eth_src),
          (2147485964, of14_oxm_eth_src_masked), (2147486210, of14_oxm_eth_type),
          (2147486468, of14_oxm_eth_type_masked), (2147493889, of14_oxm_icmpv4_code),
          (2147494146, of14_oxm_icmpv4_code_masked), (2147493377, of14_oxm_icmpv4_type),
          (2147493634, of14_oxm_icmpv4_type_masked), (2147499009, of14_oxm_icmpv6_code),
          (2147499266, of14_oxm_icmpv6_code_masked), (2147498497, of14_oxm_icmpv6_type),
          (2147498754, of14_oxm_icmpv6_type_masked), (2147484164, of14_oxm_in_phy_port),
          (2147484424, of14_oxm_in_phy_port_masked), (2147483652, of14_oxm_in_port),
          (2147483912, of14_oxm_in_port_masked), (2147487745, of14_oxm_ip_dscp),
          (2147488002, of14_oxm_ip_dscp_masked), (2147488257, of14_oxm_ip_ecn),
          (2147488514, of14_oxm_ip_ecn_masked), (2147488769, of14_oxm_ip_proto),
          (2147489026, of14_oxm_ip_proto_masked), (2147489796, of14_oxm_ipv4_dst),
          (2147490056, of14_oxm_ipv4_dst_masked), (2147489284, of14_oxm_ipv4_src),
          (2147489544, of14_oxm_ipv4_src_masked), (2147497488, of14_oxm_ipv6_dst),
          (2147497760, of14_oxm_ipv6_dst_masked), (2147503618, of14_oxm_ipv6_exthdr),
          (2147503876, of14_oxm_ipv6_exthdr_masked), (2147497988, of14_oxm_ipv6_flabel),
          (2147498248, of14_oxm_ipv6_flabel_masked), (2147500038, of14_oxm_ipv6_nd_sll),
          (2147500300, of14_oxm_ipv6_nd_sll_masked), (2147499536, of14_oxm_ipv6_nd_target),
          (2147499808, of14_oxm_ipv6_nd_target_masked), (2147500550, of14_oxm_ipv6_nd_tll),
          (2147500812, of14_oxm_ipv6_nd_tll_masked), (2147496976, of14_oxm_ipv6_src),
          (2147497248, of14_oxm_ipv6_src_masked), (2147484680, of14_oxm_metadata),
          (2147484944, of14_oxm_metadata_masked), (2147502081, of14_oxm_mpls_bos),
          (2147502338, of14_oxm_mpls_bos_masked), (2147501060, of14_oxm_mpls_label),
          (2147501320, of14_oxm_mpls_label_masked), (2147501569, of14_oxm_mpls_tc),
          (2147501826, of14_oxm_mpls_tc_masked), (2147504641, of14_oxm_pbb_uca),
          (2147504898, of14_oxm_pbb_uca_masked), (2147492866, of14_oxm_sctp_dst),
          (2147493124, of14_oxm_sctp_dst_masked), (2147492354, of14_oxm_sctp_src),
          (2147492612, of14_oxm_sctp_src_masked), (2147490818, of14_oxm_tcp_dst),
          (2147491076, of14_oxm_tcp_dst_masked), (2147490306, of14_oxm_tcp_src),
          (2147490564, of14_oxm_tcp_src_masked), (2147503112, of14_oxm_tunnel_id),
          (2147503376, of14_oxm_tunnel_id_masked), (81924, of14_oxm_tunnel_ipv4_dst),
          (82184, of14_oxm_tunnel_ipv4_dst_masked), (81412, of14_oxm_tunnel_ipv4_src),
          (81672, of14_oxm_tunnel_ipv4_src_masked), (2147491842, of14_oxm_udp_dst),
          (2147492100, of14_oxm_udp_dst_masked), (2147491330, of14_oxm_udp_src),
          (2147491588, of14_oxm_udp_src_masked), (2147487233, of14_oxm_vlan_pcp),
          (2147487490, of14_oxm_vlan_pcp_masked), (2147486722, of14_oxm_vlan_vid),
          (2147486980, of14_oxm_vlan_vid_masked)]))
       [U_field nm_type_len fL]
       [nm_type_len]"


section \<open>pack and unpack agree\<close>

lemma of14Oxm_checked_1a [unfolded list.pred_inject prod.case, loxi_checked]:
  "list_all codec_ok
    [of14_oxm_arp_op, of14_oxm_arp_op_masked, of14_oxm_arp_sha, of14_oxm_arp_sha_masked, of14_oxm_arp_spa,
     of14_oxm_arp_spa_masked, of14_oxm_arp_tha, of14_oxm_arp_tha_masked, of14_oxm_arp_tpa,
     of14_oxm_arp_tpa_masked, of14_oxm_bsn_egr_port_group_id, of14_oxm_bsn_egr_port_group_id_masked,
     of14_oxm_bsn_in_ports_128, of14_oxm_bsn_in_ports_128_masked, of14_oxm_bsn_in_ports_512,
     of14_oxm_bsn_in_ports_512_masked, of14_oxm_bsn_ingress_port_group_id,
     of14_oxm_bsn_ingress_port_group_id_masked, of14_oxm_bsn_inner_eth_dst,
     of14_oxm_bsn_inner_eth_dst_masked, of14_oxm_bsn_inner_eth_src, of14_oxm_bsn_inner_eth_src_masked,
     of14_oxm_bsn_inner_vlan_vid, of14_oxm_bsn_inner_vlan_vid_masked, of14_oxm_bsn_l2_cache_hit,
     of14_oxm_bsn_l2_cache_hit_masked, of14_oxm_bsn_l3_interface_class_id,
     of14_oxm_bsn_l3_interface_class_id_masked, of14_oxm_bsn_l3_src_class_id,
     of14_oxm_bsn_l3_src_class_id_masked, of14_oxm_bsn_lag_id, of14_oxm_bsn_lag_id_masked,
     of14_oxm_bsn_tcp_flags, of14_oxm_bsn_tcp_flags_masked, of14_oxm_bsn_udf0, of14_oxm_bsn_udf0_masked,
     of14_oxm_bsn_udf1, of14_oxm_bsn_udf1_masked, of14_oxm_bsn_udf2, of14_oxm_bsn_udf2_masked]"
  "list_all safe_cls
    [of14_oxm_arp_op, of14_oxm_arp_op_masked, of14_oxm_arp_sha, of14_oxm_arp_sha_masked, of14_oxm_arp_spa,
     of14_oxm_arp_spa_masked, of14_oxm_arp_tha, of14_oxm_arp_tha_masked, of14_oxm_arp_tpa,
     of14_oxm_arp_tpa_masked, of14_oxm_bsn_egr_port_group_id, of14_oxm_bsn_egr_port_group_id_masked,
     of14_oxm_bsn_in_ports_128, of14_oxm_bsn_in_ports_128_masked, of14_oxm_bsn_in_ports_512,
     of14_oxm_bsn_in_ports_512_masked, of14_oxm_bsn_ingress_port_group_id,
     of14_oxm_bsn_ingress_port_group_id_masked, of14_oxm_bsn_inner_eth_dst,
     of14_oxm_bsn_inner_eth_dst_masked, of14_oxm_bsn_inner_eth_src, of14_oxm_bsn_inner_eth_src_masked,
     of14_oxm_bsn_inner_vlan_vid, of14_oxm_bsn_inner_vlan_vid_masked, of14_oxm_bsn_l2_cache_hit,
     of14_oxm_bsn_l2_cache_hit_masked, of14_oxm_bsn_l3_interface_class_id,
     of14_oxm_bsn_l3_interface_class_id_masked, of14_oxm_bsn_l3_src_class_id,
     of14_oxm_bsn_l3_src_class_id_masked, of14_oxm_bsn_lag_id, of14_oxm_bsn_lag_id_masked,
     of14_oxm_bsn_tcp_flags, of14_oxm_bsn_tcp_flags_masked, of14_oxm_bsn_udf0, of14_oxm_bsn_udf0_masked,
     of14_oxm_bsn_udf1, of14_oxm_bsn_udf1_masked, of14_oxm_bsn_udf2, of14_oxm_bsn_udf2_masked]"
  "list_all (\<lambda>c. \<not> needs_align c)
    [of14_oxm_arp_op, of14_oxm_arp_op_masked, of14_oxm_arp_sha, of14_oxm_arp_sha_masked, of14_oxm_arp_spa,
     of14_oxm_arp_spa_masked, of14_oxm_arp_tha, of14_oxm_arp_tha_masked, of14_oxm_arp_tpa,
     of14_oxm_arp_tpa_masked, of14_oxm_bsn_egr_port_group_id, of14_oxm_bsn_egr_port_group_id_masked,
     of14_oxm_bsn_in_ports_128, of14_oxm_bsn_in_ports_128_masked, of14_oxm_bsn_in_ports_512,
     of14_oxm_bsn_in_ports_512_masked, of14_oxm_bsn_ingress_port_group_id,
     of14_oxm_bsn_ingress_port_group_id_masked, of14_oxm_bsn_inner_eth_dst,
     of14_oxm_bsn_inner_eth_dst_masked, of14_oxm_bsn_inner_eth_src, of14_oxm_bsn_inner_eth_src_masked,
     of14_oxm_bsn_inner_vlan_vid, of14_oxm_bsn_inner_vlan_vid_masked, of14_oxm_bsn_l2_cache_hit,
     of14_oxm_bsn_l2_cache_hit_masked, of14_oxm_bsn_l3_interface_class_id,
     of14_oxm_bsn_l3_interface_class_id_masked, of14_oxm_bsn_l3_src_class_id,
     of14_oxm_bsn_l3_src_class_id_masked, of14_oxm_bsn_lag_id, of14_oxm_bsn_lag_id_masked,
     of14_oxm_bsn_tcp_flags, of14_oxm_bsn_tcp_flags_masked, of14_oxm_bsn_udf0, of14_oxm_bsn_udf0_masked,
     of14_oxm_bsn_udf1, of14_oxm_bsn_udf1_masked, of14_oxm_bsn_udf2, of14_oxm_bsn_udf2_masked]"
  "list_all (\<lambda>(k, c). writes_const fL 0 k c)
    [(2147494402, of14_oxm_arp_op), (2147494660, of14_oxm_arp_op_masked), (2147495942, of14_oxm_arp_sha),
     (2147496204, of14_oxm_arp_sha_masked), (2147494916, of14_oxm_arp_spa),
     (2147495176, of14_oxm_arp_spa_masked), (2147496454, of14_oxm_arp_tha),
     (2147496716, of14_oxm_arp_tha_masked), (2147495428, of14_oxm_arp_tpa),
     (2147495688, of14_oxm_arp_tpa_masked), (200196, of14_oxm_bsn_egr_port_group_id),
     (200456, of14_oxm_bsn_egr_port_group_id_masked), (196624, of14_oxm_bsn_in_ports_128),
     (196896, of14_oxm_bsn_in_ports_128_masked), (206400, of14_oxm_bsn_in_ports_512),
     (206720, of14_oxm_bsn_in_ports_512_masked), (206852, of14_oxm_bsn_ingress_port_group_id),
     (207112, of14_oxm_bsn_ingress_port_group_id_masked), (207878, of14_oxm_bsn_inner_eth_dst),
     (208140, of14_oxm_bsn_inner_eth_dst_masked), (208390, of14_oxm_bsn_inner_eth_src),
     (208652, of14_oxm_bsn_inner_eth_src_masked), (208898, of14_oxm_bsn_inner_vlan_vid),
     (209156, of14_oxm_bsn_inner_vlan_vid_masked), (205825, of14_oxm_bsn_l2_cache_hit),
     (206082, of14_oxm_bsn_l2_cache_hit_masked), (198660, of14_oxm_bsn_l3_interface_class_id),
     (198920, of14_oxm_bsn_l3_interface_class_id_masked), (199172, of14_oxm_bsn_l3_src_class_id),
     (199432, of14_oxm_bsn_l3_src_class_id_masked), (197124, of14_oxm_bsn_lag_id),
     (197384, of14_oxm_bsn_lag_id_masked), (204802, of14_oxm_bsn_tcp_flags),
     (205060, of14_oxm_bsn_tcp_flags_masked), (200708, of14_oxm_bsn_udf0),
     (200968, of14_oxm_bsn_udf0_masked), (201220, of14_oxm_bsn_udf1), (201480, of14_oxm_bsn_udf1_masked),
     (201732, of14_oxm_bsn_udf2), (201992, of14_oxm_bsn_udf2_masked)]"
  by (simp_all add: loxi_formats loxi_eval loxi_checked
    of14_oxm_arp_op_def of14_oxm_arp_op_masked_def of14_oxm_arp_sha_def of14_oxm_arp_sha_masked_def
    of14_oxm_arp_spa_def of14_oxm_arp_spa_masked_def of14_oxm_arp_tha_def of14_oxm_arp_tha_masked_def
    of14_oxm_arp_tpa_def of14_oxm_arp_tpa_masked_def of14_oxm_bsn_egr_port_group_id_def
    of14_oxm_bsn_egr_port_group_id_masked_def of14_oxm_bsn_in_ports_128_def
    of14_oxm_bsn_in_ports_128_masked_def of14_oxm_bsn_in_ports_512_def
    of14_oxm_bsn_in_ports_512_masked_def of14_oxm_bsn_ingress_port_group_id_def
    of14_oxm_bsn_ingress_port_group_id_masked_def of14_oxm_bsn_inner_eth_dst_def
    of14_oxm_bsn_inner_eth_dst_masked_def of14_oxm_bsn_inner_eth_src_def
    of14_oxm_bsn_inner_eth_src_masked_def of14_oxm_bsn_inner_vlan_vid_def
    of14_oxm_bsn_inner_vlan_vid_masked_def of14_oxm_bsn_l2_cache_hit_def
    of14_oxm_bsn_l2_cache_hit_masked_def of14_oxm_bsn_l3_interface_class_id_def
    of14_oxm_bsn_l3_interface_class_id_masked_def of14_oxm_bsn_l3_src_class_id_def
    of14_oxm_bsn_l3_src_class_id_masked_def of14_oxm_bsn_lag_id_def of14_oxm_bsn_lag_id_masked_def
    of14_oxm_bsn_tcp_flags_def of14_oxm_bsn_tcp_flags_masked_def of14_oxm_bsn_udf0_def
    of14_oxm_bsn_udf0_masked_def of14_oxm_bsn_udf1_def of14_oxm_bsn_udf1_masked_def
    of14_oxm_bsn_udf2_def of14_oxm_bsn_udf2_masked_def
    del: One_nat_def)

lemma of14Oxm_checked_1b [unfolded list.pred_inject prod.case, loxi_checked]:
  "list_all codec_ok
    [of14_oxm_bsn_udf3, of14_oxm_bsn_udf3_masked, of14_oxm_bsn_udf4, of14_oxm_bsn_udf4_masked,
     of14_oxm_bsn_udf5, of14_oxm_bsn_udf5_masked, of14_oxm_bsn_udf6, of14_oxm_bsn_udf6_masked,
     of14_oxm_bsn_udf7, of14_oxm_bsn_udf7_masked, of14_oxm_bsn_vfi, of14_oxm_bsn_vfi_masked,
     of14_oxm_bsn_vlan_xlate_port_group_id, of14_oxm_bsn_vlan_xlate_port_group_id_masked, of14_oxm_bsn_vrf,
     of14_oxm_bsn_vrf_masked, of14_oxm_bsn_vxlan_network_id, of14_oxm_bsn_vxlan_network_id_masked,
     of14_oxm_eth_dst, of14_oxm_eth_dst_masked, of14_oxm_eth_src, of14_oxm_eth_src_masked,
     of14_oxm_eth_type, of14_oxm_eth_type_masked, of14_oxm_icmpv4_code, of14_oxm_icmpv4_code_masked,
     of14_oxm_icmpv4_type, of14_oxm_icmpv4_type_masked, of14_oxm_icmpv6_code, of14_oxm_icmpv6_code_masked,
     of14_oxm_icmpv6_type, of14_oxm_icmpv6_type_masked, of14_oxm_in_phy_port, of14_oxm_in_phy_port_masked,
     of14_oxm_in_port, of14_oxm_in_port_masked, of14_oxm_ip_dscp, of14_oxm_ip_dscp_masked, of14_oxm_ip_ecn,
     of14_oxm_ip_ecn_masked]"
  "list_all safe_cls
    [of14_oxm_bsn_udf3, of14_oxm_bsn_udf3_masked, of14_oxm_bsn_udf4, of14_oxm_bsn_udf4_masked,
     of14_oxm_bsn_udf5, of14_oxm_bsn_udf5_masked, of14_oxm_bsn_udf6, of14_oxm_bsn_udf6_masked,
     of14_oxm_bsn_udf7, of14_oxm_bsn_udf7_masked, of14_oxm_bsn_vfi, of14_oxm_bsn_vfi_masked,
     of14_oxm_bsn_vlan_xlate_port_group_id, of14_oxm_bsn_vlan_xlate_port_group_id_masked, of14_oxm_bsn_vrf,
     of14_oxm_bsn_vrf_masked, of14_oxm_bsn_vxlan_network_id, of14_oxm_bsn_vxlan_network_id_masked,
     of14_oxm_eth_dst, of14_oxm_eth_dst_masked, of14_oxm_eth_src, of14_oxm_eth_src_masked,
     of14_oxm_eth_type, of14_oxm_eth_type_masked, of14_oxm_icmpv4_code, of14_oxm_icmpv4_code_masked,
     of14_oxm_icmpv4_type, of14_oxm_icmpv4_type_masked, of14_oxm_icmpv6_code, of14_oxm_icmpv6_code_masked,
     of14_oxm_icmpv6_type, of14_oxm_icmpv6_type_masked, of14_oxm_in_phy_port, of14_oxm_in_phy_port_masked,
     of14_oxm_in_port, of14_oxm_in_port_masked, of14_oxm_ip_dscp, of14_oxm_ip_dscp_masked, of14_oxm_ip_ecn,
     of14_oxm_ip_ecn_masked]"
  "list_all (\<lambda>c. \<not> needs_align c)
    [of14_oxm_bsn_udf3, of14_oxm_bsn_udf3_masked, of14_oxm_bsn_udf4, of14_oxm_bsn_udf4_masked,
     of14_oxm_bsn_udf5, of14_oxm_bsn_udf5_masked, of14_oxm_bsn_udf6, of14_oxm_bsn_udf6_masked,
     of14_oxm_bsn_udf7, of14_oxm_bsn_udf7_masked, of14_oxm_bsn_vfi, of14_oxm_bsn_vfi_masked,
     of14_oxm_bsn_vlan_xlate_port_group_id, of14_oxm_bsn_vlan_xlate_port_group_id_masked, of14_oxm_bsn_vrf,
     of14_oxm_bsn_vrf_masked, of14_oxm_bsn_vxlan_network_id, of14_oxm_bsn_vxlan_network_id_masked,
     of14_oxm_eth_dst, of14_oxm_eth_dst_masked, of14_oxm_eth_src, of14_oxm_eth_src_masked,
     of14_oxm_eth_type, of14_oxm_eth_type_masked, of14_oxm_icmpv4_code, of14_oxm_icmpv4_code_masked,
     of14_oxm_icmpv4_type, of14_oxm_icmpv4_type_masked, of14_oxm_icmpv6_code, of14_oxm_icmpv6_code_masked,
     of14_oxm_icmpv6_type, of14_oxm_icmpv6_type_masked, of14_oxm_in_phy_port, of14_oxm_in_phy_port_masked,
     of14_oxm_in_port, of14_oxm_in_port_masked, of14_oxm_ip_dscp, of14_oxm_ip_dscp_masked, of14_oxm_ip_ecn,
     of14_oxm_ip_ecn_masked]"
  "list_all (\<lambda>(k, c). writes_const fL 0 k c)
    [(202244, of14_oxm_bsn_udf3), (202504, of14_oxm_bsn_udf3_masked), (202756, of14_oxm_bsn_udf4),
     (203016, of14_oxm_bsn_udf4_masked), (203268, of14_oxm_bsn_udf5), (203528, of14_oxm_bsn_udf5_masked),
     (203780, of14_oxm_bsn_udf6), (204040, of14_oxm_bsn_udf6_masked), (204292, of14_oxm_bsn_udf7),
     (204552, of14_oxm_bsn_udf7_masked), (209410, of14_oxm_bsn_vfi), (209668, of14_oxm_bsn_vfi_masked),
     (205316, of14_oxm_bsn_vlan_xlate_port_group_id),
     (205576, of14_oxm_bsn_vlan_xlate_port_group_id_masked), (197636, of14_oxm_bsn_vrf),
     (197896, of14_oxm_bsn_vrf_masked), (207364, of14_oxm_bsn_vxlan_network_id),
     (207624, of14_oxm_bsn_vxlan_network_id_masked), (2147485190, of14_oxm_eth_dst),
     (2147485452, of14_oxm_eth_dst_masked), (2147485702, of14_oxm_eth_src),
     (2147485964, of14_oxm_eth_src_masked), (2147486210, of14_oxm_eth_type),
     (2147486468, of14_oxm_eth_type_masked), (2147493889, of14_oxm_icmpv4_code),
     (2147494146, of14_oxm_icmpv4_code_masked), (2147493377, of14_oxm_icmpv4_type),
     (2147493634, of14_oxm_icmpv4_type_masked), (2147499009, of14_oxm_icmpv6_code),
     (2147499266, of14_oxm_icmpv6_code_masked), (2147498497, of14_oxm_icmpv6_type),
     (2147498754, of14_oxm_icmpv6_type_masked), (2147484164, of14_oxm_in_phy_port),
     (2147484424, of14_oxm_in_phy_port_masked), (2147483652, of14_oxm_in_port),
     (2147483912, of14_oxm_in_port_masked), (2147487745, of14_oxm_ip_dscp),
     (2147488002, of14_oxm_ip_dscp_masked), (2147488257, of14_oxm_ip_ecn),
     (2147488514, of14_oxm_ip_ecn_masked)]"
  by (simp_all add: loxi_formats loxi_eval loxi_checked
    of14_oxm_bsn_udf3_def of14_oxm_bsn_udf3_masked_def of14_oxm_bsn_udf4_def
    of14_oxm_bsn_udf4_masked_def of14_oxm_bsn_udf5_def of14_oxm_bsn_udf5_masked_def
    of14_oxm_bsn_udf6_def of14_oxm_bsn_udf6_masked_def of14_oxm_bsn_udf7_def
    of14_oxm_bsn_udf7_masked_def of14_oxm_bsn_vfi_def of14_oxm_bsn_vfi_masked_def
    of14_oxm_bsn_vlan_xlate_port_group_id_def of14_oxm_bsn_vlan_xlate_port_group_id_masked_def
    of14_oxm_bsn_vrf_def of14_oxm_bsn_vrf_masked_def of14_oxm_bsn_vxlan_network_id_def
    of14_oxm_bsn_vxlan_network_id_masked_def of14_oxm_eth_dst_def of14_oxm_eth_dst_masked_def
    of14_oxm_eth_src_def of14_oxm_eth_src_masked_def of14_oxm_eth_type_def of14_oxm_eth_type_masked_def
    of14_oxm_icmpv4_code_def of14_oxm_icmpv4_code_masked_def of14_oxm_icmpv4_type_def
    of14_oxm_icmpv4_type_masked_def of14_oxm_icmpv6_code_def of14_oxm_icmpv6_code_masked_def
    of14_oxm_icmpv6_type_def of14_oxm_icmpv6_type_masked_def of14_oxm_in_phy_port_def
    of14_oxm_in_phy_port_masked_def of14_oxm_in_port_def of14_oxm_in_port_masked_def
    of14_oxm_ip_dscp_def of14_oxm_ip_dscp_masked_def of14_oxm_ip_ecn_def of14_oxm_ip_ecn_masked_def
    del: One_nat_def)

lemma of14Oxm_checked_1c [unfolded list.pred_inject prod.case, loxi_checked]:
  "list_all codec_ok
    [of14_oxm_ip_proto, of14_oxm_ip_proto_masked, of14_oxm_ipv4_dst, of14_oxm_ipv4_dst_masked,
     of14_oxm_ipv4_src, of14_oxm_ipv4_src_masked, of14_oxm_ipv6_dst, of14_oxm_ipv6_dst_masked,
     of14_oxm_ipv6_exthdr, of14_oxm_ipv6_exthdr_masked, of14_oxm_ipv6_flabel, of14_oxm_ipv6_flabel_masked,
     of14_oxm_ipv6_nd_sll, of14_oxm_ipv6_nd_sll_masked, of14_oxm_ipv6_nd_target,
     of14_oxm_ipv6_nd_target_masked, of14_oxm_ipv6_nd_tll, of14_oxm_ipv6_nd_tll_masked, of14_oxm_ipv6_src,
     of14_oxm_ipv6_src_masked, of14_oxm_metadata, of14_oxm_metadata_masked, of14_oxm_mpls_bos,
     of14_oxm_mpls_bos_masked, of14_oxm_mpls_label, of14_oxm_mpls_label_masked, of14_oxm_mpls_tc,
     of14_oxm_mpls_tc_masked, of14_oxm_pbb_uca, of14_oxm_pbb_uca_masked, of14_oxm_sctp_dst,
     of14_oxm_sctp_dst_masked, of14_oxm_sctp_src, of14_oxm_sctp_src_masked, of14_oxm_tcp_dst,
     of14_oxm_tcp_dst_masked, of14_oxm_tcp_src, of14_oxm_tcp_src_masked, of14_oxm_tunnel_id,
     of14_oxm_tunnel_id_masked]"
  "list_all safe_cls
    [of14_oxm_ip_proto, of14_oxm_ip_proto_masked, of14_oxm_ipv4_dst, of14_oxm_ipv4_dst_masked,
     of14_oxm_ipv4_src, of14_oxm_ipv4_src_masked, of14_oxm_ipv6_dst, of14_oxm_ipv6_dst_masked,
     of14_oxm_ipv6_exthdr, of14_oxm_ipv6_exthdr_masked, of14_oxm_ipv6_flabel, of14_oxm_ipv6_flabel_masked,
     of14_oxm_ipv6_nd_sll, of14_oxm_ipv6_nd_sll_masked, of14_oxm_ipv6_nd_target,
     of14_oxm_ipv6_nd_target_masked, of14_oxm_ipv6_nd_tll, of14_oxm_ipv6_nd_tll_masked, of14_oxm_ipv6_src,
     of14_oxm_ipv6_src_masked, of14_oxm_metadata, of14_oxm_metadata_masked, of14_oxm_mpls_bos,
     of14_oxm_mpls_bos_masked, of14_oxm_mpls_label, of14_oxm_mpls_label_masked, of14_oxm_mpls_tc,
     of14_oxm_mpls_tc_masked, of14_oxm_pbb_uca, of14_oxm_pbb_uca_masked, of14_oxm_sctp_dst,
     of14_oxm_sctp_dst_masked, of14_oxm_sctp_src, of14_oxm_sctp_src_masked, of14_oxm_tcp_dst,
     of14_oxm_tcp_dst_masked, of14_oxm_tcp_src, of14_oxm_tcp_src_masked, of14_oxm_tunnel_id,
     of14_oxm_tunnel_id_masked]"
  "list_all (\<lambda>c. \<not> needs_align c)
    [of14_oxm_ip_proto, of14_oxm_ip_proto_masked, of14_oxm_ipv4_dst, of14_oxm_ipv4_dst_masked,
     of14_oxm_ipv4_src, of14_oxm_ipv4_src_masked, of14_oxm_ipv6_dst, of14_oxm_ipv6_dst_masked,
     of14_oxm_ipv6_exthdr, of14_oxm_ipv6_exthdr_masked, of14_oxm_ipv6_flabel, of14_oxm_ipv6_flabel_masked,
     of14_oxm_ipv6_nd_sll, of14_oxm_ipv6_nd_sll_masked, of14_oxm_ipv6_nd_target,
     of14_oxm_ipv6_nd_target_masked, of14_oxm_ipv6_nd_tll, of14_oxm_ipv6_nd_tll_masked, of14_oxm_ipv6_src,
     of14_oxm_ipv6_src_masked, of14_oxm_metadata, of14_oxm_metadata_masked, of14_oxm_mpls_bos,
     of14_oxm_mpls_bos_masked, of14_oxm_mpls_label, of14_oxm_mpls_label_masked, of14_oxm_mpls_tc,
     of14_oxm_mpls_tc_masked, of14_oxm_pbb_uca, of14_oxm_pbb_uca_masked, of14_oxm_sctp_dst,
     of14_oxm_sctp_dst_masked, of14_oxm_sctp_src, of14_oxm_sctp_src_masked, of14_oxm_tcp_dst,
     of14_oxm_tcp_dst_masked, of14_oxm_tcp_src, of14_oxm_tcp_src_masked, of14_oxm_tunnel_id,
     of14_oxm_tunnel_id_masked]"
  "list_all (\<lambda>(k, c). writes_const fL 0 k c)
    [(2147488769, of14_oxm_ip_proto), (2147489026, of14_oxm_ip_proto_masked),
     (2147489796, of14_oxm_ipv4_dst), (2147490056, of14_oxm_ipv4_dst_masked),
     (2147489284, of14_oxm_ipv4_src), (2147489544, of14_oxm_ipv4_src_masked),
     (2147497488, of14_oxm_ipv6_dst), (2147497760, of14_oxm_ipv6_dst_masked),
     (2147503618, of14_oxm_ipv6_exthdr), (2147503876, of14_oxm_ipv6_exthdr_masked),
     (2147497988, of14_oxm_ipv6_flabel), (2147498248, of14_oxm_ipv6_flabel_masked),
     (2147500038, of14_oxm_ipv6_nd_sll), (2147500300, of14_oxm_ipv6_nd_sll_masked),
     (2147499536, of14_oxm_ipv6_nd_target), (2147499808, of14_oxm_ipv6_nd_target_masked),
     (2147500550, of14_oxm_ipv6_nd_tll), (2147500812, of14_oxm_ipv6_nd_tll_masked),
     (2147496976, of14_oxm_ipv6_src), (2147497248, of14_oxm_ipv6_src_masked),
     (2147484680, of14_oxm_metadata), (2147484944, of14_oxm_metadata_masked),
     (2147502081, of14_oxm_mpls_bos), (2147502338, of14_oxm_mpls_bos_masked),
     (2147501060, of14_oxm_mpls_label), (2147501320, of14_oxm_mpls_label_masked),
     (2147501569, of14_oxm_mpls_tc), (2147501826, of14_oxm_mpls_tc_masked), (2147504641, of14_oxm_pbb_uca),
     (2147504898, of14_oxm_pbb_uca_masked), (2147492866, of14_oxm_sctp_dst),
     (2147493124, of14_oxm_sctp_dst_masked), (2147492354, of14_oxm_sctp_src),
     (2147492612, of14_oxm_sctp_src_masked), (2147490818, of14_oxm_tcp_dst),
     (2147491076, of14_oxm_tcp_dst_masked), (2147490306, of14_oxm_tcp_src),
     (2147490564, of14_oxm_tcp_src_masked), (2147503112, of14_oxm_tunnel_id),
     (2147503376, of14_oxm_tunnel_id_masked)]"
  by (simp_all add: loxi_formats loxi_eval loxi_checked
    of14_oxm_ip_proto_def of14_oxm_ip_proto_masked_def of14_oxm_ipv4_dst_def
    of14_oxm_ipv4_dst_masked_def of14_oxm_ipv4_src_def of14_oxm_ipv4_src_masked_def
    of14_oxm_ipv6_dst_def of14_oxm_ipv6_dst_masked_def of14_oxm_ipv6_exthdr_def
    of14_oxm_ipv6_exthdr_masked_def of14_oxm_ipv6_flabel_def of14_oxm_ipv6_flabel_masked_def
    of14_oxm_ipv6_nd_sll_def of14_oxm_ipv6_nd_sll_masked_def of14_oxm_ipv6_nd_target_def
    of14_oxm_ipv6_nd_target_masked_def of14_oxm_ipv6_nd_tll_def of14_oxm_ipv6_nd_tll_masked_def
    of14_oxm_ipv6_src_def of14_oxm_ipv6_src_masked_def of14_oxm_metadata_def
    of14_oxm_metadata_masked_def of14_oxm_mpls_bos_def of14_oxm_mpls_bos_masked_def
    of14_oxm_mpls_label_def of14_oxm_mpls_label_masked_def of14_oxm_mpls_tc_def
    of14_oxm_mpls_tc_masked_def of14_oxm_pbb_uca_def of14_oxm_pbb_uca_masked_def of14_oxm_sctp_dst_def
    of14_oxm_sctp_dst_masked_def of14_oxm_sctp_src_def of14_oxm_sctp_src_masked_def
    of14_oxm_tcp_dst_def of14_oxm_tcp_dst_masked_def of14_oxm_tcp_src_def of14_oxm_tcp_src_masked_def
    of14_oxm_tunnel_id_def of14_oxm_tunnel_id_masked_def
    del: One_nat_def)

lemma of14Oxm_checked_1d [unfolded list.pred_inject prod.case, loxi_checked]:
  "list_all codec_ok
    [of14_oxm_tunnel_ipv4_dst, of14_oxm_tunnel_ipv4_dst_masked, of14_oxm_tunnel_ipv4_src,
     of14_oxm_tunnel_ipv4_src_masked, of14_oxm_udp_dst, of14_oxm_udp_dst_masked, of14_oxm_udp_src,
     of14_oxm_udp_src_masked, of14_oxm_vlan_pcp, of14_oxm_vlan_pcp_masked, of14_oxm_vlan_vid,
     of14_oxm_vlan_vid_masked]"
  "list_all safe_cls
    [of14_oxm_tunnel_ipv4_dst, of14_oxm_tunnel_ipv4_dst_masked, of14_oxm_tunnel_ipv4_src,
     of14_oxm_tunnel_ipv4_src_masked, of14_oxm_udp_dst, of14_oxm_udp_dst_masked, of14_oxm_udp_src,
     of14_oxm_udp_src_masked, of14_oxm_vlan_pcp, of14_oxm_vlan_pcp_masked, of14_oxm_vlan_vid,
     of14_oxm_vlan_vid_masked]"
  "list_all (\<lambda>c. \<not> needs_align c)
    [of14_oxm_tunnel_ipv4_dst, of14_oxm_tunnel_ipv4_dst_masked, of14_oxm_tunnel_ipv4_src,
     of14_oxm_tunnel_ipv4_src_masked, of14_oxm_udp_dst, of14_oxm_udp_dst_masked, of14_oxm_udp_src,
     of14_oxm_udp_src_masked, of14_oxm_vlan_pcp, of14_oxm_vlan_pcp_masked, of14_oxm_vlan_vid,
     of14_oxm_vlan_vid_masked]"
  "list_all (\<lambda>(k, c). writes_const fL 0 k c)
    [(81924, of14_oxm_tunnel_ipv4_dst), (82184, of14_oxm_tunnel_ipv4_dst_masked),
     (81412, of14_oxm_tunnel_ipv4_src), (81672, of14_oxm_tunnel_ipv4_src_masked),
     (2147491842, of14_oxm_udp_dst), (2147492100, of14_oxm_udp_dst_masked), (2147491330, of14_oxm_udp_src),
     (2147491588, of14_oxm_udp_src_masked), (2147487233, of14_oxm_vlan_pcp),
     (2147487490, of14_oxm_vlan_pcp_masked), (2147486722, of14_oxm_vlan_vid),
     (2147486980, of14_oxm_vlan_vid_masked)]"
  by (simp_all add: loxi_formats loxi_eval loxi_checked
    of14_oxm_tunnel_ipv4_dst_def of14_oxm_tunnel_ipv4_dst_masked_def of14_oxm_tunnel_ipv4_src_def
    of14_oxm_tunnel_ipv4_src_masked_def of14_oxm_udp_dst_def of14_oxm_udp_dst_masked_def
    of14_oxm_udp_src_def of14_oxm_udp_src_masked_def of14_oxm_vlan_pcp_def of14_oxm_vlan_pcp_masked_def
    of14_oxm_vlan_vid_def of14_oxm_vlan_vid_masked_def
    del: One_nat_def)

lemma of14Oxm_checked_2 [unfolded list.pred_inject prod.case, loxi_checked]:
  "list_all codec_ok
    [of14_oxm_oxm]"
  "list_all safe_cls
    [of14_oxm_oxm]"
  "list_all (\<lambda>c. \<not> needs_align c)
    [of14_oxm_oxm]"
  by (simp_all add: loxi_formats loxi_eval loxi_checked
    of14_oxm_oxm_def
    del: One_nat_def)

end
