(* ===== verification/LoxiMessages.thy ===== *)
theory LoxiMessages
  imports Of10 Of11 Of12 Of13Message Of14Message
begin

text \<open>
  Whole messages: \<^verbatim>\<open>parse_message\<close> of the modules \<^verbatim>\<open>loxi.of10\<close> to
  \<^verbatim>\<open>loxi.of14\<close>, with the connection that receives them
  (\<^verbatim>\<open>src/ofagent/of_connection.py\<close>).  \<^verbatim>\<open>dataReceived\<close> of \<open>OfConnection\<close> takes the
  decoding of a message as an argument; here that argument is the generated code.
\<close>

section \<open>parse_message of the versions\<close>

text \<open>\<^verbatim>\<open>ofp.message.message\<close> and \<^verbatim>\<open>ofp.bsn_tlv.bsn_tlv\<close>; versions before 1.3 have no TLVs.\<close>

definition message_class :: "nat \<Rightarrow> cls" where
  "message_class ver =
     (if ver = 1 then of10_message_message
      else if ver = 2 then of11_message_message
      else if ver = 3 then of12_message_message
      else if ver = 4 then of13_message_message
      else of14_message_message)"

definition tlv_class :: "nat \<Rightarrow> cls" where
  "tlv_class ver = (if ver = 5 then of14_bsn_tlv_bsn_tlv else of13_bsn_tlv_bsn_tlv)"

definition message_unpack :: "nat \<Rightarrow> lval unpack" where
  "message_unpack d ver buf =
     rbind (unpack (unpack_tlv (tlv_class ver) d) (message_class ver) (OFReader buf 0 None)) (\<lambda>(v, _).
       Inr (Some v))"

lemma tlv_class_ok: "env_ok (tlv_class ver)"
  by (simp add: tlv_class_def env_ok_def loxi_checked)

lemma message_class_safe: "safe_cls (message_class ver)"
  by (simp add: message_class_def loxi_checked)

text \<open>The versions whose classes all passed the comparison of \<^verbatim>\<open>pack\<close> and \<^verbatim>\<open>unpack\<close>.\<close>

definition sound_version :: "nat \<Rightarrow> bool" where
  "sound_version ver \<longleftrightarrow> ver = 2 \<or> ver = 3 \<or> ver = 4 \<or> ver = 5"

lemma msg_class_ok:
  assumes "sound_version ver"
  shows "codec_ok (message_class ver)" "\<not> needs_align (message_class ver)" "has_header ver (message_class ver)"
  using assms by (auto simp: sound_version_def message_class_def loxi_checked)

text \<open>An object that is a message of a version.\<close>

definition is_message :: "nat \<Rightarrow> nat \<Rightarrow> lval \<Rightarrow> bool" where
  "is_message ver d v \<longleftrightarrow> is_obj v \<and> typed v (tlv_class ver) d (message_class ver)"


section \<open>One message\<close>

lemma message_unpack_pack:
  assumes "sound_version ver" "is_message ver d v" "pack v = Inr bs"
  shows "message_unpack d ver bs = Inr (Some v)"
proof -
  have "unpack (unpack_tlv (tlv_class ver) d) (message_class ver) (OFReader bs 0 None) =
      Inr (v, advance (length bs) (OFReader bs 0 None))"
    using assms msg_class_ok [OF assms(1)]
    by (intro unpack_pack [OF tlv_class_ok, where rest = "[]"]) (simp_all add: is_message_def)
  then show ?thesis by (simp add: message_unpack_def)
qed

lemma message_header:
  assumes "sound_version ver" "is_message ver d v" "pack v = Inr bs"
  obtains t xid where "parse_header bs = Inr \<lparr>h_version = ver, h_type = t, h_len = length bs, h_xid = xid\<rparr>"
    "8 \<le> length bs"
proof -
  obtain c as where v: "v = Obj c as" using assms(2) by (cases v) (simp_all add: is_message_def)
  have c: "c \<in> set (classes (message_class ver))" "map fst as = map fst (cls_init c)"
    using assms(2) by (simp_all add: is_message_def v)
  note ok = msg_class_ok [OF assms(1)]
  obtain t xid where h: "parse_header bs = Inr \<lparr>h_version = ver, h_type = t, h_len = length bs, h_xid = xid\<rparr>"
    using header_packed [OF has_header_classes [OF c(1) ok(3)] codec_ok_classes [OF c(1) ok(1)] assms(3) [unfolded v] c(2)]
    by blast
  then show ?thesis using that by (auto simp: parse_header_def split: if_splits)
qed

lemma parse_message_pack:
  assumes "sound_version ver" "is_message ver d v" "pack v = Inr bs"
  shows "parse_message (message_unpack d) ver bs = Inr (Some v)"
proof -
  obtain t xid where "parse_header bs = Inr \<lparr>h_version = ver, h_type = t, h_len = length bs, h_xid = xid\<rparr>"
    by (rule message_header [OF assms])
  then show ?thesis using message_unpack_pack [OF assms] by (simp add: parse_message_def)
qed

lemma next_message_pack:
  assumes "sound_version ver" "is_message ver d v" "pack v = Inr bs"
  shows "next_message (message_unpack d) (bs @ rest) = Inr (Some (v, length bs))"
proof -
  obtain t xid where h: "parse_header bs = Inr \<lparr>h_version = ver, h_type = t, h_len = length bs, h_xid = xid\<rparr>" "8 \<le> length bs"
    by (rule message_header [OF assms])
  have "loxi_protocol ver = Inr ver" using assms(1) by (auto simp: loxi_protocol_def sound_version_def)
  then show ?thesis
    using parse_message_pack [OF assms] h by (simp add: next_message_def parse_header_append)
qed


section \<open>A stream of messages\<close>

text \<open>The messages that a peer has packed, each with its version and its bytes.\<close>

definition packed_as :: "nat \<Rightarrow> nat \<times> lval \<Rightarrow> bytes \<Rightarrow> bool" where
  "packed_as d = (\<lambda>(ver, v) bs. sound_version ver \<and> is_message ver d v \<and> pack v = Inr bs)"

lemma consume_messages:
  assumes "list_all2 (packed_as d) ms bss"
  shows "consume (message_unpack d) (concat bss) q = (Inr (), [], fold (\<lambda>(_, v). mq_put v) ms q)"
  using assms
proof (induction ms bss arbitrary: q rule: list_all2_induct)
  case Nil
  then show ?case by (simp add: consume.simps)
next
  case (Cons m ms bs bss)
  obtain ver v where m: "m = (ver, v)" by (cases m)
  have ok: "sound_version ver" "is_message ver d v" "pack v = Inr bs" using Cons.hyps(1) by (simp_all add: packed_as_def m)
  have nm: "next_message (message_unpack d) (bs @ concat bss) = Inr (Some (v, length bs))"
    by (rule next_message_pack [OF ok])
  have "8 \<le> length bs" by (rule message_header [OF ok])
  then show ?case using Cons.IH nm by (simp add: m consume.simps [of "message_unpack d" "bs @ concat bss"])
qed



section \<open>The sending side of the connection\<close>

text \<open>
  \<^verbatim>\<open>send\<close>, \<^verbatim>\<open>send_raw\<close> and \<^verbatim>\<open>_gen_xid\<close>: whether the protocol is connected, the next
  transaction id, and the strings written to the transport.  \<^verbatim>\<open>send\<close> assigns the id to the
  message it is given, which is part of the result.
\<close>

record sender =
  connected :: bool
  next_xid :: nat
  written :: "bytes list"

definition conn_gen_xid :: "sender \<Rightarrow> nat \<times> sender" where
  "conn_gen_xid s = (next_xid s, s\<lparr>next_xid := next_xid s + 1\<rparr>)"

definition send_raw :: "bytes \<Rightarrow> sender \<Rightarrow> unit res \<times> sender" where
  "send_raw buf s =
     (if \<not> connected s then (Inl AssertionError, s)
      else (Inr (), s\<lparr>written := written s @ [buf]\<rparr>))"

fun get_attr :: "pyname \<Rightarrow> lval \<Rightarrow> lval res" where
  "get_attr a (Obj c as) =
     (case map_of as a of
        Some v \<Rightarrow> Inr v
      | None \<Rightarrow> (case map_of (cls_consts c) a of Some n \<Rightarrow> Inr (Num (int n)) | None \<Rightarrow> Inl AttributeError))"
| "get_attr a v = Inl AttributeError"

fun set_attr :: "pyname \<Rightarrow> lval \<Rightarrow> lval \<Rightarrow> lval" where
  "set_attr a x (Obj c as) = Obj c (od_set a x as)"
| "set_attr a x v = v"

definition conn_send :: "lval \<Rightarrow> sender \<Rightarrow> unit res \<times> sender \<times> lval" where
  "conn_send msg s =
     (if \<not> connected s then (Inl AssertionError, s, msg)
      else
        (case get_attr nm_xid msg of
           Inl e \<Rightarrow> (Inl e, s, msg)
         | Inr x \<Rightarrow>
             (let (msg, s) =
                (if x = PyNone then (let (xid, s) = conn_gen_xid s in (set_attr nm_xid (Num (int xid)) msg, s))
                 else (msg, s)) in
              case pack msg of
                Inl e \<Rightarrow> (Inl e, s, msg)
              | Inr buf \<Rightarrow> (Inr (), s\<lparr>written := written s @ [buf]\<rparr>, msg))))"

text \<open>A sequence of calls, up to the first exception.\<close>

fun conn_send_all :: "lval list \<Rightarrow> sender \<Rightarrow> unit res \<times> sender \<times> lval list" where
  "conn_send_all [] s = (Inr (), s, [])"
| "conn_send_all (m # ms) s =
     (case conn_send m s of
        (Inl e, s', m') \<Rightarrow> (Inl e, s', [m'])
      | (Inr _, s', m') \<Rightarrow> (let (r, s'', ms') = conn_send_all ms s' in (r, s'', m' # ms')))"

text \<open>\<^verbatim>\<open>recv_class\<close>: a generated class is registered under its superclass, so the classes of a family are the instances.\<close>

fun isinstance :: "lval \<Rightarrow> cls \<Rightarrow> bool" where
  "isinstance (Obj c as) klass \<longleftrightarrow> c \<in> set (classes klass)"
| "isinstance v klass \<longleftrightarrow> False"

definition recv_xid :: "int \<Rightarrow> lval of_connection \<Rightarrow> nat \<times> lval of_connection" where
  "recv_xid xid = recv (\<lambda>m. get_attr nm_xid m = Inr (Num xid))"

definition recv_class :: "cls \<Rightarrow> lval of_connection \<Rightarrow> nat \<times> lval of_connection" where
  "recv_class klass = recv (\<lambda>m. isinstance m klass)"

lemma send_Inr:
  assumes "conn_send m s = (Inr u, s', m')"
  shows "\<exists>buf. pack m' = Inr buf \<and> written s' = written s @ [buf] \<and> connected s' = connected s"
  using assms by (auto simp: conn_send_def conn_gen_xid_def Let_def split: if_splits sum.splits)

lemma conn_send_all_Inr:
  "conn_send_all ms s = (Inr u, s', ms') \<Longrightarrow>
   \<exists>bss. list_all2 (\<lambda>m bs. pack m = Inr bs) ms' bss \<and> written s' = written s @ bss"
proof (induction ms arbitrary: s ms' u)
  case (Cons m ms)
  then obtain v s1 m1 ms1 where 1: "conn_send m s = (Inr v, s1, m1)" "conn_send_all ms s1 = (Inr u, s', ms1)" "ms' = m1 # ms1"
    by (auto split: sum.splits prod.splits)
  obtain buf where buf: "pack m1 = Inr buf" "written s1 = written s @ [buf]" using send_Inr [OF 1(1)] by blast
  obtain bss where "list_all2 (\<lambda>m bs. pack m = Inr bs) ms1 bss" "written s' = written s1 @ bss"
    using Cons.IH [OF 1(2)] by blast
  then show ?case using buf by (intro exI [of _ "buf # bss"]) (simp add: 1(3))
qed simp


lemma fold_mq_put_init: "fold mq_put ms (q\<lparr>waiting := [], queue := xs\<rparr>) = q\<lparr>waiting := [], queue := xs @ ms\<rparr>"
  by (induction ms arbitrary: xs) (simp_all add: mq_put_def)

lemma consume_sent:
  assumes "list_all2 (\<lambda>m bs. pack m = Inr bs) ms bss"
    and "list_all (\<lambda>m. \<exists>ver. sound_version ver \<and> is_message ver d m) ms"
  shows "consume (message_unpack d) (concat bss) MessageQueue_init =
    (Inr (), [], MessageQueue_init\<lparr>queue := ms\<rparr>)"
proof -
  obtain vs where vs: "map snd vs = ms" "list_all2 (packed_as d) vs bss"
    using assms
  proof (induction ms bss arbitrary: thesis rule: list_all2_induct)
    case (Cons m ms bs bss)
    obtain ver where "sound_version ver" "is_message ver d m" using Cons.prems(2) by auto
    then have "packed_as d (ver, m) bs" using Cons.hyps(1) by (simp add: packed_as_def)
    moreover obtain vs where "map snd vs = ms" "list_all2 (packed_as d) vs bss" using Cons.IH Cons.prems(2) by auto
    ultimately show ?case by (intro Cons.prems(1) [of "(ver, m) # vs"]) simp_all
  qed simp
  have "fold (\<lambda>(_, v). mq_put v) vs q = fold mq_put (map snd vs) q" for q :: "lval mqueue"
    by (simp add: fold_map o_def case_prod_unfold)
  then show ?thesis
    using consume_messages [OF vs(2), of MessageQueue_init] fold_mq_put_init [where ms = ms and q = MessageQueue_init and xs = "[]"]
    by (simp add: vs(1) MessageQueue_init_def)
qed

text \<open>What one end sends the other receives, however the bytes are cut.\<close>

lemma sent_received:
  assumes "conn_send_all ms s = (Inr (), s', ms')" and "written s = []"
    and "list_all (\<lambda>m. \<exists>ver. sound_version ver \<and> is_message ver d m) ms'"
    and "concat ds = concat (written s')" and "list_all (\<lambda>p. p \<noteq> []) ds"
  shows "receive_chunks (message_unpack d) ds OpenFlowConnection_init =
    Some (Inr (), OpenFlowConnection_init\<lparr>rx := MessageQueue_init\<lparr>queue := ms'\<rparr>\<rparr>)"
proof -
  let ?c = "OpenFlowConnection_init :: lval of_connection"
  obtain bss where bss: "list_all2 (\<lambda>m bs. pack m = Inr bs) ms' bss" "written s' = bss"
    using conn_send_all_Inr [OF assms(1)] assms(2) by auto
  from consume_sent [OF bss(1) assms(3)]
  have all: "consume (message_unpack d) (buffered ?c @ concat ds) (rx ?c) =
      (Inr (), [], MessageQueue_init\<lparr>queue := ms'\<rparr>)"
    by (simp add: assms(4) bss(2) buffered_def OpenFlowConnection_init_def)
  have idle: "consume (message_unpack d) (buffered ?c) (rx ?c) = (Inr (), buffered ?c, rx ?c)"
    by (simp add: buffered_def OpenFlowConnection_init_def consume.simps)
  have "\<forall>b. read_buffer ?c = Some b \<longrightarrow> b \<noteq> []" by (simp add: OpenFlowConnection_init_def)
  from receive_chunks_consume [OF _ this idle all] assms(5) show ?thesis
    by (auto simp: list_all_iff OpenFlowConnection_init_def)
qed

end
