(* ===== verification/LoxiProps.thy ===== *)
theory LoxiProps
  imports LoxiMessages
begin

text \<open>
  The properties of the message codec and of the connection that runs on it, each with a message to
  which it applies, and what the code does not do.
\<close>

section \<open>Evaluating classes\<close>

lemma be_bytes_numeral:
  "be_bytes (numeral k) n = be_bytes (pred_numeral k) (n div 256) @ [of_nat (n mod 256)]"
  by (simp only: numeral_eq_Suc be_bytes.simps)

lemma replicate_numeral: "replicate (numeral k) x = x # replicate (pred_numeral k) x"
  by (simp only: numeral_eq_Suc replicate.simps)

lemma classes_subI:
  "cls_dispatch s = Some (f, off, cs) \<Longrightarrow> (k, s') \<in> set cs \<Longrightarrow> c \<in> set (classes s') \<Longrightarrow> c \<in> set (classes s)"
  by (cases s) (auto simp: sub_classes_iff)

lemmas pack_eval = pack_body_def attr_of_def pack_uint_def be_bytes_numeral set_packed_def pad_to_def loxi_formats
  replicate_numeral

text \<open>A flow: from port 1, for IPv4, to port 2.\<close>

definition sample_flow :: "lval \<Rightarrow> lval" where
  "sample_flow xid =
     Obj of13_message_flow_add
       [(nm_xid, xid), (nm_cookie, Num 1), (nm_cookie_mask, Num 0), (nm_table_id, Num 0),
        (nm_idle_timeout, Num 0), (nm_hard_timeout, Num 0), (nm_priority, Num 1000),
        (nm_buffer_id, Num 4294967295), (nm_out_port, Num 0), (nm_out_group, Num 0), (nm_flags, Num 0),
        (nm_match, Obj of13_common_match_v3
           [(nm_oxm_list, PyList [Obj of13_oxm_in_port [(nm_value, Num 1)],
                                 Obj of13_oxm_eth_type [(nm_value, Num 2048)]])]),
        (nm_instructions, PyList [Obj of13_instruction_apply_actions
           [(nm_actions, PyList [Obj of13_action_output [(nm_port, Num 2), (nm_max_len, Num 65535)]])]])]"

lemmas sample_defs = of13_message_flow_add_def of13_common_match_v3_def of13_oxm_in_port_def
  of13_oxm_eth_type_def of13_instruction_apply_actions_def of13_action_output_def

lemmas sample_parts =
  sample_defs [THEN arg_cong [where f = cls_init], unfolded cls.sel]
  sample_defs [THEN arg_cong [where f = cls_unpack], unfolded cls.sel]
  sample_defs [THEN arg_cong [where f = cls_pack], unfolded cls.sel]
  sample_defs [THEN arg_cong [where f = cls_dispatch], unfolded cls.sel]

lemmas super_dispatch =
  of13_message_message_def [THEN arg_cong [where f = cls_dispatch], unfolded cls.sel]
  of13_message_flow_mod_def [THEN arg_cong [where f = cls_dispatch], unfolded cls.sel]
  of13_oxm_oxm_def [THEN arg_cong [where f = cls_dispatch], unfolded cls.sel]
  of13_instruction_instruction_def [THEN arg_cong [where f = cls_dispatch], unfolded cls.sel]
  of13_action_action_def [THEN arg_cong [where f = cls_dispatch], unfolded cls.sel]

lemma sample_classes:
  "of13_message_flow_add \<in> set (classes of13_message_flow_mod)"
  "of13_oxm_in_port \<in> set (classes of13_oxm_oxm)"
  "of13_oxm_eth_type \<in> set (classes of13_oxm_oxm)"
  "of13_instruction_apply_actions \<in> set (classes of13_instruction_instruction)"
  "of13_action_output \<in> set (classes of13_action_action)"
  by (rule classes_subI [OF super_dispatch(2), where k = 0 and s' = of13_message_flow_add]
        classes_subI [OF super_dispatch(3), where k = 2147483652 and s' = of13_oxm_in_port]
        classes_subI [OF super_dispatch(3), where k = 2147486210 and s' = of13_oxm_eth_type]
        classes_subI [OF super_dispatch(4), where k = 4 and s' = of13_instruction_apply_actions]
        classes_subI [OF super_dispatch(5), where k = 0 and s' = of13_action_output];
      simp add: classes_self)+

lemma flow_add_message: "of13_message_flow_add \<in> set (classes of13_message_message)"
  by (rule classes_subI [OF super_dispatch(1), where k = 14 and s' = of13_message_flow_mod])
     (simp_all add: sample_classes(1))

lemma sample_flow_message: "is_message 4 d (sample_flow xid)"
  by (simp add: is_message_def sample_flow_def message_class_def flow_add_message sample_classes classes_self
    unregistered_def sample_parts loxi_checked loxi_formats)

lemma sample_flow_packs:
  "\<exists>bs. pack (sample_flow (Num 7)) = Inr bs \<and> length bs = 96"
  by (simp add: sample_flow_def sample_defs pack_eval)


lemmas barrier_request_parts =
  of13_message_barrier_request_def [THEN arg_cong [where f = cls_init], unfolded cls.sel]
  of13_message_barrier_request_def [THEN arg_cong [where f = cls_unpack], unfolded cls.sel]
  of13_message_barrier_request_def [THEN arg_cong [where f = cls_dispatch], unfolded cls.sel]

lemma barrier_request_message: "of13_message_barrier_request \<in> set (classes of13_message_message)"
  by (rule classes_subI [OF super_dispatch(1), where k = 20 and s' = of13_message_barrier_request])
     (simp_all add: classes_self)

definition barrier :: "lval \<Rightarrow> lval" where
  "barrier xid = Obj of13_message_barrier_request [(nm_xid, xid)]"

lemma barrier_message: "is_message 4 d (barrier xid)"
  by (simp add: is_message_def barrier_def message_class_def barrier_request_message unregistered_def
    barrier_request_parts)

lemma barrier_packs: "pack (barrier (Num 7)) = Inr [4, 20, 0, 8, 0, 0, 0, 7]"
  by (simp add: barrier_def of13_message_barrier_request_def pack_eval)


lemma parse_message_cases:
  "parse_message u ver buf = Inl ProtocolError \<or> parse_message u ver buf = u ver buf"
proof (cases "parse_header buf")
  case (Inl e)
  then have "e = ProtocolError" by (simp add: parse_header_def split: if_splits)
  then show ?thesis using Inl by (simp add: parse_message_def)
next
  case (Inr h)
  then show ?thesis by (simp add: parse_message_def)
qed


section \<open>Properties\<close>

text \<open>
  C30. What \<^verbatim>\<open>pack\<close> of a message writes, \<^verbatim>\<open>parse_message\<close> reads back: for every object of
  every class of messages of OpenFlow 1.1, 1.2, 1.3 and 1.4, with all the matches, actions,
  instructions, buckets, properties and TLVs inside it, parsing its bytes gives the object.  The
  object must be one that the protocol can represent (\<open>typed\<close>): the attributes of the classes are
  set to values of their kind, fixed-size strings do not end in a zero byte, the data of an
  experimenter needs no padding, an object of a superclass does not carry the number of a subtype,
  and TLVs are nested at most \<open>d\<close> deep, where \<open>d\<close> is what the stack has room for.
\<close>

theorem message_roundtrip:
  assumes "sound_version ver" and "is_message ver d v" and "pack v = Inr bs"
  shows "parse_message (message_unpack d) ver bs = Inr (Some v)"
  using assms by (rule parse_message_pack)

theorem message_roundtrip_witness:
  "\<exists>bs. length bs = 96 \<and> parse_message (message_unpack 0) 4 bs = Inr (Some (sample_flow (Num 7)))"
proof -
  obtain bs where bs: "pack (sample_flow (Num 7)) = Inr bs" "length bs = 96" using sample_flow_packs by blast
  have "sound_version 4" by (simp add: sound_version_def)
  from message_roundtrip [OF this sample_flow_message bs(1)] bs(2) show ?thesis by blast
qed

text \<open>
  C31. Parsing never runs away and never fails in an unexpected way: for each version, whatever bytes
  arrive, \<^verbatim>\<open>parse_message\<close> returns, with a message or with
  \<^verbatim>\<open>ProtocolError\<close>, a failed assertion, or the exhaustion of the stack by nested TLVs.
\<close>

theorem message_parse_total:
  "case parse_message (message_unpack d) ver buf of
     Inr (Some v) \<Rightarrow> is_obj v
   | Inr None \<Rightarrow> False
   | Inl e \<Rightarrow> e \<in> {ProtocolError, AssertionError, RecursionError}"
proof -
  let ?res = "unpack (unpack_tlv (tlv_class ver) d) (message_class ver) (OFReader buf 0 None)"
  have "parsed 1 (OFReader buf 0 None) ?res"
    using tlv_class_ok [of ver] by (intro unpack_parsed message_class_safe) (simp_all add: env_ok_def)
  moreover have "is_obj v" if "?res = Inr (v, r)" for v r using that by (rule unpack_is_obj)
  ultimately have "case message_unpack d ver buf of
       Inr (Some v) \<Rightarrow> is_obj v | Inr None \<Rightarrow> False | Inl e \<Rightarrow> e \<in> {ProtocolError, AssertionError, RecursionError}"
    unfolding message_unpack_def by (cases ?res) (simp_all add: parsed_def split: prod.split)
  then show ?thesis using parse_message_cases [of "message_unpack d" ver buf] by auto
qed


text \<open>
  C32. A message never reads beyond its own bytes: \<^verbatim>\<open>unpack\<close> of a message of any version, on any
  reader, returns with the reader of the caller moved forward by at least one byte and at most by the
  bytes that it had, or raises one of the three exceptions.  In particular every list of elements
  that it parses ends.
\<close>

theorem message_reader_bounds:
  assumes "rd_valid r" and "unpack (unpack_tlv (tlv_class ver) d) (message_class ver) r = Inr (v, r')"
  shows "rd_valid r' \<and> rd_buf r' = rd_buf r \<and> rd_start r' = rd_start r \<and> rd_length r' = rd_length r \<and>
    rd_offset r < rd_offset r' \<and> rd_offset r' \<le> rd_length r"
proof -
  have "parsed 1 r (unpack (unpack_tlv (tlv_class ver) d) (message_class ver) r)"
    using tlv_class_ok [of ver] assms(1) by (intro unpack_parsed message_class_safe) (simp_all add: env_ok_def)
  then obtain n where n: "1 \<le> n" "n \<le> length (remaining r)" "r' = advance n r"
    using assms(2) by (auto simp: parsed_def)
  then show ?thesis
    using rd_valid_advance [OF assms(1) n(2)] length_remaining [OF assms(1)] assms(1)
    by (auto simp: rd_valid_def)
qed

theorem message_reader_bounds_witness:
  "rd_offset (OFReader [4, 20, 0, 8, 0, 0, 0, 7, 1] 0 None) <
   rd_offset (advance 8 (OFReader [4, 20, 0, 8, 0, 0, 0, 7, 1] 0 None))"
proof -
  let ?r = "OFReader [4, 20, 0, 8, 0, 0, 0, 7, 1] 0 None"
  have "unpack (unpack_tlv (tlv_class 4) 0) (message_class 4) ?r =
      Inr (barrier (Num 7), advance (length [4, 20, 0, 8, 0, 0, 0, 7 :: 8 word]) ?r)"
    using barrier_message [of 0 "Num 7"] msg_class_ok [of 4] barrier_packs
    by (intro unpack_pack [OF tlv_class_ok, where rest = "[1]"]) (simp_all add: is_message_def sound_version_def)
  from message_reader_bounds [OF _ this] show ?thesis by simp
qed

text \<open>
  C33. What one end sends, the other receives: if a connected end sends any messages of OpenFlow 1.1 to
  1.4, one after the other, and the bytes it writes arrive in pieces of any sizes, then the
  receiving end has exactly these messages in its queue, in their order, and nothing left over.
\<close>

theorem sent_messages_received:
  assumes "conn_send_all ms s = (Inr (), s', ms')" and "written s = []"
    and "list_all (\<lambda>m. \<exists>ver. sound_version ver \<and> is_message ver d m) ms'"
    and "concat ds = concat (written s')" and "list_all (\<lambda>p. p \<noteq> []) ds"
  shows "receive_chunks (message_unpack d) ds OpenFlowConnection_init =
    Some (Inr (), OpenFlowConnection_init\<lparr>rx := MessageQueue_init\<lparr>queue := ms'\<rparr>\<rparr>)"
  using assms by (rule sent_received)

theorem sent_messages_received_witness:
  "receive_chunks (message_unpack 0) [[4, 20, 0], [8, 0, 0, 0, 1, 4, 20], [0, 8, 0, 0, 0, 7]] OpenFlowConnection_init =
    Some (Inr (), OpenFlowConnection_init\<lparr>rx := MessageQueue_init\<lparr>queue := [barrier (Num 1), barrier (Num 7)]\<rparr>\<rparr>)"
proof -
  let ?s = "\<lparr>connected = True, next_xid = 1, written = []\<rparr>"
  have "pack (barrier (Num 1)) = Inr [4, 20, 0, 8, 0, 0, 0, 1]"
    by (simp add: barrier_def of13_message_barrier_request_def pack_eval)
  then have sent: "conn_send_all [barrier PyNone, barrier (Num 7)] ?s =
      (Inr (), \<lparr>connected = True, next_xid = 2, written = [[4, 20, 0, 8, 0, 0, 0, 1], [4, 20, 0, 8, 0, 0, 0, 7]]\<rparr>,
       [barrier (Num 1), barrier (Num 7)])"
    using barrier_packs by (simp add: conn_send_def conn_gen_xid_def Let_def barrier_def)
  have msgs: "list_all (\<lambda>m. \<exists>ver. sound_version ver \<and> is_message ver 0 m) [barrier (Num 1), barrier (Num 7)]"
    using barrier_message by (auto simp: sound_version_def)
  show ?thesis by (rule sent_messages_received [OF sent _ msgs]) simp_all
qed

text \<open>
  Transaction ids run out: \<^verbatim>\<open>_gen_xid\<close> counts without bound, so after 2 ^ 32 - 1 messages
  without an id of their own every further one fails in \<^verbatim>\<open>struct.pack\<close>, nothing is written, and the
  connection does not recover.
\<close>

theorem send_xid_overflow:
  assumes "connected s" and "2 ^ 32 \<le> next_xid s" and "sound_version ver" and "is_message ver d m"
    and "get_attr nm_xid m = Inr PyNone"
  shows "\<exists>e s' m'. conn_send m s = (Inl e, s', m') \<and> written s' = written s \<and> connected s' \<and> 2 ^ 32 \<le> next_xid s'"
proof -
  obtain c as where m: "m = Obj c as" using assms(4) by (cases m) (simp_all add: is_message_def)
  let ?as = "od_set nm_xid (Num (int (next_xid s))) as"
  have c: "c \<in> set (classes (message_class ver))" "map fst as = map fst (cls_init c)"
    using assms(4) by (simp_all add: is_message_def m)
  note ok = msg_class_ok [OF assms(3)]
  note cls = has_header_classes [OF c(1) ok(3)] codec_ok_classes [OF c(1) ok(1)]
  have "nm_xid \<in> fst ` set as" using has_header_own [OF cls(1)] c(2) by (metis list.set_map)
  then have as: "map fst ?as = map fst (cls_init c)" using c(2) map_fst_od_set by metis
  have "\<exists>e. pack (Obj c ?as) = Inl e"
  proof (cases "pack (Obj c ?as)")
    case (Inr bs)
    obtain t xid where x: "parse_header bs = Inr \<lparr>h_version = ver, h_type = t, h_len = length bs, h_xid = xid\<rparr>"
        "map_of ?as nm_xid = Some (Num (int xid))"
      by (rule header_packed [OF cls Inr as])
    have "xid < 2 ^ 32"
      using x(1) be_nat_less [of "take 4 (drop 4 bs)"] by (auto simp: parse_header_def split: if_splits)
    then show ?thesis using x(2) assms(2) by (simp add: map_of_od_set)
  qed simp
  then show ?thesis using assms(1,2,5) by (auto simp: conn_send_def conn_gen_xid_def m Let_def)
qed

theorem send_xid_overflow_witness:
  "\<exists>e s' m'. conn_send (barrier PyNone) \<lparr>connected = True, next_xid = 2 ^ 32, written = []\<rparr> = (Inl e, s', m') \<and>
    written s' = []"
proof -
  let ?s = "\<lparr>connected = True, next_xid = 2 ^ 32, written = []\<rparr>"
  have "get_attr nm_xid (barrier PyNone) = Inr PyNone" by (simp add: barrier_def)
  from send_xid_overflow [of ?s 4 0, OF _ _ _ barrier_message this] show ?thesis
    by (auto simp: sound_version_def)
qed



section \<open>What the generated code does not do\<close>

lemmas unpack_eval = unpack_body_def uv_local_def uv_caller_def uv_set_def rd_read_def rd_read_all_def rd_skip_def
  rd_slice_def rd_skip_align_def unpack_from_def OFReader_def be_nat_def rd_peek_def Let_def loxi_formats

text \<open>
  The module for OpenFlow 1.0 gives \<^verbatim>\<open>bsn_stats_request\<close> the message type of OpenFlow 1.3, 18, which
  in 1.0 is that of a barrier request: the peer takes the statistics request for a barrier.
\<close>

theorem of10_bsn_stats_is_barrier:
  "\<exists>bs. pack (Obj of10_message_bsn_stats_request [(nm_xid, Num 1), (nm_flags, Num 0), (nm_subtype, Num 0)]) = Inr bs \<and>
    parse_message (message_unpack d) 1 bs = Inr (Some (Obj of10_message_barrier_request [(nm_xid, Num 1)]))"
proof -
  let ?bs = "[1, 18, 0, 24, 0, 0, 0, 1, 255, 255, 0, 0, 0, 0, 0, 0, 0, 92, 22, 199, 0, 0, 0, 0] :: bytes"
  have "pack (Obj of10_message_bsn_stats_request [(nm_xid, Num 1), (nm_flags, Num 0), (nm_subtype, Num 0)]) = Inr ?bs"
    by (simp add: of10_message_bsn_stats_request_def pack_eval)
  moreover have 1: "unpack rec of10_message_message (OFReader ?bs 0 None) = unpack rec of10_message_barrier_request (OFReader ?bs 0 None)" for rec
    by (simp add: unpack_eq be_nat_def of10_message_message_def [THEN arg_cong [where f = cls_dispatch], unfolded cls.sel])
  moreover obtain r where "unpack (unpack_tlv (tlv_class 1) d) of10_message_barrier_request (OFReader ?bs 0 None) =
      Inr (Obj of10_message_barrier_request [(nm_xid, Num 1)], r)"
    by (simp add: of10_message_barrier_request_def unpack_eval)
  then have "message_unpack d 1 ?bs = Inr (Some (Obj of10_message_barrier_request [(nm_xid, Num 1)]))"
    by (simp add: message_unpack_def message_class_def 1)
  then have "parse_message (message_unpack d) 1 ?bs = Inr (Some (Obj of10_message_barrier_request [(nm_xid, Num 1)]))"
    by (simp add: parse_message_def parse_header_def be_nat_def)
  ultimately show ?thesis by blast
qed

lemma unpack_unknown_oxm:
  assumes "rd_valid r" "4 \<le> length (remaining r)"
    and "be_nat (take 4 (remaining r)) \<notin> fst ` set (snd (snd (the (cls_dispatch of13_oxm_oxm))))"
  shows "unpack rec of13_oxm_oxm r =
    Inr (Obj of13_oxm_oxm [(nm_type_len, Num (int (be_nat (take 4 (remaining r)))))], advance 4 r)"
proof -
  obtain cs where cs: "cls_dispatch of13_oxm_oxm = Some (fL, 0, cs)" by (simp add: super_dispatch)
  have "unpack rec of13_oxm_oxm r = unpack_body rec of13_oxm_oxm r"
    using assms(2,3) unpack_subtype_None [of _ cs] by (simp add: unpack_eq [OF assms(1)] cs)
  also have "\<dots> = Inr (Obj of13_oxm_oxm [(nm_type_len, Num (int (be_nat (take 4 (remaining r)))))], advance 4 r)"
    using assms(2) rd_read_eq [OF assms(1), of 4]
    by (simp add: unpack_body_def of13_oxm_oxm_def uv_set_def uv_caller_def)
  finally show ?thesis .
qed

text \<open>
  The class \<^verbatim>\<open>oxm\<close> reads the header of a field that it does not know and leaves the value of the
  field in the reader.  A match with such a field is parsed wrongly: here the four bytes of the value
  become a second field.
\<close>

theorem unknown_oxm_value_not_skipped:
  "\<exists>r. unpack (unpack_tlv (tlv_class 4) d) of13_common_match_v3
      (OFReader [0, 1, 0, 12, 255, 255, 2, 4, 255, 255, 4, 4, 0, 0, 0, 0] 0 None) =
    Inr (Obj of13_common_match_v3 [(nm_oxm_list,
      PyList [Obj of13_oxm_oxm [(nm_type_len, Num 4294902276)], Obj of13_oxm_oxm [(nm_type_len, Num 4294902788)]])], r)"
proof -
  let ?buf = "[0, 1, 0, 12, 255, 255, 2, 4, 255, 255, 4, 4, 0, 0, 0, 0] :: bytes"
  let ?r = "\<lparr>rd_buf = ?buf, rd_start = 0, rd_length = 12, rd_offset = 4\<rparr>"
  let ?unpack = "unpack (unpack_tlv (tlv_class 4) d)"
  have "list_all2 (\<lambda>v bs. restores False (?unpack of13_oxm_oxm) v bs \<and> (False \<longrightarrow> 8 dvd length bs))
      [Obj of13_oxm_oxm [(nm_type_len, Num 4294902276)], Obj of13_oxm_oxm [(nm_type_len, Num 4294902788)]]
      [[255, 255, 2, 4], [255, 255, 4, 4]]"
  proof -
    have "unpack (unpack_tlv (tlv_class 4) d) of13_oxm_oxm r = Inr (Obj of13_oxm_oxm [(nm_type_len, Num (int (be_nat bs)))], advance (length bs) r)"
      if "rd_valid r" "remaining r = bs @ rest" "length bs = 4"
        "be_nat bs \<notin> fst ` set (snd (snd (the (cls_dispatch of13_oxm_oxm))))" for r bs rest
      using unpack_unknown_oxm [of r] that by simp
    from this [where bs = "[255, 255, 2, 4]"] this [where bs = "[255, 255, 4, 4]"] show ?thesis
      by (auto simp: restores_def be_nat_def super_dispatch)
  qed
  moreover have "\<And>r. rd_valid r \<Longrightarrow> parsed 1 r (?unpack of13_oxm_oxm r)"
    using tlv_class_ok [of 4] by (intro unpack_parsed) (simp_all add: env_ok_def loxi_checked)
  ultimately have "unpack_list (?unpack of13_oxm_oxm) ?r =
      Inr ([Obj of13_oxm_oxm [(nm_type_len, Num 4294902276)], Obj of13_oxm_oxm [(nm_type_len, Num 4294902788)]],
        advance (length (concat [[255, 255, 2, 4], [255, 255, 4, 4 :: 8 word]])) ?r)"
    by (rule unpack_list_restores) (simp_all add: rd_valid_def remaining_def)
  then show ?thesis by (simp add: of13_common_match_v3_def unpack_eval advance_def)
qed

text \<open>
  An experimenter action pads its data inside its length, and \<^verbatim>\<open>unpack\<close> takes the padding for data:
  one byte of data comes back as eight.
\<close>

theorem experimenter_data_padded:
  "\<exists>bs r. pack (Obj of13_action_experimenter [(nm_experimenter, Num 1), (nm_data, Str [7])]) = Inr bs \<and>
    unpack rec of13_action_action (OFReader bs 0 None) =
    Inr (Obj of13_action_experimenter [(nm_experimenter, Num 1), (nm_data, Str [7, 0, 0, 0, 0, 0, 0, 0])], r)"
proof -
  let ?bs = "[255, 255, 0, 16, 0, 0, 0, 1, 7, 0, 0, 0, 0, 0, 0, 0] :: bytes"
  have "pack (Obj of13_action_experimenter [(nm_experimenter, Num 1), (nm_data, Str [7])]) = Inr ?bs"
    by (simp add: of13_action_experimenter_def pack_eval)
  moreover have "unpack rec of13_action_action (OFReader ?bs 0 None) = unpack rec of13_action_experimenter (OFReader ?bs 0 None)"
    by (simp add: unpack_eq be_nat_def super_dispatch)
  moreover have "\<exists>r. unpack rec of13_action_experimenter (OFReader ?bs 0 None) =
      Inr (Obj of13_action_experimenter [(nm_experimenter, Num 1), (nm_data, Str [7, 0, 0, 0, 0, 0, 0, 0])], r)"
    by (simp add: of13_action_experimenter_def unpack_eval)
  ultimately show ?thesis by auto
qed

end
