(* ===== verification/LoxiSession.thy ===== *)
theory LoxiSession
  imports LoxiProps OfProtocol
begin

text \<open>
  From the bytes of a connection to the handlers of a session.  The converter
  (\<^verbatim>\<open>src/ofagent/converter.py\<close>) looks up the class of a loxi object in a dictionary and reads its
  attributes; the theory \<open>Converter\<close> starts from records of these attributes.  Here the records are
  taken from the objects that \<^verbatim>\<open>parse_message\<close> returns, with the exceptions that a missing
  attribute or a value of a wrong kind would cause, and it is shown that no object that came over the
  wire causes one.  Messages are of version 1.3, as the handlers expect.
\<close>

section \<open>What the converter reads\<close>

text \<open>A field of a protobuf message takes a number of its width.\<close>

definition as_word :: "lval \<Rightarrow> 'a::len word res" where
  "as_word v =
     (case v of
        Num i \<Rightarrow> if 0 \<le> i \<and> i < 2 ^ LENGTH('a) then Inr (word_of_int i) else Inl ValueError
      | _ \<Rightarrow> Inl TypeError)"

definition as_enum :: "lval \<Rightarrow> nat res" where
  "as_enum v = (case v of Num i \<Rightarrow> if 0 \<le> i then Inr (nat i) else Inl ValueError | _ \<Rightarrow> Inl TypeError)"

definition attr_word :: "pyname \<Rightarrow> lval \<Rightarrow> 'a::len word res" where
  "attr_word a v = rbind (get_attr a v) as_word"

definition attr_enum :: "pyname \<Rightarrow> lval \<Rightarrow> nat res" where
  "attr_enum a v = rbind (get_attr a v) as_enum"

definition attr_list :: "pyname \<Rightarrow> lval \<Rightarrow> lval list res" where
  "attr_list a v = rbind (get_attr a v) (\<lambda>x. case x of PyList vs \<Rightarrow> Inr vs | _ \<Rightarrow> Inl TypeError)"

definition attr_text :: "pyname \<Rightarrow> lval \<Rightarrow> string res" where
  "attr_text a v =
     rbind (get_attr a v) (\<lambda>x. case x of Str bs \<Rightarrow> Inr (map (\<lambda>b. char_of (unat b)) bs) | _ \<Rightarrow> Inl TypeError)"

definition class_of :: "lval \<Rightarrow> cls option" where
  "class_of v = (case v of Obj c as \<Rightarrow> Some c | _ \<Rightarrow> None)"

definition class_name :: "lval \<Rightarrow> string" where
  "class_name v = (case v of Obj c as \<Rightarrow> cls_name c | _ \<Rightarrow> '''')"

definition view_oxm :: "lval \<Rightarrow> loxi_oxm res" where
  "view_oxm v =
     (let value = rbind (attr_word nm_value v) in
      if class_of v = Some of13_oxm_eth_type then value (\<lambda>x. Inr (Oxm_eth_type x))
      else if class_of v = Some of13_oxm_in_port then value (\<lambda>x. Inr (Oxm_in_port x))
      else if class_of v = Some of13_oxm_ip_proto then value (\<lambda>x. Inr (Oxm_ip_proto x))
      else if class_of v = Some of13_oxm_vlan_vid then value (\<lambda>x. Inr (Oxm_vlan_vid x))
      else if class_of v = Some of13_oxm_vlan_pcp then value (\<lambda>x. Inr (Oxm_vlan_pcp x))
      else if class_of v = Some of13_oxm_ipv4_dst then value (\<lambda>x. Inr (Oxm_ipv4_dst x))
      else Inr (Oxm_other (class_name v)))"

definition view_action :: "lval \<Rightarrow> loxi_action res" where
  "view_action v =
     (if class_of v = Some of13_action_output
      then rbind (attr_word nm_port v) (\<lambda>p. rbind (attr_word nm_max_len v) (\<lambda>n. Inr (Action_output p n)))
      else if class_of v = Some of13_action_group
      then rbind (attr_word nm_group_id v) (\<lambda>g. Inr (Action_group g))
      else if class_of v = Some of13_action_set_field
      then rbind (get_attr nm_field v) (\<lambda>f. rbind (view_oxm f) (\<lambda>x. Inr (Action_set_field x)))
      else if class_of v = Some of13_action_pop_vlan then Inr Action_pop_vlan
      else if class_of v = Some of13_action_push_vlan
      then rbind (attr_word nm_ethertype v) (\<lambda>e. Inr (Action_push_vlan e))
      else Inr (Action_other (class_name v)))"

definition view_instruction :: "lval \<Rightarrow> loxi_instruction res" where
  "view_instruction v =
     (if class_of v = Some of13_instruction_apply_actions
      then rbind (attr_list nm_actions v) (\<lambda>vs. rbind (py_map view_action vs) (\<lambda>as. Inr (Apply_actions as)))
      else if class_of v = Some of13_instruction_goto_table
      then rbind (attr_word nm_table_id v) (\<lambda>t. Inr (Goto_table t))
      else Inr (Instruction_other (class_name v)))"

definition view_match :: "lval \<Rightarrow> loxi_match res" where
  "view_match v =
     (if class_of v = Some of13_common_match_v3 then rbind (attr_list nm_oxm_list v) (py_map view_oxm)
      else Inl KeyError)"

definition view_bucket :: "lval \<Rightarrow> loxi_bucket res" where
  "view_bucket v =
     (if class_of v = Some of13_common_bucket
      then rbind (attr_word nm_weight v) (\<lambda>w. rbind (attr_word nm_watch_port v) (\<lambda>p.
           rbind (attr_word nm_watch_group v) (\<lambda>g. rbind (attr_list nm_actions v) (\<lambda>vs.
           rbind (py_map view_action vs) (\<lambda>as.
             Inr \<lparr>lb_weight = w, lb_watch_port = p, lb_watch_group = g, lb_actions = as\<rparr>)))))
      else Inl KeyError)"

definition view_flow_mod :: "lval \<Rightarrow> loxi_flow_mod res" where
  "view_flow_mod v =
     rbind (attr_word nm_cookie v) (\<lambda>cookie. rbind (attr_word nm_cookie_mask v) (\<lambda>cookie_mask.
     rbind (attr_word nm_table_id v) (\<lambda>table_id. rbind (attr_enum nm__command v) (\<lambda>command.
     rbind (attr_word nm_idle_timeout v) (\<lambda>idle. rbind (attr_word nm_hard_timeout v) (\<lambda>hard.
     rbind (attr_word nm_priority v) (\<lambda>priority. rbind (attr_word nm_buffer_id v) (\<lambda>buffer_id.
     rbind (attr_word nm_out_port v) (\<lambda>out_port. rbind (attr_word nm_out_group v) (\<lambda>out_group.
     rbind (attr_word nm_flags v) (\<lambda>flags. rbind (rbind (get_attr nm_match v) view_match) (\<lambda>m.
     rbind (rbind (attr_list nm_instructions v) (py_map view_instruction)) (\<lambda>is.
       Inr \<lparr>lfm_cookie = cookie, lfm_cookie_mask = cookie_mask, lfm_table_id = table_id,
            lfm_command = command, lfm_idle_timeout = idle, lfm_hard_timeout = hard,
            lfm_priority = priority, lfm_buffer_id = buffer_id, lfm_out_port = out_port,
            lfm_out_group = out_group, lfm_flags = flags, lfm_match = m, lfm_instructions = is\<rparr>)))))))))))))"

definition view_group_mod :: "lval \<Rightarrow> loxi_group_mod res" where
  "view_group_mod v =
     rbind (attr_enum nm_command v) (\<lambda>command. rbind (attr_enum nm_group_type v) (\<lambda>t.
     rbind (attr_word nm_group_id v) (\<lambda>g. rbind (rbind (attr_list nm_buckets v) (py_map view_bucket)) (\<lambda>bs.
       Inr \<lparr>lgm_command = command, lgm_group_type = t, lgm_group_id = g, lgm_buckets = bs\<rparr>))))"

definition view_packet_out :: "lval \<Rightarrow> loxi_packet_out res" where
  "view_packet_out v =
     rbind (attr_word nm_buffer_id v) (\<lambda>b. rbind (attr_word nm_in_port v) (\<lambda>p.
     rbind (rbind (attr_list nm_actions v) (py_map view_action)) (\<lambda>as. rbind (attr_text nm_data v) (\<lambda>d.
       Inr \<lparr>lpo_buffer_id = b, lpo_in_port = p, lpo_actions = as, lpo_data = d\<rparr>))))"

text \<open>The classes that \<^verbatim>\<open>to_grpc_converters\<close> has for whole messages.\<close>

definition flow_mod_classes :: "cls list" where
  "flow_mod_classes = [of13_message_flow_add, of13_message_flow_delete, of13_message_flow_delete_strict,
     of13_message_flow_modify, of13_message_flow_modify_strict]"

definition group_mod_classes :: "cls list" where
  "group_mod_classes = [of13_message_group_add, of13_message_group_delete, of13_message_group_modify]"

text \<open>
  A message as the handlers see it: by its class where the converter asks for it, and else by
  \<^verbatim>\<open>req.type\<close> and, for statistics, \<^verbatim>\<open>req.stats_type\<close>.
\<close>

definition in_classes :: "lval \<Rightarrow> cls list \<Rightarrow> bool" where
  "in_classes v cs \<longleftrightarrow> (case class_of v of Some c \<Rightarrow> c \<in> set cs | None \<Rightarrow> False)"

definition view_body :: "lval \<Rightarrow> of_body res" where
  "view_body v =
     (if in_classes v flow_mod_classes then rbind (view_flow_mod v) (\<lambda>m. Inr (Flow_mod m))
      else if in_classes v group_mod_classes then rbind (view_group_mod v) (\<lambda>m. Inr (Group_mod m))
      else if in_classes v [of13_message_packet_out] then rbind (view_packet_out v) (\<lambda>m. Inr (Packet_out m))
      else if in_classes v [of13_message_role_request]
      then rbind (attr_enum nm_role v) (\<lambda>r. rbind (attr_word nm_generation_id v) (\<lambda>g. Inr (Role_request r g)))
      else rbind (attr_enum nm_type v) (\<lambda>t.
             if t = 18
             then (case attr_enum nm_stats_type v of Inr n \<Rightarrow> Inr (Stats_request n) | Inl _ \<Rightarrow> Inr (Request 18))
             else Inr (Request t)))"

definition view_msg :: "lval \<Rightarrow> of_msg res" where
  "view_msg v =
     rbind (attr_enum nm_xid v) (\<lambda>x. rbind (view_body v) (\<lambda>b. Inr \<lparr>of_xid = x, of_body = b\<rparr>))"


section \<open>What a packed object has\<close>

declare get_attr.simps [simp del]

lemma pack_stmt_emits:
  "pack_stmt c env s st = Inr st' \<Longrightarrow> emitted c env (snd st) s = Some r \<Longrightarrow> \<exists>bs. r = Inr bs"
  by (cases s; cases st) (auto simp: rbind_eq_Inr)

lemma pack_stmts_emit:
  "py_for (pack_stmt c env) ss st = Inr st' \<Longrightarrow> s \<in> set ss \<Longrightarrow>
   \<exists>len. \<forall>r. emitted c env len s = Some r \<longrightarrow> (\<exists>bs. r = Inr bs)"
proof (induction ss arbitrary: st)
  case (Cons t ss)
  then obtain st1 where 1: "pack_stmt c env t st = Inr st1" "py_for (pack_stmt c env) ss st1 = Inr st'"
    by (auto split: sum.splits)
  show ?case
  proof (cases "s = t")
    case True
    then show ?thesis using pack_stmt_emits [OF 1(1)] by blast
  next
    case False
    then show ?thesis using Cons.IH [OF 1(2)] Cons.prems(2) by simp
  qed
qed simp

lemma pack_emits:
  assumes "pack (Obj c as) = Inr bs" and "s \<in> set (cls_pack c)"
  shows "\<exists>len. \<forall>r. emitted c (pack_env as) len s = Some r \<longrightarrow> (\<exists>bs. r = Inr bs)"
proof -
  obtain st where "py_for (pack_stmt c (pack_env as)) (cls_pack c) ([], 0) = Inr st"
    using assms(1) by (auto simp: pack_body_def pack_env_def rbind_eq_Inr)
  from pack_stmts_emit [OF this assms(2)] show ?thesis .
qed

lemma attr_of_get_attr:
  "attr_of c (pack_env as) a = Inr (v, p) \<Longrightarrow>
   get_attr a (Obj c as) = Inr v \<and> (map_of as a = Some v \<and> p = pack v \<or> (\<exists>n. v = Num n))"
  by (auto simp: attr_of_def pack_env_def map_of_env get_attr.simps split: option.splits)

lemma packed_field:
  assumes "pack (Obj c as) = Inr bs" and "P_field a f \<in> set (cls_pack c)"
  shows "\<exists>v b. get_attr a (Obj c as) = Inr v \<and> pack_fmt f v = Inr b"
  using pack_emits [OF assms] by (auto simp: rbind_eq_Inr dest!: attr_of_get_attr)

lemma packed_list:
  assumes "pack (Obj c as) = Inr bs" and "P_list a \<in> set (cls_pack c)"
  shows "\<exists>vs. get_attr a (Obj c as) = Inr (PyList vs) \<and> map_of as a = Some (PyList vs) \<and>
    (\<forall>v\<in>set vs. is_obj v \<and> (\<exists>b. pack v = Inr b))"
proof -
  obtain v p b where v: "attr_of c (pack_env as) a = Inr (v, p)"
      "(case v of PyList _ \<Rightarrow> p | _ \<Rightarrow> Inl TypeError) = Inr b"
    using pack_emits [OF assms] by (auto simp: rbind_eq_Inr)
  then obtain vs where vs: "v = PyList vs" "p = Inr b" by (auto split: lval.splits)
  then have "pack (PyList vs) = Inr b" using attr_of_get_attr [OF v(1)] by auto
  from pack_PyList [OF this] attr_of_get_attr [OF v(1)] show ?thesis
    by (auto simp: vs in_set_conv_nth list_all2_conv_all_nth)
qed

lemma packed_obj:
  assumes "pack (Obj c as) = Inr bs" and "P_obj a \<in> set (cls_pack c)"
  shows "\<exists>v b. get_attr a (Obj c as) = Inr v \<and> map_of as a = Some v \<and> is_obj v \<and> pack v = Inr b"
proof -
  obtain v p b where v: "attr_of c (pack_env as) a = Inr (v, p)"
      "(case v of Obj _ _ \<Rightarrow> p | _ \<Rightarrow> Inl AttributeError) = Inr b"
    using pack_emits [OF assms] by (auto simp: rbind_eq_Inr)
  then show ?thesis using attr_of_get_attr [OF v(1)] by (cases v) (auto simp del: pack.simps intro: sym)
qed

lemma packed_raw:
  assumes "pack (Obj c as) = Inr bs" and "P_raw a \<in> set (cls_pack c)"
  shows "\<exists>b. get_attr a (Obj c as) = Inr (Str b)"
proof -
  obtain v p b where v: "attr_of c (pack_env as) a = Inr (v, p)"
      "(case v of Str x \<Rightarrow> Inr x | _ \<Rightarrow> Inl TypeError) = Inr b"
    using pack_emits [OF assms] by (auto simp: rbind_eq_Inr)
  then show ?thesis using attr_of_get_attr [OF v(1)] by (cases v) auto
qed

lemma pack_fmt_int:
  assumes "pack_fmt f v = Inr b" and "is_int_fmt f"
  shows "\<exists>i. v = Num i \<and> 0 \<le> i \<and> i < 256 ^ fmt_size f"
proof -
  have "pack_uint (fmt_size f) v = Inr b" using assms by auto
  then show ?thesis by (auto simp: pack_uint_def split: lval.splits if_splits)
qed

lemma packed_word:
  assumes "pack (Obj c as) = Inr bs" and "P_field a f \<in> set (cls_pack c)" "is_int_fmt f"
    and "8 * fmt_size f \<le> LENGTH('a::len)"
  shows "\<exists>w::'a word. attr_word a (Obj c as) = Inr w"
proof -
  obtain v b where v: "get_attr a (Obj c as) = Inr v" "pack_fmt f v = Inr b" using packed_field [OF assms(1,2)] by blast
  obtain i where i: "v = Num i" "0 \<le> i" "i < 256 ^ fmt_size f" using pack_fmt_int [OF v(2) assms(3)] by blast
  have "(256 :: int) ^ fmt_size f = 2 ^ (8 * fmt_size f)" by (simp add: power_mult)
  also have "\<dots> \<le> 2 ^ LENGTH('a)" using assms(4) by (intro power_increasing) auto
  finally show ?thesis using i by (simp add: attr_word_def as_word_def v(1))
qed

lemma packed_enum:
  assumes "pack (Obj c as) = Inr bs" and "P_field a f \<in> set (cls_pack c)" "is_int_fmt f"
  shows "\<exists>n. attr_enum a (Obj c as) = Inr n"
proof -
  obtain v b where v: "get_attr a (Obj c as) = Inr v" "pack_fmt f v = Inr b" using packed_field [OF assms(1,2)] by blast
  then show ?thesis using pack_fmt_int [OF v(2) assms(3)] by (auto simp: attr_enum_def as_enum_def)
qed


section \<open>Every object that came over the wire has a view\<close>

lemma class_of_Some: "class_of v = Some c \<longleftrightarrow> (\<exists>as. v = Obj c as)"
  by (cases v) (simp_all add: class_of_def)

lemma py_map_views:
  assumes "\<forall>v\<in>set vs. is_obj v \<and> (\<exists>b. pack v = Inr b)"
    and "\<And>v b. is_obj v \<Longrightarrow> pack v = Inr b \<Longrightarrow> \<exists>x. f v = Inr x"
  shows "\<exists>xs. py_map f vs = Inr xs"
  using assms(1)
proof (induction vs)
  case (Cons v vs)
  then obtain b x xs where "pack v = Inr b" "f v = Inr x" "py_map f vs = Inr xs" using assms(2) [of v] by auto
  then show ?case by simp
qed simp

lemmas view_oxm_classes = of13_oxm_eth_type_def of13_oxm_in_port_def of13_oxm_ip_proto_def
  of13_oxm_vlan_vid_def of13_oxm_vlan_pcp_def of13_oxm_ipv4_dst_def

lemmas view_classes = of13_action_output_def of13_action_group_def of13_action_set_field_def
  of13_action_push_vlan_def of13_instruction_apply_actions_def of13_instruction_goto_table_def
  of13_common_match_v3_def of13_common_bucket_def
  of13_message_flow_add_def of13_message_flow_delete_def of13_message_flow_delete_strict_def
  of13_message_flow_modify_def of13_message_flow_modify_strict_def of13_message_group_add_def
  of13_message_group_delete_def of13_message_group_modify_def of13_message_packet_out_def
  of13_message_role_request_def

lemmas oxm_packs = view_oxm_classes [THEN arg_cong [where f = cls_pack], unfolded cls.sel]

lemmas view_packs = view_classes [THEN arg_cong [where f = cls_pack], unfolded cls.sel]

lemma view_oxm_value:
  assumes "pack v = Inr b" and "class_of v = Some c"
    and "P_field nm_value f \<in> set (cls_pack c)" "is_int_fmt f" "fmt_size f \<le> 4"
  shows "\<exists>w :: u32. attr_word nm_value v = Inr w"
  using assms packed_word [of c _ b nm_value f, where 'a = 32] by (auto simp: class_of_Some)

lemma view_oxm_total:
  assumes "is_obj v" and "pack v = Inr b"
  shows "\<exists>x. view_oxm v = Inr x"
proof -
  have "\<exists>w :: u32. attr_word nm_value v = Inr w"
    if "class_of v \<in> Some ` {of13_oxm_eth_type, of13_oxm_in_port, of13_oxm_ip_proto, of13_oxm_vlan_vid,
      of13_oxm_vlan_pcp, of13_oxm_ipv4_dst}"
    using that by (auto intro!: view_oxm_value [OF assms(2)] simp: oxm_packs loxi_formats)
  then show ?thesis by (auto simp: view_oxm_def Let_def)
qed


text \<open>The attributes of an object of a class, by the lines of its \<^verbatim>\<open>pack\<close>.\<close>

lemma attr_total:
  assumes "pack v = Inr b" and "class_of v = Some c"
  shows "P_field a f \<in> set (cls_pack c) \<Longrightarrow> is_int_fmt f \<Longrightarrow> 8 * fmt_size f \<le> LENGTH('a::len) \<Longrightarrow>
      \<exists>w :: 'a word. attr_word a v = Inr w"
    and "P_field a f \<in> set (cls_pack c) \<Longrightarrow> is_int_fmt f \<Longrightarrow> \<exists>n. attr_enum a v = Inr n"
    and "P_list a \<in> set (cls_pack c) \<Longrightarrow>
      \<exists>vs. attr_list a v = Inr vs \<and> (\<forall>x\<in>set vs. is_obj x \<and> (\<exists>b. pack x = Inr b))"
    and "P_raw a \<in> set (cls_pack c) \<Longrightarrow> \<exists>t. attr_text a v = Inr t"
    and "P_obj a \<in> set (cls_pack c) \<Longrightarrow> \<exists>x b. get_attr a v = Inr x \<and> is_obj x \<and> pack x = Inr b"
proof -
  obtain as where v: "v = Obj c as" using assms(2) by (auto simp: class_of_Some)
  note packed = assms(1) [unfolded v]
  show "P_field a f \<in> set (cls_pack c) \<Longrightarrow> is_int_fmt f \<Longrightarrow> 8 * fmt_size f \<le> LENGTH('a) \<Longrightarrow>
      \<exists>w :: 'a word. attr_word a v = Inr w"
    unfolding v by (rule packed_word [OF packed])
  show "P_field a f \<in> set (cls_pack c) \<Longrightarrow> is_int_fmt f \<Longrightarrow> \<exists>n. attr_enum a v = Inr n"
    unfolding v by (rule packed_enum [OF packed])
  show "P_list a \<in> set (cls_pack c) \<Longrightarrow>
      \<exists>vs. attr_list a v = Inr vs \<and> (\<forall>x\<in>set vs. is_obj x \<and> (\<exists>b. pack x = Inr b))"
    using packed_list [OF packed, of a] by (auto simp: v attr_list_def)
  show "P_raw a \<in> set (cls_pack c) \<Longrightarrow> \<exists>t. attr_text a v = Inr t"
    using packed_raw [OF packed, of a] by (auto simp: v attr_text_def)
  show "P_obj a \<in> set (cls_pack c) \<Longrightarrow> \<exists>x b. get_attr a v = Inr x \<and> is_obj x \<and> pack x = Inr b"
    using packed_obj [OF packed, of a] by (auto simp: v)
qed

lemmas attr_u32 = attr_total(1) [where 'a = 32]

lemmas attr_u64 = attr_total(1) [where 'a = 64]

lemma view_action_total:
  assumes "is_obj v" and p: "pack v = Inr b"
  shows "\<exists>x. view_action v = Inr x"
proof -
  have out: "\<exists>x n :: u32. attr_word nm_port v = Inr (x :: u32) \<and> attr_word nm_max_len v = Inr n"
    if "class_of v = Some of13_action_output"
    using attr_u32 [OF p that, of nm_port fL] attr_u32 [OF p that, of nm_max_len fH]
    by (auto simp: view_packs loxi_formats)
  have group: "\<exists>x :: u32. attr_word nm_group_id v = Inr x" if "class_of v = Some of13_action_group"
    using attr_u32 [OF p that, of nm_group_id fL] by (auto simp: view_packs loxi_formats)
  have push: "\<exists>x :: u32. attr_word nm_ethertype v = Inr x" if "class_of v = Some of13_action_push_vlan"
    using attr_u32 [OF p that, of nm_ethertype fH] by (auto simp: view_packs loxi_formats)
  have field: "\<exists>f x. get_attr nm_field v = Inr f \<and> view_oxm f = Inr x" if c: "class_of v = Some of13_action_set_field"
  proof -
    obtain f b' where "get_attr nm_field v = Inr f" "is_obj f" "pack f = Inr b'"
      using attr_total(5) [OF p c, of nm_field] by (auto simp: view_packs)
    then show ?thesis using view_oxm_total by blast
  qed
  show ?thesis using out group push field unfolding view_action_def by fastforce
qed

lemma view_actions_total:
  assumes "pack v = Inr b" "class_of v = Some c" "P_list a \<in> set (cls_pack c)"
  shows "\<exists>vs as. attr_list a v = Inr vs \<and> py_map view_action vs = Inr as"
proof -
  obtain vs where vs: "attr_list a v = Inr vs" "\<forall>x\<in>set vs. is_obj x \<and> (\<exists>b. pack x = Inr b)"
    using attr_total(3) [OF assms] by (elim exE conjE)
  from py_map_views [OF vs(2), of view_action] view_action_total vs(1) show ?thesis by blast
qed

lemma view_instruction_total:
  assumes "is_obj v" and p: "pack v = Inr b"
  shows "\<exists>x. view_instruction v = Inr x"
proof -
  have "\<exists>vs as. attr_list nm_actions v = Inr vs \<and> py_map view_action vs = Inr as"
    if "class_of v = Some of13_instruction_apply_actions"
    by (rule view_actions_total [OF p that]) (simp add: view_packs)
  moreover have "\<exists>t :: u32. attr_word nm_table_id v = Inr t" if "class_of v = Some of13_instruction_goto_table"
    using attr_u32 [OF p that, of nm_table_id fB] by (auto simp: view_packs)
  ultimately show ?thesis by (auto simp: view_instruction_def)
qed

lemma view_match_total:
  assumes c: "class_of v = Some of13_common_match_v3" and p: "pack v = Inr b"
  shows "\<exists>x. view_match v = Inr x"
proof -
  obtain vs where vs: "attr_list nm_oxm_list v = Inr vs" "\<forall>x\<in>set vs. is_obj x \<and> (\<exists>b. pack x = Inr b)"
    using attr_total(3) [OF p c, of nm_oxm_list] by (auto simp: view_packs)
  then show ?thesis using py_map_views [OF vs(2), of view_oxm] view_oxm_total by (auto simp: view_match_def c)
qed

lemma view_bucket_total:
  assumes c: "class_of v = Some of13_common_bucket" and p: "pack v = Inr b"
  shows "\<exists>x. view_bucket v = Inr x"
proof -
  note u32 = attr_u32 [OF p c]
  obtain x y z :: u32 where "attr_word nm_weight v = Inr x" "attr_word nm_watch_port v = Inr y"
      "attr_word nm_watch_group v = Inr z"
    using u32 [of nm_weight fH] u32 [of nm_watch_port fL] u32 [of nm_watch_group fL]
    by (auto simp: view_packs loxi_formats)
  moreover obtain vs as where "attr_list nm_actions v = Inr vs" "py_map view_action vs = Inr as"
    using view_actions_total [OF p c, of nm_actions] by (auto simp: view_packs)
  ultimately show ?thesis by (simp add: view_bucket_def c)
qed


text \<open>The objects inside a typed object have the classes that the outer class expects.\<close>

lemma typed_obj:
  assumes "typed (Obj c as) e d c'" "U_obj a k \<in> set (cls_unpack c)" "get_attr a (Obj c as) = Inr v" "is_obj v"
    and "cls_dispatch k = None"
  shows "class_of v = Some k"
proof -
  have v: "map_of as a = Some v" using assms(3,4) by (auto simp: get_attr.simps split: option.splits)
  have "typed_stmt e d c (map (\<lambda>(a, v). (a, v, typed v e)) as) (U_obj a k)"
    using assms(1,2) by (auto simp: list_all_iff)
  then have "typed v e d k" using v by (simp add: map_of_env)
  then show ?thesis using assms(4,5) by (cases v; cases k) (auto simp: class_of_def)
qed

lemma typed_members:
  assumes "typed (Obj c as) e d c'" "U_list a k \<in> set (cls_unpack c)" "attr_list a (Obj c as) = Inr vs"
    and "cls_dispatch k = None" "v \<in> set vs"
  shows "class_of v = Some k"
proof -
  have v: "map_of as a = Some (PyList vs)"
    using assms(3) by (auto simp: attr_list_def get_attr.simps rbind_eq_Inr split: option.splits lval.splits)
  have "typed_stmt e d c (map (\<lambda>(a, v). (a, v, typed v e)) as) (U_list a k)"
    using assms(1,2) by (auto simp: list_all_iff)
  then have "is_obj v \<and> typed v e d k" using v assms(5) by (auto simp: map_of_env list_all_iff)
  then show ?thesis using assms(4) by (cases v; cases k) (auto simp: class_of_def)
qed

lemmas view_unpacks = view_classes [THEN arg_cong [where f = cls_unpack], unfolded cls.sel]

lemmas view_dispatches =
  of13_common_match_v3_def [THEN arg_cong [where f = cls_dispatch], unfolded cls.sel]
  of13_common_bucket_def [THEN arg_cong [where f = cls_dispatch], unfolded cls.sel]

lemma flow_mod_class:
  assumes "c \<in> set flow_mod_classes"
  shows "cls_pack c = cls_pack of13_message_flow_add"
    and "U_obj nm_match of13_common_match_v3 \<in> set (cls_unpack c)"
  using assms by (auto simp: flow_mod_classes_def view_packs view_unpacks)

lemma group_mod_class:
  assumes "c \<in> set group_mod_classes"
  shows "cls_pack c = cls_pack of13_message_group_add"
    and "U_list nm_buckets of13_common_bucket \<in> set (cls_unpack c)"
  using assms by (auto simp: group_mod_classes_def view_packs view_unpacks)

lemma view_flow_mod_total:
  assumes c: "c \<in> set flow_mod_classes" and p: "pack (Obj c as) = Inr b" and t: "typed (Obj c as) e d c'"
  shows "\<exists>m. view_flow_mod (Obj c as) = Inr m"
proof -
  let ?v = "Obj c as"
  have cl: "class_of ?v = Some c" by (simp add: class_of_def)
  note ps = flow_mod_class(1) [OF c] view_packs loxi_formats
  note u32 = attr_u32 [OF p cl]
  obtain x1 x2 :: u64 where 1: "attr_word nm_cookie ?v = Inr x1" "attr_word nm_cookie_mask ?v = Inr x2"
    using attr_u64 [OF p cl, of nm_cookie fQ] attr_u64 [OF p cl, of nm_cookie_mask fQ] by (auto simp: ps)
  obtain x3 x4 x5 x6 :: u32 where 2: "attr_word nm_table_id ?v = Inr x3" "attr_word nm_idle_timeout ?v = Inr x4"
      "attr_word nm_hard_timeout ?v = Inr x5" "attr_word nm_priority ?v = Inr x6"
    using u32 [of nm_table_id fB] u32 [of nm_idle_timeout fH] u32 [of nm_hard_timeout fH] u32 [of nm_priority fH]
    by (auto simp: ps)
  obtain x7 x8 x9 x10 :: u32 where 3: "attr_word nm_buffer_id ?v = Inr x7" "attr_word nm_out_port ?v = Inr x8"
      "attr_word nm_out_group ?v = Inr x9" "attr_word nm_flags ?v = Inr x10"
    using u32 [of nm_buffer_id fL] u32 [of nm_out_port fL] u32 [of nm_out_group fL] u32 [of nm_flags fH]
    by (auto simp: ps)
  obtain n where 4: "attr_enum nm__command ?v = Inr n" using attr_total(2) [OF p cl, of nm__command fB] by (auto simp: ps)
  obtain x bx where x: "get_attr nm_match ?v = Inr x" "is_obj x" "pack x = Inr bx"
    using attr_total(5) [OF p cl, of nm_match] by (auto simp: ps)
  obtain m where 5: "view_match x = Inr m"
    using view_match_total [OF typed_obj [OF t flow_mod_class(2) [OF c] x(1,2) view_dispatches(1)] x(3)] by blast
  obtain vs where vs: "attr_list nm_instructions ?v = Inr vs" "\<forall>x\<in>set vs. is_obj x \<and> (\<exists>b. pack x = Inr b)"
    using attr_total(3) [OF p cl, of nm_instructions] by (auto simp: ps)
  obtain ins where 6: "py_map view_instruction vs = Inr ins"
    using py_map_views [OF vs(2), of view_instruction] view_instruction_total by blast
  show ?thesis by (simp add: view_flow_mod_def 1 2 3 4 5 6 x(1) vs(1))
qed

lemma view_group_mod_total:
  assumes c: "c \<in> set group_mod_classes" and p: "pack (Obj c as) = Inr b" and t: "typed (Obj c as) e d c'"
  shows "\<exists>m. view_group_mod (Obj c as) = Inr m"
proof -
  let ?v = "Obj c as"
  have cl: "class_of ?v = Some c" by (simp add: class_of_def)
  note ps = group_mod_class(1) [OF c] view_packs loxi_formats
  obtain x y and z :: u32 where 1: "attr_enum nm_command ?v = Inr x" "attr_enum nm_group_type ?v = Inr y"
      "attr_word nm_group_id ?v = Inr z"
    using attr_total(2) [OF p cl, of nm_command fH] attr_total(2) [OF p cl, of nm_group_type fB]
      attr_u32 [OF p cl, of nm_group_id fL] by (auto simp: ps)
  obtain vs where vs: "attr_list nm_buckets ?v = Inr vs" "\<forall>x\<in>set vs. is_obj x \<and> (\<exists>b. pack x = Inr b)"
    using attr_total(3) [OF p cl, of nm_buckets] by (auto simp: ps)
  have "\<forall>x\<in>set vs. \<exists>y. view_bucket x = Inr y"
    using vs(2) view_bucket_total typed_members [OF t group_mod_class(2) [OF c] vs(1) view_dispatches(2)] by blast
  then have "\<exists>bs. py_map view_bucket vs = Inr bs" by (induction vs) auto
  then show ?thesis by (auto simp: view_group_mod_def 1 vs(1))
qed

lemma view_packet_out_total:
  assumes p: "pack (Obj of13_message_packet_out as) = Inr b"
  shows "\<exists>m. view_packet_out (Obj of13_message_packet_out as) = Inr m"
proof -
  let ?v = "Obj of13_message_packet_out as"
  have cl: "class_of ?v = Some of13_message_packet_out" by (simp add: class_of_def)
  obtain x y :: u32 where 1: "attr_word nm_buffer_id ?v = Inr x" "attr_word nm_in_port ?v = Inr y"
    using attr_u32 [OF p cl, of nm_buffer_id fL] attr_u32 [OF p cl, of nm_in_port fL]
    by (auto simp: view_packs loxi_formats)
  obtain vs as' where 2: "attr_list nm_actions ?v = Inr vs" "py_map view_action vs = Inr as'"
    using view_actions_total [OF p cl, of nm_actions] by (auto simp: view_packs)
  obtain t where 3: "attr_text nm_data ?v = Inr t" using attr_total(4) [OF p cl, of nm_data] by (auto simp: view_packs)
  show ?thesis by (simp add: view_packet_out_def 1 2 3)
qed


text \<open>The header of a message has the attributes \<^verbatim>\<open>type\<close> and \<^verbatim>\<open>xid\<close>.\<close>

lemma view_body_total:
  assumes c: "has_header 4 c" and p: "pack (Obj c as) = Inr b" and t: "typed (Obj c as) e d c'"
  shows "\<exists>x. view_body (Obj c as) = Inr x"
proof -
  let ?v = "Obj c as"
  have cl: "class_of ?v = Some c" by (simp add: class_of_def)
  have ps: "P_field nm_type fB \<in> set (take 4 (cls_pack c))" using has_header_own [OF c] by simp
  obtain n where type: "attr_enum nm_type ?v = Inr n"
    using attr_total(2) [OF p cl in_set_takeD [OF ps]] by auto
  have role: "\<exists>r g :: u64. attr_enum nm_role ?v = Inr r \<and> attr_word nm_generation_id ?v = Inr g"
    if "c = of13_message_role_request"
    using attr_total(2) [OF p cl, of nm_role fL] attr_u64 [OF p cl, of nm_generation_id fQ]
    by (auto simp: that view_packs)
  consider "c \<in> set flow_mod_classes" | "c \<in> set group_mod_classes" "c \<notin> set flow_mod_classes"
    | "c = of13_message_packet_out" "c \<notin> set flow_mod_classes" "c \<notin> set group_mod_classes"
    | "c \<notin> set flow_mod_classes" "c \<notin> set group_mod_classes" "c \<noteq> of13_message_packet_out" by blast
  then show ?thesis
  proof cases
    case 1
    then show ?thesis using view_flow_mod_total [OF 1 p t] by (auto simp: view_body_def in_classes_def cl)
  next
    case 2
    then show ?thesis using view_group_mod_total [OF 2(1) p t] by (auto simp: view_body_def in_classes_def cl)
  next
    case 3
    then show ?thesis using view_packet_out_total [OF p [unfolded 3(1)]]
      by (auto simp: view_body_def in_classes_def cl class_of_def)
  next
    case 4
    then show ?thesis using role by (auto simp: view_body_def in_classes_def cl type split: sum.splits)
  qed
qed

lemma view_msg_total:
  assumes "is_message 4 d v" and "pack v = Inr b"
  shows "\<exists>m. view_msg v = Inr m"
proof -
  obtain c as where v: "v = Obj c as" using assms(1) by (cases v) (simp_all add: is_message_def)
  have "sound_version 4" by (simp add: sound_version_def)
  note ok = msg_class_ok [OF this]
  have t: "typed (Obj c as) (tlv_class 4) d (message_class 4)" using assms(1) by (simp add: is_message_def v)
  then have "c \<in> set (classes (message_class 4))" by simp
  from has_header_classes [OF this ok(3)] have c: "has_header 4 c" .
  have cl: "class_of (Obj c as) = Some c" by (simp add: class_of_def)
  have ps: "P_field nm_xid fL \<in> set (take 4 (cls_pack c))" using has_header_own [OF c] by simp
  obtain x where "attr_enum nm_xid (Obj c as) = Inr x"
    using attr_total(2) [OF assms(2) [unfolded v] cl in_set_takeD [OF ps]] by auto
  then show ?thesis using view_body_total [OF c assms(2) [unfolded v] t] by (auto simp: view_msg_def v)
qed


section \<open>The flows that reach the core\<close>

text \<open>The flow-mods of a list of messages that the converter accepts, and those a session has sent to the core.\<close>

definition flow_mod_of :: "of_msg \<Rightarrow> flow_mod list" where
  "flow_mod_of m = (case to_grpc_flow_mod (of_body m) of Inr fm \<Rightarrow> [fm] | Inl _ \<Rightarrow> [])"

definition flow_mods :: "of_msg list \<Rightarrow> flow_mod list" where
  "flow_mods ms = concat (map flow_mod_of ms)"

definition flow_updates :: "session \<Rightarrow> (string \<times> flow_mod) list" where
  "flow_updates s =
     concat (map (\<lambda>(c, _). case c of UpdateLogicalDeviceFlowTable dev fm \<Rightarrow> [(dev, fm)] | _ \<Rightarrow> []) (ses_calls s))"

lemma flow_mods_simps [simp]:
  "flow_mods [] = []" "flow_mods (m # ms) = flow_mod_of m @ flow_mods ms"
  by (simp_all add: flow_mods_def)

lemma dispatch_flow_updates:
  assumes "dispatch_request m s = (r, t)" and "ses_connected s"
  shows "flow_updates t = flow_updates s @ map (Pair (ses_device_id s)) (flow_mod_of m)"
    and "ses_device_id t = ses_device_id s"
proof -
  have "flow_updates (snd (dispatch_request m s)) = flow_updates s @ map (Pair (ses_device_id s)) (flow_mod_of m) \<and>
      ses_device_id (snd (dispatch_request m s)) = ses_device_id s"
    using assms(2) by (cases "of_body m")
      (simp_all add: dispatch_defs cxn_send_simp flow_updates_def flow_mod_of_def split: sum.splits)
  then show "flow_updates t = flow_updates s @ map (Pair (ses_device_id s)) (flow_mod_of m)"
    and "ses_device_id t = ses_device_id s" using assms(1) by simp_all
qed

lemma session_run_flow_updates:
  assumes "ses_phase s = Serving" "ses_connected s" "list_all supported ms"
  shows "ses_phase (session_run (map Received ms) s) = Serving \<and>
    flow_updates (session_run (map Received ms) s) =
      flow_updates s @ map (Pair (ses_device_id s)) (flow_mods ms)"
  using assms
proof (induction ms arbitrary: s)
  case (Cons m ms)
  obtain r t where d: "dispatch_request m s = (r, t)" by force
  note facts = dispatch_connected [OF Cons.prems(2) d] dispatch_flow_updates [OF d Cons.prems(2)]
  have "received m s = t\<lparr>ses_phase := Serving, ses_queue := []\<rparr>"
    using facts(1,3) Cons.prems by (simp add: received_def d same_control_def)
  moreover have "flow_updates (t\<lparr>ses_phase := Serving, ses_queue := []\<rparr>) = flow_updates t"
    by (simp add: flow_updates_def)
  ultimately show ?case
    using Cons.IH [of "received m s"] facts(3-5) Cons.prems by (simp add: same_control_def)
qed simp

lemma sent_viewed:
  assumes "conn_send_all ms s = (Inr (), s', ms')" and "written s = []" and "list_all (is_message 4 d) ms'"
  shows "\<exists>oms. py_map view_msg ms' = Inr oms"
proof -
  obtain bss where "list_all2 (\<lambda>m bs. pack m = Inr bs) ms' bss"
    using conn_send_all_Inr [OF assms(1)] by blast
  then show ?thesis using assms(3)
  proof (induction ms' bss rule: list_all2_induct)
    case (Cons m ms b bss)
    then obtain om oms where "view_msg m = Inr om" "py_map view_msg ms = Inr oms" using view_msg_total [of d m b] by auto
    then show ?case by simp
  qed simp
qed


text \<open>The sample flow as the converter sees it.\<close>

lemma sample_class_neq:
  "of13_oxm_in_port \<noteq> of13_oxm_eth_type"
  by (simp add: of13_oxm_in_port_def of13_oxm_eth_type_def)

definition sample_view :: loxi_flow_mod where
  "sample_view = \<lparr>lfm_cookie = 1, lfm_cookie_mask = 0, lfm_table_id = 0, lfm_command = 0,
     lfm_idle_timeout = 0, lfm_hard_timeout = 0, lfm_priority = 1000, lfm_buffer_id = 0xffffffff,
     lfm_out_port = 0, lfm_out_group = 0, lfm_flags = 0,
     lfm_match = [Oxm_in_port 1, Oxm_eth_type 2048],
     lfm_instructions = [Apply_actions [Action_output 2 65535]]\<rparr>"

lemma sample_flow_viewed:
  "view_msg (sample_flow (Num 7)) = Inr \<lparr>of_xid = 7, of_body = Flow_mod sample_view\<rparr>"
proof -
  have "map_of (cls_consts of13_message_flow_add) nm__command = Some 0" by (simp add: of13_message_flow_add_def)
  then show ?thesis
    by (simp add: view_msg_def view_body_def in_classes_def class_of_def sample_flow_def flow_mod_classes_def
      view_flow_mod_def view_match_def view_oxm_def view_instruction_def view_action_def attr_word_def attr_enum_def
      attr_list_def as_word_def as_enum_def get_attr.simps sample_class_neq sample_view_def)
qed

section \<open>Property\<close>

text \<open>
  C34. From the wire to the core.  A controller sends any messages of OpenFlow 1.3 to an agent whose
  session has just been opened, and their bytes arrive in pieces of any sizes.  Then the queue of the
  connection holds exactly the messages sent, in the order in which they were sent, no attribute that the handlers read is missing or of a wrong kind, and, when
  the session supports all the requests, it is still serving and the calls it has made to change the
  flow table of its device are exactly the flow-mods among the messages that the converter accepts,
  converted, in the order in which they were sent.
\<close>

theorem wire_flows_reach_core:
  assumes "conn_send_all ms ctl = (Inr (), ctl', ms')" and "written ctl = []" and "list_all (is_message 4 d) ms'"
    and "concat ds = concat (written ctl')" and "list_all (\<lambda>p. p \<noteq> []) ds"
  shows "\<exists>c oms s. receive_chunks (message_unpack d) ds OpenFlowConnection_init = Some (Inr (), c) \<and>
    queue (rx c) = ms' \<and> py_map view_msg ms' = Inr oms \<and>
    s = session_run (map Received oms) (session_open dp dev x) \<and>
    (list_all supported oms \<longrightarrow> ses_phase s = Serving \<and> flow_updates s = map (Pair dev) (flow_mods oms))"
proof -
  let ?c = "OpenFlowConnection_init\<lparr>rx := MessageQueue_init\<lparr>queue := ms'\<rparr>\<rparr>"
  have "list_all (\<lambda>m. \<exists>ver. sound_version ver \<and> is_message ver d m) ms'"
    using assms(3) by (auto simp: list_all_iff sound_version_def)
  from sent_received [OF assms(1,2) this assms(4,5)]
  have c: "receive_chunks (message_unpack d) ds OpenFlowConnection_init = Some (Inr (), ?c)" .
  obtain oms where oms: "py_map view_msg ms' = Inr oms" using sent_viewed [OF assms(1-3)] by blast
  have "ses_device_id (session_open dp dev x) = dev" "flow_updates (session_open dp dev x) = []"
    by (simp_all add: session_open_def session_start_def OpenFlowProtocolHandler_init_def cxn_send_simp
      received_def is_hello_def flow_updates_def)
  then have "list_all supported oms \<longrightarrow>
      ses_phase (session_run (map Received oms) (session_open dp dev x)) = Serving \<and>
      flow_updates (session_run (map Received oms) (session_open dp dev x)) = map (Pair dev) (flow_mods oms)"
    using session_run_flow_updates [OF session_open_simps(1,2), where ms = oms] by simp
  then show ?thesis using c oms by (intro exI [of _ ?c]) simp
qed


theorem wire_flows_reach_core_witness:
  "\<exists>bs c oms s fm. length bs = 96 \<and>
    receive_chunks (message_unpack 0) [take 50 bs, drop 50 bs] OpenFlowConnection_init = Some (Inr (), c) \<and>
    queue (rx c) = [sample_flow (Num 7)] \<and> py_map view_msg (queue (rx c)) = Inr oms \<and>
    s = session_run (map Received oms) (session_open 1 ''ld1'' 0) \<and>
    ses_phase s = Serving \<and> flow_updates s = [(''ld1'', fm)] \<and> fm_priority fm = 1000"
proof -
  let ?m = "sample_flow (Num 7)" and ?ctl = "\<lparr>connected = True, next_xid = 1, written = []\<rparr>"
  obtain bs where bs: "pack ?m = Inr bs" "length bs = 96" using sample_flow_packs by blast
  have "get_attr nm_xid ?m = Inr (Num 7)" by (simp add: sample_flow_def get_attr.simps)
  then have sent: "conn_send_all [?m] ?ctl = (Inr (), ?ctl\<lparr>written := [bs]\<rparr>, [?m])"
    using bs(1) by (simp add: conn_send_def Let_def)
  have "list_all (is_message 4 0) [?m]" using sample_flow_message by simp
  from wire_flows_reach_core [OF sent _ this, where ds = "[take 50 bs, drop 50 bs]" and dp = 1 and dev = "''ld1''" and x = 0]
  obtain c oms s where c: "receive_chunks (message_unpack 0) [take 50 bs, drop 50 bs] OpenFlowConnection_init = Some (Inr (), c)"
      "queue (rx c) = [?m]" "py_map view_msg [?m] = Inr oms"
      "s = session_run (map Received oms) (session_open 1 ''ld1'' 0)"
      "list_all supported oms \<longrightarrow> ses_phase s = Serving \<and> flow_updates s = map (Pair ''ld1'') (flow_mods oms)"
    using bs(2) by fastforce
  have "oms = [\<lparr>of_xid = 7, of_body = Flow_mod sample_view\<rparr>]"
    using c(3) sample_flow_viewed by auto
  moreover obtain fm where "loxi_flow_mod_to_ofp_flow_mod sample_view = Inr fm" "fm_priority fm = 1000"
    by (simp add: sample_view_def loxi_flow_mod_to_ofp_flow_mod_def loxi_match_v3_to_ofp_match_def
      loxi_apply_actions_to_ofp_instruction_def)
  ultimately show ?thesis using c bs(2) by (auto simp: flow_mod_of_def)
qed

end
