(* ===== verification/Spec2Isabelle.thy ===== *)
theory Spec2Isabelle
  imports AgentTables ConfigFindings PonSim EventBus Core GlobalHandler AdapterAgent
    OmciFrame Leadership OfAgent LoxiSession
begin

text \<open>
  \<^bold>\<open>A verification development of the core of Voltha.\<close>

  Voltha presents a passive optical network (an OLT, its ONUs, and the adapters that drive them) to an
  OpenFlow controller as one logical switch. All configuration lives in one tree of protobuf messages with
  revisions, branches and transactions (\<^verbatim>\<open>voltha/core/config\<close>). The core
  (\<^verbatim>\<open>core.py\<close>) keeps an agent for every device (\<^verbatim>\<open>device_agent.py\<close>) and every
  logical device (\<^verbatim>\<open>logical_device_agent.py\<close>) in that tree. A logical device agent maintains the
  flow and group tables the controller writes, and derives the rules of the physical devices from them: it
  computes routes on the graph of devices (\<^verbatim>\<open>device_graph.py\<close>) and decomposes each logical flow along
  them (\<^verbatim>\<open>flow_decomposer.py\<close>). Adapters write into the tree and exchange packets through
  their agent (\<^verbatim>\<open>adapter_agent.py\<close>) and the event bus (\<^verbatim>\<open>common/event_bus.py\<close>). Clients
  come in through gRPC (\<^verbatim>\<open>local_handler.py\<close>, \<^verbatim>\<open>global_handler.py\<close>,
  \<^verbatim>\<open>dispatcher.py\<close>). \<^verbatim>\<open>ponsim/ponsim.py\<close> is a data plane that executes the rules.
  Several instances share the work: a coordinator (\<^verbatim>\<open>coordinator.py\<close>) takes part in the election of a
  leader (\<^verbatim>\<open>leader.py\<close>), which assigns the work to the workers (\<^verbatim>\<open>worker.py\<close>), all through Consul.
  A process of its own, the OpenFlow agent (\<^verbatim>\<open>ofagent\<close>), connects every logical device to a controller; its
  messages are objects of the generated classes of \<^verbatim>\<open>ofagent/loxi\<close>, one module per version of OpenFlow.
  \<^verbatim>\<open>extensions/omci\<close> are the frames with which an adapter manages an ONU.

  \<^bold>\<open>Conventions.\<close>
  A Python exception is a value of the type \<open>pyerr\<close>; code that only reads returns \<open>pyerr + 'a\<close>, code that
  writes is a function \<open>'s \<Rightarrow> (pyerr + 'a) \<times> 's\<close> whose new state is kept when it raises. A \<^verbatim>\<open>dict\<close> is an
  association list with the operations of \<^verbatim>\<open>OrderedDict\<close>. Fields of OpenFlow messages have their width
  (32 or 64 bits). What is not in the repository is an argument of the definitions: protobuf reflection and
  serialization and MD5 (\<open>'d proto\<close>, \<open>hash_env\<close>), \<^verbatim>\<open>networkx.shortest_path\<close> (\<open>shortest_path\<close>), the matching of
  regular expressions, the values of \<^verbatim>\<open>uuid4\<close>, the adapter, scapy (\<open>scapy\<close>, with the laws \<open>scapy_ok\<close>), Consul
  (\<open>consul\<close>, with the laws \<open>consul_ok\<close>) and the hash ring, the order of the elements of a set. Twisted is in the order of the steps, which is any. Laws assumed of them are hypotheses of the
  theorems that use them (\<open>clear_keeps_class\<close>, \<open>clear_keeps_attr\<close>, \<open>assigns\<close>, \<open>detects\<close>, \<open>returns_paths\<close> and the like), and
  each such theorem has a witness on a concrete instance.

  \<^bold>\<open>Theories and sources.\<close>
  \<^item> \<^verbatim>\<open>Prelude\<close>: exceptions, state, dictionaries, decimal texts. No counterpart in the sources.
  \<^item> \<^verbatim>\<open>OpenFlow\<close>, \<^verbatim>\<open>Devices\<close>: the messages of \<^verbatim>\<open>voltha/protos\<close> and the module
    functions of \<^verbatim>\<open>flow_decomposer.py\<close> that make and read them.
  \<^item> \<^verbatim>\<open>FlowDecomposer\<close>: \<^verbatim>\<open>FlowDecomposer.decompose_flow\<close> and
    \<^verbatim>\<open>decompose_rules\<close>. Every rule put on a device belongs to a hop of the route on that device, with its
    ports; the default rules stay; under every id the result holds the default rule or the first rule that the
    flows decompose into.
  \<^item> \<^verbatim>\<open>DeviceGraph\<close>: graph discovery along peer links, which ends on every finite table of devices,
    and the routes between boundary ports.
  \<^item> \<^verbatim>\<open>Callbacks\<close>: the callback half of \<^verbatim>\<open>config_proxy.py\<close>.
  \<^item> \<^verbatim>\<open>LogicalDeviceAgent\<close>, \<^verbatim>\<open>AgentTables\<close>: all handlers of the logical device agent;
    its tables as a step relation with an invariant, a refinement of \<^verbatim>\<open>flow_add\<close> to a finite map, the
    exact effect of the deletions, and the rules it installs on the devices.
  \<^item> \<^verbatim>\<open>ConfigRev\<close>, \<^verbatim>\<open>ConfigTree\<close>, \<^verbatim>\<open>ConfigMerge\<close>,
    \<^verbatim>\<open>ConfigRoot\<close>: \<^verbatim>\<open>config_rev.py\<close>, \<^verbatim>\<open>config_node.py\<close>, \<^verbatim>\<open>config_branch.py\<close>,
    \<^verbatim>\<open>merge_3way.py\<close>, \<^verbatim>\<open>config_root.py\<close>, \<^verbatim>\<open>config_proxy.py\<close>,
    \<^verbatim>\<open>config_txn.py\<close>, \<^verbatim>\<open>config_rev_persisted.py\<close>. A node is an index into the store, a
    revision a value with a number of its own.
  \<^item> \<^verbatim>\<open>ConfigSpec\<close>: the specification, plain trees with \<open>tree_get\<close>, \<open>tree_update\<close>, \<open>tree_add\<close>,
    \<open>tree_remove\<close>; \<^verbatim>\<open>ConfigRefine\<close>, \<^verbatim>\<open>ConfigGrow\<close>: the nodes implement it;
    \<^verbatim>\<open>ConfigLaws\<close>: what holds of the specification; \<^verbatim>\<open>ConfigFrame\<close>: what the
    operations leave alone (the locales \<open>frame\<close> and \<open>store_frame\<close>).
  \<^item> \<^verbatim>\<open>ConfigStore\<close>: the locale \<open>config_store\<close>, the interface the clients rely on, with its
    interpretation \<open>cfg\<close> on the operations of the root; \<^verbatim>\<open>ConfigProps\<close>, \<^verbatim>\<open>ConfigTxn\<close>,
    \<^verbatim>\<open>ConfigReach\<close>, \<^verbatim>\<open>ConfigPersist\<close>: refinement, read your writes, undo, duplicates, isolation,
    cancellation and conflicts of transactions, what failed operations leave behind and the invariant of the
    reachable configurations, loading what was stored;
    \<^verbatim>\<open>ConfigFindings\<close>: where the code does not do what it means to.
  \<^item> \<^verbatim>\<open>PonSim\<close>: the simulator; a decomposed controller flow and the default rules of an ONU take a
    frame to the upstream port with the two tags.
  \<^item> \<^verbatim>\<open>EventBus\<close>: subscription and delivery, after any history of calls, against the list of
    the subscriptions that are live.
  \<^item> \<^verbatim>\<open>DeviceAgent\<close>, \<^verbatim>\<open>Core\<close>: the administrative state machine of a device, on
    messages that are cells of a heap since the agent changes them in place, and the tables of agents.
  \<^item> \<^verbatim>\<open>LocalHandler\<close>, \<^verbatim>\<open>GlobalHandler\<close>, \<^verbatim>\<open>AdapterAgent\<close>: the
    clients of the configuration. Their lookups and writes are proved through \<open>cfg\<close>, down to the specification on
    trees; the global service is proved to do what the local one does.
  \<^item> \<^verbatim>\<open>Omci\<close>, \<^verbatim>\<open>OmciFrame\<close>: \<^verbatim>\<open>omci_defs.py\<close>, \<^verbatim>\<open>omci_entities.py\<close>,
    \<^verbatim>\<open>omci_messages.py\<close>, \<^verbatim>\<open>omci_frame.py\<close>. The mask of a set of attributes selects them,
    serializing by a mask is serializing the data, and a frame dissects to itself.
  \<^item> \<^verbatim>\<open>Sharding\<close>: \<^verbatim>\<open>leader.py\<close> and \<^verbatim>\<open>worker.py\<close>. A reassignment leaves exactly the
    wanted assignments, and the workers then share the work, without overlap when no id is a prefix of another.
  \<^item> \<^verbatim>\<open>Leadership\<close>: \<^verbatim>\<open>coordinator.py\<close> as a step relation with an invariant, and the retries.
  \<^item> \<^verbatim>\<open>MessageQueue\<close>, \<^verbatim>\<open>OfConnection\<close>: \<^verbatim>\<open>message_queue.py\<close> and
    \<^verbatim>\<open>of_connection.py\<close>. No message is lost, delivered twice or given to someone whose predicate rejects it, and it does not matter how the byte stream
    is cut into pieces.
  \<^item> \<^verbatim>\<open>LoxiReader\<close>, \<^verbatim>\<open>LoxiCodec\<close>: \<^verbatim>\<open>loxi/generic_util.py\<close>, \<^verbatim>\<open>util.py\<close>, and the
    template of the generated classes: \<open>pack\<close>, \<open>unpack\<close> with the dictionaries of subtypes, the constructor and
    \<^verbatim>\<open>__eq__\<close>. The statements of a class are data (\<open>pstmt\<close>, \<open>ustmt\<close>), one constructor for each form of line of
    the template.
  \<^item> \<^verbatim>\<open>Of10\<close>, \<^verbatim>\<open>Of11\<close>, \<^verbatim>\<open>Of12Oxm\<close>, \<^verbatim>\<open>Of12\<close>, \<^verbatim>\<open>Of13Oxm\<close>,
    \<^verbatim>\<open>Of13Elements\<close>, \<^verbatim>\<open>Of13Common\<close>, \<^verbatim>\<open>Of13Message\<close> and the same four for 1.4: every class
    of \<^verbatim>\<open>loxi/of10\<close> to \<^verbatim>\<open>loxi/of14\<close>, 1740 in all; the definition \<open>of13_action_output\<close> is the
    class \<^verbatim>\<open>output\<close> of \<^verbatim>\<open>of13/action.py\<close>, line for line. \<^verbatim>\<open>LoxiNames\<close> numbers the attribute names.
  \<^item> \<^verbatim>\<open>LoxiFormats\<close>, \<^verbatim>\<open>LoxiSafe\<close>, \<^verbatim>\<open>LoxiRoundtrip\<close>, \<^verbatim>\<open>LoxiLaws\<close>,
    \<^verbatim>\<open>LoxiDispatch\<close>, \<^verbatim>\<open>LoxiHeader\<close>: two checks of a class that evaluate, \<open>safe_cls\<close> (its \<open>unpack\<close> stays
    within the reader and moves it) and \<open>codec_ok\<close> (its \<open>pack\<close> and \<open>unpack\<close> agree), with the proofs that a
    class that passes them has the properties. The theories of the classes show that all pass the first and
    all but some of version 1.0 the second.
  \<^item> \<^verbatim>\<open>LoxiMessages\<close>, \<^verbatim>\<open>LoxiProps\<close>: \<^verbatim>\<open>parse_message\<close> of every version and the sending half of
    \<^verbatim>\<open>of_connection.py\<close>. Parsing what was packed gives the message; parsing arbitrary bytes ends and stays
    within them; what one end sends the other receives.
  \<^item> \<^verbatim>\<open>LoxiSession\<close>: the objects of the generated classes as the records that \<open>Converter\<close> and
    \<open>OfProtocol\<close> work on (\<open>view_msg\<close>). Every message that came over the wire has a view, and the flow-mods among
    the messages a controller sends are the calls the session makes to the core.
  \<^item> \<^verbatim>\<open>Converter\<close>: \<^verbatim>\<open>converter.py\<close>. Flows with the matches and actions that the converter knows
    in both directions, installed through it and the logical device agent, are read back as they were.
  \<^item> \<^verbatim>\<open>OfProtocol\<close>: \<^verbatim>\<open>of_protocol_handler.py\<close> and the calls of \<^verbatim>\<open>grpc_client.py\<close>. Which
    requests end a session; replies answer requests of their kind, each once; all are answered in a run in which
    every request is supported and every call returns what the converter can convert.
  \<^item> \<^verbatim>\<open>OfAgent\<close>: \<^verbatim>\<open>agent.py\<close>, \<^verbatim>\<open>connection_mgr.py\<close> and the loops of
    \<^verbatim>\<open>grpc_client.py\<close>. Agents keep connecting until they are stopped, and the manager's maps follow the
    devices of the core.

  The invariants of the step relations are interpretations of the locale \<open>step_invariant\<close> of the prelude:
  \<open>tables\<close>, \<open>coord\<close>, \<open>ofa\<close>, \<open>exiting\<close>, \<open>mgr\<close>.

  \<^bold>\<open>Fuel.\<close>
  \<open>e_fuel\<close> bounds the depth of a message that becomes a tree of nodes; the theorems that need it assume that the
  tree of the message exists for that fuel. The drain of deferred callbacks takes one unit per callback; for
  callbacks that only observe (\<open>observing\<close>) any positive fuel is shown to be enough. Graph discovery takes fuel
  for the depth of its recursion, and more than the number of devices is shown to be enough. The device agent
  takes fuel for the updates nested in an update; two are shown to be enough. The simulator takes fuel for the
  hops of a frame; two are enough on the tree of an OLT and its ONUs upstream. The search for a free number needs
  none: it is a function with a termination proof. \<open>unpack_list\<close> takes one unit per element, and as many as there
  are bytes left are shown to be enough, since no element of any class is empty; nested TLVs take a depth \<open>d\<close>,
  which is the room on the stack of the interpreter and not a bound of the model: beyond it Python raises too. Loops that may run for ever have no fuel but return
  \<open>None\<close> then: the bits of a mask (shown to return for every mask that is not negative), the retries of the
  coordinator and the query for the devices (which return the first success), and the reading of the byte stream
  (shown to return always).

  \<^bold>\<open>Not modelled.\<close>
  The start-up of the processes, logging, threads (\<^verbatim>\<open>twisted_async\<close> is a call; the threads that move
  packets between gRPC streams and queues), garbage collection of revisions
  (\<^verbatim>\<open>__del__\<close> and weak references), the adapters themselves, the printing of OpenFlow
  messages (\<^verbatim>\<open>pretty_print\<close>), the REST gateway, the netconf server, the command line, and the scapy
  declarations of EOAM and IGMP frames. In the configuration, hooks before a change may refuse it but do not write; the laws of the store
  are stated for deferred callbacks that do not change it. The logical device agent keeps its own view of the
  parts of the configuration it reads and writes; that view and the store are not linked yet.
\<close>

end
